(* ===== verification/Prelude.thy ===== *)
theory Prelude
  imports Complex_Main "HOL-Library.List_Lexorder" "HOL-Library.Char_ord"
    "HOL-Library.Product_Lexorder" "HOL-Library.Option_ord" "HOL-Library.Multiset"
begin

text \<open>
  What every component of the development shares: the error values of the Python code and the
  combinators that thread them, JSON documents with Python's conversions on them, the handful of
  SQL table operations the queue is written with, and the lemmas about all of these.

  Text is modelled by its UTF-8 bytes (\<^typ>\<open>string\<close>), so \<^term>\<open>length s\<close> is
  \<^verbatim>\<open>len(s.encode("utf-8"))\<close>.  Integers are unbounded, as in Python.  A Python float is
  idealised to an exact rational: rounding, infinities and NaN are not modelled.  Clock readings are
  arguments; every reading made during one operation is the same value.
\<close>

section \<open>Hint collections\<close>

named_theorems py_simps \<open>unfolding of Python conversions\<close>
named_theorems sql_simps \<open>rewriting of table operations\<close>

section \<open>Errors as values\<close>

datatype py_error =
    ValueError string
  | TypeError string
  | KeyError string
  | RuntimeError string
  | IntegrityError string
  | EOFError string
  | FileNotFoundError string
  | PermissionError string
  | SystemExit string
  | AttributeError string
  | IndexError string
  | OSError string
  | TimeoutError string
  | AssertionError string
  | NotImplementedError string
  | HTTPException int string

type_synonym 'a result = "py_error + 'a"

type_synonym environ = "string \<Rightarrow> string option"

definition bindE :: "'e + 'a \<Rightarrow> ('a \<Rightarrow> 'e + 'b) \<Rightarrow> 'e + 'b" where
  "bindE m f = (case m of Inl e \<Rightarrow> Inl e | Inr x \<Rightarrow> f x)"

lemma bindE_Inl [simp]: "bindE (Inl e) f = Inl e"
  by (simp add: bindE_def)

lemma bindE_Inr [simp]: "bindE (Inr x) f = f x"
  by (simp add: bindE_def)

lemma bindE_eq_Inr: "bindE m f = Inr y \<longleftrightarrow> (\<exists>x. m = Inr x \<and> f x = Inr y)"
  by (cases m) auto

lemma bindE_eq_Inl: "bindE m f = Inl e \<longleftrightarrow> m = Inl e \<or> (\<exists>x. m = Inr x \<and> f x = Inl e)"
  by (cases m) auto

lemma bindE_cong [fundef_cong]:
  "m = m' \<Longrightarrow> (\<And>x. m' = Inr x \<Longrightarrow> f x = f' x) \<Longrightarrow> bindE m f = bindE m' f'"
  by (cases m') auto

lemma bindE_assoc: "bindE (bindE m f) g = bindE m (\<lambda>x. bindE (f x) g)"
  by (cases m) auto

fun mapE :: "('a \<Rightarrow> 'e + 'b) \<Rightarrow> 'a list \<Rightarrow> 'e + 'b list" where
  "mapE f [] = Inr []"
| "mapE f (x # xs) = bindE (f x) (\<lambda>y. bindE (mapE f xs) (\<lambda>ys. Inr (y # ys)))"

fun foldE :: "('s \<Rightarrow> 'a \<Rightarrow> 'e + 's) \<Rightarrow> 's \<Rightarrow> 'a list \<Rightarrow> 'e + 's" where
  "foldE f s [] = Inr s"
| "foldE f s (x # xs) = bindE (f s x) (\<lambda>s'. foldE f s' xs)"

lemma mapE_Inr_length: "mapE f xs = Inr ys \<Longrightarrow> length ys = length xs"
  by (induction xs arbitrary: ys) (auto simp: bindE_eq_Inr)

lemma mapE_Inr_list_all2:
  "mapE f xs = Inr ys \<longleftrightarrow> list_all2 (\<lambda>x y. f x = Inr y) xs ys"
  by (induction xs arbitrary: ys) (auto simp: bindE_eq_Inr list_all2_Cons1)

lemma mapE_in:
  assumes "mapE f xs = Inr ys" and "y \<in> set ys"
  shows "\<exists>x \<in> set xs. f x = Inr y"
  using assms by (auto simp: mapE_Inr_list_all2 list_all2_conv_all_nth in_set_conv_nth) (metis nth_mem)

lemma foldE_invariant:
  assumes "foldE f s xs = Inr s'" and "P s"
    and "\<And>s x t. x \<in> set xs \<Longrightarrow> P s \<Longrightarrow> f s x = Inr t \<Longrightarrow> P t"
  shows "P s'"
  using assms
proof (induction xs arbitrary: s)
  case Nil
  then show ?case by simp
next
  case (Cons x xs)
  then obtain t where t: "f s x = Inr t" and rest: "foldE f t xs = Inr s'"
    by (auto simp: bindE_eq_Inr)
  have "P t" using Cons.prems(2,3) t by auto
  then show ?case using Cons.IH [OF rest] Cons.prems(3) by (metis list.set_intros(2))
qed

lemma foldl_invariant:
  assumes "P s" and "\<And>s x. x \<in> set xs \<Longrightarrow> P s \<Longrightarrow> P (f s x)"
  shows "P (foldl f s xs)"
  using assms by (induction xs arbitrary: s) auto

section \<open>Decimal numerals\<close>

fun show_nat :: "nat \<Rightarrow> string" where
  "show_nat n = (if n < 10 then [char_of (48 + n)] else show_nat (n div 10) @ [char_of (48 + n mod 10)])"

declare show_nat.simps [simp del]

definition show_int :: "int \<Rightarrow> string" where
  "show_int i = (if i < 0 then CHR ''-'' # show_nat (nat (- i)) else show_nat (nat i))"

definition digit_of :: "char \<Rightarrow> nat option" where
  "digit_of c = (let n = of_char c :: nat in if 48 \<le> n \<and> n \<le> 57 then Some (n - 48) else None)"

text \<open>Digits with Python's single underscores between them; the flag says that a digit came last.\<close>

fun digits_val :: "nat \<Rightarrow> bool \<Rightarrow> string \<Rightarrow> nat option" where
  "digits_val acc ok [] = (if ok then Some acc else None)"
| "digits_val acc ok (c # cs) =
     (case digit_of c of
        Some d \<Rightarrow> digits_val (10 * acc + d) True cs
      | None \<Rightarrow> if c = CHR ''_'' \<and> ok then digits_val acc False cs else None)"

definition is_space :: "char \<Rightarrow> bool" where
  "is_space c \<longleftrightarrow> (let n = of_char c :: nat in n = 32 \<or> (9 \<le> n \<and> n \<le> 13) \<or> (28 \<le> n \<and> n \<le> 31))"

definition strip :: "string \<Rightarrow> string" where
  "strip s = rev (dropWhile is_space (rev (dropWhile is_space s)))"

fun parse_signed :: "string \<Rightarrow> int option" where
  "parse_signed [] = None"
| "parse_signed (c # cs) =
     (if c = CHR ''-'' then map_option (\<lambda>n. - int n) (digits_val 0 False cs)
      else if c = CHR ''+'' then map_option int (digits_val 0 False cs)
      else map_option int (digits_val 0 False (c # cs)))"

definition parse_int :: "string \<Rightarrow> int option" where
  "parse_int s = parse_signed (strip s)"

text \<open>\<^verbatim>\<open>float(text)\<close> for plain and scientific decimal notation.\<close>

definition pow10 :: "int \<Rightarrow> rat" where
  "pow10 e = (if 0 \<le> e then 10 ^ nat e else 1 / 10 ^ nat (- e))"

definition split_at :: "char list \<Rightarrow> string \<Rightarrow> string \<times> string option" where
  "split_at seps s =
     (let a = takeWhile (\<lambda>c. c \<notin> set seps) s; b = dropWhile (\<lambda>c. c \<notin> set seps) s
      in (a, case b of [] \<Rightarrow> None | _ # r \<Rightarrow> Some r))"

definition parse_unsigned_float :: "string \<Rightarrow> rat option" where
  "parse_unsigned_float s =
     (let (mant, ex) = split_at ''eE'' s; (ip, fp) = split_at ''.'' mant; frac = (case fp of None \<Rightarrow> '''' | Some f \<Rightarrow> f);
          iv = (if ip = '''' then Some 0 else digits_val 0 False ip);
          fv = (if frac = '''' then Some 0 else digits_val 0 False frac);
          ev = (case ex of None \<Rightarrow> Some 0 | Some e \<Rightarrow> parse_signed e)
      in if ip = '''' \<and> frac = '''' then None
         else case (iv, fv, ev) of
           (Some i, Some f, Some e) \<Rightarrow>
             Some ((of_nat i + of_nat f / 10 ^ length (filter (\<lambda>c. c \<noteq> CHR ''_'') frac)) * pow10 e)
         | _ \<Rightarrow> None)"

definition parse_float :: "string \<Rightarrow> rat option" where
  "parse_float s =
     (case strip s of
        [] \<Rightarrow> None
      | c # cs \<Rightarrow> if c = CHR ''-'' then map_option uminus (parse_unsigned_float cs)
                  else if c = CHR ''+'' then parse_unsigned_float cs
                  else parse_unsigned_float (c # cs))"

lemma digit_of_char: "n < 10 \<Longrightarrow> digit_of (char_of (48 + n)) = Some n"
  by (simp add: digit_of_def Let_def)

lemma digit_of_show: "digit_of c = Some d \<Longrightarrow> \<not> is_space c"
  by (auto simp: digit_of_def is_space_def Let_def split: if_splits)

lemma digits_val_show_nat: "digits_val 0 ok (show_nat n @ ys) = digits_val n True ys"
proof (induction n arbitrary: ok ys rule: show_nat.induct)
  case (1 n)
  show ?case
  proof (cases "n < 10")
    case True
    then show ?thesis by (simp add: show_nat.simps [of n] digit_of_char)
  next
    case False
    then show ?thesis
      by (simp add: show_nat.simps [of n] 1 digit_of_char)
  qed
qed

lemma show_nat_digits: "c \<in> set (show_nat n) \<Longrightarrow> \<exists>d. digit_of c = Some d"
proof (induction n rule: show_nat.induct)
  case (1 n)
  then show ?case
    by (cases "n < 10") (auto simp: show_nat.simps [of n] digit_of_char)
qed

lemma show_nat_not_Nil [simp]: "show_nat n \<noteq> []"
  by (subst show_nat.simps) simp

lemma strip_id: "\<forall>c \<in> set s. \<not> is_space c \<Longrightarrow> strip s = s"
proof -
  assume a: "\<forall>c \<in> set s. \<not> is_space c"
  have "dropWhile is_space s = s" using a by (cases s) auto
  moreover have "dropWhile is_space (rev s) = rev s" using a by (cases s rule: rev_cases) auto
  ultimately show ?thesis by (simp add: strip_def)
qed

lemma show_nat_hd: "\<exists>c cs d. show_nat n = c # cs \<and> digit_of c = Some d"
proof -
  obtain c cs where "show_nat n = c # cs" by (cases "show_nat n") auto
  then show ?thesis using show_nat_digits [of c n] by auto
qed

theorem parse_int_show_int: "parse_int (show_int i) = Some i"
proof (cases "i < 0")
  case True
  have "strip (show_int i) = show_int i"
    using True by (intro strip_id) (auto simp: show_int_def is_space_def dest!: show_nat_digits dest: digit_of_show)
  then show ?thesis using True digits_val_show_nat [of False "nat (- i)" "[]"]
    by (simp add: parse_int_def show_int_def)
next
  case False
  have s: "strip (show_int i) = show_int i"
    using False by (intro strip_id) (auto simp: show_int_def dest!: show_nat_digits dest: digit_of_show)
  obtain c cs d where c: "show_nat (nat i) = c # cs" "digit_of c = Some d" using show_nat_hd by blast
  have "c \<noteq> CHR ''-''" "c \<noteq> CHR ''+''" using c(2) by (auto simp: digit_of_def)
  then show ?thesis using False s c digits_val_show_nat [of False "nat i" "[]"]
    by (simp add: parse_int_def show_int_def)
qed

end
