(* ===== verification/Py_Json.thy ===== *)
theory Py_Json
  imports Prelude
begin

text \<open>
  JSON documents as Python values, the conversions the code applies to them (truth value,
  \<^verbatim>\<open>int\<close>, \<^verbatim>\<open>float\<close>, \<^verbatim>\<open>str\<close>, \<^verbatim>\<open>dict.get\<close>), and the canonical text
  \<^verbatim>\<open>json.dumps(v, sort_keys=True)\<close> that digests and shape keys are taken of.
\<close>

section \<open>Documents\<close>

datatype json =
    JNull
  | JBool bool
  | JInt int
  | JFloat rat
  | JStr string
  | JArr "json list"
  | JObj "(string \<times> json) list"

type_synonym pydict = "(string \<times> json) list"

text \<open>
  \<^verbatim>\<open>d.get(k, v)\<close> and \<^verbatim>\<open>d.get(k)\<close>, \<^verbatim>\<open>d[k]\<close>, \<^verbatim>\<open>d[k] = v\<close> (an existing key
  keeps its place), \<^verbatim>\<open>d.pop(k, None)\<close> and \<^verbatim>\<open>d.update(e)\<close>.
\<close>

definition dget_or :: "pydict \<Rightarrow> string \<Rightarrow> json \<Rightarrow> json" where
  "dget_or d k v = (case map_of d k of None \<Rightarrow> v | Some x \<Rightarrow> x)"

definition dget :: "pydict \<Rightarrow> string \<Rightarrow> json" where
  "dget d k = dget_or d k JNull"

definition has_key :: "pydict \<Rightarrow> string \<Rightarrow> bool" where
  "has_key d k \<longleftrightarrow> map_of d k \<noteq> None"

definition dindex :: "pydict \<Rightarrow> string \<Rightarrow> json result" where
  "dindex d k = (case map_of d k of None \<Rightarrow> Inl (KeyError k) | Some v \<Rightarrow> Inr v)"

fun dset :: "'k \<Rightarrow> 'v \<Rightarrow> ('k \<times> 'v) list \<Rightarrow> ('k \<times> 'v) list" where
  "dset k v [] = [(k, v)]"
| "dset k v ((k', v') # d) = (if k' = k then (k, v) # d else (k', v') # dset k v d)"

definition dpop :: "'k \<Rightarrow> ('k \<times> 'v) list \<Rightarrow> ('k \<times> 'v) list" where
  "dpop k d = filter (\<lambda>(k', _). k' \<noteq> k) d"

definition dupdate :: "('k \<times> 'v) list \<Rightarrow> ('k \<times> 'v) list \<Rightarrow> ('k \<times> 'v) list" where
  "dupdate d e = foldl (\<lambda>d (k, v). dset k v d) d e"

lemma map_of_dset [simp]: "map_of (dset k v d) = (map_of d)(k \<mapsto> v)"
  by (induction d) auto

lemma map_of_dpop [simp]: "map_of (dpop k d) = (map_of d)(k := None)"
  by (induction d) (auto simp: dpop_def fun_eq_iff)

lemma dget_dset [simp]: "dget (dset k v d) k' = (if k' = k then v else dget d k')"
  by (simp add: dget_def dget_or_def)

lemma map_of_dupdate: "map_of (dupdate d e) = map_of d ++ map_of (rev e)"
proof (induction e arbitrary: d)
  case Nil
  then show ?case by (simp add: dupdate_def)
next
  case (Cons p e)
  obtain k v where p: "p = (k, v)" by (cases p)
  have "dupdate d (p # e) = dupdate (dset k v d) e" by (simp add: dupdate_def p)
  then show ?case using Cons by (simp add: p fun_eq_iff map_add_def split: option.split)
qed

lemma dget_dpop [simp]: "dget (dpop k d) k' = (if k' = k then JNull else dget d k')"
  by (simp add: dget_def dget_or_def)

lemma has_key_dset [simp]: "has_key (dset k v d) k' \<longleftrightarrow> k' = k \<or> has_key d k'"
  by (simp add: has_key_def)

lemma has_key_dpop [simp]: "has_key (dpop k d) k' \<longleftrightarrow> k' \<noteq> k \<and> has_key d k'"
  by (simp add: has_key_def)

lemma keys_dset: "set (map fst (dset k v d)) = insert k (set (map fst d))"
proof (induction d)
  case Nil
  then show ?case by simp
next
  case (Cons a d)
  obtain k' v' where "a = (k', v')" by (cases a)
  then show ?case using Cons by (cases "k' = k") (simp_all add: insert_commute)
qed

lemma distinct_dset: "distinct (map fst d) \<Longrightarrow> distinct (map fst (dset k v d))"
proof (induction d)
  case Nil
  then show ?case by simp
next
  case (Cons a d)
  obtain k' v' where a: "a = (k', v')" by (cases a)
  have "k' \<noteq> k \<Longrightarrow> k' \<notin> set (map fst (dset k v d))"
    using Cons.prems a by (simp only: keys_dset) auto
  then show ?case using Cons a by auto
qed

lemma dset_fresh: "k \<notin> set (map fst d) \<Longrightarrow> dset k v d = d @ [(k, v)]"
  by (induction d) auto

lemma fold_dset_fresh:
  "distinct (map fst d @ map fst xs) \<Longrightarrow> foldl (\<lambda>d (k, v). dset k (f v) d) d xs = d @ map (\<lambda>(k, v). (k, f v)) xs"
proof (induction xs arbitrary: d)
  case (Cons x xs)
  obtain k v where x: "x = (k, v)" by (cases x)
  then have "foldl (\<lambda>d (k, v). dset k (f v) d) d (x # xs) = foldl (\<lambda>d (k, v). dset k (f v) d) (d @ [(k, f v)]) xs"
    using Cons.prems by (subst foldl_Cons) (simp add: dset_fresh)
  also have "\<dots> = (d @ [(k, f v)]) @ map (\<lambda>(k, v). (k, f v)) xs" using Cons.prems x by (intro Cons.IH) auto
  finally show ?case using x by simp
qed simp

lemma foldl_dset_keys:
  "distinct (map fst d @ map key xs) \<Longrightarrow> foldl (\<lambda>d x. dset (key x) (f x) d) d xs = d @ map (\<lambda>x. (key x, f x)) xs"
  by (induction xs arbitrary: d) (simp_all add: dset_fresh)

lemma dupdate_fresh: "distinct (map fst d @ map fst e) \<Longrightarrow> dupdate d e = d @ e"
  using fold_dset_fresh [of d e "\<lambda>v. v"] by (simp add: dupdate_def)

section \<open>Conversions\<close>

fun truthy :: "json \<Rightarrow> bool" where
  "truthy JNull = False"
| "truthy (JBool b) = b"
| "truthy (JInt i) = (i \<noteq> 0)"
| "truthy (JFloat r) = (r \<noteq> 0)"
| "truthy (JStr s) = (s \<noteq> '''')"
| "truthy (JArr xs) = (xs \<noteq> [])"
| "truthy (JObj d) = (d \<noteq> [])"

definition por :: "json \<Rightarrow> json \<Rightarrow> json" where
  \<comment> \<open>\<^verbatim>\<open>a or b\<close>\<close>
  "por a b = (if truthy a then a else b)"

fun is_obj :: "json \<Rightarrow> bool" where
  "is_obj (JObj _) = True"
| "is_obj _ = False"

fun obj_or_empty :: "json \<Rightarrow> pydict" where
  \<comment> \<open>\<^verbatim>\<open>v if isinstance(v, dict) else {}\<close>\<close>
  "obj_or_empty (JObj d) = d"
| "obj_or_empty _ = []"

fun str_or_empty :: "json \<Rightarrow> string" where
  "str_or_empty (JStr s) = s"
| "str_or_empty _ = ''''"

definition trunc_rat :: "rat \<Rightarrow> int" where
  "trunc_rat r = (if 0 \<le> r then \<lfloor>r\<rfloor> else \<lceil>r\<rceil>)"

fun py_int :: "json \<Rightarrow> int result" where
  "py_int (JInt i) = Inr i"
| "py_int (JBool b) = Inr (if b then 1 else 0)"
| "py_int (JFloat r) = Inr (trunc_rat r)"
| "py_int (JStr s) = (case parse_int s of Some i \<Rightarrow> Inr i | None \<Rightarrow> Inl (ValueError ''invalid literal for int()''))"
| "py_int _ = Inl (TypeError ''int() argument must be a string or a number'')"

fun py_float :: "json \<Rightarrow> rat result" where
  "py_float (JInt i) = Inr (of_int i)"
| "py_float (JBool b) = Inr (if b then 1 else 0)"
| "py_float (JFloat r) = Inr r"
| "py_float (JStr s) = (case parse_float s of Some r \<Rightarrow> Inr r | None \<Rightarrow> Inl (ValueError ''could not convert string to float''))"
| "py_float _ = Inl (TypeError ''float() argument must be a string or a number'')"

text \<open>
  \<^verbatim>\<open>dict(v)\<close>: a mapping is copied; a sequence must consist of pairs, written as two-element
  lists or two-character strings.  A pair with a key that is not a string is refused (Python would
  keep it under a key that is not a string; JSON input has no such dict).
\<close>

fun dict_pair :: "json \<Rightarrow> (string \<times> json) result" where
  "dict_pair (JArr [JStr k, v]) = Inr (k, v)"
| "dict_pair (JStr [a, b]) = Inr ([a], JStr [b])"
| "dict_pair _ = Inl (TypeError ''cannot convert dictionary update sequence'')"

fun py_dict :: "json \<Rightarrow> pydict result" where
  "py_dict (JObj d) = Inr d"
| "py_dict (JArr xs) = bindE (mapE dict_pair xs) (\<lambda>ps. Inr (dupdate [] ps))"
| "py_dict (JStr s) = (if s = '''' then Inr [] else Inl (ValueError ''dictionary update sequence element''))"
| "py_dict _ = Inl (TypeError ''object is not iterable'')"

text \<open>
  Iteration: \<^verbatim>\<open>for x in v\<close> over a list, the keys of a dict, the characters of a text
  (its bytes here, which are the characters of an ASCII text).
\<close>

fun py_iter :: "json \<Rightarrow> json list result" where
  "py_iter (JArr xs) = Inr xs"
| "py_iter (JObj d) = Inr (map (\<lambda>(k, _). JStr k) d)"
| "py_iter (JStr s) = Inr (map (\<lambda>c. JStr [c]) s)"
| "py_iter _ = Inl (TypeError ''object is not iterable'')"

text \<open>Decimal rendering of a float: the exact expansion, cut after 17 fractional digits.\<close>

fun frac_digits :: "nat \<Rightarrow> rat \<Rightarrow> string" where
  "frac_digits 0 r = ''''"
| "frac_digits (Suc k) r =
     (if r = 0 then '''' else
        (let d = nat \<lfloor>10 * r\<rfloor> in char_of (48 + d) # frac_digits k (10 * r - of_nat d)))"

definition show_float :: "rat \<Rightarrow> string" where
  "show_float r =
     (let a = \<bar>r\<bar>; i = \<lfloor>a\<rfloor>; f = a - of_int i
      in (if r < 0 then ''-'' else '''') @ show_int i @ ''.'' @ (if f = 0 then ''0'' else frac_digits 17 f))"

definition repr_char :: "char \<Rightarrow> char \<Rightarrow> string" where
  "repr_char q c =
     (if c = CHR 0x5C then [CHR 0x5C, CHR 0x5C]
      else if c = q then [CHR 0x5C, q]
      else if c = CHR 0x0A then [CHR 0x5C, CHR ''n'']
      else if c = CHR 0x0D then [CHR 0x5C, CHR ''r'']
      else if c = CHR 0x09 then [CHR 0x5C, CHR ''t'']
      else
        (let n = of_char c :: nat; hex = (\<lambda>k. char_of (if k < 10 then 48 + k else 87 + k))
         in if n < 32 \<or> n = 127 then [CHR 0x5C, CHR ''x'', hex (n div 16), hex (n mod 16)] else [c]))"

definition repr_str :: "string \<Rightarrow> string" where
  "repr_str s =
     (let q = (if CHR 0x27 \<in> set s \<and> CHR 0x22 \<notin> set s then CHR 0x22 else CHR 0x27)
      in q # concat (map (repr_char q) s) @ [q])"

definition ceil_div :: "int \<Rightarrow> int \<Rightarrow> int" where
  \<comment> \<open>\<^verbatim>\<open>ceil(a / b)\<close>\<close>
  "ceil_div a b = - ((- a) div b)"

lemma ceil_div_bounds:
  assumes "0 < b"
  shows "a \<le> b * ceil_div a b \<and> b * ceil_div a b < a + b"
proof -
  have "- a = b * ((- a) div b) + (- a) mod b" by simp
  moreover have "0 \<le> (- a) mod b" "(- a) mod b < b" using assms by simp_all
  moreover have "b * ceil_div a b = - (b * ((- a) div b))" by (simp add: ceil_div_def)
  ultimately show ?thesis by linarith
qed

text \<open>Text operations: \<^verbatim>\<open>s.rstrip(c)\<close>, \<^verbatim>\<open>s.lower()\<close> and \<^verbatim>\<open>s.replace(pat, rep)\<close> of ASCII text.\<close>

definition rstrip_char :: "char \<Rightarrow> string \<Rightarrow> string" where
  "rstrip_char c s = rev (dropWhile (\<lambda>d. d = c) (rev s))"

definition lower_char :: "char \<Rightarrow> char" where
  "lower_char c = (let n = of_char c :: nat in if 65 \<le> n \<and> n \<le> 90 then char_of (n + 32) else c)"

definition lower :: "string \<Rightarrow> string" where
  "lower s = map lower_char s"

fun drop_prefix :: "string \<Rightarrow> string \<Rightarrow> string option" where
  \<comment> \<open>the rest of the text after the prefix\<close>
  "drop_prefix [] s = Some s"
| "drop_prefix (p # ps) [] = None"
| "drop_prefix (p # ps) (c # cs) = (if p = c then drop_prefix ps cs else None)"

lemma drop_prefix_length: "drop_prefix ps s = Some r \<Longrightarrow> length s = length ps + length r"
  by (induction ps s rule: drop_prefix.induct) (auto split: if_splits)

function replace_all :: "string \<Rightarrow> string \<Rightarrow> string \<Rightarrow> string" where
  "replace_all pat rep [] = ''''"
| "replace_all pat rep (c # cs) =
     (case drop_prefix pat (c # cs) of
        Some r \<Rightarrow> if pat = [] then c # cs else rep @ replace_all pat rep r
      | None \<Rightarrow> c # replace_all pat rep cs)"
  by pat_completeness auto
termination
  by (relation "measure (\<lambda>(pat, rep, s). length s)")
     (auto dest!: drop_prefix_length simp: neq_Nil_conv simp del: drop_prefix.simps)

fun joinwith :: "string \<Rightarrow> string list \<Rightarrow> string" where
  \<comment> \<open>\<^verbatim>\<open>sep.join(parts)\<close>\<close>
  "joinwith sep [] = ''''"
| "joinwith sep [s] = s"
| "joinwith sep (s # t # ss) = s @ sep @ joinwith sep (t # ss)"

fun py_repr :: "json \<Rightarrow> string" where
  "py_repr JNull = ''None''"
| "py_repr (JBool b) = (if b then ''True'' else ''False'')"
| "py_repr (JInt i) = show_int i"
| "py_repr (JFloat r) = show_float r"
| "py_repr (JStr s) = repr_str s"
| "py_repr (JArr xs) = ''['' @ joinwith '', '' (map py_repr xs) @ '']''"
| "py_repr (JObj d) = ''{'' @ joinwith '', '' (map (\<lambda>(k, v). repr_str k @ '': '' @ py_repr v) d) @ ''}''"

fun py_str :: "json \<Rightarrow> string" where
  "py_str (JStr s) = s"
| "py_str v = py_repr v"

definition py_strs :: "json \<Rightarrow> string list result" where
  \<comment> \<open>\<^verbatim>\<open>tuple(str(x) for x in v)\<close>\<close>
  "py_strs v = bindE (py_iter v) (\<lambda>xs. Inr (map py_str xs))"

definition sub_dict :: "pydict \<Rightarrow> string \<Rightarrow> pydict result" where
  \<comment> \<open>\<^verbatim>\<open>dict(d.get(k, {}))\<close>\<close>
  "sub_dict d k = py_dict (dget_or d k (JObj []))"

definition setdefault :: "string \<Rightarrow> json \<Rightarrow> pydict \<Rightarrow> pydict" where
  "setdefault k v d = (if has_key d k then d else d @ [(k, v)])"

fun jopt :: "string option \<Rightarrow> json" where
  "jopt None = JNull"
| "jopt (Some s) = JStr s"

definition safe_int :: "json \<Rightarrow> int \<Rightarrow> int" where
  "safe_int v d = (case py_int v of Inr i \<Rightarrow> i | Inl _ \<Rightarrow> d)"

lemma py_str_JStr_nonempty: "truthy (JStr s) \<Longrightarrow> py_str (JStr s) \<noteq> ''''"
  by simp

section \<open>Canonical text\<close>

fun canon :: "json \<Rightarrow> json" where
  "canon (JArr xs) = JArr (map canon xs)"
| "canon (JObj d) = JObj (sort_key fst (map (\<lambda>(k, v). (k, canon v)) d))"
| "canon v = v"

fun utf8_points :: "nat list \<Rightarrow> nat list" where
  "utf8_points [] = []"
| "utf8_points (a # r) =
     (if a < 128 then a # utf8_points r
      else if a < 224 then (case r of b # r' \<Rightarrow> ((a - 192) * 64 + (b - 128)) # utf8_points r' | _ \<Rightarrow> [])
      else if a < 240 then (case r of b # c # r' \<Rightarrow> ((a - 224) * 4096 + (b - 128) * 64 + (c - 128)) # utf8_points r' | _ \<Rightarrow> [])
      else (case r of b # c # e # r' \<Rightarrow>
              ((a - 240) * 262144 + (b - 128) * 4096 + (c - 128) * 64 + (e - 128)) # utf8_points r' | _ \<Rightarrow> []))"

definition hex_digit :: "nat \<Rightarrow> char" where
  "hex_digit n = (if n < 10 then char_of (48 + n) else char_of (87 + n))"

definition hex4 :: "nat \<Rightarrow> string" where
  "hex4 n = map hex_digit [n div 4096 mod 16, n div 256 mod 16, n div 16 mod 16, n mod 16]"

definition u_escape :: "nat \<Rightarrow> string" where
  "u_escape n = CHR 0x5C # CHR ''u'' # hex4 n"

definition esc_point :: "nat \<Rightarrow> string" where
  "esc_point p =
     (if p = 34 then [CHR 0x5C, CHR 0x22]
      else if p = 92 then [CHR 0x5C, CHR 0x5C]
      else if p = 10 then [CHR 0x5C, CHR ''n'']
      else if p = 13 then [CHR 0x5C, CHR ''r'']
      else if p = 9 then [CHR 0x5C, CHR ''t'']
      else if p = 12 then [CHR 0x5C, CHR ''f'']
      else if p = 8 then [CHR 0x5C, CHR ''b'']
      else if 32 \<le> p \<and> p < 127 then [char_of p]
      else if p < 65536 then u_escape p
      else u_escape (55296 + (p - 65536) div 1024) @ u_escape (56320 + (p - 65536) mod 1024))"

definition dumps_str :: "string \<Rightarrow> string" where
  "dumps_str s = CHR 0x22 # concat (map esc_point (utf8_points (map of_char s))) @ [CHR 0x22]"

fun dumps_raw :: "string \<Rightarrow> string \<Rightarrow> json \<Rightarrow> string" where
  "dumps_raw isep ksep JNull = ''null''"
| "dumps_raw isep ksep (JBool b) = (if b then ''true'' else ''false'')"
| "dumps_raw isep ksep (JInt i) = show_int i"
| "dumps_raw isep ksep (JFloat r) = show_float r"
| "dumps_raw isep ksep (JStr s) = dumps_str s"
| "dumps_raw isep ksep (JArr xs) = ''['' @ joinwith isep (map (dumps_raw isep ksep) xs) @ '']''"
| "dumps_raw isep ksep (JObj d) =
     ''{'' @ joinwith isep (map (\<lambda>(k, v). dumps_str k @ ksep @ dumps_raw isep ksep v) d) @ ''}''"

text \<open>\<^verbatim>\<open>json.dumps(v, sort_keys=True)\<close> with the default and with the compact separators.\<close>

definition dumps_sorted :: "json \<Rightarrow> string" where
  "dumps_sorted v = dumps_raw '', '' '': '' (canon v)"

definition dumps_compact :: "json \<Rightarrow> string" where
  "dumps_compact v = dumps_raw '','' '':'' (canon v)"

text \<open>The order of the keys of a document does not reach its canonical text.\<close>

lemma canon_JObj_perm:
  assumes "mset d = mset d'" and "distinct (map fst d)"
  shows "canon (JObj d) = canon (JObj d')"
proof -
  let ?g = "\<lambda>e. map (\<lambda>(k, v). (k, canon v)) e"
  have "map fst (?g d) = map fst d" by (induction d) auto
  then have "inj_on fst (set (?g d))" using assms(2) by (metis distinct_map)
  moreover have "mset (?g d) = mset (?g d')" using assms(1) by simp
  ultimately have "sort_key fst (?g d) = sort_key fst (?g d')"
    by (intro sort_key_inj_key_eq) auto
  then show ?thesis by simp
qed

end
