(* ===== verification/Sql_Table.thy ===== *)
theory Sql_Table
  imports Prelude
begin

text \<open>
  Tables as lists of rows in insertion order, and the statements the queue issues on them:
  \<^verbatim>\<open>update .. where\<close>, \<^verbatim>\<open>delete .. where\<close>, \<^verbatim>\<open>insert\<close> under a primary key,
  \<^verbatim>\<open>insert or replace\<close>, \<^verbatim>\<open>select .. where .. order by .. limit\<close>, counts and sums.
  Rows that agree on every \<^verbatim>\<open>order by\<close> column come out in table order.
\<close>

definition sql_where :: "('r \<Rightarrow> bool) list \<Rightarrow> 'r \<Rightarrow> bool" where
  \<comment> \<open>clauses joined with \<^verbatim>\<open>and\<close>\<close>
  "sql_where cs r \<longleftrightarrow> list_all (\<lambda>c. c r) cs"

definition sql_update :: "('r \<Rightarrow> bool) \<Rightarrow> ('r \<Rightarrow> 'r) \<Rightarrow> 'r list \<Rightarrow> 'r list" where
  "sql_update p f t = map (\<lambda>r. if p r then f r else r) t"

definition sql_delete :: "('r \<Rightarrow> bool) \<Rightarrow> 'r list \<Rightarrow> 'r list" where
  "sql_delete p t = filter (\<lambda>r. \<not> p r) t"

definition sql_count :: "('r \<Rightarrow> bool) \<Rightarrow> 'r list \<Rightarrow> nat" where
  "sql_count p t = length (filter p t)"

definition sql_sum :: "('r \<Rightarrow> int) \<Rightarrow> ('r \<Rightarrow> bool) \<Rightarrow> 'r list \<Rightarrow> int" where
  "sql_sum f p t = sum_list (map f (filter p t))"

definition sql_select :: "('r \<Rightarrow> bool) \<Rightarrow> ('r \<Rightarrow> 'k::linorder) \<Rightarrow> 'r list \<Rightarrow> 'r list" where
  "sql_select p k t = sort_key k (filter p t)"

definition sql_insert :: "('r \<Rightarrow> 'k) \<Rightarrow> 'r \<Rightarrow> 'r list \<Rightarrow> 'r list result" where
  "sql_insert key r t =
     (if list_ex (\<lambda>x. key x = key r) t then Inl (IntegrityError ''UNIQUE constraint failed'') else Inr (t @ [r]))"

definition sql_replace :: "('r \<Rightarrow> 'k) \<Rightarrow> 'r \<Rightarrow> 'r list \<Rightarrow> 'r list" where
  "sql_replace key r t = filter (\<lambda>x. key x \<noteq> key r) t @ [r]"

definition sql_keyed :: "('r \<Rightarrow> 'k) \<Rightarrow> 'r list \<Rightarrow> bool" where
  \<comment> \<open>the primary key identifies a row\<close>
  "sql_keyed key t \<longleftrightarrow> distinct (map key t)"

section \<open>What the statements keep\<close>

lemma sql_update_Nil [simp]: "sql_update p f [] = []"
  by (simp add: sql_update_def)

lemma sql_update_Cons [simp]:
  "sql_update p f (r # t) = (if p r then f r else r) # sql_update p f t"
  by (simp add: sql_update_def)

lemma sql_update_append [simp]: "sql_update p f (t @ u) = sql_update p f t @ sql_update p f u"
  by (simp add: sql_update_def)

lemma length_sql_update [simp]: "length (sql_update p f t) = length t"
  by (simp add: sql_update_def)

lemma in_sql_update:
  "x \<in> set (sql_update p f t) \<longleftrightarrow> (\<exists>r \<in> set t. x = (if p r then f r else r))"
  by (auto simp: sql_update_def)

lemma sql_update_none: "\<forall>r \<in> set t. \<not> p r \<Longrightarrow> sql_update p f t = t"
  by (induction t) auto

lemma map_sql_update_same [sql_simps]:
  "(\<And>r. p r \<Longrightarrow> g (f r) = g r) \<Longrightarrow> map g (sql_update p f t) = map g t"
  by (induction t) auto

lemma sql_keyed_update [sql_simps]:
  "(\<And>r. p r \<Longrightarrow> key (f r) = key r) \<Longrightarrow> sql_keyed key (sql_update p f t) \<longleftrightarrow> sql_keyed key t"
  by (simp add: sql_keyed_def map_sql_update_same)

lemma in_sql_delete [simp]: "x \<in> set (sql_delete p t) \<longleftrightarrow> x \<in> set t \<and> \<not> p x"
  by (auto simp: sql_delete_def)

lemma sql_keyed_delete: "sql_keyed key t \<Longrightarrow> sql_keyed key (sql_delete p t)"
  by (simp add: sql_keyed_def sql_delete_def distinct_map_filter)

lemma sql_keyed_Cons [simp]:
  "sql_keyed key (r # t) \<longleftrightarrow> (\<forall>x \<in> set t. key x \<noteq> key r) \<and> sql_keyed key t"
  by (force simp: sql_keyed_def image_iff)

lemma sql_keyed_Nil [simp]: "sql_keyed key []"
  by (simp add: sql_keyed_def)

lemma sql_keyed_eq:
  "sql_keyed key t \<Longrightarrow> x \<in> set t \<Longrightarrow> y \<in> set t \<Longrightarrow> key x = key y \<Longrightarrow> x = y"
  by (induction t) auto

lemma sql_insert_Inr:
  "sql_insert key r t = Inr t' \<longleftrightarrow> (\<forall>x \<in> set t. key x \<noteq> key r) \<and> t' = t @ [r]"
  by (auto simp: sql_insert_def list_ex_iff)

lemma sql_keyed_append1: "sql_keyed key (t @ [r]) \<longleftrightarrow> sql_keyed key t \<and> (\<forall>x \<in> set t. key x \<noteq> key r)"
  by (force simp: sql_keyed_def image_iff)

lemma sql_keyed_insert:
  "sql_keyed key t \<Longrightarrow> sql_insert key r t = Inr t' \<Longrightarrow> sql_keyed key t'"
  by (auto simp: sql_insert_Inr sql_keyed_append1)

lemma sql_keyed_replace: "sql_keyed key t \<Longrightarrow> sql_keyed key (sql_replace key r t)"
  by (auto simp: sql_replace_def sql_keyed_append1 sql_keyed_def distinct_map_filter)

lemma in_sql_replace:
  "x \<in> set (sql_replace key r t) \<longleftrightarrow> x = r \<or> (x \<in> set t \<and> key x \<noteq> key r)"
  by (auto simp: sql_replace_def)

lemma in_sql_select [simp]: "x \<in> set (sql_select p k t) \<longleftrightarrow> x \<in> set t \<and> p x"
  by (simp add: sql_select_def conj_commute)

lemma sorted_sql_select: "sorted (map k (sql_select p k t))"
  by (simp add: sql_select_def)

lemma distinct_sql_select: "distinct t \<Longrightarrow> distinct (sql_select p k t)"
  by (simp add: sql_select_def)

lemma sql_keyed_distinct: "sql_keyed key t \<Longrightarrow> distinct t"
  by (simp add: sql_keyed_def distinct_map)

lemma mset_sql_select: "mset (sql_select p k t) = mset (filter p t)"
  by (simp add: sql_select_def)

lemma sql_keyed_select: "sql_keyed key t \<Longrightarrow> sql_keyed key (sql_select p k t)"
proof -
  assume "sql_keyed key t"
  then have "distinct (map key (filter p t))" by (simp add: sql_keyed_def distinct_map_filter)
  moreover have "mset (map key (sql_select p k t)) = mset (map key (filter p t))"
    by (simp add: sql_select_def)
  ultimately show ?thesis unfolding sql_keyed_def by (metis mset_eq_imp_distinct_iff)
qed

lemma sql_keyed_take: "sql_keyed key t \<Longrightarrow> sql_keyed key (take n t)"
  by (simp add: sql_keyed_def take_map [symmetric])

section \<open>Counts and sums\<close>

lemma sql_count_simps [simp]:
  "sql_count p [] = 0"
  "sql_count p (r # t) = (if p r then Suc (sql_count p t) else sql_count p t)"
  "sql_count p (t @ u) = sql_count p t + sql_count p u"
  by (simp_all add: sql_count_def)

lemma sql_sum_simps [simp]:
  "sql_sum f p [] = 0"
  "sql_sum f p (r # t) = (if p r then f r + sql_sum f p t else sql_sum f p t)"
  "sql_sum f p (t @ u) = sql_sum f p t + sql_sum f p u"
  by (simp_all add: sql_sum_def)

lemma sql_count_0: "sql_count p t = 0 \<longleftrightarrow> (\<forall>r \<in> set t. \<not> p r)"
  by (induction t) auto

lemma sql_count_update_same:
  "(\<And>r. q r \<Longrightarrow> p (f r) = p r) \<Longrightarrow> sql_count p (sql_update q f t) = sql_count p t"
  by (induction t) auto

lemma sql_sum_nonneg: "(\<And>r. r \<in> set t \<Longrightarrow> 0 \<le> f r) \<Longrightarrow> 0 \<le> sql_sum f p t"
  by (induction t) auto

lemma sql_sum_delete:
  "sql_sum f p (sql_delete q t) = sql_sum f p t - sql_sum f (\<lambda>r. p r \<and> q r) t"
  by (induction t) (auto simp: sql_delete_def)

lemma sql_sum_mono_pred:
  "(\<And>r. r \<in> set t \<Longrightarrow> 0 \<le> f r) \<Longrightarrow> (\<And>r. r \<in> set t \<Longrightarrow> p r \<Longrightarrow> q r) \<Longrightarrow> sql_sum f p t \<le> sql_sum f q t"
proof (induction t)
  case Nil
  then show ?case by simp
next
  case (Cons a t)
  then have IH: "sql_sum f p t \<le> sql_sum f q t" and a: "0 \<le> f a" "p a \<longrightarrow> q a" by auto
  then show ?case by (cases "q a") auto
qed

lemma sql_sum_filter: "sql_sum f p (filter q t) = sql_sum f (\<lambda>r. p r \<and> q r) t"
  by (induction t) auto

lemma sql_sum_cong:
  "(\<And>r. r \<in> set t \<Longrightarrow> p r = q r) \<Longrightarrow> (\<And>r. r \<in> set t \<Longrightarrow> p r \<Longrightarrow> f r = g r) \<Longrightarrow> sql_sum f p t = sql_sum g q t"
  by (induction t) auto

lemma sql_sum_replace:
  "sql_sum f p (sql_replace key r t) =
     sql_sum f p t - sql_sum f (\<lambda>x. p x \<and> key x = key r) t + (if p r then f r else 0)"
proof -
  have "sql_sum f p (filter (\<lambda>x. key x \<noteq> key r) t) = sql_sum f p t - sql_sum f (\<lambda>x. p x \<and> key x = key r) t"
    by (induction t) auto
  then show ?thesis by (simp add: sql_replace_def)
qed

section \<open>Looking a key up\<close>

lemma find_append: "find P (xs @ ys) = (case find P xs of None \<Rightarrow> find P ys | Some x \<Rightarrow> Some x)"
  by (induction xs) auto

lemma find_map_update:
  "(\<And>x. Q x \<Longrightarrow> key (f x) = key x) \<Longrightarrow>
     find (\<lambda>x. key x = k) (sql_update Q f t) =
     map_option (\<lambda>x. if Q x then f x else x) (find (\<lambda>x. key x = k) t)"
  by (induction t) auto

lemma find_key_Some: "find (\<lambda>x. key x = k) t = Some x \<Longrightarrow> x \<in> set t \<and> key x = k"
  by (metis (mono_tags, lifting) find_Some_iff nth_mem)

lemma find_key_None: "find (\<lambda>x. key x = k) t = None \<longleftrightarrow> (\<forall>x \<in> set t. key x \<noteq> k)"
  by (auto simp: find_None_iff)

lemma find_keyed: "sql_keyed key t \<Longrightarrow> x \<in> set t \<Longrightarrow> find (\<lambda>y. key y = key x) t = Some x"
proof (induction t)
  case Nil
  then show ?case by simp
next
  case (Cons a t)
  then show ?case by (cases "x = a") auto
qed

lemma find_Some_in: "find P xs = Some x \<Longrightarrow> x \<in> set xs \<and> P x"
  by (metis find_Some_iff nth_mem)

section \<open>Sums over selected rows\<close>

lemma sql_delete_delete: "sql_delete q (sql_delete p t) = sql_delete (\<lambda>e. p e \<or> q e) t"
  by (induction t) (auto simp: sql_delete_def)

lemma foldl_sql_delete:
  "foldl (\<lambda>t v. sql_delete (P v) t) t vs = sql_delete (\<lambda>e. \<exists>v \<in> set vs. P v e) t"
  by (induction vs arbitrary: t) (auto simp: sql_delete_def intro!: filter_cong)

lemma sum_mset_nn: "(\<And>x. x \<in># A \<Longrightarrow> 0 \<le> (f x :: int)) \<Longrightarrow> 0 \<le> (\<Sum>x\<in>#A. f x)"
  by (induction A) auto

lemma sum_mset_mono:
  "A \<subseteq># B \<Longrightarrow> (\<And>x. x \<in># B \<Longrightarrow> 0 \<le> (f x :: int)) \<Longrightarrow> (\<Sum>x\<in>#A. f x) \<le> (\<Sum>x\<in>#B. f x)"
proof -
  assume sub: "A \<subseteq># B" and nn: "\<And>x. x \<in># B \<Longrightarrow> 0 \<le> f x"
  have "B = A + (B - A)" using sub by simp
  then have "(\<Sum>x\<in>#B. f x) = (\<Sum>x\<in>#A. f x) + (\<Sum>x\<in>#B - A. f x)"
    by (metis image_mset_union sum_mset.union)
  moreover have "0 \<le> (\<Sum>x\<in>#B - A. f x)" using nn by (intro sum_mset_nn) (auto dest: in_diffD)
  ultimately show ?thesis by simp
qed

lemma sum_take_select_le:
  assumes nn: "\<And>e. e \<in> set t \<Longrightarrow> 0 \<le> f e"
    and q: "\<And>e. e \<in> set (take n (sql_select p k t)) \<Longrightarrow> q e"
  shows "sum_list (map f (take n (sql_select p k t))) \<le> sql_sum f q t"
proof -
  let ?R = "take n (sql_select p k t)"
  have "mset ?R \<subseteq># mset (sql_select p k t)"
    by (metis append_take_drop_id mset_append mset_subset_eq_add_left)
  also have "\<dots> \<subseteq># mset t" by (simp add: mset_sql_select)
  finally have "filter_mset q (mset ?R) \<subseteq># filter_mset q (mset t)" by (rule multiset_filter_mono)
  moreover have "filter_mset q (mset ?R) = mset ?R" using q by (simp add: filter_mset_eq_conv)
  ultimately have "(\<Sum>x\<in>#mset ?R. f x) \<le> (\<Sum>x\<in>#filter_mset q (mset t). f x)"
    using nn by (intro sum_mset_mono) auto
  then show ?thesis by (simp add: sql_sum_def sum_mset_sum_list flip: mset_map mset_filter)
qed

lemma sql_sum_unique:
  assumes "sql_keyed key t" and "\<And>x y. x \<in> set t \<Longrightarrow> y \<in> set t \<Longrightarrow> q x \<Longrightarrow> q y \<Longrightarrow> key x = key y"
    and "\<And>x. x \<in> set t \<Longrightarrow> q x \<Longrightarrow> f x \<le> M" and "0 \<le> M"
  shows "sql_sum f q t \<le> (M::int)"
  using assms
proof (induction t)
  case Nil
  then show ?case by simp
next
  case (Cons a t)
  show ?case
  proof (cases "q a")
    case True
    then have "\<forall>x \<in> set t. \<not> q x" using Cons.prems(1,2) by auto
    then have "sql_sum f q t = 0" by (induction t) auto
    then show ?thesis using True Cons.prems(3) by auto
  next
    case False
    then show ?thesis using Cons by auto
  qed
qed

lemma in_foldl_replace:
  "e \<in> set (foldl (\<lambda>t r. sql_replace key r t) t rs) \<Longrightarrow> e \<in> set rs \<or> (e \<in> set t \<and> key e \<notin> key ` set rs)"
proof (induction rs arbitrary: t)
  case Nil
  then show ?case by simp
next
  case (Cons r rs)
  from Cons.IH [of "sql_replace key r t"] Cons.prems show ?case by (auto simp: in_sql_replace)
qed

lemma sql_keyed_foldl_replace:
  "sql_keyed key t \<Longrightarrow> sql_keyed key (foldl (\<lambda>t r. sql_replace key r t) t rs)"
  by (induction rs arbitrary: t) (auto intro: sql_keyed_replace)

lemma sql_sum_foldl_replace_frame:
  "(\<And>r x. r \<in> set rs \<Longrightarrow> key x = key r \<Longrightarrow> \<not> q x) \<Longrightarrow>
     sql_sum f q (foldl (\<lambda>t r. sql_replace key r t) t rs) = sql_sum f q t"
proof (induction rs arbitrary: t)
  case Nil
  then show ?case by simp
next
  case (Cons r rs)
  have z: "sql_sum f (\<lambda>x. q x \<and> key x = key r) t = 0"
    using Cons.prems [of r] by (induction t) auto
  have "\<not> q r" using Cons.prems [of r r] by simp
  then have "sql_sum f q (sql_replace key r t) = sql_sum f q t" by (simp add: sql_sum_replace z)
  moreover have "sql_sum f q (foldl (\<lambda>t r. sql_replace key r t) (sql_replace key r t) rs) = sql_sum f q (sql_replace key r t)"
    by (rule Cons.IH) (use Cons.prems in auto)
  ultimately show ?case by simp
qed

end
