(* ===== verification/Kv_Memory.thy ===== *)
theory Kv_Memory
  imports Py_Json Sql_Table
begin

text \<open>
  The external KV memory catalogue: the tables \<^verbatim>\<open>kv_memory_objects\<close>,
  \<^verbatim>\<open>kv_memory_shards\<close> and \<^verbatim>\<open>kv_memory_leases\<close> of
  \<^verbatim>\<open>v2/src/ds4_infer/queue.py\<close>, the shard manifest checks of
  \<^verbatim>\<open>v2/src/ds4_infer/external_kv_shards.py\<close>, and every \<^verbatim>\<open>external_kv_*\<close>
  operation of \<^verbatim>\<open>InferenceQueue\<close>.  An operation is one transaction: on an error the
  catalogue is the one before it.  The purge of expired leases in \<^verbatim>\<open>external_kv_lookup\<close> and
  \<^verbatim>\<open>external_kv_list\<close> is visible to the read but never committed (they open the connection
  without its transaction context), so these two read and do not write.
\<close>

section \<open>Rows\<close>

record kv_object =
  ko_namespace :: string
  ko_key :: string
  ko_service :: string
  ko_profile :: "string option"
  ko_model :: "string option"
  ko_owner :: "string option"
  ko_content_hash :: "string option"
  ko_total_bytes :: int
  ko_total_tokens :: int
  ko_state :: string
  ko_pin_count :: int
  ko_priority :: int
  ko_ttl_expires_at :: "rat option"
  ko_metadata :: pydict
  ko_created_at :: rat
  ko_updated_at :: rat
  ko_last_used_at :: rat

record kv_shard =
  ks_namespace :: string
  ks_key :: string
  ks_service :: string
  ks_node :: string
  ks_stage_index :: int
  ks_stage_count :: int
  ks_layer_start :: "int option"
  ks_layer_end :: "int option"
  ks_bytes :: int
  ks_state :: string
  ks_storage_uri :: "string option"
  ks_gpu_resident :: bool
  ks_metadata :: pydict
  ks_created_at :: rat
  ks_updated_at :: rat
  ks_last_used_at :: rat

record kv_lease =
  kl_id :: string
  kl_namespace :: string
  kl_key :: string
  kl_service :: string
  kl_mode :: string
  kl_owner :: "string option"
  kl_expires_at :: rat
  kl_created_at :: rat

record kv_mem =
  kv_objects :: "kv_object list"
  kv_shard_rows :: "kv_shard list"
  kv_leases :: "kv_lease list"

type_synonym kv_id = "string \<times> string \<times> string"

definition empty_kv_mem :: kv_mem where
  "empty_kv_mem = \<lparr>kv_objects = [], kv_shard_rows = [], kv_leases = []\<rparr>"

definition ko_id :: "kv_object \<Rightarrow> kv_id" where
  "ko_id x = (ko_namespace x, ko_key x, ko_service x)"

definition ks_obj :: "kv_shard \<Rightarrow> kv_id" where
  "ks_obj x = (ks_namespace x, ks_key x, ks_service x)"

definition ks_id :: "kv_shard \<Rightarrow> kv_id \<times> string \<times> int" where
  "ks_id x = (ks_obj x, ks_node x, ks_stage_index x)"

definition kl_obj :: "kv_lease \<Rightarrow> kv_id" where
  "kl_obj x = (kl_namespace x, kl_key x, kl_service x)"

section \<open>Arguments\<close>

definition normalize_namespace :: "string option \<Rightarrow> string" where
  "normalize_namespace ns = (case ns of None \<Rightarrow> ''default'' | Some s \<Rightarrow> if s = '''' then ''default'' else s)"

definition require_kv_key :: "string option \<Rightarrow> string result" where
  "require_kv_key k =
     (case k of None \<Rightarrow> Inl (ValueError ''kv_key is required'')
      | Some s \<Rightarrow> if s = '''' then Inl (ValueError ''kv_key is required'') else Inr s)"

definition require_service_id :: "string option \<Rightarrow> string result" where
  "require_service_id k =
     (case k of None \<Rightarrow> Inl (ValueError ''service_id is required'')
      | Some s \<Rightarrow> if s = '''' then Inl (ValueError ''service_id is required'') else Inr s)"

definition with_kv_id :: "string option \<Rightarrow> string option \<Rightarrow> string option \<Rightarrow> (kv_id \<Rightarrow> 'a result) \<Rightarrow> 'a result" where
  \<comment> \<open>the three lines every operation starts with\<close>
  "with_kv_id ns key svc f =
     bindE (require_kv_key key) (\<lambda>k. bindE (require_service_id svc) (\<lambda>s. f (normalize_namespace ns, k, s)))"

definition int_field :: "pydict \<Rightarrow> string \<Rightarrow> int \<Rightarrow> int result" where
  \<comment> \<open>\<^verbatim>\<open>int(d.get(k, v) or v)\<close>\<close>
  "int_field d k v = py_int (por (dget_or d k (JInt v)) (JInt v))"

definition opt_int_field :: "pydict \<Rightarrow> string \<Rightarrow> int option result" where
  \<comment> \<open>\<^verbatim>\<open>int(d[k]) if d.get(k) is not None else None\<close>\<close>
  "opt_int_field d k = (if dget d k = JNull then Inr None else bindE (py_int (dget d k)) (\<lambda>i. Inr (Some i)))"

definition opt_str_field :: "pydict \<Rightarrow> string \<Rightarrow> string option" where
  "opt_str_field d k = (if dget d k = JNull then None else Some (py_str (dget d k)))"

definition str_or :: "pydict \<Rightarrow> string \<Rightarrow> string \<Rightarrow> string" where
  \<comment> \<open>\<^verbatim>\<open>str(d.get(k) or v)\<close>\<close>
  "str_or d k v = py_str (por (dget d k) (JStr v))"

definition dict_field :: "pydict \<Rightarrow> string \<Rightarrow> pydict result" where
  \<comment> \<open>\<^verbatim>\<open>dict(d.get(k) or {})\<close>\<close>
  "dict_field d k = py_dict (por (dget d k) (JObj []))"

section \<open>Shard manifests\<close>

definition shard_key :: "int \<Rightarrow> pydict \<Rightarrow> (string \<times> int \<times> int) result" where
  \<comment> \<open>node, stage index and stage count of one manifest entry, checked; \<open>n\<close> is the number of entries\<close>
  "shard_key n shard =
     (let node = str_or shard ''node_id'' ''''
      in if node = '''' then Inl (ValueError ''external KV shard missing node_id'')
         else bindE (int_field shard ''stage_index'' 0) (\<lambda>i.
              bindE (int_field shard ''stage_count'' n) (\<lambda>c.
              if i < 0 \<or> c < 1 \<or> i \<ge> c
              then Inl (ValueError ''external KV shard has invalid stage_index/stage_count'')
              else Inr (node, i, c))))"

fun scan_shards :: "int \<Rightarrow> (string \<times> int) list \<Rightarrow> int list \<Rightarrow> pydict list \<Rightarrow> (int list) result" where
  \<comment> \<open>the loop: keys seen so far and stage counts so far (as sets)\<close>
  "scan_shards n seen counts [] = Inr counts"
| "scan_shards n seen counts (shard # rest) =
     bindE (shard_key n shard) (\<lambda>(node, i, c).
       if (node, i) \<in> set seen
       then Inl (ValueError (''duplicate external KV shard for '' @ node @ '' stage '' @ show_int i))
       else scan_shards n ((node, i) # seen) (List.insert c counts) rest)"

definition validate_external_kv_shards :: "pydict list \<Rightarrow> int \<Rightarrow> unit result" where
  "validate_external_kv_shards shard_list total_bytes =
     (if shard_list = []
      then Inl (ValueError ''external KV objects must be declared with explicit node-local shard manifests; spark0 aggregation is forbidden'')
      else
        (let n = int (length shard_list)
         in bindE (scan_shards n [] [] shard_list) (\<lambda>counts.
            case counts of
              [stage_count] \<Rightarrow>
                if stage_count \<noteq> n
                then Inl (ValueError ''external KV shard manifest must include exactly one shard per pipeline stage'')
                else if total_bytes > 0 \<and> stage_count > 1 \<and>
                  int (length (remdups (map (\<lambda>s. py_str (dget s ''node_id'')) shard_list))) < stage_count
                then Inl (ValueError ''external KV pipeline shards must be node-local, not aggregated on a single node'')
                else Inr ()
            | _ \<Rightarrow> Inl (ValueError ''external KV shards must agree on stage_count''))))"

definition metadata_partition_fingerprint :: "pydict \<Rightarrow> string option" where
  "metadata_partition_fingerprint metadata =
     (case dget metadata ''layer_partition_fingerprint'' of
        JStr s \<Rightarrow> if s \<noteq> '''' then Some s else
          (case dget (obj_or_empty (dget metadata ''kv_cache_contract'')) ''fingerprint'' of
             JStr f \<Rightarrow> if f \<noteq> '''' then Some f else None | _ \<Rightarrow> None)
      | _ \<Rightarrow>
          (case dget (obj_or_empty (dget metadata ''kv_cache_contract'')) ''fingerprint'' of
             JStr f \<Rightarrow> if f \<noteq> '''' then Some f else None | _ \<Rightarrow> None))"

definition fingerprint_mismatch :: "string \<Rightarrow> pydict \<Rightarrow> bool result" where
  "fingerprint_mismatch expected shard =
     bindE (dict_field shard ''metadata'') (\<lambda>m.
       Inr (case metadata_partition_fingerprint m of None \<Rightarrow> False | Some a \<Rightarrow> a \<noteq> expected))"

definition validate_partition_fingerprint :: "pydict \<Rightarrow> pydict list \<Rightarrow> unit result" where
  "validate_partition_fingerprint metadata shards =
     (case metadata_partition_fingerprint metadata of
        None \<Rightarrow> Inr ()
      | Some expected \<Rightarrow>
          bindE (mapE (fingerprint_mismatch expected) shards) (\<lambda>bad.
            if list_ex id bad then Inl (ValueError ''external KV shard layer partition fingerprint mismatch'')
            else Inr ()))"

definition shard_row :: "kv_id \<Rightarrow> rat \<Rightarrow> string \<Rightarrow> int \<Rightarrow> pydict \<Rightarrow> kv_shard result" where
  "shard_row oid now state n shard =
     (case oid of (ns, key, svc) \<Rightarrow>
     bindE (int_field shard ''stage_index'' 0) (\<lambda>i.
     bindE (int_field shard ''stage_count'' n) (\<lambda>c.
     bindE (opt_int_field shard ''layer_start'') (\<lambda>ls.
     bindE (opt_int_field shard ''layer_end'') (\<lambda>le.
     bindE (int_field shard ''bytes'' 0) (\<lambda>b.
     bindE (dict_field shard ''metadata'') (\<lambda>m.
       Inr \<lparr>ks_namespace = ns, ks_key = key, ks_service = svc,
            ks_node = py_str (dget shard ''node_id''), ks_stage_index = i, ks_stage_count = c,
            ks_layer_start = ls, ks_layer_end = le, ks_bytes = max 0 b,
            ks_state = str_or shard ''state'' state, ks_storage_uri = opt_str_field shard ''storage_uri'',
            ks_gpu_resident = truthy (dget_or shard ''gpu_resident'' (JBool False)), ks_metadata = m,
            ks_created_at = now, ks_updated_at = now, ks_last_used_at = now\<rparr>)))))))"

section \<open>Reading the catalogue\<close>

definition purge_kv_leases :: "rat \<Rightarrow> kv_mem \<Rightarrow> kv_mem" where
  "purge_kv_leases now m = m\<lparr>kv_leases := sql_delete (\<lambda>l. kl_expires_at l \<le> now) (kv_leases m)\<rparr>"

definition kv_find :: "kv_mem \<Rightarrow> kv_id \<Rightarrow> kv_object option" where
  "kv_find m oid = find (\<lambda>x. ko_id x = oid) (kv_objects m)"

definition object_shards :: "kv_mem \<Rightarrow> kv_id \<Rightarrow> kv_shard list" where
  "object_shards m oid =
     sql_select (\<lambda>s. ks_obj s = oid) (\<lambda>s. (ks_stage_index s, ks_node s)) (kv_shard_rows m)"

definition object_leases :: "kv_mem \<Rightarrow> kv_id \<Rightarrow> kv_lease list" where
  "object_leases m oid = sql_select (\<lambda>l. kl_obj l = oid) kl_created_at (kv_leases m)"

fun jrat :: "rat option \<Rightarrow> json" where
  "jrat None = JNull"
| "jrat (Some r) = JFloat r"

fun jint :: "int option \<Rightarrow> json" where
  "jint None = JNull"
| "jint (Some i) = JInt i"

definition object_fields :: "kv_object \<Rightarrow> pydict" where
  "object_fields x =
     [(''namespace'', JStr (ko_namespace x)), (''kv_key'', JStr (ko_key x)), (''service_id'', JStr (ko_service x)),
      (''profile_id'', jopt (ko_profile x)), (''model_id'', jopt (ko_model x)), (''owner'', jopt (ko_owner x)),
      (''content_hash'', jopt (ko_content_hash x)), (''total_bytes'', JInt (ko_total_bytes x)),
      (''total_tokens'', JInt (ko_total_tokens x)), (''state'', JStr (ko_state x)),
      (''pin_count'', JInt (ko_pin_count x)), (''priority'', JInt (ko_priority x)),
      (''ttl_expires_at'', jrat (ko_ttl_expires_at x)), (''metadata'', JObj (ko_metadata x)),
      (''created_at'', JFloat (ko_created_at x)), (''updated_at'', JFloat (ko_updated_at x)),
      (''last_used_at'', JFloat (ko_last_used_at x))]"

definition external_kv_object_summary :: "kv_object \<Rightarrow> pydict" where
  "external_kv_object_summary x =
     (''format'', JStr ''ds4-external-kv-cache-object-summary-v1'') # object_fields x"

definition external_kv_shard_status :: "kv_shard \<Rightarrow> json" where
  "external_kv_shard_status s = JObj
     [(''namespace'', JStr (ks_namespace s)), (''kv_key'', JStr (ks_key s)), (''service_id'', JStr (ks_service s)),
      (''node_id'', JStr (ks_node s)), (''stage_index'', JInt (ks_stage_index s)),
      (''stage_count'', JInt (ks_stage_count s)), (''layer_start'', jint (ks_layer_start s)),
      (''layer_end'', jint (ks_layer_end s)), (''bytes'', JInt (ks_bytes s)), (''state'', JStr (ks_state s)),
      (''storage_uri'', jopt (ks_storage_uri s)), (''gpu_resident'', JBool (ks_gpu_resident s)),
      (''metadata'', JObj (ks_metadata s)), (''created_at'', JFloat (ks_created_at s)),
      (''updated_at'', JFloat (ks_updated_at s)), (''last_used_at'', JFloat (ks_last_used_at s))]"

definition lease_status :: "kv_lease \<Rightarrow> json" where
  "lease_status l = JObj
     [(''lease_id'', JStr (kl_id l)), (''mode'', JStr (kl_mode l)), (''owner'', jopt (kl_owner l)),
      (''expires_at'', JFloat (kl_expires_at l)), (''created_at'', JFloat (kl_created_at l))]"

definition external_kv_manifest :: "rat \<Rightarrow> kv_mem \<Rightarrow> kv_object \<Rightarrow> pydict" where
  "external_kv_manifest now m x =
     [(''format'', JStr ''ds4-external-kv-cache-object-v1'')] @ object_fields x @
     [(''routing'', JObj [(''sharding'', JStr ''pipeline_layers''), (''control_node_id'', JStr ''spark0''),
         (''data_plane'', JStr ''node_local_shards''), (''spark0_aggregates_shards'', JBool False),
         (''client_receives_shards'', JBool False)]),
      (''archive'', JObj [(''mode'', JStr ''node_local_shards''),
         (''object_manifest_on_control_node_only'', JBool True), (''shard_owner_is_node'', JBool True)]),
      (''shards'', JArr (map external_kv_shard_status (object_shards m (ko_id x)))),
      (''leases'', JArr (map lease_status (object_leases (purge_kv_leases now m) (ko_id x))))]"

definition missing_object :: "kv_id \<Rightarrow> pydict" where
  "missing_object oid = (case oid of (ns, key, svc) \<Rightarrow>
     [(''format'', JStr ''ds4-external-kv-cache-object-v1''), (''state'', JStr ''missing''),
      (''namespace'', JStr ns), (''kv_key'', JStr key), (''service_id'', JStr svc)])"

definition lookup_object :: "rat \<Rightarrow> kv_mem \<Rightarrow> kv_id \<Rightarrow> pydict" where
  "lookup_object now m oid =
     (case kv_find m oid of None \<Rightarrow> missing_object oid | Some x \<Rightarrow> external_kv_manifest now m x)"

definition external_kv_lookup :: "rat \<Rightarrow> kv_mem \<Rightarrow> string option \<Rightarrow> string option \<Rightarrow> string option \<Rightarrow> pydict result" where
  "external_kv_lookup now m ns key svc =
     bindE (require_kv_key key) (\<lambda>k.
       let n = normalize_namespace ns in
       case svc of
         Some s \<Rightarrow> Inr (lookup_object now m (n, k, s))
       | None \<Rightarrow>
           (let objs = map (external_kv_manifest now m)
                  (sql_select (\<lambda>x. ko_namespace x = n \<and> ko_key x = k) ko_service (kv_objects m))
            in Inr [(''format'', JStr ''ds4-external-kv-cache-lookup-v1''), (''namespace'', JStr n), (''kv_key'', JStr k),
                    (''objects'', JArr (map JObj objs)),
                    (''state'', JStr (if objs \<noteq> [] then ''found'' else ''missing''))]))"

text \<open>
  \<^verbatim>\<open>kv_key like prefix || '%'\<close>: SQL's pattern, where \<^verbatim>\<open>%\<close> and \<^verbatim>\<open>_\<close> in the
  prefix are wildcards and ASCII letters match in either case.
\<close>

definition ascii_lower :: "char \<Rightarrow> char" where
  "ascii_lower c = (let n = of_char c :: nat in if 65 \<le> n \<and> n \<le> 90 then char_of (n + 32) else c)"

fun sql_like :: "string \<Rightarrow> string \<Rightarrow> bool" where
  "sql_like [] s = (s = [])"
| "sql_like (p # ps) [] = (p = CHR ''%'' \<and> sql_like ps [])"
| "sql_like (p # ps) (c # s) =
     (if p = CHR ''%'' then sql_like ps (c # s) \<or> sql_like (p # ps) s
      else if p = CHR ''_'' then sql_like ps s
      else ascii_lower p = ascii_lower c \<and> sql_like ps s)"

definition opt_clause :: "'a option \<Rightarrow> ('a \<Rightarrow> 'r \<Rightarrow> bool) \<Rightarrow> ('r \<Rightarrow> bool) list" where
  "opt_clause x f = (case x of None \<Rightarrow> [] | Some v \<Rightarrow> [f v])"

definition external_kv_list ::
  "rat \<Rightarrow> kv_mem \<Rightarrow> string option \<Rightarrow> string option \<Rightarrow> string option \<Rightarrow> string option \<Rightarrow> string option \<Rightarrow> bool \<Rightarrow> int \<Rightarrow> pydict"
where
  "external_kv_list now m ns svc owner state prefix include_shards limit =
     (let n = normalize_namespace ns;
          clauses = [\<lambda>x. ko_namespace x = n]
            @ opt_clause svc (\<lambda>v x. ko_service x = v)
            @ opt_clause owner (\<lambda>v x. ko_owner x = Some v)
            @ opt_clause state (\<lambda>v x. ko_state x = v)
            @ opt_clause prefix (\<lambda>v x. sql_like (v @ ''%'') (ko_key x));
          rows = take (nat (max 1 (min 10000 limit)))
            (sql_select (sql_where clauses) (\<lambda>x. (ko_priority x, - ko_last_used_at x, - ko_updated_at x)) (kv_objects m));
          objs = map (\<lambda>x. if include_shards then external_kv_manifest now m x else external_kv_object_summary x) rows
      in [(''format'', JStr ''ds4-external-kv-cache-list-v1''), (''namespace'', JStr n), (''service_id'', jopt svc),
          (''owner'', jopt owner), (''state'', jopt state), (''prefix'', jopt prefix),
          (''objects'', JArr (map JObj objs)), (''count'', JInt (int (length objs)))])"

section \<open>Writing the catalogue\<close>

definition touch_object :: "rat \<Rightarrow> kv_object \<Rightarrow> kv_object" where
  "touch_object now x = x\<lparr>ko_updated_at := now, ko_last_used_at := now\<rparr>"

definition touch_shard :: "rat \<Rightarrow> kv_shard \<Rightarrow> kv_shard" where
  "touch_shard now s = s\<lparr>ks_updated_at := now, ks_last_used_at := now\<rparr>"

definition on_object :: "kv_id \<Rightarrow> (kv_object \<Rightarrow> kv_object) \<Rightarrow> kv_mem \<Rightarrow> kv_mem" where
  "on_object oid f m = m\<lparr>kv_objects := sql_update (\<lambda>x. ko_id x = oid) f (kv_objects m)\<rparr>"

definition on_shards :: "kv_id \<Rightarrow> (kv_shard \<Rightarrow> kv_shard) \<Rightarrow> kv_mem \<Rightarrow> kv_mem" where
  "on_shards oid f m = m\<lparr>kv_shard_rows := sql_update (\<lambda>s. ks_obj s = oid) f (kv_shard_rows m)\<rparr>"

definition missing_error :: py_error where
  "missing_error = ValueError ''external KV object is missing''"

record kv_declaration =
  kd_profile :: "string option"
  kd_model :: "string option"
  kd_owner :: "string option"
  kd_content_hash :: "string option"
  kd_total_bytes :: int
  kd_total_tokens :: int
  kd_state :: string
  kd_pin_count :: int
  kd_priority :: int
  kd_ttl_s :: "rat option"
  kd_metadata :: pydict
  kd_shards :: "pydict list"

definition declared_object :: "kv_id \<Rightarrow> rat \<Rightarrow> rat \<Rightarrow> kv_declaration \<Rightarrow> kv_object" where
  "declared_object oid now created d = (case oid of (ns, key, svc) \<Rightarrow>
     \<lparr>ko_namespace = ns, ko_key = key, ko_service = svc, ko_profile = kd_profile d, ko_model = kd_model d,
      ko_owner = kd_owner d, ko_content_hash = kd_content_hash d, ko_total_bytes = max 0 (kd_total_bytes d),
      ko_total_tokens = max 0 (kd_total_tokens d), ko_state = kd_state d, ko_pin_count = max 0 (kd_pin_count d),
      ko_priority = kd_priority d, ko_ttl_expires_at = map_option (\<lambda>t. now + max 0 t) (kd_ttl_s d),
      ko_metadata = kd_metadata d, ko_created_at = created, ko_updated_at = now, ko_last_used_at = now\<rparr>)"

definition put_object :: "kv_id \<Rightarrow> rat \<Rightarrow> kv_declaration \<Rightarrow> kv_object list \<Rightarrow> kv_object list" where
  \<comment> \<open>insert, or on conflict overwrite everything but \<^verbatim>\<open>created_at\<close>\<close>
  "put_object oid now d t =
     (if list_ex (\<lambda>x. ko_id x = oid) t
      then sql_update (\<lambda>x. ko_id x = oid) (\<lambda>x. declared_object oid now (ko_created_at x) d) t
      else t @ [declared_object oid now now d])"

definition insert_shards :: "kv_shard list \<Rightarrow> kv_shard list \<Rightarrow> kv_shard list result" where
  "insert_shards rows t = foldE (\<lambda>acc r. sql_insert ks_id r acc) t rows"

definition upsert_tables :: "rat \<Rightarrow> kv_id \<Rightarrow> kv_declaration \<Rightarrow> kv_mem \<Rightarrow> kv_mem result" where
  "upsert_tables now oid d m =
     bindE (validate_external_kv_shards (kd_shards d) (kd_total_bytes d)) (\<lambda>_.
     bindE (validate_partition_fingerprint (kd_metadata d) (kd_shards d)) (\<lambda>_.
     bindE (mapE (shard_row oid now (kd_state d) (int (length (kd_shards d)))) (kd_shards d)) (\<lambda>rows.
     bindE (insert_shards rows (sql_delete (\<lambda>s. ks_obj s = oid) (kv_shard_rows m))) (\<lambda>t.
       Inr (m\<lparr>kv_objects := put_object oid now d (kv_objects m), kv_shard_rows := t\<rparr>)))))"

definition upsert_external_kv_object ::
  "rat \<Rightarrow> string option \<Rightarrow> string option \<Rightarrow> string option \<Rightarrow> kv_declaration \<Rightarrow> kv_mem \<Rightarrow> (kv_mem \<times> pydict) result"
where
  "upsert_external_kv_object now ns key svc d m =
     with_kv_id ns key svc (\<lambda>oid.
       bindE (upsert_tables now oid d m) (\<lambda>m'. Inr (m', lookup_object now m' oid)))"

definition external_kv_touch ::
  "rat \<Rightarrow> string option \<Rightarrow> string option \<Rightarrow> string option \<Rightarrow> string option \<Rightarrow> string option \<Rightarrow> int option \<Rightarrow>
   rat option \<Rightarrow> pydict \<Rightarrow> kv_mem \<Rightarrow> (kv_mem \<times> pydict) result"
where
  "external_kv_touch now ns key svc owner state priority ttl_s metadata m =
     with_kv_id ns key svc (\<lambda>oid.
       case kv_find m oid of
         None \<Rightarrow> Inl missing_error
       | Some x \<Rightarrow>
           (let upd = (\<lambda>y. touch_object now y
                 \<lparr>ko_metadata := dupdate (ko_metadata x) metadata,
                  ko_owner := (case owner of None \<Rightarrow> ko_owner y | Some v \<Rightarrow> Some v),
                  ko_state := (case state of None \<Rightarrow> ko_state y | Some v \<Rightarrow> v),
                  ko_priority := (case priority of None \<Rightarrow> ko_priority y | Some v \<Rightarrow> v),
                  ko_ttl_expires_at := (case ttl_s of None \<Rightarrow> ko_ttl_expires_at y | Some v \<Rightarrow> Some (now + max 0 v))\<rparr>);
                m' = on_shards oid (touch_shard now) (on_object oid upd m)
            in Inr (m', lookup_object now m' oid)))"

definition external_kv_lease ::
  "rat \<Rightarrow> string \<Rightarrow> string option \<Rightarrow> string option \<Rightarrow> string option \<Rightarrow> string option \<Rightarrow> string \<Rightarrow> rat \<Rightarrow>
   kv_mem \<Rightarrow> (kv_mem \<times> pydict) result"
where
  \<comment> \<open>\<open>lease_id\<close> is the fresh identifier \<^verbatim>\<open>kvlease-<uuid4>\<close>\<close>
  "external_kv_lease now lease_id ns key svc owner mode ttl_s m =
     with_kv_id ns key svc (\<lambda>oid.
       if mode \<notin> {''read'', ''write'', ''prefetch'', ''pin''}
       then Inl (ValueError ''unsupported external KV lease mode'')
       else case kv_find m oid of
         None \<Rightarrow> Inl missing_error
       | Some x \<Rightarrow>
           (case oid of (n, k, s) \<Rightarrow>
            let m1 = purge_kv_leases now m;
                l = \<lparr>kl_id = lease_id, kl_namespace = n, kl_key = k, kl_service = s, kl_mode = mode, kl_owner = owner,
                     kl_expires_at = now + max 1 ttl_s, kl_created_at = now\<rparr>
            in bindE (sql_insert kl_id l (kv_leases m1)) (\<lambda>ls.
               let m2 = on_shards oid (touch_shard now) (on_object oid (touch_object now) (m1\<lparr>kv_leases := ls\<rparr>))
               in Inr (m2, dset ''lease'' (JObj [(''lease_id'', JStr lease_id), (''mode'', JStr mode),
                                (''owner'', jopt owner), (''expires_at'', JFloat (now + max 1 ttl_s))])
                           (external_kv_manifest now m2 x)))))"

definition external_kv_release :: "string \<Rightarrow> kv_mem \<Rightarrow> kv_mem \<times> pydict" where
  "external_kv_release lease_id m =
     (m\<lparr>kv_leases := sql_delete (\<lambda>l. kl_id l = lease_id) (kv_leases m)\<rparr>,
      [(''format'', JStr ''ds4-external-kv-cache-lease-v1''), (''lease_id'', JStr lease_id),
       (''released'', JBool (sql_count (\<lambda>l. kl_id l = lease_id) (kv_leases m) \<noteq> 0))])"

definition external_kv_transition ::
  "rat \<Rightarrow> string option \<Rightarrow> string option \<Rightarrow> string option \<Rightarrow> string \<Rightarrow> string option \<Rightarrow> pydict \<Rightarrow>
   kv_mem \<Rightarrow> (kv_mem \<times> pydict) result"
where
  "external_kv_transition now ns key svc state shard_state metadata m =
     with_kv_id ns key svc (\<lambda>oid.
       case kv_find m oid of
         None \<Rightarrow> Inl missing_error
       | Some x \<Rightarrow>
           (let m1 = on_object oid (\<lambda>y. touch_object now y\<lparr>ko_state := state, ko_metadata := dupdate (ko_metadata x) metadata\<rparr>) m;
                m2 = (case shard_state of None \<Rightarrow> m1
                      | Some st \<Rightarrow> on_shards oid (\<lambda>s. touch_shard now s\<lparr>ks_state := st\<rparr>) m1)
            in Inr (m2, lookup_object now m2 oid)))"

definition external_kv_pin ::
  "rat \<Rightarrow> string option \<Rightarrow> string option \<Rightarrow> string option \<Rightarrow> int \<Rightarrow> kv_mem \<Rightarrow> (kv_mem \<times> pydict) result"
where
  "external_kv_pin now ns key svc delta m =
     with_kv_id ns key svc (\<lambda>oid.
       case kv_find m oid of
         None \<Rightarrow> Inl missing_error
       | Some x \<Rightarrow>
           (let m1 = on_object oid (\<lambda>y. touch_object now y\<lparr>ko_pin_count := max 0 (ko_pin_count x + delta)\<rparr>) m
            in Inr (m1, lookup_object now m1 oid)))"

definition external_kv_evict ::
  "rat \<Rightarrow> string option \<Rightarrow> string option \<Rightarrow> string option \<Rightarrow> string option \<Rightarrow> kv_mem \<Rightarrow> (kv_mem \<times> pydict) result"
where
  "external_kv_evict now ns key svc reason m =
     with_kv_id ns key svc (\<lambda>oid.
       case kv_find m oid of
         None \<Rightarrow> Inr (m, missing_object oid)
       | Some x \<Rightarrow>
           if ko_pin_count x > 0 then Inl (ValueError ''cannot evict a pinned external KV object'')
           else
             (let why = (case reason of None \<Rightarrow> ''operator'' | Some r \<Rightarrow> if r = '''' then ''operator'' else r);
                  m1 = on_object oid (\<lambda>y. touch_object now y\<lparr>ko_state := ''evicted'', ko_metadata := [(''evicted_reason'', JStr why)]\<rparr>) m;
                  m2 = on_shards oid (\<lambda>s. touch_shard now s\<lparr>ks_state := ''evicted'', ks_gpu_resident := False\<rparr>) m1
              in Inr (m2, lookup_object now m2 oid)))"

definition shard_matches :: "kv_id \<Rightarrow> pydict \<Rightarrow> (kv_shard \<Rightarrow> bool) result" where
  "shard_matches oid upd =
     (if dget upd ''stage_index'' = JNull
      then Inr (\<lambda>s. ks_obj s = oid \<and> (dget upd ''node_id'' \<noteq> JNull \<longrightarrow> ks_node s = py_str (dget upd ''node_id'')))
      else bindE (py_int (dget upd ''stage_index'')) (\<lambda>i.
        Inr (\<lambda>s. ks_obj s = oid \<and> (dget upd ''node_id'' \<noteq> JNull \<longrightarrow> ks_node s = py_str (dget upd ''node_id''))
               \<and> ks_stage_index s = i)))"

definition shard_assign :: "rat \<Rightarrow> string \<Rightarrow> pydict \<Rightarrow> (kv_shard \<Rightarrow> kv_shard) result" where
  "shard_assign now default_state upd =
     bindE (if has_key upd ''bytes'' then bindE (py_int (por (dget upd ''bytes'') (JInt 0))) (\<lambda>b. Inr (Some (max 0 b))) else Inr None) (\<lambda>bytes.
     bindE (if has_key upd ''metadata'' then bindE (dict_field upd ''metadata'') (\<lambda>d. Inr (Some d)) else Inr None) (\<lambda>meta.
       Inr (\<lambda>s. touch_shard now s
         \<lparr>ks_state := str_or upd ''state'' default_state,
          ks_bytes := (case bytes of None \<Rightarrow> ks_bytes s | Some b \<Rightarrow> b),
          ks_storage_uri := (if has_key upd ''storage_uri'' then opt_str_field upd ''storage_uri'' else ks_storage_uri s),
          ks_gpu_resident := (if has_key upd ''gpu_resident'' then truthy (dget upd ''gpu_resident'') else ks_gpu_resident s),
          ks_metadata := (case meta of None \<Rightarrow> ks_metadata s | Some d \<Rightarrow> d)\<rparr>)))"

definition update_external_kv_shard ::
  "rat \<Rightarrow> kv_id \<Rightarrow> string \<Rightarrow> pydict \<Rightarrow> kv_shard list \<Rightarrow> (kv_shard list \<times> nat) result"
where
  "update_external_kv_shard now oid default_state upd t =
     bindE (shard_assign now default_state upd) (\<lambda>f.
     bindE (shard_matches oid upd) (\<lambda>p.
       Inr (sql_update p f t, sql_count p t)))"

definition ready_shard_states :: "string list" where
  "ready_shard_states = [''ready_on_ssd'', ''gpu_resident'', ''available'', ''archived'', ''ready'']"

definition external_kv_object_state_from_shards :: "kv_shard list \<Rightarrow> kv_id \<Rightarrow> string \<Rightarrow> string" where
  "external_kv_object_state_from_shards t oid requested =
     (let states = map ks_state (filter (\<lambda>s. ks_obj s = oid) t)
      in if states = [] then ''missing_shards''
         else if list_all (\<lambda>s. s \<in> set ready_shard_states) states then requested
         else if list_ex (\<lambda>s. s \<in> {''failed'', ''corrupt'', ''missing''}) states then ''degraded''
         else ''partial'')"

definition apply_shard_update :: "rat \<Rightarrow> kv_id \<Rightarrow> string \<Rightarrow> kv_shard list \<Rightarrow> pydict \<Rightarrow> kv_shard list result" where
  "apply_shard_update now oid shard_state t upd =
     bindE (update_external_kv_shard now oid shard_state upd t) (\<lambda>(t', changed).
       if changed \<noteq> 1 \<and> (dget upd ''node_id'' \<noteq> JNull \<or> dget upd ''stage_index'' \<noteq> JNull)
       then Inl (ValueError ''expected exactly one external KV shard update'')
       else Inr t')"

definition external_kv_commit_shards ::
  "rat \<Rightarrow> string option \<Rightarrow> string option \<Rightarrow> string option \<Rightarrow> string \<Rightarrow> string \<Rightarrow> pydict list \<Rightarrow>
   kv_mem \<Rightarrow> (kv_mem \<times> pydict) result"
where
  "external_kv_commit_shards now ns key svc object_state shard_state updates m =
     with_kv_id ns key svc (\<lambda>oid.
       case kv_find m oid of
         None \<Rightarrow> Inl missing_error
       | Some x \<Rightarrow>
           bindE (if updates = []
                  then Inr (sql_update (\<lambda>s. ks_obj s = oid) (\<lambda>s. touch_shard now s\<lparr>ks_state := shard_state\<rparr>) (kv_shard_rows m))
                  else foldE (apply_shard_update now oid shard_state) (kv_shard_rows m) updates) (\<lambda>t.
             let st = external_kv_object_state_from_shards t oid object_state;
                 total = sql_sum ks_bytes (\<lambda>s. ks_obj s = oid) t;
                 m1 = on_object oid (\<lambda>y. touch_object now y\<lparr>ko_state := st, ko_total_bytes := total\<rparr>) (m\<lparr>kv_shard_rows := t\<rparr>)
             in Inr (m1, lookup_object now m1 oid)))"

text \<open>\<^verbatim>\<open>_recover_prefetch_manifests_locked\<close>: prefetches in flight at a restart become declared again.\<close>

definition prefetch_pending :: "string \<Rightarrow> bool" where
  "prefetch_pending st \<longleftrightarrow> st \<in> {''prefetch_requested'', ''prefetch_inflight''}"

definition recover_prefetch_manifests :: "rat \<Rightarrow> rat \<Rightarrow> kv_mem \<Rightarrow> kv_mem \<times> nat \<times> nat" where
  "recover_prefetch_manifests stale_s now m =
     (let po = (\<lambda>x. prefetch_pending (ko_state x) \<and> (stale_s > 0 \<longrightarrow> ko_updated_at x \<le> now - stale_s));
          ps = (\<lambda>s. prefetch_pending (ks_state s) \<and> (stale_s > 0 \<longrightarrow> ks_updated_at s \<le> now - stale_s))
      in (m\<lparr>kv_objects := sql_update po (\<lambda>x. touch_object now x\<lparr>ko_state := ''declared''\<rparr>) (kv_objects m),
            kv_shard_rows := sql_update ps (\<lambda>s. touch_shard now s\<lparr>ks_state := ''declared'', ks_gpu_resident := False\<rparr>) (kv_shard_rows m)\<rparr>,
          sql_count po (kv_objects m), sql_count ps (kv_shard_rows m)))"

end
