(* ===== verification/Kv_Contract.thy ===== *)
theory Kv_Contract
  imports Kv_Memory
begin

text \<open>
  What the external KV catalogue promises: which shard manifests are accepted, what a declaration
  leaves behind, that every operation keeps the tables well formed, that pins protect an object from
  eviction, and what a commit of shards says of the object.
\<close>

section \<open>Shard manifests\<close>

definition key_place :: "string \<times> int \<times> int \<Rightarrow> string \<times> int" where
  "key_place k = (fst k, fst (snd k))"

lemma key_place_simp [simp]: "key_place (node, i, c) = (node, i)"
  by (simp add: key_place_def)

lemma scan_shards_Inr:
  "scan_shards n seen counts shards = Inr cs \<Longrightarrow>
     \<exists>keys. mapE (shard_key n) shards = Inr keys \<and> distinct (map key_place keys) \<and>
       set (map key_place keys) \<inter> set seen = {} \<and> set cs = set counts \<union> (snd \<circ> snd) ` set keys \<and>
       (distinct counts \<longrightarrow> distinct cs)"
proof (induction shards arbitrary: seen counts)
  case Nil
  then show ?case by simp
next
  case (Cons sh rest)
  from Cons.prems obtain node i c where k: "shard_key n sh = Inr (node, i, c)"
      and new: "(node, i) \<notin> set seen"
      and rest: "scan_shards n ((node, i) # seen) (List.insert c counts) rest = Inr cs"
    by (auto simp: bindE_eq_Inr split: if_splits)
  from Cons.IH [OF rest] obtain keys where
      "mapE (shard_key n) rest = Inr keys" "distinct (map key_place keys)"
      "set (map key_place keys) \<inter> set ((node, i) # seen) = {}"
      "set cs = set (List.insert c counts) \<union> (snd \<circ> snd) ` set keys"
      "distinct (List.insert c counts) \<longrightarrow> distinct cs"
    by blast
  with k new show ?case
    by (intro exI [of _ "(node, i, c) # keys"]) auto
qed

lemma scan_shards_complete:
  "mapE (shard_key n) shards = Inr keys \<Longrightarrow> distinct (map key_place keys) \<Longrightarrow>
     set (map key_place keys) \<inter> set seen = {} \<Longrightarrow> \<exists>cs. scan_shards n seen counts shards = Inr cs"
proof (induction shards arbitrary: seen counts keys)
  case Nil
  then show ?case by simp
next
  case (Cons sh rest)
  from Cons.prems(1) obtain node i c ks where k: "shard_key n sh = Inr (node, i, c)"
      and ks: "mapE (shard_key n) rest = Inr ks" "keys = (node, i, c) # ks"
    by (auto simp: bindE_eq_Inr)
  have "set (map key_place ks) \<inter> set ((node, i) # seen) = {}"
    using Cons.prems(2,3) ks(2) by auto
  with Cons.IH [OF ks(1), of "(node, i) # seen"] Cons.prems(2,3) k ks(2) show ?case
    by auto
qed

lemma shard_key_Inr:
  "shard_key n sh = Inr (node, i, c) \<Longrightarrow>
     node = str_or sh ''node_id'' '''' \<and> node \<noteq> '''' \<and> 0 \<le> i \<and> i < c \<and>
     int_field sh ''stage_index'' 0 = Inr i \<and> int_field sh ''stage_count'' n = Inr c"
  by (auto simp: shard_key_def Let_def bindE_eq_Inr split: if_splits)

definition manifest_ok :: "pydict list \<Rightarrow> int \<Rightarrow> (string \<times> int \<times> int) list \<Rightarrow> bool" where
  \<comment> \<open>what an accepted manifest looks like; \<open>keys\<close> are its entries' node, stage and stage count\<close>
  "manifest_ok shards total_bytes keys \<longleftrightarrow>
     shards \<noteq> [] \<and> mapE (shard_key (int (length shards))) shards = Inr keys \<and>
     distinct (map key_place keys) \<and> (\<forall>k \<in> set keys. snd (snd k) = int (length shards)) \<and>
     (0 < total_bytes \<longrightarrow> 1 < length shards \<longrightarrow>
        length shards \<le> length (remdups (map (\<lambda>s. py_str (dget s ''node_id'')) shards)))"

lemma singleton_list_set: "distinct cs \<Longrightarrow> set cs = {c} \<Longrightarrow> cs = [c]"
  by (cases cs; cases "tl cs") auto

lemma validate_shards_iff:
  "validate_external_kv_shards shards total_bytes = Inr () \<longleftrightarrow> (\<exists>keys. manifest_ok shards total_bytes keys)"
  (is "?lhs \<longleftrightarrow> ?rhs")
proof
  assume ?lhs
  then have ne: "shards \<noteq> []" by (auto simp: validate_external_kv_shards_def)
  obtain cs where scan: "scan_shards (int (length shards)) [] [] shards = Inr cs"
    using \<open>?lhs\<close> ne by (cases "scan_shards (int (length shards)) [] [] shards") (auto simp: validate_external_kv_shards_def)
  have c: "cs = [int (length shards)]"
    and nodes: "\<not> (0 < total_bytes \<and> 1 < int (length shards) \<and>
        int (length (remdups (map (\<lambda>s. py_str (dget s ''node_id'')) shards))) < int (length shards))"
    using \<open>?lhs\<close> ne scan by (auto simp: validate_external_kv_shards_def Let_def split: if_splits list.splits)
  from scan_shards_Inr [OF scan] obtain keys where
      keys: "mapE (shard_key (int (length shards))) shards = Inr keys" "distinct (map key_place keys)"
      "set cs = (snd \<circ> snd) ` set keys"
    by auto
  have "\<forall>k \<in> set keys. snd (snd k) = int (length shards)"
    using keys(3) c by auto
  then show ?rhs using ne keys nodes unfolding manifest_ok_def
    by (intro exI [of _ keys]) auto
next
  assume ?rhs
  then obtain keys where ok: "manifest_ok shards total_bytes keys" by blast
  let ?n = "int (length shards)"
  from ok have m: "mapE (shard_key ?n) shards = Inr keys" "distinct (map key_place keys)"
    by (auto simp: manifest_ok_def)
  then obtain cs where cs: "scan_shards ?n [] [] shards = Inr cs"
    using scan_shards_complete [of ?n shards keys "[]" "[]"] by auto
  from scan_shards_Inr [OF cs] m(1) have "set cs = (snd \<circ> snd) ` set keys" and "distinct cs"
    by auto
  moreover have ne: "keys \<noteq> []" using m(1) ok mapE_Inr_length [OF m(1)] by (auto simp: manifest_ok_def)
  moreover from ne obtain a b c where "(a, b, c) \<in> set keys" by (cases keys) auto
  ultimately have "cs = [?n]" using ok
    by (intro singleton_list_set) (auto simp: manifest_ok_def image_iff)
  then show ?lhs using ok cs
    by (auto simp: validate_external_kv_shards_def manifest_ok_def)
qed

section \<open>Finding rows\<close>

lemma declared_object_id [simp]: "ko_id (declared_object oid now cr d) = oid"
  by (cases oid) (simp add: declared_object_def ko_id_def)

lemma touch_object_id [simp]: "ko_id (touch_object now x) = ko_id x"
  by (simp add: touch_object_def ko_id_def)

lemma touch_shard_id [simp]: "ks_id (touch_shard now s) = ks_id s" "ks_obj (touch_shard now s) = ks_obj s"
  by (simp_all add: touch_shard_def ks_id_def ks_obj_def)

lemma ko_id_upd [simp]:
  "ko_id (x\<lparr>ko_metadata := a\<rparr>) = ko_id x" "ko_id (x\<lparr>ko_state := b\<rparr>) = ko_id x"
  "ko_id (x\<lparr>ko_pin_count := c\<rparr>) = ko_id x" "ko_id (x\<lparr>ko_owner := e\<rparr>) = ko_id x"
  "ko_id (x\<lparr>ko_priority := g\<rparr>) = ko_id x" "ko_id (x\<lparr>ko_ttl_expires_at := h\<rparr>) = ko_id x"
  "ko_id (x\<lparr>ko_total_bytes := i\<rparr>) = ko_id x"
  by (simp_all add: ko_id_def)

lemma ks_id_upd [simp]:
  "ks_id (s\<lparr>ks_state := a\<rparr>) = ks_id s" "ks_id (s\<lparr>ks_bytes := b\<rparr>) = ks_id s"
  "ks_id (s\<lparr>ks_storage_uri := c\<rparr>) = ks_id s" "ks_id (s\<lparr>ks_gpu_resident := e\<rparr>) = ks_id s"
  "ks_id (s\<lparr>ks_metadata := g\<rparr>) = ks_id s"
  "ks_obj (s\<lparr>ks_state := a\<rparr>) = ks_obj s" "ks_obj (s\<lparr>ks_bytes := b\<rparr>) = ks_obj s"
  "ks_obj (s\<lparr>ks_storage_uri := c\<rparr>) = ks_obj s" "ks_obj (s\<lparr>ks_gpu_resident := e\<rparr>) = ks_obj s"
  "ks_obj (s\<lparr>ks_metadata := g\<rparr>) = ks_obj s"
  by (simp_all add: ks_id_def ks_obj_def)

lemma with_kv_id_Inr:
  "with_kv_id ns key svc f = Inr y \<longleftrightarrow>
     (\<exists>k s. key = Some k \<and> k \<noteq> '''' \<and> svc = Some s \<and> s \<noteq> '''' \<and> f (normalize_namespace ns, k, s) = Inr y)"
  by (auto simp: with_kv_id_def require_kv_key_def require_service_id_def bindE_eq_Inr split: option.splits)

section \<open>Declaration\<close>

lemma shard_row_Inr:
  assumes "shard_row oid now st n sh = Inr r"
  shows "ks_obj r = oid \<and> ks_node r = py_str (dget sh ''node_id'') \<and>
     int_field sh ''stage_index'' 0 = Inr (ks_stage_index r) \<and>
     int_field sh ''stage_count'' n = Inr (ks_stage_count r) \<and> 0 \<le> ks_bytes r"
  using assms by (cases oid) (auto simp: shard_row_def bindE_eq_Inr ks_obj_def)

lemma insert_shards_distinct:
  assumes "sql_keyed ks_id t" "distinct (map ks_id rows)" "set (map ks_id rows) \<inter> set (map ks_id t) = {}"
  shows "insert_shards rows t = Inr (t @ rows)"
  using assms
proof (induction rows arbitrary: t)
  case Nil
  then show ?case by (simp add: insert_shards_def)
next
  case (Cons r rows)
  have new: "\<forall>x \<in> set t. ks_id x \<noteq> ks_id r" 
  proof -
    have "ks_id r \<notin> ks_id ` set t" using Cons.prems(3) by auto
    then show ?thesis by (metis image_eqI)
  qed
  then have ins: "sql_insert ks_id r t = Inr (t @ [r])" by (simp add: sql_insert_Inr)
  have "insert_shards rows (t @ [r]) = Inr ((t @ [r]) @ rows)"
  proof (rule Cons.IH)
    show "sql_keyed ks_id (t @ [r])" using Cons.prems(1) new by (simp add: sql_keyed_append1)
    show "distinct (map ks_id rows)" using Cons.prems(2) by simp
    show "set (map ks_id rows) \<inter> set (map ks_id (t @ [r])) = {}" using Cons.prems(2,3) by auto
  qed
  then show ?case using ins by (simp add: insert_shards_def)
qed

lemma str_or_truthy: "str_or sh k '''' \<noteq> '''' \<Longrightarrow> py_str (dget sh k) = str_or sh k ''''"
  by (auto simp: str_or_def por_def split: if_splits)

lemma shard_rows_places:
  assumes "list_all2 (\<lambda>sh k. shard_key n sh = Inr k) shards keys"
    and "list_all2 (\<lambda>sh r. shard_row oid now st n sh = Inr r) shards rows"
  shows "map (\<lambda>r. (ks_node r, ks_stage_index r)) rows = map key_place keys \<and>
     map ks_stage_count rows = map (snd \<circ> snd) keys \<and> (\<forall>r \<in> set rows. ks_obj r = oid \<and> 0 \<le> ks_bytes r \<and>
       0 \<le> ks_stage_index r \<and> ks_stage_index r < ks_stage_count r)"
  using assms
proof (induction shards arbitrary: keys rows)
  case Nil
  then show ?case by simp
next
  case (Cons sh shards)
  from Cons.prems(1) obtain node i c ks where keys: "keys = (node, i, c) # ks"
      and k: "shard_key n sh = Inr (node, i, c)" and k2: "list_all2 (\<lambda>sh k. shard_key n sh = Inr k) shards ks"
    by (auto simp: list_all2_Cons1)
  from Cons.prems(2) obtain r rs where rows: "rows = r # rs" and r: "shard_row oid now st n sh = Inr r"
      and r2: "list_all2 (\<lambda>sh r. shard_row oid now st n sh = Inr r) shards rs"
    by (auto simp: list_all2_Cons1)
  have "ks_node r = node" "ks_stage_index r = i" "ks_stage_count r = c" "ks_obj r = oid" "0 \<le> ks_bytes r" "0 \<le> i" "i < c"
    using shard_key_Inr [OF k] shard_row_Inr [OF r] str_or_truthy [of sh "''node_id''"] by auto
  then show ?case using Cons.IH [OF k2 r2] keys rows by (simp add: key_place_def)
qed

lemma upsert_rows:
  assumes v: "validate_external_kv_shards (kd_shards d) (kd_total_bytes d) = Inr ()"
    and rows: "mapE (shard_row oid now (kd_state d) (int (length (kd_shards d)))) (kd_shards d) = Inr rows"
  shows "length rows = length (kd_shards d) \<and> distinct (map ks_id rows) \<and>
     (\<forall>r \<in> set rows. ks_obj r = oid \<and> ks_stage_count r = int (length rows) \<and> 0 \<le> ks_bytes r \<and>
        0 \<le> ks_stage_index r \<and> ks_stage_index r < ks_stage_count r)"
proof -
  from v obtain keys where ok: "manifest_ok (kd_shards d) (kd_total_bytes d) keys"
    by (auto simp: validate_shards_iff)
  let ?n = "int (length (kd_shards d))"
  have k2: "list_all2 (\<lambda>sh k. shard_key ?n sh = Inr k) (kd_shards d) keys"
    using ok by (simp add: manifest_ok_def mapE_Inr_list_all2)
  have r2: "list_all2 (\<lambda>sh r. shard_row oid now (kd_state d) ?n sh = Inr r) (kd_shards d) rows"
    using rows by (simp add: mapE_Inr_list_all2)
  note pl = shard_rows_places [OF k2 r2]
  have len: "length rows = length (kd_shards d)" using mapE_Inr_length [OF rows] .
  have "map ks_id rows = map (\<lambda>r. (oid, ks_node r, ks_stage_index r)) rows"
    using pl by (auto simp: ks_id_def)
  moreover have "distinct (map (\<lambda>r. (ks_node r, ks_stage_index r)) rows)"
    using pl ok by (simp add: manifest_ok_def)
  ultimately have "distinct (map ks_id rows)"
    by (simp add: distinct_map inj_on_def)
  moreover have "\<forall>r \<in> set rows. ks_stage_count r = ?n"
  proof
    fix r assume "r \<in> set rows"
    then have "ks_stage_count r \<in> set (map (snd \<circ> snd) keys)" using pl by (metis image_eqI list.set_map)
    then show "ks_stage_count r = ?n" using ok by (auto simp: manifest_ok_def)
  qed
  ultimately show ?thesis using pl len by auto
qed

lemma upsert_tables_Inr:
  assumes wf: "sql_keyed ks_id (kv_shard_rows m)" and up: "upsert_tables now oid d m = Inr m'"
  obtains rows where
    "validate_external_kv_shards (kd_shards d) (kd_total_bytes d) = Inr ()"
    "mapE (shard_row oid now (kd_state d) (int (length (kd_shards d)))) (kd_shards d) = Inr rows"
    "m' = m\<lparr>kv_objects := put_object oid now d (kv_objects m),
            kv_shard_rows := sql_delete (\<lambda>s. ks_obj s = oid) (kv_shard_rows m) @ rows\<rparr>"
proof -
  from up obtain rows t where v: "validate_external_kv_shards (kd_shards d) (kd_total_bytes d) = Inr ()"
      and rows: "mapE (shard_row oid now (kd_state d) (int (length (kd_shards d)))) (kd_shards d) = Inr rows"
      and t: "insert_shards rows (sql_delete (\<lambda>s. ks_obj s = oid) (kv_shard_rows m)) = Inr t"
      and m': "m' = m\<lparr>kv_objects := put_object oid now d (kv_objects m), kv_shard_rows := t\<rparr>"
    by (auto simp: upsert_tables_def bindE_eq_Inr)
  have "t = sql_delete (\<lambda>s. ks_obj s = oid) (kv_shard_rows m) @ rows"
  proof -
    have "insert_shards rows (sql_delete (\<lambda>s. ks_obj s = oid) (kv_shard_rows m)) =
        Inr (sql_delete (\<lambda>s. ks_obj s = oid) (kv_shard_rows m) @ rows)"
    proof (rule insert_shards_distinct)
      show "sql_keyed ks_id (sql_delete (\<lambda>s. ks_obj s = oid) (kv_shard_rows m))"
        using wf by (rule sql_keyed_delete)
      show "distinct (map ks_id rows)" using upsert_rows [OF v rows] by simp
      show "set (map ks_id rows) \<inter> set (map ks_id (sql_delete (\<lambda>s. ks_obj s = oid) (kv_shard_rows m))) = {}"
        using upsert_rows [OF v rows] by (auto simp: ks_id_def)
    qed
    then show ?thesis using t by simp
  qed
  then show thesis using that v rows m' by blast
qed

lemma kv_find_put_object:
  "find (\<lambda>x. ko_id x = oid') (put_object oid now d t) =
     (if oid' = oid
      then Some (declared_object oid now (case find (\<lambda>x. ko_id x = oid) t of None \<Rightarrow> now | Some x \<Rightarrow> ko_created_at x) d)
      else find (\<lambda>x. ko_id x = oid') t)"
proof (cases "find (\<lambda>x. ko_id x = oid) t")
  case None
  then have "\<not> list_ex (\<lambda>x. ko_id x = oid) t" by (auto simp: find_None_iff list_ex_iff)
  then show ?thesis using None by (auto simp: put_object_def find_append split: option.splits)
next
  case (Some x)
  then have ex: "list_ex (\<lambda>x. ko_id x = oid) t" and x: "ko_id x = oid"
    using find_key_Some [OF Some] by (auto simp: list_ex_iff)
  have upd: "find (\<lambda>x. ko_id x = oid') (put_object oid now d t) =
      map_option (\<lambda>x. if ko_id x = oid then declared_object oid now (ko_created_at x) d else x)
        (find (\<lambda>x. ko_id x = oid') t)"
    using ex by (simp add: put_object_def find_map_update [where key = ko_id])
  show ?thesis
  proof (cases "oid' = oid")
    case True
    then show ?thesis using upd Some x by simp
  next
    case False
    then show ?thesis using upd find_key_Some [of ko_id oid' t]
      by (cases "find (\<lambda>x. ko_id x = oid') t") auto
  qed
qed

lemma object_shards_append:
  "object_shards (m\<lparr>kv_shard_rows := sql_delete (\<lambda>s. ks_obj s = oid) t @ rows\<rparr>) oid' =
     sort_key (\<lambda>s. (ks_stage_index s, ks_node s))
       (filter (\<lambda>s. ks_obj s = oid' \<and> oid' \<noteq> oid) t @ filter (\<lambda>s. ks_obj s = oid') rows)"
  by (auto simp: object_shards_def sql_select_def sql_delete_def intro!: arg_cong [where f = "sort_key _"] filter_cong)

text \<open>
  A declaration is found again: the object carries the declared fields (and the creation time of the
  object it replaces), its shards are exactly the declared ones in stage order, and every other
  object and its shards are untouched.
\<close>

lemma upsert_lookup:
  assumes "sql_keyed ks_id (kv_shard_rows m)" and "upsert_tables now oid d m = Inr m'"
  shows "kv_find m' oid =
      Some (declared_object oid now (case kv_find m oid of None \<Rightarrow> now | Some x \<Rightarrow> ko_created_at x) d)"
    and "\<exists>rows. mapE (shard_row oid now (kd_state d) (int (length (kd_shards d)))) (kd_shards d) = Inr rows \<and>
      object_shards m' oid = sort_key (\<lambda>s. (ks_stage_index s, ks_node s)) rows"
    and "oid' \<noteq> oid \<Longrightarrow> kv_find m' oid' = kv_find m oid' \<and> object_shards m' oid' = object_shards m oid'"
proof -
  obtain rows where v: "validate_external_kv_shards (kd_shards d) (kd_total_bytes d) = Inr ()"
    and rows: "mapE (shard_row oid now (kd_state d) (int (length (kd_shards d)))) (kd_shards d) = Inr rows"
    and m': "m' = m\<lparr>kv_objects := put_object oid now d (kv_objects m),
            kv_shard_rows := sql_delete (\<lambda>s. ks_obj s = oid) (kv_shard_rows m) @ rows\<rparr>"
    using upsert_tables_Inr [OF assms] .
  have objs: "\<forall>r \<in> set rows. ks_obj r = oid" using upsert_rows [OF v rows] by simp
  have sh: "object_shards m' o2 = sort_key (\<lambda>s. (ks_stage_index s, ks_node s))
       (filter (\<lambda>s. ks_obj s = o2 \<and> o2 \<noteq> oid) (kv_shard_rows m) @ filter (\<lambda>s. ks_obj s = o2) rows)" for o2
    using object_shards_append [where m = m and oid = oid and t = "kv_shard_rows m" and rows = rows and oid' = o2] by (simp add: m' object_shards_def)
  show "kv_find m' oid =
      Some (declared_object oid now (case kv_find m oid of None \<Rightarrow> now | Some x \<Rightarrow> ko_created_at x) d)"
    by (simp add: m' kv_find_def kv_find_put_object)
  have "filter (\<lambda>s. ks_obj s = oid) rows = rows" using objs by (simp add: filter_id_conv)
  then show "\<exists>rows. mapE (shard_row oid now (kd_state d) (int (length (kd_shards d)))) (kd_shards d) = Inr rows \<and>
      object_shards m' oid = sort_key (\<lambda>s. (ks_stage_index s, ks_node s)) rows"
    using rows sh [of oid] by auto
  assume ne: "oid' \<noteq> oid"
  then have "filter (\<lambda>s. ks_obj s = oid') rows = []" using objs by (auto simp: filter_empty_conv)
  then have "object_shards m' oid' = object_shards m oid'"
    using ne sh [of oid'] by (simp add: object_shards_def sql_select_def)
  then show "kv_find m' oid' = kv_find m oid' \<and> object_shards m' oid' = object_shards m oid'"
    using ne by (simp add: m' kv_find_def kv_find_put_object)
qed

section \<open>Steps and the table invariant\<close>

inductive kv_step :: "kv_mem \<Rightarrow> kv_mem \<Rightarrow> bool" where
  upsert: "upsert_external_kv_object now ns key svc d m = Inr (m', out) \<Longrightarrow> kv_step m m'"
| touch: "external_kv_touch now ns key svc owner state prio ttl md m = Inr (m', out) \<Longrightarrow> kv_step m m'"
| lease: "external_kv_lease now lid ns key svc owner mode ttl m = Inr (m', out) \<Longrightarrow> kv_step m m'"
| release: "external_kv_release lid m = (m', out) \<Longrightarrow> kv_step m m'"
| transition: "external_kv_transition now ns key svc state shst md m = Inr (m', out) \<Longrightarrow> kv_step m m'"
| pin: "external_kv_pin now ns key svc delta m = Inr (m', out) \<Longrightarrow> kv_step m m'"
| evict: "external_kv_evict now ns key svc reason m = Inr (m', out) \<Longrightarrow> kv_step m m'"
| commit: "external_kv_commit_shards now ns key svc ost sst ups m = Inr (m', out) \<Longrightarrow> kv_step m m'"
| recover: "recover_prefetch_manifests stale now m = (m', a, b) \<Longrightarrow> kv_step m m'"

definition kv_object_ok :: "kv_object \<Rightarrow> bool" where
  "kv_object_ok x \<longleftrightarrow> 0 \<le> ko_pin_count x \<and> 0 \<le> ko_total_bytes x \<and> 0 \<le> ko_total_tokens x"

definition kv_shard_ok :: "kv_shard \<Rightarrow> bool" where
  "kv_shard_ok s \<longleftrightarrow> 0 \<le> ks_bytes s \<and> 0 \<le> ks_stage_index s \<and> ks_stage_index s < ks_stage_count s"

definition kv_wf :: "kv_mem \<Rightarrow> bool" where
  "kv_wf m \<longleftrightarrow> sql_keyed ko_id (kv_objects m) \<and> sql_keyed ks_id (kv_shard_rows m) \<and>
     sql_keyed kl_id (kv_leases m) \<and>
     list_all kv_object_ok (kv_objects m) \<and> list_all kv_shard_ok (kv_shard_rows m) \<and>
     ks_obj ` set (kv_shard_rows m) \<subseteq> ko_id ` set (kv_objects m)"

lemma kv_wf_empty: "kv_wf empty_kv_mem"
  by (simp add: kv_wf_def empty_kv_mem_def)

lemma list_all_sql_update:
  "list_all P t \<Longrightarrow> (\<And>r. P r \<Longrightarrow> Q r \<Longrightarrow> P (f r)) \<Longrightarrow> list_all P (sql_update Q f t)"
  by (induction t) auto

lemma list_all_after_update:
  "(\<And>r. Q r \<Longrightarrow> P (f r)) \<Longrightarrow> list_all (\<lambda>r. Q r \<longrightarrow> P r) (sql_update Q f t)"
  by (induction t) auto

lemma image_sql_update_same:
  "(\<And>r. Q r \<Longrightarrow> g (f r) = g r) \<Longrightarrow> g ` set (sql_update Q f t) = g ` set t"
  by (induction t) auto

lemma kv_wf_on_object:
  assumes "kv_wf m" and "\<And>x. ko_id (f x) = ko_id x"
    and "\<And>x. kv_object_ok x \<Longrightarrow> kv_object_ok (f x)"
  shows "kv_wf (on_object oid f m)"
  using assms by (auto simp: kv_wf_def on_object_def sql_keyed_update list_all_sql_update image_sql_update_same)

lemma kv_wf_on_shards:
  assumes "kv_wf m" and "\<And>s. ks_id (f s) = ks_id s" and "\<And>s. ks_obj (f s) = ks_obj s"
    and "\<And>s. kv_shard_ok s \<Longrightarrow> kv_shard_ok (f s)"
  shows "kv_wf (on_shards oid f m)"
  using assms by (auto simp: kv_wf_def on_shards_def sql_keyed_update list_all_sql_update image_sql_update_same)

lemma kv_object_ok_upd [simp]:
  "kv_object_ok (touch_object now x) = kv_object_ok x"
  "kv_object_ok (x\<lparr>ko_metadata := a\<rparr>) = kv_object_ok x" "kv_object_ok (x\<lparr>ko_state := b\<rparr>) = kv_object_ok x"
  "kv_object_ok (x\<lparr>ko_owner := e\<rparr>) = kv_object_ok x" "kv_object_ok (x\<lparr>ko_priority := g\<rparr>) = kv_object_ok x"
  "kv_object_ok (x\<lparr>ko_ttl_expires_at := h\<rparr>) = kv_object_ok x"
  by (simp_all add: kv_object_ok_def touch_object_def)

lemma kv_shard_ok_upd [simp]:
  "kv_shard_ok (touch_shard now s) = kv_shard_ok s"
  "kv_shard_ok (s\<lparr>ks_state := a\<rparr>) = kv_shard_ok s" "kv_shard_ok (s\<lparr>ks_storage_uri := c\<rparr>) = kv_shard_ok s"
  "kv_shard_ok (s\<lparr>ks_gpu_resident := e\<rparr>) = kv_shard_ok s" "kv_shard_ok (s\<lparr>ks_metadata := g\<rparr>) = kv_shard_ok s"
  by (simp_all add: kv_shard_ok_def touch_shard_def)

lemma kv_wf_upsert:
  assumes "kv_wf m" and "upsert_tables now oid d m = Inr m'"
  shows "kv_wf m'"
proof -
  have keyed: "sql_keyed ks_id (kv_shard_rows m)" using assms(1) by (simp add: kv_wf_def)
  obtain rows where v: "validate_external_kv_shards (kd_shards d) (kd_total_bytes d) = Inr ()"
    and rows: "mapE (shard_row oid now (kd_state d) (int (length (kd_shards d)))) (kd_shards d) = Inr rows"
    and m': "m' = m\<lparr>kv_objects := put_object oid now d (kv_objects m),
            kv_shard_rows := sql_delete (\<lambda>s. ks_obj s = oid) (kv_shard_rows m) @ rows\<rparr>"
    using upsert_tables_Inr [OF keyed assms(2)] .
  note r = upsert_rows [OF v rows]
  let ?old = "sql_delete (\<lambda>s. ks_obj s = oid) (kv_shard_rows m)"
  have "kv_object_ok (declared_object oid now c d)" for c
    by (cases oid) (simp add: kv_object_ok_def declared_object_def)
  then have "list_all kv_object_ok (put_object oid now d (kv_objects m))"
    using assms(1) by (auto simp: put_object_def kv_wf_def list_all_sql_update)
  moreover have "sql_keyed ko_id (put_object oid now d (kv_objects m))"
    using assms(1) by (auto simp: put_object_def kv_wf_def sql_keyed_update sql_keyed_append1 list_ex_iff)
  moreover have ids: "insert oid (ko_id ` set (kv_objects m)) \<subseteq> ko_id ` set (put_object oid now d (kv_objects m))"
    by (auto simp: put_object_def image_sql_update_same list_ex_iff)
  moreover have "sql_keyed ks_id (?old @ rows)"
  proof -
    have "sql_keyed ks_id ?old" using keyed by (rule sql_keyed_delete)
    moreover have "set (map ks_id ?old) \<inter> set (map ks_id rows) = {}"
      using r by (auto simp: ks_id_def)
    ultimately show ?thesis using r by (simp add: sql_keyed_def)
  qed
  moreover have "list_all kv_shard_ok (?old @ rows)"
    using assms(1) r by (auto simp: kv_wf_def list_all_iff kv_shard_ok_def)
  moreover have "ks_obj ` set (?old @ rows) \<subseteq> ko_id ` set (put_object oid now d (kv_objects m))"
  proof -
    have "ks_obj ` set ?old \<subseteq> ko_id ` set (kv_objects m)" using assms(1) by (auto simp: kv_wf_def)
    moreover have "ks_obj ` set rows \<subseteq> {oid}" using r by auto
    ultimately show ?thesis unfolding set_append image_Un using ids by (intro Un_least) blast+
  qed
  moreover have "sql_keyed kl_id (kv_leases m)" using assms(1) by (simp add: kv_wf_def)
  ultimately show ?thesis unfolding m' kv_wf_def by simp
qed

lemma shard_assign_keeps:
  assumes "shard_assign now st upd = Inr f"
  shows "ks_id (f s) = ks_id s \<and> ks_obj (f s) = ks_obj s \<and> (kv_shard_ok s \<longrightarrow> kv_shard_ok (f s))"
  using assms
  by (auto simp: shard_assign_def bindE_eq_Inr ks_id_def ks_obj_def kv_shard_ok_def touch_shard_def split: if_splits)

lemma shard_matches_obj: "shard_matches oid upd = Inr p \<Longrightarrow> p s \<Longrightarrow> ks_obj s = oid"
  by (auto simp: shard_matches_def bindE_eq_Inr split: if_splits)

definition shards_kept :: "kv_id \<Rightarrow> kv_shard list \<Rightarrow> kv_shard list \<Rightarrow> bool" where
  "shards_kept oid t t' \<longleftrightarrow> map ks_id t' = map ks_id t \<and> map ks_obj t' = map ks_obj t \<and>
     (list_all kv_shard_ok t \<longrightarrow> list_all kv_shard_ok t') \<and>
     filter (\<lambda>s. ks_obj s \<noteq> oid) t' = filter (\<lambda>s. ks_obj s \<noteq> oid) t"

lemma shards_kept_refl [simp]: "shards_kept oid t t"
  by (simp add: shards_kept_def)

lemma shards_kept_trans: "shards_kept oid t u \<Longrightarrow> shards_kept oid u v \<Longrightarrow> shards_kept oid t v"
  by (simp add: shards_kept_def)

lemma shards_kept_update:
  assumes "\<And>s. p s \<Longrightarrow> ks_obj s = oid" and "\<And>s. ks_id (f s) = ks_id s" and "\<And>s. ks_obj (f s) = ks_obj s"
    and "\<And>s. kv_shard_ok s \<Longrightarrow> kv_shard_ok (f s)"
  shows "shards_kept oid t (sql_update p f t)"
proof -
  have "filter (\<lambda>s. ks_obj s \<noteq> oid) (sql_update p f t) = filter (\<lambda>s. ks_obj s \<noteq> oid) t"
    using assms(1,3) by (induction t) auto
  then show ?thesis using assms(2-4)
    by (auto simp: shards_kept_def map_sql_update_same list_all_sql_update)
qed

lemma apply_shard_update_kept:
  assumes "apply_shard_update now oid st t upd = Inr t'"
  shows "shards_kept oid t t'"
proof -
  from assms obtain f p where f: "shard_assign now st upd = Inr f" and p: "shard_matches oid upd = Inr p"
      and t': "t' = sql_update p f t"
    by (auto simp: apply_shard_update_def update_external_kv_shard_def bindE_eq_Inr split: if_splits)
  show ?thesis unfolding t'
    using shard_assign_keeps [OF f] shard_matches_obj [OF p] by (intro shards_kept_update) auto
qed

lemma commit_shards_kept:
  assumes "(if updates = []
     then Inr (sql_update (\<lambda>s. ks_obj s = oid) (\<lambda>s. touch_shard now s\<lparr>ks_state := sst\<rparr>) t)
     else foldE (apply_shard_update now oid sst) t updates) = Inr t'"
  shows "shards_kept oid t t'"
proof (cases "updates = []")
  case True
  then show ?thesis using assms by (auto intro!: shards_kept_update)
next
  case False
  then have "foldE (apply_shard_update now oid sst) t updates = Inr t'" using assms by simp
  then show ?thesis
    by (rule foldE_invariant [where P = "shards_kept oid t"])
      (auto intro: shards_kept_trans apply_shard_update_kept)
qed

lemma kv_wf_shards_kept:
  assumes "kv_wf m" and "shards_kept oid (kv_shard_rows m) t"
  shows "kv_wf (m\<lparr>kv_shard_rows := t\<rparr>)"
proof -
  have "ks_obj ` set t = ks_obj ` set (kv_shard_rows m)"
    using assms(2) by (metis shards_kept_def list.set_map)
  then show ?thesis using assms by (auto simp: kv_wf_def shards_kept_def sql_keyed_def)
qed

lemma kv_wf_commit:
  assumes wf: "kv_wf m" and c: "external_kv_commit_shards now ns key svc ost sst ups m = Inr (m', out)"
  shows "kv_wf m'"
proof -
  from c obtain oid t where
      t: "(if ups = []
           then Inr (sql_update (\<lambda>s. ks_obj s = oid) (\<lambda>s. touch_shard now s\<lparr>ks_state := sst\<rparr>) (kv_shard_rows m))
           else foldE (apply_shard_update now oid sst) (kv_shard_rows m) ups) = Inr t"
      and m': "m' = on_object oid (\<lambda>y. touch_object now y\<lparr>ko_state := external_kv_object_state_from_shards t oid ost,
            ko_total_bytes := sql_sum ks_bytes (\<lambda>s. ks_obj s = oid) t\<rparr>) (m\<lparr>kv_shard_rows := t\<rparr>)"
    by (auto simp: external_kv_commit_shards_def with_kv_id_Inr bindE_eq_Inr Let_def split: option.splits)
  have wf2: "kv_wf (m\<lparr>kv_shard_rows := t\<rparr>)"
    using wf commit_shards_kept [OF t] by (rule kv_wf_shards_kept)
  then have "0 \<le> sql_sum ks_bytes (\<lambda>s. ks_obj s = oid) t"
    by (intro sql_sum_nonneg) (auto simp: kv_wf_def list_all_iff kv_shard_ok_def)
  then show ?thesis unfolding m' using wf2
    by (intro kv_wf_on_object) (auto simp: kv_object_ok_def touch_object_def ko_id_def)
qed

lemma kv_wf_leases:
  "kv_wf m \<Longrightarrow> sql_keyed kl_id ls \<Longrightarrow> kv_wf (m\<lparr>kv_leases := ls\<rparr>)"
  by (simp add: kv_wf_def)

lemma kv_wf_purge: "kv_wf m \<Longrightarrow> kv_wf (purge_kv_leases now m)"
  by (simp add: purge_kv_leases_def kv_wf_leases kv_wf_def sql_keyed_delete)

lemma kv_wf_lease:
  assumes "kv_wf m" and "external_kv_lease now lid ns key svc owner mode ttl m = Inr (m', out)"
  shows "kv_wf m'"
proof -
  from assms(2) obtain oid l ls where
      ls: "sql_insert kl_id l (kv_leases (purge_kv_leases now m)) = Inr ls"
      and m': "m' = on_shards oid (touch_shard now) (on_object oid (touch_object now) (purge_kv_leases now m\<lparr>kv_leases := ls\<rparr>))"
    by (auto simp: external_kv_lease_def with_kv_id_Inr bindE_eq_Inr Let_def split: option.splits if_splits)
  have "kv_wf (purge_kv_leases now m\<lparr>kv_leases := ls\<rparr>)"
    using kv_wf_purge [OF assms(1), of now] ls
    by (intro kv_wf_leases) (auto simp: kv_wf_def intro: sql_keyed_insert)
  then show ?thesis unfolding m' by (intro kv_wf_on_shards kv_wf_on_object) auto
qed

lemma kv_step_wf:
  assumes "kv_step m m'" and wf: "kv_wf m"
  shows "kv_wf m'"
  using assms(1)
proof cases
  case (upsert now ns key svc d out)
  then show ?thesis using kv_wf_upsert [OF wf] by (auto simp: upsert_external_kv_object_def with_kv_id_Inr bindE_eq_Inr)
next
  case (touch now ns key svc owner state prio ttl md out)
  then show ?thesis using wf
    by (auto simp: external_kv_touch_def with_kv_id_Inr Let_def split: option.splits
        intro!: kv_wf_on_shards kv_wf_on_object)
next
  case (lease now lid ns key svc owner mode ttl out)
  then show ?thesis using kv_wf_lease [OF wf] by blast
next
  case (release lid out)
  then have "m' = m\<lparr>kv_leases := sql_delete (\<lambda>l. kl_id l = lid) (kv_leases m)\<rparr>"
    by (simp add: external_kv_release_def)
  moreover have "sql_keyed kl_id (kv_leases m)" using wf by (simp add: kv_wf_def)
  ultimately show ?thesis using wf by (simp add: kv_wf_leases sql_keyed_delete)
next
  case (transition now ns key svc state shst md out)
  then show ?thesis using wf
    by (cases shst) (auto simp: external_kv_transition_def with_kv_id_Inr Let_def split: option.split_asm
        intro!: kv_wf_on_shards kv_wf_on_object)
next
  case (pin now ns key svc delta out)
  then show ?thesis using wf
    by (auto simp: external_kv_pin_def with_kv_id_Inr Let_def kv_object_ok_def touch_object_def ko_id_def split: option.split_asm
        intro!: kv_wf_on_object)
next
  case (evict now ns key svc reason out)
  then show ?thesis using wf
    by (auto simp: external_kv_evict_def with_kv_id_Inr Let_def split: option.splits if_splits
        intro!: kv_wf_on_shards kv_wf_on_object)
next
  case (commit now ns key svc ost sst ups out)
  then show ?thesis using kv_wf_commit [OF wf] by blast
next
  case (recover stale now a b)
  then have m': "m' = fst (recover_prefetch_manifests stale now m)" by simp
  show ?thesis unfolding m' using wf
    by (simp add: recover_prefetch_manifests_def Let_def kv_wf_def sql_keyed_update list_all_sql_update image_sql_update_same)
qed

section \<open>Properties\<close>

inductive kv_reachable :: "kv_mem \<Rightarrow> bool" where
  start: "kv_reachable empty_kv_mem"
| step: "kv_reachable m \<Longrightarrow> kv_step m m' \<Longrightarrow> kv_reachable m'"

text \<open>A two-stage declaration the witnesses run the operations on.\<close>

definition demo_shard :: "string \<Rightarrow> int \<Rightarrow> pydict" where
  "demo_shard node i = [(''node_id'', JStr node), (''stage_index'', JInt i), (''stage_count'', JInt 2), (''bytes'', JInt 7)]"

definition demo_decl :: kv_declaration where
  "demo_decl = \<lparr>kd_profile = None, kd_model = None, kd_owner = None, kd_content_hash = None, kd_total_bytes = 14,
     kd_total_tokens = 3, kd_state = ''declared'', kd_pin_count = 0, kd_priority = 100, kd_ttl_s = None,
     kd_metadata = [], kd_shards = [demo_shard ''spark1'' 1, demo_shard ''spark0'' 0]\<rparr>"

definition demo_mem :: kv_mem where
  "demo_mem = (case upsert_tables 5 (''default'', ''k'', ''svc'') demo_decl empty_kv_mem of Inr m \<Rightarrow> m | Inl _ \<Rightarrow> empty_kv_mem)"

lemma demo_upsert: "upsert_tables 5 (''default'', ''k'', ''svc'') demo_decl empty_kv_mem = Inr demo_mem"
  by code_simp

text \<open>
  C21. Whatever sequence of catalogue operations has run, the catalogue is well formed: primary keys
  identify objects, shards and leases, pin counts and sizes are never negative, every shard has its
  stage index within its stage count, and no shard is left without its object.
\<close>

theorem kv_catalogue_invariant:
  assumes "kv_reachable m"
  shows "kv_wf m"
  using assms by (induction rule: kv_reachable.induct) (auto intro: kv_wf_empty kv_step_wf)

theorem kv_catalogue_invariant_witness: "kv_wf demo_mem"
proof -
  have "kv_step empty_kv_mem demo_mem"
    by (rule kv_step.upsert [where ns = None and key = "Some ''k''" and svc = "Some ''svc''" and now = 5 and d = demo_decl])
      (simp add: upsert_external_kv_object_def with_kv_id_def require_kv_key_def require_service_id_def
        normalize_namespace_def demo_upsert)
  then have "kv_reachable demo_mem" by (rule kv_reachable.step [OF kv_reachable.start])
  then show ?thesis by (rule kv_catalogue_invariant)
qed

text \<open>
  Declaring an object and looking it up gives it back: the stored object is the declared one
  (keeping the creation time of an object it replaces), its shards are exactly the declared entries
  in stage order, and every other object keeps its row and its shards.
\<close>

theorem kv_upsert_roundtrip:
  assumes "kv_reachable m" and "upsert_tables now oid d m = Inr m'"
  shows "kv_find m' oid =
      Some (declared_object oid now (case kv_find m oid of None \<Rightarrow> now | Some x \<Rightarrow> ko_created_at x) d) \<and>
    (\<exists>rows. mapE (shard_row oid now (kd_state d) (int (length (kd_shards d)))) (kd_shards d) = Inr rows \<and>
      object_shards m' oid = sort_key (\<lambda>s. (ks_stage_index s, ks_node s)) rows) \<and>
    (\<forall>oid'. oid' \<noteq> oid \<longrightarrow> kv_find m' oid' = kv_find m oid' \<and> object_shards m' oid' = object_shards m oid')"
proof -
  have "kv_wf m" using assms(1) by (induction rule: kv_reachable.induct) (auto intro: kv_wf_empty kv_step_wf)
  then have "sql_keyed ks_id (kv_shard_rows m)" by (simp add: kv_wf_def)
  from upsert_lookup [OF this assms(2)] show ?thesis by blast
qed

theorem kv_upsert_roundtrip_witness:
  "kv_find demo_mem (''default'', ''k'', ''svc'') = Some (declared_object (''default'', ''k'', ''svc'') 5 5 demo_decl) \<and>
   kv_find demo_mem (''default'', ''other'', ''svc'') = None"
  using kv_upsert_roundtrip [OF kv_reachable.start demo_upsert]
  by (auto simp: kv_find_def empty_kv_mem_def)

text \<open>
  The manifest check accepts exactly the manifests that are not empty, whose entries all name a
  node and have a stage index below their stage count, that repeat no pair of node and stage, whose
  stage counts all equal the number of entries, and, when the object has bytes and more than one
  stage, that use as many nodes as they have stages.
\<close>

theorem shard_manifest_accepted_iff:
  "validate_external_kv_shards shards total_bytes = Inr () \<longleftrightarrow> (\<exists>keys. manifest_ok shards total_bytes keys)"
  by (rule validate_shards_iff)

text \<open>
  The check does not enforce what its message asks for, one shard per pipeline stage: two nodes
  that both claim stage 0 of 2 are accepted, and no entry covers stage 1.
\<close>

theorem shard_manifest_misses_stage:
  "validate_external_kv_shards
     [[(''node_id'', JStr ''spark0''), (''stage_index'', JInt 0), (''stage_count'', JInt 2)],
      [(''node_id'', JStr ''spark1''), (''stage_index'', JInt 0), (''stage_count'', JInt 2)]] 10 = Inr ()"
  by code_simp

text \<open>
  C30. A pinned object cannot be evicted, and an eviction that succeeds leaves the object and every
  one of its shards evicted, with no shard resident on a GPU.
\<close>

theorem kv_evict_respects_pins:
  assumes "kv_find m (normalize_namespace ns, key, svc) = Some x" and "key \<noteq> ''''" and "svc \<noteq> ''''"
  shows "if 0 < ko_pin_count x
     then external_kv_evict now ns (Some key) (Some svc) reason m =
            Inl (ValueError ''cannot evict a pinned external KV object'')
     else \<exists>m' out. external_kv_evict now ns (Some key) (Some svc) reason m = Inr (m', out) \<and>
            map_option ko_state (kv_find m' (normalize_namespace ns, key, svc)) = Some ''evicted'' \<and>
            list_all (\<lambda>s. ks_obj s = (normalize_namespace ns, key, svc) \<longrightarrow>
                ks_state s = ''evicted'' \<and> \<not> ks_gpu_resident s) (kv_shard_rows m')"
proof (cases "0 < ko_pin_count x")
  case True
  then show ?thesis using assms
    by (simp add: external_kv_evict_def with_kv_id_def require_kv_key_def require_service_id_def)
next
  case False
  let ?oid = "(normalize_namespace ns, key, svc)"
  have f: "find (\<lambda>x. ko_id x = ?oid) (kv_objects m) = Some x" using assms(1) by (simp only: kv_find_def)
  have "list_all (\<lambda>s. ks_obj s = ?oid \<longrightarrow> ks_state s = ''evicted'' \<and> \<not> ks_gpu_resident s)
     (sql_update (\<lambda>s. ks_obj s = ?oid) (\<lambda>s. touch_shard now s\<lparr>ks_state := ''evicted'', ks_gpu_resident := False\<rparr>) (kv_shard_rows m))"
    by (rule list_all_after_update) simp
  then show ?thesis using False assms find_key_Some [OF f]
    by (simp add: external_kv_evict_def with_kv_id_def require_kv_key_def require_service_id_def Let_def
        on_object_def on_shards_def kv_find_def find_map_update [where key = ko_id])
qed

theorem kv_evict_respects_pins_witness:
  "\<exists>m' out. external_kv_evict 9 None (Some ''k'') (Some ''svc'') None demo_mem = Inr (m', out) \<and>
     map_option ko_state (kv_find m' (''default'', ''k'', ''svc'')) = Some ''evicted''"
proof -
  have f: "kv_find demo_mem (normalize_namespace None, ''k'', ''svc'') =
      Some (declared_object (''default'', ''k'', ''svc'') 5 5 demo_decl)"
    by code_simp
  have p: "\<not> 0 < ko_pin_count (declared_object (''default'', ''k'', ''svc'') 5 5 demo_decl)"
    by code_simp
  from kv_evict_respects_pins [OF f, of 9 None] p show ?thesis
    by (auto simp: normalize_namespace_def)
qed

text \<open>
  A commit of shards gives the object the requested state only when it has shards and every one
  of them is ready; one failed, corrupt or missing shard makes it degraded and anything else partial.
  The object's size becomes the sum of its shards' sizes, and no shard of another object changes.
\<close>

theorem kv_commit_state:
  assumes "external_kv_commit_shards now ns (Some key) (Some svc) requested sst ups m = Inr (m', out)"
    and "requested \<notin> {''degraded'', ''partial'', ''missing_shards''}"
  shows "\<exists>x. kv_find m' (normalize_namespace ns, key, svc) = Some x \<and>
     (ko_state x = requested \<longleftrightarrow>
        (let mine = filter (\<lambda>s. ks_obj s = (normalize_namespace ns, key, svc)) (kv_shard_rows m')
         in mine \<noteq> [] \<and> list_all (\<lambda>s. ks_state s \<in> set ready_shard_states) mine)) \<and>
     ko_total_bytes x = sql_sum ks_bytes (\<lambda>s. ks_obj s = (normalize_namespace ns, key, svc)) (kv_shard_rows m') \<and>
     filter (\<lambda>s. ks_obj s \<noteq> (normalize_namespace ns, key, svc)) (kv_shard_rows m') =
     filter (\<lambda>s. ks_obj s \<noteq> (normalize_namespace ns, key, svc)) (kv_shard_rows m)"
proof -
  let ?oid = "(normalize_namespace ns, key, svc)"
  from assms(1) obtain x t where x: "kv_find m ?oid = Some x"
      and t: "(if ups = []
           then Inr (sql_update (\<lambda>s. ks_obj s = ?oid) (\<lambda>s. touch_shard now s\<lparr>ks_state := sst\<rparr>) (kv_shard_rows m))
           else foldE (apply_shard_update now ?oid sst) (kv_shard_rows m) ups) = Inr t"
      and m': "m' = on_object ?oid (\<lambda>y. touch_object now y\<lparr>ko_state := external_kv_object_state_from_shards t ?oid requested,
            ko_total_bytes := sql_sum ks_bytes (\<lambda>s. ks_obj s = ?oid) t\<rparr>) (m\<lparr>kv_shard_rows := t\<rparr>)"
    by (auto simp: external_kv_commit_shards_def with_kv_id_Inr bindE_eq_Inr Let_def split: option.split_asm)
  have rows: "kv_shard_rows m' = t" by (simp add: m' on_object_def)
  have st: "external_kv_object_state_from_shards t ?oid requested = requested \<longleftrightarrow>
      (let mine = filter (\<lambda>s. ks_obj s = ?oid) t in mine \<noteq> [] \<and> list_all (\<lambda>s. ks_state s \<in> set ready_shard_states) mine)"
    using assms(2) by (auto simp: external_kv_object_state_from_shards_def Let_def list_all_iff)
  have "filter (\<lambda>s. ks_obj s \<noteq> ?oid) t = filter (\<lambda>s. ks_obj s \<noteq> ?oid) (kv_shard_rows m)"
    using commit_shards_kept [OF t] by (simp add: shards_kept_def)
  moreover have "kv_find m' ?oid = Some (touch_object now x\<lparr>ko_state := external_kv_object_state_from_shards t ?oid requested,
            ko_total_bytes := sql_sum ks_bytes (\<lambda>s. ks_obj s = ?oid) t\<rparr>)"
  proof -
    have f: "find (\<lambda>x. ko_id x = ?oid) (kv_objects m) = Some x" using x by (simp only: kv_find_def)
    from find_key_Some [OF f] have "ko_id x = ?oid" by simp
    then show ?thesis unfolding m' kv_find_def on_object_def
      by (simp add: find_map_update [where key = ko_id] f)
  qed
  ultimately show ?thesis using st rows by auto
qed

theorem kv_commit_state_witness:
  "\<exists>m' out x. external_kv_commit_shards 8 None (Some ''k'') (Some ''svc'') ''available'' ''ready_on_ssd'' [] demo_mem = Inr (m', out) \<and>
     kv_find m' (''default'', ''k'', ''svc'') = Some x \<and> ko_total_bytes x = 14"
proof -
  obtain m' out where c: "external_kv_commit_shards 8 None (Some ''k'') (Some ''svc'') ''available'' ''ready_on_ssd'' [] demo_mem = Inr (m', out)"
      and b: "sql_sum ks_bytes (\<lambda>s. ks_obj s = (''default'', ''k'', ''svc'')) (kv_shard_rows m') = 14"
  proof -
    have "case external_kv_commit_shards 8 None (Some ''k'') (Some ''svc'') ''available'' ''ready_on_ssd'' [] demo_mem of
        Inl _ \<Rightarrow> False | Inr (m', out) \<Rightarrow> sql_sum ks_bytes (\<lambda>s. ks_obj s = (''default'', ''k'', ''svc'')) (kv_shard_rows m') = 14"
      by code_simp
    then show ?thesis using that by (auto split: sum.splits prod.splits)
  qed
  show ?thesis using kv_commit_state [OF c] c b by (auto simp: normalize_namespace_def)
qed

end
