(* ===== verification/Kv_Directive.thy ===== *)
theory Kv_Directive
  imports Sha256 Py_Json
begin

text \<open>
  Cache directives of a request, \<^verbatim>\<open>v2/src/ds4_infer/kv_cache.py\<close>: the normalisation of
  \<^verbatim>\<open>input.kv_cache\<close> into a plan with a batch key, the resolution of a prefix file, and the
  check the queue makes before it accepts a request.  The file system is an argument that maps a path
  to its bytes, and paths are already resolved.  Text is ASCII here except for file contents, which are
  bytes; two documents are equal when their canonical forms are.
\<close>

section \<open>Standard-library pieces\<close>

definition url_clean :: "string \<Rightarrow> string" where
  "url_clean s = filter (\<lambda>c. c \<notin> {CHR 0x09, CHR 0x0A, CHR 0x0D}) (dropWhile (\<lambda>c. (of_char c :: nat) \<le> 32) s)"

definition alpha_char :: "char \<Rightarrow> bool" where
  "alpha_char c \<longleftrightarrow> (let n = of_char c :: nat in (65 \<le> n \<and> n \<le> 90) \<or> (97 \<le> n \<and> n \<le> 122))"

definition digit_char :: "char \<Rightarrow> bool" where
  "digit_char c \<longleftrightarrow> (let n = of_char c :: nat in 48 \<le> n \<and> n \<le> 57)"

definition url_scheme :: "string \<Rightarrow> string" where
  \<comment> \<open>\<^verbatim>\<open>urlparse(s).scheme\<close>\<close>
  "url_scheme s0 =
     (let s = url_clean s0; scheme = takeWhile (\<lambda>c. c \<noteq> CHR '':'') s
      in if length scheme < length s \<and> scheme \<noteq> '''' \<and> alpha_char (hd scheme) \<and>
            list_all (\<lambda>c. alpha_char c \<or> digit_char c \<or> c \<in> {CHR ''+'', CHR ''-'', CHR ''.''}) scheme
         then lower scheme else '''')"

definition b64_value :: "char \<Rightarrow> nat option" where
  "b64_value c =
     (let n = of_char c :: nat
      in if 65 \<le> n \<and> n \<le> 90 then Some (n - 65)
         else if 97 \<le> n \<and> n \<le> 122 then Some (n - 71)
         else if 48 \<le> n \<and> n \<le> 57 then Some (n + 4)
         else if c = CHR ''+'' then Some 62 else if c = CHR ''/'' then Some 63 else None)"

fun b64decode :: "string \<Rightarrow> string option" where
  \<comment> \<open>\<^verbatim>\<open>base64.b64decode(s, validate=True)\<close>\<close>
  "b64decode [] = Some ''''"
| "b64decode [a, b, c, d] =
     (if c = CHR ''='' \<and> d = CHR ''=''
      then (case (b64_value a, b64_value b) of
              (Some p, Some q) \<Rightarrow> Some [char_of (p * 4 + q div 16)] | _ \<Rightarrow> None)
      else if d = CHR ''=''
      then (case (b64_value a, b64_value b, b64_value c) of
              (Some p, Some q, Some r) \<Rightarrow> Some [char_of (p * 4 + q div 16), char_of (q mod 16 * 16 + r div 4)] | _ \<Rightarrow> None)
      else (case (b64_value a, b64_value b, b64_value c, b64_value d) of
              (Some p, Some q, Some r, Some s) \<Rightarrow>
                Some [char_of (p * 4 + q div 16), char_of (q mod 16 * 16 + r div 4), char_of (r mod 4 * 64 + s)]
            | _ \<Rightarrow> None))"
| "b64decode (a # b # c # d # e # rest) =
     (case (b64_value a, b64_value b, b64_value c, b64_value d, b64decode (e # rest)) of
        (Some p, Some q, Some r, Some s, Some t) \<Rightarrow>
          Some (char_of (p * 4 + q div 16) # char_of (q mod 16 * 16 + r div 4) # char_of (r mod 4 * 64 + s) # t)
      | _ \<Rightarrow> None)"
| "b64decode _ = None"

definition hex_char :: "char \<Rightarrow> bool" where
  "hex_char c \<longleftrightarrow> (let n = of_char c :: nat in (48 \<le> n \<and> n \<le> 57) \<or> (65 \<le> n \<and> n \<le> 70) \<or> (97 \<le> n \<and> n \<le> 102))"

fun fromhex_ok :: "string \<Rightarrow> bool" where
  \<comment> \<open>whether \<^verbatim>\<open>bytes.fromhex(s)\<close> succeeds: pairs of hex digits, white space between pairs\<close>
  "fromhex_ok [] = True"
| "fromhex_ok [c] = is_space c"
| "fromhex_ok (c # d # cs) =
     (if is_space c then fromhex_ok (d # cs) else hex_char c \<and> hex_char d \<and> fromhex_ok cs)"

definition removeprefix :: "string \<Rightarrow> string \<Rightarrow> string" where
  "removeprefix p s = (case drop_prefix p s of None \<Rightarrow> s | Some r \<Rightarrow> r)"

section \<open>Fields\<close>

definition field_error :: "string \<Rightarrow> string \<Rightarrow> 'a result" where
  "field_error key what = Inl (ValueError (''input.kv_cache.'' @ key @ what))"

definition enum_value :: "pydict \<Rightarrow> string \<Rightarrow> string list \<Rightarrow> string option \<Rightarrow> string result" where
  "enum_value data key allowed dflt =
     (case dget_or data key (jopt dflt) of
        JStr v \<Rightarrow> if v \<in> set allowed then Inr v
                  else field_error key ('' must be one of '' @ py_repr (JArr (map JStr (sort allowed))))
      | _ \<Rightarrow> field_error key ('' must be one of '' @ py_repr (JArr (map JStr (sort allowed)))))"

definition required_nonempty_str :: "pydict \<Rightarrow> string \<Rightarrow> string result" where
  "required_nonempty_str data key =
     (case dget data key of
        JStr v \<Rightarrow> if v = '''' then field_error key '' is required'' else Inr v
      | _ \<Rightarrow> field_error key '' is required'')"

definition optional_nonempty_str :: "pydict \<Rightarrow> string \<Rightarrow> string option result" where
  "optional_nonempty_str data key =
     (if dget data key = JNull then Inr None else bindE (required_nonempty_str data key) (\<lambda>v. Inr (Some v)))"

definition required_nonnegative_int :: "pydict \<Rightarrow> string \<Rightarrow> int result" where
  "required_nonnegative_int data key =
     (case dget data key of
        JBool _ \<Rightarrow> field_error key '' must be a non-negative integer''
      | v \<Rightarrow> (case py_int v of
                Inr n \<Rightarrow> if n < 0 then field_error key '' must be a non-negative integer'' else Inr n
              | Inl _ \<Rightarrow> field_error key '' must be a non-negative integer''))"

definition required_sha256_value :: "pydict \<Rightarrow> string result" where
  "required_sha256_value data =
     bindE (required_nonempty_str data ''sha256'') (\<lambda>value.
       let digest = removeprefix ''sha256:'' value
       in if length digest \<noteq> 64 then field_error ''sha256'' '' must be a sha256 digest''
          else if fromhex_ok digest then Inr (''sha256:'' @ digest)
          else field_error ''sha256'' '' must be a sha256 digest'')"

definition max_bytes :: "environ \<Rightarrow> pydict \<Rightarrow> string \<Rightarrow> string \<Rightarrow> int \<Rightarrow> int result" where
  "max_bytes env data key env_name dflt =
     (let raw = dget_or data key (case env env_name of Some v \<Rightarrow> JStr v | None \<Rightarrow> JInt dflt)
      in case py_int raw of
           Inl _ \<Rightarrow> field_error key '' must be an integer''
         | Inr v \<Rightarrow> if v < 1 then field_error key '' must be positive'' else Inr v)"

definition guard_base64_length :: "string \<Rightarrow> int \<Rightarrow> unit result" where
  "guard_base64_length data_b64 limit =
     (if int (length data_b64) > (limit + 2) div 3 * 4 + 4
      then Inl (ValueError ''inline KV cache bundle base64 exceeds max_inline_bytes before decode'') else Inr ())"

definition media_type :: "pydict \<Rightarrow> string" where
  "media_type raw = py_str (por (dget raw ''media_type'') (JStr ''application/vnd.ds4.kv-cache-bundle''))"

section \<open>Endpoints\<close>

definition too_many_bytes :: "string \<Rightarrow> int \<Rightarrow> int \<Rightarrow> 'a result" where
  "too_many_bytes what claimed limit = Inl (ValueError (what @ '': '' @ show_int claimed @ '' > '' @ show_int limit))"

definition normalize_inline_bundle :: "environ \<Rightarrow> pydict \<Rightarrow> pydict result" where
  "normalize_inline_bundle env raw =
     bindE (required_nonnegative_int raw ''bytes'') (\<lambda>claimed.
     bindE (max_bytes env raw ''max_inline_bytes'' ''DS4_KV_CACHE_MAX_INLINE_BUNDLE_BYTES'' (64 * 1024 * 1024)) (\<lambda>limit.
     if claimed > limit then too_many_bytes ''inline KV cache bundle exceeds max_inline_bytes'' claimed limit
     else
       bindE (required_nonempty_str raw ''data_b64'') (\<lambda>b64.
       bindE (guard_base64_length b64 limit) (\<lambda>_.
       bindE (required_sha256_value raw) (\<lambda>sha.
       case b64decode b64 of
         None \<Rightarrow> Inl (ValueError ''inline KV cache bundle data_b64 is invalid base64'')
       | Some payload \<Rightarrow>
           if int (length payload) \<noteq> claimed
           then Inl (ValueError (''inline KV cache bundle bytes mismatch: declared '' @ show_int claimed @ '', decoded '' @
                  show_int (int (length payload))))
           else if int (length payload) > limit
           then too_many_bytes ''decoded inline KV cache bundle exceeds max_inline_bytes'' (int (length payload)) limit
           else if sha256_hex payload \<noteq> removeprefix ''sha256:'' sha
           then Inl (ValueError ''inline KV cache bundle sha256 mismatch'')
           else Inr [(''media_type'', JStr (media_type raw)), (''bytes'', JInt claimed),
                     (''sha256'', JStr (''sha256:'' @ sha256_hex payload)), (''data_b64'', JStr b64)])))))"

definition normalize_request_blob :: "environ \<Rightarrow> pydict \<Rightarrow> pydict result" where
  "normalize_request_blob env raw =
     bindE (required_nonnegative_int raw ''bytes'') (\<lambda>claimed.
     bindE (max_bytes env raw ''max_request_blob_bytes'' ''DS4_KV_CACHE_MAX_REQUEST_BLOB_BYTES'' (16 * 1024 * 1024 * 1024)) (\<lambda>limit.
     if claimed > limit then too_many_bytes ''request KV cache blob exceeds max_request_blob_bytes'' claimed limit
     else
       bindE (required_nonempty_str raw ''blob_id'') (\<lambda>blob.
       bindE (required_sha256_value raw) (\<lambda>sha.
       Inr [(''blob_id'', JStr blob), (''bytes'', JInt claimed), (''sha256'', JStr sha), (''media_type'', JStr (media_type raw))]))))"

definition claimed_bytes_field :: "pydict \<Rightarrow> (int \<Rightarrow> unit result) \<Rightarrow> pydict result" where
  "claimed_bytes_field raw check =
     (if has_key raw ''bytes''
      then bindE (required_nonnegative_int raw ''bytes'') (\<lambda>n. bindE (check n) (\<lambda>_. Inr [(''bytes'', JInt n)]))
      else Inr [])"

definition sha256_field :: "pydict \<Rightarrow> bool \<Rightarrow> string \<Rightarrow> pydict result" where
  "sha256_field raw load what =
     (if has_key raw ''sha256'' then bindE (required_sha256_value raw) (\<lambda>s. Inr [(''sha256'', JStr s)])
      else if load then Inl (ValueError (what @ '' KV cache load requires sha256'')) else Inr [])"

definition remote_uri_schemes :: "string list" where
  "remote_uri_schemes = [''http'', ''https'', ''ds4-kv'', ''lmcache'', ''s3'']"

definition normalize_remote_uri :: "environ \<Rightarrow> pydict \<Rightarrow> bool \<Rightarrow> pydict result" where
  "normalize_remote_uri env raw load =
     bindE (required_nonempty_str raw ''uri'') (\<lambda>uri.
     if url_scheme uri \<notin> set remote_uri_schemes
     then Inl (ValueError (''remote KV cache uri has unsupported scheme: '' @ py_repr (JStr (url_scheme uri))))
     else
       bindE (claimed_bytes_field raw (\<lambda>n.
         bindE (max_bytes env raw ''max_pull_bytes'' ''DS4_KV_CACHE_MAX_PULL_BYTES'' (16 * 1024 * 1024 * 1024)) (\<lambda>limit.
           if n > limit then too_many_bytes ''remote KV cache bundle exceeds max_pull_bytes'' n limit else Inr ()))) (\<lambda>bytes.
       bindE (sha256_field raw load ''remote'') (\<lambda>sha. Inr ((''uri'', JStr uri) # bytes @ sha))))"

definition normalize_local_store :: "pydict \<Rightarrow> bool \<Rightarrow> pydict result" where
  "normalize_local_store raw load =
     bindE (required_nonempty_str raw ''cache_key'') (\<lambda>key.
     bindE (claimed_bytes_field raw (\<lambda>_. Inr ())) (\<lambda>bytes.
     bindE (sha256_field raw load ''local'') (\<lambda>sha. Inr ((''cache_key'', JStr key) # bytes @ sha))))"

definition normalize_endpoint :: "environ \<Rightarrow> pydict \<Rightarrow> string \<Rightarrow> bool \<Rightarrow> pydict result" where
  "normalize_endpoint env raw transport load =
     (if transport = ''inline''
      then (if load then normalize_inline_bundle env raw else Inl (ValueError ''inline KV cache transport is load-only''))
      else if transport = ''request_blob''
      then (if load then normalize_request_blob env raw else Inl (ValueError ''request_blob KV cache transport is load-only''))
      else if transport = ''remote_uri'' then normalize_remote_uri env raw load
      else if transport = ''local_store'' then normalize_local_store raw load
      else Inl (ValueError (''unsupported KV cache transport: '' @ py_repr (JStr transport))))"

definition skip_side :: pydict where
  "skip_side = [(''mode'', JStr ''skip''), (''transport'', JStr ''none'')]"

definition normalize_load :: "environ \<Rightarrow> json \<Rightarrow> pydict result" where
  "normalize_load env raw =
     (case raw of
        JNull \<Rightarrow> Inr skip_side
      | JObj d \<Rightarrow>
          bindE (enum_value d ''mode'' [''skip'', ''prefer'', ''require''] (Some ''prefer'')) (\<lambda>mode.
          if mode = ''skip'' then Inr skip_side
          else
            bindE (enum_value d ''transport'' [''inline'', ''request_blob'', ''remote_uri'', ''local_store''] None) (\<lambda>transport.
            bindE (normalize_endpoint env d transport True) (\<lambda>source.
            Inr (dupdate [(''mode'', JStr mode), (''transport'', JStr transport)] source))))
      | _ \<Rightarrow> Inl (ValueError ''input.kv_cache.load must be an object''))"

definition normalize_store :: "environ \<Rightarrow> json \<Rightarrow> pydict result" where
  "normalize_store env raw =
     (case raw of
        JNull \<Rightarrow> Inr skip_side
      | JObj d \<Rightarrow>
          bindE (enum_value d ''mode'' [''skip'', ''write_through'', ''write_back''] (Some ''skip'')) (\<lambda>mode.
          if mode = ''skip'' then Inr skip_side
          else
            bindE (enum_value d ''transport'' [''remote_uri'', ''local_store''] None) (\<lambda>transport.
            bindE (normalize_endpoint env d transport False) (\<lambda>target.
            bindE (enum_value d ''on_error'' [''fail'', ''warn''] (Some ''fail'')) (\<lambda>on_error.
            Inr (dupdate [(''mode'', JStr mode), (''transport'', JStr transport), (''on_error'', JStr on_error)] target)))))
      | _ \<Rightarrow> Inl (ValueError ''input.kv_cache.store must be an object''))"

section \<open>Plans\<close>

definition skips :: "pydict \<Rightarrow> bool" where
  "skips side \<longleftrightarrow> dget side ''mode'' = JStr ''skip''"

definition plan_operation :: "pydict \<Rightarrow> pydict \<Rightarrow> string" where
  "plan_operation load store =
     (if \<not> skips load \<and> \<not> skips store then ''load_store'' else if \<not> skips load then ''load'' else ''store'')"

definition default_miss_policy :: "pydict \<Rightarrow> pydict \<Rightarrow> string" where
  "default_miss_policy load store =
     (if dget load ''mode'' = JStr ''require'' then ''fail''
      else if \<not> skips load then ''compute''
      else if \<not> skips store then ''compute_and_store'' else ''compute'')"

definition batch_key_material :: "pydict \<Rightarrow> pydict" where
  "batch_key_material plan =
     [(''backend'', dget plan ''backend''), (''cache_id'', dget plan ''cache_id''), (''prefix_hash'', dget plan ''prefix_hash''),
      (''load'', JObj (dpop ''data_b64'' (obj_or_empty (dget plan ''load'')))), (''store'', dget plan ''store''),
      (''miss_policy'', dget plan ''miss_policy''), (''route_affinity'', dget plan ''route_affinity''),
      (''model_fingerprint'', dget plan ''model_fingerprint'')]"

definition batch_key_hash :: "pydict \<Rightarrow> string" where
  "batch_key_hash plan = ''sha256:'' @ sha256_hex (dumps_compact (JObj (batch_key_material plan)))"

definition kv_backends :: "string list" where
  "kv_backends = [''auto'', ''apc_prefix'', ''lmcache'', ''simple_cpu_offload'', ''dsv4_hma'']"

definition build_plan :: "pydict \<Rightarrow> string \<Rightarrow> string option \<Rightarrow> string option \<Rightarrow> pydict \<Rightarrow> pydict \<Rightarrow> pydict result" where
  \<comment> \<open>the second half of the normalisation: the policies, and the plan itself\<close>
  "build_plan d backend cache_id prefix_hash load store =
     bindE (enum_value d ''miss_policy'' [''fail'', ''compute'', ''compute_and_store'']
              (Some (default_miss_policy load store))) (\<lambda>miss.
     bindE (enum_value d ''route_affinity'' [''none'', ''preferred'', ''required'']
              (Some (if dget load ''transport'' = JStr ''local_store'' then ''required'' else ''none''))) (\<lambda>affinity.
     bindE (case dget_or d ''model_fingerprint'' (JObj []) of
              JNull \<Rightarrow> Inr []
            | JObj f \<Rightarrow> Inr f
            | _ \<Rightarrow> Inl (ValueError ''input.kv_cache.model_fingerprint must be an object'')) (\<lambda>fingerprint.
     let plan = [(''format'', JStr ''ds4-kv-cache-plan-v1''), (''backend'', JStr backend), (''cache_id'', jopt cache_id),
            (''prefix_hash'', jopt prefix_hash), (''load'', JObj load), (''store'', JObj store),
            (''miss_policy'', JStr miss), (''route_affinity'', JStr affinity),
            (''model_fingerprint'', JObj fingerprint), (''operation'', JStr (plan_operation load store))]
     in Inr (plan @ [(''batch_key_hash'', JStr (batch_key_hash plan))]))))"

definition normalize_kv_cache_directive :: "environ \<Rightarrow> json \<Rightarrow> pydict result" where
  "normalize_kv_cache_directive env directive =
     (case directive of
        JObj d \<Rightarrow>
          (if dget d ''format'' \<noteq> JStr ''ds4-kv-cache-directive-v1''
           then Inl (ValueError (''unsupported kv_cache format: '' @ py_repr (dget d ''format'')))
           else
             bindE (optional_nonempty_str d ''cache_id'') (\<lambda>cache_id.
             bindE (optional_nonempty_str d ''prefix_hash'') (\<lambda>prefix_hash.
             if cache_id = None \<and> prefix_hash = None then Inl (ValueError ''input.kv_cache needs cache_id or prefix_hash'')
             else
               bindE (enum_value d ''backend'' kv_backends (Some ''auto'')) (\<lambda>backend.
               bindE (normalize_load env (dget d ''load'')) (\<lambda>load.
               bindE (normalize_store env (dget d ''store'')) (\<lambda>store.
               if skips load \<and> skips store then Inl (ValueError ''input.kv_cache must load, store, or both'')
               else build_plan d backend cache_id prefix_hash load store))))))
      | _ \<Rightarrow> Inl (ValueError ''input.kv_cache must be an object''))"

definition plan_of :: "pydict \<Rightarrow> pydict option" where
  "plan_of inp = (case dget inp ''kv_cache_plan'' of JObj p \<Rightarrow> Some p | _ \<Rightarrow> None)"

definition request_kv_cache_batch_key :: "pydict \<Rightarrow> string option" where
  "request_kv_cache_batch_key inp =
     (case plan_of inp of
        None \<Rightarrow> None
      | Some p \<Rightarrow> if truthy (dget p ''batch_key_hash'') then Some (py_str (dget p ''batch_key_hash'')) else None)"

definition kv_cache_extra_body :: "pydict \<Rightarrow> pydict" where
  "kv_cache_extra_body inp = (case plan_of inp of None \<Rightarrow> [] | Some p \<Rightarrow> [(''ds4_kv_cache'', JObj p)])"

fun first_nonempty :: "json list \<Rightarrow> string option" where
  "first_nonempty [] = None"
| "first_nonempty (v # vs) = (case v of JStr s \<Rightarrow> if s = '''' then first_nonempty vs else Some s | _ \<Rightarrow> first_nonempty vs)"

definition plan_cache_ref :: "pydict \<Rightarrow> string option" where
  "plan_cache_ref plan =
     (let load = obj_or_empty (dget plan ''load'')
      in first_nonempty [dget plan ''cache_id'', dget plan ''prefix_hash'', dget load ''cache_key'', dget load ''kv_key''])"

definition kv_transfer_params :: "pydict \<Rightarrow> pydict" where
  "kv_transfer_params plan =
     [(''ds4_kv_cache'', JObj plan), (''ds4_require_kv_transfer'', JBool True)] @
     (case plan_cache_ref plan of
        None \<Rightarrow> []
      | Some r \<Rightarrow> [(''cache_ref'', JStr r), (''ds4_cache_ref'', JStr r), (''simple_kv_cache_ref'', JStr r)])"

definition kv_cache_vllm_request_fields :: "pydict \<Rightarrow> pydict" where
  "kv_cache_vllm_request_fields inp =
     (case plan_of inp of None \<Rightarrow> [] | Some p \<Rightarrow> [(''kv_transfer_params'', JObj (kv_transfer_params p))])"

section \<open>Resolution\<close>

definition set_or_verify :: "pydict \<Rightarrow> string \<Rightarrow> string \<Rightarrow> pydict result" where
  "set_or_verify data key value =
     (if dget data key \<noteq> JNull \<and> py_str (dget data key) \<noteq> value
      then Inl (ValueError (''input.'' @ key @ '' conflicts with input.kv_cache_ref'')) else Inr (dset key (JStr value) data))"

definition required_ref_str :: "pydict \<Rightarrow> string \<Rightarrow> string result" where
  "required_ref_str ref key =
     (case dget ref key of
        JStr v \<Rightarrow> if v = '''' then Inl (ValueError (''input.kv_cache_ref.'' @ key @ '' is required'')) else Inr v
      | _ \<Rightarrow> Inl (ValueError (''input.kv_cache_ref.'' @ key @ '' is required'')))"

definition set_prefix :: "string \<Rightarrow> pydict \<Rightarrow> string \<Rightarrow> pydict \<Rightarrow> pydict result" where
  \<comment> \<open>what the resolution writes once the file's digest is the expected one\<close>
  "set_prefix path ref content inp =
     (let shared_hash = ''sha256:'' @ sha256_hex content
      in if dget inp ''shared_prefix'' \<noteq> JNull \<and> dget inp ''shared_prefix'' \<noteq> JStr content
         then Inl (ValueError ''input.shared_prefix conflicts with input.kv_cache_ref'')
         else
           bindE (set_or_verify inp ''shared_prefix_hash'' shared_hash) (\<lambda>inp1.
           bindE (set_or_verify inp1 ''skeleton_hash''
                    (py_str (por (dget ref ''skeleton_hash'') (por (dget inp1 ''skeleton_hash'') (JStr shared_hash))))) (\<lambda>inp2.
           Inr (dset ''kv_cache_resolution''
                  (JObj [(''format'', JStr ''ds4-prefix-cache-resolution-v1''), (''kind'', JStr ''prefix_text''),
                         (''path'', JStr path), (''sha256'', JStr shared_hash), (''bytes'', JInt (int (length content)))])
                  (dset ''shared_prefix'' (JStr content) inp2)))))"

definition resolve_prefix_cache_ref :: "(string \<Rightarrow> string result) \<Rightarrow> pydict \<Rightarrow> pydict result" where
  "resolve_prefix_cache_ref read inp =
     (case dget inp ''kv_cache_ref'' of
        JNull \<Rightarrow> Inr inp
      | JObj ref \<Rightarrow>
          (if dget ref ''format'' \<noteq> JStr ''ds4-prefix-cache-ref-v1''
           then Inl (ValueError (''unsupported kv_cache_ref format: '' @ py_repr (dget ref ''format'')))
           else if dget ref ''kind'' \<noteq> JStr ''prefix_text''
           then Inl (ValueError (''unsupported kv_cache_ref kind: '' @ py_repr (dget ref ''kind'')))
           else
             bindE (required_ref_str ref ''path'') (\<lambda>path.
             bindE (read path) (\<lambda>content.
             bindE (required_ref_str ref ''sha256'') (\<lambda>expected.
             if sha256_hex content \<noteq> removeprefix ''sha256:'' expected
             then Inl (ValueError (''kv_cache_ref sha256 mismatch for '' @ path))
             else set_prefix path ref content inp))))
      | _ \<Rightarrow> Inl (ValueError ''input.kv_cache_ref must be an object''))"

definition resolve_kv_cache_directive :: "environ \<Rightarrow> pydict \<Rightarrow> pydict result" where
  "resolve_kv_cache_directive env inp =
     (if dget inp ''kv_cache'' = JNull then Inr (dpop ''kv_cache'' inp)
      else
        bindE (normalize_kv_cache_directive env (dget inp ''kv_cache'')) (\<lambda>plan.
          if dget inp ''kv_cache_plan'' \<noteq> JNull \<and> canon (dget inp ''kv_cache_plan'') \<noteq> canon (JObj plan)
          then Inl (ValueError ''input.kv_cache_plan conflicts with input.kv_cache'')
          else Inr (dset ''kv_cache_plan'' (JObj plan) inp)))"

definition resolve_request_cache_refs :: "environ \<Rightarrow> (string \<Rightarrow> string result) \<Rightarrow> pydict \<Rightarrow> pydict result" where
  "resolve_request_cache_refs env read data =
     bindE (sub_dict data ''input'') (\<lambda>inp.
     bindE (resolve_prefix_cache_ref read inp) (\<lambda>inp1.
     bindE (resolve_kv_cache_directive env inp1) (\<lambda>inp2.
     Inr (dset ''input'' (JObj inp2) data))))"

fun is_str :: "json \<Rightarrow> bool" where
  "is_str (JStr _) = True"
| "is_str _ = False"

definition ensure_cache_refs_resolved :: "pydict \<Rightarrow> unit result" where
  "ensure_cache_refs_resolved inp =
     (if has_key inp ''kv_cache_ref'' \<and> \<not> is_str (dget inp ''shared_prefix'')
      then Inl (ValueError ''input.kv_cache_ref must be resolved before queueing'')
      else if has_key inp ''kv_cache_ref'' \<and> \<not> is_str (dget inp ''shared_prefix_hash'')
      then Inl (ValueError ''resolved input.kv_cache_ref must set shared_prefix_hash'')
      else if has_key inp ''kv_cache'' \<and> \<not> is_obj (dget inp ''kv_cache_plan'')
      then Inl (ValueError ''input.kv_cache must be resolved before queueing'')
      else case plan_of inp of
        Some p \<Rightarrow> if dget p ''format'' \<noteq> JStr ''ds4-kv-cache-plan-v1''
                  then Inl (ValueError ''resolved input.kv_cache_plan has unsupported format'') else Inr ()
      | None \<Rightarrow> Inr ())"

section \<open>Facts about directives\<close>

definition sha256_value :: "json \<Rightarrow> bool" where
  "sha256_value v \<longleftrightarrow> (\<exists>d. v = JStr (''sha256:'' @ d) \<and> length d = 64 \<and> fromhex_ok d)"

lemma required_sha256_Inr:
  "required_sha256_value data = Inr s \<Longrightarrow> sha256_value (JStr s)"
  by (auto simp: required_sha256_value_def bindE_eq_Inr Let_def field_error_def sha256_value_def split: if_splits)

lemma sha256_field_load:
  assumes "sha256_field raw True what = Inr f"
  shows "\<exists>s. f = [(''sha256'', JStr s)] \<and> sha256_value (JStr s)"
  using assms required_sha256_Inr by (auto simp: sha256_field_def bindE_eq_Inr split: if_splits)

lemma removeprefix_append [simp]: "removeprefix p (p @ s) = s"
proof -
  have "drop_prefix p (p @ s) = Some s" by (induction p) simp_all
  then show ?thesis by (simp add: removeprefix_def)
qed

lemma removeprefix_sha256 [simp]: "removeprefix ''sha256:'' (CHR ''s'' # CHR ''h'' # CHR ''a'' # CHR ''2'' # CHR ''5'' # CHR ''6'' # CHR '':'' # s) = s"
  using removeprefix_append [of "''sha256:''" s] by simp

text \<open>An inline bundle is accepted exactly when it is what it claims to be.\<close>

lemma normalize_inline_Inr:
  assumes "normalize_inline_bundle env raw = Inr out"
  shows "\<exists>b64 payload claimed limit. dget raw ''data_b64'' = JStr b64 \<and> b64decode b64 = Some payload \<and>
     required_nonnegative_int raw ''bytes'' = Inr claimed \<and> int (length payload) = claimed \<and> claimed \<le> limit \<and>
     max_bytes env raw ''max_inline_bytes'' ''DS4_KV_CACHE_MAX_INLINE_BUNDLE_BYTES'' (64 * 1024 * 1024) = Inr limit \<and>
     required_sha256_value raw = Inr (''sha256:'' @ sha256_hex payload) \<and> fromhex_ok (sha256_hex payload) \<and>
     out = [(''media_type'', JStr (media_type raw)), (''bytes'', JInt claimed),
            (''sha256'', JStr (''sha256:'' @ sha256_hex payload)), (''data_b64'', JStr b64)]"
proof -
  obtain claimed limit b64 sha payload where
      c: "required_nonnegative_int raw ''bytes'' = Inr claimed"
    and l: "max_bytes env raw ''max_inline_bytes'' ''DS4_KV_CACHE_MAX_INLINE_BUNDLE_BYTES'' (64 * 1024 * 1024) = Inr limit"
    and b: "required_nonempty_str raw ''data_b64'' = Inr b64" and s: "required_sha256_value raw = Inr sha"
    and p: "b64decode b64 = Some payload"
    and rest: "int (length payload) = claimed" "claimed \<le> limit" "sha256_hex payload = removeprefix ''sha256:'' sha"
      "out = [(''media_type'', JStr (media_type raw)), (''bytes'', JInt claimed),
            (''sha256'', JStr (''sha256:'' @ sha256_hex payload)), (''data_b64'', JStr b64)]"
    using assms
    by (auto simp: normalize_inline_bundle_def bindE_eq_Inr too_many_bytes_def split: if_splits option.splits)
  obtain d where d: "sha = ''sha256:'' @ d" "fromhex_ok d" using required_sha256_Inr [OF s] by (auto simp: sha256_value_def)
  have "dget raw ''data_b64'' = JStr b64"
    using b by (auto simp: required_nonempty_str_def field_error_def split: json.splits if_splits)
  then show ?thesis using c l s p rest d by simp
qed

lemma normalize_endpoint_load:
  assumes "normalize_endpoint env raw transport True = Inr out"
  shows "\<exists>v. map_of (rev out) ''sha256'' = Some v \<and> sha256_value v"
proof -
  consider "transport = ''inline''" | "transport = ''request_blob''" | "transport = ''remote_uri''" | "transport = ''local_store''"
    using assms by (auto simp: normalize_endpoint_def split: if_splits)
  then show ?thesis
  proof cases
    case 1
    then have "normalize_inline_bundle env raw = Inr out" using assms by (simp add: normalize_endpoint_def)
    from normalize_inline_Inr [OF this] show ?thesis
      apply (elim exE conjE)
      apply (drule required_sha256_Inr)
      apply simp
      done
  next
    case 2
    then obtain s where "required_sha256_value raw = Inr s" "map_of (rev out) ''sha256'' = Some (JStr s)"
      using assms by (auto simp: normalize_endpoint_def normalize_request_blob_def bindE_eq_Inr too_many_bytes_def split: if_splits)
    then show ?thesis using required_sha256_Inr by blast
  next
    case 3
    then obtain uri b f where "sha256_field raw True ''remote'' = Inr f" "out = (''uri'', JStr uri) # b @ f"
      using assms by (auto simp: normalize_endpoint_def normalize_remote_uri_def bindE_eq_Inr split: if_splits)
    then show ?thesis using sha256_field_load by fastforce
  next
    case 4
    then obtain key b f where "sha256_field raw True ''local'' = Inr f" "out = (''cache_key'', JStr key) # b @ f"
      using assms by (auto simp: normalize_endpoint_def normalize_local_store_def bindE_eq_Inr split: if_splits)
    then show ?thesis using sha256_field_load by fastforce
  qed
qed

lemma normalize_load_checksummed:
  assumes "normalize_load env raw = Inr side" and "\<not> skips side"
  shows "sha256_value (dget side ''sha256'')"
proof -
  obtain d mode transport source where "normalize_endpoint env d transport True = Inr source"
      and side: "side = dupdate [(''mode'', JStr mode), (''transport'', JStr transport)] source"
    using assms by (auto simp: normalize_load_def skips_def skip_side_def bindE_eq_Inr dget_def dget_or_def
        split: json.splits if_splits)
  then obtain v where "map_of (rev source) ''sha256'' = Some v" "sha256_value v"
    using normalize_endpoint_load by blast
  then show ?thesis by (simp add: side dget_def dget_or_def map_of_dupdate map_add_def)
qed

lemma build_plan_Inr:
  assumes "build_plan d backend cid ph load store = Inr plan"
  shows "dget plan ''load'' = JObj load" "dget plan ''store'' = JObj store" "dget plan ''format'' = JStr ''ds4-kv-cache-plan-v1''"
    "dget plan ''cache_id'' = jopt cid" "dget plan ''prefix_hash'' = jopt ph"
    "dget plan ''operation'' = JStr (plan_operation load store)"
  using assms by (auto simp: build_plan_def bindE_eq_Inr Let_def dget_def dget_or_def)

lemma normalize_directive_Inr:
  assumes "normalize_kv_cache_directive env directive = Inr plan"
  shows "\<exists>d load store. directive = JObj d \<and> normalize_load env (dget d ''load'') = Inr load \<and>
     normalize_store env (dget d ''store'') = Inr store \<and> \<not> (skips load \<and> skips store) \<and>
     dget plan ''load'' = JObj load \<and> dget plan ''store'' = JObj store \<and>
     dget plan ''format'' = JStr ''ds4-kv-cache-plan-v1'' \<and> dget plan ''operation'' = JStr (plan_operation load store)"
proof -
  obtain d where d: "directive = JObj d"
    using assms by (cases directive) (simp_all add: normalize_kv_cache_directive_def)
  obtain cid ph backend load store where
      l: "normalize_load env (dget d ''load'') = Inr load" and st: "normalize_store env (dget d ''store'') = Inr store"
    and sk: "\<not> (skips load \<and> skips store)" and b: "build_plan d backend cid ph load store = Inr plan"
    using assms by (auto simp: d normalize_kv_cache_directive_def bindE_eq_Inr split: if_splits)
  show ?thesis using d l st sk build_plan_Inr [OF b] by blast
qed

lemma dget_not_null_key: "dget d k \<noteq> JNull \<Longrightarrow> has_key d k"
  by (auto simp: dget_def dget_or_def has_key_def split: option.splits)

lemma dget_no_key: "\<not> has_key d k \<Longrightarrow> dget d k = JNull"
  by (auto simp: dget_def dget_or_def has_key_def)

lemma set_or_verify_Inr: "set_or_verify d k v = Inr d' \<Longrightarrow> d' = dset k (JStr v) d"
  by (auto simp: set_or_verify_def split: if_splits)

lemma set_prefix_Inr:
  assumes "set_prefix path ref content inp = Inr inp1"
  shows "\<exists>sk r. inp1 = dset ''kv_cache_resolution'' r (dset ''shared_prefix'' (JStr content)
        (dset ''skeleton_hash'' (JStr sk) (dset ''shared_prefix_hash'' (JStr (''sha256:'' @ sha256_hex content)) inp)))"
proof -
  obtain i1 i2 sk r where
      "set_or_verify inp ''shared_prefix_hash'' (''sha256:'' @ sha256_hex content) = Inr i1"
      "set_or_verify i1 ''skeleton_hash'' sk = Inr i2"
      "inp1 = dset ''kv_cache_resolution'' r (dset ''shared_prefix'' (JStr content) i2)"
    using assms by (auto simp: set_prefix_def bindE_eq_Inr Let_def split: if_splits)
  then show ?thesis using set_or_verify_Inr by blast
qed

lemma resolve_prefix_Inr:
  assumes "resolve_prefix_cache_ref read inp = Inr inp1"
  shows "(dget inp ''kv_cache_ref'' = JNull \<and> inp1 = inp) \<or>
     (\<exists>content sk r. inp1 = dset ''kv_cache_resolution'' r (dset ''shared_prefix'' (JStr content)
        (dset ''skeleton_hash'' (JStr sk) (dset ''shared_prefix_hash'' (JStr (''sha256:'' @ sha256_hex content)) inp))))"
proof (cases "dget inp ''kv_cache_ref''")
  case JNull
  then show ?thesis using assms by (simp add: resolve_prefix_cache_ref_def)
next
  case (JObj ref)
  then obtain path content where "set_prefix path ref content inp = Inr inp1"
    using assms by (auto simp: resolve_prefix_cache_ref_def bindE_eq_Inr split: if_splits)
  from set_prefix_Inr [OF this] show ?thesis by blast
qed (use assms in \<open>simp_all add: resolve_prefix_cache_ref_def\<close>)

lemma resolve_directive_Inr:
  assumes "resolve_kv_cache_directive env inp = Inr inp2"
  shows "(dget inp ''kv_cache'' = JNull \<and> inp2 = dpop ''kv_cache'' inp) \<or>
     (\<exists>plan. dget plan ''format'' = JStr ''ds4-kv-cache-plan-v1'' \<and> inp2 = dset ''kv_cache_plan'' (JObj plan) inp)"
  using assms normalize_directive_Inr
  by (auto simp: resolve_kv_cache_directive_def bindE_eq_Inr split: if_splits)

section \<open>Properties\<close>

text \<open>
  Resolving a request's cache references makes it acceptable to the queue: the check made at
  submission passes, provided a reference that is present is not null and the input carries no plan
  without a directive.
\<close>

theorem resolved_request_passes_queue_check:
  assumes "sub_dict data ''input'' = Inr inp"
    and "has_key inp ''kv_cache_ref'' \<longrightarrow> dget inp ''kv_cache_ref'' \<noteq> JNull"
    and "dget inp ''kv_cache'' = JNull \<longrightarrow> dget inp ''kv_cache_plan'' = JNull"
    and "resolve_request_cache_refs env read data = Inr data'"
  shows "\<exists>inp'. dget data' ''input'' = JObj inp' \<and> ensure_cache_refs_resolved inp' = Inr ()"
proof -
  obtain inp1 inp2 where 1: "resolve_prefix_cache_ref read inp = Inr inp1"
    and 2: "resolve_kv_cache_directive env inp1 = Inr inp2" and data': "data' = dset ''input'' (JObj inp2) data"
    using assms(1,4) by (auto simp: resolve_request_cache_refs_def bindE_eq_Inr)
  have same: "dget inp1 ''kv_cache'' = dget inp ''kv_cache''" "dget inp1 ''kv_cache_plan'' = dget inp ''kv_cache_plan''"
      "has_key inp1 ''kv_cache_ref'' = has_key inp ''kv_cache_ref''" "has_key inp1 ''kv_cache'' = has_key inp ''kv_cache''"
    using resolve_prefix_Inr [OF 1] by auto
  have ref: "has_key inp ''kv_cache_ref'' \<Longrightarrow> is_str (dget inp1 ''shared_prefix'') \<and> is_str (dget inp1 ''shared_prefix_hash'')"
    using resolve_prefix_Inr [OF 1] assms(2) by auto
  from resolve_directive_Inr [OF 2] show ?thesis
  proof (elim disjE exE conjE)
    assume "dget inp1 ''kv_cache'' = JNull" "inp2 = dpop ''kv_cache'' inp1"
    then show ?thesis using ref same assms(3) data'
      by (auto simp: ensure_cache_refs_resolved_def plan_of_def)
  next
    fix plan
    assume "dget plan ''format'' = JStr ''ds4-kv-cache-plan-v1''" "inp2 = dset ''kv_cache_plan'' (JObj plan) inp1"
    then show ?thesis using ref same data'
      by (auto simp: ensure_cache_refs_resolved_def plan_of_def)
  qed
qed

definition sample_directive :: pydict where
  "sample_directive = [(''format'', JStr ''ds4-kv-cache-directive-v1''), (''cache_id'', JStr ''c''),
     (''load'', JObj [(''transport'', JStr ''local_store''), (''cache_key'', JStr ''k''), (''sha256'', JStr (replicate 64 (CHR ''a'')))])]"

definition sample_request :: pydict where
  "sample_request = [(''input'', JObj [(''kv_cache'', JObj sample_directive)])]"

lemma sample_directive_plan:
  "\<exists>plan load. normalize_kv_cache_directive env (JObj sample_directive) = Inr plan \<and> dget plan ''load'' = JObj load \<and> \<not> skips load"
proof -
  have "fromhex_ok (replicate 64 (CHR ''a''))" by code_simp
  then have s: "required_sha256_value [(''transport'', JStr ''local_store''), (''cache_key'', JStr ''k''),
      (''sha256'', JStr (replicate 64 (CHR ''a'')))] = Inr (''sha256:'' @ replicate 64 (CHR ''a''))"
    by (simp add: required_sha256_value_def required_nonempty_str_def dget_def dget_or_def removeprefix_def Let_def
        numeral_eq_Suc)
  show ?thesis
    by (simp add: normalize_kv_cache_directive_def sample_directive_def dget_def dget_or_def optional_nonempty_str_def
        required_nonempty_str_def enum_value_def kv_backends_def normalize_load_def normalize_store_def
        normalize_endpoint_def normalize_local_store_def claimed_bytes_field_def sha256_field_def has_key_def s
        build_plan_def default_miss_policy_def skips_def skip_side_def dupdate_def Let_def)
qed

theorem resolved_request_passes_queue_check_witness:
  "\<exists>data'. resolve_request_cache_refs Map.empty (\<lambda>_. Inl (RuntimeError ''no file'')) sample_request = Inr data' \<and>
     (\<exists>inp'. dget data' ''input'' = JObj inp' \<and> ensure_cache_refs_resolved inp' = Inr ())"
proof -
  let ?r = "resolve_request_cache_refs Map.empty (\<lambda>_. Inl (RuntimeError ''no file'')) sample_request"
  have s: "sub_dict sample_request ''input'' = Inr [(''kv_cache'', JObj sample_directive)]"
    by (simp add: sub_dict_def sample_request_def dget_or_def)
  obtain plan where "normalize_kv_cache_directive Map.empty (JObj sample_directive) = Inr plan"
    using sample_directive_plan by blast
  then obtain data' where r: "?r = Inr data'"
    by (simp add: resolve_request_cache_refs_def s resolve_prefix_cache_ref_def resolve_kv_cache_directive_def
        dget_def dget_or_def)
  have "\<exists>inp'. dget data' ''input'' = JObj inp' \<and> ensure_cache_refs_resolved inp' = Inr ()"
    by (rule resolved_request_passes_queue_check [OF s _ _ r]) (simp_all add: has_key_def dget_def dget_or_def)
  then show ?thesis using r by blast
qed

text \<open>
  A null cache reference is the exception: resolution leaves it in place, and the queue then
  refuses the request as unresolved, although a null directive is dropped.
\<close>

theorem null_cache_ref_refused:
  assumes "sub_dict data ''input'' = Inr inp" and "has_key inp ''kv_cache_ref''" and "dget inp ''kv_cache_ref'' = JNull"
    and "\<not> is_str (dget inp ''shared_prefix'')" and "resolve_request_cache_refs env read data = Inr data'"
  shows "\<exists>inp'. dget data' ''input'' = JObj inp' \<and>
     ensure_cache_refs_resolved inp' = Inl (ValueError ''input.kv_cache_ref must be resolved before queueing'')"
proof -
  obtain inp2 where 2: "resolve_kv_cache_directive env inp = Inr inp2" and data': "data' = dset ''input'' (JObj inp2) data"
    using assms by (auto simp: resolve_request_cache_refs_def bindE_eq_Inr resolve_prefix_cache_ref_def)
  from resolve_directive_Inr [OF 2] show ?thesis
    using assms data' by (auto simp: ensure_cache_refs_resolved_def)
qed

theorem null_cache_ref_refused_witness:
  "\<exists>data'. resolve_request_cache_refs Map.empty (\<lambda>_. Inl (RuntimeError ''no file''))
       [(''input'', JObj [(''prompt'', JStr ''hi''), (''kv_cache_ref'', JNull)])] = Inr data' \<and>
     (\<exists>inp'. dget data' ''input'' = JObj inp' \<and>
        ensure_cache_refs_resolved inp' = Inl (ValueError ''input.kv_cache_ref must be resolved before queueing''))"
proof -
  let ?d = "[(''input'', JObj [(''prompt'', JStr ''hi''), (''kv_cache_ref'', JNull)])] :: pydict"
  let ?r = "resolve_request_cache_refs Map.empty (\<lambda>_. Inl (RuntimeError ''no file'')) ?d"
  have "\<not> isl ?r" by code_simp
  then obtain data' where r: "?r = Inr data'" by (cases ?r) auto
  have s: "sub_dict ?d ''input'' = Inr [(''prompt'', JStr ''hi''), (''kv_cache_ref'', JNull)]"
    by (simp add: sub_dict_def dget_or_def)
  have "\<exists>inp'. dget data' ''input'' = JObj inp' \<and>
     ensure_cache_refs_resolved inp' = Inl (ValueError ''input.kv_cache_ref must be resolved before queueing'')"
    by (rule null_cache_ref_refused [OF s _ _ _ r]) (simp_all add: has_key_def dget_def dget_or_def)
  then show ?thesis using r by blast
qed

text \<open>
  Every plan that loads a cache carries a checksum to verify it with, whatever the transport; and a
  plan loads, stores or both.
\<close>

theorem loading_plan_checksummed:
  assumes "normalize_kv_cache_directive env directive = Inr plan"
  shows "\<exists>load store. dget plan ''load'' = JObj load \<and> dget plan ''store'' = JObj store \<and>
     \<not> (skips load \<and> skips store) \<and> (\<not> skips load \<longrightarrow> sha256_value (dget load ''sha256''))"
  using normalize_directive_Inr [OF assms] normalize_load_checksummed by blast

theorem loading_plan_checksummed_witness:
  "\<exists>plan load. normalize_kv_cache_directive Map.empty (JObj sample_directive) = Inr plan \<and> dget plan ''load'' = JObj load \<and>
     sha256_value (dget load ''sha256'')"
proof -
  obtain plan load where r: "normalize_kv_cache_directive Map.empty (JObj sample_directive) = Inr plan"
      and l: "dget plan ''load'' = JObj load" "\<not> skips load"
    using sample_directive_plan by blast
  then show ?thesis using loading_plan_checksummed [OF r] by force
qed

end
