(* ===== verification/Json_Parse.thy ===== *)
theory Json_Parse
  imports Py_Json
begin

text \<open>
  \<^verbatim>\<open>json.loads\<close> of Python's standard library on UTF-8 text, as far as the program uses it:
  whether a text is a JSON document and which one.  It is a recursive descent over the characters;
  the fuel counts calls and twice the length of the text is enough, because a call either consumes a
  character or hands on to a call that does.  The literals \<^verbatim>\<open>NaN\<close> and
  \<^verbatim>\<open>Infinity\<close> are refused: floats are rationals here.  The line in which a parse error is
  reported is not modelled.
\<close>

definition json_space :: "char \<Rightarrow> bool" where
  "json_space c \<longleftrightarrow> c = CHR '' '' \<or> c = CHR 0x0A \<or> c = CHR 0x0D \<or> c = CHR 0x09"

definition skip_ws :: "string \<Rightarrow> string" where
  "skip_ws s = dropWhile json_space s"

definition hex_of :: "char \<Rightarrow> nat option" where
  "hex_of c = (let n = of_char c :: nat
     in if 48 \<le> n \<and> n \<le> 57 then Some (n - 48)
        else if 97 \<le> n \<and> n \<le> 102 then Some (n - 87)
        else if 65 \<le> n \<and> n \<le> 70 then Some (n - 55) else None)"

fun hex4_of :: "string \<Rightarrow> (nat \<times> string) option" where
  "hex4_of (a # b # c # d # cs) =
     (case (hex_of a, hex_of b, hex_of c, hex_of d) of
        (Some p, Some q, Some r, Some s) \<Rightarrow> Some (p * 4096 + q * 256 + r * 16 + s, cs)
      | _ \<Rightarrow> None)"
| "hex4_of _ = None"

definition utf8_encode :: "nat \<Rightarrow> string" where
  "utf8_encode p =
     map char_of
       (if p < 128 then [p]
        else if p < 2048 then [192 + p div 64, 128 + p mod 64]
        else if p < 65536 then [224 + p div 4096, 128 + p div 64 mod 64, 128 + p mod 64]
        else [240 + p div 262144, 128 + p div 4096 mod 64, 128 + p div 64 mod 64, 128 + p mod 64])"

definition simple_escape :: "char \<Rightarrow> char option" where
  "simple_escape c =
     (if c = CHR 0x22 \<or> c = CHR 0x5C \<or> c = CHR ''/'' then Some c
      else if c = CHR ''n'' then Some (CHR 0x0A)
      else if c = CHR ''r'' then Some (CHR 0x0D)
      else if c = CHR ''t'' then Some (CHR 0x09)
      else if c = CHR ''b'' then Some (CHR 0x08)
      else if c = CHR ''f'' then Some (CHR 0x0C)
      else None)"

definition escaped_point :: "string \<Rightarrow> (nat \<times> string) option" where
  \<comment> \<open>after \<^verbatim>\<open>\u\<close>: four hex digits, and a low surrogate joined to a high one\<close>
  "escaped_point cs =
     (case hex4_of cs of
        None \<Rightarrow> None
      | Some (p, r) \<Rightarrow>
          if 55296 \<le> p \<and> p < 56320
          then (case drop_prefix [CHR 0x5C, CHR ''u''] r of
                  None \<Rightarrow> Some (p, r)
                | Some r' \<Rightarrow>
                    (case hex4_of r' of
                       None \<Rightarrow> None
                     | Some (q, r'') \<Rightarrow>
                         if 56320 \<le> q \<and> q < 57344 then Some (65536 + (p - 55296) * 1024 + (q - 56320), r'')
                         else Some (p, r)))
          else Some (p, r))"

fun scan_string :: "nat \<Rightarrow> string \<Rightarrow> string \<Rightarrow> (string \<times> string) option" where
  \<comment> \<open>the text after the opening quote; the accumulator holds what was read, reversed\<close>
  "scan_string 0 acc s = None"
| "scan_string (Suc n) acc [] = None"
| "scan_string (Suc n) acc (c # cs) =
     (if c = CHR 0x22 then Some (rev acc, cs)
      else if c = CHR 0x5C
      then (case cs of
              [] \<Rightarrow> None
            | e # r \<Rightarrow>
                if e = CHR ''u''
                then (case escaped_point r of
                        None \<Rightarrow> None
                      | Some (p, r') \<Rightarrow> scan_string n (rev (utf8_encode p) @ acc) r')
                else (case simple_escape e of None \<Rightarrow> None | Some x \<Rightarrow> scan_string n (x # acc) r))
      else if (of_char c :: nat) < 32 then None
      else scan_string n (c # acc) cs)"

definition json_digit :: "char \<Rightarrow> bool" where
  "json_digit c \<longleftrightarrow> digit_of c \<noteq> None"

definition int_part :: "string \<Rightarrow> (string \<times> string) option" where
  \<comment> \<open>\<^verbatim>\<open>0|[1-9][0-9]*\<close>\<close>
  "int_part s =
     (case s of
        [] \<Rightarrow> None
      | c # cs \<Rightarrow> if c = CHR ''0'' then Some ([c], cs)
                  else if json_digit c then Some (takeWhile json_digit s, dropWhile json_digit s) else None)"

definition frac_part :: "string \<Rightarrow> string \<times> string" where
  "frac_part s =
     (case s of
        c # d # cs \<Rightarrow> if c = CHR ''.'' \<and> json_digit d
                      then (c # takeWhile json_digit (d # cs), dropWhile json_digit (d # cs)) else ('''', s)
      | _ \<Rightarrow> ('''', s))"

definition exp_part :: "string \<Rightarrow> string \<times> string" where
  "exp_part s =
     (case s of
        e # cs \<Rightarrow>
          if e = CHR ''e'' \<or> e = CHR ''E''
          then (let sg = takeWhile (\<lambda>c. c = CHR ''+'' \<or> c = CHR ''-'') (take 1 cs); r = drop (length sg) cs;
                    ds = takeWhile json_digit r
                in if ds = '''' then ('''', s) else (e # sg @ ds, drop (length ds) r))
          else ('''', s)
      | _ \<Rightarrow> ('''', s))"

definition scan_number :: "string \<Rightarrow> (json \<times> string) option" where
  "scan_number s =
     (let sg = (case s of c # _ \<Rightarrow> if c = CHR ''-'' then [c] else '''' | [] \<Rightarrow> '''')
      in case int_part (drop (length sg) s) of
           None \<Rightarrow> None
         | Some (ds, r) \<Rightarrow>
             (let (f, r1) = frac_part r; (e, r2) = exp_part r1
              in if f = '''' \<and> e = '''' then map_option (\<lambda>i. (JInt i, r)) (parse_int (sg @ ds))
                 else map_option (\<lambda>q. (JFloat q, r2)) (parse_float (sg @ ds @ f @ e))))"

fun scan_value :: "nat \<Rightarrow> string \<Rightarrow> (json \<times> string) option"
  and scan_elements :: "nat \<Rightarrow> json list \<Rightarrow> string \<Rightarrow> (json \<times> string) option"
  and scan_members :: "nat \<Rightarrow> pydict \<Rightarrow> string \<Rightarrow> (json \<times> string) option"
where
  "scan_value 0 s = None"
| "scan_value (Suc n) [] = None"
| "scan_value (Suc n) (c # cs) =
     (if c = CHR 0x22 then map_option (\<lambda>(t, r). (JStr t, r)) (scan_string (Suc (length cs)) [] cs)
      else if c = CHR ''['' then
        (case skip_ws cs of
           [] \<Rightarrow> None
         | d # r \<Rightarrow> if d = CHR '']'' then Some (JArr [], r) else scan_elements n [] (d # r))
      else if c = CHR ''{'' then
        (case skip_ws cs of
           [] \<Rightarrow> None
         | d # r \<Rightarrow> if d = CHR ''}'' then Some (JObj [], r) else scan_members n [] (d # r))
      else case drop_prefix ''null'' (c # cs) of Some r \<Rightarrow> Some (JNull, r)
      | None \<Rightarrow> (case drop_prefix ''true'' (c # cs) of Some r \<Rightarrow> Some (JBool True, r)
      | None \<Rightarrow> (case drop_prefix ''false'' (c # cs) of Some r \<Rightarrow> Some (JBool False, r)
      | None \<Rightarrow> scan_number (c # cs))))"
| "scan_elements 0 acc s = None"
| "scan_elements (Suc n) acc s =
     (case scan_value n s of
        None \<Rightarrow> None
      | Some (v, r) \<Rightarrow>
          (case skip_ws r of
             [] \<Rightarrow> None
           | d # r' \<Rightarrow> if d = CHR '']'' then Some (JArr (acc @ [v]), r')
                       else if d = CHR '','' then scan_elements n (acc @ [v]) (skip_ws r')
                       else None))"
| "scan_members 0 acc s = None"
| "scan_members (Suc n) acc s =
     (case s of
        [] \<Rightarrow> None
      | q # qs \<Rightarrow>
          if q \<noteq> CHR 0x22 then None
          else case scan_string (Suc (length qs)) [] qs of
            None \<Rightarrow> None
          | Some (k, r) \<Rightarrow>
              (case skip_ws r of
                 [] \<Rightarrow> None
               | d # r' \<Rightarrow>
                   if d \<noteq> CHR '':'' then None
                   else case scan_value n (skip_ws r') of
                     None \<Rightarrow> None
                   | Some (v, r2) \<Rightarrow>
                       (case skip_ws r2 of
                          [] \<Rightarrow> None
                        | e # r3 \<Rightarrow> if e = CHR ''}'' then Some (JObj (dset k v acc), r3)
                                    else if e = CHR '','' then scan_members n (dset k v acc) (skip_ws r3)
                                    else None)))"

definition json_loads :: "string \<Rightarrow> json option" where
  \<comment> \<open>None stands for \<^verbatim>\<open>json.JSONDecodeError\<close>\<close>
  "json_loads s =
     (case scan_value (2 * length s + 2) (skip_ws s) of
        None \<Rightarrow> None
      | Some (v, r) \<Rightarrow> if skip_ws r = '''' then Some v else None)"

lemma json_loads_examples:
  "json_loads ''{}'' = Some (JObj [])"
  "json_loads '' [1, -2 ,true ] '' = Some (JArr [JInt 1, JInt (- 2), JBool True])"
  "json_loads ''1.5e1'' = Some (JFloat 15)"
  "json_loads ''plain'' = None"
  by code_simp+

end
