(* ===== verification/Profiles.thy ===== *)
theory Profiles
  imports Py_Json
begin

text \<open>
  Model profiles and the registry that resolves a request to one, \<^verbatim>\<open>v2/src/ds4_infer/profiles.py\<close>.
  A registry is built from the documents of the profile directory in file order; a profile is found by
  its id, else by an alias exactly one profile has, and a request that pins none gets the best-ranked
  production profile for its capability.
\<close>

section \<open>Profiles\<close>

record model_profile =
  mp_profile_id :: string
  mp_model_id :: string
  mp_backend :: string
  mp_runtime_contract_id :: "string option"
  mp_capability_classes :: "string list"
  mp_supported_job_classes :: "string list"
  mp_supports_chat :: bool
  mp_supports_completion :: bool
  mp_supports_thinking :: bool
  mp_production_eligible :: bool
  mp_default_for :: "json list"
  mp_quality :: pydict
  mp_performance :: pydict
  mp_routing :: pydict

definition profile_required :: "string list" where
  "profile_required = [''profile_id'', ''model_id'', ''backend'', ''capability_classes'', ''supported_job_classes'',
     ''supports_chat'', ''supports_completion'', ''production_eligible'']"

definition profile_from_json :: "pydict \<Rightarrow> model_profile result" where
  "profile_from_json data =
     (let missing = filter (\<lambda>k. \<not> has_key data k) profile_required
      in if missing \<noteq> [] then Inl (ValueError (''model profile missing fields: '' @ py_repr (JArr (map JStr missing))))
         else
           bindE (sub_dict data ''routing'') (\<lambda>routing.
           bindE (py_strs (dget data ''capability_classes'')) (\<lambda>caps.
           bindE (py_strs (dget data ''supported_job_classes'')) (\<lambda>jobs.
           bindE (py_iter (dget_or routing ''default_for'' (JArr []))) (\<lambda>defaults.
           bindE (sub_dict data ''quality'') (\<lambda>quality.
           bindE (sub_dict data ''performance'') (\<lambda>performance.
           Inr \<lparr>mp_profile_id = py_str (dget data ''profile_id''), mp_model_id = py_str (dget data ''model_id''),
                mp_backend = py_str (dget data ''backend''),
                mp_runtime_contract_id = (if truthy (dget data ''runtime_contract_id'')
                                          then Some (py_str (dget data ''runtime_contract_id'')) else None),
                mp_capability_classes = caps, mp_supported_job_classes = jobs,
                mp_supports_chat = truthy (dget data ''supports_chat''),
                mp_supports_completion = truthy (dget data ''supports_completion''),
                mp_supports_thinking = truthy (dget_or data ''supports_thinking'' (JBool False)),
                mp_production_eligible = truthy (dget data ''production_eligible''),
                mp_default_for = defaults, mp_quality = quality, mp_performance = performance,
                mp_routing = routing\<rparr>)))))))"

definition profile_public_dict :: "model_profile \<Rightarrow> pydict" where
  "profile_public_dict p =
     [(''profile_id'', JStr (mp_profile_id p)), (''model_id'', JStr (mp_model_id p)), (''backend'', JStr (mp_backend p)),
      (''runtime_contract_id'', jopt (mp_runtime_contract_id p)),
      (''capability_classes'', JArr (map JStr (mp_capability_classes p))),
      (''supported_job_classes'', JArr (map JStr (mp_supported_job_classes p))),
      (''supports_chat'', JBool (mp_supports_chat p)), (''supports_completion'', JBool (mp_supports_completion p)),
      (''supports_thinking'', JBool (mp_supports_thinking p)), (''production_eligible'', JBool (mp_production_eligible p)),
      (''quality'', JObj (mp_quality p)), (''performance'', JObj (mp_performance p)), (''routing'', JObj (mp_routing p))]"

definition nonempty_strs :: "pydict \<Rightarrow> string list \<Rightarrow> string list" where
  \<comment> \<open>the values under these keys that are non-empty strings\<close>
  "nonempty_strs d keys = filter (\<lambda>s. s \<noteq> '''') (map (\<lambda>k. str_or_empty (dget d k)) keys)"

fun dedup :: "'a list \<Rightarrow> 'a list" where
  \<comment> \<open>\<^verbatim>\<open>dict.fromkeys(xs)\<close>: first occurrences, in order\<close>
  "dedup [] = []"
| "dedup (x # xs) = x # dedup (filter (\<lambda>y. y \<noteq> x) xs)"

definition profile_aliases :: "model_profile \<Rightarrow> string list" where
  "profile_aliases p =
     dedup (nonempty_strs (mp_routing p) [''pipeline_service_id'', ''service_id'', ''served_model_name'', ''runner_model_id''] @
       (case dget (mp_routing p) ''pipeline'' of
          JObj pipeline \<Rightarrow> nonempty_strs pipeline [''service_id'', ''served_model_name'', ''runner_model_id'']
        | _ \<Rightarrow> []))"

section \<open>The registry\<close>

record profile_registry =
  pr_profiles :: "model_profile list"
  pr_by_alias :: "(string \<times> model_profile) list"
  pr_ambiguous :: "string list"

type_synonym alias_table = "(string \<times> model_profile) list \<times> string list"

definition add_alias :: "model_profile \<Rightarrow> alias_table \<Rightarrow> string \<Rightarrow> alias_table" where
  "add_alias p t a =
     (case t of (tab, amb) \<Rightarrow>
        if a = mp_profile_id p \<or> a \<in> set amb then (tab, amb)
        else case map_of tab a of
          None \<Rightarrow> (dset a p tab, amb)
        | Some q \<Rightarrow> if mp_profile_id q \<noteq> mp_profile_id p then (dpop a tab, a # amb) else (tab, amb))"

definition add_profile_aliases :: "alias_table \<Rightarrow> model_profile \<Rightarrow> alias_table" where
  "add_profile_aliases t p = foldl (add_alias p) t (profile_aliases p)"

definition make_registry :: "model_profile list \<Rightarrow> profile_registry result" where
  "make_registry ps =
     (if ps = [] then Inl (ValueError ''at least one model profile is required'')
      else if \<not> distinct (map mp_profile_id ps) then Inl (ValueError ''duplicate profile_id in registry'')
      else (let (tab, amb) = foldl add_profile_aliases ([], []) ps
            in Inr \<lparr>pr_profiles = ps, pr_by_alias = tab, pr_ambiguous = amb\<rparr>))"

definition load_registry :: "pydict list \<Rightarrow> profile_registry result" where
  \<comment> \<open>the documents of the directory, sorted by path\<close>
  "load_registry docs = bindE (mapE profile_from_json docs) make_registry"

definition registry_get :: "profile_registry \<Rightarrow> string \<Rightarrow> model_profile result" where
  "registry_get reg pid =
     (case find (\<lambda>p. mp_profile_id p = pid) (pr_profiles reg) of
        Some p \<Rightarrow> Inr p
      | None \<Rightarrow>
          if pid \<in> set (pr_ambiguous reg) then Inl (ValueError (''ambiguous model profile alias: '' @ pid))
          else (case map_of (pr_by_alias reg) pid of
                  Some p \<Rightarrow> Inr p
                | None \<Rightarrow> Inl (ValueError (''unknown model profile: '' @ pid))))"

definition check_profile_support :: "model_profile \<Rightarrow> bool \<Rightarrow> string \<Rightarrow> unit result" where
  "check_profile_support p chat job =
     (if job \<notin> set (mp_supported_job_classes p)
      then Inl (ValueError (''profile '' @ mp_profile_id p @ '' does not support job_class='' @ job))
      else if chat \<and> \<not> mp_supports_chat p
      then Inl (ValueError (''profile '' @ mp_profile_id p @ '' does not support chat mode''))
      else if \<not> chat \<and> \<not> mp_supports_completion p
      then Inl (ValueError (''profile '' @ mp_profile_id p @ '' does not support completion mode''))
      else Inr ())"

definition supports_mode :: "model_profile \<Rightarrow> bool \<Rightarrow> bool" where
  "supports_mode p chat = (if chat then mp_supports_chat p else mp_supports_completion p)"

definition profile_candidate :: "json \<Rightarrow> bool \<Rightarrow> string \<Rightarrow> model_profile \<Rightarrow> bool" where
  "profile_candidate cap chat job p \<longleftrightarrow>
     mp_production_eligible p \<and> cap \<in> set (map JStr (mp_capability_classes p)) \<and>
     job \<in> set (mp_supported_job_classes p) \<and> supports_mode p chat"

definition routing_rank :: "model_profile \<Rightarrow> (int \<times> rat \<times> string) result" where
  "routing_rank p =
     bindE (py_int (dget_or (mp_routing p) ''rank'' (JInt 1000))) (\<lambda>rank.
     bindE (py_float (dget_or (mp_performance p) ''p95_latency_s''
              (dget_or (mp_performance p) ''latency_rank'' (JFloat 1000000)))) (\<lambda>latency.
     Inr (rank, latency, mp_profile_id p)))"

definition best_ranked :: "model_profile list \<Rightarrow> model_profile result" where
  \<comment> \<open>\<^verbatim>\<open>sorted(ps, key=_routing_rank)[0]\<close>\<close>
  "best_ranked ps =
     bindE (mapE routing_rank ps) (\<lambda>ranks. Inr (snd (hd (sort_key fst (zip ranks ps)))))"

definition resolve_pin :: "profile_registry \<Rightarrow> json \<Rightarrow> string result" where
  "resolve_pin reg pin =
     (case pin of
        JObj d \<Rightarrow>
          (let pid = py_str (dget_or d ''profile_id'' (JStr ''''))
           in if pid = '''' then Inl (ValueError ''model_pin.profile_id is required'') else Inr pid)
      | _ \<Rightarrow> Inl (TypeError ''model_pin has no attribute get''))"

definition resolve_profile :: "profile_registry \<Rightarrow> json \<Rightarrow> bool \<Rightarrow> string \<Rightarrow> json \<Rightarrow> model_profile result" where
  "resolve_profile reg cap chat job pin =
     (if truthy pin then
        bindE (resolve_pin reg pin) (\<lambda>pid.
        bindE (registry_get reg pid) (\<lambda>p.
        bindE (check_profile_support p chat job) (\<lambda>_. Inr p)))
      else if \<not> truthy cap then Inl (ValueError ''capability is required when model_pin is not provided'')
      else
        (let candidates = filter (profile_candidate cap chat job) (pr_profiles reg);
             defaults = filter (\<lambda>p. cap \<in> set (mp_default_for p)) candidates
         in if candidates = []
            then Inl (ValueError (''no production profile supports capability='' @ py_repr cap @ '', chat='' @
                   (if chat then ''True'' else ''False'') @ '', job_class='' @ py_repr (JStr job)))
            else best_ranked (if defaults \<noteq> [] then defaults else candidates)))"

section \<open>Aliases\<close>

text \<open>\<open>alias_inv a t C\<close>: the table knows exactly that \<open>C\<close> are the profiles with alias \<open>a\<close>.\<close>

definition alias_inv :: "string \<Rightarrow> alias_table \<Rightarrow> model_profile set \<Rightarrow> bool" where
  "alias_inv a t C \<longleftrightarrow>
     (a \<in> set (snd t) \<longleftrightarrow> (\<exists>p \<in> C. \<exists>q \<in> C. mp_profile_id p \<noteq> mp_profile_id q)) \<and>
     (\<forall>p. map_of (fst t) a = Some p \<longleftrightarrow> C = {p})"

definition alias_owners :: "model_profile list \<Rightarrow> string \<Rightarrow> model_profile set" where
  "alias_owners ps a = {p \<in> set ps. a \<in> set (profile_aliases p) \<and> a \<noteq> mp_profile_id p}"

lemma alias_inv_amb:
  "alias_inv a (tab, amb) C \<Longrightarrow> a \<in> set amb \<longleftrightarrow> (\<exists>p \<in> C. \<exists>q \<in> C. mp_profile_id p \<noteq> mp_profile_id q)"
  by (simp add: alias_inv_def)

lemma alias_inv_tab: "alias_inv a (tab, amb) C \<Longrightarrow> map_of tab a = Some p \<longleftrightarrow> C = {p}"
  by (simp add: alias_inv_def)

lemma alias_invI:
  assumes "a \<in> set amb \<longleftrightarrow> (\<exists>p \<in> C. \<exists>q \<in> C. mp_profile_id p \<noteq> mp_profile_id q)"
    and "\<And>p. map_of tab a = Some p \<longleftrightarrow> C = {p}"
  shows "alias_inv a (tab, amb) C"
  using assms by (simp add: alias_inv_def)

lemma add_alias_inv:
  assumes "alias_inv a t C" and inj: "inj_on mp_profile_id (insert p C)"
  shows "alias_inv a (add_alias p t b) (if b = a \<and> a \<noteq> mp_profile_id p then insert p C else C)"
proof -
  obtain tab amb where t: "t = (tab, amb)" by (cases t)
  note inv = assms(1) [unfolded t]
  note amb = alias_inv_amb [OF inv] and tab = alias_inv_tab [OF inv]
  show ?thesis
  proof (cases "b = a \<and> a \<noteq> mp_profile_id p \<and> a \<notin> set amb")
    case False
    show ?thesis
    proof (cases "b = a \<and> a \<noteq> mp_profile_id p")
      case True
      then have a: "a \<in> set amb" using False by blast
      then obtain u v where "u \<in> C" "v \<in> C" "mp_profile_id u \<noteq> mp_profile_id v" using amb by blast
      then have "insert p C \<noteq> {x}" "C \<noteq> {x}" "\<exists>x \<in> insert p C. \<exists>y \<in> insert p C. mp_profile_id x \<noteq> mp_profile_id y" for x
        by blast+
      then have "alias_inv a (tab, amb) (insert p C)" using a tab by (intro alias_invI) blast+
      moreover have "add_alias p t b = (tab, amb)" using True a t by (simp add: add_alias_def)
      ultimately show ?thesis using True by simp
    next
      case other: False
      have "map_of (fst (add_alias p t b)) a = map_of tab a \<and>
          (a \<in> set (snd (add_alias p t b)) \<longleftrightarrow> a \<in> set amb)"
        using other by (auto simp: add_alias_def t split: option.split)
      then have "alias_inv a (add_alias p t b) C" using inv by (simp add: alias_inv_def)
      then show ?thesis using other by auto
    qed
  next
    case True
    then have one: "\<And>x y. x \<in> C \<Longrightarrow> y \<in> C \<Longrightarrow> mp_profile_id x = mp_profile_id y"
      using amb by blast
    show ?thesis
    proof (cases "map_of tab a")
      case None
      have "C = {}"
      proof (rule ccontr)
        assume "C \<noteq> {}"
        then obtain x where x: "x \<in> C" by blast
        have "y = x" if "y \<in> C" for y using inj_onD [OF inj one [OF that x]] that x by blast
        then have "C = {x}" using x by blast
        then show False using tab [of x] None by simp
      qed
      moreover have "add_alias p t b = (dset a p tab, amb)" using True None t by (simp add: add_alias_def)
      ultimately show ?thesis using True by (auto intro: alias_invI)
    next
      case (Some q)
      then have C: "C = {q}" using tab by simp
      show ?thesis
      proof (cases "mp_profile_id q = mp_profile_id p")
        case same: True
        then have "q = p" using inj C by (auto dest: inj_onD)
        then show ?thesis using inv C True Some t by (simp add: add_alias_def)
      next
        case diff: False
        then have "add_alias p t b = (dpop a tab, a # amb)" using True Some t by (simp add: add_alias_def)
        then show ?thesis using C True diff by (auto intro!: alias_invI)
      qed
    qed
  qed
qed

lemma add_aliases_inv:
  assumes "alias_inv a t C" and "inj_on mp_profile_id (insert p C)"
  shows "alias_inv a (foldl (add_alias p) t bs) (if a \<in> set bs \<and> a \<noteq> mp_profile_id p then insert p C else C)"
  using assms
proof (induction bs arbitrary: t C)
  case Nil
  then show ?case by simp
next
  case (Cons b bs)
  let ?C = "if b = a \<and> a \<noteq> mp_profile_id p then insert p C else C"
  have "insert p ?C = insert p C" by simp
  then have "alias_inv a (foldl (add_alias p) (add_alias p t b) bs)
      (if a \<in> set bs \<and> a \<noteq> mp_profile_id p then insert p ?C else ?C)"
    using Cons.prems by (intro Cons.IH add_alias_inv) simp_all
  then show ?case by (cases "b = a"; cases "a \<in> set bs"; cases "a = mp_profile_id p") simp_all
qed

lemma add_profiles_inv:
  assumes "distinct (map mp_profile_id ps)"
  shows "alias_inv a (foldl add_profile_aliases ([], []) ps) (alias_owners ps a)"
  using assms
proof (induction ps rule: rev_induct)
  case Nil
  then show ?case by (simp add: alias_inv_def alias_owners_def)
next
  case (snoc p ps)
  let ?C = "alias_owners ps a"
  have "inj_on mp_profile_id (set (ps @ [p]))" using snoc.prems unfolding distinct_map by blast
  moreover have "insert p ?C \<subseteq> set (ps @ [p])" by (auto simp: alias_owners_def)
  ultimately have inj: "inj_on mp_profile_id (insert p ?C)" by (rule inj_on_subset)
  have d: "distinct (map mp_profile_id ps)" using snoc.prems by simp
  have "alias_inv a (foldl (add_alias p) (foldl add_profile_aliases ([], []) ps) (profile_aliases p))
      (if a \<in> set (profile_aliases p) \<and> a \<noteq> mp_profile_id p then insert p ?C else ?C)"
    by (rule add_aliases_inv [OF snoc.IH [OF d] inj])
  moreover have "alias_owners (ps @ [p]) a =
      (if a \<in> set (profile_aliases p) \<and> a \<noteq> mp_profile_id p then insert p ?C else ?C)"
    by (auto simp: alias_owners_def)
  moreover have "foldl add_profile_aliases ([], []) (ps @ [p]) =
      foldl (add_alias p) (foldl add_profile_aliases ([], []) ps) (profile_aliases p)"
    by (simp add: add_profile_aliases_def)
  ultimately show ?case by simp
qed

lemma make_registry_Inr:
  assumes "make_registry ps = Inr reg"
  shows "pr_profiles reg = ps" and "distinct (map mp_profile_id ps)" and "ps \<noteq> []"
    and "alias_inv a (pr_by_alias reg, pr_ambiguous reg) (alias_owners ps a)"
  using assms add_profiles_inv [of ps a]
  by (auto simp: make_registry_def split: if_splits prod.splits)

text \<open>What a lookup returns, with no mention of the order the registry was filled in.\<close>

lemma registry_get_iff:
  assumes "make_registry ps = Inr reg"
  shows "registry_get reg pid = Inr p \<longleftrightarrow>
     (p \<in> set ps \<and> mp_profile_id p = pid) \<or>
     (pid \<notin> mp_profile_id ` set ps \<and> {q \<in> set ps. pid \<in> set (profile_aliases q)} = {p})"
proof (cases "find (\<lambda>p. mp_profile_id p = pid) ps")
  case (Some q)
  then have "q \<in> set ps" "mp_profile_id q = pid"
    by (metis (mono_tags, lifting) find_Some_iff nth_mem)+
  moreover have "inj_on mp_profile_id (set ps)" using make_registry_Inr(2) [OF assms] by (simp add: distinct_map)
  ultimately show ?thesis using Some make_registry_Inr(1) [OF assms]
    by (auto simp: registry_get_def dest: inj_onD)
next
  case None
  then have n: "pid \<notin> mp_profile_id ` set ps" by (auto simp: find_None_iff)
  then have o: "alias_owners ps pid = {q \<in> set ps. pid \<in> set (profile_aliases q)}"
    by (auto simp: alias_owners_def)
  let ?O = "{q \<in> set ps. pid \<in> set (profile_aliases q)}"
  have inv: "alias_inv pid (pr_by_alias reg, pr_ambiguous reg) ?O"
    using make_registry_Inr(4) [OF assms, of pid] o by simp
  then have amb: "pid \<in> set (pr_ambiguous reg) \<Longrightarrow> ?O \<noteq> {p}"
    by (force simp: alias_inv_def)
  have tab: "map_of (pr_by_alias reg) pid = Some q \<longleftrightarrow> ?O = {q}" for q
    using inv by (simp add: alias_inv_def)
  have "registry_get reg pid = Inr p \<longleftrightarrow> pid \<notin> set (pr_ambiguous reg) \<and> map_of (pr_by_alias reg) pid = Some p"
    using None make_registry_Inr(1) [OF assms] by (auto simp: registry_get_def split: option.splits)
  then show ?thesis using n tab amb by (auto simp: image_iff)
qed

section \<open>Resolution\<close>

lemma best_ranked_Inr:
  assumes "best_ranked ps = Inr p" and "ps \<noteq> []"
  shows "p \<in> set ps \<and> (\<exists>r. routing_rank p = Inr r \<and> (\<forall>q \<in> set ps. \<exists>s. routing_rank q = Inr s \<and> r \<le> s))"
proof -
  obtain rs where rs: "mapE routing_rank ps = Inr rs" and p: "p = snd (hd (sort_key fst (zip rs ps)))"
    using assms(1) by (auto simp: best_ranked_def bindE_eq_Inr)
  have l: "list_all2 (\<lambda>x y. routing_rank x = Inr y) ps rs" using rs by (simp add: mapE_Inr_list_all2)
  let ?z = "sort_key fst (zip rs ps)"
  have ne: "?z \<noteq> []" using assms(2) l by (cases ps) (auto simp: list_all2_Cons1 simp flip: set_empty)
  obtain r q where h: "hd ?z = (r, q)" by (cases "hd ?z")
  then have "(r, p) \<in> set ?z" using ne p by (metis hd_in_set snd_conv)
  then have in_z: "(r, p) \<in> set (zip rs ps)" by simp
  have ranks: "routing_rank y = Inr x \<and> y \<in> set ps" if "(x, y) \<in> set (zip rs ps)" for x y
    using that l by (auto simp: list_all2_conv_all_nth set_zip)
  have least: "r \<le> s" if "(s, y) \<in> set (zip rs ps)" for s y
  proof -
    have "(s, y) \<in> set ?z" using that by simp
    moreover have "sorted (map fst ?z)" by simp
    ultimately show ?thesis using h ne by (cases ?z) auto
  qed
  have "\<exists>s. (s, y) \<in> set (zip rs ps)" if "y \<in> set ps" for y
  proof -
    obtain i where i: "i < length ps" "y = ps ! i" using \<open>y \<in> set ps\<close> by (metis in_set_conv_nth)
    then have "(rs ! i, y) \<in> set (zip rs ps)" using l by (auto simp: set_zip list_all2_conv_all_nth)
    then show ?thesis by blast
  qed
  then show ?thesis using ranks least in_z by blast
qed

section \<open>Properties\<close>

text \<open>
  Looking a profile up: its id comes first; otherwise the name must be an alias of exactly one
  registered profile, whatever the order the profiles were loaded in.  An alias two profiles share
  resolves to neither.
\<close>

theorem registry_lookup_iff:
  assumes "make_registry ps = Inr reg"
  shows "registry_get reg name = Inr p \<longleftrightarrow>
     (p \<in> set ps \<and> mp_profile_id p = name) \<or>
     (name \<notin> mp_profile_id ` set ps \<and> {q \<in> set ps. name \<in> set (profile_aliases q)} = {p})"
  by (rule registry_get_iff [OF assms])

definition sample_profile :: "string \<Rightarrow> string \<Rightarrow> int \<Rightarrow> model_profile" where
  "sample_profile pid svc rank = \<lparr>mp_profile_id = pid, mp_model_id = ''m'', mp_backend = ''vllm'', mp_runtime_contract_id = None,
     mp_capability_classes = [''fast''], mp_supported_job_classes = [''chat''], mp_supports_chat = True,
     mp_supports_completion = False, mp_supports_thinking = False, mp_production_eligible = True, mp_default_for = [],
     mp_quality = [], mp_performance = [], mp_routing = [(''service_id'', JStr svc), (''rank'', JInt rank)]\<rparr>"

definition sample_profiles :: "model_profile list" where
  "sample_profiles = [sample_profile ''a'' ''svc1'' 2, sample_profile ''b'' ''svc1'' 1, sample_profile ''c'' ''svc2'' 3]"

lemma sample_registry:
  "make_registry sample_profiles = Inr \<lparr>pr_profiles = sample_profiles,
     pr_by_alias = [(''svc2'', sample_profile ''c'' ''svc2'' 3)], pr_ambiguous = [''svc1'']\<rparr>"
  by code_simp

theorem registry_lookup_iff_witness:
  "\<exists>reg. make_registry sample_profiles = Inr reg \<and> registry_get reg ''svc2'' = Inr (sample_profile ''c'' ''svc2'' 3) \<and>
     (\<forall>p. registry_get reg ''svc1'' \<noteq> Inr p)"
proof -
  let ?reg = "\<lparr>pr_profiles = sample_profiles, pr_by_alias = [(''svc2'', sample_profile ''c'' ''svc2'' 3)], pr_ambiguous = [''svc1'']\<rparr>"
  note lookup = registry_lookup_iff [OF sample_registry]
  have al: "profile_aliases (sample_profile pid svc r) = (if svc = '''' then [] else [svc])" for pid svc r
    by (simp add: profile_aliases_def sample_profile_def nonempty_strs_def dget_def dget_or_def)
  have ids: "mp_profile_id (sample_profile pid svc r) = pid" for pid svc r by (simp add: sample_profile_def)
  have "registry_get ?reg ''svc2'' = Inr (sample_profile ''c'' ''svc2'' 3)"
    unfolding lookup by (auto simp: sample_profiles_def al ids)
  moreover have "registry_get ?reg ''svc1'' \<noteq> Inr p" for p
  proof
    let ?O = "{q \<in> set sample_profiles. ''svc1'' \<in> set (profile_aliases q)}"
    assume "registry_get ?reg ''svc1'' = Inr p"
    then have O: "?O = {p}" unfolding lookup by (auto simp: sample_profiles_def ids)
    have "sample_profile ''a'' ''svc1'' 2 \<in> ?O" "sample_profile ''b'' ''svc1'' 1 \<in> ?O"
      by (simp_all add: sample_profiles_def al)
    then have "sample_profile ''a'' ''svc1'' 2 = sample_profile ''b'' ''svc1'' 1" unfolding O by simp
    then show False by (simp add: sample_profile_def)
  qed
  ultimately show ?thesis using sample_registry by blast
qed

definition rank_le :: "model_profile \<Rightarrow> model_profile \<Rightarrow> bool" where
  "rank_le p q \<longleftrightarrow> (\<exists>r s. routing_rank p = Inr r \<and> routing_rank q = Inr s \<and> r \<le> s)"

text \<open>
  A request that pins no profile gets a production profile that supports its capability, job
  class and mode; if some such profile is a default for the capability, it gets a default one; and
  none of those it could have got ranks before it.
\<close>

theorem resolve_unpinned_best:
  assumes "\<not> truthy pin" and "resolve_profile reg cap chat job pin = Inr p"
  shows "p \<in> set (pr_profiles reg) \<and> profile_candidate cap chat job p \<and>
     ((\<exists>q \<in> set (pr_profiles reg). profile_candidate cap chat job q \<and> cap \<in> set (mp_default_for q)) \<longrightarrow> cap \<in> set (mp_default_for p)) \<and>
     (\<forall>q \<in> set (pr_profiles reg). profile_candidate cap chat job q \<and> (cap \<in> set (mp_default_for p) \<longrightarrow> cap \<in> set (mp_default_for q))
        \<longrightarrow> rank_le p q)"
proof -
  let ?cs = "filter (profile_candidate cap chat job) (pr_profiles reg)"
  let ?ds = "filter (\<lambda>p. cap \<in> set (mp_default_for p)) ?cs"
  have ne: "?cs \<noteq> []" and best: "best_ranked (if ?ds \<noteq> [] then ?ds else ?cs) = Inr p"
    using assms by (auto simp: resolve_profile_def Let_def split: if_splits)
  have "(if ?ds \<noteq> [] then ?ds else ?cs) \<noteq> []" using ne by simp
  note b = best_ranked_Inr [OF best this]
  have le: "rank_le p q" if "q \<in> set (if ?ds \<noteq> [] then ?ds else ?cs)" for q
    using b that by (fastforce simp: rank_le_def)
  show ?thesis
  proof (cases "?ds = []")
    case True
    then have "\<forall>q \<in> set ?cs. cap \<notin> set (mp_default_for q)" by (simp add: filter_empty_conv)
    then show ?thesis using b le True by auto
  next
    case False
    then show ?thesis using b le by auto
  qed
qed

theorem resolve_unpinned_best_witness:
  "\<exists>reg p. make_registry sample_profiles = Inr reg \<and> resolve_profile reg (JStr ''fast'') True ''chat'' JNull = Inr p \<and>
     mp_profile_id p = ''b'' \<and> (\<forall>q \<in> set sample_profiles. rank_le p q)"
proof -
  let ?reg = "\<lparr>pr_profiles = sample_profiles, pr_by_alias = [(''svc2'', sample_profile ''c'' ''svc2'' 3)], pr_ambiguous = [''svc1'']\<rparr>"
  let ?r = "resolve_profile ?reg (JStr ''fast'') True ''chat'' JNull"
  have r: "?r = Inr (sample_profile ''b'' ''svc1'' 1)" by code_simp
  have c: "\<forall>q \<in> set sample_profiles. profile_candidate (JStr ''fast'') True ''chat'' q \<and> mp_default_for q = []"
    by (simp add: sample_profiles_def sample_profile_def profile_candidate_def supports_mode_def)
  have "\<not> truthy JNull" by simp
  from resolve_unpinned_best [OF this r] c have "\<forall>q \<in> set sample_profiles. rank_le (sample_profile ''b'' ''svc1'' 1) q"
    by (auto simp: sample_profile_def)
  then show ?thesis using sample_registry r by (force simp: sample_profile_def)
qed

end
