(* ===== verification/Pipelines.thy ===== *)
theory Pipelines
  imports Sha256 Py_Json
begin

text \<open>
  Pipeline services of \<^verbatim>\<open>v2/src/ds4_infer/pipelines.py\<close>: how the layers of a model are divided
  among the nodes of a pipeline, the stages this gives, the KV-cache contract with its fingerprint, and
  the shard manifests a request's KV cache is split into.  Text is ASCII here: node, service and key
  names are, and so \<^verbatim>\<open>str.isalnum\<close> and \<^verbatim>\<open>str.lower\<close> are the ASCII ones.
\<close>

section \<open>Layer partitions\<close>

definition even_parts :: "int \<Rightarrow> nat \<Rightarrow> int list" where
  \<comment> \<open>\<open>base + 1\<close> for the first \<open>extra\<close> entries, \<open>base\<close> for the others\<close>
  "even_parts amount n =
     (let base = amount div int n; extra = amount mod int n
      in map (\<lambda>i. if int i < extra then base + 1 else base) [0..<n])"

definition even_layer_partition :: "int \<Rightarrow> int \<Rightarrow> (int list) result" where
  "even_layer_partition total_layers stage_count =
     (if stage_count < 1 \<or> total_layers < 1 \<or> stage_count > total_layers
      then Inl (ValueError ''invalid layer/stage count'')
      else Inr (even_parts total_layers (nat stage_count)))"

type_synonym partition_score = "rat \<times> rat \<times> rat \<times> int list"

definition balanced_parts :: "int \<Rightarrow> int \<Rightarrow> int \<Rightarrow> int list" where
  "balanced_parts total_layers stage_count tail_layers =
     even_parts (total_layers - tail_layers) (nat (stage_count - 1)) @ [tail_layers]"

definition stage_costs :: "rat \<Rightarrow> int list \<Rightarrow> rat list" where
  "stage_costs tail_extra parts = map of_int (butlast parts) @ [of_int (last parts) + max 0 tail_extra]"

definition list_max :: "rat list \<Rightarrow> rat" where
  "list_max xs = foldl max (hd xs) (tl xs)"

definition list_min :: "rat list \<Rightarrow> rat" where
  "list_min xs = foldl min (hd xs) (tl xs)"

definition partition_score :: "int \<Rightarrow> rat \<Rightarrow> int list \<Rightarrow> partition_score" where
  "partition_score stage_count tail_extra parts =
     (let costs = stage_costs tail_extra parts; average = sum_list costs / of_int stage_count
      in (list_max costs / average, list_max costs - list_min costs, \<bar>last costs - average\<bar>, parts))"

definition better_score :: "partition_score option \<Rightarrow> partition_score \<Rightarrow> partition_score option" where
  "better_score best score = (case best of None \<Rightarrow> Some score | Some b \<Rightarrow> if score < b then Some score else Some b)"

definition balance_step :: "int \<Rightarrow> int \<Rightarrow> rat \<Rightarrow> partition_score option \<Rightarrow> int \<Rightarrow> partition_score option" where
  "balance_step total_layers stage_count tail_extra best tail_layers =
     (if total_layers - tail_layers < stage_count - 1 then best
      else better_score best (partition_score stage_count tail_extra (balanced_parts total_layers stage_count tail_layers)))"

definition balanced_layer_partition :: "int \<Rightarrow> int \<Rightarrow> rat \<Rightarrow> (int list) result" where
  "balanced_layer_partition total_layers stage_count tail_extra =
     (if total_layers < 1 then Inl (ValueError ''total_layers must be positive'')
      else if stage_count < 1 then Inl (ValueError ''stage_count must be positive'')
      else if stage_count > total_layers then Inl (ValueError ''stage_count cannot exceed total_layers'')
      else if stage_count = 1 then Inr [total_layers]
      else
        (let max_tail = total_layers - (stage_count - 1)
         in case foldl (balance_step total_layers stage_count tail_extra) None [1..max_tail] of
              None \<Rightarrow> Inl (RuntimeError ''assertion failed'')
            | Some (_, _, _, parts) \<Rightarrow> Inr parts))"

definition qwen36_27b_bf16_layer_partition :: "int \<Rightarrow> (int list) result" where
  "qwen36_27b_bf16_layer_partition stage_count = balanced_layer_partition 64 stage_count (333 / 100)"

definition layer_partition_by_node :: "json \<Rightarrow> string list \<Rightarrow> string \<Rightarrow> (int list) option result" where
  "layer_partition_by_node raw node_ids label =
     (case raw of
        JNull \<Rightarrow> Inr None
      | JObj d \<Rightarrow>
          (let missing = filter (\<lambda>n. \<not> has_key d n) node_ids;
               extra = filter (\<lambda>n. n \<notin> set node_ids) (map fst d)
           in if missing \<noteq> [] then Inl (ValueError (label @ '' missing nodes: '' @ py_repr (JArr (map JStr missing))))
              else if extra \<noteq> []
              then Inl (ValueError (label @ '' references nodes outside node_ids: '' @ py_repr (JArr (map JStr extra))))
              else bindE (mapE (\<lambda>n. py_int (dget d n)) node_ids) (\<lambda>ps. Inr (Some ps)))
      | _ \<Rightarrow> Inl (ValueError (label @ '' must be an object mapping node_id to layer count'')))"

definition layer_partition_from_preset :: "string \<Rightarrow> int \<Rightarrow> int \<Rightarrow> (int list \<times> string) result" where
  "layer_partition_from_preset raw total_layers stage_count =
     (let key = lower (strip raw)
      in if key \<in> set [''auto'', ''even'', ''layers/n'', ''layers_per_n'']
         then bindE (even_layer_partition total_layers stage_count) (\<lambda>ps. Inr (ps, ''even''))
         else if key \<in> set [''qwen3.6-27b-bf16'', ''qwen36_27b_bf16'', ''qwen27_bf16'']
         then bindE (qwen36_27b_bf16_layer_partition stage_count) (\<lambda>ps. Inr (ps, key))
         else Inl (ValueError (''unknown layer_partition preset: '' @ raw)))"

definition load_layer_partition_with_source :: "pydict \<Rightarrow> string list \<Rightarrow> int \<Rightarrow> int \<Rightarrow> (int list \<times> string) result" where
  "load_layer_partition_with_source data node_ids total_layers stage_count =
     bindE (layer_partition_by_node (dget data ''layer_partition_by_node'') node_ids ''layer_partition_by_node'') (\<lambda>by_node.
       case by_node of
         Some ps \<Rightarrow> Inr (ps, ''by_node'')
       | None \<Rightarrow>
           (case dget data ''layer_partition'' of
              JNull \<Rightarrow> bindE (even_layer_partition total_layers stage_count) (\<lambda>ps. Inr (ps, ''even''))
            | JStr raw \<Rightarrow> layer_partition_from_preset raw total_layers stage_count
            | JArr xs \<Rightarrow> bindE (mapE py_int xs) (\<lambda>ps. Inr (ps, ''explicit''))
            | _ \<Rightarrow> Inl (ValueError ''layer_partition must be a list, object-by-node override, or known preset string'')))"

section \<open>Services and stages\<close>

record pipeline_stage =
  ps_service_id :: string
  ps_profile_id :: string
  ps_stage_index :: int
  ps_stage_count :: int
  ps_node_id :: string
  ps_layer_start :: int
  ps_layer_end :: int

definition stage_layer_count :: "pipeline_stage \<Rightarrow> int" where
  "stage_layer_count s = ps_layer_end s - ps_layer_start s"

definition stage_public_dict :: "pipeline_stage \<Rightarrow> pydict" where
  "stage_public_dict s =
     [(''service_id'', JStr (ps_service_id s)), (''profile_id'', JStr (ps_profile_id s)),
      (''stage_index'', JInt (ps_stage_index s)), (''stage_count'', JInt (ps_stage_count s)),
      (''node_id'', JStr (ps_node_id s)), (''layer_start'', JInt (ps_layer_start s)),
      (''layer_end'', JInt (ps_layer_end s)), (''layer_count'', JInt (stage_layer_count s))]"

record pipeline_service =
  sv_service_id :: string
  sv_profile_id :: string
  sv_model_id :: string
  sv_entry_node_id :: string
  sv_node_ids :: "string list"
  sv_api_base_url :: string
  sv_compute_domain :: string
  sv_pipeline_parallel_size :: int
  sv_tensor_parallel_size :: int
  sv_total_layers :: int
  sv_layer_partition :: "int list"
  sv_layer_partition_source :: string
  sv_dtype :: string
  sv_max_batch_size :: int
  sv_kv_cache :: pydict
  sv_scheduler :: pydict
  sv_telemetry :: pydict

definition service_required :: "string list" where
  "service_required = [''service_id'', ''profile_id'', ''model_id'', ''entry_node_id'', ''node_ids'', ''api_base_url'', ''total_layers'']"

definition apply_scheduler_batch_defaults :: "pydict \<Rightarrow> int \<Rightarrow> pydict" where
  "apply_scheduler_batch_defaults scheduler max_batch_size =
     foldl (\<lambda>d k. setdefault k (JInt max_batch_size) d) scheduler [''queue_concurrency'', ''queue_limit'', ''vllm_max_num_seqs'']"

definition check_partition :: "int list \<Rightarrow> int \<Rightarrow> int \<Rightarrow> unit result" where
  "check_partition parts stage_count total_layers =
     (if int (length parts) \<noteq> stage_count then Inl (ValueError ''layer_partition length must match pipeline_parallel_size'')
      else if sum_list parts \<noteq> total_layers then Inl (ValueError ''layer_partition must sum to total_layers'')
      else if list_ex (\<lambda>c. c < 1) parts then Inl (ValueError ''each pipeline stage must own at least one layer'')
      else Inr ())"

definition service_shape :: "pydict \<Rightarrow> string list \<Rightarrow> (string list \<times> string \<times> int \<times> int \<times> int) result" where
  \<comment> \<open>the first checks of \<^verbatim>\<open>from_json\<close>: nodes, entry node, pipeline size, tensor size, layers\<close>
  "service_shape data known =
     bindE (py_strs (dget data ''node_ids'')) (\<lambda>node_ids.
     if node_ids = [] then Inl (ValueError ''pipeline service node_ids must be non-empty'')
     else
       (let unknown = filter (\<lambda>n. n \<notin> set known) node_ids; entry = py_str (dget data ''entry_node_id'')
        in if unknown \<noteq> []
           then Inl (ValueError (''pipeline service references unknown nodes: '' @ py_repr (JArr (map JStr unknown))))
           else if entry \<notin> set node_ids then Inl (ValueError ''pipeline service entry_node_id must be one of node_ids'')
           else
             bindE (py_int (dget_or data ''pipeline_parallel_size'' (JInt (int (length node_ids))))) (\<lambda>pp.
             if pp \<noteq> int (length node_ids) then Inl (ValueError ''pipeline_parallel_size must match node_ids length'')
             else
               bindE (py_int (dget_or data ''tensor_parallel_size'' (JInt 1))) (\<lambda>tp.
               bindE (py_int (dget data ''total_layers'')) (\<lambda>layers.
               if tp < 1 \<or> pp < 1 \<or> layers < 1
               then Inl (ValueError ''pipeline, tensor, and layer counts must be positive'')
               else Inr (node_ids, entry, pp, tp, layers))))))"

definition service_from_json :: "pydict \<Rightarrow> string list \<Rightarrow> pipeline_service result" where
  "service_from_json data known =
     (let missing = filter (\<lambda>k. \<not> has_key data k) service_required
      in if missing \<noteq> [] then Inl (ValueError (''pipeline service missing fields: '' @ py_repr (JArr (map JStr missing))))
         else
           bindE (service_shape data known) (\<lambda>(node_ids, entry, pp, tp, layers).
           bindE (load_layer_partition_with_source data node_ids layers pp) (\<lambda>(parts, source).
           bindE (check_partition parts pp layers) (\<lambda>_.
           bindE (py_int (dget_or data ''max_batch_size'' (dget_or data ''max_num_seqs'' (JInt 1)))) (\<lambda>max_batch.
           if max_batch < 1 then Inl (ValueError ''pipeline service max_batch_size must be positive'')
           else
             bindE (sub_dict data ''scheduler'') (\<lambda>scheduler.
             bindE (sub_dict data ''kv_cache'') (\<lambda>kv.
             bindE (sub_dict data ''telemetry'') (\<lambda>tele.
             Inr \<lparr>sv_service_id = py_str (dget data ''service_id''), sv_profile_id = py_str (dget data ''profile_id''),
                  sv_model_id = py_str (dget data ''model_id''), sv_entry_node_id = entry, sv_node_ids = node_ids,
                  sv_api_base_url = rstrip_char (CHR ''/'') (py_str (dget data ''api_base_url'')),
                  sv_compute_domain = py_str (por (dget data ''compute_domain'') (JStr (py_str (dget data ''service_id'')))),
                  sv_pipeline_parallel_size = pp, sv_tensor_parallel_size = tp, sv_total_layers = layers,
                  sv_layer_partition = parts, sv_layer_partition_source = source,
                  sv_dtype = py_str (dget_or data ''dtype'' (dget_or data ''precision'' (JStr ''unknown''))),
                  sv_max_batch_size = max_batch, sv_kv_cache = kv,
                  sv_scheduler = apply_scheduler_batch_defaults scheduler max_batch, sv_telemetry = tele\<rparr>))))))))"

fun stages_from :: "pipeline_service \<Rightarrow> nat \<Rightarrow> int \<Rightarrow> (string \<times> int) list \<Rightarrow> pipeline_stage list" where
  \<comment> \<open>the loop of \<^verbatim>\<open>stages\<close>, with its index and cursor\<close>
  "stages_from sv i cursor [] = []"
| "stages_from sv i cursor ((node, layer_count) # rest) =
     \<lparr>ps_service_id = sv_service_id sv, ps_profile_id = sv_profile_id sv, ps_stage_index = int i,
      ps_stage_count = sv_pipeline_parallel_size sv, ps_node_id = node, ps_layer_start = cursor,
      ps_layer_end = cursor + layer_count\<rparr> # stages_from sv (Suc i) (cursor + layer_count) rest"

definition stages :: "pipeline_service \<Rightarrow> pipeline_stage list" where
  "stages sv = stages_from sv 0 0 (zip (sv_node_ids sv) (sv_layer_partition sv))"

fun index_of :: "'a \<Rightarrow> 'a list \<Rightarrow> nat option" where
  "index_of x [] = None"
| "index_of x (y # ys) = (if y = x then Some 0 else map_option Suc (index_of x ys))"

definition stage_for_node :: "pipeline_service \<Rightarrow> string \<Rightarrow> pipeline_stage result" where
  "stage_for_node sv node =
     (case index_of node (sv_node_ids sv) of
        Some i \<Rightarrow> Inr (stages sv ! i)
      | None \<Rightarrow> Inl (ValueError (''node '' @ py_repr (JStr node) @ '' is not in pipeline service '' @ py_repr (JStr (sv_service_id sv)))))"

definition stage_for_index :: "pipeline_service \<Rightarrow> int \<Rightarrow> pipeline_stage result" where
  "stage_for_index sv i =
     (if i < 0 \<or> i \<ge> int (length (stages sv))
      then Inl (ValueError (''stage_index '' @ show_int i @ '' is outside service '' @ py_repr (JStr (sv_service_id sv))))
      else Inr (stages sv ! nat i))"

section \<open>KV-cache shards\<close>

definition cache_sharding :: "pipeline_service \<Rightarrow> string" where
  "cache_sharding sv = py_str (dget_or (sv_kv_cache sv) ''sharding'' (JStr ''pipeline_layers''))"

definition estimate_kv_shard_bytes :: "pipeline_service \<Rightarrow> int \<Rightarrow> int" where
  "estimate_kv_shard_bytes sv total_bytes =
     (if total_bytes \<le> 0 then 0
      else if cache_sharding sv = ''replicated'' then total_bytes
      else ceil_div total_bytes (max 1 (int (length (sv_node_ids sv)))))"

definition kv_cache_contract_payload :: "pipeline_service \<Rightarrow> pydict" where
  "kv_cache_contract_payload sv =
     [(''service_id'', JStr (sv_service_id sv)), (''profile_id'', JStr (sv_profile_id sv)), (''model_id'', JStr (sv_model_id sv)),
      (''dtype'', JStr (sv_dtype sv)), (''pipeline_parallel_size'', JInt (sv_pipeline_parallel_size sv)),
      (''tensor_parallel_size'', JInt (sv_tensor_parallel_size sv)), (''total_layers'', JInt (sv_total_layers sv)),
      (''node_ids'', JArr (map JStr (sv_node_ids sv))), (''layer_partition'', JArr (map JInt (sv_layer_partition sv))),
      (''cache_sharding'', JStr (cache_sharding sv)),
      (''external_backend'', JStr (py_str (dget_or (sv_kv_cache sv) ''external_backend''
                                     (dget_or (sv_kv_cache sv) ''backend'' (JStr ''unknown'')))))]"

definition sha256_json :: "pydict \<Rightarrow> string" where
  "sha256_json d = ''sha256:'' @ sha256_hex (dumps_compact (JObj d))"

definition layer_partition_fingerprint :: "pipeline_service \<Rightarrow> string" where
  "layer_partition_fingerprint sv = sha256_json (kv_cache_contract_payload sv)"

definition kv_cache_contract :: "pipeline_service \<Rightarrow> pydict" where
  "kv_cache_contract sv =
     (''format'', JStr ''ds4-pipeline-kv-cache-contract-v1'') # kv_cache_contract_payload sv @
     [(''layer_partition_source'', JStr (sv_layer_partition_source sv)), (''fingerprint'', JStr (layer_partition_fingerprint sv))]"

definition cache_shards :: "pipeline_service \<Rightarrow> string \<Rightarrow> string \<Rightarrow> int \<Rightarrow> pydict list" where
  "cache_shards sv request_id kv_key total_bytes =
     (if kv_key = '''' \<or> total_bytes \<le> 0 then []
      else
        (let shard_bytes = estimate_kv_shard_bytes sv total_bytes
         in map (\<lambda>st.
              [(''profile_id'', JStr (sv_profile_id sv)), (''service_id'', JStr (sv_service_id sv)),
               (''node_id'', JStr (ps_node_id st)), (''stage_index'', JInt (ps_stage_index st)),
               (''stage_count'', JInt (ps_stage_count st)), (''kv_key'', JStr kv_key), (''request_id'', JStr request_id),
               (''bytes'', JInt shard_bytes), (''layer_start'', JInt (ps_layer_start st)), (''layer_end'', JInt (ps_layer_end st)),
               (''metadata'', JObj [(''kv_cache_contract'', JObj (kv_cache_contract sv)),
                                  (''layer_partition_fingerprint'', JStr (layer_partition_fingerprint sv))])]) (stages sv)))"

definition safe_char :: "char \<Rightarrow> bool" where
  "safe_char c \<longleftrightarrow> (let n = of_char c :: nat in (48 \<le> n \<and> n \<le> 57) \<or> (65 \<le> n \<and> n \<le> 90) \<or> (97 \<le> n \<and> n \<le> 122))
     \<or> c \<in> set ''-_.''"

definition safe_storage_component :: "string \<Rightarrow> string" where
  "safe_storage_component s =
     (let t = take 160 (map (\<lambda>c. if safe_char c then c else CHR ''_'') s) in if t = '''' then ''_'' else t)"

definition pad2 :: "int \<Rightarrow> string" where
  \<comment> \<open>\<^verbatim>\<open>f"{i:02d}"\<close>\<close>
  "pad2 i = (let s = show_int i in if length s < 2 then ''0'' @ s else s)"

definition contains :: "string \<Rightarrow> string \<Rightarrow> bool" where
  "contains pat s \<longleftrightarrow> list_ex (\<lambda>i. drop_prefix pat (drop i s) \<noteq> None) [0..<Suc (length s)]"

definition node_local_storage_uri :: "string \<Rightarrow> string \<Rightarrow> string \<Rightarrow> string \<Rightarrow> string \<Rightarrow> int \<Rightarrow> string" where
  "node_local_storage_uri storage_root node_id namespace service_id kv_key stage_index =
     (let root = foldl (\<lambda>r (k, v). replace_all (''{'' @ k @ ''}'') v r) (rstrip_char (CHR ''/'') storage_root)
            [(''node_id'', node_id), (''namespace'', namespace), (''service_id'', service_id), (''kv_key'', kv_key),
             (''stage_index'', pad2 stage_index)];
          suffix = ''/'' @ namespace @ ''/'' @ service_id @ ''/'' @ kv_key @ ''/stage-'' @ pad2 stage_index
      in if drop_prefix ''node-local://'' root \<noteq> None then root @ suffix
         else if contains ''://'' root then root @ suffix
         else ''node-local://'' @ node_id @ (if drop_prefix ''/'' root \<noteq> None then root else ''/'' @ root) @ suffix)"

definition external_cache_shards :: "pipeline_service \<Rightarrow> string \<Rightarrow> string \<Rightarrow> int \<Rightarrow> string option \<Rightarrow> (pydict list) result" where
  "external_cache_shards sv namespace kv_key total_bytes storage_root =
     (if kv_key = '''' then Inl (ValueError ''kv_key is required'')
      else
        (let shard_bytes = estimate_kv_shard_bytes sv total_bytes;
             ns = (if namespace = '''' then ''default'' else namespace);
             uri = (\<lambda>st. case storage_root of
                None \<Rightarrow> JNull
              | Some rt \<Rightarrow> if rt = '''' then JNull
                  else JStr (node_local_storage_uri rt (ps_node_id st) (safe_storage_component ns) (sv_service_id sv)
                               (safe_storage_component kv_key) (ps_stage_index st)))
         in Inr (map (\<lambda>st.
              [(''namespace'', JStr ns), (''kv_key'', JStr kv_key), (''profile_id'', JStr (sv_profile_id sv)),
               (''service_id'', JStr (sv_service_id sv)), (''node_id'', JStr (ps_node_id st)),
               (''stage_index'', JInt (ps_stage_index st)), (''stage_count'', JInt (ps_stage_count st)),
               (''bytes'', JInt shard_bytes), (''layer_start'', JInt (ps_layer_start st)), (''layer_end'', JInt (ps_layer_end st)),
               (''storage_uri'', uri st),
               (''metadata'', JObj [(''archive_owner_node_id'', JStr (ps_node_id st)), (''archive_mode'', JStr ''node_local_shard''),
                                  (''kv_cache_contract'', JObj (kv_cache_contract sv)),
                                  (''layer_partition_fingerprint'', JStr (layer_partition_fingerprint sv))])]) (stages sv))))"

definition service_public_dict :: "pipeline_service \<Rightarrow> pydict" where
  "service_public_dict sv =
     [(''format'', JStr ''ds4-pipeline-service-v1''), (''service_id'', JStr (sv_service_id sv)),
      (''profile_id'', JStr (sv_profile_id sv)), (''model_id'', JStr (sv_model_id sv)),
      (''entry_node_id'', JStr (sv_entry_node_id sv)), (''node_ids'', JArr (map JStr (sv_node_ids sv))),
      (''api_base_url'', JStr (sv_api_base_url sv)), (''compute_domain'', JStr (sv_compute_domain sv)),
      (''pipeline_parallel_size'', JInt (sv_pipeline_parallel_size sv)),
      (''tensor_parallel_size'', JInt (sv_tensor_parallel_size sv)), (''total_layers'', JInt (sv_total_layers sv)),
      (''layer_partition'', JArr (map JInt (sv_layer_partition sv))),
      (''layer_partition_source'', JStr (sv_layer_partition_source sv)),
      (''kv_cache_contract'', JObj (kv_cache_contract sv)), (''dtype'', JStr (sv_dtype sv)),
      (''max_batch_size'', JInt (sv_max_batch_size sv)), (''kv_cache'', JObj (sv_kv_cache sv)),
      (''scheduler'', JObj (sv_scheduler sv)), (''telemetry'', JObj (sv_telemetry sv)),
      (''stages'', JArr (map (\<lambda>st. JObj (stage_public_dict st)) (stages sv)))]"

section \<open>The services of a topology\<close>

definition service_item :: "string \<times> json \<Rightarrow> pydict result" where
  "service_item kv =
     (case kv of
        (k, JObj d) \<Rightarrow> Inr (setdefault ''service_id'' (JStr k) d)
      | _ \<Rightarrow> Inl (ValueError ''routing_policy.pipeline_services values must be objects''))"

definition service_items :: "json \<Rightarrow> (pydict list) result" where
  "service_items raw =
     (case raw of
        JNull \<Rightarrow> Inr []
      | JObj d \<Rightarrow> mapE service_item d
      | JArr xs \<Rightarrow> mapE py_dict xs
      | _ \<Rightarrow> Inl (ValueError ''routing_policy.pipeline_services must be an object or list''))"

definition add_service :: "string list \<Rightarrow> pipeline_service list \<Rightarrow> pydict \<Rightarrow> (pipeline_service list) result" where
  "add_service known services item =
     bindE (service_from_json item known) (\<lambda>sv.
       if list_ex (\<lambda>s. sv_service_id s = sv_service_id sv) services
       then Inl (ValueError (''duplicate pipeline service_id: '' @ sv_service_id sv))
       else case find (\<lambda>s. sv_profile_id s = sv_profile_id sv) services of
         Some previous \<Rightarrow> Inl (ValueError (''profile '' @ py_repr (JStr (sv_profile_id sv)) @
            '' is assigned to multiple pipeline services: '' @ sv_service_id previous @ '', '' @ sv_service_id sv))
       | None \<Rightarrow> Inr (services @ [sv]))"

definition load_pipeline_services :: "pydict \<Rightarrow> string list \<Rightarrow> (pipeline_service list) result" where
  "load_pipeline_services routing_policy known =
     bindE (service_items (dget_or routing_policy ''pipeline_services'' (JObj []))) (foldE (add_service known) [])"

definition pipeline_service_batch_limit :: "pipeline_service \<Rightarrow> int result" where
  "pipeline_service_batch_limit sv =
     (case dget (sv_scheduler sv) ''vllm_max_num_seqs'' of
        JNull \<Rightarrow> Inr (max 1 (if sv_max_batch_size sv \<noteq> 0 then sv_max_batch_size sv else 1))
      | v \<Rightarrow> bindE (py_int v) (\<lambda>n. Inr (max 1 n)))"

section \<open>Facts about partitions\<close>

lemma sum_parts:
  "sum_list (map (\<lambda>i. if int i < e then b + 1 else b) [0..<n]) = int n * b + max 0 (min (int n) e)"
  by (induction n) (auto simp: algebra_simps)

lemma even_parts_facts:
  assumes "0 < n" and "0 \<le> amount"
  shows "length (even_parts amount n) = n" "sum_list (even_parts amount n) = amount"
    and "x \<in> set (even_parts amount n) \<Longrightarrow> amount div int n \<le> x \<and> x \<le> amount div int n + 1"
    and "x \<in> set (even_parts amount n) \<Longrightarrow> amount mod int n = 0 \<Longrightarrow> x \<le> amount div int n"
proof -
  show "length (even_parts amount n) = n" by (simp add: even_parts_def Let_def)
  have "0 \<le> amount mod int n" "amount mod int n < int n" using assms by simp_all
  then show "sum_list (even_parts amount n) = amount"
    by (simp add: even_parts_def Let_def sum_parts)
  show "amount div int n \<le> x \<and> x \<le> amount div int n + 1" if "x \<in> set (even_parts amount n)"
    using that by (auto simp: even_parts_def Let_def split: if_splits)
  show "x \<le> amount div int n" if "x \<in> set (even_parts amount n)" "amount mod int n = 0"
    using that by (auto simp: even_parts_def Let_def split: if_splits)
qed

lemma even_parts_pos:
  assumes "0 < n" and "int n \<le> amount" and "x \<in> set (even_parts amount n)"
  shows "1 \<le> x"
proof -
  have "0 < amount div int n" using assms(1,2) by (simp add: pos_imp_zdiv_pos_iff)
  then show ?thesis using even_parts_facts(3) [of n amount x] assms by linarith
qed

lemma list_max_facts:
  assumes "xs \<noteq> []"
  shows "list_max xs \<in> set xs" and "x \<in> set xs \<Longrightarrow> x \<le> list_max xs"
proof -
  have 1: "foldl max a ys \<in> insert a (set ys)" for a :: rat and ys
    by (induction ys arbitrary: a) (auto simp: max_def)
  have 3: "a \<le> foldl max a ys" for a :: rat and ys
  proof (induction ys arbitrary: a)
    case (Cons z ys)
    have "a \<le> max a z" by simp
    also have "\<dots> \<le> foldl max (max a z) ys" by (rule Cons.IH)
    finally show ?case by simp
  qed simp
  have 2: "y \<in> set ys \<Longrightarrow> y \<le> foldl max a ys" for a :: rat and y ys
  proof (induction ys arbitrary: a)
    case (Cons z ys)
    have "z \<le> foldl max (max a z) ys" using 3 [of "max a z" ys] by simp
    then show ?case using Cons by auto
  qed simp
  obtain a ys where "xs = a # ys" using assms by (cases xs) simp_all
  then show "list_max xs \<in> set xs" "x \<in> set xs \<Longrightarrow> x \<le> list_max xs"
    using 1 [of a ys] 2 [of x ys a] 3 [of a ys] by (auto simp: list_max_def)
qed

text \<open>The makespan of a partition is the cost of its slowest stage.\<close>

definition layer_partition_ok :: "int \<Rightarrow> int \<Rightarrow> int list \<Rightarrow> bool" where
  "layer_partition_ok total_layers stage_count parts \<longleftrightarrow>
     int (length parts) = stage_count \<and> sum_list parts = total_layers \<and> (\<forall>c \<in> set parts. 1 \<le> c)"

definition makespan :: "rat \<Rightarrow> int list \<Rightarrow> rat" where
  "makespan tail_extra parts = list_max (stage_costs tail_extra parts)"

lemma stage_costs_snoc: "stage_costs x (ps @ [t]) = map of_int ps @ [of_int t + max 0 x]"
  by (simp add: stage_costs_def)

lemma sum_of_int_list: "sum_list (map of_int xs) = (of_int (sum_list xs) :: rat)"
  by (induction xs) simp_all

lemma balanced_parts_ok:
  assumes "2 \<le> s" and "1 \<le> t" and "t \<le> n - (s - 1)"
  shows "layer_partition_ok n s (balanced_parts n s t)"
proof -
  have "0 < nat (s - 1)" "0 \<le> n - t" using assms by simp_all
  note f = even_parts_facts [OF this]
  have "1 \<le> c" if "c \<in> set (even_parts (n - t) (nat (s - 1)))" for c
    using even_parts_pos [OF _ _ that] assms by simp
  then show ?thesis using f assms by (auto simp: layer_partition_ok_def balanced_parts_def)
qed

lemma balanced_parts_makespan:
  assumes q: "layer_partition_ok n s qs" and "2 \<le> s"
  shows "makespan x (balanced_parts n s (last qs)) \<le> makespan x qs"
proof -
  define m where "m = nat (s - 1)"
  have m: "0 < m" "int m = s - 1" using assms(2) by (simp_all add: m_def)
  have ne: "qs \<noteq> []" using assms by (auto simp: layer_partition_ok_def)
  then obtain ps t where qs: "qs = ps @ [t]" by (metis append_butlast_last_id)
  have len: "length ps = m" using q qs m by (simp add: layer_partition_ok_def)
  have sum: "sum_list ps = n - t" using q qs by (auto simp: layer_partition_ok_def)
  have pos: "0 \<le> n - t" using q qs sum sum_list_nonneg [of ps] by (fastforce simp: layer_partition_ok_def)
  have costs: "stage_costs x qs = map of_int ps @ [of_int t + max 0 x]" by (simp add: qs stage_costs_snoc)
  then have cne: "stage_costs x qs \<noteq> []" by simp
  have bound: "of_int c \<le> makespan x qs" if "c \<in> set ps" for c
    unfolding makespan_def by (rule list_max_facts(2) [OF cne]) (use that costs in simp)
  have tail: "of_int t + max 0 x \<le> makespan x qs"
    unfolding makespan_def by (rule list_max_facts(2) [OF cne]) (simp add: costs)
  have "ps \<noteq> []" using len m by auto
  define M where "M = Max (set ps)"
  have M: "M \<in> set ps" "\<And>c. c \<in> set ps \<Longrightarrow> c \<le> M" using \<open>ps \<noteq> []\<close> by (simp_all add: M_def)
  have "sum_list ps \<le> sum_list (map (\<lambda>_. M) ps)"
    using sum_list_mono [of ps "\<lambda>c. c" "\<lambda>_. M"] M(2) by simp
  also have "\<dots> = int m * M" using len by (simp add: sum_list_triv)
  finally have R: "n - t \<le> int m * M" using sum by simp
  have "e \<le> M" if e: "e \<in> set (even_parts (n - t) m)" for e
  proof -
    note f = even_parts_facts [OF m(1) pos]
    have "(n - t) div int m \<le> (int m * M) div int m" using R m(1) by (intro zdiv_mono1) simp_all
    then have d: "(n - t) div int m \<le> M" using m(1) by simp
    show ?thesis
    proof (cases "(n - t) mod int m = 0")
      case True
      then show ?thesis using f(4) [OF e] d by simp
    next
      case False
      moreover have "0 \<le> (n - t) mod int m" using m(1) by (intro pos_mod_sign) simp
      ultimately have "0 < (n - t) mod int m" by linarith
      moreover have "n - t = int m * ((n - t) div int m) + (n - t) mod int m" by simp
      ultimately have "int m * ((n - t) div int m) < int m * M" using R by linarith
      then have "(n - t) div int m < M" by (rule mult_left_less_imp_less) simp
      then show ?thesis using f(3) [OF e] by simp
    qed
  qed
  then have low: "of_int e \<le> makespan x qs" if "e \<in> set (even_parts (n - t) m)" for e
    using that bound [OF M(1)] by (meson of_int_le_iff order_trans)
  have b: "stage_costs x (balanced_parts n s t) = map of_int (even_parts (n - t) m) @ [of_int t + max 0 x]"
    by (simp add: balanced_parts_def m_def stage_costs_snoc)
  then have "makespan x (balanced_parts n s t) \<in> set (map of_int (even_parts (n - t) m) @ [of_int t + max 0 x])"
    unfolding makespan_def b by (intro list_max_facts(1)) simp
  then show ?thesis using low tail qs by auto
qed

lemma balance_fold:
  assumes "foldl (balance_step n s x) best ts = Some sc"
  shows "(best = Some sc \<or> (\<exists>t \<in> set ts. n - t \<ge> s - 1 \<and> sc = partition_score s x (balanced_parts n s t)))
     \<and> (\<forall>b. best = Some b \<longrightarrow> sc \<le> b)
     \<and> (\<forall>t \<in> set ts. n - t \<ge> s - 1 \<longrightarrow> sc \<le> partition_score s x (balanced_parts n s t))"
  using assms
proof (induction ts arbitrary: best)
  case Nil
  then show ?case by simp
next
  case (Cons t ts)
  let ?b = "balance_step n s x best t"
  have IH: "?b = Some sc \<or> (\<exists>t \<in> set ts. n - t \<ge> s - 1 \<and> sc = partition_score s x (balanced_parts n s t))"
      "\<And>b. ?b = Some b \<Longrightarrow> sc \<le> b"
      "\<forall>t \<in> set ts. n - t \<ge> s - 1 \<longrightarrow> sc \<le> partition_score s x (balanced_parts n s t)"
    using Cons.IH [of ?b] Cons.prems by auto
  show ?case
  proof (cases "n - t < s - 1")
    case True
    then have "?b = best" by (simp add: balance_step_def)
    then show ?thesis using IH True by auto
  next
    case False
    let ?sc = "partition_score s x (balanced_parts n s t)"
    have b: "?b = Some (case best of None \<Rightarrow> ?sc | Some b \<Rightarrow> if ?sc < b then ?sc else b)"
      using False by (simp add: balance_step_def better_score_def split: option.split)
    have "sc \<le> (case best of None \<Rightarrow> ?sc | Some b \<Rightarrow> if ?sc < b then ?sc else b)" by (rule IH(2) [OF b])
    then have "sc \<le> ?sc" "\<And>b. best = Some b \<Longrightarrow> sc \<le> b"
      by (auto split: option.splits if_splits)
    moreover have "best = Some sc \<or> (\<exists>t' \<in> set (t # ts). n - t' \<ge> s - 1 \<and> sc = partition_score s x (balanced_parts n s t'))"
      using IH(1) b False by (auto split: option.splits if_splits)
    ultimately show ?thesis using IH(3) by auto
  qed
qed

lemma balance_fold_defined:
  assumes "n - t \<ge> s - 1"
  shows "\<exists>sc. foldl (balance_step n s x) best (t # ts) = Some sc"
proof -
  have *: "\<exists>sc. foldl (balance_step n s x) (Some b) us = Some sc" for b us
    by (induction us arbitrary: b) (auto simp: balance_step_def better_score_def)
  show ?thesis using assms * by (auto simp: balance_step_def better_score_def split: option.splits)
qed

lemma partition_score_makespan:
  assumes "layer_partition_ok n s ps" and "layer_partition_ok n s qs" and "2 \<le> s"
    and "partition_score s x ps \<le> partition_score s x qs"
  shows "makespan x ps \<le> makespan x qs"
proof -
  have total: "sum_list (stage_costs x rs) = of_int n + max 0 x" if "layer_partition_ok n s rs" for rs
  proof -
    have "rs \<noteq> []" using that assms(3) by (auto simp: layer_partition_ok_def)
    then obtain us t where rs: "rs = us @ [t]" by (metis append_butlast_last_id)
    then have "sum_list us + t = n" using that by (simp add: layer_partition_ok_def)
    then have "of_int (sum_list us) + of_int t = (of_int n :: rat)" by (metis of_int_add)
    then show ?thesis by (simp add: rs stage_costs_snoc sum_of_int_list)
  qed
  have "1 \<le> n"
  proof -
    have "ps \<noteq> []" using assms(1,3) by (auto simp: layer_partition_ok_def)
    then obtain c cs where "ps = c # cs" by (cases ps) simp_all
    then show ?thesis using assms(1) sum_list_nonneg [of cs] by (fastforce simp: layer_partition_ok_def)
  qed
  then have "(1::rat) \<le> of_int n" by simp
  then have avg: "0 < (of_int n + max 0 x) / (of_int s :: rat)" using assms(3) by (intro divide_pos_pos) auto
  have "makespan x ps / ((of_int n + max 0 x) / of_int s) \<le> makespan x qs / ((of_int n + max 0 x) / of_int s)"
    using assms(4) total [OF assms(1)] total [OF assms(2)]
    by (auto simp: partition_score_def Let_def makespan_def less_eq_prod_def)
  then show ?thesis using avg unfolding divide_le_cancel by blast
qed

lemma balanced_optimal:
  assumes "1 \<le> s" and "s \<le> n"
  shows "\<exists>ps. balanced_layer_partition n s x = Inr ps \<and> layer_partition_ok n s ps \<and>
           (\<forall>qs. layer_partition_ok n s qs \<longrightarrow> makespan x ps \<le> makespan x qs)"
proof (cases "s = 1")
  case True
  have "qs = [n]" if "layer_partition_ok n 1 qs" for qs
    using that by (cases qs) (auto simp: layer_partition_ok_def)
  then show ?thesis using True assms by (auto simp: balanced_layer_partition_def layer_partition_ok_def)
next
  case False
  let ?ts = "[1..n - (s - 1)]"
  have s2: "2 \<le> s" using False assms by simp
  have "?ts = 1 # [2..n - (s - 1)]" using assms by (subst upto.simps) simp
  then obtain sc where sc: "foldl (balance_step n s x) None ?ts = Some sc"
    using balance_fold_defined [of s n 1 x None "[2..n - (s - 1)]"] assms by auto
  note f = balance_fold [OF sc]
  then obtain t where t: "t \<in> set ?ts" "sc = partition_score s x (balanced_parts n s t)" by auto
  let ?ps = "balanced_parts n s t"
  have ok: "layer_partition_ok n s ?ps" using t s2 by (intro balanced_parts_ok) auto
  have "makespan x ?ps \<le> makespan x qs" if q: "layer_partition_ok n s qs" for qs
  proof -
    let ?l = "last qs"
    have "qs \<noteq> []" using q s2 by (auto simp: layer_partition_ok_def)
    then obtain us where us: "qs = us @ [?l]" by (metis append_butlast_last_id)
    then have "1 \<le> ?l" using q by (metis in_set_conv_decomp layer_partition_ok_def)
    moreover have "int (length us) = s - 1" "sum_list us = n - ?l"
      using q arg_cong [OF us, of length] arg_cong [OF us, of sum_list] by (auto simp: layer_partition_ok_def)
    moreover have "int (length us) \<le> sum_list us"
    proof -
      have "\<forall>c \<in> set us. 1 \<le> c" using q us by (metis Un_iff layer_partition_ok_def set_append)
      then show ?thesis by (induction us) auto
    qed
    ultimately have l: "1 \<le> ?l" "?l \<le> n - (s - 1)" by simp_all
    then have "sc \<le> partition_score s x (balanced_parts n s ?l)" using f by auto
    then have "makespan x ?ps \<le> makespan x (balanced_parts n s ?l)"
      using partition_score_makespan [OF ok balanced_parts_ok [OF s2 l] s2] t(2) by simp
    also have "\<dots> \<le> makespan x qs" by (rule balanced_parts_makespan [OF q s2])
    finally show ?thesis .
  qed
  moreover have "balanced_layer_partition n s x = Inr ?ps"
    using assms False sc t(2) by (simp add: balanced_layer_partition_def partition_score_def Let_def)
  ultimately show ?thesis using ok by blast
qed

section \<open>Facts about services and stages\<close>

definition service_wf :: "string list \<Rightarrow> pipeline_service \<Rightarrow> bool" where
  "service_wf known sv \<longleftrightarrow>
     sv_node_ids sv \<noteq> [] \<and> set (sv_node_ids sv) \<subseteq> set known \<and> sv_entry_node_id sv \<in> set (sv_node_ids sv) \<and>
     sv_pipeline_parallel_size sv = int (length (sv_node_ids sv)) \<and> 1 \<le> sv_tensor_parallel_size sv \<and>
     layer_partition_ok (sv_total_layers sv) (sv_pipeline_parallel_size sv) (sv_layer_partition sv) \<and>
     1 \<le> sv_max_batch_size sv"

lemma service_shape_Inr:
  assumes "service_shape data known = Inr (nodes, entry, pp, tp, layers)"
  shows "nodes \<noteq> []" "set nodes \<subseteq> set known" "entry \<in> set nodes" "pp = int (length nodes)" "1 \<le> tp" "1 \<le> layers"
  using assms by (auto simp: service_shape_def Let_def bindE_eq_Inr filter_empty_conv split: if_splits)

lemma check_partition_Inr:
  "check_partition parts pp layers = Inr () \<longleftrightarrow> layer_partition_ok layers pp parts"
proof -
  have "(\<forall>c \<in> set parts. 1 \<le> c) \<longleftrightarrow> \<not> list_ex (\<lambda>c. c < 1) parts" by (simp add: list_ex_iff not_less)
  then show ?thesis by (simp add: check_partition_def layer_partition_ok_def)
qed

lemma service_from_json_wf:
  assumes "service_from_json data known = Inr sv"
  shows "service_wf known sv"
proof -
  obtain nodes entry pp tp layers where sh: "service_shape data known = Inr (nodes, entry, pp, tp, layers)"
    using assms by (auto simp: service_from_json_def bindE_eq_Inr Let_def split: if_splits prod.splits)
  note f = service_shape_Inr [OF sh]
  show ?thesis using assms f
    by (auto simp: service_from_json_def bindE_eq_Inr Let_def service_wf_def check_partition_Inr sh
        split: if_splits prod.splits)
qed

lemma foldE_add_service_wf:
  assumes "foldE (add_service known) acc items = Inr services"
    and "\<forall>sv \<in> set acc. service_wf known sv" and "distinct (map sv_service_id acc)" and "distinct (map sv_profile_id acc)"
  shows "(\<forall>sv \<in> set services. service_wf known sv) \<and> distinct (map sv_service_id services) \<and> distinct (map sv_profile_id services)"
proof -
  let ?P = "\<lambda>ss. (\<forall>sv \<in> set ss. service_wf known sv) \<and> distinct (map sv_service_id ss) \<and> distinct (map sv_profile_id ss)"
  show ?thesis
  proof (rule foldE_invariant [where P = ?P, OF assms(1)])
    show "?P acc" using assms by simp
    show "?P t" if P: "?P ss" and add: "add_service known ss item = Inr t" for ss item t
    proof -
      obtain sv where "service_from_json item known = Inr sv" "t = ss @ [sv]"
          "\<not> list_ex (\<lambda>s. sv_service_id s = sv_service_id sv) ss" "find (\<lambda>s. sv_profile_id s = sv_profile_id sv) ss = None"
        using add by (auto simp: add_service_def bindE_eq_Inr split: if_splits option.splits)
      then show ?thesis using P service_from_json_wf by (auto simp: list_ex_iff find_None_iff)
    qed
  qed
qed

lemma load_pipeline_services_wf:
  assumes "load_pipeline_services policy known = Inr services"
  shows "(\<forall>sv \<in> set services. service_wf known sv) \<and> distinct (map sv_service_id services) \<and> distinct (map sv_profile_id services)"
  using assms foldE_add_service_wf [of known "[]"] by (auto simp: load_pipeline_services_def bindE_eq_Inr)

lemma length_stages_from: "length (stages_from sv i c zs) = length zs"
  by (induction sv i c zs rule: stages_from.induct) simp_all

lemma stages_from_nth:
  assumes "k < length zs"
  shows "stages_from sv i c zs ! k = \<lparr>ps_service_id = sv_service_id sv, ps_profile_id = sv_profile_id sv,
      ps_stage_index = int (i + k), ps_stage_count = sv_pipeline_parallel_size sv, ps_node_id = fst (zs ! k),
      ps_layer_start = c + sum_list (map snd (take k zs)), ps_layer_end = c + sum_list (map snd (take (Suc k) zs))\<rparr>"
  using assms
proof (induction sv i c zs arbitrary: k rule: stages_from.induct)
  case (1 sv i c)
  then show ?case by simp
next
  case (2 sv i c node n rest)
  then show ?case by (cases k) (simp_all add: algebra_simps)
qed

lemma length_stages: "service_wf known sv \<Longrightarrow> length (stages sv) = length (sv_node_ids sv)"
  by (simp add: stages_def length_stages_from service_wf_def layer_partition_ok_def)

lemma stages_nth:
  assumes "service_wf known sv" and "k < length (sv_node_ids sv)"
  shows "stages sv ! k = \<lparr>ps_service_id = sv_service_id sv, ps_profile_id = sv_profile_id sv,
      ps_stage_index = int k, ps_stage_count = int (length (sv_node_ids sv)), ps_node_id = sv_node_ids sv ! k,
      ps_layer_start = sum_list (take k (sv_layer_partition sv)),
      ps_layer_end = sum_list (take (Suc k) (sv_layer_partition sv))\<rparr>"
proof -
  let ?z = "zip (sv_node_ids sv) (sv_layer_partition sv)"
  have l: "length (sv_layer_partition sv) = length (sv_node_ids sv)"
    using assms(1) by (simp add: service_wf_def layer_partition_ok_def)
  have "map snd (take j ?z) = take j (sv_layer_partition sv)" for j
    using l by (simp add: take_zip)
  then show ?thesis using stages_from_nth [of k ?z sv 0 0] assms l by (simp add: stages_def service_wf_def)
qed

text \<open>Every layer of the model belongs to exactly one stage.\<close>

lemma partition_point:
  assumes "\<forall>c \<in> set ps. (1::int) \<le> c" and "0 \<le> l" and "l < sum_list ps"
  shows "\<exists>!k. k < length ps \<and> sum_list (take k ps) \<le> l \<and> l < sum_list (take (Suc k) ps)"
  using assms
proof (induction ps arbitrary: l)
  case Nil
  then show ?case by simp
next
  case (Cons c ps)
  have nn: "0 \<le> sum_list (take k ps)" for k
    using Cons.prems(1) by (intro sum_list_nonneg) (auto dest!: in_set_takeD)
  show ?case
  proof (cases "l < c")
    case True
    show ?thesis
    proof (rule ex1I [of _ 0])
      show "0 < length (c # ps) \<and> sum_list (take 0 (c # ps)) \<le> l \<and> l < sum_list (take (Suc 0) (c # ps))"
        using True Cons.prems by simp
      show "k = 0" if k: "k < length (c # ps) \<and> sum_list (take k (c # ps)) \<le> l \<and> l < sum_list (take (Suc k) (c # ps))" for k
      proof (cases k)
        case (Suc j)
        then have "c + sum_list (take j ps) \<le> l" using k by simp
        then show ?thesis using True nn [of j] by simp
      qed simp
    qed
  next
    case False
    have "\<exists>!k. k < length ps \<and> sum_list (take k ps) \<le> l - c \<and> l - c < sum_list (take (Suc k) ps)"
      using Cons.prems False by (intro Cons.IH) simp_all
    then obtain k where k: "k < length ps" "sum_list (take k ps) \<le> l - c" "l - c < sum_list (take (Suc k) ps)"
      and u: "\<And>j. j < length ps \<Longrightarrow> sum_list (take j ps) \<le> l - c \<Longrightarrow> l - c < sum_list (take (Suc j) ps) \<Longrightarrow> j = k"
      by metis
    show ?thesis
    proof (rule ex1I [of _ "Suc k"])
      show "Suc k < length (c # ps) \<and> sum_list (take (Suc k) (c # ps)) \<le> l \<and> l < sum_list (take (Suc (Suc k)) (c # ps))"
        using k by simp
      show "j = Suc k" if j: "j < length (c # ps) \<and> sum_list (take j (c # ps)) \<le> l \<and> l < sum_list (take (Suc j) (c # ps))" for j
      proof (cases j)
        case 0
        then show ?thesis using j False by simp
      next
        case (Suc i)
        then show ?thesis using j u [of i] by simp
      qed
    qed
  qed
qed

section \<open>Properties\<close>

text \<open>
  C29. The balanced partition of a model with at least as many layers as stages exists, gives every
  stage at least one layer and all layers to some stage, and no other partition has a faster slowest
  stage, whatever the extra cost of the last stage.
\<close>

theorem balanced_partition_optimal:
  assumes "1 \<le> stage_count" and "stage_count \<le> total_layers"
  shows "\<exists>parts. balanced_layer_partition total_layers stage_count tail_extra = Inr parts \<and>
           layer_partition_ok total_layers stage_count parts \<and>
           (\<forall>other. layer_partition_ok total_layers stage_count other \<longrightarrow> makespan tail_extra parts \<le> makespan tail_extra other)"
  using balanced_optimal [OF assms] .

theorem balanced_partition_optimal_witness:
  "\<exists>parts. balanced_layer_partition 64 4 (333 / 100) = Inr parts \<and> layer_partition_ok 64 4 parts \<and>
     (\<forall>other. layer_partition_ok 64 4 other \<longrightarrow> makespan (333 / 100) parts \<le> makespan (333 / 100) other)"
  by (rule balanced_partition_optimal) simp_all

text \<open>
  A pipeline service that loads divides its model: every layer is owned by exactly one stage, the
  stages are as many as the nodes and the k-th stage runs on the k-th node.
\<close>

theorem service_stages_partition_layers:
  assumes "service_from_json data known = Inr sv"
  shows "length (stages sv) = length (sv_node_ids sv) \<and>
     (\<forall>k < length (sv_node_ids sv). stage_for_index sv (int k) = Inr (stages sv ! k) \<and>
        ps_node_id (stages sv ! k) = sv_node_ids sv ! k \<and> ps_node_id (stages sv ! k) \<in> set known) \<and>
     (\<forall>l. 0 \<le> l \<and> l < sv_total_layers sv \<longrightarrow>
        (\<exists>!k. k < length (stages sv) \<and> ps_layer_start (stages sv ! k) \<le> l \<and> l < ps_layer_end (stages sv ! k)))"
proof -
  have wf: "service_wf known sv" by (rule service_from_json_wf [OF assms])
  note len = length_stages [OF wf] and nth = stages_nth [OF wf]
  have parts: "\<forall>c \<in> set (sv_layer_partition sv). 1 \<le> c" "sum_list (sv_layer_partition sv) = sv_total_layers sv"
      "length (sv_layer_partition sv) = length (sv_node_ids sv)"
    using wf by (auto simp: service_wf_def layer_partition_ok_def)
  have "\<exists>!k. k < length (stages sv) \<and> ps_layer_start (stages sv ! k) \<le> l \<and> l < ps_layer_end (stages sv ! k)"
    if "0 \<le> l" "l < sv_total_layers sv" for l
  proof -
    have "(k < length (stages sv) \<and> ps_layer_start (stages sv ! k) \<le> l \<and> l < ps_layer_end (stages sv ! k)) \<longleftrightarrow>
        (k < length (sv_layer_partition sv) \<and> sum_list (take k (sv_layer_partition sv)) \<le> l \<and>
         l < sum_list (take (Suc k) (sv_layer_partition sv)))" for k
      using len parts(3) nth [of k] by auto
    then show ?thesis using partition_point [OF parts(1), of l] that parts(2) by simp
  qed
  then show ?thesis using len nth wf by (auto simp: stage_for_index_def service_wf_def)
qed

definition sample_service :: pydict where
  "sample_service = [(''service_id'', JStr ''glm''), (''profile_id'', JStr ''p''), (''model_id'', JStr ''m''),
     (''entry_node_id'', JStr ''s0''), (''node_ids'', JArr [JStr ''s0'', JStr ''s1'']), (''api_base_url'', JStr ''http://s0/''),
     (''total_layers'', JInt 5)]"

lemma sample_service_loads: "\<exists>sv. service_from_json sample_service [''s0'', ''s1''] = Inr sv \<and> sv_total_layers sv = 5"
  by (rule exI [of _ "projr (service_from_json sample_service [''s0'', ''s1''])"]) code_simp

theorem service_stages_partition_layers_witness:
  "\<exists>sv. service_from_json sample_service [''s0'', ''s1''] = Inr sv \<and>
     (\<exists>!k. k < length (stages sv) \<and> ps_layer_start (stages sv ! k) \<le> 3 \<and> 3 < ps_layer_end (stages sv ! k))"
proof -
  obtain sv where sv: "service_from_json sample_service [''s0'', ''s1''] = Inr sv" "sv_total_layers sv = 5"
    using sample_service_loads by blast
  have "(0::int) \<le> 3 \<and> 3 < sv_total_layers sv" using sv by simp
  then show ?thesis using service_stages_partition_layers [OF sv(1)] sv(1) by blast
qed

text \<open>
  The shards of a request's KV cache cover it: under layer sharding their bytes add up to at
  least the cache's and to less than one byte per node more; replicated shards each hold it whole.
\<close>

theorem cache_shards_cover:
  assumes "service_from_json data known = Inr sv" and "kv_key \<noteq> ''''" and "0 < total_bytes"
  shows "length (cache_shards sv rid kv_key total_bytes) = length (sv_node_ids sv) \<and>
     (\<forall>sh \<in> set (cache_shards sv rid kv_key total_bytes). dget sh ''bytes'' = JInt (estimate_kv_shard_bytes sv total_bytes)) \<and>
     (if cache_sharding sv = ''replicated'' then estimate_kv_shard_bytes sv total_bytes = total_bytes
      else total_bytes \<le> int (length (sv_node_ids sv)) * estimate_kv_shard_bytes sv total_bytes \<and>
           int (length (sv_node_ids sv)) * estimate_kv_shard_bytes sv total_bytes < total_bytes + int (length (sv_node_ids sv)))"
proof -
  have wf: "service_wf known sv" by (rule service_from_json_wf [OF assms(1)])
  then have n: "0 < int (length (sv_node_ids sv))" by (simp add: service_wf_def)
  then have m: "max 1 (int (length (sv_node_ids sv))) = int (length (sv_node_ids sv))" by linarith
  have shards: "length (cache_shards sv rid kv_key total_bytes) = length (sv_node_ids sv)"
    "\<forall>sh \<in> set (cache_shards sv rid kv_key total_bytes). dget sh ''bytes'' = JInt (estimate_kv_shard_bytes sv total_bytes)"
    using assms length_stages [OF wf] by (auto simp: cache_shards_def Let_def dget_def dget_or_def)
  show ?thesis using shards assms(3) ceil_div_bounds [OF n, of total_bytes]
    by (simp add: estimate_kv_shard_bytes_def m)
qed

theorem cache_shards_cover_witness:
  "\<exists>sv. service_from_json sample_service [''s0'', ''s1''] = Inr sv \<and> length (cache_shards sv ''r'' ''k'' 7) = length (sv_node_ids sv)"
  using cache_shards_cover [of sample_service "[''s0'', ''s1'']" _ "''k''" 7 "''r''"] sample_service_loads by fastforce

end
