(* ===== verification/Topology.thy ===== *)
theory Topology
  imports Pipelines Profiles
begin

text \<open>
  The Spark topology of \<^verbatim>\<open>v2/src/ds4_infer/topology.py\<close>: the nodes, the pipeline services and
  profile groups of its routing policy, the assignment of a profile to a node or service, and the
  rewriting of a topology document by \<^verbatim>\<open>DS4_PIPELINE_NODES\<close>.  The client URL of a service
  (\<^verbatim>\<open>pipeline_service_client_base_url\<close>) is not modelled.
\<close>

section \<open>Nodes\<close>

record spark_node =
  sn_node_id :: string
  sn_roles :: "string list"
  sn_resident_profiles :: "string list"
  sn_default_capacity :: int
  sn_immediate_reserved :: bool
  sn_dynamic_load :: bool

definition node_required :: "string list" where
  "node_required = [''node_id'', ''roles'', ''resident_profiles'', ''default_capacity'', ''immediate_reserved'', ''dynamic_load'']"

definition node_from_json :: "pydict \<Rightarrow> spark_node result" where
  "node_from_json data =
     (let missing = filter (\<lambda>k. \<not> has_key data k) node_required
      in if missing \<noteq> [] then Inl (ValueError (''spark node missing fields: '' @ py_repr (JArr (map JStr missing))))
         else
           bindE (py_int (dget data ''default_capacity'')) (\<lambda>capacity.
           if capacity < 1 then Inl (ValueError ''spark node default_capacity must be positive'')
           else
             bindE (py_strs (dget data ''roles'')) (\<lambda>roles.
             bindE (py_strs (dget data ''resident_profiles'')) (\<lambda>resident.
             Inr \<lparr>sn_node_id = py_str (dget data ''node_id''), sn_roles = roles, sn_resident_profiles = resident,
                  sn_default_capacity = capacity, sn_immediate_reserved = truthy (dget data ''immediate_reserved''),
                  sn_dynamic_load = truthy (dget data ''dynamic_load'')\<rparr>))))"

definition supports_profile :: "spark_node \<Rightarrow> string \<Rightarrow> bool" where
  "supports_profile node pid \<longleftrightarrow> pid \<in> set (sn_resident_profiles node)"

definition node_public_dict :: "spark_node \<Rightarrow> pydict" where
  "node_public_dict n =
     [(''node_id'', JStr (sn_node_id n)), (''roles'', JArr (map JStr (sn_roles n))),
      (''resident_profiles'', JArr (map JStr (sn_resident_profiles n))), (''default_capacity'', JInt (sn_default_capacity n)),
      (''immediate_reserved'', JBool (sn_immediate_reserved n)), (''dynamic_load'', JBool (sn_dynamic_load n))]"

section \<open>Assignments\<close>

record spark_assignment =
  sa_profile_id :: string
  sa_node_id :: string
  sa_resident :: bool
  sa_dynamic_load :: bool
  sa_reason :: string
  sa_node_ids :: "string list"
  sa_service_id :: "string option"
  sa_api_base_url :: "string option"
  sa_compute_domain :: "string option"

definition assignment_public_dict :: "spark_assignment \<Rightarrow> pydict" where
  "assignment_public_dict a =
     [(''profile_id'', JStr (sa_profile_id a)), (''node_id'', JStr (sa_node_id a)),
      (''node_ids'', JArr (map JStr (if sa_node_ids a \<noteq> [] then sa_node_ids a else [sa_node_id a]))),
      (''service_id'', jopt (sa_service_id a)), (''api_base_url'', jopt (sa_api_base_url a)),
      (''compute_domain'', jopt (sa_compute_domain a)), (''resident'', JBool (sa_resident a)),
      (''dynamic_load'', JBool (sa_dynamic_load a)), (''reason'', JStr (sa_reason a))]"

section \<open>The topology\<close>

type_synonym node_groups = "(string \<times> string list) list"

record spark_topology =
  tp_topology_id :: string
  tp_nodes :: "spark_node list"
  tp_routing_policy :: pydict
  tp_services :: "pipeline_service list"
  tp_groups :: node_groups
  tp_ingress :: "(string \<times> string) list"

definition find_node :: "spark_node list \<Rightarrow> string \<Rightarrow> spark_node option" where
  "find_node nodes nid = find (\<lambda>n. sn_node_id n = nid) nodes"

definition load_group :: "spark_node list \<Rightarrow> string \<times> json \<Rightarrow> (string \<times> string list) result" where
  "load_group nodes entry =
     (case entry of
        (pid, JArr raw) \<Rightarrow>
          (if raw = [] then Inl (ValueError ''profile node group must be a non-empty list'')
           else
             (let node_ids = map py_str raw; missing = filter (\<lambda>n. find_node nodes n = None) node_ids;
                  strangers = filter (\<lambda>n. case find_node nodes n of None \<Rightarrow> True | Some x \<Rightarrow> \<not> supports_profile x pid) node_ids
              in if missing \<noteq> []
                 then Inl (ValueError (''profile node group '' @ py_repr (JStr pid) @ '' references unknown nodes: '' @
                        py_repr (JArr (map JStr missing))))
                 else if strangers \<noteq> []
                 then Inl (ValueError (''profile node group '' @ py_repr (JStr pid) @ '' references node '' @
                        py_repr (JStr (hd strangers)) @ '' that does not list the profile''))
                 else Inr (pid, node_ids)))
      | _ \<Rightarrow> Inl (ValueError ''profile node group must be a non-empty list''))"

definition load_profile_node_groups :: "pydict \<Rightarrow> spark_node list \<Rightarrow> node_groups result" where
  "load_profile_node_groups policy nodes =
     (case dget_or policy ''profile_node_groups'' (JObj []) of
        JObj d \<Rightarrow> mapE (load_group nodes) d
      | _ \<Rightarrow> Inl (ValueError ''routing_policy.profile_node_groups must be an object''))"

definition load_ingress :: "node_groups \<Rightarrow> string \<times> json \<Rightarrow> (string \<times> string) result" where
  "load_ingress groups entry =
     (case entry of (pid, v) \<Rightarrow>
        let node = py_str v
        in case map_of groups pid of
             None \<Rightarrow> Inl (ValueError (''profile node group ingress references unknown profile group: '' @ py_repr (JStr pid)))
           | Some members \<Rightarrow>
               if node \<in> set members then Inr (pid, node)
               else Inl (ValueError (''profile node group ingress '' @ py_repr (JStr node) @ '' is not in group '' @ py_repr (JStr pid))))"

definition load_profile_group_ingress :: "pydict \<Rightarrow> node_groups \<Rightarrow> ((string \<times> string) list) result" where
  "load_profile_group_ingress policy groups =
     (case dget_or policy ''profile_node_group_ingress'' (JObj []) of
        JObj d \<Rightarrow> mapE (load_ingress groups) d
      | _ \<Rightarrow> Inl (ValueError ''routing_policy.profile_node_group_ingress must be an object''))"

definition make_topology :: "string \<Rightarrow> spark_node list \<Rightarrow> pydict \<Rightarrow> spark_topology result" where
  "make_topology tid nodes policy =
     (if nodes = [] then Inl (ValueError ''spark topology requires at least one node'')
      else if \<not> distinct (map sn_node_id nodes) then Inl (ValueError ''duplicate node_id in spark topology'')
      else
        bindE (load_pipeline_services policy (map sn_node_id nodes)) (\<lambda>services.
        bindE (load_profile_node_groups policy nodes) (\<lambda>groups.
        bindE (load_profile_group_ingress policy groups) (\<lambda>ingress.
        Inr \<lparr>tp_topology_id = tid, tp_nodes = nodes, tp_routing_policy = policy, tp_services = services,
             tp_groups = groups, tp_ingress = ingress\<rparr>))))"

definition nodes_for_profile :: "spark_topology \<Rightarrow> string \<Rightarrow> spark_node list" where
  "nodes_for_profile tp pid = filter (\<lambda>n. supports_profile n pid) (tp_nodes tp)"

definition pipeline_service_for_profile :: "spark_topology \<Rightarrow> string \<Rightarrow> pipeline_service option" where
  "pipeline_service_for_profile tp pid = find (\<lambda>sv. sv_profile_id sv = pid) (tp_services tp)"

definition pipeline_service_by_id :: "spark_topology \<Rightarrow> string \<Rightarrow> pipeline_service result" where
  "pipeline_service_by_id tp sid =
     (case find (\<lambda>sv. sv_service_id sv = sid) (tp_services tp) of
        Some sv \<Rightarrow> Inr sv | None \<Rightarrow> Inl (ValueError (''unknown pipeline service: '' @ sid)))"

definition pipeline_profiles_for_node :: "spark_topology \<Rightarrow> string \<Rightarrow> (pipeline_service list) result" where
  "pipeline_profiles_for_node tp nid =
     (if find_node (tp_nodes tp) nid = None then Inl (ValueError (''unknown spark node: '' @ nid))
      else Inr (filter (\<lambda>sv. sv_entry_node_id sv = nid) (tp_services tp)))"

definition pipeline_stages_for_node :: "spark_topology \<Rightarrow> string \<Rightarrow> (pipeline_stage list) result" where
  "pipeline_stages_for_node tp nid =
     (if find_node (tp_nodes tp) nid = None then Inl (ValueError (''unknown spark node: '' @ nid))
      else mapE (\<lambda>sv. stage_for_node sv nid) (filter (\<lambda>sv. nid \<in> set (sv_node_ids sv)) (tp_services tp)))"

definition load_of :: "(string \<times> int) list \<Rightarrow> string \<Rightarrow> int" where
  "load_of current nid = (case map_of current nid of None \<Rightarrow> 0 | Some n \<Rightarrow> n)"

definition choose_resident_node :: "spark_node list \<Rightarrow> bool \<Rightarrow> (string \<times> int) list \<Rightarrow> spark_node" where
  "choose_resident_node candidates immediate current =
     (let reserved = filter sn_immediate_reserved candidates;
          with_room = filter (\<lambda>n. ''production'' \<in> set (sn_roles n) \<and> load_of current (sn_node_id n) < sn_default_capacity n) candidates;
          nodes = (if immediate then (if reserved \<noteq> [] then reserved else candidates)
                   else (if with_room \<noteq> [] then with_room else candidates))
      in hd (sort_key (\<lambda>n. (of_int (load_of current (sn_node_id n)) / of_int (sn_default_capacity n) :: rat, sn_node_id n)) nodes))"

definition experimental_node :: "spark_topology \<Rightarrow> spark_node option" where
  "experimental_node tp =
     (let v = dget (tp_routing_policy tp) ''experimental_node_id'';
          named = (if truthy v then find_node (tp_nodes tp) (py_str v) else None)
      in case named of
           Some n \<Rightarrow> Some n
         | None \<Rightarrow> (case sort_key sn_node_id (filter sn_dynamic_load (tp_nodes tp)) of [] \<Rightarrow> None | n # _ \<Rightarrow> Some n))"

definition assign_profile :: "spark_topology \<Rightarrow> string \<Rightarrow> bool \<Rightarrow> (string \<times> int) list \<Rightarrow> spark_assignment result" where
  "assign_profile tp pid immediate current =
     (case pipeline_service_for_profile tp pid of
        Some sv \<Rightarrow>
          Inr \<lparr>sa_profile_id = pid, sa_node_id = sv_entry_node_id sv, sa_resident = True, sa_dynamic_load = False,
               sa_reason = ''pipeline_service'', sa_node_ids = sv_node_ids sv, sa_service_id = Some (sv_service_id sv),
               sa_api_base_url = Some (sv_api_base_url sv), sa_compute_domain = Some (sv_compute_domain sv)\<rparr>
      | None \<Rightarrow>
          (case map_of (tp_groups tp) pid of
             Some members \<Rightarrow>
               Inr \<lparr>sa_profile_id = pid,
                    sa_node_id = (case map_of (tp_ingress tp) pid of Some n \<Rightarrow> n | None \<Rightarrow> joinwith ''+'' members),
                    sa_resident = True, sa_dynamic_load = False, sa_reason = ''resident_profile_group'',
                    sa_node_ids = members, sa_service_id = None, sa_api_base_url = None, sa_compute_domain = None\<rparr>
           | None \<Rightarrow>
               (let eligible = nodes_for_profile tp pid
                in if eligible \<noteq> [] then
                     (let chosen = choose_resident_node eligible immediate current
                      in Inr \<lparr>sa_profile_id = pid, sa_node_id = sn_node_id chosen, sa_resident = True, sa_dynamic_load = False,
                              sa_reason = (if immediate \<and> sn_immediate_reserved chosen then ''resident_profile_immediate''
                                           else ''resident_profile''),
                              sa_node_ids = [sn_node_id chosen], sa_service_id = None, sa_api_base_url = None,
                              sa_compute_domain = None\<rparr>)
                   else
                     (case (if truthy (dget_or (tp_routing_policy tp) ''allow_dynamic_load_for_unmatched_profiles'' (JBool False))
                            then experimental_node tp else None) of
                        Some n \<Rightarrow>
                          Inr \<lparr>sa_profile_id = pid, sa_node_id = sn_node_id n, sa_resident = False, sa_dynamic_load = True,
                               sa_reason = ''dynamic_load_experiment_lane'', sa_node_ids = [sn_node_id n],
                               sa_service_id = None, sa_api_base_url = None, sa_compute_domain = None\<rparr>
                      | None \<Rightarrow> Inl (ValueError (''no spark node has resident profile '' @ py_repr (JStr pid)))))))"

definition add_node_capacity :: "string list \<Rightarrow> (string \<times> int) list \<Rightarrow> spark_node \<times> string \<Rightarrow> (string \<times> int) list" where
  "add_node_capacity grouped capacity entry =
     (case entry of (node, pid) \<Rightarrow>
        if pid \<notin> set grouped \<and> map_of capacity pid \<noteq> None then capacity
        else if pid \<notin> set grouped then dset pid (load_of capacity pid + sn_default_capacity node) capacity
        else capacity)"

definition estimate_capacity_by_profile :: "spark_topology \<Rightarrow> (string \<times> int) list" where
  "estimate_capacity_by_profile tp =
     (let c0 = foldl (\<lambda>c sv. dset (sv_profile_id sv) (sv_max_batch_size sv) c) [] (tp_services tp);
          grouped = filter (\<lambda>p. map_of c0 p = None) (map fst (tp_groups tp));
          c1 = foldl (\<lambda>c (p, members). if p \<in> set grouped
                 then dset p (Min (set (map (\<lambda>n. case find_node (tp_nodes tp) n of Some x \<Rightarrow> sn_default_capacity x | None \<Rightarrow> 0) members))) c
                 else c) c0 (tp_groups tp);
          c2 = foldl (add_node_capacity grouped) c1
                 (concat (map (\<lambda>n. map (\<lambda>p. (n, p)) (sn_resident_profiles n)) (tp_nodes tp)))
      in sort_key fst c2)"

definition topology_public_dict :: "spark_topology \<Rightarrow> pydict" where
  "topology_public_dict tp =
     [(''format'', JStr ''ds4-spark-topology-v1''), (''topology_id'', JStr (tp_topology_id tp)),
      (''nodes'', JArr (map (\<lambda>n. JObj (node_public_dict n)) (tp_nodes tp))),
      (''pipeline_services'', JArr (map (\<lambda>sv. JObj (service_public_dict sv)) (tp_services tp))),
      (''routing_policy'', JObj (tp_routing_policy tp))]"

section \<open>Loading a topology document\<close>

fun split_on :: "char \<Rightarrow> string \<Rightarrow> string list" where
  \<comment> \<open>\<^verbatim>\<open>s.split(c)\<close>\<close>
  "split_on c [] = ['''']"
| "split_on c (x # xs) =
     (if x = c then '''' # split_on c xs
      else case split_on c xs of [] \<Rightarrow> [[x]] | w # ws \<Rightarrow> (x # w) # ws)"

definition override_nodes :: "environ \<Rightarrow> string list" where
  "override_nodes env =
     filter (\<lambda>s. s \<noteq> '''') (map strip (split_on (CHR '','') (case env ''DS4_PIPELINE_NODES'' of None \<Rightarrow> '''' | Some v \<Rightarrow> v)))"

definition partition_for_service :: "string \<Rightarrow> pydict \<Rightarrow> int \<Rightarrow> int \<Rightarrow> (int list) result" where
  "partition_for_service sid service stage_count total_layers =
     (if stage_count > total_layers then Inl (ValueError (''service '' @ sid @ '' has more pipeline stages than layers''))
      else
        bindE (py_strs (dget_or service ''node_ids'' (JArr []))) (\<lambda>node_ids.
        bindE (layer_partition_by_node (dget service ''layer_partition_by_node'') node_ids
                 (''service '' @ sid @ '' layer_partition_by_node'')) (\<lambda>by_node.
        case by_node of
          Some ps \<Rightarrow> Inr ps
        | None \<Rightarrow>
            (case dget service ''layer_partition'' of
               JArr xs \<Rightarrow> if int (length xs) = stage_count then mapE py_int xs else even_layer_partition total_layers stage_count
             | JStr raw \<Rightarrow> bindE (layer_partition_from_preset raw total_layers stage_count) (\<lambda>(ps, _). Inr ps)
             | _ \<Rightarrow> even_layer_partition total_layers stage_count))))"

definition set_in_dict :: "string \<Rightarrow> string \<Rightarrow> json \<Rightarrow> pydict \<Rightarrow> pydict" where
  \<comment> \<open>\<^verbatim>\<open>if isinstance(d.get(k), dict): d[k][k2] = v\<close>\<close>
  "set_in_dict k k2 v d = (case dget d k of JObj e \<Rightarrow> dset k (JObj (dset k2 v e)) d | _ \<Rightarrow> d)"

definition override_service :: "string list \<Rightarrow> string \<times> json \<Rightarrow> (string \<times> json) result" where
  "override_service node_ids entry =
     (case entry of
        (sid, JObj service) \<Rightarrow>
          bindE (py_int (dget_or service ''total_layers'' (JInt 0))) (\<lambda>layers.
            if layers < 1 then Inr (sid, JObj service)
            else
              (let n = length node_ids;
                   s1 = dset ''pipeline_parallel_size'' (JInt (int n)) (dset ''entry_node_id'' (JStr (hd node_ids))
                          (dset ''node_ids'' (JArr (map JStr node_ids)) service))
               in bindE (partition_for_service sid s1 (int n) layers) (\<lambda>parts.
                    Inr (sid, JObj (set_in_dict ''telemetry'' ''expected_stage_count'' (JInt (int n))
                       (set_in_dict ''kv_cache'' ''expected_entry_fraction_per_node'' (JFloat (1 / of_nat n))
                          (dset ''layer_partition'' (JArr (map JInt parts)) s1)))))))
      | _ \<Rightarrow> Inr entry)"

definition item_node_id :: "json \<Rightarrow> string result" where
  "item_node_id v = (case v of JObj d \<Rightarrow> Inr (py_str (dget d ''node_id'')) | _ \<Rightarrow> Inl (TypeError ''node has no attribute get''))"

definition override_routing :: "string list \<Rightarrow> pydict \<Rightarrow> pydict result" where
  "override_routing node_ids routing =
     bindE (case dget_or routing ''pipeline_services'' (JObj []) of
              JObj d \<Rightarrow> bindE (mapE (override_service node_ids) d) (\<lambda>d'.
                 Inr (if has_key routing ''pipeline_services'' then dset ''pipeline_services'' (JObj d') routing else routing))
            | _ \<Rightarrow> Inr routing) (\<lambda>r1.
       let r2 = dset ''queue_entry_node_id'' (JStr (hd node_ids)) r1
       in Inr (case dget r2 ''trim_default_profiles_by_node'' of
                 JObj d \<Rightarrow> dset ''trim_default_profiles_by_node''
                    (JObj (map (\<lambda>n. (n, dget d n)) (filter (has_key d) node_ids))) r2
               | _ \<Rightarrow> r2))"

definition apply_pipeline_node_override :: "environ \<Rightarrow> pydict \<Rightarrow> pydict result" where
  "apply_pipeline_node_override env data =
     (let node_ids = override_nodes env
      in if node_ids = [] then Inr data
         else if \<not> distinct node_ids then Inl (ValueError ''DS4_PIPELINE_NODES contains duplicate node ids'')
         else
           bindE (py_iter (dget_or data ''nodes'' (JArr []))) (\<lambda>items.
             let known = map (\<lambda>v. py_str (dget (obj_or_empty v) ''node_id'')) (filter is_obj items);
                 missing = filter (\<lambda>n. n \<notin> set known) node_ids
             in if missing \<noteq> []
                then Inl (ValueError (''DS4_PIPELINE_NODES references unknown nodes: '' @ py_repr (JArr (map JStr missing))))
                else
                  bindE (mapE (\<lambda>v. bindE (item_node_id v) (\<lambda>n. Inr (n, v))) items) (\<lambda>named.
                  bindE (sub_dict data ''routing_policy'') (\<lambda>routing.
                  bindE (override_routing node_ids routing) (\<lambda>routing'.
                  Inr (dset ''topology_id''
                         (JStr (py_str (dget_or data ''topology_id'' (JStr ''static_sparks'')) @ ''_n'' @ show_int (int (length node_ids))))
                         (dset ''routing_policy'' (JObj routing')
                           (dset ''nodes'' (JArr (map snd (filter (\<lambda>(n, _). n \<in> set node_ids) named))) data))))))))"

definition load_topology :: "environ \<Rightarrow> pydict \<Rightarrow> spark_topology result" where
  "load_topology env data0 =
     (if dget data0 ''format'' \<noteq> JStr ''ds4-spark-topology-v1''
      then Inl (ValueError (''unsupported topology format: '' @ py_repr (dget data0 ''format'')))
      else
        bindE (apply_pipeline_node_override env data0) (\<lambda>data.
        bindE (py_iter (dget_or data ''nodes'' (JArr []))) (\<lambda>items.
        bindE (mapE (\<lambda>v. case v of JObj d \<Rightarrow> node_from_json d | _ \<Rightarrow> Inl (TypeError ''node is not an object'')) items) (\<lambda>nodes.
        bindE (py_dict (por (dget data ''routing_policy'') (JObj []))) (\<lambda>policy.
        make_topology (py_str (dget_or data ''topology_id'' (JStr ''unnamed''))) nodes policy)))))"

section \<open>Facts about assignments\<close>

definition least_loaded :: "(string \<times> int) list \<Rightarrow> spark_node \<Rightarrow> spark_node set \<Rightarrow> bool" where
  "least_loaded current n pool \<longleftrightarrow> n \<in> pool \<and>
     (\<forall>m \<in> pool. (of_int (load_of current (sn_node_id n)) / of_int (sn_default_capacity n) :: rat)
        \<le> of_int (load_of current (sn_node_id m)) / of_int (sn_default_capacity m))"

definition node_pool :: "spark_node set \<Rightarrow> bool \<Rightarrow> (string \<times> int) list \<Rightarrow> spark_node set" where
  \<comment> \<open>reserved nodes for an immediate request, production nodes with room for another, all if there are none\<close>
  "node_pool cs immediate current =
     (let preferred = {n \<in> cs. if immediate then sn_immediate_reserved n
                 else ''production'' \<in> set (sn_roles n) \<and> load_of current (sn_node_id n) < sn_default_capacity n}
      in if preferred = {} then cs else preferred)"

lemma hd_sort_key_least:
  fixes k :: "'a \<Rightarrow> rat \<times> string"
  assumes "xs \<noteq> []"
  shows "hd (sort_key k xs) \<in> set xs \<and> (\<forall>x \<in> set xs. fst (k (hd (sort_key k xs))) \<le> fst (k x))"
proof -
  have ne: "sort_key k xs \<noteq> []" using assms by (metis length_0_conv length_sort)
  then obtain y ys where y: "sort_key k xs = y # ys" by (cases "sort_key k xs") simp_all
  have "sorted (map k (sort_key k xs))" by simp
  then have "k y \<le> k x" if "x \<in> set xs" for x
    using that y set_sort [of k xs] by (auto simp flip: set_sort [of k xs])
  then have "fst (k y) \<le> fst (k x)" if "x \<in> set xs" for x
    using that by (fastforce simp: less_eq_prod_def)
  moreover have "y \<in> set xs" using y set_sort [of k xs] by (metis list.set_intros(1))
  ultimately show ?thesis using y by simp
qed

lemma choose_resident_node_least:
  assumes "candidates \<noteq> []"
  shows "least_loaded current (choose_resident_node candidates immediate current) (node_pool (set candidates) immediate current)"
proof -
  define pref where "pref = filter (\<lambda>n. if immediate then sn_immediate_reserved n
      else ''production'' \<in> set (sn_roles n) \<and> load_of current (sn_node_id n) < sn_default_capacity n) candidates"
  define pool where "pool = (if pref \<noteq> [] then pref else candidates)"
  have ne: "pool \<noteq> []" using assms by (simp add: pool_def)
  have "set pref = {n \<in> set candidates. if immediate then sn_immediate_reserved n
      else ''production'' \<in> set (sn_roles n) \<and> load_of current (sn_node_id n) < sn_default_capacity n}"
    by (auto simp: pref_def)
  moreover have "set pref = {} \<longleftrightarrow> pref = []" by simp
  ultimately have s: "set pool = node_pool (set candidates) immediate current"
    by (auto simp: pool_def node_pool_def Let_def)
  have c: "choose_resident_node candidates immediate current =
      hd (sort_key (\<lambda>n. (of_int (load_of current (sn_node_id n)) / of_int (sn_default_capacity n) :: rat, sn_node_id n)) pool)"
    by (simp add: choose_resident_node_def Let_def pool_def pref_def)
  show ?thesis
    using hd_sort_key_least [OF ne, of "\<lambda>n. (of_int (load_of current (sn_node_id n)) / of_int (sn_default_capacity n), sn_node_id n)"]
    unfolding least_loaded_def c s [symmetric] by simp
qed

definition topology_wf :: "spark_topology \<Rightarrow> bool" where
  "topology_wf tp \<longleftrightarrow>
     distinct (map sn_node_id (tp_nodes tp)) \<and>
     (\<forall>sv \<in> set (tp_services tp). service_wf (map sn_node_id (tp_nodes tp)) sv) \<and>
     (\<forall>(pid, members) \<in> set (tp_groups tp). members \<noteq> [] \<and>
        (\<forall>m \<in> set members. \<exists>n \<in> set (tp_nodes tp). sn_node_id n = m \<and> supports_profile n pid)) \<and>
     (\<forall>(pid, n) \<in> set (tp_ingress tp). \<exists>members. map_of (tp_groups tp) pid = Some members \<and> n \<in> set members)"

lemma load_group_Inr:
  assumes "load_group nodes entry = Inr (pid, members)"
  shows "members \<noteq> [] \<and> (\<forall>m \<in> set members. \<exists>n \<in> set nodes. sn_node_id n = m \<and> supports_profile n pid)"
proof -
  obtain raw where e: "entry = (pid, JArr raw)" "raw \<noteq> []" "members = map py_str raw"
    and s: "filter (\<lambda>n. case find_node nodes n of None \<Rightarrow> True | Some x \<Rightarrow> \<not> supports_profile x pid) (map py_str raw) = []"
    using assms by (auto simp: load_group_def Let_def split: prod.splits json.splits if_splits)
  have "\<exists>n \<in> set nodes. sn_node_id n = m \<and> supports_profile n pid" if "m \<in> set members" for m
  proof -
    have "\<not> (case find_node nodes m of None \<Rightarrow> True | Some x \<Rightarrow> \<not> supports_profile x pid)"
      using s that e(3) unfolding filter_empty_conv by blast
    then obtain x where x: "find_node nodes m = Some x" "supports_profile x pid"
      by (auto split: option.splits)
    then show ?thesis unfolding find_node_def by (metis (mono_tags, lifting) find_Some_iff nth_mem)
  qed
  then show ?thesis using e by simp
qed

lemma load_ingress_Inr:
  "load_ingress groups entry = Inr (pid, n) \<Longrightarrow> \<exists>members. map_of groups pid = Some members \<and> n \<in> set members"
  by (auto simp: load_ingress_def Let_def split: prod.splits option.splits if_splits)

lemma make_topology_wf:
  assumes "make_topology tid nodes policy = Inr tp"
  shows "topology_wf tp"
proof -
  obtain services groups ingress where
      sv: "load_pipeline_services policy (map sn_node_id nodes) = Inr services"
    and gr: "load_profile_node_groups policy nodes = Inr groups"
    and ing: "load_profile_group_ingress policy groups = Inr ingress"
    and tp: "tp = \<lparr>tp_topology_id = tid, tp_nodes = nodes, tp_routing_policy = policy, tp_services = services,
             tp_groups = groups, tp_ingress = ingress\<rparr>"
    and d: "distinct (map sn_node_id nodes)"
    using assms by (auto simp: make_topology_def bindE_eq_Inr split: if_splits)
  have "\<exists>e. load_group nodes e = Inr g" if "g \<in> set groups" for g
    using gr mapE_in [OF _ that] by (force simp: load_profile_node_groups_def split: json.splits)
  then have g: "\<forall>(pid, members) \<in> set groups. members \<noteq> [] \<and>
      (\<forall>m \<in> set members. \<exists>n \<in> set nodes. sn_node_id n = m \<and> supports_profile n pid)"
    using load_group_Inr by fastforce
  have "\<exists>e. load_ingress groups e = Inr i" if "i \<in> set ingress" for i
    using ing mapE_in [OF _ that] by (force simp: load_profile_group_ingress_def split: json.splits)
  then have "\<forall>(pid, n) \<in> set ingress. \<exists>members. map_of groups pid = Some members \<and> n \<in> set members"
    using load_ingress_Inr by fastforce
  then show ?thesis using load_pipeline_services_wf [OF sv] g d by (simp add: topology_wf_def tp)
qed

lemma load_topology_wf: "load_topology env data = Inr tp \<Longrightarrow> topology_wf tp"
  by (auto simp only: load_topology_def bindE_eq_Inr split: if_splits intro: make_topology_wf)

lemma experimental_node_in:
  assumes "experimental_node tp = Some n"
  shows "n \<in> set (tp_nodes tp)"
proof -
  have named: "m \<in> set (tp_nodes tp)" if "find_node (tp_nodes tp) i = Some m" for i m
    using that unfolding find_node_def by (metis (mono_tags, lifting) find_Some_iff nth_mem)
  have lane: "m \<in> set (tp_nodes tp)" if "sort_key sn_node_id (filter sn_dynamic_load (tp_nodes tp)) = m # ms" for m ms
  proof -
    have "m \<in> set (sort_key sn_node_id (filter sn_dynamic_load (tp_nodes tp)))" unfolding that by simp
    then show ?thesis by simp
  qed
  let ?v = "dget (tp_routing_policy tp) ''experimental_node_id''"
  show ?thesis
  proof (cases "if truthy ?v then find_node (tp_nodes tp) (py_str ?v) else None")
    case None
    then show ?thesis using assms lane
      by (cases "sort_key sn_node_id (filter sn_dynamic_load (tp_nodes tp))") (simp_all add: experimental_node_def)
  next
    case (Some m)
    then show ?thesis using assms named by (simp add: experimental_node_def split: if_splits)
  qed
qed

section \<open>Properties\<close>

definition assignment_ok :: "spark_topology \<Rightarrow> bool \<Rightarrow> (string \<times> int) list \<Rightarrow> spark_assignment \<Rightarrow> bool" where
  "assignment_ok tp immediate current a \<longleftrightarrow>
     sa_node_ids a \<noteq> [] \<and> set (sa_node_ids a) \<subseteq> sn_node_id ` set (tp_nodes tp) \<and>
     (if sa_reason a = ''pipeline_service''
      then \<exists>sv \<in> set (tp_services tp). sv_profile_id sv = sa_profile_id a \<and> sa_service_id a = Some (sv_service_id sv) \<and>
             sa_node_ids a = sv_node_ids sv \<and> sa_node_id a \<in> set (sa_node_ids a)
      else sa_service_id a = None \<and>
        (if sa_dynamic_load a then sa_node_ids a = [sa_node_id a]
         else if sa_reason a = ''resident_profile_group''
         then map_of (tp_groups tp) (sa_profile_id a) = Some (sa_node_ids a)
         else \<exists>n. sa_node_ids a = [sn_node_id n] \<and> sa_node_id a = sn_node_id n \<and>
              least_loaded current n (node_pool {m \<in> set (tp_nodes tp). supports_profile m (sa_profile_id a)} immediate current)))"


definition sample_node :: "string \<Rightarrow> string list \<Rightarrow> spark_node" where
  "sample_node nid profiles = \<lparr>sn_node_id = nid, sn_roles = [''production''], sn_resident_profiles = profiles,
     sn_default_capacity = 2, sn_immediate_reserved = False, sn_dynamic_load = False\<rparr>"

definition sample_topology :: spark_topology where
  "sample_topology = \<lparr>tp_topology_id = ''t'', tp_nodes = [sample_node ''s0'' [''p''], sample_node ''s1'' [''p'', ''q'']],
     tp_routing_policy = [], tp_services = [], tp_groups = [], tp_ingress = []\<rparr>"

lemma sample_topology_made:
  "make_topology ''t'' [sample_node ''s0'' [''p''], sample_node ''s1'' [''p'', ''q'']] [] = Inr sample_topology"
  by code_simp


lemma add_node_capacity_other:
  "p \<noteq> pid \<Longrightarrow> map_of (add_node_capacity grouped c (n, p)) pid = map_of c pid"
  by (simp add: add_node_capacity_def)

lemma fold_node_capacity:
  assumes "pid \<notin> set grouped"
  shows "map_of (foldl (add_node_capacity grouped) c (concat (map (\<lambda>n. map (\<lambda>p. (n, p)) (sn_resident_profiles n)) nodes))) pid =
     (case map_of c pid of Some v \<Rightarrow> Some v
      | None \<Rightarrow> map_option sn_default_capacity (find (\<lambda>n. supports_profile n pid) nodes))"
proof (induction nodes arbitrary: c)
  case Nil
  then show ?case by (simp split: option.split)
next
  case (Cons n nodes)
  have one: "map_of (foldl (add_node_capacity grouped) d (map (\<lambda>p. (n, p)) ps)) pid =
      (case map_of d pid of Some v \<Rightarrow> Some v | None \<Rightarrow> if pid \<in> set ps then Some (sn_default_capacity n) else None)" for d ps
  proof (induction ps arbitrary: d)
    case Nil
    then show ?case by (simp split: option.split)
  next
    case (Cons p ps)
    have "map_of (add_node_capacity grouped d (n, p)) pid =
        (case map_of d pid of Some v \<Rightarrow> Some v | None \<Rightarrow> if p = pid then Some (sn_default_capacity n) else None)"
      using assms by (cases "p = pid") (auto simp: add_node_capacity_def load_of_def split: option.split)
    then show ?case using Cons by (simp split: option.split)
  qed
  show ?case by (simp add: Cons.IH one supports_profile_def split: option.split)
qed

text \<open>
  The capacity estimate of a profile that is neither a service's nor a group's is that of the
  first node that has it resident: the other nodes are skipped although the code adds capacities up.
\<close>

theorem capacity_of_first_node:
  assumes "pid \<notin> sv_profile_id ` set (tp_services tp)" and "pid \<notin> fst ` set (tp_groups tp)"
  shows "map_of (estimate_capacity_by_profile tp) pid =
     map_option sn_default_capacity (find (\<lambda>n. supports_profile n pid) (tp_nodes tp))"
proof -
  let ?c0 = "foldl (\<lambda>c sv. dset (sv_profile_id sv) (sv_max_batch_size sv) c) [] (tp_services tp)"
  have c0: "map_of ?c0 pid = None"
    by (rule foldl_invariant) (use assms(1) in auto)
  define grouped where "grouped = filter (\<lambda>p. map_of ?c0 p = None) (map fst (tp_groups tp))"
  have g: "pid \<notin> set grouped" using assms(2) by (auto simp: grouped_def)
  let ?c1 = "foldl (\<lambda>c (p, members). if p \<in> set grouped
                 then dset p (Min (set (map (\<lambda>n. case find_node (tp_nodes tp) n of Some x \<Rightarrow> sn_default_capacity x | None \<Rightarrow> 0) members))) c
                 else c) ?c0 (tp_groups tp)"
  have c1: "map_of ?c1 pid = None \<and> distinct (map fst ?c1)"
  proof (rule foldl_invariant)
    have "distinct (map fst ?c0)" by (rule foldl_invariant) (auto intro: distinct_dset)
    then show "map_of ?c0 pid = None \<and> distinct (map fst ?c0)" using c0 by blast
  qed (use g in \<open>auto intro: distinct_dset split: prod.split\<close>)
  let ?c2 = "foldl (add_node_capacity grouped) ?c1 (concat (map (\<lambda>n. map (\<lambda>p. (n, p)) (sn_resident_profiles n)) (tp_nodes tp)))"
  have "distinct (map fst ?c2)"
    by (rule foldl_invariant) (use c1 in \<open>auto simp: add_node_capacity_def intro: distinct_dset split: prod.split\<close>)
  moreover have "mset (map fst (sort_key fst ?c2)) = mset (map fst ?c2)" by simp
  ultimately have "distinct (map fst ?c2)" "distinct (map fst (sort_key fst ?c2))"
    using mset_eq_imp_distinct_iff by blast+
  then have "map_of (sort_key fst ?c2) pid = map_of ?c2 pid"
    using map_of_inject_set [of "sort_key fst ?c2" ?c2] by simp
  moreover have "estimate_capacity_by_profile tp = sort_key fst ?c2"
    by (simp add: estimate_capacity_by_profile_def Let_def grouped_def)
  ultimately show ?thesis using fold_node_capacity [OF g] c1 by simp
qed

theorem capacity_of_first_node_witness:
  "map_of (estimate_capacity_by_profile sample_topology) ''p'' = Some 2 \<and>
   list_all (\<lambda>n. supports_profile n ''p'' \<and> sn_default_capacity n = 2) (tp_nodes sample_topology)"
proof -
  have "map_of (estimate_capacity_by_profile sample_topology) ''p'' =
      map_option sn_default_capacity (find (\<lambda>n. supports_profile n ''p'') (tp_nodes sample_topology))"
    by (rule capacity_of_first_node) (simp_all add: sample_topology_def)
  then show ?thesis by (simp add: sample_topology_def sample_node_def supports_profile_def)
qed

end
