(* ===== verification/Queue_Db.thy ===== *)
theory Queue_Db
  imports Py_Json Sql_Table Kv_Memory
begin

text \<open>
  The database of \<^verbatim>\<open>v2/src/ds4_infer/queue.py\<close>: one record per table of \<^verbatim>\<open>_init_db\<close>,
  the whole database as a record of tables, and the small writers every operation of
  \<^verbatim>\<open>InferenceQueue\<close> uses (\<^verbatim>\<open>_event\<close>, \<^verbatim>\<open>_write_notice\<close>,
  \<^verbatim>\<open>_refresh_batch\<close>, \<^verbatim>\<open>_delete_request_kv\<close>,
  \<^verbatim>\<open>_release_unused_compute_lease\<close>), with the facts about them the operations share.

  A column that may be NULL is an option.  A JSON column holds the document itself, since the queue
  only ever stores what \<^verbatim>\<open>json.dumps\<close> wrote and reads it back with \<^verbatim>\<open>json.loads\<close>.
\<close>

section \<open>Rows\<close>

datatype req_state = Queued | Prefilling | Ready | Running | Completed | Failed | Cancelled

fun state_name :: "req_state \<Rightarrow> string" where
  "state_name Queued = ''queued''"
| "state_name Prefilling = ''prefilling''"
| "state_name Ready = ''ready''"
| "state_name Running = ''running''"
| "state_name Completed = ''completed''"
| "state_name Failed = ''failed''"
| "state_name Cancelled = ''cancelled''"

definition terminal :: "req_state \<Rightarrow> bool" where
  "terminal s \<longleftrightarrow> s \<in> {Completed, Failed, Cancelled}"

lemma terminal_simps [simp]:
  "terminal Completed" "terminal Failed" "terminal Cancelled"
  "\<not> terminal Queued" "\<not> terminal Prefilling" "\<not> terminal Ready" "\<not> terminal Running"
  by (simp_all add: terminal_def)

record request_row =
  rq_request_id :: string
  rq_batch_id :: string
  rq_kind :: string
  rq_service_name :: "string option"
  rq_state :: req_state
  rq_priority :: int
  rq_immediate :: bool
  rq_profile_id :: string
  rq_node_id :: "string option"
  rq_service_id :: "string option"
  rq_node_ids :: "string list option"
  rq_compute_domain :: "string option"
  rq_compute_lease_id :: "string option"
  rq_request_json :: json
  rq_json_hash :: "string option"
  rq_result :: "json option"
  rq_error :: "string option"
  rq_cancel_requested :: bool
  rq_kv_key :: "string option"
  rq_kv_bytes :: int
  rq_kv_shard_count :: int
  rq_kv_shard_bytes :: int
  rq_created_at :: rat
  rq_updated_at :: rat
  rq_ready_at :: "rat option"
  rq_started_at :: "rat option"
  rq_completed_at :: "rat option"
  rq_lease_id :: "string option"
  rq_leased_by :: "string option"
  rq_lease_expires_at :: "rat option"
  rq_heartbeat_at :: "rat option"
  rq_attempt_count :: int

record batch_row =
  bt_batch_id :: string
  bt_state :: string
  bt_request_count :: nat
  bt_counts :: "req_state \<Rightarrow> nat"
  bt_created_at :: rat
  bt_updated_at :: rat

record event_row =
  ev_id :: int
  ev_created_at :: rat
  ev_request_id :: string
  ev_type :: string
  ev_state :: string
  ev_payload :: json

record kv_entry =
  kve_node :: string
  kve_key :: string
  kve_request_id :: string
  kve_bytes :: int
  kve_idle :: bool
  kve_last_used :: rat
  kve_created_at :: rat

record kv_shard_entry =
  kvs_service :: string
  kvs_node :: string
  kvs_key :: string
  kvs_request_id :: string
  kvs_stage_index :: int
  kvs_stage_count :: int
  kvs_layer_start :: "int option"
  kvs_layer_end :: "int option"
  kvs_bytes :: int
  kvs_idle :: bool
  kvs_last_used :: rat
  kvs_created_at :: rat

record compute_lease =
  cl_domain :: string
  cl_id :: string
  cl_service :: "string option"
  cl_leased_by :: string
  cl_expires_at :: rat
  cl_heartbeat_at :: rat
  cl_request_count :: int
  cl_created_at :: rat
  cl_updated_at :: rat

record telemetry_row =
  tm_service :: string
  tm_node :: string
  tm_stage_index :: int
  tm_stage_count :: int
  tm_layer_start :: "int option"
  tm_layer_end :: "int option"
  tm_layer_count :: "int option"
  tm_kv_shard_bytes :: int
  tm_payload :: pydict
  tm_reported_at :: rat

record queue_db =
  batches :: "batch_row list"
  requests :: "request_row list"
  events :: "event_row list"
  last_event_id :: int
  kv_entries :: "kv_entry list"
  kv_shards :: "kv_shard_entry list"
  compute_leases :: "compute_lease list"
  telemetry :: "telemetry_row list"
  kv_memory :: kv_mem
  notices :: "(string \<times> json) list"

definition empty_db :: queue_db where
  "empty_db = \<lparr>batches = [], requests = [], events = [], last_event_id = 0, kv_entries = [], kv_shards = [],
     compute_leases = [], telemetry = [], kv_memory = empty_kv_mem, notices = []\<rparr>"

definition opt_truthy :: "string option \<Rightarrow> bool" where
  "opt_truthy s \<longleftrightarrow> (case s of None \<Rightarrow> False | Some t \<Rightarrow> t \<noteq> '''')"

definition opt_str :: "string option \<Rightarrow> string" where
  \<comment> \<open>\<^verbatim>\<open>str(x or "")\<close>\<close>
  "opt_str s = (case s of None \<Rightarrow> '''' | Some t \<Rightarrow> t)"

lemma opt_truthy_simps [simp]: "opt_truthy None = False" "opt_truthy (Some t) = (t \<noteq> '''')"
  by (simp_all add: opt_truthy_def)

lemma opt_str_simps [simp]: "opt_str None = ''''" "opt_str (Some t) = t"
  by (simp_all add: opt_str_def)

section \<open>Shared writers\<close>

definition db_event :: "rat \<Rightarrow> string \<Rightarrow> string \<Rightarrow> string \<Rightarrow> pydict \<Rightarrow> queue_db \<Rightarrow> queue_db" where
  "db_event now rid typ st payload db =
     db\<lparr>events := events db @ [\<lparr>ev_id = last_event_id db + 1, ev_created_at = now, ev_request_id = rid,
          ev_type = typ, ev_state = st, ev_payload = JObj payload\<rparr>],
        last_event_id := last_event_id db + 1\<rparr>"

definition write_notice :: "string \<Rightarrow> string \<Rightarrow> json \<Rightarrow> queue_db \<Rightarrow> queue_db" where
  "write_notice rid st res db =
     db\<lparr>notices := dset rid (JObj [(''format'', JStr ''ds4-inference-queue-v1''), (''request_id'', JStr rid),
          (''state'', JStr st), (''result'', res)]) (notices db)\<rparr>"

definition state_count :: "request_row list \<Rightarrow> string \<Rightarrow> req_state \<Rightarrow> nat" where
  "state_count rows bid st = sql_count (\<lambda>r. rq_batch_id r = bid \<and> rq_state r = st) rows"

definition batch_total :: "request_row list \<Rightarrow> string \<Rightarrow> nat" where
  "batch_total rows bid = sql_count (\<lambda>r. rq_batch_id r = bid) rows"

definition batch_state_of :: "nat \<Rightarrow> (req_state \<Rightarrow> nat) \<Rightarrow> string" where
  "batch_state_of tot c =
     (let fin = c Completed + c Failed + c Cancelled
      in if tot \<noteq> 0 \<and> c Completed = tot then ''completed''
         else if tot \<noteq> 0 \<and> c Cancelled = tot then ''cancelled''
         else if tot \<noteq> 0 \<and> fin = tot \<and> c Failed \<noteq> 0 then ''completed_with_failures''
         else if tot \<noteq> 0 \<and> fin = tot then ''completed_with_cancelled''
         else if c Running \<noteq> 0 then ''running''
         else if c Ready \<noteq> 0 then ''ready''
         else if c Prefilling \<noteq> 0 then ''prefilling''
         else ''queued'')"

definition refresh_row :: "rat \<Rightarrow> request_row list \<Rightarrow> batch_row \<Rightarrow> batch_row" where
  "refresh_row now rows b =
     b\<lparr>bt_state := batch_state_of (batch_total rows (bt_batch_id b)) (state_count rows (bt_batch_id b)),
       bt_updated_at := now,
       bt_request_count := batch_total rows (bt_batch_id b),
       bt_counts := state_count rows (bt_batch_id b)\<rparr>"

definition refresh_batch :: "rat \<Rightarrow> string \<Rightarrow> queue_db \<Rightarrow> queue_db" where
  "refresh_batch now bid db =
     db\<lparr>batches := sql_update (\<lambda>b. bt_batch_id b = bid) (refresh_row now (requests db)) (batches db)\<rparr>"

definition refresh_batches :: "rat \<Rightarrow> string list \<Rightarrow> queue_db \<Rightarrow> queue_db" where
  \<comment> \<open>\<^verbatim>\<open>for bid in ..: self._refresh_batch(conn, bid)\<close>\<close>
  "refresh_batches now bids db = foldl (\<lambda>d b. refresh_batch now b d) db bids"

definition delete_request_kv :: "string \<Rightarrow> queue_db \<Rightarrow> queue_db" where
  "delete_request_kv rid db =
     db\<lparr>kv_entries := sql_delete (\<lambda>e. kve_request_id e = rid) (kv_entries db),
        kv_shards := sql_delete (\<lambda>e. kvs_request_id e = rid) (kv_shards db)\<rparr>"

definition release_unused_compute_lease :: "string option \<Rightarrow> queue_db \<Rightarrow> queue_db" where
  "release_unused_compute_lease lease db =
     (if \<not> opt_truthy lease then db
      else if sql_count (\<lambda>r. rq_state r = Running \<and> rq_compute_lease_id r = lease) (requests db) = 0
      then db\<lparr>compute_leases := sql_delete (\<lambda>c. Some (cl_id c) = lease) (compute_leases db)\<rparr>
      else db)"

definition update_requests :: "(request_row \<Rightarrow> bool) \<Rightarrow> (request_row \<Rightarrow> request_row) \<Rightarrow> queue_db \<Rightarrow> queue_db" where
  "update_requests p f db = db\<lparr>requests := sql_update p f (requests db)\<rparr>"

definition clear_lease :: "request_row \<Rightarrow> request_row" where
  \<comment> \<open>\<^verbatim>\<open>lease_id=null, leased_by=null, lease_expires_at=null, heartbeat_at=null\<close>\<close>
  "clear_lease r = r\<lparr>rq_lease_id := None, rq_leased_by := None, rq_lease_expires_at := None, rq_heartbeat_at := None\<rparr>"

definition keep_binding :: "request_row \<Rightarrow> request_row" where
  \<comment> \<open>the node binding survives a requeue only under a service\<close>
  "keep_binding r =
     (if rq_service_id r = None
      then r\<lparr>rq_node_id := None, rq_node_ids := None, rq_compute_domain := None\<rparr> else r)"

lemma clear_lease_simps [simp]:
  "rq_request_id (clear_lease r) = rq_request_id r" "rq_batch_id (clear_lease r) = rq_batch_id r"
  "rq_state (clear_lease r) = rq_state r" "rq_lease_id (clear_lease r) = None"
  "rq_leased_by (clear_lease r) = None" "rq_lease_expires_at (clear_lease r) = None"
  "rq_heartbeat_at (clear_lease r) = None" "rq_attempt_count (clear_lease r) = rq_attempt_count r"
  "rq_compute_lease_id (clear_lease r) = rq_compute_lease_id r" "rq_service_id (clear_lease r) = rq_service_id r"
  "rq_result (clear_lease r) = rq_result r" "rq_error (clear_lease r) = rq_error r"
  "rq_completed_at (clear_lease r) = rq_completed_at r" "rq_kv_key (clear_lease r) = rq_kv_key r"
  "rq_kind (clear_lease r) = rq_kind r" "rq_node_id (clear_lease r) = rq_node_id r"
  "rq_compute_domain (clear_lease r) = rq_compute_domain r"
  by (simp_all add: clear_lease_def)

lemma keep_binding_simps [simp]:
  "rq_request_id (keep_binding r) = rq_request_id r" "rq_batch_id (keep_binding r) = rq_batch_id r"
  "rq_state (keep_binding r) = rq_state r" "rq_lease_id (keep_binding r) = rq_lease_id r"
  "rq_leased_by (keep_binding r) = rq_leased_by r" "rq_lease_expires_at (keep_binding r) = rq_lease_expires_at r"
  "rq_attempt_count (keep_binding r) = rq_attempt_count r"
  "rq_compute_lease_id (keep_binding r) = rq_compute_lease_id r" "rq_service_id (keep_binding r) = rq_service_id r"
  "rq_result (keep_binding r) = rq_result r" "rq_error (keep_binding r) = rq_error r"
  "rq_completed_at (keep_binding r) = rq_completed_at r" "rq_kv_key (keep_binding r) = rq_kv_key r"
  "rq_kind (keep_binding r) = rq_kind r"
  by (simp_all add: keep_binding_def)

section \<open>Frames of the writers\<close>

lemma db_event_frame [simp]:
  "batches (db_event now rid t s p db) = batches db" "requests (db_event now rid t s p db) = requests db"
  "kv_entries (db_event now rid t s p db) = kv_entries db" "kv_shards (db_event now rid t s p db) = kv_shards db"
  "compute_leases (db_event now rid t s p db) = compute_leases db" "telemetry (db_event now rid t s p db) = telemetry db"
  "kv_memory (db_event now rid t s p db) = kv_memory db" "notices (db_event now rid t s p db) = notices db"
  "last_event_id (db_event now rid t s p db) = last_event_id db + 1"
  by (simp_all add: db_event_def)

lemma write_notice_frame [simp]:
  "batches (write_notice rid s v db) = batches db" "requests (write_notice rid s v db) = requests db"
  "kv_entries (write_notice rid s v db) = kv_entries db" "kv_shards (write_notice rid s v db) = kv_shards db"
  "compute_leases (write_notice rid s v db) = compute_leases db" "telemetry (write_notice rid s v db) = telemetry db"
  "kv_memory (write_notice rid s v db) = kv_memory db" "events (write_notice rid s v db) = events db"
  "last_event_id (write_notice rid s v db) = last_event_id db"
  by (simp_all add: write_notice_def)

lemma refresh_batch_frame [simp]:
  "requests (refresh_batch now bid db) = requests db" "events (refresh_batch now bid db) = events db"
  "kv_entries (refresh_batch now bid db) = kv_entries db" "kv_shards (refresh_batch now bid db) = kv_shards db"
  "compute_leases (refresh_batch now bid db) = compute_leases db" "telemetry (refresh_batch now bid db) = telemetry db"
  "kv_memory (refresh_batch now bid db) = kv_memory db" "notices (refresh_batch now bid db) = notices db"
  "last_event_id (refresh_batch now bid db) = last_event_id db"
  by (simp_all add: refresh_batch_def)

lemma refresh_batches_frame [simp]:
  "requests (refresh_batches now bids db) = requests db" "events (refresh_batches now bids db) = events db"
  "kv_entries (refresh_batches now bids db) = kv_entries db" "kv_shards (refresh_batches now bids db) = kv_shards db"
  "compute_leases (refresh_batches now bids db) = compute_leases db" "telemetry (refresh_batches now bids db) = telemetry db"
  "kv_memory (refresh_batches now bids db) = kv_memory db" "notices (refresh_batches now bids db) = notices db"
  "last_event_id (refresh_batches now bids db) = last_event_id db"
  unfolding refresh_batches_def by (induction bids arbitrary: db) simp_all

lemma delete_request_kv_frame [simp]:
  "batches (delete_request_kv rid db) = batches db" "requests (delete_request_kv rid db) = requests db"
  "events (delete_request_kv rid db) = events db" "compute_leases (delete_request_kv rid db) = compute_leases db"
  "telemetry (delete_request_kv rid db) = telemetry db" "kv_memory (delete_request_kv rid db) = kv_memory db"
  "notices (delete_request_kv rid db) = notices db" "last_event_id (delete_request_kv rid db) = last_event_id db"
  by (simp_all add: delete_request_kv_def)

lemma release_frame [simp]:
  "batches (release_unused_compute_lease l db) = batches db" "requests (release_unused_compute_lease l db) = requests db"
  "events (release_unused_compute_lease l db) = events db" "kv_entries (release_unused_compute_lease l db) = kv_entries db"
  "kv_shards (release_unused_compute_lease l db) = kv_shards db" "telemetry (release_unused_compute_lease l db) = telemetry db"
  "kv_memory (release_unused_compute_lease l db) = kv_memory db" "notices (release_unused_compute_lease l db) = notices db"
  "last_event_id (release_unused_compute_lease l db) = last_event_id db"
  by (simp_all add: release_unused_compute_lease_def)

lemma update_requests_frame [simp]:
  "batches (update_requests p f db) = batches db" "requests (update_requests p f db) = sql_update p f (requests db)"
  "events (update_requests p f db) = events db" "kv_entries (update_requests p f db) = kv_entries db"
  "kv_shards (update_requests p f db) = kv_shards db" "compute_leases (update_requests p f db) = compute_leases db"
  "telemetry (update_requests p f db) = telemetry db" "kv_memory (update_requests p f db) = kv_memory db"
  "notices (update_requests p f db) = notices db" "last_event_id (update_requests p f db) = last_event_id db"
  by (simp_all add: update_requests_def)

end
