(* ===== verification/Queue_Lease.thy ===== *)
theory Queue_Lease
  imports Queue_Db
begin

text \<open>
  Compute leases of \<^verbatim>\<open>v2/src/ds4_infer/queue.py\<close>: one row per compute domain says which worker
  runs which service there until when.  \<^verbatim>\<open>_acquire_compute_lease\<close> and
  \<^verbatim>\<open>_extend_compute_lease\<close> return an id, None (the row has no domain) or False (denied); these are
  the three constructors of \<open>lease_grant\<close>.
\<close>

datatype lease_grant = NoDomain | Denied | Granted string

fun granted_id :: "lease_grant \<Rightarrow> string option" where
  \<comment> \<open>\<^verbatim>\<open>x if isinstance(x, str) else None\<close>\<close>
  "granted_id (Granted i) = Some i"
| "granted_id _ = None"

definition compute_lease_quantum_s :: "environ \<Rightarrow> rat" where
  "compute_lease_quantum_s env =
     (let raw = (case env ''DS4_COMPUTE_LEASE_QUANTUM_S'' of None \<Rightarrow> ''0'' | Some v \<Rightarrow> if v = '''' then ''0'' else v)
      in case parse_float raw of None \<Rightarrow> 0 | Some q \<Rightarrow> max 0 q)"

definition compute_lease_should_drain :: "environ \<Rightarrow> queue_db \<Rightarrow> compute_lease \<Rightarrow> rat \<Rightarrow> bool" where
  "compute_lease_should_drain env db lease now =
     (let quantum_s = compute_lease_quantum_s env;
          created_at = (if cl_created_at lease \<noteq> 0 then cl_created_at lease else now);
          service_id = opt_str (cl_service lease);
          domain = cl_domain lease
      in if quantum_s \<le> 0 then False
         else if now - created_at < quantum_s then False
         else if service_id = '''' \<or> domain = '''' then False
         else list_ex (\<lambda>r. rq_state r \<in> {Queued, Ready} \<and> rq_compute_domain r = Some domain \<and>
                opt_str (rq_service_id r) \<noteq> service_id) (requests db))"

definition compute_lease_should_prefer :: "environ \<Rightarrow> queue_db \<Rightarrow> compute_lease \<Rightarrow> rat \<Rightarrow> bool" where
  "compute_lease_should_prefer env db lease now = (\<not> compute_lease_should_drain env db lease now)"

definition find_lease :: "queue_db \<Rightarrow> string \<Rightarrow> compute_lease option" where
  "find_lease db domain = find (\<lambda>c. cl_domain c = domain) (compute_leases db)"

definition renew_lease :: "rat \<Rightarrow> rat \<Rightarrow> nat \<Rightarrow> compute_lease \<Rightarrow> compute_lease" where
  "renew_lease now ttl n c =
     c\<lparr>cl_expires_at := now + ttl, cl_heartbeat_at := now, cl_request_count := cl_request_count c + int n, cl_updated_at := now\<rparr>"

definition purge_compute_leases :: "rat \<Rightarrow> queue_db \<Rightarrow> queue_db" where
  "purge_compute_leases now db = db\<lparr>compute_leases := sql_delete (\<lambda>c. cl_expires_at c \<le> now) (compute_leases db)\<rparr>"

definition nonempty_opt :: "string option \<Rightarrow> string option" where
  \<comment> \<open>\<^verbatim>\<open>str(x or "") or None\<close>\<close>
  "nonempty_opt s = (if opt_truthy s then s else None)"

definition acquire_compute_lease ::
  "environ \<Rightarrow> rat \<Rightarrow> string \<Rightarrow> request_row \<Rightarrow> nat \<Rightarrow> string \<Rightarrow> rat \<Rightarrow> queue_db \<Rightarrow> queue_db \<times> lease_grant"
where
  \<comment> \<open>\<open>first\<close> and \<open>n\<close> are the first row of the batch and its length; \<open>uuid\<close> is fresh\<close>
  "acquire_compute_lease env now uuid first n leased_by ttl db =
     (let domain = opt_str (rq_compute_domain first)
      in if domain = '''' then (db, NoDomain)
         else
           (let db1 = purge_compute_leases now db;
                service_id = nonempty_opt (rq_service_id first)
            in case find_lease db1 domain of
                 Some e \<Rightarrow>
                   if nonempty_opt (cl_service e) = service_id \<and> cl_leased_by e = leased_by
                   then if compute_lease_should_drain env db1 e now then (db1, Denied)
                        else (db1\<lparr>compute_leases :=
                                sql_update (\<lambda>c. cl_domain c = domain \<and> cl_id c = cl_id e) (renew_lease now ttl n) (compute_leases db1)\<rparr>,
                              Granted (cl_id e))
                   else (db1, Denied)
               | None \<Rightarrow>
                   (let lid = leased_by @ '':compute:'' @ uuid
                    in (db1\<lparr>compute_leases := compute_leases db1 @
                          [\<lparr>cl_domain = domain, cl_id = lid, cl_service = service_id, cl_leased_by = leased_by,
                            cl_expires_at = now + ttl, cl_heartbeat_at = now, cl_request_count = int n,
                            cl_created_at = now, cl_updated_at = now\<rparr>]\<rparr>,
                        Granted lid))))"

definition extend_compute_lease ::
  "environ \<Rightarrow> rat \<Rightarrow> request_row \<Rightarrow> nat \<Rightarrow> string option \<Rightarrow> string \<Rightarrow> rat \<Rightarrow> queue_db \<Rightarrow> queue_db \<times> lease_grant"
where
  "extend_compute_lease env now first n lease_id leased_by ttl db =
     (let domain = opt_str (rq_compute_domain first)
      in if domain = '''' then (db, NoDomain)
         else if \<not> opt_truthy lease_id then (db, Denied)
         else case find (\<lambda>c. Some (cl_id c) = lease_id \<and> now < cl_expires_at c) (compute_leases db) of
           None \<Rightarrow> (db, Denied)
         | Some c \<Rightarrow>
             if cl_domain c \<noteq> domain then (db, Denied)
             else if cl_leased_by c \<noteq> leased_by then (db, Denied)
             else if opt_str (cl_service c) \<noteq> opt_str (rq_service_id first) then (db, Denied)
             else if compute_lease_should_drain env db c now then (db, Denied)
             else (db\<lparr>compute_leases := sql_update (\<lambda>c. Some (cl_id c) = lease_id) (renew_lease now ttl n) (compute_leases db)\<rparr>,
                   Granted (opt_str lease_id)))"

section \<open>Who holds a domain\<close>

definition leases_ok :: "queue_db \<Rightarrow> bool" where
  "leases_ok db \<longleftrightarrow> sql_keyed cl_domain (compute_leases db)"

definition holds_domain :: "rat \<Rightarrow> string option \<Rightarrow> string \<Rightarrow> string \<Rightarrow> queue_db \<Rightarrow> bool" where
  \<comment> \<open>an unexpired lease gives the domain to this service on this worker\<close>
  "holds_domain now svc worker domain db \<longleftrightarrow>
     list_ex (\<lambda>c. cl_domain c = domain \<and> now < cl_expires_at c \<and> nonempty_opt (cl_service c) = svc \<and> cl_leased_by c = worker)
       (compute_leases db)"

lemma renew_lease_simps [simp]:
  "cl_domain (renew_lease now ttl n c) = cl_domain c" "cl_id (renew_lease now ttl n c) = cl_id c"
  "cl_service (renew_lease now ttl n c) = cl_service c" "cl_leased_by (renew_lease now ttl n c) = cl_leased_by c"
  "cl_expires_at (renew_lease now ttl n c) = now + ttl" "cl_created_at (renew_lease now ttl n c) = cl_created_at c"
  by (simp_all add: renew_lease_def)

lemma purge_frame [simp]:
  "requests (purge_compute_leases now db) = requests db" "batches (purge_compute_leases now db) = batches db"
  "events (purge_compute_leases now db) = events db" "kv_entries (purge_compute_leases now db) = kv_entries db"
  "kv_shards (purge_compute_leases now db) = kv_shards db" "notices (purge_compute_leases now db) = notices db"
  "kv_memory (purge_compute_leases now db) = kv_memory db" "telemetry (purge_compute_leases now db) = telemetry db"
  "last_event_id (purge_compute_leases now db) = last_event_id db"
  by (simp_all add: purge_compute_leases_def)

lemma acquire_frame:
  assumes "acquire_compute_lease env now uuid first n leased_by ttl db = (db', g)"
  shows "db' = db\<lparr>compute_leases := compute_leases db'\<rparr>"
  using assms
  by (auto simp: acquire_compute_lease_def purge_compute_leases_def Let_def split: if_splits option.splits)

lemma extend_frame:
  assumes "extend_compute_lease env now first n lid leased_by ttl db = (db', g)"
  shows "db' = db\<lparr>compute_leases := compute_leases db'\<rparr>"
  using assms
  by (auto simp: extend_compute_lease_def Let_def split: if_splits option.splits)

lemma leases_ok_purge: "leases_ok db \<Longrightarrow> leases_ok (purge_compute_leases now db)"
  by (simp add: leases_ok_def purge_compute_leases_def sql_keyed_delete)

lemma find_lease_None: "find_lease db d = None \<longleftrightarrow> (\<forall>c \<in> set (compute_leases db). cl_domain c \<noteq> d)"
  by (auto simp: find_lease_def find_None_iff)

lemma acquire_leases_ok:
  assumes "leases_ok db" and "acquire_compute_lease env now uuid first n leased_by ttl db = (db', g)"
  shows "leases_ok db'"
proof -
  have p: "leases_ok (purge_compute_leases now db)" using assms(1) by (rule leases_ok_purge)
  show ?thesis using assms p
    by (auto simp: acquire_compute_lease_def Let_def leases_ok_def sql_keyed_update sql_keyed_append1 find_lease_None
        split: if_splits option.splits)
qed

lemma extend_leases_ok:
  assumes "leases_ok db" and "extend_compute_lease env now first n lid leased_by ttl db = (db', g)"
  shows "leases_ok db'"
  using assms
  by (auto simp: extend_compute_lease_def Let_def leases_ok_def sql_keyed_update split: if_splits option.splits)

lemma release_leases_ok: "leases_ok db \<Longrightarrow> leases_ok (release_unused_compute_lease l db)"
  by (simp add: leases_ok_def release_unused_compute_lease_def sql_keyed_delete)

text \<open>
  A grant makes the caller the holder; and a grant is only given where nobody else held the domain
  with an unexpired lease.
\<close>

lemma acquire_grant_holds:
  assumes "acquire_compute_lease env now uuid first n leased_by ttl db = (db', Granted lid)" and "0 < ttl"
  shows "holds_domain now (nonempty_opt (rq_service_id first)) leased_by (opt_str (rq_compute_domain first)) db'"
proof -
  let ?d = "opt_str (rq_compute_domain first)"
  have d: "?d \<noteq> ''''" using assms(1) by (auto simp: acquire_compute_lease_def Let_def split: if_splits)
  show ?thesis
  proof (cases "find_lease (purge_compute_leases now db) ?d")
    case None
    then show ?thesis using assms d
      by (auto simp: acquire_compute_lease_def Let_def holds_domain_def nonempty_opt_def)
  next
    case (Some e)
    then have e: "e \<in> set (compute_leases (purge_compute_leases now db))" "cl_domain e = ?d"
      using find_Some_in [of "\<lambda>c. cl_domain c = ?d"] by (auto simp: find_lease_def)
    let ?t = "sql_update (\<lambda>c. cl_domain c = ?d \<and> cl_id c = cl_id e) (renew_lease now ttl n)
       (compute_leases (purge_compute_leases now db))"
    have "renew_lease now ttl n e \<in> set ?t" using e by (force simp: in_sql_update)
    moreover have "compute_leases db' = ?t" "nonempty_opt (cl_service e) = nonempty_opt (rq_service_id first)"
        "cl_leased_by e = leased_by"
      using assms d Some by (auto simp: acquire_compute_lease_def Let_def split: if_splits)
    ultimately show ?thesis using e assms(2)
      by (auto simp: holds_domain_def list_ex_iff intro!: bexI [of _ "renew_lease now ttl n e"])
  qed
qed

lemma acquire_grant_exclusive:
  assumes "leases_ok db" and "acquire_compute_lease env now uuid first n leased_by ttl db = (db', Granted lid)"
    and c: "c \<in> set (compute_leases db)" "cl_domain c = opt_str (rq_compute_domain first)" "now < cl_expires_at c"
  shows "nonempty_opt (cl_service c) = nonempty_opt (rq_service_id first) \<and> cl_leased_by c = leased_by"
proof -
  let ?p = "purge_compute_leases now db"
  have "c \<in> set (compute_leases ?p)" using c by (simp add: purge_compute_leases_def)
  moreover have "sql_keyed cl_domain (compute_leases ?p)"
    using leases_ok_purge [OF assms(1)] by (simp add: leases_ok_def)
  ultimately have f: "find_lease ?p (opt_str (rq_compute_domain first)) = Some c"
    using find_keyed [of cl_domain _ c] c(2) by (simp add: find_lease_def)
  then show ?thesis using assms(2)
    by (auto simp: acquire_compute_lease_def Let_def split: if_splits)
qed

end
