(* ===== verification/Queue_Kv.thy ===== *)
theory Queue_Kv
  imports Queue_Db
begin

text \<open>
  Reservation of node-local KV memory in \<^verbatim>\<open>v2/src/ds4_infer/queue.py\<close>:
  \<^verbatim>\<open>_kv_victims_to_fit\<close> picks idle entries to evict, oldest first, until the new entry fits under
  the node's capacity; \<^verbatim>\<open>_reserve_legacy_kv\<close> reserves on one node and
  \<^verbatim>\<open>_reserve_pipeline_kv\<close> one shard per node of a pipeline, all or nothing.
  The layout of a pipeline service (\<^verbatim>\<open>cache_shards\<close>) is an argument here.
\<close>

fun pick_victims :: "int \<Rightarrow> int \<Rightarrow> int \<Rightarrow> (string \<times> int) list \<Rightarrow> string list \<times> int" where
  \<comment> \<open>the loop: what is used, what is needed, the capacity, the idle entries; keys to evict and what stays used\<close>
  "pick_victims used need capacity [] = ([], used)"
| "pick_victims used need capacity ((k, b) # vs) =
     (if used + need \<le> capacity then ([], used)
      else (let (out, u) = pick_victims (used - b) need capacity vs in (k # out, u)))"

definition victims_to_fit :: "int \<Rightarrow> (string \<times> int) list \<Rightarrow> int \<Rightarrow> int \<Rightarrow> string list option" where
  "victims_to_fit used idle need capacity =
     (if capacity \<le> 0 then Some []
      else (let (out, u) = pick_victims used need capacity idle in if u + need > capacity then None else Some out))"

definition node_victims :: "queue_db \<Rightarrow> string \<Rightarrow> int \<Rightarrow> int \<Rightarrow> string list option" where
  "node_victims db node need capacity =
     victims_to_fit (sql_sum kve_bytes (\<lambda>e. kve_node e = node) (kv_entries db))
       (map (\<lambda>e. (kve_key e, kve_bytes e))
          (sql_select (\<lambda>e. kve_node e = node \<and> kve_idle e) (\<lambda>e. (kve_last_used e, kve_created_at e)) (kv_entries db)))
       need capacity"

definition shard_victims :: "queue_db \<Rightarrow> string \<Rightarrow> string \<Rightarrow> int \<Rightarrow> int \<Rightarrow> string list option" where
  "shard_victims db svc node need capacity =
     victims_to_fit (sql_sum kvs_bytes (\<lambda>e. kvs_service e = svc \<and> kvs_node e = node) (kv_shards db))
       (map (\<lambda>e. (kvs_key e, kvs_bytes e))
          (sql_select (\<lambda>e. kvs_service e = svc \<and> kvs_node e = node \<and> kvs_idle e)
             (\<lambda>e. (kvs_last_used e, kvs_created_at e)) (kv_shards db)))
       need capacity"

definition kve_id :: "kv_entry \<Rightarrow> string \<times> string" where
  "kve_id e = (kve_node e, kve_key e)"

definition kvs_id :: "kv_shard_entry \<Rightarrow> string \<times> string \<times> string" where
  "kvs_id e = (kvs_service e, kvs_node e, kvs_key e)"

definition reserve_legacy_kv ::
  "rat \<Rightarrow> request_row \<Rightarrow> string option \<Rightarrow> string \<Rightarrow> int \<Rightarrow> int \<Rightarrow> queue_db \<Rightarrow> queue_db \<times> bool"
where
  "reserve_legacy_kv now row node_id key need capacity db =
     (case node_id of
        None \<Rightarrow> (db, False)
      | Some node \<Rightarrow>
          (case node_victims db node need capacity of
             None \<Rightarrow> (db, False)
           | Some victims \<Rightarrow>
               (let t = foldl (\<lambda>t v. sql_delete (\<lambda>e. kve_node e = node \<and> kve_key e = v) t) (kv_entries db) victims
                in (db\<lparr>kv_entries := sql_replace kve_id
                      \<lparr>kve_node = node, kve_key = key, kve_request_id = rq_request_id row, kve_bytes = need, kve_idle = False,
                       kve_last_used = now, kve_created_at = now\<rparr> t\<rparr>, True))))"

record shard_spec =
  sp_node :: string
  sp_stage_index :: int
  sp_stage_count :: int
  sp_layer_start :: "int option"
  sp_layer_end :: "int option"
  sp_bytes :: int

type_synonym shard_layout = "string \<Rightarrow> string \<Rightarrow> int \<Rightarrow> shard_spec list"

definition default_shards :: "request_row \<Rightarrow> string list \<Rightarrow> int \<Rightarrow> shard_spec list" where
  "default_shards row node_ids need =
     (let shard_bytes = (if rq_kv_shard_bytes row \<noteq> 0 then rq_kv_shard_bytes row
                         else ceil_div need (max 1 (int (length node_ids))))
      in map (\<lambda>(i, node). \<lparr>sp_node = node, sp_stage_index = int i, sp_stage_count = int (length node_ids),
            sp_layer_start = None, sp_layer_end = None, sp_bytes = shard_bytes\<rparr>) (List.enumerate 0 node_ids))"

definition shard_need :: "shard_spec \<Rightarrow> int" where
  "shard_need s = max 0 (sp_bytes s)"

definition shard_evictions :: "queue_db \<Rightarrow> string \<Rightarrow> int \<Rightarrow> shard_spec list \<Rightarrow> (string \<times> string list) list option" where
  \<comment> \<open>per shard its node and the keys to evict there; None as soon as one shard cannot fit\<close>
  "shard_evictions db svc capacity shards =
     those (map (\<lambda>s. map_option (Pair (sp_node s)) (shard_victims db svc (sp_node s) (shard_need s) capacity)) shards)"

definition shard_entry :: "rat \<Rightarrow> string \<Rightarrow> string \<Rightarrow> string \<Rightarrow> nat \<Rightarrow> shard_spec \<Rightarrow> kv_shard_entry" where
  "shard_entry now svc key rid n s =
     \<lparr>kvs_service = svc, kvs_node = sp_node s, kvs_key = key, kvs_request_id = rid,
      kvs_stage_index = sp_stage_index s,
      kvs_stage_count = (if sp_stage_count s \<noteq> 0 then sp_stage_count s else max 1 (int n)),
      kvs_layer_start = sp_layer_start s, kvs_layer_end = sp_layer_end s, kvs_bytes = shard_need s,
      kvs_idle = False, kvs_last_used = now, kvs_created_at = now\<rparr>"

definition reserve_pipeline_kv ::
  "rat \<Rightarrow> request_row \<Rightarrow> string \<Rightarrow> string list \<Rightarrow> string \<Rightarrow> int \<Rightarrow> int \<Rightarrow> shard_layout option \<Rightarrow> queue_db \<Rightarrow> queue_db \<times> bool"
where
  "reserve_pipeline_kv now row svc node_ids key need capacity layout db =
     (let shards = (case layout of Some f \<Rightarrow> f (rq_request_id row) key need | None \<Rightarrow> default_shards row node_ids need)
      in if shards = [] then (db, True)
         else case shard_evictions db svc capacity shards of
           None \<Rightarrow> (db, False)
         | Some evictions \<Rightarrow>
             (let t1 = foldl (\<lambda>t (node, vs). foldl (\<lambda>t v. sql_delete (\<lambda>e. kvs_service e = svc \<and> kvs_node e = node \<and> kvs_key e = v) t) t vs)
                         (kv_shards db) evictions;
                  t2 = foldl (\<lambda>t s. sql_replace kvs_id (shard_entry now svc key (rq_request_id row) (length shards) s) t) t1 shards;
                  db1 = db\<lparr>kv_shards := t2\<rparr>
              in (update_requests (\<lambda>r. rq_request_id r = rq_request_id row)
                    (\<lambda>r. r\<lparr>rq_kv_shard_count := max 1 (int (length shards)), rq_kv_shard_bytes := Max (set (map shard_need shards))\<rparr>) db1,
                  True)))"

definition row_node_ids :: "request_row \<Rightarrow> string option \<Rightarrow> string list" where
  "row_node_ids row fallback =
     (case rq_node_ids row of
        Some ids \<Rightarrow> (let vs = filter (\<lambda>s. s \<noteq> '''') ids
                     in if vs \<noteq> [] then vs else if opt_truthy fallback then [opt_str fallback] else [])
      | None \<Rightarrow> if opt_truthy fallback then [opt_str fallback] else [])"

definition reserve_kv ::
  "rat \<Rightarrow> request_row \<Rightarrow> string option \<Rightarrow> int \<Rightarrow> shard_layout option \<Rightarrow> queue_db \<Rightarrow> queue_db \<times> bool"
where
  "reserve_kv now row node_id capacity layout db =
     (if \<not> opt_truthy (rq_kv_key row) \<or> rq_kv_bytes row \<le> 0 then (db, True)
      else
        (let svc = opt_str (rq_service_id row); node_ids = row_node_ids row node_id; key = opt_str (rq_kv_key row)
         in if svc \<noteq> '''' \<and> 1 < length node_ids
            then reserve_pipeline_kv now row svc node_ids key (rq_kv_bytes row) capacity layout db
            else reserve_legacy_kv now row node_id key (rq_kv_bytes row) capacity db))"

section \<open>The eviction loop\<close>

lemma pick_victims_prefix:
  "pick_victims used need capacity vs = (out, u) \<Longrightarrow>
     \<exists>n. out = map fst (take n vs) \<and> n \<le> length vs \<and> u = used - sum_list (map snd (take n vs)) \<and>
       (\<forall>i < n. capacity < used - sum_list (map snd (take i vs)) + need) \<and>
       (n < length vs \<longrightarrow> u + need \<le> capacity)"
proof (induction used need capacity vs arbitrary: out u rule: pick_victims.induct)
  case (1 used need capacity)
  then show ?case by simp
next
  case (2 used need capacity k b vs)
  show ?case
  proof (cases "used + need \<le> capacity")
    case True
    then show ?thesis using "2.prems" by (intro exI [of _ 0]) auto
  next
    case False
    obtain o' u' where r: "pick_victims (used - b) need capacity vs = (o', u')" by fastforce
    from "2.IH" [OF False r] obtain n where
      n: "o' = map fst (take n vs)" "n \<le> length vs" "u' = used - b - sum_list (map snd (take n vs))"
        "\<forall>i < n. capacity < used - b - sum_list (map snd (take i vs)) + need"
        "n < length vs \<longrightarrow> u' + need \<le> capacity"
      by blast
    have "\<forall>i < Suc n. capacity < used - sum_list (map snd (take i ((k, b) # vs))) + need"
    proof (intro allI impI)
      fix i assume "i < Suc n"
      then show "capacity < used - sum_list (map snd (take i ((k, b) # vs))) + need"
        using n(4) False by (cases i) (auto simp: algebra_simps)
    qed
    then show ?thesis using "2.prems" False r n
      by (intro exI [of _ "Suc n"]) auto
  qed
qed

text \<open>
  The victims are the shortest run of idle entries, oldest first, that makes room: dropping the last
  one would leave the node over its capacity.
\<close>

lemma victims_to_fit_Some:
  assumes "victims_to_fit used idle need capacity = Some out" and "0 < capacity"
  shows "\<exists>n \<le> length idle. out = map fst (take n idle) \<and>
    used - sum_list (map snd (take n idle)) + need \<le> capacity \<and>
    (\<forall>i < n. capacity < used - sum_list (map snd (take i idle)) + need)"
proof -
  obtain o' u where p: "pick_victims used need capacity idle = (o', u)" by fastforce
  then have "out = o'" "u + need \<le> capacity"
    using assms by (auto simp: victims_to_fit_def split: if_splits)
  with pick_victims_prefix [OF p] show ?thesis by auto
qed

lemma victims_to_fit_None:
  assumes "victims_to_fit used idle need capacity = None"
  shows "0 < capacity \<and> capacity < used - sum_list (map snd idle) + need"
proof -
  obtain o' u where p: "pick_victims used need capacity idle = (o', u)" by fastforce
  have "0 < capacity" "capacity < u + need"
    using assms p by (auto simp: victims_to_fit_def split: if_splits)
  with pick_victims_prefix [OF p] show ?thesis
    by (metis le_neq_implies_less not_le take_all_iff)
qed

section \<open>Capacity of a place\<close>

text \<open>
  Both KV tables are tables of entries with a place, a key under the place, a size and an idle flag.
  What the reservation relies on is stated once for such a table.
\<close>

locale lru_table =
  fixes place :: "'r \<Rightarrow> 'p"
    and key :: "'r \<Rightarrow> string"
    and bytes :: "'r \<Rightarrow> int"
    and idle :: "'r \<Rightarrow> bool"
    and stamp :: "'r \<Rightarrow> rat \<times> rat"
    and ident :: "'r \<Rightarrow> 'i"
  assumes ident_eq: "ident x = ident y \<longleftrightarrow> place x = place y \<and> key x = key y"
begin

lemma evict_fits:
  assumes nn: "\<And>e. e \<in> set t \<Longrightarrow> 0 \<le> bytes e"
    and v: "victims_to_fit (sql_sum bytes (\<lambda>e. place e = p) t)
       (map (\<lambda>e. (key e, bytes e)) (sql_select (\<lambda>e. place e = p \<and> idle e) stamp t)) need cap = Some vs"
    and cap: "0 < cap"
  shows "sql_sum bytes (\<lambda>e. place e = p) (sql_delete (\<lambda>e. place e = p \<and> key e \<in> set vs) t) + need \<le> cap"
proof -
  let ?sel = "sql_select (\<lambda>e. place e = p \<and> idle e) stamp t"
  from victims_to_fit_Some [OF v cap] obtain n where
    vs: "vs = map key (take n ?sel)" and
    fit: "sql_sum bytes (\<lambda>e. place e = p) t - sum_list (map bytes (take n ?sel)) + need \<le> cap"
    by (auto simp: take_map comp_def)
  have "sum_list (map bytes (take n ?sel)) \<le> sql_sum bytes (\<lambda>e. place e = p \<and> (place e = p \<and> key e \<in> set vs)) t"
    using nn by (intro sum_take_select_le) (auto simp: vs dest: in_set_takeD)
  then show ?thesis using fit by (simp add: sql_sum_delete)
qed

lemma evict_only_idle:
  assumes k: "sql_keyed ident t"
    and v: "victims_to_fit used (map (\<lambda>e. (key e, bytes e)) (sql_select (\<lambda>e. place e = p \<and> idle e) stamp t)) need cap = Some vs"
    and e: "e \<in> set t" "place e = p" "key e \<in> set vs"
  shows "idle e"
proof -
  have "key e \<in> key ` set (sql_select (\<lambda>e. place e = p \<and> idle e) stamp t)"
  proof (cases "0 < cap")
    case True
    from victims_to_fit_Some [OF v True] show ?thesis using e(3)
      by (auto simp: take_map comp_def dest!: in_set_takeD)
  next
    case False
    then show ?thesis using v e(3) by (simp add: victims_to_fit_def)
  qed
  then obtain x where "x \<in> set t" "place x = p" "idle x" "key x = key e" by auto
  then show ?thesis using e sql_keyed_eq [OF k, of x e] by (auto simp: ident_eq)
qed

lemma replace_fits:
  assumes nn: "\<And>e. e \<in> set t \<Longrightarrow> 0 \<le> bytes e" and p: "place r = p"
    and fit: "sql_sum bytes (\<lambda>e. place e = p) t + bytes r \<le> cap"
  shows "sql_sum bytes (\<lambda>e. place e = p) (sql_replace ident r t) \<le> cap"
proof -
  have "0 \<le> sql_sum bytes (\<lambda>e. place e = p \<and> ident e = ident r) t" using nn by (rule sql_sum_nonneg)
  then show ?thesis using fit p by (simp add: sql_sum_replace)
qed

lemma replace_all_fits:
  assumes nn: "\<And>e. e \<in> set t \<Longrightarrow> 0 \<le> bytes e" and k: "sql_keyed ident t"
    and key: "\<And>r. r \<in> set rs \<Longrightarrow> key r = kk" and rnn: "\<And>r. r \<in> set rs \<Longrightarrow> 0 \<le> bytes r"
    and r: "rw \<in> set rs" "place rw = p"
    and fit: "\<And>r. r \<in> set rs \<Longrightarrow> place r = p \<Longrightarrow> sql_sum bytes (\<lambda>e. place e = p) t + bytes r \<le> cap"
  shows "sql_sum bytes (\<lambda>e. place e = p) (foldl (\<lambda>t r. sql_replace ident r t) t rs) \<le> cap"
proof -
  let ?t = "foldl (\<lambda>t r. sql_replace ident r t) t rs"
  let ?others = "sql_sum bytes (\<lambda>e. place e = p \<and> key e \<noteq> kk)"
  have split: "sql_sum bytes (\<lambda>e. place e = p) u = ?others u + sql_sum bytes (\<lambda>e. place e = p \<and> key e = kk) u" for u
    by (induction u) auto
  have o: "?others ?t = ?others t"
    using key by (intro sql_sum_foldl_replace_frame) (auto simp: ident_eq)
  have le: "?others t \<le> sql_sum bytes (\<lambda>e. place e = p) t"
    using nn by (intro sql_sum_mono_pred) auto
  have kt: "sql_keyed ident ?t" using k by (rule sql_keyed_foldl_replace)
  have own: "sql_sum bytes (\<lambda>e. place e = p \<and> key e = kk) ?t \<le> cap - ?others t"
  proof (rule sql_sum_unique [OF kt])
    fix x y assume "place x = p \<and> key x = kk" "place y = p \<and> key y = kk"
    then show "ident x = ident y" by (simp add: ident_eq)
  next
    fix x assume x: "x \<in> set ?t" "place x = p \<and> key x = kk"
    have "ident x \<in> ident ` set rs" using x(2) r key [OF r(1)] by (force simp: ident_eq image_iff)
    then have "x \<in> set rs" using in_foldl_replace [OF x(1)] by auto
    then show "bytes x \<le> cap - ?others t" using fit [of x] x(2) le by auto
  next
    show "0 \<le> cap - ?others t" using fit [OF r] rnn [OF r(1)] le by auto
  qed
  then show ?thesis using split [of ?t] o by simp
qed

end

interpretation node_table: lru_table kve_node kve_key kve_bytes kve_idle "\<lambda>e. (kve_last_used e, kve_created_at e)" kve_id
  by unfold_locales (simp add: kve_id_def)

interpretation shard_table: lru_table "\<lambda>e. (kvs_service e, kvs_node e)" kvs_key kvs_bytes kvs_idle
  "\<lambda>e. (kvs_last_used e, kvs_created_at e)" kvs_id
  by unfold_locales (auto simp: kvs_id_def)

definition kv_ok :: "queue_db \<Rightarrow> bool" where
  "kv_ok db \<longleftrightarrow> sql_keyed kve_id (kv_entries db) \<and> sql_keyed kvs_id (kv_shards db) \<and>
     (\<forall>e \<in> set (kv_entries db). 0 \<le> kve_bytes e) \<and> (\<forall>e \<in> set (kv_shards db). 0 \<le> kvs_bytes e)"

definition node_used :: "queue_db \<Rightarrow> string \<Rightarrow> int" where
  "node_used db node = sql_sum kve_bytes (\<lambda>e. kve_node e = node) (kv_entries db)"

definition shard_used :: "queue_db \<Rightarrow> string \<Rightarrow> string \<Rightarrow> int" where
  "shard_used db svc node = sql_sum kvs_bytes (\<lambda>e. (kvs_service e, kvs_node e) = (svc, node)) (kv_shards db)"

text \<open>A reservation on one node keeps the node within its capacity and leaves the other nodes alone.\<close>

lemma reserve_legacy_capacity:
  assumes ok: "kv_ok db" and cap: "0 < capacity"
    and r: "reserve_legacy_kv now row (Some node) key need capacity db = (db', True)"
  shows "node_used db' node \<le> capacity"
    and "n \<noteq> node \<Longrightarrow> node_used db' n = node_used db n"
    and "e \<in> set (kv_entries db) \<Longrightarrow> e \<notin> set (kv_entries db') \<Longrightarrow> kve_node e = node \<and> (kve_idle e \<or> kve_key e = key)"
proof -
  from r obtain vs where vs: "node_victims db node need capacity = Some vs"
    by (auto simp: reserve_legacy_kv_def split: option.splits)
  let ?t = "sql_delete (\<lambda>e. kve_node e = node \<and> kve_key e \<in> set vs) (kv_entries db)"
  let ?row = "\<lparr>kve_node = node, kve_key = key, kve_request_id = rq_request_id row, kve_bytes = need, kve_idle = False,
       kve_last_used = now, kve_created_at = now\<rparr>"
  have del: "foldl (\<lambda>t v. sql_delete (\<lambda>e. kve_node e = node \<and> kve_key e = v) t) (kv_entries db) vs = ?t"
    by (simp add: foldl_sql_delete)
  then have t': "kv_entries db' = sql_replace kve_id ?row ?t"
    using r vs by (auto simp: reserve_legacy_kv_def)
  have "node_used (db\<lparr>kv_entries := ?t\<rparr>) node + need \<le> capacity"
    using node_table.evict_fits [OF _ vs [unfolded node_victims_def] cap] ok by (simp add: node_used_def kv_ok_def)
  then show "node_used db' node \<le> capacity"
    using ok node_table.replace_fits [of ?t ?row node capacity] by (auto simp: node_used_def t' kv_ok_def)
  show "node_used db' n = node_used db n" if "n \<noteq> node"
  proof -
    have "sql_sum kve_bytes (\<lambda>e. kve_node e = n \<and> kve_id e = kve_id ?row) ?t = sql_sum kve_bytes (\<lambda>e. False) ?t"
      using that by (intro sql_sum_cong) (auto simp: kve_id_def)
    moreover have "sql_sum kve_bytes (\<lambda>e. kve_node e = n) ?t = sql_sum kve_bytes (\<lambda>e. kve_node e = n) (kv_entries db)"
      using that unfolding sql_delete_def sql_sum_filter by (intro sql_sum_cong) auto
    moreover have "sql_sum kve_bytes (\<lambda>e. False) ?t = 0" by (simp add: sql_sum_def)
    ultimately show ?thesis using that by (simp add: node_used_def t' sql_sum_replace)
  qed
  show "kve_node e = node \<and> (kve_idle e \<or> kve_key e = key)"
    if e: "e \<in> set (kv_entries db)" "e \<notin> set (kv_entries db')"
  proof -
    have "(kve_node e = node \<and> kve_key e \<in> set vs) \<or> kve_id e = kve_id ?row"
      using e by (auto simp: t' in_sql_replace)
    then show ?thesis
      using node_table.evict_only_idle [OF _ vs [unfolded node_victims_def] e(1)] ok
      by (auto simp: kve_id_def kv_ok_def)
  qed
qed

lemma foldl_shard_delete:
  "foldl (\<lambda>t (node, vs). foldl (\<lambda>t v. sql_delete (\<lambda>e. kvs_service e = svc \<and> kvs_node e = node \<and> kvs_key e = v) t) t vs) t evs =
     sql_delete (\<lambda>e. \<exists>(node, vs) \<in> set evs. kvs_service e = svc \<and> kvs_node e = node \<and> kvs_key e \<in> set vs) t"
proof (induction evs arbitrary: t)
  case Nil
  then show ?case by (simp add: sql_delete_def)
next
  case (Cons ev evs)
  obtain node vs where ev: "ev = (node, vs)" by fastforce
  show ?case
    by (simp only: foldl.simps ev prod.case Cons, simp only: foldl_sql_delete sql_delete_delete)
      (intro arg_cong [where f = "\<lambda>q. sql_delete q t"] ext, auto)
qed

lemma those_map_Some:
  "those (map f xs) = Some ys \<Longrightarrow> x \<in> set xs \<Longrightarrow> \<exists>y \<in> set ys. f x = Some y"
  by (induction xs arbitrary: ys) (auto split: option.splits)

lemma shard_evictions_Some:
  assumes "shard_evictions db svc capacity shards = Some evs" and "s \<in> set shards"
  shows "\<exists>vs. (sp_node s, vs) \<in> set evs \<and> shard_victims db svc (sp_node s) (shard_need s) capacity = Some vs"
  using those_map_Some [OF assms(1) [unfolded shard_evictions_def] assms(2)] by auto

text \<open>
  A pipeline reservation is all or nothing, and when it succeeds every node that received a shard
  is within the capacity.
\<close>

lemma reserve_pipeline_capacity:
  assumes ok: "kv_ok db" and cap: "0 < capacity"
    and r: "reserve_pipeline_kv now row svc node_ids key need capacity layout db = (db', True)"
    and s: "s \<in> set (case layout of Some f \<Rightarrow> f (rq_request_id row) key need | None \<Rightarrow> default_shards row node_ids need)"
  shows "shard_used db' svc (sp_node s) \<le> capacity"
proof -
  let ?shards = "case layout of Some f \<Rightarrow> f (rq_request_id row) key need | None \<Rightarrow> default_shards row node_ids need"
  have ne: "?shards \<noteq> []" using s by auto
  obtain evs where evs: "shard_evictions db svc capacity ?shards = Some evs"
    using r ne by (cases "shard_evictions db svc capacity ?shards") (auto simp: reserve_pipeline_kv_def Let_def)
  let ?q = "\<lambda>e. \<exists>(node, vs) \<in> set evs. kvs_service e = svc \<and> kvs_node e = node \<and> kvs_key e \<in> set vs"
  let ?t = "sql_delete ?q (kv_shards db)"
  let ?rs = "map (shard_entry now svc key (rq_request_id row) (length ?shards)) ?shards"
  have t': "kv_shards db' = foldl (\<lambda>t r. sql_replace kvs_id r t) ?t ?rs"
    using r ne evs by (auto simp: reserve_pipeline_kv_def Let_def foldl_shard_delete foldl_map)
  have nn: "\<And>e. e \<in> set ?t \<Longrightarrow> 0 \<le> kvs_bytes e" using ok by (auto simp: kv_ok_def)
  have fit: "sql_sum kvs_bytes (\<lambda>e. (kvs_service e, kvs_node e) = (svc, sp_node s')) ?t + shard_need s' \<le> capacity"
    if s': "s' \<in> set ?shards" for s'
  proof -
    obtain vs where vs: "(sp_node s', vs) \<in> set evs" "shard_victims db svc (sp_node s') (shard_need s') capacity = Some vs"
      using shard_evictions_Some [OF evs s'] by blast
    let ?u = "sql_delete (\<lambda>e. (kvs_service e, kvs_node e) = (svc, sp_node s') \<and> kvs_key e \<in> set vs) (kv_shards db)"
    have "sql_sum kvs_bytes (\<lambda>e. (kvs_service e, kvs_node e) = (svc, sp_node s')) ?u + shard_need s' \<le> capacity"
      using shard_table.evict_fits [where t = "kv_shards db" and p = "(svc, sp_node s')" and vs = vs and cap = capacity and need = "shard_need s'"]
        vs(2) cap ok by (simp add: shard_victims_def kv_ok_def)
    moreover have "sql_sum kvs_bytes (\<lambda>e. (kvs_service e, kvs_node e) = (svc, sp_node s')) ?t \<le>
        sql_sum kvs_bytes (\<lambda>e. (kvs_service e, kvs_node e) = (svc, sp_node s')) ?u"
      unfolding sql_delete_def sql_sum_filter using ok vs(1)
      by (intro sql_sum_mono_pred) (auto simp: kv_ok_def)
    ultimately show ?thesis by simp
  qed
  have "sql_sum kvs_bytes (\<lambda>e. (kvs_service e, kvs_node e) = (svc, sp_node s)) (foldl (\<lambda>t r. sql_replace kvs_id r t) ?t ?rs) \<le> capacity"
  proof (rule shard_table.replace_all_fits [where kk = key and rw = "shard_entry now svc key (rq_request_id row) (length ?shards) s"])
    show "sql_keyed kvs_id ?t" using ok by (simp add: kv_ok_def sql_keyed_delete)
  next
    fix e assume "e \<in> set ?rs" "(kvs_service e, kvs_node e) = (svc, sp_node s)"
    then obtain s' where "s' \<in> set ?shards" "kvs_bytes e = shard_need s'" "sp_node s' = sp_node s"
      by (auto simp: shard_entry_def)
    then show "sql_sum kvs_bytes (\<lambda>e. (kvs_service e, kvs_node e) = (svc, sp_node s)) ?t + kvs_bytes e \<le> capacity"
      using fit [of s'] by simp
  qed (use nn s in \<open>auto simp: shard_entry_def shard_need_def\<close>)
  then show ?thesis by (simp add: shard_used_def t')
qed

lemma reserve_pipeline_all_or_nothing:
  "reserve_pipeline_kv now row svc node_ids key need capacity layout db = (db', False) \<Longrightarrow> db' = db"
  by (auto simp: reserve_pipeline_kv_def Let_def split: if_splits option.splits)

lemma reserve_kv_refused: "reserve_kv now row node_id capacity layout db = (db', False) \<Longrightarrow> db' = db"
  by (auto simp: reserve_kv_def reserve_legacy_kv_def Let_def dest: reserve_pipeline_all_or_nothing
      split: if_splits option.splits)

lemma kv_ok_delete: "kv_ok db \<Longrightarrow> kv_ok (delete_request_kv rid db)"
  by (auto simp: kv_ok_def delete_request_kv_def sql_keyed_delete)

end
