(* ===== verification/Requests.thy ===== *)
theory Requests
  imports Py_Json
begin

text \<open>
  The request document of \<^verbatim>\<open>v2/src/ds4_infer/schemas.py\<close> and the priority and job-id rules of
  \<^verbatim>\<open>v2/src/ds4_infer/queue_policy.py\<close>.
\<close>

section \<open>Inference requests\<close>

record inference_request =
  ir_request_id :: string
  ir_capability :: json
  ir_chat :: bool
  ir_immediate :: bool
  ir_priority :: "int option"
  ir_job_class :: string
  ir_max_output_tokens :: int
  ir_thinking_budget_tokens :: int
  ir_temperature :: rat
  ir_input :: pydict
  ir_output_contract :: pydict
  ir_model_pin :: json
  ir_raw :: pydict

definition request_format :: string where
  "request_format = ''ds4-inference-request-v1''"

definition request_required :: "string list" where
  "request_required = [''request_id'', ''chat'', ''immediate'', ''job_class'', ''max_output_tokens'',
     ''thinking_budget_tokens'', ''input'', ''output_contract'']"

definition request_priority_field :: "pydict \<Rightarrow> int option result" where
  "request_priority_field data =
     (if has_key data ''priority'' then
        bindE (py_int (dget data ''priority'')) (\<lambda>p.
          if p < 0 then Inl (ValueError ''priority must be non-negative'') else Inr (Some p))
      else Inr None)"

definition request_from_json :: "pydict \<Rightarrow> inference_request result" where
  "request_from_json data =
     (if dget data ''format'' \<noteq> JStr request_format
      then Inl (ValueError (''unsupported request format: '' @ py_repr (dget data ''format'')))
      else
        (let missing = filter (\<lambda>k. \<not> has_key data k) request_required
         in if missing \<noteq> []
            then Inl (ValueError (''inference request missing fields: '' @ py_repr (JArr (map JStr missing))))
            else
              bindE (py_int (dget data ''max_output_tokens'')) (\<lambda>mot.
              bindE (py_int (dget data ''thinking_budget_tokens'')) (\<lambda>tbt.
              if mot < 1 then Inl (ValueError ''max_output_tokens must be positive'')
              else if tbt < 0 then Inl (ValueError ''thinking_budget_tokens must be non-negative'')
              else
                bindE (request_priority_field data) (\<lambda>prio.
                bindE (py_float (dget_or data ''temperature'' (JFloat 0))) (\<lambda>temp.
                bindE (py_dict (dget data ''input'')) (\<lambda>inp.
                bindE (py_dict (dget data ''output_contract'')) (\<lambda>oc.
                Inr \<lparr>ir_request_id = py_str (dget data ''request_id''),
                     ir_capability = dget data ''capability'',
                     ir_chat = truthy (dget data ''chat''),
                     ir_immediate = truthy (dget data ''immediate''),
                     ir_priority = prio,
                     ir_job_class = py_str (dget data ''job_class''),
                     ir_max_output_tokens = mot,
                     ir_thinking_budget_tokens = tbt,
                     ir_temperature = temp,
                     ir_input = inp,
                     ir_output_contract = oc,
                     ir_model_pin = dget data ''model_pin'',
                     ir_raw = data\<rparr>))))))))"

definition make_result :: "inference_request \<Rightarrow> string \<Rightarrow> string \<Rightarrow> string \<Rightarrow> string \<Rightarrow> string \<Rightarrow> pydict" where
  "make_result req profile_id model_id backend txt status =
     [(''format'', JStr ''ds4-inference-result-v1''),
      (''request_id'', JStr (ir_request_id req)),
      (''status'', JStr status),
      (''selected_profile'', JObj [(''profile_id'', JStr profile_id), (''model_id'', JStr model_id), (''backend'', JStr backend)]),
      (''output'', JObj [(''text'', JStr txt)]),
      (''usage'', JObj [(''max_output_tokens'', JInt (ir_max_output_tokens req)),
                      (''thinking_budget_tokens'', JInt (ir_thinking_budget_tokens req))])]"

definition request_ok :: "inference_request \<Rightarrow> bool" where
  "request_ok r \<longleftrightarrow> 1 \<le> ir_max_output_tokens r \<and> 0 \<le> ir_thinking_budget_tokens r \<and>
     (case ir_priority r of None \<Rightarrow> True | Some p \<Rightarrow> 0 \<le> p) \<and>
     dget (ir_raw r) ''format'' = JStr request_format \<and>
     list_all (has_key (ir_raw r)) request_required"

lemma request_from_json_ok:
  assumes "request_from_json data = Inr r"
  shows "request_ok r \<and> ir_raw r = data"
proof -
  have "filter (\<lambda>k. \<not> has_key data k) request_required = [] \<longleftrightarrow> list_all (has_key data) request_required"
    by (auto simp: filter_empty_conv list_all_iff)
  then show ?thesis using assms
    by (auto simp: request_from_json_def request_ok_def request_priority_field_def bindE_eq_Inr Let_def
        split: if_splits)
qed

section \<open>Priorities and job ids\<close>

definition default_queue_priority :: int where
  "default_queue_priority = 10"

definition immediate_queue_priority :: int where
  "immediate_queue_priority = 0"

definition validated_priority :: "int option \<Rightarrow> bool option \<Rightarrow> int option result" where
  "validated_priority priority immediate =
     (case priority of
        None \<Rightarrow> (case immediate of
                   None \<Rightarrow> Inr None
                 | Some i \<Rightarrow> Inr (Some (if i then immediate_queue_priority else default_queue_priority)))
      | Some v \<Rightarrow> if v < 0 then Inl (ValueError ''priority must be non-negative'') else Inr (Some v))"

definition request_priority :: "inference_request \<Rightarrow> int option \<Rightarrow> int result" where
  "request_priority req override =
     (case override of
        Some p \<Rightarrow> Inr p
      | None \<Rightarrow>
          (case ir_priority req of
             Some p \<Rightarrow> bindE (validated_priority (Some p) None) (\<lambda>q. Inr (the q))
           | None \<Rightarrow> Inr (if ir_immediate req then immediate_queue_priority else default_queue_priority)))"

definition job_batch_id :: "string option \<Rightarrow> string option \<Rightarrow> string option result" where
  "job_batch_id batch_id job_id =
     (if batch_id \<noteq> None \<and> job_id \<noteq> None \<and> batch_id \<noteq> job_id
      then Inl (ValueError ''batch_id and job_id must match when both are provided'')
      else Inr (if batch_id \<noteq> None then batch_id else job_id))"

lemma request_priority_nonneg:
  assumes "request_ok req" and "request_priority req None = Inr p"
  shows "0 \<le> p"
  using assms
  by (auto simp: request_ok_def request_priority_def validated_priority_def default_queue_priority_def
      immediate_queue_priority_def split: option.splits if_splits)

text \<open>A well-formed request always has a priority: only its own field can be refused.\<close>

lemma request_priority_total:
  "request_ok req \<Longrightarrow> \<exists>p. request_priority req ov = Inr p"
  by (auto simp: request_ok_def request_priority_def validated_priority_def split: option.splits)

section \<open>Shape buckets of a request\<close>

definition newline :: string where
  "newline = [CHR 0x0A]"

definition input_bucket :: "inference_request \<Rightarrow> string" where
  "input_bucket req =
     (let txt = joinwith newline (map (\<lambda>k. py_str (dget_or (ir_input req) k (JStr ''''))) [''shared_prefix'', ''suffix'', ''prompt'']);
          n = length txt
      in if n \<le> 4096 then ''in_0_4k'' else if n \<le> 16384 then ''in_4k_16k''
         else if n \<le> 65536 then ''in_16k_64k'' else ''in_64k_plus'')"

definition output_bucket :: "int \<Rightarrow> string" where
  "output_bucket n =
     (if n \<le> 256 then ''out_0_256'' else if n \<le> 768 then ''out_257_768''
      else if n \<le> 2048 then ''out_769_2048'' else ''out_2049_plus'')"

definition thinking_bucket :: "int \<Rightarrow> string" where
  "thinking_bucket n =
     (if n \<le> 0 then ''think_none'' else if n \<le> 512 then ''think_1_512''
      else if n \<le> 2048 then ''think_513_2048'' else ''think_2049_plus'')"

end
