(* ===== verification/Queue_Ready.thy ===== *)
theory Queue_Ready
  imports Queue_Lease Queue_Kv Requests
begin

text \<open>
  Making requests ready and claiming them, \<^verbatim>\<open>prepare_ready\<close> and
  \<^verbatim>\<open>claim_ready_batch\<close> of \<^verbatim>\<open>v2/src/ds4_infer/queue.py\<close>, with the row selection they
  share: the lease preference, priority order, shape buckets, token budgets and the two waiting rules
  (the ready floor and the batch linger).
\<close>

section \<open>Token budgets\<close>

fun input_text_bytes :: "json \<Rightarrow> int" where
  "input_text_bytes (JStr s) = int (length s)"
| "input_text_bytes (JArr xs) = sum_list (map input_text_bytes xs)"
| "input_text_bytes (JObj d) = sum_list (map (\<lambda>(_, v). input_text_bytes v) d)"
| "input_text_bytes _ = 0"

definition int_or :: "int \<Rightarrow> int \<Rightarrow> int" where
  \<comment> \<open>\<^verbatim>\<open>a or b\<close>\<close>
  "int_or a b = (if a \<noteq> 0 then a else b)"

definition reserved_prompt_tokens :: "pydict \<Rightarrow> int" where
  "reserved_prompt_tokens inp =
     (let metadata = obj_or_empty (dget inp ''metadata'');
          context_budget = obj_or_empty (dget metadata ''context_budget'');
          benchmark_shape = obj_or_empty (dget inp ''benchmark_shape'');
          openai = obj_or_empty (dget inp ''openai'');
          truncate = int_or (safe_int (dget openai ''truncate_prompt_tokens'') 0)
                            (safe_int (dget context_budget ''truncate_prompt_tokens'') 0);
          estimated = int_or (safe_int (dget inp ''estimated_prompt_tokens'') 0)
                        (int_or (safe_int (dget context_budget ''estimated_prompt_tokens'') 0)
                                (safe_int (dget benchmark_shape ''input_tokens'') 0));
          prompt_budget = safe_int (dget context_budget ''prompt_budget_tokens'') 0
      in if truncate > 0 \<and> estimated > 0 then min truncate estimated
         else if truncate > 0 then truncate
         else if estimated > 0 then estimated
         else if prompt_budget > 0 then prompt_budget
         else max 1 (input_text_bytes (JObj inp) div 4))"

definition row_reserved_tokens :: "int \<Rightarrow> request_row \<Rightarrow> int" where
  "row_reserved_tokens decode_token_reserve row =
     (case rq_request_json row of
        JObj raw \<Rightarrow>
          (let prompt = reserved_prompt_tokens (obj_or_empty (dget raw ''input''));
               output = safe_int (dget raw ''max_output_tokens'') 0;
               thinking = safe_int (dget raw ''thinking_budget_tokens'') 0;
               decode = max 0 output + max 0 thinking;
               decode' = (if decode_token_reserve > 0 then min decode decode_token_reserve else decode)
           in max 1 (prompt + decode'))
      | _ \<Rightarrow> 1)"

type_synonym service_limits = "string \<Rightarrow> int option"

definition service_batch_limit :: "string option \<Rightarrow> service_limits \<Rightarrow> int \<Rightarrow> int" where
  "service_batch_limit svc limits default_limit =
     (let limit = max 1 default_limit
      in case svc of
           None \<Rightarrow> limit
         | Some s \<Rightarrow> (case limits s of None \<Rightarrow> limit | Some c \<Rightarrow> min limit (max 1 c)))"

definition service_or_star :: "string option \<Rightarrow> service_limits \<Rightarrow> int" where
  "service_or_star svc limits =
     (case Option.bind svc limits of
        Some c \<Rightarrow> max 0 c
      | None \<Rightarrow> (case limits ''*'' of Some c \<Rightarrow> max 0 c | None \<Rightarrow> 0))"

definition service_batch_token_limit :: "string option \<Rightarrow> service_limits \<Rightarrow> int" where
  "service_batch_token_limit svc limits = service_or_star svc limits"

definition service_batch_decode_token_reserve :: "string option \<Rightarrow> service_limits \<Rightarrow> int" where
  "service_batch_decode_token_reserve svc limits = service_or_star svc limits"

fun take_budget :: "int \<Rightarrow> int \<Rightarrow> bool \<Rightarrow> int \<Rightarrow> request_row list \<Rightarrow> request_row list" where
  \<comment> \<open>the loop: whether something was selected already, and the tokens used so far\<close>
  "take_budget reserve limit some used [] = []"
| "take_budget reserve limit some used (row # rows) =
     (let need = row_reserved_tokens reserve row
      in if \<not> some \<or> used + need \<le> limit
         then row # take_budget reserve limit True (used + need) rows
         else take_budget reserve limit some used rows)"

definition limit_ready_rows_by_token_budget :: "request_row list \<Rightarrow> int \<Rightarrow> int \<Rightarrow> request_row list" where
  "limit_ready_rows_by_token_budget rows token_limit reserve =
     (if token_limit \<le> 0 \<or> length rows \<le> 1 then rows else take_budget reserve token_limit False 0 rows)"

section \<open>Shape buckets\<close>

definition ready_shape_key :: "request_row \<Rightarrow> string" where
  "ready_shape_key row =
     (case rq_request_json row of
        JObj raw \<Rightarrow>
          (let inp = obj_or_empty (dget raw ''input'');
               openai = obj_or_empty (dget inp ''openai'');
               extra = obj_or_empty (dget inp ''openai_extra_body'');
               bench = obj_or_empty (dget inp ''benchmark_shape'')
           in dumps_compact (JObj
                [(''benchmark_output_tokens'', dget bench ''output_tokens''), (''chat'', dget raw ''chat''),
                 (''max_output_tokens'', dget raw ''max_output_tokens''), (''openai'', JObj openai),
                 (''openai_extra_body'', JObj extra), (''temperature'', dget raw ''temperature''),
                 (''thinking_budget_tokens'', dget raw ''thinking_budget_tokens''), (''top_p'', dget raw ''top_p'')]))
      | _ \<Rightarrow> ''_invalid'')"

fun shape_buckets :: "(string \<times> nat \<times> request_row list) list \<Rightarrow> nat \<Rightarrow> request_row list \<Rightarrow> (string \<times> nat \<times> request_row list) list" where
  \<comment> \<open>buckets in order of first appearance, each with the index of its first row\<close>
  "shape_buckets acc i [] = acc"
| "shape_buckets acc i (row # rows) =
     (let k = ready_shape_key row
      in shape_buckets (case map_of acc k of
           None \<Rightarrow> acc @ [(k, i, [row])]
         | Some (j, rs) \<Rightarrow> dset k (j, rs @ [row]) acc) (Suc i) rows)"

definition bucket_rank :: "nat \<Rightarrow> string \<times> nat \<times> request_row list \<Rightarrow> int \<times> int" where
  "bucket_rank limit b = (case b of (_, i, rs) \<Rightarrow> (int (min (length rs) limit), - int i))"

definition best_bucket :: "nat \<Rightarrow> (string \<times> nat \<times> request_row list) list \<Rightarrow> string \<times> nat \<times> request_row list" where
  \<comment> \<open>\<^verbatim>\<open>max(buckets, key=..)\<close>: the first of the largest\<close>
  "best_bucket limit bs = foldl (\<lambda>m b. if bucket_rank limit m < bucket_rank limit b then b else m) (hd bs) (tl bs)"

definition ready_shape_bucket :: "request_row list \<Rightarrow> nat \<Rightarrow> request_row list" where
  "ready_shape_bucket rows limit =
     (let bs = shape_buckets [] 0 rows
      in if bs = [] then [] else take limit (snd (snd (best_bucket limit bs))))"

section \<open>Selecting rows\<close>

definition preferred_lease_clauses ::
  "environ \<Rightarrow> rat \<Rightarrow> queue_db \<Rightarrow> string option \<Rightarrow> string option \<Rightarrow> bool \<Rightarrow> (request_row \<Rightarrow> bool) list"
where
  \<comment> \<open>a service asked for, else the oldest live lease's service and domain while it should be preferred\<close>
  "preferred_lease_clauses env now db selected_service batch_id ignore_lease =
     (case selected_service of
        Some s \<Rightarrow> [\<lambda>r. rq_service_id r = Some s]
      | None \<Rightarrow>
          if \<not> opt_truthy batch_id \<and> \<not> ignore_lease
          then (case sql_select (\<lambda>c. now < cl_expires_at c) cl_created_at (compute_leases db) of
                  [] \<Rightarrow> []
                | l # _ \<Rightarrow>
                    if compute_lease_should_prefer env db l now
                    then (if opt_truthy (cl_service l) then [\<lambda>r. rq_service_id r = cl_service l] else [])
                       @ (if cl_domain l \<noteq> '''' then [\<lambda>r. rq_compute_domain r = Some (cl_domain l)] else [])
                    else [])
          else [])"

definition batch_clause :: "string option \<Rightarrow> (request_row \<Rightarrow> bool) list" where
  "batch_clause batch_id = (if opt_truthy batch_id then [\<lambda>r. Some (rq_batch_id r) = batch_id] else [])"

definition queued_rows ::
  "environ \<Rightarrow> rat \<Rightarrow> queue_db \<Rightarrow> string option \<Rightarrow> string list \<Rightarrow> string option \<Rightarrow> int \<Rightarrow> string option \<Rightarrow> bool \<Rightarrow> request_row list"
where
  "queued_rows env now db node_id eligible batch_id limit selected_service ignore_lease =
     (let clauses = [\<lambda>r. rq_state r = Queued]
            @ opt_clause node_id (\<lambda>n r. rq_node_id r = None \<or> rq_node_id r = Some n)
            @ (if eligible \<noteq> [] then [\<lambda>r. rq_profile_id r \<in> set eligible] else [])
            @ batch_clause batch_id
            @ preferred_lease_clauses env now db selected_service batch_id ignore_lease
      in take (nat (max 1 limit))
           (sql_select (sql_where clauses) (\<lambda>r. (rq_priority r, rq_created_at r, rq_request_id r)) (requests db)))"

definition ready_row_scope :: "request_row \<Rightarrow> bool \<Rightarrow> (request_row \<Rightarrow> bool) list" where
  "ready_row_scope first shape_bucket =
     [\<lambda>r. rq_profile_id r = rq_profile_id first, \<lambda>r. rq_service_id r = rq_service_id first,
      \<lambda>r. rq_compute_domain r = rq_compute_domain first]
     @ (if shape_bucket then [\<lambda>r. rq_priority r = rq_priority first] else [])"

definition ready_order :: "request_row \<Rightarrow> int \<times> rat option \<times> rat \<times> string" where
  "ready_order r = (rq_priority r, rq_ready_at r, rq_created_at r, rq_request_id r)"

definition ready_base_clauses ::
  "environ \<Rightarrow> rat \<Rightarrow> queue_db \<Rightarrow> string option \<Rightarrow> string option \<Rightarrow> string option \<Rightarrow> bool \<Rightarrow> (request_row \<Rightarrow> bool) list"
where
  "ready_base_clauses env now db node_id batch_id selected_service ignore_lease =
     [\<lambda>r. rq_state r = Ready] @ opt_clause node_id (\<lambda>n r. rq_node_id r = Some n) @ batch_clause batch_id
     @ preferred_lease_clauses env now db selected_service batch_id ignore_lease"

definition ready_rows ::
  "environ \<Rightarrow> rat \<Rightarrow> queue_db \<Rightarrow> string option \<Rightarrow> string option \<Rightarrow> int \<Rightarrow> service_limits \<Rightarrow> string option \<Rightarrow> bool \<Rightarrow>
   bool \<Rightarrow> int \<Rightarrow> request_row list"
where
  "ready_rows env now db node_id batch_id limit limits selected_service ignore_lease bucketing lookahead =
     (let base = ready_base_clauses env now db node_id batch_id selected_service ignore_lease
      in case sql_select (sql_where base) ready_order (requests db) of
           [] \<Rightarrow> []
         | first # _ \<Rightarrow>
             (let clauses = base @ ready_row_scope first bucketing;
                  service_limit = service_batch_limit (rq_service_id first) limits limit;
                  query_limit = (if bucketing then max service_limit (service_limit * max 1 lookahead) else service_limit);
                  rows = take (nat query_limit) (sql_select (sql_where clauses) ready_order (requests db))
              in if bucketing then ready_shape_bucket rows (nat service_limit) else rows))"

section \<open>Waiting rules\<close>

definition rat_or :: "rat option \<Rightarrow> rat \<Rightarrow> rat" where
  "rat_or x y = (case x of None \<Rightarrow> y | Some v \<Rightarrow> if v \<noteq> 0 then v else y)"

definition ready_stamp :: "rat \<Rightarrow> request_row \<Rightarrow> rat" where
  \<comment> \<open>\<^verbatim>\<open>row["ready_at"] or row["updated_at"] or now\<close>\<close>
  "ready_stamp now r = rat_or (rq_ready_at r) (rat_or (Some (rq_updated_at r)) now)"

definition has_recent_queued_peer :: "queue_db \<Rightarrow> request_row \<Rightarrow> string option \<Rightarrow> string option \<Rightarrow> rat \<Rightarrow> rat \<Rightarrow> bool" where
  "has_recent_queued_peer db first node_id batch_id now linger_s =
     (let clauses = [\<lambda>r. rq_state r = Queued, \<lambda>r. rq_profile_id r = rq_profile_id first]
            @ opt_clause node_id (\<lambda>n r. rq_node_id r = None \<or> rq_node_id r = Some n)
            @ batch_clause batch_id
            @ [\<lambda>r. rq_service_id r = rq_service_id first, \<lambda>r. rq_compute_domain r = rq_compute_domain first];
          peers = filter (sql_where clauses) (requests db)
      in peers \<noteq> [] \<and> now - Max (set (map rq_updated_at peers)) < max 0 linger_s)"

definition row_batch_request_count :: "queue_db \<Rightarrow> request_row \<Rightarrow> nat" where
  "row_batch_request_count db row =
     (case find (\<lambda>b. bt_batch_id b = rq_batch_id row) (batches db) of
        None \<Rightarrow> 1 | Some b \<Rightarrow> max 1 (bt_request_count b))"

definition should_wait_for_ready_floor ::
  "queue_db \<Rightarrow> request_row list \<Rightarrow> int \<Rightarrow> rat \<Rightarrow> int \<Rightarrow> int \<Rightarrow> string option \<Rightarrow> string option \<Rightarrow> rat \<Rightarrow> bool"
where
  "should_wait_for_ready_floor db rows floor0 timeout_s large_threshold reserve node_id batch_id now =
     (let flr = max 0 floor0
      in if flr \<le> 1 \<or> int (length rows) \<ge> flr then False
         else if large_threshold > 0 \<and> row_reserved_tokens reserve (hd rows) \<ge> large_threshold then False
         else if length rows = 1 \<and> row_batch_request_count db (hd rows) \<le> 1 \<and>
                 \<not> has_recent_queued_peer db (hd rows) node_id batch_id now (max 0 timeout_s) then False
         else if timeout_s \<le> 0 then True
         else now - Min (set (map (ready_stamp now) rows)) < timeout_s)"

definition should_linger ::
  "queue_db \<Rightarrow> request_row list \<Rightarrow> int \<Rightarrow> rat \<Rightarrow> string option \<Rightarrow> string option \<Rightarrow> rat \<Rightarrow> bool"
where
  "should_linger db rows linger_limit linger_s node_id batch_id now =
     (int (length rows) < linger_limit \<and> linger_s > 0 \<and>
      (now - Max (set (map (ready_stamp now) rows)) < linger_s \<or>
       has_recent_queued_peer db (hd rows) node_id batch_id now linger_s))"

section \<open>prepare\_ready\<close>

definition node_depth :: "queue_db \<Rightarrow> string \<Rightarrow> nat" where
  "node_depth db node =
     sql_count (\<lambda>r. rq_kind r = ''model'' \<and> rq_state r \<in> {Prefilling, Ready, Running} \<and> rq_node_id r = Some node) (requests db)"

definition coalesce :: "'a option \<Rightarrow> 'a option \<Rightarrow> 'a option" where
  "coalesce a b = (case a of None \<Rightarrow> b | Some x \<Rightarrow> Some x)"

definition mark_ready :: "rat \<Rightarrow> string option \<Rightarrow> string list option \<Rightarrow> request_row \<Rightarrow> request_row" where
  "mark_ready now bind node_ids r =
     clear_lease (r\<lparr>rq_state := Ready, rq_node_id := coalesce (rq_node_id r) bind,
       rq_node_ids := coalesce (rq_node_ids r) node_ids, rq_ready_at := Some now, rq_updated_at := now\<rparr>)"

definition prepare_row ::
  "rat \<Rightarrow> string option \<Rightarrow> int \<Rightarrow> (string \<Rightarrow> shard_layout option) \<Rightarrow> (nat \<Rightarrow> string) \<Rightarrow> string \<Rightarrow>
   queue_db \<times> nat \<times> string list \<Rightarrow> request_row \<Rightarrow> queue_db \<times> nat \<times> string list"
where
  \<comment> \<open>one turn of the loop; carried along: the database, how many were made ready, the batches touched\<close>
  "prepare_row now node_id capacity layouts uuid leased_by acc row =
     (case acc of (db, made, touched) \<Rightarrow>
        let bind = (if opt_truthy (rq_node_id row) then rq_node_id row else if opt_truthy node_id then node_id else None);
            (db1, ok) = reserve_kv now row bind capacity (layouts (rq_profile_id row)) db
        in if \<not> ok
           then (db_event now (rq_request_id row) ''kv_capacity_wait'' ''queued''
                   [(''batch_id'', JStr (rq_batch_id row)), (''node_id'', jopt bind), (''service_id'', jopt (rq_service_id row)),
                    (''kv_capacity_bytes'', JInt capacity)] db1, made, touched)
           else
             (let lease = leased_by @ '':prefill:'' @ uuid made;
                  ids = (case rq_node_ids row of Some v \<Rightarrow> Some v | None \<Rightarrow> map_option (\<lambda>n. [n]) bind);
                  p = (\<lambda>r. rq_request_id r = rq_request_id row \<and> rq_state r = Queued)
              in if sql_count p (requests db1) \<noteq> 1 then (db1, made, touched)
                 else (db_event now (rq_request_id row) ''prefilled'' ''ready''
                         [(''batch_id'', JStr (rq_batch_id row)), (''node_id'', jopt bind), (''service_id'', jopt (rq_service_id row)),
                          (''lease_id'', JStr lease)] (update_requests p (mark_ready now bind ids) db1),
                       Suc made, List.insert (rq_batch_id row) touched)))"

definition prepare_ready ::
  "environ \<Rightarrow> rat \<Rightarrow> (nat \<Rightarrow> string) \<Rightarrow> string option \<Rightarrow> string list \<Rightarrow> string option \<Rightarrow> int \<Rightarrow> string \<Rightarrow> int \<Rightarrow> int \<Rightarrow>
   (string \<Rightarrow> shard_layout option) \<Rightarrow> string option \<Rightarrow> bool \<Rightarrow> queue_db \<Rightarrow> queue_db \<times> nat"
where
  "prepare_ready env now uuid node_id eligible batch_id limit leased_by max_node_depth capacity layouts selected_service share db =
     (let eligible' = filter (\<lambda>s. s \<noteq> '''') eligible;
          remaining = (case node_id of
              Some n \<Rightarrow> if max_node_depth > 0 then min limit (max 0 (max_node_depth - int (node_depth db n))) else limit
            | None \<Rightarrow> limit)
      in if remaining \<le> 0 then (db, 0)
         else
           (let rows = queued_rows env now db node_id eligible' batch_id remaining selected_service share;
                (db1, made, touched) = foldl (prepare_row now node_id capacity layouts uuid leased_by) (db, 0, []) rows
            in (refresh_batches now touched db1, made)))"

section \<open>claim\_ready\_batch\<close>

record queue_claim =
  qc_request_id :: string
  qc_batch_id :: string
  qc_kind :: string
  qc_profile_id :: string
  qc_node_id :: "string option"
  qc_lease_id :: string
  qc_attempt_count :: int
  qc_request :: "inference_request option"
  qc_service_name :: "string option"
  qc_payload :: json
  qc_service_id :: "string option"
  qc_node_ids :: "string list"
  qc_compute_domain :: "string option"
  qc_compute_lease_id :: "string option"

definition claim_of :: "request_row \<Rightarrow> string \<Rightarrow> string option \<Rightarrow> queue_claim result" where
  "claim_of row lease_id compute_lease_id =
     bindE (if rq_kind row = ''model''
            then (case rq_request_json row of
                    JObj raw \<Rightarrow> bindE (request_from_json raw) (\<lambda>r. Inr (Some r))
                  | _ \<Rightarrow> Inl (TypeError ''request is not an object''))
            else Inr None) (\<lambda>req.
       Inr \<lparr>qc_request_id = rq_request_id row, qc_batch_id = rq_batch_id row, qc_kind = rq_kind row,
            qc_profile_id = rq_profile_id row, qc_node_id = nonempty_opt (rq_node_id row), qc_lease_id = lease_id,
            qc_attempt_count = rq_attempt_count row + 1, qc_request = req,
            qc_service_name = nonempty_opt (rq_service_name row), qc_payload = rq_request_json row,
            qc_service_id = nonempty_opt (rq_service_id row), qc_node_ids = row_node_ids row (rq_node_id row),
            qc_compute_domain = nonempty_opt (rq_compute_domain row), qc_compute_lease_id = compute_lease_id\<rparr>)"

definition start_running :: "rat \<Rightarrow> rat \<Rightarrow> string \<Rightarrow> string \<Rightarrow> string option \<Rightarrow> request_row \<Rightarrow> request_row" where
  "start_running now ttl leased_by lease_id compute_lease r =
     r\<lparr>rq_state := Running, rq_lease_id := Some lease_id, rq_compute_lease_id := compute_lease, rq_leased_by := Some leased_by,
       rq_lease_expires_at := Some (now + ttl), rq_heartbeat_at := Some now, rq_started_at := Some now, rq_updated_at := now,
       rq_attempt_count := rq_attempt_count r + 1\<rparr>"

definition ready_row :: "string \<Rightarrow> request_row \<Rightarrow> bool" where
  "ready_row rid r \<longleftrightarrow> rq_request_id r = rid \<and> rq_state r = Ready"

definition claim_row ::
  "rat \<Rightarrow> rat \<Rightarrow> string \<Rightarrow> string option \<Rightarrow> queue_db \<times> queue_claim list \<times> string list \<Rightarrow> string \<times> request_row \<Rightarrow>
   (queue_db \<times> queue_claim list \<times> string list) result"
where
  \<comment> \<open>one turn of the loop over the selected rows: the update is guarded by \<^verbatim>\<open>state='ready'\<close>\<close>
  "claim_row now ttl leased_by compute_lease acc lease_row =
     (case (acc, lease_row) of ((db, claims, bids), (lease_id, row)) \<Rightarrow>
        if sql_count (ready_row (rq_request_id row)) (requests db) \<noteq> 1 then Inr (db, claims, bids)
        else
          bindE (claim_of row lease_id compute_lease) (\<lambda>c.
            Inr (db_event now (rq_request_id row) ''started'' ''running''
                   [(''batch_id'', JStr (rq_batch_id row)), (''lease_id'', JStr lease_id), (''node_id'', jopt (rq_node_id row)),
                    (''service_id'', jopt (rq_service_id row)), (''compute_domain'', jopt (rq_compute_domain row)),
                    (''compute_lease_id'', jopt compute_lease)]
                   (update_requests (ready_row (rq_request_id row)) (start_running now ttl leased_by lease_id compute_lease) db),
                 claims @ [c], List.insert (rq_batch_id row) bids)))"

definition run_lease_ids :: "string \<Rightarrow> (nat \<Rightarrow> string) \<Rightarrow> nat \<Rightarrow> string list" where
  "run_lease_ids leased_by uuid n = map (\<lambda>i. leased_by @ '':run:'' @ uuid (Suc i)) [0..<n]"

definition claim_rows ::
  "rat \<Rightarrow> rat \<Rightarrow> string \<Rightarrow> (nat \<Rightarrow> string) \<Rightarrow> string option \<Rightarrow> request_row list \<Rightarrow> queue_db \<Rightarrow>
   (queue_db \<times> queue_claim list \<times> string list) result"
where
  "claim_rows now ttl leased_by uuid compute_lease rows db =
     foldE (claim_row now ttl leased_by compute_lease) (db, [], []) (zip (run_lease_ids leased_by uuid (length rows)) rows)"

definition claim_selected ::
  "environ \<Rightarrow> rat \<Rightarrow> (nat \<Rightarrow> string) \<Rightarrow> string \<Rightarrow> rat \<Rightarrow> string option \<Rightarrow> bool \<Rightarrow> request_row list \<Rightarrow> queue_db \<Rightarrow>
   (queue_db \<times> queue_claim list) result"
where
  \<comment> \<open>the second half: take the compute lease for the selected rows, then claim them\<close>
  "claim_selected env now uuid leased_by ttl compute_lease_id share rows db =
     (let (db1, grant) =
            (if share then (db, NoDomain)
             else if opt_truthy compute_lease_id
             then extend_compute_lease env now (hd rows) (length rows) compute_lease_id leased_by ttl db
             else acquire_compute_lease env now (uuid 0) (hd rows) (length rows) leased_by ttl db)
      in if grant = Denied then Inr (db1, [])
         else
           bindE (claim_rows now ttl leased_by uuid (granted_id grant) rows db1) (\<lambda>(db2, claims, bids).
             let new_lease = (\<not> share \<and> compute_lease_id = None \<and> granted_id grant \<noteq> None);
                 db3 = (if claims = [] \<and> new_lease
                        then db2\<lparr>compute_leases := sql_delete (\<lambda>c. Some (cl_id c) = granted_id grant) (compute_leases db2)\<rparr>
                        else db2)
             in Inr (refresh_batches now bids db3, claims)))"

record claim_opts =
  co_node :: "string option"
  co_batch :: "string option"
  co_limit :: int
  co_leased_by :: string
  co_ttl :: rat
  co_linger_s :: rat
  co_limits :: service_limits
  co_token_limits :: service_limits
  co_decode_reserves :: service_limits
  co_compute_lease :: "string option"
  co_service :: "string option"
  co_share :: bool
  co_bucketing :: bool
  co_lookahead :: int
  co_min_ready :: int
  co_min_timeout :: rat
  co_large_threshold :: int

definition select_claim_rows :: "environ \<Rightarrow> rat \<Rightarrow> claim_opts \<Rightarrow> queue_db \<Rightarrow> request_row list" where
  \<comment> \<open>the first half: the rows to claim, empty when there are none or they should still wait\<close>
  "select_claim_rows env now opts db =
     (case ready_rows env now db (co_node opts) (co_batch opts) (co_limit opts) (co_limits opts) (co_service opts)
             (co_share opts) (co_bucketing opts) (co_lookahead opts) of
        [] \<Rightarrow> []
      | first # rest_rows \<Rightarrow>
          (let svc = rq_service_id first;
               reserve = service_batch_decode_token_reserve svc (co_decode_reserves opts);
               rows = limit_ready_rows_by_token_budget (first # rest_rows) (service_batch_token_limit svc (co_token_limits opts)) reserve;
               linger_limit = service_batch_limit (rq_service_id (hd rows)) (co_limits opts) (co_limit opts)
           in if should_wait_for_ready_floor db rows (co_min_ready opts) (co_min_timeout opts) (co_large_threshold opts) reserve
                   (co_node opts) (co_batch opts) now then []
              else if should_linger db rows linger_limit (co_linger_s opts) (co_node opts) (co_batch opts) now then []
              else rows))"

definition claim_ready_batch ::
  "environ \<Rightarrow> rat \<Rightarrow> (nat \<Rightarrow> string) \<Rightarrow> claim_opts \<Rightarrow> queue_db \<Rightarrow> (queue_db \<times> queue_claim list) result"
where
  "claim_ready_batch env now uuid opts db =
     (let rows = select_claim_rows env now opts db
      in if rows = [] then Inr (db, [])
         else claim_selected env now uuid (co_leased_by opts) (co_ttl opts) (co_compute_lease opts) (co_share opts) rows db)"

end
