(* ===== verification/Queue_Life.thy ===== *)
theory Queue_Life
  imports Queue_Lease Requests Json_Parse
begin

text \<open>
  The life of a claimed request in \<^verbatim>\<open>v2/src/ds4_infer/queue.py\<close>: finishing it, retrying a
  transport failure, cancelling, reaping expired leases, the recovery of prefilling requests, and the
  worker's heartbeat.  Every state change of an operation is one \<^verbatim>\<open>update\<close> here; the guard
  of the update is the predicate it is given.
\<close>

section \<open>Results\<close>

definition failure_result :: "string \<Rightarrow> string \<Rightarrow> pydict" where
  "failure_result rid err =
     [(''format'', JStr ''ds4-inference-failure-v1''), (''request_id'', JStr rid), (''status'', JStr ''failed''), (''error'', JStr err)]"

definition result_error :: "pydict \<Rightarrow> string" where
  "result_error res =
     (let terr = (case dget res ''transport'' of JObj t \<Rightarrow> dget t ''error'' | _ \<Rightarrow> JNull)
      in if truthy terr then py_str terr
         else if truthy (dget res ''error'') then py_str (dget res ''error'')
         else
           (case dget res ''output'' of
              JObj out \<Rightarrow>
                (if truthy (dget out ''text'')
                 then (case json_loads (py_str (dget out ''text'')) of
                         None \<Rightarrow> take 4000 (py_str (dget out ''text''))
                       | Some (JObj p) \<Rightarrow> (if truthy (dget p ''error'') then py_str (dget p ''error'') else '''')
                       | Some _ \<Rightarrow> '''')
                 else '''')
            | _ \<Rightarrow> ''''))"

definition ignored_result :: "pydict \<Rightarrow> pydict" where
  \<comment> \<open>\<^verbatim>\<open>dict(result, status="cancelled", ignored_result=True)\<close>\<close>
  "ignored_result res = dset ''ignored_result'' (JBool True) (dset ''status'' (JStr ''cancelled'') res)"

definition running_under :: "string \<Rightarrow> string \<Rightarrow> request_row \<Rightarrow> bool" where
  \<comment> \<open>\<^verbatim>\<open>request_id=? and lease_id=? and state='running'\<close>\<close>
  "running_under rid lease r \<longleftrightarrow> rq_request_id r = rid \<and> rq_lease_id r = Some lease \<and> rq_state r = Running"

definition close_row :: "rat \<Rightarrow> req_state \<Rightarrow> pydict \<Rightarrow> string option \<Rightarrow> request_row \<Rightarrow> request_row" where
  \<comment> \<open>\<^verbatim>\<open>set state=?, result_json=?, error=?, completed_at=?, updated_at=?\<close>\<close>
  "close_row now st res err r =
     r\<lparr>rq_state := st, rq_result := Some (JObj res), rq_error := err, rq_completed_at := Some now, rq_updated_at := now\<rparr>"

definition idle_request_kv :: "rat \<Rightarrow> string \<Rightarrow> queue_db \<Rightarrow> queue_db" where
  "idle_request_kv now rid db =
     db\<lparr>kv_entries := sql_update (\<lambda>e. kve_request_id e = rid) (\<lambda>e. e\<lparr>kve_idle := True, kve_last_used := now\<rparr>) (kv_entries db),
        kv_shards := sql_update (\<lambda>e. kvs_request_id e = rid) (\<lambda>e. e\<lparr>kvs_idle := True, kvs_last_used := now\<rparr>) (kv_shards db)\<rparr>"

section \<open>finish\_request\<close>

definition finish_state :: "request_row \<Rightarrow> req_state \<Rightarrow> req_state" where
  "finish_state row st = (if rq_cancel_requested row then Cancelled else st)"

definition finish_error :: "req_state \<Rightarrow> string option \<Rightarrow> string option" where
  \<comment> \<open>\<^verbatim>\<open>None if final == "completed" else (error or final)\<close>\<close>
  "finish_error final err =
     (if final = Completed then None else if opt_truthy err then err else Some (state_name final))"

definition finish_request ::
  "rat \<Rightarrow> string \<Rightarrow> string \<Rightarrow> req_state \<Rightarrow> pydict \<Rightarrow> string option \<Rightarrow> queue_db \<Rightarrow> (queue_db \<times> bool) result"
where
  "finish_request now rid lease st res err db =
     (if \<not> terminal st then Inl (ValueError (''unsupported terminal state: '' @ state_name st))
      else case find (running_under rid lease) (requests db) of
        None \<Rightarrow> Inr (db, False)
      | Some row \<Rightarrow>
          (let final = finish_state row st;
               final_result = (if final = Cancelled then ignored_result res else res);
               db1 = update_requests (running_under rid lease)
                       (\<lambda>r. clear_lease (close_row now final final_result (finish_error final err) r)) db;
               db2 = (if opt_truthy (rq_kv_key row) then idle_request_kv now rid db1 else db1);
               db3 = release_unused_compute_lease (rq_compute_lease_id row) db2;
               db4 = db_event now rid (state_name final) (state_name final)
                       [(''batch_id'', JStr (rq_batch_id row)), (''service_id'', jopt (rq_service_id row))] db3;
               db5 = refresh_batch now (rq_batch_id row) db4
           in Inr (write_notice rid (state_name final) (JObj final_result) db5, True)))"

section \<open>retry\_transport\_failure\<close>

datatype retry_outcome = Lost | Retry_cancelled | Requeued | Retry_failed

definition requeue_row :: "rat \<Rightarrow> request_row \<Rightarrow> request_row" where
  \<comment> \<open>back to the queue: the lease columns go, and the node binding unless a service holds it\<close>
  "requeue_row now r = clear_lease (keep_binding r)\<lparr>rq_state := Queued, rq_compute_lease_id := None, rq_updated_at := now\<rparr>"

definition retry_transport_failure ::
  "rat \<Rightarrow> string \<Rightarrow> string \<Rightarrow> pydict \<Rightarrow> int \<Rightarrow> queue_db \<Rightarrow> queue_db \<times> retry_outcome"
where
  "retry_transport_failure now rid lease res max_attempts db =
     (case find (running_under rid lease) (requests db) of
        None \<Rightarrow> (db, Lost)
      | Some row \<Rightarrow>
          (let attempts = rq_attempt_count row;
               error = (if result_error res \<noteq> '''' then result_error res else ''transport_failed'');
               bid = rq_batch_id row
           in if rq_cancel_requested row then
                (let final = ignored_result res;
                     db1 = update_requests (running_under rid lease)
                             (\<lambda>r. clear_lease (close_row now Cancelled final (Some ''cancelled'') r)) db;
                     db2 = release_unused_compute_lease (rq_compute_lease_id row) (delete_request_kv rid db1);
                     db3 = db_event now rid ''cancelled'' ''cancelled''
                             [(''batch_id'', JStr bid), (''after_transport_error'', JStr error)] db2
                 in (write_notice rid ''cancelled'' (JObj final) (refresh_batch now bid db3), Retry_cancelled))
              else if attempts < max_attempts then
                (let db1 = update_requests (running_under rid lease)
                             (\<lambda>r. requeue_row now r\<lparr>rq_ready_at := None, rq_result := None, rq_error := Some error\<rparr>)
                             (delete_request_kv rid db);
                     db2 = release_unused_compute_lease (rq_compute_lease_id row) db1;
                     db3 = db_event now rid ''transport_requeued'' ''queued''
                             [(''batch_id'', JStr bid), (''attempt_count'', JInt attempts), (''max_attempts'', JInt max_attempts),
                              (''error'', JStr error)] db2
                 in (refresh_batch now bid db3, Requeued))
              else
                (let db1 = update_requests (running_under rid lease)
                             (\<lambda>r. clear_lease (close_row now Failed res (Some error) r)) db;
                     db2 = release_unused_compute_lease (rq_compute_lease_id row) (delete_request_kv rid db1);
                     db3 = db_event now rid ''failed'' ''failed''
                             [(''batch_id'', JStr bid), (''attempt_count'', JInt attempts), (''error'', JStr error)] db2
                 in (write_notice rid ''failed'' (JObj res) (refresh_batch now bid db3), Retry_failed))))"

section \<open>cancel\<close>

definition cancelled_result :: "string \<Rightarrow> string \<Rightarrow> bool \<Rightarrow> pydict" where
  "cancelled_result rid reason forced =
     [(''format'', JStr ''ds4-inference-cancelled-v1''), (''request_id'', JStr rid), (''status'', JStr ''cancelled''),
      (''reason'', JStr reason)] @ (if forced then [(''forced'', JBool True)] else [])"

record cancel_tally =
  ct_cancelled :: "string list"
  ct_requested :: "string list"
  ct_skipped :: "req_state list"

definition by_id :: "string \<Rightarrow> request_row \<Rightarrow> bool" where
  "by_id rid r \<longleftrightarrow> rq_request_id r = rid"

definition cancel_close :: "rat \<Rightarrow> string \<Rightarrow> request_row \<Rightarrow> request_row \<Rightarrow> request_row" where
  \<comment> \<open>what the update does to the row; only a running one also loses its lease columns\<close>
  "cancel_close now reason row r =
     (let closed = close_row now Cancelled (cancelled_result (rq_request_id row) reason (rq_state row = Running)) (Some reason) r
      in if rq_state row = Running then clear_lease closed\<lparr>rq_compute_lease_id := None\<rparr> else closed)"

definition cancel_now :: "rat \<Rightarrow> string \<Rightarrow> request_row \<Rightarrow> queue_db \<Rightarrow> queue_db" where
  "cancel_now now reason row db =
     (let rid = rq_request_id row; forced = (rq_state row = Running);
          db1 = update_requests (by_id rid) (cancel_close now reason row) db;
          db2 = release_unused_compute_lease (rq_compute_lease_id row) (delete_request_kv rid db1);
          db3 = db_event now rid ''cancelled'' ''cancelled''
                  ([(''batch_id'', JStr (rq_batch_id row)), (''reason'', JStr reason)] @
                   (if forced then [(''forced'', JBool True)] else [])) db2
      in write_notice rid ''cancelled'' (JObj (cancelled_result rid reason forced)) db3)"

definition cancel_row ::
  "rat \<Rightarrow> string \<Rightarrow> bool \<Rightarrow> queue_db \<times> cancel_tally \<Rightarrow> request_row \<Rightarrow> queue_db \<times> cancel_tally"
where
  "cancel_row now reason force acc row =
     (case acc of (db, t) \<Rightarrow>
        let rid = rq_request_id row; st = rq_state row
        in if terminal st then (db, t\<lparr>ct_skipped := ct_skipped t @ [st]\<rparr>)
           else if st = Running \<and> \<not> force then
             (update_requests (by_id rid) (\<lambda>r. r\<lparr>rq_cancel_requested := True, rq_updated_at := now\<rparr>) db,
              t\<lparr>ct_requested := ct_requested t @ [rid]\<rparr>)
           else (cancel_now now reason row db, t\<lparr>ct_cancelled := ct_cancelled t @ [rid]\<rparr>))"

fun count_states :: "req_state list \<Rightarrow> pydict \<Rightarrow> pydict" where
  \<comment> \<open>\<^verbatim>\<open>skipped[state] = skipped.get(state, 0) + 1\<close>\<close>
  "count_states [] d = d"
| "count_states (s # ss) d = count_states ss (dset (state_name s) (JInt (safe_int (dget d (state_name s)) 0 + 1)) d)"

definition cancel_state :: "cancel_tally \<Rightarrow> string" where
  "cancel_state t =
     (if ct_cancelled t \<noteq> [] \<and> ct_skipped t = [] \<and> ct_requested t = [] then ''cancelled''
      else if ct_cancelled t \<noteq> [] \<or> ct_requested t \<noteq> [] then ''partial'' else ''unchanged'')"

definition cancel_reply :: "string option \<Rightarrow> string option \<Rightarrow> cancel_tally \<Rightarrow> pydict" where
  "cancel_reply rid bid t =
     [(''format'', JStr ''ds4-inference-queue-v1''), (''state'', JStr (cancel_state t)), (''request_id'', jopt rid),
      (''batch_id'', jopt bid), (''job_id'', jopt bid), (''cancelled_count'', JInt (int (length (ct_cancelled t)))),
      (''cancelled_request_ids'', JArr (map JStr (ct_cancelled t))),
      (''running_cancel_requested_count'', JInt (int (length (ct_requested t)))),
      (''running_cancel_requested_ids'', JArr (map JStr (ct_requested t))),
      (''skipped_state_counts'', JObj (count_states (ct_skipped t) []))]"

definition cancel_rows :: "string option \<Rightarrow> string option \<Rightarrow> queue_db \<Rightarrow> request_row list" where
  "cancel_rows rid bid db =
     (if opt_truthy rid then filter (\<lambda>r. Some (rq_request_id r) = rid) (requests db)
      else sql_select (\<lambda>r. Some (rq_batch_id r) = bid) rq_request_id (requests db))"

definition cancel ::
  "rat \<Rightarrow> string option \<Rightarrow> string option \<Rightarrow> string option \<Rightarrow> string \<Rightarrow> bool \<Rightarrow> queue_db \<Rightarrow> (queue_db \<times> pydict) result"
where
  "cancel now rid batch_id job_id reason force db =
     bindE (job_batch_id batch_id job_id) (\<lambda>bid.
       if (rid = None) = (bid = None) then Inl (ValueError ''exactly one of request_id, batch_id, or job_id is required'')
       else
         (let rows = cancel_rows rid bid db;
              (db1, t) = foldl (cancel_row now reason force) (db, \<lparr>ct_cancelled = [], ct_requested = [], ct_skipped = []\<rparr>) rows
          in Inr (refresh_batches now (remdups (map rq_batch_id rows)) db1, cancel_reply rid bid t)))"

section \<open>requeue\_expired\_leases\<close>

definition lease_expired :: "rat \<Rightarrow> request_row \<Rightarrow> bool" where
  "lease_expired now r \<longleftrightarrow> rq_state r \<in> {Prefilling, Running} \<and>
     (case rq_lease_expires_at r of None \<Rightarrow> False | Some t \<Rightarrow> t \<le> now)"

definition purge_idle_compute_leases :: "rat \<Rightarrow> queue_db \<Rightarrow> queue_db" where
  "purge_idle_compute_leases now db =
     db\<lparr>compute_leases := sql_delete (\<lambda>c. cl_expires_at c \<le> now \<and>
          cl_id c \<notin> set (map (\<lambda>r. opt_str (rq_compute_lease_id r)) (filter (\<lambda>r. rq_state r = Running) (requests db))))
        (compute_leases db)\<rparr>"

definition expire_write :: "rat \<Rightarrow> int \<Rightarrow> request_row \<Rightarrow> queue_db \<Rightarrow> queue_db" where
  \<comment> \<open>back to the queue while attempts are left, failed otherwise\<close>
  "expire_write now max_attempts row db =
     (let rid = rq_request_id row; attempts = rq_attempt_count row
      in if attempts < max_attempts then update_requests (by_id rid) (requeue_row now) (delete_request_kv rid db)
         else (let res = failure_result rid (''lease expired after '' @ show_int attempts @ '' attempts'')
               in write_notice rid ''failed'' (JObj res)
                    (update_requests (by_id rid) (\<lambda>r. clear_lease (close_row now Failed res (Some ''lease_expired'') r)) db)))"

definition expire_row :: "rat \<Rightarrow> int \<Rightarrow> queue_db \<times> nat \<times> nat \<Rightarrow> request_row \<Rightarrow> queue_db \<times> nat \<times> nat" where
  "expire_row now max_attempts acc row =
     (case acc of (db, requeued, failed) \<Rightarrow>
        let attempts = rq_attempt_count row; again = (attempts < max_attempts);
            db1 = release_unused_compute_lease (rq_compute_lease_id row) (expire_write now max_attempts row db);
            db2 = db_event now (rq_request_id row) ''lease_expired'' (if again then ''queued'' else ''failed'')
                    [(''batch_id'', JStr (rq_batch_id row)), (''attempt_count'', JInt attempts)] db1
        in (refresh_batch now (rq_batch_id row) db2,
            if again then Suc requeued else requeued, if again then failed else Suc failed))"

definition expired_rows :: "rat \<Rightarrow> queue_db \<Rightarrow> request_row list" where
  "expired_rows now db = sql_select (lease_expired now) (\<lambda>r. (rq_lease_expires_at r, rq_request_id r)) (requests db)"

definition requeue_expired_leases :: "rat \<Rightarrow> int \<Rightarrow> queue_db \<Rightarrow> queue_db \<times> pydict" where
  "requeue_expired_leases now max_attempts db =
     (let db0 = purge_idle_compute_leases now db;
          (db1, requeued, failed) = foldl (expire_row now max_attempts) (db0, 0, 0) (expired_rows now db0)
      in (db1, [(''format'', JStr ''ds4-inference-queue-v1''),
                (''state'', JStr (if requeued \<noteq> 0 \<or> failed \<noteq> 0 then ''reaped'' else ''idle'')),
                (''requeued_count'', JInt (int requeued)), (''failed_count'', JInt (int failed))]))"

section \<open>Prefilling requests\<close>

definition prefilling_rows :: "rat \<Rightarrow> rat \<Rightarrow> queue_db \<Rightarrow> request_row list" where
  "prefilling_rows now stale_s db =
     sql_select (\<lambda>r. rq_state r = Prefilling \<and> (stale_s > 0 \<longrightarrow> rq_updated_at r \<le> now - stale_s))
       (\<lambda>r. (rq_updated_at r, rq_request_id r)) (requests db)"

definition release_row :: "rat \<Rightarrow> string \<Rightarrow> queue_db \<Rightarrow> request_row \<Rightarrow> queue_db" where
  "release_row now reason db row =
     release_unused_compute_lease (rq_compute_lease_id row)
       (db_event now (rq_request_id row) ''jit_kv_recovered'' ''queued''
          [(''batch_id'', JStr (rq_batch_id row)), (''reason'', JStr reason)] db)"

definition release_prefilling :: "rat \<Rightarrow> string \<Rightarrow> rat \<Rightarrow> queue_db \<Rightarrow> queue_db \<times> nat" where
  "release_prefilling now reason stale_s db =
     (let rows = prefilling_rows now stale_s db; ids = map rq_request_id rows
      in if rows = [] then (db, 0)
         else
           (let db1 = update_requests (\<lambda>r. rq_request_id r \<in> set ids) (\<lambda>r. requeue_row now r\<lparr>rq_ready_at := None\<rparr>) db;
                db2 = foldl (release_row now reason) db1 rows
            in (refresh_batches now (sort (remdups (map rq_batch_id rows))) db2, length rows)))"

definition recover_jit_kv_startup :: "rat \<Rightarrow> rat \<Rightarrow> queue_db \<Rightarrow> queue_db \<times> pydict" where
  "recover_jit_kv_startup now stale_s db =
     (let (db1, released) = release_prefilling now ''startup_recovery'' stale_s db;
          (mem, objects, shards) = recover_prefetch_manifests stale_s now (kv_memory db1)
      in (db1\<lparr>kv_memory := mem\<rparr>,
          [(''format'', JStr ''ds4-inference-queue-v1''),
           (''state'', JStr (if released \<noteq> 0 \<or> objects \<noteq> 0 \<or> shards \<noteq> 0 then ''recovered'' else ''idle'')),
           (''wait_released'', JInt (int released)), (''objects_recovered'', JInt (int objects)),
           (''shards_recovered'', JInt (int shards))]))"

definition release_jit_kv_waits :: "rat \<Rightarrow> string \<Rightarrow> queue_db \<Rightarrow> queue_db \<times> pydict" where
  "release_jit_kv_waits now reason db =
     (let (db1, released) = release_prefilling now reason 0 db
      in (db1, [(''format'', JStr ''ds4-inference-queue-v1''),
                (''state'', JStr (if released \<noteq> 0 then ''released'' else ''idle'')), (''wait_released'', JInt (int released))]))"

section \<open>heartbeat\<close>

definition leased_running :: "string list \<Rightarrow> request_row \<Rightarrow> bool" where
  "leased_running ids r \<longleftrightarrow> rq_state r = Running \<and> (\<exists>i \<in> set ids. rq_lease_id r = Some i)"

definition heartbeat :: "rat \<Rightarrow> string list \<Rightarrow> rat \<Rightarrow> queue_db \<Rightarrow> queue_db \<times> nat" where
  "heartbeat now lease_ids ttl db =
     (let ids = filter (\<lambda>i. i \<noteq> '''') lease_ids
      in if ids = [] then (db, 0)
         else
           (let held = filter (\<lambda>i. i \<noteq> '''')
                  (map (\<lambda>r. opt_str (rq_compute_lease_id r)) (filter (leased_running ids) (requests db)));
                db1 = update_requests (leased_running ids)
                  (\<lambda>r. r\<lparr>rq_heartbeat_at := Some now, rq_lease_expires_at := Some (now + ttl), rq_updated_at := now\<rparr>) db
            in (db1\<lparr>compute_leases := sql_update (\<lambda>c. cl_id c \<in> set held)
                     (\<lambda>c. c\<lparr>cl_heartbeat_at := now, cl_expires_at := now + ttl, cl_updated_at := now\<rparr>) (compute_leases db1)\<rparr>,
                sql_count (leased_running ids) (requests db))))"

end
