(* ===== verification/Queue_Submit.thy ===== *)
theory Queue_Submit
  imports Queue_Db Requests Topology Kv_Directive
begin

text \<open>
  Submission, \<^verbatim>\<open>submit_requests\<close> and \<^verbatim>\<open>submit_cpu_requests\<close> of
  \<^verbatim>\<open>v2/src/ds4_infer/queue.py\<close>: a batch is stored with one queued row per request, bound to a
  node or service when routing decides it now, or recognised as a resubmission of a stored batch.
\<close>

section \<open>Request columns\<close>

definition request_json_hash :: "json \<Rightarrow> string" where
  \<comment> \<open>\<^verbatim>\<open>_request_json_hash(_canonical_request_json(doc))\<close>\<close>
  "request_json_hash doc = ''sha256:'' @ sha256_hex (dumps_compact doc)"

definition kv_need :: "inference_request \<Rightarrow> string option \<times> int" where
  "kv_need req =
     (let meta = obj_or_empty (dget (ir_raw req) ''metadata''); inp = ir_input req;
          key = por (dget inp ''kv_cache_key'') (por (dget meta ''kv_cache_key'')
                  (por (dget inp ''shared_prefix_hash'') (dget inp ''skeleton_hash'')));
          bytes_value = dget_or inp ''kv_bytes_estimate'' (dget_or meta ''kv_bytes_estimate'' (JInt 0))
      in (if truthy key then Some (py_str key) else None,
          case py_int (por bytes_value (JInt 0)) of Inr n \<Rightarrow> max 0 n | Inl _ \<Rightarrow> 0))"

definition request_batch_key :: "inference_request \<Rightarrow> model_profile \<Rightarrow> string option \<Rightarrow> string" where
  \<comment> \<open>the last argument is the node id of the assignment\<close>
  "request_batch_key req profile node =
     (let prefix = py_str (por (dget (ir_input req) ''shared_prefix_hash'')
                     (por (dget (ir_input req) ''skeleton_hash'') (JStr ''no_prefix'')));
          prefix_key = (case request_kv_cache_batch_key (ir_input req) of None \<Rightarrow> prefix | Some k \<Rightarrow> prefix @ ''|kv='' @ k)
      in joinwith ''|''
           [if opt_truthy node then opt_str node else ''unassigned'', mp_profile_id profile,
            if ir_chat req then ''chat'' else ''completion'', ir_job_class req, input_bucket req,
            output_bucket (ir_max_output_tokens req), thinking_bucket (ir_thinking_budget_tokens req), prefix_key,
            if ir_immediate req then ''immediate'' else ''queued''])"

section \<open>Resubmission\<close>

fun count_keys :: "'k list \<Rightarrow> ('k \<times> int) list \<Rightarrow> ('k \<times> int) list" where
  \<comment> \<open>\<^verbatim>\<open>_count(values)\<close>: occurrences, in order of first appearance\<close>
  "count_keys [] d = d"
| "count_keys (k # ks) d = count_keys ks (dset k ((case map_of d k of None \<Rightarrow> 0 | Some n \<Rightarrow> n) + 1) d)"

definition counts_json :: "(string \<times> int) list \<Rightarrow> json" where
  "counts_json d = JObj (map (\<lambda>(k, n). (k, JInt n)) d)"

definition priority_counts_json :: "(int \<times> int) list \<Rightarrow> json" where
  "priority_counts_json d = JObj (map (\<lambda>(k, n). (show_int k, JInt n)) d)"

definition stored_hash :: "request_row \<Rightarrow> string" where
  "stored_hash r = (if opt_truthy (rq_json_hash r) then opt_str (rq_json_hash r) else request_json_hash (rq_request_json r))"

definition some_values :: "string option list \<Rightarrow> string list" where
  "some_values xs = filter (\<lambda>s. s \<noteq> '''') (map opt_str xs)"

definition existing_reply :: "string \<Rightarrow> request_row list \<Rightarrow> pydict" where
  "existing_reply bid rows =
     [(''format'', JStr ''ds4-inference-queue-v1''), (''state'', JStr ''queued''), (''batch_id'', JStr bid), (''job_id'', JStr bid),
      (''request_ids'', JArr (map (\<lambda>r. JStr (rq_request_id r)) rows)), (''request_count'', JInt (int (length rows))),
      (''selected_profiles'', counts_json (count_keys (map rq_profile_id rows) [])),
      (''selected_nodes'', counts_json (count_keys (some_values (map rq_node_id rows)) [])),
      (''selected_services'', counts_json (count_keys (some_values (map rq_service_id rows)) [])),
      (''priority_counts'', priority_counts_json (count_keys (map rq_priority rows) []))]"

definition existing_submission ::
  "queue_db \<Rightarrow> string \<Rightarrow> inference_request list \<Rightarrow> int option \<Rightarrow> pydict option result"
where
  "existing_submission db bid reqs priority =
     (let rows = sql_select (\<lambda>r. rq_batch_id r = bid) rq_request_id (requests db);
          row_of = (\<lambda>rid. find (\<lambda>r. rq_request_id r = rid) rows)
      in if rows = [] then Inr None
         else if sort (map ir_request_id reqs) \<noteq> map rq_request_id rows
         then Inl (ValueError (''batch_id already exists with different requests: '' @ bid))
         else
           bindE (mapE (\<lambda>req. bindE (request_priority req priority) (\<lambda>p. Inr (ir_request_id req, p))) reqs) (\<lambda>expected.
             let mismatches = sort (map fst (filter (\<lambda>(rid, p). map_option rq_priority (row_of rid) \<noteq> Some p) expected));
                 payload_mismatches = sort (map ir_request_id
                    (filter (\<lambda>req. map_option stored_hash (row_of (ir_request_id req)) \<noteq> Some (request_json_hash (JObj (ir_raw req)))) reqs))
             in if mismatches \<noteq> []
                then Inl (ValueError (''batch_id already exists with different priority for requests: '' @
                       py_repr (JArr (map JStr mismatches))))
                else if payload_mismatches \<noteq> []
                then Inl (ValueError (''batch_id already exists with different request payloads: '' @
                       py_repr (JArr (map JStr payload_mismatches))))
                else Inr (Some (existing_reply bid rows))))"

section \<open>submit\_requests\<close>

record submit_acc =
  su_db :: queue_db
  su_profiles :: "string list"
  su_priorities :: "int list"
  su_nodes :: "string list"
  su_services :: "string list"
  su_late :: nat
  su_ids :: "string list"
  su_load :: "(string \<times> int) list"

definition new_batch :: "rat \<Rightarrow> string \<Rightarrow> batch_row" where
  \<comment> \<open>the column defaults of \<^verbatim>\<open>_init_db\<close>\<close>
  "new_batch now bid = \<lparr>bt_batch_id = bid, bt_state = ''queued'', bt_request_count = 0, bt_counts = (\<lambda>_. 0),
     bt_created_at = now, bt_updated_at = now\<rparr>"

record binding =
  bi_node :: "string option"
  bi_service :: "string option"
  bi_domain :: "string option"
  bi_nodes :: "string list option"
  bi_shard_count :: int
  bi_shard_bytes :: int

definition unbound :: binding where
  "unbound = \<lparr>bi_node = None, bi_service = None, bi_domain = None, bi_nodes = None, bi_shard_count = 0, bi_shard_bytes = 0\<rparr>"

definition bind_assignment :: "spark_assignment \<Rightarrow> int \<Rightarrow> binding" where
  "bind_assignment a kv_bytes =
     (let node_ids = (if sa_node_ids a \<noteq> [] then sa_node_ids a else [sa_node_id a]);
          n = (if opt_truthy (sa_service_id a) then int (length node_ids) else 0)
      in \<lparr>bi_node = Some (sa_node_id a), bi_service = sa_service_id a, bi_domain = sa_compute_domain a, bi_nodes = Some node_ids,
          bi_shard_count = n,
          bi_shard_bytes = (if opt_truthy (sa_service_id a) \<and> kv_bytes > 0 then ceil_div kv_bytes (max 1 n) else 0)\<rparr>)"

definition binds_now :: "spark_topology \<Rightarrow> spark_assignment \<Rightarrow> bool" where
  "binds_now tp a \<longleftrightarrow>
     truthy (dget_or (tp_routing_policy tp) ''bind_on_submit'' (JBool False)) \<or> sa_service_id a \<noteq> None \<or>
     sa_reason a = ''resident_profile_group''"

definition choose_binding ::
  "spark_topology option \<Rightarrow> model_profile \<Rightarrow> bool \<Rightarrow> (string \<times> int) list \<Rightarrow> int \<Rightarrow> binding option result"
where
  \<comment> \<open>None: bound later, when a worker prepares the request\<close>
  "choose_binding topo profile immediate current kv_bytes =
     (case topo of
        None \<Rightarrow> Inr None
      | Some tp \<Rightarrow>
          bindE (assign_profile tp (mp_profile_id profile) immediate current) (\<lambda>a.
            Inr (if binds_now tp a then Some (bind_assignment a kv_bytes) else None)))"

definition queued_row ::
  "rat \<Rightarrow> string \<Rightarrow> inference_request \<Rightarrow> model_profile \<Rightarrow> int \<Rightarrow> binding \<Rightarrow> request_row"
where
  "queued_row now bid req profile prio b =
     \<lparr>rq_request_id = ir_request_id req, rq_batch_id = bid, rq_kind = ''model'', rq_service_name = None, rq_state = Queued,
      rq_priority = prio, rq_immediate = ir_immediate req, rq_profile_id = mp_profile_id profile, rq_node_id = bi_node b,
      rq_service_id = bi_service b, rq_node_ids = bi_nodes b, rq_compute_domain = bi_domain b, rq_compute_lease_id = None,
      rq_request_json = JObj (ir_raw req), rq_json_hash = Some (request_json_hash (JObj (ir_raw req))), rq_result = None,
      rq_error = None, rq_cancel_requested = False, rq_kv_key = fst (kv_need req), rq_kv_bytes = snd (kv_need req),
      rq_kv_shard_count = bi_shard_count b, rq_kv_shard_bytes = bi_shard_bytes b, rq_created_at = now, rq_updated_at = now,
      rq_ready_at = None, rq_started_at = None, rq_completed_at = None, rq_lease_id = None, rq_leased_by = None,
      rq_lease_expires_at = None, rq_heartbeat_at = None, rq_attempt_count = 0\<rparr>"

definition insert_request :: "request_row \<Rightarrow> queue_db \<Rightarrow> queue_db result" where
  "insert_request r db = bindE (sql_insert rq_request_id r (requests db)) (\<lambda>t. Inr (db\<lparr>requests := t\<rparr>))"

definition insert_batch :: "rat \<Rightarrow> string \<Rightarrow> queue_db \<Rightarrow> queue_db result" where
  "insert_batch now bid db = bindE (sql_insert bt_batch_id (new_batch now bid) (batches db)) (\<lambda>t. Inr (db\<lparr>batches := t\<rparr>))"

definition submit_one ::
  "rat \<Rightarrow> profile_registry \<Rightarrow> spark_topology option \<Rightarrow> string \<Rightarrow> int option \<Rightarrow> submit_acc \<Rightarrow> inference_request \<Rightarrow> submit_acc result"
where
  "submit_one now reg topo bid priority acc req =
     bindE (ensure_cache_refs_resolved (ir_input req)) (\<lambda>_.
     bindE (resolve_profile reg (ir_capability req) (ir_chat req) (ir_job_class req) (ir_model_pin req)) (\<lambda>profile.
     bindE (request_priority req priority) (\<lambda>prio.
     bindE (choose_binding topo profile (ir_immediate req) (su_load acc) (snd (kv_need req))) (\<lambda>bound.
     let b = (case bound of Some x \<Rightarrow> x | None \<Rightarrow> unbound)
     in bindE (insert_request (queued_row now bid req profile prio b) (su_db acc)) (\<lambda>db1.
        let node = some_values [bi_node b];
            db2 = db_event now (ir_request_id req) ''submitted'' ''queued''
              [(''batch_id'', JStr bid), (''priority'', JInt prio),
               (''node_binding'', JStr (if opt_truthy (bi_node b) then ''bound'' else ''lease'')),
               (''selected_node_id'', jopt (bi_node b)), (''selected_service_id'', jopt (bi_service b)),
               (''selected_compute_domain'', jopt (bi_domain b))] db1
        in Inr \<lparr>su_db = db2, su_profiles = su_profiles acc @ [mp_profile_id profile], su_priorities = su_priorities acc @ [prio],
                su_nodes = su_nodes acc @ node, su_services = su_services acc @ some_values [bi_service b],
                su_late = (if bound = None then Suc (su_late acc) else su_late acc), su_ids = su_ids acc @ [ir_request_id req],
                su_load = count_keys node (su_load acc)\<rparr>)))))"

definition submit_reply :: "string \<Rightarrow> submit_acc \<Rightarrow> pydict" where
  "submit_reply bid acc =
     (let n = length (su_ids acc)
      in [(''format'', JStr ''ds4-inference-queue-v1''), (''state'', JStr ''queued''), (''batch_id'', JStr bid), (''job_id'', JStr bid),
          (''request_ids'', JArr (map JStr (su_ids acc))), (''request_count'', JInt (int n)),
          (''selected_profiles'', counts_json (count_keys (su_profiles acc) [])),
          (''selected_nodes'', counts_json (count_keys (su_nodes acc) [])),
          (''selected_services'', counts_json (count_keys (su_services acc) [])),
          (''priority_counts'', priority_counts_json (sort_key fst (count_keys (su_priorities acc) []))),
          (''metadata'', JObj [(''late_bound_count'', JInt (int (su_late acc))), (''bound_count'', JInt (int n - int (su_late acc)))])])"

definition submit_requests ::
  "rat \<Rightarrow> string \<Rightarrow> profile_registry \<Rightarrow> spark_topology option \<Rightarrow> inference_request list \<Rightarrow> string option \<Rightarrow> int option \<Rightarrow>
   queue_db \<Rightarrow> (queue_db \<times> pydict) result"
where
  \<comment> \<open>\<open>uuid\<close> is the hex text of a fresh UUID\<close>
  "submit_requests now uuid reg topo reqs batch_id priority db =
     (if reqs = [] then Inl (ValueError ''cannot submit an empty request set'')
      else
        (let bid = (if opt_truthy batch_id then opt_str batch_id else ''batch-'' @ take 16 uuid)
         in bindE (existing_submission db bid reqs priority) (\<lambda>existing.
            case existing of
              Some reply \<Rightarrow> Inr (db, reply)
            | None \<Rightarrow>
                bindE (insert_batch now bid db) (\<lambda>db0.
                bindE (foldE (submit_one now reg topo bid priority)
                         \<lparr>su_db = db0, su_profiles = [], su_priorities = [], su_nodes = [], su_services = [], su_late = 0,
                          su_ids = [], su_load = []\<rparr> reqs) (\<lambda>acc.
                Inr (refresh_batch now bid (su_db acc), submit_reply bid acc))))))"

section \<open>submit\_cpu\_requests\<close>

definition pad6 :: "nat \<Rightarrow> string" where
  "pad6 n = (let s = show_nat n in replicate (6 - length s) (CHR ''0'') @ s)"

definition cpu_request_id :: "string \<Rightarrow> nat \<Rightarrow> pydict \<Rightarrow> string" where
  "cpu_request_id bid n item =
     py_str (por (dget item ''custom_id'') (por (dget item ''request_id'') (JStr (bid @ ''-'' @ pad6 n))))"

definition cpu_row ::
  "rat \<Rightarrow> string \<Rightarrow> string \<Rightarrow> int \<Rightarrow> bool \<Rightarrow> string option \<Rightarrow> string \<Rightarrow> pydict \<Rightarrow> request_row"
where
  "cpu_row now bid service prio immediate node rid payload =
     \<lparr>rq_request_id = rid, rq_batch_id = bid, rq_kind = ''cpu'', rq_service_name = Some service, rq_state = Ready,
      rq_priority = prio, rq_immediate = immediate, rq_profile_id = ''cpu:'' @ service, rq_node_id = node,
      rq_service_id = None, rq_node_ids = None, rq_compute_domain = None, rq_compute_lease_id = None,
      rq_request_json = JObj payload, rq_json_hash = None, rq_result = None, rq_error = None, rq_cancel_requested = False,
      rq_kv_key = None, rq_kv_bytes = 0, rq_kv_shard_count = 0, rq_kv_shard_bytes = 0, rq_created_at = now,
      rq_updated_at = now, rq_ready_at = Some now, rq_started_at = None, rq_completed_at = None, rq_lease_id = None,
      rq_leased_by = None, rq_lease_expires_at = None, rq_heartbeat_at = None, rq_attempt_count = 0\<rparr>"

definition submit_cpu_item ::
  "rat \<Rightarrow> string \<Rightarrow> string \<Rightarrow> int \<Rightarrow> bool \<Rightarrow> string option \<Rightarrow> rat option \<Rightarrow> queue_db \<times> string list \<Rightarrow> pydict \<Rightarrow>
   (queue_db \<times> string list) result"
where
  "submit_cpu_item now bid service prio immediate node timeout acc item =
     (case acc of (db, ids) \<Rightarrow>
        let rid = cpu_request_id bid (length ids) item;
            payload = (case timeout of None \<Rightarrow> item | Some t \<Rightarrow> dset ''__ds4_queue_timeout_s'' (JFloat t) item)
        in bindE (insert_request (cpu_row now bid service prio immediate node rid payload) db) (\<lambda>db1.
             Inr (db_event now rid ''submitted'' ''ready''
                    [(''batch_id'', JStr bid), (''priority'', JInt prio), (''service'', JStr service)] db1, ids @ [rid])))"

definition submit_cpu_requests ::
  "rat \<Rightarrow> string \<Rightarrow> string \<Rightarrow> pydict list \<Rightarrow> string option \<Rightarrow> bool \<Rightarrow> string option \<Rightarrow> rat option \<Rightarrow> int option \<Rightarrow>
   queue_db \<Rightarrow> (queue_db \<times> pydict) result"
where
  "submit_cpu_requests now uuid service items batch_id immediate node timeout priority db =
     bindE (validated_priority priority (Some immediate)) (\<lambda>p.
       let prio = (case p of Some n \<Rightarrow> n | None \<Rightarrow> 0)
       in if items = [] then Inl (ValueError ''cannot submit an empty CPU request set'')
          else
            (let bid = (if opt_truthy batch_id then opt_str batch_id else ''cpu-'' @ take 16 uuid)
             in bindE (insert_batch now bid db) (\<lambda>db0.
                bindE (foldE (submit_cpu_item now bid service prio immediate node timeout) (db0, []) items) (\<lambda>(db1, ids).
                Inr (refresh_batch now bid db1,
                     [(''format'', JStr ''ds4-inference-queue-v1''), (''state'', JStr ''queued''), (''batch_id'', JStr bid),
                      (''job_id'', JStr bid), (''request_ids'', JArr (map JStr ids)), (''request_count'', JInt (int (length ids))),
                      (''selected_profiles'', JObj []),
                      (''selected_nodes'', JObj (if opt_truthy node then [(opt_str node, JInt (int (length ids)))] else [])),
                      (''selected_services'', JObj [(service, JInt (int (length ids)))]),
                      (''priority_counts'', JObj [(show_int prio, JInt (int (length ids)))])])))))"

end
