(* ===== verification/Queue_Inv.thy ===== *)
theory Queue_Inv
  imports Queue_Ready Queue_Life Queue_Submit
begin

text \<open>
  The invariant of the queue database and the proof, operation by operation, that each one keeps it:
  ids are keys, every row's columns fit its state, the event log is numbered without gaps, and the
  counters of every batch are those of its rows.  The invariant is split into \<open>core\<close>, which every
  single write keeps, and \<open>fresh_outside\<close>, which says which batches still have to be refreshed.
\<close>

section \<open>The invariant\<close>

definition row_ok :: "request_row \<Rightarrow> bool" where
  "row_ok r \<longleftrightarrow>
     rq_state r \<noteq> Prefilling \<and> 0 \<le> rq_attempt_count r \<and>
     (rq_state r = Running \<longrightarrow> rq_lease_id r \<noteq> None \<and> rq_leased_by r \<noteq> None \<and> rq_lease_expires_at r \<noteq> None \<and> 1 \<le> rq_attempt_count r) \<and>
     (rq_state r \<noteq> Running \<longrightarrow> rq_lease_id r = None \<and> rq_leased_by r = None \<and> rq_lease_expires_at r = None) \<and>
     (terminal (rq_state r) \<longrightarrow> rq_result r \<noteq> None \<and> rq_completed_at r \<noteq> None) \<and>
     (\<not> terminal (rq_state r) \<longrightarrow> rq_completed_at r = None) \<and>
     (rq_state r \<in> {Failed, Cancelled} \<longrightarrow> rq_error r \<noteq> None) \<and> (rq_state r = Completed \<longrightarrow> rq_error r = None)"

definition events_ok :: "queue_db \<Rightarrow> bool" where
  "events_ok db \<longleftrightarrow> 0 \<le> last_event_id db \<and> map ev_id (events db) = [1..last_event_id db]"

definition core :: "queue_db \<Rightarrow> bool" where
  "core db \<longleftrightarrow> sql_keyed rq_request_id (requests db) \<and> sql_keyed bt_batch_id (batches db) \<and>
     (\<forall>r \<in> set (requests db). row_ok r) \<and> (\<forall>r \<in> set (requests db). rq_batch_id r \<in> bt_batch_id ` set (batches db)) \<and>
     leases_ok db \<and> kv_ok db \<and> events_ok db"

definition batch_fresh :: "request_row list \<Rightarrow> batch_row \<Rightarrow> bool" where
  "batch_fresh rows b \<longleftrightarrow>
     bt_counts b = state_count rows (bt_batch_id b) \<and> bt_request_count b = batch_total rows (bt_batch_id b) \<and>
     bt_state b = batch_state_of (bt_request_count b) (bt_counts b)"

definition fresh_outside :: "string set \<Rightarrow> queue_db \<Rightarrow> bool" where
  "fresh_outside S db \<longleftrightarrow> (\<forall>b \<in> set (batches db). bt_batch_id b \<notin> S \<longrightarrow> batch_fresh (requests db) b)"

definition queue_ok :: "queue_db \<Rightarrow> bool" where
  "queue_ok db \<longleftrightarrow> core db \<and> fresh_outside {} db"

named_theorems core_intros \<open>single writes keep the core invariant\<close>

section \<open>Single writes\<close>

lemma map_sql_update_in:
  "(\<And>r. r \<in> set t \<Longrightarrow> p r \<Longrightarrow> key (f r) = key r) \<Longrightarrow> map key (sql_update p f t) = map key t"
  by (induction t) auto

lemma core_event [core_intros]: "core db \<Longrightarrow> core (db_event now rid t s p db)"
  by (simp add: core_def leases_ok_def kv_ok_def events_ok_def db_event_def upto_rec2)

lemma core_notice [core_intros]: "core db \<Longrightarrow> core (write_notice rid s v db)"
  by (simp add: core_def leases_ok_def kv_ok_def events_ok_def)

lemma refresh_row_id [simp]: "bt_batch_id (refresh_row now rows b) = bt_batch_id b"
  by (simp add: refresh_row_def)

lemma refresh_batch_ids [simp]: "map bt_batch_id (batches (refresh_batch now bid db)) = map bt_batch_id (batches db)"
  by (simp add: refresh_batch_def map_sql_update_same)

lemma core_batches_cong:
  assumes "core db" and "map bt_batch_id (batches db') = map bt_batch_id (batches db)"
    and "requests db' = requests db" "compute_leases db' = compute_leases db" "kv_entries db' = kv_entries db"
      "kv_shards db' = kv_shards db" "events db' = events db" "last_event_id db' = last_event_id db"
  shows "core db'"
proof -
  have "bt_batch_id ` set (batches db') = bt_batch_id ` set (batches db)"
    using arg_cong [OF assms(2), of set] by simp
  then show ?thesis using assms by (simp add: core_def leases_ok_def kv_ok_def events_ok_def sql_keyed_def)
qed

lemma core_refresh [core_intros]: "core db \<Longrightarrow> core (refresh_batch now bid db)"
  by (rule core_batches_cong) simp_all

lemma core_refreshes [core_intros]: "core db \<Longrightarrow> core (refresh_batches now bids db)"
  unfolding refresh_batches_def by (induction bids arbitrary: db) (auto intro: core_refresh)

lemma core_delete_kv [core_intros]: "core db \<Longrightarrow> core (delete_request_kv rid db)"
  using kv_ok_delete [of db rid] by (simp add: core_def leases_ok_def events_ok_def)

lemma core_release [core_intros]: "core db \<Longrightarrow> core (release_unused_compute_lease l db)"
  using release_leases_ok [of db l] by (simp add: core_def kv_ok_def events_ok_def)

lemma core_idle_kv [core_intros]: "core db \<Longrightarrow> core (idle_request_kv now rid db)"
  by (auto simp: core_def leases_ok_def kv_ok_def events_ok_def idle_request_kv_def in_sql_update
      sql_keyed_update kve_id_def kvs_id_def)

lemma core_update:
  assumes "core db"
    and "\<And>r. r \<in> set (requests db) \<Longrightarrow> p r \<Longrightarrow> row_ok r \<Longrightarrow>
      rq_request_id (f r) = rq_request_id r \<and> rq_batch_id (f r) = rq_batch_id r \<and> row_ok (f r)"
  shows "core (update_requests p f db)"
proof -
  have k: "map rq_request_id (sql_update p f (requests db)) = map rq_request_id (requests db)"
    using assms by (intro map_sql_update_in) (simp add: core_def)
  have "row_ok r \<and> rq_batch_id r \<in> bt_batch_id ` set (batches db)" if "r \<in> set (sql_update p f (requests db))" for r
    using that assms by (auto simp: core_def in_sql_update)
  then show ?thesis using assms(1) k by (simp add: core_def leases_ok_def kv_ok_def events_ok_def sql_keyed_def)
qed

lemma core_leases:
  "core db \<Longrightarrow> leases_ok (db\<lparr>compute_leases := t\<rparr>) \<Longrightarrow> core (db\<lparr>compute_leases := t\<rparr>)"
  by (simp add: core_def kv_ok_def events_ok_def)

section \<open>Freshness of the batch counters\<close>

lemma fresh_mono: "fresh_outside S db \<Longrightarrow> S \<subseteq> T \<Longrightarrow> fresh_outside T db"
  by (auto simp: fresh_outside_def)

lemma fresh_cong:
  "fresh_outside S db \<Longrightarrow> batches db' = batches db \<Longrightarrow> requests db' = requests db \<Longrightarrow> fresh_outside S db'"
  by (simp add: fresh_outside_def)

lemma sql_count_update_frame:
  assumes "\<And>r. r \<in> set t \<Longrightarrow> p r \<Longrightarrow> q (f r) = q r"
  shows "sql_count q (sql_update p f t) = sql_count q t"
  using assms by (induction t) auto

lemma fresh_update:
  assumes "fresh_outside S db"
    and "\<And>r. r \<in> set (requests db) \<Longrightarrow> p r \<Longrightarrow> rq_batch_id r \<in> S \<and> rq_batch_id (f r) = rq_batch_id r"
  shows "fresh_outside S (update_requests p f db)"
proof -
  have "batch_fresh (sql_update p f (requests db)) b" if "b \<in> set (batches db)" "bt_batch_id b \<notin> S" for b
  proof -
    have "sql_count (\<lambda>r. rq_batch_id r = bt_batch_id b \<and> P r) (sql_update p f (requests db)) =
        sql_count (\<lambda>r. rq_batch_id r = bt_batch_id b \<and> P r) (requests db)" for P
    proof (intro sql_count_update_frame)
      fix r assume "r \<in> set (requests db)" "p r"
      then have "rq_batch_id r \<noteq> bt_batch_id b" "rq_batch_id (f r) = rq_batch_id r" using assms(2) [of r] that(2) by auto
      then show "(rq_batch_id (f r) = bt_batch_id b \<and> P (f r)) = (rq_batch_id r = bt_batch_id b \<and> P r)" by simp
    qed
    from this [of "\<lambda>r. rq_state r = _"] this [of "\<lambda>r. True"]
    have "state_count (sql_update p f (requests db)) (bt_batch_id b) = state_count (requests db) (bt_batch_id b)"
        "batch_total (sql_update p f (requests db)) (bt_batch_id b) = batch_total (requests db) (bt_batch_id b)"
      by (simp_all add: state_count_def batch_total_def fun_eq_iff)
    then show ?thesis using assms(1) that by (simp add: batch_fresh_def fresh_outside_def)
  qed
  then show ?thesis by (simp add: fresh_outside_def)
qed

lemma batch_fresh_refresh_row: "batch_fresh rows (refresh_row now rows b)"
  by (simp add: batch_fresh_def refresh_row_def)

lemma fresh_refresh:
  assumes "fresh_outside S db"
  shows "fresh_outside (S - {bid}) (refresh_batch now bid db)"
proof -
  have "batch_fresh (requests db) b"
    if b: "b \<in> set (sql_update (\<lambda>b. bt_batch_id b = bid) (refresh_row now (requests db)) (batches db))" and n: "bt_batch_id b \<notin> S - {bid}" for b
  proof -
    obtain c where c: "c \<in> set (batches db)" "b = (if bt_batch_id c = bid then refresh_row now (requests db) c else c)"
      using b by (auto simp: in_sql_update)
    show ?thesis
    proof (cases "bt_batch_id c = bid")
      case True
      then show ?thesis using c batch_fresh_refresh_row by simp
    next
      case False
      then show ?thesis using c n assms by (simp add: fresh_outside_def)
    qed
  qed
  then show ?thesis by (simp add: fresh_outside_def refresh_batch_def)
qed

lemma fresh_refreshes: "fresh_outside S db \<Longrightarrow> fresh_outside (S - set bids) (refresh_batches now bids db)"
  unfolding refresh_batches_def
proof (induction bids arbitrary: S db)
  case Nil
  then show ?case by simp
next
  case (Cons b bids)
  have "fresh_outside (S - {b}) (refresh_batch now b db)" by (rule fresh_refresh [OF Cons.prems])
  from Cons.IH [OF this] show ?case by (simp add: Diff_insert2 [symmetric] insert_commute)
qed

lemma fresh_one: "fresh_outside {bid} db \<Longrightarrow> fresh_outside {} (refresh_batch now bid db)"
  using fresh_refresh [of "{bid}" db bid now] by simp

lemma queue_okI: "core db \<Longrightarrow> fresh_outside {} db \<Longrightarrow> queue_ok db"
  by (simp add: queue_ok_def)

lemma queue_okD: "queue_ok db \<Longrightarrow> core db" "queue_ok db \<Longrightarrow> fresh_outside S db"
  by (auto simp: queue_ok_def intro: fresh_mono)

lemma empty_queue_ok: "queue_ok empty_db"
  by (simp add: queue_ok_def core_def empty_db_def leases_ok_def kv_ok_def events_ok_def fresh_outside_def)

section \<open>Every operation\<close>

lemma idle_kv_frame [simp]:
  "batches (idle_request_kv now rid db) = batches db" "requests (idle_request_kv now rid db) = requests db"
  "events (idle_request_kv now rid db) = events db" "compute_leases (idle_request_kv now rid db) = compute_leases db"
  "last_event_id (idle_request_kv now rid db) = last_event_id db"
  by (simp_all add: idle_request_kv_def)

lemma keyed_same: "core db \<Longrightarrow> r \<in> set (requests db) \<Longrightarrow> s \<in> set (requests db) \<Longrightarrow> rq_request_id r = rq_request_id s \<Longrightarrow> r = s"
  by (auto simp: core_def intro: sql_keyed_eq)

lemma row_ok_in: "core db \<Longrightarrow> r \<in> set (requests db) \<Longrightarrow> row_ok r"
  by (simp add: core_def)

lemma close_row_simps [simp]:
  "rq_request_id (close_row now s v e r) = rq_request_id r" "rq_batch_id (close_row now s v e r) = rq_batch_id r"
  "rq_state (close_row now s v e r) = s" "rq_result (close_row now s v e r) = Some (JObj v)"
  "rq_error (close_row now s v e r) = e" "rq_completed_at (close_row now s v e r) = Some now"
  "rq_attempt_count (close_row now s v e r) = rq_attempt_count r" "rq_lease_id (close_row now s v e r) = rq_lease_id r"
  "rq_leased_by (close_row now s v e r) = rq_leased_by r" "rq_lease_expires_at (close_row now s v e r) = rq_lease_expires_at r"
  by (simp_all add: close_row_def)

lemma row_ok_close:
  assumes "row_ok r" and "terminal s" and "s = Completed \<longleftrightarrow> e = None"
  shows "row_ok (clear_lease (close_row now s v e r))" and "rq_state r \<noteq> Running \<Longrightarrow> row_ok (close_row now s v e r)"
  using assms by (cases s; auto simp: row_ok_def)+

lemma requeue_row_simps [simp]:
  "rq_request_id (requeue_row now r) = rq_request_id r" "rq_batch_id (requeue_row now r) = rq_batch_id r"
  "rq_state (requeue_row now r) = Queued" "rq_attempt_count (requeue_row now r) = rq_attempt_count r"
  "rq_lease_id (requeue_row now r) = None" "rq_leased_by (requeue_row now r) = None"
  "rq_lease_expires_at (requeue_row now r) = None" "rq_completed_at (requeue_row now r) = rq_completed_at r"
  "rq_error (requeue_row now r) = rq_error r" "rq_compute_lease_id (requeue_row now r) = None"
  by (simp_all add: requeue_row_def)

lemma row_ok_requeue: "row_ok r \<Longrightarrow> \<not> terminal (rq_state r) \<Longrightarrow> row_ok (requeue_row now r)"
  by (auto simp: row_ok_def)

lemma row_ok_update_plain:
  "row_ok (r\<lparr>rq_ready_at := a\<rparr>) = row_ok r" "row_ok (r\<lparr>rq_cancel_requested := c\<rparr>) = row_ok r"
  "row_ok (r\<lparr>rq_updated_at := u\<rparr>) = row_ok r" "row_ok (r\<lparr>rq_compute_lease_id := l\<rparr>) = row_ok r"
  "row_ok (r\<lparr>rq_heartbeat_at := h\<rparr>) = row_ok r" "row_ok (r\<lparr>rq_kv_shard_count := n\<rparr>) = row_ok r"
  "row_ok (r\<lparr>rq_kv_shard_bytes := n\<rparr>) = row_ok r"
  by (simp_all add: row_ok_def)

lemma find_running_under:
  "find (running_under rid lease) t = Some row \<Longrightarrow>
     row \<in> set t \<and> rq_request_id row = rid \<and> rq_lease_id row = Some lease \<and> rq_state row = Running"
  by (drule find_Some_in) (auto simp: running_under_def)

lemma finish_ok:
  assumes ok: "queue_ok db" and fin: "finish_request now rid lease st res err db = Inr (db', b)"
  shows "queue_ok db'"
proof (cases "find (running_under rid lease) (requests db)")
  case None
  then show ?thesis using ok fin by (auto simp: finish_request_def split: if_splits)
next
  case (Some row)
  note row = find_running_under [OF Some]
  have c: "core db" by (rule queue_okD [OF ok])
  have t: "terminal st" using fin by (auto simp: finish_request_def split: if_splits)
  define final where "final = finish_state row st"
  have tf: "terminal final" using t by (simp add: final_def finish_state_def)
  let ?f = "\<lambda>r. clear_lease (close_row now final (if final = Cancelled then ignored_result res else res) (finish_error final err) r)"
  let ?u = "update_requests (running_under rid lease) ?f db"
  have e: "final = Completed \<longleftrightarrow> finish_error final err = None" by (cases err) (simp_all add: finish_error_def)
  have same: "r = row" if "r \<in> set (requests db)" "running_under rid lease r" for r
    using keyed_same [OF c that(1)] row that(2) by (simp add: running_under_def)
  have cu: "core ?u"
    by (rule core_update [OF c]) (simp add: row_ok_close(1) [OF _ tf e])
  have "fresh_outside {rq_batch_id row} ?u"
    by (rule fresh_update [OF queue_okD(2) [OF ok]]) (use same in simp)
  define mid where "mid = release_unused_compute_lease (rq_compute_lease_id row)
      (if opt_truthy (rq_kv_key row) then idle_request_kv now rid ?u else ?u)"
  have m: "core mid" using cu by (simp add: mid_def core_intros)
  have fm: "fresh_outside {rq_batch_id row} (db_event now rid (state_name final) (state_name final)
      [(''batch_id'', JStr (rq_batch_id row)), (''service_id'', jopt (rq_service_id row))] mid)"
    using \<open>fresh_outside {rq_batch_id row} ?u\<close> by (rule fresh_cong) (simp_all add: mid_def)
  have db': "db' = write_notice rid (state_name final) (JObj (if final = Cancelled then ignored_result res else res))
     (refresh_batch now (rq_batch_id row) (db_event now rid (state_name final) (state_name final)
      [(''batch_id'', JStr (rq_batch_id row)), (''service_id'', jopt (rq_service_id row))] mid))"
    using fin t Some by (simp add: finish_request_def Let_def final_def [symmetric] mid_def)
  show ?thesis unfolding db'
    by (intro queue_okI core_intros m fresh_cong [OF fresh_one [OF fm]]) simp_all
qed

text \<open>
  The three ways a retry ends and the finish above share one shape: the running row changes, its KV
  entries and compute lease follow, an event is logged and its batch is refreshed.
\<close>

lemma one_row_ok:
  assumes ok: "queue_ok db" and row: "row \<in> set (requests db)"
    and p: "\<And>r. r \<in> set (requests db) \<Longrightarrow> p r \<Longrightarrow> rq_request_id r = rq_request_id row"
    and f: "row_ok row \<Longrightarrow> p row \<Longrightarrow> rq_request_id (f row) = rq_request_id row \<and> rq_batch_id (f row) = rq_batch_id row \<and> row_ok (f row)"
    and c: "core (update_requests p f db) \<Longrightarrow> core d"
    and d: "batches d = batches db" "requests d = requests (update_requests p f db)"
  shows "queue_ok (refresh_batch now (rq_batch_id row) d)"
proof -
  have co: "core db" by (rule queue_okD [OF ok])
  have same: "r = row" if "r \<in> set (requests db)" "p r" for r
    using keyed_same [OF co that(1) row p [OF that]] .
  have cu: "core (update_requests p f db)"
    by (rule core_update [OF co]) (use same f in blast)
  have "fresh_outside {rq_batch_id row} (update_requests p f db)"
    by (rule fresh_update [OF queue_okD(2) [OF ok]]) (use same f row_ok_in [OF co row] in blast)
  then have "fresh_outside {rq_batch_id row} d" by (rule fresh_cong) (simp_all add: d)
  then show ?thesis by (intro queue_okI core_refresh c [OF cu] fresh_one)
qed

lemma update_delete_kv: "update_requests p f (delete_request_kv rid db) = delete_request_kv rid (update_requests p f db)"
  by (simp add: update_requests_def delete_request_kv_def)

lemma queue_ok_notice: "queue_ok db \<Longrightarrow> queue_ok (write_notice rid s v db)"
  using fresh_cong [of "{}" db "write_notice rid s v db"] by (auto simp: queue_ok_def intro: core_intros)

lemma retry_ok:
  assumes ok: "queue_ok db" and ret: "retry_transport_failure now rid lease res mx db = (db', out)"
  shows "queue_ok db'"
proof (cases "find (running_under rid lease) (requests db)")
  case None
  then show ?thesis using ok ret by (simp add: retry_transport_failure_def)
next
  case (Some row)
  note row = find_running_under [OF Some]
  note shape = one_row_ok [OF ok conjunct1 [OF row], where p = "running_under rid lease" and now = now]
  have p: "r \<in> set (requests db) \<Longrightarrow> running_under rid lease r \<Longrightarrow> rq_request_id r = rq_request_id row" for r
    using row by (simp add: running_under_def)
  have closed: "queue_ok (write_notice rid nm v (refresh_batch now (rq_batch_id row) (db_event now rid ty nm2 e
      (release_unused_compute_lease l (delete_request_kv rid
        (update_requests (running_under rid lease) (\<lambda>r. clear_lease (close_row now fin fr (Some er) r)) db))))))"
    if "fin = Cancelled \<or> fin = Failed" for nm v ty nm2 e l fin fr er
  proof (intro queue_ok_notice shape [where f = "\<lambda>r. clear_lease (close_row now fin fr (Some er) r)"])
    show "row_ok row \<Longrightarrow> running_under rid lease row \<Longrightarrow>
      rq_request_id (clear_lease (close_row now fin fr (Some er) row)) = rq_request_id row \<and>
      rq_batch_id (clear_lease (close_row now fin fr (Some er) row)) = rq_batch_id row \<and>
      row_ok (clear_lease (close_row now fin fr (Some er) row))"
      using row_ok_close(1) [of row fin "Some er" now fr] that by auto
  qed (use p in \<open>simp_all add: core_intros\<close>)
  have requeued: "queue_ok (refresh_batch now (rq_batch_id row) (db_event now rid ty nm e
      (release_unused_compute_lease l (update_requests (running_under rid lease)
         (\<lambda>r. requeue_row now r\<lparr>rq_ready_at := None, rq_result := None, rq_error := er\<rparr>) (delete_request_kv rid db)))))"
    for ty nm e l er
    unfolding update_delete_kv
  proof (intro shape [where f = "\<lambda>r. requeue_row now r\<lparr>rq_ready_at := None, rq_result := None, rq_error := er\<rparr>"])
    show "row_ok row \<Longrightarrow> running_under rid lease row \<Longrightarrow>
      rq_request_id (requeue_row now row\<lparr>rq_ready_at := None, rq_result := None, rq_error := er\<rparr>) = rq_request_id row \<and>
      rq_batch_id (requeue_row now row\<lparr>rq_ready_at := None, rq_result := None, rq_error := er\<rparr>) = rq_batch_id row \<and>
      row_ok (requeue_row now row\<lparr>rq_ready_at := None, rq_result := None, rq_error := er\<rparr>)"
      using row by (simp add: row_ok_def)
  qed (use p in \<open>simp_all add: core_intros\<close>)
  show ?thesis using ret Some closed requeued
    by (auto simp: retry_transport_failure_def Let_def split: if_splits)
qed

text \<open>
  Loops over a snapshot of rows: a turn only touches the row it is about, so the later rows of the
  snapshot are still the current ones when their turn comes.
\<close>

definition only_row :: "string \<Rightarrow> request_row list \<Rightarrow> request_row list \<Rightarrow> bool" where
  "only_row rid t t' \<longleftrightarrow>
     list_all2 (\<lambda>r r'. rq_request_id r' = rq_request_id r \<and> rq_batch_id r' = rq_batch_id r \<and>
        (rq_request_id r \<noteq> rid \<longrightarrow> r' = r)) t t'"

lemma only_row_refl [simp]: "only_row rid t t"
  by (simp add: only_row_def list_all2_same)

lemma only_row_in: "only_row rid t t' \<Longrightarrow> r \<in> set t \<Longrightarrow> rq_request_id r \<noteq> rid \<Longrightarrow> r \<in> set t'"
  by (auto simp: only_row_def in_set_conv_nth list_all2_conv_all_nth)

lemma only_row_update:
  assumes "\<And>r. r \<in> set t \<Longrightarrow> p r \<Longrightarrow> rq_request_id r = rid \<and> rq_request_id (f r) = rid \<and> rq_batch_id (f r) = rq_batch_id r"
  shows "only_row rid t (sql_update p f t)"
  using assms by (auto simp: only_row_def list_all2_conv_all_nth sql_update_def)

lemma only_row_trans: "only_row rid t u \<Longrightarrow> only_row rid u v \<Longrightarrow> only_row rid t v"
  by (auto simp: only_row_def list_all2_conv_all_nth)

definition loop_ok :: "string set \<Rightarrow> queue_db \<Rightarrow> bool" where
  "loop_ok S db \<longleftrightarrow> core db \<and> fresh_outside S db"

definition turn_ok :: "string set \<Rightarrow> request_row \<Rightarrow> queue_db \<Rightarrow> queue_db \<Rightarrow> bool" where
  "turn_ok S row db db' \<longleftrightarrow> loop_ok S db' \<and> only_row (rq_request_id row) (requests db) (requests db')"

lemma turn_okI:
  assumes "loop_ok S db" and "row \<in> set (requests db)" and "rq_batch_id row \<in> S"
    and p: "\<And>r. r \<in> set (requests db) \<Longrightarrow> p r \<Longrightarrow> rq_request_id r = rq_request_id row"
    and f: "row_ok row \<Longrightarrow> p row \<Longrightarrow> rq_request_id (f row) = rq_request_id row \<and> rq_batch_id (f row) = rq_batch_id row \<and> row_ok (f row)"
    and c: "core (update_requests p f db) \<Longrightarrow> core d"
    and d: "batches d = batches db" "requests d = sql_update p f (requests db)"
  shows "turn_ok S row db d"
proof -
  have co: "core db" and fr: "fresh_outside S db" using assms(1) by (simp_all add: loop_ok_def)
  have same: "r = row" if "r \<in> set (requests db)" "p r" for r
    using keyed_same [OF co that(1) assms(2) p [OF that]] .
  have ok: "row_ok row" by (rule row_ok_in [OF co assms(2)])
  have "core (update_requests p f db)"
    by (rule core_update [OF co]) (use same f in blast)
  moreover have "fresh_outside S (update_requests p f db)"
    by (rule fresh_update [OF fr]) (use same f ok assms(3) in blast)
  then have "fresh_outside S d" by (rule fresh_cong) (simp_all add: d)
  moreover have "only_row (rq_request_id row) (requests db) (sql_update p f (requests db))"
    by (rule only_row_update) (use same f ok in metis)
  ultimately show ?thesis using c d by (simp add: turn_ok_def loop_ok_def)
qed

lemma turn_ok_same: "loop_ok S db \<Longrightarrow> turn_ok S row db db"
  by (simp add: turn_ok_def)

lemma foldE_rows:
  assumes "foldE g acc xs = Inr acc'" and "distinct (map (\<lambda>x. rq_request_id (rw x)) xs)" and "rw ` set xs \<subseteq> set (requests (get acc))"
    and "P acc"
    and "\<And>acc x acc'. x \<in> set xs \<Longrightarrow> P acc \<Longrightarrow> rw x \<in> set (requests (get acc)) \<Longrightarrow> g acc x = Inr acc' \<Longrightarrow>
       P acc' \<and> only_row (rq_request_id (rw x)) (requests (get acc)) (requests (get acc'))"
  shows "P acc'"
  using assms
proof (induction xs arbitrary: acc)
  case Nil
  then show ?case by simp
next
  case (Cons x xs)
  obtain b where b: "g acc x = Inr b" "foldE g b xs = Inr acc'" using Cons.prems(1) by (auto simp: bindE_eq_Inr)
  have "P b \<and> only_row (rq_request_id (rw x)) (requests (get acc)) (requests (get b))"
    by (rule Cons.prems(5)) (use Cons.prems(3,4) b in auto)
  then have t: "P b" "only_row (rq_request_id (rw x)) (requests (get acc)) (requests (get b))" by simp_all
  have sub: "rw ` set xs \<subseteq> set (requests (get b))"
  proof
    fix r assume r: "r \<in> rw ` set xs"
    then have "rq_request_id r \<noteq> rq_request_id (rw x)" using Cons.prems(2) by (auto simp: image_iff)
    then show "r \<in> set (requests (get b))" using only_row_in [OF t(2)] r Cons.prems(3) by auto
  qed
  show ?case by (rule Cons.IH [OF b(2) _ sub t(1)]) (use Cons.prems(2,5) in auto)
qed

lemma foldl_rows:
  assumes "distinct (map rq_request_id rows)" and "set rows \<subseteq> set (requests (get acc))" and "P acc"
    and "\<And>acc row. row \<in> set rows \<Longrightarrow> P acc \<Longrightarrow> row \<in> set (requests (get acc)) \<Longrightarrow>
       P (g acc row) \<and> only_row (rq_request_id row) (requests (get acc)) (requests (get (g acc row)))"
  shows "P (foldl g acc rows)"
proof -
  have e: "foldE (\<lambda>a r. Inr (g a r)) acc rows = Inr (foldl g acc rows)" for acc
    by (induction rows arbitrary: acc) simp_all
  show ?thesis by (rule foldE_rows [where get = get and P = P and rw = "\<lambda>r. r", OF e]) (use assms in auto)
qed

lemma loop_okD: "queue_ok db \<Longrightarrow> loop_ok S db"
  by (simp add: loop_ok_def queue_okD)

lemma loop_refreshes: "loop_ok S db \<Longrightarrow> S \<subseteq> set bids \<Longrightarrow> queue_ok (refresh_batches now bids db)"
  using fresh_refreshes [of S db bids now] by (auto simp: loop_ok_def queue_ok_def intro: core_refreshes fresh_mono)

lemma core_distinct_select: "core db \<Longrightarrow> distinct (map rq_request_id (sql_select p k (requests db)))"
  using sql_keyed_select [of rq_request_id "requests db" p k] by (simp add: core_def sql_keyed_def)

lemma cancel_row_ok:
  assumes "loop_ok S db" and "row \<in> set (requests db)" and "rq_batch_id row \<in> S"
  shows "turn_ok S row db (fst (cancel_row now reason force (db, t) row))"
proof -
  consider (t) "terminal (rq_state row)" | (q) "\<not> terminal (rq_state row)" "rq_state row = Running" "\<not> force"
    | (k) "\<not> terminal (rq_state row)" "\<not> (rq_state row = Running \<and> \<not> force)" by blast
  then show ?thesis
  proof cases
    case t
    then show ?thesis using assms by (simp add: cancel_row_def Let_def turn_ok_same)
  next
    case q
    have "turn_ok S row db (update_requests (by_id (rq_request_id row)) (\<lambda>r. r\<lparr>rq_cancel_requested := True, rq_updated_at := now\<rparr>) db)"
      by (rule turn_okI [OF assms, where p = "by_id (rq_request_id row)"]) (simp_all add: by_id_def row_ok_update_plain)
    then show ?thesis using q by (simp add: cancel_row_def Let_def)
  next
    case k
    have "turn_ok S row db (cancel_now now reason row db)"
    proof (rule turn_okI [OF assms, where p = "by_id (rq_request_id row)" and f = "cancel_close now reason row"])
      show "rq_request_id (cancel_close now reason row row) = rq_request_id row \<and>
          rq_batch_id (cancel_close now reason row row) = rq_batch_id row \<and> row_ok (cancel_close now reason row row)" if "row_ok row"
        using row_ok_close(1) [OF that, of Cancelled "Some reason"] row_ok_close(2) [OF that, of Cancelled "Some reason"]
        by (simp add: cancel_close_def Let_def row_ok_update_plain)
    qed (simp_all add: by_id_def cancel_now_def Let_def core_intros)
    then show ?thesis using k by (auto simp: cancel_row_def Let_def)
  qed
qed

lemma cancel_form:
  assumes "cancel now rid batch_id job_id reason force db = Inr (db', reply)"
  shows "\<exists>bid. job_batch_id batch_id job_id = Inr bid \<and> (rid = None) \<noteq> (bid = None) \<and>
    db' = refresh_batches now (remdups (map rq_batch_id (cancel_rows rid bid db)))
      (fst (foldl (cancel_row now reason force) (db, \<lparr>ct_cancelled = [], ct_requested = [], ct_skipped = []\<rparr>) (cancel_rows rid bid db)))"
proof (cases "job_batch_id batch_id job_id")
  case (Inl e)
  then show ?thesis using assms by (simp add: cancel_def)
next
  case (Inr bid)
  then show ?thesis using assms by (intro exI [of _ bid]) (simp add: cancel_def Let_def case_prod_beta split: if_splits)
qed

lemma cancel_rows_ok:
  assumes "core db"
  shows "set (cancel_rows rid bid db) \<subseteq> set (requests db)" "distinct (map rq_request_id (cancel_rows rid bid db))"
  using core_distinct_select [OF assms] assms by (auto simp: cancel_rows_def core_def sql_keyed_def distinct_map_filter)

lemma cancel_ok:
  assumes ok: "queue_ok db" and c: "cancel now rid batch_id job_id reason force db = Inr (db', reply)"
  shows "queue_ok db'"
proof -
  obtain bid where db': "db' = refresh_batches now (remdups (map rq_batch_id (cancel_rows rid bid db)))
      (fst (foldl (cancel_row now reason force) (db, \<lparr>ct_cancelled = [], ct_requested = [], ct_skipped = []\<rparr>) (cancel_rows rid bid db)))"
    using cancel_form [OF c] by (elim exE conjE)
  let ?rows = "cancel_rows rid bid db"
  let ?S = "set (map rq_batch_id ?rows)"
  have "loop_ok ?S (fst (foldl (cancel_row now reason force) (db, \<lparr>ct_cancelled = [], ct_requested = [], ct_skipped = []\<rparr>) ?rows))"
  proof (rule foldl_rows [where get = fst and P = "\<lambda>acc. loop_ok ?S (fst acc)"])
    show "loop_ok ?S (fst (cancel_row now reason force acc row)) \<and>
        only_row (rq_request_id row) (requests (fst acc)) (requests (fst (cancel_row now reason force acc row)))"
      if "row \<in> set ?rows" "loop_ok ?S (fst acc)" "row \<in> set (requests (fst acc))" for acc row
      using cancel_row_ok [OF that(2,3), of now reason force "snd acc"] that(1) by (simp add: turn_ok_def)
  qed (use cancel_rows_ok [OF queue_okD(1) [OF ok]] loop_okD [OF ok] in simp_all)
  then show ?thesis unfolding db' by (rule loop_refreshes) simp
qed

lemma queue_ok_leases:
  assumes "queue_ok db" and "leases_ok (db\<lparr>compute_leases := t\<rparr>)"
  shows "queue_ok (db\<lparr>compute_leases := t\<rparr>)"
  using assms core_leases [of db t] fresh_cong [of "{}" db "db\<lparr>compute_leases := t\<rparr>"] by (simp add: queue_ok_def)

lemma leases_ok_delete: "leases_ok db \<Longrightarrow> leases_ok (db\<lparr>compute_leases := sql_delete p (compute_leases db)\<rparr>)"
  by (simp add: leases_ok_def sql_keyed_delete)

lemma queue_ok_leases_ok: "queue_ok db \<Longrightarrow> leases_ok db"
  by (simp add: queue_ok_def core_def)

lemma purge_idle_ok: "queue_ok db \<Longrightarrow> queue_ok (purge_idle_compute_leases now db)"
  unfolding purge_idle_compute_leases_def by (intro queue_ok_leases leases_ok_delete queue_ok_leases_ok)

lemma expire_row_ok:
  assumes ok: "queue_ok db" and row: "row \<in> set (requests db)" and live: "\<not> terminal (rq_state row)"
  shows "queue_ok (fst (expire_row now mx (db, n, m) row)) \<and>
     only_row (rq_request_id row) (requests db) (requests (fst (expire_row now mx (db, n, m) row)))"
proof -
  define f where "f = (if rq_attempt_count row < mx then requeue_row now
     else (\<lambda>r. clear_lease (close_row now Failed
            (failure_result (rq_request_id row) (''lease expired after '' @ show_int (rq_attempt_count row) @ '' attempts''))
            (Some ''lease_expired'') r)))"
  let ?u = "update_requests (by_id (rq_request_id row)) f db"
  let ?w = "expire_write now mx row db"
  have w: "core ?u \<Longrightarrow> core ?w" "batches ?w = batches db" "requests ?w = requests ?u"
    by (cases "rq_attempt_count row < mx"; simp add: expire_write_def f_def Let_def update_delete_kv core_intros)+
  have f: "rq_request_id (f row) = rq_request_id row \<and> rq_batch_id (f row) = rq_batch_id row \<and> row_ok (f row)" if "row_ok row"
    using row_ok_close(1) [OF that, of Failed "Some ''lease_expired''"] row_ok_requeue [OF that live]
    by (simp add: f_def)
  define d where "d = db_event now (rq_request_id row) ''lease_expired'' (if rq_attempt_count row < mx then ''queued'' else ''failed'')
     [(''batch_id'', JStr (rq_batch_id row)), (''attempt_count'', JInt (rq_attempt_count row))]
     (release_unused_compute_lease (rq_compute_lease_id row) ?w)"
  have fst: "fst (expire_row now mx (db, n, m) row) = refresh_batch now (rq_batch_id row) d"
    by (simp add: expire_row_def d_def Let_def)
  have "queue_ok (refresh_batch now (rq_batch_id row) d)"
    by (rule one_row_ok [OF ok row, where p = "by_id (rq_request_id row)" and f = f])
      (use w f in \<open>simp_all add: by_id_def d_def core_intros\<close>)
  moreover have "only_row (rq_request_id row) (requests db) (requests ?u)"
  proof -
    have c: "core db" by (rule queue_okD [OF ok])
    have "row_ok row" by (rule row_ok_in [OF c row])
    then have fr: "rq_request_id (f row) = rq_request_id row" "rq_batch_id (f row) = rq_batch_id row" using f by simp_all
    have "r = row" if "r \<in> set (requests db)" "by_id (rq_request_id row) r" for r
      using keyed_same [OF c that(1) row] that(2) by (simp add: by_id_def)
    then show ?thesis unfolding update_requests_def using fr by (auto intro!: only_row_update)
  qed
  ultimately show ?thesis using w by (simp add: fst d_def)
qed

lemma requeue_expired_ok:
  assumes ok: "queue_ok db"
  shows "queue_ok (fst (requeue_expired_leases now mx db))"
proof -
  let ?d0 = "purge_idle_compute_leases now db"
  have ok0: "queue_ok ?d0" by (rule purge_idle_ok [OF ok])
  have "queue_ok (fst (foldl (expire_row now mx) (?d0, 0, 0) (expired_rows now ?d0)))"
  proof (rule foldl_rows [where get = fst and P = "\<lambda>acc. queue_ok (fst acc)"])
    show "distinct (map rq_request_id (expired_rows now ?d0))"
      using core_distinct_select [OF queue_okD(1) [OF ok0]] by (simp add: expired_rows_def)
    show "queue_ok (fst (expire_row now mx acc row)) \<and>
        only_row (rq_request_id row) (requests (fst acc)) (requests (fst (expire_row now mx acc row)))"
      if "row \<in> set (expired_rows now ?d0)" "queue_ok (fst acc)" "row \<in> set (requests (fst acc))" for acc row
    proof -
      have "\<not> terminal (rq_state row)" using that(1) by (auto simp: expired_rows_def lease_expired_def)
      then show ?thesis using expire_row_ok [OF that(2,3)] by (cases acc) auto
    qed
  qed (use ok0 in \<open>simp_all add: expired_rows_def subset_iff\<close>)
  then show ?thesis by (simp add: requeue_expired_leases_def Let_def case_prod_beta)
qed

lemma no_prefilling: "queue_ok db \<Longrightarrow> release_prefilling now reason stale db = (db, 0)"
proof -
  assume ok: "queue_ok db"
  have "prefilling_rows now stale db = []"
  proof (rule ccontr)
    assume "prefilling_rows now stale db \<noteq> []"
    then obtain r where "r \<in> set (prefilling_rows now stale db)" by (cases "prefilling_rows now stale db") auto
    then have "r \<in> set (requests db)" "rq_state r = Prefilling" by (auto simp: prefilling_rows_def)
    then show False using row_ok_in [OF queue_okD(1) [OF ok], of r] by (simp add: row_ok_def)
  qed
  then show ?thesis by (simp add: release_prefilling_def Let_def)
qed

lemma heartbeat_ok:
  assumes ok: "queue_ok db"
  shows "queue_ok (fst (heartbeat now ids ttl db))"
proof (cases "filter (\<lambda>i. i \<noteq> '''') ids = []")
  case True
  then show ?thesis using ok by (simp add: heartbeat_def)
next
  case False
  let ?ids = "filter (\<lambda>i. i \<noteq> '''') ids"
  let ?f = "\<lambda>r. r\<lparr>rq_heartbeat_at := Some now, rq_lease_expires_at := Some (now + ttl), rq_updated_at := now\<rparr>"
  let ?u = "update_requests (leased_running ?ids) ?f db"
  have c: "core ?u"
    by (rule core_update [OF queue_okD(1) [OF ok]]) (auto simp: leased_running_def row_ok_def)
  have fr: "fresh_outside {} ?u"
  proof -
    have "state_count (sql_update (leased_running ?ids) ?f (requests db)) b = state_count (requests db) b"
        "batch_total (sql_update (leased_running ?ids) ?f (requests db)) b = batch_total (requests db) b" for b
      by (simp_all add: state_count_def batch_total_def fun_eq_iff sql_count_update_frame)
    then show ?thesis using queue_okD(2) [OF ok, of "{}"] by (simp add: fresh_outside_def batch_fresh_def)
  qed
  have u: "queue_ok ?u" using c fr by (rule queue_okI)
  let ?g = "\<lambda>c. c\<lparr>cl_heartbeat_at := now, cl_expires_at := now + ttl, cl_updated_at := now\<rparr>"
  have "leases_ok (?u\<lparr>compute_leases := sql_update q ?g (compute_leases ?u)\<rparr>)" for q
    using queue_ok_leases_ok [OF ok] by (simp add: leases_ok_def sql_keyed_update)
  then show ?thesis using False queue_ok_leases [OF u] by (simp add: heartbeat_def Let_def)
qed

end
