(* ===== verification/Queue_Report.thy ===== *)
theory Queue_Report
  imports Queue_Kv Requests Json_Parse
begin

text \<open>
  The reports of \<^verbatim>\<open>v2/src/ds4_infer/queue.py\<close>: status of a request, a batch and the whole
  queue, usage over a window, the event stream a client polls, results, and the telemetry pipeline stages
  report.  A report of several stages is stored stage by stage, each in its own transaction, so what was
  stored before a bad stage stays; these operations return the database next to the result.
\<close>

section \<open>Status\<close>

definition queue_format :: json where
  "queue_format = JStr ''ds4-inference-queue-v1''"

definition request_status :: "request_row \<Rightarrow> pydict" where
  "request_status r =
     [(''format'', JStr ''ds4-inference-request-status-v1''), (''request_id'', JStr (rq_request_id r)),
      (''batch_id'', JStr (rq_batch_id r)), (''job_id'', JStr (rq_batch_id r)), (''request_kind'', JStr (rq_kind r)),
      (''state'', JStr (state_name (rq_state r))), (''priority'', JInt (rq_priority r)), (''immediate'', JBool (rq_immediate r)),
      (''selected_profile_id'', JStr (rq_profile_id r)), (''selected_node_id'', jopt (rq_node_id r)),
      (''selected_node_ids'', JArr (map JStr (row_node_ids r (rq_node_id r)))), (''selected_service_id'', jopt (rq_service_id r)),
      (''selected_compute_domain'', jopt (rq_compute_domain r)), (''compute_lease_id'', jopt (rq_compute_lease_id r)),
      (''service_name'', jopt (rq_service_name r)), (''lease_id'', jopt (rq_lease_id r)), (''leased_by'', jopt (rq_leased_by r)),
      (''lease_expires_at'', jrat (rq_lease_expires_at r)), (''heartbeat_at'', jrat (rq_heartbeat_at r)),
      (''attempt_count'', JInt (rq_attempt_count r)), (''cancel_requested'', JBool (rq_cancel_requested r)),
      (''created_at'', JFloat (rq_created_at r)), (''updated_at'', JFloat (rq_updated_at r)), (''ready_at'', jrat (rq_ready_at r)),
      (''started_at'', jrat (rq_started_at r)), (''completed_at'', jrat (rq_completed_at r)), (''error'', jopt (rq_error r)),
      (''kv_key'', jopt (rq_kv_key r)), (''kv_bytes'', JInt (rq_kv_bytes r)), (''kv_shard_count'', JInt (rq_kv_shard_count r)),
      (''kv_shard_bytes'', JInt (rq_kv_shard_bytes r))]"

definition batch_status :: "batch_row \<Rightarrow> pydict" where
  "batch_status b =
     [(''format'', JStr ''ds4-inference-batch-status-v1''), (''batch_id'', JStr (bt_batch_id b)), (''job_id'', JStr (bt_batch_id b)),
      (''state'', JStr (bt_state b)), (''request_count'', JInt (int (bt_request_count b)))] @
     map (\<lambda>s. (state_name s @ ''_count'', JInt (int (bt_counts b s))))
       [Queued, Prefilling, Ready, Running, Completed, Failed, Cancelled]"

definition lease_row_status :: "compute_lease \<Rightarrow> json" where
  "lease_row_status c = JObj
     [(''compute_domain'', JStr (cl_domain c)), (''compute_lease_id'', JStr (cl_id c)), (''service_id'', jopt (cl_service c)),
      (''leased_by'', JStr (cl_leased_by c)), (''lease_expires_at'', JFloat (cl_expires_at c)),
      (''heartbeat_at'', JFloat (cl_heartbeat_at c)), (''request_count'', JInt (cl_request_count c)),
      (''created_at'', JFloat (cl_created_at c)), (''updated_at'', JFloat (cl_updated_at c))]"

definition lease_list :: "queue_db \<Rightarrow> json" where
  "lease_list db = JArr (map lease_row_status (sort_key cl_domain (compute_leases db)))"

definition telemetry_status :: "telemetry_row \<Rightarrow> json" where
  "telemetry_status t = JObj
     [(''service_id'', JStr (tm_service t)), (''node_id'', JStr (tm_node t)), (''stage_index'', JInt (tm_stage_index t)),
      (''stage_count'', JInt (tm_stage_count t)), (''layer_start'', jint (tm_layer_start t)), (''layer_end'', jint (tm_layer_end t)),
      (''layer_count'', jint (tm_layer_count t)), (''kv_shard_bytes'', JInt (tm_kv_shard_bytes t)),
      (''reported_at'', JFloat (tm_reported_at t)), (''payload'', JObj (tm_payload t))]"

type_synonym shard_group = "string \<times> int \<times> string \<times> int"

definition shard_group_of :: "kv_shard_entry \<Rightarrow> shard_group" where
  \<comment> \<open>service, stage index, node, stage count: the order of the report\<close>
  "shard_group_of e = (kvs_service e, kvs_stage_index e, kvs_node e, kvs_stage_count e)"

definition opt_list :: "'a option list \<Rightarrow> 'a list" where
  "opt_list xs = map the (filter (\<lambda>x. x \<noteq> None) xs)"

definition group_status :: "kv_shard_entry list \<Rightarrow> shard_group \<Rightarrow> json" where
  "group_status es g =
     (case g of (svc, i, node, n) \<Rightarrow>
        let mine = filter (\<lambda>e. shard_group_of e = g) es;
            starts = opt_list (map kvs_layer_start mine); ends = opt_list (map kvs_layer_end mine)
        in JObj [(''service_id'', JStr svc), (''node_id'', JStr node), (''stage_index'', JInt i), (''stage_count'', JInt n),
                 (''layer_start'', jint (if starts = [] then None else Some (Min (set starts)))),
                 (''layer_end'', jint (if ends = [] then None else Some (Max (set ends)))),
                 (''entries'', JInt (int (length mine))), (''bytes'', JInt (sum_list (map kvs_bytes mine)))])"

definition pipeline_status :: "string option \<Rightarrow> queue_db \<Rightarrow> pydict" where
  "pipeline_status svc db =
     (let pick = (\<lambda>s. \<not> opt_truthy svc \<or> Some s = svc);
          es = filter (\<lambda>e. pick (kvs_service e)) (kv_shards db)
      in [(''format'', JStr ''ds4-pipeline-status-v1''), (''service_id'', jopt svc),
          (''stages'', JArr (map telemetry_status
              (sql_select (\<lambda>t. pick (tm_service t)) (\<lambda>t. (tm_service t, tm_stage_index t, tm_node t)) (telemetry db)))),
          (''kv_shards'', JArr (map (group_status es) (sort (remdups (map shard_group_of es))))),
          (''active_compute_leases'', lease_list db)])"

definition state_order :: "req_state list" where
  \<comment> \<open>the states in the order of their names\<close>
  "state_order = [Cancelled, Completed, Failed, Prefilling, Queued, Ready, Running]"

definition state_counts :: "request_row list \<Rightarrow> pydict" where
  "state_counts rows =
     map (\<lambda>s. (state_name s, JInt (int (sql_count (\<lambda>r. rq_state r = s) rows))))
       (filter (\<lambda>s. sql_count (\<lambda>r. rq_state r = s) rows \<noteq> 0) state_order)"

definition newest_event_id :: "queue_db \<Rightarrow> int" where
  "newest_event_id db = (if events db = [] then 0 else Max (set (map ev_id (events db))))"

definition status ::
  "rat \<Rightarrow> string option \<Rightarrow> string option \<Rightarrow> string option \<Rightarrow> bool \<Rightarrow> queue_db \<Rightarrow> (queue_db \<times> pydict) result"
where
  "status now rid batch_id job_id refresh db =
     bindE (job_batch_id batch_id job_id) (\<lambda>bid.
       case (rid, bid) of
         (Some r, _) \<Rightarrow>
           Inr (db, case find (\<lambda>row. rq_request_id row = r) (requests db) of
                      None \<Rightarrow> [(''format'', JStr ''ds4-inference-request-status-v1''), (''request_id'', JStr r), (''state'', JStr ''unknown'')]
                    | Some row \<Rightarrow> request_status row)
       | (None, Some b) \<Rightarrow>
           (let db1 = (if refresh then refresh_batch now b db else db)
            in Inr (db1, case find (\<lambda>row. bt_batch_id row = b) (batches db1) of
                           None \<Rightarrow> [(''format'', JStr ''ds4-inference-batch-status-v1''), (''batch_id'', JStr b), (''job_id'', JStr b),
                                    (''state'', JStr ''unknown'')]
                         | Some row \<Rightarrow> batch_status row))
       | (None, None) \<Rightarrow>
           Inr (db, [(''format'', queue_format), (''state_counts'', JObj (state_counts (requests db))),
                     (''newest_event_id'', JInt (newest_event_id db)), (''active_compute_leases'', lease_list db),
                     (''pipeline_status'', JObj (pipeline_status None db))]))"

section \<open>Counts and usage\<close>

definition row_service :: "request_row \<Rightarrow> string" where
  \<comment> \<open>\<^verbatim>\<open>coalesce(selected_service_id, 'unassigned')\<close>; service ids are not empty\<close>
  "row_service r = (if opt_truthy (rq_service_id r) then opt_str (rq_service_id r) else ''unassigned'')"

definition service_names :: "request_row list \<Rightarrow> string list" where
  "service_names rows = sort (remdups (map row_service rows))"

definition unfinished_in :: "request_row list \<Rightarrow> string \<Rightarrow> nat" where
  "unfinished_in rows s = sql_count (\<lambda>r. row_service r = s \<and> \<not> terminal (rq_state r)) rows"

definition service_state_counts :: "queue_db \<Rightarrow> pydict" where
  "service_state_counts db =
     (let rows = requests db; names = service_names rows
      in [(''format'', queue_format),
          (''state_counts_by_service'', JObj (map (\<lambda>s. (s, JObj (state_counts (filter (\<lambda>r. row_service r = s) rows)))) names)),
          (''unfinished_by_service'', JObj (map (\<lambda>s. (s, JInt (int (unfinished_in rows s)))) (filter (\<lambda>s. unfinished_in rows s \<noteq> 0) names))),
          (''running_by_service'', JObj (map (\<lambda>s. (s, JInt (int (sql_count (\<lambda>r. row_service r = s \<and> rq_state r = Running) rows))))
              (filter (\<lambda>s. sql_count (\<lambda>r. row_service r = s \<and> rq_state r = Running) rows \<noteq> 0) names)))])"

definition usage_int :: "json \<Rightarrow> int" where
  "usage_int v = (case py_int (por v (JInt 0)) of Inr n \<Rightarrow> max 0 n | Inl _ \<Rightarrow> 0)"

definition result_usage_tokens :: "pydict \<Rightarrow> int \<times> int \<times> int" where
  "result_usage_tokens res =
     (let u = obj_or_empty (dget res ''usage'');
          prompt = usage_int (dget_or u ''input_tokens'' (dget_or u ''prompt_tokens'' (JInt 0)));
          completion = usage_int (dget_or u ''output_tokens'' (dget_or u ''completion_tokens'' (JInt 0)));
          tot = usage_int (dget_or u ''total_tokens'' (JInt 0))
      in (prompt, completion, if tot = 0 \<and> (prompt > 0 \<or> completion > 0) then prompt + completion else tot))"

definition round6 :: "rat \<Rightarrow> rat" where
  \<comment> \<open>\<^verbatim>\<open>round(x, 6)\<close>, ties to even\<close>
  "round6 x =
     (let y = x * 1000000; f = \<lfloor>y\<rfloor>; d = y - of_int f;
          n = (if d < 1 / 2 then f else if d > 1 / 2 then f + 1 else if even f then f else f + 1)
      in of_int n / 1000000)"

definition usage_rows :: "rat \<Rightarrow> rat \<Rightarrow> int \<Rightarrow> queue_db \<Rightarrow> request_row list" where
  "usage_rows start_ts end_ts row_limit db =
     take (nat row_limit)
       (sql_select (\<lambda>r. rq_state r = Completed \<and>
            (case rq_completed_at r of None \<Rightarrow> False | Some t \<Rightarrow> start_ts \<le> t \<and> t \<le> end_ts))
          (\<lambda>r. map_option uminus (rq_completed_at r)) (requests db))"

definition usage :: "rat \<Rightarrow> rat \<Rightarrow> int \<Rightarrow> queue_db \<Rightarrow> pydict" where
  "usage window_s end_ts limit db =
     (let window = max 1 (min 86400 window_s); start_ts = end_ts - window;
          rows = usage_rows start_ts end_ts (max 1 (min 100000 limit)) db;
          tokens = map (\<lambda>r. result_usage_tokens (case rq_result r of Some (JObj d) \<Rightarrow> d | _ \<Rightarrow> [])) rows;
          prompt = sum_list (map fst tokens); completion = sum_list (map (fst \<circ> snd) tokens);
          tot = sum_list (map (snd \<circ> snd) tokens);
          rate = (\<lambda>n. JFloat (round6 (of_int n / window)))
      in [(''format'', queue_format), (''window_s'', JFloat window), (''start_ts'', JFloat start_ts), (''end_ts'', JFloat end_ts),
          (''completed_count'', JInt (int (length rows))),
          (''usage_count'', JInt (int (length (filter (\<lambda>(p, c, t). p > 0 \<or> c > 0 \<or> t > 0) tokens)))),
          (''prompt_tokens'', JInt prompt), (''completion_tokens'', JInt completion), (''total_tokens'', JInt tot),
          (''prompt_tok_s'', rate prompt), (''completion_tok_s'', rate completion), (''total_tok_s'', rate tot)])"

definition unfinished_request_count :: "string list \<Rightarrow> queue_db \<Rightarrow> nat" where
  "unfinished_request_count ids db = sql_count (\<lambda>r. rq_request_id r \<in> set ids \<and> \<not> terminal (rq_state r)) (requests db)"

definition queue_depths :: "string option \<Rightarrow> queue_db \<Rightarrow> (string \<times> nat) list" where
  "queue_depths kind db =
     (let live = (\<lambda>r. rq_state r \<in> {Prefilling, Ready, Running} \<and> rq_node_id r \<noteq> None \<and> (opt_truthy kind \<longrightarrow> Some (rq_kind r) = kind))
      in map (\<lambda>n. (n, sql_count (\<lambda>r. live r \<and> rq_node_id r = Some n) (requests db)))
           (sort (remdups (map (\<lambda>r. opt_str (rq_node_id r)) (filter live (requests db))))))"

section \<open>Events and results\<close>

definition event_json :: "event_row \<Rightarrow> pydict" where
  "event_json e =
     [(''event_id'', JInt (ev_id e)), (''created_at'', JFloat (ev_created_at e)), (''request_id'', JStr (ev_request_id e)),
      (''event_type'', JStr (ev_type e)), (''state'', JStr (ev_state e)), (''payload_json'', JStr (dumps_sorted (ev_payload e))),
      (''payload'', ev_payload e)]"

definition poll_rows :: "int \<Rightarrow> nat \<Rightarrow> queue_db \<Rightarrow> event_row list" where
  "poll_rows after lmt db = take lmt (sql_select (\<lambda>e. after < ev_id e) ev_id (events db))"

definition poll_cursor :: "int \<Rightarrow> event_row list \<Rightarrow> int" where
  \<comment> \<open>\<^verbatim>\<open>max([after_event_id] + [ids])\<close>\<close>
  "poll_cursor after es = foldl max after (map ev_id es)"

definition poll :: "int \<Rightarrow> nat \<Rightarrow> queue_db \<Rightarrow> pydict" where
  "poll after lmt db =
     (let es = poll_rows after lmt db
      in [(''format'', queue_format), (''events'', JArr (map (\<lambda>e. JObj (event_json e)) es)),
          (''newest_event_id'', JInt (poll_cursor after es))])"

definition stream_delta :: "rat \<Rightarrow> string \<Rightarrow> string \<Rightarrow> pydict \<Rightarrow> queue_db \<Rightarrow> queue_db" where
  "stream_delta now rid txt payload db =
     (if txt = '''' then db
      else
        (let st = (case find (\<lambda>r. rq_request_id r = rid) (requests db) of None \<Rightarrow> ''running'' | Some r \<Rightarrow> state_name (rq_state r))
         in db_event now rid ''delta'' st (dset ''text'' (JStr txt) payload) db))"

definition collected :: "request_row \<Rightarrow> pydict" where
  "collected r = [(''request'', JObj (request_status r)), (''result'', case rq_result r of None \<Rightarrow> JNull | Some v \<Rightarrow> v)]"

definition collect :: "string option \<Rightarrow> string option \<Rightarrow> string option \<Rightarrow> queue_db \<Rightarrow> pydict result" where
  "collect rid batch_id job_id db =
     bindE (job_batch_id batch_id job_id) (\<lambda>bid.
       if (rid = None) = (bid = None) then Inl (ValueError ''exactly one of request_id, batch_id, or job_id is required'')
       else if opt_truthy rid then
         (case filter (\<lambda>r. Some (rq_request_id r) = rid) (requests db) of
            [] \<Rightarrow> Inr [(''format'', queue_format), (''request_id'', jopt rid), (''state'', JStr ''unknown'')]
          | r # _ \<Rightarrow> Inr (collected r))
       else
         Inr [(''format'', queue_format), (''batch_id'', jopt bid), (''job_id'', jopt bid),
              (''results'', JArr (map (\<lambda>r. JObj (collected r)) (sql_select (\<lambda>r. Some (rq_batch_id r) = bid) rq_request_id (requests db))))])"

section \<open>Pipeline telemetry\<close>

definition tm_id :: "telemetry_row \<Rightarrow> string \<times> string \<times> int" where
  "tm_id t = (tm_service t, tm_node t, tm_stage_index t)"

definition report_pipeline_telemetry ::
  "rat \<Rightarrow> string \<Rightarrow> string \<Rightarrow> int \<Rightarrow> int \<Rightarrow> int option \<Rightarrow> int option \<Rightarrow> int \<Rightarrow> pydict \<Rightarrow> rat option \<Rightarrow> queue_db \<Rightarrow>
   queue_db \<times> pydict result"
where
  "report_pipeline_telemetry clock svc node i n layer_start layer_end shard_bytes payload reported_at db =
     (if i < 0 \<or> n < 1 \<or> i \<ge> n then (db, Inl (ValueError ''invalid pipeline stage index/count''))
      else
        (let now = (case reported_at of None \<Rightarrow> clock | Some t \<Rightarrow> t);
             row = \<lparr>tm_service = svc, tm_node = node, tm_stage_index = i, tm_stage_count = n, tm_layer_start = layer_start,
                    tm_layer_end = layer_end,
                    tm_layer_count = (case (layer_start, layer_end) of (Some s, Some e) \<Rightarrow> Some (e - s) | _ \<Rightarrow> None),
                    tm_kv_shard_bytes = max 0 shard_bytes, tm_payload = payload, tm_reported_at = now\<rparr>
         in (db\<lparr>telemetry := sql_replace tm_id row (telemetry db)\<rparr>,
             Inr [(''format'', JStr ''ds4-pipeline-status-v1''), (''state'', JStr ''reported''), (''service_id'', JStr svc),
                  (''node_id'', JStr node), (''stage_index'', JInt i), (''reported_at'', JFloat now)])))"

text \<open>
  \<^verbatim>\<open>record_pipeline_telemetry\<close> takes one stage, or a list of stages with fields in common; a
  stage of the list may itself be a list, so the recursion descends into the \<^verbatim>\<open>stages\<close> value.
\<close>

definition report_fields :: "string list" where
  "report_fields = [''service_id'', ''node_id'', ''stage_index'', ''stage_count'', ''layer_start'', ''layer_end'',
     ''kv_shard_bytes'', ''reported_at'']"

definition report_payload :: "pydict \<Rightarrow> pydict result" where
  "report_payload report =
     (case dget report ''payload'' of
        JObj d \<Rightarrow> Inr d
      | _ \<Rightarrow>
          (case dget report ''payload_json'' of
             JNull \<Rightarrow> Inr (filter (\<lambda>(k, _). k \<notin> set report_fields) report)
           | JStr s \<Rightarrow> (case json_loads s of
                          Some (JObj d) \<Rightarrow> Inr d
                        | Some _ \<Rightarrow> Inl (ValueError ''pipeline telemetry payload_json must decode to an object'')
                        | None \<Rightarrow> Inl (ValueError ''invalid JSON''))
           | JObj d \<Rightarrow> Inr d
           | _ \<Rightarrow> Inl (ValueError ''pipeline telemetry payload_json must decode to an object'')))"

definition opt_int :: "json \<Rightarrow> int option result" where
  "opt_int v = (if v = JNull then Inr None else bindE (py_int v) (\<lambda>n. Inr (Some n)))"

definition opt_float :: "json \<Rightarrow> rat option result" where
  "opt_float v = (if v = JNull then Inr None else bindE (py_float v) (\<lambda>n. Inr (Some n)))"

definition record_stage :: "rat \<Rightarrow> pydict \<Rightarrow> queue_db \<Rightarrow> queue_db \<times> pydict result" where
  "record_stage clock report db =
     (case bindE (report_payload report) (\<lambda>payload.
           bindE (dindex report ''service_id'') (\<lambda>svc.
           bindE (dindex report ''node_id'') (\<lambda>node.
           bindE (bindE (dindex report ''stage_index'') py_int) (\<lambda>i.
           bindE (bindE (dindex report ''stage_count'') py_int) (\<lambda>n.
           bindE (opt_int (dget report ''layer_start'')) (\<lambda>ls.
           bindE (opt_int (dget report ''layer_end'')) (\<lambda>le.
           bindE (py_int (por (dget_or report ''kv_shard_bytes'' (JInt 0)) (JInt 0))) (\<lambda>bytes.
           bindE (opt_float (dget report ''reported_at'')) (\<lambda>ts.
           Inr (payload, py_str svc, py_str node, i, n, ls, le, bytes, ts)))))))))) of
        Inl e \<Rightarrow> (db, Inl e)
      | Inr (payload, svc, node, i, n, ls, le, bytes, ts) \<Rightarrow>
          report_pipeline_telemetry clock svc node i n ls le bytes payload ts db)"

definition stage_list :: "pydict \<Rightarrow> json list option" where
  "stage_list report = (case dget report ''stages'' of JArr xs \<Rightarrow> Some xs | _ \<Rightarrow> None)"

definition merged_report :: "pydict \<Rightarrow> pydict \<Rightarrow> pydict" where
  "merged_report report item = dupdate (dpop ''stages'' report) item"

definition collect_stage :: "(queue_db \<Rightarrow> queue_db \<times> pydict result) \<Rightarrow> queue_db \<times> (json list) result \<Rightarrow> queue_db \<times> (json list) result" where
  \<comment> \<open>run one stage unless an earlier one failed\<close>
  "collect_stage run acc =
     (case acc of
        (db, Inl e) \<Rightarrow> (db, Inl e)
      | (db, Inr results) \<Rightarrow> (case run db of (db', r) \<Rightarrow> (db', bindE r (\<lambda>d. Inr (results @ [JObj d])))))"

lemma size_map_of: "map_of d k = Some v \<Longrightarrow> size v < size_list (\<lambda>p. size_prod (\<lambda>_. 0) size p) d"
  by (induction d) (auto split: if_splits)

lemma size_list_rev: "size_list f (rev xs) = size_list f xs"
  by (induction xs) (simp_all add: size_list_append)

lemma size_merged_stages:
  assumes "stage_list (merged_report report item) = Some ys" and "JObj item \<in> set xs"
  shows "size_list size ys < size_list size xs"
proof -
  have "map_of (rev item) ''stages'' = Some (JArr ys)"
    using assms(1) by (auto simp: stage_list_def merged_report_def dget_def dget_or_def map_of_dupdate map_add_def
        split: option.splits json.splits)
  then have "size (JArr ys) < size_list (\<lambda>p. size_prod (\<lambda>_. 0) size p) (rev item)" by (rule size_map_of)
  then have "size_list size ys < size (JObj item)" by (simp add: size_list_rev)
  also have "\<dots> \<le> size_list size xs" using assms(2) by (rule size_list_estimation') simp
  finally show ?thesis .
qed

function record_pipeline_telemetry :: "rat \<Rightarrow> pydict \<Rightarrow> queue_db \<Rightarrow> queue_db \<times> pydict result" where
  "record_pipeline_telemetry clock report db =
     (case stage_list report of
        None \<Rightarrow> record_stage clock report db
      | Some items \<Rightarrow>
          (case foldl (\<lambda>acc v. collect_stage (\<lambda>d. case v of
                    JObj item \<Rightarrow> record_pipeline_telemetry clock (merged_report report item) d
                  | _ \<Rightarrow> (d, Inl (ValueError ''pipeline telemetry stages must be objects''))) acc) (db, Inr []) items of
             (db1, Inl e) \<Rightarrow> (db1, Inl e)
           | (db1, Inr results) \<Rightarrow>
               (db1, Inr [(''format'', JStr ''ds4-pipeline-status-v1''), (''state'', JStr ''reported''),
                          (''stage_count'', JInt (int (length results))), (''results'', JArr results)])))"
  by pat_completeness auto
termination
proof (relation "measure (\<lambda>(clock, report, db). case stage_list report of None \<Rightarrow> 0 | Some xs \<Rightarrow> Suc (size_list size xs))", simp)
  fix clock report db items acc v d item
  assume "stage_list report = Some items" "v \<in> set items" "v = JObj item"
  then show "((clock, merged_report report item, d), clock, report, db) \<in>
      measure (\<lambda>(clock, report, db). case stage_list report of None \<Rightarrow> 0 | Some xs \<Rightarrow> Suc (size_list size xs))"
    using size_merged_stages [of report item _ items] by (auto split: option.split)
qed


declare record_pipeline_telemetry.simps [simp del]

end
