(* ===== verification/Queue_Select.thy ===== *)
theory Queue_Select
  imports Queue_Ready "HOL-Library.Sublist"
begin

text \<open>
  What the row selection of \<^verbatim>\<open>claim_ready_batch\<close> promises: a token budget that is a greedy
  subsequence, a shape bucket of equal requests, and the scope and order of the rows a claim takes.
\<close>

lemma subseq_set: "subseq xs ys \<Longrightarrow> x \<in> set xs \<Longrightarrow> x \<in> set ys"
  by (auto simp: subseq_conv_nths dest: in_set_nthsD)

lemma subseq_distinct: "subseq xs ys \<Longrightarrow> distinct ys \<Longrightarrow> distinct xs"
  by (metis subseq_conv_nths distinct_nthsI)

section \<open>Token budgets\<close>

lemma row_reserved_tokens_pos: "1 \<le> row_reserved_tokens reserve r"
  by (simp add: row_reserved_tokens_def Let_def split: json.split)

definition budget_used :: "int \<Rightarrow> request_row list \<Rightarrow> int" where
  "budget_used reserve rows = sum_list (map (row_reserved_tokens reserve) rows)"

lemma budget_used_simps [simp]:
  "budget_used reserve [] = 0" "budget_used reserve (r # rows) = row_reserved_tokens reserve r + budget_used reserve rows"
  by (simp_all add: budget_used_def)

lemma take_budget_subseq: "subseq (take_budget reserve lmt some used rows) rows"
  by (induction reserve lmt some used rows rule: take_budget.induct) (auto simp: Let_def)

lemma take_budget_bound:
  "take_budget reserve lmt True used rows = [] \<or> used + budget_used reserve (take_budget reserve lmt True used rows) \<le> lmt"
proof (induction rows arbitrary: used)
  case Nil
  then show ?case by simp
next
  case (Cons r rows)
  then show ?case using Cons.IH [of "used + row_reserved_tokens reserve r"] Cons.IH [of used]
    by (auto simp: Let_def algebra_simps)
qed

lemma take_budget_greedy:
  "r \<in> set rows \<Longrightarrow> r \<notin> set (take_budget reserve lmt True used rows) \<Longrightarrow>
     lmt < used + budget_used reserve (take_budget reserve lmt True used rows) + row_reserved_tokens reserve r"
proof (induction rows arbitrary: used)
  case Nil
  then show ?case by simp
next
  case (Cons x rows)
  let ?n = "row_reserved_tokens reserve"
  have nn: "0 \<le> budget_used reserve rs" for rs
    unfolding budget_used_def by (rule sum_list_nonneg) (use row_reserved_tokens_pos in \<open>force intro: order_trans [of 0 1]\<close>)
  show ?case
  proof (cases "used + ?n x \<le> lmt")
    case True
    then show ?thesis using Cons.IH [of "used + ?n x"] Cons.prems by (auto simp: Let_def algebra_simps)
  next
    case False
    show ?thesis
    proof (cases "r = x")
      case True
      then show ?thesis using False nn [of "take_budget reserve lmt True used rows"] by (simp add: Let_def)
    next
      case neq: False
      then show ?thesis using False Cons.IH [of used] Cons.prems by (simp add: Let_def)
    qed
  qed
qed

text \<open>The first row is always taken; with it the budget holds unless the first row alone exceeds it.\<close>

lemma token_budget:
  fixes reserve lmt :: int
  assumes "0 < lmt" and "rows \<noteq> []"
  defines "out \<equiv> limit_ready_rows_by_token_budget rows lmt reserve"
  shows "subseq out rows" "hd out = hd rows" "out \<noteq> []" "length out = 1 \<or> budget_used reserve out \<le> lmt"
    "2 \<le> length rows \<Longrightarrow> r \<in> set rows \<Longrightarrow> r \<notin> set out \<Longrightarrow> lmt < budget_used reserve out + row_reserved_tokens reserve r"
proof -
  obtain x xs where rows: "rows = x # xs" using assms(2) by (cases rows) auto
  have out: "out = (if xs = [] then rows else x # take_budget reserve lmt True (row_reserved_tokens reserve x) xs)"
    using assms(1) by (cases xs) (auto simp: out_def rows limit_ready_rows_by_token_budget_def Let_def)
  show "subseq out rows" using take_budget_subseq by (simp add: out rows)
  show "hd out = hd rows" "out \<noteq> []" by (simp_all add: out rows)
  show "length out = 1 \<or> budget_used reserve out \<le> lmt"
    using take_budget_bound [of reserve lmt "row_reserved_tokens reserve x" xs] by (auto simp: out rows)
  show "lmt < budget_used reserve out + row_reserved_tokens reserve r"
    if "2 \<le> length rows" "r \<in> set rows" "r \<notin> set out"
    using take_budget_greedy [of r xs reserve lmt "row_reserved_tokens reserve x"] that by (auto simp: out rows split: if_splits)
qed

section \<open>Shape buckets\<close>

definition first_index :: "('a \<Rightarrow> bool) \<Rightarrow> 'a list \<Rightarrow> nat" where
  "first_index P xs = length (takeWhile (\<lambda>x. \<not> P x) xs)"

definition buckets_of :: "request_row list \<Rightarrow> (string \<times> nat \<times> request_row list) list \<Rightarrow> bool" where
  "buckets_of ps bs \<longleftrightarrow> distinct (map fst bs) \<and>
     (\<forall>k. map_of bs k =
        (if k \<in> ready_shape_key ` set ps
         then Some (first_index (\<lambda>r. ready_shape_key r = k) ps, filter (\<lambda>r. ready_shape_key r = k) ps) else None))"

lemma first_index_append: "first_index P (xs @ ys) = (if \<exists>x \<in> set xs. P x then first_index P xs else length xs + first_index P ys)"
  by (auto simp: first_index_def takeWhile_append)

lemma distinct_append_key: "distinct (map fst bs) \<Longrightarrow> map_of bs k = None \<Longrightarrow> distinct (map fst (bs @ [(k, v)]))"
  by (auto simp: map_of_eq_None_iff)

lemma buckets_step:
  assumes "buckets_of ps bs"
  shows "buckets_of (ps @ [row])
     (case map_of bs (ready_shape_key row) of None \<Rightarrow> bs @ [(ready_shape_key row, length ps, [row])]
      | Some (j, rs) \<Rightarrow> dset (ready_shape_key row) (j, rs @ [row]) bs)"
proof (cases "ready_shape_key row \<in> ready_shape_key ` set ps")
  case True
  then have m: "map_of bs (ready_shape_key row) = Some (first_index (\<lambda>r. ready_shape_key r = ready_shape_key row) ps,
      filter (\<lambda>r. ready_shape_key r = ready_shape_key row) ps)"
    using assms by (simp add: buckets_of_def)
  show ?thesis using assms True unfolding m buckets_of_def
    by (auto simp: distinct_dset first_index_append)
next
  case False
  then have m: "map_of bs (ready_shape_key row) = None" using assms by (simp add: buckets_of_def)
  have e: "filter (\<lambda>r. ready_shape_key r = ready_shape_key row) ps = []"
    using False by (auto simp: filter_empty_conv image_iff)
  have d: "distinct (map fst (bs @ [(ready_shape_key row, length ps, [row])]))"
    by (rule distinct_append_key [OF _ m]) (use assms in \<open>simp add: buckets_of_def\<close>)
  show ?thesis using assms False e d unfolding m buckets_of_def option.case
    by (intro conjI allI, simp)
      (auto simp: map_add_def first_index_append first_index_def [of _ "[row]"] split: option.split)
qed

lemma buckets_spec: "buckets_of ps bs \<Longrightarrow> buckets_of (ps @ rows) (shape_buckets bs (length ps) rows)"
proof (induction rows arbitrary: ps bs)
  case Nil
  then show ?case by simp
next
  case (Cons row rows)
  from Cons.IH [OF buckets_step [OF Cons.prems, of row]] show ?case by (simp add: Let_def)
qed

lemma best_bucket_in: "bs \<noteq> [] \<Longrightarrow> best_bucket lmt bs \<in> set bs"
proof -
  have "foldl (\<lambda>m b. if bucket_rank lmt m < bucket_rank lmt b then b else m) x xs \<in> set (x # xs)" for x xs
    by (induction xs arbitrary: x) (auto split: if_splits)
  then show "bs \<noteq> [] \<Longrightarrow> best_bucket lmt bs \<in> set bs" by (cases bs) (auto simp: best_bucket_def)
qed

lemma best_bucket_max: "b \<in> set bs \<Longrightarrow> bucket_rank lmt b \<le> bucket_rank lmt (best_bucket lmt bs)"
proof -
  let ?f = "foldl (\<lambda>m b. if bucket_rank lmt m < bucket_rank lmt b then b else m)"
  have "bucket_rank lmt x \<le> bucket_rank lmt (?f x xs) \<and> (\<forall>b \<in> set xs. bucket_rank lmt b \<le> bucket_rank lmt (?f x xs))" for x xs
  proof (induction xs arbitrary: x)
    case Nil
    then show ?case by simp
  next
    case (Cons y xs)
    show ?case
    proof (cases "bucket_rank lmt x < bucket_rank lmt y")
      case True
      then show ?thesis using Cons.IH [of y] order_trans [of "bucket_rank lmt x" "bucket_rank lmt y"] by auto
    next
      case False
      then show ?thesis using Cons.IH [of x] order_trans [of "bucket_rank lmt y" "bucket_rank lmt x"] by auto
    qed
  qed
  then show "b \<in> set bs \<Longrightarrow> bucket_rank lmt b \<le> bucket_rank lmt (best_bucket lmt bs)"
    by (cases bs) (auto simp: best_bucket_def)
qed

text \<open>
  The bucket is the rows of one shape, in their order, cut at the limit; no shape offers more rows
  within the limit, and among the shapes that offer as many it is the one that comes first.
\<close>

lemma shape_bucket:
  assumes "rows \<noteq> []"
  shows "\<exists>k \<in> ready_shape_key ` set rows.
     ready_shape_bucket rows lmt = take lmt (filter (\<lambda>r. ready_shape_key r = k) rows) \<and>
     (\<forall>k' \<in> ready_shape_key ` set rows.
        min (length (filter (\<lambda>r. ready_shape_key r = k') rows)) lmt \<le> min (length (filter (\<lambda>r. ready_shape_key r = k) rows)) lmt)"
proof -
  let ?bs = "shape_buckets [] 0 rows"
  have b: "buckets_of rows ?bs" using buckets_spec [of "[]" "[]" rows] by (simp add: buckets_of_def)
  have mem: "(k, v) \<in> set ?bs \<longleftrightarrow> map_of ?bs k = Some v" for k v
  proof -
    have "distinct (map fst ?bs)" using b unfolding buckets_of_def by (rule conjunct1)
    from map_of_eq_Some_iff [OF this, of k v] show ?thesis by (rule sym)
  qed
  have "map_of ?bs (ready_shape_key (hd rows)) \<noteq> None" using assms b by (simp add: buckets_of_def)
  then have ne: "?bs \<noteq> []" by auto
  obtain k i rs where best: "best_bucket lmt ?bs = (k, i, rs)" using prod_cases3 by blast
  then have "map_of ?bs k = Some (i, rs)" using best_bucket_in [OF ne, of lmt] mem by simp
  then have k: "k \<in> ready_shape_key ` set rows" "rs = filter (\<lambda>r. ready_shape_key r = k) rows"
    using b by (auto simp: buckets_of_def split: if_splits)
  have "min (length (filter (\<lambda>r. ready_shape_key r = k') rows)) lmt \<le> min (length rs) lmt" if "k' \<in> ready_shape_key ` set rows" for k'
  proof -
    have "(k', first_index (\<lambda>r. ready_shape_key r = k') rows, filter (\<lambda>r. ready_shape_key r = k') rows) \<in> set ?bs"
      using that b by (simp add: mem buckets_of_def)
    from best_bucket_max [OF this, of lmt] show ?thesis by (auto simp: best bucket_rank_def less_eq_prod_def)
  qed
  then show ?thesis using k ne best by (intro bexI [of _ k]) (simp_all add: ready_shape_bucket_def Let_def)
qed

lemma shape_bucket_subseq: "subseq (ready_shape_bucket rows lmt) rows"
proof (cases "rows = []")
  case True
  then show ?thesis by (simp add: ready_shape_bucket_def)
next
  case False
  from shape_bucket [OF this, of lmt] obtain k where
    "ready_shape_bucket rows lmt = take lmt (filter (\<lambda>r. ready_shape_key r = k) rows)" by blast
  then show ?thesis by (metis subseq_filter_left subseq_order.order_trans take_is_prefix prefix_imp_subseq)
qed

section \<open>The rows a claim takes\<close>

definition claim_scope :: "string option \<Rightarrow> string option \<Rightarrow> string option \<Rightarrow> request_row \<Rightarrow> request_row \<Rightarrow> bool" where
  "claim_scope node batch svc first r \<longleftrightarrow> rq_state r = Ready \<and> (node \<noteq> None \<longrightarrow> rq_node_id r = node) \<and>
     (opt_truthy batch \<longrightarrow> Some (rq_batch_id r) = batch) \<and> (svc \<noteq> None \<longrightarrow> rq_service_id r = svc) \<and>
     rq_profile_id r = rq_profile_id first \<and> rq_service_id r = rq_service_id first \<and> rq_compute_domain r = rq_compute_domain first"

definition claimable :: "claim_opts \<Rightarrow> request_row \<Rightarrow> request_row \<Rightarrow> bool" where
  \<comment> \<open>a row the claim may take together with \<open>first\<close>\<close>
  "claimable opts = claim_scope (co_node opts) (co_batch opts) (co_service opts)"

lemma ready_rows_spec:
  assumes "ready_rows env now db node batch lmt limits svc share bucketing lookahead = rows" and "rows \<noteq> []"
  shows "\<exists>first p n. subseq rows (take n (sql_select p ready_order (requests db))) \<and>
    (\<forall>r. p r \<longrightarrow> claim_scope node batch svc first r)"
proof -
  define base where "base = ready_base_clauses env now db node batch svc share"
  obtain first rest where f: "sql_select (sql_where base) ready_order (requests db) = first # rest"
    using assms by (cases "sql_select (sql_where base) ready_order (requests db)") (auto simp: ready_rows_def base_def [symmetric])
  let ?p = "sql_where (base @ ready_row_scope first bucketing)"
  define sl where "sl = service_batch_limit (rq_service_id first) limits lmt"
  define n where "n = nat (if bucketing then max sl (sl * max 1 lookahead) else sl)"
  have rows: "rows = (if bucketing then ready_shape_bucket (take n (sql_select ?p ready_order (requests db))) (nat sl)
      else take n (sql_select ?p ready_order (requests db)))"
    using assms(1) f unfolding n_def
    by (simp only: ready_rows_def Let_def base_def [symmetric] sl_def [symmetric] list.case)
  have "subseq rows (take n (sql_select ?p ready_order (requests db)))"
    using shape_bucket_subseq by (simp add: rows)
  moreover have "claim_scope node batch svc first r" if "?p r" for r
    using that by (auto simp: claim_scope_def base_def ready_base_clauses_def ready_row_scope_def sql_where_def opt_clause_def batch_clause_def
        preferred_lease_clauses_def split: option.splits if_splits)
  ultimately show ?thesis by (intro exI [of _ first] exI [of _ ?p] exI [of _ n]) blast
qed

lemma select_claim_spec:
  assumes "select_claim_rows env now opts db = rows" and "rows \<noteq> []"
  shows "\<exists>p. subseq rows (sql_select p ready_order (requests db)) \<and> (\<forall>r. p r \<longrightarrow> claimable opts (hd rows) r)"
proof -
  define rr where "rr = ready_rows env now db (co_node opts) (co_batch opts) (co_limit opts) (co_limits opts) (co_service opts)
             (co_share opts) (co_bucketing opts) (co_lookahead opts)"
  obtain x xs where rr: "rr = x # xs"
    using assms by (cases rr) (auto simp: select_claim_rows_def rr_def [symmetric])
  have rows: "\<exists>lmt reserve. rows = limit_ready_rows_by_token_budget rr lmt reserve"
    using assms by (auto simp: select_claim_rows_def rr_def [symmetric] rr Let_def split: if_splits)
  have sub: "subseq rows rr" using rows take_budget_subseq by (auto simp: limit_ready_rows_by_token_budget_def)
  obtain first p n where p: "subseq rr (take n (sql_select p ready_order (requests db)))"
    "\<And>r. p r \<Longrightarrow> claimable opts first r"
    using ready_rows_spec [OF rr_def [symmetric]] rr unfolding claimable_def by blast
  have s: "subseq rows (sql_select p ready_order (requests db))"
    using sub p(1) by (meson prefix_imp_subseq subseq_order.order_trans take_is_prefix)
  then have "hd rows \<in> set (sql_select p ready_order (requests db))"
    using assms(2) by (meson hd_in_set subseq_set)
  then have "claimable opts first (hd rows)" using p(2) by simp
  then have "claimable opts (hd rows) r" if "p r" for r using p(2) [OF that] by (auto simp: claimable_def claim_scope_def)
  then show ?thesis using s by blast
qed

lemma selected_rows:
  assumes k: "sql_keyed rq_request_id (requests db)"
  shows "distinct (map rq_request_id (select_claim_rows env now opts db))" "set (select_claim_rows env now opts db) \<subseteq> set (requests db)"
proof -
  let ?rows = "select_claim_rows env now opts db"
  have "\<exists>p. subseq ?rows (sql_select p ready_order (requests db))"
    using select_claim_spec [OF refl, of env now opts db] by (cases "?rows = []") auto
  then obtain p where s: "subseq ?rows (sql_select p ready_order (requests db))" ..
  have "subseq (map rq_request_id ?rows) (map rq_request_id (sql_select p ready_order (requests db)))"
    using s by (rule subseq_map)
  then show "distinct (map rq_request_id ?rows)"
    using sql_keyed_select [OF k, of p ready_order] by (auto simp: sql_keyed_def dest: subseq_distinct)
  show "set ?rows \<subseteq> set (requests db)" using subseq_set [OF s] by auto
qed

end
