(* ===== verification/Queue_Admit.thy ===== *)
theory Queue_Admit
  imports Queue_Inv Queue_Report Queue_Select
begin

text \<open>
  The invariant of the queue database is kept by the operations that admit work: submitting
  requests, preparing queued rows, claiming ready rows; and by the small writers of the event log and
  the telemetry table.
\<close>

section \<open>KV reservations\<close>

lemma sql_keyed_foldl_delete: "sql_keyed k t \<Longrightarrow> sql_keyed k (foldl (\<lambda>t v. sql_delete (P v) t) t vs)"
  by (induction vs arbitrary: t) (simp_all add: sql_keyed_delete)

lemma set_foldl_delete: "set (foldl (\<lambda>t v. sql_delete (P v) t) t vs) \<subseteq> set t"
  by (induction vs arbitrary: t) fastforce+

lemma set_foldl_replace: "e \<in> set (foldl (\<lambda>t x. sql_replace k (f x) t) t xs) \<Longrightarrow> e \<in> set t \<or> e \<in> f ` set xs"
proof (induction xs arbitrary: t)
  case Nil
  then show ?case by simp
next
  case (Cons x xs)
  then have "e \<in> set (sql_replace k (f x) t) \<or> e \<in> f ` set xs" by simp
  then show ?case by (auto simp: sql_replace_def)
qed

lemma keyed_foldl_replace: "sql_keyed k t \<Longrightarrow> sql_keyed k (foldl (\<lambda>t x. sql_replace k (f x) t) t xs)"
  by (induction xs arbitrary: t) (simp_all add: sql_keyed_replace)

definition same_request :: "request_row \<Rightarrow> request_row \<Rightarrow> bool" where
  "same_request r r' \<longleftrightarrow> rq_request_id r' = rq_request_id r \<and> rq_batch_id r' = rq_batch_id r \<and> rq_kind r' = rq_kind r \<and>
     rq_service_name r' = rq_service_name r \<and> rq_priority r' = rq_priority r \<and> rq_immediate r' = rq_immediate r \<and>
     rq_profile_id r' = rq_profile_id r \<and> rq_request_json r' = rq_request_json r \<and> rq_json_hash r' = rq_json_hash r \<and>
     rq_kv_key r' = rq_kv_key r \<and> rq_kv_bytes r' = rq_kv_bytes r \<and> rq_created_at r' = rq_created_at r"

definition kv_frame :: "request_row \<Rightarrow> queue_db \<Rightarrow> queue_db \<Rightarrow> bool" where
  \<comment> \<open>only the KV tables change, and the shard columns of the row\<close>
  "kv_frame row db db' \<longleftrightarrow> kv_ok db' \<and>
     (\<exists>e s f. db' = update_requests (by_id (rq_request_id row)) f (db\<lparr>kv_entries := e, kv_shards := s\<rparr>) \<and>
       (\<forall>r. same_request r (f r) \<and> rq_state (f r) = rq_state r \<and> rq_lease_id (f r) = rq_lease_id r \<and>
          rq_attempt_count (f r) = rq_attempt_count r \<and> row_ok (f r) = row_ok r))"

lemma sql_update_same: "sql_update p (\<lambda>r. r) t = t"
  by (induction t) simp_all

lemma kv_frame_tables: "kv_ok (db\<lparr>kv_entries := e, kv_shards := s\<rparr>) \<Longrightarrow> kv_frame row db (db\<lparr>kv_entries := e, kv_shards := s\<rparr>)"
  unfolding kv_frame_def
  by (intro conjI exI [of _ e] exI [of _ s] exI [of _ "\<lambda>r. r"]) (simp_all add: update_requests_def sql_update_same same_request_def)

lemma kv_frame_refl: "kv_ok db \<Longrightarrow> kv_frame row db db"
  using kv_frame_tables [where e = "kv_entries db" and s = "kv_shards db" and db = db] by simp

lemma legacy_frame:
  assumes ok: "kv_ok db" and n: "0 < need" and r: "reserve_legacy_kv now row node key need capacity db = (db', b)"
  shows "kv_frame row db db'"
proof (cases "db' = db")
  case True
  then show ?thesis using ok by (simp add: kv_frame_refl)
next
  case False
  then obtain m vs where m: "node = Some m" "node_victims db m need capacity = Some vs"
    using r by (auto simp: reserve_legacy_kv_def split: option.splits)
  let ?t = "foldl (\<lambda>t v. sql_delete (\<lambda>e. kve_node e = m \<and> kve_key e = v) t) (kv_entries db) vs"
  let ?row = "\<lparr>kve_node = m, kve_key = key, kve_request_id = rq_request_id row, kve_bytes = need, kve_idle = False,
       kve_last_used = now, kve_created_at = now\<rparr>"
  have sub: "set ?t \<subseteq> set (kv_entries db)" by (rule set_foldl_delete)
  have "kv_ok (db\<lparr>kv_entries := sql_replace kve_id ?row ?t, kv_shards := kv_shards db\<rparr>)"
    using ok n subsetD [OF sub] unfolding kv_ok_def
    by (auto simp: sql_keyed_replace sql_keyed_foldl_delete in_sql_replace)
  then have "kv_frame row db (db\<lparr>kv_entries := sql_replace kve_id ?row ?t, kv_shards := kv_shards db\<rparr>)"
    by (rule kv_frame_tables)
  then show ?thesis using r m by (simp add: reserve_legacy_kv_def)
qed

lemma shard_deletes_keep:
  fixes t :: "kv_shard_entry list" and svc :: string
  defines "D \<equiv> foldl (\<lambda>t (node, vs). foldl (\<lambda>t v. sql_delete (\<lambda>e. kvs_service e = svc \<and> kvs_node e = node \<and> kvs_key e = v) t) t vs)"
  shows "sql_keyed kvs_id t \<Longrightarrow> sql_keyed kvs_id (D t evs)" and "set (D t evs) \<subseteq> set t"
proof -
  show "sql_keyed kvs_id t \<Longrightarrow> sql_keyed kvs_id (D t evs)"
    unfolding D_def by (induction evs arbitrary: t) (auto simp: sql_keyed_foldl_delete)
  show "set (D t evs) \<subseteq> set t"
    unfolding D_def
  proof (induction evs arbitrary: t)
    case Nil
    then show ?case by simp
  next
    case (Cons ev evs)
    obtain node vs where ev: "ev = (node, vs)" by fastforce
    have "set (foldl (\<lambda>t v. sql_delete (\<lambda>e. kvs_service e = svc \<and> kvs_node e = node \<and> kvs_key e = v) t) t vs) \<subseteq> set t"
      by (rule set_foldl_delete)
    then show ?case using Cons.IH unfolding ev by (simp del: foldl_Cons add: foldl_Cons) (rule order_trans)
  qed
qed

lemma pipeline_frame:
  assumes ok: "kv_ok db" and r: "reserve_pipeline_kv now row svc ids key need capacity layout db = (db', b)"
  shows "kv_frame row db db'"
proof (cases "db' = db")
  case True
  then show ?thesis using ok by (simp add: kv_frame_refl)
next
  case False
  define shards where "shards = (case layout of Some f \<Rightarrow> f (rq_request_id row) key need | None \<Rightarrow> default_shards row ids need)"
  obtain evs where ne: "shards \<noteq> []" and evs: "shard_evictions db svc capacity shards = Some evs"
    using r False by (auto simp: reserve_pipeline_kv_def Let_def shards_def [symmetric] split: if_splits option.splits)
  define t1 where "t1 = foldl (\<lambda>t (node, vs). foldl (\<lambda>t v. sql_delete (\<lambda>e. kvs_service e = svc \<and> kvs_node e = node \<and> kvs_key e = v) t) t vs)
      (kv_shards db) evs"
  define t2 where "t2 = foldl (\<lambda>t s. sql_replace kvs_id (shard_entry now svc key (rq_request_id row) (length shards) s) t) t1 shards"
  have k1: "sql_keyed kvs_id t1" "set t1 \<subseteq> set (kv_shards db)"
    using ok shard_deletes_keep [where t = "kv_shards db" and svc = svc and evs = evs] by (simp_all add: t1_def kv_ok_def)
  have nn: "0 \<le> kvs_bytes e" if "e \<in> set t2" for e
    using set_foldl_replace [OF that [unfolded t2_def]] k1 ok by (auto simp: kv_ok_def shard_entry_def shard_need_def)
  have k2: "sql_keyed kvs_id t2" unfolding t2_def by (rule keyed_foldl_replace [OF k1(1)])
  have db': "db' = update_requests (by_id (rq_request_id row))
       (\<lambda>r. r\<lparr>rq_kv_shard_count := max 1 (int (length shards)), rq_kv_shard_bytes := Max (set (map shard_need shards))\<rparr>)
       (db\<lparr>kv_entries := kv_entries db, kv_shards := t2\<rparr>)"
    using r ne evs by (simp add: reserve_pipeline_kv_def Let_def shards_def [symmetric] t1_def [symmetric] t2_def [symmetric]
        by_id_def [abs_def])
  show ?thesis unfolding kv_frame_def
    by (intro conjI exI [of _ "kv_entries db"] exI [of _ t2] exI, use ok k2 nn in \<open>simp add: db' kv_ok_def\<close>, rule db')
      (simp add: row_ok_update_plain same_request_def)
qed

lemma reserve_frame:
  assumes "kv_ok db" and "reserve_kv now row node capacity layout db = (db', b)"
  shows "kv_frame row db db'"
  using assms by (auto simp: reserve_kv_def Let_def kv_frame_refl not_le intro: legacy_frame pipeline_frame split: if_splits)


section \<open>Preparing queued rows\<close>

lemma fresh_update_same:
  assumes "fresh_outside S db" and "\<And>r. r \<in> set (requests db) \<Longrightarrow> p r \<Longrightarrow> rq_state (f r) = rq_state r \<and> rq_batch_id (f r) = rq_batch_id r"
  shows "fresh_outside S (update_requests p f db)"
proof -
  have "state_count (sql_update p f (requests db)) b = state_count (requests db) b"
      "batch_total (sql_update p f (requests db)) b = batch_total (requests db) b" for b
    using assms(2) by (simp_all add: state_count_def batch_total_def fun_eq_iff sql_count_update_frame)
  then show ?thesis using assms(1) by (simp add: fresh_outside_def batch_fresh_def)
qed

lemma loop_ok_mono: "loop_ok S db \<Longrightarrow> S \<subseteq> T \<Longrightarrow> loop_ok T db"
  by (auto simp: loop_ok_def intro: fresh_mono)

lemma loop_event: "loop_ok S db \<Longrightarrow> loop_ok S (db_event now rid t s p db)"
  by (auto simp: loop_ok_def intro: core_event fresh_cong)

lemma kv_frame_turn:
  assumes l: "loop_ok S db" and k: "kv_frame row db d"
  shows "loop_ok S d \<and> only_row (rq_request_id row) (requests db) (requests d)"
proof -
  obtain e s f where d: "d = update_requests (by_id (rq_request_id row)) f (db\<lparr>kv_entries := e, kv_shards := s\<rparr>)"
    and f: "\<And>r. rq_request_id (f r) = rq_request_id r \<and> rq_batch_id (f r) = rq_batch_id r \<and> rq_state (f r) = rq_state r \<and> row_ok (f r) = row_ok r"
    using k by (auto simp: kv_frame_def same_request_def)
  let ?t = "db\<lparr>kv_entries := e, kv_shards := s\<rparr>"
  have kv: "kv_ok ?t" using k d by (simp add: kv_frame_def kv_ok_def)
  then have "core ?t" using l by (simp add: loop_ok_def core_def leases_ok_def events_ok_def)
  then have c: "core d" unfolding d by (rule core_update) (simp add: f)
  have "fresh_outside S ?t" using l fresh_cong [of S db ?t] by (simp add: loop_ok_def)
  then have "fresh_outside S d" unfolding d by (rule fresh_update_same) (simp add: f)
  moreover have "only_row (rq_request_id row) (requests db) (requests d)"
    unfolding d update_requests_def by (simp, rule only_row_update) (simp add: by_id_def f)
  ultimately show ?thesis using c by (simp add: loop_ok_def)
qed

lemma only_row_back:
  assumes "only_row rid t t'" and "r' \<in> set t'"
  shows "\<exists>r \<in> set t. rq_request_id r = rq_request_id r' \<and> rq_batch_id r = rq_batch_id r'"
  using assms by (force simp: only_row_def list_all2_conv_all_nth in_set_conv_nth)

lemma sql_count_one: "sql_count p t = 1 \<Longrightarrow> \<exists>r \<in> set t. p r"
  using sql_count_0 [of p t] by (cases "\<exists>r \<in> set t. p r") auto

lemma row_ok_mark_ready: "row_ok r \<Longrightarrow> rq_state r = Queued \<Longrightarrow> row_ok (mark_ready now bind ids r)"
  by (auto simp: row_ok_def mark_ready_def clear_lease_def)

lemma mark_ready_simps [simp]:
  "rq_request_id (mark_ready now bind ids r) = rq_request_id r" "rq_batch_id (mark_ready now bind ids r) = rq_batch_id r"
  "rq_state (mark_ready now bind ids r) = Ready" "rq_attempt_count (mark_ready now bind ids r) = rq_attempt_count r"
  by (simp_all add: mark_ready_def)

lemma prepare_row_ok:
  assumes l: "loop_ok (set touched) db" and row: "row \<in> set (requests db)"
    and s: "prepare_row now node cap layouts uuid who (db, made, touched) row = (db', made', touched')"
  shows "loop_ok (set touched') db' \<and> only_row (rq_request_id row) (requests db) (requests db')"
proof -
  define bind where "bind = (if opt_truthy (rq_node_id row) then rq_node_id row else if opt_truthy node then node else None)"
  obtain d ok where r: "reserve_kv now row bind cap (layouts (rq_profile_id row)) db = (d, ok)" by fastforce
  have "kv_frame row db d" using l by (intro reserve_frame [OF _ r]) (simp add: loop_ok_def core_def)
  note t = kv_frame_turn [OF l this]
  define p :: "request_row \<Rightarrow> bool" where "p = (\<lambda>r. rq_request_id r = rq_request_id row \<and> rq_state r = Queued)"
  consider (wait) "\<not> ok" | (gone) "ok" "sql_count p (requests d) \<noteq> 1" | (go) "ok" "sql_count p (requests d) = 1" by blast
  then show ?thesis
  proof cases
    case wait
    then show ?thesis using s r t reserve_kv_refused [of now row bind cap "layouts (rq_profile_id row)" db d] l
      by (auto simp: prepare_row_def Let_def bind_def [symmetric] intro: loop_event)
  next
    case gone
    then show ?thesis using s r t by (simp add: prepare_row_def Let_def bind_def [symmetric] p_def [symmetric])
  next
    case go
    define ids where "ids = (case rq_node_ids row of Some v \<Rightarrow> Some v | None \<Rightarrow> map_option (\<lambda>n. [n]) bind)"
    let ?u = "update_requests p (mark_ready now bind ids) d"
    have out: "touched' = List.insert (rq_batch_id row) touched" "\<exists>t s v. db' = db_event now (rq_request_id row) t s v ?u"
      using s r go by (auto simp: prepare_row_def Let_def bind_def [symmetric] ids_def [symmetric] p_def [symmetric])
    obtain r' where r': "r' \<in> set (requests d)" "p r'" using sql_count_one [OF go(2)] by auto
    obtain r0 where "r0 \<in> set (requests db)" "rq_request_id r0 = rq_request_id r'" "rq_batch_id r0 = rq_batch_id r'"
      using only_row_back [OF conjunct2 [OF t] r'(1)] by auto
    then have b: "rq_batch_id r' = rq_batch_id row" "rq_request_id r' = rq_request_id row"
      using keyed_same [of db r0 row] l row r'(2) by (auto simp: loop_ok_def p_def)
    have "turn_ok (set touched') r' d ?u"
      by (rule turn_okI [where p = p and f = "mark_ready now bind ids"])
        (use t r' b loop_ok_mono [of "set touched" d "set touched'"] in \<open>auto simp: out p_def row_ok_mark_ready\<close>)
    then show ?thesis using out(2) t b only_row_trans [of "rq_request_id row" "requests db" "requests d"]
      by (auto simp: turn_ok_def intro: loop_event)
  qed
qed

lemma prepare_ready_ok:
  assumes ok: "queue_ok db"
  shows "queue_ok (fst (prepare_ready env now uuid node eligible batch lmt who depth cap layouts svc share db))"
proof -
  have main: "queue_ok (fst (let (db1, made, touched) = foldl (prepare_row now node cap layouts uuid who) (db, 0, []) rows
                in (refresh_batches now touched db1, made)))"
    if rows: "distinct (map rq_request_id rows)" "set rows \<subseteq> set (requests db)" for rows
  proof -
    have "loop_ok (set (snd (snd (foldl (prepare_row now node cap layouts uuid who) (db, 0, []) rows))))
        (fst (foldl (prepare_row now node cap layouts uuid who) (db, 0, []) rows))"
    proof (rule foldl_rows [where get = fst and P = "\<lambda>a. loop_ok (set (snd (snd a))) (fst a)"])
      show "loop_ok (set (snd (snd (prepare_row now node cap layouts uuid who acc row)))) (fst (prepare_row now node cap layouts uuid who acc row)) \<and>
          only_row (rq_request_id row) (requests (fst acc)) (requests (fst (prepare_row now node cap layouts uuid who acc row)))"
        if "loop_ok (set (snd (snd acc))) (fst acc)" "row \<in> set (requests (fst acc))" for acc row
        using prepare_row_ok [of "snd (snd acc)" "fst acc" row now node cap layouts uuid who "fst (snd acc)"] that
        by (metis prod.collapse)
    qed (use rows loop_okD [OF ok] in simp_all)
    then show ?thesis by (auto simp: case_prod_beta intro: loop_refreshes)
  qed
  have "distinct (map rq_request_id (take n (sql_select p k (requests db))))" for n p and k :: "request_row \<Rightarrow> int \<times> rat \<times> string"
    using core_distinct_select [OF queue_okD(1) [OF ok], of p k] by (simp add: take_map [symmetric])
  then have "queue_ok (fst (let (db1, made, touched) = foldl (prepare_row now node cap layouts uuid who) (db, 0, [])
      (queued_rows env now db node el batch rem svc share) in (refresh_batches now touched db1, made)))" for el rem
    by (intro main) (auto simp: queued_rows_def Let_def dest: in_set_takeD)
  then show ?thesis using ok by (simp add: prepare_ready_def Let_def split: option.split)
qed


section \<open>Claiming ready rows\<close>

lemma start_running_simps [simp]:
  "rq_request_id (start_running now ttl who lease cl r) = rq_request_id r"
  "rq_batch_id (start_running now ttl who lease cl r) = rq_batch_id r"
  "rq_state (start_running now ttl who lease cl r) = Running"
  "rq_attempt_count (start_running now ttl who lease cl r) = rq_attempt_count r + 1"
  "rq_lease_id (start_running now ttl who lease cl r) = Some lease"
  "rq_leased_by (start_running now ttl who lease cl r) = Some who"
  "rq_lease_expires_at (start_running now ttl who lease cl r) = Some (now + ttl)"
  "rq_compute_lease_id (start_running now ttl who lease cl r) = cl"
  by (simp_all add: start_running_def)

lemma row_ok_start: "row_ok r \<Longrightarrow> rq_state r = Ready \<Longrightarrow> row_ok (start_running now ttl who lease cl r)"
  by (auto simp: row_ok_def start_running_def)

lemma claim_row_cases:
  assumes "claim_row now ttl who cl (db, claims, bids) (lease, row) = Inr (db', claims', bids')"
  obtains (skip) "sql_count (ready_row (rq_request_id row)) (requests db) \<noteq> 1" "db' = db" "claims' = claims" "bids' = bids"
  | (start) t s v c where "sql_count (ready_row (rq_request_id row)) (requests db) = 1"
      "db' = db_event now (rq_request_id row) t s v (update_requests (ready_row (rq_request_id row)) (start_running now ttl who lease cl) db)"
      "claim_of row lease cl = Inr c" "claims' = claims @ [c]" "bids' = List.insert (rq_batch_id row) bids"
  using assms by (auto simp: claim_row_def bindE_eq_Inr split: if_splits)

lemma claim_row_ok:
  assumes l: "loop_ok (set bids) db" and row: "row \<in> set (requests db)"
    and s: "claim_row now ttl who cl (db, claims, bids) (lease, row) = Inr (db', claims', bids')"
  shows "loop_ok (set bids') db' \<and> only_row (rq_request_id row) (requests db) (requests db')"
  using s
proof (cases rule: claim_row_cases)
  case skip
  then show ?thesis using l by simp
next
  case (start t s v c)
  let ?u = "update_requests (ready_row (rq_request_id row)) (start_running now ttl who lease cl) db"
  have "turn_ok (set bids') row db ?u"
    by (rule turn_okI [where p = "ready_row (rq_request_id row)" and f = "start_running now ttl who lease cl"])
      (use row loop_ok_mono [OF l, of "set bids'"] in \<open>auto simp: start(5) ready_row_def row_ok_start\<close>)
  then show ?thesis unfolding start(2) by (auto simp: turn_ok_def intro: loop_event)
qed

lemma length_run_lease_ids [simp]: "length (run_lease_ids who uuid n) = n"
  by (simp add: run_lease_ids_def)

lemma claim_rows_ok:
  assumes ok: "queue_ok db" and rows: "distinct (map rq_request_id rows)" "set rows \<subseteq> set (requests db)"
    and c: "claim_rows now ttl who uuid cl rows db = Inr (db', claims, bids)"
  shows "loop_ok (set bids) db'"
proof -
  let ?xs = "zip (run_lease_ids who uuid (length rows)) rows"
  have snd: "map snd ?xs = rows" by simp
  have "loop_ok (set (snd (snd (db', claims, bids)))) (fst (db', claims, bids))"
  proof (rule foldE_rows [where get = fst and rw = snd and P = "\<lambda>a. loop_ok (set (snd (snd a))) (fst a)" and xs = ?xs])
    show "foldE (claim_row now ttl who cl) (db, [], []) ?xs = Inr (db', claims, bids)" using c by (simp add: claim_rows_def)
    have "map (\<lambda>x. rq_request_id (snd x)) ?xs = map rq_request_id (map snd ?xs)" by (simp only: map_map comp_def)
    then show "distinct (map (\<lambda>x. rq_request_id (snd x)) ?xs)" using rows(1) by (simp only: snd)
    show "snd ` set ?xs \<subseteq> set (requests (fst (db, [], [])))" using rows(2) by (auto dest: set_zip_rightD)
    show "loop_ok (set (snd (snd acc'))) (fst acc') \<and> only_row (rq_request_id (snd x)) (requests (fst acc)) (requests (fst acc'))"
      if "loop_ok (set (snd (snd acc))) (fst acc)" "snd x \<in> set (requests (fst acc))" "claim_row now ttl who cl acc x = Inr acc'" for acc x acc'
      using claim_row_ok [of "snd (snd acc)" "fst acc" "snd x" now ttl who cl "fst (snd acc)" "fst x" "fst acc'" "fst (snd acc')" "snd (snd acc')"] that
      by simp
  qed (use loop_okD [OF ok] in simp_all)
  then show ?thesis by simp
qed

lemma grant_ok:
  assumes ok: "queue_ok db"
    and g: "(if share then (db, NoDomain) else if opt_truthy lid then extend_compute_lease env now first n lid who ttl db
       else acquire_compute_lease env now u first n who ttl db) = (db', g)"
  shows "queue_ok db' \<and> requests db' = requests db"
proof -
  have "db' = db\<lparr>compute_leases := compute_leases db'\<rparr> \<and> leases_ok db'"
    using g acquire_frame [of env now u first n who ttl db db' g] extend_frame [of env now first n lid who ttl db db' g]
      acquire_leases_ok [OF queue_ok_leases_ok [OF ok], of env now u first n who ttl db' g]
      extend_leases_ok [OF queue_ok_leases_ok [OF ok], of env now first n lid who ttl db' g] queue_ok_leases_ok [OF ok]
    by (auto split: if_splits)
  then show ?thesis using queue_ok_leases [OF ok, of "compute_leases db'"]
    by (metis queue_db.select_convs(2) queue_db.surjective queue_db.update_convs(7))
qed

lemma loop_leases: "loop_ok S db \<Longrightarrow> loop_ok S (db\<lparr>compute_leases := sql_delete p (compute_leases db)\<rparr>)"
  using leases_ok_delete [of db p] core_leases [of db "sql_delete p (compute_leases db)"]
    fresh_cong [of S db "db\<lparr>compute_leases := sql_delete p (compute_leases db)\<rparr>"]
  by (simp add: loop_ok_def core_def)

lemma claim_selected_ok:
  assumes ok: "queue_ok db" and rows: "distinct (map rq_request_id rows)" "set rows \<subseteq> set (requests db)"
    and c: "claim_selected env now uuid who ttl lid share rows db = Inr (db', claims)"
  shows "queue_ok db'"
proof -
  obtain d g where dg: "(if share then (db, NoDomain) else if opt_truthy lid
        then extend_compute_lease env now (hd rows) (length rows) lid who ttl db
        else acquire_compute_lease env now (uuid 0) (hd rows) (length rows) who ttl db) = (d, g)" by fastforce
  note d = grant_ok [OF ok dg]
  show ?thesis
  proof (cases "g = Denied")
    case True
    then show ?thesis using c d unfolding claim_selected_def Let_def dg by simp
  next
    case False
    obtain d2 cs bids where r: "claim_rows now ttl who uuid (granted_id g) rows d = Inr (d2, cs, bids)"
      and db': "db' = refresh_batches now bids d2 \<or>
        db' = refresh_batches now bids (d2\<lparr>compute_leases := sql_delete (\<lambda>c. Some (cl_id c) = granted_id g) (compute_leases d2)\<rparr>)"
      using c False unfolding claim_selected_def Let_def dg by (auto simp: bindE_eq_Inr)
    have "loop_ok (set bids) d2" by (rule claim_rows_ok [OF _ rows(1) _ r]) (use d rows in auto)
    then show ?thesis using db' loop_refreshes loop_leases by blast
  qed
qed

lemma queue_ok_keyed: "queue_ok db \<Longrightarrow> sql_keyed rq_request_id (requests db)"
  by (simp add: queue_ok_def core_def)

lemma claim_ok:
  assumes ok: "queue_ok db" and c: "claim_ready_batch env now uuid opts db = Inr (db', claims)"
  shows "queue_ok db'"
  using c claim_selected_ok [OF ok] selected_rows [OF queue_ok_keyed [OF ok], of env now opts]
  by (cases "select_claim_rows env now opts db = []") (use ok in \<open>auto simp: claim_ready_batch_def Let_def\<close>)


section \<open>Submitting requests\<close>

lemma insert_request_ok:
  assumes l: "loop_ok S db" and r: "row_ok r" "rq_batch_id r \<in> S" "rq_batch_id r \<in> bt_batch_id ` set (batches db)"
    and i: "insert_request r db = Inr db'"
  shows "loop_ok S db' \<and> batches db' = batches db"
proof -
  have n: "\<forall>x \<in> set (requests db). rq_request_id x \<noteq> rq_request_id r" and db': "db' = db\<lparr>requests := requests db @ [r]\<rparr>"
    using i by (auto simp: insert_request_def bindE_eq_Inr sql_insert_Inr)
  have "batch_fresh (requests db @ [r]) b" if "b \<in> set (batches db)" "bt_batch_id b \<notin> S" for b
  proof -
    have "rq_batch_id r \<noteq> bt_batch_id b" using r(2) that(2) by auto
    then have "state_count (requests db @ [r]) (bt_batch_id b) = state_count (requests db) (bt_batch_id b)"
        "batch_total (requests db @ [r]) (bt_batch_id b) = batch_total (requests db) (bt_batch_id b)"
      by (simp_all add: state_count_def batch_total_def fun_eq_iff sql_count_def)
    then show ?thesis using l that by (simp add: loop_ok_def fresh_outside_def batch_fresh_def)
  qed
  then show ?thesis using l r n
    by (auto simp: db' loop_ok_def core_def leases_ok_def kv_ok_def events_ok_def fresh_outside_def sql_keyed_append1)
qed

lemma insert_batch_ok:
  assumes ok: "queue_ok db" and i: "insert_batch now bid db = Inr db'"
  shows "loop_ok {bid} db'" "bid \<in> bt_batch_id ` set (batches db')" "requests db' = requests db"
    "bid \<notin> bt_batch_id ` set (batches db)"
proof -
  have n: "\<forall>x \<in> set (batches db). bt_batch_id x \<noteq> bid" and db': "db' = db\<lparr>batches := batches db @ [new_batch now bid]\<rparr>"
    using i by (auto simp: insert_batch_def bindE_eq_Inr sql_insert_Inr new_batch_def)
  show "loop_ok {bid} db'" using queue_okD(1) [OF ok] queue_okD(2) [OF ok, of "{}"] n
    by (auto simp: db' loop_ok_def core_def leases_ok_def kv_ok_def events_ok_def fresh_outside_def sql_keyed_append1 new_batch_def)
  show "bid \<in> bt_batch_id ` set (batches db')" "requests db' = requests db" by (simp_all add: db' new_batch_def)
  show "bid \<notin> bt_batch_id ` set (batches db)" using n by auto
qed

definition filling :: "string \<Rightarrow> queue_db \<Rightarrow> bool" where
  "filling bid db \<longleftrightarrow> loop_ok {bid} db \<and> bid \<in> bt_batch_id ` set (batches db)"

lemma filling_insert:
  "filling bid db \<Longrightarrow> row_ok r \<Longrightarrow> rq_batch_id r = bid \<Longrightarrow> insert_request r db = Inr db1 \<Longrightarrow>
     filling bid (db_event now rid t s p db1)"
  using insert_request_ok [of "{bid}" db r db1] by (auto simp: filling_def intro: loop_event)

lemma filling_refresh: "filling bid db \<Longrightarrow> queue_ok (refresh_batch now bid db)"
  using fresh_one [of bid db now] by (auto simp: filling_def loop_ok_def queue_ok_def intro: core_refresh)

lemma row_ok_queued: "row_ok (queued_row now bid req profile prio b)" "rq_batch_id (queued_row now bid req profile prio b) = bid"
  by (simp_all add: row_ok_def queued_row_def)

lemma row_ok_cpu: "row_ok (cpu_row now bid service prio immediate node rid payload)"
    "rq_batch_id (cpu_row now bid service prio immediate node rid payload) = bid"
  by (simp_all add: row_ok_def cpu_row_def)

lemma submit_one_ok:
  assumes "filling bid (su_db acc)" and "submit_one now reg topo bid priority acc req = Inr acc'"
  shows "filling bid (su_db acc')"
  using assms filling_insert [OF assms(1) row_ok_queued]
  by (auto simp: submit_one_def bindE_eq_Inr Let_def)

lemma submit_form:
  assumes "submit_requests now uuid reg topo reqs batch_id priority db = Inr (db', reply)"
  shows "db' = db \<or> (\<exists>bid d0 acc0 acc. insert_batch now bid db = Inr d0 \<and> su_db acc0 = d0 \<and>
      foldE (submit_one now reg topo bid priority) acc0 reqs = Inr acc \<and> db' = refresh_batch now bid (su_db acc))"
proof -
  define bid where "bid = (if opt_truthy batch_id then opt_str batch_id else ''batch-'' @ take 16 uuid)"
  let ?acc0 = "\<lambda>d. \<lparr>su_db = d, su_profiles = [], su_priorities = [], su_nodes = [], su_services = [], su_late = 0,
     su_ids = [], su_load = []\<rparr>"
  have "db' = db \<or> (\<exists>d0 acc. insert_batch now bid db = Inr d0 \<and>
      foldE (submit_one now reg topo bid priority) (?acc0 d0) reqs = Inr acc \<and> db' = refresh_batch now bid (su_db acc))"
    using assms by (auto simp: submit_requests_def Let_def bid_def [symmetric] bindE_eq_Inr split: if_splits option.splits)
  moreover have "su_db (?acc0 d) = d" for d by simp
  ultimately show ?thesis by blast
qed

lemma submit_ok:
  assumes ok: "queue_ok db" and s: "submit_requests now uuid reg topo reqs batch_id priority db = Inr (db', reply)"
  shows "queue_ok db'"
  using submit_form [OF s]
proof (elim disjE exE conjE)
  fix bid d0 acc0 acc
  assume b: "insert_batch now bid db = Inr d0" "su_db acc0 = d0"
    and f: "foldE (submit_one now reg topo bid priority) acc0 reqs = Inr acc" and d: "db' = refresh_batch now bid (su_db acc)"
  have "filling bid (su_db acc0)" using insert_batch_ok [OF ok b(1)] b(2) by (simp add: filling_def)
  then have "filling bid (su_db acc)"
    using foldE_invariant [where P = "\<lambda>a. filling bid (su_db a)", OF f] submit_one_ok by blast
  then show "queue_ok db'" unfolding d by (rule filling_refresh)
qed (use ok in simp)

lemma submit_cpu_item_ok:
  assumes "filling bid (fst acc)" and "submit_cpu_item now bid service prio immediate node timeout acc item = Inr acc'"
  shows "filling bid (fst acc')"
  using assms filling_insert [OF assms(1) row_ok_cpu]
  by (auto simp: submit_cpu_item_def bindE_eq_Inr Let_def split: prod.splits)

lemma submit_cpu_form:
  assumes s: "submit_cpu_requests now uuid service items batch_id immediate node timeout priority db = Inr (db', reply)"
  shows "\<exists>bid prio d0 acc. insert_batch now bid db = Inr d0 \<and>
    foldE (submit_cpu_item now bid service prio immediate node timeout) (d0, []) items = Inr acc \<and> db' = refresh_batch now bid (fst acc)"
proof -
  define bid where "bid = (if opt_truthy batch_id then opt_str batch_id else ''cpu-'' @ take 16 uuid)"
  obtain p where p: "validated_priority priority (Some immediate) = Inr p"
    using s by (cases "validated_priority priority (Some immediate)") (simp_all add: submit_cpu_requests_def)
  define prio where "prio = (case p of Some n \<Rightarrow> n | None \<Rightarrow> 0)"
  have ne: "items \<noteq> []" using s p by (auto simp: submit_cpu_requests_def)
  obtain d0 where b: "insert_batch now bid db = Inr d0"
    using s p ne by (cases "insert_batch now bid db") (simp_all add: submit_cpu_requests_def Let_def bid_def [symmetric])
  obtain acc where f: "foldE (submit_cpu_item now bid service prio immediate node timeout) (d0, []) items = Inr acc"
      and d: "db' = refresh_batch now bid (fst acc)"
    using s p ne b by (cases "foldE (submit_cpu_item now bid service prio immediate node timeout) (d0, []) items")
      (simp_all add: submit_cpu_requests_def Let_def bid_def [symmetric] prio_def [symmetric] case_prod_beta)
  show ?thesis using b f d by blast
qed

lemma submit_cpu_ok:
  assumes ok: "queue_ok db"
    and s: "submit_cpu_requests now uuid service items batch_id immediate node timeout priority db = Inr (db', reply)"
  shows "queue_ok db'"
proof -
  obtain bid prio d0 acc where b: "insert_batch now bid db = Inr d0"
      and f: "foldE (submit_cpu_item now bid service prio immediate node timeout) (d0, []) items = Inr acc"
      and d: "db' = refresh_batch now bid (fst acc)"
    using submit_cpu_form [OF s] by blast
  have "filling bid (fst (d0, []::string list))" using insert_batch_ok [OF ok b] by (simp add: filling_def)
  then have "filling bid (fst acc)"
    using foldE_invariant [where P = "\<lambda>a. filling bid (fst a)", OF f] submit_cpu_item_ok by blast
  then show ?thesis unfolding d by (rule filling_refresh)
qed


section \<open>The event log, the telemetry table and the KV catalogue\<close>

lemma queue_ok_frame:
  assumes "queue_ok db" and "batches d = batches db" "requests d = requests db" "events d = events db" "last_event_id d = last_event_id db"
    "kv_entries d = kv_entries db" "kv_shards d = kv_shards db" "compute_leases d = compute_leases db"
  shows "queue_ok d"
  using assms by (simp add: queue_ok_def core_def fresh_outside_def leases_ok_def kv_ok_def events_ok_def)

lemma queue_ok_event: "queue_ok db \<Longrightarrow> queue_ok (db_event now rid t s p db)"
  using loop_event [of "{}" db] by (simp add: queue_ok_def loop_ok_def)

lemma stream_delta_ok: "queue_ok db \<Longrightarrow> queue_ok (stream_delta now rid txt payload db)"
  by (simp add: stream_delta_def Let_def queue_ok_event)

definition telemetry_only :: "queue_db \<Rightarrow> queue_db \<Rightarrow> bool" where
  "telemetry_only db d \<longleftrightarrow> (\<exists>t. d = db\<lparr>telemetry := t\<rparr>)"

lemma telemetry_only_refl: "telemetry_only db db"
  unfolding telemetry_only_def by (rule exI [of _ "telemetry db"]) simp

lemma telemetry_only_set: "telemetry_only db (db\<lparr>telemetry := t\<rparr>)"
  by (auto simp: telemetry_only_def)

lemma telemetry_only_trans: "telemetry_only a b \<Longrightarrow> telemetry_only b c \<Longrightarrow> telemetry_only a c"
  by (auto simp: telemetry_only_def)

lemma report_telemetry_only: "telemetry_only db (fst (report_pipeline_telemetry clock svc node i n ls le bytes payload ts db))"
  by (simp add: report_pipeline_telemetry_def Let_def telemetry_only_refl telemetry_only_set)

lemma record_stage_only: "telemetry_only db (fst (record_stage clock report db))"
  unfolding record_stage_def
  by (split sum.split) (simp add: report_telemetry_only telemetry_only_refl case_prod_beta)

lemma foldl_telemetry_only:
  assumes "\<And>a x. x \<in> set xs \<Longrightarrow> telemetry_only (fst a) (fst (g a x))"
  shows "telemetry_only (fst a) (fst (foldl g a xs))"
  using assms
proof (induction xs arbitrary: a)
  case Nil
  then show ?case by (simp add: telemetry_only_refl)
next
  case (Cons x xs)
  have "telemetry_only (fst a) (fst (g a x))" by (rule Cons.prems) simp
  moreover have "telemetry_only (fst (g a x)) (fst (foldl g (g a x) xs))" by (rule Cons.IH) (simp add: Cons.prems)
  ultimately show ?case by (simp add: telemetry_only_trans [of "fst a"])
qed

lemma collect_stage_only:
  assumes run: "\<And>d. telemetry_only d (fst (run d))"
  shows "telemetry_only (fst a) (fst (collect_stage run a))"
proof (cases a)
  case (Pair db r)
  show ?thesis
    by (cases r) (simp_all add: Pair collect_stage_def telemetry_only_refl run case_prod_beta)
qed

lemma record_telemetry_only: "telemetry_only db (fst (record_pipeline_telemetry clock report db))"
proof (induction clock report db rule: record_pipeline_telemetry.induct)
  case (1 clock report db)
  show ?case
  proof (cases "stage_list report")
    case None
    then show ?thesis by (simp add: record_stage_only record_pipeline_telemetry.simps)
  next
    case (Some items)
    let ?g = "\<lambda>acc v. collect_stage (\<lambda>d. case v of
                    JObj item \<Rightarrow> record_pipeline_telemetry clock (merged_report report item) d
                  | _ \<Rightarrow> (d, Inl (ValueError ''pipeline telemetry stages must be objects''))) acc"
    have "telemetry_only (fst (db, Inr [] :: json list result)) (fst (foldl ?g (db, Inr []) items))"
    proof (rule foldl_telemetry_only)
      fix a v assume v: "v \<in> set items"
      show "telemetry_only (fst a) (fst (?g a v))"
      proof (rule collect_stage_only)
        fix d
        show "telemetry_only d (fst (case v of
                    JObj item \<Rightarrow> record_pipeline_telemetry clock (merged_report report item) d
                  | _ \<Rightarrow> (d, Inl (ValueError ''pipeline telemetry stages must be objects''))))"
          using "1.IH" [OF Some v] by (simp add: telemetry_only_refl split: json.split)
      qed
    qed
    moreover have "fst (record_pipeline_telemetry clock report db) = fst (foldl ?g (db, Inr []) items)"
      by (subst record_pipeline_telemetry.simps) (simp add: Some case_prod_beta split: sum.split)
    ultimately show ?thesis by simp
  qed
qed

lemma record_telemetry_ok: "queue_ok db \<Longrightarrow> queue_ok (fst (record_pipeline_telemetry clock report db))"
proof -
  assume ok: "queue_ok db"
  obtain t where "fst (record_pipeline_telemetry clock report db) = db\<lparr>telemetry := t\<rparr>"
    using record_telemetry_only [of db clock report] by (auto simp: telemetry_only_def)
  then show ?thesis by (simp add: queue_ok_frame [OF ok])
qed

lemma queue_ok_kv_memory: "queue_ok db \<Longrightarrow> queue_ok (db\<lparr>kv_memory := m\<rparr>)"
  by (rule queue_ok_frame) simp_all

lemma recover_startup_ok: "queue_ok db \<Longrightarrow> queue_ok (fst (recover_jit_kv_startup now stale db))"
  by (simp add: recover_jit_kv_startup_def no_prefilling queue_ok_kv_memory case_prod_beta)

lemma release_waits_ok: "queue_ok db \<Longrightarrow> fst (release_jit_kv_waits now reason db) = db"
  by (simp add: release_jit_kv_waits_def no_prefilling)

end
