(* ===== verification/Queue_Cycle.thy ===== *)
theory Queue_Cycle
  imports Queue_Admit
begin

text \<open>
  The life cycle of a request as an abstract state machine, and the proof that every operation of the
  queue moves every stored row along it: rows are never removed, their identity never changes, an
  attempt is counted exactly when a ready row is claimed, and a terminal row stays as it is.
\<close>

section \<open>The abstract machine\<close>

inductive life :: "request_row \<Rightarrow> request_row \<Rightarrow> bool" where
  annotate: "same_request r r' \<Longrightarrow> \<not> terminal (rq_state r) \<Longrightarrow> rq_state r' = rq_state r \<Longrightarrow> rq_lease_id r' = rq_lease_id r \<Longrightarrow>
      rq_attempt_count r' = rq_attempt_count r \<Longrightarrow> life r r'"
| prepare: "same_request r r' \<Longrightarrow> rq_state r = Queued \<Longrightarrow> rq_state r' = Ready \<Longrightarrow> rq_attempt_count r' = rq_attempt_count r \<Longrightarrow> life r r'"
| claim: "same_request r r' \<Longrightarrow> rq_state r = Ready \<Longrightarrow> rq_state r' = Running \<Longrightarrow> rq_lease_id r' \<noteq> None \<Longrightarrow>
      rq_attempt_count r' = rq_attempt_count r + 1 \<Longrightarrow> life r r'"
| requeue: "same_request r r' \<Longrightarrow> rq_state r = Running \<Longrightarrow> rq_state r' = Queued \<Longrightarrow> rq_lease_id r' = None \<Longrightarrow>
      rq_attempt_count r' = rq_attempt_count r \<Longrightarrow> life r r'"
| close: "same_request r r' \<Longrightarrow> \<not> terminal (rq_state r) \<Longrightarrow> terminal (rq_state r') \<Longrightarrow> rq_lease_id r' = None \<or> rq_lease_id r' = rq_lease_id r \<Longrightarrow>
      rq_attempt_count r' = rq_attempt_count r \<Longrightarrow> life r r'"

inductive_cases life_terminalE: "life r r'"

abbreviation evolves :: "request_row \<Rightarrow> request_row \<Rightarrow> bool" where
  "evolves \<equiv> life\<^sup>*\<^sup>*"

definition new_row :: "request_row \<Rightarrow> bool" where
  "new_row r \<longleftrightarrow> rq_attempt_count r = 0 \<and> rq_state r = (if rq_kind r = ''cpu'' then Ready else Queued)"

definition grows :: "request_row list \<Rightarrow> request_row list \<Rightarrow> bool" where
  \<comment> \<open>every stored row evolves, and the rows that are new are behind them\<close>
  "grows t t' \<longleftrightarrow> (\<exists>u v. t' = u @ v \<and> list_all2 evolves t u \<and> (\<forall>r \<in> set v. \<exists>r0. new_row r0 \<and> evolves r0 r))"

lemma same_request_refl [simp]: "same_request r r"
  by (simp add: same_request_def)

lemma same_request_trans: "same_request a b \<Longrightarrow> same_request b c \<Longrightarrow> same_request a c"
  by (simp add: same_request_def)

lemma life_same_request: "life r r' \<Longrightarrow> same_request r r'"
  by (auto elim: life_terminalE)

lemma evolves_same_request: "evolves r r' \<Longrightarrow> same_request r r'"
  by (induction rule: rtranclp_induct) (auto dest: life_same_request intro: same_request_trans)

lemma evolves_terminal: "evolves r r' \<Longrightarrow> terminal (rq_state r) \<Longrightarrow> r' = r"
  by (induction rule: rtranclp_induct) (auto elim!: life_terminalE)

lemma evolves_attempts: "evolves r r' \<Longrightarrow> rq_attempt_count r \<le> rq_attempt_count r'"
  by (induction rule: rtranclp_induct) (auto elim!: life_terminalE)

lemma grows_refl [simp]: "grows t t"
  unfolding grows_def by (intro exI [of _ t] exI [of _ "[]"]) (simp add: list_all2_same)

lemma list_all2_evolves_trans: "list_all2 evolves a b \<Longrightarrow> list_all2 evolves b c \<Longrightarrow> list_all2 evolves a c"
  by (rule list_all2_trans [of evolves evolves evolves]) (auto intro: rtranclp_trans)

lemma list_all2_in: "list_all2 P xs ys \<Longrightarrow> x \<in> set xs \<Longrightarrow> \<exists>y \<in> set ys. P x y"
  by (induction rule: list_all2_induct) auto

lemma list_all2_back: "list_all2 P xs ys \<Longrightarrow> y \<in> set ys \<Longrightarrow> \<exists>x \<in> set xs. P x y"
  by (induction rule: list_all2_induct) auto

lemma grows_trans:
  assumes "grows t t'" and "grows t' t''"
  shows "grows t t''"
proof -
  obtain u v where t': "t' = u @ v" "list_all2 evolves t u" "\<forall>r \<in> set v. \<exists>r0. new_row r0 \<and> evolves r0 r"
    using assms(1) by (auto simp: grows_def)
  obtain w x where t'': "t'' = w @ x" "list_all2 evolves t' w" "\<forall>r \<in> set x. \<exists>r0. new_row r0 \<and> evolves r0 r"
    using assms(2) by (auto simp: grows_def)
  obtain w1 w2 where w: "w = w1 @ w2" "list_all2 evolves u w1" "list_all2 evolves v w2"
    using t''(2) unfolding t'(1) list_all2_append1 by auto
  have "\<exists>r0. new_row r0 \<and> evolves r0 r" if r: "r \<in> set w2" for r
  proof -
    obtain s where "s \<in> set v" "evolves s r" using list_all2_back [OF w(3) r] by auto
    then show ?thesis using t'(3) by (meson rtranclp_trans)
  qed
  then show ?thesis unfolding grows_def using t'' w list_all2_evolves_trans [OF t'(2) w(2)]
    by (intro exI [of _ w1] exI [of _ "w2 @ x"]) auto
qed

lemma grows_update:
  assumes "\<And>r. r \<in> set t \<Longrightarrow> p r \<Longrightarrow> evolves r (f r)"
  shows "grows t (sql_update p f t)"
proof -
  have "list_all2 evolves t (sql_update p f t)" using assms by (induction t) auto
  then show ?thesis unfolding grows_def by (intro exI [of _ "sql_update p f t"] exI [of _ "[]"]) simp
qed

lemma grows_append: "new_row r \<Longrightarrow> grows t (t @ [r])"
  unfolding grows_def by (intro exI [of _ t] exI [of _ "[r]"]) (auto simp: list_all2_same)

lemma grows_in:
  assumes "grows t t'" and "r \<in> set t"
  shows "\<exists>r' \<in> set t'. evolves r r'"
proof -
  obtain u v where u: "t' = u @ v" "list_all2 evolves t u" using assms(1) by (auto simp: grows_def)
  from list_all2_in [OF u(2) assms(2)] show ?thesis by (auto simp: u(1))
qed

lemma grows_back:
  assumes "grows t t'" and "r' \<in> set t'"
  shows "\<exists>r. evolves r r' \<and> (r \<in> set t \<or> new_row r)"
proof -
  obtain u v where u: "t' = u @ v" "list_all2 evolves t u" "\<forall>r \<in> set v. \<exists>r0. new_row r0 \<and> evolves r0 r"
    using assms(1) by (auto simp: grows_def)
  show ?thesis
  proof (cases "r' \<in> set u")
    case True
    then show ?thesis using list_all2_back [OF u(2)] by blast
  next
    case False
    then show ?thesis using assms(2) u(1,3) by auto
  qed
qed


section \<open>Every operation follows it\<close>

lemma grows_one:
  assumes c: "core db" and row: "row \<in> set (requests db)"
    and p: "\<And>r. r \<in> set (requests db) \<Longrightarrow> p r \<Longrightarrow> rq_request_id r = rq_request_id row" and e: "p row \<Longrightarrow> evolves row (f row)"
  shows "grows (requests db) (sql_update p f (requests db))"
proof (rule grows_update)
  fix r assume "r \<in> set (requests db)" "p r"
  then have "r = row" using keyed_same [OF c _ row] p by blast
  then show "evolves r (f r)" using e \<open>p r\<close> by simp
qed

lemma life_close: "\<not> terminal (rq_state r) \<Longrightarrow> terminal s \<Longrightarrow> evolves r (clear_lease (close_row now s v e r))"
  by (rule r_into_rtranclp, rule life.close) (simp_all add: same_request_def close_row_def clear_lease_def)

lemma life_cancel: "\<not> terminal (rq_state r) \<Longrightarrow> evolves r (cancel_close now reason row r)"
  by (rule r_into_rtranclp, rule life.close) (simp_all add: same_request_def cancel_close_def close_row_def clear_lease_def Let_def)

lemma life_requeue: "rq_state r = Running \<Longrightarrow> evolves r (requeue_row now r)"
  by (rule r_into_rtranclp, rule life.requeue) (simp_all add: same_request_def requeue_row_def clear_lease_def keep_binding_def)

lemma life_requeue_retry:
  "rq_state r = Running \<Longrightarrow> evolves r (requeue_row now r\<lparr>rq_ready_at := a, rq_result := v, rq_error := e\<rparr>)"
  by (rule r_into_rtranclp, rule life.requeue) (simp_all add: same_request_def requeue_row_def clear_lease_def keep_binding_def)

lemma life_ready: "rq_state r = Queued \<Longrightarrow> evolves r (mark_ready now bind ids r)"
  by (rule r_into_rtranclp, rule life.prepare) (simp_all add: same_request_def mark_ready_def clear_lease_def)

lemma life_start: "rq_state r = Ready \<Longrightarrow> evolves r (start_running now ttl who lease cl r)"
  by (rule r_into_rtranclp, rule life.claim) (simp_all add: same_request_def start_running_def)

lemma requests_update [simp]: "requests (update_requests p f db) = sql_update p f (requests db)"
  by (simp add: update_requests_def)

lemma finish_missed:
  "terminal st \<Longrightarrow> find (running_under rid lease) (requests db) = None \<Longrightarrow>
     finish_request now rid lease st res err db = Inr (db, False)"
  by (simp add: finish_request_def)

lemma finish_found:
  assumes "terminal st" and "find (running_under rid lease) (requests db) = Some row"
  defines "final \<equiv> finish_state row st"
  shows "\<exists>d. finish_request now rid lease st res err db = Inr (d, True) \<and>
    requests d = sql_update (running_under rid lease) (\<lambda>r. clear_lease (close_row now final
      (if final = Cancelled then ignored_result res else res) (finish_error final err) r)) (requests db)"
  using assms(1,2) by (simp add: finish_request_def Let_def final_def [symmetric])

lemma terminal_finish_state: "terminal st \<Longrightarrow> terminal (finish_state row st)"
  by (simp add: finish_state_def)

lemma finish_grows:
  assumes "finish_request now rid lease st res err db = Inr (db', b)"
  shows "grows (requests db) (requests db')"
proof -
  have t: "terminal st" using assms by (auto simp: finish_request_def split: if_splits)
  show ?thesis
  proof (cases "find (running_under rid lease) (requests db)")
    case None
    then show ?thesis using finish_missed [OF t None] assms by simp
  next
    case (Some row)
    then show ?thesis
      using finish_found [OF t Some, of now res err] assms
      by (auto intro!: grows_update life_close terminal_finish_state t simp: running_under_def)
  qed
qed

lemma running_under_state: "running_under rid lease r \<Longrightarrow> rq_state r = Running"
  by (simp add: running_under_def)

lemma retry_grows:
  assumes "retry_transport_failure now rid lease res mx db = (db', out)"
  shows "grows (requests db) (requests db')"
proof (cases "find (running_under rid lease) (requests db)")
  case None
  then show ?thesis using assms by (simp add: retry_transport_failure_def)
next
  case (Some row)
  consider (c) "rq_cancel_requested row" | (r) "\<not> rq_cancel_requested row" "rq_attempt_count row < mx"
    | (f) "\<not> rq_cancel_requested row" "\<not> rq_attempt_count row < mx" by blast
  then show ?thesis
  proof cases
    case c
    then show ?thesis using assms Some
      by (auto simp: retry_transport_failure_def Let_def intro!: grows_update life_close dest!: running_under_state)
  next
    case r
    then show ?thesis using assms Some
      by (auto simp: retry_transport_failure_def Let_def intro!: grows_update life_requeue_retry dest!: running_under_state)
  next
    case f
    then show ?thesis using assms Some
      by (auto simp: retry_transport_failure_def Let_def intro!: grows_update life_close dest!: running_under_state)
  qed
qed

lemma cancel_row_grows:
  assumes c: "core db" and row: "row \<in> set (requests db)"
  shows "grows (requests db) (requests (fst (cancel_row now reason force (db, t) row)))"
proof -
  have "life row (row\<lparr>rq_cancel_requested := True, rq_updated_at := now\<rparr>)" if "\<not> terminal (rq_state row)"
    using that by (intro life.annotate) (simp_all add: same_request_def)
  then show ?thesis
    by (auto simp: cancel_row_def cancel_now_def Let_def intro!: grows_one [OF c row] life_cancel simp: by_id_def)
qed

lemma cancel_grows:
  assumes ok: "queue_ok db" and c: "cancel now rid batch_id job_id reason force db = Inr (db', reply)"
  shows "grows (requests db) (requests db')"
proof -
  obtain bid where db': "requests db' = requests (fst (foldl (cancel_row now reason force)
      (db, \<lparr>ct_cancelled = [], ct_requested = [], ct_skipped = []\<rparr>) (cancel_rows rid bid db)))"
    using cancel_form [OF c] by auto
  let ?rows = "cancel_rows rid bid db"
  let ?S = "set (map rq_batch_id ?rows)"
  have "loop_ok ?S (fst (foldl (cancel_row now reason force) (db, \<lparr>ct_cancelled = [], ct_requested = [], ct_skipped = []\<rparr>) ?rows)) \<and>
     grows (requests db) (requests (fst (foldl (cancel_row now reason force) (db, \<lparr>ct_cancelled = [], ct_requested = [], ct_skipped = []\<rparr>) ?rows)))"
  proof (rule foldl_rows [where get = fst and P = "\<lambda>acc. loop_ok ?S (fst acc) \<and> grows (requests db) (requests (fst acc))"])
    fix acc :: "queue_db \<times> cancel_tally" and row
    assume r: "row \<in> set ?rows" and l: "loop_ok ?S (fst acc) \<and> grows (requests db) (requests (fst acc))" and i: "row \<in> set (requests (fst acc))"
    have "turn_ok ?S row (fst acc) (fst (cancel_row now reason force acc row))"
      using cancel_row_ok [of ?S "fst acc" row now reason force "snd acc"] r l i by simp
    moreover have "grows (requests (fst acc)) (requests (fst (cancel_row now reason force acc row)))"
      using cancel_row_grows [of "fst acc" row now reason force "snd acc"] l i by (simp add: loop_ok_def)
    ultimately show "(loop_ok ?S (fst (cancel_row now reason force acc row)) \<and> grows (requests db) (requests (fst (cancel_row now reason force acc row)))) \<and>
        only_row (rq_request_id row) (requests (fst acc)) (requests (fst (cancel_row now reason force acc row)))"
      using l grows_trans by (auto simp: turn_ok_def)
  qed (use cancel_rows_ok [OF queue_okD(1) [OF ok]] loop_okD [OF ok] in simp_all)
  then show ?thesis by (simp add: db')
qed

lemma expire_row_grows:
  assumes c: "core db" and row: "row \<in> set (requests db)" and s: "rq_state row = Running"
  shows "grows (requests db) (requests (fst (expire_row now mx (db, n, m) row)))"
proof -
  have t: "\<not> terminal (rq_state row)" using s by simp
  show ?thesis
    by (cases "rq_attempt_count row < mx"; simp add: expire_row_def expire_write_def Let_def;
        intro grows_one [OF c row]; simp add: by_id_def life_requeue s life_close [OF t])
qed


lemma expired_running: "queue_ok db \<Longrightarrow> row \<in> set (expired_rows now (purge_idle_compute_leases now db)) \<Longrightarrow> rq_state row = Running"
  using row_ok_in [of db row] by (auto simp: expired_rows_def lease_expired_def purge_idle_compute_leases_def queue_ok_def row_ok_def)

lemma requeue_expired_form:
  "fst (requeue_expired_leases now mx db) =
     fst (foldl (expire_row now mx) (purge_idle_compute_leases now db, 0, 0) (expired_rows now (purge_idle_compute_leases now db)))"
  by (simp add: requeue_expired_leases_def Let_def case_prod_beta)

lemma purge_idle_requests [simp]: "requests (purge_idle_compute_leases now db) = requests db"
  by (simp add: purge_idle_compute_leases_def)

lemma requeue_expired_grows:
  assumes ok: "queue_ok db"
  shows "grows (requests db) (requests (fst (requeue_expired_leases now mx db)))"
proof -
  let ?d0 = "purge_idle_compute_leases now db"
  have ok0: "queue_ok ?d0" by (rule purge_idle_ok [OF ok])
  have "queue_ok (fst (foldl (expire_row now mx) (?d0, 0, 0) (expired_rows now ?d0))) \<and>
      grows (requests db) (requests (fst (foldl (expire_row now mx) (?d0, 0, 0) (expired_rows now ?d0))))"
  proof (rule foldl_rows [where get = fst and P = "\<lambda>acc. queue_ok (fst acc) \<and> grows (requests db) (requests (fst acc))"])
    show "distinct (map rq_request_id (expired_rows now ?d0))"
      using core_distinct_select [OF queue_okD(1) [OF ok0]] by (simp add: expired_rows_def)
    fix acc :: "queue_db \<times> nat \<times> nat" and row
    assume r: "row \<in> set (expired_rows now ?d0)" and q: "queue_ok (fst acc) \<and> grows (requests db) (requests (fst acc))"
      and i: "row \<in> set (requests (fst acc))"
    have s: "rq_state row = Running" by (rule expired_running [OF ok r])
    have t: "\<not> terminal (rq_state row)" using s by simp
    have "grows (requests (fst acc)) (requests (fst (expire_row now mx acc row)))"
      using expire_row_grows [OF _ i s, of now mx "fst (snd acc)" "snd (snd acc)"] q by (simp add: queue_ok_def)
    then show "(queue_ok (fst (expire_row now mx acc row)) \<and> grows (requests db) (requests (fst (expire_row now mx acc row)))) \<and>
        only_row (rq_request_id row) (requests (fst acc)) (requests (fst (expire_row now mx acc row)))"
      using expire_row_ok [OF _ i t, of now mx "fst (snd acc)" "snd (snd acc)"] q grows_trans by auto
  qed (use ok0 in \<open>simp_all add: expired_rows_def subset_iff\<close>)
  then show ?thesis by (simp add: requeue_expired_form)
qed

lemma heartbeat_grows: "grows (requests db) (requests (fst (heartbeat now ids ttl db)))"
proof -
  have "life r (r\<lparr>rq_heartbeat_at := Some now, rq_lease_expires_at := Some (now + ttl), rq_updated_at := now\<rparr>)"
    if "rq_state r = Running" for r
    using that by (intro life.annotate) (simp_all add: same_request_def)
  then show ?thesis by (auto simp: heartbeat_def Let_def leased_running_def intro!: grows_update)
qed

lemma kv_frame_grows:
  assumes k: "kv_frame row db d" and c: "core db" and row: "row \<in> set (requests db)" "\<not> terminal (rq_state row)"
  shows "grows (requests db) (requests d)"
proof -
  obtain f where d: "requests d = sql_update (by_id (rq_request_id row)) f (requests db)"
    and f: "\<And>r. same_request r (f r) \<and> rq_state (f r) = rq_state r \<and> rq_lease_id (f r) = rq_lease_id r \<and>
          rq_attempt_count (f r) = rq_attempt_count r"
    using k by (auto simp: kv_frame_def)
  show ?thesis unfolding d
    by (rule grows_one [OF c row(1)]) (use f row(2) in \<open>auto simp: by_id_def intro: life.annotate\<close>)
qed

lemma prepare_row_grows:
  assumes c: "core db" and row: "row \<in> set (requests db)" "rq_state row = Queued"
  shows "grows (requests db) (requests (fst (prepare_row now node cap layouts uuid who (db, made, touched) row)))"
proof -
  define bind where "bind = (if opt_truthy (rq_node_id row) then rq_node_id row else if opt_truthy node then node else None)"
  obtain d ok where r: "reserve_kv now row bind cap (layouts (rq_profile_id row)) db = (d, ok)" by fastforce
  have "kv_frame row db d" using c by (intro reserve_frame [OF _ r]) (simp add: core_def)
  then have g: "grows (requests db) (requests d)" by (rule kv_frame_grows [OF _ c row(1)]) (simp add: row(2))
  have u: "grows (requests d) (sql_update (\<lambda>r. rq_request_id r = rq_request_id row \<and> rq_state r = Queued) (mark_ready now bind ids) (requests d))" for ids
    by (rule grows_update) (simp add: life_ready)
  show ?thesis using g grows_trans [OF g u] r
    by (simp add: prepare_row_def Let_def bind_def [symmetric])
qed

lemma queued_rows_ok:
  assumes "core db"
  shows "distinct (map rq_request_id (queued_rows env now db node el batch rem svc share))"
    "\<And>r. r \<in> set (queued_rows env now db node el batch rem svc share) \<Longrightarrow> r \<in> set (requests db) \<and> rq_state r = Queued"
proof -
  have "distinct (map rq_request_id (take n (sql_select p k (requests db))))" for n p and k :: "request_row \<Rightarrow> int \<times> rat \<times> string"
    using core_distinct_select [OF assms, of p k] by (simp add: take_map [symmetric])
  then show "distinct (map rq_request_id (queued_rows env now db node el batch rem svc share))"
    by (simp add: queued_rows_def Let_def)
  show "r \<in> set (requests db) \<and> rq_state r = Queued" if "r \<in> set (queued_rows env now db node el batch rem svc share)" for r
    using that by (auto simp: queued_rows_def Let_def sql_where_def dest!: in_set_takeD)
qed

lemma prepare_grows:
  assumes ok: "queue_ok db"
  shows "grows (requests db) (requests (fst (prepare_ready env now uuid node eligible batch lmt who depth cap layouts svc share db)))"
proof -
  have main: "grows (requests db) (requests (fst (foldl (prepare_row now node cap layouts uuid who) (db, 0, [])
      (queued_rows env now db node el batch rem svc share))))" for el rem
  proof -
    let ?g = "prepare_row now node cap layouts uuid who"
    let ?rows = "queued_rows env now db node el batch rem svc share"
    let ?loop = "foldl ?g (db, 0, [])"
    have "loop_ok (set (snd (snd (?loop ?rows)))) (fst (?loop ?rows)) \<and> grows (requests db) (requests (fst (?loop ?rows)))"
    proof (rule foldl_rows [where get = fst and P = "\<lambda>a. loop_ok (set (snd (snd a))) (fst a) \<and> grows (requests db) (requests (fst a))"])
      fix acc :: "queue_db \<times> nat \<times> string list" and row
      assume r: "row \<in> set ?rows" and l: "loop_ok (set (snd (snd acc))) (fst acc) \<and> grows (requests db) (requests (fst acc))"
        and i: "row \<in> set (requests (fst acc))"
      obtain d made touched where acc: "acc = (d, made, touched)" by (cases acc)
      have "rq_state row = Queued" using queued_rows_ok(2) [OF queue_okD(1) [OF ok] r] by simp
      then have "grows (requests d) (requests (fst (?g (d, made, touched) row)))"
        using l i acc by (intro prepare_row_grows) (simp_all add: loop_ok_def)
      moreover have "loop_ok (set (snd (snd (?g (d, made, touched) row)))) (fst (?g (d, made, touched) row)) \<and>
          only_row (rq_request_id row) (requests d) (requests (fst (?g (d, made, touched) row)))"
        using prepare_row_ok [of touched d row now node cap layouts uuid who made] l i acc by (metis fst_conv prod.collapse snd_conv)
      ultimately show "(loop_ok (set (snd (snd (?g acc row)))) (fst (?g acc row)) \<and> grows (requests db) (requests (fst (?g acc row)))) \<and>
          only_row (rq_request_id row) (requests (fst acc)) (requests (fst (?g acc row)))"
        using l grows_trans [of "requests db" "requests d"] by (simp add: acc)
    qed (use queued_rows_ok [OF queue_okD(1) [OF ok]] loop_okD [OF ok] in auto)
    then show ?thesis by simp
  qed
  then show ?thesis by (simp add: prepare_ready_def Let_def case_prod_beta split: option.split)
qed


lemma claim_row_grows:
  assumes "claim_row now ttl who cl (db, claims, bids) (lease, row) = Inr (db', claims', bids')"
  shows "grows (requests db) (requests db')"
  using assms
proof (cases rule: claim_row_cases)
  case skip
  then show ?thesis by simp
next
  case (start t s v c)
  then show ?thesis by (simp, intro grows_update life_start) (simp add: ready_row_def)
qed

lemma claim_rows_grows:
  assumes "claim_rows now ttl who uuid cl rows db = Inr (db', claims, bids)"
  shows "grows (requests db) (requests db')"
proof -
  have "grows (requests db) (requests (fst (db', claims, bids)))"
  proof (rule foldE_invariant [where P = "\<lambda>a. grows (requests db) (requests (fst a))", OF assms [unfolded claim_rows_def]])
    fix s x t
    assume "grows (requests db) (requests (fst s))" "claim_row now ttl who cl s x = Inr t"
    then show "grows (requests db) (requests (fst t))"
      using claim_row_grows [of now ttl who cl "fst s" "fst (snd s)" "snd (snd s)" "fst x" "snd x" "fst t" "fst (snd t)" "snd (snd t)"]
        grows_trans by simp
  qed simp
  then show ?thesis by simp
qed

lemma claim_selected_form:
  assumes c: "claim_selected env now uuid who ttl lid share rows db = Inr (db', claims)" and ok: "queue_ok db"
  shows "(claims = [] \<and> requests db' = requests db) \<or>
    (\<exists>d d2 bids g. queue_ok d \<and> requests d = requests db \<and> g \<noteq> Denied \<and>
       (if share then (db, NoDomain) else if opt_truthy lid then extend_compute_lease env now (hd rows) (length rows) lid who ttl db
        else acquire_compute_lease env now (uuid 0) (hd rows) (length rows) who ttl db) = (d, g) \<and>
       claim_rows now ttl who uuid (granted_id g) rows d = Inr (d2, claims, bids) \<and> requests db' = requests d2 \<and>
       (claims \<noteq> [] \<longrightarrow> compute_leases db' = compute_leases d2))"
proof -
  obtain d g where dg: "(if share then (db, NoDomain) else if opt_truthy lid
        then extend_compute_lease env now (hd rows) (length rows) lid who ttl db
        else acquire_compute_lease env now (uuid 0) (hd rows) (length rows) who ttl db) = (d, g)" by fastforce
  note d = grant_ok [OF ok dg]
  show ?thesis
  proof (cases "g = Denied")
    case True
    then show ?thesis using c d unfolding claim_selected_def Let_def dg by simp
  next
    case False
    then show ?thesis using c d unfolding claim_selected_def Let_def dg by (auto simp: bindE_eq_Inr)
  qed
qed

lemma claim_grows:
  assumes ok: "queue_ok db" and c: "claim_ready_batch env now uuid opts db = Inr (db', claims)"
  shows "grows (requests db) (requests db')"
proof (cases "select_claim_rows env now opts db = []")
  case True
  then show ?thesis using c by (simp add: claim_ready_batch_def)
next
  case False
  then have s: "claim_selected env now uuid (co_leased_by opts) (co_ttl opts) (co_compute_lease opts) (co_share opts)
      (select_claim_rows env now opts db) db = Inr (db', claims)"
    using c by (simp add: claim_ready_batch_def Let_def)
  from claim_selected_form [OF s ok] show ?thesis
  proof (elim disjE exE conjE)
    fix d d2 bids g
    assume "requests d = requests db" "requests db' = requests d2"
      and "claim_rows now (co_ttl opts) (co_leased_by opts) uuid (granted_id g) (select_claim_rows env now opts db) d = Inr (d2, claims, bids)"
    then show ?thesis using claim_rows_grows by metis
  qed simp
qed

lemma new_row_queued: "new_row (queued_row now bid req profile prio b)"
  by (simp add: new_row_def queued_row_def)

lemma new_row_cpu: "new_row (cpu_row now bid service prio immediate node rid payload)"
  by (simp add: new_row_def cpu_row_def)

lemma insert_request_grows: "new_row r \<Longrightarrow> insert_request r db = Inr db' \<Longrightarrow> grows (requests db) (requests db')"
  by (auto simp: insert_request_def bindE_eq_Inr sql_insert_Inr grows_append)

lemma submit_grows:
  assumes ok: "queue_ok db" and s: "submit_requests now uuid reg topo reqs batch_id priority db = Inr (db', reply)"
  shows "grows (requests db) (requests db')"
proof -
  have one: "grows (requests (su_db acc)) (requests (su_db acc'))" if "submit_one now reg topo bid priority acc req = Inr acc'" for bid acc acc' req
    using that insert_request_grows [OF new_row_queued] by (auto simp: submit_one_def bindE_eq_Inr Let_def)
  from submit_form [OF s] show ?thesis
  proof (elim disjE exE conjE)
    fix bid d0 acc0 acc
    assume b: "insert_batch now bid db = Inr d0" "su_db acc0 = d0"
      and f: "foldE (submit_one now reg topo bid priority) acc0 reqs = Inr acc" and d: "db' = refresh_batch now bid (su_db acc)"
    have "grows (requests db) (requests (su_db acc0))" using insert_batch_ok(3) [OF ok b(1)] b(2) by simp
    then have "grows (requests db) (requests (su_db acc))"
      using foldE_invariant [where P = "\<lambda>a. grows (requests db) (requests (su_db a))", OF f] one grows_trans by blast
    then show "grows (requests db) (requests db')" by (simp add: d)
  qed simp
qed

lemma submit_cpu_grows:
  assumes ok: "queue_ok db" and s: "submit_cpu_requests now uuid service items batch_id immediate node timeout priority db = Inr (db', reply)"
  shows "grows (requests db) (requests db')"
proof -
  have one: "grows (requests (fst acc)) (requests (fst acc'))"
    if "submit_cpu_item now bid service prio immediate node timeout acc item = Inr acc'" for bid prio acc acc' item
    using that insert_request_grows [OF new_row_cpu] by (auto simp: submit_cpu_item_def bindE_eq_Inr Let_def split: prod.splits)
  obtain bid prio d0 acc where b: "insert_batch now bid db = Inr d0"
      and f: "foldE (submit_cpu_item now bid service prio immediate node timeout) (d0, []) items = Inr acc"
      and d: "db' = refresh_batch now bid (fst acc)"
    using submit_cpu_form [OF s] by blast
  have "grows (requests db) (requests (fst (d0, []::string list)))" using insert_batch_ok(3) [OF ok b] by simp
  then have "grows (requests db) (requests (fst acc))"
    using foldE_invariant [where P = "\<lambda>a. grows (requests db) (requests (fst a))", OF f] one grows_trans by blast
  then show ?thesis by (simp add: d)
qed

end
