(* ===== verification/Queue_Steps.thy ===== *)
theory Queue_Steps
  imports Queue_Cycle Kv_Contract
begin

text \<open>
  The queue as a transition system: one step is one operation of \<^verbatim>\<open>InferenceQueue\<close> that
  succeeds (an operation that raises rolls its transaction back).  A locale states what a store of rows
  with a life cycle gives its clients; the queue is an interpretation of it, and the properties of
  every reachable database follow.
\<close>

section \<open>Steps\<close>

inductive queue_step :: "queue_db \<Rightarrow> queue_db \<Rightarrow> bool" where
  submit: "submit_requests now uuid reg topo reqs bid prio db = Inr (db', reply) \<Longrightarrow> queue_step db db'"
| submit_cpu: "submit_cpu_requests now uuid service items bid immediate node timeout prio db = Inr (db', reply) \<Longrightarrow> queue_step db db'"
| prepare: "prepare_ready env now uuids node eligible bid lmt who depth cap layouts svc share db = (db', n) \<Longrightarrow> queue_step db db'"
| claim: "claim_ready_batch env now uuids opts db = Inr (db', claims) \<Longrightarrow> queue_step db db'"
| finish: "finish_request now rid lease st res err db = Inr (db', fin) \<Longrightarrow> queue_step db db'"
| retry: "retry_transport_failure now rid lease res mx db = (db', outcome) \<Longrightarrow> queue_step db db'"
| cancel: "cancel now orid obid ojob reason force db = Inr (db', reply) \<Longrightarrow> queue_step db db'"
| expire: "requeue_expired_leases now mx db = (db', reply) \<Longrightarrow> queue_step db db'"
| heartbeat: "heartbeat now ids ttl db = (db', n) \<Longrightarrow> queue_step db db'"
| startup: "recover_jit_kv_startup now stale db = (db', reply) \<Longrightarrow> queue_step db db'"
| release_waits: "release_jit_kv_waits now reason db = (db', reply) \<Longrightarrow> queue_step db db'"
| delta: "stream_delta now rid chunk payload db = db' \<Longrightarrow> queue_step db db'"
| telemetry: "record_pipeline_telemetry now report db = (db', out) \<Longrightarrow> queue_step db db'"
| refresh: "refresh_batch now b db = db' \<Longrightarrow> queue_step db db'"
| catalogue: "kv_step (kv_memory db) m \<Longrightarrow> db' = db\<lparr>kv_memory := m\<rparr> \<Longrightarrow> queue_step db db'"

definition queue_reachable :: "queue_db \<Rightarrow> bool" where
  "queue_reachable db \<longleftrightarrow> queue_step\<^sup>*\<^sup>* empty_db db"

lemma queue_reachable_empty: "queue_reachable empty_db"
  by (simp add: queue_reachable_def)

lemma queue_reachable_step: "queue_reachable db \<Longrightarrow> queue_step db db' \<Longrightarrow> queue_reachable db'"
  by (simp add: queue_reachable_def)

lemma queue_reachable_steps: "queue_reachable db \<Longrightarrow> queue_step\<^sup>*\<^sup>* db db' \<Longrightarrow> queue_reachable db'"
  by (simp add: queue_reachable_def)

lemma refresh_ok: "queue_ok db \<Longrightarrow> queue_ok (refresh_batch now b db)"
  using fresh_refresh [of "{}" db b now] by (auto simp: queue_ok_def intro: core_refresh fresh_mono)

lemma queue_step_ok:
  assumes "queue_step db db'" and ok: "queue_ok db"
  shows "queue_ok db'"
  using assms(1)
proof cases
  case (submit now uuid reg topo reqs bid prio reply)
  show ?thesis by (rule submit_ok [OF ok submit])
next
  case (submit_cpu now uuid service items bid immediate node timeout prio reply)
  show ?thesis by (rule submit_cpu_ok [OF ok submit_cpu])
next
  case (prepare env now uuids node eligible bid lmt who depth cap layouts svc share n)
  show ?thesis using prepare_ready_ok [OF ok, of env now uuids node eligible bid lmt who depth cap layouts svc share] prepare by simp
next
  case (claim env now uuids opts claims)
  show ?thesis by (rule claim_ok [OF ok claim])
next
  case (finish now rid lease st res err fin)
  show ?thesis by (rule finish_ok [OF ok finish])
next
  case (retry now rid lease res mx outcome)
  show ?thesis by (rule retry_ok [OF ok retry])
next
  case (cancel now orid obid ojob reason force reply)
  show ?thesis by (rule cancel_ok [OF ok cancel])
next
  case (expire now mx reply)
  show ?thesis using requeue_expired_ok [OF ok, of now mx] expire by simp
next
  case (heartbeat now ids ttl n)
  show ?thesis using heartbeat_ok [OF ok, of now ids ttl] heartbeat by simp
next
  case (startup now stale reply)
  show ?thesis using recover_startup_ok [OF ok, of now stale] startup by simp
next
  case (release_waits now reason reply)
  show ?thesis using release_waits_ok [OF ok, of now reason] ok release_waits by simp
next
  case (delta now rid chunk payload)
  show ?thesis using stream_delta_ok [OF ok, of now rid chunk payload] delta by simp
next
  case (telemetry now report out)
  show ?thesis using record_telemetry_ok [OF ok, of now report] telemetry by simp
next
  case (refresh now b)
  show ?thesis using refresh_ok [OF ok, of now b] refresh by simp
next
  case (catalogue m)
  show ?thesis using queue_ok_kv_memory [OF ok] catalogue by simp
qed

lemma delta_requests: "requests (stream_delta now rid chunk payload db) = requests db"
  by (simp add: stream_delta_def Let_def)

lemma telemetry_requests: "requests (fst (record_pipeline_telemetry now report db)) = requests db"
  using record_telemetry_only [of db now report] by (auto simp: telemetry_only_def)

lemma recover_requests: "queue_ok db \<Longrightarrow> requests (fst (recover_jit_kv_startup now stale db)) = requests db"
  by (simp add: recover_jit_kv_startup_def no_prefilling case_prod_beta)

lemma queue_step_grows:
  assumes "queue_step db db'" and ok: "queue_ok db"
  shows "grows (requests db) (requests db')"
  using assms(1)
proof cases
  case (submit now uuid reg topo reqs bid prio reply)
  show ?thesis by (rule submit_grows [OF ok submit])
next
  case (submit_cpu now uuid service items bid immediate node timeout prio reply)
  show ?thesis by (rule submit_cpu_grows [OF ok submit_cpu])
next
  case (prepare env now uuids node eligible bid lmt who depth cap layouts svc share n)
  show ?thesis using prepare_grows [OF ok, of env now uuids node eligible bid lmt who depth cap layouts svc share] prepare by simp
next
  case (claim env now uuids opts claims)
  show ?thesis by (rule claim_grows [OF ok claim])
next
  case (finish now rid lease st res err fin)
  show ?thesis by (rule finish_grows [OF finish])
next
  case (retry now rid lease res mx outcome)
  show ?thesis by (rule retry_grows [OF retry])
next
  case (cancel now orid obid ojob reason force reply)
  show ?thesis by (rule cancel_grows [OF ok cancel])
next
  case (expire now mx reply)
  show ?thesis using requeue_expired_grows [OF ok, of now mx] expire by simp
next
  case (heartbeat now ids ttl n)
  show ?thesis using heartbeat_grows [of db now ids ttl] heartbeat by simp
next
  case (startup now stale reply)
  show ?thesis using recover_requests [OF ok, of now stale] startup by simp
next
  case (release_waits now reason reply)
  show ?thesis using release_waits_ok [OF ok, of now reason] release_waits by simp
next
  case (delta now rid chunk payload)
  show ?thesis using delta_requests [of now rid chunk payload db] delta by simp
next
  case (telemetry now report out)
  show ?thesis using telemetry_requests [of now report db] telemetry by simp
next
  case (refresh now b)
  show ?thesis using refresh by auto
next
  case (catalogue m)
  show ?thesis using catalogue by simp
qed

section \<open>A store of rows with a life cycle\<close>

locale row_store =
  fixes step :: "'s \<Rightarrow> 's \<Rightarrow> bool"
    and start :: 's
    and inv :: "'s \<Rightarrow> bool"
    and rows :: "'s \<Rightarrow> 'r list"
    and live :: "'r \<Rightarrow> 'r \<Rightarrow> bool"
    and final :: "'r \<Rightarrow> bool"
  assumes inv_start: "inv start"
    and inv_step: "step s t \<Longrightarrow> inv s \<Longrightarrow> inv t"
    and step_rows: "step s t \<Longrightarrow> inv s \<Longrightarrow> r \<in> set (rows s) \<Longrightarrow> \<exists>r' \<in> set (rows t). live\<^sup>*\<^sup>* r r'"
    and final_stuck: "live r r' \<Longrightarrow> \<not> final r"
begin

lemma steps_inv: "step\<^sup>*\<^sup>* s t \<Longrightarrow> inv s \<Longrightarrow> inv t"
  by (induction rule: rtranclp_induct) (auto intro: inv_step)

lemma reach_inv: "step\<^sup>*\<^sup>* start s \<Longrightarrow> inv s"
  by (rule steps_inv [OF _ inv_start])

lemma steps_rows: "step\<^sup>*\<^sup>* s t \<Longrightarrow> inv s \<Longrightarrow> r \<in> set (rows s) \<Longrightarrow> \<exists>r' \<in> set (rows t). live\<^sup>*\<^sup>* r r'"
proof (induction rule: rtranclp_induct)
  case base
  then show ?case by auto
next
  case (step t u)
  then obtain r' where "r' \<in> set (rows t)" "live\<^sup>*\<^sup>* r r'" by auto
  moreover have "inv t" by (rule steps_inv [OF step.hyps(1) step.prems(1)])
  ultimately show ?case using step_rows [OF step.hyps(2)] by (meson rtranclp_trans)
qed

lemma final_lives: "live\<^sup>*\<^sup>* r r' \<Longrightarrow> final r \<Longrightarrow> r' = r"
  by (induction rule: converse_rtranclp_induct) (auto dest: final_stuck)

lemma final_kept: "step\<^sup>*\<^sup>* s t \<Longrightarrow> inv s \<Longrightarrow> r \<in> set (rows s) \<Longrightarrow> final r \<Longrightarrow> r \<in> set (rows t)"
  using steps_rows final_lives by blast

end

interpretation queue_rows: row_store queue_step empty_db queue_ok requests life "\<lambda>r. terminal (rq_state r)"
proof unfold_locales
  show "queue_ok empty_db" by (rule empty_queue_ok)
  show "queue_ok t" if "queue_step s t" "queue_ok s" for s t using that by (rule queue_step_ok)
  show "\<exists>r' \<in> set (requests t). evolves r r'" if "queue_step s t" "queue_ok s" "r \<in> set (requests s)" for s t r
    by (rule grows_in [OF queue_step_grows [OF that(1,2)] that(3)])
  show "\<not> terminal (rq_state r)" if "life r r'" for r r' using that by cases auto
qed

lemma reachable_ok: "queue_reachable db \<Longrightarrow> queue_ok db"
  by (simp add: queue_reachable_def queue_rows.reach_inv)


section \<open>A small run\<close>

text \<open>One CPU request submitted, claimed by worker \<open>w\<close> under lease \<open>w:run:1\<close>, and finished; used to instantiate the properties.\<close>

definition demo_env :: environ where
  "demo_env = (\<lambda>_. None)"

definition demo_uuids :: "nat \<Rightarrow> string" where
  "demo_uuids n = (if n = 0 then ''0'' else if n = 1 then ''1'' else ''2'')"

definition demo_opts :: claim_opts where
  "demo_opts = \<lparr>co_node = None, co_batch = None, co_limit = 4, co_leased_by = ''w'', co_ttl = 60, co_linger_s = 0,
     co_limits = (\<lambda>_. None), co_token_limits = (\<lambda>_. None), co_decode_reserves = (\<lambda>_. None), co_compute_lease = None,
     co_service = None, co_share = False, co_bucketing = False, co_lookahead = 1, co_min_ready = 0, co_min_timeout = 0,
     co_large_threshold = 0\<rparr>"

definition demo_submit :: "(queue_db \<times> pydict) result" where
  "demo_submit = submit_cpu_requests 1 ''u'' ''svc'' [[(''custom_id'', JStr ''a'')]] (Some ''b'') True None None None empty_db"

definition demo_queued :: queue_db where
  "demo_queued = fst (projr demo_submit)"

definition demo_claim :: "(queue_db \<times> queue_claim list) result" where
  "demo_claim = claim_ready_batch demo_env 2 demo_uuids demo_opts demo_queued"

definition demo_running :: queue_db where
  "demo_running = fst (projr demo_claim)"

definition demo_finish :: "(queue_db \<times> bool) result" where
  "demo_finish = finish_request 3 ''a'' ''w:run:1'' Completed [] None demo_running"

definition demo_done :: queue_db where
  "demo_done = fst (projr demo_finish)"

lemma inr_projr: "\<not> isl r \<Longrightarrow> r = Inr (fst (projr r), snd (projr r))"
  by (cases r) simp_all

lemma demo_submit_eq: "demo_submit = Inr (demo_queued, snd (projr demo_submit))"
proof -
  have "\<not> isl demo_submit" by code_simp
  then show ?thesis unfolding demo_queued_def by (rule inr_projr)
qed

lemma demo_claim_eq: "demo_claim = Inr (demo_running, snd (projr demo_claim))"
proof -
  have "\<not> isl demo_claim" by code_simp
  then show ?thesis unfolding demo_running_def by (rule inr_projr)
qed

lemma demo_finish_eq: "demo_finish = Inr (demo_done, True)"
proof -
  have "\<not> isl demo_finish" by code_simp
  then have "demo_finish = Inr (demo_done, snd (projr demo_finish))" unfolding demo_done_def by (rule inr_projr)
  moreover have "snd (projr demo_finish)" by code_simp
  ultimately show ?thesis by simp
qed

lemma demo_steps: "queue_step empty_db demo_queued" "queue_step demo_queued demo_running" "queue_step demo_running demo_done"
  using queue_step.submit_cpu [OF demo_submit_eq [unfolded demo_submit_def]] queue_step.claim [OF demo_claim_eq [unfolded demo_claim_def]]
    queue_step.finish [OF demo_finish_eq [unfolded demo_finish_def]] by simp_all

lemma demo_reachable: "queue_reachable demo_queued" "queue_reachable demo_running" "queue_reachable demo_done"
  using demo_steps queue_reachable_step queue_reachable_empty by blast+

section \<open>Properties of every reachable database\<close>

text \<open>
  C1. In every database the queue can reach, ids are keys, every request belongs to a stored batch, a
  request is running exactly when it holds a lease, carries a result and a completion time exactly when it
  is over, and never is in the prefilling state; compute domains are keys of the compute leases, KV
  entries are keyed by their place and never negative, and the event log is numbered without gaps.
\<close>

theorem queue_invariant:
  assumes "queue_reachable db"
  shows "queue_ok db"
  using assms by (rule reachable_ok)

theorem queue_invariant_witness: "queue_ok demo_running \<and> map rq_state (requests demo_running) = [Running]"
proof
  show "map rq_state (requests demo_running) = [Running]" by code_simp
qed (rule queue_invariant [OF demo_reachable(2)])

text \<open>
  The counters a batch stores are exact: in every reachable database each equals the number of the
  batch's requests in that state, and the batch's state is the one these counts give.
\<close>

theorem batch_counters_exact:
  assumes "queue_reachable db" and "b \<in> set (batches db)"
  shows "bt_counts b st = length (filter (\<lambda>r. rq_batch_id r = bt_batch_id b \<and> rq_state r = st) (requests db)) \<and>
    bt_request_count b = length (filter (\<lambda>r. rq_batch_id r = bt_batch_id b) (requests db)) \<and>
    bt_state b = batch_state_of (bt_request_count b) (bt_counts b)"
  using queue_okD(2) [OF reachable_ok [OF assms(1)], of "{}"] assms(2)
  by (simp add: fresh_outside_def batch_fresh_def state_count_def batch_total_def sql_count_def)

theorem batch_counters_exact_witness:
  "bt_counts (hd (batches demo_running)) Running = 1 \<and> bt_state (hd (batches demo_running)) = ''running''"
proof -
  have b: "hd (batches demo_running) \<in> set (batches demo_running)"
  proof (rule hd_in_set)
    have "length (batches demo_running) = 1" by code_simp
    then show "batches demo_running \<noteq> []" by auto
  qed
  have "length (filter (\<lambda>r. rq_batch_id r = bt_batch_id (hd (batches demo_running)) \<and> rq_state r = Running) (requests demo_running)) = 1"
    by code_simp
  then have "bt_counts (hd (batches demo_running)) Running = 1"
    using batch_counters_exact [OF demo_reachable(2) b, of Running] by simp
  moreover have "bt_state (hd (batches demo_running)) = ''running''" by code_simp
  ultimately show ?thesis ..
qed

text \<open>
  C2. The queue refines the life cycle of a request: one operation moves every stored request along
  \<open>life\<close> (a ready request is only reached from a queued one, a running one only from a ready one with
  one attempt more, an attempt that ends goes back to the queue or closes the request), keeps its identity,
  and every request that is new in the table started queued, or ready when it is a CPU request.
\<close>

theorem queue_refines_life_cycle:
  assumes "queue_reachable db" and "queue_step db db'"
  shows "\<exists>old new. requests db' = old @ new \<and> list_all2 life\<^sup>*\<^sup>* (requests db) old \<and>
    list_all (\<lambda>r. \<exists>r0. new_row r0 \<and> life\<^sup>*\<^sup>* r0 r) new"
  using queue_step_grows [OF assms(2) reachable_ok [OF assms(1)]] by (auto simp: grows_def list_all_iff)

theorem queue_refines_life_cycle_witness:
  "\<exists>old new. requests demo_running = old @ new \<and> list_all2 life\<^sup>*\<^sup>* (requests demo_queued) old"
  using queue_refines_life_cycle [OF demo_reachable(1) demo_steps(2)] by blast

text \<open>
  A request that is completed, failed or cancelled stays exactly as it is: its row survives
  unchanged whatever operations follow.
\<close>

theorem terminal_rows_immutable:
  assumes "queue_reachable db" and "queue_step\<^sup>*\<^sup>* db db'" and "r \<in> set (requests db)" and "terminal (rq_state r)"
  shows "r \<in> set (requests db')"
  by (rule queue_rows.final_kept [OF assms(2) reachable_ok [OF assms(1)] assms(3,4)])

theorem terminal_rows_immutable_witness: "hd (requests demo_done) \<in> set (requests (refresh_batch 9 ''b'' demo_done))"
proof (rule terminal_rows_immutable [OF demo_reachable(3)])
  show "queue_step\<^sup>*\<^sup>* demo_done (refresh_batch 9 ''b'' demo_done)"
    by (rule r_into_rtranclp, rule queue_step.refresh) (rule refl)
  have "length (requests demo_done) = 1" by code_simp
  then show "hd (requests demo_done) \<in> set (requests demo_done)" by (intro hd_in_set) auto
  show "terminal (rq_state (hd (requests demo_done)))" by code_simp
qed

text \<open>
  C3. A request is finished at most once: after a finish that succeeded, no finish of the same request
  ever succeeds again, under any lease and after any further operations.
\<close>

theorem finished_at_most_once:
  assumes "queue_reachable db" and "finish_request now rid lease st res err db = Inr (db1, True)"
    and "queue_step\<^sup>*\<^sup>* db1 db2" and "terminal st2"
  shows "finish_request now2 rid lease2 st2 res2 err2 db2 = Inr (db2, False)"
proof -
  have ok: "queue_ok db" by (rule reachable_ok [OF assms(1)])
  have t: "terminal st" using assms(2) by (auto simp: finish_request_def split: if_splits)
  obtain row where f: "find (running_under rid lease) (requests db) = Some row"
    using assms(2) finish_missed [OF t, of rid lease db now res err] by (cases "find (running_under rid lease) (requests db)") auto
  note row = find_running_under [OF f]
  have ok1: "queue_ok db1" by (rule finish_ok [OF ok assms(2)])
  let ?f = "\<lambda>r. clear_lease (close_row now (finish_state row st)
      (if finish_state row st = Cancelled then ignored_result res else res) (finish_error (finish_state row st) err) r)"
  have "requests db1 = sql_update (running_under rid lease) ?f (requests db)"
    using finish_found [OF t f, of now res err] assms(2) by auto
  then have "?f row \<in> set (requests db1)" using row by (force simp: in_sql_update running_under_def)
  moreover have "terminal (rq_state (?f row))" by (simp add: terminal_finish_state t)
  ultimately have kept: "?f row \<in> set (requests db2)"
    by (rule queue_rows.final_kept [OF assms(3) ok1])
  have "queue_ok db2" by (rule queue_rows.steps_inv [OF assms(3) ok1])
  have "\<not> running_under rid lease2 r" if "r \<in> set (requests db2)" for r
  proof
    assume "running_under rid lease2 r"
    then have "rq_request_id r = rid" "rq_state r = Running" by (simp_all add: running_under_def)
    then have "r = ?f row" using keyed_same [OF queue_okD(1) [OF \<open>queue_ok db2\<close>] that kept] row by simp
    then show False using \<open>rq_state r = Running\<close> \<open>terminal (rq_state (?f row))\<close> by (simp add: terminal_def)
  qed
  then have "find (running_under rid lease2) (requests db2) = None" by (simp add: find_None_iff)
  then show ?thesis by (rule finish_missed [OF assms(4)])
qed

theorem finished_at_most_once_witness:
  "finish_request 4 ''a'' ''w:run:1'' Failed [] None demo_done = Inr (demo_done, False)"
  by (rule finished_at_most_once [OF demo_reachable(2) demo_finish_eq [unfolded demo_finish_def] rtranclp.rtrancl_refl]) simp

end
