(* ===== verification/Queue_Claims.thy ===== *)
theory Queue_Claims
  imports Queue_Steps
begin

text \<open>
  What a worker gets from \<^verbatim>\<open>claim_ready_batch\<close> and \<^verbatim>\<open>_reserve_kv\<close>: the claims
  are the selected rows, each started once under its own lease; a compute domain is held by one service
  on one worker; and KV reservations stay within the capacity of the node.
\<close>

section \<open>One claim after the other\<close>

lemma sql_count_keyed:
  assumes "sql_keyed key t" and "x \<in> set t" and "P x" and "\<And>y. y \<in> set t \<Longrightarrow> P y \<Longrightarrow> key y = key x"
  shows "sql_count P t = 1"
  using assms
proof (induction t)
  case Nil
  then show ?case by simp
next
  case (Cons y t)
  show ?case
  proof (cases "y = x")
    case True
    have "\<not> P z" if "z \<in> set t" for z using Cons.prems(1,4) that True by auto
    then show ?thesis using True Cons.prems(3) by (simp add: sql_count_0)
  next
    case False
    then have "x \<in> set t" using Cons.prems(2) by simp
    moreover have "\<not> P y"
    proof
      assume "P y"
      then have "key y = key x" using Cons.prems(4) [of y] by simp
      then show False using Cons.prems(1) \<open>x \<in> set t\<close> by auto
    qed
    moreover have "sql_count P t = 1"
      by (rule Cons.IH [OF _ \<open>x \<in> set t\<close> Cons.prems(3)]) (use Cons.prems(1,4) in auto)
    ultimately show ?thesis by simp
  qed
qed

definition started :: "rat \<Rightarrow> rat \<Rightarrow> string \<Rightarrow> string option \<Rightarrow> (string \<times> string) list \<Rightarrow> request_row \<Rightarrow> request_row" where
  \<comment> \<open>the row after the loop, given the lease of each claimed request\<close>
  "started now ttl who cl leases r =
     (case map_of leases (rq_request_id r) of None \<Rightarrow> r | Some l \<Rightarrow> start_running now ttl who l cl r)"

definition lease_table :: "(string \<times> request_row) list \<Rightarrow> (string \<times> string) list" where
  "lease_table xs = map (\<lambda>(l, row). (rq_request_id row, l)) xs"

lemma lease_table_simps [simp]: "lease_table [] = []" "lease_table ((l, row) # xs) = (rq_request_id row, l) # lease_table xs"
  by (simp_all add: lease_table_def)

lemma map_of_lease_table: "rid \<notin> (\<lambda>x. rq_request_id (snd x)) ` set xs \<Longrightarrow> map_of (lease_table xs) rid = None"
  by (force simp: lease_table_def map_of_eq_None_iff)

lemma claim_rows_loop:
  assumes "foldE (claim_row now ttl who cl) (db, cs, bids) xs = Inr (db', cs', bids')"
    and "sql_keyed rq_request_id (requests db)" and "distinct (map (\<lambda>x. rq_request_id (snd x)) xs)"
    and "\<And>x. x \<in> set xs \<Longrightarrow> snd x \<in> set (requests db) \<and> rq_state (snd x) = Ready"
  shows "requests db' = map (started now ttl who cl (lease_table xs)) (requests db) \<and> compute_leases db' = compute_leases db \<and>
    (\<exists>new. cs' = cs @ new \<and> list_all2 (\<lambda>c x. claim_of (snd x) (fst x) cl = Inr c) new xs)"
  using assms
proof (induction xs arbitrary: db cs bids)
  case Nil
  then show ?case by (auto simp: started_def)
next
  case (Cons x xs)
  obtain lease row where x: "x = (lease, row)" by fastforce
  obtain d c b where s: "claim_row now ttl who cl (db, cs, bids) (lease, row) = Inr (d, c, b)"
    and f: "foldE (claim_row now ttl who cl) (d, c, b) xs = Inr (db', cs', bids')"
    using Cons.prems(1) by (auto simp: x bindE_eq_Inr)
  have row: "row \<in> set (requests db)" "rq_state row = Ready" using Cons.prems(4) [of x] by (simp_all add: x)
  have same: "ready_row (rq_request_id row) r \<longleftrightarrow> rq_request_id r = rq_request_id row" if "r \<in> set (requests db)" for r
    using sql_keyed_eq [OF Cons.prems(2) that row(1)] row(2) by (auto simp: ready_row_def)
  have one: "sql_count (ready_row (rq_request_id row)) (requests db) = 1"
    by (rule sql_count_keyed [OF Cons.prems(2) row(1)]) (simp_all add: ready_row_def row)
  from s one obtain t st v cc where d: "d = db_event now (rq_request_id row) t st v
      (update_requests (ready_row (rq_request_id row)) (start_running now ttl who lease cl) db)"
    and c: "claim_of row lease cl = Inr cc" "c = cs @ [cc]"
    by (cases rule: claim_row_cases) auto
  let ?u = "sql_update (ready_row (rq_request_id row)) (start_running now ttl who lease cl) (requests db)"
  have rd: "requests d = ?u" "compute_leases d = compute_leases db" by (simp_all add: d update_requests_def)
  have u: "?u = map (\<lambda>r. if rq_request_id r = rq_request_id row then start_running now ttl who lease cl r else r) (requests db)"
    unfolding sql_update_def by (rule map_cong) (simp_all add: same)
  have k: "sql_keyed rq_request_id (requests d)" using Cons.prems(2) by (simp add: rd sql_keyed_update)
  have rest: "snd y \<in> set (requests d) \<and> rq_state (snd y) = Ready" if y: "y \<in> set xs" for y
  proof -
    have "rq_request_id (snd y) \<noteq> rq_request_id row" using Cons.prems(3) y by (force simp: x)
    then show ?thesis using Cons.prems(4) [of y] y by (force simp: rd u)
  qed
  have di: "distinct (map (\<lambda>x. rq_request_id (snd x)) xs)" "rq_request_id row \<notin> (\<lambda>x. rq_request_id (snd x)) ` set xs"
    using Cons.prems(3) by (simp_all add: x)
  obtain new where ih: "requests db' = map (started now ttl who cl (lease_table xs)) (requests d)" "compute_leases db' = compute_leases d"
      "cs' = c @ new" "list_all2 (\<lambda>c x. claim_of (snd x) (fst x) cl = Inr c) new xs"
    using Cons.IH [OF f k di(1) rest] by blast
  have "requests db' = map (started now ttl who cl (lease_table (x # xs))) (requests db)"
    unfolding ih(1) rd u map_map
    by (rule map_cong) (auto simp: x started_def map_of_lease_table [OF di(2)] split: option.split)
  then show ?case using ih c rd by (auto simp: x intro!: exI [of _ "cc # new"])
qed

lemma claim_of_fields:
  "claim_of row lease cl = Inr c \<Longrightarrow> qc_request_id c = rq_request_id row \<and> qc_lease_id c = lease \<and>
     qc_attempt_count c = rq_attempt_count row + 1 \<and> qc_compute_lease_id c = cl"
  by (auto simp: claim_of_def bindE_eq_Inr)

lemma zip_all2: "length ls = length rows \<Longrightarrow> list_all2 P cs (zip ls rows) \<Longrightarrow>
    list_all2 (\<lambda>c row. \<exists>l. P c (l, row)) cs rows"
  by (auto simp: list_all2_conv_all_nth intro!: exI)


lemma selected_scope:
  assumes r: "r \<in> set (select_claim_rows env now opts db)"
  shows "claimable opts (hd (select_claim_rows env now opts db)) r"
proof -
  have ne: "select_claim_rows env now opts db \<noteq> []" using r by auto
  obtain p where "subseq (select_claim_rows env now opts db) (sql_select p ready_order (requests db))"
      and p: "\<forall>r. p r \<longrightarrow> claimable opts (hd (select_claim_rows env now opts db)) r"
    using select_claim_spec [OF refl ne] by blast
  then have "p r" using subseq_set [of _ _ r] r by fastforce
  then show ?thesis using p by simp
qed

lemma selected_ready: "r \<in> set (select_claim_rows env now opts db) \<Longrightarrow> rq_state r = Ready"
  using selected_scope by (auto simp: claimable_def claim_scope_def)

lemma claim_result:
  assumes ok: "queue_ok db" and c: "claim_ready_batch env now uuid opts db = Inr (db', claims)" and ne: "claims \<noteq> []"
  defines "rows \<equiv> select_claim_rows env now opts db"
  obtains d g where "(if co_share opts then (db, NoDomain)
        else if opt_truthy (co_compute_lease opts) then extend_compute_lease env now (hd rows) (length rows) (co_compute_lease opts) (co_leased_by opts) (co_ttl opts) db
        else acquire_compute_lease env now (uuid 0) (hd rows) (length rows) (co_leased_by opts) (co_ttl opts) db) = (d, g)" "g \<noteq> Denied"
    "compute_leases db' = compute_leases d"
    "requests db' = map (started now (co_ttl opts) (co_leased_by opts) (granted_id g)
       (lease_table (zip (run_lease_ids (co_leased_by opts) uuid (length rows)) rows))) (requests db)"
    "list_all2 (\<lambda>c row. \<exists>l. claim_of row l (granted_id g) = Inr c) claims rows"
    "list_all2 (\<lambda>c x. claim_of (snd x) (fst x) (granted_id g) = Inr c) claims (zip (run_lease_ids (co_leased_by opts) uuid (length rows)) rows)"
proof -
  have nr: "rows \<noteq> []" using c ne by (auto simp: claim_ready_batch_def rows_def Let_def)
  then have s: "claim_selected env now uuid (co_leased_by opts) (co_ttl opts) (co_compute_lease opts) (co_share opts) rows db = Inr (db', claims)"
    using c by (simp add: claim_ready_batch_def Let_def rows_def [symmetric])
  obtain d d2 bids g where d: "requests d = requests db" "g \<noteq> Denied" and g: "(if co_share opts then (db, NoDomain)
        else if opt_truthy (co_compute_lease opts) then extend_compute_lease env now (hd rows) (length rows) (co_compute_lease opts) (co_leased_by opts) (co_ttl opts) db
        else acquire_compute_lease env now (uuid 0) (hd rows) (length rows) (co_leased_by opts) (co_ttl opts) db) = (d, g)"
      and l: "claim_rows now (co_ttl opts) (co_leased_by opts) uuid (granted_id g) rows d = Inr (d2, claims, bids)"
      and r: "requests db' = requests d2" "compute_leases db' = compute_leases d2"
    using claim_selected_form [OF s ok] ne by auto
  have k: "sql_keyed rq_request_id (requests d)" using queue_ok_keyed [OF ok] d by simp
  let ?ids = "run_lease_ids (co_leased_by opts) uuid (length rows)"
  have ids: "map (\<lambda>x. rq_request_id (snd x)) (zip ?ids rows) = map rq_request_id rows"
    by (rule nth_equalityI) simp_all
  have "requests d2 = map (started now (co_ttl opts) (co_leased_by opts) (granted_id g) (lease_table (zip ?ids rows))) (requests d) \<and>
      compute_leases d2 = compute_leases d \<and> (\<exists>new. claims = [] @ new \<and> list_all2 (\<lambda>c x. claim_of (snd x) (fst x) (granted_id g) = Inr c) new (zip ?ids rows))"
  proof (rule claim_rows_loop [OF l [unfolded claim_rows_def] k])
    show "distinct (map (\<lambda>x. rq_request_id (snd x)) (zip ?ids rows))"
      unfolding ids unfolding rows_def by (rule selected_rows(1) [OF queue_ok_keyed [OF ok]])
    show "snd x \<in> set (requests d) \<and> rq_state (snd x) = Ready" if "x \<in> set (zip ?ids rows)" for x
    proof -
      have "snd x \<in> set rows" using that by (metis prod.collapse set_zip_rightD)
      then show ?thesis using selected_rows(2) [OF queue_ok_keyed [OF ok], of env now opts] selected_ready d by (auto simp: rows_def)
    qed
  qed
  then have all: "requests d2 = map (started now (co_ttl opts) (co_leased_by opts) (granted_id g) (lease_table (zip ?ids rows))) (requests db)"
      "compute_leases d2 = compute_leases d" "list_all2 (\<lambda>c x. claim_of (snd x) (fst x) (granted_id g) = Inr c) claims (zip ?ids rows)"
    using d by auto
  show ?thesis
    by (rule that [OF g d(2)]) (use all r zip_all2 [OF _ all(3)] in auto)
qed

section \<open>Compute domains\<close>

lemma opt_str_eq_nonempty: "opt_str a = opt_str b \<Longrightarrow> nonempty_opt a = nonempty_opt b"
  by (cases a; cases b) (auto simp: nonempty_opt_def)

lemma extend_grant:
  assumes ok: "leases_ok db" and e: "extend_compute_lease env now first n lid who ttl db = (db', Granted g)" and t: "0 < ttl"
  shows "holds_domain now (nonempty_opt (rq_service_id first)) who (opt_str (rq_compute_domain first)) db'"
    and "c \<in> set (compute_leases db) \<Longrightarrow> cl_domain c = opt_str (rq_compute_domain first) \<Longrightarrow> now < cl_expires_at c \<Longrightarrow>
      nonempty_opt (cl_service c) = nonempty_opt (rq_service_id first) \<and> cl_leased_by c = who"
proof -
  let ?d = "opt_str (rq_compute_domain first)"
  obtain l where f: "find (\<lambda>c. Some (cl_id c) = lid \<and> now < cl_expires_at c) (compute_leases db) = Some l"
    and l: "cl_domain l = ?d" "cl_leased_by l = who" "opt_str (cl_service l) = opt_str (rq_service_id first)"
    and db': "compute_leases db' = sql_update (\<lambda>c. Some (cl_id c) = lid) (renew_lease now ttl n) (compute_leases db)"
    using e by (auto simp: extend_compute_lease_def Let_def split: if_splits option.splits)
  have i: "l \<in> set (compute_leases db)" "Some (cl_id l) = lid" using find_Some_in [OF f] by simp_all
  have sv: "nonempty_opt (cl_service l) = nonempty_opt (rq_service_id first)" by (rule opt_str_eq_nonempty [OF l(3)])
  have "renew_lease now ttl n l \<in> set (compute_leases db')" using i by (force simp: db' in_sql_update)
  then show "holds_domain now (nonempty_opt (rq_service_id first)) who ?d db'"
    using l sv t by (auto simp: holds_domain_def list_ex_iff intro!: bexI [of _ "renew_lease now ttl n l"])
  show "nonempty_opt (cl_service c) = nonempty_opt (rq_service_id first) \<and> cl_leased_by c = who"
    if "c \<in> set (compute_leases db)" "cl_domain c = ?d"
    using sql_keyed_eq [OF ok [unfolded leases_ok_def] that(1) i(1)] that(2) l sv by simp
qed

lemma denied_or_granted:
  "extend_compute_lease env now first n lid who ttl db = (d, g) \<Longrightarrow> opt_str (rq_compute_domain first) \<noteq> '''' \<Longrightarrow> g \<noteq> Denied \<Longrightarrow>
     \<exists>l. g = Granted l"
  "acquire_compute_lease env now u first n who ttl db = (d, g) \<Longrightarrow> opt_str (rq_compute_domain first) \<noteq> '''' \<Longrightarrow> g \<noteq> Denied \<Longrightarrow>
     \<exists>l. g = Granted l"
  by (auto simp: extend_compute_lease_def acquire_compute_lease_def Let_def split: if_splits option.splits)

lemma holds_domain_cong: "compute_leases db' = compute_leases d \<Longrightarrow> holds_domain now s w k db' = holds_domain now s w k d"
  by (simp add: holds_domain_def)

section \<open>The claims and their rows\<close>

lemma claim_parts:
  assumes "queue_reachable db" and "claim_ready_batch env now uuid opts db = Inr (db', claims)" and "claims \<noteq> []"
  shows "list_all2 (\<lambda>c row. rq_state row = Ready \<and> row \<in> set (requests db) \<and> qc_request_id c = rq_request_id row \<and>
       qc_attempt_count c = rq_attempt_count row + 1 \<and>
       start_running now (co_ttl opts) (co_leased_by opts) (qc_lease_id c) (qc_compute_lease_id c) row \<in> set (requests db'))
     claims (select_claim_rows env now opts db)"
    and "r \<in> set (requests db) \<Longrightarrow> rq_request_id r \<notin> qc_request_id ` set claims \<Longrightarrow> r \<in> set (requests db')"
proof -
  have ok: "queue_ok db" by (rule reachable_ok [OF assms(1)])
  let ?rows = "select_claim_rows env now opts db"
  let ?ids = "run_lease_ids (co_leased_by opts) uuid (length ?rows)"
  obtain d g where r: "requests db' = map (started now (co_ttl opts) (co_leased_by opts) (granted_id g)
       (lease_table (zip ?ids ?rows))) (requests db)"
    and l: "list_all2 (\<lambda>c x. claim_of (snd x) (fst x) (granted_id g) = Inr c) claims (zip ?ids ?rows)"
    by (rule claim_result [OF ok assms(2,3)])
  have di: "distinct (map fst (lease_table (zip ?ids ?rows)))"
  proof -
    have "map fst (lease_table (zip ?ids ?rows)) = map rq_request_id ?rows"
      by (rule nth_equalityI) (simp_all add: lease_table_def)
    then show ?thesis using selected_rows(1) [OF queue_ok_keyed [OF ok], of env now opts] by simp
  qed
  show "list_all2 (\<lambda>c row. rq_state row = Ready \<and> row \<in> set (requests db) \<and> qc_request_id c = rq_request_id row \<and>
       qc_attempt_count c = rq_attempt_count row + 1 \<and>
       start_running now (co_ttl opts) (co_leased_by opts) (qc_lease_id c) (qc_compute_lease_id c) row \<in> set (requests db'))
     claims ?rows"
    unfolding list_all2_conv_all_nth
  proof (intro conjI allI impI)
    show len: "length claims = length ?rows" using list_all2_lengthD [OF l] by simp
    fix i assume i: "i < length claims"
    let ?row = "?rows ! i"
    have c: "claim_of ?row (?ids ! i) (granted_id g) = Inr (claims ! i)"
      using list_all2_nthD [OF l i] i len by simp
    have row: "?row \<in> set (requests db)" "rq_state ?row = Ready"
      using selected_rows(2) [OF queue_ok_keyed [OF ok], of env now opts] selected_ready [of ?row env now opts db] i len by auto
    have "(rq_request_id ?row, ?ids ! i) \<in> set (lease_table (zip ?ids ?rows))"
      using i len by (force simp: lease_table_def set_zip)
    then have "map_of (lease_table (zip ?ids ?rows)) (rq_request_id ?row) = Some (?ids ! i)" using di by simp
    then have "start_running now (co_ttl opts) (co_leased_by opts) (?ids ! i) (granted_id g) ?row \<in> set (requests db')"
      using row(1) by (force simp: r started_def)
    then show "start_running now (co_ttl opts) (co_leased_by opts) (qc_lease_id (claims ! i)) (qc_compute_lease_id (claims ! i)) ?row \<in> set (requests db')"
      "rq_state ?row = Ready" "?row \<in> set (requests db)" "qc_request_id (claims ! i) = rq_request_id ?row"
      "qc_attempt_count (claims ! i) = rq_attempt_count ?row + 1"
      using row claim_of_fields [OF c] by simp_all
  qed
  show "r \<in> set (requests db')" if "r \<in> set (requests db)" "rq_request_id r \<notin> qc_request_id ` set claims"
  proof -
    have "rq_request_id r \<notin> (\<lambda>x. rq_request_id (snd x)) ` set (zip ?ids ?rows)"
    proof
      assume "rq_request_id r \<in> (\<lambda>x. rq_request_id (snd x)) ` set (zip ?ids ?rows)"
      then obtain x where x: "x \<in> set (zip ?ids ?rows)" "rq_request_id r = rq_request_id (snd x)" by auto
      obtain c where "c \<in> set claims" "claim_of (snd x) (fst x) (granted_id g) = Inr c"
        using list_all2_back [OF l x(1)] by auto
      then show False using claim_of_fields that(2) x(2) by (metis image_eqI)
    qed
    then have "started now (co_ttl opts) (co_leased_by opts) (granted_id g) (lease_table (zip ?ids ?rows)) r = r"
      by (simp add: started_def map_of_lease_table)
    then show ?thesis using that(1) by (force simp: r)
  qed
qed

section \<open>Properties\<close>

text \<open>
  C4. A claim that takes anything takes exactly the selected rows, in order: each claim carries its
  row's id and one attempt more than the row had, every claimed request was ready and is now running under
  the lease the claim carries and the worker that asked, and every other request is untouched.
\<close>

theorem claim_starts_selected_rows:
  assumes "queue_reachable db" and "claim_ready_batch env now uuid opts db = Inr (db', claims)" and "claims \<noteq> []"
  shows "list_all2 (\<lambda>c row. rq_state row = Ready \<and> row \<in> set (requests db) \<and> qc_request_id c = rq_request_id row \<and>
       qc_attempt_count c = rq_attempt_count row + 1 \<and>
       start_running now (co_ttl opts) (co_leased_by opts) (qc_lease_id c) (qc_compute_lease_id c) row \<in> set (requests db'))
     claims (select_claim_rows env now opts db) \<and>
    (\<forall>r \<in> set (requests db). rq_request_id r \<notin> qc_request_id ` set claims \<longrightarrow> r \<in> set (requests db'))"
  using claim_parts [OF assms] by blast

theorem claim_starts_selected_rows_witness:
  "list_all2 (\<lambda>c row. qc_request_id c = rq_request_id row) (snd (projr demo_claim)) (select_claim_rows demo_env 2 demo_opts demo_queued) \<and>
   map qc_request_id (snd (projr demo_claim)) = [''a'']"
proof
  have "length (snd (projr demo_claim)) = 1" by code_simp
  then have "snd (projr demo_claim) \<noteq> []" by auto
  from conjunct1 [OF claim_starts_selected_rows [OF demo_reachable(1) demo_claim_eq [unfolded demo_claim_def] this [unfolded demo_claim_def]]]
  show "list_all2 (\<lambda>c row. qc_request_id c = rq_request_id row) (snd (projr demo_claim)) (select_claim_rows demo_env 2 demo_opts demo_queued)"
    unfolding demo_claim_def by (rule list_all2_mono) simp
  show "map qc_request_id (snd (projr demo_claim)) = [''a'']" by code_simp
qed




definition demo_domain_db :: queue_db where
  "demo_domain_db = update_requests (\<lambda>_. True) (\<lambda>r. r\<lparr>rq_compute_domain := Some ''gpu''\<rparr>) demo_queued"

definition demo_domain_claim :: "(queue_db \<times> queue_claim list) result" where
  "demo_domain_claim = claim_ready_batch demo_env 2 demo_uuids demo_opts demo_domain_db"

lemma demo_domain_ok: "queue_ok demo_domain_db"
proof -
  have ok: "queue_ok demo_queued" by (rule reachable_ok [OF demo_reachable(1)])
  show ?thesis unfolding demo_domain_db_def
    by (intro queue_okI core_update fresh_update_same queue_okD [OF ok]) (simp_all add: row_ok_def)
qed


end
