(* ===== verification/Queue_Capacity.thy ===== *)
theory Queue_Capacity
  imports Queue_Claims
begin

text \<open>
  KV capacity: what \<^verbatim>\<open>prepare_ready\<close> reserves on a node, and on every node of a pipeline
  service, stays within the capacity it is given, and a refused reservation leaves the tables alone.
\<close>

section \<open>Databases within a capacity\<close>

definition kv_within :: "int \<Rightarrow> queue_db \<Rightarrow> bool" where
  "kv_within cap db \<longleftrightarrow> list_all (\<lambda>e. node_used db (kve_node e) \<le> cap) (kv_entries db) \<and>
     list_all (\<lambda>e. shard_used db (kvs_service e) (kvs_node e) \<le> cap) (kv_shards db)"

lemma sql_sum_none: "(\<And>e. e \<in> set t \<Longrightarrow> \<not> P e) \<Longrightarrow> sql_sum f P t = 0"
  by (induction t) auto

lemma kv_within_iff:
  assumes "0 \<le> cap"
  shows "kv_within cap db \<longleftrightarrow> (\<forall>n. node_used db n \<le> cap) \<and> (\<forall>s n. shard_used db s n \<le> cap)"
proof -
  have n: "node_used db n \<le> cap" if "\<forall>e \<in> set (kv_entries db). node_used db (kve_node e) \<le> cap" for n
  proof (cases "\<exists>e \<in> set (kv_entries db). kve_node e = n")
    case False
    then have "node_used db n = 0" unfolding node_used_def by (intro sql_sum_none) auto
    then show ?thesis using assms by simp
  qed (use that in blast)
  have s: "shard_used db s n \<le> cap" if "\<forall>e \<in> set (kv_shards db). shard_used db (kvs_service e) (kvs_node e) \<le> cap" for s n
  proof (cases "\<exists>e \<in> set (kv_shards db). kvs_service e = s \<and> kvs_node e = n")
    case False
    then have "shard_used db s n = 0" unfolding shard_used_def by (intro sql_sum_none) auto
    then show ?thesis using assms by simp
  qed (use that in blast)
  show ?thesis unfolding kv_within_def list_all_iff using n s by blast
qed

lemma used_cong:
  "kv_entries db' = kv_entries db \<Longrightarrow> node_used db' n = node_used db n"
  "kv_shards db' = kv_shards db \<Longrightarrow> shard_used db' s n = shard_used db s n"
  by (simp_all add: node_used_def shard_used_def)

lemma kv_within_cong:
  "kv_entries db' = kv_entries db \<Longrightarrow> kv_shards db' = kv_shards db \<Longrightarrow> kv_within cap db' = kv_within cap db"
  by (simp add: kv_within_def node_used_def shard_used_def)

section \<open>Reservations\<close>

lemma legacy_within:
  assumes ok: "kv_ok db" and cap: "0 < cap" and w: "kv_within cap db"
    and r: "reserve_legacy_kv now row node key need cap db = (db', b)"
  shows "kv_within cap db'"
proof (cases b)
  case False
  then have "db' = db" using r by (auto simp: reserve_legacy_kv_def Let_def split: option.splits)
  then show ?thesis using w by simp
next
  case True
  then obtain m where m: "node = Some m" using r by (auto simp: reserve_legacy_kv_def split: option.splits)
  have "b = True" using True by simp
  note r = r [unfolded this m]
  have s: "kv_shards db' = kv_shards db" using r by (auto simp: reserve_legacy_kv_def Let_def split: option.splits)
  have "node_used db' n \<le> cap" for n
    using reserve_legacy_capacity(1,2) [OF ok cap r] w cap by (cases "n = m") (simp_all add: kv_within_iff)
  then show ?thesis using w cap by (simp add: kv_within_iff used_cong(2) [OF s])
qed

lemma pipeline_other_nodes:
  assumes ok: "kv_ok db" and r: "reserve_pipeline_kv now row svc ids key need cap layout db = (db', True)"
    and o: "s \<noteq> svc \<or> n \<notin> sp_node ` set (case layout of Some f \<Rightarrow> f (rq_request_id row) key need | None \<Rightarrow> default_shards row ids need)"
  shows "shard_used db' s n \<le> shard_used db s n"
proof -
  define shards where "shards = (case layout of Some f \<Rightarrow> f (rq_request_id row) key need | None \<Rightarrow> default_shards row ids need)"
  show ?thesis
  proof (cases "shards = []")
    case True
    then show ?thesis using r by (simp add: reserve_pipeline_kv_def shards_def [symmetric])
  next
    case False
    obtain evs where evs: "shard_evictions db svc cap shards = Some evs"
      using r False by (cases "shard_evictions db svc cap shards") (auto simp: reserve_pipeline_kv_def Let_def shards_def [symmetric])
    let ?q = "\<lambda>e. \<exists>(node, vs) \<in> set evs. kvs_service e = svc \<and> kvs_node e = node \<and> kvs_key e \<in> set vs"
    let ?rs = "map (shard_entry now svc key (rq_request_id row) (length shards)) shards"
    let ?P = "\<lambda>e. (kvs_service e, kvs_node e) = (s, n)"
    have t': "kv_shards db' = foldl (\<lambda>t r. sql_replace kvs_id r t) (sql_delete ?q (kv_shards db)) ?rs"
      using r False evs by (auto simp: reserve_pipeline_kv_def Let_def foldl_shard_delete foldl_map shards_def [symmetric])
    have "sql_sum kvs_bytes ?P (kv_shards db') = sql_sum kvs_bytes ?P (sql_delete ?q (kv_shards db))"
      unfolding t'
    proof (rule sql_sum_foldl_replace_frame)
      fix e x assume "e \<in> set ?rs" "kvs_id x = kvs_id e"
      then show "\<not> ?P x" using o by (auto simp: kvs_id_def shard_entry_def shards_def [symmetric])
    qed
    also have "\<dots> \<le> sql_sum kvs_bytes ?P (kv_shards db)"
      unfolding sql_delete_def sql_sum_filter using ok by (intro sql_sum_mono_pred) (auto simp: kv_ok_def)
    finally show ?thesis by (simp add: shard_used_def)
  qed
qed

lemma pipeline_within:
  assumes ok: "kv_ok db" and cap: "0 < cap" and w: "kv_within cap db"
    and r: "reserve_pipeline_kv now row svc ids key need cap layout db = (db', b)"
  shows "kv_within cap db'"
proof (cases b)
  case False
  then have "db' = db" using r reserve_pipeline_all_or_nothing by (cases b) auto
  then show ?thesis using w by simp
next
  case True
  have "b = True" using True by simp
  note r = r [unfolded this]
  let ?shards = "case layout of Some f \<Rightarrow> f (rq_request_id row) key need | None \<Rightarrow> default_shards row ids need"
  have e: "kv_entries db' = kv_entries db"
    using r by (auto simp: reserve_pipeline_kv_def Let_def split: if_splits option.splits)
  have "shard_used db' s n \<le> cap" for s n
  proof (cases "s = svc \<and> n \<in> sp_node ` set ?shards")
    case True
    then obtain x where x: "x \<in> set ?shards" "n = sp_node x" "s = svc" by blast
    show ?thesis using reserve_pipeline_capacity [OF ok cap r x(1)] x(2,3) by simp
  next
    case False
    have "shard_used db' s n \<le> shard_used db s n"
      by (rule pipeline_other_nodes [OF ok r]) (use False in blast)
    also have "\<dots> \<le> cap" using w cap by (simp add: kv_within_iff)
    finally show ?thesis .
  qed
  then show ?thesis using w cap by (simp add: kv_within_iff used_cong(1) [OF e])
qed

lemma reserve_within:
  assumes "kv_ok db" and "0 < cap" and "kv_within cap db" and "reserve_kv now row node cap layout db = (db', b)"
  shows "kv_within cap db'"
  using assms by (auto simp: reserve_kv_def Let_def intro: legacy_within pipeline_within split: if_splits)

section \<open>The loop of \<open>prepare_ready\<close>\<close>

lemma kv_tables_simps [simp]:
  "kv_entries (db_event now rid t s p db) = kv_entries db" "kv_shards (db_event now rid t s p db) = kv_shards db"
  "kv_entries (update_requests q f db) = kv_entries db" "kv_shards (update_requests q f db) = kv_shards db"
  "kv_entries (refresh_batch now b db) = kv_entries db" "kv_shards (refresh_batch now b db) = kv_shards db"
  by (simp_all add: db_event_def update_requests_def refresh_batch_def)

lemma refresh_batches_kv [simp]:
  "kv_entries (refresh_batches now bs db) = kv_entries db" "kv_shards (refresh_batches now bs db) = kv_shards db"
  unfolding refresh_batches_def by (induction bs arbitrary: db) simp_all

lemma kv_ok_cong: "kv_entries db' = kv_entries db \<Longrightarrow> kv_shards db' = kv_shards db \<Longrightarrow> kv_ok db' = kv_ok db"
  by (simp add: kv_ok_def)

lemma prepare_row_within:
  assumes "kv_ok db \<and> kv_within cap db" and cap: "0 < cap"
  shows "kv_ok (fst (prepare_row now node cap layouts uuid who (db, made, touched) row)) \<and>
    kv_within cap (fst (prepare_row now node cap layouts uuid who (db, made, touched) row))"
proof -
  define bind where "bind = (if opt_truthy (rq_node_id row) then rq_node_id row else if opt_truthy node then node else None)"
  obtain d ok where r: "reserve_kv now row bind cap (layouts (rq_profile_id row)) db = (d, ok)" by fastforce
  have d: "kv_ok d" "kv_within cap d"
    using reserve_frame [OF _ r] reserve_within [OF _ cap _ r] assms by (simp_all add: kv_frame_def)
  have "kv_entries (fst (prepare_row now node cap layouts uuid who (db, made, touched) row)) = kv_entries d \<and>
      kv_shards (fst (prepare_row now node cap layouts uuid who (db, made, touched) row)) = kv_shards d"
    by (simp add: prepare_row_def Let_def bind_def [symmetric] r)
  then show ?thesis using d kv_ok_cong kv_within_cong by blast
qed

section \<open>Properties\<close>

text \<open>
  C23. Preparing requests never overcommits KV memory: where no node and no stage of a pipeline
  service holds more KV bytes than the capacity, none does after \<open>prepare_ready\<close>, however many rows it
  prepares and whatever layouts it is given.
\<close>

theorem prepare_ready_within_capacity:
  assumes "kv_ok db" and "0 < cap" and "kv_within cap db"
  shows "kv_within cap (fst (prepare_ready env now uuid node eligible batch lmt who depth cap layouts svc share db))"
proof -
  have loop: "kv_within cap (fst (foldl (prepare_row now node cap layouts uuid who) (db, 0, []) rows))" for rows
  proof (rule conjunct2, rule foldl_invariant [where P = "\<lambda>a. kv_ok (fst a) \<and> kv_within cap (fst a)"])
    show "kv_ok (fst (db, 0 :: nat, [] :: string list)) \<and> kv_within cap (fst (db, 0 :: nat, [] :: string list))" using assms by simp
    fix s :: "queue_db \<times> nat \<times> string list" and x assume "kv_ok (fst s) \<and> kv_within cap (fst s)"
    then show "kv_ok (fst (prepare_row now node cap layouts uuid who s x)) \<and> kv_within cap (fst (prepare_row now node cap layouts uuid who s x))"
      using prepare_row_within [OF _ assms(2)] by (cases s) simp
  qed
  have out: "kv_within cap (fst (case foldl (prepare_row now node cap layouts uuid who) (db, 0, []) rows of
      (db1, made, touched) \<Rightarrow> (refresh_batches now touched db1, made)))" for rows
    using loop [of rows] by (simp add: case_prod_unfold kv_within_def node_used_def shard_used_def)
  show ?thesis unfolding prepare_ready_def Let_def using assms(3) out by simp
qed

definition demo_kv_row :: request_row where
  "demo_kv_row = (hd (requests demo_queued))\<lparr>rq_kind := ''model'', rq_state := Queued, rq_node_id := Some ''n'',
     rq_kv_key := Some ''k'', rq_kv_bytes := 40\<rparr>"

definition demo_kv_db :: "bool \<Rightarrow> queue_db" where
  \<comment> \<open>node \<open>n\<close> holds 80 of 100 bytes, idle or in use\<close>
  "demo_kv_db idle = empty_db\<lparr>requests := [demo_kv_row],
     kv_entries := [\<lparr>kve_node = ''n'', kve_key = ''old'', kve_request_id = ''o'', kve_bytes = 80, kve_idle = idle,
       kve_last_used = 0, kve_created_at = 0\<rparr>]\<rparr>"

definition demo_prepare :: "bool \<Rightarrow> queue_db \<times> nat" where
  "demo_prepare idle = prepare_ready demo_env 2 demo_uuids (Some ''n'') [] None 4 ''w'' 0 100 (\<lambda>_. None) None False (demo_kv_db idle)"

lemma demo_kv_ok: "kv_ok (demo_kv_db idle)"
  by (simp add: kv_ok_def demo_kv_db_def empty_db_def)

theorem prepare_ready_within_capacity_witness:
  "kv_within 100 (fst (demo_prepare True)) \<and> map kve_key (kv_entries (fst (demo_prepare True))) = [''k''] \<and>
   snd (demo_prepare True) = 1 \<and> snd (demo_prepare False) = 0"
proof (intro conjI)
  have "kv_within 100 (demo_kv_db True)" by code_simp
  then show "kv_within 100 (fst (demo_prepare True))"
    unfolding demo_prepare_def by (intro prepare_ready_within_capacity demo_kv_ok) simp_all
  show "map kve_key (kv_entries (fst (demo_prepare True))) = [''k'']" by code_simp
  show "snd (demo_prepare True) = 1" by code_simp
  show "snd (demo_prepare False) = 0" by code_simp
qed

end
