(* ===== verification/Queue_Outcomes.thy ===== *)
theory Queue_Outcomes
  imports Queue_Capacity
begin

text \<open>
  What \<^verbatim>\<open>requeue_expired_leases\<close> and \<^verbatim>\<open>cancel\<close> do to the request table,
  as one pointwise map over it: the loops of the code visit the selected rows one after the other, each
  turn writing the row with its id.
\<close>

section \<open>Loops that rewrite one row per turn\<close>

definition turned :: "(request_row \<Rightarrow> request_row) \<Rightarrow> request_row list \<Rightarrow> request_row \<Rightarrow> request_row" where
  "turned f rows r = (if r \<in> set rows then f r else r)"

lemma sql_update_by_id:
  assumes "sql_keyed rq_request_id t" and "row \<in> set t"
  shows "sql_update (by_id (rq_request_id row)) f t = map (\<lambda>r. if r = row then f row else r) t"
  unfolding sql_update_def using sql_keyed_eq [OF assms(1) _ assms(2)] by (auto simp: by_id_def intro!: map_cong)

lemma foldl_turns:
  assumes "\<And>a row. row \<in> set rows \<Longrightarrow> requests (get (step a row)) =
        (if keep row then requests (get a) else sql_update (by_id (rq_request_id row)) (g row) (requests (get a)))"
    and "\<And>row. row \<in> set rows \<Longrightarrow> f row = (if keep row then row else g row row)"
    and "\<And>row. row \<in> set rows \<Longrightarrow> rq_request_id (f row) = rq_request_id row"
    and "sql_keyed rq_request_id (requests (get a))" and "set rows \<subseteq> set (requests (get a))" and "distinct (map rq_request_id rows)"
  shows "requests (get (foldl step a rows)) = map (turned f rows) (requests (get a))"
  using assms
proof (induction rows arbitrary: a)
  case Nil
  then show ?case by (simp add: turned_def)
next
  case (Cons row rows)
  let ?t = "requests (get a)" and ?one = "\<lambda>r. if r = row then f row else r"
  have turn: "requests (get (step a row)) = map ?one ?t"
  proof (cases "keep row")
    case True
    then have "f row = row" using Cons.prems(2) [of row] by simp
    then have "map ?one ?t = ?t" by (simp add: map_idI)
    then show ?thesis using Cons.prems(1) [of row a] True by simp
  next
    case False
    then show ?thesis
      using Cons.prems(1) [of row a] Cons.prems(2) [of row] sql_update_by_id [of ?t row "g row"] Cons.prems(4,5) by simp
  qed
  have ids: "map rq_request_id (requests (get (step a row))) = map rq_request_id ?t"
    using Cons.prems(3) [of row] by (simp add: turn)
  have in_rest: "r \<noteq> row" if "r \<in> set rows" for r using Cons.prems(6) that by auto
  have rest: "requests (get (foldl step (step a row) rows)) = map (turned f rows) (requests (get (step a row)))"
  proof (rule Cons.IH)
    show "sql_keyed rq_request_id (requests (get (step a row)))" using Cons.prems(4) ids by (simp add: sql_keyed_def)
    show "set rows \<subseteq> set (requests (get (step a row)))"
      using Cons.prems(5) in_rest by (force simp: turn)
  qed (use Cons.prems in auto)
  have "f row \<notin> set rows"
    using Cons.prems(3) [of row] Cons.prems(6) by (metis distinct.simps(2) image_eqI list.set_intros(1) list.set_map list.simps(9))
  then have "turned f rows (?one r) = turned f (row # rows) r" for r
    using in_rest by (auto simp: turned_def)
  then show ?case using rest by (simp add: turn)
qed

section \<open>Expired leases\<close>

definition expired_request :: "rat \<Rightarrow> int \<Rightarrow> request_row \<Rightarrow> request_row" where
  \<comment> \<open>what becomes of a request whose lease has run out\<close>
  "expired_request now mx r =
     (if rq_attempt_count r < mx then requeue_row now r
      else clear_lease (close_row now Failed
             (failure_result (rq_request_id r) (''lease expired after '' @ show_int (rq_attempt_count r) @ '' attempts''))
             (Some ''lease_expired'') r))"

lemma release_requests [simp]: "requests (release_unused_compute_lease l db) = requests db"
  by (simp add: release_unused_compute_lease_def)

lemma delete_kv_requests [simp]: "requests (delete_request_kv rid db) = requests db"
  by (simp add: delete_request_kv_def)

definition expire_with :: "rat \<Rightarrow> int \<Rightarrow> request_row \<Rightarrow> request_row \<Rightarrow> request_row" where
  "expire_with now mx row =
     (if rq_attempt_count row < mx then requeue_row now
      else (\<lambda>r. clear_lease (close_row now Failed
             (failure_result (rq_request_id row) (''lease expired after '' @ show_int (rq_attempt_count row) @ '' attempts''))
             (Some ''lease_expired'') r)))"

lemma expire_turn:
  "requests (fst (expire_row now mx acc row)) = sql_update (by_id (rq_request_id row)) (expire_with now mx row) (requests (fst acc))"
  by (cases acc) (simp add: expire_row_def expire_write_def expire_with_def Let_def update_requests_def)

lemma close_row_id [simp]: "rq_request_id (close_row now st res err r) = rq_request_id r"
  by (simp add: close_row_def)

lemma requeue_row_id [simp]: "rq_request_id (requeue_row now r) = rq_request_id r"
  by (simp add: requeue_row_def)

lemma expire_requests:
  assumes "sql_keyed rq_request_id (requests db)"
  shows "requests (fst (requeue_expired_leases now mx db)) =
    map (\<lambda>r. if lease_expired now r then expired_request now mx r else r) (requests db)"
proof -
  let ?d = "purge_idle_compute_leases now db"
  let ?rows = "expired_rows now ?d"
  have d: "requests ?d = requests db" by (simp add: purge_idle_compute_leases_def)
  have "requests (fst (foldl (expire_row now mx) (?d, 0, 0) ?rows)) = map (turned (expired_request now mx) ?rows) (requests (fst (?d, 0 :: nat, 0 :: nat)))"
  proof (rule foldl_turns [where keep = "\<lambda>_. False" and g = "expire_with now mx"])
    show "expired_request now mx row = (if False then row else expire_with now mx row row)" for row
      by (simp add: expired_request_def expire_with_def)
    show "rq_request_id (expired_request now mx row) = rq_request_id row" for row by (simp add: expired_request_def)
    show "distinct (map rq_request_id ?rows)"
      using sql_keyed_select [OF assms, of "lease_expired now"] by (simp add: expired_rows_def d sql_keyed_def)
  qed (use assms in \<open>simp_all add: expire_turn d expired_rows_def subset_iff\<close>)
  also have "\<dots> = map (\<lambda>r. if lease_expired now r then expired_request now mx r else r) (requests db)"
    by (simp add: d turned_def expired_rows_def)
  finally show ?thesis by (simp add: requeue_expired_form)
qed

lemma expire_kv:
  "kv_entries (fst (foldl (expire_row now mx) acc rows)) =
     sql_delete (\<lambda>e. kve_request_id e \<in> rq_request_id ` {r \<in> set rows. rq_attempt_count r < mx}) (kv_entries (fst acc))"
proof (induction rows arbitrary: acc)
  case Nil
  then show ?case by (simp add: sql_delete_def)
next
  case (Cons row rows)
  obtain db n m where acc: "acc = (db, n, m)" by (cases acc)
  have "kv_entries (fst (expire_row now mx acc row)) =
      (if rq_attempt_count row < mx then sql_delete (\<lambda>e. kve_request_id e = rq_request_id row) (kv_entries db) else kv_entries db)"
    by (simp add: acc expire_row_def expire_write_def Let_def release_unused_compute_lease_def delete_request_kv_def)
  then show ?case unfolding foldl_Cons Cons.IH
    by (auto simp: acc sql_delete_delete intro!: arg_cong [where f = "\<lambda>q. sql_delete q (kv_entries db)"])
qed

section \<open>Cancellation\<close>

definition cancelled_request :: "rat \<Rightarrow> string \<Rightarrow> bool \<Rightarrow> request_row \<Rightarrow> request_row" where
  \<comment> \<open>what becomes of a request that is cancelled\<close>
  "cancelled_request now reason force r =
     (if terminal (rq_state r) then r
      else if rq_state r = Running \<and> \<not> force then r\<lparr>rq_cancel_requested := True, rq_updated_at := now\<rparr>
      else cancel_close now reason r r)"

definition cancel_hits :: "string option \<Rightarrow> string option \<Rightarrow> request_row \<Rightarrow> bool" where
  "cancel_hits rid bid r \<longleftrightarrow> (if opt_truthy rid then Some (rq_request_id r) = rid else Some (rq_batch_id r) = bid)"

definition cancel_with :: "rat \<Rightarrow> string \<Rightarrow> bool \<Rightarrow> request_row \<Rightarrow> request_row \<Rightarrow> request_row" where
  "cancel_with now reason force row =
     (if rq_state row = Running \<and> \<not> force then (\<lambda>r. r\<lparr>rq_cancel_requested := True, rq_updated_at := now\<rparr>)
      else cancel_close now reason row)"

lemma cancel_turn:
  "requests (fst (cancel_row now reason force acc row)) =
     (if terminal (rq_state row) then requests (fst acc)
      else sql_update (by_id (rq_request_id row)) (cancel_with now reason force row) (requests (fst acc)))"
  by (cases acc) (simp add: cancel_row_def cancel_now_def cancel_with_def Let_def update_requests_def)

lemma cancel_close_id [simp]: "rq_request_id (cancel_close now reason row r) = rq_request_id r"
  by (simp add: cancel_close_def Let_def)

lemma cancel_requests:
  assumes "core db" and "cancel now rid batch_id job_id reason force db = Inr (db', reply)"
  shows "\<exists>bid. job_batch_id batch_id job_id = Inr bid \<and>
    requests db' = map (\<lambda>r. if cancel_hits rid bid r then cancelled_request now reason force r else r) (requests db)"
proof -
  let ?t0 = "\<lparr>ct_cancelled = [], ct_requested = [], ct_skipped = []\<rparr>"
  obtain bid where bid: "job_batch_id batch_id job_id = Inr bid"
    and db': "db' = refresh_batches now (remdups (map rq_batch_id (cancel_rows rid bid db)))
      (fst (foldl (cancel_row now reason force) (db, ?t0) (cancel_rows rid bid db)))"
    using cancel_form [OF assms(2)] by blast
  have "requests (fst (foldl (cancel_row now reason force) (db, ?t0) (cancel_rows rid bid db))) =
      map (turned (cancelled_request now reason force) (cancel_rows rid bid db)) (requests (fst (db, ?t0)))"
  proof (rule foldl_turns [where keep = "\<lambda>r. terminal (rq_state r)" and g = "cancel_with now reason force"])
    show "cancelled_request now reason force row = (if terminal (rq_state row) then row else cancel_with now reason force row row)" for row
      by (simp add: cancelled_request_def cancel_with_def)
    show "rq_request_id (cancelled_request now reason force row) = rq_request_id row" for row
      by (simp add: cancelled_request_def)
  qed (use assms(1) cancel_rows_ok [OF assms(1)] in \<open>simp_all add: cancel_turn core_def\<close>)
  moreover have "turned (cancelled_request now reason force) (cancel_rows rid bid db) r =
      (if cancel_hits rid bid r then cancelled_request now reason force r else r)" if "r \<in> set (requests db)" for r
    using that by (simp add: turned_def cancel_rows_def cancel_hits_def)
  ultimately show ?thesis using bid db' by (intro exI [of _ bid]) simp
qed

section \<open>Properties\<close>

text \<open>
  C24. When leases are reaped, every request whose lease has run out goes back to the queue without its
  lease while it has attempts left and fails otherwise, and no other request changes.  In particular no
  request keeps an expired lease.
\<close>

theorem expired_leases_exact:
  assumes "queue_reachable db"
  shows "requests (fst (requeue_expired_leases now mx db)) =
      map (\<lambda>r. if lease_expired now r then expired_request now mx r else r) (requests db) \<and>
    list_all (\<lambda>r. \<not> lease_expired now r) (requests (fst (requeue_expired_leases now mx db)))"
proof -
  have "\<not> lease_expired now (expired_request now mx r)" for r
    by (simp add: lease_expired_def expired_request_def requeue_row_def close_row_def)
  then show ?thesis using expire_requests [OF queue_ok_keyed [OF reachable_ok [OF assms]], of now mx] by (auto simp: list_all_iff)
qed

theorem expired_leases_exact_witness:
  "map rq_state (requests (fst (requeue_expired_leases 100 3 demo_running))) = [Queued] \<and>
   map rq_state (requests (fst (requeue_expired_leases 100 1 demo_running))) = [Failed] \<and>
   list_all (\<lambda>r. \<not> lease_expired 100 r) (requests (fst (requeue_expired_leases 100 1 demo_running)))"
proof (intro conjI)
  show "map rq_state (requests (fst (requeue_expired_leases 100 3 demo_running))) = [Queued]" by code_simp
  show "map rq_state (requests (fst (requeue_expired_leases 100 1 demo_running))) = [Failed]" by code_simp
  show "list_all (\<lambda>r. \<not> lease_expired 100 r) (requests (fst (requeue_expired_leases 100 1 demo_running)))"
    using expired_leases_exact [OF demo_reachable(2)] by blast
qed

text \<open>
  Reaping frees the KV reservations of the requests that go back to the queue and of no others: a
  request that fails because its attempts are used up keeps its reservation, still marked in use, so that
  no later reservation can evict it.
\<close>

theorem expiry_keeps_kv_of_failed:
  "kv_entries (fst (requeue_expired_leases now mx db)) =
     filter (\<lambda>e. \<not> list_ex (\<lambda>r. lease_expired now r \<and> rq_attempt_count r < mx \<and> rq_request_id r = kve_request_id e) (requests db))
       (kv_entries db)"
proof -
  let ?d = "purge_idle_compute_leases now db"
  have d: "requests ?d = requests db" "kv_entries ?d = kv_entries db" by (simp_all add: purge_idle_compute_leases_def)
  have rows: "kve_request_id e \<in> rq_request_id ` {r \<in> set (expired_rows now ?d). rq_attempt_count r < mx} \<longleftrightarrow>
      list_ex (\<lambda>r. lease_expired now r \<and> rq_attempt_count r < mx \<and> rq_request_id r = kve_request_id e) (requests db)" for e
    by (auto simp: expired_rows_def d list_ex_iff image_iff)
  show ?thesis unfolding requeue_expired_form expire_kv rows by (simp add: d sql_delete_def)
qed

text \<open>
  C25. Cancelling touches exactly the requests it names: an ended one stays as it is, a running one is
  only marked unless the cancellation is forced, and every other one is cancelled with its reason.
\<close>

theorem cancel_exact:
  assumes "queue_reachable db" and "cancel now rid batch_id job_id reason force db = Inr (db', reply)"
  shows "\<exists>bid. job_batch_id batch_id job_id = Inr bid \<and>
    requests db' = map (\<lambda>r. if cancel_hits rid bid r then cancelled_request now reason force r else r) (requests db)"
  using cancel_requests [OF queue_okD(1) [OF reachable_ok [OF assms(1)]] assms(2)] .

definition demo_cancel :: "bool \<Rightarrow> (queue_db \<times> pydict) result" where
  "demo_cancel force = cancel 5 None (Some ''b'') None ''stop'' force demo_running"

theorem cancel_exact_witness:
  "(\<exists>bid. requests (fst (projr (demo_cancel True))) =
      map (\<lambda>r. if cancel_hits None bid r then cancelled_request 5 ''stop'' True r else r) (requests demo_running)) \<and>
   map rq_state (requests (fst (projr (demo_cancel True)))) = [Cancelled] \<and>
   map rq_state (requests (fst (projr (demo_cancel False)))) = [Running]"
proof (intro conjI)
  have "\<not> isl (demo_cancel True)" by code_simp
  then have "cancel 5 None (Some ''b'') None ''stop'' True demo_running = Inr (fst (projr (demo_cancel True)), snd (projr (demo_cancel True)))"
    unfolding demo_cancel_def by (rule inr_projr)
  from cancel_exact [OF demo_reachable(2) this]
  show "\<exists>bid. requests (fst (projr (demo_cancel True))) =
      map (\<lambda>r. if cancel_hits None bid r then cancelled_request 5 ''stop'' True r else r) (requests demo_running)" by blast
  show "map rq_state (requests (fst (projr (demo_cancel True)))) = [Cancelled]" by code_simp
  show "map rq_state (requests (fst (projr (demo_cancel False)))) = [Running]" by code_simp
qed

end
