(* ===== verification/Queue_Events.thy ===== *)
theory Queue_Events
  imports Queue_Outcomes
begin

text \<open>
  The event log: every operation of the queue only appends to it, and a client that polls page by page,
  from the cursor the last page gave it, sees every event once and in order, whatever happens in between.
\<close>

section \<open>Operations that add no request\<close>

definition quiet :: "queue_db \<Rightarrow> queue_db \<Rightarrow> bool" where
  \<comment> \<open>events may be appended; no request and no batch is added or removed\<close>
  "quiet db db' \<longleftrightarrow> prefix (events db) (events db') \<and> length (requests db') = length (requests db) \<and>
     map bt_batch_id (batches db') = map bt_batch_id (batches db)"

named_theorems quiet_intros \<open>operations that append to the event log\<close>

lemma quiet_refl [simp]: "quiet db db"
  by (simp add: quiet_def)

lemma quiet_trans: "quiet a b \<Longrightarrow> quiet b c \<Longrightarrow> quiet a c"
  by (auto simp: quiet_def intro: prefix_order.trans)

lemma quiet_foldE:
  assumes "foldE f s xs = Inr s'" and "\<And>s x t. x \<in> set xs \<Longrightarrow> f s x = Inr t \<Longrightarrow> quiet (get s) (get t)"
  shows "quiet (get s) (get s')"
  using assms(1)
  by (rule foldE_invariant [where P = "\<lambda>t. quiet (get s) (get t)"]) (use assms(2) in \<open>auto intro: quiet_trans\<close>)

lemma quiet_foldl:
  assumes "\<And>s x. x \<in> set xs \<Longrightarrow> quiet (get s) (get (f s x))"
  shows "quiet (get s) (get (foldl f s xs))"
  by (rule foldl_invariant [where P = "\<lambda>t. quiet (get s) (get t)"]) (use assms in \<open>auto intro: quiet_trans\<close>)

lemma quiet_same:
  "events d = events db \<Longrightarrow> length (requests d) = length (requests db) \<Longrightarrow>
     map bt_batch_id (batches d) = map bt_batch_id (batches db) \<Longrightarrow> quiet db d"
  by (simp add: quiet_def)

lemma quiet_refresh [simp]: "quiet db (refresh_batch now b d) = quiet db d"
  by (simp add: quiet_def)

lemma quiet_refreshes [simp]: "quiet db (refresh_batches now bs d) = quiet db d"
  unfolding refresh_batches_def by (induction bs arbitrary: d) simp_all

lemma reserve_kv_quiet:
  assumes "reserve_kv now row node cap layout db = (d, b)"
  shows "quiet db d"
  by (rule quiet_same)
    (use assms in \<open>auto simp: reserve_kv_def reserve_legacy_kv_def reserve_pipeline_kv_def Let_def split: if_splits option.splits\<close>)

lemma prepare_row_quiet: "quiet (fst acc) (fst (prepare_row now node cap layouts uuid who acc row))"
proof (cases acc)
  case (fields db made touched)
  define bind where "bind = (if opt_truthy (rq_node_id row) then rq_node_id row else if opt_truthy node then node else None)"
  obtain d ok where r: "reserve_kv now row bind cap (layouts (rq_profile_id row)) db = (d, ok)" by fastforce
  show ?thesis
    using reserve_kv_quiet [OF r] by (simp add: fields prepare_row_def Let_def bind_def [symmetric] r quiet_def db_event_def)
qed

lemma prepare_quiet [quiet_intros]:
  assumes "prepare_ready env now uuids node eligible bid lmt who depth cap layouts svc share db = (db', n)"
  shows "quiet db db'"
proof -
  have "quiet db (fst (foldl (prepare_row now node cap layouts uuids who) (db, 0, []) rows))" for rows
    using quiet_foldl [where get = fst and s = "(db, 0, [])", OF prepare_row_quiet] by simp
  then have "quiet db (fst (case foldl (prepare_row now node cap layouts uuids who) (db, 0, []) rows of
      (db1, made, touched) \<Rightarrow> (refresh_batches now touched db1, made)))" for rows
    by (simp add: case_prod_unfold quiet_refreshes)
  then have "quiet db (fst (prepare_ready env now uuids node eligible bid lmt who depth cap layouts svc share db))"
    unfolding prepare_ready_def Let_def by simp
  then show ?thesis using assms by simp
qed

lemma claim_row_quiet: "claim_row now ttl who cl acc x = Inr acc' \<Longrightarrow> quiet (fst acc) (fst acc')"
  by (cases acc; cases x) (auto simp: claim_row_def bindE_eq_Inr quiet_def db_event_def split: if_splits)

lemma lease_quiet:
  "extend_compute_lease env now first n lid who ttl db = (d, g) \<Longrightarrow> quiet db d"
  "acquire_compute_lease env now u first n who ttl db = (d, g) \<Longrightarrow> quiet db d"
  by (auto simp: quiet_def extend_compute_lease_def acquire_compute_lease_def purge_compute_leases_def Let_def split: if_splits option.splits)

lemma claim_quiet [quiet_intros]:
  assumes c: "claim_ready_batch env now uuids opts db = Inr (db', claims)"
  shows "quiet db db'"
proof -
  define rows where "rows = select_claim_rows env now opts db"
  show ?thesis
  proof (cases "rows = []")
    case True
    then show ?thesis using c by (simp add: claim_ready_batch_def rows_def)
  next
    case False
    obtain d g where dg: "(if co_share opts then (db, NoDomain)
        else if opt_truthy (co_compute_lease opts) then extend_compute_lease env now (hd rows) (length rows) (co_compute_lease opts) (co_leased_by opts) (co_ttl opts) db
        else acquire_compute_lease env now (uuids 0) (hd rows) (length rows) (co_leased_by opts) (co_ttl opts) db) = (d, g)" by fastforce
    have e: "quiet db d" using dg lease_quiet by (auto split: if_splits)
    have s: "claim_selected env now uuids (co_leased_by opts) (co_ttl opts) (co_compute_lease opts) (co_share opts) rows db = Inr (db', claims)"
      using c False by (simp add: claim_ready_batch_def Let_def rows_def [symmetric])
    show ?thesis
    proof (cases "g = Denied")
      case True
      then show ?thesis using s dg e by (simp add: claim_selected_def)
    next
      case False
      obtain d2 b where l: "claim_rows now (co_ttl opts) (co_leased_by opts) uuids (granted_id g) rows d = Inr (d2, claims, b)"
          and x: "quiet d2 db'"
        using s dg False by (auto simp: claim_selected_def bindE_eq_Inr Let_def quiet_same)
      have "quiet d d2" using quiet_foldE [OF l [unfolded claim_rows_def], of fst] claim_row_quiet by auto
      then show ?thesis using e x quiet_trans by blast
    qed
  qed
qed

lemma finish_quiet [quiet_intros]: "finish_request now rid lease st res err db = Inr (db', fin) \<Longrightarrow> quiet db db'"
  by (auto simp: finish_request_def Let_def quiet_def db_event_def idle_request_kv_def split: if_splits option.splits)

lemma retry_quiet [quiet_intros]: "retry_transport_failure now rid lease res mx db = (db', outcome) \<Longrightarrow> quiet db db'"
  by (auto simp: retry_transport_failure_def Let_def quiet_def db_event_def split: if_splits option.splits)

lemma cancel_row_quiet: "quiet (fst acc) (fst (cancel_row now reason force acc row))"
  by (cases acc) (simp add: cancel_row_def cancel_now_def Let_def quiet_def db_event_def)

lemma cancel_quiet [quiet_intros]:
  assumes "cancel now orid obid ojob reason force db = Inr (db', reply)"
  shows "quiet db db'"
proof -
  obtain bid where db': "db' = refresh_batches now (remdups (map rq_batch_id (cancel_rows orid bid db)))
      (fst (foldl (cancel_row now reason force) (db, \<lparr>ct_cancelled = [], ct_requested = [], ct_skipped = []\<rparr>) (cancel_rows orid bid db)))"
    using cancel_form [OF assms] by blast
  have "quiet (fst a) (fst (foldl (cancel_row now reason force) a rows))" for a rows
    using quiet_foldl [where get = fst, OF cancel_row_quiet] .
  from this [of "(db, \<lparr>ct_cancelled = [], ct_requested = [], ct_skipped = []\<rparr>)"] show ?thesis by (simp add: db' quiet_refreshes)
qed

lemma expire_row_quiet: "quiet (fst acc) (fst (expire_row now mx acc row))"
  by (cases acc) (simp add: expire_row_def expire_write_def Let_def quiet_def db_event_def)

lemma expire_quiet [quiet_intros]:
  assumes "requeue_expired_leases now mx db = (db', reply)"
  shows "quiet db db'"
proof -
  have "quiet db (purge_idle_compute_leases now db)" by (simp add: quiet_def purge_idle_compute_leases_def)
  moreover have "quiet (fst a) (fst (foldl (expire_row now mx) a rows))" for a rows
    using quiet_foldl [where get = fst, OF expire_row_quiet] .
  ultimately show ?thesis using requeue_expired_form [of now mx db] assms quiet_trans by (metis fst_conv)
qed

lemma release_prefilling_quiet: "release_prefilling now reason stale db = (db', n) \<Longrightarrow> quiet db db'"
proof -
  assume r: "release_prefilling now reason stale db = (db', n)"
  have step: "quiet d (release_row now reason d row)" for d row by (simp add: release_row_def quiet_def db_event_def)
  have "quiet d (foldl (release_row now reason) d rows)" for d rows
    using quiet_foldl [where get = "\<lambda>x. x", OF step] .
  from this [of "update_requests p f db" for p f] have "quiet db (foldl (release_row now reason) (update_requests p f db) rows)" for p f rows
    by (simp add: quiet_def)
  then show ?thesis using r by (auto simp: release_prefilling_def Let_def quiet_refreshes split: if_splits)
qed

section \<open>Submissions\<close>

definition adds :: "string \<Rightarrow> queue_db \<Rightarrow> queue_db \<Rightarrow> bool" where
  \<comment> \<open>a new batch and its requests are appended\<close>
  "adds b db db' \<longleftrightarrow> prefix (events db) (events db') \<and> b \<notin> set (map bt_batch_id (batches db)) \<and>
     map bt_batch_id (batches db') = map bt_batch_id (batches db) @ [b] \<and>
     (\<exists>new. requests db' = requests db @ new \<and> list_all (\<lambda>r. rq_batch_id r = b) new)"

lemma insert_batch_adds: "insert_batch now b db = Inr d \<Longrightarrow> adds b db d"
  by (auto simp: insert_batch_def bindE_eq_Inr sql_insert_Inr adds_def new_batch_def)

lemma adds_row:
  assumes "adds b db d" and "insert_request r d = Inr d2" and "rq_batch_id r = b"
  shows "adds b db (db_event now rid t s p d2)"
proof -
  have d2: "requests d2 = requests d @ [r]" "events d2 = events d" "batches d2 = batches d"
    using assms(2) by (auto simp: insert_request_def bindE_eq_Inr sql_insert_Inr)
  obtain new where "requests d = requests db @ new" "list_all (\<lambda>r. rq_batch_id r = b) new" using assms(1) by (auto simp: adds_def)
  then have "requests d2 = requests db @ (new @ [r]) \<and> list_all (\<lambda>r. rq_batch_id r = b) (new @ [r])" using d2 assms(3) by simp
  then show ?thesis using assms(1) d2 unfolding adds_def by (auto simp: db_event_def)
qed

lemma adds_refresh: "adds b db d \<Longrightarrow> adds b db (refresh_batch now b d)"
  by (simp add: adds_def)

lemma adds_foldE:
  assumes "foldE f s xs = Inr s'" and "adds b db (get s)" and "\<And>s x t. adds b db (get s) \<Longrightarrow> f s x = Inr t \<Longrightarrow> adds b db (get t)"
  shows "adds b db (get s')"
  using assms(1) by (rule foldE_invariant [where P = "\<lambda>t. adds b db (get t)"]) (use assms in auto)

lemma submit_one_adds: "adds b db (su_db acc) \<Longrightarrow> submit_one now reg topo b prio acc req = Inr acc' \<Longrightarrow> adds b db (su_db acc')"
  by (auto simp: submit_one_def Let_def bindE_eq_Inr queued_row_def intro!: adds_row)

lemma submit_adds:
  assumes "submit_requests now uuid reg topo reqs bid prio db = Inr (db', reply)"
  shows "db' = db \<or> (\<exists>b. adds b db db')"
  using submit_form [OF assms]
proof (elim disjE exE conjE)
  fix b d0 acc0 acc
  assume i: "insert_batch now b db = Inr d0" "su_db acc0 = d0" and f: "foldE (submit_one now reg topo b prio) acc0 reqs = Inr acc"
    and db': "db' = refresh_batch now b (su_db acc)"
  have "adds b db (su_db acc)"
    by (rule adds_foldE [OF f]) (use i submit_one_adds in \<open>simp_all add: insert_batch_adds\<close>)
  then show ?thesis using adds_refresh db' by blast
qed simp

lemma submit_cpu_item_adds:
  "adds b db (fst acc) \<Longrightarrow> submit_cpu_item now b svc prio im node tm acc x = Inr acc' \<Longrightarrow> adds b db (fst acc')"
  by (cases acc) (auto simp: submit_cpu_item_def Let_def bindE_eq_Inr cpu_row_def intro!: adds_row)

lemma submit_cpu_adds:
  assumes "submit_cpu_requests now uuid service items bid immediate node timeout prio db = Inr (db', reply)"
  shows "\<exists>b. adds b db db'"
proof -
  obtain b p d0 acc where d: "insert_batch now b db = Inr d0" "db' = refresh_batch now b (fst acc)"
    and f: "foldE (submit_cpu_item now b service p immediate node timeout) (d0, []) items = Inr acc"
    using submit_cpu_form [OF assms] by blast
  have "adds b db (fst acc)"
    by (rule adds_foldE [OF f]) (use d(1) submit_cpu_item_adds in \<open>simp_all add: insert_batch_adds\<close>)
  then show ?thesis using adds_refresh d by blast
qed

section \<open>Every step\<close>

lemma queue_step_quiet_or_adds:
  assumes "queue_step db db'"
  shows "quiet db db' \<or> (\<exists>b. adds b db db')"
  using assms
proof cases
  case (submit now uuid reg topo reqs bid prio reply)
  then show ?thesis using submit_adds by fastforce
next
  case (submit_cpu now uuid service items bid immediate node timeout prio reply)
  then show ?thesis using submit_cpu_adds by blast
next
  case (heartbeat now ids ttl n)
  then show ?thesis by (auto simp: heartbeat_def Let_def quiet_def split: if_splits)
next
  case (startup now stale reply)
  obtain d n where r: "release_prefilling now ''startup_recovery'' stale db = (d, n)" by fastforce
  then have "quiet d db'" using startup by (auto simp: recover_jit_kv_startup_def quiet_def split: prod.splits)
  then show ?thesis using release_prefilling_quiet [OF r] quiet_trans by blast
next
  case (release_waits now reason reply)
  obtain d n where r: "release_prefilling now reason 0 db = (d, n)" by fastforce
  then have "db' = d" using release_waits by (auto simp: release_jit_kv_waits_def split: prod.splits)
  then show ?thesis using release_prefilling_quiet [OF r] by simp
next
  case (delta now rid chunk payload)
  then show ?thesis by (auto simp: stream_delta_def Let_def quiet_def db_event_def)
next
  case (telemetry now report out)
  then show ?thesis using record_telemetry_only [of db now report] by (auto simp: telemetry_only_def quiet_def)
next
  case (refresh now b)
  then show ?thesis by (auto simp: quiet_def)
next
  case (catalogue m)
  then show ?thesis by (auto simp: quiet_def)
qed (auto dest: quiet_intros)

lemma queue_step_log: "queue_step db db' \<Longrightarrow> prefix (events db) (events db')"
  using queue_step_quiet_or_adds [of db db'] by (auto simp: quiet_def adds_def)

lemma queue_steps_log: "queue_step\<^sup>*\<^sup>* db db' \<Longrightarrow> prefix (events db) (events db')"
  by (induction rule: rtranclp_induct) (auto intro: prefix_order.trans dest: queue_step_log)

section \<open>Polling\<close>

lemma sort_key_sorted: "sorted (map f xs) \<Longrightarrow> sort_key f xs = xs"
  by (induction xs) (simp_all add: insort_is_Cons)

lemma numbered_filter:
  assumes "map ev_id es = [1..m]"
  shows "filter (\<lambda>e. c < ev_id e) es = drop (nat (max 0 c)) es"
proof -
  have len: "length es = nat m" using arg_cong [OF assms, of length] by simp
  have id: "ev_id (es ! i) = 1 + int i" if "i < length es" for i
    using arg_cong [OF assms, of "\<lambda>xs. xs ! i"] that len by (simp add: nth_upto)
  have "filter (\<lambda>e. c < ev_id e) (take (nat (max 0 c)) es) = []"
    using id by (auto simp: filter_empty_conv in_set_conv_nth)
  moreover have "filter (\<lambda>e. c < ev_id e) (drop (nat (max 0 c)) es) = drop (nat (max 0 c)) es"
    using id by (auto simp: filter_id_conv in_set_conv_nth)
  ultimately show ?thesis by (metis append_take_drop_id filter_append self_append_conv2)
qed

lemma poll_rows_drop:
  assumes "events_ok db"
  shows "poll_rows c n db = take n (drop (nat (max 0 c)) (events db))"
proof -
  have m: "map ev_id (events db) = [1..last_event_id db]" using assms by (simp add: events_ok_def)
  have "sorted (map ev_id (filter (\<lambda>e. c < ev_id e) (events db)))"
    by (rule sorted_filter) (simp add: m)
  then show ?thesis by (simp add: poll_rows_def sql_select_def sort_key_sorted numbered_filter [OF m])
qed

lemma foldl_max_upto: "foldl max c [i..j] = (if i \<le> j then max c j else (c :: int))"
proof (induction "nat (j - i + 1)" arbitrary: c i)
  case 0
  then show ?case by simp
next
  case (Suc k)
  then have "foldl max (max c i) [i + 1..j] = (if i + 1 \<le> j then max (max c i) j else max c i)"
    by (intro Suc.hyps(1)) simp
  then show ?case using Suc.hyps(2) by (auto simp: upto_rec1 max_def)
qed

lemma poll_cursor_drop:
  assumes ok: "events_ok db" and c: "0 \<le> c" "c \<le> last_event_id db"
  shows "poll_cursor c (poll_rows c n db) = min (c + int n) (last_event_id db)"
proof -
  have m: "map ev_id (events db) = [1..last_event_id db]" using ok by (simp add: events_ok_def)
  have "map ev_id (poll_rows c n db) = take n (drop (nat c) [1..last_event_id db])"
    using c by (simp add: poll_rows_drop [OF ok] m take_map [symmetric] drop_map [symmetric])
  also have "\<dots> = [c + 1..min (c + int n) (last_event_id db)]"
    by (rule nth_equalityI) (use c in \<open>auto simp: nth_upto\<close>)
  finally show ?thesis using c by (auto simp: poll_cursor_def foldl_max_upto)
qed

text \<open>
  C26. Polling page by page loses and repeats nothing: a page followed, after any further operations, by
  a page from the cursor the first one returned is exactly the two pages' worth of events after the first
  cursor.
\<close>

theorem poll_pages_gap_free:
  assumes "queue_reachable db" and "queue_step\<^sup>*\<^sup>* db db'" and "0 \<le> c" and "c \<le> last_event_id db"
  shows "poll_rows c n db @ poll_rows (poll_cursor c (poll_rows c n db)) m db' =
    poll_rows c (length (poll_rows c n db) + m) db'"
proof -
  have ok: "events_ok db" "events_ok db'"
    using queue_okD(1) [OF reachable_ok [OF assms(1)]] queue_okD(1) [OF reachable_ok [OF queue_reachable_steps [OF assms(1,2)]]]
    by (simp_all add: core_def)
  obtain new where new: "events db' = events db @ new" using queue_steps_log [OF assms(2)] by (auto simp: prefix_def)
  have len: "length (events db) = nat (last_event_id db)"
    using ok(1) length_map [of ev_id "events db"] by (simp add: events_ok_def del: length_map)
  let ?k = "length (poll_rows c n db)"
  have k: "?k = min n (nat (last_event_id db) - nat c)" using assms(3) by (simp add: poll_rows_drop [OF ok(1)] len min.commute)
  have cur: "nat (max 0 (poll_cursor c (poll_rows c n db))) = nat c + ?k"
    unfolding poll_cursor_drop [OF ok(1) assms(3,4)] k using assms(3,4) by linarith
  have first: "poll_rows c n db = take ?k (drop (nat c) (events db'))"
    using assms(3,4) len by (simp add: poll_rows_drop [OF ok(1)] new take_all_iff min_def)
  show ?thesis
    unfolding poll_rows_drop [OF ok(2)] cur take_add drop_drop using assms(3) first by (simp add: add.commute)
qed

theorem poll_pages_gap_free_witness:
  "poll_rows 0 1 demo_queued @ poll_rows (poll_cursor 0 (poll_rows 0 1 demo_queued)) 5 demo_done = events demo_done \<and>
   map ev_type (events demo_done) = [''submitted'', ''started'', ''completed'']"
proof
  have s: "queue_step\<^sup>*\<^sup>* demo_queued demo_done" using demo_steps(2,3) by (meson converse_rtranclp_into_rtranclp rtranclp.rtrancl_refl)
  have l: "0 \<le> last_event_id demo_queued" "length (poll_rows 0 1 demo_queued) = 1" by code_simp+
  have "poll_rows 0 6 demo_done = events demo_done" by code_simp
  then show "poll_rows 0 1 demo_queued @ poll_rows (poll_cursor 0 (poll_rows 0 1 demo_queued)) 5 demo_done = events demo_done"
    using poll_pages_gap_free [OF demo_reachable(1) s _ l(1), of 1 5] l(2) by simp
  show "map ev_type (events demo_done) = [''submitted'', ''started'', ''completed'']" by code_simp
qed

end
