(* ===== verification/Queue_Resubmit.thy ===== *)
theory Queue_Resubmit
  imports Queue_Events
begin

text \<open>
  Resubmission: what \<^verbatim>\<open>_existing_submission\<close> compares are columns no operation changes, so a
  client that repeats a submission, at any later time, gets the stored batch and changes nothing.
\<close>

section \<open>The rows of a batch\<close>

abbreviation in_batch :: "string \<Rightarrow> request_row list \<Rightarrow> request_row list" where
  "in_batch b \<equiv> filter (\<lambda>r. rq_batch_id r = b)"

lemma filter_all2:
  "list_all2 R xs ys \<Longrightarrow> (\<And>x y. R x y \<Longrightarrow> P x = P y) \<Longrightarrow> list_all2 R (filter P xs) (filter P ys)"
  by (induction rule: list_all2_induct) auto

lemma insort_all2:
  "list_all2 R xs ys \<Longrightarrow> R x y \<Longrightarrow> (\<And>x y. R x y \<Longrightarrow> k x = k y) \<Longrightarrow> list_all2 R (insort_key k x xs) (insort_key k y ys)"
  by (induction rule: list_all2_induct) auto

lemma sort_all2:
  "list_all2 R xs ys \<Longrightarrow> (\<And>x y. R x y \<Longrightarrow> k x = k y) \<Longrightarrow> list_all2 R (sort_key k xs) (sort_key k ys)"
  by (induction rule: list_all2_induct) (simp_all add: insort_all2)

lemma find_all2:
  "list_all2 R xs ys \<Longrightarrow> (\<And>x y. R x y \<Longrightarrow> P x = P y \<and> f x = f y) \<Longrightarrow> map_option f (find P xs) = map_option f (find P ys)"
  by (induction rule: list_all2_induct) auto

lemma map_all2: "list_all2 R xs ys \<Longrightarrow> (\<And>x y. R x y \<Longrightarrow> f x = f y) \<Longrightarrow> map f xs = map f ys"
  by (induction rule: list_all2_induct) auto

lemma step_batch_rows:
  assumes ok: "queue_ok db" and s: "queue_step db db'" and b: "bid \<in> set (map bt_batch_id (batches db))"
  shows "list_all2 same_request (in_batch bid (requests db)) (in_batch bid (requests db')) \<and> bid \<in> set (map bt_batch_id (batches db'))"
  using queue_step_quiet_or_adds [OF s]
proof (elim disjE exE)
  assume q: "quiet db db'"
  obtain u v where uv: "requests db' = u @ v" and ev: "list_all2 evolves (requests db) u"
    using queue_step_grows [OF s ok] by (auto simp: grows_def)
  have "v = []" using q list_all2_lengthD [OF ev] by (simp add: uv quiet_def)
  moreover have "list_all2 same_request (requests db) u" by (rule list_all2_mono [OF ev]) (rule evolves_same_request)
  ultimately have "list_all2 same_request (requests db) (requests db')" by (simp add: uv)
  then have "list_all2 same_request (in_batch bid (requests db)) (in_batch bid (requests db'))"
    by (rule filter_all2) (simp add: same_request_def)
  then show ?thesis using q b by (simp add: quiet_def del: set_map)
next
  fix c assume a: "adds c db db'"
  then obtain new where new: "requests db' = requests db @ new" "list_all (\<lambda>r. rq_batch_id r = c) new" "c \<noteq> bid"
    using b by (auto simp: adds_def)
  then have "in_batch bid new = []" by (auto simp: filter_empty_conv list_all_iff)
  then show ?thesis using a b new by (simp add: adds_def list_all2_same)
qed

lemma steps_batch_rows:
  assumes "queue_step\<^sup>*\<^sup>* db db'" and "queue_ok db" and "bid \<in> set (map bt_batch_id (batches db))"
  shows "list_all2 same_request (in_batch bid (requests db)) (in_batch bid (requests db')) \<and> bid \<in> set (map bt_batch_id (batches db'))"
  using assms
proof (induction rule: rtranclp_induct)
  case base
  then show ?case by (simp add: list_all2_same)
next
  case (step d d')
  have "queue_ok d" by (rule queue_rows.steps_inv [OF step.hyps(1) step.prems(1)])
  then have "list_all2 same_request (in_batch bid (requests d)) (in_batch bid (requests d')) \<and> bid \<in> set (map bt_batch_id (batches d'))"
    using step_batch_rows [OF _ step.hyps(2)] step.IH step.prems by blast
  then show ?case using step list_all2_trans [of same_request same_request same_request] same_request_trans by blast
qed

section \<open>The comparison\<close>

lemma existing_stable:
  assumes all2: "list_all2 same_request (in_batch bid (requests db)) (in_batch bid (requests db'))"
    and "existing_submission db bid reqs prio = Inr (Some reply)"
  shows "\<exists>reply'. existing_submission db' bid reqs prio = Inr (Some reply')"
proof -
  define rows where "rows = sql_select (\<lambda>r. rq_batch_id r = bid) rq_request_id (requests db)"
  define rows' where "rows' = sql_select (\<lambda>r. rq_batch_id r = bid) rq_request_id (requests db')"
  have r: "list_all2 same_request rows rows'"
    unfolding rows_def rows'_def sql_select_def by (rule sort_all2 [OF all2]) (simp add: same_request_def)
  have ids: "map rq_request_id rows' = map rq_request_id rows"
    using map_all2 [OF r, of rq_request_id] by (simp add: same_request_def)
  have ne: "rows' = [] \<longleftrightarrow> rows = []" using list_all2_lengthD [OF r] by auto
  have prio: "map_option rq_priority (find (\<lambda>r. rq_request_id r = rid) rows') = map_option rq_priority (find (\<lambda>r. rq_request_id r = rid) rows)" for rid
    by (rule find_all2 [OF r, symmetric]) (simp add: same_request_def)
  have hash: "map_option stored_hash (find (\<lambda>r. rq_request_id r = rid) rows') = map_option stored_hash (find (\<lambda>r. rq_request_id r = rid) rows)" for rid
    by (rule find_all2 [OF r, symmetric]) (simp add: same_request_def stored_hash_def)
  show ?thesis using assms(2)
    unfolding existing_submission_def Let_def rows_def [symmetric] rows'_def [symmetric] prio hash ids ne
    by (auto simp: bindE_eq_Inr split: if_splits)
qed

section \<open>The rows a submission stores\<close>

definition stores :: "string \<Rightarrow> int option \<Rightarrow> inference_request \<Rightarrow> request_row \<Rightarrow> bool" where
  "stores bid prio req r \<longleftrightarrow> rq_request_id r = ir_request_id req \<and> rq_batch_id r = bid \<and>
     request_priority req prio = Inr (rq_priority r) \<and> rq_json_hash r = Some (request_json_hash (JObj (ir_raw req)))"

lemma submit_one_stores:
  assumes "submit_one now reg topo bid prio acc req = Inr acc'"
  shows "\<exists>r. requests (su_db acc') = requests (su_db acc) @ [r] \<and> stores bid prio req r"
proof -
  obtain profile p b d where p: "request_priority req prio = Inr p"
    and i: "insert_request (queued_row now bid req profile p b) (su_db acc) = Inr d" and a: "requests (su_db acc') = requests d"
    using assms by (auto simp: submit_one_def Let_def bindE_eq_Inr)
  have "requests d = requests (su_db acc) @ [queued_row now bid req profile p b]"
    using i by (auto simp: insert_request_def bindE_eq_Inr sql_insert_Inr)
  then show ?thesis using a p by (intro exI [of _ "queued_row now bid req profile p b"]) (simp add: stores_def queued_row_def)
qed

lemma submit_loop_stores:
  assumes "foldE (submit_one now reg topo bid prio) acc reqs = Inr acc'"
  shows "\<exists>rows. requests (su_db acc') = requests (su_db acc) @ rows \<and> list_all2 (stores bid prio) reqs rows"
  using assms
proof (induction reqs arbitrary: acc)
  case Nil
  then show ?case by simp
next
  case (Cons req reqs)
  then obtain a where a: "submit_one now reg topo bid prio acc req = Inr a" "foldE (submit_one now reg topo bid prio) a reqs = Inr acc'"
    by (auto simp: bindE_eq_Inr)
  obtain r rows where "requests (su_db a) = requests (su_db acc) @ [r]" "stores bid prio req r"
      "requests (su_db acc') = requests (su_db a) @ rows" "list_all2 (stores bid prio) reqs rows"
    using submit_one_stores [OF a(1)] Cons.IH [OF a(2)] by blast
  then show ?case by (intro exI [of _ "r # rows"]) simp
qed

lemma map_sort_key: "map k (sort_key k xs) = sort (map k xs)"
  by (rule sym, rule properties_for_sort) simp_all

lemma stored_matches:
  assumes rows: "list_all2 (stores bid prio) reqs rows" and key: "sql_keyed rq_request_id (requests db)"
    and batch: "in_batch bid (requests db) = rows" and ne: "reqs \<noteq> []"
  shows "\<exists>reply. existing_submission db bid reqs prio = Inr (Some reply)"
proof -
  define sel where "sel = sql_select (\<lambda>r. rq_batch_id r = bid) rq_request_id (requests db)"
  have sel: "sel = sort_key rq_request_id rows" by (simp add: sel_def sql_select_def batch)
  have len: "length rows = length reqs" using list_all2_lengthD [OF rows] by simp
  have ids: "map rq_request_id rows = map ir_request_id reqs"
    using rows by (induction rule: list_all2_induct) (simp_all add: stores_def)
  have "sql_keyed rq_request_id sel" unfolding sel_def by (rule sql_keyed_select [OF key])
  then have look: "find (\<lambda>r. rq_request_id r = rq_request_id x) sel = Some x" if "x \<in> set rows" for x
    by (rule find_keyed) (simp add: sel that)
  have "length sel \<noteq> 0" using ne len by (simp add: sel)
  then have ne': "sel \<noteq> []" by auto
  let ?f = "\<lambda>req. bindE (request_priority req prio) (\<lambda>p. Inr (ir_request_id req, p))"
  have exp: "mapE ?f reqs = Inr (map (\<lambda>r. (rq_request_id r, rq_priority r)) rows)"
    unfolding mapE_Inr_list_all2 list_all2_map2 by (rule list_all2_mono [OF rows]) (simp add: stores_def)
  have pay: "map_option stored_hash (find (\<lambda>r. rq_request_id r = ir_request_id req) sel) = Some (request_json_hash (JObj (ir_raw req)))"
    if m: "req \<in> set reqs" for req
  proof -
    obtain i where i: "i < length reqs" "req = reqs ! i" using m by (auto simp: in_set_conv_nth)
    define r where "r = rows ! i"
    have r: "r \<in> set rows" "stores bid prio req r" using i len list_all2_nthD [OF rows i(1)] by (simp_all add: r_def)
    have "request_json_hash (JObj (ir_raw req)) \<noteq> ''''"
      by (simp add: request_json_hash_def)
    then show ?thesis using look [OF r(1)] r(2) by (simp add: stores_def stored_hash_def)
  qed
  have mm: "filter (\<lambda>(rid, p). map_option rq_priority (find (\<lambda>r. rq_request_id r = rid) sel) \<noteq> Some p)
      (map (\<lambda>r. (rq_request_id r, rq_priority r)) rows) = []"
    using look by (auto simp: filter_empty_conv)
  have pm: "filter (\<lambda>req. map_option stored_hash (find (\<lambda>r. rq_request_id r = ir_request_id req) sel) \<noteq>
      Some (request_json_hash (JObj (ir_raw req)))) reqs = []"
    using pay by (simp only: filter_empty_conv) simp
  have so: "map rq_request_id sel = sort (map ir_request_id reqs)" by (simp add: sel map_sort_key ids)
  show ?thesis
    unfolding existing_submission_def Let_def sel_def [symmetric] exp so bindE_Inr mm pm using ne' by simp
qed

lemma submitted_matches:
  assumes ok: "queue_ok db" and b: "bid \<noteq> ''''" and s: "submit_requests now uuid reg topo reqs (Some bid) prio db = Inr (db1, reply)"
  shows "\<exists>reply. existing_submission db1 bid reqs prio = Inr (Some reply)"
proof -
  have ne: "reqs \<noteq> []" using s by (auto simp: submit_requests_def)
  obtain ex where ex: "existing_submission db bid reqs prio = Inr ex"
    using s ne b by (auto simp: submit_requests_def bindE_eq_Inr)
  show ?thesis
  proof (cases ex)
    case (Some r)
    then show ?thesis using s ne b ex by (auto simp: submit_requests_def)
  next
    case None
    obtain d0 acc where d0: "insert_batch now bid db = Inr d0"
      and f: "foldE (submit_one now reg topo bid prio) \<lparr>su_db = d0, su_profiles = [], su_priorities = [], su_nodes = [], su_services = [],
         su_late = 0, su_ids = [], su_load = []\<rparr> reqs = Inr acc" and db1: "db1 = refresh_batch now bid (su_db acc)"
      using s ne b ex None by (auto simp: submit_requests_def bindE_eq_Inr)
    obtain rows where rows: "requests (su_db acc) = requests d0 @ rows" "list_all2 (stores bid prio) reqs rows"
      using submit_loop_stores [OF f] by auto
    have old: "in_batch bid (requests db) = []"
    proof -
      have "sql_select (\<lambda>r. rq_batch_id r = bid) rq_request_id (requests db) = []"
        using ex None by (auto simp: existing_submission_def Let_def bindE_eq_Inr split: if_splits)
      then show ?thesis by (metis length_0_conv length_sort sql_select_def)
    qed
    have "requests d0 = requests db" using d0 by (auto simp: insert_batch_def bindE_eq_Inr)
    moreover have "in_batch bid rows = rows"
      using rows(2) by (induction rule: list_all2_induct) (simp_all add: stores_def)
    ultimately have "in_batch bid (requests db1) = rows" using old rows(1) by (simp add: db1)
    moreover have "sql_keyed rq_request_id (requests db1)" by (rule queue_ok_keyed [OF submit_ok [OF ok s]])
    ultimately show ?thesis using stored_matches [OF rows(2) _ _ ne] by blast
  qed
qed

lemma existing_in_batches:
  assumes "queue_ok db" and "existing_submission db bid reqs prio = Inr (Some reply)"
  shows "bid \<in> set (map bt_batch_id (batches db))"
proof -
  have "sql_select (\<lambda>r. rq_batch_id r = bid) rq_request_id (requests db) \<noteq> []"
    using assms(2) by (auto simp: existing_submission_def Let_def split: if_splits)
  then obtain r where "r \<in> set (sql_select (\<lambda>r. rq_batch_id r = bid) rq_request_id (requests db))"
    using list.set_sel(1) by blast
  then have "r \<in> set (requests db)" "rq_batch_id r = bid" by simp_all
  then show ?thesis using queue_okD(1) [OF assms(1)] by (auto simp: core_def)
qed

section \<open>Property\<close>

text \<open>
  C22. Submitting is idempotent: repeating a successful submission under the same batch id, at any later
  time and whatever happened in between, succeeds and changes nothing.
\<close>

theorem resubmission_changes_nothing:
  assumes "queue_reachable db" and "bid \<noteq> ''''" and "submit_requests now uuid reg topo reqs (Some bid) prio db = Inr (db1, reply)"
    and "queue_step\<^sup>*\<^sup>* db1 db2"
  shows "\<exists>reply2. submit_requests now2 uuid2 reg2 topo2 reqs (Some bid) prio db2 = Inr (db2, reply2)"
proof -
  have ok: "queue_ok db" by (rule reachable_ok [OF assms(1)])
  have ok1: "queue_ok db1" by (rule submit_ok [OF ok assms(3)])
  obtain r1 where r1: "existing_submission db1 bid reqs prio = Inr (Some r1)" using submitted_matches [OF ok assms(2,3)] by blast
  obtain r2 where "existing_submission db2 bid reqs prio = Inr (Some r2)"
    using existing_stable [OF conjunct1 [OF steps_batch_rows [OF assms(4) ok1 existing_in_batches [OF ok1 r1]]] r1] by blast
  moreover have "reqs \<noteq> []" using assms(3) by (auto simp: submit_requests_def)
  ultimately show ?thesis using assms(2) by (simp add: submit_requests_def)
qed

definition demo_registry :: profile_registry where
  "demo_registry = \<lparr>pr_profiles = sample_profiles, pr_by_alias = [(''svc2'', sample_profile ''c'' ''svc2'' 3)], pr_ambiguous = [''svc1'']\<rparr>"

definition demo_request :: inference_request where
  "demo_request = \<lparr>ir_request_id = ''r1'', ir_capability = JStr ''fast'', ir_chat = True, ir_immediate = False, ir_priority = None,
     ir_job_class = ''chat'', ir_max_output_tokens = 16, ir_thinking_budget_tokens = 0, ir_temperature = 0, ir_input = [],
     ir_output_contract = [], ir_model_pin = JNull, ir_raw = [(''request_id'', JStr ''r1'')]\<rparr>"

definition demo_model_submit :: "(queue_db \<times> pydict) result" where
  "demo_model_submit = submit_requests 1 ''u'' demo_registry None [demo_request] (Some ''b'') (Some 5) empty_db"

lemma demo_model_submit_ok: "\<not> isl demo_model_submit"
proof -
  have p: "resolve_profile demo_registry (JStr ''fast'') True ''chat'' JNull = Inr (sample_profile ''b'' ''svc1'' 1)" by code_simp
  have e: "ensure_cache_refs_resolved [] = Inr ()" by code_simp
  show ?thesis
    by (simp add: demo_model_submit_def submit_requests_def existing_submission_def sql_select_def empty_db_def insert_batch_def
        sql_insert_def submit_one_def e p demo_request_def request_priority_def choose_binding_def insert_request_def Let_def)
qed

theorem resubmission_changes_nothing_witness:
  "\<exists>db reply. demo_model_submit = Inr (db, reply) \<and> map rq_priority (requests db) = [5] \<and>
     (\<exists>reply2. submit_requests 7 ''v'' demo_registry None [demo_request] (Some ''b'') (Some 5) db = Inr (db, reply2))"
proof -
  obtain db reply where s: "demo_model_submit = Inr (db, reply)" using inr_projr [OF demo_model_submit_ok] by blast
  note s' = s [unfolded demo_model_submit_def]
  obtain r where r: "existing_submission db ''b'' [demo_request] (Some 5) = Inr (Some r)"
    using submitted_matches [OF reachable_ok [OF queue_reachable_empty] _ s'] by auto
  have "list_all (\<lambda>x. rq_priority x = 5) (requests db) \<and> length (requests db) = 1"
    using s' by (auto simp: submit_requests_def existing_submission_def sql_select_def empty_db_def insert_batch_def
        sql_insert_def submit_one_def request_priority_def insert_request_def Let_def bindE_eq_Inr queued_row_def)
  then have "map rq_priority (requests db) = [5]" by (cases "requests db") auto
  moreover have "\<exists>reply2. submit_requests 7 ''v'' demo_registry None [demo_request] (Some ''b'') (Some 5) db = Inr (db, reply2)"
    by (rule resubmission_changes_nothing [OF queue_reachable_empty _ s']) simp_all
  ultimately show ?thesis using s by (intro exI [where x = db] exI [where x = reply]) simp
qed

end
