(* ===== verification/Py_Text.thy ===== *)
theory Py_Text
  imports Py_Json "HOL-Library.Sublist"
begin

text \<open>
  More of Python's text operations, on ASCII text: splitting at a character or at white space,
  \<^verbatim>\<open>startswith\<close>, \<^verbatim>\<open>endswith\<close>, \<^verbatim>\<open>in\<close>, and the pure paths of
  \<^verbatim>\<open>pathlib\<close>, with the lemma that comparing absolute paths as text compares their parts.
\<close>

section \<open>Splitting and searching\<close>

fun split_on :: "char \<Rightarrow> string \<Rightarrow> string list" where
  \<comment> \<open>\<^verbatim>\<open>s.split(c)\<close>\<close>
  "split_on c [] = [[]]"
| "split_on c (d # s) =
     (if d = c then [] # split_on c s
      else (case split_on c s of [] \<Rightarrow> [[d]] | w # ws \<Rightarrow> (d # w) # ws))"

fun split_words :: "string \<Rightarrow> string \<Rightarrow> string list" where
  \<comment> \<open>\<^verbatim>\<open>s.split()\<close>, with the word read so far (reversed)\<close>
  "split_words w [] = (if w = [] then [] else [rev w])"
| "split_words w (c # s) =
     (if is_space c then (if w = [] then split_words [] s else rev w # split_words [] s) else split_words (c # w) s)"

definition words_of :: "string \<Rightarrow> string list" where
  "words_of s = split_words [] s"

definition startswith :: "string \<Rightarrow> string \<Rightarrow> bool" where
  "startswith s p \<longleftrightarrow> drop_prefix p s \<noteq> None"

definition endswith :: "string \<Rightarrow> string \<Rightarrow> bool" where
  "endswith s p \<longleftrightarrow> drop_prefix (rev p) (rev s) \<noteq> None"

fun contains :: "string \<Rightarrow> string \<Rightarrow> bool" where
  \<comment> \<open>\<^verbatim>\<open>p in s\<close>\<close>
  "contains [] p = (p = [])"
| "contains (c # s) p = (startswith (c # s) p \<or> contains s p)"

definition tail_of :: "nat \<Rightarrow> string \<Rightarrow> string" where
  \<comment> \<open>\<^verbatim>\<open>s[-n:]\<close>\<close>
  "tail_of n s = drop (length s - n) s"

definition env_get :: "environ \<Rightarrow> string \<Rightarrow> string \<Rightarrow> string" where
  \<comment> \<open>\<^verbatim>\<open>os.environ.get(name, default)\<close>\<close>
  "env_get env name d = (case env name of None \<Rightarrow> d | Some v \<Rightarrow> v)"

definition env_bool :: "environ \<Rightarrow> string \<Rightarrow> bool \<Rightarrow> bool" where
  "env_bool env name d = (case env name of None \<Rightarrow> d
     | Some v \<Rightarrow> if v = '''' then d else lower (strip v) \<in> {''1'', ''true'', ''yes'', ''on''})"

definition env_int :: "environ \<Rightarrow> string \<Rightarrow> int \<Rightarrow> int result" where
  "env_int env name d = (let v = env_get env name '''' in if v = '''' then Inr d else py_int (JStr v))"

lemma drop_prefix_Some: "drop_prefix p s = Some r \<longleftrightarrow> s = p @ r"
  by (induction p s rule: drop_prefix.induct) auto

lemma startswith_iff [simp]: "startswith s p \<longleftrightarrow> prefix p s"
  by (cases "drop_prefix p s") (auto simp: startswith_def prefix_def drop_prefix_Some, metis drop_prefix_Some option.distinct(1))

lemma split_on_nonempty [simp]: "split_on c s \<noteq> []"
  by (induction s) (auto split: list.split)

lemma split_on_free: "w \<in> set (split_on c s) \<Longrightarrow> c \<notin> set w"
proof (induction s arbitrary: w)
  case Nil
  then show ?case by simp
next
  case (Cons d s)
  show ?case
  proof (cases "split_on c s")
    case Nil
    then show ?thesis by simp
  next
    case (Cons v vs)
    then show ?thesis using Cons.IH Cons.prems by (auto split: if_splits)
  qed
qed

section \<open>Pure POSIX paths\<close>

definition path_anchor :: "string \<Rightarrow> string" where
  \<comment> \<open>nothing, one slash, or exactly two\<close>
  "path_anchor p =
     (if prefix ''//'' p \<and> \<not> prefix ''///'' p then ''//'' else if prefix ''/'' p then ''/'' else '''')"

definition path_parts :: "string \<Rightarrow> string list" where
  "path_parts p = filter (\<lambda>w. w \<noteq> '''' \<and> w \<noteq> ''.'') (split_on (CHR ''/'') p)"

definition path_str :: "string \<Rightarrow> string" where
  \<comment> \<open>\<^verbatim>\<open>str(Path(p))\<close>\<close>
  "path_str p =
     (if path_anchor p = '''' \<and> path_parts p = [] then ''.'' else path_anchor p @ joinwith ''/'' (path_parts p))"

definition path_join :: "string \<Rightarrow> string \<Rightarrow> string" where
  \<comment> \<open>\<^verbatim>\<open>str(PurePosixPath(a) / b)\<close>\<close>
  "path_join a b = (if prefix ''/'' b then path_str b else path_str (a @ ''/'' @ b))"

definition slashed :: "string list \<Rightarrow> string" where
  "slashed ws = concat (map (\<lambda>w. CHR ''/'' # w) ws)"

lemma slashed_simps [simp]: "slashed [] = ''''" "slashed (w # ws) = CHR ''/'' # w @ slashed ws"
  by (simp_all add: slashed_def)

lemma joinwith_slashed: "ws \<noteq> [] \<Longrightarrow> CHR ''/'' # joinwith ''/'' ws = slashed ws"
proof (induction ws)
  case Nil
  then show ?case by simp
next
  case (Cons w ws)
  then show ?case by (cases ws) simp_all
qed

lemma free_prefix:
  assumes "prefix (u @ CHR ''/'' # x) (v @ y)" and "CHR ''/'' \<notin> set u" and "CHR ''/'' \<notin> set v" and "y = [] \<or> hd y = CHR ''/''"
  shows "u = v \<and> prefix (CHR ''/'' # x) y"
  using assms
proof (induction u arbitrary: v)
  case Nil
  then show ?case by (cases v) auto
next
  case (Cons a u)
  show ?case
  proof (cases v)
    case Nil
    then show ?thesis using Cons.prems by (cases y) auto
  next
    case (Cons b w)
    then show ?thesis using Cons.IH [of w] Cons.prems by auto
  qed
qed

lemma slashed_prefix:
  assumes "\<And>w. w \<in> set us \<Longrightarrow> CHR ''/'' \<notin> set w" and "\<And>w. w \<in> set vs \<Longrightarrow> CHR ''/'' \<notin> set w"
  shows "prefix (slashed us @ ''/'') (slashed vs) \<longleftrightarrow> strict_prefix us vs"
  using assms
proof (induction us arbitrary: vs)
  case Nil
  then show ?case by (cases vs) auto
next
  case (Cons u us)
  show ?case
  proof (cases vs)
    case Nil
    then show ?thesis by simp
  next
    case (Cons v ws)
    have hd: "slashed ws = [] \<or> hd (slashed ws) = CHR ''/''" by (cases ws) simp_all
    have split: "\<exists>x. slashed us @ ''/'' = CHR ''/'' # x" by (cases us) simp_all
    then obtain x where x: "slashed us @ ''/'' = CHR ''/'' # x" by blast
    have "prefix (u @ CHR ''/'' # x) (v @ slashed ws) \<longleftrightarrow> u = v \<and> prefix (CHR ''/'' # x) (slashed ws)"
      using free_prefix [of u x v "slashed ws"] Cons.prems hd \<open>vs = v # ws\<close> by (auto simp: same_prefix_prefix)
    then show ?thesis using Cons.IH [of ws] Cons.prems x \<open>vs = v # ws\<close> by auto
  qed
qed

lemma slashed_inject:
  assumes "\<And>w. w \<in> set us \<Longrightarrow> CHR ''/'' \<notin> set w" and "\<And>w. w \<in> set vs \<Longrightarrow> CHR ''/'' \<notin> set w" and "slashed us = slashed vs"
  shows "us = vs"
proof -
  have "prefix (slashed us @ ''/'') (slashed (vs @ [[]]))" "prefix (slashed vs @ ''/'') (slashed (us @ [[]]))"
    using assms(3) by (simp_all add: slashed_def)
  moreover have "CHR ''/'' \<notin> set w" if "w \<in> set (vs @ [[]]) \<or> w \<in> set (us @ [[]])" for w
    using that assms(1,2) by auto
  ultimately have "strict_prefix us (vs @ [[]])" "strict_prefix vs (us @ [[]])"
    using slashed_prefix [of us "vs @ [[]]"] slashed_prefix [of vs "us @ [[]]"] assms(1,2) by blast+
  then show ?thesis by (auto simp: strict_prefix_def dest: prefix_order.antisym)
qed

lemma path_parts_free: "w \<in> set (path_parts p) \<Longrightarrow> CHR ''/'' \<notin> set w"
  using split_on_free by (auto simp: path_parts_def)

section \<open>Rounding and caught exceptions\<close>

definition round_dec :: "nat \<Rightarrow> rat \<Rightarrow> rat" where
  \<comment> \<open>\<^verbatim>\<open>round(x, n)\<close>: to the nearest, a tie to the even digit\<close>
  "round_dec n r =
     (let x = r * 10 ^ n; f = \<lfloor>x\<rfloor>; d = x - of_int f;
          i = (if d < 1 / 2 then f else if d > 1 / 2 then f + 1 else if even f then f else f + 1)
      in of_int i / 10 ^ n)"

fun exc_text :: "py_error \<Rightarrow> string" where
  \<comment> \<open>\<^verbatim>\<open>str(exc)\<close>\<close>
  "exc_text (KeyError s) = repr_str s"
| "exc_text (ValueError s) = s"
| "exc_text (TypeError s) = s"
| "exc_text (RuntimeError s) = s"
| "exc_text (IntegrityError s) = s"
| "exc_text (EOFError s) = s"
| "exc_text (FileNotFoundError s) = s"
| "exc_text (PermissionError s) = s"
| "exc_text (SystemExit s) = s"
| "exc_text (AttributeError s) = s"
| "exc_text (IndexError s) = s"
| "exc_text (OSError s) = s"
| "exc_text (TimeoutError s) = s"
| "exc_text (AssertionError s) = s"
| "exc_text (NotImplementedError s) = s"
| "exc_text (HTTPException status detail) = show_int status @ '': '' @ detail"

definition as_dict :: "json \<Rightarrow> pydict result" where
  \<comment> \<open>a value whose dict methods are called\<close>
  "as_dict v = (case v of JObj d \<Rightarrow> Inr d | _ \<Rightarrow> Inl (AttributeError (''object has no attribute '' @ repr_str ''get'')))"

end
