(* ===== verification/Transfer_Plan.thy ===== *)
theory Transfer_Plan
  imports Py_Text
begin

text \<open>
  \<^verbatim>\<open>ds4_transfer/service.py\<close>: the nodes and rails of the transfer fabric, transfer requests,
  and the plan of a transfer, with the check that both of its paths lie under an allowed root.  Parsing the
  topology file is \<^verbatim>\<open>json.load\<close>; the copy process itself (\<^verbatim>\<open>subprocess.run\<close>)
  is an argument of \<open>run_transfer\<close>.
\<close>

section \<open>Nodes, rails and the topology\<close>

record transfer_node =
  xn_node_id :: string
  xn_host :: string
  xn_fabric_host :: string
  xn_fabric_ip :: string
  xn_roots :: "string list"

record transfer_rail =
  xr_name :: string
  xr_source_ip :: string
  xr_destination_ip :: string

record transfer_topology =
  xt_fabric_id :: string
  xt_fabric_hint :: string
  xt_nodes :: "(string \<times> transfer_node) list"
  xt_bulk_method :: string
  xt_jobs_per_edge :: int
  xt_port_base :: int
  xt_fanout_stages :: "(string \<times> string) list list"
  xt_fabric_edges :: "((string \<times> string) \<times> transfer_rail list) list"
  xt_ssh_options :: "string list"

definition missing_fields :: "string \<Rightarrow> string list \<Rightarrow> pydict \<Rightarrow> unit result" where
  "missing_fields what required d =
     (let missing = filter (\<lambda>k. \<not> has_key d k) required
      in if missing \<noteq> [] then Inl (ValueError (what @ '' missing fields: '' @ py_repr (JArr (map JStr missing)))) else Inr ())"

definition normalize_root :: "string \<Rightarrow> string result" where
  "normalize_root rt =
     (if \<not> startswith rt ''/'' then Inl (ValueError ''root_allowlist entries must be absolute'')
      else (let r = rstrip_char (CHR ''/'') (path_str rt) in Inr (if r = '''' then ''/'' else r)))"

definition py_obj :: "json \<Rightarrow> pydict result" where
  \<comment> \<open>a value that is used as a dict\<close>
  "py_obj v = (case v of JObj d \<Rightarrow> Inr d | _ \<Rightarrow> Inl (TypeError ''not a dict''))"

definition str_at :: "pydict \<Rightarrow> string \<Rightarrow> string result" where
  \<comment> \<open>\<^verbatim>\<open>str(d[k])\<close>\<close>
  "str_at d k = bindE (dindex d k) (\<lambda>v. Inr (py_str v))"

definition transfer_node_from_json :: "pydict \<Rightarrow> transfer_node result" where
  "transfer_node_from_json d =
     bindE (missing_fields ''transfer node'' [''node_id'', ''host'', ''root_allowlist''] d) (\<lambda>_.
     bindE (py_strs (dget d ''root_allowlist'')) (\<lambda>raw.
     bindE (mapE normalize_root raw) (\<lambda>roots.
       if roots = [] then Inl (ValueError ''transfer node requires at least one root_allowlist entry'')
       else
         (let node_id = py_str (dget d ''node_id'')
          in Inr \<lparr>xn_node_id = node_id, xn_host = py_str (dget d ''host''),
                  xn_fabric_host = py_str (dget_or d ''fabric_host'' (JStr (node_id @ ''-200g''))),
                  xn_fabric_ip = py_str (dget_or d ''fabric_ip'' (JStr '''')), xn_roots = roots\<rparr>))))"

definition transfer_rail_from_json :: "pydict \<Rightarrow> transfer_rail result" where
  "transfer_rail_from_json d =
     bindE (missing_fields ''transfer fabric rail'' [''source_ip'', ''destination_ip''] d) (\<lambda>_.
       Inr \<lparr>xr_name = py_str (dget_or d ''name'' (JStr '''')), xr_source_ip = py_str (dget d ''source_ip''),
            xr_destination_ip = py_str (dget d ''destination_ip'')\<rparr>)"

definition edge_of :: "json \<Rightarrow> (string \<times> string) result" where
  "edge_of v =
     bindE (py_obj v) (\<lambda>e. bindE (str_at e ''source_node'') (\<lambda>s. bindE (str_at e ''destination_node'') (\<lambda>t. Inr (s, t))))"

definition load_fanout_stages :: "json \<Rightarrow> ((string \<times> string) list list) result" where
  "load_fanout_stages raw = bindE (py_iter raw) (mapE (\<lambda>stage. bindE (py_iter stage) (mapE edge_of)))"

definition add_fabric_edge ::
  "((string \<times> string) \<times> transfer_rail list) list \<Rightarrow> json \<Rightarrow> (((string \<times> string) \<times> transfer_rail list) list) result"
where
  "add_fabric_edge edges v =
     bindE (edge_of v) (\<lambda>(s, t).
     bindE (py_obj v) (\<lambda>e.
     bindE (py_iter (dget_or e ''rails'' (JArr []))) (\<lambda>items.
     bindE (mapE (\<lambda>i. bindE (py_obj i) transfer_rail_from_json) items) (\<lambda>rails.
       if rails = [] then Inl (ValueError (''fabric edge '' @ s @ ''->'' @ t @ '' requires at least one rail''))
       else if map_of edges (s, t) \<noteq> None then Inl (ValueError (''duplicate fabric edge: '' @ s @ ''->'' @ t))
       else Inr (edges @ [((s, t), rails)])))))"

definition load_fabric_edges :: "json \<Rightarrow> (((string \<times> string) \<times> transfer_rail list) list) result" where
  "load_fabric_edges raw = bindE (py_iter raw) (foldE add_fabric_edge [])"

definition default_ssh_options :: json where
  "default_ssh_options = JArr (map JStr [''-T'', ''-o'', ''Compression=no'', ''-o'', ''BatchMode=yes'', ''-x''])"

definition load_transfer_topology :: "pydict \<Rightarrow> transfer_topology result" where
  \<comment> \<open>\<^verbatim>\<open>TransferTopology.load\<close>, after \<^verbatim>\<open>json.load\<close>\<close>
  "load_transfer_topology d =
     (if dget d ''format'' \<noteq> JStr ''ds4-transfer-topology-v1''
      then Inl (ValueError (''unsupported transfer topology format: '' @ py_repr (dget d ''format'')))
      else
        bindE (py_iter (dget_or d ''nodes'' (JArr []))) (\<lambda>items.
        bindE (mapE (\<lambda>i. bindE (py_obj i) transfer_node_from_json) items) (\<lambda>ns.
        let nodes = foldl (\<lambda>m n. dset (xn_node_id n) n m) [] ns
        in if nodes = [] then Inl (ValueError ''transfer topology requires at least one node'')
           else
             bindE (py_int (dget_or d ''default_jobs_per_edge'' (JInt 16))) (\<lambda>jobs.
             bindE (py_int (dget_or d ''port_base'' (JInt 49300))) (\<lambda>port.
             bindE (load_fanout_stages (dget_or d ''fanout_stages'' (JArr []))) (\<lambda>stages.
             bindE (load_fabric_edges (dget_or d ''fabric_edges'' (JArr []))) (\<lambda>edges.
             bindE (py_strs (dget_or d ''ssh_options'' default_ssh_options)) (\<lambda>ssh.
               Inr \<lparr>xt_fabric_id = py_str (dget_or d ''fabric_id'' (JStr ''unnamed'')),
                    xt_fabric_hint = py_str (dget_or d ''fabric_hint'' (JStr ''unknown'')), xt_nodes = nodes,
                    xt_bulk_method = py_str (dget_or d ''bulk_method'' (JStr ''parallel_nc_fanout_200g_v1'')),
                    xt_jobs_per_edge = jobs, xt_port_base = port, xt_fanout_stages = stages, xt_fabric_edges = edges,
                    xt_ssh_options = ssh\<rparr>)))))))) "

definition get_transfer_node :: "transfer_topology \<Rightarrow> string \<Rightarrow> transfer_node result" where
  "get_transfer_node tp node_id =
     (case map_of (xt_nodes tp) node_id of
        None \<Rightarrow> Inl (ValueError (''unknown transfer node_id: '' @ node_id)) | Some n \<Rightarrow> Inr n)"

definition get_fabric_rails :: "transfer_topology \<Rightarrow> string \<Rightarrow> string \<Rightarrow> transfer_rail list" where
  "get_fabric_rails tp s t = (case map_of (xt_fabric_edges tp) (s, t) of None \<Rightarrow> [] | Some rails \<Rightarrow> rails)"

section \<open>Requests and plans\<close>

record transfer_request =
  xq_request_id :: string
  xq_source_node :: string
  xq_source_path :: string
  xq_destination_node :: string
  xq_destination_path :: string
  xq_recursive :: bool
  xq_delete_extra :: bool
  xq_dry_run :: bool
  xq_raw :: pydict

definition transfer_request_from_json :: "string \<Rightarrow> pydict \<Rightarrow> transfer_request result" where
  \<comment> \<open>\<open>uuid\<close> is the hex text of a fresh UUID\<close>
  "transfer_request_from_json uuid d =
     (if dget d ''format'' \<noteq> JStr ''ds4-transfer-request-v1''
      then Inl (ValueError (''unsupported transfer request format: '' @ py_repr (dget d ''format'')))
      else
        bindE (missing_fields ''transfer request'' [''source_node'', ''source_path'', ''destination_node'', ''destination_path''] d) (\<lambda>_.
          Inr \<lparr>xq_request_id = py_str (por (dget d ''request_id'') (JStr (''transfer-'' @ take 16 uuid))),
               xq_source_node = py_str (dget d ''source_node''), xq_source_path = py_str (dget d ''source_path''),
               xq_destination_node = py_str (dget d ''destination_node''), xq_destination_path = py_str (dget d ''destination_path''),
               xq_recursive = truthy (dget_or d ''recursive'' (JBool True)), xq_delete_extra = truthy (dget_or d ''delete_extra'' (JBool False)),
               xq_dry_run = truthy (dget_or d ''dry_run'' (JBool False)), xq_raw = d\<rparr>))"

definition validate_allowed_path :: "transfer_node \<Rightarrow> string \<Rightarrow> unit result" where
  "validate_allowed_path node path =
     (if \<not> startswith path ''/'' then Inl (ValueError ''transfer paths must be absolute'')
      else
        (let normalized = path_str path
         in if list_ex (\<lambda>rt. normalized = rt \<or> startswith normalized (rstrip_char (CHR ''/'') rt @ ''/'')) (xn_roots node)
            then Inr ()
            else Inl (ValueError (''path '' @ repr_str path @ '' is outside allowlist for '' @ xn_node_id node))))"

definition fast_copy_argv :: "transfer_topology \<Rightarrow> transfer_request \<Rightarrow> (string list) result" where
  "fast_copy_argv tp req =
     bindE (py_int (dget_or (xq_raw req) ''nc_connect_timeout_s'' (JInt 15))) (\<lambda>nc.
     bindE (py_int (dget_or (xq_raw req) ''striped_file_stripes'' (JInt 8))) (\<lambda>stripes.
     bindE (py_int (dget_or (xq_raw req) ''striped_file_threshold_bytes'' (JInt (64 * 1024 * 1024)))) (\<lambda>threshold.
       Inr ([''python3'', ''-m'', ''ds4_transfer.fast_copy'',
             ''--topology'', ''profiles/transfer/spark_200g.json'',
             ''--source-node'', xq_source_node req, ''--source-path'', xq_source_path req,
             ''--destination-node'', xq_destination_node req, ''--destination-path'', xq_destination_path req,
             ''--jobs-per-edge'', show_int (xt_jobs_per_edge tp), ''--port-base'', show_int (xt_port_base tp),
             ''--nc-connect-timeout-s'', show_int nc, ''--striped-file-stripes'', show_int stripes,
             ''--striped-file-threshold-bytes'', show_int threshold] @
            (if xq_dry_run req then [''--dry-run''] else [])))))"

definition fast_copy_notes :: "string list" where
  "fast_copy_notes =
     [''Use the sparkN-200g / 10.10.100.N fabric for bulk payloads; plain sparkN names are control-plane only.'',
      ''The copier uses configured per-edge rails before falling back to route discovery.'',
      ''Large single files are striped over multiple TCP sockets so one KV blob is not limited by one slow stream.'',
      ''The Mac Studio starts and monitors the job only; model bytes flow Spark-to-Spark.'']"

definition shell_safe :: "char \<Rightarrow> bool" where
  \<comment> \<open>\<^verbatim>\<open>[A-Za-z0-9_@%+=:,./-]\<close>\<close>
  "shell_safe c \<longleftrightarrow> (let n = of_char c :: nat
     in (48 \<le> n \<and> n \<le> 57) \<or> (65 \<le> n \<and> n \<le> 90) \<or> (97 \<le> n \<and> n \<le> 122)) \<or> c \<in> set ''_@%+=:,./-''"

definition shlex_quote :: "string \<Rightarrow> string" where
  "shlex_quote s =
     (if s = '''' then [CHR 0x27, CHR 0x27]
      else if list_all shell_safe s then s
      else [CHR 0x27] @ replace_all [CHR 0x27] [CHR 0x27, CHR 0x22, CHR 0x27, CHR 0x22, CHR 0x27] s @ [CHR 0x27])"

definition argv_shell :: "string list \<Rightarrow> string" where
  "argv_shell argv = joinwith '' '' (map shlex_quote argv)"

definition plan_transfer :: "transfer_topology \<Rightarrow> transfer_request \<Rightarrow> pydict result" where
  "plan_transfer tp req =
     (if xq_source_node req = xq_destination_node req
      then Inl (ValueError ''transfer requires distinct source and destination nodes'')
      else
        bindE (get_transfer_node tp (xq_source_node req)) (\<lambda>source.
        bindE (get_transfer_node tp (xq_destination_node req)) (\<lambda>destination.
        bindE (validate_allowed_path source (xq_source_path req)) (\<lambda>_.
        bindE (validate_allowed_path destination (xq_destination_path req)) (\<lambda>_.
        bindE (fast_copy_argv tp req) (\<lambda>argv.
          Inr [(''format'', JStr ''ds4-transfer-plan-v1''), (''request_id'', JStr (xq_request_id req)),
               (''fabric_id'', JStr (xt_fabric_id tp)), (''fabric_hint'', JStr (xt_fabric_hint tp)),
               (''method'', JStr (xt_bulk_method tp)), (''source_node'', JStr (xq_source_node req)),
               (''destination_node'', JStr (xq_destination_node req)), (''source_host'', JStr (xn_host source)),
               (''destination_host'', JStr (xn_host destination)), (''source_fabric'', JStr (xn_fabric_host source)),
               (''destination_fabric'', JStr (xn_fabric_host destination)),
               (''destination_fabric_ip'', JStr (xn_fabric_ip destination)),
               (''configured_rails'', JInt (int (length (get_fabric_rails tp (xq_source_node req) (xq_destination_node req))))),
               (''source_path'', JStr (xq_source_path req)), (''destination_path'', JStr (xq_destination_path req)),
               (''direct_data_path'', JStr (xn_fabric_host source @ '' -> '' @ xn_fabric_host destination)),
               (''argv'', JArr (map JStr argv)), (''argv_shell'', JStr (argv_shell argv)),
               (''notes'', JArr (map JStr fast_copy_notes))]))))))"

definition run_transfer ::
  "(string list \<Rightarrow> int \<times> string \<times> string) \<Rightarrow> rat \<Rightarrow> bool \<Rightarrow> transfer_topology \<Rightarrow> transfer_request \<Rightarrow> pydict result"
where
  \<comment> \<open>\<open>process\<close> runs a command line and gives its return code, output and error output\<close>
  "run_transfer process duration dry_run tp req =
     (let effective = (if dry_run then req\<lparr>xq_dry_run := True\<rparr> else req)
      in bindE (plan_transfer tp effective) (\<lambda>plan.
         if dry_run \<or> xq_dry_run req
         then Inr [(''format'', JStr ''ds4-transfer-result-v1''), (''request_id'', JStr (xq_request_id req)),
                   (''status'', JStr ''planned''), (''ok'', JBool True), (''duration_s'', JFloat duration), (''plan'', JObj plan)]
         else
           bindE (fast_copy_argv tp effective) (\<lambda>argv.
           case process argv of (code, out, err) \<Rightarrow>
             Inr [(''format'', JStr ''ds4-transfer-result-v1''), (''request_id'', JStr (xq_request_id req)),
                  (''status'', JStr (if code = 0 then ''completed'' else ''failed'')), (''ok'', JBool (code = 0)),
                  (''duration_s'', JFloat duration), (''returncode'', JInt code), (''stdout_tail'', JStr (tail_of 8000 out)),
                  (''stderr_tail'', JStr (tail_of 8000 err)), (''plan'', JObj plan)])))"

text \<open>
  What the checks of a transfer plan are worth: which paths the allowlist accepts, that \<open>..\<close> steps
  around it, and that the quoted command line is read back by a shell as the same words.
\<close>

section \<open>The allowlist, part by part\<close>

definition under_root :: "string \<Rightarrow> string \<Rightarrow> bool" where
  \<comment> \<open>the path has all parts of the root, in order, in front of its own\<close>
  "under_root rt p \<longleftrightarrow> (path_parts rt = [] \<or> path_anchor rt = path_anchor p) \<and> prefix (path_parts rt) (path_parts p)"

lemma anchor_cases: "prefix ''/'' p \<Longrightarrow> path_anchor p = ''/'' \<or> path_anchor p = ''//''"
  by (simp add: path_anchor_def)

lemma path_str_abs: "prefix ''/'' p \<Longrightarrow> path_str p = path_anchor p @ joinwith ''/'' (path_parts p)"
  using anchor_cases [of p] by (auto simp: path_str_def)

lemma path_str_slashed:
  assumes "prefix ''/'' p" and "path_parts p \<noteq> []"
  shows "path_str p = (if path_anchor p = ''//'' then ''/'' else '''') @ slashed (path_parts p)"
  using anchor_cases [OF assms(1)] by (auto simp: path_str_abs [OF assms(1)] joinwith_slashed [OF assms(2), symmetric])

lemma path_parts_nonempty: "w \<in> set (path_parts p) \<Longrightarrow> w \<noteq> ''''"
  by (simp add: path_parts_def)

lemma slashed_snoc: "slashed (ws @ [w]) = slashed ws @ CHR ''/'' # w"
  by (simp add: slashed_def)

lemma rstrip_slashed:
  assumes "ws \<noteq> []" and "\<And>w. w \<in> set ws \<Longrightarrow> w \<noteq> '''' \<and> CHR ''/'' \<notin> set w"
  shows "rstrip_char (CHR ''/'') (x @ slashed ws) = x @ slashed ws"
proof -
  obtain us w where ws: "ws = us @ [w]" using assms(1) by (meson rev_exhaust)
  have "w \<noteq> ''''" "CHR ''/'' \<notin> set w" using assms(2) [of w] by (simp_all add: ws)
  then obtain v c where w: "w = v @ [c]" "c \<noteq> CHR ''/''" by (metis in_set_conv_decomp rev_exhaust)
  show ?thesis by (simp add: rstrip_char_def ws slashed_snoc w)
qed

lemma normalize_root_Inr:
  assumes "normalize_root rt = Inr r"
  shows "prefix ''/'' rt \<and> r = (if path_parts rt = [] then ''/'' else (if path_anchor rt = ''//'' then ''/'' else '''') @ slashed (path_parts rt))"
proof -
  have a: "prefix ''/'' rt" using assms by (auto simp: normalize_root_def split: if_splits)
  let ?t = "rstrip_char (CHR ''/'') (path_str rt)"
  have r: "r = (if ?t = '''' then ''/'' else ?t)" using assms a by (auto simp: normalize_root_def Let_def)
  show ?thesis
  proof (cases "path_parts rt = []")
    case True
    have "?t = ''''" using anchor_cases [OF a] True by (auto simp: path_str_abs [OF a] rstrip_char_def)
    then show ?thesis using a r True by simp
  next
    case False
    have "?t = path_str rt"
      unfolding path_str_slashed [OF a False] using rstrip_slashed [OF False] path_parts_nonempty path_parts_free by blast
    moreover have "path_str rt \<noteq> ''''" using False by (cases "path_parts rt") (simp_all add: path_str_slashed [OF a False])
    ultimately show ?thesis using a r False by (simp add: path_str_slashed [OF a False])
  qed
qed

lemma root_accepts:
  assumes rt: "normalize_root rt = Inr r" and p: "prefix ''/'' p"
  shows "path_str p = r \<or> prefix (rstrip_char (CHR ''/'') r @ ''/'') (path_str p) \<longleftrightarrow> under_root rt p"
proof -
  note n = normalize_root_Inr [OF rt]
  show ?thesis
  proof (cases "path_parts rt = []")
    case True
    have "rstrip_char (CHR ''/'') r = ''''" using n True by (simp add: rstrip_char_def)
    moreover have "prefix ''/'' (path_str p)" using anchor_cases [OF p] by (auto simp: path_str_abs [OF p])
    ultimately show ?thesis using True by (simp add: under_root_def)
  next
    case False
    let ?x = "if path_anchor rt = ''//'' then ''/'' else ''''"
    have r: "r = ?x @ slashed (path_parts rt)" using n False by simp
    have rs: "rstrip_char (CHR ''/'') r = r"
      unfolding r using rstrip_slashed [OF False] path_parts_nonempty path_parts_free by blast
    obtain w ws where w: "path_parts rt = w # ws" using False by (cases "path_parts rt") auto
    obtain c cs where c: "w = c # cs" "c \<noteq> CHR ''/''"
      using path_parts_nonempty [of w rt] path_parts_free [of w rt] by (cases w) (auto simp: w)
    show ?thesis
    proof (cases "path_parts p = []")
      case True
      have "path_str p = path_anchor p" using True by (simp add: path_str_abs [OF p])
      then show ?thesis unfolding rs using anchor_cases [OF p] True False by (auto simp: r w c under_root_def)
    next
      case ne: False
      let ?y = "if path_anchor p = ''//'' then ''/'' else ''''"
      have s: "path_str p = ?y @ slashed (path_parts p)" by (rule path_str_slashed [OF p ne])
      obtain v vs where v: "path_parts p = v # vs" using ne by (cases "path_parts p") auto
      obtain d ds where d: "v = d # ds" "d \<noteq> CHR ''/''"
        using path_parts_nonempty [of v p] path_parts_free [of v p] by (cases v) (auto simp: v)
      show ?thesis
      proof (cases "path_anchor rt = path_anchor p")
        case True
        have "path_str p = r \<longleftrightarrow> path_parts rt = path_parts p"
          using slashed_inject [of "path_parts p" "path_parts rt"] path_parts_free True by (auto simp: r s)
        moreover have "prefix (r @ ''/'') (path_str p) \<longleftrightarrow> strict_prefix (path_parts rt) (path_parts p)"
          using slashed_prefix [of "path_parts rt" "path_parts p"] path_parts_free True by (auto simp: r s)
        ultimately show ?thesis unfolding rs using True by (auto simp: under_root_def strict_prefix_def)
      next
        case False
        then have "path_anchor rt = ''/'' \<and> path_anchor p = ''//'' \<or> path_anchor rt = ''//'' \<and> path_anchor p = ''/''"
          using anchor_cases [OF p] anchor_cases [of rt] n by auto
        then show ?thesis unfolding rs using False by (auto simp: r s w v c d under_root_def)
      qed
    qed
  qed
qed

lemma validate_accepts:
  assumes "mapE normalize_root raws = Inr (xn_roots n)"
  shows "validate_allowed_path n p = Inr () \<longleftrightarrow> prefix ''/'' p \<and> list_ex (\<lambda>rt. under_root rt p) raws"
proof (cases "prefix ''/'' p")
  case True
  have "list_ex (\<lambda>r. path_str p = r \<or> prefix (rstrip_char (CHR ''/'') r @ ''/'') (path_str p)) (xn_roots n) \<longleftrightarrow> list_ex (\<lambda>rt. under_root rt p) raws"
    using assms
  proof (induction raws arbitrary: n)
    case Nil
    then show ?case by simp
  next
    case (Cons rt raws)
    then obtain r rs where r: "normalize_root rt = Inr r" "mapE normalize_root raws = Inr rs" "xn_roots n = r # rs"
      by (auto simp: bindE_eq_Inr)
    show ?case using Cons.IH [of "n\<lparr>xn_roots := rs\<rparr>"] r root_accepts [OF r(1) True] by simp
  qed
  then show ?thesis using True by (simp add: validate_allowed_path_def Let_def)
qed (simp add: validate_allowed_path_def)

definition resolve_parts :: "string list \<Rightarrow> string list" where
  \<comment> \<open>where the file system ends up: \<open>..\<close> goes up one directory (no symbolic links)\<close>
  "resolve_parts ws = foldl (\<lambda>acc w. if w = ''..'' then butlast acc else acc @ [w]) [] ws"

lemma resolve_plain: "''..'' \<notin> set ws \<Longrightarrow> resolve_parts ws = ws"
proof -
  have "''..'' \<notin> set ws \<Longrightarrow> foldl (\<lambda>acc w. if w = ''..'' then butlast acc else acc @ [w]) a ws = a @ ws" for a
    by (induction ws arbitrary: a) auto
  then show "''..'' \<notin> set ws \<Longrightarrow> resolve_parts ws = ws" by (simp add: resolve_parts_def)
qed

text \<open>
  The allowlist of a transfer node accepts exactly the absolute paths whose leading parts are
  those of one of its roots.
\<close>

theorem allowlist_by_parts:
  assumes "transfer_node_from_json d = Inr n" and "py_strs (dget d ''root_allowlist'') = Inr raws"
  shows "validate_allowed_path n p = Inr () \<longleftrightarrow> prefix ''/'' p \<and> list_ex (\<lambda>rt. under_root rt p) raws"
proof -
  have "mapE normalize_root raws = Inr (xn_roots n)"
    using assms by (auto simp: transfer_node_from_json_def bindE_eq_Inr Let_def split: if_splits)
  then show ?thesis by (rule validate_accepts)
qed

definition demo_transfer_node :: pydict where
  "demo_transfer_node = [(''node_id'', JStr ''spark0''), (''host'', JStr ''h''), (''root_allowlist'', JArr [JStr ''/data//kv/'']) ]"

definition demo_node :: transfer_node where
  "demo_node = \<lparr>xn_node_id = ''spark0'', xn_host = ''h'', xn_fabric_host = ''spark0-200g'', xn_fabric_ip = '''', xn_roots = [''/data/kv'']\<rparr>"

lemma demo_node_loads: "transfer_node_from_json demo_transfer_node = Inr demo_node"
  by code_simp

theorem allowlist_by_parts_witness:
  "validate_allowed_path demo_node ''/data/kv/a'' = Inr () \<and> validate_allowed_path demo_node ''/data/kv2'' \<noteq> Inr ()"
proof -
  have r: "py_strs (dget demo_transfer_node ''root_allowlist'') = Inr [''/data//kv/'']" by code_simp
  have "under_root ''/data//kv/'' ''/data/kv/a''" "\<not> under_root ''/data//kv/'' ''/data/kv2''" by code_simp+
  then show ?thesis unfolding allowlist_by_parts [OF demo_node_loads r] by simp
qed

text \<open>
  The allowlist does not confine transfers: a path with \<open>..\<close> parts is compared without
  resolving them, so a transfer is planned from a place outside every allowed root.
\<close>

theorem allowlist_misses_dot_dot:
  "validate_allowed_path demo_node ''/data/kv/../../etc/passwd'' = Inr () \<and>
   resolve_parts (path_parts ''/data/kv/../../etc/passwd'') = [''etc'', ''passwd''] \<and>
   \<not> prefix (path_parts ''/data/kv'') (resolve_parts (path_parts ''/data/kv/../../etc/passwd''))"
proof (intro conjI)
  show "validate_allowed_path demo_node ''/data/kv/../../etc/passwd'' = Inr ()" by code_simp
  show "resolve_parts (path_parts ''/data/kv/../../etc/passwd'') = [''etc'', ''passwd'']" by code_simp
  show "\<not> prefix (path_parts ''/data/kv'') (resolve_parts (path_parts ''/data/kv/../../etc/passwd''))" by code_simp
qed

section \<open>Quoting\<close>

datatype sh_mode = Plain | Single | Double

fun sh_scan :: "sh_mode \<Rightarrow> string option \<Rightarrow> string \<Rightarrow> string list option" where
  \<comment> \<open>the words a POSIX shell reads; None where a character would not stand for itself\<close>
  "sh_scan Plain w [] = Some (case w of None \<Rightarrow> [] | Some u \<Rightarrow> [u])"
| "sh_scan Single w [] = None"
| "sh_scan Double w [] = None"
| "sh_scan Plain w (c # s) =
     (if c = CHR '' '' then (case w of None \<Rightarrow> sh_scan Plain None s | Some u \<Rightarrow> map_option ((#) u) (sh_scan Plain None s))
      else if c = CHR 0x27 then sh_scan Single (Some (case w of None \<Rightarrow> '''' | Some u \<Rightarrow> u)) s
      else if c = CHR 0x22 then sh_scan Double (Some (case w of None \<Rightarrow> '''' | Some u \<Rightarrow> u)) s
      else if shell_safe c then sh_scan Plain (Some ((case w of None \<Rightarrow> '''' | Some u \<Rightarrow> u) @ [c])) s
      else None)"
| "sh_scan Single w (c # s) =
     (if c = CHR 0x27 then sh_scan Plain w s else sh_scan Single (Some ((case w of None \<Rightarrow> '''' | Some u \<Rightarrow> u) @ [c])) s)"
| "sh_scan Double w (c # s) =
     (if c = CHR 0x22 then sh_scan Plain w s
      else if c \<in> {CHR ''$'', CHR 0x60, CHR 0x5C, CHR ''!''} then None
      else sh_scan Double (Some ((case w of None \<Rightarrow> '''' | Some u \<Rightarrow> u) @ [c])) s)"

definition sh_words :: "string \<Rightarrow> string list option" where
  "sh_words s = sh_scan Plain None s"

definition quote_char :: "char \<Rightarrow> string" where
  "quote_char c = (if c = CHR 0x27 then [CHR 0x27, CHR 0x22, CHR 0x27, CHR 0x22, CHR 0x27] else [c])"

lemma replace_quotes:
  "replace_all [CHR 0x27] [CHR 0x27, CHR 0x22, CHR 0x27, CHR 0x22, CHR 0x27] s = concat (map quote_char s)"
  by (induction s) (simp_all add: quote_char_def)

lemma shell_safe_plain: "shell_safe c \<Longrightarrow> c \<noteq> CHR '' '' \<and> c \<noteq> CHR 0x27 \<and> c \<noteq> CHR 0x22"
  by (auto simp: shell_safe_def)

lemma scan_safe: "list_all shell_safe s \<Longrightarrow> sh_scan Plain (Some u) (s @ r) = sh_scan Plain (Some (u @ s)) r"
  by (induction s arbitrary: u) (auto dest: shell_safe_plain)

lemma scan_safe_start: "list_all shell_safe s \<Longrightarrow> s \<noteq> '''' \<Longrightarrow> sh_scan Plain None (s @ r) = sh_scan Plain (Some s) r"
  using scan_safe by (cases s) (auto dest: shell_safe_plain)

lemma scan_single:
  "sh_scan Single (Some u) (concat (map quote_char s) @ CHR 0x27 # r) = sh_scan Plain (Some (u @ s)) r"
  by (induction s arbitrary: u) (simp_all add: quote_char_def)

lemma scan_quoted: "sh_scan Plain None (shlex_quote s @ r) = sh_scan Plain (Some s) r"
  using scan_single [of "''''" s r] by (auto simp: shlex_quote_def replace_quotes scan_safe_start)

lemma argv_shell_Cons: "argv_shell (a # as) = shlex_quote a @ (if as = [] then '''' else '' '' @ argv_shell as)"
  by (cases as) (simp_all add: argv_shell_def)

text \<open>
  A planned command line survives the shell: the words a shell reads from the quoted text of a plan
  are exactly the words of its argument vector.
\<close>

theorem argv_shell_roundtrip: "sh_words (argv_shell argv) = Some argv"
proof (induction argv)
  case Nil
  then show ?case by (simp add: argv_shell_def sh_words_def)
next
  case (Cons a as)
  then show ?case using scan_quoted [of a] by (simp add: argv_shell_Cons sh_words_def)
qed

end
