(* ===== verification/Striped_Channel.thy ===== *)
theory Striped_Channel
  imports Py_Text Sha256
begin

text \<open>
  \<^verbatim>\<open>ds4_transfer/striped_channel.py\<close>: a file cut into stripes, each sent over its own TCP
  connection and written into one preallocated file by its own thread.  Sockets are not modelled: what
  \<^verbatim>\<open>read\<close> and \<^verbatim>\<open>recv\<close> return is an argument, with TCP's promise (the bytes of a
  connection arrive complete and in order, in blocks of any size) as a hypothesis of the theorems, and the
  threads are a schedule of their writes.  Also the port numbers that \<^verbatim>\<open>fast_copy.py\<close> gives its copies.
\<close>

section \<open>Stripes\<close>

record stripe_range =
  sr_index :: int
  sr_begin :: int
  sr_end :: int

definition sr_size :: "stripe_range \<Rightarrow> int" where
  "sr_size r = sr_end r - sr_begin r"

fun stripes_from :: "nat \<Rightarrow> int \<Rightarrow> int \<Rightarrow> int \<Rightarrow> int \<Rightarrow> stripe_range list" where
  \<comment> \<open>the loop of \<^verbatim>\<open>stripe_ranges\<close>: how many are left, base, remainder, index, begin\<close>
  "stripes_from 0 base rm i b = []"
| "stripes_from (Suc k) base rm i b =
     (let e = b + base + (if i < rm then 1 else 0)
      in \<lparr>sr_index = i, sr_begin = b, sr_end = e\<rparr> # stripes_from k base rm (i + 1) e)"

definition stripe_ranges :: "int \<Rightarrow> int \<Rightarrow> stripe_range list result" where
  "stripe_ranges sz n =
     (if sz < 0 then Inl (ValueError ''size must be non-negative'')
      else if n < 1 then Inl (ValueError ''stripe_count must be positive'')
      else (let m = min n (max sz 1) in Inr (stripes_from (nat m) (sz div m) (sz mod m) 0 0)))"

section \<open>Sending and receiving a stripe\<close>

fun send_blocks :: "nat \<Rightarrow> nat \<Rightarrow> string \<Rightarrow> nat list \<Rightarrow> string list result" where
  \<comment> \<open>the file from the stripe's begin on; each read asks for at most \<open>chunk\<close> bytes and gets as many as listed\<close>
  "send_blocks chunk left file reads =
     (if left = 0 then Inr []
      else case reads of
        [] \<Rightarrow> Inl (EOFError ''short read'')
      | k # ks \<Rightarrow>
          (let block = take (min k (min chunk left)) file
           in if block = [] then Inl (EOFError ''short read'')
              else bindE (send_blocks chunk (left - length block) (drop (length block) file) ks) (\<lambda>bs. Inr (block # bs))))"

declare send_blocks.simps [simp del]

definition send_stripe :: "nat \<Rightarrow> string \<Rightarrow> stripe_range \<Rightarrow> nat list \<Rightarrow> string list result" where
  "send_stripe chunk file item reads = send_blocks chunk (nat (sr_size item)) (drop (nat (sr_begin item)) file) reads"

fun receive_blocks :: "int \<Rightarrow> nat \<Rightarrow> nat \<Rightarrow> string list \<Rightarrow> (nat \<times> string) list result" where
  \<comment> \<open>the writes (offset and data) of the receive loop, for the blocks \<^verbatim>\<open>recv\<close> returns\<close>
  "receive_blocks idx offset 0 blocks = Inr []"
| "receive_blocks idx offset left [] = Inl (EOFError (''stripe '' @ show_int idx @ '' ended early''))"
| "receive_blocks idx offset left (b # bs) =
     (if b = [] then Inl (EOFError (''stripe '' @ show_int idx @ '' ended early''))
      else bindE (receive_blocks idx (offset + length b) (left - length b) bs) (\<lambda>ws. Inr ((offset, b) # ws)))"

definition receive_stripe :: "stripe_range \<Rightarrow> string list \<Rightarrow> (nat \<times> string) list result" where
  "receive_stripe item blocks = receive_blocks (sr_index item) (nat (sr_begin item)) (nat (sr_size item)) blocks"

section \<open>The received file\<close>

definition pwrite :: "string \<Rightarrow> nat \<times> string \<Rightarrow> string" where
  "pwrite file w = (case w of (off, data) \<Rightarrow> take off file @ data @ drop (off + length data) file)"

definition verify_digest :: "string \<Rightarrow> string \<Rightarrow> string option \<Rightarrow> unit result" where
  \<comment> \<open>\<^verbatim>\<open>_verify_receive_digest\<close>: the digest of the file is in lower case already\<close>
  "verify_digest file path expected =
     (case expected of
        None \<Rightarrow> Inr ()
      | Some e \<Rightarrow>
          if e = '''' then Inr ()
          else if sha256_hex file = (case drop_prefix ''sha256:'' (lower e) of None \<Rightarrow> lower e | Some r \<Rightarrow> r) then Inr ()
          else Inl (RuntimeError (''sha256 mismatch for '' @ path)))"

definition receive_file_striped ::
  "((nat \<times> string) list list \<Rightarrow> (nat \<times> string) list) \<Rightarrow> string \<Rightarrow> int \<Rightarrow> int \<Rightarrow> string list list \<Rightarrow> string option \<Rightarrow> string result"
where
  \<comment> \<open>\<open>schedule\<close> is the order in which the threads' writes take effect\<close>
  "receive_file_striped schedule path sz n received expected =
     bindE (stripe_ranges sz n) (\<lambda>ranges.
     bindE (mapE (\<lambda>(item, blocks). receive_stripe item blocks) (zip ranges received)) (\<lambda>writes.
     let file = foldl pwrite (replicate (nat sz) (char_of (0 :: nat))) (schedule writes)
     in bindE (verify_digest file path expected) (\<lambda>_. Inr file)))"

section \<open>Ports\<close>

definition copy_port :: "int \<Rightarrow> int \<Rightarrow> int \<Rightarrow> int \<Rightarrow> int" where
  \<comment> \<open>the first port of a copy in \<^verbatim>\<open>_copy_shard\<close>\<close>
  "copy_port port_base stage_index edge_index slot = port_base + stage_index * 1000 + edge_index * 100 + slot"

definition copy_ports :: "int \<Rightarrow> int \<Rightarrow> int \<Rightarrow> int \<Rightarrow> int \<Rightarrow> int \<Rightarrow> int \<Rightarrow> int list" where
  \<comment> \<open>the ports a copy listens on: one per stripe if the file is large enough\<close>
  "copy_ports stripes threshold sz port_base stage_index edge slot =
     (let p = copy_port port_base stage_index edge slot
     in if threshold \<le> sz \<and> 1 < stripes
        then map (\<lambda>i. p + i) [0..min stripes (max sz 1) - 1] else [p])"

end
