(* ===== verification/Striped_Contract.thy ===== *)
theory Striped_Contract
  imports Striped_Channel
begin

text \<open>
  The striped transfer is correct: the stripes partition the file, and whatever sizes the reads return and
  in whatever order the threads write, the receiver ends with the sender's bytes.
\<close>

section \<open>The stripes partition the file\<close>

lemma stripes_from_chain:
  assumes "r \<in> set (stripes_from k base rm i b)" and "0 \<le> base"
  shows "b \<le> sr_begin r \<and> sr_begin r \<le> sr_end r"
  using assms
proof (induction k arbitrary: i b)
  case 0
  then show ?case by simp
next
  case (Suc k)
  let ?e = "b + base + (if i < rm then 1 else 0)"
  consider "r = \<lparr>sr_index = i, sr_begin = b, sr_end = ?e\<rparr>" | "r \<in> set (stripes_from k base rm (i + 1) ?e)"
    using Suc.prems(1) by (auto simp: Let_def split: if_splits)
  then show ?case
  proof cases
    case 1
    then show ?thesis using Suc.prems(2) by simp
  next
    case 2
    then show ?thesis using Suc.IH [OF 2 Suc.prems(2)] Suc.prems(2) by (auto split: if_splits)
  qed
qed

lemma stripes_from_last:
  assumes "0 \<le> base"
  shows "r \<in> set (stripes_from k base rm i b) \<Longrightarrow> sr_end r \<le> b + int k * base + max 0 (min (int k) (rm - i))"
proof (induction k arbitrary: i b)
  case 0
  then show ?case by simp
next
  case (Suc k)
  let ?e = "b + base + (if i < rm then 1 else 0)"
  consider "r = \<lparr>sr_index = i, sr_begin = b, sr_end = ?e\<rparr>" | "r \<in> set (stripes_from k base rm (i + 1) ?e)"
    using Suc.prems by (auto simp: Let_def split: if_splits)
  then show ?case
  proof cases
    case 1
    have "0 \<le> int k * base" using assms by simp
    then show ?thesis using 1 by (auto simp: algebra_simps)
  next
    case 2
    then show ?thesis using Suc.IH [OF 2] by (auto simp: algebra_simps split: if_splits)
  qed
qed

lemma stripes_from_cover:
  assumes "0 \<le> base" and "b \<le> x" and "x < b + int k * base + max 0 (min (int k) (rm - i))"
  shows "\<exists>r \<in> set (stripes_from k base rm i b). sr_begin r \<le> x \<and> x < sr_end r"
  using assms(2,3)
proof (induction k arbitrary: i b)
  case 0
  then show ?case by simp
next
  case (Suc k)
  let ?e = "b + base + (if i < rm then 1 else 0)"
  show ?case
  proof (cases "x < ?e")
    case True
    then show ?thesis using Suc.prems by (auto simp: Let_def)
  next
    case False
    have "x < ?e + int k * base + max 0 (min (int k) (rm - (i + 1)))"
      using Suc.prems(2) False by (auto simp: algebra_simps split: if_splits)
    then have "\<exists>r \<in> set (stripes_from k base rm (i + 1) ?e). sr_begin r \<le> x \<and> x < sr_end r"
      using Suc.IH [of ?e "i + 1"] False by simp
    then show ?thesis by (auto simp: Let_def)
  qed
qed

lemma stripe_ranges_total:
  assumes "0 \<le> sz" and "1 \<le> n"
  defines "m \<equiv> min n (max sz 1)"
  shows "int (nat m) * (sz div m) + max 0 (min (int (nat m)) (sz mod m - 0)) = sz"
proof -
  have m: "0 < m" using assms by simp
  have "m * (sz div m) + sz mod m = sz" by simp
  moreover have "0 \<le> sz mod m" "sz mod m < m" using m by simp_all
  moreover have "max 0 (min (int (nat m)) (sz mod m - 0)) = sz mod m" "int (nat m) = m"
    using calculation(2,3) m by linarith+
  ultimately show ?thesis by simp
qed

lemma stripe_ranges_ok:
  assumes "stripe_ranges sz n = Inr rs"
  shows "r \<in> set rs \<Longrightarrow> 0 \<le> sr_begin r \<and> sr_begin r \<le> sr_end r \<and> sr_end r \<le> sz"
    and "0 \<le> x \<Longrightarrow> x < sz \<Longrightarrow> \<exists>r \<in> set rs. sr_begin r \<le> x \<and> x < sr_end r"
proof -
  let ?m = "min n (max sz 1)"
  have p: "0 \<le> sz" "1 \<le> n" and rs: "rs = stripes_from (nat ?m) (sz div ?m) (sz mod ?m) 0 0"
    using assms by (auto simp: stripe_ranges_def Let_def split: if_splits)
  have b: "0 \<le> sz div ?m" using p by (simp add: pos_imp_zdiv_nonneg_iff)
  note t = stripe_ranges_total [OF p]
  show "0 \<le> sr_begin r \<and> sr_begin r \<le> sr_end r \<and> sr_end r \<le> sz" if "r \<in> set rs"
    using stripes_from_chain [OF that [unfolded rs] b] stripes_from_last [OF b that [unfolded rs]] unfolding t add_0 by blast
  show "\<exists>r \<in> set rs. sr_begin r \<le> x \<and> x < sr_end r" if "0 \<le> x" "x < sz"
    unfolding rs by (rule stripes_from_cover [OF b that(1)]) (unfold add_0 t, rule that(2))
qed

section \<open>Writes of the right bytes\<close>

definition right_write :: "string \<Rightarrow> nat \<times> string \<Rightarrow> bool" where
  \<comment> \<open>the bytes written are those the source has there\<close>
  "right_write src w \<longleftrightarrow> (case w of (off, data) \<Rightarrow> off + length data \<le> length src \<and> data = take (length data) (drop off src))"

definition covers :: "nat \<times> string \<Rightarrow> nat \<Rightarrow> bool" where
  "covers w i \<longleftrightarrow> (case w of (off, data) \<Rightarrow> off \<le> i \<and> i < off + length data)"

lemma right_write_nth: "right_write src (off, data) \<Longrightarrow> k < length data \<Longrightarrow> data ! k = src ! (off + k)"
proof -
  assume r: "right_write src (off, data)" and k: "k < length data"
  have "data = take (length data) (drop off src)" using r by (simp add: right_write_def)
  then have "data ! k = take (length data) (drop off src) ! k" by (rule arg_cong [where f = "\<lambda>d. d ! k"])
  moreover have "off + length data \<le> length src" using r by (simp add: right_write_def)
  then have "take (length data) (drop off src) ! k = src ! (off + k)" using k by simp
  ultimately have "data ! k = src ! (off + k)" by simp
  then show "data ! k = src ! (off + k)" .
qed

lemma length_pwrite: "right_write src w \<Longrightarrow> length fl = length src \<Longrightarrow> length (pwrite fl w) = length src"
  by (cases w) (auto simp: right_write_def pwrite_def)

lemma pwrite_nth:
  assumes "right_write src w" and "length fl = length src" and "i < length src"
  shows "pwrite fl w ! i = (if covers w i then src ! i else fl ! i)"
proof (cases w)
  case (Pair off data)
  have off: "off + length data \<le> length src" using assms(1) Pair by (simp add: right_write_def)
  show ?thesis
    using assms off right_write_nth [of src off data "i - off"] Pair
    by (auto simp: pwrite_def covers_def nth_append)
qed

lemma pwrites_nth:
  assumes "\<And>w. w \<in> set ws \<Longrightarrow> right_write src w" and "length fl = length src"
  shows "length (foldl pwrite fl ws) = length src \<and>
    (\<forall>i < length src. (\<exists>w \<in> set ws. covers w i) \<or> fl ! i = src ! i \<longrightarrow> foldl pwrite fl ws ! i = src ! i)"
  using assms
proof (induction ws arbitrary: fl)
  case Nil
  then show ?case by simp
next
  case (Cons w ws)
  have w: "right_write src w" by (rule Cons.prems(1)) simp
  have ih: "length (foldl pwrite (pwrite fl w) ws) = length src \<and>
    (\<forall>i < length src. (\<exists>w \<in> set ws. covers w i) \<or> pwrite fl w ! i = src ! i \<longrightarrow> foldl pwrite (pwrite fl w) ws ! i = src ! i)"
    by (rule Cons.IH) (use Cons.prems length_pwrite [OF w] in auto)
  then show ?case using pwrite_nth [OF w Cons.prems(2)] by auto
qed

lemma receive_blocks_right:
  assumes "concat blocks = take left (drop off src)" and "off + left \<le> length src" and "\<And>b. b \<in> set blocks \<Longrightarrow> b \<noteq> ''''"
  shows "\<exists>ws. receive_blocks idx off left blocks = Inr ws \<and> (\<forall>w \<in> set ws. right_write src w) \<and>
    (\<forall>i. off \<le> i \<and> i < off + left \<longrightarrow> (\<exists>w \<in> set ws. covers w i))"
  using assms
proof (induction idx off left blocks rule: receive_blocks.induct)
  case (1 idx off blocks)
  then show ?case by simp
next
  case (2 idx off left)
  then show ?case by simp
next
  case (3 idx off left b bs)
  let ?left = "Suc left"
  have all: "b @ concat bs = take ?left (drop off src)" using "3.prems"(1) by simp
  have lb: "length b + length (concat bs) = ?left"
    using arg_cong [OF all, of length] "3.prems"(2) by simp
  have b: "b = take (length b) (drop off src)"
    using arg_cong [OF all, of "take (length b)"] lb by (simp add: min_def)
  have rest: "concat bs = take (?left - length b) (drop (off + length b) src)"
    using arg_cong [OF all, of "drop (length b)"] by (simp add: drop_take add.commute)
  have ne: "b \<noteq> []" using "3.prems"(3) [of b] by simp
  obtain ws where ws: "receive_blocks idx (off + length b) (?left - length b) bs = Inr ws"
      "\<forall>w \<in> set ws. right_write src w" "\<forall>i. off + length b \<le> i \<and> i < off + length b + (?left - length b) \<longrightarrow> (\<exists>w \<in> set ws. covers w i)"
    using "3.IH" [OF ne rest] "3.prems"(2,3) lb by auto
  have "right_write src (off, b)" using b "3.prems"(2) lb by (simp add: right_write_def)
  moreover have "\<exists>w \<in> set ((off, b) # ws). covers w i" if "off \<le> i" "i < off + ?left" for i
    using ws(3) that lb by (cases "i < off + length b") (auto simp: covers_def)
  ultimately show ?case using ws ne by auto
qed

lemma send_blocks_right:
  assumes "send_blocks chunk left fl reads = Inr bs" and "left \<le> length fl"
  shows "concat bs = take left fl \<and> (\<forall>b \<in> set bs. b \<noteq> '''' \<and> length b \<le> chunk)"
  using assms
proof (induction reads arbitrary: left fl bs)
  case Nil
  then show ?case by (simp add: send_blocks.simps split: if_splits)
next
  case (Cons k ks)
  show ?case
  proof (cases "left = 0")
    case True
    then show ?thesis using Cons.prems by (simp add: send_blocks.simps)
  next
    case False
    let ?b = "take (min k (min chunk left)) fl"
    obtain cs where ne: "?b \<noteq> []" and cs: "send_blocks chunk (left - length ?b) (drop (length ?b) fl) ks = Inr cs" "bs = ?b # cs"
      using Cons.prems(1) False by (auto simp: send_blocks.simps [of chunk left fl "k # ks"] Let_def bindE_eq_Inr split: if_splits)
    have len: "length ?b \<le> left" "length ?b \<le> chunk" by simp_all
    have ih: "concat cs = take (left - length ?b) (drop (length ?b) fl)" "\<forall>b \<in> set cs. b \<noteq> '''' \<and> length b \<le> chunk"
    proof -
      have "left - length ?b \<le> length (drop (length ?b) fl)" unfolding length_drop by (rule diff_le_mono [OF Cons.prems(2)])
      from Cons.IH [OF cs(1) this] show "concat cs = take (left - length ?b) (drop (length ?b) fl)"
        "\<forall>b \<in> set cs. b \<noteq> '''' \<and> length b \<le> chunk" by (rule conjunct1, rule conjunct2)
    qed
    have "?b @ concat cs = take left fl"
    proof -
      have "take (length (take n fl)) fl = take n fl" for n by (cases "n \<le> length fl") simp_all
      then have "?b = take (length ?b) fl" by (rule sym)
      then have "?b @ concat cs = take (length ?b) fl @ take (left - length ?b) (drop (length ?b) fl)" using ih(1) by simp
      also have "\<dots> = take (length ?b + (left - length ?b)) fl" by (simp only: take_add)
      finally show ?thesis using len(1) by simp
    qed
    then show ?thesis using cs(2) ih(2) ne len(2) by simp
  qed
qed

section \<open>The whole transfer\<close>

definition delivered :: "nat \<Rightarrow> string \<Rightarrow> stripe_range list \<Rightarrow> string list list \<Rightarrow> bool" where
  \<comment> \<open>what TCP promises: per stripe the receiver gets nonempty blocks that make up the bytes a sender's blocks make up\<close>
  "delivered chunk src ranges received \<longleftrightarrow>
     list_all2 (\<lambda>item blocks. (\<exists>reads sent. send_stripe chunk src item reads = Inr sent \<and> concat blocks = concat sent) \<and>
       list_all (\<lambda>b. b \<noteq> '''') blocks) ranges received"

lemma receive_stripe_right:
  assumes "send_stripe chunk src item reads = Inr sent" and "concat blocks = concat sent" and "list_all (\<lambda>b. b \<noteq> '''') blocks"
    and "0 \<le> sr_begin item" and "sr_begin item \<le> sr_end item" and "sr_end item \<le> int (length src)"
  shows "\<exists>ws. receive_stripe item blocks = Inr ws \<and> (\<forall>w \<in> set ws. right_write src w) \<and>
    (\<forall>i. sr_begin item \<le> int i \<and> int i < sr_end item \<longrightarrow> (\<exists>w \<in> set ws. covers w i))"
proof -
  let ?off = "nat (sr_begin item)" and ?left = "nat (sr_size item)"
  have le: "?off + ?left \<le> length src" using assms(4-6) by (simp add: sr_size_def)
  have "concat blocks = take ?left (drop ?off src)"
    using send_blocks_right [OF assms(1) [unfolded send_stripe_def]] assms(2) le by simp
  then obtain ws where "receive_blocks (sr_index item) ?off ?left blocks = Inr ws" "\<forall>w \<in> set ws. right_write src w"
      "\<forall>i. ?off \<le> i \<and> i < ?off + ?left \<longrightarrow> (\<exists>w \<in> set ws. covers w i)"
    using receive_blocks_right [OF _ le, of blocks "sr_index item"] assms(3) by (auto simp: list_all_iff)
  moreover have "?off \<le> i \<and> i < ?off + ?left" if "sr_begin item \<le> int i" "int i < sr_end item" for i
    using that assms(4,5) by (simp add: sr_size_def nat_le_iff)
  ultimately show ?thesis unfolding receive_stripe_def by blast
qed

lemma receive_all_right:
  assumes "delivered chunk src ranges received"
    and "\<And>r. r \<in> set ranges \<Longrightarrow> 0 \<le> sr_begin r \<and> sr_begin r \<le> sr_end r \<and> sr_end r \<le> int (length src)"
  shows "\<exists>wss. mapE (\<lambda>(item, blocks). receive_stripe item blocks) (zip ranges received) = Inr wss \<and>
    (\<forall>w \<in> set (concat wss). right_write src w) \<and>
    (\<forall>r \<in> set ranges. \<forall>i. sr_begin r \<le> int i \<and> int i < sr_end r \<longrightarrow> (\<exists>w \<in> set (concat wss). covers w i))"
  using assms
proof (induction ranges arbitrary: received)
  case Nil
  then show ?case by simp
next
  case (Cons item ranges)
  obtain blocks rest where rc: "received = blocks # rest" using Cons.prems(1) by (auto simp: delivered_def list_all2_Cons1)
  obtain reads sent where s: "send_stripe chunk src item reads = Inr sent" "concat blocks = concat sent" "list_all (\<lambda>b. b \<noteq> '''') blocks"
    and d: "delivered chunk src ranges rest" using Cons.prems(1) by (auto simp: delivered_def rc)
  obtain ws where ws: "receive_stripe item blocks = Inr ws" "\<forall>w \<in> set ws. right_write src w"
      "\<forall>i. sr_begin item \<le> int i \<and> int i < sr_end item \<longrightarrow> (\<exists>w \<in> set ws. covers w i)"
    using receive_stripe_right [OF s] Cons.prems(2) [of item] by auto
  have r: "0 \<le> sr_begin r \<and> sr_begin r \<le> sr_end r \<and> sr_end r \<le> int (length src)" if "r \<in> set ranges" for r
    by (rule Cons.prems(2)) (simp add: that)
  obtain wss where wss: "mapE (\<lambda>(item, blocks). receive_stripe item blocks) (zip ranges rest) = Inr wss"
      "\<forall>w \<in> set (concat wss). right_write src w"
      "\<forall>r \<in> set ranges. \<forall>i. sr_begin r \<le> int i \<and> int i < sr_end r \<longrightarrow> (\<exists>w \<in> set (concat wss). covers w i)"
    using Cons.IH [OF d r] by blast
  have "\<exists>w \<in> set (concat (ws # wss)). covers w i" if "r \<in> set (item # ranges)" "sr_begin r \<le> int i" "int i < sr_end r" for r i
  proof (cases "r = item")
    case True
    then have "\<exists>w \<in> set ws. covers w i" using ws(3) that(2,3) by simp
    then show ?thesis unfolding concat.simps set_append by blast
  next
    case False
    then have "r \<in> set ranges" using that(1) by simp
    then have "\<exists>w \<in> set (concat wss). covers w i" using wss(3) that(2,3) by blast
    then show ?thesis unfolding concat.simps set_append by blast
  qed
  then show ?case using ws(1,2) wss(1,2) by (intro exI [of _ "ws # wss"]) (auto simp: rc)
qed

lemma hex_of_word_lower: "c \<in> set (hex_of_word w) \<Longrightarrow> lower_char c = c \<and> c \<noteq> CHR ''s''"
proof -
  assume "c \<in> set (hex_of_word w)"
  then obtain d :: int where d: "0 \<le> d" "d < 16" and c: "c = (if d < 10 then char_of (48 + d) else char_of (87 + d))"
    unfolding hex_of_word_def set_map Let_def by (elim imageE) (metis pos_mod_bound pos_mod_sign zero_less_numeral)
  have "(of_char c :: int) = (if d < 10 then 48 + d else 87 + d)" using c d by simp
  then have n: "int (of_char c :: nat) = (if d < 10 then 48 + d else 87 + d)" by (simp only: of_nat_of_char)
  then have "lower_char c = c" using d by (auto simp: lower_char_def Let_def split: if_splits)
  moreover have "(of_char (CHR ''s'') :: nat) = 115" by simp
  then have "c \<noteq> CHR ''s''" using n d by (auto split: if_splits)
  ultimately show ?thesis by blast
qed

lemma sha256_hex_chars: "c \<in> set (sha256_hex t) \<Longrightarrow> lower_char c = c \<and> c \<noteq> CHR ''s''"
  unfolding sha256_hex_def Let_def using hex_of_word_lower by auto

lemma sha256_hex_plain: "lower (sha256_hex t) = sha256_hex t" "drop_prefix ''sha256:'' (sha256_hex t) = None"
proof -
  show "lower (sha256_hex t) = sha256_hex t" unfolding lower_def by (rule map_idI) (simp add: sha256_hex_chars)
  show "drop_prefix ''sha256:'' (sha256_hex t) = None"
  proof (cases "sha256_hex t")
    case (Cons c cs)
    then have "c \<noteq> CHR ''s''" using sha256_hex_chars [of c t] by simp
    then show ?thesis using Cons by simp
  qed simp
qed

text \<open>
  C34. A striped transfer delivers the file: for every number of stripes, whatever sizes the sender's
  reads and the receiver's blocks have, and in whatever order the receiving threads write, the received
  file is the source file, and the expected digest of the source is accepted.
\<close>

theorem striped_transfer_delivers:
  assumes "stripe_ranges (int (length src)) n = Inr ranges" and "delivered chunk src ranges received"
    and "\<And>wss. mset (schedule wss) = mset (concat wss)"
    and "expected = None \<or> expected = Some (sha256_hex src)"
  shows "receive_file_striped schedule path (int (length src)) n received expected = Inr src"
proof -
  have ok: "0 \<le> sr_begin r \<and> sr_begin r \<le> sr_end r \<and> sr_end r \<le> int (length src)" if "r \<in> set ranges" for r
    by (rule stripe_ranges_ok(1) [OF assms(1) that])
  obtain wss where wss: "mapE (\<lambda>(item, blocks). receive_stripe item blocks) (zip ranges received) = Inr wss"
      "\<forall>w \<in> set (concat wss). right_write src w"
      "\<forall>r \<in> set ranges. \<forall>i. sr_begin r \<le> int i \<and> int i < sr_end r \<longrightarrow> (\<exists>w \<in> set (concat wss). covers w i)"
    using receive_all_right [OF assms(2) ok] by blast
  let ?f = "foldl pwrite (replicate (length src) (char_of (0 :: nat))) (schedule wss)"
  have set: "set (schedule wss) = set (concat wss)" using assms(3) [of wss] by (metis set_mset_mset)
  have f: "length ?f = length src \<and> (\<forall>i < length src. (\<exists>w \<in> set (schedule wss). covers w i) \<or>
      replicate (length src) (char_of (0 :: nat)) ! i = src ! i \<longrightarrow> ?f ! i = src ! i)"
    by (rule pwrites_nth) (use wss(2) set in auto)
  have "?f = src"
  proof (rule nth_equalityI)
    show "length ?f = length src" using f by blast
    fix i assume i: "i < length ?f"
    then have j: "i < length src" using f by simp
    obtain r where "r \<in> set ranges" "sr_begin r \<le> int i" "int i < sr_end r"
      using stripe_ranges_ok(2) [OF assms(1), of "int i"] j by auto
    then show "?f ! i = src ! i" using wss(3) f j set by blast
  qed
  moreover have "verify_digest src path expected = Inr ()"
    using assms(4) sha256_hex_plain [of src] by (auto simp: verify_digest_def)
  ultimately show ?thesis using assms(1) wss(1) by (simp add: receive_file_striped_def Let_def)
qed

definition demo_blocks :: "string list list" where
  "demo_blocks = [[''h'', ''el''], [''lo'']]"

lemma demo_delivered: "delivered 2 ''hello'' [\<lparr>sr_index = 0, sr_begin = 0, sr_end = 3\<rparr>, \<lparr>sr_index = 1, sr_begin = 3, sr_end = 5\<rparr>] demo_blocks"
proof -
  have "send_stripe 2 ''hello'' \<lparr>sr_index = 0, sr_begin = 0, sr_end = 3\<rparr> [2, 2] = Inr [''he'', ''l'']" by code_simp
  moreover have "send_stripe 2 ''hello'' \<lparr>sr_index = 1, sr_begin = 3, sr_end = 5\<rparr> [1, 1] = Inr [''l'', ''o'']" by code_simp
  ultimately show ?thesis unfolding delivered_def demo_blocks_def by force
qed

theorem striped_transfer_delivers_witness:
  "receive_file_striped (\<lambda>wss. rev (concat wss)) ''out'' 5 2 demo_blocks None = Inr ''hello''"
proof -
  have r: "stripe_ranges (int (length ''hello'')) 2 = Inr [\<lparr>sr_index = 0, sr_begin = 0, sr_end = 3\<rparr>, \<lparr>sr_index = 1, sr_begin = 3, sr_end = 5\<rparr>]"
    by code_simp
  show ?thesis using striped_transfer_delivers [OF r demo_delivered, of "\<lambda>wss. rev (concat wss)" None "''out''"] by simp
qed

text \<open>
  Two copies of one edge that run at the same time listen on overlapping ports as soon as the first
  is striped: the ports of a copy are its slot's and the following ones, which are the next slots'.
\<close>

theorem striped_copy_ports_collide:
  assumes "1 < stripes" and "1 < sz" and "threshold \<le> sz"
  shows "set (copy_ports stripes threshold sz port_base stage edge slot) \<inter> set (copy_ports stripes threshold other port_base stage edge (slot + 1)) \<noteq> {}"
proof -
  let ?p = "copy_port port_base stage edge slot + 1"
  have "?p \<in> set (copy_ports stripes threshold sz port_base stage edge slot)"
    using assms by (auto simp: copy_ports_def Let_def image_iff intro!: bexI [of _ 1])
  moreover have "?p \<in> set (copy_ports stripes threshold other port_base stage edge (slot + 1))"
    using assms by (auto simp: copy_ports_def copy_port_def Let_def image_iff intro!: bexI [of _ 0])
  ultimately show ?thesis by blast
qed

theorem striped_copy_ports_collide_witness:
  "set (copy_ports 8 67108864 67108864 49300 0 0 0) \<inter> set (copy_ports 8 67108864 1 49300 0 0 1) \<noteq> {}"
  using striped_copy_ports_collide [of 8 67108864 67108864 49300 0 0 0 1] by simp

end
