(* ===== verification/Waterfall.thy ===== *)
theory Waterfall
  imports Py_Text
begin

text \<open>
  \<^verbatim>\<open>ds4_transfer/waterfall_copy.py\<close>: files relayed along a chain of nodes, one worker per
  edge with a queue in front of it.  The plan, the manifests and one turn of a worker are definitions; the
  threads are a step relation in which any worker that has something in its queue may take a turn, which is
  one step.  The main thread's puts come first: the queues are unbounded, so that they never wait.  The
  remote commands are the state of the nodes' directories; what may fail in them is an argument.
\<close>

section \<open>The plan\<close>

record file_item =
  fi_relpath :: string
  fi_size :: int

record waterfall_plan =
  wp_transferable :: "file_item list"
  wp_last_needed :: "(string \<times> nat) list"
  wp_edge_files :: "file_item list list"

type_synonym keep_manifests = "(string \<times> string list) list"

definition unknown_keeps :: "file_item list \<Rightarrow> keep_manifests \<Rightarrow> (string \<times> string list) list" where
  \<comment> \<open>per node the kept files that the source does not have\<close>
  "unknown_keeps files keep =
     filter (\<lambda>(node, missing). missing \<noteq> [])
       (map (\<lambda>(node, ks). (node, sort (filter (\<lambda>r. r \<notin> set (map fi_relpath files)) (remdups ks)))) keep)"

definition needed_indices :: "string list \<Rightarrow> keep_manifests \<Rightarrow> string \<Rightarrow> nat list result" where
  "needed_indices nodes keep rel =
     bindE (mapE (\<lambda>(i, node). case map_of keep node of
              None \<Rightarrow> Inl (KeyError node) | Some ks \<Rightarrow> Inr (if rel \<in> set ks then [i] else [])) (List.enumerate 0 nodes))
       (\<lambda>iss. Inr (concat iss))"

definition add_to_edges :: "file_item \<Rightarrow> nat \<Rightarrow> file_item list list \<Rightarrow> file_item list list" where
  \<comment> \<open>\<^verbatim>\<open>for edge_index in range(last_index): edge_files[edge_index].append(item)\<close>\<close>
  "add_to_edges item last_index edges = map (\<lambda>(e, items). if e < last_index then items @ [item] else items) (List.enumerate 0 edges)"

definition plan_file :: "string list \<Rightarrow> keep_manifests \<Rightarrow> waterfall_plan \<Rightarrow> file_item \<Rightarrow> waterfall_plan result" where
  "plan_file nodes keep plan item =
     bindE (needed_indices nodes keep (fi_relpath item)) (\<lambda>indices.
       if indices = [] then Inr plan
       else
         (let last_index = Max (set indices);
              plan1 = plan\<lparr>wp_last_needed := dset (fi_relpath item) last_index (wp_last_needed plan)\<rparr>
          in if last_index = 0 then Inr plan1
             else Inr (plan1\<lparr>wp_transferable := wp_transferable plan1 @ [item],
                             wp_edge_files := add_to_edges item last_index (wp_edge_files plan1)\<rparr>)))"

definition build_waterfall_plan :: "file_item list \<Rightarrow> string list \<Rightarrow> keep_manifests \<Rightarrow> waterfall_plan result" where
  "build_waterfall_plan files nodes keep =
     (let unknown = unknown_keeps files keep
      in if unknown \<noteq> []
         then Inl (ValueError (''keep manifests reference files missing from source: '' @
                py_repr (JObj (map (\<lambda>(n, ms). (n, JArr (map JStr ms))) unknown))))
         else foldE (plan_file nodes keep) \<lparr>wp_transferable = [], wp_last_needed = [],
                wp_edge_files = replicate (length nodes - 1) []\<rparr> files)"

section \<open>Arguments and manifests\<close>

definition parse_nodes :: "string \<Rightarrow> string list result" where
  "parse_nodes raw =
     (let nodes = words_of (map (\<lambda>c. if c = CHR '','' then CHR '' '' else c) raw)
      in if length nodes < 2 then Inl (ValueError ''--nodes must name at least two nodes'')
         else if length (remdups nodes) \<noteq> length nodes then Inl (ValueError ''--nodes contains duplicates'')
         else Inr nodes)"

definition read_manifest :: "string \<Rightarrow> string \<Rightarrow> string list result" where
  \<comment> \<open>the text of the file at \<open>path\<close>, with newlines as the only line ends\<close>
  "read_manifest path txt =
     (let keep = remdups (filter (\<lambda>l. l \<noteq> '''' \<and> \<not> startswith l ''#'') (map strip (split_on (CHR 0x0A) txt)))
      in if keep = [] then Inl (ValueError (''empty keep manifest: '' @ path)) else Inr keep)"

definition load_keep_manifests :: "(string \<Rightarrow> string) \<Rightarrow> (string \<Rightarrow> string option) \<Rightarrow> string list \<Rightarrow> keep_manifests result" where
  \<comment> \<open>\<open>path_of\<close> fills the template, \<open>read\<close> is the text of an existing file\<close>
  "load_keep_manifests path_of read nodes =
     mapE (\<lambda>node. case read (path_of node) of
         None \<Rightarrow> Inl (FileNotFoundError (''missing keep manifest for '' @ node @ '': '' @ path_of node))
       | Some txt \<Rightarrow> bindE (read_manifest (path_of node) txt) (\<lambda>keep. Inr (node, keep))) nodes"

record waterfall_args =
  wa_source_node :: string
  wa_source_path :: string
  wa_path_template :: string
  wa_port_base :: int
  wa_port_stride :: int
  wa_stripes :: int
  wa_threshold :: int
  wa_nc_timeout :: int
  wa_cleanup :: bool

definition check_waterfall_args :: "waterfall_args \<Rightarrow> unit result" where
  \<comment> \<open>\<^verbatim>\<open>parser.error\<close> ends the program with the message\<close>
  "check_waterfall_args a =
     (if wa_port_stride a \<le> wa_stripes a then Inl (SystemExit ''--port-stride must be larger than --striped-file-stripes'')
      else if wa_stripes a < 1 then Inl (SystemExit ''--striped-file-stripes must be positive'')
      else if wa_threshold a < 0 then Inl (SystemExit ''--striped-file-threshold-bytes must be non-negative'')
      else if wa_nc_timeout a < 1 then Inl (SystemExit ''--nc-connect-timeout-s must be positive'')
      else Inr ())"

definition edge_port_base :: "waterfall_args \<Rightarrow> nat \<Rightarrow> int" where
  "edge_port_base a e = wa_port_base a + int e * wa_port_stride a"

definition plan_summary :: "waterfall_args \<Rightarrow> string list \<Rightarrow> file_item list \<Rightarrow> keep_manifests \<Rightarrow> waterfall_plan \<Rightarrow> pydict" where
  "plan_summary a nodes files keep plan =
     [(''method'', JStr ''waterfall_complete_file_relay_v1''), (''source_node'', JStr (wa_source_node a)),
      (''source_path'', JStr (wa_source_path a)), (''destination_path_template'', JStr (wa_path_template a)),
      (''nodes'', JArr (map JStr nodes)), (''source_files'', JInt (int (length files))),
      (''source_bytes'', JInt (sum_list (map fi_size files))), (''transfer_files'', JInt (int (length (wp_transferable plan)))),
      (''transfer_bytes'', JInt (sum_list (map fi_size (wp_transferable plan)))), (''cleanup_transit'', JBool (wa_cleanup a)),
      (''node_keep_files'', JObj (map (\<lambda>n. (n, JInt (case map_of keep n of None \<Rightarrow> 0 | Some ks \<Rightarrow> int (length ks)))) nodes)),
      (''edges'', JArr (map (\<lambda>(e, items). JObj
          [(''edge'', JStr (nodes ! e @ ''->'' @ nodes ! Suc e)), (''files'', JInt (int (length items))),
           (''bytes'', JInt (sum_list (map fi_size items))), (''port_base'', JInt (edge_port_base a e))])
        (List.enumerate 0 (wp_edge_files plan))))]"

section \<open>The relay\<close>

text \<open>Node \<open>e\<close> is the source of edge \<open>e\<close>; its directory maps relative paths to file sizes.\<close>

record relay =
  ry_dir :: "nat \<Rightarrow> string \<Rightarrow> int option"
  ry_queue :: "nat \<Rightarrow> file_item option list"   \<comment> \<open>None is the sentinel\<close>
  ry_ready :: "nat \<Rightarrow> bool"   \<comment> \<open>the worker has its rails and its directory\<close>
  ry_done :: "nat \<Rightarrow> bool"
  ry_stop :: bool
  ry_errors :: "string list"

record relay_cfg =
  rc_edges :: nat
  rc_last :: "string \<Rightarrow> nat"
  rc_keep :: "nat \<Rightarrow> string \<Rightarrow> bool"
  rc_cleanup :: bool
  rc_setup_fault :: "nat \<Rightarrow> string option"
  rc_copy_fault :: "nat \<Rightarrow> string \<Rightarrow> string option"
  rc_remove_fault :: "nat \<Rightarrow> string \<Rightarrow> string option"

definition fail_worker :: "relay_cfg \<Rightarrow> nat \<Rightarrow> string \<Rightarrow> relay \<Rightarrow> relay" where
  \<comment> \<open>the exception handler of a worker: everyone is told to stop\<close>
  "fail_worker c e msg s =
     s\<lparr>ry_stop := True, ry_errors := ry_errors s @ [msg], ry_done := (ry_done s)(e := True),
       ry_queue := (\<lambda>i. if i < rc_edges c then ry_queue s i @ [None] else ry_queue s i)\<rparr>"

definition put :: "nat \<Rightarrow> file_item option \<Rightarrow> relay \<Rightarrow> relay" where
  "put e x s = s\<lparr>ry_queue := (ry_queue s)(e := ry_queue s e @ [x])\<rparr>"

definition set_file :: "nat \<Rightarrow> string \<Rightarrow> int option \<Rightarrow> relay \<Rightarrow> relay" where
  "set_file n rel v s = s\<lparr>ry_dir := (ry_dir s)(n := (ry_dir s n)(rel := v))\<rparr>"

definition copy_or_skip :: "relay_cfg \<Rightarrow> nat \<Rightarrow> file_item \<Rightarrow> relay \<Rightarrow> string + relay" where
  "copy_or_skip c e item s =
     (let rel = fi_relpath item
      in if ry_dir s e rel \<noteq> Some (fi_size item) then Inl (''source missing or wrong size: '' @ rel)
         else if ry_dir s (Suc e) rel = Some (fi_size item) then Inr s
         else case rc_copy_fault c e rel of Some msg \<Rightarrow> Inl msg | None \<Rightarrow> Inr (set_file (Suc e) rel (Some (fi_size item)) s))"

definition cleanup_transit :: "relay_cfg \<Rightarrow> nat \<Rightarrow> file_item \<Rightarrow> relay \<Rightarrow> string + relay" where
  "cleanup_transit c e item s =
     (let rel = fi_relpath item
      in if \<not> rc_cleanup c \<or> e = 0 then Inr s
         else if rc_keep c e rel \<or> \<not> endswith rel ''.safetensors'' then Inr s
         else case rc_remove_fault c e rel of Some msg \<Rightarrow> Inl msg | None \<Rightarrow> Inr (set_file e rel None s))"

definition forward_file :: "relay_cfg \<Rightarrow> nat \<Rightarrow> file_item \<Rightarrow> relay \<Rightarrow> relay" where
  "forward_file c e item s =
     (if Suc e < rc_edges c \<and> Suc e < rc_last c (fi_relpath item) then put (Suc e) (Some item) s else s)"

definition worker_turn :: "relay_cfg \<Rightarrow> nat \<Rightarrow> relay \<Rightarrow> relay" where
  \<comment> \<open>one pass of the loop of \<^verbatim>\<open>_edge_worker\<close> of edge \<open>e\<close>, whose queue is not empty\<close>
  "worker_turn c e s =
     (let s1 = s\<lparr>ry_queue := (ry_queue s)(e := tl (ry_queue s e))\<rparr>
      in case hd (ry_queue s e) of
           None \<Rightarrow> (let s2 = s1\<lparr>ry_done := (ry_done s1)(e := True)\<rparr> in if Suc e < rc_edges c then put (Suc e) None s2 else s2)
         | Some item \<Rightarrow>
             if ry_stop s then s1
             else
               (case copy_or_skip c e item s1 of
                  Inl msg \<Rightarrow> fail_worker c e msg s1
                | Inr s2 \<Rightarrow>
                    (case cleanup_transit c e item s2 of
                       Inl msg \<Rightarrow> fail_worker c e msg s2
                     | Inr s3 \<Rightarrow> forward_file c e item s3)))"

definition worker_setup :: "relay_cfg \<Rightarrow> nat \<Rightarrow> relay \<Rightarrow> relay" where
  \<comment> \<open>before the loop: find the rails of the edge and make the destination's directory\<close>
  "worker_setup c e s =
     (case rc_setup_fault c e of Some msg \<Rightarrow> fail_worker c e msg s | None \<Rightarrow> s\<lparr>ry_ready := (ry_ready s)(e := True)\<rparr>)"

inductive relay_step :: "relay_cfg \<Rightarrow> relay \<Rightarrow> relay \<Rightarrow> bool" for c where
  ready: "e < rc_edges c \<Longrightarrow> \<not> ry_done s e \<Longrightarrow> \<not> ry_ready s e \<Longrightarrow> relay_step c s (worker_setup c e s)"
| turn: "e < rc_edges c \<Longrightarrow> \<not> ry_done s e \<Longrightarrow> ry_ready s e \<Longrightarrow> ry_queue s e \<noteq> [] \<Longrightarrow> relay_step c s (worker_turn c e s)"

definition relay_config :: "waterfall_args \<Rightarrow> string list \<Rightarrow> keep_manifests \<Rightarrow> waterfall_plan \<Rightarrow> relay_cfg" where
  \<comment> \<open>remote commands that do not fail\<close>
  "relay_config a nodes keep plan =
     \<lparr>rc_edges = length nodes - 1,
      rc_last = (\<lambda>rel. case map_of (wp_last_needed plan) rel of None \<Rightarrow> 0 | Some i \<Rightarrow> i),
      rc_keep = (\<lambda>e rel. case map_of keep (nodes ! e) of None \<Rightarrow> False | Some ks \<Rightarrow> rel \<in> set ks),
      rc_cleanup = wa_cleanup a, rc_setup_fault = (\<lambda>_. None), rc_copy_fault = (\<lambda>_ _. None), rc_remove_fault = (\<lambda>_ _. None)\<rparr>"

definition relay_start :: "waterfall_plan \<Rightarrow> (nat \<Rightarrow> string \<Rightarrow> int option) \<Rightarrow> relay" where
  \<comment> \<open>the main thread has put the files of the first edge and the sentinel\<close>
  "relay_start plan dir =
     \<lparr>ry_dir = dir, ry_queue = (\<lambda>_. [])(0 := map Some (hd (wp_edge_files plan)) @ [None]), ry_ready = (\<lambda>_. False), ry_done = (\<lambda>_. False),
      ry_stop = False, ry_errors = []\<rparr>"

definition relay_result :: "relay \<Rightarrow> string + unit" where
  \<comment> \<open>after all threads have joined\<close>
  "relay_result s = (case ry_errors s of [] \<Rightarrow> Inr () | e # _ \<Rightarrow> Inl e)"

end
