(* ===== verification/Waterfall_Run.thy ===== *)
theory Waterfall_Run
  imports Waterfall
begin

text \<open>
  The relay of \<^verbatim>\<open>waterfall_copy.py\<close> as a whole: every schedule of the workers ends, none of them waits
  forever, and a relay without remote failures leaves on every node the files its manifest keeps.
\<close>

section \<open>What a turn does to the queues\<close>

lemma put_simps [simp]:
  "ry_dir (put e x s) = ry_dir s" "ry_done (put e x s) = ry_done s" "ry_stop (put e x s) = ry_stop s"
  "ry_errors (put e x s) = ry_errors s" "ry_ready (put e x s) = ry_ready s" "ry_queue (put e x s) = (ry_queue s)(e := ry_queue s e @ [x])"
  by (simp_all add: put_def)

lemma set_file_simps [simp]:
  "ry_done (set_file n r v s) = ry_done s" "ry_stop (set_file n r v s) = ry_stop s"
  "ry_errors (set_file n r v s) = ry_errors s" "ry_ready (set_file n r v s) = ry_ready s" "ry_queue (set_file n r v s) = ry_queue s"
  "ry_dir (set_file n r v s) n' r' = (if n' = n \<and> r' = r then v else ry_dir s n' r')"
  by (simp_all add: set_file_def)

lemma fail_worker_simps [simp]:
  "ry_done (fail_worker c e m s) = (ry_done s)(e := True)" "ry_stop (fail_worker c e m s)"
  "ry_queue (fail_worker c e m s) i = (if i < rc_edges c then ry_queue s i @ [None] else ry_queue s i)"
  "ry_errors (fail_worker c e m s) = ry_errors s @ [m]" "ry_ready (fail_worker c e m s) = ry_ready s"
  by (simp_all add: fail_worker_def)

lemma copy_or_skip_frame:
  "copy_or_skip c e item s = Inr t \<Longrightarrow> ry_done t = ry_done s \<and> ry_stop t = ry_stop s \<and> ry_queue t = ry_queue s \<and> ry_errors t = ry_errors s"
  by (auto simp: copy_or_skip_def Let_def split: if_splits option.splits)

lemma cleanup_frame:
  "cleanup_transit c e item s = Inr t \<Longrightarrow> ry_done t = ry_done s \<and> ry_stop t = ry_stop s \<and> ry_queue t = ry_queue s \<and> ry_errors t = ry_errors s"
  by (auto simp: cleanup_transit_def Let_def split: if_splits option.splits)

lemma worker_turn_ready [simp]: "ry_ready (worker_turn c e s) = ry_ready s"
  by (auto simp: worker_turn_def copy_or_skip_def cleanup_transit_def forward_file_def Let_def split: option.split sum.split)

text \<open>A turn takes one of four shapes: the worker stops, drops the file, fails, or hands it on.\<close>

lemma worker_turn_shapes:
  assumes "ry_queue s e = x # q"
  obtains (sentinel) "x = None" "ry_done (worker_turn c e s) = (ry_done s)(e := True)" "ry_stop (worker_turn c e s) = ry_stop s"
      "ry_queue (worker_turn c e s) = (let f = (ry_queue s)(e := q) in if Suc e < rc_edges c then f(Suc e := f (Suc e) @ [None]) else f)"
  | (dropped) item where "x = Some item" "ry_done (worker_turn c e s) = ry_done s" "ry_stop (worker_turn c e s)" "ry_stop s"
      "ry_queue (worker_turn c e s) = (ry_queue s)(e := q)"
  | (failed) item where "x = Some item" "ry_done (worker_turn c e s) = (ry_done s)(e := True)" "ry_stop (worker_turn c e s)"
      "ry_queue (worker_turn c e s) = (\<lambda>i. let f = (ry_queue s)(e := q) in if i < rc_edges c then f i @ [None] else f i)"
  | (handed) item where "x = Some item" "\<not> ry_stop s" "ry_done (worker_turn c e s) = ry_done s" "\<not> ry_stop (worker_turn c e s)"
      "ry_queue (worker_turn c e s) = (let f = (ry_queue s)(e := q) in
         if Suc e < rc_edges c \<and> Suc e < rc_last c (fi_relpath item) then f(Suc e := f (Suc e) @ [Some item]) else f)"
proof (cases x)
  case None
  then show thesis using assms by (intro sentinel) (auto simp: worker_turn_def Let_def)
next
  case (Some item)
  define s1 where "s1 = s\<lparr>ry_queue := (ry_queue s)(e := q)\<rparr>"
  have turn: "worker_turn c e s = (if ry_stop s then s1 else
      case copy_or_skip c e item s1 of Inl msg \<Rightarrow> fail_worker c e msg s1
      | Inr s2 \<Rightarrow> (case cleanup_transit c e item s2 of Inl msg \<Rightarrow> fail_worker c e msg s2 | Inr s3 \<Rightarrow> forward_file c e item s3))"
    using assms Some by (simp add: worker_turn_def s1_def [symmetric] Let_def)
  have s1 [simp]: "ry_done s1 = ry_done s" "ry_stop s1 = ry_stop s" "ry_queue s1 = (ry_queue s)(e := q)" by (simp_all add: s1_def)
  show thesis
  proof (cases "ry_stop s")
    case True
    then show thesis using Some by (intro dropped) (auto simp: turn)
  next
    case running: False
    show thesis
    proof (cases "copy_or_skip c e item s1")
      case (Inl m)
      then show thesis using Some running by (intro failed) (auto simp: turn Let_def fail_worker_def)
    next
      case (Inr s2)
      note s2 = copy_or_skip_frame [OF Inr]
      show thesis
      proof (cases "cleanup_transit c e item s2")
        case (Inl m)
        then show thesis using Some running Inr s2 by (intro failed) (auto simp: turn Let_def fail_worker_def)
      next
        case (Inr s3)
        note s3 = cleanup_frame [OF Inr]
        show thesis using Some running Inr \<open>copy_or_skip c e item s1 = Inr s2\<close> s2 s3
          by (intro handed) (auto simp: turn Let_def forward_file_def)
      qed
    qed
  qed
qed

section \<open>Every run ends\<close>

definition at_work :: "relay_cfg \<Rightarrow> relay \<Rightarrow> nat" where
  "at_work c s = card {e. e < rc_edges c \<and> \<not> ry_done s e}"

definition setups :: "relay_cfg \<Rightarrow> relay \<Rightarrow> nat" where
  "setups c s = card {e. e < rc_edges c \<and> \<not> ry_ready s e}"

definition queued_work :: "relay_cfg \<Rightarrow> relay \<Rightarrow> nat" where
  "queued_work c s = (\<Sum>e<rc_edges c. length (ry_queue s e) * (rc_edges c - e))"

lemma at_work_finish:
  assumes "e < rc_edges c" and "\<not> ry_done s e" and "ry_done t = (ry_done s)(e := True)"
  shows "at_work c t < at_work c s"
proof -
  have "{i. i < rc_edges c \<and> \<not> ry_done t i} = {i. i < rc_edges c \<and> \<not> ry_done s i} - {e}" using assms by auto
  moreover have "card ({i. i < rc_edges c \<and> \<not> ry_done s i} - {e}) < card {i. i < rc_edges c \<and> \<not> ry_done s i}"
    using assms(1,2) by (intro card_Diff1_less) auto
  ultimately show ?thesis by (simp add: at_work_def)
qed

lemma setups_ready:
  assumes "e < rc_edges c" and "\<not> ry_ready s e" and "ry_ready t = (ry_ready s)(e := True)"
  shows "setups c t < setups c s"
proof -
  have "{i. i < rc_edges c \<and> \<not> ry_ready t i} = {i. i < rc_edges c \<and> \<not> ry_ready s i} - {e}" using assms by auto
  moreover have "card ({i. i < rc_edges c \<and> \<not> ry_ready s i} - {e}) < card {i. i < rc_edges c \<and> \<not> ry_ready s i}"
    using assms(1,2) by (intro card_Diff1_less) auto
  ultimately show ?thesis by (simp add: setups_def)
qed

lemma worker_setup_cases:
  obtains (failed) m where "rc_setup_fault c e = Some m" "worker_setup c e s = fail_worker c e m s"
  | (prepared) "rc_setup_fault c e = None" "worker_setup c e s = s\<lparr>ry_ready := (ry_ready s)(e := True)\<rparr>"
  by (cases "rc_setup_fault c e") (auto simp: worker_setup_def)

lemma sum_lessThan_update:
  fixes f :: "nat \<Rightarrow> nat"
  assumes "e < n" and "\<And>i. i < n \<Longrightarrow> i \<noteq> e \<Longrightarrow> g i = f i"
  shows "(\<Sum>i<n. g i) + f e = (\<Sum>i<n. f i) + g e"
proof -
  have "(\<Sum>i<n. g i) = g e + (\<Sum>i\<in>{..<n} - {e}. g i)" using assms by (simp add: sum.remove [of "{..<n}" e])
  moreover have "(\<Sum>i<n. f i) = f e + (\<Sum>i\<in>{..<n} - {e}. f i)" using assms by (simp add: sum.remove [of "{..<n}" e])
  moreover have "(\<Sum>i\<in>{..<n} - {e}. g i) = (\<Sum>i\<in>{..<n} - {e}. f i)" using assms by (intro sum.cong) auto
  ultimately show ?thesis by simp
qed

lemma queued_work_pop:
  assumes "e < rc_edges c" and "ry_queue s e = x # q" and "ry_queue t = (ry_queue s)(e := q)"
  shows "queued_work c t + (rc_edges c - e) = queued_work c s"
  using sum_lessThan_update [OF assms(1), of "\<lambda>i. length (ry_queue t i) * (rc_edges c - i)" "\<lambda>i. length (ry_queue s i) * (rc_edges c - i)"] assms
  by (simp add: queued_work_def)

lemma queued_work_put:
  assumes "e < rc_edges c" and "ry_queue t = (ry_queue s)(e := ry_queue s e @ [x])"
  shows "queued_work c t = queued_work c s + (rc_edges c - e)"
  using sum_lessThan_update [OF assms(1), of "\<lambda>i. length (ry_queue t i) * (rc_edges c - i)" "\<lambda>i. length (ry_queue s i) * (rc_edges c - i)"] assms
  by (simp add: queued_work_def)

lemma relay_step_decreases:
  assumes "relay_step c s t"
  shows "at_work c t < at_work c s \<or> at_work c t = at_work c s \<and>
    (setups c t < setups c s \<or> setups c t = setups c s \<and> queued_work c t < queued_work c s)"
  using assms
proof cases
  case (ready e)
  show ?thesis
  proof (cases rule: worker_setup_cases [of c e s])
    case (failed m)
    then show ?thesis using at_work_finish [OF ready(2,3)] ready by auto
  next
    case prepared
    then show ?thesis using setups_ready [OF ready(2,4)] ready by (simp add: at_work_def)
  qed
next
  case (turn e)
  then obtain x q where q: "ry_queue s e = x # q" by (cases "ry_queue s e") auto
  define u where "u = s\<lparr>ry_queue := (ry_queue s)(e := q)\<rparr>"
  have pop: "queued_work c u + (rc_edges c - e) = queued_work c s" by (rule queued_work_pop [OF turn(2) q]) (simp add: u_def)
  show ?thesis using q
  proof (cases rule: worker_turn_shapes [where c = c])
    case sentinel
    then show ?thesis using at_work_finish [OF turn(2,3)] turn by auto
  next
    case (dropped item)
    have "queued_work c t + (rc_edges c - e) = queued_work c s" using queued_work_pop [OF turn(2) q] dropped turn by auto
    then show ?thesis using dropped turn by (auto simp: at_work_def setups_def)
  next
    case (failed item)
    then show ?thesis using at_work_finish [OF turn(2,3)] turn by auto
  next
    case (handed item)
    have "queued_work c t < queued_work c s"
    proof (cases "Suc e < rc_edges c \<and> Suc e < rc_last c (fi_relpath item)")
      case True
      have "queued_work c t = queued_work c u + (rc_edges c - Suc e)"
        using True handed turn by (intro queued_work_put) (auto simp: u_def Let_def)
      moreover have "rc_edges c - Suc e < rc_edges c - e" using turn(2) by simp
      ultimately show ?thesis using pop by linarith
    next
      case False
      have "queued_work c t + (rc_edges c - e) = queued_work c s"
        using False handed turn by (intro queued_work_pop [OF turn(2) q]) (auto simp: Let_def)
      then show ?thesis using turn by simp
    qed
    then show ?thesis using handed turn by (simp add: at_work_def setups_def)
  qed
qed

lemma wf_relay_step: "wf {(t, s). relay_step c s t}"
  by (rule wf_subset [of "measures [at_work c, setups c, queued_work c]"]) (auto dest: relay_step_decreases)

text \<open>C32. However the workers are scheduled and whatever the remote commands answer, the relay ends: there is no infinite
  sequence of turns.\<close>
theorem relay_terminates: "wf {(t, s). relay_step c s t}"
  by (rule wf_relay_step)

section \<open>No worker waits forever\<close>

text \<open>A sentinel is on its way to every worker that is still at work: down the chain, or, after a failure, to all.\<close>

definition sentinel_coming :: "relay_cfg \<Rightarrow> relay \<Rightarrow> bool" where
  "sentinel_coming c s \<longleftrightarrow>
     (if ry_stop s then \<forall>e<rc_edges c. ry_done s e \<or> None \<in> set (ry_queue s e)
      else \<exists>d\<le>rc_edges c. \<forall>e<rc_edges c. ry_done s e = (e < d) \<and> count_list (ry_queue s e) None = (if e = d then 1 else 0))"

lemma sentinel_coming_stop:
  "ry_stop s \<Longrightarrow> sentinel_coming c s \<longleftrightarrow> (\<forall>e<rc_edges c. ry_done s e \<or> None \<in> set (ry_queue s e))"
  by (simp add: sentinel_coming_def)

lemma sentinel_coming_step:
  assumes "relay_step c s t" and inv: "sentinel_coming c s"
  shows "sentinel_coming c t"
  using assms(1)
proof cases
  case (ready e)
  show ?thesis
  proof (cases rule: worker_setup_cases [of c e s])
    case (failed m)
    then show ?thesis using ready by (auto simp: sentinel_coming_stop)
  next
    case prepared
    then show ?thesis using inv ready by (simp add: sentinel_coming_def)
  qed
next
  case (turn e)
  then obtain x q where q: "ry_queue s e = x # q" by (cases "ry_queue s e") auto
  show ?thesis using q
  proof (cases rule: worker_turn_shapes [where c = c])
    case sentinel
    show ?thesis
    proof (cases "ry_stop s")
      case True
      then show ?thesis using inv sentinel turn by (auto simp: sentinel_coming_stop Let_def)
    next
      case False
      then obtain d where d: "d \<le> rc_edges c" "\<And>i. i < rc_edges c \<Longrightarrow> ry_done s i = (i < d)"
          "\<And>i. i < rc_edges c \<Longrightarrow> count_list (ry_queue s i) None = (if i = d then 1 else 0)"
        using inv by (auto simp: sentinel_coming_def)
      have e: "e = d" and one: "count_list q None = 0" using d(3) [OF turn(2)] q sentinel by (auto split: if_splits)
      have "\<forall>i<rc_edges c. ry_done t i = (i < Suc e) \<and> count_list (ry_queue t i) None = (if i = Suc e then 1 else 0)"
        using d sentinel turn e one by (auto simp: Let_def less_Suc_eq)
      then show ?thesis using False sentinel turn unfolding sentinel_coming_def by (metis Suc_leI)
    qed
  next
    case (dropped item)
    then show ?thesis using inv q turn by (auto simp: sentinel_coming_stop)
  next
    case (failed item)
    then show ?thesis using turn by (auto simp: sentinel_coming_stop Let_def)
  next
    case (handed item)
    then have fin: "ry_done t = ry_done s" and run: "\<not> ry_stop t" "\<not> ry_stop s"
      and count: "\<And>i. count_list (ry_queue t i) None = count_list (ry_queue s i) None"
      using q turn by (auto simp: Let_def)
    then show ?thesis using inv by (simp add: sentinel_coming_def)
  qed
qed

lemma sentinel_coming_enables:
  assumes "sentinel_coming c s" and "e < rc_edges c" and "\<not> ry_done s e"
  shows "\<exists>t. relay_step c s t"
proof (cases "ry_stop s")
  case True
  then have "ry_queue s e \<noteq> []" using assms by (auto simp: sentinel_coming_stop)
  then show ?thesis using assms turn ready by blast
next
  case False
  then obtain d where d: "\<And>i. i < rc_edges c \<Longrightarrow> ry_done s i = (i < d)"
      "\<And>i. i < rc_edges c \<Longrightarrow> count_list (ry_queue s i) None = (if i = d then 1 else 0)"
    using assms by (auto simp: sentinel_coming_def)
  then have "d < rc_edges c" using assms by (metis linorder_not_less order_le_less_trans)
  then have "ry_queue s d \<noteq> []" "\<not> ry_done s d" using d by (force, simp)
  then show ?thesis using turn ready \<open>d < rc_edges c\<close> by blast
qed

lemma sentinel_coming_start:
  assumes "0 < rc_edges c"
  shows "sentinel_coming c (relay_start plan dir)"
proof -
  have "count_list (map Some xs) None = 0" for xs :: "file_item list" by (induction xs) auto
  then have "\<forall>e<rc_edges c. ry_done (relay_start plan dir) e = (e < 0) \<and>
      count_list (ry_queue (relay_start plan dir) e) None = (if e = 0 then 1 else 0)"
    by (simp add: relay_start_def)
  then show ?thesis unfolding sentinel_coming_def by (auto simp: relay_start_def)
qed

lemma sentinel_coming_reachable:
  assumes "(relay_step c)\<^sup>*\<^sup>* (relay_start plan dir) s" and "0 < rc_edges c"
  shows "sentinel_coming c s"
  using assms(1)
proof (induction rule: rtranclp_induct)
  case base
  show ?case by (rule sentinel_coming_start [OF assms(2)])
next
  case (step y z)
  then show ?case by (blast intro: sentinel_coming_step)
qed

definition all_joined :: "relay_cfg \<Rightarrow> relay \<Rightarrow> bool" where
  "all_joined c s \<longleftrightarrow> (\<forall>e<rc_edges c. ry_done s e)"

text \<open>C33. Whatever the remote commands answer, the main thread's joins return: from every state a relay can reach it
  can reach a state in which all workers have ended, and the only states from which it cannot go on are such.\<close>
theorem relay_never_hangs:
  assumes "(relay_step c)\<^sup>*\<^sup>* (relay_start plan dir) s" and "0 < rc_edges c"
  shows "(\<exists>t. (relay_step c)\<^sup>*\<^sup>* s t \<and> all_joined c t) \<and> ((\<nexists>t. relay_step c s t) \<longrightarrow> all_joined c s)"
proof -
  have stuck: "all_joined c u" if "sentinel_coming c u" "\<nexists>t. relay_step c u t" for u
    using sentinel_coming_enables that unfolding all_joined_def by blast
  have "sentinel_coming c s \<Longrightarrow> \<exists>t. (relay_step c)\<^sup>*\<^sup>* s t \<and> all_joined c t"
  proof (induction s rule: wf_induct_rule [OF wf_relay_step [of c]])
    case (1 u)
    show ?case
    proof (cases "\<exists>t. relay_step c u t")
      case True
      then obtain t where t: "relay_step c u t" by blast
      then obtain v where "(relay_step c)\<^sup>*\<^sup>* t v" "all_joined c v" using 1 sentinel_coming_step by blast
      then show ?thesis using t by (blast intro: converse_rtranclp_into_rtranclp)
    next
      case False
      then show ?thesis using stuck 1 by blast
    qed
  qed
  then show ?thesis using stuck sentinel_coming_reachable [OF assms] by blast
qed

section \<open>The files arrive\<close>

text \<open>A relay without remote failures.  \<open>xs\<close> are the files of the first edge, \<open>pos r\<close> the node the file \<open>r\<close> has
  come to and \<open>items e\<close> what waits at edge \<open>e\<close>.\<close>

definition no_faults :: "relay_cfg \<Rightarrow> bool" where
  "no_faults c \<longleftrightarrow> rc_setup_fault c = (\<lambda>_. None) \<and> rc_copy_fault c = (\<lambda>_ _. None) \<and> rc_remove_fault c = (\<lambda>_ _. None)"

definition has_come :: "relay_cfg \<Rightarrow> (nat \<Rightarrow> string \<Rightarrow> int option) \<Rightarrow> nat \<Rightarrow> file_item \<Rightarrow> bool" where
  \<comment> \<open>the file is at node \<open>p\<close>, and on the way there was left at the source and at every node that keeps it\<close>
  "has_come c dir p it \<longleftrightarrow> p \<le> rc_last c (fi_relpath it) \<and>
     (\<forall>n\<le>p. n = 0 \<or> rc_keep c n (fi_relpath it) \<or> n = p \<longrightarrow> dir n (fi_relpath it) = Some (fi_size it))"

definition relaying :: "relay_cfg \<Rightarrow> file_item list \<Rightarrow> (string \<Rightarrow> nat) \<Rightarrow> (nat \<Rightarrow> file_item list) \<Rightarrow> nat \<Rightarrow> relay \<Rightarrow> bool" where
  "relaying c xs pos items d s \<longleftrightarrow>
     \<not> ry_stop s \<and> ry_errors s = [] \<and> d \<le> rc_edges c \<and> (\<forall>e<rc_edges c. ry_done s e = (e < d)) \<and>
     (\<forall>e<rc_edges c. ry_queue s e = map Some (items e) @ (if e = d then [None] else [])) \<and>
     (\<forall>e<d. items e = []) \<and> (\<forall>e. distinct (items e)) \<and>
     (\<forall>e. set (items e) = {it \<in> set xs. pos (fi_relpath it) = e \<and> e < rc_last c (fi_relpath it)}) \<and>
     (\<forall>it\<in>set xs. has_come c (ry_dir s) (pos (fi_relpath it)) it)"

lemma has_come_cong:
  assumes "has_come c dir p it" and "\<And>n. dir' n (fi_relpath it) = dir n (fi_relpath it)"
  shows "has_come c dir' p it"
  using assms by (simp add: has_come_def)

lemma hand_on_ok:
  assumes nf: "no_faults c" and it: "has_come c (ry_dir s) e it" and on: "e < rc_last c (fi_relpath it)"
    and turn: "worker_turn c e s = u" and q: "ry_queue s e = Some it # q" and run: "\<not> ry_stop s" "ry_errors s = []"
  shows "has_come c (ry_dir u) (Suc e) it" and "ry_errors u = []" and "\<not> ry_stop u" and "ry_done u = ry_done s"
    and "ry_queue u = (let f = (ry_queue s)(e := q) in
         if Suc e < rc_edges c \<and> Suc e < rc_last c (fi_relpath it) then f(Suc e := f (Suc e) @ [Some it]) else f)"
    and "\<And>n r. r \<noteq> fi_relpath it \<Longrightarrow> ry_dir u n r = ry_dir s n r"
proof -
  define s1 where "s1 = s\<lparr>ry_queue := (ry_queue s)(e := q)\<rparr>"
  have s1 [simp]: "ry_done s1 = ry_done s" "ry_stop s1 = ry_stop s" "ry_queue s1 = (ry_queue s)(e := q)"
      "ry_dir s1 = ry_dir s" "ry_errors s1 = ry_errors s" by (simp_all add: s1_def)
  have here: "ry_dir s e (fi_relpath it) = Some (fi_size it)" using it unfolding has_come_def by blast
  define s2 where "s2 = (if ry_dir s (Suc e) (fi_relpath it) = Some (fi_size it) then s1
      else set_file (Suc e) (fi_relpath it) (Some (fi_size it)) s1)"
  have copy: "copy_or_skip c e it s1 = Inr s2" using here nf by (simp add: copy_or_skip_def s2_def no_faults_def)
  define gone where "gone \<longleftrightarrow> \<not> (\<not> rc_cleanup c \<or> e = 0 \<or> rc_keep c e (fi_relpath it) \<or> \<not> endswith (fi_relpath it) ''.safetensors'')"
  define s3 where "s3 = (if gone then set_file e (fi_relpath it) None s2 else s2)"
  have clean: "cleanup_transit c e it s2 = Inr s3" using nf by (auto simp: cleanup_transit_def s3_def gone_def no_faults_def Let_def)
  have u: "u = forward_file c e it s3"
    using turn q run copy clean by (simp add: worker_turn_def s1_def [symmetric] Let_def)
  have dir2: "ry_dir s2 n r = (if n = Suc e \<and> r = fi_relpath it then Some (fi_size it) else ry_dir s n r)" for n r
    by (auto simp: s2_def)
  have dir3: "ry_dir u n r = (if n = e \<and> r = fi_relpath it \<and> gone then None else ry_dir s2 n r)" for n r
    by (auto simp: u forward_file_def s3_def)
  have kept: "gone \<Longrightarrow> e \<noteq> 0 \<and> \<not> rc_keep c e (fi_relpath it)" by (auto simp: gone_def)
  show "has_come c (ry_dir u) (Suc e) it"
    unfolding has_come_def
  proof (intro conjI allI impI)
    show "Suc e \<le> rc_last c (fi_relpath it)" using on by simp
    fix n assume n: "n \<le> Suc e" "n = 0 \<or> rc_keep c n (fi_relpath it) \<or> n = Suc e"
    show "ry_dir u n (fi_relpath it) = Some (fi_size it)"
    proof (cases "n = Suc e")
      case True
      then show ?thesis by (simp add: dir3 dir2)
    next
      case False
      then have "ry_dir s n (fi_relpath it) = Some (fi_size it)" using it n by (auto simp: has_come_def)
      then show ?thesis using False n kept by (auto simp: dir3 dir2)
    qed
  qed
  show "ry_errors u = []" "\<not> ry_stop u" "ry_done u = ry_done s"
      "ry_queue u = (let f = (ry_queue s)(e := q) in
         if Suc e < rc_edges c \<and> Suc e < rc_last c (fi_relpath it) then f(Suc e := f (Suc e) @ [Some it]) else f)"
    using run by (auto simp: u forward_file_def s3_def s2_def Let_def)
  show "\<And>n r. r \<noteq> fi_relpath it \<Longrightarrow> ry_dir u n r = ry_dir s n r" by (simp add: dir3 dir2)
qed

lemma relaying_step:
  assumes "relay_step c s t" and inv: "relaying c xs pos items d s" and nf: "no_faults c" and dist: "distinct (map fi_relpath xs)"
  shows "\<exists>pos items d. relaying c xs pos items d t"
  using assms(1)
proof cases
  case (ready e)
  then have "t = s\<lparr>ry_ready := (ry_ready s)(e := True)\<rparr>" using nf by (simp add: worker_setup_def no_faults_def)
  then have "relaying c xs pos items d t" using inv by (simp add: relaying_def)
  then show ?thesis by blast
next
  case (turn e)
  have inv': "\<not> ry_stop s" "ry_errors s = []" "d \<le> rc_edges c" "\<And>i. i < rc_edges c \<Longrightarrow> ry_done s i = (i < d)"
      "\<And>i. i < rc_edges c \<Longrightarrow> ry_queue s i = map Some (items i) @ (if i = d then [None] else [])"
      "\<And>i. i < d \<Longrightarrow> items i = []" "\<And>i. distinct (items i)"
      "\<And>i. set (items i) = {it \<in> set xs. pos (fi_relpath it) = i \<and> i < rc_last c (fi_relpath it)}"
      "\<And>it. it \<in> set xs \<Longrightarrow> has_come c (ry_dir s) (pos (fi_relpath it)) it"
    using inv by (auto simp: relaying_def)
  show ?thesis
  proof (cases "items e")
    case Nil
    then have e: "e = d" and q: "ry_queue s e = None # []" using inv'(5) [OF turn(2)] turn(5) by (auto split: if_splits)
    have t: "t = (let s2 = s\<lparr>ry_queue := (ry_queue s)(e := []), ry_done := (ry_done s)(e := True)\<rparr> in if Suc e < rc_edges c then put (Suc e) None s2 else s2)"
      using turn(1) q by (simp add: worker_turn_def Let_def)
    have "relaying c xs pos items (Suc d) t"
      using inv' turn(2) Nil e unfolding relaying_def t by (auto simp: Let_def less_Suc_eq)
    then show ?thesis by blast
  next
    case (Cons it its)
    then have q: "ry_queue s e = Some it # (map Some its @ (if e = d then [None] else []))" using inv'(5) [OF turn(2)] by simp
    have it: "it \<in> set xs" "pos (fi_relpath it) = e" "e < rc_last c (fi_relpath it)" using inv'(8) [of e] Cons by auto
    note h = hand_on_ok [OF nf inv'(9) [OF it(1), unfolded it(2)] it(3) turn(1) [symmetric] q inv'(1,2)]
    have same: "\<And>j. j \<in> set xs \<Longrightarrow> fi_relpath j = fi_relpath it \<Longrightarrow> j = it" using dist it(1) by (meson distinct_map inj_onD)
    define on where "on = (Suc e < rc_last c (fi_relpath it))"
    define items' where "items' = (let f = items(e := its) in if on then f(Suc e := f (Suc e) @ [it]) else f)"
    define pos' where "pos' = pos(fi_relpath it := Suc e)"
    have "e \<ge> d" using inv'(4) [OF turn(2)] turn(3) by auto
    have fresh: "it \<notin> set its" "it \<notin> set (items (Suc e))" using inv'(7) [of e] inv'(8) [of "Suc e"] Cons it by auto
    have "relaying c xs pos' items' d t"
      unfolding relaying_def
    proof (intro conjI allI impI ballI)
      show "\<not> ry_stop t" "ry_errors t = []" "d \<le> rc_edges c" using h inv' by auto
      show "\<And>i. i < rc_edges c \<Longrightarrow> ry_done t i = (i < d)" using h inv' by auto
      show "ry_queue t i = map Some (items' i) @ (if i = d then [None] else [])" if i: "i < rc_edges c" for i
        using h(5) inv'(5) [OF i] q \<open>e \<ge> d\<close> i by (auto simp: items'_def on_def Let_def)
      show "\<And>i. i < d \<Longrightarrow> items' i = []" using inv'(6) \<open>e \<ge> d\<close> by (auto simp: items'_def Let_def)
      show "distinct (items' i)" for i using inv'(7) [of i] inv'(7) [of e] Cons fresh by (auto simp: items'_def Let_def)
      show "set (items' i) = {j \<in> set xs. pos' (fi_relpath j) = i \<and> i < rc_last c (fi_relpath j)}" for i
      proof -
        have "set its = {j \<in> set xs. pos (fi_relpath j) = e \<and> e < rc_last c (fi_relpath j)} - {it}"
          using inv'(8) [of e] Cons fresh by auto
        then show ?thesis using inv'(8) [of i] it same by (auto simp: items'_def pos'_def on_def Let_def)
      qed
      show "has_come c (ry_dir t) (pos' (fi_relpath j)) j" if j: "j \<in> set xs" for j
      proof (cases "fi_relpath j = fi_relpath it")
        case True
        then show ?thesis using same [OF j] h(1) by (simp add: pos'_def)
      next
        case False
        then show ?thesis using has_come_cong [OF inv'(9) [OF j]] h(6) by (simp add: pos'_def)
      qed
    qed
    then show ?thesis by blast
  qed
qed

section \<open>From the plan to the relay\<close>

definition last_node :: "string list \<Rightarrow> keep_manifests \<Rightarrow> string \<Rightarrow> nat" where
  "last_node nodes keep rel = (case needed_indices nodes keep rel of Inl _ \<Rightarrow> 0 | Inr is \<Rightarrow> if is = [] then 0 else Max (set is))"

lemma needed_indices_set:
  assumes "needed_indices nodes keep rel = Inr is"
  shows "set is = {i. i < length nodes \<and> (\<exists>ks. map_of keep (nodes ! i) = Some ks \<and> rel \<in> set ks)}"
proof -
  define f where "f = (\<lambda>(i :: nat, node). case map_of keep node of None \<Rightarrow> Inl (KeyError node) | Some ks \<Rightarrow> Inr (if rel \<in> set ks then [i] else []))"
  obtain iss where iss: "mapE f (List.enumerate 0 nodes) = Inr iss" "is = concat iss"
    using assms by (auto simp: needed_indices_def f_def bindE_eq_Inr)
  then have all: "list_all2 (\<lambda>x y. f x = Inr y) (List.enumerate 0 nodes) iss" by (simp add: mapE_Inr_list_all2)
  have len: "length iss = length nodes" using list_all2_lengthD [OF all] by simp
  have nth: "set (iss ! i) = (if \<exists>ks. map_of keep (nodes ! i) = Some ks \<and> rel \<in> set ks then {i} else {})" if i: "i < length nodes" for i
  proof -
    have "f (i, nodes ! i) = Inr (iss ! i)" using all i by (auto simp: list_all2_conv_all_nth nth_enumerate_eq)
    then show ?thesis by (cases "map_of keep (nodes ! i)") (auto simp: f_def split: if_splits dest!: sym [of "[i]"])
  qed
  have "set is = (\<Union>i<length nodes. set (iss ! i))" using len by (auto simp: iss(2) set_conv_nth [of iss])
  then show ?thesis using nth by (auto split: if_splits)
qed

lemma plan_file_step:
  assumes "plan_file nodes keep p it = Inr p'"
  shows "map_of (wp_last_needed p') r = (if r = fi_relpath it \<and> needed_indices nodes keep r \<noteq> Inr [] then Some (last_node nodes keep r) else map_of (wp_last_needed p) r)"
    and "wp_edge_files p \<noteq> [] \<Longrightarrow> wp_edge_files p' \<noteq> [] \<and>
      hd (wp_edge_files p') = hd (wp_edge_files p) @ (if 0 < last_node nodes keep (fi_relpath it) then [it] else [])"
    and "\<exists>is. needed_indices nodes keep (fi_relpath it) = Inr is"
proof -
  obtain "is" where i: "needed_indices nodes keep (fi_relpath it) = Inr is"
    using assms by (auto simp: plan_file_def bindE_eq_Inr)
  then have step: "p' = (if is = [] then p else if Max (set is) = 0
      then p\<lparr>wp_last_needed := dset (fi_relpath it) 0 (wp_last_needed p)\<rparr>
      else p\<lparr>wp_last_needed := dset (fi_relpath it) (Max (set is)) (wp_last_needed p), wp_transferable := wp_transferable p @ [it],
             wp_edge_files := add_to_edges it (Max (set is)) (wp_edge_files p)\<rparr>)"
    using assms by (simp add: plan_file_def Let_def split: if_splits)
  have last: "last_node nodes keep (fi_relpath it) = (if is = [] then 0 else Max (set is))" using i by (simp add: last_node_def)
  show "map_of (wp_last_needed p') r = (if r = fi_relpath it \<and> needed_indices nodes keep r \<noteq> Inr [] then Some (last_node nodes keep r) else map_of (wp_last_needed p) r)"
    using i last by (auto simp: step)
  show "wp_edge_files p' \<noteq> [] \<and> hd (wp_edge_files p') = hd (wp_edge_files p) @ (if 0 < last_node nodes keep (fi_relpath it) then [it] else [])"
    if "wp_edge_files p \<noteq> []"
    using that by (cases "wp_edge_files p") (auto simp: step last add_to_edges_def)
  show "\<exists>is. needed_indices nodes keep (fi_relpath it) = Inr is" using i by blast
qed

lemma plan_fold:
  assumes "foldE (plan_file nodes keep) p fs = Inr p'"
  shows "map_of (wp_last_needed p') r = (if r \<in> fi_relpath ` set fs \<and> needed_indices nodes keep r \<noteq> Inr [] then Some (last_node nodes keep r) else map_of (wp_last_needed p) r)"
    and "wp_edge_files p \<noteq> [] \<Longrightarrow> hd (wp_edge_files p') = hd (wp_edge_files p) @ filter (\<lambda>it. 0 < last_node nodes keep (fi_relpath it)) fs"
    and "\<forall>it\<in>set fs. \<exists>is. needed_indices nodes keep (fi_relpath it) = Inr is"
proof -
  have "map_of (wp_last_needed p') r = (if r \<in> fi_relpath ` set fs \<and> needed_indices nodes keep r \<noteq> Inr [] then Some (last_node nodes keep r) else map_of (wp_last_needed p) r) \<and>
    (wp_edge_files p \<noteq> [] \<longrightarrow> hd (wp_edge_files p') = hd (wp_edge_files p) @ filter (\<lambda>it. 0 < last_node nodes keep (fi_relpath it)) fs) \<and>
    (\<forall>it\<in>set fs. \<exists>is. needed_indices nodes keep (fi_relpath it) = Inr is)"
    using assms
  proof (induction fs arbitrary: p)
    case (Cons it fs)
    then obtain q where q: "plan_file nodes keep p it = Inr q" "foldE (plan_file nodes keep) q fs = Inr p'" by (auto simp: bindE_eq_Inr)
    note step = plan_file_step [OF q(1)]
    show ?case using Cons.IH [OF q(2)] step(1) [of r] step(2,3) by auto
  qed simp
  then show "map_of (wp_last_needed p') r = (if r \<in> fi_relpath ` set fs \<and> needed_indices nodes keep r \<noteq> Inr [] then Some (last_node nodes keep r) else map_of (wp_last_needed p) r)"
    and "wp_edge_files p \<noteq> [] \<Longrightarrow> hd (wp_edge_files p') = hd (wp_edge_files p) @ filter (\<lambda>it. 0 < last_node nodes keep (fi_relpath it)) fs"
    and "\<forall>it\<in>set fs. \<exists>is. needed_indices nodes keep (fi_relpath it) = Inr is" by blast+
qed

lemma plan_facts:
  assumes plan: "build_waterfall_plan files nodes keep = Inr plan" and two: "2 \<le> length nodes"
  shows "hd (wp_edge_files plan) = filter (\<lambda>it. 0 < last_node nodes keep (fi_relpath it)) files"
    and "f \<in> set files \<Longrightarrow> rc_last (relay_config a nodes keep plan) (fi_relpath f) = last_node nodes keep (fi_relpath f)"
    and "f \<in> set files \<Longrightarrow> n < length nodes \<Longrightarrow> map_of keep (nodes ! n) = Some ks \<Longrightarrow> fi_relpath f \<in> set ks \<Longrightarrow> n \<le> last_node nodes keep (fi_relpath f)"
    and "last_node nodes keep r \<le> length nodes - 1"
proof -
  let ?p = "\<lparr>wp_transferable = [], wp_last_needed = [], wp_edge_files = replicate (length nodes - 1) []\<rparr> :: waterfall_plan"
  have fold: "foldE (plan_file nodes keep) ?p files = Inr plan"
    using plan by (auto simp: build_waterfall_plan_def Let_def split: if_splits)
  show "hd (wp_edge_files plan) = filter (\<lambda>it. 0 < last_node nodes keep (fi_relpath it)) files"
    using plan_fold(2) [OF fold] two by simp
  show "rc_last (relay_config a nodes keep plan) (fi_relpath f) = last_node nodes keep (fi_relpath f)" if "f \<in> set files"
    using plan_fold(1) [OF fold] that by (auto simp: relay_config_def last_node_def)
  show "n \<le> last_node nodes keep (fi_relpath f)"
    if f: "f \<in> set files" "n < length nodes" "map_of keep (nodes ! n) = Some ks" "fi_relpath f \<in> set ks"
  proof -
    obtain "is" where i: "needed_indices nodes keep (fi_relpath f) = Inr is" using plan_fold(3) [OF fold] f by blast
    then have "n \<in> set is" using f by (simp add: needed_indices_set [OF i])
    then show ?thesis using i by (auto simp: last_node_def)
  qed
  show "last_node nodes keep r \<le> length nodes - 1"
  proof (cases "needed_indices nodes keep r")
    case (Inr "is")
    then have "i \<le> length nodes - 1" if "i \<in> set is" for i using that two by (auto simp: needed_indices_set [OF Inr])
    then show ?thesis using Inr by (auto simp: last_node_def)
  qed (simp add: last_node_def)
qed

text \<open>C31. A relay whose remote commands do not fail, run to its end in any order of the workers' turns, has no errors
  and leaves on every node every file that the node's manifest keeps, whole; the source had the files of the plan
  to begin with.\<close>
theorem waterfall_delivers:
  assumes plan: "build_waterfall_plan files nodes keep = Inr plan" and two: "2 \<le> length nodes"
    and names: "distinct (map fi_relpath files)" and source: "\<forall>f\<in>set files. dir 0 (fi_relpath f) = Some (fi_size f)"
    and run: "(relay_step (relay_config a nodes keep plan))\<^sup>*\<^sup>* (relay_start plan dir) s"
    and ended: "all_joined (relay_config a nodes keep plan) s"
  shows "relay_result s = Inr () \<and>
    (\<forall>n<length nodes. \<forall>f\<in>set files. \<forall>ks. map_of keep (nodes ! n) = Some ks \<and> fi_relpath f \<in> set ks \<longrightarrow>
       ry_dir s n (fi_relpath f) = Some (fi_size f))"
proof -
  let ?c = "relay_config a nodes keep plan"
  note pf = plan_facts [OF plan two]
  have nf: "no_faults ?c" by (simp add: no_faults_def relay_config_def)
  have E: "rc_edges ?c = length nodes - 1" by (simp add: relay_config_def)
  have "relaying ?c files (\<lambda>_. 0) (\<lambda>e. if e = 0 then hd (wp_edge_files plan) else []) 0 (relay_start plan dir)"
    using source names pf(2) [where a = a]
    by (auto simp: relaying_def relay_start_def has_come_def pf(1) distinct_map)
  with run have "\<exists>pos items d. relaying ?c files pos items d s"
  proof (induction rule: rtranclp_induct)
    case (step y z)
    then show ?case using relaying_step [OF step(2) _ nf names] by blast
  qed blast
  then obtain pos items d where inv: "relaying ?c files pos items d s" by blast
  have "d = rc_edges ?c"
    using inv ended unfolding relaying_def all_joined_def by (metis nless_le)
  then have empty: "items e = []" if "e < rc_edges ?c" for e using inv that by (simp add: relaying_def)
  have "ry_dir s n (fi_relpath f) = Some (fi_size f)"
    if f: "n < length nodes" "f \<in> set files" "map_of keep (nodes ! n) = Some ks" "fi_relpath f \<in> set ks" for n f ks
  proof -
    have come: "has_come ?c (ry_dir s) (pos (fi_relpath f)) f" using inv f by (simp add: relaying_def)
    have "pos (fi_relpath f) = rc_last ?c (fi_relpath f)"
    proof (rule ccontr)
      assume "pos (fi_relpath f) \<noteq> rc_last ?c (fi_relpath f)"
      then have less: "pos (fi_relpath f) < rc_last ?c (fi_relpath f)" using come by (auto simp: has_come_def)
      then have "f \<in> set (items (pos (fi_relpath f)))" using inv f by (simp add: relaying_def)
      moreover have "pos (fi_relpath f) < rc_edges ?c" using less pf(2) [OF f(2), where a = a] pf(4) [of "fi_relpath f"] E by simp
      ultimately show False using empty by simp
    qed
    then have "n \<le> pos (fi_relpath f)" using pf(2) [OF f(2), where a = a] pf(3) [OF f(2,1,3,4)] by simp
    moreover have "rc_keep ?c n (fi_relpath f)" using f by (simp add: relay_config_def)
    ultimately show ?thesis using come by (simp add: has_come_def)
  qed
  moreover have "relay_result s = Inr ()" using inv by (simp add: relaying_def relay_result_def)
  ultimately show ?thesis by blast
qed

section \<open>A relay of one file over one edge\<close>

definition one_file :: file_item where
  "one_file = \<lparr>fi_relpath = ''x'', fi_size = 3\<rparr>"

definition one_edge_args :: waterfall_args where
  "one_edge_args = \<lparr>wa_source_node = ''a'', wa_source_path = ''/m'', wa_path_template = ''/m'', wa_port_base = 1, wa_port_stride = 9,
     wa_stripes = 8, wa_threshold = 0, wa_nc_timeout = 1, wa_cleanup = True\<rparr>"

definition one_edge_keep :: keep_manifests where
  "one_edge_keep = [(''a'', []), (''b'', [''x''])]"

definition one_edge_plan :: waterfall_plan where
  "one_edge_plan = \<lparr>wp_transferable = [one_file], wp_last_needed = [(''x'', 1)], wp_edge_files = [[one_file]]\<rparr>"

definition one_edge_end :: relay where
  "one_edge_end = worker_turn (relay_config one_edge_args [''a'', ''b''] one_edge_keep one_edge_plan) 0
     (worker_turn (relay_config one_edge_args [''a'', ''b''] one_edge_keep one_edge_plan) 0
       (worker_setup (relay_config one_edge_args [''a'', ''b''] one_edge_keep one_edge_plan) 0
         (relay_start one_edge_plan (\<lambda>n r. if n = 0 \<and> r = ''x'' then Some 3 else None))))"

lemma one_edge_plan_built: "build_waterfall_plan [one_file] [''a'', ''b''] one_edge_keep = Inr one_edge_plan"
  by (simp add: build_waterfall_plan_def unknown_keeps_def one_edge_keep_def one_edge_plan_def one_file_def plan_file_def
      needed_indices_def add_to_edges_def)

lemmas one_edge_defs = worker_setup_def one_edge_plan_def one_file_def one_edge_args_def one_edge_keep_def

lemma one_edge_run:
  "(relay_step (relay_config one_edge_args [''a'', ''b''] one_edge_keep one_edge_plan))\<^sup>*\<^sup>*
     (relay_start one_edge_plan (\<lambda>n r. if n = 0 \<and> r = ''x'' then Some 3 else None)) one_edge_end"
proof -
  let ?c = "relay_config one_edge_args [''a'', ''b''] one_edge_keep one_edge_plan"
  let ?s = "relay_start one_edge_plan (\<lambda>n r. if n = 0 \<and> r = ''x'' then Some 3 else None)"
  let ?r = "worker_setup ?c 0 ?s"
  have "relay_step ?c ?s ?r" by (rule ready) (simp_all add: relay_config_def relay_start_def)
  moreover have "relay_step ?c ?r (worker_turn ?c 0 ?r)"
    by (rule turn) (simp_all add: relay_config_def relay_start_def worker_setup_def)
  moreover have "relay_step ?c (worker_turn ?c 0 ?r) one_edge_end"
    unfolding one_edge_end_def
    by (rule turn) (simp_all add: relay_config_def relay_start_def worker_turn_def copy_or_skip_def cleanup_transit_def Let_def
        forward_file_def one_edge_defs)
  ultimately show ?thesis by (meson converse_rtranclp_into_rtranclp rtranclp.rtrancl_refl)
qed

lemma one_edge_joined: "all_joined (relay_config one_edge_args [''a'', ''b''] one_edge_keep one_edge_plan) one_edge_end"
  by (simp add: all_joined_def one_edge_end_def relay_config_def relay_start_def worker_turn_def copy_or_skip_def cleanup_transit_def Let_def
      forward_file_def one_edge_defs)

lemma waterfall_delivers_witness: "relay_result one_edge_end = Inr () \<and> ry_dir one_edge_end 1 ''x'' = Some 3"
  using waterfall_delivers [OF one_edge_plan_built _ _ _ one_edge_run one_edge_joined]
  by (force simp: one_edge_keep_def one_file_def nth_Cons split: nat.splits)

lemma relay_never_hangs_witness:
  "\<exists>t. (relay_step (relay_config one_edge_args [''a'', ''b''] one_edge_keep one_edge_plan))\<^sup>*\<^sup>* one_edge_end t \<and>
     all_joined (relay_config one_edge_args [''a'', ''b''] one_edge_keep one_edge_plan) t"
  using relay_never_hangs [OF one_edge_run] by (simp add: relay_config_def)

end
