(* ===== verification/Tool_Calls.thy ===== *)
theory Tool_Calls
  imports Json_Parse Py_Text
begin

text \<open>
  \<^verbatim>\<open>ds4_agent/tool_calls.py\<close>: the tool calls in an assistant message, in OpenAI form and in
  the model's own markup, and from \<^verbatim>\<open>encoding_dsv4.py\<close> the text that writes calls in that
  markup.  The three regular expressions are scanners: a tag, its attributes, and the text up to the first
  closing tag; \<open>scan_all\<close> is \<^verbatim>\<open>findall\<close>.
\<close>

record tool_call =
  tc_call_id :: string
  tc_tool_id :: string
  tc_arguments :: json
  tc_source :: string

section \<open>Calls in OpenAI form\<close>

definition openai_arguments :: "json \<Rightarrow> json" where
  "openai_arguments raw =
     (case raw of
        JStr s \<Rightarrow> (case json_loads (if s = '''' then ''{}'' else s) of None \<Rightarrow> JObj [(''_raw_arguments'', raw)] | Some v \<Rightarrow> v)
      | JObj d \<Rightarrow> raw
      | _ \<Rightarrow> JObj [(''_raw_arguments'', raw)])"

definition openai_call :: "nat \<times> json \<Rightarrow> tool_call list" where
  "openai_call = (\<lambda>(index, raw_call).
     (case raw_call of
        JObj call \<Rightarrow>
          (let fn = obj_or_empty (dget_or call ''function'' (JObj []));
               name = dget fn ''name'';
               raw_arguments = dget_or fn ''arguments'' (JStr ''{}'')
           in if \<not> truthy name then []
              else [\<lparr>tc_call_id = py_str (por (dget call ''id'') (JStr (''call_'' @ show_nat index))), tc_tool_id = py_str name,
                     tc_arguments = openai_arguments raw_arguments, tc_source = ''openai''\<rparr>])
      | _ \<Rightarrow> []))"

definition extract_openai_tool_calls :: "pydict \<Rightarrow> (tool_call list) result" where
  "extract_openai_tool_calls message =
     bindE (py_iter (por (dget message ''tool_calls'') (JArr []))) (\<lambda>raw_calls.
       Inr (concat (map openai_call (List.enumerate 0 raw_calls))))"

section \<open>Calls in the model's markup\<close>

fun until :: "string \<Rightarrow> string \<Rightarrow> (string \<times> string) option" where
  \<comment> \<open>the text before the first \<open>pat\<close> and the text after it\<close>
  "until pat [] = (if pat = [] then Some ([], []) else None)"
| "until pat (c # s) =
     (case drop_prefix pat (c # s) of
        Some r \<Rightarrow> Some ([], r)
      | None \<Rightarrow> map_option (\<lambda>(b, a). (c # b, a)) (until pat s))"

function scan_all :: "(string \<Rightarrow> ('a \<times> string) option) \<Rightarrow> string \<Rightarrow> 'a list" where
  \<comment> \<open>all matches of \<open>m\<close> from left to right; a match takes at least one character\<close>
  "scan_all m [] = []"
| "scan_all m (c # s) =
     (case m (c # s) of
        Some (x, r) \<Rightarrow> if length r \<le> length s then x # scan_all m r else []
      | None \<Rightarrow> scan_all m s)"
  by pat_completeness auto
termination by (relation "measure (\<lambda>(m, s). length s)") auto

definition dsml_token :: string where
  \<comment> \<open>the word between two full-width bars\<close>
  "dsml_token = [CHR 0xEF, CHR 0xBD, CHR 0x9C] @ ''DSML'' @ [CHR 0xEF, CHR 0xBD, CHR 0x9C]"

definition open_tag :: "string \<Rightarrow> string" where
  "open_tag name = ''<'' @ dsml_token @ name"

definition close_tag :: "string \<Rightarrow> string" where
  "close_tag name = ''</'' @ dsml_token @ name @ ''>''"

definition match_block :: "string \<Rightarrow> (string \<times> string) option" where
  "match_block s =
     (case drop_prefix (open_tag ''tool_calls>'') s of None \<Rightarrow> None | Some r \<Rightarrow> until (close_tag ''tool_calls'') r)"

definition match_name :: "string \<Rightarrow> (string \<times> string) option" where
  \<comment> \<open>\<^verbatim>\<open>\s+name="([^"]+)"\<close>\<close>
  "match_name s =
     (if s = [] \<or> \<not> is_space (hd s) then None
      else
        (case drop_prefix (''name='' @ [CHR 0x22]) (dropWhile is_space s) of
           None \<Rightarrow> None
         | Some r \<Rightarrow>
             (let name = takeWhile (\<lambda>c. c \<noteq> CHR 0x22) r; r' = dropWhile (\<lambda>c. c \<noteq> CHR 0x22) r
              in if name = [] \<or> r' = [] then None else Some (name, tl r'))))"

definition match_invoke :: "string \<Rightarrow> ((string \<times> string) \<times> string) option" where
  "match_invoke s =
     (case drop_prefix (open_tag ''invoke'') s of
        None \<Rightarrow> None
      | Some r \<Rightarrow>
          (case match_name r of
             None \<Rightarrow> None
           | Some (name, r1) \<Rightarrow>
               (case dropWhile is_space r1 of
                  [] \<Rightarrow> None
                | c # r2 \<Rightarrow>
                    if c \<noteq> CHR ''>'' then None
                    else map_option (\<lambda>(body, r3). ((name, body), r3)) (until (close_tag ''invoke'') r2))))"

definition match_param :: "string \<Rightarrow> ((string \<times> string) \<times> string) option" where
  "match_param s =
     (case drop_prefix (open_tag ''parameter'') s of
        None \<Rightarrow> None
      | Some r \<Rightarrow>
          (case match_name r of
             None \<Rightarrow> None
           | Some (name, r1) \<Rightarrow>
               (case dropWhile (\<lambda>c. c \<noteq> CHR ''>'') r1 of
                  [] \<Rightarrow> None
                | c # r2 \<Rightarrow> map_option (\<lambda>(v, r3). ((name, v), r3)) (until (close_tag ''parameter'') r2))))"

definition dsml_arguments :: "string \<Rightarrow> pydict" where
  "dsml_arguments body = foldl (\<lambda>d (name, v). dset name (JStr (strip v)) d) [] (scan_all match_param body)"

definition extract_dsml_tool_calls :: "string \<Rightarrow> tool_call list" where
  "extract_dsml_tool_calls content =
     map (\<lambda>(call_index, tool_name, body).
            \<lparr>tc_call_id = ''dsml_'' @ show_nat call_index, tc_tool_id = tool_name, tc_arguments = JObj (dsml_arguments body), tc_source = ''dsml''\<rparr>)
       (List.enumerate 0 (concat (map (scan_all match_invoke) (scan_all match_block content))))"

definition extract_tool_calls :: "pydict \<Rightarrow> (tool_call list) result" where
  "extract_tool_calls message =
     bindE (extract_openai_tool_calls message) (\<lambda>calls.
       Inr (calls @ (case dget message ''content'' of JStr content \<Rightarrow> extract_dsml_tool_calls content | _ \<Rightarrow> [])))"

section \<open>Writing calls in the markup\<close>

definition plain_escape :: "char \<Rightarrow> string" where
  "plain_escape c =
     (if c = CHR 0x22 then [CHR 0x5C, CHR 0x22]
      else if c = CHR 0x5C then [CHR 0x5C, CHR 0x5C]
      else if c = CHR 0x0A then [CHR 0x5C, CHR ''n'']
      else if c = CHR 0x0D then [CHR 0x5C, CHR ''r'']
      else if c = CHR 0x09 then [CHR 0x5C, CHR ''t'']
      else if c = CHR 0x0C then [CHR 0x5C, CHR ''f'']
      else if c = CHR 0x08 then [CHR 0x5C, CHR ''b'']
      else if (of_char c :: nat) < 32 then u_escape (of_char c)
      else [c])"

definition plain_str :: "string \<Rightarrow> string" where
  "plain_str s = CHR 0x22 # concat (map plain_escape s) @ [CHR 0x22]"

fun to_json :: "json \<Rightarrow> string" where
  \<comment> \<open>\<^verbatim>\<open>json.dumps(v, ensure_ascii=False)\<close>\<close>
  "to_json JNull = ''null''"
| "to_json (JBool b) = (if b then ''true'' else ''false'')"
| "to_json (JInt i) = show_int i"
| "to_json (JFloat r) = show_float r"
| "to_json (JStr s) = plain_str s"
| "to_json (JArr xs) = ''['' @ joinwith '', '' (map to_json xs) @ '']''"
| "to_json (JObj d) = ''{'' @ joinwith '', '' (map (\<lambda>(k, v). plain_str k @ '': '' @ to_json v) d) @ ''}''"

definition param_text :: "json \<Rightarrow> string" where
  "param_text v = (case v of JStr s \<Rightarrow> s | _ \<Rightarrow> to_json v)"

definition param_dsml :: "string \<times> json \<Rightarrow> string" where
  "param_dsml = (\<lambda>(k, v).
     open_tag ''parameter name='' @ [CHR 0x22] @ k @ [CHR 0x22] @ '' string='' @ [CHR 0x22] @
     (case v of JStr _ \<Rightarrow> ''true'' | _ \<Rightarrow> ''false'') @ [CHR 0x22] @ ''>'' @ param_text v @ close_tag ''parameter'')"

definition encode_arguments_to_dsml :: "string \<Rightarrow> string result" where
  \<comment> \<open>the argument is \<^verbatim>\<open>tool_call["arguments"]\<close>; a JSON value without \<^verbatim>\<open>items\<close> raises\<close>
  "encode_arguments_to_dsml args =
     (case (case json_loads args of None \<Rightarrow> JObj [(''arguments'', JStr args)] | Some v \<Rightarrow> v) of
        JObj d \<Rightarrow> Inr (joinwith [CHR 0x0A] (map param_dsml d))
      | _ \<Rightarrow> Inl (AttributeError (''object has no attribute '' @ repr_str ''items'')))"

definition invoke_dsml :: "string \<Rightarrow> string \<Rightarrow> string" where
  \<comment> \<open>\<^verbatim>\<open>tool_call_template\<close>\<close>
  "invoke_dsml name arguments =
     open_tag ''invoke name='' @ [CHR 0x22] @ name @ [CHR 0x22] @ ''>'' @ [CHR 0x0A] @ arguments @ [CHR 0x0A] @ close_tag ''invoke''"

definition calls_dsml :: "string list \<Rightarrow> string" where
  \<comment> \<open>\<^verbatim>\<open>tool_calls_template\<close> after two line ends\<close>
  "calls_dsml invokes =
     [CHR 0x0A, CHR 0x0A] @ open_tag ''tool_calls>'' @ [CHR 0x0A] @ joinwith [CHR 0x0A] invokes @ [CHR 0x0A] @ close_tag ''tool_calls''"

definition render_tool_calls :: "(string \<times> string) list \<Rightarrow> string result" where
  \<comment> \<open>the part of an assistant message that \<^verbatim>\<open>render_message\<close> writes for its calls (name, arguments)\<close>
  "render_tool_calls calls =
     (if calls = [] then Inr ''''
      else bindE (mapE (\<lambda>(name, args). bindE (encode_arguments_to_dsml args) (\<lambda>a. Inr (invoke_dsml name a))) calls)
             (\<lambda>invokes. Inr (calls_dsml invokes)))"

end
