(* ===== verification/Tool_Registry.thy ===== *)
theory Tool_Registry
  imports Json_Parse Py_Text
begin

text \<open>
  \<^verbatim>\<open>ds4_tools/registry.py\<close>: tool records, the registry with its search, the check of the
  arguments against the tool's schema, and the invocation.  The Python functions and processes a tool runs,
  the file system behind \<^verbatim>\<open>Path.resolve\<close> and the environment are arguments
  (\<open>tool_host\<close>); \<open>'w\<close> is the world they change.
\<close>

section \<open>Tool records and the registry\<close>

record tool_atom =
  ta_tool_id :: string
  ta_one_line :: string
  ta_stability :: string
  ta_tags :: "string list"
  ta_executor :: pydict
  ta_input_schema :: pydict
  ta_policy :: pydict
  ta_raw :: pydict

record tool_registry =
  tr_root :: string
  tr_tools :: "tool_atom list"

definition tool_required :: "string list" where
  "tool_required = [''tool_id'', ''one_line'', ''stability'', ''capability_tags'', ''executor'', ''input_schema'', ''policy'']"

definition tool_from_json :: "json \<Rightarrow> tool_atom result" where
  "tool_from_json v =
     bindE (as_dict v) (\<lambda>d.
       if dget d ''format'' \<noteq> JStr ''ds4-tool-atom-v1''
       then Inl (ValueError (''unsupported tool format: '' @ py_repr (dget d ''format'')))
       else
         (let missing = filter (\<lambda>k. \<not> has_key d k) tool_required
          in if missing \<noteq> [] then Inl (ValueError (''tool record missing fields: '' @ py_repr (JArr (map JStr missing))))
             else
               bindE (py_strs (dget d ''capability_tags'')) (\<lambda>tags.
               bindE (py_dict (dget d ''executor'')) (\<lambda>executor.
               bindE (py_dict (dget d ''input_schema'')) (\<lambda>schema.
               bindE (py_dict (dget d ''policy'')) (\<lambda>policy.
                 Inr \<lparr>ta_tool_id = py_str (dget d ''tool_id''), ta_one_line = py_str (dget d ''one_line''),
                      ta_stability = py_str (dget d ''stability''), ta_tags = tags, ta_executor = executor,
                      ta_input_schema = schema, ta_policy = policy, ta_raw = d\<rparr>))))))"

definition tool_brief :: "tool_atom \<Rightarrow> pydict" where
  "tool_brief t = [(''tool_id'', JStr (ta_tool_id t)), (''one_line'', JStr (ta_one_line t)), (''stability'', JStr (ta_stability t)),
     (''capability_tags'', JArr (map JStr (ta_tags t)))]"

definition make_tool_registry :: "string \<Rightarrow> tool_atom list \<Rightarrow> tool_registry result" where
  \<comment> \<open>\<open>rt\<close> is the resolved root\<close>
  "make_tool_registry rt tools =
     (if tools = [] then Inl (ValueError ''tool registry is empty'')
      else if \<not> distinct (map ta_tool_id tools) then Inl (ValueError ''duplicate tool_id in registry'')
      else Inr \<lparr>tr_root = rt, tr_tools = tools\<rparr>)"

definition load_line :: "nat \<Rightarrow> string \<Rightarrow> (tool_atom list) result" where
  \<comment> \<open>the message of a JSON error is shortened\<close>
  "load_line line_number line =
     (let stripped = strip line
      in if stripped = '''' then Inr []
         else case (case json_loads stripped of None \<Rightarrow> Inl (ValueError ''invalid JSON'') | Some v \<Rightarrow> tool_from_json v) of
                Inl exc \<Rightarrow> Inl (ValueError (''invalid tool registry line '' @ show_nat line_number @ '': '' @ exc_text exc))
              | Inr t \<Rightarrow> Inr [t])"

definition load_tool_registry :: "string \<Rightarrow> string \<Rightarrow> tool_registry result" where
  "load_tool_registry rt contents =
     bindE (mapE (\<lambda>(n, l). load_line n l) (List.enumerate 1 (split_on (CHR 0x0A) contents))) (\<lambda>ts. make_tool_registry rt (concat ts))"

definition get_tool :: "tool_registry \<Rightarrow> string \<Rightarrow> tool_atom result" where
  "get_tool reg tool_id =
     (case List.find (\<lambda>t. ta_tool_id t = tool_id) (tr_tools reg) of
        None \<Rightarrow> Inl (ValueError (''unknown tool_id: '' @ tool_id)) | Some t \<Rightarrow> Inr t)"

definition describe_tool :: "tool_registry \<Rightarrow> string \<Rightarrow> pydict result" where
  "describe_tool reg tool_id = bindE (get_tool reg tool_id) (\<lambda>t. Inr (ta_raw t))"

section \<open>Search\<close>

definition query_tokens :: "string \<Rightarrow> string list" where
  "query_tokens query = remdups (map lower (words_of (map (\<lambda>c. if c = CHR '':'' \<or> c = CHR ''.'' then CHR '' '' else c) query)))"

definition tool_score :: "string list \<Rightarrow> tool_atom \<Rightarrow> nat" where
  "tool_score tokens t =
     (let haystack = lower (joinwith '' '' (ta_tool_id t # ta_one_line t # ta_tags t))
      in length (filter (contains haystack) tokens))"

definition py_take :: "int \<Rightarrow> 'a list \<Rightarrow> 'a list" where
  \<comment> \<open>\<^verbatim>\<open>xs[:n]\<close>\<close>
  "py_take n xs = (if 0 \<le> n then take (nat n) xs else take (length xs - nat (- n)) xs)"

definition search_tools :: "tool_registry \<Rightarrow> string \<Rightarrow> int \<Rightarrow> pydict list" where
  \<comment> \<open>the tuples \<^verbatim>\<open>(-score, tool_id, tool)\<close> are compared by their first two parts, as ids are distinct\<close>
  "search_tools reg query limit =
     (let tokens = query_tokens query;
          scored = filter (\<lambda>t. tool_score tokens t \<noteq> 0 \<or> tokens = []) (tr_tools reg);
          ranked = sort_key (\<lambda>t. - int (tool_score tokens t)) (sort_key ta_tool_id scored)
      in map tool_brief (py_take limit ranked))"

section \<open>The arguments\<close>

definition type_matches_one :: "json \<Rightarrow> json \<Rightarrow> bool" where
  "type_matches_one v choice =
     (choice = JStr ''string'' \<and> (case v of JStr _ \<Rightarrow> True | _ \<Rightarrow> False) \<or>
      choice = JStr ''integer'' \<and> (case v of JInt _ \<Rightarrow> True | _ \<Rightarrow> False) \<or>
      choice = JStr ''number'' \<and> (case v of JInt _ \<Rightarrow> True | JFloat _ \<Rightarrow> True | _ \<Rightarrow> False) \<or>
      choice = JStr ''boolean'' \<and> (case v of JBool _ \<Rightarrow> True | _ \<Rightarrow> False) \<or>
      choice = JStr ''array'' \<and> (case v of JArr _ \<Rightarrow> True | _ \<Rightarrow> False) \<or>
      choice = JStr ''object'' \<and> (case v of JObj _ \<Rightarrow> True | _ \<Rightarrow> False) \<or>
      choice = JStr ''null'' \<and> v = JNull)"

definition type_matches :: "json \<Rightarrow> json \<Rightarrow> bool" where
  "type_matches v expected = list_ex (type_matches_one v) (case expected of JArr cs \<Rightarrow> cs | _ \<Rightarrow> [expected])"

definition key_in :: "json \<Rightarrow> pydict \<Rightarrow> bool result" where
  \<comment> \<open>\<^verbatim>\<open>k in d\<close>: lists and dicts cannot be hashed, other keys than texts are not there\<close>
  "key_in k d = (case k of JStr s \<Rightarrow> Inr (has_key d s) | JArr _ \<Rightarrow> Inl (TypeError (''unhashable type: '' @ repr_str ''list''))
     | JObj _ \<Rightarrow> Inl (TypeError (''unhashable type: '' @ repr_str ''dict'')) | _ \<Rightarrow> Inr False)"

definition missing_args :: "pydict \<Rightarrow> pydict \<Rightarrow> (json list) result" where
  "missing_args schema d =
     bindE (py_iter (dget_or schema ''required'' (JArr []))) (\<lambda>ks.
     bindE (mapE (\<lambda>k. bindE (key_in k d) (\<lambda>there. Inr (if there then [] else [k]))) ks) (\<lambda>ms. Inr (concat ms)))"

definition check_arg :: "pydict \<Rightarrow> string \<times> json \<Rightarrow> unit result" where
  "check_arg schema = (\<lambda>(k, v).
     bindE (as_dict (dget_or schema ''properties'' (JObj []))) (\<lambda>props.
     bindE (as_dict (dget_or props k (JObj []))) (\<lambda>p.
       let expected = dget p ''type''
       in if truthy expected \<and> \<not> type_matches v expected
          then Inl (ValueError (''argument '' @ repr_str k @ '' must be a '' @ py_str expected)) else Inr ())))"

definition validate_arguments :: "pydict \<Rightarrow> json \<Rightarrow> unit result" where
  "validate_arguments schema args =
     (if dget schema ''type'' \<noteq> JStr ''object'' then Inl (ValueError ''only object schemas are supported'')
      else case args of
        JObj d \<Rightarrow>
          bindE (missing_args schema d) (\<lambda>missing.
            if missing \<noteq> [] then Inl (ValueError (''tool arguments missing required keys: '' @ py_repr (JArr missing)))
            else
              bindE (if dget schema ''additionalProperties'' = JBool False
                     then bindE (as_dict (dget_or schema ''properties'' (JObj []))) (\<lambda>props.
                            let extra = sort (filter (\<lambda>k. \<not> has_key props k) (map fst d))
                            in if extra \<noteq> [] then Inl (ValueError (''tool arguments contain unsupported keys: '' @ py_repr (JArr (map JStr extra))))
                               else Inr ())
                     else Inr ())
                (\<lambda>_. bindE (mapE (check_arg schema) d) (\<lambda>_. Inr ())))
      | _ \<Rightarrow> Inl (ValueError ''tool arguments must be an object''))"

section \<open>Invocation\<close>

record process_outcome =
  po_returncode :: int
  po_stdout :: string
  po_stderr :: string

record 'w tool_host =
  th_call :: "string \<Rightarrow> string \<Rightarrow> json \<Rightarrow> 'w \<Rightarrow> json result \<times> 'w"   \<comment> \<open>a function of a module\<close>
  th_run :: "string list \<Rightarrow> pydict \<Rightarrow> int \<Rightarrow> 'w \<Rightarrow> process_outcome result \<times> 'w"   \<comment> \<open>a process, with environment and timeout\<close>
  th_resolve :: "string \<Rightarrow> string"
  th_environ :: environ

definition bash_env :: "environ \<Rightarrow> json \<Rightarrow> pydict" where
  "bash_env env args =
     [(''PATH'', JStr (case env ''PATH'' of None \<Rightarrow> '''' | Some p \<Rightarrow> p)),
      (''PYTHONPATH'', JStr (case env ''PYTHONPATH'' of None \<Rightarrow> '''' | Some p \<Rightarrow> p)),
      (''DS4_TOOL_ARGUMENTS_JSON'', JStr (dumps_sorted args))]"

definition resolve_bash_item :: "'w tool_host \<Rightarrow> string \<Rightarrow> nat \<times> json \<Rightarrow> string result" where
  "resolve_bash_item h rt = (\<lambda>(index, item).
     (case item of
        JStr s \<Rightarrow>
          if index = 0
          then (let executable = th_resolve h (path_join rt s)
                in if \<not> startswith executable rt then Inl (ValueError ''bash executable must stay inside registry root'')
                   else Inr executable)
          else Inr s
      | _ \<Rightarrow> Inl (ValueError ''bash argv items must be strings'')))"

definition bash_result :: "int \<Rightarrow> process_outcome \<Rightarrow> json result" where
  "bash_result max_output_bytes p =
     (if int (length (po_stdout p)) > max_output_bytes \<or> int (length (po_stderr p)) > max_output_bytes
      then Inl (ValueError ''bash tool output exceeded max_output_bytes'')
      else
        (let parsed = (if strip (po_stdout p) = '''' then JNull else case json_loads (po_stdout p) of None \<Rightarrow> JNull | Some v \<Rightarrow> v)
         in Inr (JObj [(''ok'', JBool (po_returncode p = 0)), (''returncode'', JInt (po_returncode p)), (''stdout'', JStr (po_stdout p)),
                       (''stderr'', JStr (po_stderr p)), (''json'', parsed)])))"

definition execute_bash :: "'w tool_host \<Rightarrow> string \<Rightarrow> tool_atom \<Rightarrow> json \<Rightarrow> 'w \<Rightarrow> json result \<times> 'w" where
  "execute_bash h rt tool args w =
     (case dget (ta_executor tool) ''argv'' of
        JArr argv \<Rightarrow>
          if argv = [] then (Inl (ValueError ''bash executor requires non-empty argv''), w)
          else
            (case bindE (mapE (resolve_bash_item h rt) (List.enumerate 0 argv)) (\<lambda>resolved.
                    bindE (py_int (dget_or (ta_policy tool) ''timeout_s'' (JInt 30))) (\<lambda>timeout. Inr (resolved, timeout))) of
               Inl e \<Rightarrow> (Inl e, w)
             | Inr (resolved, timeout) \<Rightarrow>
                 (let (out, w') = th_run h resolved (bash_env (th_environ h) args) timeout w
                  in (bindE out (\<lambda>p. bindE (py_int (dget_or (ta_policy tool) ''max_output_bytes'' (JInt 65536))) (\<lambda>m. bash_result m p)), w')))
      | _ \<Rightarrow> (Inl (ValueError ''bash executor requires non-empty argv''), w))"

definition split_callable :: "string \<Rightarrow> (string \<times> string) result" where
  \<comment> \<open>\<^verbatim>\<open>module_name, function_name = callable_name.split(":", 1)\<close>\<close>
  "split_callable s = (case split_at '':'' s of (m, Some f) \<Rightarrow> Inr (m, f) | (m, None) \<Rightarrow> Inl (ValueError ''not enough values to unpack (expected 2, got 1)''))"

definition execute_tool :: "'w tool_host \<Rightarrow> string \<Rightarrow> tool_atom \<Rightarrow> json \<Rightarrow> 'w \<Rightarrow> json result \<times> 'w" where
  "execute_tool h rt tool args w =
     (let kind = py_str (dget_or (ta_executor tool) ''kind'' (JStr ''''))
      in if kind = ''python''
         then (case split_callable (py_str (dget_or (ta_executor tool) ''callable'' (JStr ''''))) of
                 Inl e \<Rightarrow> (Inl e, w)
               | Inr (m, f) \<Rightarrow>
                   (let (r, w') = th_call h m f args w
                    in (bindE r (\<lambda>v. if is_obj v then Inr v else Inl (ValueError ''python tool returned non-object result'')), w')))
         else if kind = ''bash'' then execute_bash h rt tool args w
         else (Inl (ValueError (''unsupported tool executor kind: '' @ kind)), w))"

definition invoke_tool :: "'w tool_host \<Rightarrow> tool_registry \<Rightarrow> rat \<Rightarrow> string \<Rightarrow> json \<Rightarrow> 'w \<Rightarrow> pydict \<times> 'w" where
  \<comment> \<open>\<open>dur\<close> is the rounded duration\<close>
  "invoke_tool h reg dur tool_id args w =
     (let failed = (\<lambda>e. [(''format'', JStr ''ds4-tool-invocation-result-v1''), (''tool_id'', JStr tool_id), (''ok'', JBool False),
                         (''duration_s'', JFloat dur), (''error'', JStr (exc_text e))])
      in case bindE (get_tool reg tool_id) (\<lambda>tool. bindE (validate_arguments (ta_input_schema tool) args) (\<lambda>_. Inr tool)) of
           Inl e \<Rightarrow> (failed e, w)
         | Inr tool \<Rightarrow>
             (case execute_tool h (tr_root reg) tool args w of
                (Inl e, w') \<Rightarrow> (failed e, w')
              | (Inr r, w') \<Rightarrow>
                  ([(''format'', JStr ''ds4-tool-invocation-result-v1''), (''tool_id'', JStr tool_id),
                    (''ok'', JBool (truthy (dget_or (obj_or_empty r) ''ok'' (JBool True)))), (''duration_s'', JFloat dur), (''result'', r)], w')))"

end
