(* ===== verification/Agent_Loop.thy ===== *)
theory Agent_Loop
  imports Tool_Calls Tool_Registry
begin

text \<open>
  \<^verbatim>\<open>ds4_agent/loop.py\<close>: the loop that lets a model call tools.  The model and the registry act
  on a world \<open>'w\<close>; both are arguments, and \<open>invoke_tool\<close> is the registry the code passes.
\<close>

type_synonym 'w chat_model = "'w \<Rightarrow> pydict list \<Rightarrow> pydict \<times> 'w"

type_synonym 'w tool_invoker = "'w \<Rightarrow> string \<Rightarrow> json \<Rightarrow> pydict \<times> 'w"

record agent_state =
  ag_messages :: "pydict list"
  ag_rounds :: "pydict list"
  ag_calls :: int

section \<open>Tool results\<close>

definition compact_tool_result :: "pydict \<Rightarrow> pydict" where
  "compact_tool_result result =
     (if truthy (dget result ''ok'')
      then (let payload = dget_or result ''result'' (JObj []); t = dumps_sorted payload
            in if length t > 4000 then [(''ok'', JBool True), (''summary'', JStr ''tool result too large''), (''bytes'', JInt (int (length t)))]
               else [(''ok'', JBool True), (''result'', payload)])
      else [(''ok'', JBool False), (''error'', dget_or result ''error'' (JStr ''tool failed'')), (''result'', dget result ''result'')])"

definition tool_denied :: "string \<Rightarrow> pydict" where
  "tool_denied tool_id = [(''format'', JStr ''ds4-tool-invocation-result-v1''), (''tool_id'', JStr tool_id), (''ok'', JBool False),
     (''error'', JStr ''tool_id denied by allowed_tool_prefixes'')]"

definition tool_allowed :: "string list \<Rightarrow> string \<Rightarrow> bool" where
  "tool_allowed allowed tool_id \<longleftrightarrow> list_ex (startswith tool_id) allowed"

definition call_record :: "tool_call \<Rightarrow> json" where
  "call_record c = JObj [(''id'', JStr (tc_call_id c)), (''tool_id'', JStr (tc_tool_id c)), (''source'', JStr (tc_source c)), (''arguments'', tc_arguments c)]"

definition tool_message :: "tool_call \<Rightarrow> pydict \<Rightarrow> pydict" where
  "tool_message c result = [(''role'', JStr ''tool''), (''tool_call_id'', JStr (tc_call_id c)), (''name'', JStr (tc_tool_id c)),
     (''content'', JStr (dumps_sorted (JObj (compact_tool_result result))))]"

section \<open>Rounds\<close>

text \<open>
  The calls of a round: the messages so far, the calls counted so far, the records of this round, and whether
  the limit on calls was passed.
\<close>

fun run_calls ::
  "'w tool_invoker \<Rightarrow> string list \<Rightarrow> int \<Rightarrow> tool_call list \<Rightarrow> pydict list \<Rightarrow> int \<Rightarrow> (json \<times> json) list \<Rightarrow> 'w \<Rightarrow>
     pydict list \<times> int \<times> (json \<times> json) list \<times> bool \<times> 'w"
where
  "run_calls invoke allowed max_tool_calls [] messages n recs w = (messages, n, recs, False, w)"
| "run_calls invoke allowed max_tool_calls (c # cs) messages n recs w =
     (if n + 1 > max_tool_calls then (messages, n + 1, recs, True, w)
      else
        (let (result, w') = (if tool_allowed allowed (tc_tool_id c) then invoke w (tc_tool_id c) (tc_arguments c) else (tool_denied (tc_tool_id c), w))
         in run_calls invoke allowed max_tool_calls cs (messages @ [tool_message c result]) (n + 1)
              (recs @ [(call_record c, JObj result)]) w'))"

definition round_record :: "int \<Rightarrow> (json \<times> json) list \<Rightarrow> pydict" where
  "round_record i recs = [(''round_index'', JInt i), (''tool_calls'', JArr (map fst recs)), (''tool_results'', JArr (map snd recs))]"

definition agent_result :: "string \<Rightarrow> agent_state \<Rightarrow> pydict option \<Rightarrow> pydict" where
  "agent_result status s final =
     [(''format'', JStr ''ds4-agent-run-result-v1''), (''status'', JStr status), (''round_count'', JInt (int (length (ag_rounds s)))),
      (''messages'', JArr (map JObj (ag_messages s))), (''rounds'', JArr (map JObj (ag_rounds s)))] @
     (case final of None \<Rightarrow> [] | Some m \<Rightarrow> [(''final_message'', JObj m)])"

datatype agent_end = Completed pydict | Rounds_Exceeded | Calls_Exceeded

definition end_result :: "agent_state \<Rightarrow> agent_end \<Rightarrow> pydict" where
  "end_result s e =
     (case e of Completed m \<Rightarrow> agent_result ''completed'' s (Some m)
      | Rounds_Exceeded \<Rightarrow> agent_result ''max_tool_rounds_exceeded'' s None
      | Calls_Exceeded \<Rightarrow> agent_result ''max_tool_calls_exceeded'' s None)"

fun agent_rounds ::
  "'w chat_model \<Rightarrow> 'w tool_invoker \<Rightarrow> string list \<Rightarrow> int \<Rightarrow> int \<Rightarrow> nat \<Rightarrow> int \<Rightarrow> agent_state \<Rightarrow> 'w \<Rightarrow> (agent_end \<times> agent_state) result \<times> 'w"
where
  \<comment> \<open>the number is that of the rounds the \<^verbatim>\<open>for\<close> loop has left\<close>
  "agent_rounds model invoke allowed max_rounds max_calls 0 i s w = (Inl (RuntimeError ''unreachable''), w)"
| "agent_rounds model invoke allowed max_rounds max_calls (Suc k) i s w =
     (let (am, w1) = model w (ag_messages s);
          s1 = s\<lparr>ag_messages := ag_messages s @ [am]\<rparr>
      in case extract_tool_calls am of
           Inl e \<Rightarrow> (Inl e, w1)
         | Inr calls \<Rightarrow>
             if calls = [] then (Inr (Completed am, s1), w1)
             else if i \<ge> max_rounds then (Inr (Rounds_Exceeded, s1), w1)
             else
               (let (messages, n, recs, exceeded, w2) = run_calls invoke allowed max_calls calls (ag_messages s1) (ag_calls s) [] w1
                in if exceeded then (Inr (Calls_Exceeded, s1\<lparr>ag_messages := messages, ag_calls := n\<rparr>), w2)
                   else agent_rounds model invoke allowed max_rounds max_calls k (i + 1)
                          \<lparr>ag_messages = messages, ag_rounds = ag_rounds s @ [round_record i recs], ag_calls = n\<rparr> w2))"

definition agent_start :: "pydict list \<Rightarrow> agent_state" where
  "agent_start messages = \<lparr>ag_messages = messages, ag_rounds = [], ag_calls = 0\<rparr>"

definition allowed_prefixes :: "string list option \<Rightarrow> string list" where
  \<comment> \<open>\<^verbatim>\<open>allowed_tool_prefixes or ["tool:"]\<close>\<close>
  "allowed_prefixes p = (case p of None \<Rightarrow> [''tool:''] | Some ps \<Rightarrow> if ps = [] then [''tool:''] else ps)"

definition agent_run ::
  "'w chat_model \<Rightarrow> 'w tool_invoker \<Rightarrow> pydict list option \<Rightarrow> string list option \<Rightarrow> int \<Rightarrow> int \<Rightarrow> 'w \<Rightarrow> (agent_end \<times> agent_state) result \<times> 'w"
where
  "agent_run model invoke initial allowed max_rounds max_calls w =
     agent_rounds model invoke (allowed_prefixes allowed) max_rounds max_calls (nat (max_rounds + 1)) 0
       (agent_start (case initial of None \<Rightarrow> [] | Some ms \<Rightarrow> ms)) w"

definition run_agent_loop ::
  "'w chat_model \<Rightarrow> 'w tool_invoker \<Rightarrow> pydict list option \<Rightarrow> string list option \<Rightarrow> int \<Rightarrow> int \<Rightarrow> 'w \<Rightarrow> pydict result \<times> 'w"
where
  "run_agent_loop model invoke initial allowed max_rounds max_calls w =
     (let (r, w') = agent_run model invoke initial allowed max_rounds max_calls w
      in (bindE r (\<lambda>(e, s). Inr (end_result s e)), w'))"

section \<open>What a run does to the world\<close>

lemma run_calls_cost:
  fixes cost :: "'w \<Rightarrow> int"
  assumes "\<And>w t a. tool_allowed allowed t \<Longrightarrow> cost (snd (invoke w t a)) \<le> cost w + b"
    and "run_calls invoke allowed mc cs ms n recs w = (ms', n', recs', ex, w')" and "0 \<le> b" and "n \<le> mc"
  shows "cost w' + b * (mc - min n' mc) \<le> cost w + b * (mc - n) \<and> n \<le> n' \<and> (ex \<or> n' \<le> mc)"
  using assms(2,4)
proof (induction cs arbitrary: ms n recs w)
  case (Cons c cs)
  show ?case
  proof (cases "n + 1 > mc")
    case True
    then show ?thesis using Cons.prems assms(3) by (auto simp: min_def)
  next
    case False
    obtain result w1 where step: "(if tool_allowed allowed (tc_tool_id c) then invoke w (tc_tool_id c) (tc_arguments c)
        else (tool_denied (tc_tool_id c), w)) = (result, w1)" by fastforce
    have "cost w1 \<le> cost w + b"
      using step assms(1) [of "tc_tool_id c" w "tc_arguments c"] assms(3) by (auto split: if_splits)
    moreover have "run_calls invoke allowed mc cs (ms @ [tool_message c result]) (n + 1) (recs @ [(call_record c, JObj result)]) w1 = (ms', n', recs', ex, w')"
      using Cons.prems False step by (simp add: Let_def)
    ultimately show ?thesis using Cons.IH [of _ "n + 1"] False by (fastforce simp: algebra_simps)
  qed
qed (auto simp: min_def)

lemma agent_rounds_cost:
  fixes cost :: "'w \<Rightarrow> int"
  assumes model: "\<And>w ms. cost (snd (model w ms)) \<le> cost w + a"
    and invoke: "\<And>w t x. tool_allowed allowed t \<Longrightarrow> cost (snd (invoke w t x)) \<le> cost w + b"
    and pos: "0 \<le> a" "0 \<le> b"
  shows "ag_calls s \<le> mc \<Longrightarrow> cost (snd (agent_rounds model invoke allowed mr mc k i s w)) \<le> cost w + a * int k + b * (mc - ag_calls s)"
proof (induction k arbitrary: i s w)
  case 0
  then show ?case using pos by simp
next
  case (Suc k)
  obtain am w1 where am: "model w (ag_messages s) = (am, w1)" by fastforce
  have w1: "cost w1 \<le> cost w + a" using model [of w "ag_messages s"] am by simp
  have more_rounds: "a * int (Suc k) = a + a * int k" "0 \<le> a * int k" using pos by (simp_all add: algebra_simps)
  have "0 \<le> b * (mc - ag_calls s)" using pos Suc.prems by simp
  then have stop: "cost w1 \<le> cost w + a * int (Suc k) + b * (mc - ag_calls s)" using w1 more_rounds by linarith
  show ?case
  proof (cases "extract_tool_calls am")
    case (Inl e)
    then show ?thesis using am stop by simp
  next
    case calls: (Inr calls)
    obtain ms n recs ex w2 where rc: "run_calls invoke allowed mc calls (ag_messages s @ [am]) (ag_calls s) [] w1 = (ms, n, recs, ex, w2)"
      by (metis prod_cases5)
    have c: "cost w2 + b * (mc - min n mc) \<le> cost w1 + b * (mc - ag_calls s)" "ex \<or> n \<le> mc"
      using run_calls_cost [OF invoke rc pos(2) Suc.prems] by auto
    have "0 \<le> b * (mc - min n mc)" using pos by (simp add: min_def)
    then have ex: "cost w2 \<le> cost w + a * int (Suc k) + b * (mc - ag_calls s)" using c w1 more_rounds by linarith
    have go: "cost (snd (agent_rounds model invoke allowed mr mc k (i + 1) \<lparr>ag_messages = ms, ag_rounds = ag_rounds s @ [round_record i recs], ag_calls = n\<rparr> w2))
        \<le> cost w + a * int (Suc k) + b * (mc - ag_calls s)" if "n \<le> mc"
      using Suc.IH [of "\<lparr>ag_messages = ms, ag_rounds = ag_rounds s @ [round_record i recs], ag_calls = n\<rparr>" "i + 1" w2] that c w1 more_rounds
      by (simp add: min_def)
    show ?thesis using am calls rc stop ex go c(2) by (auto simp: Let_def)
  qed
qed

text \<open>
  What a run of the agent loop may do: its budget of model and tool calls, the tools it may call, and the
  form of the transcript it leaves.
\<close>

text \<open>C36. Whatever the model answers, a run asks it at most \<open>max_rounds + 1\<close> times and invokes tools at most
  \<open>max_calls\<close> times, and only tools whose id has an allowed prefix: any cost that the model raises by at most
  \<open>a\<close> and an allowed tool by at most \<open>b\<close> is raised by the run by at most the sum of these, however denied tools would act.\<close>
theorem agent_effects_bounded:
  fixes cost :: "'w \<Rightarrow> int"
  assumes "\<And>w ms. cost (snd (model w ms)) \<le> cost w + a"
    and "\<And>w t x. tool_allowed (allowed_prefixes allowed) t \<Longrightarrow> cost (snd (invoke w t x)) \<le> cost w + b"
    and "0 \<le> a" and "0 \<le> b" and "0 \<le> max_calls"
  shows "cost (snd (agent_run model invoke initial allowed max_rounds max_calls w))
    \<le> cost w + a * int (nat (max_rounds + 1)) + b * max_calls"
proof -
  let ?s = "agent_start (case initial of None \<Rightarrow> [] | Some ms \<Rightarrow> ms)"
  have "cost (snd (agent_rounds model invoke (allowed_prefixes allowed) max_rounds max_calls (nat (max_rounds + 1)) 0 ?s w))
      \<le> cost w + a * int (nat (max_rounds + 1)) + b * (max_calls - ag_calls ?s)"
    by (rule agent_rounds_cost) (use assms in \<open>simp_all add: agent_start_def\<close>)
  then show ?thesis by (simp only: agent_run_def) (simp add: agent_start_def)
qed

text \<open>The tool messages that answer the calls of an assistant message, in order.\<close>

definition reply_key :: "pydict \<Rightarrow> json \<times> json \<times> json" where
  "reply_key m = (dget m ''role'', dget m ''tool_call_id'', dget m ''name'')"

definition answers :: "pydict \<Rightarrow> pydict list \<Rightarrow> bool" where
  "answers am replies \<longleftrightarrow> (\<exists>calls. extract_tool_calls am = Inr calls \<and> calls \<noteq> [] \<and>
     map reply_key replies = map (\<lambda>c. (JStr ''tool'', JStr (tc_call_id c), JStr (tc_tool_id c))) calls)"

lemma reply_key_tool_message [simp]: "reply_key (tool_message c r) = (JStr ''tool'', JStr (tc_call_id c), JStr (tc_tool_id c))"
  by (simp add: reply_key_def tool_message_def dget_def dget_or_def)

lemma run_calls_replies:
  assumes "run_calls invoke allowed mc cs ms n recs w = (ms', n', recs', False, w')" and "n \<le> mc"
  shows "\<exists>replies. ms' = ms @ replies \<and> map reply_key replies = map (\<lambda>c. (JStr ''tool'', JStr (tc_call_id c), JStr (tc_tool_id c))) cs \<and>
    n' = n + int (length replies) \<and> n' \<le> mc"
  using assms
proof (induction cs arbitrary: ms n recs w)
  case (Cons c cs)
  obtain result w1 where step: "(if tool_allowed allowed (tc_tool_id c) then invoke w (tc_tool_id c) (tc_arguments c)
      else (tool_denied (tc_tool_id c), w)) = (result, w1)" by fastforce
  have le: "n + 1 \<le> mc" and rest: "run_calls invoke allowed mc cs (ms @ [tool_message c result]) (n + 1) (recs @ [(call_record c, JObj result)]) w1 = (ms', n', recs', False, w')"
    using Cons.prems step by (auto simp: Let_def split: if_splits)
  obtain replies where "ms' = (ms @ [tool_message c result]) @ replies"
      "map reply_key replies = map (\<lambda>c. (JStr ''tool'', JStr (tc_call_id c), JStr (tc_tool_id c))) cs"
      "n' = n + 1 + int (length replies)" "n' \<le> mc"
    using Cons.IH [OF rest le] by blast
  then show ?case by (intro exI [of _ "tool_message c result # replies"]) simp
qed simp

definition turns_of :: "(pydict \<times> pydict list) list \<Rightarrow> pydict list" where
  "turns_of turns = concat (map (\<lambda>(am, replies). am # replies) turns)"

lemma agent_rounds_transcript:
  assumes "agent_rounds model invoke allowed mr mc k i s w = (Inr (Completed am, s'), w')" and "ag_calls s \<le> mc"
  shows "\<exists>turns. ag_messages s' = ag_messages s @ turns_of turns @ [am] \<and> list_all (\<lambda>(m, rs). answers m rs) turns \<and>
    extract_tool_calls am = Inr [] \<and> length (ag_rounds s') = length (ag_rounds s) + length turns \<and>
    (turns = [] \<or> i + int (length turns) \<le> mr) \<and>
    ag_calls s + int (length (concat (map snd turns))) \<le> mc"
  using assms
proof (induction k arbitrary: i s w)
  case (Suc k)
  obtain am1 w1 where am: "model w (ag_messages s) = (am1, w1)" by fastforce
  obtain calls where calls: "extract_tool_calls am1 = Inr calls" using Suc.prems(1) am by (cases "extract_tool_calls am1") (auto simp: Let_def)
  show ?case
  proof (cases "calls = []")
    case True
    then show ?thesis using Suc.prems am calls by (intro exI [of _ "[]"]) (auto simp: turns_of_def)
  next
    case False
    obtain ms n recs ex w2 where rc: "run_calls invoke allowed mc calls (ag_messages s @ [am1]) (ag_calls s) [] w1 = (ms, n, recs, ex, w2)"
      by (metis prod_cases5)
    let ?s = "\<lparr>ag_messages = ms, ag_rounds = ag_rounds s @ [round_record i recs], ag_calls = n\<rparr>"
    have "\<not> ex" and i: "i < mr" and rest: "agent_rounds model invoke allowed mr mc k (i + 1) ?s w2 = (Inr (Completed am, s'), w')"
      using Suc.prems(1) am calls False rc by (auto simp: Let_def split: if_splits)
    then obtain replies where r: "ms = (ag_messages s @ [am1]) @ replies" "n = ag_calls s + int (length replies)" "n \<le> mc"
        "map reply_key replies = map (\<lambda>c. (JStr ''tool'', JStr (tc_call_id c), JStr (tc_tool_id c))) calls"
      using run_calls_replies [of invoke allowed mc calls "ag_messages s @ [am1]" "ag_calls s" "[]" w1 ms n recs w2] rc Suc.prems(2) by auto
    then have ans: "answers am1 replies" using calls False by (auto simp: answers_def)
    obtain turns where t: "ag_messages s' = ms @ turns_of turns @ [am]" "list_all (\<lambda>(m, rs). answers m rs) turns" "extract_tool_calls am = Inr []"
        "length (ag_rounds s') = Suc (length (ag_rounds s)) + length turns" "turns = [] \<or> i + 1 + int (length turns) \<le> mr"
        "n + int (length (concat (map snd turns))) \<le> mc"
      using Suc.IH [OF rest] r(3) by auto
    show ?thesis
      using t r(1,2) ans i by (intro exI [of _ "(am1, replies) # turns"]) (auto simp: turns_of_def)
  qed
qed simp

text \<open>C35. The transcript of a completed run has the form a chat model requires: after the initial messages come
  rounds, each an assistant message with tool calls followed by exactly one tool message per call, in the order of the calls and with
  their ids and names, and last the assistant message without calls that ends the run; rounds and calls keep to
  their limits and every round is recorded.\<close>
theorem agent_transcript_well_formed:
  assumes "agent_run model invoke (Some initial) allowed max_rounds max_calls w = (Inr (Completed am, s), w')" and "0 \<le> max_calls"
  shows "\<exists>turns. ag_messages s = initial @ turns_of turns @ [am] \<and> list_all (\<lambda>(m, rs). answers m rs) turns \<and>
    extract_tool_calls am = Inr [] \<and> length (ag_rounds s) = length turns \<and> (turns = [] \<or> int (length turns) \<le> max_rounds) \<and>
    int (length (concat (map snd turns))) \<le> max_calls"
  using agent_rounds_transcript [OF assms(1) [unfolded agent_run_def]] assms(2) by (simp add: agent_start_def)

section \<open>A run with one call\<close>

text \<open>The world counts: the model asks for a tool until one has answered.\<close>

definition asking_model :: "int chat_model" where
  "asking_model w ms = (if w < 10
     then [(''role'', JStr ''assistant''), (''tool_calls'', JArr [JObj [(''id'', JStr ''c1''), (''function'', JObj [(''name'', JStr ''tool:x''), (''arguments'', JObj [])])]])]
     else [(''role'', JStr ''assistant''), (''content'', JStr ''end'')], w + 1)"

definition counting_tool :: "int tool_invoker" where
  "counting_tool w t x = ([(''ok'', JBool True), (''result'', JInt 5)], w + 10)"

lemma agent_effects_bounded_witness: "snd (agent_run asking_model counting_tool None None 6 20 0) \<le> 0 + 1 * int (nat (6 + 1)) + 10 * 20"
  using agent_effects_bounded [of "\<lambda>w. w" asking_model 1 None counting_tool 10 20 None 6 0]
  by (simp add: asking_model_def counting_tool_def)

lemma asking_calls:
  "extract_tool_calls (fst (asking_model 0 ms)) = Inr [\<lparr>tc_call_id = ''c1'', tc_tool_id = ''tool:x'', tc_arguments = JObj [], tc_source = ''openai''\<rparr>]"
  "extract_tool_calls (fst (asking_model 11 ms)) = Inr []"
  unfolding asking_model_def by code_simp+

lemma asking_run:
  "\<exists>am s w'. agent_run asking_model counting_tool (Some []) None 6 20 0 = (Inr (Completed am, s), w')"
proof -
  have "nat (6 + 1) = Suc (Suc 5)" by simp
  then obtain n where k: "nat (6 + 1) = Suc (Suc n)" by blast
  have "snd (asking_model 0 ms) = 1" "snd (asking_model 11 ms) = 12" for ms by (simp_all add: asking_model_def)
  then show ?thesis
    using asking_calls unfolding agent_run_def k
    by (simp add: case_prod_unfold Let_def tool_allowed_def allowed_prefixes_def agent_start_def counting_tool_def)
qed

lemma agent_transcript_well_formed_witness:
  "\<exists>turns am s. fst (agent_run asking_model counting_tool (Some []) None 6 20 0) = Inr (Completed am, s) \<and>
     ag_messages s = turns_of turns @ [am] \<and> length turns = length (ag_rounds s) \<and> extract_tool_calls am = Inr []"
proof -
  obtain am s w' where run: "agent_run asking_model counting_tool (Some []) None 6 20 0 = (Inr (Completed am, s), w')"
    using asking_run by blast
  then show ?thesis using agent_transcript_well_formed [OF run] by auto
qed

end
