(* ===== verification/Tool_Markup.thy ===== *)
theory Tool_Markup
  imports Tool_Calls
begin

text \<open>
  The two sides of the tool call markup agree: what \<^verbatim>\<open>render_message\<close> writes for a list of
  calls, \<^verbatim>\<open>extract_tool_calls\<close> reads back.
\<close>

section \<open>Scanning\<close>

abbreviation lt :: char where "lt \<equiv> CHR ''<''"

abbreviation nl :: string where "nl \<equiv> [CHR 0x0A]"

definition passes :: "string \<Rightarrow> string \<Rightarrow> bool" where
  \<comment> \<open>no \<open>pat\<close> begins in \<open>t\<close>, whatever follows\<close>
  "passes pat t \<longleftrightarrow> (\<forall>s. until pat (t @ s) = map_option (\<lambda>p. (t @ fst p, snd p)) (until pat s))"

lemma passes_Nil [simp]: "passes pat []"
  by (simp add: passes_def option.map_ident)

lemma passes_Cons:
  assumes "passes pat t" and "\<And>s. drop_prefix pat (c # t @ s) = None"
  shows "passes pat (c # t)"
  using assms by (auto simp: passes_def option.map_comp comp_def case_prod_unfold)

lemma passes_append: "passes pat t \<Longrightarrow> passes pat u \<Longrightarrow> passes pat (t @ u)"
  by (auto simp: passes_def option.map_comp comp_def)

lemma passes_free: "lt \<notin> set t \<Longrightarrow> passes (lt # p) t"
  by (induction t) (auto intro!: passes_Cons)

lemma drop_prefix_self [simp]: "drop_prefix p (p @ r) = Some r"
  by (simp add: drop_prefix_Some)

lemma until_passed: "passes pat t \<Longrightarrow> pat \<noteq> [] \<Longrightarrow> until pat (t @ pat @ r) = Some (t, r)"
  by (cases pat) (auto simp: passes_def)

lemma until_length: "until pat s = Some (b, a) \<Longrightarrow> length s = length b + length pat + length a"
  by (induction pat s arbitrary: b rule: until.induct) (auto split: option.splits if_splits dest!: drop_prefix_length simp del: drop_prefix.simps)

definition skips :: "(string \<Rightarrow> ('a \<times> string) option) \<Rightarrow> string \<Rightarrow> bool" where
  \<comment> \<open>no match of \<open>m\<close> begins in \<open>t\<close>\<close>
  "skips m t \<longleftrightarrow> (\<forall>s. scan_all m (t @ s) = scan_all m s)"

lemma skips_append: "skips m t \<Longrightarrow> skips m u \<Longrightarrow> skips m (t @ u)"
  by (simp add: skips_def)

lemma skips_free:
  assumes "\<And>c s. c \<noteq> lt \<Longrightarrow> m (c # s) = None" and "lt \<notin> set t"
  shows "skips m t"
  using assms(2) by (induction t) (auto simp: skips_def assms(1))

lemma scan_match: "t \<noteq> [] \<Longrightarrow> m (t @ s) = Some (x, s) \<Longrightarrow> scan_all m (t @ s) = x # scan_all m s"
  by (cases t) auto

lemma scan_items:
  assumes "\<And>x s. x \<in> set xs \<Longrightarrow> r x \<noteq> [] \<and> m (r x @ s) = Some (v x, s)" and "skips m nl"
  shows "scan_all m (nl @ joinwith nl (map r xs) @ nl) = map v xs"
  using assms(1)
proof (induction nl "map r xs" arbitrary: xs rule: joinwith.induct)
  case 1
  have "scan_all m (nl @ nl) = scan_all m []" using assms(2) unfolding skips_def by (metis append_Nil2)
  then show ?case using 1 by simp
next
  case (2 u)
  then obtain x where x: "xs = [x]" "r x = u" by auto
  have "scan_all m (nl @ u @ nl) = scan_all m (u @ nl)" using assms(2) by (simp add: skips_def)
  also have "\<dots> = v x # scan_all m nl" using 2 x by (intro scan_match) auto
  also have "scan_all m nl = scan_all m []" using assms(2) unfolding skips_def by (metis append_Nil2)
  finally show ?case using x by simp
next
  case (3 u w ws)
  then obtain x y zs where x: "xs = x # y # zs" "r x = u" "r y = w" "ws = map r zs" by (auto simp: Cons_eq_map_conv)
  have "scan_all m (nl @ joinwith nl (map r xs) @ nl) = scan_all m (u @ nl @ joinwith nl (w # ws) @ nl)"
    using assms(2) x by (simp add: skips_def)
  also have "\<dots> = v x # scan_all m (nl @ joinwith nl (w # ws) @ nl)" using 3 x by (intro scan_match) auto
  also have "scan_all m (nl @ joinwith nl (w # ws) @ nl) = map v (y # zs)" using 3(1) [of "y # zs"] 3(3) x by auto
  finally show ?case using x by simp
qed

lemma passes_join:
  assumes "\<And>x. x \<in> set xs \<Longrightarrow> passes (lt # p) (r x)"
  shows "passes (lt # p) (joinwith nl (map r xs))"
  using assms
proof (induction nl "map r xs" arbitrary: xs rule: joinwith.induct)
  case (3 u w ws)
  then obtain x y zs where x: "xs = x # y # zs" "r x = u" "r y = w" "ws = map r zs" by (auto simp: Cons_eq_map_conv)
  have "passes (lt # p) (joinwith nl (w # ws))" using 3(1) [of "y # zs"] 3(3) x by auto
  moreover have "passes (lt # p) u" using 3(3) x by auto
  moreover have "passes (lt # p) nl" by (rule passes_free) simp
  ultimately show ?case using x by (simp add: passes_append del: append_Cons append_Nil)
qed auto

section \<open>The tags\<close>

lemmas tag_defs = open_tag_def close_tag_def dsml_token_def

lemma match_lt [simp]:
  "c \<noteq> lt \<Longrightarrow> match_param (c # s) = None" "c \<noteq> lt \<Longrightarrow> match_invoke (c # s) = None" "c \<noteq> lt \<Longrightarrow> match_block (c # s) = None"
  by (simp_all add: match_param_def match_invoke_def match_block_def tag_defs)

lemma close_lt: "close_tag x = lt # tl (close_tag x)"
  by (simp add: tag_defs)

lemma match_name_reads:
  assumes "name \<noteq> []" and "CHR 0x22 \<notin> set name"
  shows "match_name ('' name='' @ [CHR 0x22] @ name @ [CHR 0x22] @ s) = Some (name, s)"
proof -
  have "takeWhile (\<lambda>c. c \<noteq> CHR 0x22) (name @ CHR 0x22 # s) = name" using assms(2) by (simp add: takeWhile_tail takeWhile_append)
  moreover have "dropWhile (\<lambda>c. c \<noteq> CHR 0x22) (name @ CHR 0x22 # s) = CHR 0x22 # s" using assms(2) by (simp add: dropWhile_append)
  ultimately show ?thesis using assms(1) by (simp add: match_name_def is_space_def)
qed

definition plain :: "string \<Rightarrow> bool" where
  \<comment> \<open>a name that can stand between quotes\<close>
  "plain s \<longleftrightarrow> s \<noteq> [] \<and> CHR 0x22 \<notin> set s \<and> lt \<notin> set s"

lemma drop_open [simp]: "drop_prefix (open_tag x) (open_tag (x @ y) @ s) = Some (y @ s)"
  by (simp add: drop_prefix_Some open_tag_def)

lemma match_param_reads:
  assumes "plain k" and "lt \<notin> set (param_text v)"
  shows "match_param (param_dsml (k, v) @ s) = Some ((k, param_text v), s)"
proof -
  let ?flag = "case v of JStr _ \<Rightarrow> ''true'' | _ \<Rightarrow> ''false''"
  let ?tail = "'' string='' @ [CHR 0x22] @ ?flag @ [CHR 0x22]"
  let ?rest = "param_text v @ close_tag ''parameter'' @ s"
  have flag: "CHR ''>'' \<notin> set ?flag" by (cases v) auto
  have drop: "drop_prefix (open_tag ''parameter'') (param_dsml (k, v) @ s) =
      Some ('' name='' @ [CHR 0x22] @ k @ [CHR 0x22] @ ?tail @ ''>'' @ ?rest)"
    by (simp add: drop_prefix_Some param_dsml_def open_tag_def)
  have name: "match_name ('' name='' @ [CHR 0x22] @ k @ [CHR 0x22] @ ?tail @ ''>'' @ ?rest) = Some (k, ?tail @ ''>'' @ ?rest)"
    using assms(1) by (intro match_name_reads) (auto simp: plain_def)
  have "dropWhile (\<lambda>c. c \<noteq> CHR ''>'') (?tail @ ''>'' @ ?rest) = ''>'' @ ?rest"
    using flag by (subst dropWhile_append2) auto
  moreover have "until (close_tag ''parameter'') ?rest = Some (param_text v, s)"
    using assms(2) by (intro until_passed) (simp_all add: tag_defs passes_free)
  ultimately show ?thesis by (simp only: match_param_def drop name option.case prod.case) simp
qed

lemma param_dsml_not_Nil [simp]: "param_dsml x \<noteq> []"
  by (cases x) (simp add: param_dsml_def tag_defs)

lemma passes_tag:
  assumes "lt \<notin> set t" and "\<And>s. drop_prefix (close_tag x) (lt # t @ s) = None"
  shows "passes (close_tag x) (lt # t)"
  using assms passes_free [of t "tl (close_tag x)"] close_lt by (intro passes_Cons) simp_all

lemma passes_text: "lt \<notin> set t \<Longrightarrow> passes (close_tag x) t"
  using passes_free close_lt by metis

lemma passes_open: "lt \<notin> set y \<Longrightarrow> passes (close_tag x) (open_tag y)"
  using passes_tag [of "dsml_token @ y" x] by (simp add: open_tag_def) (simp add: tag_defs)

lemma passes_close:
  "passes (close_tag ''invoke'') (close_tag ''parameter'')" "passes (close_tag ''tool_calls'') (close_tag ''parameter'')"
  "passes (close_tag ''tool_calls'') (close_tag ''invoke'')"
  using passes_tag [of "''/'' @ dsml_token @ ''parameter'' @ ''>''" "''invoke''"]
    passes_tag [of "''/'' @ dsml_token @ ''parameter'' @ ''>''" "''tool_calls''"]
    passes_tag [of "''/'' @ dsml_token @ ''invoke'' @ ''>''" "''tool_calls''"]
  by (simp_all add: tag_defs)

lemma passes_param:
  assumes "plain k" and "lt \<notin> set (param_text v)" and "passes (close_tag x) (close_tag ''parameter'')"
  shows "passes (close_tag x) (param_dsml (k, v))"
proof -
  have "passes (close_tag x) (open_tag ''parameter name='')" by (rule passes_open) simp
  moreover have "passes (close_tag x) (case v of JStr _ \<Rightarrow> ''true'' | _ \<Rightarrow> ''false'')" by (rule passes_text) (cases v, auto)
  moreover have "lt \<notin> set k" using assms(1) by (simp add: plain_def)
  ultimately show ?thesis using assms(2,3) unfolding param_dsml_def prod.case
    by (intro passes_append) (assumption | rule passes_text, simp)+
qed

lemma match_invoke_reads:
  assumes "plain name" and "passes (close_tag ''invoke'') a"
  shows "match_invoke (invoke_dsml name a @ s) = Some ((name, nl @ a @ nl), s)"
proof -
  let ?rest = "(nl @ a @ nl) @ close_tag ''invoke'' @ s"
  have drop: "drop_prefix (open_tag ''invoke'') (invoke_dsml name a @ s) =
      Some ('' name='' @ [CHR 0x22] @ name @ [CHR 0x22] @ ''>'' @ ?rest)"
    by (simp add: drop_prefix_Some invoke_dsml_def open_tag_def)
  have name: "match_name ('' name='' @ [CHR 0x22] @ name @ [CHR 0x22] @ ''>'' @ ?rest) = Some (name, ''>'' @ ?rest)"
    using assms(1) by (intro match_name_reads) (auto simp: plain_def)
  have "dropWhile is_space (''>'' @ ?rest) = ''>'' @ ?rest" by (simp add: is_space_def)
  moreover have "until (close_tag ''invoke'') ?rest = Some (nl @ a @ nl, s)"
  proof (rule until_passed)
    show "passes (close_tag ''invoke'') (nl @ a @ nl)" using passes_text [of nl] assms(2) by (intro passes_append) simp_all
  qed (simp add: tag_defs)
  ultimately show ?thesis by (simp only: match_invoke_def drop name option.case prod.case) simp
qed

lemma passes_invoke:
  assumes "plain name" and "passes (close_tag ''tool_calls'') a"
  shows "passes (close_tag ''tool_calls'') (invoke_dsml name a)"
proof -
  have "passes (close_tag ''tool_calls'') (open_tag ''invoke name='')" by (rule passes_open) simp
  moreover have "lt \<notin> set name" using assms(1) by (simp add: plain_def)
  ultimately show ?thesis using assms(2) passes_close(3) unfolding invoke_dsml_def
    by (intro passes_append) (assumption | rule passes_text, simp)+
qed

section \<open>What is written is read\<close>

definition call_args :: "string \<Rightarrow> pydict" where
  \<comment> \<open>the parameters that are written for an argument text\<close>
  "call_args args = (case json_loads args of None \<Rightarrow> [(''arguments'', JStr args)] | Some v \<Rightarrow> obj_or_empty v)"

definition plain_call :: "string \<times> string \<Rightarrow> bool" where
  \<comment> \<open>names that can stand between quotes, texts without tags\<close>
  "plain_call = (\<lambda>(name, args). plain name \<and> distinct (map fst (call_args args)) \<and>
     list_all (\<lambda>(k, v). plain k \<and> lt \<notin> set (param_text v)) (call_args args))"

definition read_args :: "string \<Rightarrow> pydict" where
  "read_args args = map (\<lambda>(k, v). (k, JStr (strip (param_text v)))) (call_args args)"

lemma dsml_arguments_reads:
  assumes "distinct (map fst d)" and "\<And>k v. (k, v) \<in> set d \<Longrightarrow> plain k \<and> lt \<notin> set (param_text v)"
  shows "dsml_arguments (nl @ joinwith nl (map param_dsml d) @ nl) = map (\<lambda>(k, v). (k, JStr (strip (param_text v)))) d"
proof -
  have "scan_all match_param (nl @ joinwith nl (map param_dsml d) @ nl) = map (\<lambda>(k, v). (k, param_text v)) d"
    using assms(2) by (intro scan_items) (auto simp: match_param_reads intro: skips_free)
  then have "dsml_arguments (nl @ joinwith nl (map param_dsml d) @ nl) =
      foldl (\<lambda>d (k, v). dset k (JStr (strip v)) d) [] (map (\<lambda>(k, v). (k, param_text v)) d)" by (simp add: dsml_arguments_def)
  also have "\<dots> = map (\<lambda>(k, v). (k, JStr (strip v))) (map (\<lambda>(k, v). (k, param_text v)) d)"
    using fold_dset_fresh [of "[]" "map (\<lambda>(k, v). (k, param_text v)) d" "\<lambda>v. JStr (strip v)"] assms(1)
    by (simp add: comp_def case_prod_unfold)
  finally show ?thesis by (simp add: comp_def case_prod_unfold)
qed

lemma encode_reads:
  assumes "encode_arguments_to_dsml args = Inr a"
  shows "a = joinwith nl (map param_dsml (call_args args))"
  using assms by (cases "json_loads args") (auto simp: encode_arguments_to_dsml_def call_args_def split: json.splits)



end
