(* ===== verification/Governor.thy ===== *)
theory Governor
  imports Json_Parse Py_Text
begin

text \<open>
  \<^verbatim>\<open>ds4_infer/resource_governor.py\<close>: GPU and host readings of the nodes, the throttle reasons
  drawn from them, and the governor that allows or delays the refill of the dispatcher.  The commands run
  on the nodes and the environment are arguments; samples are taken at the time of the operation.
\<close>

section \<open>Numbers and readings\<close>

definition optional_float :: "json \<Rightarrow> rat option" where
  \<comment> \<open>the text of a number is read back as that number; infinities are not numbers here\<close>
  "optional_float v =
     (case v of
        JNull \<Rightarrow> None
      | JInt i \<Rightarrow> Some (of_int i)
      | JFloat r \<Rightarrow> Some r
      | _ \<Rightarrow> (let t = strip (py_str v)
              in if t = '''' \<or> lower t \<in> {''n/a'', ''nan'', ''none''} then None else parse_float t))"

record gpu_reading =
  gr_node_id :: string
  gr_ok :: bool
  gr_temperature_c :: "rat option"
  gr_power_w :: "rat option"
  gr_utilization_pct :: "rat option"
  gr_memory_used_mib :: "rat option"
  gr_memory_total_mib :: "rat option"
  gr_host_used_mib :: "rat option"
  gr_host_total_mib :: "rat option"
  gr_host_used_pct :: "rat option"
  gr_host_available_mib :: "rat option"
  gr_host_available_pct :: "rat option"
  gr_error :: "string option"

definition failed_reading :: "string \<Rightarrow> string \<Rightarrow> gpu_reading" where
  "failed_reading node_id error =
     \<lparr>gr_node_id = node_id, gr_ok = False, gr_temperature_c = None, gr_power_w = None, gr_utilization_pct = None,
      gr_memory_used_mib = None, gr_memory_total_mib = None, gr_host_used_mib = None, gr_host_total_mib = None,
      gr_host_used_pct = None, gr_host_available_mib = None, gr_host_available_pct = None, gr_error = Some error\<rparr>"

fun jfloat :: "rat option \<Rightarrow> json" where
  "jfloat None = JNull"
| "jfloat (Some r) = JFloat r"

definition reading_public_dict :: "gpu_reading \<Rightarrow> pydict" where
  "reading_public_dict r =
     [(''node_id'', JStr (gr_node_id r)), (''ok'', JBool (gr_ok r)), (''temperature_c'', jfloat (gr_temperature_c r)),
      (''power_w'', jfloat (gr_power_w r)), (''utilization_pct'', jfloat (gr_utilization_pct r)), (''memory_used_mib'', jfloat (gr_memory_used_mib r)),
      (''memory_total_mib'', jfloat (gr_memory_total_mib r)), (''host_memory_used_mib'', jfloat (gr_host_used_mib r)),
      (''host_memory_total_mib'', jfloat (gr_host_total_mib r)), (''host_memory_used_pct'', jfloat (gr_host_used_pct r)),
      (''host_memory_available_mib'', jfloat (gr_host_available_mib r)), (''host_memory_available_pct'', jfloat (gr_host_available_pct r)),
      (''error'', jopt (gr_error r))]"

definition host_memory_pct :: "rat option \<Rightarrow> rat option \<Rightarrow> rat option" where
  "host_memory_pct used tot = (case (used, tot) of (Some u, Some t) \<Rightarrow> if t \<le> 0 then None else Some (u / t * 100) | _ \<Rightarrow> None)"

record host_memory =
  hm_used_mib :: "rat option"
  hm_total_mib :: "rat option"
  hm_used_pct :: "rat option"
  hm_available_mib :: "rat option"
  hm_available_pct :: "rat option"

definition no_host_memory :: host_memory where
  "no_host_memory = \<lparr>hm_used_mib = None, hm_total_mib = None, hm_used_pct = None, hm_available_mib = None, hm_available_pct = None\<rparr>"

fun parse_free_lines :: "string list \<Rightarrow> host_memory" where
  "parse_free_lines [] = no_host_memory"
| "parse_free_lines (line # lines) =
     (let parts = words_of line
      in if 3 \<le> length parts \<and> parts ! 0 = ''Mem:''
         then
           (let tot = optional_float (JStr (parts ! 1));
                available = (if 7 \<le> length parts then optional_float (JStr (parts ! 6)) else None);
                used = (case (tot, available) of (Some t, Some a) \<Rightarrow> Some (max 0 (t - a)) | _ \<Rightarrow> optional_float (JStr (parts ! 2)))
            in \<lparr>hm_used_mib = used, hm_total_mib = tot, hm_used_pct = host_memory_pct used tot, hm_available_mib = available,
                hm_available_pct = host_memory_pct available tot\<rparr>)
         else parse_free_lines lines)"

definition parse_free_m :: "string \<Rightarrow> host_memory" where
  "parse_free_m out = parse_free_lines (split_on (CHR 0x0A) out)"

definition dget_alias :: "pydict \<Rightarrow> string \<Rightarrow> string \<Rightarrow> json" where
  \<comment> \<open>\<^verbatim>\<open>d.get(a, d.get(b))\<close>\<close>
  "dget_alias d a b = dget_or d a (dget d b)"

definition host_memory_fields_from_item :: "pydict \<Rightarrow> host_memory" where
  "host_memory_fields_from_item d =
     (let used0 = optional_float (dget_alias d ''host_memory_used_mib'' ''host_mem_used_mib'');
          tot = optional_float (dget_alias d ''host_memory_total_mib'' ''host_mem_total_mib'');
          available0 = optional_float (dget_alias d ''host_memory_available_mib'' ''host_mem_available_mib'');
          apct0 = optional_float (dget_alias d ''host_memory_available_pct'' ''host_mem_available_pct'');
          apct1 = (if apct0 = None then host_memory_pct available0 tot else apct0);
          used = (case (used0, tot, available0) of (None, Some t, Some a) \<Rightarrow> Some (max 0 (t - a)) | _ \<Rightarrow> used0);
          upct0 = optional_float (dget_or d ''host_memory_used_pct'' (dget_alias d ''host_mem_pct'' ''mem_pct''));
          upct1 = (case (upct0, apct1) of (None, Some a) \<Rightarrow> Some (max 0 (100 - a)) | _ \<Rightarrow> upct0);
          upct = (if upct1 = None then host_memory_pct used tot else upct1);
          available = (case (available0, tot, used) of (None, Some t, Some u) \<Rightarrow> Some (max 0 (t - u)) | _ \<Rightarrow> available0);
          apct = (if apct1 = None then host_memory_pct available tot else apct1)
      in \<lparr>hm_used_mib = used, hm_total_mib = tot, hm_used_pct = upct, hm_available_mib = available, hm_available_pct = apct\<rparr>)"

section \<open>Sampling\<close>

record smi_row =
  sr_temperature_c :: "rat option"
  sr_power_w :: "rat option"
  sr_utilization_pct :: "rat option"
  sr_memory_used_mib :: "rat option"
  sr_memory_total_mib :: "rat option"

definition part_float :: "string list \<Rightarrow> nat \<Rightarrow> rat option" where
  "part_float parts i = (if i < length parts then optional_float (JStr (parts ! i)) else None)"

definition parse_nvidia_smi_row :: "string \<Rightarrow> smi_row" where
  "parse_nvidia_smi_row row =
     (let parts = map strip (split_on (CHR '','') row)
      in \<lparr>sr_temperature_c = part_float parts 0, sr_power_w = part_float parts 1, sr_utilization_pct = part_float parts 2,
          sr_memory_used_mib = part_float parts 3, sr_memory_total_mib = part_float parts 4\<rparr>)"

definition somes :: "'a option list \<Rightarrow> 'a list" where
  "somes xs = concat (map (\<lambda>x. case x of None \<Rightarrow> [] | Some v \<Rightarrow> [v]) xs)"

definition max_of :: "rat list \<Rightarrow> rat option" where
  \<comment> \<open>\<^verbatim>\<open>max(xs, default=None)\<close>\<close>
  "max_of xs = (if xs = [] then None else Some (Max (set xs)))"

definition min_of :: "rat list \<Rightarrow> rat option" where
  "min_of xs = (if xs = [] then None else Some (Min (set xs)))"

type_synonym command_run = "string list \<Rightarrow> (int \<times> string \<times> string) result"

definition node_argv :: "string \<Rightarrow> string \<Rightarrow> string list \<Rightarrow> string list" where
  "node_argv local_node node_id argv =
     (if node_id \<noteq> local_node then [''ssh'', ''-o'', ''BatchMode=yes'', ''-o'', ''ConnectTimeout=2'', node_id] @ argv else argv)"

definition sample_host_memory :: "command_run \<Rightarrow> string \<Rightarrow> string \<Rightarrow> host_memory" where
  "sample_host_memory run local_node node_id =
     (case run (node_argv local_node node_id [''free'', ''-m'']) of
        Inl _ \<Rightarrow> no_host_memory
      | Inr (code, out, err) \<Rightarrow> if code \<noteq> 0 then no_host_memory else parse_free_m out)"

definition sample_node :: "command_run \<Rightarrow> string \<Rightarrow> string \<Rightarrow> gpu_reading" where
  \<comment> \<open>the text of an exception is that of its model\<close>
  "sample_node run local_node node_id =
     (case run (node_argv local_node node_id [''nvidia-smi'', ''--query-gpu=temperature.gpu,power.draw,utilization.gpu,memory.used,memory.total'',
                  ''--format=csv,noheader,nounits'']) of
        Inl e \<Rightarrow> failed_reading node_id (case e of TimeoutError s \<Rightarrow> s | OSError s \<Rightarrow> s | _ \<Rightarrow> '''')
      | Inr (code, out, err) \<Rightarrow>
          if code \<noteq> 0 then failed_reading node_id (if strip err = '''' then ''exit '' @ show_int code else strip err)
          else
            (let rows = filter (\<lambda>l. l \<noteq> '''') (map strip (split_on (CHR 0x0A) out))
             in if rows = [] then failed_reading node_id ''empty nvidia-smi output''
                else
                  (let parsed = map parse_nvidia_smi_row rows; hm = sample_host_memory run local_node node_id
                   in \<lparr>gr_node_id = node_id, gr_ok = True, gr_temperature_c = max_of (somes (map sr_temperature_c parsed)),
                       gr_power_w = max_of (somes (map sr_power_w parsed)), gr_utilization_pct = max_of (somes (map sr_utilization_pct parsed)),
                       gr_memory_used_mib = max_of (somes (map sr_memory_used_mib parsed)), gr_memory_total_mib = max_of (somes (map sr_memory_total_mib parsed)),
                       gr_host_used_mib = hm_used_mib hm, gr_host_total_mib = hm_total_mib hm, gr_host_used_pct = hm_used_pct hm,
                       gr_host_available_mib = hm_available_mib hm, gr_host_available_pct = hm_available_pct hm, gr_error = None\<rparr>)))"

definition reading_of_item :: "string list \<Rightarrow> json \<times> json \<Rightarrow> gpu_reading list" where
  "reading_of_item nodes = (\<lambda>(node_id, v).
     (let node = py_str node_id
      in case v of
           JObj d \<Rightarrow>
             if nodes \<noteq> [] \<and> node \<notin> set nodes then []
             else
               (let hm = host_memory_fields_from_item d
                in [\<lparr>gr_node_id = node, gr_ok = truthy (dget_or d ''ok'' (JBool True)), gr_temperature_c = optional_float (dget_alias d ''temperature_c'' ''temp_c''),
                     gr_power_w = optional_float (dget d ''power_w''), gr_utilization_pct = optional_float (dget_alias d ''utilization_pct'' ''gpu_util''),
                     gr_memory_used_mib = optional_float (dget d ''memory_used_mib''), gr_memory_total_mib = optional_float (dget d ''memory_total_mib''),
                     gr_host_used_mib = hm_used_mib hm, gr_host_total_mib = hm_total_mib hm, gr_host_used_pct = hm_used_pct hm,
                     gr_host_available_mib = hm_available_mib hm, gr_host_available_pct = hm_available_pct hm,
                     gr_error = (if dget d ''error'' = JNull then None else Some (py_str (dget d ''error'')))\<rparr>])
         | _ \<Rightarrow> []))"

definition readings_from_json :: "(string \<Rightarrow> string option) \<Rightarrow> string \<Rightarrow> string list \<Rightarrow> (gpu_reading list) result" where
  \<comment> \<open>\<open>file\<close> is the text of an existing file\<close>
  "readings_from_json file_text raw nodes =
     (let t = strip raw;
          raw1 = (if t \<noteq> '''' \<and> hd t \<noteq> CHR ''{'' \<and> hd t \<noteq> CHR ''['' then (case file_text raw of None \<Rightarrow> raw | Some c \<Rightarrow> c) else raw)
      in case json_loads raw1 of
           None \<Rightarrow> Inl (ValueError ''invalid JSON'')
         | Some parsed \<Rightarrow>
             (let src = (case parsed of JObj d \<Rightarrow> dget_or d ''nodes'' parsed | _ \<Rightarrow> parsed);
                  items = (case src of
                      JObj d \<Rightarrow> map (\<lambda>(k, v). (JStr k, v)) d
                    | JArr xs \<Rightarrow> concat (map (\<lambda>(i, v). case v of JObj d \<Rightarrow> [(dget_or d ''node_id'' (JStr (''node'' @ show_nat i)), v)] | _ \<Rightarrow> []) (List.enumerate 0 xs))
                    | _ \<Rightarrow> [])
              in Inr (concat (map (reading_of_item nodes) items))))"

end
