(* ===== verification/Governor_State.thy ===== *)
theory Governor_State
  imports Governor
begin

text \<open>The governor itself: its thresholds, the status it draws from a sample, and its decisions.\<close>

section \<open>Configuration\<close>

record governor =
  gv_enabled :: bool
  gv_nodes :: "string list"
  gv_local_node_id :: string
  gv_poll_s :: rat
  gv_ssh_timeout_s :: rat
  gv_sample_workers :: int
  gv_temp_soft_c :: rat
  gv_temp_hard_c :: rat
  gv_power_soft_w :: rat
  gv_power_hard_w :: rat
  gv_total_power_soft_w :: rat
  gv_total_power_hard_w :: rat
  gv_host_memory_soft_pct :: rat
  gv_host_memory_hard_pct :: rat
  gv_throttle_step_s :: rat
  gv_throttle_max_s :: rat
  gv_sample_json :: string
  gv_last_sample_at :: rat
  gv_cooldown_until :: rat
  gv_cooldown_count :: int
  gv_last_status :: pydict

definition initial_status :: "bool \<Rightarrow> nat \<Rightarrow> pydict" where
  "initial_status enabled node_count =
     [(''enabled'', JBool enabled), (''node_count'', JInt (int node_count)), (''sampled_at'', JNull), (''sample_age_s'', JNull),
      (''sampled_nodes'', JInt 0), (''failed_nodes'', JArr []), (''max_temp_c'', JNull), (''max_temp_node'', JNull), (''max_power_w'', JNull),
      (''max_power_node'', JNull), (''total_power_w'', JNull), (''max_utilization_pct'', JNull), (''max_utilization_node'', JNull),
      (''max_host_memory_used_pct'', JNull), (''max_host_memory_node'', JNull), (''min_host_memory_available_pct'', JNull),
      (''min_host_memory_available_node'', JNull), (''throttle_active'', JBool False), (''throttle_sleep_s'', JFloat 0),
      (''throttle_sleep_remaining_s'', JFloat 0), (''throttle_reasons'', JArr []), (''cooldown_until'', JNull), (''cooldown_count'', JInt 0),
      (''last_decision'', JStr (if enabled then ''not_sampled'' else ''disabled'')), (''readings'', JArr [])]"

definition make_governor ::
  "bool \<Rightarrow> string list \<Rightarrow> string \<Rightarrow> string \<Rightarrow> rat \<Rightarrow> rat \<Rightarrow> int \<Rightarrow> rat list \<Rightarrow> rat \<Rightarrow> rat \<Rightarrow> string \<Rightarrow> governor"
where
  \<comment> \<open>the eight thresholds as a list, in the order of the parameters; \<open>host\<close> is \<^verbatim>\<open>socket.gethostname()\<close>\<close>
  "make_governor enabled nodes local_node host poll_s ssh_timeout_s workers ts step max_s sample_json =
     (let ns = rev (remdups (rev (filter (\<lambda>n. n \<noteq> '''') nodes)))
      in \<lparr>gv_enabled = enabled, gv_nodes = ns, gv_local_node_id = (if local_node = '''' then host else local_node),
          gv_poll_s = max (1 / 10) poll_s, gv_ssh_timeout_s = max (1 / 5) ssh_timeout_s, gv_sample_workers = max 1 workers,
          gv_temp_soft_c = ts ! 0, gv_temp_hard_c = ts ! 1, gv_power_soft_w = ts ! 2, gv_power_hard_w = ts ! 3,
          gv_total_power_soft_w = ts ! 4, gv_total_power_hard_w = ts ! 5, gv_host_memory_soft_pct = ts ! 6, gv_host_memory_hard_pct = ts ! 7,
          gv_throttle_step_s = max 0 step, gv_throttle_max_s = max 0 max_s, gv_sample_json = sample_json,
          gv_last_sample_at = 0, gv_cooldown_until = 0, gv_cooldown_count = 0, gv_last_status = initial_status enabled (length ns)\<rparr>)"

definition gov_env_bool :: "environ \<Rightarrow> string \<Rightarrow> bool \<Rightarrow> bool" where
  "gov_env_bool env name d = (case env name of None \<Rightarrow> d | Some raw \<Rightarrow> lower (strip raw) \<in> {''1'', ''true'', ''yes'', ''on''})"

definition gov_env_int :: "environ \<Rightarrow> string \<Rightarrow> int \<Rightarrow> int" where
  "gov_env_int env name d = (case env name of None \<Rightarrow> d | Some raw \<Rightarrow> safe_int (JStr raw) d)"

definition gov_env_float :: "environ \<Rightarrow> string \<Rightarrow> rat \<Rightarrow> rat" where
  "gov_env_float env name d = (case env name of None \<Rightarrow> d | Some raw \<Rightarrow> (case py_float (JStr raw) of Inr r \<Rightarrow> r | Inl _ \<Rightarrow> d))"

definition governor_from_env :: "environ \<Rightarrow> string list \<Rightarrow> string \<Rightarrow> governor" where
  "governor_from_env env nodes host =
     (let explicit = strip (env_get env ''DS4_API_RESOURCE_LOCAL_NODE_ID'' '''');
          f = (\<lambda>name d. gov_env_float env (''DS4_API_RESOURCE_'' @ name) d)
      in make_governor (gov_env_bool env ''DS4_API_RESOURCE_GOVERNOR'' False) nodes (if explicit = '''' then host else explicit) host
           (f ''POLL_S'' 2) (f ''SSH_TIMEOUT_S'' (3 / 2)) (gov_env_int env ''DS4_API_RESOURCE_SAMPLE_WORKERS'' (min 16 (max 1 (int (length nodes)))))
           [f ''TEMP_SOFT_C'' 86, f ''TEMP_HARD_C'' 88, f ''POWER_SOFT_W'' 115, f ''POWER_HARD_W'' 140, f ''TOTAL_POWER_SOFT_W'' 1350,
            f ''TOTAL_POWER_HARD_W'' 1550, f ''HOST_MEMORY_SOFT_PCT'' 90, f ''HOST_MEMORY_HARD_PCT'' 94]
           (f ''THROTTLE_STEP_S'' (1 / 2)) (f ''THROTTLE_MAX_S'' 4) (env_get env ''DS4_API_RESOURCE_SAMPLE_JSON'' ''''))"

section \<open>From a sample to a status\<close>

definition over_limit :: "string \<Rightarrow> rat \<Rightarrow> rat \<Rightarrow> rat option \<Rightarrow> string list" where
  \<comment> \<open>one of the four \<^verbatim>\<open>if / elif\<close> pairs; a threshold of zero or less is off\<close>
  "over_limit name soft hard v =
     (case v of None \<Rightarrow> []
      | Some x \<Rightarrow> if hard > 0 \<and> x \<ge> hard then [name @ ''_hard''] else if soft > 0 \<and> x \<ge> soft then [name @ ''_soft''] else [])"

definition throttle_reasons :: "governor \<Rightarrow> rat option \<Rightarrow> rat option \<Rightarrow> rat option \<Rightarrow> rat option \<Rightarrow> string list" where
  "throttle_reasons g max_temp max_power total_power max_host_mem_pct =
     over_limit ''temp'' (gv_temp_soft_c g) (gv_temp_hard_c g) max_temp @
     over_limit ''power'' (gv_power_soft_w g) (gv_power_hard_w g) max_power @
     over_limit ''total_power'' (gv_total_power_soft_w g) (gv_total_power_hard_w g) total_power @
     over_limit ''host_memory'' (gv_host_memory_soft_pct g) (gv_host_memory_hard_pct g) max_host_mem_pct"

fun first_best :: "(rat \<Rightarrow> rat \<Rightarrow> bool) \<Rightarrow> (string \<times> rat) option \<Rightarrow> (string \<times> rat) list \<Rightarrow> (string \<times> rat) option" where
  \<comment> \<open>Python's \<^verbatim>\<open>max\<close> or \<^verbatim>\<open>min\<close> by a key: the first of the best\<close>
  "first_best better best [] = best"
| "first_best better best (x # xs) =
     first_best better (case best of None \<Rightarrow> Some x | Some b \<Rightarrow> if better (snd x) (snd b) then Some x else best) xs"

definition peak_node :: "(rat \<Rightarrow> rat \<Rightarrow> bool) \<Rightarrow> (gpu_reading \<Rightarrow> rat option) \<Rightarrow> gpu_reading list \<Rightarrow> json" where
  "peak_node better f rs =
     (case first_best better None (concat (map (\<lambda>r. case f r of None \<Rightarrow> [] | Some v \<Rightarrow> [(gr_node_id r, v)]) rs)) of
        None \<Rightarrow> JNull | Some (n, _) \<Rightarrow> JStr n)"

definition thresholds_dict :: "governor \<Rightarrow> pydict" where
  "thresholds_dict g =
     [(''temp_soft_c'', JFloat (gv_temp_soft_c g)), (''temp_hard_c'', JFloat (gv_temp_hard_c g)), (''power_soft_w'', JFloat (gv_power_soft_w g)),
      (''power_hard_w'', JFloat (gv_power_hard_w g)), (''total_power_soft_w'', JFloat (gv_total_power_soft_w g)),
      (''total_power_hard_w'', JFloat (gv_total_power_hard_w g)), (''host_memory_soft_pct'', JFloat (gv_host_memory_soft_pct g)),
      (''host_memory_hard_pct'', JFloat (gv_host_memory_hard_pct g))]"

definition sample_reasons :: "governor \<Rightarrow> gpu_reading list \<Rightarrow> string list" where
  "sample_reasons g readings =
     (let good = filter gr_ok readings; powers = somes (map gr_power_w good)
      in throttle_reasons g (max_of (somes (map gr_temperature_c good))) (max_of powers)
           (if powers = [] then None else Some (sum_list powers)) (max_of (somes (map gr_host_used_pct good))))"

definition status_from_readings :: "governor \<Rightarrow> gpu_reading list \<Rightarrow> rat \<Rightarrow> pydict" where
  "status_from_readings g readings sampled_at =
     (let good = filter gr_ok readings; powers = somes (map gr_power_w good)
      in [(''enabled'', JBool (gv_enabled g)), (''node_count'', JInt (int (length (gv_nodes g)))), (''sampled_at'', JFloat sampled_at),
          (''sampled_nodes'', JInt (int (length good))),
          (''failed_nodes'', JArr (map (JObj \<circ> reading_public_dict) (filter (\<lambda>r. \<not> gr_ok r) readings))),
          (''max_temp_c'', jfloat (max_of (somes (map gr_temperature_c good)))), (''max_temp_node'', peak_node (>) gr_temperature_c good),
          (''max_power_w'', jfloat (max_of powers)), (''max_power_node'', peak_node (>) gr_power_w good),
          (''total_power_w'', if powers = [] then JNull else JFloat (round_dec 3 (sum_list powers))),
          (''max_utilization_pct'', jfloat (max_of (somes (map gr_utilization_pct good)))), (''max_utilization_node'', peak_node (>) gr_utilization_pct good),
          (''max_host_memory_used_pct'', jfloat (map_option (round_dec 3) (max_of (somes (map gr_host_used_pct good))))),
          (''max_host_memory_node'', peak_node (>) gr_host_used_pct good),
          (''min_host_memory_available_pct'', jfloat (map_option (round_dec 3) (min_of (somes (map gr_host_available_pct good))))),
          (''min_host_memory_available_node'', peak_node (<) gr_host_available_pct good), (''thresholds'', JObj (thresholds_dict g)),
          (''throttle_reasons'', JArr (map JStr (sample_reasons g readings))), (''readings'', JArr (map (JObj \<circ> reading_public_dict) readings))])"

definition sleep_for_status :: "governor \<Rightarrow> pydict \<Rightarrow> rat" where
  "sleep_for_status g status =
     (let reasons = (case por (dget status ''throttle_reasons'') (JArr []) of JArr xs \<Rightarrow> map py_str xs | _ \<Rightarrow> [])
      in if reasons = [] then 0
         else min (gv_throttle_max_s g) (max 0 (gv_throttle_step_s g * (if list_ex (\<lambda>r. endswith r ''_hard'') reasons then 2 else 1))))"

section \<open>Decisions\<close>

record gov_decision =
  gd_allow_refill :: bool
  gd_sleep_s :: rat
  gd_status :: pydict

definition cooldown_remaining_s :: "rat \<Rightarrow> governor \<Rightarrow> rat" where
  "cooldown_remaining_s now g = max 0 (gv_cooldown_until g - now)"

definition gov_status :: "rat \<Rightarrow> governor \<Rightarrow> pydict" where
  "gov_status now g =
     (let remaining = cooldown_remaining_s now g; st = gv_last_status g
      in dset ''cooldown_count'' (JInt (gv_cooldown_count g))
        (dset ''cooldown_until'' (if remaining > 0 then JFloat (gv_cooldown_until g) else JNull)
        (dset ''throttle_sleep_remaining_s'' (JFloat (round_dec 3 remaining))
        (dset ''throttle_active'' (JBool (remaining > 0))
        (dset ''sample_age_s'' (case dget st ''sampled_at'' of JFloat t \<Rightarrow> JFloat (round_dec 3 (max 0 (now - t))) | _ \<Rightarrow> JNull) st)))))"

definition refresh_if_stale :: "rat \<Rightarrow> gpu_reading list \<Rightarrow> governor \<Rightarrow> governor" where
  \<comment> \<open>\<open>readings\<close> are what a sample at \<open>now\<close> gives\<close>
  "refresh_if_stale now readings g =
     (if \<not> gv_enabled g \<or> gv_last_sample_at g \<le> 0 \<or> now - gv_last_sample_at g < gv_poll_s g then g
      else g\<lparr>gv_last_sample_at := now,
             gv_last_status := dset ''cooldown_count'' (JInt (gv_cooldown_count g)) (dset ''cooldown_until'' JNull
               (dset ''throttle_sleep_s'' (JFloat 0) (dset ''throttle_active'' (JBool False)
               (dset ''last_decision'' (JStr ''status_refresh'') (status_from_readings g readings now)))))\<rparr>)"

definition status_op :: "bool \<Rightarrow> rat \<Rightarrow> gpu_reading list \<Rightarrow> governor \<Rightarrow> pydict \<times> governor" where
  "status_op refresh now readings g = (let g1 = (if refresh then refresh_if_stale now readings g else g) in (gov_status now g1, g1))"

definition force_resample :: "governor \<Rightarrow> governor" where
  "force_resample g = g\<lparr>gv_cooldown_until := 0, gv_last_sample_at := 0\<rparr>"

definition decide_from_sample :: "rat \<Rightarrow> gpu_reading list \<Rightarrow> governor \<Rightarrow> gov_decision \<times> governor" where
  "decide_from_sample now readings g =
     (let status = status_from_readings g readings now;
          sleep_s = sleep_for_status g status;
          g1 = (if sleep_s > 0 then g\<lparr>gv_last_sample_at := now, gv_cooldown_until := now + sleep_s, gv_cooldown_count := gv_cooldown_count g + 1\<rparr>
                else g\<lparr>gv_last_sample_at := now\<rparr>);
          status1 = (if sleep_s > 0
                     then dset ''cooldown_until'' (JFloat (now + sleep_s)) (dset ''throttle_sleep_s'' (JFloat (round_dec 3 sleep_s))
                            (dset ''throttle_active'' (JBool True) (dset ''last_decision'' (JStr ''throttle'') status)))
                     else dset ''cooldown_until'' JNull (dset ''throttle_sleep_s'' (JFloat 0)
                            (dset ''throttle_active'' (JBool False) (dset ''last_decision'' (JStr ''allow'') status))));
          g2 = g1\<lparr>gv_last_status := dset ''cooldown_count'' (JInt (gv_cooldown_count g1)) status1\<rparr>
      in (\<lparr>gd_allow_refill = sleep_s \<le> 0, gd_sleep_s = sleep_s, gd_status = gov_status now g2\<rparr>, g2))"

definition before_refill :: "rat \<Rightarrow> gpu_reading list \<Rightarrow> governor \<Rightarrow> gov_decision \<times> governor" where
  "before_refill now readings g =
     (let remaining = cooldown_remaining_s now g;
          keep = (\<lambda>why. let st = dset ''last_decision'' (JStr why) (gov_status now g) in (st, g\<lparr>gv_last_status := st\<rparr>))
      in if \<not> gv_enabled g then (\<lparr>gd_allow_refill = True, gd_sleep_s = 0, gd_status = gov_status now g\<rparr>, g)
         else if remaining > 0
         then (let (st, g1) = keep ''cooling'' in (\<lparr>gd_allow_refill = False, gd_sleep_s = remaining, gd_status = st\<rparr>, g1))
         else if \<not> truthy (dget (gv_last_status g) ''throttle_reasons'') \<and> now - gv_last_sample_at g < gv_poll_s g
         then (let (st, g1) = keep ''within_poll_interval'' in (\<lparr>gd_allow_refill = True, gd_sleep_s = 0, gd_status = st\<rparr>, g1))
         else decide_from_sample now readings g)"

text \<open>
  What an allowed refill says of the cluster: the latest sample is recent and found nothing to throttle for,
  whatever operations came before.
\<close>

section \<open>Operations and the samples they take\<close>

datatype gov_op = Gov_Refill rat "gpu_reading list" | Gov_Status bool rat "gpu_reading list" | Gov_Force

fun apply_gov_op :: "gov_op \<Rightarrow> governor \<Rightarrow> governor" where
  "apply_gov_op (Gov_Refill now rs) g = snd (before_refill now rs g)"
| "apply_gov_op (Gov_Status refresh now rs) g = snd (status_op refresh now rs g)"
| "apply_gov_op Gov_Force g = force_resample g"

fun op_sample :: "gov_op \<Rightarrow> governor \<Rightarrow> (rat \<times> string list) list" where
  \<comment> \<open>the time and the reasons of the sample that the operation takes, if it takes one\<close>
  "op_sample (Gov_Refill now rs) g =
     (if gv_enabled g \<and> cooldown_remaining_s now g = 0 \<and>
         (truthy (dget (gv_last_status g) ''throttle_reasons'') \<or> gv_poll_s g \<le> now - gv_last_sample_at g)
      then [(now, sample_reasons g rs)] else [])"
| "op_sample (Gov_Status refresh now rs) g =
     (if refresh \<and> gv_enabled g \<and> gv_last_sample_at g > 0 \<and> gv_poll_s g \<le> now - gv_last_sample_at g
      then [(now, sample_reasons g rs)] else [])"
| "op_sample Gov_Force g = []"

fun run_gov :: "gov_op list \<Rightarrow> governor \<times> (rat \<times> string list) list \<Rightarrow> governor \<times> (rat \<times> string list) list" where
  "run_gov [] st = st"
| "run_gov (op # ops) (g, samples) = run_gov ops (apply_gov_op op g, samples @ op_sample op g)"

section \<open>The status keeps the reasons of the last sample\<close>

definition hot :: "governor \<Rightarrow> bool" where
  "hot g \<longleftrightarrow> truthy (dget (gv_last_status g) ''throttle_reasons'')"

lemma dget_gov_status [simp]: "dget (gov_status now g) ''throttle_reasons'' = dget (gv_last_status g) ''throttle_reasons''"
  by (simp add: gov_status_def Let_def)

lemma dget_status_reasons [simp]: "dget (status_from_readings g rs t) ''throttle_reasons'' = JArr (map JStr (sample_reasons g rs))"
  by (simp add: status_from_readings_def dget_def dget_or_def Let_def)

definition same_config :: "governor \<Rightarrow> governor \<Rightarrow> bool" where
  "same_config g g' \<longleftrightarrow> gv_enabled g' = gv_enabled g \<and> gv_poll_s g' = gv_poll_s g \<and> gv_throttle_step_s g' = gv_throttle_step_s g \<and>
     gv_throttle_max_s g' = gv_throttle_max_s g"

lemma decide_state:
  assumes "decide_from_sample now rs g = (d, g')"
  shows "gv_last_sample_at g' = now \<and> (hot g' \<longleftrightarrow> sample_reasons g rs \<noteq> []) \<and> same_config g g' \<and>
    gd_sleep_s d = sleep_for_status g (status_from_readings g rs now) \<and> (gd_allow_refill d \<longleftrightarrow> gd_sleep_s d \<le> 0)"
  using assms by (auto simp: decide_from_sample_def Let_def hot_def same_config_def split: if_splits)

lemma before_refill_cases:
  assumes "before_refill now rs g = (d, g')" and "gv_enabled g"
  obtains (cooling) "cooldown_remaining_s now g > 0" "\<not> gd_allow_refill d" "gd_sleep_s d = cooldown_remaining_s now g"
      "hot g' = hot g" "same_config g g'" "gv_last_sample_at g' = gv_last_sample_at g" "op_sample (Gov_Refill now rs) g = []"
  | (recent) "cooldown_remaining_s now g = 0" "\<not> hot g" "now - gv_last_sample_at g < gv_poll_s g" "gd_allow_refill d" "hot g' = hot g"
      "same_config g g'" "gv_last_sample_at g' = gv_last_sample_at g" "op_sample (Gov_Refill now rs) g = []"
  | (sampled) "decide_from_sample now rs g = (d, g')" "op_sample (Gov_Refill now rs) g = [(now, sample_reasons g rs)]"
proof -
  have nonneg: "0 \<le> cooldown_remaining_s now g" by (simp add: cooldown_remaining_s_def)
  show thesis
  proof (cases "cooldown_remaining_s now g > 0")
    case True
    then show thesis using assms by (intro cooling) (auto simp: before_refill_def Let_def hot_def same_config_def)
  next
    case False
    then have z: "cooldown_remaining_s now g = 0" using nonneg by simp
    show thesis
    proof (cases "\<not> hot g \<and> now - gv_last_sample_at g < gv_poll_s g")
      case True
      then show thesis using assms z by (intro recent) (auto simp: before_refill_def Let_def hot_def same_config_def)
    next
      case False
      then show thesis using assms z by (intro sampled) (auto simp: before_refill_def Let_def hot_def not_less)
    qed
  qed
qed

definition knows_last :: "governor \<Rightarrow> (rat \<times> string list) list \<Rightarrow> bool" where
  "knows_last g samples \<longleftrightarrow> gv_last_sample_at g \<noteq> 0 \<longrightarrow>
     samples \<noteq> [] \<and> fst (last samples) = gv_last_sample_at g \<and> (hot g \<longleftrightarrow> snd (last samples) \<noteq> [])"

lemma same_config_refl [simp]: "same_config g g"
  by (simp add: same_config_def)

lemma gov_op_knows:
  assumes "knows_last g samples" and "gv_enabled g"
  shows "knows_last (apply_gov_op op g) (samples @ op_sample op g) \<and> same_config g (apply_gov_op op g)"
proof (cases op)
  case (Gov_Refill now rs)
  obtain d g' where b: "before_refill now rs g = (d, g')" by fastforce
  from b assms(2) show ?thesis
  proof (cases rule: before_refill_cases)
    case sampled
    then show ?thesis using Gov_Refill b decide_state [OF sampled(1)] by (auto simp: knows_last_def)
  qed (use Gov_Refill b assms in \<open>auto simp: knows_last_def\<close>)
next
  case (Gov_Status refresh now rs)
  then show ?thesis using assms
    by (auto simp: knows_last_def status_op_def refresh_if_stale_def Let_def hot_def same_config_def)
next
  case Gov_Force
  then show ?thesis by (simp add: knows_last_def force_resample_def same_config_def)
qed

lemma run_gov_knows:
  assumes "run_gov ops (g, samples) = (g', samples')" and "knows_last g samples" and "gv_enabled g"
  shows "knows_last g' samples' \<and> same_config g g'"
  using assms
proof (induction ops arbitrary: g samples)
  case (Cons op ops)
  have step: "knows_last (apply_gov_op op g) (samples @ op_sample op g)" "same_config g (apply_gov_op op g)"
    using gov_op_knows [OF Cons.prems(2,3)] by auto
  then have "same_config (apply_gov_op op g) g' \<and> knows_last g' samples'"
    using Cons.IH [of "apply_gov_op op g" "samples @ op_sample op g"] Cons.prems(1,3) by (simp add: same_config_def)
  then show ?case using step(2) by (simp add: same_config_def)
qed simp

lemma calm_sleep:
  assumes "gv_throttle_step_s g > 0" and "gv_throttle_max_s g > 0"
  shows "sleep_for_status g (status_from_readings g rs now) \<le> 0 \<longleftrightarrow> sample_reasons g rs = []"
  using assms by (auto simp: sleep_for_status_def por_def Let_def min_le_iff_disj mult_le_0_iff)

lemma sleep_bound: "0 \<le> gv_throttle_max_s g \<Longrightarrow> sleep_for_status g st \<le> gv_throttle_max_s g"
  by (simp add: sleep_for_status_def Let_def)

text \<open>C39. An enabled governor with a throttle step, after any operations, allows a refill only when its latest sample,
  taken now or less than a poll interval ago, gave no reason to throttle; when it does not allow one, it asks for a
  positive wait.\<close>
theorem refill_only_after_calm_sample:
  fixes g0 :: governor
  assumes "run_gov ops (g0, []) = (g, samples)" and "gv_last_sample_at g0 = 0" and "gv_enabled g0"
    and "gv_throttle_step_s g0 > 0" and "gv_throttle_max_s g0 > 0" and "gv_poll_s g0 > 0" and "gv_poll_s g0 \<le> now"
    and refill: "before_refill now readings g = (d, g')"
  shows "(gd_allow_refill d \<longrightarrow> (\<exists>t. last (samples @ op_sample (Gov_Refill now readings) g) = (t, []) \<and> now - t < gv_poll_s g)) \<and>
    (\<not> gd_allow_refill d \<longrightarrow> gd_sleep_s d > 0)"
proof -
  have k: "knows_last g samples" "same_config g0 g" using run_gov_knows [OF assms(1) _ assms(3)] assms(2) by (auto simp: knows_last_def)
  then have conf: "gv_enabled g" "gv_throttle_step_s g > 0" "gv_throttle_max_s g > 0" "gv_poll_s g > 0" "gv_poll_s g \<le> now"
    using assms by (auto simp: same_config_def)
  from refill conf(1) show ?thesis
  proof (cases rule: before_refill_cases)
    case cooling
    then show ?thesis by simp
  next
    case recent
    then have "gv_last_sample_at g \<noteq> 0" using conf by auto
    then show ?thesis using recent k(1) by (cases "last samples") (auto simp: knows_last_def)
  next
    case sampled
    then have "gd_sleep_s d \<le> 0 \<longleftrightarrow> sample_reasons g readings = []" "gd_allow_refill d \<longleftrightarrow> gd_sleep_s d \<le> 0"
      using decide_state [OF sampled(1)] calm_sleep [OF conf(2,3), of readings now] by auto
    then show ?thesis using sampled(2) conf(4) by (auto simp del: op_sample.simps)
  qed
qed

section \<open>A cluster of one node\<close>

definition calm_reading :: gpu_reading where
  "calm_reading = (failed_reading ''n1'' '''')\<lparr>gr_ok := True, gr_temperature_c := Some 60\<rparr>"

definition one_node_governor :: governor where
  "one_node_governor = make_governor True [''n1''] ''n1'' ''n1'' 2 1 1 [86, 88, 115, 140, 1350, 1550, 90, 94] (1 / 2) 4 ''''"

lemma one_node_decision: "gd_allow_refill (fst (before_refill 100 [calm_reading] one_node_governor))"
proof -
  have "sample_reasons one_node_governor [calm_reading] = []"
    by (simp add: sample_reasons_def one_node_governor_def make_governor_def calm_reading_def failed_reading_def throttle_reasons_def
        over_limit_def max_of_def somes_def Let_def)
  moreover have conf: "gv_throttle_step_s one_node_governor > 0" "gv_throttle_max_s one_node_governor > 0"
    by (simp_all add: one_node_governor_def make_governor_def Let_def)
  ultimately have "sleep_for_status one_node_governor (status_from_readings one_node_governor [calm_reading] 100) \<le> 0"
    using calm_sleep [OF conf] by blast
  moreover have "before_refill 100 [calm_reading] one_node_governor = decide_from_sample 100 [calm_reading] one_node_governor"
    by (simp add: before_refill_def one_node_governor_def make_governor_def cooldown_remaining_s_def Let_def)
  ultimately show ?thesis using decide_state [of 100 "[calm_reading]" one_node_governor] by (metis prod.collapse)
qed

lemma refill_only_after_calm_sample_witness:
  "\<exists>t. last (op_sample (Gov_Refill 100 [calm_reading]) one_node_governor) = (t, []) \<and> 100 - t < gv_poll_s one_node_governor"
proof -
  obtain d g' where "before_refill 100 [calm_reading] one_node_governor = (d, g')" by fastforce
  moreover have "gv_last_sample_at one_node_governor = 0" "gv_enabled one_node_governor" "gv_throttle_step_s one_node_governor > 0"
      "gv_throttle_max_s one_node_governor > 0" "gv_poll_s one_node_governor = 2"
    by (simp_all add: one_node_governor_def make_governor_def Let_def)
  ultimately show ?thesis
    using refill_only_after_calm_sample [of "[]" one_node_governor one_node_governor "[]" 100 "[calm_reading]" d g'] one_node_decision by simp
qed

end
