(* ===== verification/Jit_Kv.thy ===== *)
theory Jit_Kv
  imports Py_Text
begin

text \<open>
  \<^verbatim>\<open>ds4_infer/jit_kv.py\<close>: the circuit breaker that stops KV prefetching after failures, and the
  prefetch itself with its ways to fail.  The runner's HTTP call is an outcome (\<open>post_outcome\<close>); the set
  of endpoints known to be disabled is passed along.
\<close>

section \<open>The circuit breaker\<close>

record jit_breaker =
  jb_enabled :: bool
  jb_window_s :: rat
  jb_min_samples :: int
  jb_failure_ratio :: rat
  jb_cooldown_s :: rat
  jb_open_until :: rat
  jb_samples :: "(rat \<times> bool) list"
  jb_submitted :: int
  jb_completed :: int
  jb_failed :: int
  jb_gate_released :: int
  jb_last_error :: "string option"

definition make_breaker :: "bool \<Rightarrow> rat \<Rightarrow> int \<Rightarrow> rat \<Rightarrow> rat \<Rightarrow> jit_breaker" where
  "make_breaker enabled window_s min_samples failure_ratio cooldown_s =
     \<lparr>jb_enabled = enabled, jb_window_s = max 1 window_s, jb_min_samples = max 1 min_samples,
      jb_failure_ratio = min 1 (max 0 failure_ratio), jb_cooldown_s = max 1 cooldown_s, jb_open_until = 0, jb_samples = [],
      jb_submitted = 0, jb_completed = 0, jb_failed = 0, jb_gate_released = 0, jb_last_error = None\<rparr>"

definition allow_prefetch :: "rat \<Rightarrow> jit_breaker \<Rightarrow> bool" where
  "allow_prefetch now b \<longleftrightarrow> \<not> jb_enabled b \<or> now \<ge> jb_open_until b"

definition record_submission :: "jit_breaker \<Rightarrow> jit_breaker" where
  "record_submission b = b\<lparr>jb_submitted := jb_submitted b + 1\<rparr>"

definition prune_samples :: "rat \<Rightarrow> jit_breaker \<Rightarrow> jit_breaker" where
  "prune_samples now b = b\<lparr>jb_samples := dropWhile (\<lambda>(ts, _). ts < now - jb_window_s b) (jb_samples b)\<rparr>"

definition sample_failure_ratio :: "(rat \<times> bool) list \<Rightarrow> rat" where
  "sample_failure_ratio xs =
     (if xs = [] then 0 else of_nat (length (filter (\<lambda>(_, success). \<not> success) xs)) / of_nat (max 1 (length xs)))"

definition record_sample :: "bool \<Rightarrow> string option \<Rightarrow> rat \<Rightarrow> jit_breaker \<Rightarrow> jit_breaker" where
  \<comment> \<open>\<^verbatim>\<open>_record\<close>\<close>
  "record_sample success error now b =
     (if \<not> jb_enabled b then b
      else
        (let b1 = b\<lparr>jb_samples := jb_samples b @ [(now, success)],
                    jb_last_error := (case error of None \<Rightarrow> jb_last_error b | Some e \<Rightarrow> if e = '''' then jb_last_error b else Some (tail_of 1000 e))\<rparr>;
             b2 = prune_samples now b1
         in if int (length (jb_samples b2)) < jb_min_samples b2 then b2
            else if sample_failure_ratio (jb_samples b2) \<ge> jb_failure_ratio b2
            then b2\<lparr>jb_open_until := max (jb_open_until b2) (now + jb_cooldown_s b2)\<rparr>
            else b2))"

definition record_success :: "rat \<Rightarrow> jit_breaker \<Rightarrow> jit_breaker" where
  "record_success now b = record_sample True None now (b\<lparr>jb_completed := jb_completed b + 1\<rparr>)"

definition record_failure :: "string option \<Rightarrow> rat \<Rightarrow> jit_breaker \<Rightarrow> jit_breaker" where
  "record_failure error now b = record_sample False error now (b\<lparr>jb_failed := jb_failed b + 1\<rparr>)"

definition record_gate_release :: "int \<Rightarrow> jit_breaker \<Rightarrow> jit_breaker" where
  "record_gate_release n b = b\<lparr>jb_gate_released := jb_gate_released b + max 0 n\<rparr>"

definition breaker_status :: "rat \<Rightarrow> jit_breaker \<Rightarrow> pydict \<times> jit_breaker" where
  "breaker_status now b =
     (let b1 = prune_samples now b; is_open = (jb_enabled b1 \<and> now < jb_open_until b1)
      in ([(''jit_kv_circuit_enabled'', JBool (jb_enabled b1)), (''jit_kv_circuit_open'', JBool is_open),
           (''jit_kv_circuit_open_until'', if is_open then JFloat (jb_open_until b1) else JNull),
           (''jit_kv_circuit_failure_ratio'', JFloat (sample_failure_ratio (jb_samples b1))),
           (''jit_kv_circuit_samples'', JInt (int (length (jb_samples b1)))),
           (''jit_kv_prefetch_submitted_count'', JInt (jb_submitted b1)), (''jit_kv_prefetch_completed_count'', JInt (jb_completed b1)),
           (''jit_kv_prefetch_failed_count'', JInt (jb_failed b1)), (''jit_kv_prefetch_gate_released_count'', JInt (jb_gate_released b1)),
           (''jit_kv_circuit_last_error'', jopt (jb_last_error b1))], b1))"

section \<open>The prefetch\<close>

definition build_prefetch_payload :: "pydict \<Rightarrow> string \<Rightarrow> int \<Rightarrow> pydict result" where
  "build_prefetch_payload payload pre max_tokens =
     bindE (dindex payload ''model'') (\<lambda>model.
       Inr ([(''model'', model), (''prompt'', JStr pre), (''max_tokens'', JInt max_tokens),
             (''temperature'', dget_or payload ''temperature'' (JInt 0)), (''stream'', JBool False)] @
            (case dget payload ''extra_body'' of JObj d \<Rightarrow> [(''extra_body'', JObj d)] | _ \<Rightarrow> [])))"

definition disable_strict_kv :: "pydict \<Rightarrow> pydict" where
  "disable_strict_kv payload =
     (let p1 = dpop ''kv_transfer_params'' payload
      in case dget p1 ''extra_body'' of
           JObj extra \<Rightarrow>
             (let extra1 = dpop ''ds4_kv_cache'' extra
              in if extra1 = [] then dpop ''extra_body'' p1 else dset ''extra_body'' (JObj extra1) p1)
         | _ \<Rightarrow> p1)"

datatype post_outcome = Responded pydict | Timed_Out_Or_OS string | Raised_Runtime string | Raised_Other string

datatype prefetch_exc = Endpoint_Disabled string | Endpoint_Unavailable string | Prefetch_Failed string

fun exc_message :: "prefetch_exc \<Rightarrow> string" where
  "exc_message (Endpoint_Disabled s) = s"
| "exc_message (Endpoint_Unavailable s) = s"
| "exc_message (Prefetch_Failed s) = s"

definition prefetch_endpoint_enabled :: "environ \<Rightarrow> bool" where
  "prefetch_endpoint_enabled env =
     env_bool env ''DS4_API_JIT_KV_PREFETCH_API'' (env_get env ''DS4_API_JIT_KV_PREFETCH_TOKEN'' '''' \<noteq> '''')"

definition or_text :: "json \<Rightarrow> json \<Rightarrow> string" where
  \<comment> \<open>\<^verbatim>\<open>str(a or b)\<close>\<close>
  "or_text a b = py_str (por a b)"

definition prefetch_endpoint_key :: "string \<Rightarrow> pydict \<Rightarrow> string" where
  "prefetch_endpoint_key base_url payload = rstrip_char (CHR ''/'') base_url @ ''|'' @ or_text (dget payload ''model'') (JStr '''')"

definition response_texts :: "pydict \<Rightarrow> string \<times> string" where
  \<comment> \<open>status and error of a response, in lower case\<close>
  "response_texts r = (lower (strip (or_text (dget r ''status'') (JStr ''''))),
     lower (strip (or_text (por (dget r ''error'') (dget r ''message'')) (JStr ''''))))"

definition response_endpoint_disabled :: "pydict \<Rightarrow> bool" where
  "response_endpoint_disabled r =
     (let (status, error) = response_texts r
      in status = ''disabled'' \<or> (contains error ''prefetch'' \<and> contains error ''disabled''))"

definition text_unavailable :: "string \<Rightarrow> bool" where
  "text_unavailable t \<longleftrightarrow> list_ex (contains t) [''timed out'', ''timeout'', ''deadline exceeded'', ''too many'', ''429'']"

definition response_endpoint_unavailable :: "pydict \<Rightarrow> bool" where
  "response_endpoint_unavailable r =
     (let (status, error) = response_texts r
      in status \<in> {''unavailable'', ''timeout'', ''timed_out'', ''too_many_requests'', ''rate_limited''} \<or>
         text_unavailable (status @ '' '' @ error))"

definition prefetch_timeout_s :: "environ \<Rightarrow> json \<Rightarrow> rat" where
  "prefetch_timeout_s env runner_timeout =
     (let raw = env_get env ''DS4_API_JIT_KV_PREFETCH_TIMEOUT_S'' '''';
          v = (if raw = '''' then 10 else case py_float (JStr raw) of Inl _ \<Rightarrow> 10 | Inr r \<Rightarrow> r);
          rt = (case py_float runner_timeout of Inl _ \<Rightarrow> v | Inr r \<Rightarrow> r)
      in max (1 / 20) (min v rt))"

definition post_prefetch ::
  "environ \<Rightarrow> string \<Rightarrow> post_outcome \<Rightarrow> pydict \<Rightarrow> string list \<Rightarrow> (prefetch_exc + pydict option) \<times> string list"
where
  \<comment> \<open>the outcome is that of the runner's call; \<open>disabled\<close> are the endpoints known to be disabled\<close>
  "post_prefetch env base_url outcome payload disabled =
     (let unavailable = (\<lambda>e. Endpoint_Unavailable (''DS4 KV prefetch endpoint unavailable for '' @ prefetch_endpoint_key base_url payload @ '': '' @ e))
      in if \<not> prefetch_endpoint_enabled env
         then (case outcome of Responded _ \<Rightarrow> Inr None | Timed_Out_Or_OS e \<Rightarrow> Inl (Prefetch_Failed e)
                 | Raised_Runtime e \<Rightarrow> Inl (Prefetch_Failed e) | Raised_Other e \<Rightarrow> Inl (Prefetch_Failed e), disabled)
         else
           (case outcome of
              Timed_Out_Or_OS e \<Rightarrow> (Inl (unavailable e), disabled)
            | Raised_Runtime e \<Rightarrow>
                (Inl (if text_unavailable (lower (strip e)) then unavailable e else Prefetch_Failed e), disabled)
            | Raised_Other e \<Rightarrow> (Inl (Prefetch_Failed e), disabled)
            | Responded r \<Rightarrow>
                (let dumped = tail_of 4000 (dumps_sorted (JObj r))
                 in if response_endpoint_disabled r
                    then (Inl (Endpoint_Disabled dumped), List.insert (prefetch_endpoint_key base_url payload) disabled)
                    else if response_endpoint_unavailable r then (Inl (Endpoint_Unavailable dumped), disabled)
                    else if dget r ''error'' \<noteq> JNull \<or> lower (or_text (dget r ''status'') (JStr '''')) \<in> {''failed'', ''error''}
                    then (Inl (Prefetch_Failed dumped), disabled)
                    else (Inr (Some r), disabled))))"

definition prefetch_result :: "pydict option \<Rightarrow> int \<Rightarrow> int \<Rightarrow> rat \<Rightarrow> pydict" where
  "prefetch_result response prefix_len max_tokens duration =
     [(''common_prefix_chars'', JInt prefix_len), (''duration_s'', JFloat duration), (''max_tokens'', JInt max_tokens),
      (''strategy'', JStr (if response \<noteq> None then ''ds4-kv-prefetch-endpoint'' else ''single-prefix-load-before-cohort''))] @
     (case response of None \<Rightarrow> []
      | Some r \<Rightarrow> [(''prefetch_status'', dget r ''status''), (''adoptable'', JBool (truthy (dget r ''adoptable''))), (''prefetch_ticket'', dget r ''prefetch_ticket'')])"

definition cold_dispatch_result :: "prefetch_exc \<Rightarrow> int \<Rightarrow> rat \<Rightarrow> string \<Rightarrow> pydict" where
  "cold_dispatch_result e prefix_len duration strategy =
     [(''common_prefix_chars'', JInt prefix_len), (''duration_s'', JFloat duration), (''strategy'', JStr strategy), (''cold_dispatch'', JBool True),
      (''error'', JStr (tail_of 1000 (exc_message e)))]"

record prefetch_state =
  pf_payload :: pydict
  pf_circuit :: "jit_breaker option"
  pf_disabled :: "string list"

definition run_prefetch ::
  "environ \<Rightarrow> string \<Rightarrow> post_outcome \<Rightarrow> pydict \<Rightarrow> int \<Rightarrow> int \<Rightarrow> rat \<Rightarrow> rat \<Rightarrow> bool \<Rightarrow> bool \<Rightarrow> prefetch_state \<Rightarrow> (prefetch_exc + pydict) \<times> prefetch_state"
where
  "run_prefetch env base_url outcome prefetch_payload prefix_len max_tokens now duration fail_open disable_kv_on_cold s =
     (let known = prefetch_endpoint_enabled env \<and> prefetch_endpoint_key base_url prefetch_payload \<in> set (pf_disabled s);
          s1 = (if known then s else s\<lparr>pf_circuit := map_option record_submission (pf_circuit s)\<rparr>);
          (posted, disabled) =
            (if known then (Inl (Endpoint_Disabled (''DS4 KV prefetch endpoint disabled for '' @ prefetch_endpoint_key base_url prefetch_payload)), pf_disabled s)
             else post_prefetch env base_url outcome prefetch_payload (pf_disabled s));
          s2 = s1\<lparr>pf_disabled := disabled\<rparr>;
          cold = (\<lambda>st. if disable_kv_on_cold then st\<lparr>pf_payload := disable_strict_kv (pf_payload st)\<rparr> else st)
      in case posted of
           Inr response \<Rightarrow>
             (Inr (prefetch_result response prefix_len max_tokens duration), s2\<lparr>pf_circuit := map_option (record_success now) (pf_circuit s2)\<rparr>)
         | Inl (Prefetch_Failed e) \<Rightarrow>
             (let s3 = s2\<lparr>pf_circuit := map_option (record_failure (Some e) now) (pf_circuit s2)\<rparr>;
                  circuit_open = (case pf_circuit s3 of None \<Rightarrow> False | Some b \<Rightarrow> \<not> allow_prefetch now b)
              in if fail_open \<or> circuit_open
                 then (Inr (cold_dispatch_result (Prefetch_Failed e) prefix_len duration
                         (if fail_open then ''jit-kv-prefetch-failed-auto-cold-dispatch'' else ''jit-kv-prefetch-failed-cold-dispatch'')), cold s3)
                 else (Inl (Prefetch_Failed e), s3))
         | Inl e \<Rightarrow>
             if fail_open
             then (Inr (cold_dispatch_result e prefix_len duration
                     (case e of Endpoint_Unavailable _ \<Rightarrow> ''jit-kv-prefetch-unavailable-auto-cold-dispatch''
                      | _ \<Rightarrow> ''jit-kv-prefetch-disabled-auto-cold-dispatch'')), cold s2)
             else (Inl e, s2))"

text \<open>
  The circuit breaker against its history: after any sequence of operations at times that do not go back, the
  circuit is open exactly if, within the last cooldown, a recorded outcome found enough failures in its window.
\<close>

section \<open>Operations and history\<close>

datatype breaker_op = Op_Submit | Op_Success rat | Op_Failure "string option" rat | Op_Release int | Op_Status rat

fun apply_breaker_op :: "breaker_op \<Rightarrow> jit_breaker \<Rightarrow> jit_breaker" where
  "apply_breaker_op Op_Submit b = record_submission b"
| "apply_breaker_op (Op_Success t) b = record_success t b"
| "apply_breaker_op (Op_Failure e t) b = record_failure e t b"
| "apply_breaker_op (Op_Release n) b = record_gate_release n b"
| "apply_breaker_op (Op_Status t) b = snd (breaker_status t b)"

definition run_breaker :: "breaker_op list \<Rightarrow> jit_breaker \<Rightarrow> jit_breaker" where
  "run_breaker ops b = foldl (\<lambda>b op. apply_breaker_op op b) b ops"

fun op_times :: "breaker_op \<Rightarrow> rat list" where
  "op_times (Op_Success t) = [t]"
| "op_times (Op_Failure e t) = [t]"
| "op_times (Op_Status t) = [t]"
| "op_times _ = []"

fun op_outcomes :: "breaker_op \<Rightarrow> (rat \<times> bool) list" where
  "op_outcomes (Op_Success t) = [(t, True)]"
| "op_outcomes (Op_Failure e t) = [(t, False)]"
| "op_outcomes _ = []"

definition history :: "breaker_op list \<Rightarrow> (rat \<times> bool) list" where
  "history ops = concat (map op_outcomes ops)"

definition outcome_window :: "rat \<Rightarrow> (rat \<times> bool) list \<Rightarrow> nat \<Rightarrow> (rat \<times> bool) list" where
  \<comment> \<open>the outcomes up to the \<open>i\<close>-th that are at most a window older\<close>
  "outcome_window window hist i = filter (\<lambda>(t, _). fst (hist ! i) - window \<le> t) (take (Suc i) hist)"

definition tripped :: "rat \<Rightarrow> int \<Rightarrow> rat \<Rightarrow> (rat \<times> bool) list \<Rightarrow> nat \<Rightarrow> bool" where
  "tripped window min_samples ratio hist i \<longleftrightarrow>
     min_samples \<le> int (length (outcome_window window hist i)) \<and> ratio \<le> sample_failure_ratio (outcome_window window hist i)"

lemma history_snoc [simp]: "history (ops @ [op]) = history ops @ op_outcomes op"
  by (simp add: history_def)

lemma run_breaker_snoc [simp]: "run_breaker (ops @ [op]) b = apply_breaker_op op (run_breaker ops b)"
  by (simp add: run_breaker_def)

lemma history_times: "set (map fst (history ops)) \<subseteq> set (concat (map op_times ops))"
proof (induction ops)
  case (Cons op ops)
  then show ?case by (cases op) (auto simp: history_def)
qed (simp add: history_def)

lemma sorted_history: "sorted (concat (map op_times ops)) \<Longrightarrow> sorted (map fst (history ops))"
proof (induction ops)
  case (Cons op ops)
  have "set (map fst (history ops)) \<subseteq> set (concat (map op_times ops))" by (rule history_times)
  then show ?case using Cons by (cases op) (auto simp: history_def)
qed (simp add: history_def)

section \<open>The invariant\<close>

text \<open>A sorted list loses by \<^verbatim>\<open>popleft\<close> exactly what is too old.\<close>

lemma dropWhile_filter_sorted:
  fixes xs :: "('a :: linorder \<times> 'b) list"
  assumes "sorted (map fst xs)" and "c \<le> d"
  shows "dropWhile (\<lambda>(t, _). t < d) (filter (\<lambda>(t, _). c \<le> t) xs) = filter (\<lambda>(t, _). d \<le> t) xs"
  using assms(1)
proof (induction xs)
  case (Cons x xs)
  obtain t s where x: "x = (t, s)" by (cases x)
  show ?case
  proof (cases "d \<le> t")
    case True
    then have "filter (\<lambda>(t, _). c \<le> t) xs = xs" "filter (\<lambda>(t, _). d \<le> t) xs = xs"
      using Cons.prems x assms(2) by (auto simp: filter_id_conv)
    then show ?thesis using True x assms(2) by (auto simp: not_less)
  next
    case False
    then show ?thesis using Cons x by (auto simp: not_le)
  qed
qed simp

definition breaker_tracks :: "jit_breaker \<Rightarrow> (rat \<times> bool) list \<Rightarrow> jit_breaker \<Rightarrow> rat \<Rightarrow> bool" where
  \<comment> \<open>the state \<open>b\<close> came from \<open>b0\<close> by \<open>hist\<close>, with all times so far at most \<open>now\<close>\<close>
  "breaker_tracks b0 hist b now \<longleftrightarrow>
     jb_enabled b = jb_enabled b0 \<and> jb_window_s b = jb_window_s b0 \<and> jb_min_samples b = jb_min_samples b0 \<and>
     jb_failure_ratio b = jb_failure_ratio b0 \<and> jb_cooldown_s b = jb_cooldown_s b0 \<and>
     (\<exists>c \<le> now - jb_window_s b0. jb_samples b = filter (\<lambda>(t, _). c \<le> t) hist) \<and>
     (\<forall>x. x < jb_open_until b \<longleftrightarrow> x < jb_open_until b0 \<or>
        (\<exists>i<length hist. tripped (jb_window_s b0) (jb_min_samples b0) (jb_failure_ratio b0) hist i \<and> x < fst (hist ! i) + jb_cooldown_s b0))"

lemma tracks_later: "breaker_tracks b0 hist b t \<Longrightarrow> t \<le> t' \<Longrightarrow> breaker_tracks b0 hist b t'"
  unfolding breaker_tracks_def by (meson diff_right_mono order_trans)

lemma tracks_counters:
  assumes "breaker_tracks b0 hist b t" and "jb_enabled b' = jb_enabled b" and "jb_window_s b' = jb_window_s b" and "jb_min_samples b' = jb_min_samples b"
    and "jb_failure_ratio b' = jb_failure_ratio b" and "jb_cooldown_s b' = jb_cooldown_s b" and "jb_samples b' = jb_samples b"
    and "jb_open_until b' = jb_open_until b"
  shows "breaker_tracks b0 hist b' t"
  using assms by (simp add: breaker_tracks_def)

lemma tracks_prune:
  assumes "breaker_tracks b0 hist b t" and "sorted (map fst hist)"
  shows "breaker_tracks b0 hist (prune_samples t b) t"
proof -
  obtain c where c: "c \<le> t - jb_window_s b0" "jb_samples b = filter (\<lambda>(t, _). c \<le> t) hist"
    using assms(1) by (auto simp: breaker_tracks_def)
  have "jb_samples (prune_samples t b) = filter (\<lambda>(u, _). t - jb_window_s b0 \<le> u) hist"
    using dropWhile_filter_sorted [OF assms(2) c(1)] c(2) assms(1) by (simp add: prune_samples_def breaker_tracks_def)
  then show ?thesis using assms(1) unfolding breaker_tracks_def by (auto simp: prune_samples_def)
qed

lemma tripped_append: "i < length hist \<Longrightarrow> tripped w m r (hist @ xs) i = tripped w m r hist i"
  by (simp add: tripped_def outcome_window_def nth_append)

lemma tracks_record:
  assumes inv: "breaker_tracks b0 hist b t" and "jb_enabled b0" and sorted: "sorted (map fst (hist @ [(t, ok)]))"
  shows "breaker_tracks b0 (hist @ [(t, ok)]) (record_sample ok e t b) t"
proof -
  let ?hist = "hist @ [(t, ok)]"
  obtain c where c: "c \<le> t - jb_window_s b0" "jb_samples b = filter (\<lambda>(t, _). c \<le> t) hist"
    using inv by (auto simp: breaker_tracks_def)
  define b1 where "b1 = b\<lparr>jb_samples := jb_samples b @ [(t, ok)],
      jb_last_error := (case e of None \<Rightarrow> jb_last_error b | Some m \<Rightarrow> if m = '''' then jb_last_error b else Some (tail_of 1000 m))\<rparr>"
  define b2 where "b2 = prune_samples t b1"
  have conf: "jb_enabled b = jb_enabled b0" "jb_window_s b = jb_window_s b0" "jb_min_samples b = jb_min_samples b0"
      "jb_failure_ratio b = jb_failure_ratio b0" "jb_cooldown_s b = jb_cooldown_s b0" using inv by (auto simp: breaker_tracks_def)
  have conf2: "jb_enabled b2 = jb_enabled b0" "jb_window_s b2 = jb_window_s b0" "jb_min_samples b2 = jb_min_samples b0"
      "jb_failure_ratio b2 = jb_failure_ratio b0" "jb_cooldown_s b2 = jb_cooldown_s b0" "jb_open_until b2 = jb_open_until b"
    using conf by (simp_all add: b2_def b1_def prune_samples_def)
  have win: "jb_samples b2 = outcome_window (jb_window_s b0) ?hist (length hist)"
  proof (cases "c \<le> t")
    case True
    then have "jb_samples b1 = filter (\<lambda>(t, _). c \<le> t) ?hist" using c(2) by (simp add: b1_def)
    then show ?thesis using dropWhile_filter_sorted [OF sorted c(1)] conf by (simp add: b2_def prune_samples_def b1_def outcome_window_def)
  next
    case False
    then have "filter (\<lambda>(u, _). c \<le> u) hist = []" "filter (\<lambda>(u, _). t - jb_window_s b0 \<le> u) hist = []"
      using sorted c(1) by (auto simp: sorted_append filter_empty_conv)
    then show ?thesis using c(2) conf by (auto simp: b2_def b1_def prune_samples_def outcome_window_def)
  qed
  have rec: "record_sample ok e t b = (if tripped (jb_window_s b0) (jb_min_samples b0) (jb_failure_ratio b0) ?hist (length hist)
      then b2\<lparr>jb_open_until := max (jb_open_until b2) (t + jb_cooldown_s b0)\<rparr> else b2)"
    using assms(2) conf conf2 win
    by (auto simp: record_sample_def b1_def [symmetric] b2_def [symmetric] tripped_def Let_def)
  have open2: "x < jb_open_until b2 \<longleftrightarrow> x < jb_open_until b0 \<or>
      (\<exists>i<length hist. tripped (jb_window_s b0) (jb_min_samples b0) (jb_failure_ratio b0) ?hist i \<and> x < fst (?hist ! i) + jb_cooldown_s b0)" for x
    using inv unfolding conf2(6) by (auto simp: breaker_tracks_def tripped_append nth_append)
  show ?thesis
    unfolding breaker_tracks_def
  proof (intro conjI)
    show "\<exists>c\<le>t - jb_window_s b0. jb_samples (record_sample ok e t b) = filter (\<lambda>(t, _). c \<le> t) ?hist"
      using win by (intro exI [of _ "t - jb_window_s b0"]) (simp add: rec outcome_window_def)
    show "\<forall>x. x < jb_open_until (record_sample ok e t b) \<longleftrightarrow> x < jb_open_until b0 \<or>
      (\<exists>i<length ?hist. tripped (jb_window_s b0) (jb_min_samples b0) (jb_failure_ratio b0) ?hist i \<and> x < fst (?hist ! i) + jb_cooldown_s b0)"
      using open2 by (auto simp: rec less_Suc_eq less_max_iff_disj)
  qed (simp_all add: rec conf2)
qed

lemma run_breaker_tracks:
  assumes "jb_enabled b0" and "jb_samples b0 = []" and "sorted (concat (map op_times ops))" and "\<forall>u \<in> set (concat (map op_times ops)). u \<le> t"
  shows "breaker_tracks b0 (history ops) (run_breaker ops b0) t"
  using assms(3,4)
proof (induction ops arbitrary: t rule: rev_induct)
  case Nil
  have "\<exists>c\<le>t - jb_window_s b0. True" by blast
  then show ?case using assms(2) by (auto simp: breaker_tracks_def run_breaker_def history_def)
next
  case (snoc op ops)
  have s: "sorted (concat (map op_times ops))" "sorted (map fst (history (ops @ [op])))"
    using snoc.prems sorted_history [of "ops @ [op]"] by (auto simp: sorted_append)
  have old: "breaker_tracks b0 (history ops) (run_breaker ops b0) t" by (rule snoc.IH) (use snoc.prems s in auto)
  have past: "breaker_tracks b0 (history ops) (run_breaker ops b0) u" "u \<le> t" if "op_times op = [u]" for u
    using snoc.prems that by (auto intro!: snoc.IH simp: sorted_append)
  show ?case
  proof (cases op)
    case Op_Submit
    then show ?thesis using old by (auto simp: record_submission_def intro: tracks_counters)
  next
    case (Op_Release n)
    then show ?thesis using old by (auto simp: record_gate_release_def intro: tracks_counters)
  next
    case (Op_Status u)
    then have "breaker_tracks b0 (history ops) (prune_samples u (run_breaker ops b0)) u"
      using past [of u] s sorted_history by (intro tracks_prune) auto
    then show ?thesis using Op_Status past [of u] by (auto simp: breaker_status_def Let_def intro: tracks_later)
  next
    case (Op_Success u)
    have "breaker_tracks b0 (history ops) ((run_breaker ops b0)\<lparr>jb_completed := jb_completed (run_breaker ops b0) + 1\<rparr>) u"
      using past(1) [of u] Op_Success by (auto intro: tracks_counters)
    then have "breaker_tracks b0 (history ops @ [(u, True)]) (record_success u (run_breaker ops b0)) u"
      unfolding record_success_def by (rule tracks_record [OF _ assms(1)]) (use s(2) Op_Success in simp)
    then show ?thesis using past(2) [of u] Op_Success by (auto intro: tracks_later)
  next
    case (Op_Failure e u)
    have "breaker_tracks b0 (history ops) ((run_breaker ops b0)\<lparr>jb_failed := jb_failed (run_breaker ops b0) + 1\<rparr>) u"
      using past(1) [of u] Op_Failure by (auto intro: tracks_counters)
    then have "breaker_tracks b0 (history ops @ [(u, False)]) (record_failure e u (run_breaker ops b0)) u"
      unfolding record_failure_def by (rule tracks_record [OF _ assms(1)]) (use s(2) Op_Failure in simp)
    then show ?thesis using past(2) [of u] Op_Failure by (auto intro: tracks_later)
  qed
qed

text \<open>C40. An enabled breaker, after any operations at times that do not go back, refuses a prefetch exactly while some
  recorded outcome of the last cooldown found at least \<open>min_samples\<close> outcomes in its window, of which at least the
  given ratio had failed.\<close>
theorem circuit_open_iff:
  fixes w r cd :: rat and m :: int
  defines "b0 \<equiv> make_breaker True w m r cd"
  assumes "sorted (concat (map op_times ops))" and "0 \<le> now"
  shows "\<not> allow_prefetch now (run_breaker ops b0) \<longleftrightarrow>
    (\<exists>i<length (history ops). tripped (max 1 w) (max 1 m) (min 1 (max 0 r)) (history ops) i \<and> now < fst (history ops ! i) + max 1 cd)"
proof -
  obtain t where t: "\<forall>u \<in> set (concat (map op_times ops)). u \<le> t"
    by (metis finite_set list.set_finite Max_ge)
  have "breaker_tracks b0 (history ops) (run_breaker ops b0) t"
    by (rule run_breaker_tracks [OF _ _ assms(2) t]) (simp_all add: b0_def make_breaker_def)
  then have "jb_enabled (run_breaker ops b0)" and "now < jb_open_until (run_breaker ops b0) \<longleftrightarrow> now < jb_open_until b0 \<or>
      (\<exists>i<length (history ops). tripped (jb_window_s b0) (jb_min_samples b0) (jb_failure_ratio b0) (history ops) i \<and> now < fst (history ops ! i) + jb_cooldown_s b0)"
    by (simp_all add: breaker_tracks_def b0_def make_breaker_def)
  then show ?thesis using assms(3) by (simp add: allow_prefetch_def b0_def make_breaker_def not_le)
qed

lemma circuit_open_iff_witness:
  "\<not> allow_prefetch 100 (run_breaker [Op_Submit, Op_Success 1, Op_Failure None 2, Op_Status 2] (make_breaker True 60 2 (1 / 2) 120))"
proof -
  let ?ops = "[Op_Submit, Op_Success 1, Op_Failure None 2, Op_Status 2]"
  have "tripped (max 1 60) (max 1 2) (min 1 (max 0 (1 / 2))) (history ?ops) 1"
    by (simp add: history_def tripped_def outcome_window_def sample_failure_ratio_def)
  then show ?thesis
    using circuit_open_iff [of ?ops 100 60 2 "1 / 2" 120] by (force simp: history_def)
qed

end
