(* ===== verification/Dispatcher.thy ===== *)
theory Dispatcher
  imports Topology Queue_Ready Py_Text Json_Parse
begin

text \<open>
  \<^verbatim>\<open>ds4_infer/dispatcher_resident.py\<close>: the cohorts of claims the dispatcher has under way, and
  the plan of every resident pipeline service: its targets, watermarks and weight, and the order in which services
  are refilled.  A cohort has one clock reading per operation; its lock makes each operation one step.
\<close>

section \<open>Cohorts under way\<close>

record pending_cohort =
  pc_claims :: "queue_claim list"
  pc_unfinished :: "string list"
  pc_service_id :: "string option"
  pc_profile_id :: "string option"
  pc_compute_domain :: "string option"
  pc_admission_mode :: string
  pc_initial_count :: int
  pc_claimed_count :: int
  pc_finished_count :: int
  pc_submitted_at :: rat
  pc_last_finished_at :: "rat option"

definition cohort_from_claims :: "queue_claim list \<Rightarrow> string \<Rightarrow> rat \<Rightarrow> pending_cohort" where
  "cohort_from_claims claims admission_mode now =
     \<lparr>pc_claims = claims, pc_unfinished = remdups (map qc_request_id claims),
      pc_service_id = (case claims of [] \<Rightarrow> None | c # _ \<Rightarrow> qc_service_id c),
      pc_profile_id = (case claims of [] \<Rightarrow> None | c # _ \<Rightarrow> Some (qc_profile_id c)),
      pc_compute_domain = (case claims of [] \<Rightarrow> None | c # _ \<Rightarrow> qc_compute_domain c),
      pc_admission_mode = (if admission_mode = '''' then ''cohort'' else admission_mode), pc_initial_count = int (length claims),
      pc_claimed_count = int (length claims), pc_finished_count = 0, pc_submitted_at = now, pc_last_finished_at = None\<rparr>"

definition mark_finished :: "string \<Rightarrow> rat \<Rightarrow> pending_cohort \<Rightarrow> pending_cohort" where
  "mark_finished rid now c =
     (let left = removeAll rid (pc_unfinished c)
      in if length left = length (pc_unfinished c) then c
         else c\<lparr>pc_unfinished := left, pc_finished_count := pc_finished_count c + 1, pc_last_finished_at := Some now\<rparr>)"

definition active_count :: "pending_cohort \<Rightarrow> int" where
  "active_count c = int (length (pc_unfinished c))"

definition batch_active :: "pending_cohort \<Rightarrow> bool" where
  "batch_active c \<longleftrightarrow> pc_unfinished c \<noteq> [] \<or> lower (pc_admission_mode c) = ''rolling_refill'' \<and> pc_initial_count c > 0"

definition active_claims :: "pending_cohort \<Rightarrow> queue_claim list" where
  "active_claims c = filter (\<lambda>q. qc_request_id q \<in> set (pc_unfinished c)) (pc_claims c)"

definition round3 :: "rat \<Rightarrow> rat" where
  "round3 r =
     (let x = r * 1000; f = \<lfloor>x\<rfloor>; d = x - of_int f
      in of_int (if d < 1 / 2 then f else if d > 1 / 2 then f + 1 else if even f then f else f + 1) / 1000)"

definition cohort_status :: "rat \<Rightarrow> pending_cohort \<Rightarrow> pydict" where
  "cohort_status now c =
     [(''service_id'', jopt (pc_service_id c)), (''profile_id'', jopt (pc_profile_id c)), (''compute_domain'', jopt (pc_compute_domain c)),
      (''admission_mode'', JStr (pc_admission_mode c)), (''initial_count'', JInt (pc_initial_count c)), (''claimed_count'', JInt (pc_claimed_count c)),
      (''initial_unfinished_count'', JInt (active_count c)), (''active_count'', JInt (active_count c)), (''batch_active'', JBool (batch_active c)),
      (''finished_count'', JInt (pc_finished_count c)), (''age_s'', JFloat (round3 (max 0 (now - pc_submitted_at c)))),
      (''last_finished_age_s'', case pc_last_finished_at c of None \<Rightarrow> JNull | Some t \<Rightarrow> JFloat (round3 (max 0 (now - t))))]"

text \<open>The values of the \<^verbatim>\<open>pending\<close> dict: cohorts, or plain lists of claims.\<close>

datatype pending_value = Cohort pending_cohort | Claims "queue_claim list"

fun cohort_of :: "rat \<Rightarrow> pending_value \<Rightarrow> pending_cohort" where
  "cohort_of now (Cohort c) = c"
| "cohort_of now (Claims cs) = cohort_from_claims cs ''cohort'' now"

definition pending_claims :: "rat \<Rightarrow> pending_value list \<Rightarrow> queue_claim list" where
  "pending_claims now pending = concat (map (active_claims \<circ> cohort_of now) pending)"

definition pending_claim_count :: "rat \<Rightarrow> pending_value list \<Rightarrow> int" where
  "pending_claim_count now pending = sum_list (map (active_count \<circ> cohort_of now) pending)"

definition add_count :: "string \<Rightarrow> int \<Rightarrow> (string \<times> int) list \<Rightarrow> (string \<times> int) list" where
  "add_count k n d = dset k ((case map_of d k of None \<Rightarrow> 0 | Some m \<Rightarrow> m) + n) d"

definition text_of :: "string option \<Rightarrow> string \<Rightarrow> string" where
  \<comment> \<open>\<^verbatim>\<open>str(a or b)\<close>\<close>
  "text_of a b = (case a of None \<Rightarrow> b | Some s \<Rightarrow> if s = '''' then b else s)"

definition pending_claim_count_by_service :: "rat \<Rightarrow> pending_value list \<Rightarrow> (string \<times> int) list" where
  "pending_claim_count_by_service now pending =
     foldl (\<lambda>d c. add_count (text_of (pc_service_id c) ''_unknown'') (active_count c) d) [] (map (cohort_of now) pending)"

definition active_batches_by :: "(pending_cohort \<Rightarrow> string option) \<Rightarrow> rat \<Rightarrow> pending_value list \<Rightarrow> (string \<times> int) list" where
  "active_batches_by f now pending =
     foldl (\<lambda>d c. if \<not> batch_active c \<or> text_of (f c) '''' = '''' then d else add_count (text_of (f c) '''') 1 d) []
       (map (cohort_of now) pending)"

definition pending_cohort_count_by_compute_domain :: "rat \<Rightarrow> pending_value list \<Rightarrow> (string \<times> int) list" where
  "pending_cohort_count_by_compute_domain = active_batches_by pc_compute_domain"

definition pending_cohort_count_by_service :: "rat \<Rightarrow> pending_value list \<Rightarrow> (string \<times> int) list" where
  "pending_cohort_count_by_service = active_batches_by pc_service_id"

definition pending_cohort_details :: "rat \<Rightarrow> pending_value list \<Rightarrow> pydict list" where
  "pending_cohort_details now pending = map (cohort_status now \<circ> cohort_of now) pending"

section \<open>Plans of the resident services\<close>

record resident_plan =
  rp_service_id :: string
  rp_profile_id :: string
  rp_compute_domain :: string
  rp_target_active :: int
  rp_queue_depth_target :: int
  rp_low_watermark :: int
  rp_max_cohort_size :: int
  rp_max_cohort_tokens :: int
  rp_batch_linger_s :: rat
  rp_decode_token_reserve :: int
  rp_max_domain_batches :: int
  rp_max_service_batches :: int
  rp_initial_cohort_min :: int
  rp_initial_cohort_timeout_s :: rat
  rp_large_threshold :: int
  rp_shape_bucketing :: bool
  rp_shape_lookahead :: int
  rp_weight :: rat
  rp_admission_mode :: string
  rp_deficit :: rat
  rp_submitted_count :: int
  rp_completed_count :: int
  rp_last_claimed_count :: int
  rp_last_claimed_at :: rat

definition credit :: "rat \<Rightarrow> resident_plan \<Rightarrow> resident_plan" where
  "credit elapsed_s p =
     p\<lparr>rp_deficit := min (of_int (rp_target_active p) * 4)
        (rp_deficit p + max 0 elapsed_s * max (1 / 100) (rp_weight p) * of_int (max 1 (rp_target_active p)))\<rparr>"

definition charge :: "int \<Rightarrow> rat \<Rightarrow> resident_plan \<Rightarrow> resident_plan" where
  "charge n now p =
     (let k = max 0 n
      in p\<lparr>rp_deficit := rp_deficit p - of_int k, rp_submitted_count := rp_submitted_count p + k,
           rp_last_claimed_count := k, rp_last_claimed_at := now\<rparr>)"

fun first_set :: "pydict \<Rightarrow> string list \<Rightarrow> json option" where
  \<comment> \<open>the first of the keys whose value is not None\<close>
  "first_set d [] = None"
| "first_set d (k # ks) = (if dget d k = JNull then first_set d ks else Some (dget d k))"

definition scheduler_int :: "pipeline_service \<Rightarrow> string list \<Rightarrow> int \<Rightarrow> int result" where
  "scheduler_int sv ks d = (case first_set (sv_scheduler sv) ks of None \<Rightarrow> Inr d | Some v \<Rightarrow> py_int v)"

definition scheduler_float :: "pipeline_service \<Rightarrow> string list \<Rightarrow> rat \<Rightarrow> rat result" where
  "scheduler_float sv ks d = (case first_set (sv_scheduler sv) ks of None \<Rightarrow> Inr d | Some v \<Rightarrow> py_float v)"

definition scheduler_linger :: "pipeline_service \<Rightarrow> rat \<Rightarrow> rat result" where
  "scheduler_linger sv d = (case dget (sv_scheduler sv) ''batch_linger_s'' of JNull \<Rightarrow> Inr d | v \<Rightarrow> py_float v)"

definition override_of :: "pipeline_service \<Rightarrow> (string \<times> 'a) list \<Rightarrow> 'a \<Rightarrow> 'a" where
  \<comment> \<open>\<^verbatim>\<open>d.get(service_id, d.get(profile_id, default))\<close>\<close>
  "override_of sv d v =
     (case map_of d (sv_service_id sv) of Some x \<Rightarrow> x
      | None \<Rightarrow> (case map_of d (sv_profile_id sv) of Some x \<Rightarrow> x | None \<Rightarrow> v))"

record service_env =
  se_weights :: "(string \<times> rat) list"
  se_targets :: "(string \<times> int) list"
  se_queue_targets :: "(string \<times> int) list"
  se_lows :: "(string \<times> int) list"
  se_cohort_sizes :: "(string \<times> int) list"
  se_token_limits :: "(string \<times> int) list"
  se_linger :: "(string \<times> rat) list"
  se_admission_modes :: "(string \<times> string) list"
  se_default_admission_mode :: string

definition plan_admission_mode :: "service_env \<Rightarrow> pipeline_service \<Rightarrow> string" where
  "plan_admission_mode e sv =
     override_of sv (se_admission_modes e)
       (if se_default_admission_mode e \<noteq> '''' then se_default_admission_mode e
        else py_str (por (dget (sv_scheduler sv) ''admission_mode'') (JStr ''resident_multimodel_weighted_deficit'')))"

definition resident_service_plan :: "service_env \<Rightarrow> rat \<Rightarrow> pipeline_service \<Rightarrow> resident_plan result" where
  "resident_service_plan e default_linger sv =
     bindE (pipeline_service_batch_limit sv) (\<lambda>limit.
     bindE (scheduler_int sv [''target_active'', ''resident_target_active'', ''dispatch_batch_limit'', ''max_dispatch_cohort''] limit) (\<lambda>target_default.
     let target = max 1 (override_of sv (se_targets e) target_default) in
     bindE (scheduler_int sv [''queue_depth_target'', ''vllm_queue_depth_target'', ''submit_queue_depth_target''] target) (\<lambda>queue_default.
     let queue_target = max target (override_of sv (se_queue_targets e) queue_default) in
     bindE (py_int (por (dget (sv_scheduler sv) ''refill_low_watermark'') (JInt 0))) (\<lambda>low_default.
     let low0 = override_of sv (se_lows e) low_default;
         low = (if low0 \<le> 0 then max 1 (trunc_rat (of_int queue_target * (3 / 4))) else low0) in
     bindE (scheduler_int sv [''dispatch_batch_limit'', ''max_dispatch_cohort'', ''queue_depth_target'', ''vllm_queue_depth_target''] limit) (\<lambda>cohort_default.
     bindE (scheduler_int sv [''dispatch_token_limit'', ''max_dispatch_tokens'', ''vllm_max_num_batched_tokens'', ''max_num_batched_tokens''] 0) (\<lambda>tokens_default.
     bindE (scheduler_int sv [''dispatch_decode_token_reserve'', ''decode_token_reserve'', ''vllm_decode_token_reserve''] 0) (\<lambda>reserve.
     bindE (scheduler_int sv [''max_running_batches_per_compute_domain''] 0) (\<lambda>domain_batches.
     bindE (scheduler_int sv [''max_running_batches_per_service'', ''max_running_same_service_batches''] 0) (\<lambda>service_batches.
     bindE (scheduler_int sv [''initial_cohort_min'', ''min_initial_cohort_size'', ''initial_dispatch_min''] 0) (\<lambda>initial_min.
     bindE (scheduler_float sv [''initial_cohort_timeout_s'', ''cohort_fill_timeout_s'', ''min_initial_cohort_timeout_s''] 0) (\<lambda>initial_timeout.
     bindE (scheduler_int sv [''large_request_token_threshold'', ''initial_cohort_large_request_token_threshold''] 0) (\<lambda>large.
     bindE (scheduler_linger sv default_linger) (\<lambda>linger_default.
     bindE (scheduler_int sv [''ready_shape_lookahead''] 1) (\<lambda>lookahead.
     bindE (override_of sv (map (\<lambda>(k, w). (k, Inr w)) (se_weights e)) (py_float (por (dget (sv_scheduler sv) ''resident_weight'') (JFloat 1)))) (\<lambda>weight.
       Inr \<lparr>rp_service_id = sv_service_id sv, rp_profile_id = sv_profile_id sv, rp_compute_domain = sv_compute_domain sv,
            rp_target_active = target, rp_queue_depth_target = queue_target, rp_low_watermark = min queue_target (max 1 low),
            rp_max_cohort_size = max 1 (override_of sv (se_cohort_sizes e) cohort_default),
            rp_max_cohort_tokens = max 0 (override_of sv (se_token_limits e) tokens_default),
            rp_batch_linger_s = max 0 (override_of sv (se_linger e) linger_default),
            rp_decode_token_reserve = max 0 reserve, rp_max_domain_batches = max 0 domain_batches, rp_max_service_batches = max 0 service_batches,
            rp_initial_cohort_min = max 0 initial_min, rp_initial_cohort_timeout_s = max 0 initial_timeout, rp_large_threshold = max 0 large,
            rp_shape_bucketing = truthy (dget_or (sv_scheduler sv) ''ready_shape_bucketing'' (JBool False)),
            rp_shape_lookahead = max 1 lookahead, rp_weight = max (1 / 100) weight, rp_admission_mode = plan_admission_mode e sv,
            rp_deficit = 0, rp_submitted_count = 0, rp_completed_count = 0, rp_last_claimed_count = 0, rp_last_claimed_at = 0\<rparr>)))))))))))))))"

section \<open>The environment and the set of plans\<close>

definition json_env :: "environ \<Rightarrow> string \<Rightarrow> pydict" where
  "json_env env name =
     (let raw = env_get env name '''' in if raw = '''' then [] else case json_loads raw of Some (JObj d) \<Rightarrow> d | _ \<Rightarrow> [])"

definition json_int_env :: "environ \<Rightarrow> string \<Rightarrow> (string \<times> int) list" where
  "json_int_env env name = concat (map (\<lambda>(k, v). case py_int v of Inr i \<Rightarrow> [(k, i)] | Inl _ \<Rightarrow> []) (json_env env name))"

definition json_float_env :: "environ \<Rightarrow> string \<Rightarrow> (string \<times> rat) list" where
  "json_float_env env name = concat (map (\<lambda>(k, v). case py_float v of Inr r \<Rightarrow> [(k, r)] | Inl _ \<Rightarrow> []) (json_env env name))"

definition json_str_env :: "environ \<Rightarrow> string \<Rightarrow> (string \<times> string) list" where
  "json_str_env env name = concat (map (\<lambda>(k, v). let t = strip (py_str v) in if t = '''' then [] else [(k, t)]) (json_env env name))"

definition parse_service_ids :: "string \<Rightarrow> string list" where
  "parse_service_ids raw =
     filter (\<lambda>w. w \<noteq> '''') (map strip (split_on (CHR '','') (map (\<lambda>c. if c = CHR '';'' then CHR '','' else c) raw)))"

definition active_resident_service_ids :: "environ \<Rightarrow> spark_topology \<Rightarrow> string list option" where
  "active_resident_service_ids env tp =
     (let raw_env = (if env_get env ''DS4_API_RESIDENT_SERVICE_IDS'' '''' \<noteq> '''' then env_get env ''DS4_API_RESIDENT_SERVICE_IDS'' ''''
                     else env_get env ''DS4_API_ACTIVE_RESIDENT_SERVICES'' '''')
      in if raw_env \<noteq> '''' then Some (parse_service_ids raw_env)
         else case dget (tp_routing_policy tp) ''active_resident_service_ids'' of
           JStr s \<Rightarrow> Some (parse_service_ids s)
         | JArr xs \<Rightarrow> Some (filter (\<lambda>s. s \<noteq> '''') (map py_str xs))
         | _ \<Rightarrow> None)"

definition service_environment :: "environ \<Rightarrow> service_env" where
  "service_environment env =
     (let n = (\<lambda>s. ''DS4_API_SERVICE_'' @ s)
      in \<lparr>se_weights = json_float_env env (n ''WEIGHTS_JSON''), se_targets = json_int_env env (n ''TARGETS_JSON''),
          se_queue_targets = json_int_env env (n ''QUEUE_DEPTH_TARGETS_JSON''), se_lows = json_int_env env (n ''LOW_WATERMARKS_JSON''),
          se_cohort_sizes = json_int_env env (n ''MAX_COHORTS_JSON''), se_token_limits = json_int_env env (n ''TOKEN_LIMITS_JSON''),
          se_linger = json_float_env env (n ''LINGER_JSON''), se_admission_modes = json_str_env env (n ''ADMISSION_MODES_JSON''),
          se_default_admission_mode =
            (if env_get env (n ''ADMISSION_MODE'') '''' \<noteq> '''' then env_get env (n ''ADMISSION_MODE'') ''''
             else env_get env ''DS4_API_RESIDENT_ADMISSION_MODE'' '''')\<rparr>)"

definition resident_service_plans :: "environ \<Rightarrow> spark_topology \<Rightarrow> string \<Rightarrow> rat \<Rightarrow> (resident_plan list) result" where
  \<comment> \<open>the dict by service id: the services of a topology have distinct ids\<close>
  "resident_service_plans env tp entry_node_id default_linger =
     (let active = active_resident_service_ids env tp;
          chosen = filter (\<lambda>sv. sv_entry_node_id sv = entry_node_id \<and>
             (case active of None \<Rightarrow> True | Some ids \<Rightarrow> sv_service_id sv \<in> set ids)) (tp_services tp)
      in mapE (resident_service_plan (service_environment env) default_linger) chosen)"

definition active_of :: "(string \<times> int) list \<Rightarrow> resident_plan \<Rightarrow> int" where
  "active_of active_by_service p = (case map_of active_by_service (rp_service_id p) of None \<Rightarrow> 0 | Some n \<Rightarrow> n)"

definition order_key :: "(string \<times> int) list \<Rightarrow> resident_plan \<Rightarrow> rat \<times> rat \<times> rat \<times> string" where
  "order_key active_by_service p =
     (let active = active_of active_by_service p
      in (if active < rp_low_watermark p then 0 else 1, of_int active / of_int (max 1 (rp_queue_depth_target p)), - rp_deficit p, rp_service_id p))"

definition key_less :: "rat \<times> rat \<times> rat \<times> string \<Rightarrow> rat \<times> rat \<times> rat \<times> string \<Rightarrow> bool" where
  "key_less = (\<lambda>(a, b, c, d) (a', b', c', d'). a < a' \<or> a = a' \<and> (b < b' \<or> b = b' \<and> (c < c' \<or> c = c' \<and> d < d')))"

fun insert_plan :: "(string \<times> int) list \<Rightarrow> resident_plan \<Rightarrow> resident_plan list \<Rightarrow> resident_plan list" where
  "insert_plan act p [] = [p]"
| "insert_plan act p (q # qs) = (if key_less (order_key act q) (order_key act p) then q # insert_plan act p qs else p # q # qs)"

definition resident_service_order :: "resident_plan list \<Rightarrow> (string \<times> int) list \<Rightarrow> resident_plan list" where
  \<comment> \<open>\<^verbatim>\<open>sorted\<close> by the key, stable\<close>
  "resident_service_order plans act = foldr (insert_plan act) plans []"

definition plan_uses_rolling_admission :: "resident_plan \<Rightarrow> bool" where
  "plan_uses_rolling_admission p \<longleftrightarrow> lower (rp_admission_mode p) \<in> {''resident_multimodel_rolling_refill'', ''rolling_refill'', ''rolling''}"

end
