(* ===== verification/Dispatcher_Claims.thy ===== *)
theory Dispatcher_Claims
  imports Dispatcher
begin

text \<open>
  Cohorts count what they hold, plans keep to their bounds, and services below their watermark are refilled first.
\<close>

section \<open>Cohorts\<close>

definition cohort_ok :: "pending_cohort \<Rightarrow> bool" where
  \<comment> \<open>a cohort of claims of distinct requests\<close>
  "cohort_ok c \<longleftrightarrow> distinct (map qc_request_id (pc_claims c)) \<and> distinct (pc_unfinished c) \<and>
     set (pc_unfinished c) \<subseteq> qc_request_id ` set (pc_claims c) \<and>
     pc_finished_count c + active_count c = pc_initial_count c \<and> pc_initial_count c = int (length (pc_claims c))"

lemma cohort_from_claims_ok:
  "distinct (map qc_request_id claims) \<Longrightarrow> cohort_ok (cohort_from_claims claims mode now)"
  by (simp add: cohort_ok_def cohort_from_claims_def active_count_def distinct_remdups_id)

lemma mark_finished_ok:
  assumes "cohort_ok c"
  shows "cohort_ok (mark_finished rid now c)"
proof (cases "rid \<in> set (pc_unfinished c)")
  case True
  have "length (removeAll rid (pc_unfinished c)) = length (pc_unfinished c) - 1"
    using assms True by (simp add: cohort_ok_def distinct_remove1_removeAll [symmetric] length_remove1)
  moreover have "0 < length (pc_unfinished c)" using True by (cases "pc_unfinished c") auto
  ultimately show ?thesis using assms by (auto simp: cohort_ok_def mark_finished_def active_count_def Let_def distinct_removeAll)
next
  case False
  then have "removeAll rid (pc_unfinished c) = pc_unfinished c" by (metis removeAll_id)
  then show ?thesis using assms by (simp add: mark_finished_def)
qed

lemma active_claims_length:
  assumes "cohort_ok c"
  shows "int (length (active_claims c)) = active_count c"
proof -
  have "distinct (map qc_request_id (active_claims c))" using assms by (simp add: active_claims_def cohort_ok_def distinct_map_filter)
  from distinct_card [OF this]
  have "length (active_claims c) = card (set (map qc_request_id (active_claims c)))" by simp
  also have "set (map qc_request_id (active_claims c)) = set (pc_unfinished c)"
    using assms by (auto simp: active_claims_def cohort_ok_def)
  also have "card (set (pc_unfinished c)) = length (pc_unfinished c)" using assms by (simp add: cohort_ok_def distinct_card)
  finally show ?thesis by (simp add: active_count_def)
qed

lemma pending_count_is_claims:
  assumes "list_all (\<lambda>v. cohort_ok (cohort_of now v)) pending"
  shows "pending_claim_count now pending = int (length (pending_claims now pending))"
  using assms by (induction pending) (auto simp: pending_claim_count_def pending_claims_def active_claims_length)

section \<open>Plans\<close>

definition plan_ok :: "resident_plan \<Rightarrow> bool" where
  "plan_ok p \<longleftrightarrow> 1 \<le> rp_target_active p \<and> rp_target_active p \<le> rp_queue_depth_target p \<and> 1 \<le> rp_low_watermark p \<and>
     rp_low_watermark p \<le> rp_queue_depth_target p \<and> 1 \<le> rp_max_cohort_size p \<and> 0 \<le> rp_max_cohort_tokens p \<and> 0 \<le> rp_batch_linger_s p \<and>
     0 \<le> rp_decode_token_reserve p \<and> 0 \<le> rp_max_domain_batches p \<and> 0 \<le> rp_max_service_batches p \<and> 0 \<le> rp_initial_cohort_min p \<and>
     0 \<le> rp_initial_cohort_timeout_s p \<and> 0 \<le> rp_large_threshold p \<and> 1 \<le> rp_shape_lookahead p \<and> 1 / 100 \<le> rp_weight p \<and>
     rp_deficit p \<le> 4 * of_int (rp_target_active p)"

lemma resident_service_plan_ok:
  assumes "resident_service_plan e linger sv = Inr p"
  shows "plan_ok p \<and> rp_service_id p = sv_service_id sv \<and> rp_compute_domain p = sv_compute_domain sv"
proof -
  have q: "1 \<le> max (max 1 a) b" "max 1 a \<le> max (max 1 a) b" for a b :: int by (simp_all add: le_max_iff_disj)
  show ?thesis using assms unfolding resident_service_plan_def Let_def bindE_eq_Inr
    by (elim exE conjE) (simp only: sum.inject, hypsubst, simp add: plan_ok_def q)
qed

lemma credit_ok: "plan_ok p \<Longrightarrow> plan_ok (credit t p)"
  by (simp add: plan_ok_def credit_def)

lemma charge_ok: "plan_ok p \<Longrightarrow> plan_ok (charge n now p)"
  by (auto simp: plan_ok_def charge_def Let_def)

lemma credit_gains:
  assumes "plan_ok p" and "0 \<le> t"
  shows "rp_deficit p \<le> rp_deficit (credit t p)"
  using assms by (auto simp: plan_ok_def credit_def)

datatype plan_op = Credit rat | Charge int rat

fun apply_plan_op :: "plan_op \<Rightarrow> resident_plan \<Rightarrow> resident_plan" where
  "apply_plan_op (Credit t) p = credit t p"
| "apply_plan_op (Charge n now) p = charge n now p"

definition run_plan :: "plan_op list \<Rightarrow> resident_plan \<Rightarrow> resident_plan" where
  "run_plan ops p = foldl (\<lambda>p op. apply_plan_op op p) p ops"

lemma run_plan_ok: "plan_ok p \<Longrightarrow> plan_ok (run_plan ops p)"
  unfolding run_plan_def
proof (induction ops arbitrary: p)
  case (Cons op ops)
  then show ?case by (cases op) (auto simp: credit_ok charge_ok)
qed simp

section \<open>The order of refills\<close>

lemma insert_plan_mset [simp]: "mset (insert_plan act p qs) = add_mset p (mset qs)"
  by (induction qs) auto

lemma order_mset: "mset (resident_service_order plans act) = mset plans"
  unfolding resident_service_order_def by (induction plans) auto

lemma key_less_irrefl: "\<not> key_less k k"
  by (simp add: key_less_def split: prod.splits)

lemma key_less_trans: "key_less a b \<Longrightarrow> key_less b c \<Longrightarrow> key_less a c"
  by (auto simp: key_less_def split: prod.splits)

lemma key_less_total: "\<not> key_less a b \<Longrightarrow> \<not> key_less b c \<Longrightarrow> \<not> key_less a c"
  by (auto simp: key_less_def split: prod.splits)

definition in_order :: "(string \<times> int) list \<Rightarrow> resident_plan list \<Rightarrow> bool" where
  "in_order act ps \<longleftrightarrow> sorted_wrt (\<lambda>p q. \<not> key_less (order_key act q) (order_key act p)) ps"

lemma insert_plan_set [simp]: "set (insert_plan act p qs) = insert p (set qs)"
  by (induction qs) auto

lemma insert_plan_in_order: "in_order act qs \<Longrightarrow> in_order act (insert_plan act p qs)"
proof (induction qs)
  case (Cons q qs)
  show ?case
  proof (cases "key_less (order_key act q) (order_key act p)")
    case True
    then have "\<not> key_less (order_key act p) (order_key act q)" using key_less_trans key_less_irrefl by blast
    then show ?thesis using Cons True by (auto simp: in_order_def)
  next
    case False
    then show ?thesis using Cons.prems key_less_total [of _ "order_key act q" "order_key act p"] by (auto simp: in_order_def)
  qed
qed (simp add: in_order_def)

lemma order_in_order: "in_order act (resident_service_order plans act)"
  unfolding resident_service_order_def
  by (induction plans) (auto simp: insert_plan_in_order, simp add: in_order_def)

definition below_watermark :: "(string \<times> int) list \<Rightarrow> resident_plan \<Rightarrow> bool" where
  "below_watermark act p \<longleftrightarrow> active_of act p < rp_low_watermark p"

text \<open>The refill order holds every plan once and puts services below their low watermark before all others; among
  services on the same side of it, the one with the lower ratio of active requests to its queue depth comes first, and at
  equal ratios the one with the larger deficit.\<close>
theorem refill_order_correct:
  assumes order: "resident_service_order plans act = ps" and ij: "i < j" "j < length ps"
  shows "mset ps = mset plans \<and> (below_watermark act (ps ! j) \<longrightarrow> below_watermark act (ps ! i)) \<and>
    (below_watermark act (ps ! i) = below_watermark act (ps ! j) \<longrightarrow>
       (let r = (\<lambda>p. of_int (active_of act p) / of_int (max 1 (rp_queue_depth_target p)) :: rat)
        in r (ps ! i) < r (ps ! j) \<or> r (ps ! i) = r (ps ! j) \<and> rp_deficit (ps ! j) \<le> rp_deficit (ps ! i)))"
proof -
  have "\<not> key_less (order_key act (ps ! j)) (order_key act (ps ! i))"
    using order_in_order [of act plans] order ij by (auto simp: in_order_def sorted_wrt_iff_nth_less)
  then show ?thesis
    using order_mset [of plans act] order
    by (auto simp: key_less_def order_key_def below_watermark_def Let_def split: if_splits)
qed

definition demo_plan :: "string \<Rightarrow> int \<Rightarrow> resident_plan" where
  "demo_plan sid low = \<lparr>rp_service_id = sid, rp_profile_id = sid, rp_compute_domain = ''d'', rp_target_active = 4, rp_queue_depth_target = 8,
     rp_low_watermark = low, rp_max_cohort_size = 4, rp_max_cohort_tokens = 0, rp_batch_linger_s = 0, rp_decode_token_reserve = 0,
     rp_max_domain_batches = 0, rp_max_service_batches = 0, rp_initial_cohort_min = 0, rp_initial_cohort_timeout_s = 0, rp_large_threshold = 0,
     rp_shape_bucketing = False, rp_shape_lookahead = 1, rp_weight = 1, rp_admission_mode = ''m'', rp_deficit = 0, rp_submitted_count = 0,
     rp_completed_count = 0, rp_last_claimed_count = 0, rp_last_claimed_at = 0\<rparr>"

lemma refill_order_correct_witness:
  "mset [demo_plan ''b'' 6, demo_plan ''a'' 2] = mset [demo_plan ''a'' 2, demo_plan ''b'' 6] \<and>
   below_watermark [(''a'', 3), (''b'', 5)] (demo_plan ''b'' 6)"
proof -
  have "resident_service_order [demo_plan ''a'' 2, demo_plan ''b'' 6] [(''a'', 3), (''b'', 5)] = [demo_plan ''b'' 6, demo_plan ''a'' 2]"
    by (simp add: resident_service_order_def demo_plan_def key_less_def order_key_def active_of_def)
  from refill_order_correct [OF this, of 0 1]
  have "mset [demo_plan ''b'' 6, demo_plan ''a'' 2] = mset [demo_plan ''a'' 2, demo_plan ''b'' 6]" by simp
  then show ?thesis by (simp add: below_watermark_def active_of_def demo_plan_def)
qed

text \<open>Every plan of a resident service is within bounds, whatever the environment and the scheduler settings say,
  and stays so under any credits and charges: targets, cohort sizes and lookahead are at least one, the low watermark
  lies between one and the queue depth, which is at least the target, no limit is negative, and the
  deficit is at most four targets.\<close>
theorem resident_plans_well_formed:
  assumes "resident_service_plans env tp entry linger = Inr plans" and "p \<in> set plans"
  shows "plan_ok (run_plan ops p) \<and>
    (\<exists>sv\<in>set (tp_services tp). sv_entry_node_id sv = entry \<and> rp_service_id p = sv_service_id sv \<and> rp_compute_domain p = sv_compute_domain sv)"
proof -
  let ?ok = "\<lambda>sv. sv_entry_node_id sv = entry \<and>
    (case active_resident_service_ids env tp of None \<Rightarrow> True | Some ids \<Rightarrow> sv_service_id sv \<in> set ids)"
  have "mapE (resident_service_plan (service_environment env) linger) (filter ?ok (tp_services tp)) = Inr plans"
    using assms(1) by (simp add: resident_service_plans_def)
  from mapE_in [OF this assms(2)]
  obtain sv where "sv \<in> set (filter ?ok (tp_services tp))" "resident_service_plan (service_environment env) linger sv = Inr p" by blast
  then show ?thesis using resident_service_plan_ok run_plan_ok by auto
qed

definition demo_service :: pipeline_service where
  "demo_service = \<lparr>sv_service_id = ''s'', sv_profile_id = ''p'', sv_model_id = ''m'', sv_entry_node_id = ''n'', sv_node_ids = [''n''],
     sv_api_base_url = ''http'', sv_compute_domain = ''d'', sv_pipeline_parallel_size = 1, sv_tensor_parallel_size = 1, sv_total_layers = 1,
     sv_layer_partition = [1], sv_layer_partition_source = ''x'', sv_dtype = ''y'', sv_max_batch_size = 4, sv_kv_cache = [], sv_scheduler = [],
     sv_telemetry = []\<rparr>"

definition demo_topology :: spark_topology where
  "demo_topology = \<lparr>tp_topology_id = ''t'', tp_nodes = [], tp_routing_policy = [], tp_services = [demo_service], tp_groups = [], tp_ingress = []\<rparr>"

lemma demo_plans: "\<exists>p. resident_service_plans (\<lambda>_. None) demo_topology ''n'' 0 = Inr [p]"
  by (simp add: resident_service_plans_def demo_topology_def demo_service_def active_resident_service_ids_def env_get_def dget_def dget_or_def
      resident_service_plan_def pipeline_service_batch_limit_def scheduler_int_def scheduler_float_def scheduler_linger_def override_of_def
      service_environment_def json_int_env_def json_float_env_def json_env_def por_def Let_def)

lemma resident_plans_well_formed_witness:
  "\<exists>p. resident_service_plans (\<lambda>_. None) demo_topology ''n'' 0 = Inr [p] \<and> plan_ok (run_plan [Credit 10, Charge 3 0] p) \<and> rp_service_id p = ''s''"
proof -
  obtain p where p: "resident_service_plans (\<lambda>_. None) demo_topology ''n'' 0 = Inr [p]" using demo_plans by blast
  from resident_plans_well_formed [OF p, of p "[Credit 10, Charge 3 0]"]
  have "plan_ok (run_plan [Credit 10, Charge 3 0] p)" "rp_service_id p = ''s''" by (auto simp: demo_topology_def demo_service_def)
  then show ?thesis using p by blast
qed

end
