(* ===== verification/Coalesce.thy ===== *)
theory Coalesce
  imports Dispatcher
begin

text \<open>
  \<^verbatim>\<open>ds4_infer/coalesced_groups.py\<close>, \<^verbatim>\<open>cohort_safety.py\<close> and
  \<^verbatim>\<open>dispatcher_memory.py\<close>: which requests may share one completion call, how their tokens are
  estimated, when a failed call is split, and the trimming of service memory before a refill.
\<close>

section \<open>Groups of compatible payloads\<close>

definition group_key :: "pydict \<Rightarrow> string" where
  \<comment> \<open>the payload without its prompt and without the prestage plan, as canonical compact JSON\<close>
  "group_key payload = dumps_compact (JObj (dpop ''_ds4_auto_kv_prestage_plan'' (dpop ''prompt'' payload)))"

definition bindO :: "'a option result \<Rightarrow> ('a \<Rightarrow> 'b option result) \<Rightarrow> 'b option result" where
  \<comment> \<open>a value that may be None, computed by code that may raise\<close>
  "bindO m f = bindE m (\<lambda>o'. case o' of None \<Rightarrow> Inr None | Some x \<Rightarrow> f x)"

lemma bindO_eq_Some: "bindO m f = Inr (Some y) \<longleftrightarrow> (\<exists>x. m = Inr (Some x) \<and> f x = Inr (Some y))"
  by (cases m) (auto simp: bindO_def split: option.splits)

fun foldO :: "('s \<Rightarrow> 'a \<Rightarrow> 's option result) \<Rightarrow> 's \<Rightarrow> 'a list \<Rightarrow> 's option result" where
  "foldO f s [] = Inr (Some s)"
| "foldO f s (x # xs) = bindO (f s x) (\<lambda>s'. foldO f s' xs)"

definition add_to_group :: "('a list \<Rightarrow> pydict option result) \<Rightarrow> (string \<times> 'a list) list \<Rightarrow> 'a \<Rightarrow> (string \<times> 'a list) list option result" where
  "add_to_group payload_for_chunk gs item =
     bindO (payload_for_chunk [item]) (\<lambda>payload.
       let k = group_key payload in Inr (Some (dset k ((case map_of gs k of None \<Rightarrow> [] | Some xs \<Rightarrow> xs) @ [item]) gs)))"

fun plan_chunks :: "('a list \<Rightarrow> pydict option result) \<Rightarrow> 'a list list \<Rightarrow> ('a list \<times> pydict) list option result" where
  "plan_chunks payload_for_chunk [] = Inr (Some [])"
| "plan_chunks payload_for_chunk (c # cs) =
     bindO (payload_for_chunk c) (\<lambda>p. bindO (plan_chunks payload_for_chunk cs) (\<lambda>rest. Inr (Some ((c, p) # rest))))"

fun plan_groups ::
  "('a list \<Rightarrow> pydict option result) \<Rightarrow> ('a list \<Rightarrow> 'a list list) \<Rightarrow> nat \<Rightarrow> 'a list list \<Rightarrow> ('a list \<times> pydict) list option result"
where
  "plan_groups payload_for_chunk chunk_items least [] = Inr (Some [])"
| "plan_groups payload_for_chunk chunk_items least (g # gs) =
     (if length g < least then Inr None
      else bindO (plan_chunks payload_for_chunk (chunk_items g)) (\<lambda>ps.
           bindO (plan_groups payload_for_chunk chunk_items least gs) (\<lambda>rest. Inr (Some (ps @ rest)))))"

definition plan_compatible_payload_groups ::
  "'a list \<Rightarrow> ('a list \<Rightarrow> pydict option result) \<Rightarrow> ('a list \<Rightarrow> 'a list list) \<Rightarrow> nat \<Rightarrow> ('a list list \<times> ('a list \<times> pydict) list) option result"
where
  "plan_compatible_payload_groups items payload_for_chunk chunk_items least =
     bindO (foldO (add_to_group payload_for_chunk) [] items) (\<lambda>groups.
     bindO (plan_groups payload_for_chunk chunk_items least (map snd groups)) (\<lambda>ps. Inr (Some (map fst ps, ps))))"

section \<open>Token estimates and splitting\<close>

definition coalesced_completion_token_budget :: "environ \<Rightarrow> int result" where
  "coalesced_completion_token_budget env =
     (let raw0 = env_get env ''DS4_PIPELINE_COMPLETION_COHORT_TOKEN_BUDGET'' '''';
          raw = (if raw0 = '''' then env_get env ''DS4_PIPELINE_COHORT_TOKEN_BUDGET'' ''65536'' else raw0)
      in bindE (py_int (JStr (if raw = '''' then ''0'' else raw))) (\<lambda>n. Inr (max 0 n)))"

definition prompt_token_estimate :: "environ \<Rightarrow> string \<Rightarrow> string option \<Rightarrow> int" where
  "prompt_token_estimate env prompt mode =
     (let nwords = int (length (words_of prompt)); byte_count = int (length prompt);
          raw_mode = text_of mode (text_of (env ''DS4_PIPELINE_COMPLETION_TOKEN_ESTIMATE_MODE'') ''conservative'');
          estimate_mode = lower (strip raw_mode)
      in if estimate_mode \<in> {''balanced'', ''bytes4'', ''byte4''} then max 1 (max nwords ((byte_count + 3) div 4))
         else if estimate_mode \<in> {''word'', ''words''} then max 1 (max nwords ((byte_count + 7) div 8))
         else max 1 (max nwords ((byte_count + 1) div 2)))"

definition coalesced_failure_should_bisect :: "string \<Rightarrow> bool" where
  "coalesced_failure_should_bisect error_text =
     list_ex (contains (lower error_text))
       [''http 400'', ''http 413'', ''out of memory'', ''cuda out of memory'', ''kv cache'', ''context length'', ''maximum context'',
        ''too many tokens'', ''exceeds'']"

definition mark_split_result :: "int \<Rightarrow> string option \<Rightarrow> pydict \<Rightarrow> pydict result" where
  "mark_split_result original_batch_size reason result =
     (let r = setdefault ''transport'' (JObj []) result
      in case dget r ''transport'' of
           JObj transport \<Rightarrow>
             (let t = dset ''original_coalesced_batch_size'' (JInt original_batch_size) (dset ''coalesced_completion_split_retry'' (JBool True) transport);
                  t1 = (case reason of None \<Rightarrow> t | Some s \<Rightarrow> if s = '''' then t
                          else dset ''coalesced_completion_split_retry_reason'' (JStr (tail_of 4000 s)) t)
              in Inr (dset ''transport'' (JObj t1) r))
         | _ \<Rightarrow> Inl (TypeError ''object does not support item assignment''))"

definition mark_coalesced_split :: "(string \<times> pydict) list \<Rightarrow> int \<Rightarrow> string option \<Rightarrow> ((string \<times> pydict) list) result" where
  "mark_coalesced_split out original_batch_size reason =
     mapE (\<lambda>(k, r). bindE (mark_split_result original_batch_size reason r) (\<lambda>r'. Inr (k, r'))) out"

section \<open>Trimming memory\<close>

definition coordinator_defaults :: "spark_topology \<Rightarrow> pydict" where
  "coordinator_defaults tp = obj_or_empty (dget (tp_routing_policy tp) ''resident_coordinator_defaults'')"

definition dict_bool :: "pydict \<Rightarrow> string \<Rightarrow> bool \<Rightarrow> bool" where
  "dict_bool d k v = (case dget d k of JNull \<Rightarrow> v | JBool b \<Rightarrow> b | x \<Rightarrow> lower (strip (py_str x)) \<notin> {''0'', ''false'', ''no'', ''off''})"

definition dict_float :: "pydict \<Rightarrow> string \<Rightarrow> rat \<Rightarrow> rat result" where
  "dict_float d k v = (case dget d k of JNull \<Rightarrow> Inr v | x \<Rightarrow> py_float x)"

definition trim_env_bool :: "environ \<Rightarrow> string \<Rightarrow> bool \<Rightarrow> bool" where
  "trim_env_bool env k v = (let raw = env_get env k '''' in if raw = '''' then v else lower (strip raw) \<notin> {''0'', ''false'', ''no'', ''off''})"

definition trim_env_float :: "environ \<Rightarrow> string \<Rightarrow> rat \<Rightarrow> rat result" where
  "trim_env_float env k v = (let raw = env_get env k '''' in if raw = '''' then Inr v else py_float (JStr raw))"

record dispatcher_options =
  do_prefer_cohort_batch :: bool
  do_trim_on_host_memory :: bool
  do_trim_cooldown_s :: rat
  do_trim_timeout_s :: rat
  do_trim_mode :: string
  do_last_trim_at :: rat

definition dispatcher_runtime_options :: "environ \<Rightarrow> spark_topology \<Rightarrow> dispatcher_options result" where
  "dispatcher_runtime_options env tp =
     (let d = coordinator_defaults tp
      in bindE (dict_float d ''trim_memory_cooldown_s'' 120) (\<lambda>cool0.
         bindE (trim_env_float env ''DS4_API_TRIM_MEMORY_COOLDOWN_S'' cool0) (\<lambda>cool.
         bindE (dict_float d ''trim_memory_timeout_s'' 120) (\<lambda>timeout0.
         bindE (trim_env_float env ''DS4_API_TRIM_MEMORY_TIMEOUT_S'' timeout0) (\<lambda>timeout.
           Inr \<lparr>do_prefer_cohort_batch = trim_env_bool env ''DS4_API_RESIDENT_PREFER_COHORT_BATCH'' (dict_bool d ''prefer_cohort_batch'' False),
                do_trim_on_host_memory = trim_env_bool env ''DS4_API_TRIM_ON_HOST_MEMORY_THROTTLE'' (dict_bool d ''trim_on_host_memory_pressure'' False),
                do_trim_cooldown_s = max 0 cool, do_trim_timeout_s = max 1 timeout,
                do_trim_mode = (if env_get env ''DS4_API_TRIM_MEMORY_MODE'' '''' \<noteq> '''' then env_get env ''DS4_API_TRIM_MEMORY_MODE'' ''''
                                else py_str (por (dget d ''trim_memory_mode'') (JStr ''wait''))),
                do_last_trim_at = 0\<rparr>)))))"

definition active_pipeline_services :: "spark_topology \<Rightarrow> pipeline_service list" where
  "active_pipeline_services tp =
     (let active = (case dget (tp_routing_policy tp) ''active_resident_service_ids'' of
            JStr s \<Rightarrow> Some (parse_service_ids s) | JArr xs \<Rightarrow> Some (filter (\<lambda>s. s \<noteq> '''') (map py_str xs)) | _ \<Rightarrow> None)
      in filter (\<lambda>sv. case active of None \<Rightarrow> True | Some ids \<Rightarrow> sv_service_id sv \<in> set ids) (tp_services tp))"

definition parse_body :: "string \<Rightarrow> json" where
  "parse_body body = (if strip body = '''' then JNull else case json_loads body of Some v \<Rightarrow> v | None \<Rightarrow> JStr (tail_of 1000 body))"

definition trim_service ::
  "(pipeline_service \<Rightarrow> string) \<Rightarrow> (string \<Rightarrow> (int \<times> string) result) \<Rightarrow> (py_error \<Rightarrow> string) \<Rightarrow> (string \<Rightarrow> string) \<Rightarrow> string \<Rightarrow> rat \<Rightarrow> pipeline_service \<Rightarrow> pydict"
where
  \<comment> \<open>\<open>post\<close> sends an empty POST and gives status code and body; \<open>query\<close> encodes the mode into the query\<close>
  "trim_service base_url_of post message query mode duration sv =
     (let base = base_url_of sv
      in case post (rstrip_char (CHR ''/'') base @ ''/v1/trim_memory?'' @ query mode) of
           Inl e \<Rightarrow> [(''service_id'', JStr (sv_service_id sv)), (''api_base_url'', JStr base), (''ok'', JBool False), (''duration_s'', JFloat duration),
                     (''error'', JStr (message e))]
         | Inr (code, body) \<Rightarrow>
             [(''service_id'', JStr (sv_service_id sv)), (''api_base_url'', JStr base), (''ok'', JBool (200 \<le> code \<and> code < 300)), (''status'', JInt code),
              (''duration_s'', JFloat duration), (''response'', parse_body body)])"

definition try_trim_host_memory ::
  "(pipeline_service \<Rightarrow> pydict) \<Rightarrow> pydict \<Rightarrow> pending_value list \<Rightarrow> bool \<Rightarrow> rat \<Rightarrow> rat \<Rightarrow> string \<Rightarrow> spark_topology \<Rightarrow> rat \<Rightarrow> (pydict \<times> rat) result"
where
  "try_trim_host_memory trim status pending enabled cooldown_s last_trim_at mode tp now =
     bindE (py_strs (por (dget status ''throttle_reasons'') (JArr []))) (\<lambda>reasons.
       let skip = (\<lambda>why extra. Inr ([(''attempted'', JBool False), (''reason'', JStr why)] @ extra, last_trim_at));
           shown = (''throttle_reasons'', JArr (map JStr reasons));
           n = pending_claim_count now pending;
           remaining = cooldown_s - (now - last_trim_at);
           results = map trim (active_pipeline_services tp)
       in if \<not> enabled then skip ''disabled'' []
          else if \<not> list_ex (\<lambda>r. startswith r ''host_memory'') reasons then skip ''not_host_memory'' [shown]
          else if n > 0 then skip ''active_work_present'' [(''pending'', JInt n), shown]
          else if remaining > 0 then skip ''cooldown'' [(''cooldown_remaining_s'', JFloat (round3 remaining)), shown]
          else
            Inr ([(''attempted'', JBool True), (''ok'', JBool (results \<noteq> [] \<and> list_all (\<lambda>r. truthy (dget r ''ok'')) results)), (''mode'', JStr mode), shown,
                  (''max_host_memory_node'', dget status ''max_host_memory_node''), (''max_host_memory_used_pct'', dget status ''max_host_memory_used_pct''),
                  (''services'', JArr (map JObj results))], now))"

section \<open>Facts about the groups\<close>

text \<open>A group holds the items of one key, in their order; all groups together hold all items.\<close>

definition groups_ok :: "('a list \<Rightarrow> pydict option result) \<Rightarrow> (string \<times> 'a list) list \<Rightarrow> 'a list \<Rightarrow> bool" where
  "groups_ok payload_for_chunk gs items \<longleftrightarrow>
     distinct (map fst gs) \<and> mset (concat (map snd gs)) = mset items \<and>
     (\<forall>(k, xs)\<in>set gs. \<forall>x\<in>set xs. \<exists>p. payload_for_chunk [x] = Inr (Some p) \<and> group_key p = k)"

lemma mset_dset_group:
  "distinct (map fst gs) \<Longrightarrow>
   mset (concat (map snd (dset k ((case map_of gs k of None \<Rightarrow> [] | Some xs \<Rightarrow> xs) @ [x]) gs))) = add_mset x (mset (concat (map snd gs)))"
proof (induction gs)
  case (Cons g gs)
  obtain k' xs where g: "g = (k', xs)" by (cases g)
  show ?case
  proof (cases "k' = k")
    case True
    then show ?thesis using g by simp
  next
    case False
    then show ?thesis using Cons g by simp
  qed
qed simp

lemma set_dset: "y \<in> set (dset k v d) \<Longrightarrow> y = (k, v) \<or> y \<in> set d"
  by (induction d) (auto split: if_splits)

lemma add_to_group_ok:
  assumes "groups_ok payload gs items" and "add_to_group payload gs x = Inr (Some gs')"
  shows "groups_ok payload gs' (items @ [x])"
proof -
  obtain p where p: "payload [x] = Inr (Some p)" and gs': "gs' = dset (group_key p) ((case map_of gs (group_key p) of None \<Rightarrow> [] | Some xs \<Rightarrow> xs) @ [x]) gs"
    using assms(2) by (auto simp: add_to_group_def Let_def bindO_eq_Some)
  have d: "distinct (map fst gs)" using assms(1) by (simp add: groups_ok_def)
  have "\<forall>(k, xs)\<in>set gs'. \<forall>y\<in>set xs. \<exists>p. payload [y] = Inr (Some p) \<and> group_key p = k"
  proof (intro ballI, clarify)
    fix k xs y
    assume g: "(k, xs) \<in> set gs'" "y \<in> set xs"
    then consider (new) "k = group_key p" "xs = (case map_of gs (group_key p) of None \<Rightarrow> [] | Some xs \<Rightarrow> xs) @ [x]" | (old) "(k, xs) \<in> set gs"
      using set_dset [of "(k, xs)"] gs' by fastforce
    then show "\<exists>p. payload [y] = Inr (Some p) \<and> group_key p = k"
    proof cases
      case new
      show ?thesis
      proof (cases "y = x")
        case True
        then show ?thesis using p new by simp
      next
        case False
        then obtain zs where "map_of gs (group_key p) = Some zs" "y \<in> set zs" using new g(2) by (auto split: option.splits)
        then show ?thesis using assms(1) new(1) map_of_SomeD by (fastforce simp: groups_ok_def)
      qed
    next
      case old
      then show ?thesis using assms(1) g(2) by (fastforce simp: groups_ok_def)
    qed
  qed
  then show ?thesis
    using assms(1) mset_dset_group [OF d, of "group_key p" x] distinct_dset [OF d] by (simp add: groups_ok_def gs')
qed

lemma groups_foldO:
  "groups_ok payload gs before \<Longrightarrow> foldO (add_to_group payload) gs items = Inr (Some gs') \<Longrightarrow> groups_ok payload gs' (before @ items)"
proof (induction items arbitrary: gs before)
  case (Cons x items)
  then obtain gs1 where gs1: "add_to_group payload gs x = Inr (Some gs1)" "foldO (add_to_group payload) gs1 items = Inr (Some gs')"
    by (auto simp: bindO_eq_Some)
  then show ?case using Cons.IH [OF add_to_group_ok [OF Cons.prems(1) gs1(1)]] by simp
qed simp

lemma plan_chunks_Some: "plan_chunks f cs = Inr (Some ps) \<Longrightarrow> map fst ps = cs \<and> list_all (\<lambda>(c, p). f c = Inr (Some p)) ps"
  by (induction cs arbitrary: ps) (auto simp: bindO_eq_Some)

lemma plan_groups_Some:
  assumes "plan_groups f chunk least gs = Inr (Some ps)"
  shows "map fst ps = concat (map chunk gs) \<and> list_all (\<lambda>(c, p). f c = Inr (Some p)) ps \<and> list_all (\<lambda>g. least \<le> length g) gs"
  using assms by (induction gs arbitrary: ps) (auto simp: bindO_eq_Some split: if_splits dest: plan_chunks_Some)

text \<open>A plan of coalesced calls sends every item in exactly one chunk; the payload of a chunk is the one that was
  asked for it; and all items of a chunk have payloads that agree but for their prompts. The chunking function must divide
  its argument.\<close>
theorem coalesced_plan_correct:
  assumes plan: "plan_compatible_payload_groups items payload chunk least = Inr (Some (parts, calls))"
    and divides: "\<And>g. concat (chunk g) = g"
  shows "mset (concat parts) = mset items \<and> map fst calls = parts \<and> list_all (\<lambda>(c, p). payload c = Inr (Some p)) calls \<and>
    (\<forall>c\<in>set parts. \<exists>k. \<forall>x\<in>set c. \<exists>p. payload [x] = Inr (Some p) \<and> group_key p = k)"
proof -
  obtain gs where gs: "foldO (add_to_group payload) [] items = Inr (Some gs)"
      and ps: "plan_groups payload chunk least (map snd gs) = Inr (Some calls)" and parts: "parts = map fst calls"
    using plan by (auto simp: plan_compatible_payload_groups_def bindO_eq_Some)
  have ok: "groups_ok payload gs items" using groups_foldO [OF _ gs, of "[]"] by (simp add: groups_ok_def)
  note pg = plan_groups_Some [OF ps]
  have "concat parts = concat (map snd gs)"  proof -
    have "concat (concat (map chunk hs)) = concat hs" for hs by (induction hs) (simp_all add: divides)
    then show ?thesis using pg parts by (simp del: map_map)
  qed
  moreover have "\<exists>k. \<forall>x\<in>set c. \<exists>p. payload [x] = Inr (Some p) \<and> group_key p = k" if c: "c \<in> set parts" for c
  proof -
    obtain k g where g: "(k, g) \<in> set gs" "c \<in> set (chunk g)" using c pg parts by auto
    then have "set c \<subseteq> set g" using divides [of g] by (metis UN_upper set_concat)
    then show ?thesis using ok g(1) by (fastforce simp: groups_ok_def)
  qed
  ultimately show ?thesis using ok pg parts by (auto simp: groups_ok_def)
qed

text \<open>Three items, two models, chunks of the whole group.\<close>

lemma coalesced_plan_correct_witness:
  "mset (concat [[1 :: nat, 3], [2]]) = mset [1, 2, 3]"
proof -
  define payload :: "nat list \<Rightarrow> pydict option result" where "payload xs = Inr (Some [(''model'', JInt (int (hd xs mod 2))), (''prompt'', JInt (int (length xs)))])" for xs
  define k1 k0 where "k1 = group_key [(''model'', JInt 1), (''prompt'', JInt 0)]" and "k0 = group_key [(''model'', JInt 0), (''prompt'', JInt 0)]"
  have "k1 \<noteq> k0" by (simp add: k1_def k0_def group_key_def dpop_def dumps_compact_def show_int_def show_nat.simps)
  moreover have "group_key [(''model'', JInt 1), (''prompt'', JInt n)] = k1" "group_key [(''model'', JInt 0), (''prompt'', JInt n)] = k0" for n
    by (simp_all add: group_key_def dpop_def k1_def k0_def)
  ultimately have "plan_compatible_payload_groups [1, 2, 3] payload (\<lambda>g. [g]) 1 =
      Inr (Some ([[1, 3], [2]], [([1, 3], [(''model'', JInt 1), (''prompt'', JInt 2)]), ([2], [(''model'', JInt 0), (''prompt'', JInt 1)])]))"
    by (simp add: plan_compatible_payload_groups_def add_to_group_def payload_def Let_def bindO_def)
  from coalesced_plan_correct [OF this] show ?thesis by simp
qed

end
