(* ===== verification/Builders.thy ===== *)
theory Builders
  imports Requests Kv_Directive Profiles Py_Text
begin

text \<open>
  \<^verbatim>\<open>ds4_infer/builders.py\<close>: requests built from batch records and chats, the payload items that are
  sent to model servers, and the thinking fields.  Request ids are made safe and unique; the loop that
  looks for a free suffix is a recursive function with its termination proof.
\<close>

section \<open>Model aliases\<close>

definition model_aliases :: "(string \<times> string) list" where
  "model_aliases =
     [(''deepseek-ai/DeepSeek-V4-Flash'', ''dsv4_vllm_mtp_pp8_smartest_v1''), (''ds4v'', ''dsv4_vllm_mtp_pp8_smartest_v1''),
      (''dsv4'', ''dsv4_vllm_mtp_pp8_smartest_v1''), (''gemma'', ''gemma4_26b_a4b_it_pp8_peer_v1''), (''gemma4'', ''gemma4_26b_a4b_it_pp8_peer_v1''),
      (''gemma12'', ''gemma4_12b_it_pp8_peer_v1''), (''gemma4-12b'', ''gemma4_12b_it_pp8_peer_v1''), (''gemma-e2b'', ''gemma4_e2b_it_pp8_peer_v1''),
      (''gemma-e4b'', ''gemma4_e4b_it_pp8_peer_v1''), (''gemma26'', ''gemma4_26b_a4b_it_pp8_peer_v1''), (''gemma-a4b'', ''gemma4_26b_a4b_it_pp8_peer_v1''),
      (''gemma-pp13'', ''gemma4_26b_a4b_it_pp13_peer_v1''), (''gemma26-pp13'', ''gemma4_26b_a4b_it_pp13_peer_v1''),
      (''gemma-a4b-pp13'', ''gemma4_26b_a4b_it_pp13_peer_v1''), (''gemma31'', ''gemma4_31b_it_pp8_peer_v1''), (''kimi'', ''kimi27_code_pp13_smart_v1''),
      (''kimi26'', ''kimi26_pp13_smart_v1''), (''kimi-k2.6'', ''kimi26_pp13_smart_v1''), (''kimi2.6'', ''kimi26_pp13_smart_v1''),
      (''moonshotai/Kimi-K2.6'', ''kimi26_pp13_smart_v1''), (''kimi27'', ''kimi27_code_pp13_smart_v1''), (''kimi-k2.7-code'', ''kimi27_code_pp13_smart_v1''),
      (''kimi2.7'', ''kimi27_code_pp13_smart_v1''), (''moonshotai/Kimi-K2.7-Code'', ''kimi27_code_pp13_smart_v1''),
      (''qwen'', ''qwen3_6_27b_bf16_pp8_efficient_v1''), (''qwen16'', ''qwen3_6_27b_bf16_pp8_efficient_v1''), (''qwen27'', ''qwen3_6_27b_bf16_pp8_efficient_v1''),
      (''qwen-bf16'', ''qwen3_6_27b_bf16_pp8_efficient_v1''), (''qwen27-bf16'', ''qwen3_6_27b_bf16_pp8_efficient_v1''),
      (''qwen-pp13'', ''qwen3_6_27b_bf16_pp13_efficient_v1''), (''qwen27-pp13'', ''qwen3_6_27b_bf16_pp13_efficient_v1''),
      (''qwen-bf16-pp13'', ''qwen3_6_27b_bf16_pp13_efficient_v1''), (''fast'', ''qwen3_6_35b_a3b_fp8_fastest_v1'')]"

definition resolve_model_alias :: "string \<Rightarrow> string" where
  "resolve_model_alias model = (case map_of model_aliases model of None \<Rightarrow> model | Some p \<Rightarrow> p)"

section \<open>Request ids\<close>

definition is_alnum :: "char \<Rightarrow> bool" where
  "is_alnum c \<longleftrightarrow> (let n = of_char c :: nat in (48 \<le> n \<and> n \<le> 57) \<or> (65 \<le> n \<and> n \<le> 90) \<or> (97 \<le> n \<and> n \<le> 122))"

definition safe_char :: "char \<Rightarrow> bool" where
  "safe_char c \<longleftrightarrow> is_alnum c \<or> c \<in> set ''._-''"

definition strip_chars :: "string \<Rightarrow> string \<Rightarrow> string" where
  \<comment> \<open>\<^verbatim>\<open>s.strip(chars)\<close>\<close>
  "strip_chars cs s = rev (dropWhile (\<lambda>c. c \<in> set cs) (rev (dropWhile (\<lambda>c. c \<in> set cs) s)))"

definition safe_base :: "string \<Rightarrow> int \<Rightarrow> string" where
  "safe_base v index =
     (let b = strip_chars ''.-_'' (map (\<lambda>c. if safe_char c then c else CHR ''-'') v)
      in if b = '''' then ''request-'' @ show_int index else b)"

definition numbered :: "string \<Rightarrow> int \<Rightarrow> nat \<Rightarrow> string" where
  "numbered base index sfx = base @ ''-'' @ show_int index @ ''-'' @ show_nat sfx"

lemma show_nat_inj: "show_nat a = show_nat b \<Longrightarrow> a = b"
proof -
  assume "show_nat a = show_nat b"
  then have "parse_int (show_int (int a)) = parse_int (show_int (int b))" by (simp add: show_int_def)
  then show "a = b" by (simp only: parse_int_show_int) simp
qed

lemma numbered_inj: "numbered base index a = numbered base index b \<Longrightarrow> a = b"
  by (simp add: numbered_def show_nat_inj)

lemma finite_taken: "finite {k. n \<le> k \<and> numbered base index k \<in> set seen}"
proof -
  have "inj (numbered base index)" by (rule injI) (rule numbered_inj)
  then have "finite (numbered base index -` set seen)" by (intro finite_vimageI) simp_all
  then show ?thesis by (rule rev_finite_subset) auto
qed

function free_suffix :: "string list \<Rightarrow> string \<Rightarrow> int \<Rightarrow> nat \<Rightarrow> string" where
  \<comment> \<open>the rest of the \<^verbatim>\<open>while\<close> loop, about to try \<open>sfx\<close>\<close>
  "free_suffix seen base index sfx =
     (if numbered base index sfx \<in> set seen then free_suffix seen base index (Suc sfx) else numbered base index sfx)"
  by pat_completeness auto
termination
proof (relation "measure (\<lambda>(seen, base, index, n). card {k. n \<le> k \<and> numbered base index k \<in> set seen})")
  fix seen base index n
  assume taken: "numbered base index n \<in> set seen"
  have "{k. Suc n \<le> k \<and> numbered base index k \<in> set seen} \<subset> {k. n \<le> k \<and> numbered base index k \<in> set seen}"
  proof
    show "{k. Suc n \<le> k \<and> numbered base index k \<in> set seen} \<subseteq> {k. n \<le> k \<and> numbered base index k \<in> set seen}" by auto
    have "n \<in> {k. n \<le> k \<and> numbered base index k \<in> set seen}" using taken by simp
    moreover have "n \<notin> {k. Suc n \<le> k \<and> numbered base index k \<in> set seen}" by simp
    ultimately show "{k. Suc n \<le> k \<and> numbered base index k \<in> set seen} \<noteq> {k. n \<le> k \<and> numbered base index k \<in> set seen}" by blast
  qed
  then have "card {k. Suc n \<le> k \<and> numbered base index k \<in> set seen} < card {k. n \<le> k \<and> numbered base index k \<in> set seen}"
    by (rule psubset_card_mono [OF finite_taken])
  then show "((seen, base, index, Suc n), (seen, base, index, n)) \<in> measure (\<lambda>(seen, base, index, n). card {k. n \<le> k \<and> numbered base index k \<in> set seen})"
    by simp
qed simp

declare free_suffix.simps [simp del]

definition safe_request_id :: "string \<Rightarrow> int \<Rightarrow> string list option \<Rightarrow> string \<times> string list option" where
  \<comment> \<open>\<open>seen\<close> is the set of ids given out so far, if the caller keeps one\<close>
  "safe_request_id v index seen =
     (let base = safe_base v index
      in case seen of None \<Rightarrow> (base, None)
         | Some ids \<Rightarrow>
             (let candidate = (if base \<in> set ids then free_suffix ids base index 1 else base)
              in (candidate, Some (List.insert candidate ids))))"

section \<open>Prompts and messages\<close>

definition request_prompt :: "pydict \<Rightarrow> string" where
  "request_prompt inp =
     (case dget inp ''prompt'' of
        JStr s \<Rightarrow> s
      | _ \<Rightarrow>
          (let parts = concat (map (\<lambda>k. case dget inp k of JStr s \<Rightarrow> if s = '''' then [] else [s] | _ \<Rightarrow> [])
                                 [''shared_prefix'', ''suffix'', ''target'', ''instruction'']);
               parts1 = (if parts \<noteq> [] then parts
                         else case dget inp ''messages'' of
                           JArr ms \<Rightarrow> concat (map (\<lambda>m. case m of JObj d \<Rightarrow> [py_str (dget_or d ''content'' (JStr ''''))] | _ \<Rightarrow> []) ms)
                         | _ \<Rightarrow> [])
           in joinwith [CHR 0x0A, CHR 0x0A] parts1))"

definition plain_message :: "json \<Rightarrow> pydict list" where
  "plain_message m =
     (case m of
        JObj d \<Rightarrow> [[(''role'', JStr (py_str (dget_or d ''role'' (JStr ''user'')))), (''content'', JStr (py_str (dget_or d ''content'' (JStr ''''))))]]
      | _ \<Rightarrow> [])"

definition request_messages :: "pydict \<Rightarrow> pydict list" where
  "request_messages inp =
     (let given = (case dget inp ''messages'' of JArr ms \<Rightarrow> concat (map plain_message ms) | _ \<Rightarrow> []);
          system = (case dget inp ''system'' of JStr s \<Rightarrow> if s = '''' then [] else [[(''role'', JStr ''system''), (''content'', JStr s)]] | _ \<Rightarrow> [])
      in if given \<noteq> [] then given else system @ [[(''role'', JStr ''user''), (''content'', JStr (request_prompt inp))]])"

definition json_safe_messages :: "json list \<Rightarrow> pydict list" where
  "json_safe_messages ms =
     concat (map (\<lambda>m. case m of
         JObj d \<Rightarrow> map (\<lambda>base. base @ concat (map (\<lambda>k. if has_key d k then [(k, if k = ''tool_calls'' then dget d k else JStr (py_str (dget d k)))] else [])
                                              [''tool_call_id'', ''name'', ''tool_calls''])) (plain_message m)
       | _ \<Rightarrow> []) ms)"

definition transcript :: "pydict list \<Rightarrow> string" where
  "transcript ms =
     joinwith [CHR 0x0A] (map (\<lambda>m. py_str (dget_or m ''role'' (JStr ''user'')) @ '': '' @ py_str (dget_or m ''content'' (JStr ''''))) ms)"

definition preferred_job_class :: "string list \<Rightarrow> bool \<Rightarrow> string result" where
  "preferred_job_class supported chat =
     (case find (\<lambda>c. c \<in> set supported)
             (if chat then [''tool_chat'', ''analysis'', ''summary'', ''atom_edit''] else [''atom_edit'', ''analysis'', ''summary'', ''triage'']) of
        Some c \<Rightarrow> Inr c
      | None \<Rightarrow> (case supported of [] \<Rightarrow> Inl (IndexError ''tuple index out of range'') | c # _ \<Rightarrow> Inr c))"

section \<open>Building requests\<close>

definition sparkrunner_request ::
  "pydict \<Rightarrow> string \<Rightarrow> profile_registry \<Rightarrow> int \<Rightarrow> string list option \<Rightarrow> inference_request result \<times> string list option"
where
  "sparkrunner_request rec model reg index seen =
     (case registry_get reg (resolve_model_alias model) of
        Inl e \<Rightarrow> (Inl e, seen)
      | Inr profile \<Rightarrow>
          (let custom_id = py_str (por (por (dget rec ''custom_id'') (dget rec ''request_id'')) (JStr (''request-'' @ show_int index)));
               raw_messages = (case dget rec ''messages'' of JArr ms \<Rightarrow> ms | _ \<Rightarrow> []);
               chat = (mp_supports_chat profile \<and> raw_messages \<noteq> []);
               prompt = py_str (por (dget rec ''prompt'') (JStr (joinwith [CHR 0x0A]
                  (concat (map (\<lambda>m. case m of JObj d \<Rightarrow> [py_str (dget_or d ''content'' (JStr ''''))] | _ \<Rightarrow> []) raw_messages)))));
               (request_id, seen') = safe_request_id custom_id index seen
           in (bindE (if truthy (dget rec ''job_class'') then Inr (py_str (dget rec ''job_class''))
                      else preferred_job_class (mp_supported_job_classes profile) chat) (\<lambda>job_class.
               bindE (py_int (por (por (dget rec ''max_tokens'') (dget rec ''max_completion_tokens'')) (JInt 1024))) (\<lambda>max_tokens.
               bindE (py_int (por (dget rec ''thinking_budget_tokens'') (JInt 0))) (\<lambda>thinking.
               bindE (py_float (dget_or rec ''temperature'' (JFloat 0))) (\<lambda>temperature.
               bindE (py_dict (por (dget rec ''output_contract'') (JObj [(''format'', JStr ''text'')]))) (\<lambda>contract.
                 request_from_json
                   [(''format'', JStr ''ds4-inference-request-v1''), (''request_id'', JStr request_id), (''capability'', JNull), (''chat'', JBool chat),
                    (''immediate'', JBool (truthy (dget_or rec ''immediate'' (JBool False)))), (''job_class'', JStr job_class), (''max_output_tokens'', JInt max_tokens),
                    (''thinking_budget_tokens'', JInt thinking), (''temperature'', JFloat temperature),
                    (''input'', JObj [(''messages'', JArr raw_messages), (''prompt'', JStr prompt), (''suffix'', JStr prompt)]),
                    (''output_contract'', JObj contract), (''model_pin'', JObj [(''profile_id'', JStr (mp_profile_id profile))])]))))), seen')))"

definition chat_request ::
  "string \<Rightarrow> json list \<Rightarrow> profile_registry \<Rightarrow> string \<Rightarrow> int \<Rightarrow> rat \<Rightarrow> inference_request result"
where
  \<comment> \<open>\<open>uuid\<close> is the hex text of a fresh UUID\<close>
  "chat_request uuid messages reg model_alias max_tokens temperature =
     bindE (registry_get reg (resolve_model_alias model_alias)) (\<lambda>profile.
     let safe = json_safe_messages messages; chat = mp_supports_chat profile in
     bindE (preferred_job_class (mp_supported_job_classes profile) chat) (\<lambda>job_class.
       request_from_json
         [(''format'', JStr ''ds4-inference-request-v1''), (''request_id'', JStr (''chat-'' @ uuid)), (''capability'', JNull), (''chat'', JBool chat),
          (''immediate'', JBool True), (''job_class'', JStr job_class), (''max_output_tokens'', JInt max_tokens), (''thinking_budget_tokens'', JInt 0),
          (''temperature'', JFloat temperature), (''input'', JObj [(''messages'', JArr (map JObj safe)), (''prompt'', JStr (transcript safe))]),
          (''output_contract'', JObj [(''format'', JStr ''text'')]), (''model_pin'', JObj [(''profile_id'', JStr (mp_profile_id profile))])]))"

section \<open>Thinking fields\<close>

definition default_chat_template_thinking_key :: "string \<Rightarrow> string option" where
  "default_chat_template_thinking_key model_id = (if contains (lower model_id) ''qwen'' then Some ''enable_thinking'' else None)"

definition omit_disabled_thinking_field :: "string \<Rightarrow> string option \<Rightarrow> bool" where
  "omit_disabled_thinking_field model_id key \<longleftrightarrow>
     contains (lower model_id) ''deepseek-v4'' \<or> contains (lower model_id) ''deepseek_v4'' \<or> key = Some ''thinking''"

definition chat_template_thinking_enabled :: "int \<Rightarrow> bool option \<Rightarrow> bool" where
  "chat_template_thinking_enabled budget default_enabled =
     (if budget > 0 then True else case default_enabled of None \<Rightarrow> False | Some b \<Rightarrow> b)"

definition apply_thinking_fields_for_model :: "string \<Rightarrow> bool \<Rightarrow> bool \<Rightarrow> int \<Rightarrow> string option \<Rightarrow> bool option \<Rightarrow> pydict \<Rightarrow> pydict" where
  "apply_thinking_fields_for_model model_id supports chat budget key default_enabled item =
     (if \<not> supports then item
      else
        (let enabled = chat_template_thinking_enabled budget default_enabled;
             item1 = (if budget > 0
                      then dset ''thinking_token_budget'' (JInt budget) (dset ''thinking_budget_tokens'' (JInt budget)
                             (dset ''thinking'' (JObj [(''type'', JStr ''enabled''), (''budget_tokens'', JInt budget)]) item))
                      else if enabled then dset ''thinking'' (JObj [(''type'', JStr ''enabled'')]) item
                      else if \<not> omit_disabled_thinking_field model_id key then dset ''thinking'' (JObj [(''type'', JStr ''disabled'')]) item
                      else item);
             k = (case key of Some s \<Rightarrow> if s = '''' then default_chat_template_thinking_key model_id else Some s
                  | None \<Rightarrow> default_chat_template_thinking_key model_id)
         in if chat then (case k of None \<Rightarrow> item1 | Some s \<Rightarrow> dset ''chat_template_kwargs'' (JObj [(s, JBool enabled)]) item1) else item1))"

definition apply_thinking_fields :: "model_profile \<Rightarrow> bool \<Rightarrow> int \<Rightarrow> pydict \<Rightarrow> pydict" where
  "apply_thinking_fields profile chat budget item =
     (let key = dget (mp_routing profile) ''chat_template_thinking_key'';
          default_enabled = (case (dget (mp_routing profile) ''default_chat_template_kwargs'', key) of
              (JObj kw, JStr k) \<Rightarrow> if has_key kw k then Some (truthy (dget kw k)) else None | _ \<Rightarrow> None)
      in apply_thinking_fields_for_model (mp_model_id profile) (mp_supports_thinking profile) chat budget
           (if truthy key then Some (py_str key) else None) default_enabled item)"

definition thinking_request_fields :: "model_profile \<Rightarrow> bool \<Rightarrow> int \<Rightarrow> pydict" where
  "thinking_request_fields profile chat budget = apply_thinking_fields profile chat budget []"

section \<open>Batches for a model server\<close>

definition model_batch_item :: "inference_request \<Rightarrow> model_profile \<Rightarrow> pydict" where
  "model_batch_item req profile =
     (let item = [(''custom_id'', JStr (ir_request_id req)), (''max_tokens'', JInt (ir_max_output_tokens req + ir_thinking_budget_tokens req)),
                  (''temperature'', JFloat (ir_temperature req))];
          item1 = apply_thinking_fields profile (ir_chat req) (ir_thinking_budget_tokens req) item;
          item2 = (if ir_chat req then dset ''messages'' (JArr (map JObj (request_messages (ir_input req)))) item1
                   else dset ''prompt'' (JStr (request_prompt (ir_input req))) item1);
          extra = kv_cache_extra_body (ir_input req)
      in if extra = [] then item2
         else dset ''extra_body'' (JObj (dupdate (obj_or_empty (dget item2 ''extra_body'')) extra))
                (dset ''kv_cache'' (dget extra ''ds4_kv_cache'') item2))"

definition model_batch_payload :: "inference_request list \<Rightarrow> model_profile \<Rightarrow> int \<Rightarrow> int \<Rightarrow> pydict result" where
  "model_batch_payload requests profile timeout_s concurrency =
     (if requests = [] then Inl (ValueError ''model batch requires at least one request'')
      else
        (let items = map (\<lambda>r. model_batch_item r profile) requests
         in bindE (mapE (\<lambda>i. py_int (dget_or i ''max_tokens'' (JInt 1))) items) (\<lambda>limits.
              Inr [(''model'', JStr (mp_model_id profile)), (''items'', JArr (map JObj items)), (''concurrency'', JInt (max 1 concurrency)),
                   (''timeout_s'', JInt timeout_s), (''max_tokens'', JInt (Max (set limits)))])))"

section \<open>Ids are new and safe\<close>

lemma free_suffix_free: "free_suffix seen base index n \<notin> set seen"
proof (induction seen base index n rule: free_suffix.induct)
  case (1 seen base index n)
  then show ?case by (subst free_suffix.simps) simp
qed

lemma free_suffix_numbered: "\<exists>k\<ge>n. free_suffix seen base index n = numbered base index k"
proof (induction seen base index n rule: free_suffix.induct)
  case (1 seen base index n)
  then show ?case by (subst free_suffix.simps) (auto dest: Suc_leD)
qed

lemma safe_show_nat: "list_all safe_char (show_nat n)"
proof -
  have "safe_char c" if "c \<in> set (show_nat n)" for c
    using show_nat_digits [OF that] by (auto simp: digit_of_def safe_char_def is_alnum_def Let_def split: if_splits)
  then show ?thesis by (simp add: list_all_iff)
qed

lemma safe_show_int: "list_all safe_char (show_int i)"
  using safe_show_nat by (auto simp: show_int_def safe_char_def)

lemma safe_base_safe: "list_all safe_char (safe_base v index) \<and> safe_base v index \<noteq> ''''"
proof -
  have "list_all safe_char (strip_chars cs (map (\<lambda>c. if safe_char c then c else CHR ''-'') v))" for cs
  proof -
    have "safe_char c" if "c \<in> set (strip_chars cs (map (\<lambda>c. if safe_char c then c else CHR ''-'') v))" for c
    proof -
      have "c \<in> set (map (\<lambda>c. if safe_char c then c else CHR ''-'') v)"
        using that by (auto simp: strip_chars_def dest!: set_dropWhileD)
      then show ?thesis by (auto simp: safe_char_def split: if_splits)
    qed
    then show ?thesis by (simp add: list_all_iff)
  qed
  then show ?thesis using safe_show_int by (auto simp: safe_base_def Let_def safe_char_def is_alnum_def)
qed

lemma safe_request_id_facts:
  assumes "safe_request_id v index (Some ids) = (rid, seen')"
  shows "rid \<notin> set ids \<and> seen' = Some (List.insert rid ids) \<and> list_all safe_char rid \<and> rid \<noteq> ''''"
proof -
  obtain k where k: "free_suffix ids (safe_base v index) index 1 = numbered (safe_base v index) index k" using free_suffix_numbered by blast
  have "list_all safe_char (numbered (safe_base v index) index k)" "numbered (safe_base v index) index k \<noteq> ''''"
    using safe_base_safe [of v index] safe_show_nat safe_show_int by (auto simp: numbered_def safe_char_def)
  then show ?thesis
    using assms free_suffix_free [of ids "safe_base v index" index 1] safe_base_safe [of v index]
    by (auto simp: safe_request_id_def Let_def k simp del: One_nat_def split: if_splits)
qed

fun safe_ids :: "int \<Rightarrow> string list \<Rightarrow> string list \<Rightarrow> string list" where
  \<comment> \<open>the ids of the records of a batch, numbered from \<open>index\<close>, that share one set\<close>
  "safe_ids index ids [] = []"
| "safe_ids index ids (v # vs) =
     (case safe_request_id v index (Some ids) of (rid, seen') \<Rightarrow> rid # safe_ids (index + 1) (the seen') vs)"

text \<open>The records of a batch get request ids that are pairwise distinct, also from all ids given out before, whatever
  names they ask for; every id is a non-empty text of letters, digits, dots, dashes and underscores.\<close>
theorem batch_ids_distinct:
  "distinct (safe_ids index ids vs) \<and> set (safe_ids index ids vs) \<inter> set ids = {} \<and>
   list_all (\<lambda>rid. rid \<noteq> '''' \<and> list_all safe_char rid) (safe_ids index ids vs) \<and> length (safe_ids index ids vs) = length vs"
proof (induction vs arbitrary: index ids)
  case (Cons v vs)
  obtain rid seen' where r: "safe_request_id v index (Some ids) = (rid, seen')" by fastforce
  note f = safe_request_id_facts [OF r]
  have "set (safe_ids (index + 1) (List.insert rid ids) vs) \<inter> set (List.insert rid ids) = {}"
      "distinct (safe_ids (index + 1) (List.insert rid ids) vs)"
      "list_all (\<lambda>rid. rid \<noteq> '''' \<and> list_all safe_char rid) (safe_ids (index + 1) (List.insert rid ids) vs)"
      "length (safe_ids (index + 1) (List.insert rid ids) vs) = length vs"
    using Cons.IH [of "index + 1" "List.insert rid ids"] by auto
  then show ?case using r f by (auto simp: set_insert)
qed simp

end
