(* ===== verification/Payloads.thy ===== *)
theory Payloads
  imports Builders Sha256
begin

text \<open>
  \<^verbatim>\<open>ds4_infer/runner_payloads.py\<close>: the extra body of a payload, the cache plan generated for a
  payload that asks for none, and its suppression when requests are batched.
\<close>

definition auto_kv_prestage_plan_key :: string where
  "auto_kv_prestage_plan_key = ''_ds4_auto_kv_prestage_plan''"

definition chat_top_level_extra_fields :: "string list" where
  "chat_top_level_extra_fields = [''chat_template_kwargs'', ''thinking'', ''thinking_budget_tokens'', ''thinking_token_budget'']"

definition strict_batch_policies :: "string list" where
  "strict_batch_policies = [''strict'', ''strict-cache'', ''strict_cache'', ''prefer_cache'', ''cache'']"

definition requests_need_client_stream :: "inference_request list \<Rightarrow> bool" where
  "requests_need_client_stream rs \<longleftrightarrow> rs \<noteq> [] \<and> list_all (\<lambda>r. truthy (dget (ir_input r) ''ds4_client_stream'')) rs"

definition merge_payload_extra_body :: "pydict \<Rightarrow> pydict \<Rightarrow> pydict result" where
  \<comment> \<open>the order in which the top-level fields of a set are moved is that of the list here\<close>
  "merge_payload_extra_body payload extra =
     (if extra = [] then Inr payload
      else
        (let moved = (case dget payload ''messages'' of JArr _ \<Rightarrow> filter (has_key extra) chat_top_level_extra_fields | _ \<Rightarrow> []);
             payload1 = foldl (\<lambda>p k. dset k (dget extra k) p) payload moved;
             incoming = filter (\<lambda>(k, _). k \<notin> set moved) extra
         in if incoming = [] then Inr payload1
            else bindE (py_dict (por (dget payload1 ''extra_body'') (JObj []))) (\<lambda>old.
                   Inr (dset ''extra_body'' (JObj (dupdate old incoming)) payload1))))"

definition merge_request_extra_body :: "pydict \<Rightarrow> inference_request \<Rightarrow> model_profile \<Rightarrow> pydict result" where
  "merge_request_extra_body payload req profile =
     (let raw = obj_or_empty (dget (ir_input req) ''openai_extra_body'');
          extra = apply_thinking_fields profile (ir_chat req) (ir_thinking_budget_tokens req) (dupdate [] raw);
          extra1 = (if ir_thinking_budget_tokens req \<le> 0 \<and> \<not> has_key raw ''thinking'' then dpop ''thinking'' extra else extra)
      in merge_payload_extra_body payload extra1)"

definition auto_cache_id :: "json \<Rightarrow> bool" where
  "auto_cache_id v = (case v of JStr s \<Rightarrow> startswith s ''ds4-auto:'' | _ \<Rightarrow> False)"

definition nested_cache_id :: "pydict \<Rightarrow> string \<Rightarrow> json" where
  "nested_cache_id payload k = dget (obj_or_empty (dget (obj_or_empty (dget payload k)) ''ds4_kv_cache'')) ''cache_id''"

definition maybe_suppress_generated_auto_kv :: "environ \<Rightarrow> pydict \<Rightarrow> pydict \<times> bool" where
  "maybe_suppress_generated_auto_kv env payload =
     (let policy = lower (strip (env_get env ''DS4_PIPELINE_AUTO_KV_BATCH_POLICY'' ''prefer_batch''))
      in if policy \<in> set strict_batch_policies \<or> \<not> auto_cache_id (nested_cache_id payload ''extra_body'') \<or>
            \<not> auto_cache_id (nested_cache_id payload ''kv_transfer_params'')
         then (payload, False)
         else
           (let cleaned = dpop ''kv_transfer_params'' payload;
                extra = dpop ''ds4_kv_cache'' (obj_or_empty (dget payload ''extra_body''))
            in (if extra = [] then dpop ''extra_body'' cleaned else dset ''extra_body'' (JObj extra) cleaned, True)))"

definition coalesced_auto_kv_prestage_material ::
  "inference_request list \<Rightarrow> pydict \<Rightarrow> model_profile \<Rightarrow> string \<Rightarrow> string option \<Rightarrow> pydict result"
where
  "coalesced_auto_kv_prestage_material requests payload profile pre service_id =
     (case requests of
        [] \<Rightarrow> Inl (IndexError ''list index out of range'')
      | r # _ \<Rightarrow>
          bindE (py_dict (por (dget payload ''extra_body'') (JObj []))) (\<lambda>extra.
            Inr [(''format'', JStr ''ds4-auto-kv-cache-key-v1''), (''chat'', JBool False), (''messages'', JNull), (''prompt'', JStr pre),
                 (''model'', dget payload ''model''), (''profile_id'', JStr (mp_profile_id profile)), (''runtime_contract_id'', jopt (mp_runtime_contract_id profile)),
                 (''service_id'', jopt service_id), (''thinking_budget_tokens'', JInt (ir_thinking_budget_tokens r)), (''extra_body'', JObj extra)]))"

definition batch_key_fields :: "string list" where
  "batch_key_fields = [''backend'', ''cache_id'', ''prefix_hash'', ''load'', ''store'', ''miss_policy'', ''route_affinity'', ''model_fingerprint'']"

definition auto_kv_batch_key_material :: "pydict \<Rightarrow> pydict" where
  "auto_kv_batch_key_material plan = map (\<lambda>k. (k, dget plan k)) batch_key_fields"

definition auto_kv_cache_plan_from_material ::
  "pydict \<Rightarrow> pydict \<Rightarrow> model_profile \<Rightarrow> string option \<Rightarrow> string \<Rightarrow> string \<Rightarrow> pydict"
where
  "auto_kv_cache_plan_from_material material payload profile service_id backend cache_kind =
     (let digest = sha256_hex (dumps_compact (JObj material));
          scope = (case service_id of None \<Rightarrow> mp_profile_id profile | Some s \<Rightarrow> if s = '''' then mp_profile_id profile else s);
          cache_id = ''ds4-auto:'' @ (if cache_kind = '''' then '''' else cache_kind @ '':'') @ scope @ '':'' @ take 32 digest;
          plan = [(''format'', JStr ''ds4-kv-cache-plan-v1''), (''backend'', JStr backend), (''cache_id'', JStr cache_id), (''prefix_hash'', JStr (''sha256:'' @ digest)),
                  (''load'', JObj [(''mode'', JStr ''prefer''), (''transport'', JStr ''local_store''), (''cache_key'', JStr cache_id)]),
                  (''store'', JObj [(''mode'', JStr ''write_back''), (''transport'', JStr ''local_store''), (''cache_key'', JStr cache_id), (''on_error'', JStr ''warn'')]),
                  (''miss_policy'', JStr ''compute_and_store''), (''route_affinity'', JStr ''preferred''),
                  (''model_fingerprint'', JObj [(''model_id'', JStr (py_str (por (dget payload ''model'') (JStr (mp_model_id profile))))), (''profile_id'', JStr (mp_profile_id profile)),
                     (''runtime_contract_id'', jopt (mp_runtime_contract_id profile)), (''service_id'', jopt service_id)]),
                  (''operation'', JStr ''load_store'')]
      in plan @ [(''batch_key_hash'', JStr (''sha256:'' @ sha256_hex (dumps_compact (JObj (auto_kv_batch_key_material plan)))))])"

definition kv_plan_has_strict_load :: "pydict option \<Rightarrow> bool" where
  "kv_plan_has_strict_load plan =
     (case plan of None \<Rightarrow> False
      | Some p \<Rightarrow>
          (case dget p ''load'' of
             JObj load \<Rightarrow>
               py_str (por (dget load ''mode'') (JStr ''skip'')) \<in> {''prefer'', ''require''} \<and>
               (py_str (por (dget load ''mode'') (JStr '''')) = ''require'' \<or> py_str (por (dget p ''miss_policy'') (JStr '''')) = ''fail'')
           | _ \<Rightarrow> False))"

definition kv_plan_is_prestageable_auto :: "pydict option \<Rightarrow> bool" where
  "kv_plan_is_prestageable_auto plan =
     (case plan of None \<Rightarrow> False
      | Some p \<Rightarrow>
          auto_cache_id (dget p ''cache_id'') \<and>
          (case dget p ''load'' of JObj load \<Rightarrow> py_str (por (dget load ''mode'') (JStr '''')) = ''prefer'' | _ \<Rightarrow> False) \<and>
          (case dget p ''store'' of JObj store \<Rightarrow> py_str (por (dget store ''mode'') (JStr '''')) = ''write_back'' | _ \<Rightarrow> False) \<and>
          py_str (por (dget p ''miss_policy'') (JStr '''')) = ''compute_and_store'')"

section \<open>Facts\<close>

text \<open>A generated plan is always one that may be prestaged, never one with a strict load.\<close>

lemma auto_plan_prestageable:
  fixes material payload profile service_id backend cache_kind
  defines "plan \<equiv> auto_kv_cache_plan_from_material material payload profile service_id backend cache_kind"
  shows "kv_plan_is_prestageable_auto (Some plan) \<and> \<not> kv_plan_has_strict_load (Some plan)"
  by (simp add: plan_def auto_kv_cache_plan_from_material_def kv_plan_is_prestageable_auto_def kv_plan_has_strict_load_def dget_def dget_or_def
      auto_cache_id_def por_def Let_def del: dumps_raw.simps)

text \<open>Suppression leaves no generated plan in the payload, and a second suppression does nothing.\<close>

lemma suppress_once:
  assumes "maybe_suppress_generated_auto_kv env payload = (cleaned, True)"
  shows "maybe_suppress_generated_auto_kv env cleaned = (cleaned, False) \<and> dget cleaned ''kv_transfer_params'' = JNull"
  using assms
  by (auto simp: maybe_suppress_generated_auto_kv_def nested_cache_id_def auto_cache_id_def Let_def dget_def dget_or_def split: if_splits)

end
