(* ===== verification/Worker.thy ===== *)
theory Worker
  imports Queue_Report Queue_Ready Queue_Life
begin

text \<open>
  The queue worker of \<^verbatim>\<open>v2/src/ds4_infer/worker.py\<close>: how a claim is finished, the
  heartbeat, the dispatch of a claimed batch and the two modes that run a batch in one call.  Model
  runners and the CPU service are outside: what a call of them gives, or the text of the exception it
  raised, is an argument.  One call of the queue is one step; \<open>now\<close> is the clock it reads.
\<close>

section \<open>Results of a claim\<close>

definition worker_failure :: "queue_claim \<Rightarrow> string \<Rightarrow> pydict" where
  "worker_failure c err =
     [(''format'', JStr ''ds4-inference-failure-v1''), (''request_id'', JStr (qc_request_id c)), (''status'', JStr ''failed''),
      (''error'', JStr err)]"

definition worker_cancelled :: "queue_claim \<Rightarrow> pydict" where
  "worker_cancelled c =
     [(''format'', JStr ''ds4-inference-cancelled-v1''), (''request_id'', JStr (qc_request_id c)), (''status'', JStr ''cancelled''),
      (''reason'', JStr ''cancelled before model dispatch'')]"

definition selected_node_record :: "queue_claim \<Rightarrow> string \<Rightarrow> pydict" where
  "selected_node_record c node =
     [(''node_id'', JStr node), (''node_ids'', JArr (map JStr (if qc_node_ids c = [] then [node] else qc_node_ids c))),
      (''service_id'', jopt (qc_service_id c)), (''compute_domain'', jopt (qc_compute_domain c))]"

definition result_for_claim :: "queue_claim \<Rightarrow> pydict option \<Rightarrow> pydict" where
  "result_for_claim c res =
     (let out = (case res of None \<Rightarrow> worker_failure c ''batch runner omitted request result''
                 | Some d \<Rightarrow> if d = [] then worker_failure c ''batch runner omitted request result'' else d)
      in case qc_node_id c of None \<Rightarrow> out
         | Some n \<Rightarrow> if n = '''' then out else dset ''selected_node'' (JObj (selected_node_record c n)) out)"

definition future_result :: "queue_claim \<Rightarrow> string + pydict \<Rightarrow> pydict" where
  "future_result c outcome = (case outcome of Inl e \<Rightarrow> worker_failure c e | Inr d \<Rightarrow> result_for_claim c (Some d))"

definition work_summary :: "int \<Rightarrow> int \<Rightarrow> int \<Rightarrow> pydict \<Rightarrow> pydict \<Rightarrow> pydict" where
  "work_summary claimed completed failed reap extra =
     dupdate [(''format'', JStr ''ds4-inference-queue-v1''), (''state'', JStr (if claimed \<noteq> 0 then ''worked'' else ''idle'')),
              (''claimed_count'', JInt claimed), (''completed_count'', JInt completed), (''failed_count'', JInt failed),
              (''lost_lease_count'', JInt 0), (''reaped'', JObj reap)] extra"

definition or_zero :: "int option \<Rightarrow> int option \<Rightarrow> int" where
  \<comment> \<open>\<^verbatim>\<open>a or b or 0\<close>\<close>
  "or_zero a b = (case a of Some n \<Rightarrow> if n \<noteq> 0 then n else (case b of Some m \<Rightarrow> m | None \<Rightarrow> 0)
                          | None \<Rightarrow> (case b of Some m \<Rightarrow> m | None \<Rightarrow> 0))"

definition service_refill_low_watermark :: "string option \<Rightarrow> (string \<Rightarrow> int option) \<Rightarrow> int" where
  "service_refill_low_watermark service values =
     (case service of None \<Rightarrow> or_zero (values '''') (values ''*'') | Some s \<Rightarrow> or_zero (values s) (values ''*''))"

section \<open>The state of a claim\<close>

definition claim_status :: "string \<Rightarrow> queue_db \<Rightarrow> pydict" where
  \<comment> \<open>\<^verbatim>\<open>queue.status(request_id=..., refresh=False)\<close>\<close>
  "claim_status rid db = (case status 0 (Some rid) None None False db of Inl _ \<Rightarrow> [] | Inr (_, d) \<Rightarrow> d)"

definition claim_state :: "string \<Rightarrow> queue_db \<Rightarrow> string" where
  "claim_state rid db = py_str (por (dget (claim_status rid db) ''state'') (JStr ''''))"

definition terminal_name :: "string \<Rightarrow> bool" where
  "terminal_name s \<longleftrightarrow> s \<in> {''completed'', ''failed'', ''cancelled''}"

definition claim_over :: "queue_claim \<Rightarrow> queue_db \<Rightarrow> bool" where
  \<comment> \<open>\<^verbatim>\<open>_claim_cancelled_or_terminal\<close>\<close>
  "claim_over c db \<longleftrightarrow> truthy (dget (claim_status (qc_request_id c) db) ''cancel_requested'') \<or>
     terminal_name (claim_state (qc_request_id c) db)"

definition any_claim_over :: "queue_claim list \<Rightarrow> queue_db \<Rightarrow> bool" where
  \<comment> \<open>\<^verbatim>\<open>_cancel_requested\<close>\<close>
  "any_claim_over cs db \<longleftrightarrow> list_ex (\<lambda>c. claim_over c db) cs"

section \<open>Finishing a claim\<close>

type_synonym counts = "int \<times> int \<times> int"

definition add_counts :: "counts \<Rightarrow> counts \<Rightarrow> counts" where
  "add_counts x y = (case (x, y) of ((a, b, c), (a', b', c')) \<Rightarrow> (a + a', b + b', c + c'))"

definition pair_state :: "bool \<Rightarrow> pydict \<Rightarrow> req_state" where
  "pair_state cancel_requested res =
     (let s = py_str (por (dget res ''status'') (JStr ''''))
      in if cancel_requested \<or> s = ''cancelled'' then Cancelled else if s = ''completed'' then Completed else Failed)"

definition transport_failed :: "pydict \<Rightarrow> bool" where
  "transport_failed res \<longleftrightarrow> dget res ''status'' = JStr ''transport_failed''"

definition finish_pair :: "rat \<Rightarrow> int \<Rightarrow> queue_claim \<Rightarrow> pydict \<Rightarrow> queue_db \<Rightarrow> (queue_db \<times> counts \<times> bool) result" where
  \<comment> \<open>with the completed, failed and retried counts, and whether the \<open>on_result\<close> hook is called\<close>
  "finish_pair now max_attempts c res db =
     (let cancel_requested = truthy (dget (claim_status (qc_request_id c) db) ''cancel_requested'')
      in if transport_failed res then
           (case retry_transport_failure now (qc_request_id c) (qc_lease_id c) res max_attempts db of (db', outcome) \<Rightarrow>
              Inr (case outcome of
                     Requeued \<Rightarrow> (db', (0, 0, 1), False)
                   | Retry_failed \<Rightarrow> (db', (0, 1, 0), True)
                   | Retry_cancelled \<Rightarrow> (db', (0, 0, 0), True)
                   | Lost \<Rightarrow> (db', (0, 0, 0), False)))
         else
           (let st = pair_state cancel_requested res;
                err = (if st = Completed then None else Some (py_str (dget_or res ''status'' (JStr ''failed''))))
            in bindE (finish_request now (qc_request_id c) (qc_lease_id c) st res err db) (\<lambda>(db', finished).
                 Inr (if \<not> finished then (db', (0, 0, 0), False)
                      else (db', (if st = Completed then (1, 0, 0) else if st = Failed then (0, 1, 0) else (0, 0, 0)), True)))))"

definition finish_pairs_step ::
  "rat \<Rightarrow> int \<Rightarrow> queue_db \<times> counts \<times> (string \<times> pydict) list \<Rightarrow> queue_claim \<times> pydict \<Rightarrow>
   (queue_db \<times> counts \<times> (string \<times> pydict) list) result"
where
  "finish_pairs_step now max_attempts acc p =
     (case (acc, p) of ((db, n, told), (c, res)) \<Rightarrow>
        bindE (finish_pair now max_attempts c res db) (\<lambda>(db', n', hook).
          Inr (db', add_counts n n', told @ (if hook then [(qc_request_id c, res)] else []))))"

definition finish_pairs ::
  "rat \<Rightarrow> int \<Rightarrow> (queue_claim \<times> pydict) list \<Rightarrow> queue_db \<Rightarrow> (queue_db \<times> counts \<times> (string \<times> pydict) list) result"
where
  \<comment> \<open>the loop at the end of \<^verbatim>\<open>run_once\<close>; \<open>told\<close> collects the calls of \<open>on_result\<close>\<close>
  "finish_pairs now max_attempts pairs db = foldE (finish_pairs_step now max_attempts) (db, (0, 0, 0), []) pairs"

section \<open>Heartbeat\<close>

definition beat_one :: "rat \<Rightarrow> rat \<Rightarrow> queue_db \<times> string list \<Rightarrow> queue_claim \<Rightarrow> queue_db \<times> string list" where
  \<comment> \<open>one turn of the loop over the claims when a lease was not refreshed\<close>
  "beat_one now ttl acc c =
     (case acc of (db, lost) \<Rightarrow>
        if terminal_name (claim_state (qc_request_id c) db) then (db, lost)
        else
          (let (db', refreshed) = heartbeat now [qc_lease_id c] ttl db
           in if refreshed = 1 then (db', lost)
              else
                (let s = claim_state (qc_request_id c) db'
                 in if terminal_name s then (db', lost)
                    else (db', lost @ [qc_request_id c @ '':'' @ (if s = '''' then ''unknown'' else s)]))))"

definition heartbeat_claims :: "rat \<Rightarrow> rat \<Rightarrow> queue_claim list \<Rightarrow> queue_db \<Rightarrow> queue_db \<times> string option" where
  \<comment> \<open>\<^verbatim>\<open>_heartbeat\<close>: the text of the error when a lease is lost\<close>
  "heartbeat_claims now ttl claims db =
     (let active = filter (\<lambda>c. qc_lease_id c \<noteq> '''') claims
      in if active = [] then (db, None)
         else
           (let (db1, n) = heartbeat now (map qc_lease_id active) ttl db
            in if n = length active then (db1, None)
               else
                 (let (db2, lost) = foldl (beat_one now ttl) (db1, []) active
                  in (db2, if lost = [] then None
                           else Some (''lost queue lease during heartbeat: refreshed '' @ show_nat n @ ''/'' @ show_nat (length active) @
                                      ''; unresolved='' @ joinwith '','' (take 8 lost))))))"

section \<open>Batches that run in one call\<close>

definition same_target :: "queue_claim \<Rightarrow> queue_claim \<Rightarrow> bool" where
  "same_target a b \<longleftrightarrow> qc_profile_id b = qc_profile_id a \<and> qc_node_id b = qc_node_id a \<and> qc_service_id b = qc_service_id a"

definition can_batch_models :: "bool \<Rightarrow> queue_claim list \<Rightarrow> bool" where
  \<comment> \<open>\<open>many\<close>: the runner has \<^verbatim>\<open>run_many_on_node\<close>\<close>
  "can_batch_models many cs \<longleftrightarrow> cs \<noteq> [] \<and> qc_kind (hd cs) = ''model'' \<and> many \<and>
     list_all (\<lambda>c. qc_kind c = ''model'' \<and> same_target (hd cs) c) cs"

definition model_batch_pairs :: "queue_claim list \<Rightarrow> string + (string \<times> pydict) list \<Rightarrow> (queue_claim \<times> pydict) list" where
  \<comment> \<open>\<^verbatim>\<open>_run_model_batch\<close>, given what the runner's call and the heartbeats around it came to\<close>
  "model_batch_pairs cs outcome =
     (case outcome of
        Inl e \<Rightarrow> map (\<lambda>c. (c, worker_failure c e)) cs
      | Inr results \<Rightarrow> map (\<lambda>c. (c, result_for_claim c (map_of results (qc_request_id c)))) cs)"

definition cpu_item :: "queue_claim \<Rightarrow> (pydict \<times> rat option) result" where
  "cpu_item c =
     bindE (py_dict (por (qc_payload c) (JObj []))) (\<lambda>item.
       let timeout = dget item ''__ds4_queue_timeout_s''; rest = dpop ''__ds4_queue_timeout_s'' item
       in if timeout = JNull then Inr (rest, None) else bindE (py_float timeout) (\<lambda>t. Inr (rest, Some t)))"

definition cpu_items_and_timeout :: "queue_claim list \<Rightarrow> rat \<Rightarrow> (pydict list \<times> rat) result" where
  "cpu_items_and_timeout cs default_s =
     bindE (mapE cpu_item cs) (\<lambda>items.
       let ts = concat (map (\<lambda>(_, t). case t of None \<Rightarrow> [] | Some x \<Rightarrow> [x]) items)
       in Inr (map fst items, if ts = [] then default_s else Max (set ts)))"

definition cpu_row :: "json list \<Rightarrow> nat \<Rightarrow> pydict" where
  "cpu_row rows i =
     (case (if i < length rows then rows ! i else JNull) of
        JObj d \<Rightarrow> d | _ \<Rightarrow> [(''ok'', JBool False), (''error'', JStr ''CPU batch omitted result'')])"

definition cpu_result :: "string \<Rightarrow> queue_claim \<Rightarrow> pydict \<Rightarrow> pydict" where
  "cpu_result service c row =
     [(''format'', JStr ''ds4-cpu-service-result-v1''), (''request_id'', JStr (qc_request_id c)),
      (''status'', JStr (if truthy (dget row ''ok'') then ''completed'' else ''failed'')), (''service'', JStr service),
      (''output'', JObj row)]"

definition run_cpu_claims :: "queue_claim list \<Rightarrow> rat \<Rightarrow> string + json list \<Rightarrow> ((queue_claim \<times> pydict) list) result" where
  \<comment> \<open>\<open>outcome\<close>: the results of \<^verbatim>\<open>CpuBatchService.run_batch\<close>\<close>
  "run_cpu_claims cs ttl outcome =
     (let service = (case qc_service_name (hd cs) of None \<Rightarrow> '''' | Some s \<Rightarrow> s)
      in bindE (cpu_items_and_timeout cs ttl) (\<lambda>_.
           let rows = (case outcome of
                 Inl e \<Rightarrow> map (\<lambda>_. JObj [(''ok'', JBool False), (''error'', JStr e)]) cs
               | Inr rows \<Rightarrow> rows)
           in Inr (map (\<lambda>(i, c). (c, cpu_result service c (cpu_row rows i))) (zip [0..<length cs] cs))))"

section \<open>One turn of the worker\<close>

datatype dispatch_mode = Cpu_batch | Batch_incremental | Batch_whole | Rolling_refill int | Per_request

definition dispatch_mode_of :: "bool \<Rightarrow> bool \<Rightarrow> (string \<Rightarrow> int option) \<Rightarrow> queue_claim list \<Rightarrow> dispatch_mode" where
  \<comment> \<open>\<open>many\<close>, \<open>incremental\<close>: the batch methods the runner has\<close>
  "dispatch_mode_of many incremental watermarks cs =
     (let low = service_refill_low_watermark (qc_service_id (hd cs)) watermarks
      in if qc_kind (hd cs) = ''cpu'' then Cpu_batch
         else if can_batch_models many cs then (if incremental then Batch_incremental else Batch_whole)
         else if low > 0 then Rolling_refill low
         else Per_request)"

record worker =
  wk_id :: string
  wk_ttl :: rat
  wk_max_attempts :: int

record work_opts =
  wo_node :: "string option"
  wo_batch :: "string option"
  wo_limit :: int
  wo_concurrency :: int
  wo_profiles :: "string list"
  wo_depth :: int
  wo_linger_s :: rat
  wo_capacity :: int
  wo_layouts :: "string \<Rightarrow> shard_layout option"
  wo_limits :: service_limits
  wo_token_limits :: service_limits
  wo_decode_reserves :: service_limits

definition work_claim_opts :: "worker \<Rightarrow> work_opts \<Rightarrow> claim_opts" where
  "work_claim_opts w o1 =
     \<lparr>co_node = wo_node o1, co_batch = wo_batch o1, co_limit = min (wo_limit o1) (wo_concurrency o1), co_leased_by = wk_id w,
      co_ttl = wk_ttl w, co_linger_s = wo_linger_s o1, co_limits = wo_limits o1, co_token_limits = wo_token_limits o1,
      co_decode_reserves = wo_decode_reserves o1, co_compute_lease = None, co_service = None, co_share = False,
      co_bucketing = False, co_lookahead = 1, co_min_ready = 0, co_min_timeout = 0, co_large_threshold = 0\<rparr>"

definition run_once_claim ::
  "environ \<Rightarrow> rat \<Rightarrow> (nat \<Rightarrow> string) \<Rightarrow> (nat \<Rightarrow> string) \<Rightarrow> worker \<Rightarrow> work_opts \<Rightarrow> queue_db \<Rightarrow>
   (queue_db \<times> pydict \<times> nat \<times> queue_claim list) result"
where
  \<comment> \<open>the first part of \<^verbatim>\<open>run_once\<close>: reap, prepare, claim\<close>
  "run_once_claim env now uuids claim_uuids w o1 db =
     (if wo_limit o1 < 1 \<or> wo_concurrency o1 < 1 then Inl (ValueError ''limit and concurrency must be positive'')
      else
        (let (db1, reap) = requeue_expired_leases now 3 db;
             (db2, prefilled) = prepare_ready env now uuids (wo_node o1) (wo_profiles o1) (wo_batch o1) (wo_limit o1) (wk_id w)
                                  (wo_depth o1) (wo_capacity o1) (wo_layouts o1) None False db1
         in bindE (claim_ready_batch env now claim_uuids (work_claim_opts w o1) db2) (\<lambda>(db3, claims).
              Inr (db3, reap, prefilled, claims))))"

definition mode_name :: "dispatch_mode \<Rightarrow> string" where
  "mode_name m = (case m of Cpu_batch \<Rightarrow> ''cpu_batch'' | Batch_incremental \<Rightarrow> ''batch_incremental'' | Batch_whole \<Rightarrow> ''batch''
                  | Rolling_refill _ \<Rightarrow> ''rolling_refill'' | Per_request \<Rightarrow> ''per_request'')"

definition pairs_summary :: "queue_claim list \<Rightarrow> counts \<Rightarrow> pydict \<Rightarrow> nat \<Rightarrow> dispatch_mode \<Rightarrow> int \<Rightarrow> pydict" where
  "pairs_summary claims n reap prefilled mode dispatched =
     (case n of (completed, failed, retried) \<Rightarrow>
        work_summary (int (length claims)) completed failed reap
          [(''prefilled_count'', JInt (int prefilled)), (''retried_count'', JInt retried), (''batch_dispatch_count'', JInt dispatched),
           (''batch_dispatch_mode'', JStr (mode_name mode))])"

definition run_once_finish ::
  "rat \<Rightarrow> worker \<Rightarrow> pydict \<Rightarrow> nat \<Rightarrow> dispatch_mode \<Rightarrow> queue_claim list \<Rightarrow> (queue_claim \<times> pydict) list \<Rightarrow> queue_db \<Rightarrow>
   (queue_db \<times> pydict \<times> (string \<times> pydict) list) result"
where
  \<comment> \<open>the last part of \<^verbatim>\<open>run_once\<close>, for the modes that give their results as pairs\<close>
  "run_once_finish now w reap prefilled mode claims pairs db =
     bindE (finish_pairs now (wk_max_attempts w) pairs db) (\<lambda>(db', n, told).
       Inr (db', pairs_summary claims n reap prefilled mode 1, told))"

definition run_once_idle :: "pydict \<Rightarrow> nat \<Rightarrow> pydict" where
  "run_once_idle reap prefilled =
     work_summary 0 0 0 reap [(''prefilled_count'', JInt (int prefilled)), (''batch_dispatch_count'', JInt 0)]"

end
