(* ===== verification/Worker_Pairs.thy ===== *)
theory Worker_Pairs
  imports Worker Queue_Steps
begin

text \<open>
  What finishing the claims of a worker does to the request table: each claim rewrites the row that runs
  under its lease, and no other, by a function of the row and the result alone; so a list of claims
  is one pointwise map over the table, in whatever order they are finished.
\<close>

section \<open>One claim\<close>

definition paired_row :: "rat \<Rightarrow> int \<Rightarrow> pydict \<Rightarrow> request_row \<Rightarrow> request_row" where
  \<comment> \<open>the row of a claim after its result was handed in\<close>
  "paired_row now max_attempts res r =
     (if transport_failed res then
        (let err = (if result_error res \<noteq> '''' then result_error res else ''transport_failed'')
         in if rq_cancel_requested r then clear_lease (close_row now Cancelled (ignored_result res) (Some ''cancelled'') r)
            else if rq_attempt_count r < max_attempts
            then requeue_row now r\<lparr>rq_ready_at := None, rq_result := None, rq_error := Some err\<rparr>
            else clear_lease (close_row now Failed res (Some err) r))
      else
        (let st = pair_state (rq_cancel_requested r) res
         in clear_lease (close_row now st (if st = Cancelled then ignored_result res else res)
              (finish_error st (if st = Completed then None else Some (py_str (dget_or res ''status'' (JStr ''failed''))))) r)))"

definition paired_counts :: "int \<Rightarrow> pydict \<Rightarrow> request_row \<Rightarrow> counts" where
  "paired_counts max_attempts res r =
     (let st = rq_state (paired_row 0 max_attempts res r)
      in if st = Queued then (0, 0, 1) else if st = Completed then (1, 0, 0) else if st = Failed then (0, 1, 0) else (0, 0, 0))"

abbreviation claim_row_of :: "queue_claim \<Rightarrow> request_row \<Rightarrow> bool" where
  "claim_row_of c \<equiv> running_under (qc_request_id c) (qc_lease_id c)"

lemma terminal_pair_state: "terminal (pair_state b res)"
  by (simp add: pair_state_def Let_def terminal_def)

lemma clear_lease_state [simp]: "rq_state (clear_lease r) = rq_state r" "rq_request_id (clear_lease r) = rq_request_id r"
  "rq_lease_id (clear_lease r) = None"
  by (simp_all add: clear_lease_def)

lemma paired_row_simps [simp]:
  "rq_request_id (paired_row now mx res r) = rq_request_id r" "rq_state (paired_row now mx res r) \<noteq> Running"
  "\<not> running_under rid lease (paired_row now mx res r)"
  using terminal_pair_state [of "rq_cancel_requested r" res]
  by (auto simp: paired_row_def Let_def running_under_def requeue_row_def terminal_def)

lemma claim_status_row:
  assumes "core db" and "r \<in> set (requests db)"
  shows "claim_status (rq_request_id r) db = request_status r"
proof -
  have "find (\<lambda>row. rq_request_id row = rq_request_id r) (requests db) = Some r"
    using assms by (intro find_keyed) (auto simp: core_def)
  then show ?thesis by (simp add: claim_status_def status_def job_batch_id_def)
qed

lemma cancel_flag_row: "dget (request_status r) ''cancel_requested'' = JBool (rq_cancel_requested r)"
  by (simp add: request_status_def dget_def dget_or_def)

lemma finish_pair_effect:
  assumes ok: "queue_ok db"
  obtains db' where "queue_ok db'" and
    "requests db' = sql_update (claim_row_of c) (paired_row now mx res) (requests db)" and
    "finish_pair now mx c res db =
       (case find (claim_row_of c) (requests db) of
          None \<Rightarrow> Inr (db', (0, 0, 0), False)
        | Some r \<Rightarrow> Inr (db', paired_counts mx res r, \<not> (transport_failed res \<and> rq_state (paired_row now mx res r) = Queued)))"
proof (cases "find (claim_row_of c) (requests db)")
  case None
  then have same: "sql_update (claim_row_of c) (paired_row now mx res) (requests db) = requests db"
    by (intro sql_update_none) (simp add: find_None_iff)
  have "finish_pair now mx c res db = Inr (db, (0, 0, 0), False)"
    using None finish_missed [OF terminal_pair_state None]
    by (simp add: finish_pair_def Let_def retry_transport_failure_def)
  with that [OF ok] same None show ?thesis by simp
next
  case (Some row)
  note row = find_running_under [OF Some]
  have "claim_status (qc_request_id c) db = request_status row"
    using claim_status_row [of db row] row queue_okD(1) [OF ok] by simp
  then have flag: "truthy (dget (claim_status (qc_request_id c) db) ''cancel_requested'') = rq_cancel_requested row"
    by (simp add: cancel_flag_row)
  have only: "r = row" if "r \<in> set (requests db)" "claim_row_of c r" for r
    using keyed_same [OF queue_okD(1) [OF ok] that(1)] row that(2) by (simp add: running_under_def)
  have upd: "sql_update (claim_row_of c) g (requests db) = sql_update (claim_row_of c) h (requests db)" if "g row = h row" for g h
    unfolding sql_update_def using only that by (auto intro!: map_cong)
  show ?thesis
  proof (cases "transport_failed res")
    case True
    obtain db' out where ret: "retry_transport_failure now (qc_request_id c) (qc_lease_id c) res mx db = (db', out)"
      by fastforce
    have "requests db' = sql_update (claim_row_of c) (paired_row now mx res) (requests db) \<and>
      out = (if rq_cancel_requested row then Retry_cancelled else if rq_attempt_count row < mx then Requeued else Retry_failed)"
      using ret Some True
      by (auto simp: retry_transport_failure_def Let_def paired_row_def split: if_splits intro!: upd)
    then show ?thesis
      using that [of db'] retry_ok [OF ok ret] Some ret True
      by (simp add: finish_pair_def Let_def paired_counts_def paired_row_def requeue_row_def)
  next
    case False
    let ?st = "pair_state (rq_cancel_requested row) res"
    have fs: "finish_state row ?st = ?st" by (simp add: finish_state_def pair_state_def)
    obtain db' where fin: "finish_request now (qc_request_id c) (qc_lease_id c) ?st res
          (if ?st = Completed then None else Some (py_str (dget_or res ''status'' (JStr ''failed'')))) db = Inr (db', True)"
      and req: "requests db' = sql_update (claim_row_of c) (\<lambda>r. clear_lease (close_row now ?st
        (if ?st = Cancelled then ignored_result res else res)
        (finish_error ?st (if ?st = Completed then None else Some (py_str (dget_or res ''status'' (JStr ''failed''))))) r)) (requests db)"
      using finish_found [OF terminal_pair_state Some, of now "rq_cancel_requested row" res] fs by metis
    have "requests db' = sql_update (claim_row_of c) (paired_row now mx res) (requests db)"
      unfolding req by (rule upd) (simp add: False paired_row_def Let_def)
    moreover have "?st \<noteq> Queued" by (simp add: pair_state_def Let_def)
    ultimately show ?thesis
      using that [of db'] finish_ok [OF ok fin] Some False fin flag
      by (simp add: finish_pair_def Let_def paired_counts_def paired_row_def)
  qed
qed

section \<open>A list of claims\<close>

definition claims_distinct :: "queue_claim list \<Rightarrow> bool" where
  "claims_distinct cs \<longleftrightarrow> distinct (map qc_request_id cs)"

definition hand_in :: "rat \<Rightarrow> int \<Rightarrow> (queue_claim \<times> pydict) list \<Rightarrow> request_row \<Rightarrow> request_row" where
  \<comment> \<open>the row after all the results: rewritten by the result of the claim that runs it\<close>
  "hand_in now max_attempts pairs r =
     (case find (\<lambda>(c, _). claim_row_of c r) pairs of None \<Rightarrow> r | Some (_, res) \<Rightarrow> paired_row now max_attempts res r)"

lemma hand_in_Cons:
  "hand_in now mx ((c, res) # ps) r = (if claim_row_of c r then paired_row now mx res r else hand_in now mx ps r)"
  by (simp add: hand_in_def)

lemma hand_in_paired: "hand_in now mx ps (paired_row now mx res r) = paired_row now mx res r"
proof -
  have "find (\<lambda>(c, _). claim_row_of c (paired_row now mx res r)) ps = None" by (auto simp: find_None_iff)
  then show ?thesis by (simp add: hand_in_def)
qed

lemma finish_pairs_effect:
  assumes "queue_ok db"
  obtains db' n' told' where "foldE (finish_pairs_step now mx) (db, n, told) pairs = Inr (db', n', told')" and "queue_ok db'"
    and "requests db' = map (hand_in now mx pairs) (requests db)"
  using assms
proof (induction pairs arbitrary: db n told thesis)
  case Nil
  then show ?case by (simp add: hand_in_def map_idI)
next
  case (Cons p pairs)
  obtain c res where p: "p = (c, res)" by fastforce
  obtain db1 where db1: "queue_ok db1" "requests db1 = sql_update (claim_row_of c) (paired_row now mx res) (requests db)"
    and fin: "\<exists>q. finish_pair now mx c res db = Inr (db1, q)"
    by (rule finish_pair_effect [OF Cons.prems(2), of c now mx res]) (auto simp del: split_paired_Ex split: option.splits)
  then obtain n1 h where fin: "finish_pair now mx c res db = Inr (db1, n1, h)" by (metis surj_pair)
  obtain db' n' told' where r: "foldE (finish_pairs_step now mx) (db1, add_counts n n1,
        told @ (if h then [(qc_request_id c, res)] else [])) pairs = Inr (db', n', told')" "queue_ok db'"
      "requests db' = map (hand_in now mx pairs) (requests db1)"
    by (rule Cons.IH [OF _ db1(1)])
  have "requests db' = map (hand_in now mx (p # pairs)) (requests db)"
    unfolding r(3) db1(2) sql_update_def by (simp add: p hand_in_Cons hand_in_paired)
  moreover have "finish_pairs_step now mx (db, n, told) p = Inr (db1, add_counts n n1, told @ (if h then [(qc_request_id c, res)] else []))"
    by (simp add: finish_pairs_step_def p fin)
  ultimately show ?case using Cons.prems(1) [of db' n' told'] r(1,2) by simp
qed

section \<open>Properties\<close>


definition demo_pairs :: "(queue_claim \<times> pydict) list" where
  "demo_pairs = map (\<lambda>c. (c, [(''status'', JStr ''completed'')])) (snd (projr demo_claim))"


text \<open>
  The incremental batch of \<^verbatim>\<open>_run_model_batch_incremental\<close> as a transition system.  The model
  runner is another thread that pushes results and ends at any moment, normally or with an exception;
  other workers and clients use the queue between any two steps.  A step of the worker is one pass
  through a call of the loop: a test, one result taken from the inbox, one look for cancelled claims, one
  heartbeat, one claim of the final loop.
\<close>

section \<open>States\<close>

datatype runner_state = Busy | Ended "string + (string \<times> pydict) list"

datatype loop_at =
    Waiting
  | Draining bool  \<comment> \<open>\<open>True\<close>: the last drain, after the runner ended\<close>
  | Checking
  | Closing "(string \<times> pydict) list"
  | Returned

record progress =
  br_db :: queue_db
  br_finished :: "string list"
  br_counts :: counts
  br_told :: "(string \<times> pydict) list"
  br_notified :: "string list"

record batch_run = progress +
  br_at :: loop_at
  br_runner :: runner_state
  br_inbox :: "(string \<times> pydict) list"
  br_cancel :: bool

definition batch_start :: "queue_db \<Rightarrow> batch_run" where
  "batch_start db = \<lparr>br_db = db, br_finished = [], br_counts = (0, 0, 0), br_told = [], br_notified = [],
     br_at = Waiting, br_runner = Busy, br_inbox = [], br_cancel = False\<rparr>"

definition unfinished :: "queue_claim list \<Rightarrow> 'a progress_scheme \<Rightarrow> queue_claim list" where
  "unfinished cs s = filter (\<lambda>c. qc_request_id c \<notin> set (br_finished s)) cs"

definition failures_of :: "string \<Rightarrow> queue_claim list \<Rightarrow> (string \<times> pydict) list" where
  "failures_of e cs = map (\<lambda>c. (qc_request_id c, worker_failure c e)) cs"

definition finish_claim :: "rat \<Rightarrow> int \<Rightarrow> queue_claim \<Rightarrow> pydict \<Rightarrow> bool \<Rightarrow> 'a progress_scheme \<Rightarrow> 'a progress_scheme result" where
  \<comment> \<open>\<^verbatim>\<open>_finish_pair\<close>, the counts, the finished set and, where the code does it, the notification\<close>
  "finish_claim now mx c res notify s =
     bindE (finish_pair now mx c res (br_db s)) (\<lambda>(db, n, hook).
       Inr (s\<lparr>br_db := db, br_counts := add_counts (br_counts s) n, br_finished := br_finished s @ [qc_request_id c],
              br_told := br_told s @ (if hook then [(qc_request_id c, res)] else []),
              br_notified := br_notified s @ (if notify then [qc_request_id c] else [])\<rparr>))"

definition finish_over_step :: "rat \<Rightarrow> int \<Rightarrow> 'a progress_scheme \<Rightarrow> queue_claim \<Rightarrow> 'a progress_scheme result" where
  \<comment> \<open>one turn of \<^verbatim>\<open>_finish_cancelled_or_terminal_pending\<close>\<close>
  "finish_over_step now mx s c =
     (if qc_request_id c \<in> set (br_finished s) then Inr s
      else if \<not> terminal_name (claim_state (qc_request_id c) (br_db s)) then Inr s
      else finish_claim now mx c (worker_cancelled c) True s)"

definition finish_over :: "rat \<Rightarrow> int \<Rightarrow> queue_claim list \<Rightarrow> 'a progress_scheme \<Rightarrow> 'a progress_scheme result" where
  "finish_over now mx cs s = foldE (finish_over_step now mx) s cs"

definition beat :: "rat \<Rightarrow> rat \<Rightarrow> queue_claim list \<Rightarrow> batch_run \<Rightarrow> batch_run" where
  \<comment> \<open>a heartbeat for the pending claims; a lost lease ends the loop with failures for them\<close>
  "beat now ttl cs s =
     (case heartbeat_claims now ttl (unfinished cs s) (br_db s) of
        (db, None) \<Rightarrow> s\<lparr>br_db := db, br_at := Waiting\<rparr>
      | (db, Some e) \<Rightarrow> s\<lparr>br_db := db, br_at := Closing (failures_of e (unfinished cs s))\<rparr>)"

section \<open>Steps\<close>

definition keeps_leases :: "queue_claim list \<Rightarrow> queue_db \<Rightarrow> queue_db \<Rightarrow> bool" where
  \<comment> \<open>nothing starts to run under a lease of these claims\<close>
  "keeps_leases cs db db' \<longleftrightarrow>
     (\<forall>c \<in> set cs. \<forall>r' \<in> set (requests db'). claim_row_of c r' \<longrightarrow> (\<exists>r \<in> set (requests db). claim_row_of c r))"

inductive batch_step :: "worker \<Rightarrow> queue_claim list \<Rightarrow> batch_run \<Rightarrow> batch_run \<Rightarrow> bool" for w cs where
  push: "br_runner s = Busy \<Longrightarrow> batch_step w cs s (s\<lparr>br_inbox := br_inbox s @ [item]\<rparr>)"
| ends: "br_runner s = Busy \<Longrightarrow> batch_step w cs s (s\<lparr>br_runner := Ended out\<rparr>)"
| others: "queue_step (br_db s) db' \<Longrightarrow> keeps_leases cs (br_db s) db' \<Longrightarrow> batch_step w cs s (s\<lparr>br_db := db'\<rparr>)"
| tick: "br_at s = Waiting \<Longrightarrow> br_runner s = Busy \<Longrightarrow> batch_step w cs s (s\<lparr>br_at := Draining False\<rparr>)"
| over: "br_at s = Waiting \<Longrightarrow> br_runner s \<noteq> Busy \<Longrightarrow> batch_step w cs s (s\<lparr>br_at := Draining True\<rparr>)"
| skip: "br_at s = Draining f \<Longrightarrow> br_inbox s = (rid, res) # rest \<Longrightarrow>
    find (\<lambda>c. qc_request_id c = rid) (rev cs) = None \<or> rid \<in> set (br_finished s) \<Longrightarrow> batch_step w cs s (s\<lparr>br_inbox := rest\<rparr>)"
| take: "br_at s = Draining f \<Longrightarrow> br_inbox s = (rid, res) # rest \<Longrightarrow> find (\<lambda>c. qc_request_id c = rid) (rev cs) = Some c \<Longrightarrow>
    rid \<notin> set (br_finished s) \<Longrightarrow>
    finish_claim now (wk_max_attempts w) c (result_for_claim c (Some res)) True (s\<lparr>br_inbox := rest\<rparr>) = Inr s' \<Longrightarrow> batch_step w cs s s'"
| drained: "br_at s = Draining False \<Longrightarrow> br_inbox s = [] \<Longrightarrow> batch_step w cs s (s\<lparr>br_at := Checking\<rparr>)"
| results: "br_at s = Draining True \<Longrightarrow> br_inbox s = [] \<Longrightarrow> br_runner s = Ended out \<Longrightarrow>
    results = (case out of Inl e \<Rightarrow> failures_of e (unfinished cs s) | Inr rs \<Rightarrow> rs) \<Longrightarrow> batch_step w cs s (s\<lparr>br_at := Closing results\<rparr>)"
| idle: "br_at s = Checking \<Longrightarrow> unfinished cs s = [] \<or> br_runner s \<noteq> Busy \<Longrightarrow> batch_step w cs s (s\<lparr>br_at := Waiting\<rparr>)"
| alive: "br_at s = Checking \<Longrightarrow> unfinished cs s \<noteq> [] \<Longrightarrow> br_runner s = Busy \<Longrightarrow> \<not> any_claim_over (unfinished cs s) (br_db s) \<Longrightarrow>
    batch_step w cs s (beat now (wk_ttl w) cs s)"
| cancelled: "br_at s = Checking \<Longrightarrow> unfinished cs s \<noteq> [] \<Longrightarrow> br_runner s = Busy \<Longrightarrow> any_claim_over (unfinished cs s) (br_db s) \<Longrightarrow>
    finish_over now (wk_max_attempts w) cs (s\<lparr>br_cancel := True\<rparr>) = Inr s1 \<Longrightarrow>
    s' = (if unfinished cs s1 = [] then s1\<lparr>br_at := Returned\<rparr> else beat now (wk_ttl w) cs s1) \<Longrightarrow> batch_step w cs s s'"
| close: "br_at s = Closing results \<Longrightarrow> unfinished cs s = c # rest \<Longrightarrow>
    finish_claim now (wk_max_attempts w) c (result_for_claim c (map_of results (qc_request_id c))) False s = Inr s' \<Longrightarrow> batch_step w cs s s'"
| closed: "br_at s = Closing results \<Longrightarrow> unfinished cs s = [] \<Longrightarrow> batch_step w cs s (s\<lparr>br_at := Returned\<rparr>)"

inductive_cases batch_stepE: "batch_step w cs s s'"

definition batch_reachable :: "worker \<Rightarrow> queue_claim list \<Rightarrow> queue_db \<Rightarrow> batch_run \<Rightarrow> bool" where
  "batch_reachable w cs db s \<longleftrightarrow> (batch_step w cs)\<^sup>*\<^sup>* (batch_start db) s"

end
