(* ===== verification/Worker_Batch.thy ===== *)
theory Worker_Batch
  imports Worker_Pairs
begin

text \<open>
  What holds of the incremental batch in every state it can reach, whatever the runner and the other
  users of the queue do: each claim is handed in at most once, and when the worker returns each was, so
  that no request is left running under one of its leases.
\<close>

section \<open>Invariant\<close>

definition claims_ok :: "queue_claim list \<Rightarrow> bool" where
  "claims_ok cs \<longleftrightarrow> distinct (map qc_request_id cs)"

definition counted :: "'a progress_scheme \<Rightarrow> bool" where
  "counted s \<longleftrightarrow> (case br_counts s of (a, b, c) \<Rightarrow> 0 \<le> a \<and> 0 \<le> b \<and> 0 \<le> c \<and> a + b + c \<le> int (length (br_finished s)))"

definition told_ok :: "'a progress_scheme \<Rightarrow> bool" where
  "told_ok s \<longleftrightarrow> distinct (map fst (br_told s)) \<and> set (map fst (br_told s)) \<subseteq> set (br_finished s)"

definition batch_ok :: "queue_claim list \<Rightarrow> 'a progress_scheme \<Rightarrow> bool" where
  "batch_ok cs s \<longleftrightarrow> queue_ok (br_db s) \<and> distinct (br_finished s) \<and> set (br_finished s) \<subseteq> qc_request_id ` set cs \<and>
     counted s \<and> told_ok s \<and>
     (\<forall>c \<in> set cs. qc_request_id c \<in> set (br_finished s) \<longrightarrow> (\<forall>r \<in> set (requests (br_db s)). \<not> claim_row_of c r))"

definition returned_ok :: "queue_claim list \<Rightarrow> batch_run \<Rightarrow> bool" where
  "returned_ok cs s \<longleftrightarrow> (br_at s = Returned \<longrightarrow> unfinished cs s = [])"

lemma batch_ok_start: "queue_ok db \<Longrightarrow> batch_ok cs (batch_start db)"
  by (simp add: batch_ok_def batch_start_def counted_def told_ok_def)

lemma batch_ok_local [simp]:
  "batch_ok cs (s\<lparr>br_inbox := x\<rparr>) = batch_ok cs s" "batch_ok cs (s\<lparr>br_runner := y\<rparr>) = batch_ok cs s"
  "batch_ok cs (s\<lparr>br_at := z\<rparr>) = batch_ok cs s" "batch_ok cs (s\<lparr>br_cancel := b\<rparr>) = batch_ok cs s"
  by (simp_all add: batch_ok_def counted_def told_ok_def)

lemma unfinished_local [simp]:
  "unfinished cs (s\<lparr>br_inbox := x\<rparr>) = unfinished cs s" "unfinished cs (s\<lparr>br_runner := y\<rparr>) = unfinished cs s"
  "unfinished cs (s\<lparr>br_at := z\<rparr>) = unfinished cs s" "unfinished cs (s\<lparr>br_cancel := b\<rparr>) = unfinished cs s"
  "unfinished cs (s\<lparr>br_db := d\<rparr>) = unfinished cs s"
  by (simp_all add: unfinished_def)

lemma batch_ok_db:
  assumes "batch_ok cs s" and "queue_ok db" and "keeps_leases cs (br_db s) db"
  shows "batch_ok cs (s\<lparr>br_db := db\<rparr>)"
proof -
  have "\<forall>r \<in> set (requests db). \<not> claim_row_of c r" if "c \<in> set cs" "qc_request_id c \<in> set (br_finished s)" for c
    using assms(1,3) that by (force simp: batch_ok_def keeps_leases_def)
  moreover have "counted (s\<lparr>br_db := db\<rparr>) = counted s" "told_ok (s\<lparr>br_db := db\<rparr>) = told_ok s" by (simp_all add: counted_def told_ok_def)
  ultimately show ?thesis using assms(1,2) by (simp add: batch_ok_def)
qed

lemma keeps_leases_update:
  assumes "requests db' = sql_update p f (requests db)" and "\<And>rid lease r. running_under rid lease (f r) \<Longrightarrow> running_under rid lease r"
  shows "keeps_leases cs db db'"
  unfolding keeps_leases_def
proof (intro ballI impI)
  fix c r' assume "r' \<in> set (requests db')" "claim_row_of c r'"
  then show "\<exists>r \<in> set (requests db). claim_row_of c r"
    unfolding assms(1) in_sql_update using assms(2) by (metis (full_types))
qed

lemma keeps_leases_refl: "keeps_leases cs db db"
  by (auto simp: keeps_leases_def)

lemma keeps_leases_trans: "keeps_leases cs a b \<Longrightarrow> keeps_leases cs b c \<Longrightarrow> keeps_leases cs a c"
  unfolding keeps_leases_def by meson

section \<open>The calls of the worker\<close>

lemma paired_counts_cases:
  "paired_counts mx res r \<in> {(0, 0, 1), (1, 0, 0), (0, 1, 0), (0, 0, 0)}"
  by (simp add: paired_counts_def Let_def)

lemma finish_claim_effect:
  assumes ok: "batch_ok cs s" and c: "c \<in> set cs" and new: "qc_request_id c \<notin> set (br_finished s)"
    and ids: "claims_ok cs"
  obtains s' where "finish_claim now mx c res b s = Inr s'" and "batch_ok cs s'" and
    "br_finished s' = br_finished s @ [qc_request_id c]" and "br_at s' = br_at s" and "br_runner s' = br_runner s" and
    "br_inbox s' = br_inbox s" and "br_cancel s' = br_cancel s"
proof -
  have qok: "queue_ok (br_db s)" using ok by (simp add: batch_ok_def)
  obtain db' q where db': "queue_ok db'" and req: "requests db' = sql_update (claim_row_of c) (paired_row now mx res) (requests (br_db s))"
    and fin: "finish_pair now mx c res (br_db s) = Inr (db', q)" and q: "fst q \<in> {(0, 0, 1), (1, 0, 0), (0, 1, 0), (0, 0, 0)}"
  proof (rule finish_pair_effect [OF qok, of c now mx res])
    fix db' assume "queue_ok db'" "requests db' = sql_update (claim_row_of c) (paired_row now mx res) (requests (br_db s))"
      "finish_pair now mx c res (br_db s) = (case find (claim_row_of c) (requests (br_db s)) of None \<Rightarrow> Inr (db', (0, 0, 0), False)
        | Some r \<Rightarrow> Inr (db', paired_counts mx res r, \<not> (transport_failed res \<and> rq_state (paired_row now mx res r) = Queued)))"
    then show thesis
      using that [of db' "((0, 0, 0), False)"] that [of db' "(paired_counts mx res (the (find (claim_row_of c) (requests (br_db s)))), _)"]
        paired_counts_cases [of mx res "the (find (claim_row_of c) (requests (br_db s)))"]
      by (cases "find (claim_row_of c) (requests (br_db s))") (simp_all del: insert_iff, simp)
  qed
  obtain n h where nh: "q = (n, h)" by fastforce
  define s' where "s' = s\<lparr>br_db := db', br_counts := add_counts (br_counts s) n, br_finished := br_finished s @ [qc_request_id c],
      br_told := br_told s @ (if h then [(qc_request_id c, res)] else []), br_notified := br_notified s @ (if b then [qc_request_id c] else [])\<rparr>"
  have gone: "\<forall>r \<in> set (requests db'). \<not> claim_row_of c r"
  proof
    fix r assume "r \<in> set (requests db')"
    then obtain r0 where "r = (if claim_row_of c r0 then paired_row now mx res r0 else r0)" unfolding req in_sql_update by blast
    then show "\<not> claim_row_of c r" by (cases "claim_row_of c r0") simp_all
  qed
  have keeps: "keeps_leases cs (br_db s) db'"
    by (rule keeps_leases_update [OF req]) simp
  have "counted s'"
    using ok q by (auto simp: batch_ok_def counted_def s'_def nh add_counts_def split: prod.splits)
  moreover have "told_ok s'"
    using ok new by (auto simp: batch_ok_def told_ok_def s'_def)
  moreover have "\<forall>r \<in> set (requests db'). \<not> claim_row_of d r"
    if "d \<in> set cs" "qc_request_id d \<in> set (br_finished s')" for d
  proof (cases "qc_request_id d = qc_request_id c")
    case True
    then have "d = c" using ids that(1) c by (simp add: claims_ok_def distinct_map inj_on_def)
    with gone show ?thesis by simp
  next
    case False
    then have "qc_request_id d \<in> set (br_finished s)" using that(2) by (simp add: s'_def)
    then have "\<forall>r \<in> set (requests (br_db s)). \<not> claim_row_of d r" using ok that(1) by (simp add: batch_ok_def)
    with keeps that(1) show ?thesis unfolding keeps_leases_def by blast
  qed
  ultimately have "batch_ok cs s'"
    using ok db' new c by (auto simp: batch_ok_def s'_def)
  moreover have "finish_claim now mx c res b s = Inr s'"
    by (simp add: finish_claim_def fin nh s'_def)
  ultimately show thesis using that [of s'] by (simp add: s'_def)
qed

lemma finish_over_effect:
  assumes "batch_ok cs s" and "set ds \<subseteq> set cs" and "claims_ok cs"
  obtains s' where "finish_over now mx ds s = Inr s'" and "batch_ok cs s'" and "br_at s' = br_at s" and
    "br_runner s' = br_runner s" and "br_inbox s' = br_inbox s" and "set (br_finished s) \<subseteq> set (br_finished s')"
  using assms unfolding finish_over_def
proof (induction ds arbitrary: s thesis)
  case Nil
  then show ?case by simp
next
  case (Cons d ds)
  show ?case
  proof (cases "qc_request_id d \<in> set (br_finished s) \<or> \<not> terminal_name (claim_state (qc_request_id d) (br_db s))")
    case True
    then have "finish_over_step now mx s d = Inr s" by (auto simp: finish_over_step_def)
    moreover obtain s' where "foldE (finish_over_step now mx) s ds = Inr s'" "batch_ok cs s'" "br_at s' = br_at s"
        "br_runner s' = br_runner s" "br_inbox s' = br_inbox s" "set (br_finished s) \<subseteq> set (br_finished s')"
      by (rule Cons.IH [OF _ Cons.prems(2)]) (use Cons.prems in auto)
    ultimately show ?thesis using Cons.prems(1) [of s'] by simp
  next
    case False
    obtain s1 where s1: "finish_claim now mx d (worker_cancelled d) True s = Inr s1" "batch_ok cs s1" "br_at s1 = br_at s"
        "br_runner s1 = br_runner s" "br_inbox s1 = br_inbox s" "br_finished s1 = br_finished s @ [qc_request_id d]"
      by (rule finish_claim_effect [OF Cons.prems(2) _ _ Cons.prems(4), of d]) (use Cons.prems False in auto)
    obtain s' where "foldE (finish_over_step now mx) s1 ds = Inr s'" "batch_ok cs s'" "br_at s' = br_at s1"
        "br_runner s' = br_runner s1" "br_inbox s' = br_inbox s1" "set (br_finished s1) \<subseteq> set (br_finished s')"
      by (rule Cons.IH [OF _ s1(2)]) (use Cons.prems in auto)
    moreover have "finish_over_step now mx s d = Inr s1" using s1(1) False by (simp add: finish_over_step_def)
    ultimately show ?thesis using s1 Cons.prems(1) [of s'] by simp
  qed
qed

lemma heartbeat_keeps: "queue_ok db \<Longrightarrow> queue_ok (fst (heartbeat now ids ttl db)) \<and> keeps_leases cs db (fst (heartbeat now ids ttl db))"
  using heartbeat_ok [of db now ids ttl]
  by (auto simp: heartbeat_def Let_def keeps_leases_refl update_requests_def intro!: keeps_leases_update [where p = "leased_running (filter (\<lambda>i. i \<noteq> '''') ids)"] simp: running_under_def)

lemma beat_one_keeps:
  "queue_ok (fst a) \<Longrightarrow> queue_ok (fst (beat_one now ttl a c)) \<and> keeps_leases cs (fst a) (fst (beat_one now ttl a c))"
  using heartbeat_keeps [of "fst a" now "[qc_lease_id c]" ttl cs]
  by (auto simp: beat_one_def Let_def keeps_leases_refl split: prod.splits)

lemma beats_keep:
  "queue_ok (fst a) \<Longrightarrow> queue_ok (fst (foldl (beat_one now ttl) a ds)) \<and> keeps_leases cs (fst a) (fst (foldl (beat_one now ttl) a ds))"
proof (induction ds arbitrary: a)
  case (Cons d ds)
  note one = beat_one_keeps [OF Cons.prems, of now ttl d cs]
  show ?case using one Cons.IH [OF conjunct1 [OF one]] keeps_leases_trans by simp blast
qed (simp add: keeps_leases_refl)

lemma heartbeat_claims_keeps:
  assumes "queue_ok db"
  shows "queue_ok (fst (heartbeat_claims now ttl ds db)) \<and> keeps_leases cs db (fst (heartbeat_claims now ttl ds db))"
proof -
  let ?active = "filter (\<lambda>c. qc_lease_id c \<noteq> '''') ds"
  obtain db1 n where h: "heartbeat now (map qc_lease_id ?active) ttl db = (db1, n)" by fastforce
  obtain db2 lost where f: "foldl (beat_one now ttl) (db1, []) ?active = (db2, lost)" by fastforce
  have 1: "queue_ok db1 \<and> keeps_leases cs db db1" using heartbeat_keeps [OF assms, of now "map qc_lease_id ?active" ttl cs] h by simp
  moreover have "queue_ok db2 \<and> keeps_leases cs db1 db2" using beats_keep [of "(db1, [])" now ttl ?active cs] f 1 by simp
  ultimately show ?thesis
    using assms h f by (auto simp: heartbeat_claims_def Let_def keeps_leases_refl intro: keeps_leases_trans)
qed

lemma beat_ok: "batch_ok cs s \<Longrightarrow> batch_ok cs (beat now ttl cs s) \<and> br_at (beat now ttl cs s) \<noteq> Returned"
  using heartbeat_claims_keeps [of "br_db s" now ttl "unfinished cs s" cs] batch_ok_db [of cs s]
  by (auto simp: beat_def batch_ok_def [of cs s] split: prod.splits option.splits)

section \<open>Every reachable state\<close>

lemma batch_step_ok:
  assumes "batch_step w cs s s'" and ok: "batch_ok cs s" and "returned_ok cs s" and ids: "claims_ok cs"
  shows "batch_ok cs s' \<and> returned_ok cs s'"
  using assms(1)
proof cases
  case (others db')
  then show ?thesis using batch_ok_db [OF ok queue_step_ok] ok assms(3) by (simp add: batch_ok_def returned_ok_def)
next
  case (take f rid res rest c now)
  then have "c \<in> set cs" "qc_request_id c = rid" by (auto dest: find_Some_in)
  then show ?thesis
    using take finish_claim_effect [of cs "s\<lparr>br_inbox := rest\<rparr>" c now "wk_max_attempts w" "result_for_claim c (Some res)" True] ok ids
    by (force simp: returned_ok_def)
next
  case (alive now)
  then show ?thesis using beat_ok [OF ok] by (simp add: returned_ok_def)
next
  case (cancelled now s1)
  then have "batch_ok cs s1"
    using finish_over_effect [of cs "s\<lparr>br_cancel := True\<rparr>" cs now "wk_max_attempts w"] ok ids by (metis batch_ok_local(4) order_refl sum.inject(2))
  then show ?thesis using cancelled beat_ok [of cs s1] by (simp add: returned_ok_def)
next
  case (close results c rest now)
  then have "c \<in> set (unfinished cs s)" by simp
  then have "c \<in> set cs" "qc_request_id c \<notin> set (br_finished s)" by (simp_all add: unfinished_def)
  then show ?thesis
    using close finish_claim_effect [of cs s c now "wk_max_attempts w" "result_for_claim c (map_of results (qc_request_id c))" False] ok ids
    by (force simp: returned_ok_def)
qed (use ok assms(3) in \<open>auto simp: returned_ok_def\<close>)

lemma batch_steps_ok:
  assumes "(batch_step w cs)\<^sup>*\<^sup>* s s'" and "batch_ok cs s" and "returned_ok cs s" and "claims_ok cs"
  shows "batch_ok cs s' \<and> returned_ok cs s'"
  using assms by (induction rule: rtranclp_induct) (auto dest: batch_step_ok)

lemma batch_reachable_ok:
  assumes "batch_reachable w cs db s" and "queue_ok db" and "claims_ok cs"
  shows "batch_ok cs s \<and> returned_ok cs s"
  using batch_steps_ok [OF assms(1) [unfolded batch_reachable_def] batch_ok_start [OF assms(2)] _ assms(3)]
  by (simp add: returned_ok_def batch_start_def)


section \<open>Coming to the end\<close>

lemma unfinished_finish:
  "br_finished s' = br_finished s @ [qc_request_id c] \<Longrightarrow> unfinished cs s = c # rest \<Longrightarrow>
     length (unfinished cs s') < length (unfinished cs s)"
proof -
  assume f: "br_finished s' = br_finished s @ [qc_request_id c]" and u: "unfinished cs s = c # rest"
  have "unfinished cs s' = filter (\<lambda>d. qc_request_id d \<noteq> qc_request_id c) (unfinished cs s)"
    by (simp add: unfinished_def f conj_commute)
  then show ?thesis using u by (simp add: le_imp_less_Suc)
qed

lemma closing_ends:
  assumes "br_at s = Closing results" and "batch_ok cs s" and "claims_ok cs"
  shows "\<exists>s'. (batch_step w cs)\<^sup>*\<^sup>* s s' \<and> br_at s' = Returned"
  using assms
proof (induction "length (unfinished cs s)" arbitrary: s rule: less_induct)
  case less
  show ?case
  proof (cases "unfinished cs s")
    case Nil
    then show ?thesis using batch_step.closed [OF less.prems(1) Nil, of w] by (intro exI [of _ "s\<lparr>br_at := Returned\<rparr>"]) auto
  next
    case (Cons c rest)
    then have "c \<in> set (unfinished cs s)" by simp
    then have "c \<in> set cs" "qc_request_id c \<notin> set (br_finished s)" by (simp_all add: unfinished_def)
    then obtain s1 where s1: "finish_claim 0 (wk_max_attempts w) c (result_for_claim c (map_of results (qc_request_id c))) False s = Inr s1"
        "batch_ok cs s1" "br_finished s1 = br_finished s @ [qc_request_id c]" "br_at s1 = br_at s"
      using finish_claim_effect [OF less.prems(2) _ _ less.prems(3)] by metis
    obtain s' where "(batch_step w cs)\<^sup>*\<^sup>* s1 s'" "br_at s' = Returned"
      using less.hyps [OF unfinished_finish [OF s1(3) Cons]] s1(2,4) less.prems by auto
    then show ?thesis using batch_step.close [OF less.prems(1) Cons s1(1)] by (meson converse_rtranclp_into_rtranclp)
  qed
qed

lemma draining_ends:
  assumes "br_at s = Draining f" and "batch_ok cs s" and "claims_ok cs"
  shows "\<exists>s'. (batch_step w cs)\<^sup>*\<^sup>* s s' \<and> br_at s' = Draining f \<and> br_inbox s' = [] \<and> br_runner s' = br_runner s \<and> batch_ok cs s'"
  using assms
proof (induction "br_inbox s" arbitrary: s)
  case Nil
  then show ?case by auto
next
  case (Cons item rest)
  obtain rid res where item: "item = (rid, res)" by fastforce
  have inbox: "br_inbox s = (rid, res) # rest" using Cons.hyps(2) item by simp
  have "\<exists>s1. batch_step w cs s s1 \<and> br_at s1 = Draining f \<and> br_inbox s1 = rest \<and> br_runner s1 = br_runner s \<and> batch_ok cs s1"
  proof (cases "find (\<lambda>c. qc_request_id c = rid) (rev cs) = None \<or> rid \<in> set (br_finished s)")
    case True
    then show ?thesis using batch_step.skip [OF Cons.prems(1) inbox True, of w] Cons.prems
      by (intro exI [of _ "s\<lparr>br_inbox := rest\<rparr>"]) simp
  next
    case False
    then obtain c where c: "find (\<lambda>c. qc_request_id c = rid) (rev cs) = Some c" "rid \<notin> set (br_finished s)" by auto
    then have "c \<in> set cs" "qc_request_id c = rid" by (auto dest: find_Some_in)
    then obtain s1 where s1: "finish_claim 0 (wk_max_attempts w) c (result_for_claim c (Some res)) True (s\<lparr>br_inbox := rest\<rparr>) = Inr s1"
        "batch_ok cs s1" "br_at s1 = br_at s" "br_inbox s1 = rest" "br_runner s1 = br_runner s"
      using finish_claim_effect [of cs "s\<lparr>br_inbox := rest\<rparr>" c 0 "wk_max_attempts w" "result_for_claim c (Some res)" True] Cons.prems c
      by auto
    then show ?thesis using batch_step.take [OF Cons.prems(1) inbox c s1(1)] Cons.prems(1) by auto
  qed
  then obtain s1 where s1: "batch_step w cs s s1" "br_at s1 = Draining f" "br_inbox s1 = rest" "br_runner s1 = br_runner s" "batch_ok cs s1"
    by blast
  then show ?case using Cons.hyps(1) [of s1] Cons.prems(3) by (metis converse_rtranclp_into_rtranclp)
qed

lemma waiting_ends:
  assumes "br_at s \<in> {Waiting, Draining True}" and "br_runner s = Ended out" and "batch_ok cs s" and "claims_ok cs"
  shows "\<exists>s'. (batch_step w cs)\<^sup>*\<^sup>* s s' \<and> br_at s' = Returned"
proof -
  have "\<exists>s1. (batch_step w cs)\<^sup>*\<^sup>* s s1 \<and> br_at s1 = Draining True \<and> br_runner s1 = Ended out \<and> batch_ok cs s1"
  proof (cases "br_at s = Waiting")
    case True
    then show ?thesis using batch_step.over [OF True, of w cs] assms
      by (intro exI [of _ "s\<lparr>br_at := Draining True\<rparr>"]) auto
  qed (use assms in auto)
  then obtain s1 where s1: "(batch_step w cs)\<^sup>*\<^sup>* s s1" "br_at s1 = Draining True" "br_runner s1 = Ended out" "batch_ok cs s1" by blast
  obtain s2 where s2: "(batch_step w cs)\<^sup>*\<^sup>* s1 s2" "br_at s2 = Draining True" "br_inbox s2 = []" "br_runner s2 = Ended out" "batch_ok cs s2"
    using draining_ends [OF s1(2,4) assms(4), of w] s1(3) by auto
  define res where "res = (case out of Inl e \<Rightarrow> failures_of e (unfinished cs s2) | Inr rs \<Rightarrow> rs)"
  have "batch_step w cs s2 (s2\<lparr>br_at := Closing res\<rparr>)"
    by (rule batch_step.results [OF s2(2,3,4) res_def])
  moreover obtain s' where "(batch_step w cs)\<^sup>*\<^sup>* (s2\<lparr>br_at := Closing res\<rparr>) s'" "br_at s' = Returned"
    using closing_ends [of "s2\<lparr>br_at := Closing res\<rparr>" res cs w] s2(5) assms(4) by auto
  ultimately show ?thesis using s1(1) s2(1) by (meson rtranclp_trans converse_rtranclp_into_rtranclp)
qed

lemma ended_returns:
  assumes "br_runner s = Ended out" and ok: "batch_ok cs s" and ids: "claims_ok cs"
  shows "\<exists>s'. (batch_step w cs)\<^sup>*\<^sup>* s s' \<and> br_at s' = Returned"
proof -
  have check: "\<exists>s'. (batch_step w cs)\<^sup>*\<^sup>* s s' \<and> br_at s' = Returned"
    if "br_at s = Checking" "br_runner s = Ended out" "batch_ok cs s" for s
    using waiting_ends [of "s\<lparr>br_at := Waiting\<rparr>" out cs w] batch_step.idle [OF that(1), of cs w] that ids
    by (auto intro: converse_rtranclp_into_rtranclp)
  show ?thesis
  proof (cases "br_at s")
    case (Draining f)
    show ?thesis
    proof (cases f)
      case False
      then have "br_at s = Draining False" using Draining by simp
      then obtain s1 where s1: "(batch_step w cs)\<^sup>*\<^sup>* s s1" "br_at s1 = Draining False" "br_inbox s1 = []" "br_runner s1 = Ended out" "batch_ok cs s1"
        using draining_ends [OF _ ok ids, of False w] assms(1) by auto
      have "batch_step w cs s1 (s1\<lparr>br_at := Checking\<rparr>)" by (rule batch_step.drained [OF s1(2,3)])
      moreover obtain s' where "(batch_step w cs)\<^sup>*\<^sup>* (s1\<lparr>br_at := Checking\<rparr>) s'" "br_at s' = Returned"
        using check [of "s1\<lparr>br_at := Checking\<rparr>"] s1 by auto
      ultimately show ?thesis using s1(1) by (meson rtranclp_trans converse_rtranclp_into_rtranclp)
    qed (use Draining waiting_ends [OF _ assms] in auto)
  next
    case (Closing res)
    then show ?thesis by (rule closing_ends [OF _ ok ids])
  qed (use waiting_ends [OF _ assms] check [OF _ assms(1,2)] in auto)
qed

lemma batch_can_return:
  assumes "queue_reachable db" and "distinct (map qc_request_id cs)" and "batch_reachable w cs db s"
  shows "\<exists>s'. (batch_step w cs)\<^sup>*\<^sup>* s s' \<and> br_at s' = Returned"
proof -
  have ids: "claims_ok cs" using assms(2) by (simp add: claims_ok_def)
  have ok: "batch_ok cs s" using batch_reachable_ok [OF assms(3) reachable_ok [OF assms(1)] ids] by simp
  show ?thesis
  proof (cases "br_runner s")
    case Busy
    then have "batch_step w cs s (s\<lparr>br_runner := Ended (Inr [])\<rparr>)" by (rule batch_step.ends)
    moreover obtain s' where "(batch_step w cs)\<^sup>*\<^sup>* (s\<lparr>br_runner := Ended (Inr [])\<rparr>) s'" "br_at s' = Returned"
      using ended_returns [of "s\<lparr>br_runner := Ended (Inr [])\<rparr>" "Inr []" cs w] ok ids by auto
    ultimately show ?thesis by (meson converse_rtranclp_into_rtranclp)
  qed (rule ended_returns [OF _ ok ids])
qed

section \<open>Properties\<close>

text \<open>
  C6. When an incremental batch returns, each of its claims has been handed in exactly once and no
  request is left running under one of their leases, whatever the runner pushed, omitted, repeated or
  raised, and whatever other users of the queue did meanwhile; the result hook was called at most once for
  each claim, and the counts never exceed the claims.
\<close>

theorem batch_hands_in_every_claim:
  assumes "queue_reachable db" and "distinct (map qc_request_id cs)" and "batch_reachable w cs db s" and "br_at s = Returned"
  shows "mset (br_finished s) = mset (map qc_request_id cs) \<and>
    (\<forall>c \<in> set cs. \<forall>r \<in> set (requests (br_db s)). \<not> running_under (qc_request_id c) (qc_lease_id c) r) \<and>
    distinct (map fst (br_told s)) \<and> (case br_counts s of (a, b, c) \<Rightarrow> a + b + c \<le> int (length cs))"
proof -
  have ids: "claims_ok cs" using assms(2) by (simp add: claims_ok_def)
  have ok: "batch_ok cs s" "returned_ok cs s" using batch_reachable_ok [OF assms(3) reachable_ok [OF assms(1)] ids] by auto
  then have all: "set (br_finished s) = qc_request_id ` set cs"
    using assms(4) by (auto simp: returned_ok_def unfinished_def filter_empty_conv batch_ok_def)
  have m: "mset (br_finished s) = mset (map qc_request_id cs)"
    using all assms(2) ok(1) by (intro set_eq_iff_mset_eq_distinct [THEN iffD1]) (simp_all add: batch_ok_def)
  then have "length (br_finished s) = length cs" using mset_eq_length by fastforce
  then show ?thesis using m all ok(1) by (auto simp: batch_ok_def counted_def told_ok_def split: prod.splits)
qed

text \<open>
  C7. A batch can always come to its end: from every state it can reach, even after lost leases,
  cancellations or an exception of the runner, the worker returns in finitely many steps once the runner
  has ended.
\<close>

theorem batch_never_stuck:
  assumes "queue_reachable db" and "distinct (map qc_request_id cs)" and "batch_reachable w cs db s"
  shows "\<exists>s'. (batch_step w cs)\<^sup>*\<^sup>* s s' \<and> br_at s' = Returned"
  by (rule batch_can_return [OF assms])

definition demo_worker :: worker where
  "demo_worker = \<lparr>wk_id = ''w'', wk_ttl = 60, wk_max_attempts = 3\<rparr>"

lemma demo_claims_distinct: "distinct (map qc_request_id (snd (projr demo_claim)))"
  by code_simp

theorem batch_never_stuck_witness:
  "\<exists>s'. (batch_step demo_worker (snd (projr demo_claim)))\<^sup>*\<^sup>* (batch_start demo_running) s' \<and> br_at s' = Returned"
  by (rule batch_never_stuck [OF demo_reachable(2) demo_claims_distinct]) (simp add: batch_reachable_def)

theorem batch_hands_in_every_claim_witness:
  "\<exists>s. batch_reachable demo_worker (snd (projr demo_claim)) demo_running s \<and> br_finished s = [''a'']"
proof -
  let ?cs = "snd (projr demo_claim)"
  have start: "batch_reachable demo_worker ?cs demo_running (batch_start demo_running)" by (simp add: batch_reachable_def)
  obtain s where s: "batch_reachable demo_worker ?cs demo_running s" "br_at s = Returned"
    using batch_can_return [OF demo_reachable(2) demo_claims_distinct start] by (auto simp: batch_reachable_def)
  have "map qc_request_id ?cs = [''a'']" by code_simp
  then have "br_finished s = [''a'']"
    using batch_hands_in_every_claim [OF demo_reachable(2) demo_claims_distinct s] by simp
  with s(1) show ?thesis by blast
qed

end
