(* ===== verification/Worker_Refill.thy ===== *)
theory Worker_Refill
  imports Worker_Batch
begin

text \<open>
  The modes of \<^verbatim>\<open>worker.py\<close> that run each claim in a thread of its own:
  \<^verbatim>\<open>_run_stream\<close> and \<^verbatim>\<open>_run_refill_stream\<close>, which claims more work while it runs.
  A turn of their loops is given the futures that are done, with their outcomes.
\<close>

section \<open>One claim in a thread\<close>

definition run_one :: "queue_claim \<Rightarrow> queue_db \<Rightarrow> string + pydict \<Rightarrow> string + pydict" where
  \<comment> \<open>\<open>outcome\<close>: what the lookup of the profile and the call of the runner come to\<close>
  "run_one c db outcome =
     (if qc_kind c \<noteq> ''model'' \<or> qc_request c = None then Inr (worker_failure c ''worker cannot run CPU claim without CPU batch path'')
      else if claim_over c db then Inr (worker_cancelled c)
      else case outcome of Inl e \<Rightarrow> Inl e | Inr d \<Rightarrow> Inr (result_for_claim c (Some d)))"

definition run_refill_one ::
  "queue_claim \<Rightarrow> queue_db \<Rightarrow> bool \<Rightarrow> (string \<times> pydict) list \<Rightarrow> string + pydict \<Rightarrow> string + (string \<times> pydict) list \<Rightarrow> string + pydict"
where
  \<comment> \<open>\<open>pushed\<close>: the results pushed by the runner, the latest first; \<open>batch\<close>: what its call gave\<close>
  "run_refill_one c db incremental pushed single batch =
     (if qc_kind c \<noteq> ''model'' \<or> qc_request c = None then Inr (worker_failure c ''worker cannot run CPU claim without CPU batch path'')
      else if claim_over c db then Inr (worker_cancelled c)
      else if \<not> incremental then run_one c db single
      else case batch of
             Inl e \<Rightarrow> Inr (worker_failure c e)
           | Inr rs \<Rightarrow> Inr (result_for_claim c (case map_of pushed (qc_request_id c) of None \<Rightarrow> map_of rs (qc_request_id c) | Some d \<Rightarrow> Some d)))"

section \<open>The stream\<close>

record refill_run = progress +
  rf_pending :: "queue_claim list"
  rf_claimed :: int
  rf_prefilled :: int
  rf_lease :: "string option"
  rf_stopped :: bool

datatype loop_end = Going | Left | Broken string

definition refill_start :: "queue_claim list \<Rightarrow> queue_db \<Rightarrow> refill_run" where
  "refill_start cs db =
     \<lparr>br_db = db, br_finished = [], br_counts = (0, 0, 0), br_told = [], br_notified = [], rf_pending = cs,
      rf_claimed = int (length cs), rf_prefilled = 0, rf_lease = qc_compute_lease_id (hd cs), rf_stopped = False\<rparr>"

definition refill_collect :: "rat \<Rightarrow> int \<Rightarrow> (queue_claim \<times> (string + pydict)) list \<Rightarrow> refill_run \<Rightarrow> refill_run result" where
  \<comment> \<open>the futures that are done leave the pending ones and are handed in\<close>
  "refill_collect now mx completed s =
     foldE (\<lambda>s (c, out). finish_claim now mx c (future_result c out) True s)
       (s\<lparr>rf_pending := filter (\<lambda>c. c \<notin> fst ` set completed) (rf_pending s)\<rparr>) completed"

definition finish_cancelled_pending :: "rat \<Rightarrow> int \<Rightarrow> refill_run \<Rightarrow> refill_run result" where
  "finish_cancelled_pending now mx s =
     bindE (finish_over now mx (filter (\<lambda>c. terminal_name (claim_state (qc_request_id c) (br_db s))) (rf_pending s)) s) (\<lambda>s1.
       Inr (s1\<lparr>rf_pending := filter (\<lambda>c. qc_request_id c \<notin> set (br_finished s1)) (rf_pending s1)\<rparr>))"

definition refill_cancel :: "rat \<Rightarrow> int \<Rightarrow> refill_run \<Rightarrow> (refill_run \<times> loop_end) result" where
  "refill_cancel now mx s =
     (if rf_pending s \<noteq> [] \<and> any_claim_over (rf_pending s) (br_db s)
      then bindE (finish_cancelled_pending now mx (s\<lparr>rf_stopped := True\<rparr>)) (\<lambda>s1. Inr (s1, if rf_pending s1 = [] then Left else Going))
      else Inr (s, Going))"

definition refill_opts :: "worker \<Rightarrow> work_opts \<Rightarrow> int \<Rightarrow> string option \<Rightarrow> string option \<Rightarrow> bool \<Rightarrow> claim_opts" where
  "refill_opts w o1 fill lease service share =
     (work_claim_opts w o1)\<lparr>co_limit := fill, co_linger_s := 0, co_compute_lease := lease, co_service := service, co_share := share\<rparr>"

definition claim_refill ::
  "environ \<Rightarrow> rat \<Rightarrow> (nat \<Rightarrow> string) \<times> (nat \<Rightarrow> string) \<times> (nat \<Rightarrow> string) \<Rightarrow> worker \<Rightarrow> work_opts \<Rightarrow> int \<Rightarrow> string option \<Rightarrow>
   string option \<Rightarrow> bool \<Rightarrow> bool \<Rightarrow> queue_db \<Rightarrow> (queue_db \<times> nat \<times> queue_claim list) result"
where
  "claim_refill env now uuids w o1 fill lease service allow_new share db =
     (case uuids of (u0, u1, u2) \<Rightarrow>
        let (db1, prefilled) = prepare_ready env now u0 (wo_node o1) (wo_profiles o1) (wo_batch o1) fill (wk_id w) (wo_depth o1)
                                 (wo_capacity o1) (wo_layouts o1) service share db
        in bindE (claim_ready_batch env now u1 (refill_opts w o1 fill lease service share) db1) (\<lambda>(db2, claims).
             if claims = [] \<and> allow_new \<and> lease \<noteq> None \<and> \<not> share
             then bindE (claim_ready_batch env now u2 (refill_opts w o1 fill None service False) db2) (\<lambda>(db3, claims').
                    Inr (db3, prefilled, claims'))
             else Inr (db2, prefilled, claims)))"

definition refill_low :: "int \<Rightarrow> int \<Rightarrow> int" where
  "refill_low watermark concurrency = max 1 (min watermark concurrency)"

definition refill_more ::
  "environ \<Rightarrow> rat \<Rightarrow> (nat \<Rightarrow> string) \<times> (nat \<Rightarrow> string) \<times> (nat \<Rightarrow> string) \<Rightarrow> worker \<Rightarrow> work_opts \<Rightarrow> int \<Rightarrow> string option \<Rightarrow>
   bool \<Rightarrow> refill_run \<Rightarrow> refill_run result"
where
  "refill_more env now uuids w o1 watermark service share s =
     (let fill = max 0 (wo_concurrency o1 - int (length (rf_pending s)))
      in if rf_stopped s \<or> int (length (rf_pending s)) > refill_low watermark (wo_concurrency o1) \<or> fill \<le> 0 then Inr s
         else
           bindE (claim_refill env now uuids w o1 fill (rf_lease s) service (rf_pending s = []) share (br_db s)) (\<lambda>(db, prefilled, claims).
             Inr (s\<lparr>br_db := db, rf_prefilled := rf_prefilled s + int prefilled, rf_claimed := rf_claimed s + int (length claims),
                    rf_lease := (if claims = [] then rf_lease s else qc_compute_lease_id (hd claims)),
                    rf_pending := rf_pending s @ claims\<rparr>)))"

definition stream_beat :: "rat \<Rightarrow> rat \<Rightarrow> refill_run \<Rightarrow> refill_run \<times> loop_end" where
  \<comment> \<open>a lost lease raises out of the loop; \<^verbatim>\<open>while pending\<close>\<close>
  "stream_beat now ttl s =
     (if rf_pending s = [] then (s, Left)
      else case heartbeat_claims now ttl (rf_pending s) (br_db s) of
             (db, None) \<Rightarrow> (s\<lparr>br_db := db\<rparr>, Going)
           | (db, Some e) \<Rightarrow> (s\<lparr>br_db := db\<rparr>, Broken e))"

definition refill_turn ::
  "environ \<Rightarrow> rat \<Rightarrow> (nat \<Rightarrow> string) \<times> (nat \<Rightarrow> string) \<times> (nat \<Rightarrow> string) \<Rightarrow> worker \<Rightarrow> work_opts \<Rightarrow> int \<Rightarrow> string option \<Rightarrow>
   bool \<Rightarrow> (queue_claim \<times> (string + pydict)) list \<Rightarrow> refill_run \<Rightarrow> (refill_run \<times> loop_end) result"
where
  \<comment> \<open>one turn of the loop of \<^verbatim>\<open>_run_refill_stream\<close>; \<open>service\<close> is the one of the first claim\<close>
  "refill_turn env now uuids w o1 watermark service share completed s =
     bindE (refill_collect now (wk_max_attempts w) completed s) (\<lambda>s1.
     bindE (refill_cancel now (wk_max_attempts w) s1) (\<lambda>(s2, e).
       if e = Left then Inr (s2, Left)
       else bindE (refill_more env now uuids w o1 watermark service share s2) (\<lambda>s3. Inr (stream_beat now (wk_ttl w) s3))))"

definition stream_turn ::
  "rat \<Rightarrow> worker \<Rightarrow> (queue_claim \<times> (string + pydict)) list \<Rightarrow> refill_run \<Rightarrow> (refill_run \<times> loop_end) result"
where
  \<comment> \<open>one turn of the loop of \<^verbatim>\<open>_run_stream\<close>, which does not refill and keeps no finished set\<close>
  "stream_turn now w completed s =
     bindE (refill_collect now (wk_max_attempts w) completed s) (\<lambda>s1. Inr (stream_beat now (wk_ttl w) s1))"

section \<open>What a turn keeps\<close>

lemma finish_claim_frame:
  assumes "queue_ok (br_db s)"
  obtains s' where "finish_claim now mx c res b s = Inr s'" and "queue_ok (br_db s')" and
    "requests (br_db s') = sql_update (claim_row_of c) (paired_row now mx res) (requests (br_db s))" and
    "br_finished s' = br_finished s @ [qc_request_id c]" and "progress.more s' = progress.more s"
proof -
  obtain db' q where "queue_ok db'" "requests db' = sql_update (claim_row_of c) (paired_row now mx res) (requests (br_db s))"
    "finish_pair now mx c res (br_db s) = Inr (db', q)"
    by (rule finish_pair_effect [OF assms, of c now mx res]) (auto simp del: split_paired_Ex split: option.splits)
  then show thesis
    using that by (cases q) (simp add: finish_claim_def)
qed

definition spares :: "string set \<Rightarrow> queue_db \<Rightarrow> queue_db \<Rightarrow> bool" where
  \<comment> \<open>the rows of these requests are untouched\<close>
  "spares ids db db' \<longleftrightarrow> (\<forall>r \<in> set (requests db). rq_request_id r \<in> ids \<longrightarrow> r \<in> set (requests db'))"

lemma finish_over_spares:
  assumes "queue_ok (br_db s)"
  obtains s' where "finish_over now mx cs s = Inr s'" and "spares (set (br_finished s)) (br_db s) (br_db s')" and
    "set (br_finished s) \<subseteq> set (br_finished s')" and "progress.more s' = progress.more s"
  using assms unfolding finish_over_def
proof (induction cs arbitrary: s thesis)
  case Nil
  then show ?case by (simp add: spares_def)
next
  case (Cons c cs)
  show ?case
  proof (cases "qc_request_id c \<in> set (br_finished s) \<or> \<not> terminal_name (claim_state (qc_request_id c) (br_db s))")
    case True
    then have "finish_over_step now mx s c = Inr s" by (auto simp: finish_over_step_def)
    moreover obtain s' where "foldE (finish_over_step now mx) s cs = Inr s'" "spares (set (br_finished s)) (br_db s) (br_db s')"
        "set (br_finished s) \<subseteq> set (br_finished s')" "progress.more s' = progress.more s"
      by (rule Cons.IH [OF _ Cons.prems(2)])
    ultimately show ?thesis using Cons.prems(1) [of s'] by simp
  next
    case False
    obtain s1 where s1: "finish_claim now mx c (worker_cancelled c) True s = Inr s1" "queue_ok (br_db s1)"
        "requests (br_db s1) = sql_update (claim_row_of c) (paired_row now mx (worker_cancelled c)) (requests (br_db s))"
        "br_finished s1 = br_finished s @ [qc_request_id c]" "progress.more s1 = progress.more s"
      by (rule finish_claim_frame [OF Cons.prems(2)])
    obtain s' where s': "foldE (finish_over_step now mx) s1 cs = Inr s'" "spares (set (br_finished s1)) (br_db s1) (br_db s')"
        "set (br_finished s1) \<subseteq> set (br_finished s')" "progress.more s' = progress.more s1"
      by (rule Cons.IH [OF _ s1(2)])
    have kept: "r \<in> set (requests (br_db s1))" if "r \<in> set (requests (br_db s))" "rq_request_id r \<in> set (br_finished s)" for r
    proof -
      have "\<not> claim_row_of c r" using that(2) False by (auto simp: running_under_def)
      then show ?thesis using that(1) unfolding s1(3) in_sql_update by (metis (full_types))
    qed
    have "spares (set (br_finished s)) (br_db s) (br_db s')"
      using kept s'(2) s1(4) by (auto simp: spares_def)
    moreover have "finish_over_step now mx s c = Inr s1" using s1(1) False by (simp add: finish_over_step_def)
    ultimately show ?thesis using Cons.prems(1) [of s'] s' s1(4,5) by simp
  qed
qed

section \<open>Properties\<close>

text \<open>
  A refill stream loses a request it claims a second time.  Its finished set holds request ids:
  a request that was handed in with a transport failure goes back to the queue and may be claimed again by
  the same stream, under a new lease; when some other claim is cancelled, the stream drops every pending
  claim whose id is in the set, so the second claim is neither handed in nor kept alive, and its request
  stays running until the lease runs out.
\<close>

theorem refill_forgets_reclaimed:
  assumes "queue_ok (br_db s)" and "any_claim_over (rf_pending s) (br_db s)"
    and "c \<in> set (rf_pending s)" and "qc_request_id c \<in> set (br_finished s)"
  obtains s' e where "refill_cancel now mx s = Inr (s', e)" and "c \<notin> set (rf_pending s')" and
    "\<And>r. r \<in> set (requests (br_db s)) \<Longrightarrow> claim_row_of c r \<Longrightarrow> r \<in> set (requests (br_db s'))"
proof -
  let ?s = "s\<lparr>rf_stopped := True\<rparr>"
  obtain s1 where s1: "finish_over now mx (filter (\<lambda>c. terminal_name (claim_state (qc_request_id c) (br_db ?s))) (rf_pending ?s)) ?s = Inr s1"
      "spares (set (br_finished ?s)) (br_db ?s) (br_db s1)" "set (br_finished ?s) \<subseteq> set (br_finished s1)"
    by (rule finish_over_spares [of ?s]) (use assms(1) in auto)
  define s2 where "s2 = s1\<lparr>rf_pending := filter (\<lambda>c. qc_request_id c \<notin> set (br_finished s1)) (rf_pending s1)\<rparr>"
  have "refill_cancel now mx s = Inr (s2, if rf_pending s2 = [] then Left else Going)"
    using assms(2,3) s1(1) by (auto simp: refill_cancel_def finish_cancelled_pending_def s2_def)
  moreover have "c \<notin> set (rf_pending s2)" using assms(4) s1(3) by (auto simp: s2_def)
  moreover have "r \<in> set (requests (br_db s2))" if "r \<in> set (requests (br_db s))" "claim_row_of c r" for r
    using s1(2) assms(4) that by (simp add: s2_def spares_def running_under_def)
  ultimately show thesis using that by blast
qed

end
