(* ===== verification/Runner_Text.thy ===== *)
theory Runner_Text
  imports Builders Coalesce Requests
begin

text \<open>
  The text of a model's answer in \<^verbatim>\<open>ds4_infer/runners.py\<close> and
  \<^verbatim>\<open>ds4_infer/chat_streaming.py\<close>: what is taken from a response, the removal of
  visible thinking, the early stop at an answer marker, and the pieces of a stream.
\<close>

section \<open>Visible thinking\<close>

fun after_mark :: "string \<Rightarrow> string \<Rightarrow> string option" where
  \<comment> \<open>the text after the first occurrence of a mark\<close>
  "after_mark m [] = (if m = [] then Some [] else None)"
| "after_mark m (c # s) = (case drop_prefix m (c # s) of Some r \<Rightarrow> Some r | None \<Rightarrow> after_mark m s)"

definition lstrip :: "string \<Rightarrow> string" where
  "lstrip s = dropWhile is_space s"

definition rstrip :: "string \<Rightarrow> string" where
  "rstrip s = rev (dropWhile is_space (rev s))"

definition think_end :: string where
  "think_end = ''</think>''"

definition strip_visible_thinking :: "string \<Rightarrow> string" where
  "strip_visible_thinking s = (case after_mark think_end s of None \<Rightarrow> s | Some r \<Rightarrow> lstrip r)"

section \<open>Answers in responses\<close>

definition first_string :: "pydict \<Rightarrow> string list \<Rightarrow> string option" where
  \<comment> \<open>the first of these keys whose value is a text\<close>
  "first_string d keys = map_option (\<lambda>k. str_or_empty (dget d k)) (find (\<lambda>k. case dget d k of JStr _ \<Rightarrow> True | _ \<Rightarrow> False) keys)"

definition extract_completion_like_text :: "pydict \<Rightarrow> string" where
  "extract_completion_like_text data =
     (case first_string data [''content'', ''response'', ''text'', ''completion'', ''generated_text''] of
        Some s \<Rightarrow> strip_visible_thinking s
      | None \<Rightarrow>
          (case dget data ''choices'' of
             JArr (JObj c # _) \<Rightarrow>
               (case first_string c [''text'', ''content''] of Some s \<Rightarrow> strip_visible_thinking s | None \<Rightarrow> dumps_sorted (JObj data))
           | _ \<Rightarrow> dumps_sorted (JObj data)))"

definition first_message :: "json list \<Rightarrow> json" where
  \<comment> \<open>\<^verbatim>\<open>choices[0].get("message", {})\<close>, of a choice that is a dict\<close>
  "first_message choices = (case choices of JObj c # _ \<Rightarrow> dget_or c ''message'' (JObj []) | _ \<Rightarrow> JObj [])"

definition extract_openai_chat_text :: "pydict \<Rightarrow> string" where
  "extract_openai_chat_text data =
     (case dget data ''choices'' of
        JArr (c # cs) \<Rightarrow>
          (case first_message (c # cs) of
             JObj message \<Rightarrow>
               if dget message ''content'' \<noteq> JNull then strip_visible_thinking (py_str (dget message ''content''))
               else if dget message ''reasoning_content'' \<noteq> JNull then strip_visible_thinking (py_str (dget message ''reasoning_content''))
               else if dget message ''reasoning'' \<noteq> JNull then strip_visible_thinking (py_str (dget message ''reasoning''))
               else if truthy (dget message ''tool_calls'') then dumps_sorted (JObj message)
               else dumps_sorted (JObj data)
           | _ \<Rightarrow> dumps_sorted (JObj data))
      | _ \<Rightarrow> dumps_sorted (JObj data))"

definition extract_openai_completion_text :: "pydict \<Rightarrow> string" where
  "extract_openai_completion_text data =
     (case dget data ''choices'' of
        JArr (c # cs) \<Rightarrow>
          (let content = (case first_message (c # cs) of JObj message \<Rightarrow> dget message ''content'' | _ \<Rightarrow> JNull);
               txt = (case c of JObj d \<Rightarrow> dget d ''text'' | _ \<Rightarrow> JNull)
           in if content \<noteq> JNull then py_str content
              else if txt \<noteq> JNull then strip_visible_thinking (py_str txt)
              else extract_completion_like_text data)
      | _ \<Rightarrow> extract_completion_like_text data)"

definition usage_from_response :: "pydict \<Rightarrow> pydict" where
  "usage_from_response data = obj_or_empty (dget data ''usage'')"

definition estimate_text_tokens :: "string \<Rightarrow> int" where
  "estimate_text_tokens s = max 0 (int (length s) div 4)"

section \<open>Stopping at an answer\<close>

definition inline_space :: "char \<Rightarrow> bool" where
  "inline_space c \<longleftrightarrow> c = CHR '' '' \<or> c = CHR 0x09"

definition line_end :: "char \<Rightarrow> bool" where
  "line_end c \<longleftrightarrow> c = CHR 0x0A \<or> c = CHR 0x0D"

definition drop_word :: "string \<Rightarrow> string \<Rightarrow> string option" where
  \<comment> \<open>a word at the start of the text, in any case\<close>
  "drop_word w s = (if lower (take (length w) s) = w then Some (drop (length w) s) else None)"

definition skip_final :: "string \<Rightarrow> string" where
  \<comment> \<open>\<^verbatim>\<open>(?:final[ \t]+)?\<close>\<close>
  "skip_final s =
     (case drop_word ''final'' s of
        Some (c # r) \<Rightarrow> if inline_space c then dropWhile inline_space r else s
      | _ \<Rightarrow> s)"

definition answer_value :: "string \<Rightarrow> string option" where
  \<comment> \<open>the rest of the text after the colon of \<^verbatim>\<open>[ \t]*(?:final[ \t]+)?answer[ \t]*:[ \t]*\<close>\<close>
  "answer_value line =
     (case drop_word ''answer'' (skip_final (dropWhile inline_space line)) of
        None \<Rightarrow> None
      | Some r \<Rightarrow> (case dropWhile inline_space r of c # v \<Rightarrow> if c = CHR '':'' then Some (dropWhile inline_space v) else None | [] \<Rightarrow> None))"

definition alnum :: "char \<Rightarrow> bool" where
  "alnum c \<longleftrightarrow> (CHR ''0'' \<le> c \<and> c \<le> CHR ''9'') \<or> (CHR ''A'' \<le> c \<and> c \<le> CHR ''Z'') \<or> (CHR ''a'' \<le> c \<and> c \<le> CHR ''z'')"

definition good_answer :: "string \<Rightarrow> bool" where
  "good_answer v \<longleftrightarrow> strip v \<noteq> '''' \<and> \<not> startswith (strip v) ''<'' \<and> list_ex alnum (strip v)"

definition line_answer :: "nat \<Rightarrow> string \<Rightarrow> string \<Rightarrow> string option" where
  \<comment> \<open>the text up to the end of the answer at the start of this line; \<open>seen\<close> is what lies before the line,
    \<open>tail\<close> the required length of what follows an answer line that is not ended\<close>
  "line_answer tail seen s =
     (case answer_value s of
        None \<Rightarrow> None
      | Some r \<Rightarrow>
          (let v = takeWhile (\<lambda>c. \<not> line_end c) r; rest = dropWhile (\<lambda>c. \<not> line_end c) r;
               upto = seen @ take (length s - length rest) s
           in if \<not> good_answer v then None
              else if rest \<noteq> [] then Some upto
              else if length rest \<ge> tail then Some upto else None))"

function answer_end :: "nat \<Rightarrow> string \<Rightarrow> string \<Rightarrow> string option" where
  "answer_end tail seen s =
     (case line_answer tail seen s of
        Some t \<Rightarrow> Some t
      | None \<Rightarrow>
          (case dropWhile (\<lambda>c. c \<noteq> CHR 0x0A) s of
             [] \<Rightarrow> None
           | nl # r \<Rightarrow> answer_end tail (seen @ takeWhile (\<lambda>c. c \<noteq> CHR 0x0A) s @ [nl]) r))"
  by pat_completeness auto
termination
proof (relation "measure (\<lambda>(tail, seen, s). length s)")
  fix tail seen s nl r
  assume "dropWhile (\<lambda>c. c \<noteq> CHR 0x0A) s = nl # r"
  then have "length (nl # r) \<le> length s" by (metis length_dropWhile_le)
  then show "((tail, seen @ takeWhile (\<lambda>c. c \<noteq> CHR 0x0A) s @ [nl], r), (tail, seen, s)) \<in> measure (\<lambda>(tail, seen, s). length s)"
    by simp
qed simp

declare answer_end.simps [simp del]

definition answer_marker_stop_tail_chars :: "environ \<Rightarrow> nat" where
  "answer_marker_stop_tail_chars env =
     (let raw = env_get env ''DS4_PIPELINE_ANSWER_MARKER_STOP_TAIL_CHARS'' ''8''
      in case py_int (JStr (if raw = '''' then ''8'' else raw)) of Inr i \<Rightarrow> nat (max 0 i) | Inl _ \<Rightarrow> 8)"

definition answer_marker_early_stop_text :: "environ \<Rightarrow> string \<Rightarrow> string option" where
  "answer_marker_early_stop_text env s =
     (let visible = (case after_mark think_end s of None \<Rightarrow> s | Some r \<Rightarrow> r);
          lead = take (length s - length visible) s
      in map_option rstrip (answer_end (answer_marker_stop_tail_chars env) lead visible))"

section \<open>Pieces of a stream\<close>

definition completion_stream_choice_text :: "pydict \<Rightarrow> string" where
  "completion_stream_choice_text choice =
     (case dget choice ''text'' of
        JStr s \<Rightarrow> strip_visible_thinking s
      | _ \<Rightarrow>
          (case dget choice ''delta'' of
             JObj d \<Rightarrow> (case por (dget d ''content'') (dget d ''text'') of JStr s \<Rightarrow> strip_visible_thinking s | _ \<Rightarrow> '''')
           | _ \<Rightarrow> ''''))"

definition completion_choice_index :: "pydict \<Rightarrow> int \<Rightarrow> int" where
  "completion_choice_index choice fallback =
     (case py_int (dget_or choice ''index'' (JInt fallback)) of Inr i \<Rightarrow> i | Inl _ \<Rightarrow> fallback)"

definition chat_choice_text :: "pydict \<Rightarrow> string" where
  \<comment> \<open>\<^verbatim>\<open>_choice_text\<close> of a parallel chat stream\<close>
  "chat_choice_text choice =
     (let from = (\<lambda>name keys. case dget choice name of JObj d \<Rightarrow> first_string d keys | _ \<Rightarrow> None)
      in case from ''delta'' [''content'', ''reasoning_content'', ''reasoning'', ''text''] of
           Some s \<Rightarrow> strip_visible_thinking s
         | None \<Rightarrow>
             (case from ''message'' [''content'', ''reasoning_content'', ''reasoning''] of
                Some s \<Rightarrow> strip_visible_thinking s
              | None \<Rightarrow> (case dget choice ''text'' of JStr s \<Rightarrow> strip_visible_thinking s | _ \<Rightarrow> '''')))"

section \<open>Requests\<close>

definition forced_output_request :: "inference_request \<Rightarrow> bool" where
  "forced_output_request r =
     (let raw = (case dget (ir_input r) ''openai'' of JObj d \<Rightarrow> Some d
                 | _ \<Rightarrow> (case dget (ir_input r) ''openai_sampling'' of JObj d \<Rightarrow> Some d | _ \<Rightarrow> None))
      in case raw of None \<Rightarrow> False
         | Some d \<Rightarrow>
             truthy (dget d ''ignore_eos'') \<and>
             (case py_int (por (dget d ''min_tokens'') (JInt 0)) of Inl _ \<Rightarrow> False | Inr n \<Rightarrow> n \<ge> ir_max_output_tokens r))"

definition request_stop_on_answer_marker :: "inference_request \<Rightarrow> bool" where
  "request_stop_on_answer_marker r \<longleftrightarrow>
     truthy (dget (ir_output_contract r) ''stop_on_answer_marker'') \<or> truthy (dget (ir_input r) ''stop_on_answer_marker'') \<or>
     truthy (dget (obj_or_empty (dget (obj_or_empty (dget (ir_input r) ''metadata'')) ''ds4_eval'')) ''stop_on_answer_marker'')"

definition flag_env :: "environ \<Rightarrow> string \<Rightarrow> bool \<Rightarrow> bool" where
  \<comment> \<open>the \<^verbatim>\<open>_env_bool\<close> of \<^verbatim>\<open>runners.py\<close>: an empty value is false\<close>
  "flag_env env name d = (case env name of None \<Rightarrow> d | Some v \<Rightarrow> lower (strip v) \<in> {''1'', ''true'', ''yes'', ''on''})"

definition parallel_completion_prompt_streaming :: "environ \<Rightarrow> inference_request \<Rightarrow> bool" where
  "parallel_completion_prompt_streaming env r \<longleftrightarrow>
     request_stop_on_answer_marker r \<and> flag_env env ''DS4_PIPELINE_PARALLEL_COMPLETION_PROMPT_STREAMING'' True"

definition internal_stream_nonclient_cohort :: "environ \<Rightarrow> bool \<Rightarrow> inference_request list \<Rightarrow> bool result" where
  \<comment> \<open>\<open>cancelable\<close>: a cancel event is given\<close>
  "internal_stream_nonclient_cohort env cancelable rs =
     (if env ''DS4_PIPELINE_INTERNAL_STREAM_ALL_COHORTS'' \<noteq> None
      then Inr (flag_env env ''DS4_PIPELINE_INTERNAL_STREAM_ALL_COHORTS'' True)
      else if cancelable \<and> flag_env env ''DS4_PIPELINE_INTERNAL_STREAM_CANCELABLE_COHORTS'' True then Inr True
      else
        (let mode = lower (strip (env_get env ''DS4_PIPELINE_INTERNAL_STREAM_MODE'' ''auto''))
         in if mode \<in> {''1'', ''true'', ''yes'', ''on'', ''always''} then Inr True
            else if mode \<in> {''0'', ''false'', ''no'', ''off'', ''never''} then Inr False
            else if mode \<notin> {'''', ''auto''} then Inl (ValueError ''DS4_PIPELINE_INTERNAL_STREAM_MODE must be auto, always, or never'')
            else Inr (rs = [] \<or> \<not> list_all forced_output_request rs)))"


definition num_env :: "environ \<Rightarrow> string \<Rightarrow> int \<Rightarrow> int" where
  \<comment> \<open>the \<^verbatim>\<open>_env_int\<close> of \<^verbatim>\<open>runners.py\<close>: a text that is no number gives the default\<close>
  "num_env env name d = (case env name of None \<Rightarrow> d
     | Some v \<Rightarrow> if v = '''' then d else (case py_int (JStr v) of Inr i \<Rightarrow> i | Inl _ \<Rightarrow> d))"

section \<open>Streaming and thinking\<close>

lemma after_mark_None:
  assumes "m \<noteq> []"
  shows "after_mark m s = None \<longleftrightarrow> (\<forall>u r. s \<noteq> u @ m @ r)"
proof (induction s)
  case Nil
  then show ?case using assms by simp
next
  case (Cons c s)
  show ?case
  proof (cases "drop_prefix m (c # s)")
    case None
    have "(\<forall>u r. c # s \<noteq> u @ m @ r) \<longleftrightarrow> (\<forall>u r. s \<noteq> u @ m @ r)"
    proof
      assume l: "\<forall>u r. c # s \<noteq> u @ m @ r"
      show "\<forall>u r. s \<noteq> u @ m @ r" using l by (metis append_Cons)
    next
      assume l: "\<forall>u r. s \<noteq> u @ m @ r"
      show "\<forall>u r. c # s \<noteq> u @ m @ r"
      proof (intro allI notI)
        fix u r assume eq: "c # s = u @ m @ r"
        show False
        proof (cases u)
          case Nil
          then have "drop_prefix m (c # s) = Some r" using eq by (simp add: drop_prefix_Some)
          with None show False by simp
        qed (use eq l in auto)
      qed
    qed
    then show ?thesis using Cons.IH None by simp
  next
    case (Some r)
    then have "c # s = [] @ m @ r" by (simp add: drop_prefix_Some)
    then show ?thesis using Some by (metis after_mark.simps(2) option.distinct(1) option.simps(5))
  qed
qed

lemma after_mark_pieces:
  assumes "m \<noteq> []" and "after_mark m (concat ds) = None" and "d \<in> set ds"
  shows "after_mark m d = None"
proof -
  obtain xs ys where "ds = xs @ d # ys" using assms(3) split_list by metis
  then have c: "concat ds = concat xs @ d @ concat ys" by simp
  show ?thesis
    unfolding after_mark_None [OF assms(1)]
  proof (intro allI notI)
    fix u r assume "d = u @ m @ r"
    then have "concat ds = (concat xs @ u) @ m @ (r @ concat ys)" using c by simp
    then show False using assms(2) after_mark_None [OF assms(1)] by blast
  qed
qed

definition streamed_text :: "pydict list \<Rightarrow> string" where
  \<comment> \<open>the text collected from the choices of a stream\<close>
  "streamed_text choices = concat (map completion_stream_choice_text choices)"

definition text_choice :: "string \<Rightarrow> pydict" where
  "text_choice d = [(''text'', JStr d)]"

text \<open>
  Streaming does not change an answer: a text without an end-of-thinking mark, cut into pieces
  in any way, is collected as the very text that the same answer gives in one response.
\<close>

theorem streamed_text_faithful:
  assumes "after_mark think_end (concat ds) = None"
  shows "streamed_text (map text_choice ds) = extract_openai_completion_text [(''choices'', JArr [JObj (text_choice (concat ds))])]"
proof -
  have "completion_stream_choice_text (text_choice d) = d" if "d \<in> set ds" for d
    using after_mark_pieces [OF _ assms that] by (simp add: completion_stream_choice_text_def text_choice_def dget_def dget_or_def strip_visible_thinking_def think_end_def)
  then have "streamed_text (map text_choice ds) = concat ds" by (simp add: streamed_text_def cong: map_cong)
  then show ?thesis
    using assms by (simp add: extract_openai_completion_text_def first_message_def text_choice_def dget_def dget_or_def strip_visible_thinking_def)
qed

theorem streamed_text_faithful_witness:
  "streamed_text (map text_choice [''4'', ''2 is'', '' it'']) = ''42 is it''"
proof -
  have "after_mark think_end (concat [''4'', ''2 is'', '' it'']) = None" by code_simp
  from streamed_text_faithful [OF this] show ?thesis by simp code_simp
qed

text \<open>
  With the mark it does: a piece that holds the mark is stripped alone, so the mark is gone when the
  whole is stripped, and the thinking before it stays in the answer.
\<close>

lemma stream_leaks_thinking:
  "strip_visible_thinking (streamed_text (map text_choice [''secret'', ''</think>answer''])) = ''secretanswer''"
  "extract_openai_completion_text [(''choices'', JArr [JObj (text_choice ''secret</think>answer'')])] = ''answer''"
  by code_simp+

text \<open>The required tail after an answer line is never there: the line is read to its end.\<close>

lemma answer_tail_unused:
  "0 < n \<Longrightarrow> answer_end n seen s = answer_end 1 seen s"
proof (induction n seen s rule: answer_end.induct)
  case (1 n seen s)
  have unended: "dropWhile (\<lambda>c. \<not> line_end c) r = []" if "\<forall>c \<in> set r. \<not> line_end c" for r
    using that by simp
  have "line_answer n seen s = line_answer 1 seen s"
    using "1.prems" by (auto simp: line_answer_def Let_def unended split: option.split)
  note line = this
  show ?case
  proof (cases "line_answer 1 seen s")
    case None
    then have none: "line_answer n seen s = None" using line by simp
    show ?thesis
    proof (cases "dropWhile (\<lambda>c. c \<noteq> CHR 0x0A) s")
      case Nil
      with None none show ?thesis by (simp only: answer_end.simps [of n seen s] answer_end.simps [of 1 seen s] option.case list.case)
    next
      case (Cons nl r)
      have "answer_end n (seen @ takeWhile (\<lambda>c. c \<noteq> CHR 0x0A) s @ [nl]) r = answer_end 1 (seen @ takeWhile (\<lambda>c. c \<noteq> CHR 0x0A) s @ [nl]) r"
        by (rule "1.IH" [OF none Cons "1.prems"])
      with None none Cons show ?thesis by (simp only: answer_end.simps [of n seen s] answer_end.simps [of 1 seen s] option.case list.case)
    qed
  qed (simp only: line answer_end.simps [of n seen s] answer_end.simps [of 1 seen s] option.case)
qed

end
