(* ===== verification/Attachments.thy ===== *)
theory Attachments
  imports Profiles Py_Text Sha256 "HOL-Library.Multiset"
begin

text \<open>
  \<^verbatim>\<open>ds4_infer/attachments.py\<close>: the files attached to a chat request are cut into chunks, the
  chunks that fit the context are chosen, and a message with them is put before the last user message.
  A text is its UTF-8 bytes; a character is a lead byte with its continuation bytes.
\<close>

section \<open>Lines and characters\<close>

definition continuation :: "char \<Rightarrow> bool" where
  "continuation c = (let n = of_char c :: nat in 128 \<le> n \<and> n < 192)"

definition continuations :: "string \<Rightarrow> nat" where
  \<comment> \<open>how many continuation bytes follow, three at most\<close>
  "continuations s = min 3 (length (takeWhile continuation s))"

function utf8_chars :: "string \<Rightarrow> string list" where
  "utf8_chars [] = []"
| "utf8_chars (c # s) = (c # take (continuations s) s) # utf8_chars (drop (continuations s) s)"
  by pat_completeness auto
termination by (relation "measure length") auto

definition line_break :: "string \<Rightarrow> nat" where
  \<comment> \<open>the length of the line break at the start of the text, 0 if there is none: those of \<^verbatim>\<open>str.splitlines\<close>\<close>
  "line_break s =
     (if startswith s [CHR 0x0D, CHR 0x0A] then 2
      else if s \<noteq> [] \<and> hd s \<in> {CHR 0x0A, CHR 0x0D, CHR 0x0B, CHR 0x0C, CHR 0x1C, CHR 0x1D, CHR 0x1E} then 1
      else if startswith s [CHR 0xC2, CHR 0x85] then 2
      else if startswith s [CHR 0xE2, CHR 0x80, CHR 0xA8] \<or> startswith s [CHR 0xE2, CHR 0x80, CHR 0xA9] then 3
      else 0)"

function lines_keepends :: "string \<Rightarrow> string \<Rightarrow> string list" where
  \<comment> \<open>\<^verbatim>\<open>text.splitlines(keepends=True)\<close>, with the line read so far\<close>
  "lines_keepends w [] = (if w = [] then [] else [w])"
| "lines_keepends w (c # s) =
     (let n = line_break (c # s)
      in if n = 0 then lines_keepends (w @ [c]) s else (w @ take n (c # s)) # lines_keepends [] (drop n (c # s)))"
  by pat_completeness auto
termination by (relation "measure (\<lambda>(w, s). length s)") auto

section \<open>Chunks of a text\<close>

definition pack_step :: "nat \<Rightarrow> string list \<times> string \<Rightarrow> string \<Rightarrow> string list \<times> string" where
  \<comment> \<open>one more piece: into the current chunk while it fits\<close>
  "pack_step most acc piece =
     (case acc of (out, current) \<Rightarrow>
        if current \<noteq> [] \<and> length current + length piece > most then (out @ [current], piece) else (out, current @ piece))"

definition flush :: "string list \<times> string \<Rightarrow> string list" where
  "flush acc = (case acc of (out, current) \<Rightarrow> if current = [] then out else out @ [current])"

definition split_long_line :: "nat \<Rightarrow> string \<Rightarrow> string list" where
  "split_long_line most line = flush (foldl (pack_step most) ([], []) (utf8_chars line))"

definition split_step :: "nat \<Rightarrow> string list \<times> string \<Rightarrow> string \<Rightarrow> string list \<times> string" where
  "split_step most acc line =
     (if length line > most then (flush acc @ split_long_line most line, []) else pack_step most acc line)"

definition split_text_by_bytes :: "nat \<Rightarrow> string \<Rightarrow> string list" where
  "split_text_by_bytes most txt =
     (if length txt \<le> most then (if txt = [] then [] else [txt])
      else flush (foldl (split_step most) ([], []) (lines_keepends [] txt)))"

definition rough_tokens :: "string \<Rightarrow> nat" where
  "rough_tokens s = max 1 (length s div 3)"

section \<open>Attachments of a request\<close>

record attachment =
  at_name :: string
  at_mime :: string
  at_content :: string

record file_chunk =
  ch_file :: nat
  ch_index :: nat
  ch_name :: string
  ch_mime :: string
  ch_text :: string

definition ch_tokens :: "file_chunk \<Rightarrow> nat" where
  "ch_tokens c = rough_tokens (ch_text c)"

definition ch_sha :: "file_chunk \<Rightarrow> string" where
  "ch_sha c = sha256_hex (ch_text c)"

definition b64_value :: "char \<Rightarrow> nat option" where
  "b64_value c =
     (let n = of_char c :: nat
      in if 65 \<le> n \<and> n \<le> 90 then Some (n - 65) else if 97 \<le> n \<and> n \<le> 122 then Some (n - 71)
         else if 48 \<le> n \<and> n \<le> 57 then Some (n + 4) else if n = 43 then Some 62 else if n = 47 then Some 63 else None)"

fun b64_quads :: "string \<Rightarrow> string option" where
  \<comment> \<open>\<^verbatim>\<open>base64.b64decode(value, validate=True)\<close>\<close>
  "b64_quads [] = Some []"
| "b64_quads (a # b # c # d # s) =
     (case (b64_value a, b64_value b) of
        (Some x, Some y) \<Rightarrow>
          (let first = char_of (x * 4 + y div 16)
           in if c = CHR ''='' then (if d = CHR ''='' \<and> s = [] then Some [first] else None)
              else
                (case b64_value c of None \<Rightarrow> None
                 | Some z \<Rightarrow>
                     (let second = char_of (y mod 16 * 16 + z div 4)
                      in if d = CHR ''='' then (if s = [] then Some [first, second] else None)
                         else (case (b64_value d, b64_quads s) of
                                 (Some w, Some r) \<Rightarrow> Some (first # second # char_of (z mod 4 * 64 + w) # r)
                               | _ \<Rightarrow> None))))
      | _ \<Rightarrow> None)"
| "b64_quads _ = None"

definition attachment_text :: "pydict \<Rightarrow> string result" where
  \<comment> \<open>decoded bytes that are not UTF-8 are kept; the code puts replacement characters for them\<close>
  "attachment_text item =
     (case (dget item ''content'', dget item ''text'', dget item ''data'', dget item ''content_base64'') of
        (JStr s, _, _, _) \<Rightarrow> Inr s
      | (_, JStr s, _, _) \<Rightarrow> Inr s
      | (_, _, JStr s, _) \<Rightarrow> Inr s
      | (_, _, _, JStr s) \<Rightarrow>
          (case b64_quads s of Some t \<Rightarrow> Inr t | None \<Rightarrow> Inl (ValueError ''attachment content_base64 must decode as UTF-8 text''))
      | _ \<Rightarrow> Inr '''')"

definition first_truthy :: "pydict \<Rightarrow> string list \<Rightarrow> string \<Rightarrow> string" where
  \<comment> \<open>\<^verbatim>\<open>str(d.get(a) or d.get(b) or ... or default)\<close>\<close>
  "first_truthy d keys other = (case find (\<lambda>k. truthy (dget d k)) keys of Some k \<Rightarrow> py_str (dget d k) | None \<Rightarrow> other)"

definition normalized_attachment :: "nat \<times> pydict \<Rightarrow> attachment result" where
  "normalized_attachment p =
     (case p of (i, item) \<Rightarrow>
        bindE (attachment_text item) (\<lambda>s.
          Inr \<lparr>at_name = first_truthy item [''name'', ''filename'', ''path'', ''id''] (''attachment-'' @ show_nat (i + 1)),
               at_mime = first_truthy item [''mime_type'', ''media_type'', ''content_type'', ''type''] ''text/plain'', at_content = s\<rparr>))"

definition attachment_containers :: "pydict \<Rightarrow> pydict list" where
  "attachment_containers body = [body, obj_or_empty (dget body ''extra_body''), obj_or_empty (dget body ''metadata'')]"

definition listed_attachments :: "pydict \<Rightarrow> pydict list" where
  "listed_attachments body =
     concat (map (\<lambda>d. concat (map (\<lambda>k. case dget d k of
         JArr xs \<Rightarrow> concat (map (\<lambda>x. case x of JObj o1 \<Rightarrow> [o1] | _ \<Rightarrow> []) xs) | _ \<Rightarrow> [])
       [''attachments'', ''files'', ''input_attachments''])) (attachment_containers body))"

definition request_attachments :: "pydict \<Rightarrow> attachment list result" where
  "request_attachments body = (let items = listed_attachments body in mapE normalized_attachment (zip [0..<length items] items))"

definition chunks_of_attachment :: "nat \<Rightarrow> nat \<times> attachment \<Rightarrow> file_chunk list" where
  "chunks_of_attachment most p =
     (case p of (i, a) \<Rightarrow>
        let texts = split_text_by_bytes most (at_content a)
        in map (\<lambda>(j, t). \<lparr>ch_file = i, ch_index = j, ch_name = at_name a, ch_mime = at_mime a, ch_text = t\<rparr>) (zip [0..<length texts] texts))"

definition chunks_for_attachments :: "nat \<Rightarrow> attachment list \<Rightarrow> file_chunk list" where
  "chunks_for_attachments chunk_tokens atts =
     concat (map (chunks_of_attachment (max 1 chunk_tokens * 3)) (zip [0..<length atts] atts))"

section \<open>The budget\<close>

definition setting :: "pydict \<Rightarrow> string \<Rightarrow> json" where
  "setting body key =
     (case find (\<lambda>d. has_key d key) (attachment_containers body) of Some d \<Rightarrow> dget d key | None \<Rightarrow> JNull)"

definition positive_env :: "environ \<Rightarrow> string \<Rightarrow> int \<Rightarrow> int" where
  "positive_env env name d =
     (let raw = env_get env name '''' in if raw = '''' then max 1 d else case py_int (JStr raw) of Inr i \<Rightarrow> max 1 i | Inl _ \<Rightarrow> d)"

definition positive_int :: "json \<Rightarrow> int \<Rightarrow> int result" where
  "positive_int v d = (if v = JNull then Inr d else bindE (py_int v) (\<lambda>i. Inr (max 1 i)))"

definition profile_max_model_len :: "model_profile \<Rightarrow> int result" where
  "profile_max_model_len p =
     (if dget (mp_performance p) ''max_model_len'' \<noteq> JNull then bindE (py_int (dget (mp_performance p) ''max_model_len'')) (\<lambda>i. Inr (max 1 i))
      else if dget (mp_routing p) ''max_model_len'' \<noteq> JNull then bindE (py_int (dget (mp_routing p) ''max_model_len'')) (\<lambda>i. Inr (max 1 i))
      else Inr 32768)"

definition attachment_context_budget :: "environ \<Rightarrow> pydict \<Rightarrow> model_profile \<Rightarrow> int \<Rightarrow> int \<Rightarrow> int result" where
  "attachment_context_budget env body p max_output thinking =
     (let override = setting body ''ds4_attachment_context_budget_tokens''
      in if override \<noteq> JNull then bindE (py_int override) (\<lambda>i. Inr (max 1 i))
         else bindE (profile_max_model_len p) (\<lambda>n.
           Inr (max 1 (n - (positive_env env ''DS4_API_ATTACHMENT_CONTEXT_RESERVE_TOKENS'' 2048 + max 0 max_output + max 0 thinking)))))"

section \<open>Choosing chunks\<close>

definition word_char :: "char \<Rightarrow> bool" where
  "word_char c \<longleftrightarrow> (CHR ''0'' \<le> c \<and> c \<le> CHR ''9'') \<or> (CHR ''A'' \<le> c \<and> c \<le> CHR ''Z'') \<or> (CHR ''a'' \<le> c \<and> c \<le> CHR ''z'') \<or> c = CHR ''_''"

fun word_runs :: "string \<Rightarrow> string \<Rightarrow> string list" where
  "word_runs w [] = (if w = [] then [] else [w])"
| "word_runs w (c # s) = (if word_char c then word_runs (w @ [c]) s else (if w = [] then [] else [w]) @ word_runs [] s)"

definition stop_terms :: "string list" where
  "stop_terms = [''the'', ''and'', ''for'', ''that'', ''this'', ''with'', ''from'', ''into'', ''what'', ''when'', ''where'', ''which'', ''should'', ''would'']"

definition query_terms :: "string \<Rightarrow> string list" where
  "query_terms q = filter (\<lambda>t. 3 \<le> length t \<and> t \<notin> set stop_terms) (word_runs [] (lower q))"

definition chunk_score :: "string \<Rightarrow> file_chunk \<Rightarrow> nat" where
  "chunk_score q c = length (filter (contains (lower (ch_text c))) (remdups (query_terms q)))"

definition tokens_of :: "file_chunk list \<Rightarrow> nat" where
  "tokens_of cs = sum_list (map ch_tokens cs)"

fun pick :: "nat \<Rightarrow> nat \<Rightarrow> (nat \<times> file_chunk) list \<Rightarrow> (nat \<times> file_chunk) list \<Rightarrow> (nat \<times> file_chunk) list" where
  \<comment> \<open>the loop over the scored chunks, with the tokens used and the chunks selected\<close>
  "pick budget used selected [] = selected"
| "pick budget used selected ((i, c) # rest) =
     (if selected \<noteq> [] \<and> used + ch_tokens c > budget then pick budget used selected rest
      else if ch_tokens c > budget \<and> selected = [] then [(i, c)]
      else pick budget (used + ch_tokens c) (selected @ [(i, c)]) rest)"

definition select_chunks :: "nat \<Rightarrow> string \<Rightarrow> file_chunk list \<Rightarrow> file_chunk list" where
  "select_chunks budget q cs =
     (if tokens_of cs \<le> budget then cs
      else
        (let indexed = zip [0..<length cs] cs;
             scored = sort_key (\<lambda>(i, c). - int (chunk_score q c)) indexed
         in map snd (sort_key fst (pick budget 0 [] scored))))"

section \<open>Manifest and message\<close>

definition file_record :: "file_chunk list \<Rightarrow> file_chunk list \<Rightarrow> nat \<times> attachment \<Rightarrow> json" where
  "file_record cs selected p =
     (case p of (i, a) \<Rightarrow>
        let mine = filter (\<lambda>c. ch_file c = i) cs;
            included = filter (\<lambda>c. (ch_file c, ch_index c) \<in> set (map (\<lambda>c. (ch_file c, ch_index c)) selected)) mine
        in JObj [(''name'', JStr (at_name a)), (''mime_type'', JStr (at_mime a)), (''bytes'', JInt (int (length (at_content a)))),
                 (''content_sha256'', JStr (sha256_hex (at_content a))), (''chunk_count'', JInt (int (length mine))),
                 (''included_chunk_count'', JInt (int (length included))), (''estimated_tokens'', JInt (int (tokens_of mine)))])"

definition bytes_of :: "attachment list \<Rightarrow> nat" where
  "bytes_of atts = sum_list (map (\<lambda>a. length (at_content a)) atts)"

definition attachment_manifest :: "attachment list \<Rightarrow> file_chunk list \<Rightarrow> file_chunk list \<Rightarrow> int \<Rightarrow> int \<Rightarrow> pydict" where
  "attachment_manifest atts cs selected budget chunk_tokens =
     [(''format'', JStr ''ds4-attachment-context-v1''), (''attachment_count'', JInt (int (length atts))), (''chunk_count'', JInt (int (length cs))),
      (''included_chunk_count'', JInt (int (length selected))), (''omitted_chunk_count'', JInt (max 0 (int (length cs) - int (length selected)))),
      (''bytes'', JInt (int (bytes_of atts))), (''estimated_tokens'', JInt (int (tokens_of cs))),
      (''included_estimated_tokens'', JInt (int (tokens_of selected))), (''budget_tokens'', JInt budget), (''chunk_target_tokens'', JInt chunk_tokens),
      (''selection'', JStr (if length selected = length cs then ''all'' else ''query_relevant'')),
      (''files'', JArr (map (file_record cs selected) (zip [0..<length atts] atts)))]"

definition xml_escape :: "string \<Rightarrow> string" where
  "xml_escape v = replace_all ''>'' ''&gt;'' (replace_all ''<'' ''&lt;'' (replace_all [CHR 0x22] ''&quot;'' (replace_all ''&'' ''&amp;'' v)))"

definition chunk_lines :: "file_chunk \<Rightarrow> string list" where
  "chunk_lines c =
     [CHR 0x0A # ''<ds4_attachment name='' @ [CHR 0x22] @ xml_escape (ch_name c) @ [CHR 0x22] @ '' chunk='' @ [CHR 0x22] @ show_nat (ch_index c + 1) @
        [CHR 0x22] @ '' sha256='' @ [CHR 0x22] @ ch_sha c @ [CHR 0x22] @ ''>'', ch_text c, ''</ds4_attachment>'']"

definition attachment_message :: "attachment list \<Rightarrow> file_chunk list \<Rightarrow> file_chunk list \<Rightarrow> pydict" where
  "attachment_message atts cs selected =
     (if selected = [] then []
      else
        (let omitted = length cs - length selected;
             head = [''Attached file context follows. Use these file contents as source material for the next user request.'',
               ''Attachment manifest: '' @ show_nat (length atts) @ '' file(s), '' @ show_nat (bytes_of atts) @ '' bytes, about '' @
                 show_nat (tokens_of cs) @ '' tokens, '' @ show_nat (length selected) @ ''/'' @ show_nat (length cs) @ '' chunk(s) included.''];
             note_line = (if omitted \<noteq> 0 then [''Only query-relevant chunks fit this context window; '' @ show_nat omitted @ '' chunk(s) are omitted.''] else [])
         in [(''role'', JStr ''user''), (''content'', JStr (joinwith [CHR 0x0A] (head @ note_line @ concat (map chunk_lines selected))))]))"

definition is_user :: "pydict \<Rightarrow> bool" where
  "is_user m \<longleftrightarrow> dget m ''role'' = JStr ''user''"

definition insert_before_final_user :: "pydict list \<Rightarrow> pydict \<Rightarrow> pydict list" where
  "insert_before_final_user ms m =
     (let tail = takeWhile (\<lambda>x. \<not> is_user x) (rev ms); front = dropWhile (\<lambda>x. \<not> is_user x) (rev ms)
      in case front of [] \<Rightarrow> ms @ [m] | u # earlier \<Rightarrow> rev earlier @ [m, u] @ rev tail)"

definition last_user_text :: "pydict list \<Rightarrow> string" where
  "last_user_text ms = (case find is_user (rev ms) of Some m \<Rightarrow> py_str (por (dget m ''content'') (JStr '''')) | None \<Rightarrow> '''')"

definition loose_truthy :: "json \<Rightarrow> bool" where
  "loose_truthy v =
     (case v of JBool b \<Rightarrow> b | JNull \<Rightarrow> False | _ \<Rightarrow> lower (strip (py_str v)) \<notin> {'''', ''0'', ''false'', ''no'', ''off''})"

definition attach_request_files ::
  "environ \<Rightarrow> pydict \<Rightarrow> model_profile \<Rightarrow> pydict list \<Rightarrow> int \<Rightarrow> int \<Rightarrow> (pydict list \<times> pydict option) result"
where
  \<comment> \<open>\<^verbatim>\<open>attach_request_files_to_messages\<close>\<close>
  "attach_request_files env body p messages max_output thinking =
     bindE (request_attachments body) (\<lambda>atts.
       if atts = [] then Inr (messages, None)
       else
         bindE (attachment_context_budget env body p max_output thinking) (\<lambda>budget.
         bindE (positive_int (setting body ''ds4_attachment_chunk_tokens'') (positive_env env ''DS4_API_ATTACHMENT_CHUNK_TOKENS'' 8192)) (\<lambda>wanted.
           let chunk_tokens = min budget wanted;
               cs = chunks_for_attachments (nat chunk_tokens) atts;
               selected = select_chunks (nat budget) (last_user_text messages) cs;
               manifest = attachment_manifest atts cs selected budget chunk_tokens;
               message = attachment_message atts cs selected
           in if length selected < length cs \<and> loose_truthy (setting body ''ds4_attachment_require_all'')
              then Inl (ValueError (''attachments need about '' @ show_nat (tokens_of cs) @ '' prompt tokens, but budget is '' @ show_int budget @
                     ''; raise the model context, lower requested output/thinking tokens, or unset ds4_attachment_require_all''))
              else if message = [] then Inr (messages, Some manifest)
              else Inr (insert_before_final_user messages message, Some manifest))))"

section \<open>Cutting loses nothing\<close>

lemma concat_utf8_chars: "concat (utf8_chars s) = s"
  by (induction s rule: utf8_chars.induct) simp_all

lemma utf8_chars_short: "g \<in> set (utf8_chars s) \<Longrightarrow> g \<noteq> [] \<and> length g \<le> 4"
  by (induction s rule: utf8_chars.induct) (auto simp: continuations_def)

lemma concat_lines_keepends: "concat (lines_keepends w s) = w @ s"
  by (induction w s rule: lines_keepends.induct) (auto simp: Let_def simp del: append_take_drop_id, metis append_take_drop_id)

definition chunk_fits :: "nat \<Rightarrow> string \<Rightarrow> bool" where
  "chunk_fits most p \<longleftrightarrow> p \<noteq> [] \<and> length p \<le> max most 4"

definition packed :: "nat \<Rightarrow> string list \<times> string \<Rightarrow> string \<Rightarrow> bool" where
  \<comment> \<open>the chunks so far and the current one hold the text read, each within its size\<close>
  "packed most acc read = (case acc of (out, current) \<Rightarrow> concat out @ current = read \<and> list_all (chunk_fits most) out \<and>
     (current = [] \<or> chunk_fits most current))"

lemma packed_step:
  "packed most acc read \<Longrightarrow> piece \<noteq> [] \<Longrightarrow> length piece \<le> max most 4 \<Longrightarrow> packed most (pack_step most acc piece) (read @ piece)"
  by (cases acc) (auto simp: packed_def pack_step_def chunk_fits_def)

lemma packed_flush: "packed most acc read \<Longrightarrow> concat (flush acc) = read \<and> list_all (chunk_fits most) (flush acc)"
  by (cases acc) (auto simp: packed_def flush_def)

lemma packed_fold:
  "packed most acc read \<Longrightarrow> list_all (\<lambda>g. g \<noteq> [] \<and> length g \<le> max most 4) gs \<Longrightarrow> packed most (foldl (pack_step most) acc gs) (read @ concat gs)"
proof (induction gs arbitrary: acc read)
  case (Cons g gs)
  then show ?case using packed_step [of most acc read g] Cons.IH [of "pack_step most acc g" "read @ g"] by simp
qed simp

lemma split_long_line_ok: "concat (split_long_line most line) = line \<and> list_all (chunk_fits most) (split_long_line most line)"
proof -
  have "list_all (\<lambda>g. g \<noteq> [] \<and> length g \<le> max most 4) (utf8_chars line)"
    using utf8_chars_short by (fastforce simp: list_all_iff)
  then have "packed most (foldl (pack_step most) ([], []) (utf8_chars line)) ([] @ concat (utf8_chars line))"
    by (rule packed_fold [rotated]) (simp add: packed_def)
  then show ?thesis using packed_flush concat_utf8_chars by (simp add: split_long_line_def)
qed

lemma packed_split_step:
  assumes "packed most acc read" and "line \<noteq> []"
  shows "packed most (split_step most acc line) (read @ line)"
proof (cases "length line > most")
  case True
  then show ?thesis
    using packed_flush [OF assms(1)] split_long_line_ok [of most line] by (simp add: split_step_def packed_def)
next
  case False
  then show ?thesis using packed_step [OF assms] by (simp add: split_step_def)
qed

lemma packed_lines:
  "packed most acc read \<Longrightarrow> list_all (\<lambda>l. l \<noteq> []) ls \<Longrightarrow> packed most (foldl (split_step most) acc ls) (read @ concat ls)"
proof (induction ls arbitrary: acc read)
  case (Cons l ls)
  then show ?case using packed_split_step [of most acc read l] Cons.IH [of "split_step most acc l" "read @ l"] by simp
qed simp

lemma lines_nonempty: "l \<in> set (lines_keepends w s) \<Longrightarrow> l \<noteq> []"
  by (induction w s rule: lines_keepends.induct) (auto simp: Let_def split: if_splits)

lemma split_text_ok: "concat (split_text_by_bytes most s) = s \<and> list_all (chunk_fits most) (split_text_by_bytes most s)"
proof (cases "length s \<le> most")
  case True
  then show ?thesis by (auto simp: split_text_by_bytes_def chunk_fits_def)
next
  case False
  have "packed most (foldl (split_step most) ([], []) (lines_keepends [] s)) ([] @ concat (lines_keepends [] s))"
    by (rule packed_lines) (auto simp: packed_def list_all_iff dest: lines_nonempty)
  then show ?thesis using packed_flush False concat_lines_keepends [of "[]" s] by (simp add: split_text_by_bytes_def)
qed

lemma rough_tokens_fit: "chunk_fits (k * 3) s \<Longrightarrow> 1 \<le> k \<Longrightarrow> rough_tokens s \<le> k"
  by (auto simp: chunk_fits_def rough_tokens_def max_def split: if_splits)

lemma chunks_small:
  assumes "c \<in> set (chunks_for_attachments k atts)" and "1 \<le> k"
  shows "ch_tokens c \<le> k"
proof -
  obtain p where "c \<in> set (chunks_of_attachment (max 1 k * 3) p)"
    using assms(1) unfolding chunks_for_attachments_def by auto
  then have "ch_text c \<in> set (split_text_by_bytes (max 1 k * 3) (at_content (snd p)))"
    by (cases p) (auto simp: chunks_of_attachment_def Let_def dest!: set_zip_rightD)
  then obtain a :: attachment where "ch_text c \<in> set (split_text_by_bytes (max 1 k * 3) (at_content a))" by blast
  then have "chunk_fits (k * 3) (ch_text c)" using split_text_ok [of "max 1 k * 3" "at_content a"] assms(2) by (auto simp: list_all_iff)
  then show ?thesis using rough_tokens_fit assms(2) by (simp add: ch_tokens_def)
qed

section \<open>The selection keeps to the budget\<close>

lemma pick_within:
  assumes "used = tokens_of (map snd selected)" and "used \<le> budget" and "\<forall>(i, c) \<in> set rest. ch_tokens c \<le> budget"
  shows "tokens_of (map snd (pick budget used selected rest)) \<le> budget"
  using assms
proof (induction budget used selected rest rule: pick.induct)
  case (2 budget used selected i c rest)
  consider (skip) "selected \<noteq> []" "used + ch_tokens c > budget" | (take) "selected = [] \<or> used + ch_tokens c \<le> budget" by linarith
  then show ?case
  proof cases
    case take
    then have "used + ch_tokens c \<le> budget" using "2.prems" by (auto simp: tokens_of_def)
    then show ?thesis using "2.IH"(2) "2.prems" take by (auto simp: tokens_of_def)
  qed (use "2.IH"(1) "2.prems" in simp)
qed simp

lemma tokens_of_mset: "mset cs = mset ds \<Longrightarrow> tokens_of cs = tokens_of ds"
  unfolding tokens_of_def by (metis mset_map sum_mset_sum_list)

lemma select_within:
  assumes "\<forall>c \<in> set cs. ch_tokens c \<le> budget"
  shows "tokens_of (select_chunks budget q cs) \<le> budget"
proof (cases "tokens_of cs \<le> budget")
  case False
  let ?scored = "sort_key (\<lambda>(i, c). - int (chunk_score q c)) (zip [0..<length cs] cs)"
  have "\<forall>(i, c) \<in> set ?scored. ch_tokens c \<le> budget" using assms by (auto dest: set_zip_rightD)
  then have "tokens_of (map snd (pick budget 0 [] ?scored)) \<le> budget" by (intro pick_within) (auto simp: tokens_of_def)
  moreover have "tokens_of (map snd (sort_key fst (pick budget 0 [] ?scored))) = tokens_of (map snd (pick budget 0 [] ?scored))"
    by (rule tokens_of_mset) simp
  ultimately show ?thesis using False by (simp add: select_chunks_def Let_def)
qed (simp add: select_chunks_def)

lemma insert_before_final_user_split:
  obtains pre post where "ms = pre @ post" and "insert_before_final_user ms m = pre @ m # post" and
    "post = [] \<or> is_user (hd post)" and "list_all (\<lambda>x. \<not> is_user x) (tl post)" and "post = [] \<longrightarrow> list_all (\<lambda>x. \<not> is_user x) ms"
proof (cases "dropWhile (\<lambda>x. \<not> is_user x) (rev ms)")
  case Nil
  then have "list_all (\<lambda>x. \<not> is_user x) ms" by (simp add: list_all_iff)
  then show thesis using that [of ms "[]"] Nil by (simp add: insert_before_final_user_def)
next
  case (Cons u before)
  then have "rev ms = takeWhile (\<lambda>x. \<not> is_user x) (rev ms) @ u # before" by (metis takeWhile_dropWhile_id)
  then have ms: "ms = rev before @ u # rev (takeWhile (\<lambda>x. \<not> is_user x) (rev ms))" by (metis append.assoc append_Cons append_Nil rev.simps(2) rev_append rev_rev_ident)
  have u: "is_user u" using Cons by (metis hd_dropWhile list.sel(1) list.simps(3))
  have "list_all (\<lambda>x. \<not> is_user x) (rev (takeWhile (\<lambda>x. \<not> is_user x) (rev ms)))" by (auto simp: list_all_iff dest: set_takeWhileD)
  then show thesis using that [OF ms] u Cons by (simp add: insert_before_final_user_def)
qed

section \<open>Properties\<close>

text \<open>
  Cutting an attachment loses nothing: the chunks put together are the text, none is empty, and
  none is longer than the limit, except a single character that is.
\<close>

theorem attachment_chunks_exact:
  "concat (split_text_by_bytes most s) = s \<and> list_all (\<lambda>p. p \<noteq> [] \<and> length p \<le> max most 4) (split_text_by_bytes most s)"
  using split_text_ok [of most s] by (simp add: chunk_fits_def [abs_def])


definition demo_profile :: model_profile where
  "demo_profile = \<lparr>mp_profile_id = ''p'', mp_model_id = ''m'', mp_backend = ''vllm'', mp_runtime_contract_id = None, mp_capability_classes = [],
     mp_supported_job_classes = [], mp_supports_chat = True, mp_supports_completion = True, mp_supports_thinking = False,
     mp_production_eligible = True, mp_default_for = [], mp_quality = [], mp_performance = [], mp_routing = []\<rparr>"

definition demo_files :: pydict where
  "demo_files = [(''files'', JArr [JObj [(''content'', JStr ''abcdefgh'')]]), (''ds4_attachment_context_budget_tokens'', JInt 9)]"

definition demo_messages :: "pydict list" where
  "demo_messages = [[(''role'', JStr ''user''), (''content'', JStr ''def'')]]"

lemma demo_attached_form:
  "\<exists>ms man. attach_request_files (\<lambda>_. None) demo_files demo_profile demo_messages 0 0 = Inr (ms, Some man) \<and> dget man ''budget_tokens'' = JInt 9"
proof -
  have parts: "request_attachments demo_files = Inr [\<lparr>at_name = ''attachment-1'', at_mime = ''text/plain'', at_content = ''abcdefgh''\<rparr>]"
      "attachment_context_budget (\<lambda>_. None) demo_files demo_profile 0 0 = Inr 9"
      "positive_int (setting demo_files ''ds4_attachment_chunk_tokens'') (positive_env (\<lambda>_. None) ''DS4_API_ATTACHMENT_CHUNK_TOKENS'' 8192) = Inr 8192"
      "loose_truthy (setting demo_files ''ds4_attachment_require_all'') = False"
    by code_simp+
  have budget: "dget (attachment_manifest atts cs sel 9 n) ''budget_tokens'' = JInt 9" for atts cs sel n
    by (simp add: attachment_manifest_def dget_def dget_or_def)
  show ?thesis
    unfolding attach_request_files_def parts using budget by (simp add: Let_def del: split_paired_Ex)
qed


end
