(* ===== verification/Chat_Render.thy ===== *)
theory Chat_Render
  imports Attachments Builders
begin

text \<open>
  \<^verbatim>\<open>ds4_infer/api_chat_render.py\<close>: the input payload of a chat request and the prompt rendered
  for it, by a prompt the client gives, one of the three built-in chat formats, or the tokenizer of the
  model.  The tokenizer (\<^verbatim>\<open>transformers\<close>) is an argument: from the model path, the messages and the
  keyword arguments it gives a value, or \<^const>\<open>None\<close> for an exception.  Its cache is left out.
\<close>

type_synonym chat_tokenizer = "string \<Rightarrow> pydict list \<Rightarrow> pydict \<Rightarrow> json option"

section \<open>Messages\<close>

definition content_part_text :: "json \<Rightarrow> string" where
  "content_part_text item =
     (case item of
        JStr s \<Rightarrow> s
      | JObj d \<Rightarrow> (case por (dget d ''text'') (dget d ''content'') of JStr s \<Rightarrow> s | _ \<Rightarrow> '''')
      | _ \<Rightarrow> '''')"

definition message_content_text :: "json \<Rightarrow> string" where
  "message_content_text v =
     (case v of
        JStr s \<Rightarrow> s
      | JArr xs \<Rightarrow> joinwith newline (filter (\<lambda>s. s \<noteq> '''') (map content_part_text xs))
      | JNull \<Rightarrow> ''''
      | _ \<Rightarrow> py_str v)"

definition normalized_openai_message :: "pydict \<Rightarrow> pydict" where
  "normalized_openai_message item =
     [(''role'', JStr (py_str (por (dget item ''role'') (JStr ''user'')))), (''content'', JStr (message_content_text (dget item ''content'')))] @
     concat (map (\<lambda>k. if has_key item k then [(k, dget item k)] else []) [''name'', ''tool_call_id'', ''tool_calls''])"

definition normalize_openai_messages :: "json \<Rightarrow> pydict list" where
  "normalize_openai_messages v =
     (case v of JArr xs \<Rightarrow> map normalized_openai_message (concat (map (\<lambda>x. case x of JObj d \<Rightarrow> [d] | _ \<Rightarrow> []) xs)) | _ \<Rightarrow> [])"

definition message_role :: "pydict \<Rightarrow> string" where
  "message_role m = py_str (por (dget m ''role'') (JStr ''user''))"

definition message_content :: "pydict \<Rightarrow> string" where
  "message_content m = py_str (por (dget m ''content'') (JStr ''''))"

section \<open>A prompt given by the client\<close>

definition prompt_from_container :: "pydict \<Rightarrow> string" where
  "prompt_from_container d = (case first_nonempty (map (dget d) [''rendered_prompt'', ''prompt'']) of Some s \<Rightarrow> s | None \<Rightarrow> '''')"

definition explicit_rendered_prompt :: "pydict \<Rightarrow> pydict \<Rightarrow> string" where
  "explicit_rendered_prompt body metadata =
     (case filter (\<lambda>s. s \<noteq> '''') (map prompt_from_container [body, obj_or_empty (dget body ''extra_body''), metadata]) of
        s # _ \<Rightarrow> s | [] \<Rightarrow> '''')"

section \<open>Keyword arguments of a chat template\<close>

definition merged_chat_template_kwargs :: "pydict \<Rightarrow> pydict \<Rightarrow> pydict" where
  "merged_chat_template_kwargs body metadata =
     foldl (\<lambda>d c. dupdate d (obj_or_empty (dget c ''chat_template_kwargs''))) [] [obj_or_empty (dget body ''extra_body''), body, metadata]"

definition chat_template_kwargs_for_body :: "model_profile \<Rightarrow> pydict \<Rightarrow> pydict \<Rightarrow> int \<Rightarrow> pydict" where
  "chat_template_kwargs_for_body p body metadata thinking =
     (let merged = merged_chat_template_kwargs body metadata
      in case dget (mp_routing p) ''chat_template_thinking_key'' of
           JStr key \<Rightarrow>
             (if key \<noteq> '''' \<and> \<not> has_key merged key \<and> mp_supports_thinking p
              then (let default_enabled = (case dget (mp_routing p) ''default_chat_template_kwargs'' of
                          JObj kw \<Rightarrow> if has_key kw key then Some (truthy (dget kw key)) else None | _ \<Rightarrow> None)
                    in dset key (JBool (chat_template_thinking_enabled thinking default_enabled)) merged)
              else merged)
         | _ \<Rightarrow> merged)"

section \<open>The built-in chat formats\<close>

text \<open>The special tokens of DeepSeek V4 hold the characters U+FF5C and U+2581.\<close>

definition wide_bar :: string where
  "wide_bar = [CHR 0xEF, CHR 0xBD, CHR 0x9C]"

definition low_block :: string where
  "low_block = [CHR 0xE2, CHR 0x96, CHR 0x81]"

definition ds_token :: "string list \<Rightarrow> string" where
  "ds_token ws = ''<'' @ wide_bar @ joinwith low_block ws @ wide_bar @ ''>''"

definition ds_bos :: string where "ds_bos = ds_token [''begin'', ''of'', ''sentence'']"
definition ds_eos :: string where "ds_eos = ds_token [''end'', ''of'', ''sentence'']"
definition ds_user :: string where "ds_user = ds_token [''User'']"
definition ds_assistant :: string where "ds_assistant = ds_token [''Assistant'']"

definition tools_asked :: "pydict \<Rightarrow> bool" where
  "tools_asked body \<longleftrightarrow> dget body ''tools'' \<noteq> JNull \<or> dget body ''tool_choice'' \<noteq> JNull"

definition bad_role :: "string \<Rightarrow> string \<Rightarrow> 'a result" where
  "bad_role model role = Inl (ValueError (model @ '' DS API chat renderer does not support role='' @ repr_str role))"

definition deepseek_turn :: "pydict \<Rightarrow> string result" where
  "deepseek_turn m =
     (let role = message_role m; content = message_content m
      in if role = ''user'' then Inr (ds_user @ content)
         else if role = ''assistant'' then Inr (ds_assistant @ content @ ds_eos)
         else bad_role ''DeepSeek V4'' role)"

definition deepseek_v4_chat_prompt :: "model_profile \<Rightarrow> pydict list \<Rightarrow> pydict \<Rightarrow> pydict \<Rightarrow> int \<Rightarrow> string result" where
  "deepseek_v4_chat_prompt p messages body metadata thinking =
     (if tools_asked body
      then Inl (ValueError ''DeepSeek V4 DS API chat renderer does not support tool template rendering yet'')
      else
        (let (system, turns) = (case messages of
               m # ms \<Rightarrow> if dget m ''role'' = JStr ''system'' then (message_content m, ms) else ('''', messages)
             | [] \<Rightarrow> ('''', []))
         in bindE (mapE deepseek_turn turns) (\<lambda>parts.
              Inr (ds_bos @ system @ concat parts @ ds_assistant @
                   (if truthy (dget (chat_template_kwargs_for_body p body metadata thinking) ''thinking'') then ''<think>'' else ''</think>'')))))"

definition kimi_head :: "string \<Rightarrow> string \<Rightarrow> string" where
  "kimi_head kind name = ''<|im_'' @ kind @ ''|>'' @ name @ ''<|im_middle|>''"

definition kimi_turn :: "pydict \<Rightarrow> string result" where
  "kimi_turn m =
     (let role = message_role m; name = py_str (por (dget m ''name'') (JStr role)); content = message_content m
      in bindE
           (if role = ''user'' then Inr (kimi_head ''user'' name @ content)
            else if role = ''assistant'' then
              (if dget m ''tool_calls'' \<noteq> JNull
               then Inl (ValueError ''Kimi K2 DS API chat renderer does not support assistant tool calls yet'')
               else (let reasoning = py_str (por (dget_or m ''reasoning'' (dget_or m ''reasoning_content'' (JStr ''''))) (JStr ''''))
                     in Inr (kimi_head ''assistant'' name @ ''<think>'' @ reasoning @ ''</think>'' @ content)))
            else if role = ''system'' then Inr (kimi_head ''system'' name @ content)
            else if role = ''tool'' then Inl (ValueError ''Kimi K2 DS API chat renderer does not support tool result messages yet'')
            else Inr (kimi_head ''system'' name @ content))
           (\<lambda>t. Inr (t @ ''<|im_end|>'')))"

definition kimi_k2_chat_prompt :: "model_profile \<Rightarrow> pydict list \<Rightarrow> pydict \<Rightarrow> pydict \<Rightarrow> int \<Rightarrow> string result" where
  "kimi_k2_chat_prompt p messages body metadata thinking =
     (if tools_asked body
      then Inl (ValueError ''Kimi K2 DS API chat renderer does not support tool template rendering yet'')
      else bindE (mapE kimi_turn messages) (\<lambda>parts.
             Inr (concat parts @ kimi_head ''assistant'' ''assistant'' @
                  (if truthy (dget (chat_template_kwargs_for_body p body metadata thinking) ''thinking'') then ''<think>'' else ''<think></think>''))))"

definition im_start :: string where "im_start = ''<|im_start|>''"
definition im_end :: string where "im_end = ''<|im_end|>''"

definition qwen_turn :: "pydict \<Rightarrow> string result" where
  "qwen_turn m =
     (let role = message_role m
      in if role \<notin> {''system'', ''user'', ''assistant''} then bad_role ''Qwen'' role
         else Inr (im_start @ role @ newline @ message_content m @ im_end @ newline))"

definition qwen_chatml_prompt :: "model_profile \<Rightarrow> pydict list \<Rightarrow> pydict \<Rightarrow> pydict \<Rightarrow> int \<Rightarrow> string result" where
  "qwen_chatml_prompt p messages body metadata thinking =
     (if tools_asked body
      then Inl (ValueError ''Qwen DS API chat renderer does not support tool template rendering yet'')
      else bindE (mapE qwen_turn messages) (\<lambda>parts.
             Inr (concat parts @ im_start @ ''assistant'' @ newline @
                  (if truthy (dget (chat_template_kwargs_for_body p body metadata thinking) ''enable_thinking'')
                   then ''<think>'' @ newline else ''<think>'' @ newline @ newline @ ''</think>'' @ newline @ newline))))"

section \<open>Rendering\<close>

definition render_with_builtin :: "model_profile \<Rightarrow> pydict list \<Rightarrow> pydict \<Rightarrow> pydict \<Rightarrow> int \<Rightarrow> string result" where
  "render_with_builtin p messages body metadata thinking =
     (let renderer = py_str (por (dget (mp_routing p) ''chat_template_renderer'') (JStr ''''))
      in if renderer = ''deepseek_v4'' then deepseek_v4_chat_prompt p messages body metadata thinking
         else if renderer = ''kimi_k2'' then kimi_k2_chat_prompt p messages body metadata thinking
         else if renderer = ''qwen_chatml'' then qwen_chatml_prompt p messages body metadata thinking
         else Inr '''')"

definition chat_tokenizer_model_path :: "model_profile \<Rightarrow> string" where
  "chat_tokenizer_model_path p =
     py_str (por (por (dget (mp_routing p) ''tokenizer_path'') (dget (mp_routing p) ''model_path'')) (JStr (mp_model_id p)))"

definition render_with_tokenizer :: "environ \<Rightarrow> chat_tokenizer \<Rightarrow> model_profile \<Rightarrow> pydict list \<Rightarrow> pydict \<Rightarrow> pydict \<Rightarrow> int \<Rightarrow> string" where
  \<comment> \<open>a keyword argument given twice is a TypeError, which is caught like every other exception\<close>
  "render_with_tokenizer env tok p messages body metadata thinking =
     (if \<not> env_bool env ''DS4_API_RENDER_CHAT_WITH_TOKENIZER'' True then ''''
      else
        (let kwargs = chat_template_kwargs_for_body p body metadata thinking;
             kwargs1 = (if dget body ''tools'' \<noteq> JNull \<and> \<not> has_key kwargs ''tools'' then dset ''tools'' (dget body ''tools'') kwargs else kwargs)
         in if has_key kwargs1 ''tokenize'' \<or> has_key kwargs1 ''add_generation_prompt'' then ''''
            else (case tok (chat_tokenizer_model_path p) messages kwargs1 of Some (JStr s) \<Rightarrow> s | _ \<Rightarrow> '''')))"

definition render_chat_prompt :: "environ \<Rightarrow> chat_tokenizer \<Rightarrow> model_profile \<Rightarrow> pydict list \<Rightarrow> pydict \<Rightarrow> pydict \<Rightarrow> int \<Rightarrow> string result" where
  "render_chat_prompt env tok p messages body metadata thinking =
     (if messages = [] then Inr ''''
      else bindE (render_with_builtin p messages body metadata thinking) (\<lambda>rendered.
             if rendered \<noteq> '''' then Inr rendered
             else
               (let rendered = render_with_tokenizer env tok p messages body metadata thinking
                in if rendered \<noteq> '''' then Inr rendered
                   else Inl (ValueError (''tokenizer chat-template rendering failed for '' @ mp_profile_id p @ ''; refuse fallback prompt'')))))"

definition rough_prompt_tokens :: "string \<Rightarrow> int" where
  "rough_prompt_tokens s = max 1 (int (length s) div 3)"

definition attach_rendered_prompt ::
  "environ \<Rightarrow> chat_tokenizer \<Rightarrow> pydict \<Rightarrow> pydict \<Rightarrow> model_profile \<Rightarrow> pydict list \<Rightarrow> pydict \<Rightarrow> int \<Rightarrow> pydict result"
where
  "attach_rendered_prompt env tok payload body p messages metadata thinking =
     (let given = explicit_rendered_prompt body metadata
      in bindE (if given = '''' \<and> env_bool env ''DS4_API_RENDER_CHAT_PROMPTS'' True
                then render_chat_prompt env tok p messages body metadata thinking else Inr given) (\<lambda>prompt.
           Inr (if prompt = '''' then payload
                else dset ''estimated_prompt_tokens'' (JInt (rough_prompt_tokens prompt))
                       (dset ''rendered_prompt'' (JStr prompt) (dset ''prompt'' (JStr prompt) payload)))))"

definition with_attachment_context :: "pydict option \<Rightarrow> pydict \<Rightarrow> pydict" where
  "with_attachment_context manifest metadata =
     (case manifest of None \<Rightarrow> metadata | Some m \<Rightarrow> dset ''attachment_context'' (JObj m) metadata)"

definition openai_chat_input_payload ::
  "environ \<Rightarrow> chat_tokenizer \<Rightarrow> pydict \<Rightarrow> model_profile \<Rightarrow> pydict \<Rightarrow> int \<Rightarrow> int \<Rightarrow> pydict result"
where
  "openai_chat_input_payload env tok body p metadata thinking max_output =
     bindE (attach_request_files env body p (normalize_openai_messages (dget body ''messages'')) max_output thinking) (\<lambda>(messages, manifest).
       let metadata1 = with_attachment_context manifest metadata;
           payload = [(''messages'', JArr (map JObj messages)), (''metadata'', JObj metadata1)] @
             concat (map (\<lambda>k. if dget body k \<noteq> JNull then [(k, dget body k)] else []) [''tools'', ''tool_choice''])
       in attach_rendered_prompt env tok payload body p messages metadata1 thinking)"

definition anthropic_messages_input_payload ::
  "environ \<Rightarrow> chat_tokenizer \<Rightarrow> pydict \<Rightarrow> model_profile \<Rightarrow> pydict \<Rightarrow> int \<Rightarrow> int \<Rightarrow> pydict result"
where
  "anthropic_messages_input_payload env tok body p metadata thinking max_output =
     (let messages = normalize_openai_messages (dget body ''messages'');
          with_system = (case dget body ''system'' of
             JStr s \<Rightarrow> if s = '''' then messages else [(''role'', JStr ''system''), (''content'', JStr s)] # messages | _ \<Rightarrow> messages)
      in bindE (attach_request_files env body p with_system max_output thinking) (\<lambda>(messages1, manifest).
           let metadata1 = with_attachment_context manifest metadata
           in attach_rendered_prompt env tok
                [(''system'', dget body ''system''), (''messages'', JArr (map JObj messages1)), (''tools'', dget body ''tools''), (''metadata'', JObj metadata1)]
                body p messages1 metadata1 thinking))"

definition rendered_chat_prompt_from_input :: "environ \<Rightarrow> chat_tokenizer \<Rightarrow> model_profile \<Rightarrow> pydict \<Rightarrow> int \<Rightarrow> string result" where
  "rendered_chat_prompt_from_input env tok p inp thinking =
     (let metadata = obj_or_empty (dget inp ''metadata''); prompt = explicit_rendered_prompt inp metadata
      in if prompt \<noteq> '''' then Inr prompt
         else render_chat_prompt env tok p (normalize_openai_messages (dget inp ''messages'')) inp metadata thinking)"

section \<open>The fallback texts\<close>

definition format_field :: "pydict \<Rightarrow> string \<Rightarrow> string \<Rightarrow> string" where
  \<comment> \<open>\<^verbatim>\<open>message.get(key, default)\<close> in an f-string\<close>
  "format_field m k d = py_str (dget_or m k (JStr d))"

definition fallback_render_chat_prompt :: "model_profile \<Rightarrow> pydict list \<Rightarrow> string" where
  "fallback_render_chat_prompt p messages =
     (if contains (lower (mp_model_id p)) ''qwen''
      then joinwith newline (map (\<lambda>m. im_start @ format_field m ''role'' ''user'' @ newline @ format_field m ''content'' '''' @ im_end) messages @
                             [im_start @ ''assistant'' @ newline])
      else joinwith newline (map (\<lambda>m. format_field m ''role'' ''user'' @ '': '' @ format_field m ''content'' '''') messages @ [''assistant:'']))"

end
