(* ===== verification/Dsv4_Encoding.thy ===== *)
theory Dsv4_Encoding
  imports Chat_Render Tool_Calls
begin

text \<open>
  The reference encoding of DeepSeek V4 conversations that the repository keeps as the contract of the
  model (\<^verbatim>\<open>fixtures/model_contract/deepseek_v4_flash/encoding/encoding_dsv4.py\<close>): merging of tool
  results into user messages, their order, the rendering of each message and of a conversation.
\<close>

section \<open>Values of messages\<close>

definition item_of :: "json \<Rightarrow> string \<Rightarrow> json result" where
  \<comment> \<open>\<^verbatim>\<open>v[k]\<close> for a text \<open>k\<close>\<close>
  "item_of v k = (case v of JObj d \<Rightarrow> dindex d k | _ \<Rightarrow> Inl (TypeError ''indices must be integers''))"

definition text_of :: "json \<Rightarrow> string result" where
  \<comment> \<open>a value that is added to a text or joined with texts\<close>
  "text_of v = (case v of JStr s \<Rightarrow> Inr s | _ \<Rightarrow> Inl (TypeError ''expected a str''))"

definition has_role :: "pydict \<Rightarrow> string list \<Rightarrow> bool" where
  "has_role m roles \<longleftrightarrow> dget m ''role'' \<in> JStr ` set roles"

definition quoted :: "string \<Rightarrow> string" where
  "quoted s = CHR 0x22 # s @ [CHR 0x22]"

definition para :: string where "para = newline @ newline"

section \<open>Tools\<close>

definition tools_from_openai_format :: "json \<Rightarrow> (json list) result" where
  "tools_from_openai_format v = bindE (py_iter v) (mapE (\<lambda>t. item_of t ''function''))"

definition tool_calls_from_openai_format :: "json \<Rightarrow> ((json \<times> json) list) result" where
  "tool_calls_from_openai_format v =
     bindE (py_iter v) (mapE (\<lambda>c.
       bindE (item_of c ''function'') (\<lambda>f. bindE (item_of f ''name'') (\<lambda>n. bindE (item_of f ''arguments'') (\<lambda>a. Inr (n, a))))))"

definition encode_call_arguments :: "json \<Rightarrow> string result" where
  \<comment> \<open>arguments that are not a text make \<^verbatim>\<open>json.loads\<close> fail and are kept under one name\<close>
  "encode_call_arguments v =
     (case v of JStr s \<Rightarrow> encode_arguments_to_dsml s | _ \<Rightarrow> Inr (param_dsml (''arguments'', v)))"

definition tools_intro :: "string list" where
  "tools_intro =
     [''## Tools'', '''',
      ''You have access to a set of tools to help answer the user'' @ [CHR 0x27] @ ''s question. You can invoke tools by writing a '' @
        quoted (open_tag ''tool_calls>'') @ '' block like the following:'', '''',
      open_tag ''tool_calls>'', open_tag ''invoke name='' @ quoted ''$TOOL_NAME'' @ ''>'',
      open_tag ''parameter name='' @ quoted ''$PARAMETER_NAME'' @ '' string='' @ quoted ''true|false'' @ ''>$PARAMETER_VALUE'' @ close_tag ''parameter'',
      ''...'', close_tag ''invoke'', open_tag ''invoke name='' @ quoted ''$TOOL_NAME2'' @ ''>'', ''...'', close_tag ''invoke'', close_tag ''tool_calls'', '''',
      ''String parameters should be specified as is and set `string='' @ quoted ''true'' @
        ''`. For all other types (numbers, booleans, arrays, objects), pass the value in JSON format and set `string='' @ quoted ''false'' @ ''`.'', '''',
      ''If thinking_mode is enabled (triggered by <think>), you MUST output your complete reasoning inside <think>...</think> BEFORE any tool calls or final response.'', '''',
      ''Otherwise, output directly after </think> with tool calls or final response.'', '''',
      ''### Available Tool Schemas'', '''']"

definition tools_outro :: "string list" where
  "tools_outro = ['''', ''You MUST strictly follow the above defined tool name and parameter schemas to invoke tool calls.'', '''']"

definition render_tools :: "json list \<Rightarrow> string" where
  "render_tools tools = joinwith newline (tools_intro @ [joinwith newline (map to_json tools)] @ tools_outro)"

section \<open>Messages\<close>

definition reasoning_effort_max :: string where
  "reasoning_effort_max =
     ''Reasoning Effort: Absolute maximum with no shortcuts permitted.'' @ newline @
     ''You MUST be very thorough in your thinking and comprehensively decompose the problem to resolve the root cause, rigorously stress-testing your logic against all potential paths, edge cases, and adversarial scenarios.'' @ newline @
     ''Explicitly write out your entire deliberation process, documenting every intermediate step, considered alternative, and rejected hypothesis to ensure absolutely no assumption is left unchecked.'' @ para"

definition ds_reminder :: string where "ds_reminder = ''<'' @ wide_bar @ ''latest_reminder'' @ wide_bar @ ''>''"

definition task_token :: "string \<Rightarrow> string option" where
  "task_token t =
     (if t \<in> {''action'', ''query'', ''authority'', ''domain'', ''title'', ''read_url''} then Some (''<'' @ wide_bar @ t @ wide_bar @ ''>'') else None)"

definition find_last_user_index :: "pydict list \<Rightarrow> int" where
  "find_last_user_index ms =
     (case filter (\<lambda>i. has_role (ms ! i) [''user'', ''developer'']) (rev [0..<length ms]) of i # _ \<Rightarrow> int i | [] \<Rightarrow> -1)"

definition tools_part :: "json list option \<Rightarrow> json \<Rightarrow> string" where
  \<comment> \<open>tools and response format, after a system or developer message\<close>
  "tools_part tools response_format =
     (case tools of Some ts \<Rightarrow> if ts = [] then '''' else para @ render_tools ts | None \<Rightarrow> '''') @
     (if truthy response_format
      then para @ ''## Response Format:'' @ para @ ''You MUST strictly adhere to the following schema to reply:'' @ newline @ to_json response_format
      else '''')"

definition result_part :: "json \<Rightarrow> json result" where
  \<comment> \<open>one block of the content of a tool result\<close>
  "result_part v =
     bindE (as_dict v) (\<lambda>b. Inr (if dget b ''type'' = JStr ''text'' then dget_or b ''text'' (JStr '''')
                                else JStr (''[Unsupported '' @ py_str (dget b ''type'') @ '']'')))"

definition block_part :: "json \<Rightarrow> json result" where
  \<comment> \<open>one content block of a user message\<close>
  "block_part v =
     bindE (as_dict v) (\<lambda>b.
       if dget b ''type'' = JStr ''text'' then Inr (dget_or b ''text'' (JStr ''''))
       else if dget b ''type'' = JStr ''tool_result'' then
         bindE (case dget_or b ''content'' (JStr '''') of
                  JArr xs \<Rightarrow> bindE (mapE result_part xs) (\<lambda>ps. bindE (mapE text_of ps) (\<lambda>ts. Inr (joinwith para ts)))
                | c \<Rightarrow> Inr (py_str c)) (\<lambda>c. Inr (JStr (''<tool_result>'' @ c @ ''</tool_result>'')))
       else Inr (JStr (''[Unsupported '' @ py_str (dget b ''type'') @ '']'')))"

definition user_body :: "pydict \<Rightarrow> string result" where
  "user_body m =
     (let blocks = dget m ''content_blocks''
      in if truthy blocks
         then bindE (py_iter blocks) (\<lambda>bs. bindE (mapE block_part bs) (\<lambda>ps. bindE (mapE text_of ps) (\<lambda>ts. Inr (joinwith para ts))))
         else text_of (por (dget m ''content'') (JStr '''')))"

definition call_markup :: "(json \<times> json) list option \<Rightarrow> string result" where
  "call_markup calls =
     (case calls of
        None \<Rightarrow> Inr ''''
      | Some cs \<Rightarrow>
          if cs = [] then Inr ''''
          else bindE (mapE (\<lambda>(n, a). bindE (encode_call_arguments a) (\<lambda>t. Inr (invoke_dsml (py_str n) t))) cs) (\<lambda>is. Inr (calls_dsml is)))"

definition truthy_opt :: "(json \<Rightarrow> 'a result) \<Rightarrow> json \<Rightarrow> 'a option result" where
  \<comment> \<open>a conversion applied when the value is truthy\<close>
  "truthy_opt f v = (if truthy v then bindE (f v) (\<lambda>x. Inr (Some x)) else Inr None)"

definition message_body :: "nat \<Rightarrow> pydict list \<Rightarrow> bool \<Rightarrow> bool \<Rightarrow> json list option \<Rightarrow> (json \<times> json) list option \<Rightarrow> string result" where
  \<comment> \<open>the text of the message itself; \<open>thinking\<close>: the mode is thinking\<close>
  "message_body i ms thinking dropping tools calls =
     (let m = ms ! i
      in if has_role m [''system''] then Inr (py_str (por (dget m ''content'') (JStr '''')) @ tools_part tools (dget m ''response_format''))
         else if has_role m [''developer''] then
           (if \<not> truthy (dget m ''content'') then Inl (AssertionError (''Invalid message for role `developer`: '' @ py_repr (JObj m)))
            else bindE (text_of (dget m ''content'')) (\<lambda>c. Inr (ds_user @ c @ tools_part tools (dget m ''response_format''))))
         else if has_role m [''user''] then bindE (user_body m) (\<lambda>c. Inr (ds_user @ c))
         else if has_role m [''latest_reminder''] then Inr (ds_reminder @ py_str (dget m ''content''))
         else if has_role m [''tool'']
           then Inl (NotImplementedError ''deepseek_v4 merges tool messages into user; please preprocess with merge_tool_messages()'')
         else if has_role m [''assistant''] then
           bindE (call_markup calls) (\<lambda>markup.
             let prev_has_task = (i \<ge> 1 \<and> dget (ms ! (i - 1)) ''task'' \<noteq> JNull);
                 thought = (if thinking \<and> \<not> prev_has_task \<and> (\<not> dropping \<or> int i > find_last_user_index ms)
                            then py_str (por (dget m ''reasoning_content'') (JStr '''')) @ ''</think>'' else '''')
             in Inr (thought @ py_str (por (dget m ''content'') (JStr '''')) @ markup @ (if truthy (dget m ''wo_eos'') then '''' else ds_eos)))
         else Inl (NotImplementedError (''Unknown role: '' @ py_str (dget m ''role''))))"

definition message_transition :: "nat \<Rightarrow> pydict list \<Rightarrow> bool \<Rightarrow> bool \<Rightarrow> string result" where
  \<comment> \<open>the tokens that lead over to what follows\<close>
  "message_transition i ms thinking dropping =
     (let m = ms ! i; task = dget m ''task''
      in if Suc i < length ms \<and> \<not> has_role (ms ! Suc i) [''assistant'', ''latest_reminder''] then Inr ''''
         else if task \<noteq> JNull then
           (case (case task of JStr t \<Rightarrow> task_token t | _ \<Rightarrow> None) of
              None \<Rightarrow> Inl (if is_obj task \<or> (case task of JArr _ \<Rightarrow> True | _ \<Rightarrow> False) then TypeError ''unhashable type'' else AssertionError (''Invalid task: '' @ py_repr task))
            | Some token \<Rightarrow> Inr (if task = JStr ''action'' then ds_assistant @ (if thinking then ''<think>'' else ''</think>'') @ token else token))
         else if has_role m [''user'', ''developer''] then
           Inr (ds_assistant @ (if thinking \<and> (\<not> dropping \<or> int i \<ge> find_last_user_index ms) then ''<think>'' else ''</think>''))
         else Inr '''')"

definition render_message :: "nat \<Rightarrow> pydict list \<Rightarrow> string \<Rightarrow> bool \<Rightarrow> string option \<Rightarrow> string result" where
  "render_message i ms mode dropping effort =
     (if \<not> i < length ms then Inl (AssertionError '''')
      else if mode \<notin> {''chat'', ''thinking''} then Inl (AssertionError (''Invalid thinking_mode `'' @ mode @ ''`''))
      else
        (let m = ms ! i; thinking = (mode = ''thinking'')
         in bindE (truthy_opt tools_from_openai_format (dget m ''tools'')) (\<lambda>tools.
            bindE (truthy_opt tool_calls_from_openai_format (dget m ''tool_calls'')) (\<lambda>calls.
            if effort \<notin> {Some ''max'', None, Some ''high''} then Inl (AssertionError ''Invalid reasoning effort'')
            else
              bindE (message_body i ms thinking dropping tools calls) (\<lambda>body.
              bindE (message_transition i ms thinking dropping) (\<lambda>trans.
                Inr ((if i = 0 \<and> thinking \<and> effort = Some ''max'' then reasoning_effort_max else '''') @ body @ trans)))))))"

section \<open>Preparing a conversation\<close>

definition append_block :: "json \<Rightarrow> pydict \<Rightarrow> pydict" where
  \<comment> \<open>the content blocks of a merged user message are always a list\<close>
  "append_block b m = dset ''content_blocks'' (JArr ((case dget m ''content_blocks'' of JArr bs \<Rightarrow> bs | _ \<Rightarrow> []) @ [b])) m"

definition merge_step :: "pydict list \<Rightarrow> pydict \<Rightarrow> pydict list" where
  "merge_step merged msg =
     (let open_user = (merged \<noteq> [] \<and> has_role (last merged) [''user''] \<and> has_key (last merged) ''content_blocks'')
      in if has_role msg [''tool''] then
           (let block = JObj [(''type'', JStr ''tool_result''), (''tool_use_id'', dget_or msg ''tool_call_id'' (JStr '''')), (''content'', dget_or msg ''content'' (JStr ''''))]
            in if open_user then butlast merged @ [append_block block (last merged)]
               else merged @ [[(''role'', JStr ''user''), (''content_blocks'', JArr [block])]])
         else if has_role msg [''user''] then
           (let block = JObj [(''type'', JStr ''text''), (''text'', dget_or msg ''content'' (JStr ''''))]
            in if open_user \<and> dget (last merged) ''task'' = JNull then butlast merged @ [append_block block (last merged)]
               else merged @ [[(''role'', JStr ''user''), (''content'', dget_or msg ''content'' (JStr '''')), (''content_blocks'', JArr [block])] @
                              concat (map (\<lambda>k. if has_key msg k then [(k, dget msg k)] else []) [''task'', ''wo_eos'', ''mask''])])
         else merged @ [msg])"

definition merge_tool_messages :: "pydict list \<Rightarrow> pydict list" where
  "merge_tool_messages ms = foldl merge_step [] ms"

type_synonym call_order = "(json \<times> nat) list"

definition order_step :: "call_order \<Rightarrow> nat \<times> json \<Rightarrow> call_order result" where
  "order_step order = (\<lambda>(i, tc).
     bindE (as_dict tc) (\<lambda>c.
     bindE (if truthy (dget c ''id'') then Inr (dget c ''id'')
            else bindE (as_dict (dget_or c ''function'' (JObj []))) (\<lambda>f. Inr (dget_or f ''id'' (JStr '''')))) (\<lambda>tc_id.
       Inr (if truthy tc_id then dset tc_id i order else order))))"

definition block_is_result :: "json \<Rightarrow> bool result" where
  "block_is_result v = bindE (as_dict v) (\<lambda>b. Inr (dget b ''type'' = JStr ''tool_result''))"

definition block_rank :: "call_order \<Rightarrow> json \<Rightarrow> nat" where
  "block_rank order v =
     (case map_of order (dget_or (obj_or_empty v) ''tool_use_id'' (JStr '''')) of Some i \<Rightarrow> i | None \<Rightarrow> 0)"

fun refill_results :: "(json \<times> bool) list \<Rightarrow> json list \<Rightarrow> json list" where
  \<comment> \<open>the results put back, in their new order, where results were\<close>
  "refill_results [] ss = []"
| "refill_results ((b, res) # bs) ss =
     (if res then (case ss of s # ss' \<Rightarrow> s # refill_results bs ss' | [] \<Rightarrow> b # refill_results bs []) else b # refill_results bs ss)"

definition sort_step :: "pydict list \<times> call_order \<Rightarrow> pydict \<Rightarrow> (pydict list \<times> call_order) result" where
  "sort_step = (\<lambda>(out, order) m.
     if has_role m [''assistant''] \<and> truthy (dget m ''tool_calls'') then
       bindE (py_iter (dget m ''tool_calls'')) (\<lambda>tcs.
       bindE (foldE order_step [] (List.enumerate 0 tcs)) (\<lambda>order'. Inr (out @ [m], order')))
     else if has_role m [''user''] \<and> truthy (dget m ''content_blocks'') then
       bindE (py_iter (dget m ''content_blocks'')) (\<lambda>bs.
       bindE (mapE block_is_result bs) (\<lambda>marks.
         let results = map fst (filter snd (zip bs marks))
         in Inr (out @ [if length results > 1 \<and> order \<noteq> []
                        then dset ''content_blocks'' (JArr (refill_results (zip bs marks) (sort_key (block_rank order) results))) m else m], order)))
     else Inr (out @ [m], order))"

definition sort_tool_results :: "pydict list \<Rightarrow> (pydict list) result" where
  "sort_tool_results ms = bindE (foldE sort_step ([], []) ms) (\<lambda>(out, _). Inr out)"

definition drop_thinking_messages :: "pydict list \<Rightarrow> pydict list" where
  "drop_thinking_messages ms =
     (let last_user = find_last_user_index ms
      in concat (map (\<lambda>(i, m).
           if has_role m [''user'', ''system'', ''tool'', ''latest_reminder'', ''direct_search_results''] \<or> int i \<ge> last_user then [m]
           else if has_role m [''assistant''] then [dpop ''reasoning_content'' m]
           else []) (List.enumerate 0 ms)))"

section \<open>A conversation\<close>

definition encode_messages :: "pydict list \<Rightarrow> string \<Rightarrow> pydict list \<Rightarrow> bool \<Rightarrow> bool \<Rightarrow> string option \<Rightarrow> string result" where
  "encode_messages messages mode context drop_thinking bos effort =
     bindE (sort_tool_results (context @ merge_tool_messages messages)) (\<lambda>sorted.
     let ms = drop (length context) sorted in
     bindE (if context = [] then Inr [] else sort_tool_results (merge_tool_messages context)) (\<lambda>ctx.
     let full = ctx @ ms;
         dropping = (drop_thinking \<and> \<not> list_ex (\<lambda>m. truthy (dget m ''tools'')) full);
         thin = (mode = ''thinking'' \<and> dropping);
         full1 = (if thin then drop_thinking_messages full else full);
         n = (if thin then length full1 - length (drop_thinking_messages ctx) else length ms);
         start = (if thin then length full1 - n else length ctx)
     in bindE (mapE (\<lambda>i. render_message (i + start) full1 mode dropping effort) [0..<n]) (\<lambda>parts.
          Inr ((if bos \<and> ctx = [] then ds_bos else '''') @ concat parts))))"

end
