(* ===== verification/Dsv4_Parsing.thy ===== *)
theory Dsv4_Parsing
  imports Dsv4_Encoding
begin

text \<open>
  Reading a completion of DeepSeek V4 (the second half of \<^verbatim>\<open>encoding_dsv4.py\<close>): reasoning,
  content and tool calls.  The position in the text is modelled by the text that is left.  The two loops
  over calls and parameters end because every turn reads at least one mark.
\<close>

section \<open>Reading up to a stop\<close>

fun read_until_stop :: "string list \<Rightarrow> string \<Rightarrow> string \<times> string option \<times> string" where
  \<comment> \<open>the text before the first stop (of two at one place the one listed first), the stop, the text after it\<close>
  "read_until_stop stops [] = ([], None, [])"
| "read_until_stop stops (c # s) =
     (case find (\<lambda>p. startswith (c # s) p) stops of
        Some p \<Rightarrow> ([], Some p, drop (length p) (c # s))
      | None \<Rightarrow> (case read_until_stop stops s of (b, m, r) \<Rightarrow> (c # b, m, r)))"

lemma read_until_stop_length: "read_until_stop stops s = (b, m, r) \<Longrightarrow> length b + length r \<le> length s"
  by (induction stops s arbitrary: b rule: read_until_stop.induct) (auto split: option.splits prod.splits)

definition invoke_open :: string where "invoke_open = open_tag ''invoke''"
definition invoke_close :: string where "invoke_close = ''</'' @ dsml_token @ ''invoke''"
definition param_open :: string where "param_open = open_tag ''parameter''"
definition param_close :: string where "param_close = ''/'' @ dsml_token @ ''parameter''"
definition calls_open :: string where "calls_open = para @ open_tag ''tool_calls''"
definition calls_close :: string where "calls_close = close_tag ''tool_calls''"
definition tag_end :: string where "tag_end = ''>'' @ newline"

section \<open>Names and parameters\<close>

definition before_end :: "string \<Rightarrow> string \<Rightarrow> string option" where
  \<comment> \<open>the text before \<open>e\<close> at the end, or at the line end that ends the text (\<^verbatim>\<open>$\<close> of a regular expression)\<close>
  "before_end e s =
     (if endswith s e then Some (take (length s - length e) s)
      else if endswith s (e @ newline) then Some (take (length s - length e - 1) s) else None)"

definition read_tool_name :: "string \<Rightarrow> string option" where
  \<comment> \<open>\<^verbatim>\<open>^\s*name="(.*?)">\n$\<close>\<close>
  "read_tool_name s =
     (case drop_prefix (''name='' @ [CHR 0x22]) (dropWhile is_space s) of
        None \<Rightarrow> None | Some r \<Rightarrow> before_end (CHR 0x22 # tag_end) r)"

definition param_mark :: "string \<Rightarrow> string" where
  "param_mark flag = [CHR 0x22] @ '' string='' @ quoted flag @ ''>''"

definition read_param :: "string \<Rightarrow> (string \<times> string \<times> string) option" where
  \<comment> \<open>\<^verbatim>\<open>^ name="(.*?)" string="(true|false)">(.*?)<$\<close>: the name, the value and the flag\<close>
  "read_param s =
     (case drop_prefix ('' name='' @ [CHR 0x22]) s of
        None \<Rightarrow> None
      | Some r \<Rightarrow>
          (case read_until_stop [param_mark ''true'', param_mark ''false''] r of
             (k, Some m, v) \<Rightarrow> map_option (\<lambda>v. (k, v, if m = param_mark ''true'' then ''true'' else ''false'')) (before_end ''<'' v)
           | _ \<Rightarrow> None))"

type_synonym dsml_args = "(string \<times> string \<times> string) list"

definition decode_dsml_to_arguments :: "dsml_args \<Rightarrow> string" where
  "decode_dsml_to_arguments args =
     ''{'' @ joinwith '', '' (map (\<lambda>(k, v, flag). plain_str k @ '': '' @ (if flag = ''true'' then plain_str v else v)) args) @ ''}''"

section \<open>Calls\<close>

function parse_params :: "string option \<Rightarrow> dsml_args \<Rightarrow> string \<Rightarrow> (dsml_args \<times> string option \<times> string) result" where
  \<comment> \<open>the inner loop, with the last stop and the parameters read\<close>
  "parse_params stop args s =
     (if stop \<noteq> Some param_open then Inr (args, stop, s)
      else
        (case read_until_stop [param_close] s of
           (content, _, r) \<Rightarrow>
             (case read_param content of
                None \<Rightarrow> Inl (ValueError (''Parameter format error: '' @ content))
              | Some (k, v, flag) \<Rightarrow>
                  if k \<in> fst ` set args then Inl (ValueError (''Duplicate parameter name: '' @ k))
                  else
                    (case read_until_stop [param_open, invoke_close] r of
                       (content, stop', r') \<Rightarrow>
                         if content \<noteq> tag_end then Inl (ValueError (''Parameter format error: '' @ content))
                         else parse_params stop' (args @ [(k, v, flag)]) r'))))"
  by pat_completeness auto
termination
  by (relation "measure (\<lambda>(stop, args, s). length s)") (auto simp: tag_end_def dest!: read_until_stop_length [OF sym])

declare parse_params.simps [simp del]

lemma parse_params_length: "parse_params stop args s = Inr (out, m, r) \<Longrightarrow> length r \<le> length s"
proof (induction stop args s rule: parse_params.induct)
  case (1 stop args s)
  show ?case
  proof (cases "stop = Some param_open")
    case True
    obtain c1 m1 r1 where r1: "read_until_stop [param_close] s = (c1, m1, r1)" by (metis prod_cases3)
    obtain c2 m2 r2 where r2: "read_until_stop [param_open, invoke_close] r1 = (c2, m2, r2)" by (metis prod_cases3)
    have "parse_params stop args s = Inr (out, m, r)" by (rule "1.prems")
    then obtain k v flag where p: "read_param c1 = Some (k, v, flag)" "k \<notin> fst ` set args" "c2 = tag_end" "parse_params m2 (args @ [(k, v, flag)]) r2 = Inr (out, m, r)"
      unfolding parse_params.simps [of stop args s] using True by (auto simp: r1 r2 split: option.splits if_splits)
    have "length r \<le> length r2"
      using "1.IH" [OF _ r1 [symmetric] refl p(1) refl refl p(2) r2 [symmetric] refl _ p(4)] True p(3) by simp
    then show ?thesis using read_until_stop_length [OF r1] read_until_stop_length [OF r2] by simp
  next
    case False
    then show ?thesis using "1.prems" unfolding parse_params.simps [of stop args s] by auto
  qed
qed

function parse_calls :: "string option \<Rightarrow> (string \<times> string) list \<Rightarrow> string \<Rightarrow> (string \<times> string option \<times> (string \<times> string) list) result" where
  \<comment> \<open>the loop of \<^verbatim>\<open>parse_tool_calls\<close>: the text left, the last stop, the calls as name and arguments\<close>
  "parse_calls stop calls s =
     (if s = [] then Inr ([], stop, calls)
      else
        (case read_until_stop [invoke_open, calls_close] s of
           (x, st, r) \<Rightarrow>
             if x \<noteq> tag_end then Inl (ValueError (''Tool call format error: '' @ x))
             else if st = Some calls_close then Inr (r, st, calls)
             else if st = None then Inl (ValueError ''Missing special token in tool calls'')
             else
               (case read_until_stop [param_open, invoke_close] r of
                  (content, st2, r2) \<Rightarrow>
                    (case read_tool_name content of
                       None \<Rightarrow> Inl (ValueError (''Tool name format error: '' @ content))
                     | Some name \<Rightarrow>
                         bindE (parse_params st2 [] r2) (\<lambda>(args, st3, r3).
                           parse_calls st3 (calls @ [(name, decode_dsml_to_arguments args)]) r3)))))"
  by pat_completeness auto
termination
  by (relation "measure (\<lambda>(stop, calls, s). length s)")
     (auto simp: tag_end_def dest!: read_until_stop_length [OF sym] parse_params_length)

declare parse_calls.simps [simp del]

section \<open>Messages\<close>

definition openai_tool_call :: "string \<times> string \<Rightarrow> json" where
  "openai_tool_call = (\<lambda>(name, args). JObj [(''type'', JStr ''function''), (''function'', JObj [(''name'', JStr name), (''arguments'', JStr args)])])"

definition special_tokens :: "string list" where
  "special_tokens = [ds_bos, ds_eos, ''<think>'', ''</think>'', dsml_token]"

definition check_end :: "string \<Rightarrow> string \<Rightarrow> string \<Rightarrow> string option \<Rightarrow> (string \<times> string) list \<Rightarrow> pydict result" where
  "check_end reasoning content left stop calls =
     (if \<not> (left = [] \<and> stop \<in> {Some ds_eos, None}) then Inl (AssertionError ''Unexpected content at end'')
      else if list_ex (\<lambda>t. contains content t \<or> contains reasoning t) special_tokens then Inl (AssertionError ''Unexpected special token in content'')
      else Inr [(''role'', JStr ''assistant''), (''content'', JStr content), (''reasoning_content'', JStr reasoning), (''tool_calls'', JArr (map openai_tool_call calls))])"

definition parse_summary :: "string \<Rightarrow> string \<Rightarrow> pydict result" where
  \<comment> \<open>what follows the reasoning\<close>
  "parse_summary reasoning s =
     (case read_until_stop [ds_eos, calls_open] s of
        (content, stop, r) \<Rightarrow>
          if stop = Some calls_open then
            bindE (parse_calls None [] r) (\<lambda>(r1, _, calls).
              case read_until_stop [ds_eos] r1 of
                (extra, stop2, r2) \<Rightarrow>
                  if extra \<noteq> [] then Inl (AssertionError ''Unexpected content after tool calls'')
                  else check_end reasoning content r2 stop2 calls)
          else if stop \<noteq> Some ds_eos then Inl (AssertionError ''Invalid format: missing EOS token'')
          else check_end reasoning content r stop [])"

definition parse_message_from_completion_text :: "string \<Rightarrow> string \<Rightarrow> pydict result" where
  "parse_message_from_completion_text s mode =
     (if mode = ''thinking''
      then (case read_until_stop [''</think>'', calls_open] s of
              (reasoning, stop, r) \<Rightarrow>
                if stop \<noteq> Some ''</think>'' then Inl (AssertionError ''Invalid thinking format: missing </think>'')
                else parse_summary reasoning r)
      else parse_summary '''' s)"

end
