(* ===== verification/Text_Marks.thy ===== *)
theory Text_Marks
  imports Dsv4_Parsing Tool_Markup
begin

text \<open>
  Marks in a text: when reading up to a mark stops at the mark that was written, and not at one that the
  text before it holds or forms together with it.
\<close>

definition agrees :: "string \<Rightarrow> string \<Rightarrow> bool" where
  \<comment> \<open>one is a prefix of the other\<close>
  "agrees v p \<longleftrightarrow> (let n = min (length v) (length p) in take n v = take n p)"

definition no_overlap :: "string \<Rightarrow> string \<Rightarrow> bool" where
  \<comment> \<open>\<open>q\<close> cannot begin before a \<open>p\<close> and end in or after its start\<close>
  "no_overlap q p \<longleftrightarrow> list_all (\<lambda>k. \<not> agrees (drop k q) p) [1..<length q]"

lemma no_prefix_over:
  assumes "drop_prefix q (c # t) = None" and "no_overlap q p"
  shows "drop_prefix q (c # t @ p @ r) = None"
proof (rule ccontr)
  assume "drop_prefix q (c # t @ p @ r) \<noteq> None"
  then obtain u where "(c # t) @ (p @ r) = q @ u" by (auto simp: drop_prefix_Some)
  then obtain v where v: "c # t = q @ v \<or> ((c # t) @ v = q \<and> p @ r = v @ u)"
    unfolding append_eq_append_conv2 by metis
  have none: "\<nexists>v. c # t = q @ v" using assms(1) by (metis drop_prefix_Some option.distinct(1))
  with v have q: "q = (c # t) @ v" "p @ r = v @ u" by auto
  with none have "v \<noteq> []" by (metis append_Nil2)
  have "agrees v p" using q(2) unfolding agrees_def Let_def by (metis append_eq_append_conv_if append_take_drop_id min.commute min_def take_append take_take)
  moreover have "drop (Suc (length t)) q = v" "Suc (length t) < length q" using q(1) \<open>v \<noteq> []\<close> by auto
  ultimately show False using assms(2) unfolding no_overlap_def list_all_iff by (metis One_nat_def atLeastLessThan_iff le_add1 plus_1_eq_Suc set_upt)
qed

lemma until_None_Cons: "until q (c # t) = None \<Longrightarrow> drop_prefix q (c # t) = None \<and> until q t = None"
  by (auto split: option.splits)

lemma until_past:
  assumes "until q t = None" and "no_overlap q p" and "q \<noteq> []"
  shows "until q (t @ p @ r) = map_option (\<lambda>(b, a). (t @ b, a)) (until q (p @ r))"
  using assms(1)
proof (induction t)
  case Nil
  then show ?case by (simp add: option.map_ident)
next
  case (Cons c t)
  note n = until_None_Cons [OF Cons.prems]
  then have "drop_prefix q (c # t @ p @ r) = None" using no_prefix_over assms(2) by blast
  then show ?case using Cons.IH n by (simp add: option.map_comp comp_def case_prod_unfold)
qed

lemma until_at_mark:
  assumes "until p t = None" and "no_overlap p p" and "p \<noteq> []"
  shows "until p (t @ p @ r) = Some (t, r)"
  unfolding until_past [OF assms] using assms(3) by (cases p) simp_all

lemma read_stop_past:
  assumes "list_all (\<lambda>q. until q t = None \<and> no_overlap q p) stops" and "p \<noteq> []"
    and "find (\<lambda>q. startswith (p @ r) q) stops = Some p"
  shows "read_until_stop stops (t @ p @ r) = (t, Some p, r)"
  using assms(1)
proof (induction t)
  case Nil
  obtain a p' where p: "p = a # p'" using assms(2) by (cases p) auto
  then show ?case using assms(3) unfolding p append_Cons append_Nil read_until_stop.simps by (simp only: option.case) simp
next
  case (Cons c t)
  have "\<not> startswith (c # t @ p @ r) q" if "q \<in> set stops" for q
  proof -
    have "until q (c # t) = None" "no_overlap q p" using Cons.prems that by (auto simp: list_all_iff)
    from no_prefix_over [OF conjunct1 [OF until_None_Cons [OF this(1)]] this(2)] show ?thesis by (simp add: startswith_def del: startswith_iff drop_prefix.simps)
  qed
  then have none: "find (\<lambda>q. startswith (c # t @ p @ r) q) stops = None" by (simp add: find_None_iff del: startswith_iff)
  have "list_all (\<lambda>q. until q t = None \<and> no_overlap q p) stops" using Cons.prems until_None_Cons by (auto simp: list_all_iff)
  then show ?case using Cons.IH none by (simp del: startswith_iff)
qed

end
