(* ===== verification/Chat_Contract.thy ===== *)
theory Chat_Contract
  imports Chat_Claims
begin

text \<open>
  The DeepSeek prompt of the API (\<^verbatim>\<open>_deepseek_v4_chat_prompt\<close>) against the reference encoding of
  the model: they agree on a conversation exactly when it has no earlier answer of the assistant.
\<close>

section \<open>Conversations\<close>

definition plain_msg :: "string \<Rightarrow> string \<Rightarrow> pydict" where
  "plain_msg role s = [(''role'', JStr role), (''content'', JStr s)]"

definition conversation :: "string option \<Rightarrow> (string \<times> string) list \<Rightarrow> string \<Rightarrow> pydict list" where
  \<comment> \<open>a system text, earlier questions with their answers, and the question at hand\<close>
  "conversation sys turns q =
     (case sys of None \<Rightarrow> [] | Some s \<Rightarrow> [plain_msg ''system'' s]) @
     concat (map (\<lambda>(q, a). [plain_msg ''user'' q, plain_msg ''assistant'' a]) turns) @ [plain_msg ''user'' q]"

definition think_mark :: "bool \<Rightarrow> string" where
  "think_mark thinking = (if thinking then ''<think>'' else ''</think>'')"

definition conversation_text :: "string \<Rightarrow> bool \<Rightarrow> string option \<Rightarrow> (string \<times> string) list \<Rightarrow> string \<Rightarrow> string" where
  \<comment> \<open>\<open>before\<close>: what stands before an earlier answer\<close>
  "conversation_text before thinking sys turns q =
     ds_bos @ (case sys of None \<Rightarrow> '''' | Some s \<Rightarrow> s) @
     concat (map (\<lambda>(q, a). ds_user @ q @ ds_assistant @ before @ a @ ds_eos) turns) @ ds_user @ q @ ds_assistant @ think_mark thinking"

lemma plain_msg_simps [simp]:
  "dget (plain_msg role s) ''role'' = JStr role" "dget (plain_msg role s) ''content'' = JStr s" "dget (plain_msg role s) ''task'' = JNull"
  "dget (plain_msg role s) ''tools'' = JNull" "dget (plain_msg role s) ''tool_calls'' = JNull" "dget (plain_msg role s) ''response_format'' = JNull"
  "dget (plain_msg role s) ''wo_eos'' = JNull" "dget (plain_msg role s) ''content_blocks'' = JNull"
  "message_role (plain_msg role s) = (if role = '''' then ''user'' else role)" "message_content (plain_msg role s) = s"
  by (simp_all add: plain_msg_def dget_def dget_or_def message_role_def message_content_def por_def)

section \<open>The prompt of the API\<close>

lemma deepseek_turns:
  "mapE deepseek_turn (concat (map (\<lambda>(q, a). [plain_msg ''user'' q, plain_msg ''assistant'' a]) turns) @ [plain_msg ''user'' q]) =
     Inr (concat (map (\<lambda>(q, a). [ds_user @ q, ds_assistant @ a @ ds_eos]) turns) @ [ds_user @ q])"
  by (induction turns) (auto simp: deepseek_turn_def)

lemma deepseek_prompt_text:
  assumes "\<not> tools_asked body"
  shows "deepseek_v4_chat_prompt p (conversation sys turns q) body metadata budget =
    Inr (conversation_text '''' (truthy (dget (chat_template_kwargs_for_body p body metadata budget) ''thinking'')) sys turns q)"
proof -
  have texts: "concat (concat (map (\<lambda>(q, a). [ds_user @ q, ds_assistant @ a @ ds_eos]) turns)) = concat (map (\<lambda>(q, a). ds_user @ q @ ds_assistant @ a @ ds_eos) turns)"
    by (induction turns) auto
  have none: "(case conversation None turns q of m # ms \<Rightarrow> if dget m ''role'' = JStr ''system'' then (message_content m, ms) else ('''', conversation None turns q)
      | [] \<Rightarrow> ('''', [])) = ('''', conversation None turns q)"
    by (cases turns) (auto simp: conversation_def)
  show ?thesis
  proof (cases sys)
    case None
    have "mapE deepseek_turn (conversation None turns q) = Inr (concat (map (\<lambda>(q, a). [ds_user @ q, ds_assistant @ a @ ds_eos]) turns) @ [ds_user @ q])"
      using deepseek_turns [of turns q] by (simp add: conversation_def)
    then show ?thesis using assms texts unfolding deepseek_v4_chat_prompt_def None none
      by (simp add: conversation_text_def think_mark_def)
  next
    case (Some s)
    then show ?thesis using assms deepseek_turns [of turns q] texts
      by (simp add: deepseek_v4_chat_prompt_def conversation_text_def think_mark_def conversation_def)
  qed
qed

section \<open>The reference encoding\<close>

definition user_blocks :: "string \<Rightarrow> pydict" where
  "user_blocks q = [(''role'', JStr ''user''), (''content'', JStr q), (''content_blocks'', JArr [JObj [(''type'', JStr ''text''), (''text'', JStr q)]])]"

lemma user_blocks_simps [simp]:
  "dget (user_blocks q) ''role'' = JStr ''user''" "dget (user_blocks q) ''task'' = JNull" "dget (user_blocks q) ''tools'' = JNull"
  "dget (user_blocks q) ''tool_calls'' = JNull" "dget (user_blocks q) ''content_blocks'' = JArr [JObj [(''type'', JStr ''text''), (''text'', JStr q)]]"
  by (simp_all add: user_blocks_def dget_def dget_or_def)

definition merged_conversation :: "string option \<Rightarrow> (string \<times> string) list \<Rightarrow> string \<Rightarrow> pydict list" where
  "merged_conversation sys turns q =
     (case sys of None \<Rightarrow> [] | Some s \<Rightarrow> [plain_msg ''system'' s]) @
     concat (map (\<lambda>(q, a). [user_blocks q, plain_msg ''assistant'' a]) turns) @ [user_blocks q]"

lemma merge_user:
  assumes "out = [] \<or> \<not> has_role (last out) [''user'']"
  shows "merge_step out (plain_msg ''user'' q) = out @ [user_blocks q]"
proof -
  have "dget_or (plain_msg ''user'' q) ''content'' (JStr '''') = JStr q" "\<not> has_key (plain_msg ''user'' q) ''task''"
      "\<not> has_key (plain_msg ''user'' q) ''wo_eos''" "\<not> has_key (plain_msg ''user'' q) ''mask''"
    by (simp_all add: plain_msg_def dget_or_def has_key_def)
  then show ?thesis using assms by (auto simp: merge_step_def Let_def has_role_def user_blocks_def)
qed

lemma merge_turns:
  assumes "out = [] \<or> \<not> has_role (last out) [''user'']"
  shows "foldl merge_step out (concat (map (\<lambda>(q, a). [plain_msg ''user'' q, plain_msg ''assistant'' a]) turns) @ [plain_msg ''user'' q]) =
    out @ concat (map (\<lambda>(q, a). [user_blocks q, plain_msg ''assistant'' a]) turns) @ [user_blocks q]"
  using assms
proof (induction turns arbitrary: out)
  case Nil
  then show ?case by (simp add: merge_user)
next
  case (Cons t turns)
  obtain u a where t: "t = (u, a)" by (cases t)
  have "merge_step (out @ [user_blocks u]) (plain_msg ''assistant'' a) = out @ [user_blocks u, plain_msg ''assistant'' a]"
    by (simp add: merge_step_def has_role_def)
  then show ?case using Cons.IH [of "out @ [user_blocks u, plain_msg ''assistant'' a]"] Cons.prems t by (simp add: merge_user has_role_def)
qed

lemma merge_conversation: "merge_tool_messages (conversation sys turns q) = merged_conversation sys turns q"
proof (cases sys)
  case (Some s)
  have "merge_step [] (plain_msg ''system'' s) = [plain_msg ''system'' s]" by (simp add: merge_step_def has_role_def)
  then show ?thesis using merge_turns [of "[plain_msg ''system'' s]" turns q] Some
    by (simp add: merge_tool_messages_def conversation_def merged_conversation_def has_role_def)
qed (use merge_turns [of "[]" turns q] in \<open>simp add: merge_tool_messages_def conversation_def merged_conversation_def\<close>)

definition simple_msg :: "pydict \<Rightarrow> bool" where
  "simple_msg m \<longleftrightarrow> (\<exists>s. m = user_blocks s \<or> m = plain_msg ''system'' s \<or> m = plain_msg ''assistant'' s)"

lemma simple_conversation: "m \<in> set (merged_conversation sys turns q) \<Longrightarrow> simple_msg m"
  by (auto simp: merged_conversation_def simple_msg_def split: option.splits)

lemma block_is_text [simp]: "block_is_result (JObj [(''type'', JStr ''text''), (''text'', v)]) = Inr False"
  by (simp add: block_is_result_def as_dict_def dget_def dget_or_def)

lemma sort_simple:
  assumes "\<And>m. m \<in> set ms \<Longrightarrow> simple_msg m"
  shows "foldE sort_step (out, []) ms = Inr (out @ ms, [])"
  using assms
proof (induction ms arbitrary: out)
  case (Cons m ms)
  have "sort_step (out, []) m = Inr (out @ [m], [])"
    using Cons.prems [of m] by (auto simp: simple_msg_def sort_step_def has_role_def)
  then show ?case using Cons.IH [of "out @ [m]"] Cons.prems by simp
qed simp

lemma last_user_is_last:
  assumes "has_role (last ms) [''user'', ''developer'']" and "ms \<noteq> []"
  shows "find_last_user_index ms = int (length ms) - 1"
proof -
  obtain n where n: "length ms = Suc n" using assms(2) by (cases ms) auto
  then have "last ms = ms ! n" using assms(2) by (simp add: last_conv_nth)
  then show ?thesis using assms(1) n by (simp add: find_last_user_index_def)
qed

lemma drop_thinking_simple:
  assumes "\<And>m. m \<in> set ms \<Longrightarrow> simple_msg m"
  shows "drop_thinking_messages ms = ms"
proof -
  have plain: "dpop ''reasoning_content'' (plain_msg role s) = plain_msg role s" for role s by (simp add: dpop_def plain_msg_def)
  have one: "(if has_role m [''user'', ''system'', ''tool'', ''latest_reminder'', ''direct_search_results''] \<or> int i \<ge> n then [m]
      else if has_role m [''assistant''] then [dpop ''reasoning_content'' m] else []) = [m]" if "simple_msg m" for m i and n :: int
    using that by (auto simp: simple_msg_def has_role_def plain)
  have "concat (map (\<lambda>(i, m). if has_role m [''user'', ''system'', ''tool'', ''latest_reminder'', ''direct_search_results''] \<or> int i \<ge> n then [m]
      else if has_role m [''assistant''] then [dpop ''reasoning_content'' m] else []) (List.enumerate k ms)) = ms" for n :: int and k
    using assms by (induction ms arbitrary: k) (simp_all add: one)
  then show ?thesis by (simp add: drop_thinking_messages_def)
qed

section \<open>Pieces of the encoding\<close>

fun pieces :: "(pydict \<Rightarrow> pydict option \<Rightarrow> 'a) \<Rightarrow> pydict list \<Rightarrow> 'a list" where
  \<comment> \<open>each message with the one after it\<close>
  "pieces f [] = []"
| "pieces f [m] = [f m None]"
| "pieces f (m # n # ms) = f m (Some n) # pieces f (n # ms)"

lemma pieces_nth: "map (\<lambda>i. f (ms ! i) (if Suc i < length ms then Some (ms ! Suc i) else None)) [0..<length ms] = pieces f ms"
proof (induction f ms rule: pieces.induct)
  case (3 f m n ms)
  have "[0..<length (m # n # ms)] = 0 # map Suc [0..<length (n # ms)]" by (simp add: upt_conv_Cons map_Suc_upt del: upt_Suc)
  then show ?case using 3 by (simp add: comp_def del: upt_Suc cong: if_cong)
qed simp_all

definition msg_text :: "bool \<Rightarrow> pydict \<Rightarrow> pydict option \<Rightarrow> string" where
  "msg_text thinking m nxt =
     (if has_role m [''user''] then
        ds_user @ (case user_body m of Inr s \<Rightarrow> s | Inl _ \<Rightarrow> '''') @
        (case nxt of Some n \<Rightarrow> if has_role n [''assistant''] then ds_assistant @ ''</think>'' else '''' | None \<Rightarrow> ds_assistant @ think_mark thinking)
      else if has_role m [''assistant''] then message_content m @ ds_eos
      else message_content m)"

lemma user_body_blocks [simp]: "user_body (user_blocks q) = Inr q"
  by (simp add: user_body_def block_part_def as_dict_def text_of_def dget_def [of "[_, _]"] dget_or_def)

lemma render_simple:
  assumes "\<And>m. m \<in> set ms \<Longrightarrow> simple_msg m" and "i < length ms" and "find_last_user_index ms = int (length ms) - 1"
  shows "render_message i ms (if thinking then ''thinking'' else ''chat'') True None =
    Inr (msg_text thinking (ms ! i) (if Suc i < length ms then Some (ms ! Suc i) else None))"
proof -
  have now: "simple_msg (ms ! i)" using assms(1,2) by simp
  have next_role: "has_role (ms ! Suc i) [''assistant'', ''latest_reminder''] = has_role (ms ! Suc i) [''assistant'']" if "Suc i < length ms"
    using assms(1) [of "ms ! Suc i"] that by (auto simp: simple_msg_def has_role_def)
  have prev: "dget (ms ! (i - 1)) ''task'' = JNull" using assms(1) [of "ms ! (i - 1)"] assms(2) by (auto simp: simple_msg_def)
  from now consider q where "ms ! i = user_blocks q" | s where "ms ! i = plain_msg ''system'' s" | a where "ms ! i = plain_msg ''assistant'' a"
    unfolding simple_msg_def by blast
  then show ?thesis
  proof cases
    case 1
    then show ?thesis using assms(2,3) next_role
      by (auto simp: render_message_def truthy_opt_def message_body_def message_transition_def msg_text_def has_role_def think_mark_def Let_def)
  next
    case 2
    then show ?thesis using assms(2,3) next_role
      by (auto simp: render_message_def truthy_opt_def message_body_def message_transition_def msg_text_def has_role_def tools_part_def por_def Let_def)
  next
    case 3
    then show ?thesis using assms(2,3) next_role prev
      by (auto simp: render_message_def truthy_opt_def message_body_def message_transition_def msg_text_def has_role_def call_markup_def por_def Let_def)
  qed
qed


lemma msg_text_simps [simp]:
  "msg_text thinking (user_blocks q) None = ds_user @ q @ ds_assistant @ think_mark thinking"
  "msg_text thinking (user_blocks q) (Some (plain_msg ''assistant'' a)) = ds_user @ q @ ds_assistant @ ''</think>''"
  "msg_text thinking (plain_msg ''assistant'' a) n = a @ ds_eos"
  "msg_text thinking (plain_msg ''system'' s) n = s"
  by (simp_all add: msg_text_def has_role_def)

lemma pieces_turns:
  "concat (pieces (msg_text thinking) (concat (map (\<lambda>(q, a). [user_blocks q, plain_msg ''assistant'' a]) turns) @ [user_blocks q])) =
     concat (map (\<lambda>(q, a). ds_user @ q @ ds_assistant @ ''</think>'' @ a @ ds_eos) turns) @ ds_user @ q @ ds_assistant @ think_mark thinking"
proof (induction turns)
  case (Cons t turns)
  obtain u a where t: "t = (u, a)" by (cases t)
  obtain m ms where r: "concat (map (\<lambda>(q, a). [user_blocks q, plain_msg ''assistant'' a]) turns) @ [user_blocks q] = m # ms"
    by (cases "concat (map (\<lambda>(q, a). [user_blocks q, plain_msg ''assistant'' a]) turns) @ [user_blocks q]") auto
  then show ?case using Cons.IH t by simp
qed simp

lemma encode_conversation:
  "encode_messages (conversation sys turns q) (if thinking then ''thinking'' else ''chat'') [] True True None =
     Inr (conversation_text ''</think>'' thinking sys turns q)"
proof -
  let ?ms = "merged_conversation sys turns q"
  have simple: "m \<in> set ?ms \<Longrightarrow> simple_msg m" for m by (rule simple_conversation)
  have last: "find_last_user_index ?ms = int (length ?ms) - 1"
    by (rule last_user_is_last) (simp_all add: merged_conversation_def has_role_def)
  have tools: "\<not> list_ex (\<lambda>m. truthy (dget m ''tools'')) ?ms"
    using simple by (fastforce simp: list_ex_iff simple_msg_def)
  have "mapE (\<lambda>i. render_message i ?ms (if thinking then ''thinking'' else ''chat'') True None) [0..<length ?ms] =
      Inr (map (\<lambda>i. msg_text thinking (?ms ! i) (if Suc i < length ?ms then Some (?ms ! Suc i) else None)) [0..<length ?ms])"
    unfolding mapE_Inr_list_all2 using render_simple [OF simple _ last, where thinking = thinking] by (simp add: list_all2_conv_all_nth)
  then have render: "mapE (\<lambda>i. render_message i ?ms (if thinking then ''thinking'' else ''chat'') True None) [0..<length ?ms] = Inr (pieces (msg_text thinking) ?ms)"
    unfolding pieces_nth .
  have "concat (pieces (msg_text thinking) ?ms) = (case sys of None \<Rightarrow> '''' | Some s \<Rightarrow> s) @
      concat (map (\<lambda>(q, a). ds_user @ q @ ds_assistant @ ''</think>'' @ a @ ds_eos) turns) @ ds_user @ q @ ds_assistant @ think_mark thinking"
  proof (cases sys)
    case (Some s)
    obtain m ms where r: "concat (map (\<lambda>(q, a). [user_blocks q, plain_msg ''assistant'' a]) turns) @ [user_blocks q] = m # ms"
      by (cases "concat (map (\<lambda>(q, a). [user_blocks q, plain_msg ''assistant'' a]) turns) @ [user_blocks q]") auto
    then show ?thesis using pieces_turns [of thinking turns q] Some by (simp add: merged_conversation_def)
  qed (use pieces_turns [of thinking turns q] in \<open>simp add: merged_conversation_def\<close>)
  then show ?thesis using render tools
    by (cases thinking) (simp_all add: encode_messages_def merge_conversation sort_tool_results_def sort_simple [OF simple] drop_thinking_simple [OF simple] conversation_text_def
        drop_thinking_messages_def [of "[]"] Let_def)
qed

section \<open>Where they agree\<close>

lemma conversation_text_length:
  "length (conversation_text ''</think>'' thinking sys turns q) = length (conversation_text '''' thinking sys turns q) + 8 * length turns"
  by (induction turns) (auto simp: conversation_text_def)

text \<open>
  C11. The DeepSeek prompt of the API is the one the model's reference encoding gives, in both thinking
  modes and with or without a system text, exactly when the conversation has no earlier answer: before an
  earlier answer the reference writes the end-of-thinking token, the API does not.
\<close>

theorem deepseek_prompt_matches_contract_iff:
  assumes "\<not> tools_asked body"
    and "thinking \<longleftrightarrow> truthy (dget (chat_template_kwargs_for_body p body metadata budget) ''thinking'')"
  shows "deepseek_v4_chat_prompt p (conversation sys turns q) body metadata budget =
      encode_messages (conversation sys turns q) (if thinking then ''thinking'' else ''chat'') [] True True None \<longleftrightarrow> turns = []"
proof -
  have "conversation_text '''' thinking sys turns q = conversation_text ''</think>'' thinking sys turns q \<longleftrightarrow> turns = []"
  proof (cases "turns = []")
    case False
    then have "length (conversation_text '''' thinking sys turns q) \<noteq> length (conversation_text ''</think>'' thinking sys turns q)"
      using conversation_text_length [of thinking sys turns q] by simp
    then show ?thesis using False by metis
  qed (simp add: conversation_text_def)
  then show ?thesis unfolding deepseek_prompt_text [OF assms(1)] encode_conversation using assms(2) by simp
qed

theorem deepseek_prompt_matches_contract_iff_witness:
  "deepseek_v4_chat_prompt (chat_profile []) (conversation (Some ''Be brief.'') [] ''2 < 3?'') [] [] 0 =
     encode_messages (conversation (Some ''Be brief.'') [] ''2 < 3?'') ''chat'' [] True True None"
proof -
  have "\<not> tools_asked []" "False \<longleftrightarrow> truthy (dget (chat_template_kwargs_for_body (chat_profile []) [] [] 0) ''thinking'')" by code_simp+
  from deepseek_prompt_matches_contract_iff [OF this, of "Some ''Be brief.''" "[]" "''2 < 3?''"] show ?thesis by simp
qed

end
