(* ===== verification/Dsv4_Claims.thy ===== *)
theory Dsv4_Claims
  imports Text_Marks
begin

text \<open>
  The two halves of the reference encoding agree: what is written for a message of the assistant is read
  back as that message.
\<close>

section \<open>Texts without special tokens\<close>

lemma contains_until: "contains t q \<longleftrightarrow> until q t \<noteq> None" if "q \<noteq> []"
  using that by (induction t) (auto split: option.splits simp: startswith_def simp del: startswith_iff drop_prefix.simps)

lemma contains_part:
  assumes "contains t (a @ q @ b)"
  shows "contains t q"
proof -
  have split: "contains s p \<longleftrightarrow> (\<exists>u v. s = u @ p @ v)" for s p
  proof (induction s)
    case (Cons c s)
    then show ?case by (auto simp: prefix_def Cons_eq_append_conv)
  qed auto
  from assms obtain u v where "t = (u @ a) @ q @ (b @ v)" unfolding split by auto
  then show ?thesis unfolding split by blast
qed

definition ordinary :: "string \<Rightarrow> bool" where
  \<comment> \<open>a text that holds none of the special tokens\<close>
  "ordinary t \<longleftrightarrow> list_all (\<lambda>q. \<not> contains t q) special_tokens"

lemma ordinary_until:
  assumes "ordinary t"
  shows "until ds_eos t = None \<and> until ''</think>'' t = None \<and> until calls_open t = None"
proof -
  have d: "\<not> contains t ds_eos" "\<not> contains t ''</think>''" "\<not> contains t dsml_token" using assms by (auto simp: ordinary_def special_tokens_def)
  have "calls_open = (para @ ''<'') @ dsml_token @ ''tool_calls''" by (simp add: calls_open_def open_tag_def)
  then have "\<not> contains t calls_open" using d(3) contains_part by metis
  moreover have "ds_eos \<noteq> []" "calls_open \<noteq> []" by (simp_all add: ds_eos_def ds_token_def calls_open_def para_def newline_def)
  ultimately show ?thesis using d contains_until [of ds_eos t] contains_until [of "''</think>''" t] contains_until [of calls_open t] by blast
qed


section \<open>Parameters\<close>

definition param_inner :: "string \<times> json \<Rightarrow> string" where
  \<comment> \<open>what stands between the two marks of a parameter\<close>
  "param_inner = (\<lambda>(k, v). '' name='' @ [CHR 0x22] @ k @ param_mark (case v of JStr _ \<Rightarrow> ''true'' | _ \<Rightarrow> ''false'') @ param_text v @ ''<'')"

lemma param_dsml_inner: "param_dsml p = param_open @ param_inner p @ param_close @ ''>''"
  by (cases p) (simp add: param_dsml_def param_inner_def param_open_def param_close_def param_mark_def quoted_def tag_defs)

definition readable_param :: "string \<times> json \<Rightarrow> bool" where
  "readable_param = (\<lambda>(k, v). CHR 0x22 \<notin> set k \<and> until param_close k = None \<and> until param_close (param_text v) = None)"

lemma until_free: "hd q \<notin> set t \<Longrightarrow> q \<noteq> [] \<Longrightarrow> until q (t @ s) = map_option (\<lambda>(b, a). (t @ b, a)) (until q s)"
proof (induction t)
  case (Cons c t)
  then have "drop_prefix q (c # t @ s) = None" by (cases q) auto
  then show ?case using Cons by (simp add: option.map_comp comp_def case_prod_unfold)
qed (simp add: option.map_id)

lemma marks_apart:
  "no_overlap param_close (param_mark ''true'')" "no_overlap param_close (param_mark ''false'')" "no_overlap param_close ''<''"
  "no_overlap param_close param_close" "no_overlap (param_mark ''true'') (param_mark ''true'')" "no_overlap (param_mark ''true'') (param_mark ''false'')"
  "no_overlap (param_mark ''false'') (param_mark ''true'')" "no_overlap (param_mark ''false'') (param_mark ''false'')"
  "no_overlap param_open param_open" "no_overlap param_open invoke_close" "no_overlap invoke_close param_open" "no_overlap invoke_close invoke_close"
  "no_overlap invoke_open invoke_open" "no_overlap invoke_open calls_close" "no_overlap calls_close invoke_open" "no_overlap calls_close calls_close"
  "no_overlap ds_eos ds_eos" "no_overlap ds_eos calls_open" "no_overlap calls_open ds_eos" "no_overlap calls_open calls_open"
  "no_overlap ''</think>'' ''</think>''" "no_overlap calls_open ''</think>''"
  by code_simp+

lemma marks_nonempty [simp]:
  "param_close \<noteq> []" "param_open \<noteq> []" "invoke_close \<noteq> []" "invoke_open \<noteq> []" "calls_close \<noteq> []" "calls_open \<noteq> []" "ds_eos \<noteq> []" "param_mark f \<noteq> []"
  by (simp_all add: param_close_def param_open_def invoke_close_def invoke_open_def calls_close_def calls_open_def tag_defs para_def newline_def ds_eos_def ds_token_def param_mark_def)

lemma param_inner_unmarked:
  assumes "readable_param (k, v)"
  shows "until param_close (param_inner (k, v)) = None"
proof -
  let ?flag = "case v of JStr _ \<Rightarrow> ''true'' | _ \<Rightarrow> ''false''"
  have flag: "?flag = ''true'' \<or> ?flag = ''false''" by (cases v) auto
  have k: "until param_close k = None" and v: "until param_close (param_text v) = None" using assms by (auto simp: readable_param_def)
  have "until param_close ''<'' = None" by code_simp
  then have "until param_close (param_text v @ ''<'') = None"
    using until_past [OF v marks_apart(3), of "[]"] by simp
  then have "until param_close (param_mark ?flag @ param_text v @ ''<'') = None"
    using flag by (subst until_free) (auto simp: param_mark_def quoted_def param_close_def)
  then have "until param_close (k @ param_mark ?flag @ param_text v @ ''<'') = None"
    using until_past [OF k, of "param_mark ?flag"] marks_apart(1,2) flag by auto
  moreover have "hd param_close \<notin> set ('' name='' @ [CHR 0x22])" by (simp add: param_close_def)
  ultimately have "until param_close (('' name='' @ [CHR 0x22]) @ k @ param_mark ?flag @ param_text v @ ''<'') = None"
    by (subst until_free) simp_all
  then show ?thesis by (simp add: param_inner_def)
qed

lemma endswith_append [simp]: "endswith (s @ e) e"
  by (simp add: endswith_def drop_prefix_Some)

lemma before_end_append [simp]: "before_end e (s @ e) = Some s"
  by (simp add: before_end_def)

lemma mark_starts:
  "startswith (param_mark f @ r) (param_mark f)" "\<not> startswith (param_mark ''false'' @ r) (param_mark ''true'')"
  by (simp_all add: param_mark_def quoted_def)

lemma read_param_inner:
  assumes "readable_param (k, v)"
  shows "read_param (param_inner (k, v)) = Some (k, param_text v, case v of JStr _ \<Rightarrow> ''true'' | _ \<Rightarrow> ''false'')"
proof -
  let ?flag = "case v of JStr _ \<Rightarrow> ''true'' | _ \<Rightarrow> ''false''"
  have flag: "?flag = ''true'' \<or> ?flag = ''false''" by (cases v) auto
  have free: "until (param_mark f) k = None" for f
  proof -
    have "CHR 0x22 \<notin> set k" using assms by (auto simp: readable_param_def)
    then have "until (param_mark f) (k @ []) = map_option (\<lambda>(b, a). (k @ b, a)) (until (param_mark f) [])"
      by (intro until_free) (simp_all add: param_mark_def)
    then show ?thesis by simp
  qed
  have read: "read_until_stop [param_mark ''true'', param_mark ''false''] (k @ param_mark f @ r) = (k, Some (param_mark f), r)"
    if "f \<in> {''true'', ''false''}" for f r
    using that free marks_apart(5-8) mark_starts by (intro read_stop_past) (auto simp del: startswith_iff)
  have inner: "param_inner (k, v) = ('' name='' @ [CHR 0x22]) @ k @ param_mark ?flag @ param_text v @ ''<''" by (simp add: param_inner_def)
  have differ: "param_mark ''false'' \<noteq> param_mark ''true''" by (simp add: param_mark_def quoted_def)
  show ?thesis unfolding read_param_def inner drop_prefix_self option.case
    using read [of ?flag "param_text v @ ''<''"] flag differ by auto
qed


fun after_open :: "(string \<times> json) list \<Rightarrow> string" where
  \<comment> \<open>the parameters without the first mark\<close>
  "after_open [] = []"
| "after_open (p # ps) = param_inner p @ param_close @ ''>'' @ (if ps = [] then [] else nl @ param_open @ after_open ps)"

lemma params_after_open: "ps \<noteq> [] \<Longrightarrow> joinwith nl (map param_dsml ps) = param_open @ after_open ps"
proof (induction ps)
  case (Cons p ps)
  then show ?case by (cases ps) (simp_all add: param_dsml_inner)
qed simp

lemma tag_end_unmarked: "until param_open tag_end = None" "until invoke_close tag_end = None" "until invoke_open tag_end = None" "until calls_close tag_end = None"
  by code_simp+

lemma close_starts:
  "\<not> startswith (invoke_close @ r) param_open" "\<not> startswith (calls_close @ r) invoke_open" "startswith (p @ r) p"
  by (simp_all add: invoke_close_def param_open_def calls_close_def invoke_open_def tag_defs)

lemma read_tag_end:
  "read_until_stop [param_open, invoke_close] (tag_end @ param_open @ r) = (tag_end, Some param_open, r)"
  "read_until_stop [param_open, invoke_close] (tag_end @ invoke_close @ r) = (tag_end, Some invoke_close, r)"
  "read_until_stop [invoke_open, calls_close] (tag_end @ invoke_open @ r) = (tag_end, Some invoke_open, r)"
  "read_until_stop [invoke_open, calls_close] (tag_end @ calls_close @ r) = (tag_end, Some calls_close, r)"
  by (rule read_stop_past; simp add: tag_end_unmarked marks_apart close_starts del: startswith_iff)+

lemma tag_end_nonempty [simp]: "tag_end \<noteq> []"
  by (simp add: tag_end_def)

lemma stops_differ [simp]: "invoke_close \<noteq> param_open" "calls_close \<noteq> invoke_open" "invoke_open \<noteq> calls_close"
  by (simp_all add: invoke_close_def param_open_def calls_close_def invoke_open_def tag_defs)

lemma parse_params_done [simp]: "parse_params (Some invoke_close) args s = Inr (args, Some invoke_close, s)"
  by (simp add: parse_params.simps)

definition dsml_arg :: "string \<times> json \<Rightarrow> string \<times> string \<times> string" where
  "dsml_arg = (\<lambda>(k, v). (k, param_text v, case v of JStr _ \<Rightarrow> ''true'' | _ \<Rightarrow> ''false''))"

lemma read_param_content:
  assumes "readable_param p"
  shows "read_until_stop [param_close] (param_inner p @ param_close @ r) = (param_inner p, Some param_close, r)"
  using assms by (cases p) (intro read_stop_past, simp_all add: param_inner_unmarked marks_apart)

lemma params_read:
  assumes "list_all readable_param ps" and "ps \<noteq> []" and "distinct (map fst args @ map fst ps)"
  shows "parse_params (Some param_open) args (after_open ps @ nl @ invoke_close @ z) = Inr (args @ map dsml_arg ps, Some invoke_close, z)"
  using assms
proof (induction ps arbitrary: args)
  case (Cons p ps)
  obtain k v where p: "p = (k, v)" by (cases p)
  have rp: "readable_param (k, v)" and new: "k \<notin> fst ` set args" using Cons.prems by (auto simp: p)
  define next_text where "next_text = (if ps = [] then invoke_close @ z else param_open @ after_open ps @ nl @ invoke_close @ z)"
  have s: "after_open (p # ps) @ nl @ invoke_close @ z = param_inner p @ param_close @ tag_end @ next_text"
    by (simp add: next_text_def tag_end_def newline_def)
  have step: "parse_params (Some param_open) args (param_inner p @ param_close @ tag_end @ next_text) =
      (case read_until_stop [param_open, invoke_close] (tag_end @ next_text) of
         (content, stop', r') \<Rightarrow>
           if content \<noteq> tag_end then Inl (ValueError (''Parameter format error: '' @ content))
           else parse_params stop' (args @ [dsml_arg p]) r')"
    unfolding p parse_params.simps [of "Some param_open"] read_param_content [OF rp] prod.case read_param_inner [OF rp] option.case dsml_arg_def
    using new by simp
  show ?case
  proof (cases "ps = []")
    case True
    then show ?thesis unfolding s step by (simp add: next_text_def read_tag_end)
  next
    case False
    then show ?thesis unfolding s step
      using Cons.IH [of "args @ [dsml_arg p]"] Cons.prems by (simp add: next_text_def read_tag_end p dsml_arg_def)
  qed
qed simp

section \<open>Calls\<close>

definition call_head :: "string \<Rightarrow> string" where
  \<comment> \<open>what follows the opening mark of a call, up to its parameters\<close>
  "call_head n = '' name='' @ quoted n @ tag_end"

lemma read_call_name: "read_tool_name (call_head n) = Some n" "read_tool_name (call_head n @ nl) = Some n"
proof -
  have read: "read_tool_name (CHR '' '' # ''name='' @ [CHR 0x22] @ s) = before_end (CHR 0x22 # tag_end) s" for s
    by (simp add: read_tool_name_def is_space_def)
  have head: "call_head n @ u = CHR '' '' # ''name='' @ [CHR 0x22] @ (n @ (CHR 0x22 # tag_end) @ u)" for u by (simp add: call_head_def quoted_def)
  have "before_end (CHR 0x22 # tag_end) (n @ (CHR 0x22 # tag_end) @ nl) = Some n"
    by (simp add: before_end_def tag_end_def newline_def endswith_def)
  then show "read_tool_name (call_head n @ nl) = Some n" unfolding head read .
  show "read_tool_name (call_head n) = Some n" using head [of "[]"] read [of "n @ (CHR 0x22 # tag_end)"] by simp
qed

definition readable_call :: "string \<times> pydict \<Rightarrow> bool" where
  "readable_call = (\<lambda>(n, d). lt \<notin> set n \<and> distinct (map fst d) \<and> list_all readable_param d)"

definition call_text :: "string \<times> pydict \<Rightarrow> string" where
  "call_text = (\<lambda>(n, d). invoke_dsml n (joinwith nl (map param_dsml d)))"

definition call_read :: "string \<times> pydict \<Rightarrow> string \<times> string" where
  "call_read = (\<lambda>(n, d). (n, to_json (JObj d)))"

lemma decode_args: "decode_dsml_to_arguments (map dsml_arg d) = to_json (JObj d)"
proof -
  have "(case dsml_arg p of (k, v, flag) \<Rightarrow> plain_str k @ '': '' @ (if flag = ''true'' then plain_str v else v)) =
      (case p of (k, v) \<Rightarrow> plain_str k @ '': '' @ to_json v)" for p
    by (cases p; cases "snd p") (simp_all add: dsml_arg_def param_text_def)
  then have "map (\<lambda>(k, v, flag). plain_str k @ '': '' @ (if flag = ''true'' then plain_str v else v)) (map dsml_arg d) =
      map (\<lambda>(k, v). plain_str k @ '': '' @ to_json v) d" by simp
  then show ?thesis unfolding decode_dsml_to_arguments_def to_json.simps by (simp only:)
qed

lemma call_head_unmarked:
  assumes "lt \<notin> set n"
  shows "until param_open (call_head n) = None" "until invoke_close (call_head n) = None"
    "until param_open (call_head n @ nl) = None" "until invoke_close (call_head n @ nl) = None"
proof -
  have "until (lt # p) s = None" if "lt \<notin> set s" for p s using until_free [of "lt # p" s "[]"] that by simp
  moreover have "lt \<notin> set (call_head n @ nl)" using assms by (simp add: call_head_def quoted_def tag_end_def newline_def)
  ultimately show "until param_open (call_head n) = None" "until invoke_close (call_head n) = None"
    "until param_open (call_head n @ nl) = None" "until invoke_close (call_head n @ nl) = None"
    by (simp_all add: param_open_def invoke_close_def open_tag_def)
qed

lemma call_parsed:
  assumes "readable_call (n, d)"
  shows "\<exists>content st r. read_until_stop [param_open, invoke_close] (call_head n @ joinwith nl (map param_dsml d) @ nl @ invoke_close @ z) = (content, st, r) \<and>
    read_tool_name content = Some n \<and> parse_params st [] r = Inr (map dsml_arg d, Some invoke_close, z)"
proof (cases "d = []")
  case True
  have n: "lt \<notin> set n" using assms by (simp add: readable_call_def)
  have "read_until_stop [param_open, invoke_close] ((call_head n @ nl) @ invoke_close @ z) = (call_head n @ nl, Some invoke_close, z)"
    by (rule read_stop_past) (simp_all add: call_head_unmarked [OF n] marks_apart close_starts del: startswith_iff)
  then show ?thesis using True read_call_name by simp
next
  case False
  have n: "lt \<notin> set n" and ps: "list_all readable_param d" "distinct (map fst d)" using assms by (simp_all add: readable_call_def)
  have "read_until_stop [param_open, invoke_close] (call_head n @ param_open @ after_open d @ nl @ invoke_close @ z) =
      (call_head n, Some param_open, after_open d @ nl @ invoke_close @ z)"
    by (rule read_stop_past) (simp_all add: call_head_unmarked [OF n] marks_apart close_starts del: startswith_iff)
  then show ?thesis using params_read [OF ps(1) False, of "[]"] ps(2) params_after_open [OF False] read_call_name by simp
qed

lemma call_text_marks: "call_text (n, d) = invoke_open @ call_head n @ joinwith nl (map param_dsml d) @ nl @ invoke_close @ ''>''"
  by (simp add: call_text_def invoke_dsml_def invoke_open_def call_head_def quoted_def tag_end_def newline_def invoke_close_def open_tag_def close_tag_def)

lemma calls_parsed:
  assumes "list_all readable_call cs"
  shows "parse_calls stop out (tag_end @ concat (map (\<lambda>c. call_text c @ nl) cs) @ calls_close @ z) = Inr (z, Some calls_close, out @ map call_read cs)"
  using assms
proof (induction cs arbitrary: stop out)
  case Nil
  then show ?case by (subst parse_calls.simps) (simp add: read_tag_end)
next
  case (Cons c cs)
  obtain n d where c: "c = (n, d)" by (cases c)
  let ?rest = "concat (map (\<lambda>c. call_text c @ nl) cs) @ calls_close @ z"
  define t where "t = call_head n @ joinwith nl (map param_dsml d) @ nl @ invoke_close @ tag_end @ ?rest"
  have "readable_call (n, d)" using Cons.prems by (simp add: c)
  then obtain content st r where r: "read_until_stop [param_open, invoke_close] t = (content, st, r)"
      "read_tool_name content = Some n" "parse_params st [] r = Inr (map dsml_arg d, Some invoke_close, tag_end @ ?rest)"
    unfolding t_def using call_parsed by blast
  have s: "tag_end @ concat (map (\<lambda>c. call_text c @ nl) (c # cs)) @ calls_close @ z = tag_end @ invoke_open @ t"
    by (simp add: c call_text_marks t_def tag_end_def newline_def)
  have cr: "call_read c = (n, decode_dsml_to_arguments (map dsml_arg d))" by (simp add: c call_read_def decode_args del: to_json.simps)
  have "list_all readable_call cs" using Cons.prems by simp
  then show ?case unfolding s by (subst parse_calls.simps) (simp add: read_tag_end r Cons.IH cr)
qed


section \<open>Messages\<close>

lemma calls_dsml_marks: "is \<noteq> [] \<Longrightarrow> calls_dsml is = calls_open @ tag_end @ concat (map (\<lambda>i. i @ nl) is) @ calls_close"
proof -
  have "is \<noteq> [] \<Longrightarrow> joinwith nl is @ nl @ u = concat (map (\<lambda>i. i @ nl) is) @ u" for u
  proof (induction nl "is" rule: joinwith.induct)
    case (3 s t ss)
    then show ?case by (cases ss) auto
  qed auto
  then show "is \<noteq> [] \<Longrightarrow> calls_dsml is = calls_open @ tag_end @ concat (map (\<lambda>i. i @ nl) is) @ calls_close"
    by (simp add: calls_dsml_def calls_open_def para_def newline_def tag_end_def open_tag_def calls_close_def)
qed

lemma check_end_ordinary:
  assumes "ordinary c" and "ordinary r"
  shows "check_end r c [] (Some ds_eos) calls =
    Inr [(''role'', JStr ''assistant''), (''content'', JStr c), (''reasoning_content'', JStr r), (''tool_calls'', JArr (map openai_tool_call calls))]"
proof -
  have "\<not> list_ex (\<lambda>t. contains c t \<or> contains r t) special_tokens" using assms by (auto simp: ordinary_def list_ex_iff list_all_iff)
  then show ?thesis by (simp add: check_end_def)
qed

lemma eos_starts [simp]: "\<not> startswith (calls_open @ r) ds_eos" "ds_eos \<noteq> calls_open" "calls_open \<noteq> ds_eos"
  by (simp_all add: calls_open_def para_def newline_def ds_eos_def ds_token_def)

lemma read_content:
  assumes "ordinary c"
  shows "read_until_stop [ds_eos, calls_open] (c @ ds_eos @ r) = (c, Some ds_eos, r)"
    and "read_until_stop [ds_eos, calls_open] (c @ calls_open @ r) = (c, Some calls_open, r)"
  using ordinary_until [OF assms] by (intro read_stop_past; simp add: marks_apart close_starts del: startswith_iff)+

lemma summary_without_calls:
  assumes "ordinary c" and "ordinary r"
  shows "parse_summary r (c @ ds_eos) = check_end r c [] (Some ds_eos) []"
  using read_content(1) [OF assms(1), of "[]"] by (simp add: parse_summary_def)

lemma summary_with_calls:
  assumes "ordinary c" and "ordinary r" and "list_all readable_call cs" and "cs \<noteq> []"
  shows "parse_summary r (c @ calls_dsml (map call_text cs) @ ds_eos) = check_end r c [] (Some ds_eos) (map call_read cs)"
proof -
  have "calls_dsml (map call_text cs) = calls_open @ tag_end @ concat (map (\<lambda>c. call_text c @ nl) cs) @ calls_close"
    using assms(4) by (simp add: calls_dsml_marks comp_def)
  then have s: "c @ calls_dsml (map call_text cs) @ ds_eos = c @ calls_open @ tag_end @ concat (map (\<lambda>c. call_text c @ nl) cs) @ calls_close @ ds_eos" by simp
  have "read_until_stop [ds_eos] ([] @ ds_eos @ []) = ([], Some ds_eos, [])" by (rule read_stop_past) (simp_all add: marks_apart)
  then show ?thesis unfolding s parse_summary_def read_content(2) [OF assms(1)] using calls_parsed [OF assms(3), of None "[]" ds_eos] by simp
qed

definition written_call :: "string \<times> string \<Rightarrow> json \<times> json" where
  "written_call = (\<lambda>(n, a). (JStr n, JStr a))"

definition call_dict :: "string \<times> string \<Rightarrow> string \<times> pydict" where
  "call_dict = (\<lambda>(n, a). (n, call_args a))"

definition good_call :: "string \<times> string \<Rightarrow> bool" where
  \<comment> \<open>the arguments are an object, or no JSON at all, and their parameters can be read back\<close>
  "good_call = (\<lambda>(n, a). (case json_loads a of Some v \<Rightarrow> is_obj v | None \<Rightarrow> True) \<and> readable_call (n, call_args a))"

lemma markup_written:
  assumes "list_all good_call cs"
  shows "call_markup (Some (map written_call cs)) = Inr (if cs = [] then '''' else calls_dsml (map call_text (map call_dict cs)))
    \<and> list_all readable_call (map call_dict cs)"
proof -
  have one: "bindE (encode_call_arguments (JStr a)) (\<lambda>t. Inr (invoke_dsml n t)) = Inr (call_text (call_dict (n, a))) \<and> readable_call (call_dict (n, a))"
    if g: "good_call (n, a)" for n a
  proof (cases "json_loads a")
    case (Some v)
    then obtain d where "v = JObj d" using g Some by (cases v) (auto simp: good_call_def)
    then show ?thesis using g Some by (simp add: good_call_def encode_call_arguments_def encode_arguments_to_dsml_def call_text_def call_dict_def call_args_def)
  qed (use g in \<open>simp add: good_call_def encode_call_arguments_def encode_arguments_to_dsml_def call_text_def call_dict_def call_args_def\<close>)
  have "mapE (\<lambda>(n, a). bindE (encode_call_arguments a) (\<lambda>t. Inr (invoke_dsml (py_str n) t))) (map written_call cs) =
      Inr (map call_text (map call_dict cs)) \<and> list_all readable_call (map call_dict cs)"
    using assms
  proof (induction cs)
    case (Cons c cs)
    obtain n a where "c = (n, a)" by (cases c)
    then show ?case using Cons one [of n a] by (simp add: written_call_def)
  qed simp
  then show ?thesis by (simp add: call_markup_def)
qed


text \<open>
  C12. What the encoding writes for a message of the assistant is read back as that message: its
  content, its reasoning when the mode is thinking, and its tool calls with the same names and arguments.
  Content and reasoning may hold anything but special tokens, the arguments anything but the mark that
  ends a parameter.
\<close>

theorem completion_roundtrip:
  assumes "has_role (ms ! i) [''assistant'']" and "int i > find_last_user_index ms" and "i = 0 \<or> dget (ms ! (i - 1)) ''task'' = JNull"
    and "dget (ms ! i) ''content'' = JStr c" and "dget (ms ! i) ''reasoning_content'' = JStr r" and "\<not> truthy (dget (ms ! i) ''wo_eos'')"
    and "ordinary c" and "ordinary r" and "list_all good_call cs"
  shows "\<exists>s. message_body i ms (mode = ''thinking'') dropping tools (Some (map written_call cs)) = Inr s \<and>
    parse_message_from_completion_text s mode =
      Inr [(''role'', JStr ''assistant''), (''content'', JStr c), (''reasoning_content'', JStr (if mode = ''thinking'' then r else '''')),
           (''tool_calls'', JArr (map (\<lambda>(n, a). openai_tool_call (n, to_json (JObj (call_args a)))) cs))]"
proof -
  define markup where "markup = (if cs = [] then '''' else calls_dsml (map call_text (map call_dict cs)))"
  have calls: "list_all readable_call (map call_dict cs)" and m: "call_markup (Some (map written_call cs)) = Inr markup"
    using markup_written [OF assms(9)] by (auto simp: markup_def)
  have role: "dget (ms ! i) ''role'' = JStr ''assistant''" using assms(1) by (simp add: has_role_def)
  have con: "py_str (por (JStr x) (JStr '''')) = x" for x by (simp add: por_def)
  have body: "message_body i ms (mode = ''thinking'') dropping tools (Some (map written_call cs)) =
      Inr ((if mode = ''thinking'' then r @ ''</think>'' else '''') @ c @ markup @ ds_eos)"
    using assms(2-6) unfolding message_body_def Let_def by (auto simp: has_role_def role m con)
  have out: "map call_read (map call_dict cs) = map (\<lambda>(n, a). (n, to_json (JObj (call_args a)))) cs"
    by (auto simp: call_read_def call_dict_def simp del: to_json.simps)
  have summary: "parse_summary u (c @ markup @ ds_eos) = check_end u c [] (Some ds_eos) (map call_read (map call_dict cs))" if "ordinary u" for u
    using summary_without_calls [OF assms(7) that] summary_with_calls [OF assms(7) that calls] by (auto simp: markup_def)
  have empty: "ordinary ''''" by (simp add: ordinary_def special_tokens_def ds_bos_def ds_eos_def ds_token_def dsml_token_def)
  have read: "read_until_stop [''</think>'', calls_open] (r @ ''</think>'' @ u) = (r, Some ''</think>'', u)" for u
    using ordinary_until [OF assms(8)] by (intro read_stop_past) (simp_all add: marks_apart)
  have calls_out: "map openai_tool_call (map call_read (map call_dict cs)) = map (\<lambda>(n, a). openai_tool_call (n, to_json (JObj (call_args a)))) cs"
    unfolding out by (auto simp del: to_json.simps)
  show ?thesis
  proof (cases "mode = ''thinking''")
    case True
    then show ?thesis using body read [of "c @ markup @ ds_eos"] summary [OF assms(8)] check_end_ordinary [OF assms(7,8)] calls_out
      by (simp add: parse_message_from_completion_text_def del: map_map to_json.simps)
  next
    case False
    then show ?thesis using body summary [OF empty] check_end_ordinary [OF assms(7) empty] calls_out
      by (simp add: parse_message_from_completion_text_def del: map_map to_json.simps)
  qed
qed

definition demo_answer :: "pydict list" where
  "demo_answer = [[(''role'', JStr ''user''), (''content'', JStr ''2 < 3?'')],
     [(''role'', JStr ''assistant''), (''content'', JStr ''yes, 2 < 3''), (''reasoning_content'', JStr ''compare'')]]"

definition demo_call :: "string \<times> string" where
  "demo_call = (''look'', ''{'' @ quoted ''up'' @ '':1}'')"

theorem completion_roundtrip_witness:
  "\<exists>s. message_body 1 demo_answer True True None (Some (map written_call [demo_call])) = Inr s \<and>
    parse_message_from_completion_text s ''thinking'' =
      Inr [(''role'', JStr ''assistant''), (''content'', JStr ''yes, 2 < 3''), (''reasoning_content'', JStr ''compare''),
           (''tool_calls'', JArr [openai_tool_call (''look'', ''{'' @ quoted ''up'' @ '': 1}'')])]"
proof -
  have a: "has_role (demo_answer ! 1) [''assistant'']" "int 1 > find_last_user_index demo_answer" "1 = (0 :: nat) \<or> dget (demo_answer ! (1 - 1)) ''task'' = JNull"
    "dget (demo_answer ! 1) ''content'' = JStr ''yes, 2 < 3''" "dget (demo_answer ! 1) ''reasoning_content'' = JStr ''compare''"
    "\<not> truthy (dget (demo_answer ! 1) ''wo_eos'')" "ordinary ''yes, 2 < 3''" "ordinary ''compare''" "list_all good_call [demo_call]"
    by code_simp+
  have "map (\<lambda>(n, a). openai_tool_call (n, to_json (JObj (call_args a)))) [demo_call] = [openai_tool_call (''look'', ''{'' @ quoted ''up'' @ '': 1}'')]"
    by code_simp
  then show ?thesis using completion_roundtrip [OF a, of "''thinking''" True None] by simp
qed

end
