(* ===== verification/Runner_Payload.thy ===== *)
theory Runner_Payload
  imports Payloads Chat_Render Runner_Text Jit_Kv Tool_Calls
begin

text \<open>
  The payloads of \<^verbatim>\<open>ds4_infer/runners.py\<close>: the model name a server is asked for, the payload of
  one request, the shared payload of a cohort, and the prefix that is loaded into the KV cache before a
  cohort.  Text is ASCII where prefixes are measured.
\<close>

section \<open>The served model\<close>

definition all_digits :: "string \<Rightarrow> bool" where
  "all_digits s \<longleftrightarrow> s \<noteq> '''' \<and> list_all (\<lambda>c. CHR ''0'' \<le> c \<and> c \<le> CHR ''9'') s"

definition rpartition :: "string \<Rightarrow> string \<Rightarrow> (string \<times> string) option" where
  \<comment> \<open>the texts before and after the last occurrence\<close>
  "rpartition s mark = map_option (\<lambda>(b, a). (rev a, rev b)) (until (rev mark) (rev s))"

definition csv_items :: "string \<Rightarrow> string list" where
  \<comment> \<open>\<^verbatim>\<open>[item.strip() for item in raw.split(",") if item.strip()]\<close>\<close>
  "csv_items raw = filter (\<lambda>s. s \<noteq> '''') (map strip (split_on (CHR '','') raw))"

definition pipeline_node_count_override :: "environ \<Rightarrow> nat" where
  "pipeline_node_count_override env = length (csv_items (env_get env ''DS4_PIPELINE_NODES'' ''''))"

definition local_flag_env :: "environ \<Rightarrow> string \<Rightarrow> bool \<Rightarrow> bool" where
  \<comment> \<open>\<^verbatim>\<open>_env_bool_local\<close>: every text but these four means yes\<close>
  "local_flag_env env k v = (case env k of None \<Rightarrow> v | Some raw \<Rightarrow> lower (strip raw) \<notin> {''0'', ''false'', ''no'', ''off''})"

definition served_model_with_pipeline_suffix :: "environ \<Rightarrow> string \<Rightarrow> string" where
  "served_model_with_pipeline_suffix env model_id =
     (if \<not> local_flag_env env ''DS4_PIPELINE_AUTO_SERVED_MODEL_PP_SUFFIX'' True then model_id
      else
        (let stages = pipeline_node_count_override env;
             tried = (\<lambda>mark. case rpartition model_id mark of
                Some (pre, post) \<Rightarrow> if all_digits post then Some (pre @ mark @ show_nat stages) else None | None \<Rightarrow> None)
         in if stages < 1 then model_id
            else case tried ''-pp'' of Some s \<Rightarrow> s | None \<Rightarrow> (case tried ''_pp'' of Some s \<Rightarrow> s | None \<Rightarrow> model_id)))"

definition served_model_overrides :: "environ \<Rightarrow> (string \<times> string) list result" where
  "served_model_overrides env =
     (let raw = env_get env ''DS4_PIPELINE_SERVED_MODEL_OVERRIDES_JSON'' ''''
      in if raw = '''' then Inr []
         else case json_loads raw of
             None \<Rightarrow> Inl (ValueError ''Expecting value'')
           | Some (JObj d) \<Rightarrow> Inr (filter (\<lambda>(_, v). v \<noteq> '''') (map (\<lambda>(k, v). (k, py_str v)) d))
           | Some _ \<Rightarrow> Inl (ValueError ''DS4_PIPELINE_SERVED_MODEL_OVERRIDES_JSON must be an object''))"

definition served_model_override_keys :: "model_profile \<Rightarrow> string list" where
  "served_model_override_keys p =
     dedup ([mp_profile_id p, mp_model_id p] @
       nonempty_strs (obj_or_empty (dget (mp_routing p) ''pipeline'')) [''service_id'', ''served_model_name'', ''runner_model_id''] @
       nonempty_strs (mp_routing p) [''pipeline_service_id'', ''served_model_name'', ''runner_model_id''])"

definition served_model_id :: "environ \<Rightarrow> model_profile \<Rightarrow> string result" where
  "served_model_id env p =
     bindE (served_model_overrides env) (\<lambda>overrides.
       Inr (case find (\<lambda>k. map_of overrides k \<noteq> None) (served_model_override_keys p) of
              Some k \<Rightarrow> the (map_of overrides k)
            | None \<Rightarrow>
                served_model_with_pipeline_suffix env
                  (case nonempty_strs (mp_routing p) [''served_model_name'', ''runner_model_id''] @
                        nonempty_strs (obj_or_empty (dget (mp_routing p) ''pipeline'')) [''served_model_name'', ''runner_model_id''] of
                     s # _ \<Rightarrow> s | [] \<Rightarrow> mp_model_id p)))"

section \<open>The cache plan of a request\<close>

definition profile_service_id :: "model_profile \<Rightarrow> string option" where
  "profile_service_id p =
     (let sid = dget (obj_or_empty (dget (mp_routing p) ''pipeline'')) ''service_id'';
          v = por (dget (mp_routing p) ''pipeline_service_id'') (dget (mp_routing p) ''service_id'')
      in if truthy sid then Some (py_str sid) else if truthy v then Some (py_str v) else None)"

definition auto_kv_backend :: "string option \<Rightarrow> string" where
  "auto_kv_backend service_id =
     (case service_id of
        None \<Rightarrow> ''auto''
      | Some s \<Rightarrow>
          if s = ''dsv4_flash_pp8'' then ''dsv4_hma''
          else if startswith s ''qwen'' \<or> startswith s ''gemma'' \<or> startswith s ''kimi'' then ''lmcache'' else ''auto'')"

definition copied_extra_body :: "pydict \<Rightarrow> pydict result" where
  \<comment> \<open>\<^verbatim>\<open>dict(payload.get("extra_body") or {})\<close>\<close>
  "copied_extra_body payload = py_dict (por (dget payload ''extra_body'') (JObj []))"

definition auto_kv_cache_material :: "pydict \<Rightarrow> inference_request \<Rightarrow> model_profile \<Rightarrow> string option \<Rightarrow> pydict result" where
  "auto_kv_cache_material payload req p service_id =
     bindE (copied_extra_body payload) (\<lambda>extra.
       Inr [(''format'', JStr ''ds4-auto-kv-cache-key-v1''), (''chat'', JBool (ir_chat req)), (''messages'', dget payload ''messages''),
            (''prompt'', dget payload ''prompt''), (''model'', dget payload ''model''), (''profile_id'', JStr (mp_profile_id p)),
            (''runtime_contract_id'', jopt (mp_runtime_contract_id p)), (''service_id'', jopt service_id),
            (''thinking_budget_tokens'', JInt (ir_thinking_budget_tokens req)), (''extra_body'', JObj extra)])"

definition auto_kv_cache_plan :: "environ \<Rightarrow> pydict \<Rightarrow> inference_request \<Rightarrow> model_profile \<Rightarrow> pydict option result" where
  "auto_kv_cache_plan env payload req p =
     (let service_id = profile_service_id p;
          allowed = csv_items (env_get env ''DS4_PIPELINE_AUTO_KV_CACHE_SERVICE_IDS'' '''');
          name = (case service_id of None \<Rightarrow> mp_profile_id p | Some s \<Rightarrow> if s = '''' then mp_profile_id p else s)
      in if \<not> flag_env env ''DS4_PIPELINE_AUTO_KV_CACHE'' False \<or> dget (ir_input req) ''disable_auto_kv_cache'' = JBool True \<or>
            dget (ir_input req) ''kv_cache'' \<noteq> JNull \<or> dget (ir_input req) ''kv_cache_plan'' \<noteq> JNull \<or>
            has_key payload ''kv_transfer_params'' \<or> (allowed \<noteq> [] \<and> name \<notin> set allowed)
         then Inr None
         else bindE (auto_kv_cache_material payload req p service_id) (\<lambda>material.
                Inr (Some (auto_kv_cache_plan_from_material material payload p service_id (auto_kv_backend service_id) ''''))))"

section \<open>The payload of a request\<close>

definition openai_request_fields :: "string list" where
  \<comment> \<open>a set in the code; the order here is that in which its fields are added\<close>
  "openai_request_fields =
     [''ignore_eos'', ''include_stop_str_in_output'', ''min_tokens'', ''repetition_penalty'', ''seed'', ''skip_special_tokens'', ''stop'',
      ''stop_token_ids'', ''top_k'', ''top_p'', ''truncate_prompt_tokens'']"

definition merge_openai_request_fields :: "inference_request \<Rightarrow> pydict \<Rightarrow> pydict" where
  "merge_openai_request_fields req payload =
     (case dget (ir_input req) ''openai'' of
        JObj raw \<Rightarrow> foldl (\<lambda>d k. if dget raw k \<noteq> JNull then dset k (dget raw k) d else d) payload openai_request_fields
      | _ \<Rightarrow> payload)"

definition openai_sampling_controls :: "pydict \<Rightarrow> pydict" where
  "openai_sampling_controls inp = obj_or_empty (dget inp ''openai_sampling'')"

definition with_cache_plan :: "pydict \<Rightarrow> pydict \<Rightarrow> pydict result" where
  \<comment> \<open>the request fields and the extra body for a cache plan (\<open>extra\<close> holds it under \<^verbatim>\<open>ds4_kv_cache\<close>)\<close>
  "with_cache_plan extra payload =
     (let payload1 = dupdate payload (kv_cache_vllm_request_fields [(''kv_cache_plan'', dget extra ''ds4_kv_cache'')])
      in bindE (copied_extra_body payload1) (\<lambda>old. Inr (dset ''extra_body'' (JObj (dupdate old extra)) payload1)))"

definition apply_openai_payload_extras :: "environ \<Rightarrow> inference_request \<Rightarrow> model_profile \<Rightarrow> pydict \<Rightarrow> pydict result" where
  "apply_openai_payload_extras env req p payload =
     bindE (merge_request_extra_body (dupdate (merge_openai_request_fields req payload) (openai_sampling_controls (ir_input req))) req p) (\<lambda>payload1.
       let extra = kv_cache_extra_body (ir_input req)
       in if extra \<noteq> [] then with_cache_plan extra payload1
          else bindE (auto_kv_cache_plan env payload1 req p) (\<lambda>plan.
                 case plan of None \<Rightarrow> Inr payload1 | Some pl \<Rightarrow> with_cache_plan [(''ds4_kv_cache'', JObj pl)] payload1))"

definition base_payload :: "environ \<Rightarrow> inference_request \<Rightarrow> model_profile \<Rightarrow> string \<Rightarrow> json \<Rightarrow> pydict result" where
  "base_payload env req p key content =
     bindE (served_model_id env p) (\<lambda>model.
       apply_openai_payload_extras env req p
         [(''model'', JStr model), (key, content), (''temperature'', JFloat (ir_temperature req)),
          (''max_tokens'', JInt (max 1 (ir_max_output_tokens req + ir_thinking_budget_tokens req)))])"

definition openai_payload :: "environ \<Rightarrow> inference_request \<Rightarrow> model_profile \<Rightarrow> pydict result" where
  "openai_payload env req p =
     (if ir_chat req then base_payload env req p ''messages'' (JArr (map JObj (request_messages (ir_input req))))
      else base_payload env req p ''prompt'' (JStr (request_prompt (ir_input req))))"

definition openai_completion_prompt_payload :: "environ \<Rightarrow> inference_request \<Rightarrow> model_profile \<Rightarrow> string \<Rightarrow> pydict result" where
  "openai_completion_prompt_payload env req p prompt = base_payload env req p ''prompt'' (JStr prompt)"

definition chat_completion_prompt :: "environ \<Rightarrow> chat_tokenizer \<Rightarrow> inference_request \<Rightarrow> model_profile \<Rightarrow> string result" where
  "chat_completion_prompt env tok req p =
     (let inp = ir_input req; metadata = obj_or_empty (dget inp ''metadata'')
      in case filter (\<lambda>s. s \<noteq> '''') (map prompt_from_container [inp, metadata]) of
           s # _ \<Rightarrow> Inr s
         | [] \<Rightarrow> if dget inp ''messages'' \<noteq> JNull then rendered_chat_prompt_from_input env tok p inp (ir_thinking_budget_tokens req)
                 else Inr (request_prompt inp))"


section \<open>The payload of a cohort\<close>

fun number_values :: "json \<Rightarrow> json" where
  \<comment> \<open>numbers compare by value: \<^verbatim>\<open>1 == 1.0 == True\<close>\<close>
  "number_values (JBool b) = JFloat (if b then 1 else 0)"
| "number_values (JInt i) = JFloat (of_int i)"
| "number_values (JArr xs) = JArr (map number_values xs)"
| "number_values (JObj d) = JObj (map (\<lambda>(k, v). (k, number_values v)) d)"
| "number_values v = v"

definition py_equal :: "pydict \<Rightarrow> pydict \<Rightarrow> bool" where
  \<comment> \<open>\<^verbatim>\<open>a == b\<close> of dicts, whatever the order of their keys\<close>
  "py_equal a b \<longleftrightarrow> canon (number_values (JObj a)) = canon (number_values (JObj b))"

type_synonym cohort_member = "json \<times> pydict \<times> bool"

fun collect_members :: "('a \<Rightarrow> cohort_member option result) \<Rightarrow> pydict option \<Rightarrow> json list \<Rightarrow> bool \<Rightarrow> 'a list \<Rightarrow> (pydict option \<times> json list \<times> bool) option result" where
  \<comment> \<open>the loop over the requests: what they share, their own parts, and whether a generated cache plan was removed;
    \<^const>\<open>None\<close> when they cannot share a call\<close>
  "collect_members member shared parts flag [] = Inr (Some (shared, parts, flag))"
| "collect_members member shared parts flag (x # xs) =
     bindE (member x) (\<lambda>m.
       case m of
         None \<Rightarrow> Inr None
       | Some (part, comparable, fl) \<Rightarrow>
           if (case shared of None \<Rightarrow> False | Some s \<Rightarrow> \<not> py_equal comparable s) then Inr None
           else collect_members member (Some (case shared of None \<Rightarrow> comparable | Some s \<Rightarrow> s)) (parts @ [part]) (flag \<or> fl) xs)"

definition completion_member :: "environ \<Rightarrow> model_profile \<Rightarrow> pydict \<Rightarrow> inference_request \<Rightarrow> cohort_member option result" where
  "completion_member env p defaults req =
     (if ir_chat req then Inr None
      else bindE (openai_payload env req p) (\<lambda>payload0. bindE (merge_payload_extra_body payload0 defaults) (\<lambda>payload1.
             case dget payload1 ''prompt'' of
               JStr prompt \<Rightarrow> (let (cleaned, stripped) = maybe_suppress_generated_auto_kv env payload1
                              in Inr (Some (JStr prompt, dpop ''prompt'' cleaned, stripped)))
             | _ \<Rightarrow> Inr None)))"

definition chat_member :: "environ \<Rightarrow> model_profile \<Rightarrow> pydict \<Rightarrow> inference_request \<Rightarrow> cohort_member option result" where
  "chat_member env p defaults req =
     (if \<not> ir_chat req then Inr None
      else bindE (openai_payload env req p) (\<lambda>payload0.
             if dget payload0 ''tools'' \<noteq> JNull \<or> dget payload0 ''tool_choice'' \<noteq> JNull then Inr None
             else bindE (merge_payload_extra_body payload0 defaults) (\<lambda>payload1.
               case dget payload1 ''messages'' of
                 JArr ms \<Rightarrow> Inr (if ms = [] then None else Some (JArr ms, dpop ''messages'' payload1, False))
               | _ \<Rightarrow> Inr None)))"

definition chat_completion_member :: "environ \<Rightarrow> chat_tokenizer \<Rightarrow> model_profile \<Rightarrow> pydict \<Rightarrow> inference_request \<Rightarrow> cohort_member option result" where
  "chat_completion_member env tok p defaults req =
     (if \<not> ir_chat req \<or> dget (ir_input req) ''tools'' \<noteq> JNull \<or> dget (ir_input req) ''tool_choice'' \<noteq> JNull then Inr None
      else bindE (chat_completion_prompt env tok req p) (\<lambda>prompt.
             if prompt = '''' then Inr None
             else bindE (openai_completion_prompt_payload env req p prompt) (\<lambda>payload0. bindE (merge_payload_extra_body payload0 defaults) (\<lambda>payload1.
                    Inr (Some (JStr prompt, dpop ''prompt'' payload1, False))))))"

fun common2 :: "string \<Rightarrow> string \<Rightarrow> string" where
  "common2 (a # s) (b # t) = (if a = b then a # common2 s t else [])"
| "common2 _ _ = []"

definition commonprefix :: "string list \<Rightarrow> string" where
  "commonprefix ss = (case ss of [] \<Rightarrow> [] | s # rest \<Rightarrow> foldl common2 s rest)"

definition blank :: "char \<Rightarrow> bool" where
  "blank c \<longleftrightarrow> c = CHR '' '' \<or> c = CHR 0x0A \<or> c = CHR 0x09"

definition common_prompt_prefix :: "inference_request list \<Rightarrow> string option" where
  \<comment> \<open>the shared prefix the requests declare, else what their prompts have in common, up to a blank\<close>
  "common_prompt_prefix reqs =
     (let shared = concat (map (\<lambda>r. case dget (ir_input r) ''shared_prefix'' of JStr s \<Rightarrow> [s] | _ \<Rightarrow> []) reqs)
      in if length shared = length reqs \<and> shared \<noteq> [] \<and> hd shared \<noteq> '''' \<and> list_all (\<lambda>s. s = hd shared) shared then Some (hd shared)
         else
           (let pre = commonprefix (map (\<lambda>r. request_prompt (ir_input r)) reqs);
                cut = rev (dropWhile (\<lambda>c. \<not> blank c) (rev pre))
            in if pre = '''' then None
               else if is_space (last pre) then Some pre
               else if length cut \<le> 1 then None
               else Some cut))"

definition auto_kv_batch_suppressed_key :: string where
  "auto_kv_batch_suppressed_key = ''_ds4_auto_kv_batch_suppressed''"

definition min_prefix_chars :: "environ \<Rightarrow> nat" where
  "min_prefix_chars env = nat (max 1 (num_env env ''DS4_PIPELINE_PRESTAGE_COMMON_PREFIX_MIN_CHARS'' 1024))"

definition coalesced_completion_payload :: "environ \<Rightarrow> model_profile \<Rightarrow> pydict \<Rightarrow> inference_request list \<Rightarrow> pydict option result" where
  "coalesced_completion_payload env p defaults reqs =
     bindE (collect_members (completion_member env p defaults) None [] False reqs) (\<lambda>c.
       case c of
         Some (Some shared, prompts, suppressed) \<Rightarrow>
           (let payload = dset ''prompt'' (JArr prompts) shared; payload1 = dset auto_kv_batch_suppressed_key (JBool True) payload;
                service_id = profile_service_id p
            in if \<not> suppressed then Inr (Some payload)
               else if \<not> (flag_env env ''DS4_PIPELINE_PRESTAGE_AUTO_KV_PREFIX'' False \<and> flag_env env ''DS4_PIPELINE_PRESTAGE_SUPPRESSED_AUTO_KV_PREFIX'' True)
               then Inr (Some payload1)
               else (case common_prompt_prefix reqs of
                       None \<Rightarrow> Inr (Some payload1)
                     | Some pre \<Rightarrow>
                         if length pre < min_prefix_chars env then Inr (Some payload1)
                         else bindE (coalesced_auto_kv_prestage_material reqs payload1 p pre service_id) (\<lambda>material.
                                Inr (Some (dset auto_kv_prestage_plan_key
                                  (JObj (auto_kv_cache_plan_from_material material payload1 p service_id (auto_kv_backend service_id) ''prefix'')) payload1)))))
       | _ \<Rightarrow> Inr None)"

definition shared_payload :: "string \<Rightarrow> (inference_request \<Rightarrow> cohort_member option result) \<Rightarrow> inference_request list \<Rightarrow> pydict option result" where
  "shared_payload key member reqs =
     bindE (collect_members member None [] False reqs) (\<lambda>c.
       Inr (case c of Some (Some shared, parts, _) \<Rightarrow> Some (dset key (JArr parts) shared) | _ \<Rightarrow> None))"

definition coalesced_chat_payload :: "environ \<Rightarrow> model_profile \<Rightarrow> pydict \<Rightarrow> inference_request list \<Rightarrow> pydict option result" where
  "coalesced_chat_payload env p defaults = shared_payload ''messages'' (chat_member env p defaults)"

definition coalesced_chat_completion_payload ::
  "environ \<Rightarrow> chat_tokenizer \<Rightarrow> model_profile \<Rightarrow> pydict \<Rightarrow> inference_request list \<Rightarrow> pydict option result"
where
  "coalesced_chat_completion_payload env tok p defaults = shared_payload ''prompt'' (chat_completion_member env tok p defaults)"

section \<open>Loading a common prefix before a cohort\<close>

text \<open>
  What a runner keeps between calls: the breaker of the prefetch, the endpoints known to be disabled, and
  the world its calls act on.  \<open>post\<close> is the HTTP call: endpoint and payload give an outcome and the next
  world; an answer that is not an object is an outcome \<^const>\<open>Raised_Other\<close>, as its first use raises.
\<close>

record 'w runner_io =
  io_circuit :: "jit_breaker option"
  io_disabled :: "string list"
  io_world :: 'w

type_synonym 'w post = "'w \<Rightarrow> string \<Rightarrow> pydict \<Rightarrow> post_outcome \<times> 'w"

record runner =
  rn_base_url :: string
  rn_chat_endpoint :: string
  rn_chat_batch_endpoint :: string
  rn_completion_endpoint :: string
  rn_default_extra_body :: pydict

definition payload_kv_cache_plan :: "pydict \<Rightarrow> pydict option" where
  "payload_kv_cache_plan payload = (case dget (obj_or_empty (dget payload ''extra_body'')) ''ds4_kv_cache'' of JObj pl \<Rightarrow> Some pl | _ \<Rightarrow> None)"

definition payload_has_strict_kv_load :: "pydict \<Rightarrow> bool" where
  "payload_has_strict_kv_load payload = kv_plan_has_strict_load (payload_kv_cache_plan payload)"

definition payload_has_prestageable_auto_kv :: "environ \<Rightarrow> pydict \<Rightarrow> bool" where
  "payload_has_prestageable_auto_kv env payload \<longleftrightarrow>
     flag_env env ''DS4_PIPELINE_PRESTAGE_AUTO_KV_PREFIX'' False \<and> kv_plan_is_prestageable_auto (payload_kv_cache_plan payload)"

definition error_of :: "post_outcome \<Rightarrow> string" where
  "error_of outcome = (case outcome of Timed_Out_Or_OS e \<Rightarrow> e | Raised_Runtime e \<Rightarrow> e | Raised_Other e \<Rightarrow> e | Responded _ \<Rightarrow> '''')"

definition prefetch_call ::
  "environ \<Rightarrow> 'w post \<Rightarrow> runner \<Rightarrow> pydict \<Rightarrow> pydict \<Rightarrow> int \<Rightarrow> rat \<Rightarrow> rat \<Rightarrow> bool \<Rightarrow> bool \<Rightarrow> string \<Rightarrow> 'w runner_io \<Rightarrow>
     (string + pydict) \<times> pydict \<times> 'w runner_io"
where
  \<comment> \<open>\<^verbatim>\<open>run_prefetch\<close> with the call it makes: the information or the error text, the payload, the next state\<close>
  "prefetch_call env post rn payload prefetch_payload max_tokens now dur fail_open strict pre io =
     (let known = (prefetch_endpoint_enabled env \<and> prefetch_endpoint_key (rn_base_url rn) prefetch_payload \<in> set (io_disabled io));
          endpoint = (if prefetch_endpoint_enabled env then ''/ds4/kv/prefetch'' else rn_completion_endpoint rn);
          (outcome, w) = (if known then (Raised_Other '''', io_world io) else post (io_world io) endpoint prefetch_payload);
          (res, st) = run_prefetch env (rn_base_url rn) outcome prefetch_payload (int (length pre)) max_tokens now dur fail_open strict
            \<lparr>pf_payload = payload, pf_circuit = io_circuit io, pf_disabled = io_disabled io\<rparr>
      in (case res of Inl e \<Rightarrow> Inl (exc_message e) | Inr info \<Rightarrow> Inr info, pf_payload st,
          \<lparr>io_circuit = pf_circuit st, io_disabled = pf_disabled st, io_world = w\<rparr>))"

definition prefetch_succeeded :: "pydict \<Rightarrow> bool" where
  "prefetch_succeeded info =
     (let strategy = py_str (por (dget info ''strategy'') (JStr ''''))
      in \<not> truthy (dget info ''cold_dispatch'') \<and> dget info ''error'' = JNull \<and>
         \<not> list_ex (contains strategy) [''failed'', ''disabled'', ''unavailable''])"

definition adopt_prestaged :: "environ \<Rightarrow> pydict option \<Rightarrow> pydict \<Rightarrow> pydict \<Rightarrow> (pydict \<times> pydict) result" where
  \<comment> \<open>the plan that was only staged is attached to the payload when its prefetch succeeded\<close>
  "adopt_prestaged env only info payload =
     (case only of
        None \<Rightarrow> Inr (info, payload)
      | Some plan \<Rightarrow>
          if prefetch_succeeded info \<and> flag_env env ''DS4_PIPELINE_ATTACH_PRESTAGED_AUTO_KV_PREFIX'' True
          then bindE (with_cache_plan [(''ds4_kv_cache'', JObj plan)] payload) (\<lambda>payload1. Inr (dset ''adopted_for_batch'' (JBool True) info, payload1))
          else Inr (info, payload))"

definition maybe_prestage_common_kv_prefix ::
  "environ \<Rightarrow> 'w post \<Rightarrow> runner \<Rightarrow> rat \<Rightarrow> rat \<Rightarrow> pydict \<Rightarrow> inference_request list \<Rightarrow> 'w runner_io \<Rightarrow>
     (string + pydict option) \<times> pydict \<times> 'w runner_io"
where
  \<comment> \<open>the information for the results or the text of the exception raised, the payload as it was changed, the next state\<close>
  "maybe_prestage_common_kv_prefix env post rn now dur payload0 reqs io =
     (let payload = dpop auto_kv_prestage_plan_key payload0;
          only = (case dget payload0 auto_kv_prestage_plan_key of JObj pl \<Rightarrow> Some pl | _ \<Rightarrow> None);
          plan = (case payload_kv_cache_plan payload0 of None \<Rightarrow> only | Some pl \<Rightarrow> Some pl);
          strict = kv_plan_has_strict_load plan; auto_kv = kv_plan_is_prestageable_auto plan;
          blocked = (case io_circuit io of None \<Rightarrow> False | Some b \<Rightarrow> \<not> allow_prefetch now b)
      in if \<not> flag_env env ''DS4_PIPELINE_PRESTAGE_COMMON_KV_PREFIX'' True \<or> (\<not> strict \<and> \<not> auto_kv) then (Inr None, payload, io)
         else if blocked
         then (Inr (Some [(''strategy'', JStr (if strict then ''jit-kv-circuit-open-cold-dispatch'' else ''jit-kv-circuit-open-prefetch-skipped'')),
                          (''cold_dispatch'', JBool True)]),
               if strict then disable_strict_kv payload else payload, io)
         else
           (case common_prompt_prefix reqs of
              None \<Rightarrow> (Inr None, payload, io)
            | Some pre \<Rightarrow>
                if length pre < min_prefix_chars env then (Inr None, payload, io)
                else
                  (let max_tokens = max 1 (num_env env ''DS4_PIPELINE_PRESTAGE_MAX_TOKENS'' 1)
                   in case build_prefetch_payload payload pre max_tokens of
                        Inl e \<Rightarrow> (Inl (exc_text e), payload, io)
                      | Inr pp \<Rightarrow>
                          (let pp1 = (case only of None \<Rightarrow> pp
                                 | Some pl \<Rightarrow> dset ''extra_body'' (JObj (dset ''ds4_kv_cache'' (JObj pl) (obj_or_empty (dget pp ''extra_body'')))) pp)
                           in case prefetch_call env post rn payload pp1 max_tokens now dur (auto_kv \<and> \<not> strict) strict pre io of
                                (Inl e, payload1, io1) \<Rightarrow> (Inl e, payload1, io1)
                              | (Inr info, payload1, io1) \<Rightarrow>
                                  (case adopt_prestaged env only info payload1 of
                                     Inl e \<Rightarrow> (Inl (exc_text e), payload1, io1)
                                   | Inr (info1, payload2) \<Rightarrow> (Inr (Some info1), payload2, io1))))))"

end
