(* ===== verification/Runner_Cohort.thy ===== *)
theory Runner_Cohort
  imports Runner_Payload Coalesce
begin

text \<open>
  Cohorts in \<^verbatim>\<open>ds4_infer/runners.py\<close>: how requests are divided into chunks, how the answer of one
  shared call becomes a result per request, what happens when the call fails, and the calls over all the
  chunks.  A pool of threads is modelled in the order in which the work is submitted; an exception of one
  chunk surfaces after the others have run, as the pool is left only when they have.
\<close>

section \<open>Chunks\<close>

definition hint_value :: "json \<Rightarrow> int option" where
  "hint_value v =
     (case v of
        JInt i \<Rightarrow> if 0 < i then Some i else None
      | JFloat r \<Rightarrow> if 0 < trunc_rat r then Some (trunc_rat r) else None
      | JStr s \<Rightarrow> (case parse_int s of Some i \<Rightarrow> if 0 < i then Some i else None | None \<Rightarrow> None)
      | _ \<Rightarrow> None)"

definition hint_sources :: "inference_request \<Rightarrow> pydict list" where
  "hint_sources req =
     (let own = (\<lambda>d. d # (case dget d ''benchmark_shape'' of JObj b \<Rightarrow> [b] | _ \<Rightarrow> []))
      in own (ir_input req) @ (case dget (ir_raw req) ''input'' of JObj raw \<Rightarrow> own raw | _ \<Rightarrow> []))"

definition completion_prompt_token_hint :: "environ \<Rightarrow> inference_request \<Rightarrow> int option" where
  "completion_prompt_token_hint env req =
     (if \<not> flag_env env ''DS4_PIPELINE_COMPLETION_USE_TOKEN_HINTS'' True then None
      else case List.map_filter (\<lambda>(d, k). hint_value (dget d k))
             (List.product (hint_sources req) [''estimated_prompt_tokens'', ''estimated_input_tokens'', ''prompt_tokens'', ''input_tokens'']) of
          [] \<Rightarrow> None
        | n # _ \<Rightarrow> Some n)"

definition completion_request_token_estimate :: "environ \<Rightarrow> inference_request \<Rightarrow> int" where
  "completion_request_token_estimate env req =
     (let prompt_tokens = (case completion_prompt_token_hint env req of
            Some n \<Rightarrow> n | None \<Rightarrow> prompt_token_estimate env (request_prompt (ir_input req)) None);
          output_tokens = (if flag_env env ''DS4_PIPELINE_COMPLETION_COHORT_BUDGET_INCLUDE_OUTPUT'' True then ir_max_output_tokens req else 0)
      in max 1 (prompt_tokens + output_tokens))"

fun cohort_chunks_from :: "('a \<Rightarrow> int) \<Rightarrow> nat \<Rightarrow> int \<Rightarrow> 'a list \<Rightarrow> int \<Rightarrow> 'a list \<Rightarrow> 'a list list" where
  \<comment> \<open>the loop: \<open>current\<close> is the chunk being filled, with its tokens\<close>
  "cohort_chunks_from estimate max_cohort budget current tokens [] = (if current = [] then [] else [current])"
| "cohort_chunks_from estimate max_cohort budget current tokens (x # xs) =
     (if max_cohort \<le> length current \<or> (0 < budget \<and> current \<noteq> [] \<and> budget < tokens + estimate x)
      then current # cohort_chunks_from estimate max_cohort budget [x] (estimate x) xs
      else cohort_chunks_from estimate max_cohort budget (current @ [x]) (tokens + estimate x) xs)"

definition completion_cohort_chunks :: "environ \<Rightarrow> int \<Rightarrow> int \<Rightarrow> inference_request list \<Rightarrow> inference_request list list" where
  "completion_cohort_chunks env max_cohort budget reqs =
     cohort_chunks_from (completion_request_token_estimate env) (nat (max 1 max_cohort)) (max 0 budget) [] 0 reqs"

definition profile_uses_pipeline :: "model_profile \<Rightarrow> bool" where
  "profile_uses_pipeline p \<longleftrightarrow> contains (lower (mp_backend p)) ''pipeline'' \<or>
     (case dget (mp_routing p) ''pipeline'' of JObj d \<Rightarrow> d \<noteq> [] | _ \<Rightarrow> False)"

definition completion_effective_max_cohort :: "environ \<Rightarrow> model_profile \<Rightarrow> int" where
  "completion_effective_max_cohort env p =
     (let max_cohort = max 1 (num_env env ''DS4_PIPELINE_COMPLETION_COHORT_MAX'' 512);
          pp_safe = num_env env ''DS4_PIPELINE_COMPLETION_PP_SAFE_COHORT_MAX'' 0
      in if \<not> profile_uses_pipeline p then max_cohort
         else if pp_safe \<le> 0 then max_cohort else max 1 (min max_cohort pp_safe))"

definition cohort_minimum :: "environ \<Rightarrow> string \<Rightarrow> int result" where
  \<comment> \<open>\<^verbatim>\<open>max(2, int(os.environ.get(name, "2") or "2"))\<close>\<close>
  "cohort_minimum env name =
     (let raw = env_get env name ''2''
      in bindE (py_int (JStr (if raw = '''' then ''2'' else raw))) (\<lambda>n. Inr (max 2 n)))"

definition cancelable_cohort_minimum :: "environ \<Rightarrow> string \<Rightarrow> bool \<Rightarrow> int result" where
  "cancelable_cohort_minimum env name cancelable =
     (if cancelable \<and> flag_env env ''DS4_PIPELINE_INTERNAL_STREAM_CANCELABLE_SINGLETONS'' True then Inr 1
      else cohort_minimum env name)"

definition completion_chunk_concurrency :: "environ \<Rightarrow> model_profile \<Rightarrow> int" where
  "completion_chunk_concurrency env p =
     (if \<not> profile_uses_pipeline p then 1 else max 1 (num_env env ''DS4_PIPELINE_COMPLETION_CHUNK_CONCURRENCY'' 4))"

definition chat_cohort_transport :: "model_profile \<Rightarrow> string" where
  "chat_cohort_transport p = (case dget (mp_routing p) ''chat_cohort_transport'' of JNull \<Rightarrow> ''batch_endpoint'' | v \<Rightarrow> py_str v)"

definition parallel_chat_concurrency :: "environ \<Rightarrow> model_profile \<Rightarrow> int \<Rightarrow> int \<Rightarrow> int" where
  "parallel_chat_concurrency env p chunk_size max_cohort =
     (let raw = (case dget (mp_routing p) ''parallel_chat_concurrency'' of
            JNull \<Rightarrow> map_option JStr (env ''DS4_PIPELINE_CHAT_PARALLEL_CONCURRENCY'') | v \<Rightarrow> Some v);
          v = (case raw of None \<Rightarrow> max_cohort | Some r \<Rightarrow> (case py_int r of Inr i \<Rightarrow> i | Inl _ \<Rightarrow> max_cohort))
      in max 1 (min chunk_size v))"

section \<open>Results\<close>

record cohort_ctx =
  cc_env :: environ
  cc_tokenizer :: chat_tokenizer
  cc_profile :: model_profile
  cc_runner :: runner
  cc_now :: rat
  cc_dur :: rat

type_synonym cohort_results = "(string \<times> pydict) list"

definition result_of :: "cohort_ctx \<Rightarrow> inference_request \<Rightarrow> string \<Rightarrow> string \<Rightarrow> pydict" where
  "result_of c req txt status = make_result req (mp_profile_id (cc_profile c)) (mp_model_id (cc_profile c)) (mp_backend (cc_profile c)) txt status"

definition error_json :: "string \<Rightarrow> string" where
  "error_json e = dumps_sorted (JObj [(''error'', JStr e)])"

definition transport_failure :: "cohort_ctx \<Rightarrow> inference_request \<Rightarrow> string \<Rightarrow> string option \<Rightarrow> int option \<Rightarrow> pydict" where
  "transport_failure c req e endpoint batch_size =
     result_of c req (error_json e) ''transport_failed'' @
     [(''transport'', JObj ([(''base_url'', JStr (rn_base_url (cc_runner c))), (''duration_s'', JFloat (cc_dur c)), (''error'', JStr e)] @
        (case endpoint of None \<Rightarrow> [] | Some ep \<Rightarrow> [(''endpoint'', JStr ep)]) @
        (case batch_size of None \<Rightarrow> [] | Some n \<Rightarrow> [(''coalesced_batch_size'', JInt n)])))]"

definition coalesced_failure :: "cohort_ctx \<Rightarrow> inference_request \<Rightarrow> string \<Rightarrow> int \<Rightarrow> string \<Rightarrow> pydict" where
  "coalesced_failure c req endpoint batch_size e =
     result_of c req (error_json e) ''transport_failed'' @
     [(''transport'', JObj [(''base_url'', JStr (rn_base_url (cc_runner c))), (''endpoint'', JStr endpoint), (''duration_s'', JFloat (cc_dur c)),
        (''coalesced_batch_size'', JInt batch_size), (''error'', JStr e)])]"

definition with_usage :: "pydict \<Rightarrow> pydict \<Rightarrow> pydict" where
  \<comment> \<open>\<^verbatim>\<open>result["usage"].update(usage)\<close>\<close>
  "with_usage usage result = dset ''usage'' (JObj (dupdate (obj_or_empty (dget result ''usage'')) usage)) result"

definition number_int :: "json \<Rightarrow> int option" where
  \<comment> \<open>\<^verbatim>\<open>int(v)\<close> of a value that is an \<^verbatim>\<open>int\<close> or a \<^verbatim>\<open>float\<close>\<close>
  "number_int v = (case v of JInt i \<Rightarrow> Some i | JFloat r \<Rightarrow> Some (trunc_rat r) | JBool b \<Rightarrow> Some (if b then 1 else 0) | _ \<Rightarrow> None)"

definition coalesced_usage :: "pydict \<Rightarrow> pydict \<Rightarrow> inference_request \<Rightarrow> int \<Rightarrow> pydict" where
  "coalesced_usage data choice req batch_size =
     (case dget choice ''usage'' of
        JObj usage \<Rightarrow> usage
      | _ \<Rightarrow>
          (let share = (\<lambda>k. case dget data ''usage'' of
                 JObj batch \<Rightarrow> (if 0 < batch_size then map_option (\<lambda>n. max 0 (n div batch_size)) (number_int (dget batch k)) else None)
               | _ \<Rightarrow> None);
               completion = (if forced_output_request req then Some (ir_max_output_tokens req) else share ''completion_tokens'');
               prompt = share ''prompt_tokens''
           in (case completion of None \<Rightarrow> [] | Some n \<Rightarrow> [(''completion_tokens'', JInt n)]) @
              (case prompt of None \<Rightarrow> [] | Some n \<Rightarrow> [(''prompt_tokens'', JInt n)]) @
              (case (prompt, completion) of (Some a, Some b) \<Rightarrow> [(''total_tokens'', JInt (a + b))] | _ \<Rightarrow> [])))"

definition choice_position :: "nat \<Rightarrow> pydict \<Rightarrow> int" where
  \<comment> \<open>the index a choice names, its position when it names none that is a number\<close>
  "choice_position pos choice =
     (case number_int (dget_or choice ''index'' (JInt (int pos))) of Some i \<Rightarrow> i | None \<Rightarrow> int pos)"

definition choices_by_index :: "nat \<Rightarrow> json list \<Rightarrow> nat \<Rightarrow> pydict option" where
  "choices_by_index n choices =
     foldl (\<lambda>m (pos, c). case c of
              JObj choice \<Rightarrow> (let i = choice_position pos choice in if 0 \<le> i \<and> i < int n then m(nat i \<mapsto> choice) else m)
            | _ \<Rightarrow> m) Map.empty (enumerate 0 choices)"

definition cohort_transport :: "cohort_ctx \<Rightarrow> string \<Rightarrow> int \<Rightarrow> pydict \<Rightarrow> pydict" where
  "cohort_transport c endpoint batch_size extra =
     [(''base_url'', JStr (rn_base_url (cc_runner c))), (''endpoint'', JStr endpoint), (''duration_s'', JFloat (cc_dur c))] @ extra @
     [(''coalesced_batch_size'', JInt batch_size), (''batch_size'', JInt batch_size)]"

definition prestage_field :: "pydict option \<Rightarrow> pydict" where
  "prestage_field info = (case info of None \<Rightarrow> [] | Some d \<Rightarrow> [(''kv_prestage'', JObj d)])"

definition suppressed_field :: "bool \<Rightarrow> pydict" where
  "suppressed_field b = (if b then [(''coalesced_auto_kv_suppressed'', JBool True)] else [])"

definition cohort_results_of ::
  "string \<Rightarrow> (pydict \<Rightarrow> string) \<Rightarrow> pydict \<Rightarrow> cohort_ctx \<Rightarrow> string \<Rightarrow> inference_request list \<Rightarrow> pydict \<Rightarrow> cohort_results"
where
  \<comment> \<open>one result per request; \<open>kind\<close> is \<^verbatim>\<open>completion\<close> or \<^verbatim>\<open>chat\<close>, \<open>tail\<close> the last fields of the transport\<close>
  "cohort_results_of kind extract tail c endpoint reqs data =
     (let n = int (length reqs)
      in case dget data ''choices'' of
           JArr choices \<Rightarrow>
             (let by_index = choices_by_index (length reqs) choices
              in foldl (\<lambda>out (i, req). dset (ir_request_id req)
                   (case by_index i of
                      None \<Rightarrow> coalesced_failure c req endpoint n (''coalesced '' @ kind @ '' response missing choice index '' @ show_nat i)
                    | Some choice \<Rightarrow>
                        with_usage (coalesced_usage data choice req n)
                          (result_of c req (extract [(''choices'', JArr [JObj choice])]) ''completed'') @
                        [(''transport'', JObj (cohort_transport c endpoint n [(''coalesced_'' @ kind @ ''_batch'', JBool True)] @ tail))]) out)
                   [] (enumerate 0 reqs))
         | _ \<Rightarrow> foldl (\<lambda>out req. dset (ir_request_id req)
                  (coalesced_failure c req endpoint n (''coalesced '' @ kind @ '' response missing choices'')) out) [] reqs)"

definition coalesced_completion_results ::
  "cohort_ctx \<Rightarrow> string \<Rightarrow> pydict option \<Rightarrow> bool \<Rightarrow> inference_request list \<Rightarrow> pydict \<Rightarrow> cohort_results"
where
  "coalesced_completion_results c endpoint info suppressed =
     cohort_results_of ''completion'' extract_openai_completion_text (suppressed_field suppressed @ prestage_field info) c endpoint"

definition coalesced_chat_results :: "cohort_ctx \<Rightarrow> string \<Rightarrow> pydict option \<Rightarrow> inference_request list \<Rightarrow> pydict \<Rightarrow> cohort_results" where
  "coalesced_chat_results c endpoint info = cohort_results_of ''chat'' extract_openai_chat_text (prestage_field info) c endpoint"

end
