(* ===== verification/Runner_Chunks.thy ===== *)
theory Runner_Chunks
  imports Runner_Cohort
begin

text \<open>
  The calls of \<^verbatim>\<open>OpenAICompatibleRunner\<close> and \<^verbatim>\<open>PipelineOpenAIRunner\<close>
  (\<^verbatim>\<open>ds4_infer/runners.py\<close>) that do not stream: one request, one chunk with the halving of a
  chunk that was too large, all the chunks of a cohort, and the choice between them on a node.  A runner's
  state is a \<open>runner_io\<close>; \<open>post\<close> is the HTTP call.
\<close>

section \<open>One chunk\<close>

definition post_answer :: "post_outcome \<Rightarrow> string + pydict" where
  "post_answer outcome = (case outcome of Responded d \<Rightarrow> Inr d | _ \<Rightarrow> Inl (error_of outcome))"

definition post_json :: "'w post \<Rightarrow> string \<Rightarrow> pydict \<Rightarrow> 'w runner_io \<Rightarrow> (string + pydict) \<times> 'w runner_io" where
  "post_json post endpoint payload io =
     (let (outcome, w) = post (io_world io) endpoint payload in (post_answer outcome, io\<lparr>io_world := w\<rparr>))"

definition text_error :: "'a result \<Rightarrow> string + 'a" where
  \<comment> \<open>\<^verbatim>\<open>str(exc)\<close> of an exception that is caught\<close>
  "text_error r = (case r of Inl e \<Rightarrow> Inl (exc_text e) | Inr x \<Rightarrow> Inr x)"

definition attempt_chunk ::
  "cohort_ctx \<Rightarrow> 'w post \<Rightarrow> string \<Rightarrow> (pydict option \<Rightarrow> inference_request list \<Rightarrow> pydict \<Rightarrow> cohort_results) \<Rightarrow> int \<Rightarrow>
     inference_request list \<Rightarrow> pydict \<Rightarrow> 'w runner_io \<Rightarrow> (string + cohort_results) \<times> 'w runner_io"
where
  \<comment> \<open>the body of the \<^verbatim>\<open>try\<close> of both kinds of chunk\<close>
  "attempt_chunk c post endpoint results_of original chunk payload io =
     (case maybe_prestage_common_kv_prefix (cc_env c) post (cc_runner c) (cc_now c) (cc_dur c) payload chunk io of
        (Inl e, _, io1) \<Rightarrow> (Inl e, io1)
      | (Inr info, payload1, io1) \<Rightarrow>
          (case post_json post endpoint payload1 io1 of
             (Inl e, io2) \<Rightarrow> (Inl e, io2)
           | (Inr data, io2) \<Rightarrow>
               (let out = results_of info chunk data
                in (if original \<noteq> int (length chunk) then text_error (mark_coalesced_split out original None) else Inr out, io2))))"

definition chunk_failures :: "cohort_ctx \<Rightarrow> string \<Rightarrow> string \<Rightarrow> inference_request list \<Rightarrow> cohort_results" where
  \<comment> \<open>a dict comprehension over the chunk\<close>
  "chunk_failures c endpoint e chunk =
     foldl (\<lambda>out req. dset (ir_request_id req) (transport_failure c req e (Some endpoint) (Some (int (length chunk)))) out) [] chunk"

definition run_chat_chunk ::
  "cohort_ctx \<Rightarrow> 'w post \<Rightarrow> int \<Rightarrow> inference_request list \<Rightarrow> pydict \<Rightarrow> 'w runner_io \<Rightarrow> cohort_results result \<times> 'w runner_io"
where
  "run_chat_chunk c post original chunk payload io =
     (let endpoint = rn_chat_batch_endpoint (cc_runner c)
      in case attempt_chunk c post endpoint (coalesced_chat_results c endpoint) original chunk payload io of
           (Inr out, io1) \<Rightarrow> (Inr out, io1)
         | (Inl e, io1) \<Rightarrow> (Inr (chunk_failures c endpoint e chunk), io1))"

definition sub_payload :: "cohort_ctx \<Rightarrow> inference_request list \<Rightarrow> pydict option result" where
  "sub_payload c reqs = coalesced_completion_payload (cc_env c) (cc_profile c) (rn_default_extra_body (cc_runner c)) reqs"

definition should_bisect :: "cohort_ctx \<Rightarrow> inference_request list \<Rightarrow> string \<Rightarrow> bool" where
  "should_bisect c chunk e \<longleftrightarrow> 1 < length chunk \<and> flag_env (cc_env c) ''DS4_PIPELINE_COMPLETION_BISECT_ON_FAILURE'' True \<and>
     coalesced_failure_should_bisect e"

definition midpoint :: "'a list \<Rightarrow> nat" where
  "midpoint chunk = max 1 (length chunk div 2)"

definition completion_attempt ::
  "cohort_ctx \<Rightarrow> 'w post \<Rightarrow> int \<Rightarrow> inference_request list \<Rightarrow> pydict \<Rightarrow> 'w runner_io \<Rightarrow> (string + cohort_results) \<times> 'w runner_io"
where
  "completion_attempt c post original chunk payload =
     (let endpoint = rn_completion_endpoint (cc_runner c)
      in attempt_chunk c post endpoint (\<lambda>info. coalesced_completion_results c endpoint info (truthy (dget payload auto_kv_batch_suppressed_key)))
           original chunk (dpop auto_kv_batch_suppressed_key payload))"

definition finish_split ::
  "cohort_ctx \<Rightarrow> int \<Rightarrow> string \<Rightarrow> inference_request list \<Rightarrow> cohort_results \<Rightarrow> 'w runner_io \<Rightarrow> cohort_results result \<times> 'w runner_io"
where
  \<comment> \<open>after the halves: all are answered, or the whole chunk has failed\<close>
  "finish_split c original e chunk out io =
     (if length out = length chunk then mark_coalesced_split out original (Some e)
      else Inr (chunk_failures c (rn_completion_endpoint (cc_runner c)) e chunk), io)"

function run_completion_chunk ::
  "cohort_ctx \<Rightarrow> 'w post \<Rightarrow> int \<Rightarrow> inference_request list \<Rightarrow> pydict \<Rightarrow> 'w runner_io \<Rightarrow> cohort_results result \<times> 'w runner_io"
where
  "run_completion_chunk c post original chunk payload io =
     (case completion_attempt c post original chunk payload io of
        (Inr out, io1) \<Rightarrow> (Inr out, io1)
      | (Inl e, io1) \<Rightarrow>
          if \<not> should_bisect c chunk e then (Inr (chunk_failures c (rn_completion_endpoint (cc_runner c)) e chunk), io1)
          else
            (case sub_payload c (take (midpoint chunk) chunk) of
               Inl x \<Rightarrow> (Inl x, io1)
             | Inr None \<Rightarrow> finish_split c original e chunk [] io1
             | Inr (Some payload1) \<Rightarrow>
                 (case run_completion_chunk c post original (take (midpoint chunk) chunk) payload1 io1 of
                    (Inl x, io2) \<Rightarrow> (Inl x, io2)
                  | (Inr out1, io2) \<Rightarrow>
                      (case sub_payload c (drop (midpoint chunk) chunk) of
                         Inl x \<Rightarrow> (Inl x, io2)
                       | Inr None \<Rightarrow> finish_split c original e chunk out1 io2
                       | Inr (Some payload2) \<Rightarrow>
                           (case run_completion_chunk c post original (drop (midpoint chunk) chunk) payload2 io2 of
                              (Inl x, io3) \<Rightarrow> (Inl x, io3)
                            | (Inr out2, io3) \<Rightarrow> finish_split c original e chunk (dupdate out1 out2) io3)))))"
  by pat_completeness auto
termination
  by (relation "measure (\<lambda>(c, post, original, chunk, payload, io). length chunk)") (auto simp: should_bisect_def midpoint_def)

declare run_completion_chunk.simps [simp del]

section \<open>All the chunks\<close>

fun run_chunks ::
  "bool \<Rightarrow> ('c \<Rightarrow> 'w runner_io \<Rightarrow> cohort_results result \<times> 'w runner_io) \<Rightarrow> cohort_results \<Rightarrow> 'c list \<Rightarrow> 'w runner_io \<Rightarrow>
     cohort_results result \<times> 'w runner_io"
where
  \<comment> \<open>\<open>pool\<close>: a pool of threads, which runs the chunks that follow one that raised\<close>
  "run_chunks pool f out [] io = (Inr out, io)"
| "run_chunks pool f out (x # xs) io =
     (case f x io of
        (Inr r, io1) \<Rightarrow> run_chunks pool f (dupdate out r) xs io1
      | (Inl e, io1) \<Rightarrow> (Inl e, if pool then snd (run_chunks pool f out xs io1) else io1))"

definition marked :: "pydict \<Rightarrow> pydict \<Rightarrow> pydict result" where
  \<comment> \<open>fields added to the transport of a result\<close>
  "marked entries result =
     (let r = setdefault ''transport'' (JObj []) result
      in case dget r ''transport'' of
           JObj t \<Rightarrow> Inr (dset ''transport'' (JObj (dupdate t entries)) r)
         | _ \<Rightarrow> Inl (TypeError ''object does not support item assignment''))"

definition mark_all :: "pydict \<Rightarrow> cohort_results \<Rightarrow> cohort_results result" where
  "mark_all entries out = mapE (\<lambda>(k, r). bindE (marked entries r) (\<lambda>r'. Inr (k, r'))) out"

definition planned_split_fields :: "string \<Rightarrow> int \<Rightarrow> int \<Rightarrow> int \<Rightarrow> int \<Rightarrow> pydict" where
  \<comment> \<open>\<open>kind\<close> is \<^verbatim>\<open>completion\<close> or \<^verbatim>\<open>chat\<close>\<close>
  "planned_split_fields kind original chunk_count max_cohort concurrency =
     [(''coalesced_'' @ kind @ ''_planned_split'', JBool True), (''original_coalesced_batch_size'', JInt original),
      (''coalesced_'' @ kind @ ''_chunk_count'', JInt chunk_count), (''coalesced_'' @ kind @ ''_effective_max_cohort'', JInt max_cohort),
      (''coalesced_'' @ kind @ ''_chunk_concurrency'', JInt concurrency)]"

definition mark_chat_as_completion :: "cohort_results \<Rightarrow> cohort_results result" where
  "mark_chat_as_completion = mark_all [(''chat_as_completion_prompts'', JBool True), (''coalesced_chat_as_completion'', JBool True)]"

definition run_planned ::
  "('w post \<Rightarrow> int \<Rightarrow> inference_request list \<Rightarrow> pydict \<Rightarrow> 'w runner_io \<Rightarrow> cohort_results result \<times> 'w runner_io) \<Rightarrow> cohort_ctx \<Rightarrow> 'w post \<Rightarrow>
     (inference_request list \<times> pydict) list \<Rightarrow> 'w runner_io \<Rightarrow> cohort_results result \<times> 'w runner_io"
where
  "run_planned run c post payloads io =
     (let pool = (1 < completion_chunk_concurrency (cc_env c) (cc_profile c) \<and> 1 < length payloads)
      in run_chunks pool (\<lambda>(chunk, payload). run post (int (length chunk)) chunk payload) [] payloads io)"

definition mark_if :: "bool \<Rightarrow> pydict \<Rightarrow> cohort_results result \<times> 'w runner_io \<Rightarrow> cohort_results option result \<times> 'w runner_io" where
  "mark_if b entries r = (bindE (fst r) (\<lambda>out. bindE (if b then mark_all entries out else Inr out) (\<lambda>out'. Inr (Some out'))), snd r)"

definition completion_plan :: "cohort_ctx \<Rightarrow> int \<Rightarrow> inference_request list \<Rightarrow> (inference_request list list \<times> (inference_request list \<times> pydict) list) option result" where
  "completion_plan c least reqs =
     (let env = cc_env c; max_cohort = completion_effective_max_cohort env (cc_profile c)
      in bindE (coalesced_completion_token_budget env) (\<lambda>budget.
           plan_compatible_payload_groups reqs (sub_payload c) (completion_cohort_chunks env max_cohort budget) (nat least)))"

definition run_many_completion ::
  "cohort_ctx \<Rightarrow> 'w post \<Rightarrow> inference_request list \<Rightarrow> 'w runner_io \<Rightarrow> cohort_results option result \<times> 'w runner_io"
where
  "run_many_completion c post reqs io =
     (let env = cc_env c; p = cc_profile c
      in case bindE (cohort_minimum env ''DS4_PIPELINE_COMPLETION_COHORT_MIN'') (\<lambda>least.
                if int (length reqs) < least then Inr None else completion_plan c least reqs) of
           Inl e \<Rightarrow> (Inl e, io)
         | Inr None \<Rightarrow> (Inr None, io)
         | Inr (Some (parts, payloads)) \<Rightarrow>
             mark_if (1 < length parts)
               (planned_split_fields ''completion'' (int (length reqs)) (int (length parts)) (completion_effective_max_cohort env p) (completion_chunk_concurrency env p))
               (run_planned (run_completion_chunk c) c post payloads io))"

definition chat_plan ::
  "cohort_ctx \<Rightarrow> (inference_request list \<Rightarrow> pydict option result) \<Rightarrow> inference_request list \<Rightarrow> (inference_request list \<times> pydict) list option result"
where
  \<comment> \<open>the guards, the chunks and their payloads, of both ways to send a chat cohort in shared calls\<close>
  "chat_plan c payload_for reqs =
     (let env = cc_env c
      in if reqs = [] \<or> \<not> list_all ir_chat reqs then Inr None
         else bindE (cohort_minimum env ''DS4_PIPELINE_CHAT_COHORT_MIN'') (\<lambda>least.
                if int (length reqs) < least then Inr None
                else bindE (coalesced_completion_token_budget env) (\<lambda>budget.
                       plan_chunks payload_for (completion_cohort_chunks env (completion_effective_max_cohort env (cc_profile c)) budget reqs))))"

definition run_many_chat_as_completion ::
  "cohort_ctx \<Rightarrow> 'w post \<Rightarrow> inference_request list \<Rightarrow> 'w runner_io \<Rightarrow> cohort_results option result \<times> 'w runner_io"
where
  "run_many_chat_as_completion c post reqs io =
     (let env = cc_env c; p = cc_profile c
      in case chat_plan c (coalesced_chat_completion_payload env (cc_tokenizer c) p (rn_default_extra_body (cc_runner c))) reqs of
           Inl e \<Rightarrow> (Inl e, io)
         | Inr None \<Rightarrow> (Inr None, io)
         | Inr (Some payloads) \<Rightarrow>
             (let (r, io1) = run_planned (run_completion_chunk c) c post payloads io
              in mark_if (1 < length payloads)
                   (planned_split_fields ''completion'' (int (length reqs)) (int (length payloads)) (completion_effective_max_cohort env p)
                      (completion_chunk_concurrency env p))
                   (bindE r mark_chat_as_completion, io1)))"

definition run_many_chat_batch ::
  "cohort_ctx \<Rightarrow> 'w post \<Rightarrow> inference_request list \<Rightarrow> 'w runner_io \<Rightarrow> cohort_results option result \<times> 'w runner_io"
where
  "run_many_chat_batch c post reqs io =
     (let env = cc_env c; p = cc_profile c
      in case chat_plan c (coalesced_chat_payload env p (rn_default_extra_body (cc_runner c))) reqs of
           Inl e \<Rightarrow> (Inl e, io)
         | Inr None \<Rightarrow> (Inr None, io)
         | Inr (Some payloads) \<Rightarrow>
             mark_if (1 < length payloads)
               (planned_split_fields ''chat'' (int (length reqs)) (int (length payloads)) (completion_effective_max_cohort env p)
                  (completion_chunk_concurrency env p))
               (run_planned (run_chat_chunk c) c post payloads io))"

end
