(* ===== verification/Cohort_Facts.thy ===== *)
theory Cohort_Facts
  imports Runner_Chunks
begin

text \<open>
  What the calls of a cohort give: one result for each request of a chunk, with a transport that can be
  marked, whatever the server answers; and the chunks of a plan, which divide the requests.
\<close>

section \<open>Results\<close>

definition has_transport :: "pydict \<Rightarrow> bool" where
  "has_transport r \<longleftrightarrow> (\<exists>t. map_of r ''transport'' = Some (JObj t))"

definition answers :: "inference_request list \<Rightarrow> cohort_results \<Rightarrow> bool" where
  \<comment> \<open>a result for each request, in order\<close>
  "answers reqs out \<longleftrightarrow> map fst out = map ir_request_id reqs \<and> list_all (\<lambda>(_, r). has_transport r) out"

lemma has_transport_append [simp]: "has_transport (make_result req p m b t s @ [(''transport'', JObj d)])"
  by (simp add: has_transport_def make_result_def)

lemma has_transport_failure [simp]: "has_transport (transport_failure c req e ep n)" "has_transport (coalesced_failure c req ep' k e)"
  by (simp_all add: transport_failure_def coalesced_failure_def result_of_def)

lemma has_transport_usage [simp]: "has_transport (with_usage u (result_of c req t s) @ [(''transport'', JObj d)])"
  by (simp add: has_transport_def with_usage_def result_of_def make_result_def)

lemma answers_foldl:
  assumes "distinct (map ir_request_id reqs)" and "\<And>r. has_transport (f r)"
  shows "answers reqs (foldl (\<lambda>out r. dset (ir_request_id r) (f r) out) [] reqs)"
  using assms foldl_dset_keys [of "[]" ir_request_id reqs f] by (simp add: answers_def list_all_iff)

lemma answers_failures: "distinct (map ir_request_id chunk) \<Longrightarrow> answers chunk (chunk_failures c endpoint e chunk)"
  by (simp add: chunk_failures_def answers_foldl)

lemma answers_cohort_results:
  assumes "distinct (map ir_request_id reqs)"
  shows "answers reqs (cohort_results_of kind extract tail c endpoint reqs data)"
proof -
  have keys: "map (ir_request_id \<circ> snd) (enumerate 0 reqs) = map ir_request_id reqs" by (metis map_map map_snd_enumerate)
  have each: "answers reqs (foldl (\<lambda>out ir. dset (ir_request_id (snd ir)) (f (fst ir) (snd ir)) out) [] (enumerate 0 reqs))"
    if "\<And>i r. has_transport (f i r)" for f
    using that assms keys foldl_dset_keys [of "[]" "\<lambda>ir. ir_request_id (snd ir)" "enumerate 0 reqs" "\<lambda>ir. f (fst ir) (snd ir)"]
    by (simp add: answers_def list_all_iff comp_def)
  show ?thesis
    unfolding cohort_results_of_def Let_def case_prod_unfold
    by (cases "dget data ''choices''") (auto intro!: answers_foldl each simp: assms split: option.split)
qed

lemma answers_mapE:
  assumes "answers reqs out" and "\<And>r. has_transport r \<Longrightarrow> \<exists>r'. f r = Inr r' \<and> has_transport r'"
  shows "\<exists>out'. mapE (\<lambda>(k, r). bindE (f r) (\<lambda>r'. Inr (k, r'))) out = Inr out' \<and> answers reqs out'"
proof -
  have "\<exists>out'. mapE (\<lambda>(k, r). bindE (f r) (\<lambda>r'. Inr (k, r'))) out = Inr out' \<and> map fst out' = map fst out \<and> list_all (\<lambda>(_, r). has_transport r) out'"
    if "list_all (\<lambda>(_, r). has_transport r) out" for out :: cohort_results
    using that
  proof (induction out)
    case (Cons kr out)
    obtain k r where kr: "kr = (k, r)" by (cases kr)
    obtain r' where "f r = Inr r'" "has_transport r'" using assms(2) Cons.prems kr by auto
    then show ?case using Cons kr by auto
  qed simp
  from this [of out] show ?thesis using assms(1) by (auto simp: answers_def)
qed

lemma split_marks: "answers reqs out \<Longrightarrow> \<exists>out'. mark_coalesced_split out original reason = Inr out' \<and> answers reqs out'"
  unfolding mark_coalesced_split_def
  by (erule answers_mapE) (auto simp: has_transport_def mark_split_result_def setdefault_def has_key_def dget_def dget_or_def Let_def split: option.split)

lemma mark_all_marks: "answers reqs out \<Longrightarrow> \<exists>out'. mark_all entries out = Inr out' \<and> answers reqs out'"
  unfolding mark_all_def
  by (erule answers_mapE) (auto simp: has_transport_def marked_def setdefault_def has_key_def dget_def dget_or_def Let_def)

section \<open>A chunk\<close>

lemma attempt_chunk_answers:
  assumes "attempt_chunk c post endpoint results_of original chunk payload io = (Inr out, io')"
    and "\<And>info data. answers chunk (results_of info chunk data)"
  shows "answers chunk out"
proof -
  obtain info data where "(if original \<noteq> int (length chunk) then text_error (mark_coalesced_split (results_of info chunk data) original None)
      else Inr (results_of info chunk data)) = Inr out"
    using assms(1) by (auto simp: attempt_chunk_def Let_def split: prod.splits sum.splits)
  then show ?thesis
    using assms(2) [of info data] split_marks [OF assms(2) [of info data], of original None] by (auto simp: text_error_def split: if_splits)
qed

lemma run_chat_chunk_answers:
  assumes "distinct (map ir_request_id chunk)"
  shows "\<exists>out io'. run_chat_chunk c post original chunk payload io = (Inr out, io') \<and> answers chunk out"
proof -
  have ok: "answers chunk (coalesced_chat_results c ep info chunk data)" for ep info data
    by (simp add: coalesced_chat_results_def answers_cohort_results assms)
  let ?ep = "rn_chat_batch_endpoint (cc_runner c)"
  obtain r io1 where a: "attempt_chunk c post ?ep (coalesced_chat_results c ?ep) original chunk payload io = (r, io1)" by fastforce
  then have "run_chat_chunk c post original chunk payload io = (Inr (case r of Inr out \<Rightarrow> out | Inl e \<Rightarrow> chunk_failures c ?ep e chunk), io1)"
    by (cases r) (simp_all add: run_chat_chunk_def Let_def)
  then show ?thesis using a ok assms by (cases r) (auto intro: answers_failures attempt_chunk_answers)
qed

lemma finish_split_answers:
  assumes "distinct (map ir_request_id chunk)" and "length out = length chunk \<Longrightarrow> answers chunk out"
  shows "\<exists>out'. finish_split c original e chunk out io = (Inr out', io) \<and> answers chunk out'"
  using assms split_marks by (auto simp: finish_split_def answers_failures)

lemma answers_halves:
  assumes "distinct (map ir_request_id chunk)" and "answers (take n chunk) a" and "answers (drop n chunk) b"
  shows "answers chunk (dupdate a b)"
proof -
  have "map fst a @ map fst b = map ir_request_id chunk"
    using assms(2,3) by (simp add: answers_def flip: map_append)
  then have "dupdate a b = a @ b" using assms(1) by (intro dupdate_fresh) simp
  then show ?thesis using assms(2,3) \<open>map fst a @ map fst b = map ir_request_id chunk\<close> by (simp add: answers_def)
qed

lemma completion_attempt_answers:
  assumes "distinct (map ir_request_id chunk)" and "completion_attempt c post original chunk payload io = (Inr out, io')"
  shows "answers chunk out"
  using assms(2) unfolding completion_attempt_def Let_def
  by (rule attempt_chunk_answers) (simp add: coalesced_completion_results_def answers_cohort_results assms(1))

lemma run_completion_chunk_answers:
  assumes "distinct (map ir_request_id chunk)"
    and "\<And>s. s \<noteq> [] \<Longrightarrow> set s \<subseteq> set chunk \<Longrightarrow> \<exists>p. sub_payload c s = Inr p"
  shows "\<exists>out io'. run_completion_chunk c post original chunk payload io = (Inr out, io') \<and> answers chunk out"
  using assms
proof (induction chunk arbitrary: payload io rule: measure_induct_rule [of length])
  case (less chunk)
  note step = run_completion_chunk.simps [of c post original chunk payload io]
  obtain r io1 where a: "completion_attempt c post original chunk payload io = (r, io1)" by fastforce
  show ?case
  proof (cases r)
    case (Inr out)
    then have "run_completion_chunk c post original chunk payload io = (Inr out, io1)" by (simp add: step a)
    then show ?thesis using completion_attempt_answers [OF less.prems(1)] a Inr by blast
  next
    case (Inl e)
    show ?thesis
    proof (cases "should_bisect c chunk e")
      case False
      then show ?thesis using a Inl step answers_failures [OF less.prems(1)] by simp
    next
      case True
      let ?l = "take (midpoint chunk) chunk" and ?r = "drop (midpoint chunk) chunk"
      have mid: "0 < midpoint chunk" "midpoint chunk < length chunk" using True by (auto simp: should_bisect_def midpoint_def)
      have half: "s \<noteq> []" "set s \<subseteq> set chunk" "length s < length chunk" "distinct (map ir_request_id s)" if s: "s = ?l \<or> s = ?r" for s
      proof -
        show "s \<noteq> []" "length s < length chunk" using s mid by auto
        show "set s \<subseteq> set chunk" using s set_take_subset set_drop_subset by metis
        show "distinct (map ir_request_id s)" using s less.prems(1) by (metis distinct_take distinct_drop take_map drop_map)
      qed
      have IH: "\<exists>out io'. run_completion_chunk c post original s p i = (Inr out, io') \<and> answers s out" if "s = ?l \<or> s = ?r" for s p i
        by (rule less.IH [OF half(3,4) [OF that]]) (use half(2) [OF that] less.prems(2) in auto)
      have short: "length out \<noteq> length chunk" if "answers ?l out" for out
        using arg_cong [OF conjunct1 [OF that [unfolded answers_def]], of length] mid by simp
      have settled: ?thesis if "run_completion_chunk c post original chunk payload io = finish_split c original e chunk out io'"
          "length out = length chunk \<Longrightarrow> answers chunk out" for out io'
        using finish_split_answers [OF less.prems(1) that(2)] that(1) by metis
      have ex: "\<exists>p. sub_payload c s = Inr p" if "s = ?l \<or> s = ?r" for s by (rule less.prems(2) [OF half(1,2) [OF that]])
      obtain p1 where p1: "sub_payload c ?l = Inr p1" using ex [of ?l] by auto
      obtain p2 where p2: "sub_payload c ?r = Inr p2" using ex [of ?r] by auto
      show ?thesis
      proof (cases p1)
        case None
        show ?thesis by (rule settled [of "[]" io1]) (use mid None in \<open>simp_all add: step a Inl True p1\<close>)
      next
        case (Some payload1)
        obtain out1 io2 where h1: "run_completion_chunk c post original ?l payload1 io1 = (Inr out1, io2)" "answers ?l out1"
          using IH by blast
        show ?thesis
        proof (cases p2)
          case None
          show ?thesis by (rule settled [of out1 io2]) (use short [OF h1(2)] None in \<open>simp_all add: step a Inl True p1 Some p2 h1(1)\<close>)
        next
          case (Some payload2)
          obtain out2 io3 where h2: "run_completion_chunk c post original ?r payload2 io2 = (Inr out2, io3)" "answers ?r out2"
            using IH by blast
          note both = answers_halves [OF less.prems(1) h1(2) h2(2)]
          show ?thesis
            by (rule settled [of "dupdate out1 out2" io3]) (simp_all add: step a Inl True p1 \<open>p1 = Some payload1\<close> p2 Some h1(1) h2(1) both)
        qed
      qed
    qed
  qed
qed

section \<open>Payloads of parts of a chunk\<close>

definition member_like :: "('a \<Rightarrow> cohort_member option result) \<Rightarrow> pydict \<Rightarrow> 'a \<Rightarrow> bool" where
  \<comment> \<open>the request has a part, and shares the rest of its payload with this one\<close>
  "member_like member s x \<longleftrightarrow> (\<exists>part comparable fl. member x = Inr (Some (part, comparable, fl)) \<and> py_equal comparable s)"

lemma py_equal_refl [simp]: "py_equal a a"
  by (simp add: py_equal_def)

lemma py_equal_trans: "py_equal a s \<Longrightarrow> py_equal b s \<Longrightarrow> py_equal a b"
  by (simp add: py_equal_def)

lemma py_equal_sym: "py_equal a b \<Longrightarrow> py_equal b a"
  by (simp add: py_equal_def)

lemma collect_members_like:
  assumes "collect_members member shared parts flag xs = Inr (Some r)"
  shows "\<exists>s. (shared = None \<or> shared = Some s) \<and> list_all (member_like member s) xs"
  using assms
proof (induction xs arbitrary: shared parts flag)
  case Nil
  then show ?case by (cases shared) auto
next
  case (Cons x xs)
  obtain part comparable fl where m: "member x = Inr (Some (part, comparable, fl))"
  proof (cases "member x")
    case (Inr m)
    with Cons.prems that show ?thesis by (cases m) auto
  qed (use Cons.prems in simp)
  let ?s = "case shared of None \<Rightarrow> comparable | Some s \<Rightarrow> s"
  have eq: "py_equal comparable ?s" and rest: "collect_members member (Some ?s) (parts @ [part]) (flag \<or> fl) xs = Inr (Some r)"
    using Cons.prems m by (auto split: option.splits if_splits)
  have "list_all (member_like member ?s) xs" using Cons.IH [OF rest] by auto
  moreover have "member_like member ?s x" using m eq by (auto simp: member_like_def)
  ultimately show ?case by (cases shared) auto
qed

lemma collect_members_total:
  assumes "list_all (member_like member s) xs" and "shared = None \<or> (\<exists>s'. shared = Some s' \<and> py_equal s' s)" and "xs \<noteq> [] \<or> shared \<noteq> None"
  shows "\<exists>s' parts' flag'. collect_members member shared parts flag xs = Inr (Some (Some s', parts', flag'))"
  using assms
proof (induction xs arbitrary: shared parts flag)
  case (Cons x xs)
  obtain part comparable fl where m: "member x = Inr (Some (part, comparable, fl))" and eq: "py_equal comparable s"
    using Cons.prems(1) by (auto simp: member_like_def)
  have ok: "\<not> (case shared of None \<Rightarrow> False | Some s \<Rightarrow> \<not> py_equal comparable s)"
    using Cons.prems(2) by (cases shared) (auto dest: py_equal_trans [OF eq])
  have "\<exists>s' parts' flag'. collect_members member (Some (case shared of None \<Rightarrow> comparable | Some s \<Rightarrow> s)) (parts @ [part]) (flag \<or> fl) xs =
      Inr (Some (Some s', parts', flag'))"
    by (rule Cons.IH) (use Cons.prems eq in \<open>auto split: option.split\<close>)
  then show ?case using m ok by simp
qed auto

definition no_auto_prestage :: "environ \<Rightarrow> bool" where
  "no_auto_prestage env \<longleftrightarrow> \<not> flag_env env ''DS4_PIPELINE_PRESTAGE_AUTO_KV_PREFIX'' False"

lemma completion_payload_Some:
  assumes "no_auto_prestage env"
  shows "(\<exists>p. coalesced_completion_payload env prof defaults reqs = Inr (Some p)) \<longleftrightarrow>
    (\<exists>s parts fl. collect_members (completion_member env prof defaults) None [] False reqs = Inr (Some (Some s, parts, fl)))"
proof (cases "collect_members (completion_member env prof defaults) None [] False reqs")
  case (Inr r)
  note r = Inr
  show ?thesis
  proof (cases r)
    case (Some t)
    then show ?thesis using assms r
      by (cases t; cases "fst t") (simp_all add: coalesced_completion_payload_def no_auto_prestage_def Let_def)
  qed (simp add: coalesced_completion_payload_def r)
qed (simp add: coalesced_completion_payload_def)

text \<open>A part of a chunk that has a payload has one too; and a chunk of chat requests has none.\<close>

lemma sub_payload_part:
  assumes "no_auto_prestage (cc_env c)" and "sub_payload c chunk = Inr (Some p)" and "s \<noteq> []" and "set s \<subseteq> set chunk"
  shows "\<exists>p'. sub_payload c s = Inr (Some p')"
proof -
  obtain sh where "list_all (member_like (completion_member (cc_env c) (cc_profile c) (rn_default_extra_body (cc_runner c))) sh) chunk"
    using assms(2) completion_payload_Some [OF assms(1)] collect_members_like unfolding sub_payload_def by blast
  then have "list_all (member_like (completion_member (cc_env c) (cc_profile c) (rn_default_extra_body (cc_runner c))) sh) s"
    using assms(4) by (auto simp: list_all_iff)
  from collect_members_total [OF this, of None] assms(3) show ?thesis
    using completion_payload_Some [OF assms(1)] unfolding sub_payload_def by blast
qed

lemma sub_payload_chat: "s \<noteq> [] \<Longrightarrow> list_all ir_chat s \<Longrightarrow> sub_payload c s = Inr None"
  by (cases s) (simp_all add: sub_payload_def coalesced_completion_payload_def completion_member_def)

section \<open>Chunks\<close>

lemma concat_cohort_chunks_from: "concat (cohort_chunks_from estimate m b current tokens xs) = current @ xs"
  by (induction estimate m b current tokens xs rule: cohort_chunks_from.induct) auto

lemma concat_cohort_chunks [simp]: "concat (completion_cohort_chunks env m b reqs) = reqs"
  by (simp add: completion_cohort_chunks_def concat_cohort_chunks_from)

definition chunk_fits :: "('a \<Rightarrow> int) \<Rightarrow> nat \<Rightarrow> int \<Rightarrow> 'a list \<Rightarrow> bool" where
  "chunk_fits estimate m b chunk \<longleftrightarrow> chunk \<noteq> [] \<and> length chunk \<le> m \<and> (0 < b \<longrightarrow> 1 < length chunk \<longrightarrow> sum_list (map estimate chunk) \<le> b)"

lemma cohort_chunks_from_fit:
  assumes "0 < m" and "current = [] \<or> chunk_fits estimate m b current" and "tokens = sum_list (map estimate current)"
  shows "list_all (chunk_fits estimate m b) (cohort_chunks_from estimate m b current tokens xs)"
  using assms
proof (induction estimate m b current tokens xs rule: cohort_chunks_from.induct)
  case (2 estimate m b current tokens x xs)
  show ?case
  proof (cases "m \<le> length current \<or> (0 < b \<and> current \<noteq> [] \<and> b < tokens + estimate x)")
    case True
    moreover have "chunk_fits estimate m b [x]" using "2.prems"(1) by (simp add: chunk_fits_def)
    moreover have "current \<noteq> []" using True "2.prems"(1) by (cases current) simp_all
    ultimately show ?thesis using "2.IH"(1) [OF True] "2.prems"(1,2) True by simp
  next
    case False
    then have "chunk_fits estimate m b (current @ [x])" using "2.prems" by (auto simp: chunk_fits_def)
    then show ?thesis using "2.IH"(2) [OF False] "2.prems" False by auto
  qed
qed auto

text \<open>
  The chunks of a cohort are the requests in order; no chunk is empty or longer than the limit; and
  when there is a token budget, only a chunk of one request may be over it.
\<close>

theorem cohort_chunks_bounded:
  "concat (completion_cohort_chunks env m b reqs) = reqs \<and>
   list_all (chunk_fits (completion_request_token_estimate env) (nat (max 1 m)) (max 0 b)) (completion_cohort_chunks env m b reqs)"
  by (simp add: completion_cohort_chunks_def concat_cohort_chunks_from cohort_chunks_from_fit)

section \<open>The chunks of a plan\<close>

lemma plan_divides:
  assumes "plan_compatible_payload_groups items payload chunk least = Inr (Some (parts, calls))" and "\<And>g. concat (chunk g) = g"
  shows "mset (concat parts) = mset items" and "parts = map fst calls" and "list_all (\<lambda>(s, p). payload s = Inr (Some p)) calls"
  using coalesced_plan_correct [OF assms] plan_groups_Some assms(1) by (auto simp: plan_compatible_payload_groups_def bindO_eq_Some)

lemma run_chunks_answers:
  assumes "distinct (map ir_request_id (before @ concat (map fst calls)))" and "answers before out"
    and "\<And>s p io. (s, p) \<in> set calls \<Longrightarrow> \<exists>out io'. f (s, p) io = (Inr out, io') \<and> answers s out"
  shows "\<exists>out' io'. run_chunks pool f out calls io = (Inr out', io') \<and> answers (before @ concat (map fst calls)) out'"
  using assms
proof (induction calls arbitrary: before out io)
  case (Cons sp calls)
  obtain s p where sp: "sp = (s, p)" by (cases sp)
  obtain r io1 where r: "f (s, p) io = (Inr r, io1)" "answers s r" using Cons.prems(3) sp by force
  have "answers (before @ s) (dupdate out r)"
    by (rule answers_halves [of "before @ s" "length before" out r]) (use Cons.prems(1,2) r(2) sp in auto)
  then have "\<exists>out' io'. run_chunks pool f (dupdate out r) calls io1 = (Inr out', io') \<and> answers ((before @ s) @ concat (map fst calls)) out'"
    by (rule Cons.IH [rotated]) (use Cons.prems(1,3) sp in auto)
  then show ?case using sp r(1) by auto
qed simp

lemma run_planned_answers:
  assumes "distinct (map ir_request_id (concat (map fst calls)))"
    and "\<And>s p n io. (s, p) \<in> set calls \<Longrightarrow> \<exists>out io'. run post n s p io = (Inr out, io') \<and> answers s out"
  shows "\<exists>out io'. run_planned run c post calls io = (Inr out, io') \<and> answers (concat (map fst calls)) out"
  unfolding run_planned_def Let_def
  using run_chunks_answers [of "[]" calls "[]" "\<lambda>(s, p). run post (int (length s)) s p"] assms by (auto simp: answers_def)

lemma mark_if_answers:
  assumes "\<exists>out io'. r = (Inr out, io') \<and> answers reqs out"
  shows "\<exists>out io'. mark_if b entries r = (Inr (Some out), io') \<and> answers reqs out"
proof -
  obtain out io' where "r = (Inr out, io')" "answers reqs out" using assms by blast
  then show ?thesis using mark_all_marks [of reqs out entries] by (cases b) (auto simp: mark_if_def)
qed

definition exact_answers :: "inference_request list \<Rightarrow> 'w runner_io \<Rightarrow> cohort_results option result \<times> 'w runner_io \<Rightarrow> bool" where
  \<comment> \<open>one result for each request, or nothing has been done\<close>
  "exact_answers reqs io r = (case r of
     (Inr (Some out), _) \<Rightarrow> mset (map fst out) = mset (map ir_request_id reqs)
   | (_, io') \<Rightarrow> io' = io)"

lemma exact_answersI:
  assumes "\<exists>out io'. r = (Inr (Some out), io') \<and> answers reqs' out" and "mset reqs' = mset reqs"
  shows "exact_answers reqs io r"
  using assms by (auto simp: exact_answers_def answers_def)

lemma distinct_mset_map: "mset xs = mset ys \<Longrightarrow> distinct (map f xs) \<longleftrightarrow> distinct (map f ys)"
  by (metis mset_eq_imp_distinct_iff mset_map)

section \<open>A cohort of completions\<close>

lemma completion_plan_divides:
  assumes "completion_plan c least reqs = Inr (Some (parts, calls))"
  shows "mset (concat (map fst calls)) = mset reqs" and "list_all (\<lambda>(s, p). sub_payload c s = Inr (Some p)) calls"
  using assms plan_divides [of reqs "sub_payload c" _ "nat least" parts calls] by (auto simp: completion_plan_def Let_def bindE_eq_Inr)

lemma completion_chunk_planned:
  assumes "no_auto_prestage (cc_env c)" and "sub_payload c s = Inr (Some p)" and "distinct (map ir_request_id s)"
  shows "\<exists>out io'. run_completion_chunk c post n s p io = (Inr out, io') \<and> answers s out"
  using assms(3) sub_payload_part [OF assms(1,2)] by (intro run_completion_chunk_answers) blast+

lemma distinct_parts: "distinct (map f (concat xss)) \<Longrightarrow> xs \<in> set xss \<Longrightarrow> distinct (map f xs)"
  by (induction xss) auto

lemma completion_calls_answer:
  assumes "completion_plan c least reqs = Inr (Some (parts, calls))" and "distinct (map ir_request_id reqs)" and "no_auto_prestage (cc_env c)"
  shows "\<exists>out io'. run_planned (run_completion_chunk c) c post calls io = (Inr out, io') \<and> answers (concat (map fst calls)) out"
proof -
  note dist = assms(2) [folded distinct_mset_map [OF completion_plan_divides(1) [OF assms(1)]]]
  show ?thesis
  proof (rule run_planned_answers [OF dist])
    fix s p n and i :: "'a runner_io"
    assume in_calls: "(s, p) \<in> set calls"
    then have "sub_payload c s = Inr (Some p)" using completion_plan_divides(2) [OF assms(1)] by (auto simp: list_all_iff)
    moreover have "distinct (map ir_request_id s)" using distinct_parts [OF dist] in_calls by force
    ultimately show "\<exists>out io'. run_completion_chunk c post n s p i = (Inr out, io') \<and> answers s out"
      by (rule completion_chunk_planned [OF assms(3)])
  qed
qed

text \<open>
  A cohort of completions is all or nothing.  Whatever the server answers to the shared calls, and however
  often a chunk is halved, there is one result for each request and no other; the only other outcomes, no cohort
  and an exception, come before any call.
\<close>

theorem run_many_completion_exact:
  assumes "distinct (map ir_request_id reqs)" and "no_auto_prestage (cc_env c)"
  shows "exact_answers reqs io (run_many_completion c post reqs io)"
proof (cases "bindE (cohort_minimum (cc_env c) ''DS4_PIPELINE_COMPLETION_COHORT_MIN'') (\<lambda>least.
                if int (length reqs) < least then Inr None else completion_plan c least reqs)")
  case (Inl e)
  then show ?thesis by (simp add: run_many_completion_def exact_answers_def Let_def)
next
  case (Inr r)
  note planned = Inr
  show ?thesis
  proof (cases r)
    case None
    then show ?thesis using planned by (simp add: run_many_completion_def exact_answers_def Let_def)
  next
    case (Some pc)
    obtain parts calls where pc: "pc = (parts, calls)" by (cases pc)
    obtain least where plan: "completion_plan c least reqs = Inr (Some (parts, calls))"
      using planned Some pc by (auto simp: bindE_eq_Inr split: if_splits)
    show ?thesis
      unfolding run_many_completion_def Let_def planned Some pc
      by (simp, rule exact_answersI [OF mark_if_answers [OF completion_calls_answer [OF plan assms]] completion_plan_divides(1) [OF plan]])
  qed
qed

end
