(* ===== verification/Runner_Stream.thy ===== *)
theory Runner_Stream
  imports Cohort_Facts
begin

text \<open>
  Streams: the events of a server-sent stream (\<^verbatim>\<open>_post_sse_json\<close>), the answer of one request
  collected from them, and a chunk of completions whose results are published as they come
  (\<^verbatim>\<open>ds4_infer/runners.py\<close>), and the chat stream of
  \<^verbatim>\<open>ds4_infer/chat_streaming.py\<close>.
\<close>

section \<open>Server-sent events\<close>

text \<open>
  A stream gives the lines that are read before it ends.  It ends because the server closes it, because the
  run is cancelled, or with an exception (a timeout, an error of a read) with this text.
\<close>

datatype stream_end = Closed | Cancelled_While_Reading | Read_Failed string

definition strip_line_end :: "string \<Rightarrow> string" where
  "strip_line_end s = rev (dropWhile (\<lambda>ch. ch = CHR 0x0A \<or> ch = CHR 0x0D) (rev s))"

definition joined_data :: "string list \<Rightarrow> string" where
  "joined_data event_data = strip (joinwith [CHR 0x0A] event_data)"

definition parsed_event :: "string \<Rightarrow> string + json" where
  "parsed_event s = (case json_loads s of Some v \<Rightarrow> Inr v | None \<Rightarrow> Inl ''Expecting value'')"

fun sse_events :: "string list \<Rightarrow> stream_end \<Rightarrow> string list \<Rightarrow> (string + json) list" where
  \<comment> \<open>the loop over the lines: the events yielded, the last of them the text of an exception if one ends the loop;
    \<open>data\<close> holds the \<^verbatim>\<open>data:\<close> lines of the event being read\<close>
  "sse_events data ending [] =
     (case ending of
        Read_Failed e \<Rightarrow> [Inl e]
      | Cancelled_While_Reading \<Rightarrow> []
      | Closed \<Rightarrow> if data \<noteq> [] \<and> joined_data data \<noteq> '''' \<and> joined_data data \<noteq> ''[DONE]'' then [parsed_event (joined_data data)] else [])"
| "sse_events data ending (raw # ls) =
     (let l = strip_line_end raw
      in if l = ''''
         then (if data = [] then sse_events data ending ls
               else if joined_data data = ''[DONE]'' then []
               else if joined_data data = '''' then sse_events [] ending ls
               else (case parsed_event (joined_data data) of
                       Inl e \<Rightarrow> [Inl e]
                     | Inr v \<Rightarrow> Inr v # sse_events [] ending ls))
         else if startswith l ''data:'' then sse_events (data @ [strip (drop 5 l)]) ending ls
         else sse_events data ending ls)"

section \<open>One answer from a stream\<close>

text \<open>
  What a run sees of a stream: its events in order, each with what the cancel event and the clock say after it
  (cancelled, past the deadline), the exception that ends it if one does, and whether the run is cancelled at the end.
\<close>

record stream_run =
  sr_events :: "(json \<times> bool \<times> bool) list"
  sr_raised :: "string option"
  sr_cancelled :: bool

type_synonym 'w stream = "'w \<Rightarrow> string \<Rightarrow> pydict \<Rightarrow> stream_run \<times> 'w"

fun prompt_choices :: "environ \<Rightarrow> bool \<Rightarrow> string \<Rightarrow> json list \<Rightarrow> string \<times> (string \<times> bool) option" where
  \<comment> \<open>the choices of one event: the text so far, and the answer when it is complete, with whether a marker ended it\<close>
  "prompt_choices env stops seen [] = (seen, None)"
| "prompt_choices env stops seen (JObj choice # cs) =
     (let seen1 = seen @ completion_stream_choice_text choice
      in case (if stops then answer_marker_early_stop_text env seen1 else None) of
           Some stop \<Rightarrow> (seen1, Some (stop, True))
         | None \<Rightarrow> if dget choice ''finish_reason'' \<noteq> JNull then (seen1, Some (seen1, False)) else prompt_choices env stops seen1 cs)"
| "prompt_choices env stops seen (_ # cs) = prompt_choices env stops seen cs"

fun prompt_events :: "environ \<Rightarrow> bool \<Rightarrow> string \<Rightarrow> (json \<times> bool \<times> bool) list \<Rightarrow> string option \<Rightarrow> string + string \<times> (string \<times> bool) option" where
  "prompt_events env stops seen [] raised = (case raised of Some e \<Rightarrow> Inl e | None \<Rightarrow> Inr (seen, None))"
| "prompt_events env stops seen ((event, _) # es) raised =
     (case as_dict event of
        Inl e \<Rightarrow> Inl (exc_text e)
      | Inr d \<Rightarrow>
          (case dget d ''choices'' of
             JArr cs \<Rightarrow>
               (case prompt_choices env stops seen cs of
                  (seen1, Some r) \<Rightarrow> Inr (seen1, Some r)
                | (seen1, None) \<Rightarrow> prompt_events env stops seen1 es raised)
           | _ \<Rightarrow> prompt_events env stops seen es raised))"

definition estimated_usage :: "string \<Rightarrow> pydict" where
  "estimated_usage s = [(''completion_tokens'', JInt (estimate_text_tokens s)), (''completion_tokens_estimated'', JBool True)]"

definition early_stop_field :: "bool \<Rightarrow> pydict" where
  "early_stop_field b = (if b then [(''answer_marker_early_stop'', JBool True)] else [])"

definition parallel_completion_prompt_stream_result :: "cohort_ctx \<Rightarrow> inference_request \<Rightarrow> string \<Rightarrow> int \<Rightarrow> bool \<Rightarrow> pydict" where
  "parallel_completion_prompt_stream_result c req answer batch_size early_stop =
     with_usage (estimated_usage answer) (result_of c req answer ''completed'') @
     [(''transport'', JObj (cohort_transport c (rn_completion_endpoint (cc_runner c)) batch_size
        [(''chat_as_completion_prompts'', JBool True), (''coalesced_chat_parallel_completion'', JBool True),
         (''parallel_completion_prompt_streaming'', JBool True)] @ early_stop_field early_stop))]"

definition completion_prompt_member_stream ::
  "cohort_ctx \<Rightarrow> 'w stream \<Rightarrow> inference_request \<Rightarrow> pydict \<Rightarrow> int \<Rightarrow> 'w \<Rightarrow> (string + pydict) \<times> 'w"
where
  \<comment> \<open>\<^verbatim>\<open>_run_one_chat_completion_parallel_member_stream\<close>: a result or the text of an exception\<close>
  "completion_prompt_member_stream c stream req payload batch_size w =
     (let endpoint = rn_completion_endpoint (cc_runner c); (run, w1) = stream w endpoint (dset ''stream'' (JBool True) payload)
      in (case prompt_events (cc_env c) (request_stop_on_answer_marker req) '''' (sr_events run) (sr_raised run) of
            Inl e \<Rightarrow> Inl e
          | Inr (_, Some (answer, early)) \<Rightarrow> Inr (parallel_completion_prompt_stream_result c req answer batch_size early)
          | Inr (seen, None) \<Rightarrow>
              Inr (if seen \<noteq> '''' then parallel_completion_prompt_stream_result c req seen batch_size False
                   else transport_failure c req ''parallel completion prompt stream ended before text'' (Some endpoint) (Some batch_size)), w1))"

section \<open>The chat stream\<close>

definition stream_message_text :: "pydict \<Rightarrow> string" where
  "stream_message_text message =
     (case dget message ''content'' of
        JStr s \<Rightarrow> s
      | JArr items \<Rightarrow>
          joinwith [CHR 0x0A] (concat (map (\<lambda>item. case item of
             JStr s \<Rightarrow> [s]
           | JObj d \<Rightarrow> (case first_string d [''text'', ''content''] of Some s \<Rightarrow> [s] | None \<Rightarrow> [])
           | _ \<Rightarrow> []) items))
      | _ \<Rightarrow> '''')"

definition request_prompt_text :: "inference_request \<Rightarrow> string" where
  "request_prompt_text req =
     (case dget (ir_raw req) ''input'' of
        JObj raw \<Rightarrow>
          (case first_string raw [''rendered_prompt'', ''prompt''] of
             Some s \<Rightarrow> s
           | None \<Rightarrow>
               (case dget raw ''messages'' of
                  JArr ms \<Rightarrow> joinwith [CHR 0x0A] (concat (map (\<lambda>m. case m of JObj d \<Rightarrow> [stream_message_text d] | _ \<Rightarrow> []) ms))
                | _ \<Rightarrow> joinwith [CHR 0x0A] (concat (map (\<lambda>k. case dget raw k of JStr s \<Rightarrow> [s] | _ \<Rightarrow> []) [''shared_prefix'', ''suffix'']))))
      | _ \<Rightarrow> '''')"

definition chat_estimate_tokens :: "string \<Rightarrow> int" where
  "chat_estimate_tokens s = (if s = '''' then 0 else max 1 ((int (length s) + 3) div 4))"

definition whole_number :: "json \<Rightarrow> int" where
  \<comment> \<open>the value of an \<^verbatim>\<open>int\<close>, else 0\<close>
  "whole_number v = (case v of JInt i \<Rightarrow> i | JBool b \<Rightarrow> (if b then 1 else 0) | _ \<Rightarrow> 0)"

definition stream_usage :: "environ \<Rightarrow> inference_request \<Rightarrow> string \<Rightarrow> pydict \<Rightarrow> pydict" where
  "stream_usage env req answer usage =
     (let prompt = request_prompt_text req;
          out1 = (if has_key usage ''completion_tokens'' then usage
                  else dset ''completion_tokens_estimated'' (JBool True) (dset ''completion_tokens'' (JInt (chat_estimate_tokens answer)) usage));
          out2 = (if has_key out1 ''prompt_tokens'' \<or> prompt = '''' then out1
                  else dset ''prompt_tokens_estimated'' (JBool True) (dset ''prompt_tokens'' (JInt (prompt_token_estimate env prompt None)) out1));
          total_tokens = whole_number (dget out2 ''prompt_tokens'') + whole_number (dget out2 ''completion_tokens'')
      in if \<not> has_key out2 ''total_tokens'' \<and> 0 < total_tokens then dset ''total_tokens'' (JInt total_tokens) out2 else out2)"

definition chat_stream_result :: "cohort_ctx \<Rightarrow> inference_request \<Rightarrow> string \<Rightarrow> int \<Rightarrow> pydict \<Rightarrow> pydict" where
  "chat_stream_result c req answer batch_size usage =
     with_usage (stream_usage (cc_env c) req answer usage) (result_of c req (strip_visible_thinking answer) ''completed'') @
     [(''transport'', JObj (cohort_transport c (rn_chat_endpoint (cc_runner c)) batch_size
        [(''coalesced_chat_parallel'', JBool True), (''coalesced_chat_parallel_streaming'', JBool True)]))]"

fun chat_choices :: "string \<Rightarrow> json list \<Rightarrow> string \<times> bool" where
  \<comment> \<open>the choices of one event: the text so far and whether a choice has finished\<close>
  "chat_choices seen [] = (seen, False)"
| "chat_choices seen (JObj choice # cs) =
     (let seen1 = seen @ chat_choice_text choice
      in if dget choice ''finish_reason'' \<noteq> JNull then (seen1, True) else chat_choices seen1 cs)"
| "chat_choices seen (_ # cs) = chat_choices seen cs"

datatype chat_stream_end = Chat_Finished string pydict | Chat_Ended string pydict | Chat_Raised string

fun chat_events :: "string \<Rightarrow> pydict \<Rightarrow> (json \<times> bool \<times> bool) list \<Rightarrow> string option \<Rightarrow> chat_stream_end" where
  "chat_events seen usage [] raised = (case raised of Some e \<Rightarrow> Chat_Raised e | None \<Rightarrow> Chat_Ended seen usage)"
| "chat_events seen usage ((event, cancelled, _) # es) raised =
     (case as_dict event of
        Inl e \<Rightarrow> Chat_Raised (exc_text e)
      | Inr d \<Rightarrow>
          (let usage1 = dupdate usage (obj_or_empty (dget d ''usage''));
               (seen1, finished) = chat_choices seen (case dget d ''choices'' of JArr cs \<Rightarrow> cs | _ \<Rightarrow> [])
           in if finished then Chat_Finished seen1 usage1
              else if cancelled then Chat_Ended seen1 usage1
              else chat_events seen1 usage1 es raised))"

definition run_parallel_chat_stream :: "cohort_ctx \<Rightarrow> 'w stream \<Rightarrow> inference_request \<Rightarrow> pydict \<Rightarrow> int \<Rightarrow> 'w \<Rightarrow> pydict \<times> 'w" where
  "run_parallel_chat_stream c stream req payload batch_size w =
     (let endpoint = rn_chat_endpoint (cc_runner c); (run, w1) = stream w endpoint (dset ''stream'' (JBool True) payload);
          failed = (\<lambda>e. transport_failure c req e (Some endpoint) (Some batch_size))
      in (case chat_events '''' [] (sr_events run) (sr_raised run) of
            Chat_Raised e \<Rightarrow> failed e
          | Chat_Finished seen usage \<Rightarrow> chat_stream_result c req seen batch_size usage
          | Chat_Ended seen usage \<Rightarrow>
              if sr_cancelled run then failed ''parallel chat stream cancelled''
              else if seen \<noteq> '''' then chat_stream_result c req seen batch_size usage
              else failed ''parallel chat stream ended before completion'', w1))"

section \<open>A chunk of completions, streamed\<close>

datatype published = Delta string string pydict | Published string pydict

record chunk_stream =
  cs_texts :: "string list"
  cs_done :: "nat list"
  cs_out :: cohort_results
  cs_log :: "published list"

definition float_env :: "environ \<Rightarrow> string \<Rightarrow> rat \<Rightarrow> rat" where
  "float_env env k d =
     (case env k of None \<Rightarrow> d | Some raw \<Rightarrow> if raw = '''' then d else (case parse_float raw of Some r \<Rightarrow> r | None \<Rightarrow> d))"

definition completion_stream_wall_timeout_s :: "environ \<Rightarrow> rat" where
  "completion_stream_wall_timeout_s env = max 0 (float_env env ''DS4_PIPELINE_COMPLETION_STREAM_WALL_TIMEOUT_S'' 0)"

definition show_fixed3 :: "rat \<Rightarrow> string" where
  \<comment> \<open>the format \<^verbatim>\<open>.3f\<close> of a number that is not negative\<close>
  "show_fixed3 r =
     (let n = nat \<lfloor>round_dec 3 r * 1000\<rfloor>; f = show_nat (n mod 1000)
      in show_nat (n div 1000) @ ''.'' @ replicate (3 - length f) (CHR ''0'') @ f)"

definition coalesced_stream_result :: "cohort_ctx \<Rightarrow> inference_request \<Rightarrow> string \<Rightarrow> int \<Rightarrow> pydict option \<Rightarrow> bool \<Rightarrow> bool \<Rightarrow> pydict" where
  "coalesced_stream_result c req answer batch_size info suppressed early_stop =
     with_usage (if forced_output_request req
                 then [(''completion_tokens'', JInt (ir_max_output_tokens req)), (''completion_tokens_forced'', JBool True)]
                 else estimated_usage answer)
       (result_of c req answer ''completed'') @
     [(''transport'', JObj (cohort_transport c (rn_completion_endpoint (cc_runner c)) batch_size
        [(''coalesced_completion_batch'', JBool True), (''coalesced_completion_streaming'', JBool True)] @
        prestage_field info @ suppressed_field suppressed @ early_stop_field early_stop))]"

definition settle :: "inference_request list \<Rightarrow> nat \<Rightarrow> pydict \<Rightarrow> chunk_stream \<Rightarrow> chunk_stream" where
  "settle chunk i result st =
     (let key = ir_request_id (chunk ! i)
      in st\<lparr>cs_out := dset key result (cs_out st), cs_done := cs_done st @ [i], cs_log := cs_log st @ [Published key result]\<rparr>)"

definition published_delta :: "string \<Rightarrow> string \<Rightarrow> string option \<Rightarrow> string" where
  "published_delta previous delta stop =
     (case stop of None \<Rightarrow> delta | Some s \<Rightarrow> if startswith s previous then drop (length previous) s else '''')"

definition stream_choice ::
  "cohort_ctx \<Rightarrow> inference_request list \<Rightarrow> pydict option \<Rightarrow> bool \<Rightarrow> bool \<Rightarrow> chunk_stream \<Rightarrow> pydict \<Rightarrow> chunk_stream"
where
  \<comment> \<open>one choice of an event; \<open>deltas\<close>: the pieces are published too\<close>
  "stream_choice c chunk info suppressed deltas st choice =
     (let index = completion_choice_index choice (int (length (cs_done st))); i = nat index; n = int (length chunk)
      in if index < 0 \<or> n \<le> index \<or> i \<in> set (cs_done st) then st
         else
           (let delta = completion_stream_choice_text choice; previous = cs_texts st ! i; next = previous @ delta;
                stop = (if request_stop_on_answer_marker (chunk ! i) then answer_marker_early_stop_text (cc_env c) next else None);
                answer = (case stop of Some s \<Rightarrow> s | None \<Rightarrow> next); piece = published_delta previous delta stop;
                st1 = st\<lparr>cs_texts := (cs_texts st)[i := answer]\<rparr>;
                st2 = (if deltas \<and> delta \<noteq> '''' \<and> piece \<noteq> ''''
                       then st1\<lparr>cs_log := cs_log st1 @ [Delta (ir_request_id (chunk ! i)) piece
                              [(''coalesced_batch_size'', JInt n), (''choice_index'', JInt index)]]\<rparr>
                       else st1)
            in if stop = None \<and> dget choice ''finish_reason'' = JNull then st2
               else settle chunk i (coalesced_stream_result c (chunk ! i) answer n info suppressed (stop \<noteq> None)) st2))"

definition dict_items :: "json list \<Rightarrow> pydict list" where
  "dict_items cs = concat (map (\<lambda>v. case v of JObj d \<Rightarrow> [d] | _ \<Rightarrow> []) cs)"

fun chunk_events ::
  "(chunk_stream \<Rightarrow> pydict \<Rightarrow> chunk_stream) \<Rightarrow> nat \<Rightarrow> rat \<Rightarrow> (json \<times> bool \<times> bool) list \<Rightarrow> string option \<Rightarrow> chunk_stream \<Rightarrow>
     chunk_stream \<times> (string + string)"
where
  \<comment> \<open>the loop over the events: it ends with the text of an exception or with that of a timeout, empty when there is none;
    an event without a list of choices is passed over, and so are the checks that follow one\<close>
  "chunk_events step n timeout [] raised st = (st, case raised of Some e \<Rightarrow> Inl e | None \<Rightarrow> Inr '''')"
| "chunk_events step n timeout ((event, cancelled, late) # es) raised st =
     (case as_dict event of
        Inl e \<Rightarrow> (st, Inl (exc_text e))
      | Inr d \<Rightarrow>
          (case dget d ''choices'' of
             JArr cs \<Rightarrow>
               (let st1 = foldl step st (dict_items cs)
                in if n \<le> length (cs_done st1) then (st1, Inr '''')
                   else if 0 < timeout \<and> late then (st1, Inr (''coalesced completion stream wall timeout after '' @ show_fixed3 timeout @ ''s''))
                   else if cancelled then (st1, Inr ''coalesced completion stream cancelled'')
                   else chunk_events step n timeout es raised st1)
           | _ \<Rightarrow> chunk_events step n timeout es raised st))"

definition fresh_stream :: "'a list \<Rightarrow> chunk_stream" where
  "fresh_stream chunk = \<lparr>cs_texts = replicate (length chunk) '''', cs_done = [], cs_out = [], cs_log = []\<rparr>"

definition stream_attempt ::
  "cohort_ctx \<Rightarrow> 'w post \<Rightarrow> 'w stream \<Rightarrow> bool \<Rightarrow> inference_request list \<Rightarrow> pydict \<Rightarrow> 'w runner_io \<Rightarrow>
     (chunk_stream \<times> (string + string)) \<times> pydict option \<times> 'w runner_io"
where
  \<comment> \<open>the body of the \<^verbatim>\<open>try\<close>\<close>
  "stream_attempt c post stream deltas chunk payload io =
     (let suppressed = truthy (dget payload auto_kv_batch_suppressed_key)
      in case maybe_prestage_common_kv_prefix (cc_env c) post (cc_runner c) (cc_now c) (cc_dur c) (dpop auto_kv_batch_suppressed_key payload) chunk io of
           (Inl e, _, io1) \<Rightarrow> ((fresh_stream chunk, Inl e), None, io1)
         | (Inr info, payload1, io1) \<Rightarrow>
             (let (run, w) = stream (io_world io1) (rn_completion_endpoint (cc_runner c)) payload1
              in (chunk_events (stream_choice c chunk info suppressed deltas) (length chunk) (completion_stream_wall_timeout_s (cc_env c))
                    (sr_events run) (sr_raised run) (fresh_stream chunk), info, io1\<lparr>io_world := w\<rparr>)))"

definition settle_rest :: "(nat \<Rightarrow> pydict) \<Rightarrow> inference_request list \<Rightarrow> chunk_stream \<Rightarrow> chunk_stream" where
  \<comment> \<open>the loop over the requests of a chunk that are not done\<close>
  "settle_rest result chunk st = foldl (\<lambda>st i. if i \<in> set (cs_done st) then st else settle chunk i (result i) st) st [0..<length chunk]"

definition stream_failures :: "cohort_ctx \<Rightarrow> inference_request list \<Rightarrow> string \<Rightarrow> chunk_stream \<Rightarrow> chunk_stream" where
  "stream_failures c chunk e =
     settle_rest (\<lambda>i. transport_failure c (chunk ! i) e (Some (rn_completion_endpoint (cc_runner c))) (Some (int (length chunk)))) chunk"

definition stream_leftovers :: "cohort_ctx \<Rightarrow> inference_request list \<Rightarrow> pydict option \<Rightarrow> bool \<Rightarrow> string \<Rightarrow> chunk_stream \<Rightarrow> chunk_stream" where
  "stream_leftovers c chunk info suppressed timeout_error st =
     settle_rest (\<lambda>i.
       let n = int (length chunk); failed = coalesced_failure c (chunk ! i) (rn_completion_endpoint (cc_runner c)) n; seen = cs_texts st ! i
       in if timeout_error \<noteq> '''' then failed timeout_error
          else if seen \<noteq> '''' then coalesced_stream_result c (chunk ! i) seen n info suppressed False
          else failed ''stream ended before this coalesced completion finished'') chunk st"

type_synonym 'w streamed = "cohort_results result \<times> published list \<times> 'w runner_io"

definition finish_stream_split :: "cohort_ctx \<Rightarrow> int \<Rightarrow> string \<Rightarrow> inference_request list \<Rightarrow> chunk_stream \<Rightarrow> cohort_results \<Rightarrow> published list \<Rightarrow> 'w runner_io \<Rightarrow> 'w streamed" where
  \<comment> \<open>after the halves: when they did not answer all, the requests that were not done before the failure fail\<close>
  "finish_stream_split c original e chunk st out published io =
     (if length out = length chunk then (mark_coalesced_split out original (Some e), published, io)
      else (let st1 = stream_failures c chunk e (st\<lparr>cs_out := out, cs_log := published\<rparr>) in (Inr (cs_out st1), cs_log st1, io)))"

definition streaming :: "pydict \<Rightarrow> pydict" where
  "streaming payload = dset ''stream'' (JBool True) payload"

function run_completion_stream_chunk ::
  "cohort_ctx \<Rightarrow> 'w post \<Rightarrow> 'w stream \<Rightarrow> bool \<Rightarrow> int \<Rightarrow> inference_request list \<Rightarrow> pydict \<Rightarrow> 'w runner_io \<Rightarrow> 'w streamed"
where
  \<comment> \<open>the results, what was published in order, and the next state\<close>
  "run_completion_stream_chunk c post stream deltas original chunk payload io =
     (case stream_attempt c post stream deltas chunk payload io of
        ((st, Inr timeout_error), info, io1) \<Rightarrow>
          (let st1 = stream_leftovers c chunk info (truthy (dget payload auto_kv_batch_suppressed_key)) timeout_error st
           in (if original \<noteq> int (length chunk) then mark_coalesced_split (cs_out st1) original None else Inr (cs_out st1), cs_log st1, io1))
      | ((st, Inl e), info, io1) \<Rightarrow>
          if \<not> should_bisect c chunk e then (let st1 = stream_failures c chunk e st in (Inr (cs_out st1), cs_log st1, io1))
          else
            (case sub_payload c (take (midpoint chunk) chunk) of
               Inl x \<Rightarrow> (Inl x, cs_log st, io1)
             | Inr None \<Rightarrow> finish_stream_split c original e chunk st [] (cs_log st) io1
             | Inr (Some payload1) \<Rightarrow>
                 (case run_completion_stream_chunk c post stream deltas original (take (midpoint chunk) chunk) (streaming payload1) io1 of
                    (Inl x, log1, io2) \<Rightarrow> (Inl x, cs_log st @ log1, io2)
                  | (Inr out1, log1, io2) \<Rightarrow>
                      (case sub_payload c (drop (midpoint chunk) chunk) of
                         Inl x \<Rightarrow> (Inl x, cs_log st @ log1, io2)
                       | Inr None \<Rightarrow> finish_stream_split c original e chunk st out1 (cs_log st @ log1) io2
                       | Inr (Some payload2) \<Rightarrow>
                           (case run_completion_stream_chunk c post stream deltas original (drop (midpoint chunk) chunk) (streaming payload2) io2 of
                              (Inl x, log2, io3) \<Rightarrow> (Inl x, cs_log st @ log1 @ log2, io3)
                            | (Inr out2, log2, io3) \<Rightarrow> finish_stream_split c original e chunk st (dupdate out1 out2) (cs_log st @ log1 @ log2) io3)))))"
  by pat_completeness auto
termination
  by (relation "measure (\<lambda>(c, post, stream, deltas, original, chunk, payload, io). length chunk)") (auto simp: should_bisect_def midpoint_def)

declare run_completion_stream_chunk.simps [simp del]

end
