(* ===== verification/Runner_Node.thy ===== *)
theory Runner_Node
  imports Runner_Stream
begin

text \<open>
  The calls of \<^verbatim>\<open>OpenAICompatibleRunner\<close> for one request and for a chat cohort sent as parallel
  calls, and \<^verbatim>\<open>PipelineOpenAIRunner\<close>, which chooses among all the ways to run requests on a node
  (\<^verbatim>\<open>ds4_infer/runners.py\<close>).  A cancel event is a predicate on the world; results and pieces are
  published through callbacks that do not raise, and recorded in the order they are published.
\<close>

section \<open>One request\<close>

definition with_defaults :: "cohort_ctx \<Rightarrow> pydict result \<Rightarrow> pydict result" where
  "with_defaults c payload = bindE payload (\<lambda>p. merge_payload_extra_body p (rn_default_extra_body (cc_runner c)))"

definition prompt_call_payload :: "cohort_ctx \<Rightarrow> inference_request \<Rightarrow> pydict result" where
  \<comment> \<open>a chat request as a completion of its rendered prompt\<close>
  "prompt_call_payload c req =
     bindE (chat_completion_prompt (cc_env c) (cc_tokenizer c) req (cc_profile c)) (\<lambda>prompt.
       with_defaults c (openai_completion_prompt_payload (cc_env c) req (cc_profile c) prompt))"

definition own_payload :: "cohort_ctx \<Rightarrow> inference_request \<Rightarrow> pydict result" where
  "own_payload c req = with_defaults c (openai_payload (cc_env c) req (cc_profile c))"

definition as_prompts :: "cohort_ctx \<Rightarrow> bool" where
  "as_prompts c \<longleftrightarrow> chat_cohort_transport (cc_profile c) \<in> {''completion_prompts'', ''parallel_completion_prompts''}"

definition call_payload :: "cohort_ctx \<Rightarrow> 'w post \<Rightarrow> string \<Rightarrow> pydict result \<Rightarrow> 'w runner_io \<Rightarrow> (string + pydict) \<times> 'w runner_io" where
  "call_payload c post endpoint payload io =
     (case payload of Inl e \<Rightarrow> (Inl (exc_text e), io) | Inr p \<Rightarrow> post_json post endpoint p io)"

definition run_one :: "cohort_ctx \<Rightarrow> 'w post \<Rightarrow> inference_request \<Rightarrow> 'w runner_io \<Rightarrow> pydict \<times> 'w runner_io" where
  "run_one c post req io =
     (let rn = cc_runner c; prompts = (ir_chat req \<and> as_prompts c);
          endpoint = (if ir_chat req \<and> \<not> prompts then rn_chat_endpoint rn else rn_completion_endpoint rn);
          extract = (if ir_chat req \<and> \<not> prompts then extract_openai_chat_text else extract_openai_completion_text);
          (answer, io1) = call_payload c post endpoint (if prompts then prompt_call_payload c req else own_payload c req) io
      in (case answer of
            Inl e \<Rightarrow> transport_failure c req e None None
          | Inr data \<Rightarrow>
              with_usage (usage_from_response data) (result_of c req (extract data) ''completed'') @
              [(''transport'', JObj ([(''base_url'', JStr (rn_base_url rn)), (''endpoint'', JStr endpoint), (''duration_s'', JFloat (cc_dur c))] @
                 (if prompts then [(''chat_as_completion_prompts'', JBool True)] else [])))], io1))"

section \<open>Members of a parallel cohort\<close>

definition member_result :: "cohort_ctx \<Rightarrow> inference_request \<Rightarrow> string \<Rightarrow> int \<Rightarrow> pydict \<Rightarrow> (pydict \<Rightarrow> string) \<Rightarrow> string + pydict \<Rightarrow> pydict" where
  "member_result c req endpoint batch_size extra extract answer =
     (case answer of
        Inl e \<Rightarrow> transport_failure c req e (Some endpoint) (Some batch_size)
      | Inr data \<Rightarrow>
          with_usage (usage_from_response data) (result_of c req (extract data) ''completed'') @
          [(''transport'', JObj (cohort_transport c endpoint batch_size extra))])"

definition salted :: "cohort_ctx \<Rightarrow> inference_request \<Rightarrow> pydict \<Rightarrow> pydict result" where
  "salted c req payload =
     (if dget (mp_routing (cc_profile c)) ''parallel_chat_payload_salt'' = JStr ''extra_body_request_id''
      then bindE (copied_extra_body payload) (\<lambda>extra.
             Inr (dset ''extra_body'' (JObj (setdefault ''request_id'' (JStr (ir_request_id req)) extra)) payload))
      else Inr payload)"

definition run_one_chat_parallel_member ::
  "cohort_ctx \<Rightarrow> 'w post \<Rightarrow> 'w stream \<Rightarrow> bool \<Rightarrow> int \<Rightarrow> inference_request \<Rightarrow> 'w runner_io \<Rightarrow> pydict \<times> 'w runner_io"
where
  "run_one_chat_parallel_member c post stream cancelable batch_size req io =
     (let endpoint = rn_chat_endpoint (cc_runner c)
      in case bindE (own_payload c req) (salted c req) of
           Inl e \<Rightarrow> (transport_failure c req (exc_text e) (Some endpoint) (Some batch_size), io)
         | Inr payload \<Rightarrow>
             if cancelable \<and> flag_env (cc_env c) ''DS4_PIPELINE_PARALLEL_CHAT_INTERNAL_STREAMING'' True
             then (let (r, w) = run_parallel_chat_stream c stream req payload batch_size (io_world io) in (r, io\<lparr>io_world := w\<rparr>))
             else (let (answer, io1) = post_json post endpoint payload io
                   in (member_result c req endpoint batch_size [(''coalesced_chat_parallel'', JBool True)] extract_openai_chat_text answer, io1)))"

definition run_one_chat_completion_parallel_member ::
  "cohort_ctx \<Rightarrow> 'w post \<Rightarrow> 'w stream \<Rightarrow> int \<Rightarrow> inference_request \<Rightarrow> 'w runner_io \<Rightarrow> pydict \<times> 'w runner_io"
where
  "run_one_chat_completion_parallel_member c post stream batch_size req io =
     (let endpoint = rn_completion_endpoint (cc_runner c); failed = (\<lambda>e. transport_failure c req e (Some endpoint) (Some batch_size))
      in case prompt_call_payload c req of
           Inl e \<Rightarrow> (failed (exc_text e), io)
         | Inr payload \<Rightarrow>
             if parallel_completion_prompt_streaming (cc_env c) req
             then (let (r, w) = completion_prompt_member_stream c stream req payload batch_size (io_world io)
                   in (case r of Inl e \<Rightarrow> failed e | Inr result \<Rightarrow> result, io\<lparr>io_world := w\<rparr>))
             else (let (answer, io1) = post_json post endpoint payload io
                   in (member_result c req endpoint batch_size
                         [(''chat_as_completion_prompts'', JBool True), (''coalesced_chat_parallel_completion'', JBool True)]
                         extract_openai_completion_text answer, io1)))"

fun parallel_chunk ::
  "bool \<Rightarrow> ('w \<Rightarrow> bool) \<Rightarrow> (inference_request \<Rightarrow> 'w runner_io \<Rightarrow> pydict \<times> 'w runner_io) \<Rightarrow> inference_request list \<Rightarrow> cohort_results \<Rightarrow> 'w runner_io \<Rightarrow>
     cohort_results \<times> published list \<times> 'w runner_io"
where
  \<comment> \<open>the results of a pool as they come; once the run is cancelled the other members are left, and with
    \<open>wait\<close> the pool still waits for them\<close>
  "parallel_chunk wait cancelled f [] out io = (out, [], io)"
| "parallel_chunk wait cancelled f (x # xs) out io =
     (let (r, io1) = f x io; out1 = dset (ir_request_id x) r out; entry = Published (ir_request_id x) r
      in if cancelled (io_world io1)
         then (out1, [entry], if wait then foldl (\<lambda>io y. snd (f y io)) io1 xs else io1)
         else (let (out2, log, io2) = parallel_chunk wait cancelled f xs out1 io1 in (out2, entry # log, io2)))"

fun completion_parallel_chunks ::
  "('w \<Rightarrow> bool) \<Rightarrow> (int \<Rightarrow> inference_request \<Rightarrow> 'w runner_io \<Rightarrow> pydict \<times> 'w runner_io) \<Rightarrow> inference_request list list \<Rightarrow> cohort_results \<Rightarrow> 'w runner_io \<Rightarrow>
     cohort_results \<times> published list \<times> 'w runner_io"
where
  "completion_parallel_chunks cancelled f [] out io = (out, [], io)"
| "completion_parallel_chunks cancelled f (s # ss) out io =
     (if cancelled (io_world io) then (out, [], io)
      else (let (out1, log1, io1) = parallel_chunk True cancelled (f (int (length s))) s out io;
                (out2, log2, io2) = completion_parallel_chunks cancelled f ss out1 io1
            in (out2, log1 @ log2, io2)))"

definition cancelled_members :: "cohort_ctx \<Rightarrow> inference_request list \<Rightarrow> cohort_results \<Rightarrow> cohort_results" where
  \<comment> \<open>the members of a cancelled chunk that have no result\<close>
  "cancelled_members c chunk out =
     map (\<lambda>req. (ir_request_id req, transport_failure c req ''parallel chat stream cancelled'' (Some (rn_chat_endpoint (cc_runner c))) (Some (int (length chunk)))))
       (filter (\<lambda>req. ir_request_id req \<notin> set (map fst out)) chunk)"

fun chat_parallel_chunks ::
  "cohort_ctx \<Rightarrow> ('w \<Rightarrow> bool) \<Rightarrow> (int \<Rightarrow> inference_request \<Rightarrow> 'w runner_io \<Rightarrow> pydict \<times> 'w runner_io) \<Rightarrow> inference_request list list \<Rightarrow> cohort_results \<Rightarrow>
     'w runner_io \<Rightarrow> cohort_results \<times> published list \<times> 'w runner_io"
where
  "chat_parallel_chunks c cancelled f [] out io = (out, [], io)"
| "chat_parallel_chunks c cancelled f (s # ss) out io =
     (if cancelled (io_world io) then (out, [], io)
      else (let (out1, log1, io1) = parallel_chunk False cancelled (f (int (length s))) s out io
            in if cancelled (io_world io1)
               then (let rest = cancelled_members c s out1 in (dupdate out1 rest, log1 @ map (\<lambda>(k, r). Published k r) rest, io1))
               else (let (out2, log2, io2) = chat_parallel_chunks c cancelled f ss out1 io1 in (out2, log1 @ log2, io2))))"

section \<open>Cohorts\<close>

type_synonym 'w cohort_run = "cohort_results option result \<times> published list \<times> 'w runner_io"

definition parallel_plan :: "cohort_ctx \<Rightarrow> bool \<Rightarrow> inference_request list \<Rightarrow> inference_request list list option result" where
  \<comment> \<open>the guards and the chunks of a chat cohort sent as parallel calls\<close>
  "parallel_plan c cancelable reqs =
     (let env = cc_env c
      in if reqs = [] \<or> \<not> list_all ir_chat reqs then Inr None
         else bindE (cancelable_cohort_minimum env ''DS4_PIPELINE_CHAT_COHORT_MIN'' cancelable) (\<lambda>least.
                if int (length reqs) < least then Inr None
                else bindE (coalesced_completion_token_budget env) (\<lambda>budget.
                       Inr (Some (completion_cohort_chunks env (completion_effective_max_cohort env (cc_profile c)) budget reqs)))))"

definition parallel_marks :: "string \<Rightarrow> cohort_ctx \<Rightarrow> inference_request list \<Rightarrow> inference_request list list \<Rightarrow> pydict" where
  "parallel_marks kind c reqs parts =
     (let env = cc_env c; m = completion_effective_max_cohort env (cc_profile c)
      in planned_split_fields kind (int (length reqs)) (int (length parts)) m
           (parallel_chat_concurrency env (cc_profile c) (max 1 (int (Max (set (map length parts))))) m))"

definition run_parallel ::
  "(inference_request list list \<Rightarrow> cohort_results \<Rightarrow> 'w runner_io \<Rightarrow> cohort_results \<times> published list \<times> 'w runner_io) \<Rightarrow> string \<Rightarrow> cohort_ctx \<Rightarrow> bool \<Rightarrow>
     inference_request list \<Rightarrow> 'w runner_io \<Rightarrow> 'w cohort_run"
where
  "run_parallel run kind c cancelable reqs io =
     (case parallel_plan c cancelable reqs of
        Inl e \<Rightarrow> (Inl e, [], io)
      | Inr None \<Rightarrow> (Inr None, [], io)
      | Inr (Some parts) \<Rightarrow>
          (let (out, log, io1) = run parts [] io; (r, io2) = mark_if (1 < length parts) (parallel_marks kind c reqs parts) (Inr out, io1)
           in (r, log, io2)))"

definition never :: "'w \<Rightarrow> bool" where
  "never = (\<lambda>w. False)"

definition is_cancelled :: "('w \<Rightarrow> bool) option \<Rightarrow> 'w \<Rightarrow> bool" where
  "is_cancelled cancel = (case cancel of None \<Rightarrow> never | Some f \<Rightarrow> f)"

definition run_many_chat_completion_parallel ::
  "cohort_ctx \<Rightarrow> 'w post \<Rightarrow> 'w stream \<Rightarrow> ('w \<Rightarrow> bool) option \<Rightarrow> inference_request list \<Rightarrow> 'w runner_io \<Rightarrow> 'w cohort_run"
where
  "run_many_chat_completion_parallel c post stream cancel =
     run_parallel (completion_parallel_chunks (is_cancelled cancel) (run_one_chat_completion_parallel_member c post stream)) ''completion'' c (cancel \<noteq> None)"

definition run_many_chat_parallel ::
  "cohort_ctx \<Rightarrow> 'w post \<Rightarrow> 'w stream \<Rightarrow> ('w \<Rightarrow> bool) option \<Rightarrow> inference_request list \<Rightarrow> 'w runner_io \<Rightarrow> 'w cohort_run"
where
  "run_many_chat_parallel c post stream cancel =
     run_parallel (chat_parallel_chunks c (is_cancelled cancel) (run_one_chat_parallel_member c post stream (cancel \<noteq> None))) ''chat'' c (cancel \<noteq> None)"

definition publish_all :: "cohort_results \<Rightarrow> published list" where
  "publish_all out = map (\<lambda>(k, r). Published k r) out"

definition unpublished :: "cohort_results option result \<times> 'w runner_io \<Rightarrow> 'w cohort_run" where
  "unpublished r = (fst r, [], snd r)"

definition then_published :: "cohort_results option result \<times> 'w runner_io \<Rightarrow> 'w cohort_run" where
  \<comment> \<open>results that are published when all are there\<close>
  "then_published r = (fst r, case fst r of Inr (Some out) \<Rightarrow> publish_all out | _ \<Rightarrow> [], snd r)"

definition run_many_chat :: "cohort_ctx \<Rightarrow> 'w post \<Rightarrow> 'w stream \<Rightarrow> inference_request list \<Rightarrow> 'w runner_io \<Rightarrow> cohort_results option result \<times> 'w runner_io" where
  "run_many_chat c post stream reqs io =
     (let transport = chat_cohort_transport (cc_profile c); plain = (\<lambda>(r, _, io1). (r, io1))
      in if transport = ''completion_prompts'' then run_many_chat_as_completion c post reqs io
         else if transport = ''parallel_completion_prompts'' then plain (run_many_chat_completion_parallel c post stream None reqs io)
         else if transport = ''parallel_chat_completions'' then plain (run_many_chat_parallel c post stream None reqs io)
         else run_many_chat_batch c post reqs io)"

fun incremental_chunks ::
  "bool \<Rightarrow> ('w \<Rightarrow> bool) \<Rightarrow> pydict option \<Rightarrow> ('c \<Rightarrow> 'w runner_io \<Rightarrow> cohort_results result \<times> 'w runner_io) \<Rightarrow> cohort_results \<Rightarrow> 'c list \<Rightarrow> 'w runner_io \<Rightarrow>
     cohort_results result \<times> published list \<times> 'w runner_io"
where
  \<comment> \<open>the chunks of a chat cohort, each marked (when there are marks) and published when it is done\<close>
  "incremental_chunks pool cancelled marks f out [] io = (Inr out, [], io)"
| "incremental_chunks pool cancelled marks f out (x # xs) io =
     (if \<not> pool \<and> cancelled (io_world io) then (Inr out, [], io)
      else
        (case f x io of
           (Inl e, io1) \<Rightarrow> (Inl e, [], if pool then foldl (\<lambda>io y. snd (f y io)) io1 xs else io1)
         | (Inr r, io1) \<Rightarrow>
             (case (case marks of None \<Rightarrow> Inr r | Some m \<Rightarrow> mark_all m r) of
                Inl e \<Rightarrow> (Inl e, [], if pool then foldl (\<lambda>io y. snd (f y io)) io1 xs else io1)
              | Inr r' \<Rightarrow>
                  if pool \<and> cancelled (io_world io1) then (Inr (dupdate out r'), publish_all r', foldl (\<lambda>io y. snd (f y io)) io1 xs)
                  else (let (res, log, io2) = incremental_chunks pool cancelled marks f (dupdate out r') xs io1
                        in (res, publish_all r' @ log, io2)))))"

definition run_many_chat_incremental ::
  "cohort_ctx \<Rightarrow> 'w post \<Rightarrow> 'w stream \<Rightarrow> ('w \<Rightarrow> bool) option \<Rightarrow> inference_request list \<Rightarrow> 'w runner_io \<Rightarrow> 'w cohort_run"
where
  "run_many_chat_incremental c post stream cancel reqs io =
     (let transport = chat_cohort_transport (cc_profile c); env = cc_env c; p = cc_profile c
      in if transport = ''completion_prompts'' then then_published (run_many_chat_as_completion c post reqs io)
         else if transport = ''parallel_completion_prompts'' then run_many_chat_completion_parallel c post stream cancel reqs io
         else if transport = ''parallel_chat_completions'' then run_many_chat_parallel c post stream cancel reqs io
         else
           (case chat_plan c (coalesced_chat_payload env p (rn_default_extra_body (cc_runner c))) reqs of
              Inl e \<Rightarrow> (Inl e, [], io)
            | Inr None \<Rightarrow> (Inr None, [], io)
            | Inr (Some payloads) \<Rightarrow>
                (let n = length payloads;
                     marks = (if 1 < n then Some (planned_split_fields ''chat'' (int (length reqs)) (int n) (completion_effective_max_cohort env p)
                                (completion_chunk_concurrency env p)) else None);
                     (r, log, io1) = incremental_chunks (1 < completion_chunk_concurrency env p \<and> 1 < n) (is_cancelled cancel) marks
                       (\<lambda>(chunk, payload). run_chat_chunk c post (int (length chunk)) chunk payload) [] payloads io
                 in (bindE r (\<lambda>out. Inr (Some out)), log, io1))))"

fun stream_chunks ::
  "bool \<Rightarrow> ('c \<Rightarrow> 'w runner_io \<Rightarrow> 'w streamed) \<Rightarrow> cohort_results \<Rightarrow> 'c list \<Rightarrow> 'w runner_io \<Rightarrow> 'w streamed"
where
  "stream_chunks pool f out [] io = (Inr out, [], io)"
| "stream_chunks pool f out (x # xs) io =
     (case f x io of
        (Inr r, log1, io1) \<Rightarrow> (let (res, log2, io2) = stream_chunks pool f (dupdate out r) xs io1 in (res, log1 @ log2, io2))
      | (Inl e, log1, io1) \<Rightarrow>
          if pool then (let (_, log2, io2) = stream_chunks pool f out xs io1 in (Inl e, log1 @ log2, io2)) else (Inl e, log1, io1))"

definition run_many_completion_incremental ::
  "cohort_ctx \<Rightarrow> 'w post \<Rightarrow> 'w stream \<Rightarrow> bool \<Rightarrow> bool \<Rightarrow> inference_request list \<Rightarrow> 'w runner_io \<Rightarrow> 'w cohort_run"
where
  \<comment> \<open>\<open>deltas\<close>: pieces are published; \<open>cancelable\<close>: a cancel event is given\<close>
  "run_many_completion_incremental c post stream deltas cancelable reqs io =
     (let env = cc_env c; p = cc_profile c
      in if \<not> flag_env env ''DS4_PIPELINE_COHORT_COMPLETION_STREAMING'' True then (Inr None, [], io)
         else
           (case bindE (cancelable_cohort_minimum env ''DS4_PIPELINE_COMPLETION_COHORT_MIN'' cancelable) (\<lambda>least.
                   if int (length reqs) < least then Inr None else completion_plan c least reqs) of
              Inl e \<Rightarrow> (Inl e, [], io)
            | Inr None \<Rightarrow> (Inr None, [], io)
            | Inr (Some (parts, payloads)) \<Rightarrow>
                (let pool = (1 < completion_chunk_concurrency env p \<and> 1 < length payloads);
                     (r, log, io1) = stream_chunks pool (\<lambda>(chunk, payload).
                        run_completion_stream_chunk c post stream deltas (int (length chunk)) chunk (streaming payload)) [] payloads io;
                     (res, io2) = mark_if (1 < length parts) (planned_split_fields ''completion'' (int (length reqs)) (int (length parts))
                        (completion_effective_max_cohort env p) (completion_chunk_concurrency env p)) (r, io1)
                 in (res, log, io2))))"

section \<open>A node\<close>

record pipeline_runner =
  pr_base_urls :: "(string \<times> string) list"
  pr_default_base_url :: string
  pr_default_extra_body :: pydict

definition json_env :: "environ \<Rightarrow> string \<Rightarrow> pydict" where
  "json_env env name = (case env name of None \<Rightarrow> [] | Some raw \<Rightarrow> (case json_loads raw of Some (JObj d) \<Rightarrow> d | _ \<Rightarrow> []))"

definition pipeline_runner_init :: "environ \<Rightarrow> (string \<times> string) list \<Rightarrow> string option \<Rightarrow> pipeline_runner" where
  "pipeline_runner_init env base_urls default_base_url =
     \<lparr>pr_base_urls = foldl (\<lambda>d (k, v). dset k (rstrip_char (CHR ''/'') v) d) (map (\<lambda>(k, v). (k, rstrip_char (CHR ''/'') (py_str v))) (json_env env ''DS4_PIPELINE_BASE_URLS_JSON'')) base_urls,
      pr_default_base_url = rstrip_char (CHR ''/'') (text_of default_base_url (text_of (env ''DS4_PIPELINE_DEFAULT_BASE_URL'') '''')),
      pr_default_extra_body = json_env env ''DS4_PIPELINE_EXTRA_BODY_JSON''\<rparr>"

definition base_url :: "pipeline_runner \<Rightarrow> model_profile \<Rightarrow> string option \<Rightarrow> string result" where
  "base_url pr p node_id =
     (let service_id = dget (mp_routing p) ''pipeline_service_id'';
          keys = (if truthy service_id then [py_str service_id] else []) @ [mp_profile_id p, mp_model_id p] @
                 (case node_id of None \<Rightarrow> [] | Some n \<Rightarrow> if n = '''' then [] else [n]);
          url_of = (\<lambda>k. case map_of (pr_base_urls pr) k of None \<Rightarrow> '''' | Some u \<Rightarrow> u)
      in case find (\<lambda>k. url_of k \<noteq> '''') keys of
           Some k \<Rightarrow> Inr (rstrip_char (CHR ''/'') (url_of k))
         | None \<Rightarrow>
             if pr_default_base_url pr \<noteq> '''' then Inr (pr_default_base_url pr)
             else Inl (ValueError (''no pipeline base URL configured for profile '' @ repr_str (mp_profile_id p))))"

definition openai_runner :: "environ \<Rightarrow> string \<Rightarrow> pydict \<Rightarrow> runner" where
  "openai_runner env url extra_body =
     \<lparr>rn_base_url = rstrip_char (CHR ''/'') (if url \<noteq> '''' then url else text_of (env ''DS4_OPENAI_BASE_URL'') ''http://127.0.0.1:8000''),
      rn_chat_endpoint = ''/v1/chat/completions'', rn_chat_batch_endpoint = ''/v1/chat/completions/batch'', rn_completion_endpoint = ''/v1/completions'',
      rn_default_extra_body = extra_body\<rparr>"

definition runner_for :: "pipeline_runner \<Rightarrow> string option \<Rightarrow> cohort_ctx \<Rightarrow> cohort_ctx result" where
  "runner_for pr node_id c =
     bindE (base_url pr (cc_profile c) node_id) (\<lambda>url. Inr (c\<lparr>cc_runner := openai_runner (cc_env c) url (pr_default_extra_body pr)\<rparr>))"

fun run_each :: "(inference_request \<Rightarrow> 'w runner_io \<Rightarrow> pydict \<times> 'w runner_io) \<Rightarrow> cohort_results \<Rightarrow> inference_request list \<Rightarrow> 'w runner_io \<Rightarrow> cohort_results \<times> published list \<times> 'w runner_io" where
  \<comment> \<open>a pool of single calls\<close>
  "run_each f out [] io = (out, [], io)"
| "run_each f out (x # xs) io =
     (let (r, io1) = f x io; (out1, log, io2) = run_each f (dset (ir_request_id x) r out) xs io1
      in (out1, Published (ir_request_id x) r # log, io2))"

definition or_else :: "'w cohort_run \<Rightarrow> ('w runner_io \<Rightarrow> 'w cohort_run) \<Rightarrow> 'w cohort_run" where
  \<comment> \<open>the next way when this one does not apply\<close>
  "or_else r other = (case r of (Inr None, log0, io) \<Rightarrow> (let (r1, log1, io1) = other io in (r1, log0 @ log1, io1)) | _ \<Rightarrow> r)"

definition single_calls :: "cohort_ctx \<Rightarrow> 'w post \<Rightarrow> inference_request list \<Rightarrow> 'w runner_io \<Rightarrow> 'w cohort_run" where
  "single_calls c post reqs io = (let (out, log, io1) = run_each (run_one c post) [] reqs io in (Inr (Some out), log, io1))"

definition run_many_on_node ::
  "pipeline_runner \<Rightarrow> string option \<Rightarrow> cohort_ctx \<Rightarrow> 'w post \<Rightarrow> 'w stream \<Rightarrow> inference_request list \<Rightarrow> 'w runner_io \<Rightarrow> cohort_results result \<times> 'w runner_io"
where
  \<comment> \<open>the number of threads does not reach the results\<close>
  "run_many_on_node pr node_id c0 post stream reqs io =
     (if reqs = [] then (Inr [], io)
      else case runner_for pr node_id c0 of
        Inl e \<Rightarrow> (Inl e, io)
      | Inr c \<Rightarrow>
          (let chat = (if flag_env (cc_env c) ''DS4_PIPELINE_COHORT_CHAT_BATCH'' True then unpublished (run_many_chat c post stream reqs io) else (Inr None, [], io));
               (r, _, io1) = or_else chat (\<lambda>io. or_else
                 (if flag_env (cc_env c) ''DS4_PIPELINE_COHORT_COMPLETIONS'' True then unpublished (run_many_completion c post reqs io) else (Inr None, [], io))
                 (single_calls c post reqs))
           in (bindE r (\<lambda>o'. case o' of Some out \<Rightarrow> Inr out | None \<Rightarrow> Inr []), io1)))"

definition run_many_on_node_incremental ::
  "pipeline_runner \<Rightarrow> string option \<Rightarrow> cohort_ctx \<Rightarrow> 'w post \<Rightarrow> 'w stream \<Rightarrow> ('w \<Rightarrow> bool) option \<Rightarrow> bool \<Rightarrow> inference_request list \<Rightarrow> 'w runner_io \<Rightarrow> 'w streamed"
where
  \<comment> \<open>\<open>on_delta\<close>: a callback for pieces is given\<close>
  "run_many_on_node_incremental pr node_id c0 post stream cancel on_delta reqs io =
     (if reqs = [] then (Inr [], [], io)
      else case runner_for pr node_id c0 of
        Inl e \<Rightarrow> (Inl e, [], io)
      | Inr c \<Rightarrow>
          (let env = cc_env c; client = requests_need_client_stream reqs;
               chat = (if \<not> client \<and> flag_env env ''DS4_PIPELINE_COHORT_CHAT_BATCH'' True then run_many_chat_incremental c post stream cancel reqs io
                       else (Inr None, [], io));
               completions = (\<lambda>io.
                 if \<not> flag_env env ''DS4_PIPELINE_COHORT_COMPLETIONS'' True then (Inr None, [], io)
                 else (case (if client then Inr True else internal_stream_nonclient_cohort env (cancel \<noteq> None) reqs) of
                         Inl e \<Rightarrow> (Inl e, [], io)
                       | Inr internal \<Rightarrow>
                           or_else (if internal then run_many_completion_incremental c post stream (client \<and> on_delta) (cancel \<noteq> None) reqs io else (Inr None, [], io))
                             (\<lambda>io. then_published (run_many_completion c post reqs io))));
               (r, log, io1) = or_else chat (\<lambda>io. or_else (completions io) (single_calls c post reqs))
           in (bindE r (\<lambda>o'. case o' of Some out \<Rightarrow> Inr out | None \<Rightarrow> Inr []), log, io1)))"

end
