(* ===== verification/Node_Claims.thy ===== *)
theory Node_Claims
  imports Runner_Node
begin

text \<open>
  Every way to run requests on a node gives one result for each request: chat cohorts in shared or parallel
  calls, completion cohorts, single calls, and the choice between them.
\<close>

section \<open>Parallel members\<close>

declare never_def [simp]

lemma answers_dset:
  assumes "answers before out" and "distinct (map ir_request_id (before @ [x]))" and "has_transport r"
  shows "answers (before @ [x]) (dset (ir_request_id x) r out)"
proof -
  have "ir_request_id x \<notin> set (map fst out)" using assms(1,2) by (auto simp: answers_def simp del: list.map_comp)
  from dset_fresh [OF this] show ?thesis using assms by (simp add: answers_def)
qed

lemma parallel_chunk_answers:
  assumes "answers before out" and "distinct (map ir_request_id (before @ chunk))" and "\<And>x io. has_transport (fst (f x io))"
  shows "answers (before @ chunk) (fst (parallel_chunk wait never f chunk out io))"
  using assms(1,2)
proof (induction chunk arbitrary: before out io)
  case (Cons x chunk)
  obtain r io1 where r: "f x io = (r, io1)" by fastforce
  have "answers (before @ [x]) (dset (ir_request_id x) r out)"
    using Cons.prems assms(3) [of x io] r by (intro answers_dset) auto
  then have "answers ((before @ [x]) @ chunk) (fst (parallel_chunk wait never f chunk (dset (ir_request_id x) r out) io1))"
    using Cons.prems by (intro Cons.IH) auto
  then show ?case using r by (simp add: case_prod_unfold Let_def)
qed simp

lemma completion_parallel_chunks_answers:
  assumes "answers before out" and "distinct (map ir_request_id (before @ concat ss))" and "\<And>n x io. has_transport (fst (f n x io))"
  shows "answers (before @ concat ss) (fst (completion_parallel_chunks never f ss out io))"
  using assms(1,2)
proof (induction ss arbitrary: before out io)
  case (Cons s ss)
  have "answers (before @ s) (fst (parallel_chunk True never (f (int (length s))) s out io))"
    using Cons.prems assms(3) by (intro parallel_chunk_answers) auto
  then have "answers ((before @ s) @ concat ss) (fst (completion_parallel_chunks never f ss
      (fst (parallel_chunk True never (f (int (length s))) s out io)) (snd (snd (parallel_chunk True never (f (int (length s))) s out io)))))"
    using Cons.prems by (intro Cons.IH) auto
  then show ?case by (simp add: case_prod_unfold Let_def)
qed simp

lemma chat_parallel_chunks_answers:
  assumes "answers before out" and "distinct (map ir_request_id (before @ concat ss))" and "\<And>n x io. has_transport (fst (f n x io))"
  shows "answers (before @ concat ss) (fst (chat_parallel_chunks c never f ss out io))"
  using assms(1,2)
proof (induction ss arbitrary: before out io)
  case (Cons s ss)
  have "answers (before @ s) (fst (parallel_chunk False never (f (int (length s))) s out io))"
    using Cons.prems assms(3) by (intro parallel_chunk_answers) auto
  then have "answers ((before @ s) @ concat ss) (fst (chat_parallel_chunks c never f ss
      (fst (parallel_chunk False never (f (int (length s))) s out io)) (snd (snd (parallel_chunk False never (f (int (length s))) s out io)))))"
    using Cons.prems by (intro Cons.IH) auto
  then show ?case by (simp add: case_prod_unfold Let_def)
qed simp

lemma member_has_transport [simp]:
  "has_transport (member_result c req ep n extra extract answer)"
  "has_transport (parallel_completion_prompt_stream_result c req t n b)"
  "has_transport (chat_stream_result c req t n u)"
  by (simp_all add: member_result_def parallel_completion_prompt_stream_result_def chat_stream_result_def split: sum.split)

lemma chat_member_transport: "has_transport (fst (run_one_chat_parallel_member c post stream b n x io))"
  by (auto simp: run_one_chat_parallel_member_def Let_def run_parallel_chat_stream_def case_prod_unfold split: sum.split chat_stream_end.split)

lemma completion_member_transport: "has_transport (fst (run_one_chat_completion_parallel_member c post stream n x io))"
  by (auto simp: run_one_chat_completion_parallel_member_def Let_def completion_prompt_member_stream_def case_prod_unfold split: sum.split option.splits)

lemma run_one_transport: "has_transport (fst (run_one c post req io))"
  by (auto simp: run_one_def Let_def case_prod_unfold split: sum.split)

section \<open>Cohorts\<close>

lemma exact_None [simp]: "exact_answers reqs io (Inr None, io)" "exact_answers reqs io (Inl e, io)"
  by (simp_all add: exact_answers_def)

lemma run_parallel_exact:
  assumes "\<And>parts io. concat parts = reqs \<Longrightarrow> answers reqs (fst (run parts [] io))"
  shows "exact_answers reqs io (case run_parallel run kind c cancelable reqs io of (r, _, io') \<Rightarrow> (r, io'))"
proof (cases "parallel_plan c cancelable reqs")
  case (Inr po)
  note plan = Inr
  show ?thesis
  proof (cases po)
    case (Some parts)
    then have "concat parts = reqs" using plan by (auto simp: parallel_plan_def Let_def bindE_eq_Inr split: if_splits)
    obtain out log1 io1 where run: "run parts [] io = (out, log1, io1)" by (cases "run parts [] io")
    have "answers reqs out" using assms [OF \<open>concat parts = reqs\<close>, of io] run by simp
    then have "exact_answers reqs io (mark_if (1 < length parts) (parallel_marks kind c reqs parts) (Inr out, io1))"
      by (intro exact_answersI [OF mark_if_answers]) auto
    then show ?thesis using plan Some run by (simp add: run_parallel_def case_prod_unfold Let_def)
  qed (simp add: run_parallel_def plan)
qed (simp add: run_parallel_def)

lemma chat_plan_divides:
  assumes "chat_plan c f reqs = Inr (Some calls)"
  shows "concat (map fst calls) = reqs" and "list_all ir_chat reqs"
  using assms plan_chunks_Some [of f _ calls] by (auto simp: chat_plan_def Let_def bindE_eq_Inr split: if_splits)

lemma chat_calls_answer:
  assumes "chat_plan c f reqs = Inr (Some calls)" and "distinct (map ir_request_id reqs)"
    and "\<And>n s p io. s \<noteq> [] \<Longrightarrow> list_all ir_chat s \<Longrightarrow> distinct (map ir_request_id s) \<Longrightarrow> \<exists>out io'. run post n s p io = (Inr out, io') \<and> answers s out"
    and "\<And>n p io. \<exists>out io'. run post n [] p io = (Inr out, io') \<and> answers [] out"
  shows "\<exists>out io'. run_planned run c post calls io = (Inr out, io') \<and> answers reqs out"
proof -
  note div = chat_plan_divides [OF assms(1)]
  have "\<exists>out io'. run_planned run c post calls io = (Inr out, io') \<and> answers (concat (map fst calls)) out"
  proof (rule run_planned_answers)
    show "distinct (map ir_request_id (concat (map fst calls)))" using assms(2) div(1) by simp
    fix s p n and i :: "'a runner_io"
    assume sp: "(s, p) \<in> set calls"
    have "distinct (map ir_request_id s)" using distinct_parts [of ir_request_id "map fst calls" s] assms(2) div(1) sp by force
    moreover have "set s \<subseteq> set reqs" using sp div(1) by force
    then have "list_all ir_chat s" using div(2) by (auto simp: list_all_iff)
    ultimately show "\<exists>out io'. run post n s p i = (Inr out, io') \<and> answers s out" using assms(3,4) by (cases "s = []") auto
  qed
  then show ?thesis using div(1) by simp
qed

lemma chat_completion_chunk_answers:
  assumes "list_all ir_chat s" and "distinct (map ir_request_id s)"
  shows "\<exists>out io'. run_completion_chunk c post n s p io = (Inr out, io') \<and> answers s out"
proof (rule run_completion_chunk_answers [OF assms(2)])
  fix s' assume "s' \<noteq> []" "set s' \<subseteq> set s"
  moreover then have "list_all ir_chat s'" using assms(1) by (auto simp: list_all_iff)
  ultimately show "\<exists>q. sub_payload c s' = Inr q" using sub_payload_chat by blast
qed

lemma run_many_chat_as_completion_exact:
  assumes "distinct (map ir_request_id reqs)"
  shows "exact_answers reqs io (run_many_chat_as_completion c post reqs io)"
proof (cases "chat_plan c (coalesced_chat_completion_payload (cc_env c) (cc_tokenizer c) (cc_profile c) (rn_default_extra_body (cc_runner c))) reqs")
  case (Inr po)
  note plan = Inr
  show ?thesis
  proof (cases po)
    case (Some calls)
    have "\<exists>out io'. run_planned (run_completion_chunk c) c post calls io = (Inr out, io') \<and> answers reqs out"
      by (rule chat_calls_answer [OF plan [unfolded Some] assms])
        (use chat_completion_chunk_answers [of _ c post] in auto)
    then obtain out io' where run: "run_planned (run_completion_chunk c) c post calls io = (Inr out, io')" "answers reqs out" by blast
    obtain out1 where "mark_chat_as_completion out = Inr out1" "answers reqs out1"
      using mark_all_marks [OF run(2)] by (auto simp: mark_chat_as_completion_def)
    then show ?thesis
      using plan Some run(1) by (auto simp: run_many_chat_as_completion_def Let_def intro!: exact_answersI mark_if_answers)
  qed (simp add: run_many_chat_as_completion_def plan)
qed (simp add: run_many_chat_as_completion_def)

lemma run_many_chat_batch_exact:
  assumes "distinct (map ir_request_id reqs)"
  shows "exact_answers reqs io (run_many_chat_batch c post reqs io)"
proof (cases "chat_plan c (coalesced_chat_payload (cc_env c) (cc_profile c) (rn_default_extra_body (cc_runner c))) reqs")
  case (Inr po)
  note plan = Inr
  show ?thesis
  proof (cases po)
    case (Some calls)
    have "\<exists>out io'. run_planned (run_chat_chunk c) c post calls io = (Inr out, io') \<and> answers reqs out"
      by (rule chat_calls_answer [OF plan [unfolded Some] assms]) (use run_chat_chunk_answers [of _ c post] in auto)
    then show ?thesis using plan Some by (auto simp: run_many_chat_batch_def Let_def intro!: exact_answersI mark_if_answers)
  qed (simp add: run_many_chat_batch_def plan)
qed (simp add: run_many_chat_batch_def)

lemma run_many_chat_exact:
  assumes "distinct (map ir_request_id reqs)"
  shows "exact_answers reqs io (run_many_chat c post stream reqs io)"
proof -
  have none_yet: "answers [] []" by (simp add: answers_def)
  have "exact_answers reqs io (case run_many_chat_completion_parallel c post stream None reqs io of (r, _, io') \<Rightarrow> (r, io'))"
    unfolding run_many_chat_completion_parallel_def is_cancelled_def option.case
  proof (rule run_parallel_exact)
    fix parts and i :: "'a runner_io" assume "concat parts = reqs"
    with completion_parallel_chunks_answers [OF none_yet _ completion_member_transport, where ss = parts] assms
    show "answers reqs (fst (completion_parallel_chunks never (run_one_chat_completion_parallel_member c post stream) parts [] i))" by simp
  qed
  moreover have "exact_answers reqs io (case run_many_chat_parallel c post stream None reqs io of (r, _, io') \<Rightarrow> (r, io'))"
    unfolding run_many_chat_parallel_def is_cancelled_def option.case
  proof (rule run_parallel_exact)
    fix parts and i :: "'a runner_io" assume "concat parts = reqs"
    with chat_parallel_chunks_answers [OF none_yet _ chat_member_transport, where ss = parts] assms
    show "answers reqs (fst (chat_parallel_chunks c never (run_one_chat_parallel_member c post stream (None \<noteq> None)) parts [] i))" by simp
  qed
  ultimately show ?thesis
    using run_many_chat_as_completion_exact [OF assms] run_many_chat_batch_exact [OF assms] by (auto simp: run_many_chat_def Let_def)
qed

section \<open>A node\<close>

lemma run_each_answers:
  assumes "answers before out" and "distinct (map ir_request_id (before @ reqs))" and "\<And>x io. has_transport (fst (f x io))"
  shows "answers (before @ reqs) (fst (run_each f out reqs io))"
  using assms(1,2)
proof (induction reqs arbitrary: before out io)
  case (Cons x reqs)
  have "answers (before @ [x]) (dset (ir_request_id x) (fst (f x io)) out)"
    using Cons.prems assms(3) by (intro answers_dset) auto
  then have "answers ((before @ [x]) @ reqs) (fst (run_each f (dset (ir_request_id x) (fst (f x io)) out) reqs (snd (f x io))))"
    using Cons.prems by (intro Cons.IH) auto
  then show ?case by (simp add: case_prod_unfold Let_def)
qed simp

lemma single_calls_exact:
  assumes "distinct (map ir_request_id reqs)"
  shows "\<exists>out log' io'. single_calls c post reqs io = (Inr (Some out), log', io') \<and> mset (map fst out) = mset (map ir_request_id reqs)"
proof -
  have "answers ([] @ reqs) (fst (run_each (run_one c post) [] reqs io))"
    by (rule run_each_answers [OF _ _ run_one_transport]) (use assms in \<open>simp_all add: answers_def\<close>)
  then show ?thesis
    by (cases "run_each (run_one c post) [] reqs io") (simp add: single_calls_def answers_def del: mset_map)
qed

definition exact_run :: "inference_request list \<Rightarrow> 'w runner_io \<Rightarrow> 'w cohort_run \<Rightarrow> bool" where
  "exact_run reqs io r \<longleftrightarrow> exact_answers reqs io (fst r, snd (snd r))"

lemma exact_run_unpublished: "exact_answers reqs io r \<Longrightarrow> exact_run reqs io (unpublished r)"
  by (simp add: exact_run_def unpublished_def)

lemma exact_run_or_else:
  assumes "exact_run reqs io r" and "exact_run reqs io (other io)"
  shows "exact_run reqs io (or_else r other)"
proof -
  obtain res log' io' where r: "r = (res, log', io')" by (cases r)
  show ?thesis
  proof (cases "res = Inr None")
    case True
    then show ?thesis using assms r by (simp add: or_else_def exact_run_def exact_answers_def case_prod_unfold Let_def)
  qed (use assms(1) r in \<open>auto simp: or_else_def split: sum.split option.split\<close>)
qed

lemma or_else_decides: "(\<And>i. fst (other i) \<noteq> Inr None) \<Longrightarrow> fst (or_else r other) \<noteq> Inr None"
  by (cases r) (auto simp: or_else_def case_prod_unfold Let_def split: sum.split option.split)

definition node_answers :: "inference_request list \<Rightarrow> 'w runner_io \<Rightarrow> cohort_results result \<times> 'w runner_io \<Rightarrow> bool" where
  \<comment> \<open>one result for each request, or an exception before any call\<close>
  "node_answers reqs io r = (case r of (Inr out, _) \<Rightarrow> mset (map fst out) = mset (map ir_request_id reqs) | (Inl _, io') \<Rightarrow> io' = io)"

lemma node_answers_run:
  assumes "exact_run reqs io (r, log', io')" and "r \<noteq> Inr None"
  shows "node_answers reqs io (bindE r (\<lambda>o'. case o' of Some out \<Rightarrow> Inr out | None \<Rightarrow> Inr []), io')"
  using assms by (cases r) (auto simp: node_answers_def exact_run_def exact_answers_def split: option.splits)

text \<open>
  C9. A node answers every request exactly once.  For requests with distinct ids, whichever of the ways a node
  has to run them is taken, and whatever its server answers (errors, missing choices, choices out of range, chunks
  that have to be halved), the call gives one result for each request and no other; when it raises instead, it
  does so before the server is called.  The prefix of a generated cache plan must not be staged on its own, which is the default.
\<close>

theorem run_many_on_node_exact:
  assumes "distinct (map ir_request_id reqs)" and "no_auto_prestage (cc_env c0)"
  shows "node_answers reqs io (run_many_on_node pr node_id c0 post stream reqs io)"
proof (cases "reqs = []")
  case False
  note nonempty = False
  show ?thesis
  proof (cases "runner_for pr node_id c0")
    case (Inl e)
    then show ?thesis using nonempty by (simp add: run_many_on_node_def node_answers_def)
  next
    case (Inr c)
    then have env: "no_auto_prestage (cc_env c)" using assms(2) by (auto simp: runner_for_def bindE_eq_Inr)
    let ?chat = "if flag_env (cc_env c) ''DS4_PIPELINE_COHORT_CHAT_BATCH'' True then unpublished (run_many_chat c post stream reqs io) else (Inr None, [], io)"
    let ?comp = "\<lambda>io. if flag_env (cc_env c) ''DS4_PIPELINE_COHORT_COMPLETIONS'' True then unpublished (run_many_completion c post reqs io) else (Inr None, [], io)"
    let ?rest = "\<lambda>io. or_else (?comp io) (single_calls c post reqs)"
    have one: "exact_run reqs io (single_calls c post reqs io)"
      using single_calls_exact [OF assms(1), of c post io] by (auto simp: exact_run_def exact_answers_def)
    have comp: "exact_run reqs io (?comp io)"
      using exact_run_unpublished [OF run_many_completion_exact [OF assms(1) env]] by (auto simp: exact_run_def)
    have chat: "exact_run reqs io ?chat"
      using exact_run_unpublished [OF run_many_chat_exact [OF assms(1)]] by (auto simp: exact_run_def)
    have all: "exact_run reqs io (or_else ?chat ?rest)"
      by (rule exact_run_or_else [OF chat], rule exact_run_or_else [OF comp], rule one)
    have "fst (single_calls c post reqs i) \<noteq> Inr None" for i :: "'a runner_io" using single_calls_exact [OF assms(1), of c post i] by auto
    then have "fst (or_else ?chat ?rest) \<noteq> Inr None" by (intro or_else_decides)
    then show ?thesis
      using nonempty Inr all by (cases "or_else ?chat ?rest") (simp add: run_many_on_node_def Let_def node_answers_run)
  qed
qed (simp add: run_many_on_node_def node_answers_def)

text \<open>A server that refuses shared calls: the cohort of two is halved, and both are answered.\<close>

definition plain_request :: "string \<Rightarrow> inference_request" where
  "plain_request k = \<lparr>ir_request_id = k, ir_capability = JNull, ir_chat = False, ir_immediate = False, ir_priority = None, ir_job_class = ''analysis'',
     ir_max_output_tokens = 8, ir_thinking_budget_tokens = 0, ir_temperature = 0, ir_input = [(''prompt'', JStr k)], ir_output_contract = [],
     ir_model_pin = JNull, ir_raw = []\<rparr>"

definition plain_ctx :: cohort_ctx where
  "plain_ctx = \<lparr>cc_env = (\<lambda>_. None), cc_tokenizer = (\<lambda>_ _ _. None), cc_profile = demo_profile, cc_runner = openai_runner (\<lambda>_. None) ''http://n'' [],
     cc_now = 0, cc_dur = 0\<rparr>"

definition small_server :: "nat post" where
  "small_server w endpoint payload =
     (case dget payload ''prompt'' of
        JArr [JStr s] \<Rightarrow> Responded [(''choices'', JArr [JObj [(''text'', JStr (''re: '' @ s))]])]
      | _ \<Rightarrow> Raised_Runtime ''HTTP 413: too large'', Suc w)"

definition no_stream :: "'w stream" where
  "no_stream w endpoint payload = (\<lparr>sr_events = [], sr_raised = None, sr_cancelled = False\<rparr>, w)"

definition plain_io :: "nat runner_io" where
  "plain_io = \<lparr>io_circuit = None, io_disabled = [], io_world = 0\<rparr>"

definition plain_runner :: pipeline_runner where
  "plain_runner = \<lparr>pr_base_urls = [(''m'', ''http://n'')], pr_default_base_url = '''', pr_default_extra_body = []\<rparr>"

theorem run_many_on_node_exact_witness:
  "node_answers [plain_request ''a'', plain_request ''b''] plain_io
     (run_many_on_node plain_runner None plain_ctx small_server no_stream [plain_request ''a'', plain_request ''b''] plain_io)"
  by (rule run_many_on_node_exact) (simp_all add: plain_request_def plain_ctx_def no_auto_prestage_def flag_env_def)

text \<open>
  A cohort of chat requests that is sent as completions is never halved: the payload of a half is built as for
  completions, and that refuses chat requests.  A call that was too large fails for all of them.
\<close>

lemma chat_chunk_never_split:
  assumes "list_all ir_chat chunk" and "chunk \<noteq> []" and "completion_attempt c post original chunk payload io = (Inl e, io1)"
  shows "run_completion_chunk c post original chunk payload io = (Inr (chunk_failures c (rn_completion_endpoint (cc_runner c)) e chunk), io1)"
proof (cases "should_bisect c chunk e")
  case True
  then have "take (midpoint chunk) chunk \<noteq> []" using assms(2) by (simp add: midpoint_def)
  moreover have "list_all ir_chat (take (midpoint chunk) chunk)" using assms(1) by (metis append_take_drop_id list_all_append)
  ultimately have "sub_payload c (take (midpoint chunk) chunk) = Inr None" by (rule sub_payload_chat)
  then show ?thesis
    using True assms(2,3) by (simp add: run_completion_chunk.simps [of c post original chunk] finish_split_def)
qed (simp add: run_completion_chunk.simps [of c post original chunk] assms(3))

text \<open>
  What a streamed chunk publishes: one result for each request, the one it returns; and the events that a
  server writes are the events that are read.
\<close>

section \<open>A chunk that is not halved\<close>

definition results_in :: "published list \<Rightarrow> cohort_results" where
  "results_in entries = concat (map (\<lambda>p. case p of Published k r \<Rightarrow> [(k, r)] | Delta _ _ _ \<Rightarrow> []) entries)"

lemma results_in_simps [simp]:
  "results_in [] = []" "results_in (Published k r # ps) = (k, r) # results_in ps" "results_in (Delta k s d # ps) = results_in ps"
  "results_in (ps @ qs) = results_in ps @ results_in qs"
  by (simp_all add: results_in_def)

definition stream_ok :: "inference_request list \<Rightarrow> chunk_stream \<Rightarrow> bool" where
  "stream_ok chunk st \<longleftrightarrow> distinct (cs_done st) \<and> (\<forall>i \<in> set (cs_done st). i < length chunk) \<and>
     map fst (cs_out st) = map (\<lambda>i. ir_request_id (chunk ! i)) (cs_done st) \<and> results_in (cs_log st) = cs_out st"

lemma fresh_stream_ok: "stream_ok chunk (fresh_stream chunk)"
  by (simp add: stream_ok_def fresh_stream_def)

lemma settle_ok:
  assumes "stream_ok chunk st" and "distinct (map ir_request_id chunk)" and "i < length chunk" and "i \<notin> set (cs_done st)"
  shows "stream_ok chunk (settle chunk i r st)"
proof -
  have "ir_request_id (chunk ! j) \<noteq> ir_request_id (chunk ! i)" if "j \<in> set (cs_done st)" for j
    using assms that by (auto simp: stream_ok_def distinct_conv_nth)
  moreover have "set (map fst (cs_out st)) = (\<lambda>j. ir_request_id (chunk ! j)) ` set (cs_done st)"
    using assms(1) by (metis stream_ok_def list.set_map)
  ultimately have "ir_request_id (chunk ! i) \<notin> set (map fst (cs_out st))" by force
  from dset_fresh [OF this] show ?thesis using assms by (auto simp: stream_ok_def settle_def Let_def)
qed

lemma stream_ok_fields [simp]:
  "stream_ok chunk (st\<lparr>cs_texts := t\<rparr>) = stream_ok chunk st"
  "stream_ok chunk (st\<lparr>cs_texts := t, cs_log := cs_log st @ [Delta k s d]\<rparr>) = stream_ok chunk st"
  by (simp_all add: stream_ok_def)

lemma stream_choice_ok:
  assumes "stream_ok chunk st" and "distinct (map ir_request_id chunk)"
  shows "stream_ok chunk (stream_choice c chunk info suppressed deltas st choice)"
proof -
  let ?index = "completion_choice_index choice (int (length (cs_done st)))"
  show ?thesis
  proof (cases "?index < 0 \<or> int (length chunk) \<le> ?index \<or> nat ?index \<in> set (cs_done st)")
    case False
    then have "nat ?index < length chunk" "nat ?index \<notin> set (cs_done st)" by auto
    then show ?thesis using assms False by (auto simp: stream_choice_def Let_def intro!: settle_ok split: option.split)
  qed (use assms in \<open>auto simp: stream_choice_def Let_def\<close>)
qed

lemma chunk_events_ok:
  assumes "stream_ok chunk st" and "\<And>st d. stream_ok chunk st \<Longrightarrow> stream_ok chunk (step st d)"
  shows "stream_ok chunk (fst (chunk_events step n timeout es raised st))"
  using assms(1)
proof (induction es arbitrary: st)
  case (Cons e es)
  obtain event cancelled late where e: "e = (event, cancelled, late)" by (cases e)
  have step: "stream_ok chunk (foldl step st ds)" for ds by (rule foldl_invariant) (use assms(2) Cons.prems in auto)
  show ?case using Cons step e by (auto simp: Let_def split: sum.split json.split)
qed simp

lemma stream_attempt_ok:
  assumes "distinct (map ir_request_id chunk)"
  shows "stream_ok chunk (fst (fst (stream_attempt c post stream deltas chunk payload io)))"
  unfolding stream_attempt_def Let_def
  by (auto simp: fresh_stream_ok case_prod_unfold split: sum.split intro!: chunk_events_ok stream_choice_ok assms)

lemma settle_rest_ok:
  assumes "stream_ok chunk st" and "distinct (map ir_request_id chunk)"
  shows "stream_ok chunk (settle_rest result chunk st) \<and> set (cs_done (settle_rest result chunk st)) = {..<length chunk}"
proof -
  let ?step = "\<lambda>st i. if i \<in> set (cs_done st) then st else settle chunk i (result i) st"
  have "stream_ok chunk (foldl ?step st [0..<k]) \<and> {..<k} \<subseteq> set (cs_done (foldl ?step st [0..<k]))" if "k \<le> length chunk" for k
    using that
  proof (induction k)
    case (Suc k)
    then have IH: "stream_ok chunk (foldl ?step st [0..<k])" "{..<k} \<subseteq> set (cs_done (foldl ?step st [0..<k]))" by auto
    have done_: "set (cs_done (settle chunk k r s)) = insert k (set (cs_done s))" for r s by (simp add: settle_def Let_def)
    show ?case using IH settle_ok [OF IH(1) assms(2)] Suc.prems by (auto simp: done_ lessThan_Suc)
  qed (use assms(1) in simp)
  then have "stream_ok chunk (settle_rest result chunk st)" "{..<length chunk} \<subseteq> set (cs_done (settle_rest result chunk st))"
    by (auto simp: settle_rest_def)
  then show ?thesis by (auto simp: stream_ok_def)
qed

lemma all_published:
  assumes "stream_ok chunk st" and "set (cs_done st) = {..<length chunk}"
  shows "results_in (cs_log st) = cs_out st \<and> mset (map fst (cs_out st)) = mset (map ir_request_id chunk)"
proof -
  have "mset (cs_done st) = mset [0..<length chunk]"
  proof (rule iffD1 [OF set_eq_iff_mset_eq_distinct])
    show "distinct (cs_done st)" using assms(1) by (simp add: stream_ok_def)
    show "set (cs_done st) = set [0..<length chunk]" using assms(2) by (simp add: atLeast0LessThan)
  qed simp
  then have "mset (map (\<lambda>i. ir_request_id (chunk ! i)) (cs_done st)) = mset (map (\<lambda>i. ir_request_id (chunk ! i)) [0..<length chunk])"
    by (metis mset_map)
  also have "map (\<lambda>i. ir_request_id (chunk ! i)) [0..<length chunk] = map ir_request_id chunk"
    by (rule nth_equalityI) simp_all
  finally show ?thesis using assms(1) by (simp add: stream_ok_def del: mset_map)
qed

definition published_once :: "inference_request list \<Rightarrow> 'w streamed \<Rightarrow> bool" where
  "published_once reqs r = (case r of
     (Inr out, entries, _) \<Rightarrow> results_in entries = out \<and> mset (map fst out) = mset (map ir_request_id reqs)
   | (Inl _, _, _) \<Rightarrow> False)"



text \<open>
  A chunk that is halved after some of its results were published publishes them again: here the request that
  was answered before the stream broke gets a second, different answer.
\<close>

definition breaking_stream :: "nat stream" where
  "breaking_stream w endpoint payload =
     (\<lparr>sr_events = [(JObj [(''choices'', JArr [JObj [(''index'', JInt 0), (''text'', JStr (if w = 0 then ''x'' else ''y'')), (''finish_reason'', JStr ''stop'')]])], False, False)],
        sr_raised = (if w = 0 then Some ''HTTP 413: too large'' else None), sr_cancelled = False\<rparr>, Suc w)"

definition answer_of :: "published \<Rightarrow> string \<times> json" where
  "answer_of p = (case p of Published k r \<Rightarrow> (k, dget (obj_or_empty (dget r ''output'')) ''text'') | Delta k s _ \<Rightarrow> (k, JStr s))"

lemma halved_stream_publishes_twice:
  "map answer_of (fst (snd (run_completion_stream_chunk plain_ctx small_server breaking_stream False 2 [plain_request ''a'', plain_request ''b''] [] plain_io))) =
     [(''a'', JStr ''x''), (''a'', JStr ''y''), (''b'', JStr ''y'')]"
  by code_simp

end
