(* ===== verification/Api_Request.thy ===== *)
theory Api_Request
  imports Runner_Payload Kv_Memory Queue_Submit
begin

text \<open>
  The requests that \<^verbatim>\<open>ds4_infer/api.py\<close> makes of the bodies it is sent: sampling fields and KV
  cache directives, the budget of the model's context window, and the inference request with its checks.
\<close>

section \<open>Values of a body\<close>

definition optional_str :: "json \<Rightarrow> string option" where
  "optional_str v = (case v of JNull \<Rightarrow> None | _ \<Rightarrow> Some (py_str v))"

definition optional_int :: "json \<Rightarrow> int option result" where
  "optional_int v = (case v of JNull \<Rightarrow> Inr None | _ \<Rightarrow> bindE (py_int v) (\<lambda>i. Inr (Some i)))"

definition optional_rat :: "json \<Rightarrow> rat option result" where
  \<comment> \<open>\<^verbatim>\<open>float(v) if v is not None else None\<close>\<close>
  "optional_rat v = (case v of JNull \<Rightarrow> Inr None | _ \<Rightarrow> bindE (py_float v) (\<lambda>r. Inr (Some r)))"

definition int_or_default :: "json \<Rightarrow> int \<Rightarrow> int result" where
  \<comment> \<open>\<^verbatim>\<open>int(v or d)\<close>\<close>
  "int_or_default v d = py_int (por v (JInt d))"

definition json_equal :: "json \<Rightarrow> json \<Rightarrow> bool" where
  \<comment> \<open>\<^verbatim>\<open>a == b\<close>\<close>
  "json_equal a b \<longleftrightarrow> canon (number_values a) = canon (number_values b)"

definition dict_or_empty :: "json \<Rightarrow> pydict result" where
  \<comment> \<open>\<^verbatim>\<open>dict(v or {})\<close>\<close>
  "dict_or_empty v = py_dict (por v (JObj []))"

section \<open>Where the text of a KV entry came from\<close>

definition is_int :: "json \<Rightarrow> bool" where
  "is_int v = (case v of JInt _ \<Rightarrow> True | JBool _ \<Rightarrow> True | _ \<Rightarrow> False)"

definition first_prompt :: "pydict \<Rightarrow> string" where
  \<comment> \<open>the rendered prompt, else the prompt; empty when neither is a text\<close>
  "first_prompt inp =
     (case dget inp ''rendered_prompt'' of
        JStr s \<Rightarrow> if s \<noteq> '''' then s else str_or_empty (dget inp ''prompt'')
      | _ \<Rightarrow> str_or_empty (dget inp ''prompt''))"

definition sha256_str :: "string \<Rightarrow> json" where
  "sha256_str s = JStr (''sha256:'' @ sha256_hex s)"

definition kv_source_provenance :: "pydict \<Rightarrow> pydict result" where
  "kv_source_provenance inp =
     (let prompt = first_prompt inp
      in if prompt = '''' then Inr []
         else
           bindE (if dget inp ''estimated_prompt_tokens'' = JNull then Inr []
                  else bindE (int_or_default (dget inp ''estimated_prompt_tokens'') 0) (\<lambda>n. Inr [(''estimated_prompt_tokens'', JInt n)])) (\<lambda>estimate.
             Inr ([(''format'', JStr ''ds4-kv-source-provenance-v1''),
                   (''source_type'', JStr (if dget inp ''rendered_prompt'' = JStr prompt then ''rendered_prompt'' else ''prompt'')),
                   (''prompt_sha256'', sha256_str prompt), (''prompt_bytes'', JInt (int (length prompt))), (''prompt_text'', JStr prompt)] @ estimate @
                  (case dget inp ''original_tokens'' of
                     JArr ids \<Rightarrow>
                       if list_all is_int ids
                       then [(''original_tokens'', JArr ids), (''original_token_count'', JInt (int (length ids))),
                             (''original_tokens_sha256'', sha256_str (dumps_compact (JArr ids)))]
                       else []
                   | _ \<Rightarrow> []))))"

definition plan_with_source_provenance :: "pydict \<Rightarrow> pydict \<Rightarrow> pydict result" where
  "plan_with_source_provenance plan inp =
     bindE (kv_source_provenance inp) (\<lambda>source. Inr (if source \<noteq> [] then dset ''source_provenance'' (JObj source) plan else plan))"

section \<open>External KV entries\<close>

definition external_service :: "spark_topology \<Rightarrow> model_profile \<Rightarrow> string option \<Rightarrow> string option \<times> pipeline_service option" where
  "external_service topo p service_id =
     (case service_id of
        None \<Rightarrow> (let sv = pipeline_service_for_profile topo (mp_profile_id p) in (map_option sv_service_id sv, sv))
      | Some sid \<Rightarrow> (Some sid, case pipeline_service_by_id topo sid of Inr sv \<Rightarrow> Some sv | Inl _ \<Rightarrow> None))"

definition with_contract :: "pipeline_service option \<Rightarrow> pydict \<Rightarrow> pydict" where
  "with_contract sv d =
     (case sv of
        None \<Rightarrow> d
      | Some s \<Rightarrow> setdefault ''layer_partition_fingerprint'' (JStr (layer_partition_fingerprint s)) (setdefault ''kv_cache_contract'' (JObj (kv_cache_contract s)) d))"

definition opt_field :: "pydict \<Rightarrow> string \<Rightarrow> pydict" where
  \<comment> \<open>the field as a text when it is given\<close>
  "opt_field raw k = (if dget raw k = JNull then [] else [(k, JStr (py_str (dget raw k)))])"

definition external_kv_plan :: "pydict \<Rightarrow> model_profile \<Rightarrow> spark_topology \<Rightarrow> pydict \<Rightarrow> pydict result" where
  "external_kv_plan raw p topo source_input =
     (let kv_key = py_str (por (dget raw ''kv_key'') (JStr '''')); namespace = str_or raw ''namespace'' ''default'';
          (service_id, sv) = external_service topo p (optional_str (dget raw ''service_id''))
      in if kv_key = '''' then Inl (ValueError ''external_kv shorthand requires kv_key'')
         else
           bindE (dict_or_empty (dget raw ''model_fingerprint'')) (\<lambda>fingerprint0.
             let fingerprint = with_contract sv fingerprint0;
                 at_manifest = (\<lambda>mode. [(''mode'', JStr mode), (''transport'', JStr ''external_manifest''), (''namespace'', JStr namespace),
                                        (''kv_key'', JStr kv_key), (''service_id'', jopt service_id)]);
                 load_mode = py_str (por (por (dget raw ''mode'') (dget raw ''load_mode'')) (JStr ''prefer''));
                 load = at_manifest load_mode @ opt_field raw ''lease_id'' @ opt_field raw ''content_hash'';
                 miss_policy = str_or raw ''miss_policy'' ''compute'';
                 given = py_str (por (por (dget raw ''store_mode'') (dget raw ''store_policy'')) (JStr ''''));
                 store_mode = (if given \<noteq> '''' then given else if miss_policy = ''compute_and_store'' then ''write_back'' else ''skip'');
                 store = (if store_mode = ''skip'' then [(''mode'', JStr ''skip''), (''transport'', JStr ''none'')] else at_manifest store_mode);
                 operation = (if load_mode \<noteq> ''skip'' \<and> store_mode \<noteq> ''skip'' then ''load_store'' else if store_mode \<noteq> ''skip'' then ''store'' else ''load'');
                 plan = [(''format'', JStr ''ds4-kv-cache-plan-v1''), (''backend'', JStr (str_or raw ''backend'' ''auto'')), (''cache_id'', JStr kv_key),
                         (''prefix_hash'', jopt (optional_str (dget raw ''prefix_hash''))), (''load'', JObj load), (''store'', JObj store),
                         (''miss_policy'', JStr miss_policy), (''route_affinity'', JStr (str_or raw ''route_affinity'' ''required'')),
                         (''model_fingerprint'', JObj fingerprint), (''operation'', JStr operation)]
             in plan_with_source_provenance (plan @ [(''batch_key_hash'', JStr (sha256_json plan))]) source_input))"

section \<open>The input of a request\<close>

definition given_fields :: "pydict \<Rightarrow> pydict" where
  "given_fields d = concat (map (\<lambda>k. if dget d k \<noteq> JNull then [(k, dget d k)] else []) openai_request_fields)"

definition merged_into :: "string \<Rightarrow> pydict \<Rightarrow> pydict \<Rightarrow> pydict result" where
  \<comment> \<open>\<^verbatim>\<open>out[k] = {**dict(out.get(k) or {}), **d}\<close>, unless \<open>d\<close> is empty\<close>
  "merged_into k d out =
     (if d = [] then Inr out else bindE (dict_or_empty (dget out k)) (\<lambda>old. Inr (dset k (JObj (dupdate old d)) out)))"

definition with_kv :: "environ \<Rightarrow> pydict \<Rightarrow> model_profile \<Rightarrow> spark_topology \<Rightarrow> pydict \<Rightarrow> pydict result" where
  \<comment> \<open>the KV cache part of a body\<close>
  "with_kv env body p topo out =
     (let kv = dget body ''kv_cache''; ext = dget body ''external_kv''
      in if kv \<noteq> JNull \<and> ext \<noteq> JNull \<and> \<not> json_equal kv ext then Inl (ValueError ''provide only one of kv_cache or external_kv'')
         else
           (case (if kv \<noteq> JNull then kv else ext) of
              JNull \<Rightarrow> Inr out
            | JObj raw \<Rightarrow>
                if dget raw ''format'' = JStr ''ds4-kv-cache-plan-v1''
                then bindE (plan_with_source_provenance raw out) (\<lambda>plan. Inr (dset ''kv_cache_plan'' (JObj plan) out))
                else if dget raw ''format'' = JStr ''ds4-kv-cache-directive-v1'' \<or> kv \<noteq> JNull
                then
                  (let directive = setdefault ''format'' (JStr ''ds4-kv-cache-directive-v1'') raw; out1 = dset ''kv_cache'' (JObj directive) out
                   in bindE (normalize_kv_cache_directive env (JObj directive)) (\<lambda>plan0.
                      bindE (plan_with_source_provenance plan0 out1) (\<lambda>plan. Inr (dset ''kv_cache_plan'' (JObj plan) out1))))
                else
                  (let out1 = dset ''external_kv'' (JObj raw) out
                   in bindE (external_kv_plan raw p topo out1) (\<lambda>plan.
                      let out2 = dset ''kv_cache_key'' (JStr (py_str (dget raw ''kv_key''))) (dset ''kv_cache_plan'' (JObj plan) out1)
                      in if dget raw ''total_bytes'' = JNull \<and> dget raw ''bytes'' = JNull then Inr out2
                         else bindE (int_or_default (por (dget raw ''total_bytes'') (dget raw ''bytes'')) 0) (\<lambda>n.
                                Inr (dset ''kv_bytes_estimate'' (JInt n) out2))))
            | _ \<Rightarrow> Inl (ValueError ''kv_cache/external_kv must be an object'')))"

definition input_with_api_kv :: "environ \<Rightarrow> pydict \<Rightarrow> pydict \<Rightarrow> model_profile \<Rightarrow> spark_topology \<Rightarrow> pydict result" where
  "input_with_api_kv env input_payload body p topo =
     (let extra = obj_or_empty (dget body ''extra_body'');
          openai = dupdate (given_fields body) (given_fields extra);
          preserved = filter (\<lambda>(k, _). k \<noteq> ''ds4_async'' \<and> k \<notin> set openai_request_fields) extra
      in bindE (merged_into ''openai'' openai input_payload) (\<lambda>out1.
         bindE (merged_into ''openai_extra_body'' preserved out1) (\<lambda>out2.
           with_kv env body p topo out2)))"

definition prepare_queue_request_json :: "environ \<Rightarrow> json \<Rightarrow> pydict result" where
  "prepare_queue_request_json env item =
     (case item of
        JObj raw \<Rightarrow>
          (case dget raw ''input'' of
             JObj inp \<Rightarrow>
               (case dget inp ''kv_cache'' of
                  JObj directive \<Rightarrow>
                    bindE (normalize_kv_cache_directive env (JObj directive)) (\<lambda>plan.
                      if dget inp ''kv_cache_plan'' \<noteq> JNull \<and> \<not> json_equal (dget inp ''kv_cache_plan'') (JObj plan)
                      then Inl (ValueError ''input.kv_cache_plan conflicts with input.kv_cache'')
                      else
                        bindE (plan_with_source_provenance plan inp) (\<lambda>plan1.
                          let out1 = dset ''kv_cache_plan'' (JObj plan1) inp; key = por (dget plan ''cache_id'') (dget plan ''prefix_hash'');
                              out2 = (if truthy key \<and> dget out1 ''kv_cache_key'' = JNull then dset ''kv_cache_key'' (JStr (py_str key)) out1 else out1);
                              sizes = concat (map (\<lambda>k. case dget plan k of JObj e \<Rightarrow> if dget e ''bytes'' \<noteq> JNull then [dget e ''bytes''] else [] | _ \<Rightarrow> []) [''load'', ''store''])
                          in case sizes of
                               n # _ \<Rightarrow>
                                 if dget out2 ''kv_bytes_estimate'' \<noteq> JNull then Inr (dset ''input'' (JObj out2) raw)
                                 else bindE (int_or_default n 0) (\<lambda>i. Inr (dset ''input'' (JObj (dset ''kv_bytes_estimate'' (JInt i) out2)) raw))
                             | [] \<Rightarrow> Inr (dset ''input'' (JObj out2) raw)))
                | _ \<Rightarrow>
                    (case dget inp ''kv_cache_plan'' of
                       JObj plan \<Rightarrow> bindE (plan_with_source_provenance plan inp) (\<lambda>plan1.
                                      Inr (dset ''input'' (JObj (dset ''kv_cache_plan'' (JObj plan1) inp)) raw))
                     | _ \<Rightarrow> Inr (dset ''input'' (JObj inp) raw)))
           | _ \<Rightarrow> Inr raw)
      | _ \<Rightarrow> Inl (ValueError ''queue request must be an object''))"

end
