(* ===== verification/Api_Budget.thy ===== *)
theory Api_Budget
  imports Api_Request
begin

text \<open>
  How \<^verbatim>\<open>ds4_infer/api.py\<close> fits a request into the context window of its model: the bound of
  the answer, the truncation of the prompt, the limit of what may be generated from a large prompt, and
  the inference request that results.
\<close>

section \<open>The numbers\<close>

definition clipped_env :: "environ \<Rightarrow> string \<Rightarrow> int \<Rightarrow> int result" where
  \<comment> \<open>\<^verbatim>\<open>max(0, _env_int(name, d))\<close>\<close>
  "clipped_env env name d = bindE (env_int env name d) (\<lambda>n. Inr (max 0 n))"

definition large_context_prompt_threshold_tokens :: "environ \<Rightarrow> int result" where
  "large_context_prompt_threshold_tokens env = clipped_env env ''DS4_API_LARGE_CONTEXT_PROMPT_TOKENS'' 65536"

definition large_context_generation_budget_tokens :: "environ \<Rightarrow> int result" where
  "large_context_generation_budget_tokens env = clipped_env env ''DS4_API_LARGE_CONTEXT_GENERATION_BUDGET_TOKENS'' 8192"

definition context_safety_tokens :: "environ \<Rightarrow> int result" where
  "context_safety_tokens env = clipped_env env ''DS4_API_CONTEXT_SAFETY_TOKENS'' 64"

definition profile_context_window_tokens :: "model_profile \<Rightarrow> int result" where
  "profile_context_window_tokens p =
     (case filter (\<lambda>v. v \<noteq> JNull) (map (\<lambda>c. dget c ''max_model_len'') [mp_performance p, mp_routing p]) of
        v # _ \<Rightarrow> bindE (py_int v) (\<lambda>n. Inr (max 1 n))
      | [] \<Rightarrow> Inr 32768)"

definition estimated_prompt_tokens :: "pydict \<Rightarrow> int option result" where
  "estimated_prompt_tokens inp =
     (if dget inp ''estimated_prompt_tokens'' \<noteq> JNull
      then bindE (py_int (dget inp ''estimated_prompt_tokens'')) (\<lambda>n. Inr (Some (max 0 n)))
      else Inr (if first_prompt inp = '''' then None else Some (max 1 (int (length (first_prompt inp)) div 4))))"

definition thinking_fields :: "pydict \<Rightarrow> pydict \<Rightarrow> json list" where
  \<comment> \<open>the values given for a thinking budget, in the order of their rank\<close>
  "thinking_fields body metadata =
     filter (\<lambda>v. v \<noteq> JNull)
       (concat (map (\<lambda>c. map (dget c) [''thinking_budget_tokens'', ''thinking_token_budget'']) [body, obj_or_empty (dget body ''extra_body''), metadata]))"

definition thinking_budget_tokens :: "pydict \<Rightarrow> pydict \<Rightarrow> int result" where
  "thinking_budget_tokens body metadata =
     (case thinking_fields body metadata of [] \<Rightarrow> Inr 0 | v # _ \<Rightarrow> bindE (py_int v) (\<lambda>n. Inr (max 0 n)))"

definition context_bounded_output_tokens :: "environ \<Rightarrow> model_profile \<Rightarrow> int \<Rightarrow> int \<Rightarrow> int result" where
  "context_bounded_output_tokens env p max_output thinking =
     bindE (profile_context_window_tokens p) (\<lambda>limit.
     bindE (context_safety_tokens env) (\<lambda>safety.
       let requested = max 1 max_output; available = limit - max 0 thinking - safety
       in Inr (if available \<le> 1 then 1 else min requested (available - 1))))"

section \<open>The budget of the prompt\<close>

definition truncated_to :: "int option \<Rightarrow> int \<Rightarrow> int" where
  \<comment> \<open>the bound of the prompt: the given one if it is smaller\<close>
  "truncated_to given budget = (case given of Some n \<Rightarrow> max 1 (min n budget) | None \<Rightarrow> budget)"

definition context_budget :: "int \<Rightarrow> int \<Rightarrow> int \<Rightarrow> int option \<Rightarrow> int \<Rightarrow> int \<Rightarrow> int \<Rightarrow> json \<Rightarrow> pydict" where
  "context_budget limit safety prompt_budget estimate max_output requested thinking truncation =
     [(''format'', JStr ''ds4-context-budget-v1''), (''max_model_len'', JInt limit), (''safety_tokens'', JInt safety),
      (''prompt_budget_tokens'', JInt prompt_budget), (''estimated_prompt_tokens'', jint estimate), (''max_output_tokens'', JInt max_output),
      (''requested_max_output_tokens'', JInt requested), (''thinking_budget_tokens'', JInt thinking), (''truncate_prompt_tokens'', truncation)]"

definition apply_profile_context_budget :: "environ \<Rightarrow> pydict \<Rightarrow> model_profile \<Rightarrow> int \<Rightarrow> int \<Rightarrow> int option \<Rightarrow> pydict result" where
  "apply_profile_context_budget env inp p max_output0 thinking0 requested0 =
     bindE (profile_context_window_tokens p) (\<lambda>limit.
     bindE (context_safety_tokens env) (\<lambda>safety.
     bindE (estimated_prompt_tokens inp) (\<lambda>estimate.
     bindE (dict_or_empty (dget inp ''openai'')) (\<lambda>openai.
     bindE (optional_int (dget openai ''truncate_prompt_tokens'')) (\<lambda>given.
       let max_output = max 1 max_output0; thinking = max 0 thinking0;
           prompt_budget = max 1 (limit - max_output - thinking - safety);
           too_long = (case estimate of None \<Rightarrow> False | Some n \<Rightarrow> n + max_output + thinking + safety > limit);
           openai1 = (if too_long then dset ''truncate_prompt_tokens'' (JInt (truncated_to given prompt_budget)) openai else openai);
           out = (if too_long then dset ''openai'' (JObj openai1) inp else inp);
           requested = (case requested0 of Some n \<Rightarrow> max 1 n | None \<Rightarrow> max_output)
       in if too_long \<or> requested \<noteq> max_output
          then bindE (dict_or_empty (dget out ''metadata'')) (\<lambda>metadata.
                 Inr (dset ''metadata''
                   (JObj (dset ''context_budget''
                     (JObj (context_budget limit safety prompt_budget estimate max_output requested thinking (dget openai1 ''truncate_prompt_tokens'')))
                     metadata)) out))
          else Inr out)))))"

section \<open>Generation from a large prompt\<close>

definition large_context_error :: "model_profile \<Rightarrow> int \<Rightarrow> int \<Rightarrow> int \<Rightarrow> int \<Rightarrow> int \<Rightarrow> string" where
  "large_context_error p estimate max_output thinking budget threshold =
     ''large-context generation budget exceeded: profile_id='' @ mp_profile_id p @
     '' estimated_prompt_tokens='' @ show_int estimate @ '' max_output_tokens='' @ show_int max_output @
     '' thinking_budget_tokens='' @ show_int thinking @ '' total_generation_budget_tokens='' @ show_int (max_output + thinking) @
     '' limit_tokens='' @ show_int budget @ '' prompt_threshold_tokens='' @ show_int threshold @
     ''; lower max_tokens/max_completion_tokens or thinking_budget_tokens''"

definition enforce_large_context_generation_budget :: "environ \<Rightarrow> pydict \<Rightarrow> model_profile \<Rightarrow> int \<Rightarrow> int \<Rightarrow> unit result" where
  "enforce_large_context_generation_budget env inp p max_output0 thinking0 =
     bindE (estimated_prompt_tokens inp) (\<lambda>estimate0.
       case estimate0 of
         None \<Rightarrow> Inr ()
       | Some estimate \<Rightarrow>
           bindE (large_context_prompt_threshold_tokens env) (\<lambda>threshold.
           bindE (large_context_generation_budget_tokens env) (\<lambda>budget.
             if threshold \<le> 0 \<or> budget \<le> 0 then Inr ()
             else if estimate < threshold then Inr ()
             else
               (let max_output = max 1 max_output0; thinking = max 0 thinking0
                in if max_output + thinking \<le> budget then Inr ()
                   else Inl (ValueError (large_context_error p estimate max_output thinking budget threshold))))))"

section \<open>The inference request\<close>

definition openai_output_contract :: "pydict \<Rightarrow> pydict" where
  "openai_output_contract body =
     (case dget body ''response_format'' of
        JObj f \<Rightarrow>
          if dget f ''type'' = JStr ''json_schema'' then [(''format'', JStr ''json_schema''), (''schema'', dget f ''json_schema'')]
          else if dget f ''type'' = JStr ''json_object'' then [(''format'', JStr ''json_object'')]
          else [(''format'', JStr ''text'')]
      | _ \<Rightarrow> [(''format'', JStr ''text'')])"

definition supported_job_class :: "model_profile \<Rightarrow> string \<Rightarrow> string result" where
  \<comment> \<open>the job class if the profile has it, else analysis, else the profile's first; a profile without any raises\<close>
  "supported_job_class p job_class =
     (if job_class \<in> set (mp_supported_job_classes p) then Inr job_class
      else if ''analysis'' \<in> set (mp_supported_job_classes p) then Inr ''analysis''
      else case mp_supported_job_classes p of c # _ \<Rightarrow> Inr c | [] \<Rightarrow> Inl (IndexError ''tuple index out of range''))"

definition profile_capability :: "model_profile \<Rightarrow> string option \<Rightarrow> json" where
  \<comment> \<open>the capability if one is given, else the profile's first\<close>
  "profile_capability p capability =
     (if opt_truthy capability then jopt capability else case mp_capability_classes p of c # _ \<Rightarrow> JStr c | [] \<Rightarrow> JNull)"

definition make_inference_request_json ::
  "string \<Rightarrow> model_profile \<Rightarrow> bool \<Rightarrow> pydict \<Rightarrow> pydict \<Rightarrow> int \<Rightarrow> rat \<Rightarrow> string \<Rightarrow> string option \<Rightarrow> int \<Rightarrow> pydict result"
where
  "make_inference_request_json request_id p chat inp contract max_tokens temperature job_class capability thinking =
     bindE (supported_job_class p job_class) (\<lambda>job.
       Inr [(''format'', JStr request_format), (''request_id'', JStr request_id), (''capability'', profile_capability p capability),
            (''chat'', JBool chat), (''immediate'', JBool False), (''job_class'', JStr job), (''max_output_tokens'', JInt (max 1 max_tokens)),
            (''thinking_budget_tokens'', JInt (max 0 thinking)), (''temperature'', JFloat temperature), (''input'', JObj inp),
            (''output_contract'', JObj contract), (''model_pin'', JObj [(''profile_id'', JStr (mp_profile_id p))]), (''raw'', JObj [])])"

end
