(* ===== verification/Api_Topology.thy ===== *)
theory Api_Topology
  imports Api_Budget Dispatcher Queue_Report
begin

text \<open>
  How \<^verbatim>\<open>ds4_infer/api.py\<close> reads the topology: which profile and which pipeline service a
  request means, the list of models, what telemetry and status say of the services in use, and the
  limits the dispatcher takes from the schedulers.
\<close>

section \<open>The profile of a model name\<close>

definition rank_of :: "model_profile \<Rightarrow> int result" where
  \<comment> \<open>\<^verbatim>\<open>int(profile.routing.get("rank", 1000))\<close>\<close>
  "rank_of p = py_int (dget_or (mp_routing p) ''rank'' (JInt 1000))"

definition first_ranked :: "model_profile list \<Rightarrow> model_profile option result" where
  \<comment> \<open>the first of the profiles of least rank\<close>
  "first_ranked ps =
     bindE (mapE rank_of ps) (\<lambda>ranks. Inr (case sort_key fst (zip ranks ps) of [] \<Rightarrow> None | (_, p) # _ \<Rightarrow> Some p))"

definition service_active :: "string list option \<Rightarrow> pipeline_service \<Rightarrow> bool" where
  "service_active active sv = (case active of None \<Rightarrow> True | Some ids \<Rightarrow> sv_service_id sv \<in> set ids)"

definition active_profile_for_model :: "environ \<Rightarrow> profile_registry \<Rightarrow> spark_topology \<Rightarrow> string \<Rightarrow> model_profile option result" where
  "active_profile_for_model env reg topo model_id =
     (let candidates = concat (map (\<lambda>sv. case registry_get reg (sv_profile_id sv) of Inr p \<Rightarrow> [p] | Inl _ \<Rightarrow> [])
            (filter (\<lambda>sv. service_active (active_resident_service_ids env topo) sv \<and> sv_model_id sv = model_id) (tp_services topo)))
      in first_ranked candidates)"

definition service_names_model :: "string \<Rightarrow> pipeline_service \<Rightarrow> bool" where
  "service_names_model model sv = (model \<in> {sv_service_id sv, sv_model_id sv, sv_profile_id sv})"

definition profile_by_model_id :: "profile_registry \<Rightarrow> string \<Rightarrow> model_profile result" where
  "profile_by_model_id reg model =
     (let matches = filter (\<lambda>p. mp_model_id p = model) (pr_profiles reg); prod = filter mp_production_eligible matches
      in case matches of
           [] \<Rightarrow> Inl (ValueError (''unknown model/profile/service: '' @ model))
         | [p] \<Rightarrow> Inr p
         | p # _ \<Rightarrow> bindE (first_ranked (if prod \<noteq> [] then prod else matches)) (\<lambda>q. Inr (case q of Some q \<Rightarrow> q | None \<Rightarrow> p)))"

definition resolve_api_profile :: "environ \<Rightarrow> profile_registry \<Rightarrow> spark_topology \<Rightarrow> string option \<Rightarrow> model_profile result" where
  "resolve_api_profile env reg topo model0 =
     (if \<not> opt_truthy model0 then resolve_profile reg (JStr ''efficient'') True ''analysis'' JNull
      else
        (let model = opt_str model0; aliased = resolve_model_alias model
         in if aliased \<noteq> model
            then bindE (registry_get reg aliased) (\<lambda>p.
                   if pipeline_service_for_profile topo (mp_profile_id p) \<noteq> None then Inr p
                   else bindE (active_profile_for_model env reg topo (mp_model_id p)) (\<lambda>active.
                          Inr (case active of Some q \<Rightarrow> q | None \<Rightarrow> p)))
            else
              (case registry_get reg model of
                 Inr p \<Rightarrow> Inr p
               | Inl _ \<Rightarrow>
                   (case find (service_names_model model) (tp_services topo) of
                      Some sv \<Rightarrow> registry_get reg (sv_profile_id sv)
                    | None \<Rightarrow> profile_by_model_id reg model))))"

definition default_pipeline_service :: "environ \<Rightarrow> profile_registry \<Rightarrow> spark_topology \<Rightarrow> pipeline_service result" where
  "default_pipeline_service env reg topo =
     bindE (resolve_profile reg (JStr ''efficient'') True ''analysis'' JNull) (\<lambda>p.
       case pipeline_service_for_profile topo (mp_profile_id p) of
         Some sv \<Rightarrow> Inr sv
       | None \<Rightarrow>
           bindE (active_profile_for_model env reg topo (mp_model_id p)) (\<lambda>active.
             case (case active of Some q \<Rightarrow> pipeline_service_for_profile topo (mp_profile_id q) | None \<Rightarrow> None) of
               Some sv \<Rightarrow> Inr sv
             | None \<Rightarrow> Inl (ValueError ''no default pipeline service is configured'')))"

definition resolve_pipeline_service :: "environ \<Rightarrow> spark_topology \<Rightarrow> profile_registry \<Rightarrow> pydict \<Rightarrow> pipeline_service result" where
  "resolve_pipeline_service env topo reg body =
     (let service_id = optional_str (dget body ''service_id''); profile_id = optional_str (dget body ''profile_id'');
          model_id = optional_str (por (dget body ''model_id'') (dget body ''model''))
      in if opt_truthy service_id then pipeline_service_by_id topo (opt_str service_id)
         else if opt_truthy profile_id
         then (case pipeline_service_for_profile topo (opt_str profile_id) of
                 Some sv \<Rightarrow> Inr sv
               | None \<Rightarrow> Inl (ValueError (''profile '' @ repr_str (opt_str profile_id) @ '' is not a pipeline service'')))
         else if opt_truthy model_id
         then (case find (service_names_model (opt_str model_id)) (tp_services topo) of
                 Some sv \<Rightarrow> Inr sv
               | None \<Rightarrow>
                   bindE (resolve_api_profile env reg topo model_id) (\<lambda>p.
                     case pipeline_service_for_profile topo (mp_profile_id p) of
                       Some sv \<Rightarrow> Inr sv
                     | None \<Rightarrow> Inl (ValueError (''model/profile '' @ repr_str (opt_str model_id) @ '' resolved to '' @ repr_str (mp_profile_id p) @
                                 '', but that profile is not a configured pipeline service''))))
         else default_pipeline_service env reg topo)"

section \<open>The list of models\<close>

type_synonym model_list = "string list \<times> json list"

definition alias_item :: "environ \<Rightarrow> profile_registry \<Rightarrow> spark_topology \<Rightarrow> string \<Rightarrow> model_profile \<Rightarrow> pydict result" where
  "alias_item env reg topo alias alias_profile =
     bindE (active_profile_for_model env reg topo (mp_model_id alias_profile)) (\<lambda>active.
       let p = (case active of Some q \<Rightarrow> q | None \<Rightarrow> alias_profile)
       in Inr ([(''id'', JStr alias), (''object'', JStr ''model''), (''owned_by'', JStr ''ds4''),
                (''ds4_profile_id'', JStr (mp_profile_id p)), (''ds4_model_alias'', JBool True)] @
               (if mp_profile_id p \<noteq> mp_profile_id alias_profile then [(''ds4_alias_profile_id'', JStr (mp_profile_id alias_profile))] else []) @
               (case pipeline_service_for_profile topo (mp_profile_id p) of
                  Some sv \<Rightarrow> [(''ds4_service_id'', JStr (sv_service_id sv))] | None \<Rightarrow> [])))"

definition add_alias_model :: "environ \<Rightarrow> profile_registry \<Rightarrow> spark_topology \<Rightarrow> model_list \<Rightarrow> string \<times> string \<Rightarrow> model_list result" where
  "add_alias_model env reg topo acc entry =
     (case (acc, entry) of
        ((seen, items), (alias, profile_id)) \<Rightarrow>
          (case registry_get reg profile_id of
             Inl _ \<Rightarrow> Inr (seen, items)
           | Inr p \<Rightarrow> if alias \<in> set seen then Inr (seen, items)
                      else bindE (alias_item env reg topo alias p) (\<lambda>item. Inr (alias # seen, items @ [JObj item]))))"

definition add_named_model :: "model_list \<Rightarrow> string \<times> pydict \<Rightarrow> model_list" where
  \<comment> \<open>a model under a name that is not in the list yet\<close>
  "add_named_model acc entry =
     (case (acc, entry) of
        ((seen, items), (name, rest)) \<Rightarrow>
          if name \<in> set seen then (seen, items)
          else (name # seen, items @ [JObj ([(''id'', JStr name), (''object'', JStr ''model''), (''owned_by'', JStr ''ds4'')] @ rest)]))"

definition service_models :: "pipeline_service \<Rightarrow> (string \<times> pydict) list" where
  "service_models sv =
     map (\<lambda>name. (name, [(''ds4_service_id'', JStr (sv_service_id sv)), (''ds4_profile_id'', JStr (sv_profile_id sv))]))
       [sv_service_id sv, sv_model_id sv, sv_profile_id sv]"

definition openai_models :: "environ \<Rightarrow> profile_registry \<Rightarrow> spark_topology \<Rightarrow> pydict result" where
  "openai_models env reg topo =
     bindE (foldE (add_alias_model env reg topo) ([], []) (sort_key fst model_aliases)) (\<lambda>acc.
       let acc1 = foldl add_named_model acc (concat (map service_models (tp_services topo)));
           acc2 = foldl add_named_model acc1 (map (\<lambda>p. (mp_profile_id p, [(''ds4_profile_id'', JStr (mp_profile_id p))])) (pr_profiles reg))
       in Inr [(''object'', JStr ''list''), (''data'', JArr (snd acc2))])"

section \<open>Telemetry and status\<close>

definition telemetry_service :: "spark_topology \<Rightarrow> pydict \<Rightarrow> pipeline_service option result" where
  "telemetry_service topo report =
     (if dget report ''service_id'' \<noteq> JNull
      then bindE (pipeline_service_by_id topo (py_str (dget report ''service_id''))) (\<lambda>sv. Inr (Some sv))
      else if dget report ''profile_id'' \<noteq> JNull
      then (case pipeline_service_for_profile topo (py_str (dget report ''profile_id'')) of
              Some sv \<Rightarrow> Inr (Some sv)
            | None \<Rightarrow> Inl (ValueError (''profile '' @ py_repr (dget report ''profile_id'') @ '' is not a pipeline service'')))
      else if dget report ''model_id'' \<noteq> JNull
      then (case filter (\<lambda>sv. sv_model_id sv = py_str (dget report ''model_id'')) (tp_services topo) of
              [sv] \<Rightarrow> Inr (Some sv)
            | [] \<Rightarrow> Inl (ValueError (''model '' @ py_repr (dget report ''model_id'') @ '' is not a pipeline service''))
            | _ \<Rightarrow> Inl (ValueError (''model '' @ py_repr (dget report ''model_id'') @ '' maps to multiple pipeline services; pass service_id'')))
      else Inr None)"

definition with_stage :: "pipeline_stage option \<Rightarrow> pydict \<Rightarrow> pydict" where
  "with_stage stage d =
     (case stage of
        None \<Rightarrow> d
      | Some s \<Rightarrow> foldl (\<lambda>d (k, v). setdefault k v d) d
          [(''node_id'', JStr (ps_node_id s)), (''stage_index'', JInt (ps_stage_index s)), (''stage_count'', JInt (ps_stage_count s)),
           (''layer_start'', JInt (ps_layer_start s)), (''layer_end'', JInt (ps_layer_end s))])"

definition normalized_stage :: "spark_topology \<Rightarrow> pydict \<Rightarrow> pydict result" where
  \<comment> \<open>the report of one stage, filled in from the topology\<close>
  "normalized_stage topo report =
     bindE (telemetry_service topo report) (\<lambda>service.
       case service of
         None \<Rightarrow> Inr report
       | Some sv \<Rightarrow>
           (let d = foldl (\<lambda>d (k, v). setdefault k v d) report
                [(''service_id'', JStr (sv_service_id sv)), (''profile_id'', JStr (sv_profile_id sv)), (''stage_count'', JInt (sv_pipeline_parallel_size sv))]
            in if dget d ''node_id'' \<noteq> JNull
               then bindE (stage_for_node sv (py_str (dget d ''node_id''))) (\<lambda>s. Inr (with_stage (Some s) d))
               else if dget d ''stage_index'' \<noteq> JNull
               then bindE (py_int (dget d ''stage_index'')) (\<lambda>i. bindE (stage_for_index sv i) (\<lambda>s.
                      Inr (with_stage (Some s) (setdefault ''node_id'' (JStr (ps_node_id s)) d))))
               else Inr d))"

lemma mapE_cong [fundef_cong]: "xs = ys \<Longrightarrow> (\<And>x. x \<in> set ys \<Longrightarrow> f x = g x) \<Longrightarrow> mapE f xs = mapE g ys"
  by (induction ys arbitrary: xs) (auto intro: bindE_cong)

function pipeline_telemetry_with_topology :: "spark_topology \<Rightarrow> pydict \<Rightarrow> pydict result" where
  "pipeline_telemetry_with_topology topo report =
     (case stage_list report of
        None \<Rightarrow> normalized_stage topo report
      | Some items \<Rightarrow>
          bindE (mapE (\<lambda>v. case v of
                    JObj item \<Rightarrow> bindE (pipeline_telemetry_with_topology topo (merged_report report item)) (\<lambda>d. Inr (JObj d))
                  | _ \<Rightarrow> Inl (ValueError ''pipeline telemetry stages must be objects'')) items) (\<lambda>ds.
            Inr (dset ''stages'' (JArr ds) report)))"
  by pat_completeness auto
termination
proof (relation "measure (\<lambda>(topo, report). case stage_list report of None \<Rightarrow> 0 | Some xs \<Rightarrow> Suc (size_list size xs))", simp)
  fix topo :: spark_topology and report :: pydict and items v item
  assume "stage_list report = Some items" "v \<in> set items" "v = JObj item"
  then show "((topo, merged_report report item), topo, report) \<in>
      measure (\<lambda>(topo, report). case stage_list report of None \<Rightarrow> 0 | Some xs \<Rightarrow> Suc (size_list size xs))"
    using size_merged_stages [of report item _ items] by (auto split: option.split)
qed

declare pipeline_telemetry_with_topology.simps [simp del]

definition keep_record :: "string list \<Rightarrow> bool \<Rightarrow> json \<Rightarrow> bool" where
  "keep_record ids keep_without v =
     (case v of
        JObj d \<Rightarrow> (let s = str_or d ''service_id'' '''' in s \<in> set ids \<or> (keep_without \<and> s = ''''))
      | _ \<Rightarrow> py_str v \<in> set ids)"

definition filter_service_records :: "json \<Rightarrow> string list \<Rightarrow> bool \<Rightarrow> json" where
  "filter_service_records records ids keep_without =
     (case records of JArr xs \<Rightarrow> JArr (filter (keep_record ids keep_without) xs) | _ \<Rightarrow> JArr [])"

definition filter_pipeline_status_for_services :: "pydict \<Rightarrow> string list \<Rightarrow> pydict" where
  "filter_pipeline_status_for_services pipeline ids =
     (let d = (if str_or pipeline ''service_id'' '''' \<in> set ids then pipeline else dset ''service_id'' JNull pipeline)
      in foldl (\<lambda>d (k, keep). dset k (filter_service_records (dget_or d k (JArr [])) ids keep) d) d
           [(''stages'', False), (''kv_shards'', False), (''active_compute_leases'', True)])"

definition queue_status_for_topology :: "environ \<Rightarrow> pydict \<Rightarrow> spark_topology \<Rightarrow> pydict" where
  "queue_status_for_topology env st topo =
     (case dget st ''pipeline_status'' of
        JObj pipeline \<Rightarrow>
          (let ids = filter (\<lambda>s. s \<noteq> '''')
                 (case active_resident_service_ids env topo of Some ids \<Rightarrow> ids | None \<Rightarrow> map sv_service_id (tp_services topo))
           in if ids = [] then st
              else dset ''pipeline_status'' (JObj (filter_pipeline_status_for_services pipeline ids))
                     (dset ''active_compute_leases'' (filter_service_records (dget_or st ''active_compute_leases'' (JArr [])) ids True) st))
      | _ \<Rightarrow> st)"

section \<open>Limits of the dispatcher\<close>

definition service_dispatch_batch_limit :: "pipeline_service \<Rightarrow> int result" where
  "service_dispatch_batch_limit sv =
     (case first_set (sv_scheduler sv) [''dispatch_batch_limit'', ''max_dispatch_cohort'', ''queue_depth_target'', ''vllm_queue_depth_target''] of
        Some v \<Rightarrow> bindE (py_int v) (\<lambda>n. Inr (max 1 n))
      | None \<Rightarrow> pipeline_service_batch_limit sv)"

definition overridden_limit :: "pydict \<Rightarrow> int \<Rightarrow> pipeline_service \<Rightarrow> int option result" where
  \<comment> \<open>the override of the first name of the service that has one\<close>
  "overridden_limit overrides least sv =
     (case filter (has_key overrides) [sv_service_id sv, sv_profile_id sv, sv_model_id sv] of
        [] \<Rightarrow> Inr None
      | k # _ \<Rightarrow> bindE (py_int (dget overrides k)) (\<lambda>n. Inr (Some (max least n))))"

definition set_limit :: "string \<Rightarrow> 'a \<Rightarrow> (string \<times> 'a) list \<Rightarrow> (string \<times> 'a) list" where
  \<comment> \<open>\<^verbatim>\<open>limits[k] = v\<close>\<close>
  "set_limit k v d = (if k \<in> set (map fst d) then map (\<lambda>(k', w). (k', if k' = k then v else w)) d else d @ [(k, v)])"

definition override_limits :: "pydict \<Rightarrow> int \<Rightarrow> pipeline_service list \<Rightarrow> (string \<times> int) list \<Rightarrow> (string \<times> int) list result" where
  "override_limits overrides least services limits =
     foldE (\<lambda>d sv. bindE (overridden_limit overrides least sv) (\<lambda>n.
              Inr (case n of Some n \<Rightarrow> set_limit (sv_service_id sv) n d | None \<Rightarrow> d))) limits services"

definition batch_limits_by_service :: "environ \<Rightarrow> spark_topology \<Rightarrow> (string \<times> int) list result" where
  "batch_limits_by_service env topo =
     bindE (mapE (\<lambda>sv. bindE (service_dispatch_batch_limit sv) (\<lambda>n. Inr (sv_service_id sv, n))) (tp_services topo)) (\<lambda>limits.
       override_limits (json_env env ''DS4_API_BATCH_LIMITS_JSON'') 1 (tp_services topo) limits)"

definition batch_token_limits_by_service :: "environ \<Rightarrow> spark_topology \<Rightarrow> (string \<times> int) list result" where
  "batch_token_limits_by_service env topo =
     bindE (foldE (\<lambda>d sv. case first_set (sv_scheduler sv)
                  [''dispatch_token_limit'', ''max_dispatch_tokens'', ''vllm_max_num_batched_tokens'', ''max_num_batched_tokens''] of
                None \<Rightarrow> Inr d
              | Some v \<Rightarrow> bindE (py_int v) (\<lambda>n. Inr (set_limit (sv_service_id sv) (max 0 n) d))) [] (tp_services topo)) (\<lambda>limits.
       override_limits (json_env env ''DS4_API_BATCH_TOKEN_LIMITS_JSON'') 0 (tp_services topo) limits)"

definition refill_low_watermarks_by_service :: "spark_topology \<Rightarrow> (string \<times> int) list result" where
  "refill_low_watermarks_by_service topo =
     mapE (\<lambda>sv. bindE (int_or_default (dget (sv_scheduler sv) ''refill_low_watermark'') 0) (\<lambda>n. Inr (sv_service_id sv, n))) (tp_services topo)"

definition node_profile_ids :: "spark_topology \<Rightarrow> string \<Rightarrow> string list result" where
  "node_profile_ids topo nid =
     bindE (pipeline_profiles_for_node topo nid) (\<lambda>services.
       Inr (sort (remdups ((case find_node (tp_nodes topo) nid of Some n \<Rightarrow> sn_resident_profiles n | None \<Rightarrow> []) @ map sv_profile_id services))))"

definition coordinator_defaults :: "spark_topology \<Rightarrow> pydict" where
  "coordinator_defaults topo = obj_or_empty (dget (tp_routing_policy topo) ''resident_coordinator_defaults'')"

definition topology_dispatch_window :: "environ \<Rightarrow> spark_topology result \<Rightarrow> int result" where
  \<comment> \<open>the topology, or the error of loading it\<close>
  "topology_dispatch_window env loaded =
     (case loaded of
        Inl _ \<Rightarrow> Inr 64
      | Inr topo \<Rightarrow>
          if dget (coordinator_defaults topo) ''dispatch_window'' \<noteq> JNull
          then bindE (py_int (dget (coordinator_defaults topo) ''dispatch_window'')) (\<lambda>n. Inr (max 1 n))
          else
            (let limits = concat (map (\<lambda>sv. case service_dispatch_batch_limit sv of Inr n \<Rightarrow> [n] | Inl _ \<Rightarrow> [])
                   (filter (service_active (active_resident_service_ids env topo)) (tp_services topo)))
             in Inr (max 64 (sum_list limits))))"

definition topology_dispatch_cohort_workers :: "environ \<Rightarrow> spark_topology result \<Rightarrow> int result" where
  "topology_dispatch_cohort_workers env loaded =
     (case loaded of
        Inl _ \<Rightarrow> Inr 4
      | Inr topo \<Rightarrow>
          (let d = coordinator_defaults topo; raw = por (dget d ''dispatch_cohort_workers'') (dget d ''dispatch_window'')
           in if raw \<noteq> JNull then bindE (py_int raw) (\<lambda>n. Inr (max 1 n))
              else Inr (max 4 (min 32 (4 * int (length (filter (service_active (active_resident_service_ids env topo)) (tp_services topo))))))))"

end
