(* ===== verification/Api_Response.thy ===== *)
theory Api_Response
  imports Api_Topology Attachments
begin

text \<open>
  The answers of \<^verbatim>\<open>ds4_infer/api.py\<close>: results as answers of the OpenAI and Anthropic
  interfaces, errors, and the metrics a model server reports (an ASCII text; a value that is not a finite number is passed over).  The results come from the queue's
  \<^verbatim>\<open>collect\<close> or are written by the API, so a \<^verbatim>\<open>request\<close> field is an object when there is one.
\<close>

section \<open>Text, status and usage of a result\<close>

definition result_body :: "pydict \<Rightarrow> pydict" where
  "result_body res = obj_or_empty (dget res ''result'')"

definition result_status :: "pydict \<Rightarrow> string" where
  "result_status res =
     py_str (por (dget (result_body res) ''status'') (por (dget (obj_or_empty (dget res ''request'')) ''state'') (JStr ''unknown'')))"

definition result_text :: "pydict \<Rightarrow> string" where
  "result_text res =
     (let body = result_body res; answer = dget (obj_or_empty (dget body ''output'')) ''text''
      in py_str (if answer \<noteq> JNull then answer else por (dget body ''error'') (por (dget body ''status'') (JStr ''''))))"

definition result_text_and_status :: "pydict \<Rightarrow> string \<times> string" where
  "result_text_and_status res = (result_text res, result_status res)"

type_synonym token_usage = "int \<times> int \<times> int"

definition usage_field :: "pydict \<Rightarrow> string \<Rightarrow> string \<Rightarrow> int result" where
  \<comment> \<open>\<^verbatim>\<open>int(usage.get(k, usage.get(k', 0)) or 0)\<close>\<close>
  "usage_field u k k' = int_or_default (dget_or u k (dget_or u k' (JInt 0))) 0"

definition result_usage :: "pydict \<Rightarrow> token_usage result" where
  "result_usage res =
     (let u = obj_or_empty (dget (result_body res) ''usage'')
      in bindE (usage_field u ''input_tokens'' ''prompt_tokens'') (\<lambda>prompt.
         bindE (usage_field u ''output_tokens'' ''completion_tokens'') (\<lambda>completion.
         bindE (int_or_default (dget_or u ''total_tokens'' (JInt 0)) 0) (\<lambda>tot.
           Inr (prompt, completion, if tot = 0 \<and> (prompt \<noteq> 0 \<or> completion \<noteq> 0) then prompt + completion else tot)))))"

definition usage_json :: "token_usage \<Rightarrow> json" where
  "usage_json u = (case u of (prompt, completion, tot) \<Rightarrow>
     JObj [(''prompt_tokens'', JInt prompt), (''completion_tokens'', JInt completion), (''total_tokens'', JInt tot)])"

definition anthropic_usage :: "token_usage \<Rightarrow> json" where
  "anthropic_usage u = (case u of (prompt, completion, _) \<Rightarrow> JObj [(''input_tokens'', JInt prompt), (''output_tokens'', JInt completion)])"

definition add_usage :: "token_usage \<Rightarrow> token_usage \<Rightarrow> token_usage" where
  "add_usage a b = (case (a, b) of ((p, c, t), (p', c', t')) \<Rightarrow> (p + p', c + c', t + t'))"

definition finish_reason :: "string \<Rightarrow> json" where
  "finish_reason st = JStr (if st = ''completed'' then ''stop'' else ''error'')"

definition ds4_field :: "pydict \<Rightarrow> string \<Rightarrow> json" where
  "ds4_field res st = JObj [(''request'', dget res ''request''), (''status'', JStr st)]"

definition error_message :: "string \<Rightarrow> string \<Rightarrow> string" where
  \<comment> \<open>\<^verbatim>\<open>text or status\<close>\<close>
  "error_message answer st = (if answer \<noteq> '''' then answer else st)"

section \<open>Errors\<close>

definition openai_result_error :: "pydict \<Rightarrow> pydict option" where
  "openai_result_error res =
     (let (answer, st) = result_text_and_status res
      in if st = ''completed'' then None
         else Some [(''error'', JObj [(''message'', JStr (error_message answer st)), (''type'', JStr ''ds4_transport_error''), (''code'', JStr st)]),
                    (''ds4'', ds4_field res st)])"

definition result_rows :: "pydict \<Rightarrow> pydict list" where
  "result_rows res = (case dget res ''results'' of JArr rows \<Rightarrow> map obj_or_empty rows | _ \<Rightarrow> [])"

definition failed_rows :: "pydict list \<Rightarrow> json list" where
  "failed_rows rows =
     concat (map (\<lambda>(i, row). let (answer, st) = result_text_and_status row
        in if st \<noteq> ''completed''
           then [JObj [(''index'', JInt (int i)), (''status'', JStr st), (''message'', JStr (error_message answer st))]] else [])
       (List.enumerate 0 rows))"

definition openai_batch_error :: "pydict \<Rightarrow> pydict option" where
  "openai_batch_error res =
     (let rows = result_rows res; failed = failed_rows rows; st = str_or res ''state'' ''''
      in if failed = [] \<and> st \<notin> {''failed'', ''cancelled'', ''completed_with_failures'', ''completed_with_cancelled''} then None
         else Some
           [(''error'', JObj
               [(''message'', JStr (if failed \<noteq> [] then ''DS4 batch completed with '' @ show_int (int (length failed)) @ '' failed result(s)''
                                  else ''DS4 batch state '' @ st)),
                (''type'', JStr ''ds4_transport_error''), (''code'', JStr (if st \<noteq> '''' then st else ''failed''))]),
            (''ds4'', JObj
               [(''batch_id'', dget res ''batch_id''), (''state'', JStr st), (''result_count'', JInt (int (length rows))),
                (''failed'', JArr (take 16 failed)), (''failed_count'', JInt (int (length failed)))])])"

section \<open>Answers\<close>

definition openai_chat_response :: "int \<Rightarrow> string \<Rightarrow> string \<Rightarrow> pydict \<Rightarrow> pydict result" where
  "openai_chat_response created request_id model res =
     (let (answer, st) = result_text_and_status res
      in bindE (result_usage res) (\<lambda>u. Inr
           [(''id'', JStr request_id), (''object'', JStr ''chat.completion''), (''created'', JInt created), (''model'', JStr model),
            (''choices'', JArr [JObj [(''index'', JInt 0), (''message'', JObj [(''role'', JStr ''assistant''), (''content'', JStr answer)]),
                                     (''finish_reason'', finish_reason st)]]),
            (''usage'', usage_json u), (''ds4'', ds4_field res st)]))"

definition completion_choice :: "nat \<Rightarrow> string \<Rightarrow> string \<Rightarrow> json" where
  "completion_choice i answer st = JObj [(''index'', JInt (int i)), (''text'', JStr answer), (''finish_reason'', finish_reason st)]"

definition openai_completion_response :: "int \<Rightarrow> string \<Rightarrow> string \<Rightarrow> pydict \<Rightarrow> pydict result" where
  "openai_completion_response created request_id model res =
     (let (answer, st) = result_text_and_status res
      in bindE (result_usage res) (\<lambda>u. Inr
           [(''id'', JStr request_id), (''object'', JStr ''text_completion''), (''created'', JInt created), (''model'', JStr model),
            (''choices'', JArr [completion_choice 0 answer st]), (''usage'', usage_json u), (''ds4'', ds4_field res st)]))"

definition openai_completion_batch_response :: "int \<Rightarrow> string \<Rightarrow> string \<Rightarrow> pydict \<Rightarrow> pydict result" where
  "openai_completion_batch_response created request_id model res =
     (let rows = result_rows res
      in bindE (mapE result_usage rows) (\<lambda>us. Inr
           [(''id'', JStr request_id), (''object'', JStr ''text_completion''), (''created'', JInt created), (''model'', JStr model),
            (''choices'', JArr (map (\<lambda>(i, row). completion_choice i (result_text row) (result_status row)) (List.enumerate 0 rows))),
            (''usage'', usage_json (foldl add_usage (0, 0, 0) us)),
            (''ds4'', JObj [(''batch_id'', dget res ''batch_id''), (''state'', dget res ''state''), (''result_count'', JInt (int (length rows)))])]))"

definition anthropic_message_response :: "string \<Rightarrow> string \<Rightarrow> pydict \<Rightarrow> pydict result" where
  "anthropic_message_response request_id model res =
     (let (answer, st) = result_text_and_status res
      in bindE (result_usage res) (\<lambda>u. Inr
           [(''id'', JStr request_id), (''type'', JStr ''message''), (''role'', JStr ''assistant''), (''model'', JStr model),
            (''content'', JArr [JObj [(''type'', JStr ''text''), (''text'', JStr answer)]]),
            (''stop_reason'', JStr (if st = ''completed'' then ''end_turn'' else ''error'')), (''stop_sequence'', JNull),
            (''usage'', anthropic_usage u), (''ds4'', ds4_field res st)]))"

definition async_queue_response :: "string \<Rightarrow> string \<Rightarrow> string \<Rightarrow> pydict \<Rightarrow> pydict" where
  "async_queue_response kind request_id batch_id submitted =
     [(''format'', JStr ''ds4-async-api-response-v1''), (''api'', JStr kind), (''request_id'', JStr request_id), (''batch_id'', JStr batch_id),
      (''job_id'', JStr batch_id), (''queue'', JObj submitted)]"

definition is_text :: "json \<Rightarrow> bool" where
  "is_text v = (case v of JStr _ \<Rightarrow> True | _ \<Rightarrow> False)"

definition completion_prompt_items :: "json \<Rightarrow> string list" where
  \<comment> \<open>the texts of a list of texts, a text, or the document as JSON text\<close>
  "completion_prompt_items v =
     (case v of
        JStr s \<Rightarrow> [s]
      | JArr xs \<Rightarrow> if list_all is_text xs then map py_str xs else [dumps_sorted v]
      | _ \<Rightarrow> [dumps_sorted v])"

definition is_async_request :: "pydict \<Rightarrow> bool" where
  "is_async_request body \<longleftrightarrow>
     truthy (por (dget body ''ds4_async'') (por (dget (obj_or_empty (dget body ''metadata'')) ''ds4_async'')
       (dget (obj_or_empty (dget body ''extra_body'')) ''ds4_async'')))"

section \<open>Metrics of a model server\<close>

fun label_parts :: "string \<Rightarrow> bool \<Rightarrow> bool \<Rightarrow> string \<Rightarrow> string list" where
  \<comment> \<open>the parts between the commas that no quotes enclose; the part read so far, inside quotes, after a backslash\<close>
  "label_parts cur quoted escaped [] = (if cur = [] then [] else [cur])"
| "label_parts cur quoted escaped (c # s) =
     (if escaped then label_parts (cur @ [c]) quoted False s
      else if c = CHR 0x5C then label_parts (cur @ [c]) quoted True s
      else if c = CHR 0x22 then label_parts (cur @ [c]) (\<not> quoted) False s
      else if c = CHR '','' \<and> \<not> quoted then cur # label_parts [] quoted False s
      else label_parts (cur @ [c]) quoted False s)"

definition split_once :: "char \<Rightarrow> string \<Rightarrow> string \<times> string" where
  \<comment> \<open>\<^verbatim>\<open>s.split(c, 1)\<close> of a text that has \<open>c\<close>\<close>
  "split_once c s = (takeWhile (\<lambda>d. d \<noteq> c) s, drop 1 (dropWhile (\<lambda>d. d \<noteq> c) s))"

definition strip_quotes :: "string \<Rightarrow> string" where
  "strip_quotes s = rev (dropWhile (\<lambda>c. c = CHR 0x22) (rev (dropWhile (\<lambda>c. c = CHR 0x22) s)))"

definition label_of :: "string \<Rightarrow> (string \<times> string) list" where
  "label_of part =
     (if CHR ''='' \<notin> set part then []
      else case split_once (CHR ''='') part of (k, v) \<Rightarrow> [(strip k, strip_quotes (strip v))])"

definition split_metric_labels :: "string \<Rightarrow> string \<times> (string \<times> string) list" where
  "split_metric_labels s =
     (if CHR ''{'' \<notin> set s \<or> \<not> endswith s ''}'' then (s, [])
      else case split_once (CHR ''{'') s of
             (name, raw) \<Rightarrow> (name, rev (concat (map label_of (label_parts [] False False (butlast raw))))))"

definition split_metric_line :: "string \<Rightarrow> (string \<times> string) option" where
  \<comment> \<open>\<^verbatim>\<open>line.rsplit(None, 1)\<close> of a stripped line, if it has two parts\<close>
  "split_metric_line l =
     (let r = rev l; value = rev (takeWhile (\<lambda>c. \<not> is_space c) r); rest = dropWhile is_space (dropWhile (\<lambda>c. \<not> is_space c) r)
      in if rest = [] then None else Some (rev rest, value))"

record metrics =
  mt_scalars :: "(string \<times> rat) list"
  mt_sources :: "(string \<times> rat) list"
  mt_reasons :: "(string \<times> rat) list"

definition wanted_metrics :: "(string \<times> string) list" where
  "wanted_metrics =
     [(''vllm:num_requests_running'', ''num_requests_running''), (''vllm:num_requests_waiting'', ''num_requests_waiting''),
      (''vllm:prompt_tokens_total'', ''prompt_tokens_total''), (''vllm:generation_tokens_total'', ''generation_tokens_total''),
      (''vllm:prompt_tokens_cached_total'', ''prompt_tokens_cached_total''),
      (''vllm:time_to_first_token_seconds_count'', ''time_to_first_token_count''),
      (''vllm:time_to_first_token_seconds_sum'', ''time_to_first_token_sum_s''),
      (''vllm:e2e_request_latency_seconds_count'', ''e2e_request_latency_count''),
      (''vllm:e2e_request_latency_seconds_sum'', ''e2e_request_latency_sum_s'')]"

definition read_metric :: "metrics \<Rightarrow> string \<Rightarrow> metrics" where
  \<comment> \<open>one line of the report\<close>
  "read_metric m raw =
     (let l = strip raw
      in if l = '''' \<or> startswith l ''#'' then m
         else
           (case split_metric_line l of
              None \<Rightarrow> m
            | Some (name_labels, value) \<Rightarrow>
                (case (split_metric_labels name_labels, parse_float value) of
                   (_, None) \<Rightarrow> m
                 | ((name, labels), Some r) \<Rightarrow>
                     (case map_of wanted_metrics name of
                        Some k \<Rightarrow> m\<lparr>mt_scalars := set_limit k r (mt_scalars m)\<rparr>
                      | None \<Rightarrow>
                          if name = ''vllm:prompt_tokens_by_source_total''
                          then (case map_of labels ''source'' of
                                  Some s \<Rightarrow> if s = '''' then m else m\<lparr>mt_sources := set_limit s r (mt_sources m)\<rparr> | None \<Rightarrow> m)
                          else if name = ''vllm:request_success_total''
                          then (case map_of labels ''finished_reason'' of
                                  Some s \<Rightarrow> if s = '''' then m else m\<lparr>mt_reasons := set_limit s r (mt_reasons m)\<rparr> | None \<Rightarrow> m)
                          else m))))"

definition sorted_rates :: "string \<Rightarrow> (string \<times> rat) list \<Rightarrow> pydict" where
  "sorted_rates k d = (if d = [] then [] else [(k, JObj (map (\<lambda>(s, r). (s, JFloat r)) (sort_key fst d)))])"

definition average_of :: "string \<Rightarrow> string \<Rightarrow> string \<Rightarrow> (string \<times> rat) list \<Rightarrow> pydict" where
  "average_of k sum_key count_key d =
     (case (map_of d sum_key, map_of d count_key) of
        (Some s, Some n) \<Rightarrow> if n > 0 then [(k, JFloat (round_dec 3 (s / n)))] else []
      | _ \<Rightarrow> [])"

definition parse_vllm_metrics_snapshot :: "string \<Rightarrow> pydict" where
  "parse_vllm_metrics_snapshot report =
     (let m = foldl read_metric \<lparr>mt_scalars = [], mt_sources = [], mt_reasons = []\<rparr> (lines_keepends [] report)
      in map (\<lambda>(k, r). (k, JFloat r)) (mt_scalars m) @
         sorted_rates ''prompt_tokens_by_source_total'' (mt_sources m) @
         sorted_rates ''request_success_total'' (mt_reasons m) @
         average_of ''time_to_first_token_avg_s'' ''time_to_first_token_sum_s'' ''time_to_first_token_count'' (mt_scalars m) @
         average_of ''e2e_request_latency_avg_s'' ''e2e_request_latency_sum_s'' ''e2e_request_latency_count'' (mt_scalars m))"

definition with_rate :: "pydict \<Rightarrow> pydict \<Rightarrow> rat \<Rightarrow> string \<times> string \<Rightarrow> pydict" where
  "with_rate status0 previous elapsed names =
     (case names of
        (k, rate_key) \<Rightarrow>
          (case (dget status0 k, dget previous k) of
             (JFloat current, JFloat earlier) \<Rightarrow>
               if current \<ge> earlier then dset rate_key (JFloat (round_dec 3 ((current - earlier) / elapsed))) status0 else status0
           | _ \<Rightarrow> status0))"

definition metric_or_zero :: "pydict \<Rightarrow> string \<Rightarrow> json" where
  "metric_or_zero d k = (case dget d k of JFloat r \<Rightarrow> JFloat r | _ \<Rightarrow> JFloat 0)"

definition resident_service_metric_snapshot :: "rat \<Rightarrow> string \<Rightarrow> string + string \<Rightarrow> pydict option \<Rightarrow> pydict \<times> pydict option" where
  \<comment> \<open>the report of a server or the error of asking for it; with what is remembered of the last report\<close>
  "resident_service_metric_snapshot now base_url answer previous =
     (case answer of
        Inl e \<Rightarrow> ([(''ok'', JBool False), (''api_base_url'', JStr base_url), (''error'', JStr e), (''sampled_at'', JFloat now)], previous)
      | Inr report \<Rightarrow>
          (let status0 = dupdate (parse_vllm_metrics_snapshot report)
                           [(''ok'', JBool True), (''api_base_url'', JStr base_url), (''sampled_at'', JFloat now)];
               status1 = (case previous of
                  None \<Rightarrow> status0
                | Some prev \<Rightarrow>
                    (let elapsed = max 0 (now - (case dget prev ''sampled_at'' of JFloat t \<Rightarrow> t | _ \<Rightarrow> now))
                     in if elapsed > 0
                        then foldl (\<lambda>d k. with_rate d prev elapsed k) status0
                               [(''prompt_tokens_total'', ''prompt_tokens_per_s''), (''generation_tokens_total'', ''generation_tokens_per_s'')]
                        else status0))
           in (status1, Some [(''sampled_at'', JFloat now), (''prompt_tokens_total'', metric_or_zero status1 ''prompt_tokens_total''),
                              (''generation_tokens_total'', metric_or_zero status1 ''generation_tokens_total'')])))"

end
