(* ===== verification/Api_Submit.thy ===== *)
theory Api_Submit
  imports Api_Response Chat_Render
begin

text \<open>
  The inference requests that the OpenAI and Anthropic end points of \<^verbatim>\<open>ds4_infer/api.py\<close> and
  \<^verbatim>\<open>ds4_infer/api_stream.py\<close> make of a body, and the theorem that they fit the context window.
  Profiles and topology are those loaded at the call.
\<close>

record api_context =
  ac_env :: environ
  ac_registry :: profile_registry
  ac_topology :: spark_topology
  ac_tokenizer :: chat_tokenizer

record api_submission =
  as_profile :: model_profile
  as_request_id :: string
  as_batch_id :: string
  as_requests :: "inference_request list"

section \<open>One request\<close>

definition raw_api_request ::
  "api_context \<Rightarrow> pydict \<Rightarrow> model_profile \<Rightarrow> bool \<Rightarrow> bool \<Rightarrow> string \<Rightarrow> pydict \<Rightarrow> pydict \<Rightarrow> int \<Rightarrow> int \<Rightarrow> int \<Rightarrow> string \<Rightarrow> string option \<Rightarrow>
   pydict result"
where
  "raw_api_request api body p chat stream request_id payload contract max_tokens requested thinking job_class capability =
     bindE (input_with_api_kv (ac_env api) payload body p (ac_topology api)) (\<lambda>inp0.
     bindE (apply_profile_context_budget (ac_env api) inp0 p max_tokens thinking (Some requested)) (\<lambda>inp1.
     bindE (enforce_large_context_generation_budget (ac_env api) inp1 p max_tokens thinking) (\<lambda>_.
     bindE (py_float (por (dget body ''temperature'') (JFloat 0))) (\<lambda>temperature.
       make_inference_request_json request_id p chat (if stream then dset ''ds4_client_stream'' (JBool True) inp1 else inp1)
         contract max_tokens temperature job_class capability thinking))))"

definition api_job_class :: "pydict \<Rightarrow> pydict \<Rightarrow> string" where
  "api_job_class body metadata = py_str (por (dget body ''ds4_job_class'') (por (dget metadata ''job_class'') (JStr ''analysis'')))"

definition api_capability :: "pydict \<Rightarrow> pydict \<Rightarrow> string option" where
  "api_capability body metadata = optional_str (por (dget body ''ds4_capability'') (dget metadata ''capability''))"

definition api_profile :: "api_context \<Rightarrow> pydict \<Rightarrow> model_profile result" where
  "api_profile api body = resolve_api_profile (ac_env api) (ac_registry api) (ac_topology api) (optional_str (dget body ''model''))"

section \<open>The requests of a body\<close>

definition openai_chat_submission :: "api_context \<Rightarrow> string \<Rightarrow> bool \<Rightarrow> pydict \<Rightarrow> api_submission result" where
  "openai_chat_submission api uuid stream body =
     bindE (api_profile api body) (\<lambda>p.
       let request_id = str_or body ''request_id'' (''chatcmpl-'' @ uuid); batch_id = str_or body ''batch_id'' request_id
       in bindE (dict_or_empty (dget body ''metadata'')) (\<lambda>metadata.
          bindE (thinking_budget_tokens body metadata) (\<lambda>thinking.
          bindE (int_or_default (por (dget body ''max_completion_tokens'') (dget body ''max_tokens'')) 1024) (\<lambda>requested.
          bindE (context_bounded_output_tokens (ac_env api) p requested thinking) (\<lambda>max_tokens.
          bindE (openai_chat_input_payload (ac_env api) (ac_tokenizer api) body p metadata thinking max_tokens) (\<lambda>payload.
          bindE (raw_api_request api body p True stream request_id payload (openai_output_contract body) max_tokens requested thinking
                   (api_job_class body metadata) (api_capability body metadata)) (\<lambda>raw.
          bindE (request_from_json raw) (\<lambda>req.
            Inr \<lparr>as_profile = p, as_request_id = request_id, as_batch_id = batch_id, as_requests = [req]\<rparr>))))))))"

definition completion_request_id :: "string \<Rightarrow> nat \<Rightarrow> nat \<Rightarrow> string" where
  "completion_request_id base n i = (if n = 1 then base else base @ ''-'' @ pad6 i)"

definition openai_completion_requests :: "api_context \<Rightarrow> string \<Rightarrow> pydict \<Rightarrow> api_submission result" where
  "openai_completion_requests api uuid body =
     bindE (api_profile api body) (\<lambda>p.
       let base = str_or body ''request_id'' (''cmpl-'' @ uuid); batch_id = str_or body ''batch_id'' base;
           prompts = completion_prompt_items (dget body ''prompt'')
       in bindE (thinking_budget_tokens body []) (\<lambda>thinking.
          bindE (int_or_default (dget body ''max_tokens'') 1024) (\<lambda>requested.
          bindE (context_bounded_output_tokens (ac_env api) p requested thinking) (\<lambda>max_tokens.
          bindE (mapE (\<lambda>(i, prompt).
                   raw_api_request api body p False (truthy (dget body ''stream'')) (completion_request_id base (length prompts) i)
                     [(''prompt'', JStr prompt)] [(''format'', JStr ''text'')] max_tokens requested thinking
                     (api_job_class body []) (optional_str (dget body ''ds4_capability''))) (List.enumerate 0 prompts)) (\<lambda>raws.
          bindE (mapE request_from_json raws) (\<lambda>reqs.
            Inr \<lparr>as_profile = p, as_request_id = base, as_batch_id = batch_id, as_requests = reqs\<rparr>))))))"

definition anthropic_submission :: "api_context \<Rightarrow> string \<Rightarrow> pydict \<Rightarrow> api_submission result" where
  "anthropic_submission api uuid body =
     bindE (api_profile api body) (\<lambda>p.
       let request_id = str_or body ''request_id'' (''msg_'' @ uuid); batch_id = str_or body ''batch_id'' request_id
       in bindE (dict_or_empty (dget body ''metadata'')) (\<lambda>metadata.
          bindE (thinking_budget_tokens body metadata) (\<lambda>thinking.
          bindE (int_or_default (dget body ''max_tokens'') 1024) (\<lambda>requested.
          bindE (context_bounded_output_tokens (ac_env api) p requested thinking) (\<lambda>max_tokens.
          bindE (anthropic_messages_input_payload (ac_env api) (ac_tokenizer api) body p metadata thinking max_tokens) (\<lambda>payload.
          bindE (raw_api_request api body p True False request_id payload [(''format'', JStr ''text'')] max_tokens requested thinking
                   (api_job_class body metadata) (api_capability body metadata)) (\<lambda>raw.
          bindE (request_from_json raw) (\<lambda>req.
            Inr \<lparr>as_profile = p, as_request_id = request_id, as_batch_id = batch_id, as_requests = [req]\<rparr>))))))))"

text \<open>The three end points, and the chat with a streamed answer.\<close>

datatype end_point = Chat_Completions bool | Completions | Messages

definition submission_of :: "end_point \<Rightarrow> api_context \<Rightarrow> string \<Rightarrow> pydict \<Rightarrow> api_submission result" where
  "submission_of e api uuid body =
     (case e of
        Chat_Completions stream \<Rightarrow> openai_chat_submission api uuid stream body
      | Completions \<Rightarrow> openai_completion_requests api uuid body
      | Messages \<Rightarrow> anthropic_submission api uuid body)"

section \<open>The budget of a request\<close>

text \<open>
  What a request takes of the context window: the prompt, cut to \<^verbatim>\<open>truncate_prompt_tokens\<close> when
  that is set, the answer, the thinking and the safety margin.
\<close>

definition kept_prompt_tokens :: "pydict \<Rightarrow> int \<Rightarrow> int" where
  "kept_prompt_tokens inp n =
     (case dget (obj_or_empty (dget inp ''openai'')) ''truncate_prompt_tokens'' of JInt t \<Rightarrow> min n t | _ \<Rightarrow> n)"

definition fits_window :: "int \<Rightarrow> int \<Rightarrow> inference_request \<Rightarrow> bool" where
  "fits_window limit safety req \<longleftrightarrow>
     1 \<le> ir_max_output_tokens req \<and> 0 \<le> ir_thinking_budget_tokens req \<and>
     (case estimated_prompt_tokens (ir_input req) of
        Inr (Some n) \<Rightarrow> kept_prompt_tokens (ir_input req) n + ir_max_output_tokens req + ir_thinking_budget_tokens req + safety \<le> limit
      | Inr None \<Rightarrow> ir_max_output_tokens req + ir_thinking_budget_tokens req + safety \<le> limit
      | Inl _ \<Rightarrow> False)"

definition within_generation_budget :: "int \<Rightarrow> int \<Rightarrow> inference_request \<Rightarrow> bool" where
  \<comment> \<open>a request with a large prompt generates no more than the budget, unless one of the two bounds is off\<close>
  "within_generation_budget threshold budget req \<longleftrightarrow>
     (case estimated_prompt_tokens (ir_input req) of
        Inr (Some n) \<Rightarrow> threshold \<le> 0 \<or> budget \<le> 0 \<or> n < threshold \<or> ir_max_output_tokens req + ir_thinking_budget_tokens req \<le> budget
      | _ \<Rightarrow> True)"


section \<open>Facts\<close>

lemma estimate_dset:
  assumes "k \<notin> {''estimated_prompt_tokens'', ''rendered_prompt'', ''prompt''}"
  shows "estimated_prompt_tokens (dset k v inp) = estimated_prompt_tokens inp"
proof -
  have "dget (dset k v inp) x = dget inp x" if "x \<in> {''estimated_prompt_tokens'', ''rendered_prompt'', ''prompt''}" for x
    using assms that by (metis dget_dset)
  then have d: "dget (dset k v inp) ''estimated_prompt_tokens'' = dget inp ''estimated_prompt_tokens''"
    "dget (dset k v inp) ''rendered_prompt'' = dget inp ''rendered_prompt''" "dget (dset k v inp) ''prompt'' = dget inp ''prompt''"
    by blast+
  show ?thesis unfolding estimated_prompt_tokens_def first_prompt_def d ..
qed

lemma kept_dset: "k \<noteq> ''openai'' \<Longrightarrow> kept_prompt_tokens (dset k v inp) n = kept_prompt_tokens inp n"
  by (simp add: kept_prompt_tokens_def)

lemma kept_le: "kept_prompt_tokens inp n \<le> n"
  by (simp add: kept_prompt_tokens_def split: json.split)

lemma context_budget_kept:
  assumes "apply_profile_context_budget env inp p max_output thinking requested = Inr out"
    and "profile_context_window_tokens p = Inr limit" and "context_safety_tokens env = Inr safety"
  shows "estimated_prompt_tokens out = estimated_prompt_tokens inp"
    and "\<exists>est. estimated_prompt_tokens inp = Inr est"
    and "estimated_prompt_tokens inp = Inr (Some n) \<Longrightarrow>
      n + max 1 max_output + max 0 thinking + safety \<le> limit \<or>
      kept_prompt_tokens out n \<le> max 1 (limit - max 1 max_output - max 0 thinking - safety)"
proof -
  obtain est openai given where *: "estimated_prompt_tokens inp = Inr est" "dict_or_empty (dget inp ''openai'') = Inr openai"
    "optional_int (dget openai ''truncate_prompt_tokens'') = Inr given"
    using assms by (auto simp: apply_profile_context_budget_def bindE_eq_Inr)
  let ?budget = "max 1 (limit - max 1 max_output - max 0 thinking - safety)"
  let ?long = "case est of None \<Rightarrow> False | Some n \<Rightarrow> n + max 1 max_output + max 0 thinking + safety > limit"
  let ?openai = "if ?long then dset ''truncate_prompt_tokens'' (JInt (truncated_to given ?budget)) openai else openai"
  let ?out = "if ?long then dset ''openai'' (JObj ?openai) inp else inp"
  have out: "out = ?out \<or> (\<exists>v. out = dset ''metadata'' v ?out)"
    using assms * by (auto simp: apply_profile_context_budget_def Let_def bindE_eq_Inr split: if_splits)
  then show "estimated_prompt_tokens out = estimated_prompt_tokens inp" by (auto simp: estimate_dset)
  show "\<exists>est. estimated_prompt_tokens inp = Inr est" using * by blast
  assume n: "estimated_prompt_tokens inp = Inr (Some n)"
  have "kept_prompt_tokens out n = kept_prompt_tokens ?out n" using out by (auto simp: kept_dset)
  moreover have "?long \<Longrightarrow> kept_prompt_tokens ?out n \<le> ?budget"
    by (auto simp: kept_prompt_tokens_def truncated_to_def min_def max_def split: option.split)
  ultimately show "n + max 1 max_output + max 0 thinking + safety \<le> limit \<or> kept_prompt_tokens out n \<le> ?budget"
    using * n by (cases ?long) auto
qed

lemma context_bounded_output:
  assumes "context_bounded_output_tokens env p requested thinking = Inr max_tokens"
    and "profile_context_window_tokens p = Inr limit" and "context_safety_tokens env = Inr safety"
  shows "1 \<le> max_tokens" and "max_tokens \<le> max 1 requested"
    and "max 0 thinking + safety + 2 \<le> limit \<Longrightarrow> max_tokens + max 0 thinking + safety + 1 \<le> limit"
  using assms by (auto simp: context_bounded_output_tokens_def Let_def split: if_splits)

lemma enforced_budget:
  assumes "enforce_large_context_generation_budget env inp p max_output thinking = Inr u"
    and "estimated_prompt_tokens inp = Inr (Some n)"
    and "large_context_prompt_threshold_tokens env = Inr threshold" and "large_context_generation_budget_tokens env = Inr budget"
  shows "threshold \<le> 0 \<or> budget \<le> 0 \<or> n < threshold \<or> max 1 max_output + max 0 thinking \<le> budget"
  using assms by (auto simp: enforce_large_context_generation_budget_def Let_def split: if_splits)

lemma made_request:
  assumes "make_inference_request_json rid p chat inp contract max_tokens temperature job cap thinking = Inr raw"
    and "request_from_json raw = Inr req"
  shows "ir_input req = inp" "ir_max_output_tokens req = max 1 max_tokens" "ir_thinking_budget_tokens req = max 0 thinking"
    "ir_request_id req = rid" "ir_chat req = chat"
proof -
  obtain job' where raw: "raw = [(''format'', JStr request_format), (''request_id'', JStr rid), (''capability'', profile_capability p cap),
            (''chat'', JBool chat), (''immediate'', JBool False), (''job_class'', JStr job'), (''max_output_tokens'', JInt (max 1 max_tokens)),
            (''thinking_budget_tokens'', JInt (max 0 thinking)), (''temperature'', JFloat temperature), (''input'', JObj inp),
            (''output_contract'', JObj contract), (''model_pin'', JObj [(''profile_id'', JStr (mp_profile_id p))]), (''raw'', JObj [])]"
    using assms(1) by (auto simp: make_inference_request_json_def bindE_eq_Inr)
  show "ir_input req = inp" "ir_max_output_tokens req = max 1 max_tokens" "ir_thinking_budget_tokens req = max 0 thinking"
    "ir_request_id req = rid" "ir_chat req = chat"
    using assms(2) unfolding raw
    by (auto simp: request_from_json_def bindE_eq_Inr dget_def dget_or_def Let_def split: if_splits)
qed


lemma raw_api_request_fits:
  assumes raw: "raw_api_request api body p chat stream rid payload contract max_tokens requested thinking job cap = Inr raw"
    and req: "request_from_json raw = Inr req"
    and bounded: "context_bounded_output_tokens (ac_env api) p requested thinking = Inr max_tokens"
    and limit: "profile_context_window_tokens p = Inr limit" and safety: "context_safety_tokens (ac_env api) = Inr safety"
    and threshold: "large_context_prompt_threshold_tokens (ac_env api) = Inr threshold"
    and budget: "large_context_generation_budget_tokens (ac_env api) = Inr budget"
    and room: "max 0 thinking + safety + 2 \<le> limit"
  shows "fits_window limit safety req" and "within_generation_budget threshold budget req"
proof -
  obtain inp0 inp1 u temperature where
      apply_b: "apply_profile_context_budget (ac_env api) inp0 p max_tokens thinking (Some requested) = Inr inp1"
    and enforced: "enforce_large_context_generation_budget (ac_env api) inp1 p max_tokens thinking = Inr u"
    and made: "make_inference_request_json rid p chat (if stream then dset ''ds4_client_stream'' (JBool True) inp1 else inp1)
         contract max_tokens temperature job cap thinking = Inr raw"
    using raw by (auto simp: raw_api_request_def bindE_eq_Inr)
  note kept = context_budget_kept [OF apply_b limit safety]
  note out = context_bounded_output [OF bounded limit safety]
  note m = made_request [OF made req]
  have est: "estimated_prompt_tokens (ir_input req) = estimated_prompt_tokens inp1" using m(1) by (simp add: estimate_dset)
  have same: "kept_prompt_tokens (ir_input req) n = kept_prompt_tokens inp1 n" for n using m(1) by (simp add: kept_dset)
  obtain e where e: "estimated_prompt_tokens inp0 = Inr e" using kept(2) by blast
  have fit: "kept_prompt_tokens inp1 n + max_tokens + max 0 thinking + safety \<le> limit" if "e = Some n" for n
    using kept(3) [of n] kept_le [of inp1 n] out(1) out(3) [OF room] e that by (auto simp: max_def split: if_splits)
  show "fits_window limit safety req"
    using est same e kept(1) m(2,3) out(1) out(3) [OF room] fit by (cases e) (simp_all add: fits_window_def)
  show "within_generation_budget threshold budget req"
    using est e kept(1) m(2,3) enforced_budget [OF enforced _ threshold budget]
    by (cases e) (simp_all add: within_generation_budget_def)
qed

lemma submission_requests:
  \<comment> \<open>every request of a submission is made by \<^const>\<open>raw_api_request\<close> for the profile of the submission\<close>
  assumes "submission_of e api uuid body = Inr s" and "req \<in> set (as_requests s)"
  obtains chat stream rid payload contract max_tokens requested thinking job cap raw where
    "raw_api_request api body (as_profile s) chat stream rid payload contract max_tokens requested thinking job cap = Inr raw"
    "request_from_json raw = Inr req"
    "context_bounded_output_tokens (ac_env api) (as_profile s) requested thinking = Inr max_tokens"
    "ir_thinking_budget_tokens req = max 0 thinking"
proof (cases e)
  case (Chat_Completions stream)
  obtain p metadata thinking requested max_tokens payload raw r where
      s: "s = \<lparr>as_profile = p, as_request_id = str_or body ''request_id'' (''chatcmpl-'' @ uuid),
               as_batch_id = str_or body ''batch_id'' (str_or body ''request_id'' (''chatcmpl-'' @ uuid)), as_requests = [r]\<rparr>"
    and mt: "context_bounded_output_tokens (ac_env api) p requested thinking = Inr max_tokens"
    and raw: "raw_api_request api body p True stream (str_or body ''request_id'' (''chatcmpl-'' @ uuid)) payload (openai_output_contract body) max_tokens
           requested thinking (api_job_class body metadata) (api_capability body metadata) = Inr raw"
    and r: "request_from_json raw = Inr r"
    using assms(1) Chat_Completions by (auto simp: submission_of_def openai_chat_submission_def Let_def bindE_eq_Inr)
  have "ir_thinking_budget_tokens req = max 0 thinking"
    using raw r s assms(2) by (auto simp: raw_api_request_def bindE_eq_Inr dest: made_request)
  then show ?thesis using that raw r mt s assms(2) by auto
next
  case Completions
  obtain p thinking requested max_tokens raws reqs where
      s: "as_profile s = p" "as_requests s = reqs"
    and mt: "context_bounded_output_tokens (ac_env api) p requested thinking = Inr max_tokens"
    and raws: "mapE (\<lambda>(i, prompt).
                   raw_api_request api body p False (truthy (dget body ''stream''))
                     (completion_request_id (str_or body ''request_id'' (''cmpl-'' @ uuid)) (length (completion_prompt_items (dget body ''prompt''))) i)
                     [(''prompt'', JStr prompt)] [(''format'', JStr ''text'')] max_tokens requested thinking
                     (api_job_class body []) (optional_str (dget body ''ds4_capability'')))
                 (List.enumerate 0 (completion_prompt_items (dget body ''prompt''))) = Inr raws"
    and reqs: "mapE request_from_json raws = Inr reqs"
    using assms(1) Completions by (auto simp: submission_of_def openai_completion_requests_def Let_def bindE_eq_Inr)
  obtain raw where raw: "raw \<in> set raws" and r: "request_from_json raw = Inr req"
    using mapE_in [OF reqs] assms(2) s by auto
  obtain i prompt where made: "raw_api_request api body p False (truthy (dget body ''stream''))
      (completion_request_id (str_or body ''request_id'' (''cmpl-'' @ uuid)) (length (completion_prompt_items (dget body ''prompt''))) i)
      [(''prompt'', JStr prompt)] [(''format'', JStr ''text'')] max_tokens requested thinking
      (api_job_class body []) (optional_str (dget body ''ds4_capability'')) = Inr raw"
    using mapE_in [OF raws raw] by auto
  have "ir_thinking_budget_tokens req = max 0 thinking"
    using made r by (auto simp: raw_api_request_def bindE_eq_Inr dest: made_request)
  then show ?thesis using that made r mt s by auto
next
  case Messages
  obtain p metadata thinking requested max_tokens payload raw r where
      s: "s = \<lparr>as_profile = p, as_request_id = str_or body ''request_id'' (''msg_'' @ uuid),
               as_batch_id = str_or body ''batch_id'' (str_or body ''request_id'' (''msg_'' @ uuid)), as_requests = [r]\<rparr>"
    and mt: "context_bounded_output_tokens (ac_env api) p requested thinking = Inr max_tokens"
    and raw: "raw_api_request api body p True False (str_or body ''request_id'' (''msg_'' @ uuid)) payload [(''format'', JStr ''text'')] max_tokens
           requested thinking (api_job_class body metadata) (api_capability body metadata) = Inr raw"
    and r: "request_from_json raw = Inr r"
    using assms(1) Messages by (auto simp: submission_of_def anthropic_submission_def Let_def bindE_eq_Inr)
  have "ir_thinking_budget_tokens req = max 0 thinking"
    using raw r s assms(2) by (auto simp: raw_api_request_def bindE_eq_Inr dest: made_request)
  then show ?thesis using that raw r mt s assms(2) by auto
qed


definition window_profile :: model_profile where
  "window_profile = (sample_profile ''p'' ''m'' 1)\<lparr>mp_performance := [(''max_model_len'', JInt 4096)]\<rparr>"

definition window_api :: api_context where
  "window_api = \<lparr>ac_env = (\<lambda>_. None), ac_registry = \<lparr>pr_profiles = [window_profile], pr_by_alias = [], pr_ambiguous = []\<rparr>,
     ac_topology = sample_topology, ac_tokenizer = (\<lambda>_ _ _. None)\<rparr>"

definition window_body :: pydict where
  "window_body = [(''model'', JStr ''p''), (''prompt'', JStr ''hello''), (''max_tokens'', JInt 9000), (''request_id'', JStr ''r'')]"

lemma window_submission_made:
  "case submission_of Completions window_api ''u'' window_body of
     Inl _ \<Rightarrow> False
   | Inr s \<Rightarrow> profile_context_window_tokens (as_profile s) = Inr 4096 \<and>
       map (\<lambda>r. (ir_max_output_tokens r, ir_thinking_budget_tokens r)) (as_requests s) = [(4031, 0)]"
  by code_simp

lemma window_numbers:
  "context_safety_tokens (ac_env window_api) = Inr 64" "large_context_prompt_threshold_tokens (ac_env window_api) = Inr 65536"
  "large_context_generation_budget_tokens (ac_env window_api) = Inr 8192"
  by code_simp+


end
