(* ===== verification/Api_Stream.thy ===== *)
theory Api_Stream
  imports Api_Submit Runner_Stream
begin

text \<open>
  \<^verbatim>\<open>ds4_infer/api_stream.py\<close>: answers streamed to the client while the queue works on the requests.
  A stream polls the queue's events in rounds; between any two of its readings the queue may change in any way,
  so a round holds the database at its poll and at each row it collects.  The list of rounds ends when the
  deadline has passed.
\<close>

section \<open>Chunks\<close>

definition api_terminal_states :: "string list" where
  "api_terminal_states = [''completed'', ''completed_with_failures'', ''completed_with_cancelled'', ''cancelled'', ''failed'']"

record stream_head =
  sh_id :: string
  sh_model :: string
  sh_batch :: string

definition stream_chunk :: "stream_head \<Rightarrow> string \<Rightarrow> int \<Rightarrow> json list \<Rightarrow> pydict \<Rightarrow> pydict \<Rightarrow> pydict" where
  \<comment> \<open>what all chunks have in common, with the usage if there is one and the rest of \<^verbatim>\<open>ds4\<close>\<close>
  "stream_chunk h kind created choices usage_part ds4 =
     [(''id'', JStr (sh_id h)), (''object'', JStr kind), (''created'', JInt created), (''model'', JStr (sh_model h)), (''choices'', JArr choices)] @
     usage_part @ [(''ds4'', JObj ((''batch_id'', JStr (sh_batch h)) # ds4))]"

definition running_ds4 :: "string \<Rightarrow> pydict" where
  "running_ds4 request_key = [(''request_id'', JStr request_key), (''status'', JStr ''running''), (''event_type'', JStr ''delta'')]"

definition failed_ds4 :: "string \<Rightarrow> pydict" where
  "failed_ds4 request_key = [(''request_id'', JStr request_key), (''status'', JStr ''failed'')]"

definition text_choice :: "nat \<Rightarrow> string \<Rightarrow> json \<Rightarrow> json" where
  "text_choice i s reason = JObj [(''index'', JInt (int i)), (''text'', JStr s), (''finish_reason'', reason)]"

definition delta_choice :: "pydict \<Rightarrow> json \<Rightarrow> json" where
  "delta_choice delta reason = JObj [(''index'', JInt 0), (''delta'', JObj delta), (''finish_reason'', reason)]"

definition openai_completion_delta_chunk :: "stream_head \<Rightarrow> int \<Rightarrow> nat \<Rightarrow> string \<Rightarrow> pydict \<Rightarrow> pydict" where
  "openai_completion_delta_chunk h created i request_key payload =
     stream_chunk h ''text_completion.chunk'' created [text_choice i (str_or payload ''text'' '''') JNull] [] (running_ds4 request_key)"

definition openai_completion_stream_chunk :: "stream_head \<Rightarrow> int \<Rightarrow> nat \<Rightarrow> pydict \<Rightarrow> bool \<Rightarrow> (pydict \<times> token_usage) result" where
  "openai_completion_stream_chunk h created i row include_text =
     bindE (result_usage row) (\<lambda>u.
       let (answer, st) = result_text_and_status row
       in Inr (stream_chunk h ''text_completion.chunk'' created [text_choice i (if include_text then answer else '''') (finish_reason st)]
                 [(''usage'', usage_json u)] [(''request'', dget row ''request''), (''status'', JStr st)], u))"

definition openai_completion_timeout_chunk :: "stream_head \<Rightarrow> int \<Rightarrow> nat \<Rightarrow> string \<Rightarrow> pydict" where
  "openai_completion_timeout_chunk h created i request_key =
     stream_chunk h ''text_completion.chunk'' created [text_choice i ''coordinator stream timeout'' (JStr ''error'')] [] (failed_ds4 request_key)"

definition openai_completion_usage_chunk :: "stream_head \<Rightarrow> int \<Rightarrow> nat \<Rightarrow> token_usage \<Rightarrow> pydict" where
  "openai_completion_usage_chunk h created n u =
     stream_chunk h ''text_completion.chunk'' created [] [(''usage'', usage_json u)] [(''result_count'', JInt (int n)), (''status'', JStr ''completed'')]"

definition openai_chat_delta_chunk :: "stream_head \<Rightarrow> int \<Rightarrow> string \<Rightarrow> string \<Rightarrow> pydict" where
  "openai_chat_delta_chunk h created request_key s =
     stream_chunk h ''chat.completion.chunk'' created [delta_choice [(''content'', JStr s)] JNull] [] (running_ds4 request_key)"

definition openai_chat_final_chunk :: "stream_head \<Rightarrow> int \<Rightarrow> pydict \<Rightarrow> string \<Rightarrow> pydict result" where
  "openai_chat_final_chunk h created row st =
     bindE (result_usage row) (\<lambda>u.
       Inr (stream_chunk h ''chat.completion.chunk'' created [delta_choice [] (finish_reason st)]
              [(''usage'', usage_json u)] [(''request'', dget row ''request''), (''status'', JStr st)]))"

definition openai_chat_timeout_chunk :: "stream_head \<Rightarrow> int \<Rightarrow> string \<Rightarrow> pydict" where
  "openai_chat_timeout_chunk h created request_key =
     stream_chunk h ''chat.completion.chunk'' created [delta_choice [(''content'', JStr ''coordinator stream timeout'')] (JStr ''error'')] []
       (failed_ds4 request_key)"

section \<open>Rounds\<close>

text \<open>
  What follows a round in which requests are still pending: the next round (the dispatcher runs, or the call does
  the work itself), the end of the loop because the dispatcher has stopped, or an exception of the work.
\<close>

datatype round_end = Go_On | Dispatcher_Stopped | Work_Raised py_error

record stream_round =
  tr_poll :: queue_db
  tr_rows :: "string \<Rightarrow> queue_db"
  tr_created :: int
  tr_end :: round_end

definition polled :: "int \<Rightarrow> stream_round \<Rightarrow> event_row list" where
  "polled after r = poll_rows after 200 (tr_poll r)"

definition next_cursor :: "int \<Rightarrow> stream_round \<Rightarrow> int" where
  "next_cursor after r = (let n = poll_cursor after (polled after r) in if n = 0 then after else n)"

definition collected_row :: "stream_round \<Rightarrow> string \<Rightarrow> pydict result" where
  "collected_row r request_key = collect (Some request_key) None None (tr_rows r request_key)"

definition event_payload :: "event_row \<Rightarrow> pydict" where
  "event_payload e = obj_or_empty (ev_payload e)"

section \<open>Completions\<close>

record completion_state =
  cp_pending :: "(string \<times> nat) list"
  cp_streamed :: "string list"
  cp_usage :: token_usage
  cp_chunks :: "pydict list"

definition pending_requests :: "inference_request list \<Rightarrow> (string \<times> nat) list" where
  "pending_requests reqs = foldl (\<lambda>d (i, r). set_limit (ir_request_id r) i d) [] (List.enumerate 0 reqs)"

definition completion_event :: "stream_head \<Rightarrow> stream_round \<Rightarrow> completion_state \<Rightarrow> event_row \<Rightarrow> completion_state result" where
  "completion_event h r st e =
     (let key = ev_request_id e
      in case map_of (cp_pending st) key of
           None \<Rightarrow> Inr st
         | Some i \<Rightarrow>
             if ev_type e = ''delta''
             then Inr (st\<lparr>cp_chunks := cp_chunks st @ [openai_completion_delta_chunk h (tr_created r) i key (event_payload e)],
                          cp_streamed := key # cp_streamed st\<rparr>)
             else if ev_state e \<notin> set api_terminal_states then Inr st
             else
               bindE (collected_row r key) (\<lambda>row.
               bindE (openai_completion_stream_chunk h (tr_created r) i row (key \<notin> set (cp_streamed st))) (\<lambda>(c, u).
                 Inr (st\<lparr>cp_pending := filter (\<lambda>(k, _). k \<noteq> key) (cp_pending st), cp_usage := add_usage (cp_usage st) u,
                          cp_chunks := cp_chunks st @ [c]\<rparr>))))"

definition drain_completion_stream_events :: "stream_head \<Rightarrow> int \<Rightarrow> stream_round \<Rightarrow> completion_state \<Rightarrow> completion_state result" where
  "drain_completion_stream_events h after r st = foldE (completion_event h r) (st\<lparr>cp_chunks := []\<rparr>) (polled after r)"

definition completion_stream_end :: "stream_head \<Rightarrow> int \<Rightarrow> nat \<Rightarrow> completion_state \<Rightarrow> pydict list" where
  \<comment> \<open>the requests still pending, and the usage\<close>
  "completion_stream_end h created n st =
     map (\<lambda>(key, i). openai_completion_timeout_chunk h created i key) (cp_pending st) @ [openai_completion_usage_chunk h created n (cp_usage st)]"

fun completion_rounds :: "stream_head \<Rightarrow> int \<Rightarrow> nat \<Rightarrow> int \<Rightarrow> completion_state \<Rightarrow> stream_round list \<Rightarrow> pydict list \<times> py_error option" where
  \<comment> \<open>the chunks, and the exception that ends them if one does\<close>
  "completion_rounds h end_created n after st [] = (completion_stream_end h end_created n st, None)"
| "completion_rounds h end_created n after st (r # rs) =
     (if cp_pending st = [] then (completion_stream_end h end_created n st, None)
      else case drain_completion_stream_events h after r st of
        Inl e \<Rightarrow> ([], Some e)
      | Inr st1 \<Rightarrow>
          (let (rest, err) =
             (if cp_pending st1 = [] then (completion_stream_end h end_created n st1, None)
              else case tr_end r of
                Dispatcher_Stopped \<Rightarrow> (completion_stream_end h end_created n st1, None)
              | Work_Raised e \<Rightarrow> ([], Some e)
              | Go_On \<Rightarrow> completion_rounds h end_created n (next_cursor after r) st1 rs)
           in (cp_chunks st1 @ rest, err)))"

definition iter_completion_stream :: "stream_head \<Rightarrow> int \<Rightarrow> inference_request list \<Rightarrow> int \<Rightarrow> stream_round list \<Rightarrow> pydict list \<times> py_error option" where
  "iter_completion_stream h end_created reqs after rounds =
     completion_rounds h end_created (length reqs) after
       \<lparr>cp_pending = pending_requests reqs, cp_streamed = [], cp_usage = (0, 0, 0), cp_chunks = []\<rparr> rounds"

section \<open>Chats\<close>

definition chat_final_chunks :: "stream_head \<Rightarrow> stream_round \<Rightarrow> string \<Rightarrow> bool \<Rightarrow> pydict list result" where
  \<comment> \<open>the chunks of the event that ends the request\<close>
  "chat_final_chunks h r rid streamed =
     bindE (collected_row r rid) (\<lambda>row.
       let (answer, st) = result_text_and_status row
       in bindE (openai_chat_final_chunk h (tr_created r) row st) (\<lambda>c.
            Inr ((if answer \<noteq> '''' \<and> \<not> streamed then [openai_chat_delta_chunk h (tr_created r) rid answer] else []) @ [c])))"

fun drain_chat_stream_events :: "stream_head \<Rightarrow> stream_round \<Rightarrow> string \<Rightarrow> bool \<Rightarrow> event_row list \<Rightarrow> (pydict list \<times> bool) result" where
  \<comment> \<open>the chunks of the events up to the one that ends the request, and whether text has been streamed\<close>
  "drain_chat_stream_events h r rid streamed [] = Inr ([], streamed)"
| "drain_chat_stream_events h r rid streamed (e # es) =
     (if ev_request_id e \<noteq> rid then drain_chat_stream_events h r rid streamed es
      else if ev_type e = ''delta''
      then (let s = str_or (event_payload e) ''text'' ''''
            in if s = '''' then drain_chat_stream_events h r rid streamed es
               else bindE (drain_chat_stream_events h r rid True es) (\<lambda>(cs, now). Inr (openai_chat_delta_chunk h (tr_created r) rid s # cs, now)))
      else if ev_state e \<notin> set api_terminal_states then drain_chat_stream_events h r rid streamed es
      else bindE (chat_final_chunks h r rid streamed) (\<lambda>cs. Inr (cs, streamed)))"

definition chunk_status :: "pydict \<Rightarrow> string" where
  "chunk_status c = str_or (obj_or_empty (dget c ''ds4'')) ''status'' ''''"

definition ends_chat :: "pydict list \<Rightarrow> bool" where
  \<comment> \<open>the last chunk has a terminal status\<close>
  "ends_chat cs \<longleftrightarrow> cs \<noteq> [] \<and> chunk_status (last cs) \<in> set api_terminal_states"

fun chat_rounds :: "stream_head \<Rightarrow> int \<Rightarrow> string \<Rightarrow> int \<Rightarrow> bool \<Rightarrow> stream_round list \<Rightarrow> pydict list \<times> py_error option" where
  "chat_rounds h end_created rid after streamed [] = ([openai_chat_timeout_chunk h end_created rid], None)"
| "chat_rounds h end_created rid after streamed (r # rs) =
     (case drain_chat_stream_events h r rid streamed (polled after r) of
        Inl e \<Rightarrow> ([], Some e)
      | Inr (cs, streamed1) \<Rightarrow>
          if ends_chat cs then (cs, None)
          else
            (let (rest, err) =
               (case tr_end r of
                  Dispatcher_Stopped \<Rightarrow> ([openai_chat_timeout_chunk h end_created rid], None)
                | Work_Raised e \<Rightarrow> ([], Some e)
                | Go_On \<Rightarrow> chat_rounds h end_created rid (next_cursor after r) streamed1 rs)
             in (cs @ rest, err)))"

definition iter_chat_stream :: "stream_head \<Rightarrow> int \<Rightarrow> string \<Rightarrow> int \<Rightarrow> stream_round list \<Rightarrow> pydict list \<times> py_error option" where
  "iter_chat_stream h end_created rid after rounds = chat_rounds h end_created rid after False rounds"

section \<open>The start of a stream\<close>

record started_stream =
  ss_head :: stream_head
  ss_requests :: "inference_request list"
  ss_cursor :: int
  ss_timeout_s :: rat

definition streamed_submission :: "end_point \<Rightarrow> api_context \<Rightarrow> string \<Rightarrow> pydict \<Rightarrow> api_submission result" where
  \<comment> \<open>a chat is refused before its request is made, completions after it\<close>
  "streamed_submission e api uuid body =
     (let refused = Inl (ValueError ''stream=true cannot be combined with ds4_async'')
      in case e of
           Chat_Completions _ \<Rightarrow> bindE (api_profile api body) (\<lambda>_. if is_async_request body then refused else submission_of e api uuid body)
         | _ \<Rightarrow> bindE (submission_of e api uuid body) (\<lambda>s. if is_async_request body then refused else Inr s))"

definition start_stream ::
  "end_point \<Rightarrow> api_context \<Rightarrow> rat \<Rightarrow> string \<Rightarrow> rat \<Rightarrow> pydict \<Rightarrow> queue_db \<Rightarrow> queue_db \<times> started_stream result"
where
  \<comment> \<open>the requests are in the queue before the timeout of the body is read\<close>
  "start_stream e api sync_timeout_s uuid now body db =
     (case bindE (streamed_submission e api uuid body) (\<lambda>s.
             bindE (optional_int (dget body ''priority'')) (\<lambda>priority.
             bindE (submit_requests now uuid (ac_registry api) (Some (ac_topology api)) (as_requests s) (Some (as_batch_id s)) priority db)
               (\<lambda>(db1, _). Inr (s, db1)))) of
        Inl err \<Rightarrow> (db, Inl err)
      | Inr (s, db1) \<Rightarrow>
          (db1, bindE (py_float (por (dget body ''ds4_timeout_s'') (JFloat sync_timeout_s))) (\<lambda>timeout.
             Inr \<lparr>ss_head = \<lparr>sh_id = as_request_id s, sh_model = str_or body ''model'' (mp_model_id (as_profile s)), sh_batch = as_batch_id s\<rparr>,
                  ss_requests = as_requests s, ss_cursor = newest_event_id db, ss_timeout_s = timeout\<rparr>)))"

definition openai_completion_stream_events ::
  "api_context \<Rightarrow> rat \<Rightarrow> string \<Rightarrow> rat \<Rightarrow> pydict \<Rightarrow> queue_db \<Rightarrow> queue_db \<times> started_stream result"
where
  "openai_completion_stream_events = start_stream Completions"

definition openai_chat_stream_events :: "api_context \<Rightarrow> rat \<Rightarrow> string \<Rightarrow> rat \<Rightarrow> pydict \<Rightarrow> queue_db \<Rightarrow> queue_db \<times> started_stream result" where
  "openai_chat_stream_events = start_stream (Chat_Completions True)"

section \<open>The text of a stream\<close>

definition sse_event_text :: "pydict \<Rightarrow> string" where
  "sse_event_text event = ''data: '' @ dumps_sorted (JObj event) @ newline @ newline"

definition write_sse :: "pydict list \<Rightarrow> string" where
  \<comment> \<open>what is written after the headers when the events come to their end\<close>
  "write_sse evs = concat (map sse_event_text evs) @ ''data: [DONE]'' @ newline @ newline"

end
