(* ===== verification/Json_Roundtrip.thy ===== *)
theory Json_Roundtrip
  imports Json_Parse
begin

text \<open>
  What \<^verbatim>\<open>json.dumps\<close> writes \<^verbatim>\<open>json.loads\<close> reads back: for documents of ASCII text whose
  objects have distinct keys and whose floats survive being written in decimal.
\<close>

section \<open>Texts\<close>

lemma hex_of_digit: "n < 16 \<Longrightarrow> hex_of (hex_digit n) = Some n"
  by (auto simp: hex_of_def hex_digit_def)

lemma hex4_of_hex4:
  assumes "p < 65536"
  shows "hex4_of (hex4 p @ r) = Some (p, r)"
proof -
  define x y z where "x = p div 16" and "y = x div 16" and "z = y div 16"
  then have divs: "p div 16 = x" "p div 256 = y" "p div 4096 = z" by (simp_all add: div_mult2_eq [symmetric])
  have "z < 16" using assms by (simp add: divs(3) [symmetric] less_mult_imp_div_less)
  moreover have "16 * z + y mod 16 = y" "16 * y + x mod 16 = x" "16 * x + p mod 16 = p"
    by (simp_all add: x_def y_def z_def)
  ultimately have "z mod 16 * 4096 + y mod 16 * 256 + x mod 16 * 16 + p mod 16 = p" by simp
  then show ?thesis by (simp add: hex4_def hex_of_digit divs)
qed

definition ascii :: "string \<Rightarrow> bool" where
  "ascii s \<longleftrightarrow> list_all (\<lambda>c. (of_char c :: nat) < 128) s"

lemma utf8_points_ascii: "ascii s \<Longrightarrow> utf8_points (map of_char s) = map of_char s"
  by (induction s) (auto simp: ascii_def)

lemma escape_chars:
  "char_of (34 :: nat) = CHR 0x22" "char_of (92 :: nat) = CHR 0x5C" "char_of (10 :: nat) = CHR 0x0A" "char_of (13 :: nat) = CHR 0x0D"
  "char_of (9 :: nat) = CHR 0x09" "char_of (12 :: nat) = CHR 0x0C" "char_of (8 :: nat) = CHR 0x08"
  by code_simp+

lemma scan_escaped:
  assumes "(of_char c :: nat) < 128"
  shows "scan_string (Suc n) acc (esc_point (of_char c) @ r) = scan_string n (c # acc) r"
proof -
  define p where "p = (of_char c :: nat)"
  have c: "c = char_of p" by (simp add: p_def)
  have p: "p < 128" using assms p_def by simp
  have ch: "(of_char (char_of p :: char) :: nat) = p" using p by simp
  consider "p \<in> {34, 92, 10, 13, 9, 12, 8}" | "p \<notin> {34, 92}" "32 \<le> p" "p < 127" | "p \<notin> {34, 92, 10, 13, 9, 12, 8}" "p < 32 \<or> p = 127"
    using p by fastforce
  then show ?thesis
  proof cases
    case 1
    then show ?thesis unfolding p_def [symmetric] c
      by (elim insertE emptyE) (simp_all add: esc_point_def simple_escape_def escape_chars)
  next
    case 2
    have "char_of p \<noteq> c" if "(of_char c :: nat) \<in> {34, 92}" for c :: char
      using that 2(1) ch by auto
    from this [of "CHR 0x22"] this [of "CHR 0x5C"] have "char_of p \<noteq> CHR 0x22" "char_of p \<noteq> CHR 0x5C" by simp_all
    then show ?thesis using 2 ch unfolding p_def [symmetric] c by (simp add: esc_point_def)
  next
    case 3
    then have e: "esc_point p = u_escape p" by (auto simp: esc_point_def)
    have "escaped_point (hex4 p @ r) = Some (p, r)"
      using 3 p hex4_of_hex4 [of p r] by (simp add: escaped_point_def)
    then show ?thesis using p unfolding p_def [symmetric] c by (simp add: e u_escape_def utf8_encode_def)
  qed
qed

lemma scan_escaped_text:
  "ascii s \<Longrightarrow> length s < n \<Longrightarrow>
     scan_string n acc (concat (map esc_point (map of_char s)) @ CHR 0x22 # r) = Some (rev acc @ s, r)"
proof (induction s arbitrary: n acc)
  case Nil
  then show ?case by (cases n) simp_all
next
  case (Cons c s)
  then obtain m where n: "n = Suc m" "length s < m" by (cases n) auto
  then show ?case using Cons scan_escaped [of c m acc] by (simp add: ascii_def)
qed

lemma length_escaped: "length (concat (map esc_point xs)) \<ge> length xs"
proof (induction xs)
  case (Cons p xs)
  have "length (esc_point p) \<ge> 1" by (simp add: esc_point_def u_escape_def)
  then show ?case using Cons by simp
qed simp

lemma scan_dumped_text:
  assumes "ascii s"
  shows "dumps_str s @ r = CHR 0x22 # tl (dumps_str s @ r)"
    and "scan_string (Suc (length (tl (dumps_str s @ r)))) [] (tl (dumps_str s @ r)) = Some (s, r)"
  using assms scan_escaped_text [OF assms, of "Suc (length (tl (dumps_str s @ r)))" "[]" r] length_escaped [of "map of_char s"]
  by (simp_all add: dumps_str_def utf8_points_ascii)

section \<open>Numbers\<close>

definition ends_value :: "string \<Rightarrow> bool" where
  \<comment> \<open>what may follow a value\<close>
  "ends_value r \<longleftrightarrow> (case r of [] \<Rightarrow> True | c # _ \<Rightarrow> c \<in> {CHR '','', CHR '']'', CHR ''}''})"

lemma json_digit_show: "c \<in> set (show_nat n) \<Longrightarrow> json_digit c"
  using show_nat_digits by (fastforce simp: json_digit_def)

lemma show_nat_no_zero: "hd (show_nat n) = CHR ''0'' \<Longrightarrow> show_nat n = ''0''"
proof (induction n rule: show_nat.induct)
  case (1 n)
  show ?case
  proof (cases "n < 10")
    case True
    then show ?thesis using "1.prems" by (simp add: show_nat.simps [of n])
  next
    case False
    then have "hd (show_nat (n div 10)) = CHR ''0''" using "1.prems" by (simp add: show_nat.simps [of n])
    then have "show_nat (n div 10) = ''0''" using 1 False by simp
    moreover have "show_nat 0 = ''0''" by code_simp
    ultimately have "n div 10 = 0" using parse_int_show_int [of "int (n div 10)"] parse_int_show_int [of 0]
      by (simp add: show_int_def)
    then show ?thesis using False by simp
  qed
qed

lemma int_part_show_nat:
  assumes "r = [] \<or> \<not> json_digit (hd r)"
  shows "int_part (show_nat n @ r) = Some (show_nat n, r)"
proof (cases "hd (show_nat n) = CHR ''0''")
  case True
  then show ?thesis using show_nat_no_zero [OF True] by (simp add: int_part_def)
next
  case False
  obtain c cs where c: "show_nat n = c # cs" by (cases "show_nat n") auto
  have all: "\<forall>x \<in> set (show_nat n). json_digit x" using json_digit_show by blast
  have "takeWhile json_digit (show_nat n @ r) = show_nat n" "dropWhile json_digit (show_nat n @ r) = r"
    using assms all by (cases r; simp add: takeWhile_append2 dropWhile_append2)+
  then show ?thesis using False c all by (simp add: int_part_def)
qed

lemma ends_value_no_digit: "ends_value r \<Longrightarrow> r = [] \<or> \<not> json_digit (hd r)"
  by (cases r) (auto simp: ends_value_def json_digit_def digit_of_def)

lemma ends_value_parts: "ends_value r \<Longrightarrow> frac_part r = ('''', r)" "ends_value r \<Longrightarrow> exp_part r = ('''', r)"
  by (auto simp: ends_value_def frac_part_def exp_part_def split: list.splits)

lemma scan_number_int: "ends_value r \<Longrightarrow> scan_number (show_int i @ r) = Some (JInt i, r)"
proof -
  assume r: "ends_value r"
  obtain c cs d where c: "show_nat (nat i) = c # cs" "digit_of c = Some d" using show_nat_hd by blast
  have "c \<noteq> CHR ''-''" using c(2) by (auto simp: digit_of_def)
  moreover have "int_part (c # cs @ r) = Some (c # cs, r)"
    using int_part_show_nat [OF ends_value_no_digit [OF r], of "nat i"] c by simp
  ultimately show ?thesis
    using int_part_show_nat [OF ends_value_no_digit [OF r], of "nat (- i)"] ends_value_parts [OF r] c parse_int_show_int [of i]
    by (cases "i < 0") (simp_all add: scan_number_def show_int_def Let_def)
qed

lemma frac_digits_json: "0 \<le> q \<Longrightarrow> q < 1 \<Longrightarrow> c \<in> set (frac_digits k q) \<Longrightarrow> json_digit c"
proof (induction k arbitrary: q)
  case (Suc k)
  let ?d = "nat \<lfloor>10 * q\<rfloor>"
  have d: "?d < 10" using Suc.prems by (simp add: nat_less_iff floor_less_iff)
  have "10 * q - of_nat ?d \<ge> 0" "10 * q - of_nat ?d < 1"
    using Suc.prems(1) by (simp_all add: of_nat_nat) linarith+
  then show ?case using Suc.IH [of "10 * q - of_nat ?d"] Suc.prems d
    by (auto simp: Let_def json_digit_def digit_of_char split: if_splits)
qed simp

definition float_dumpable :: "rat \<Rightarrow> bool" where
  "float_dumpable q \<longleftrightarrow> parse_float (show_float q) = Some q"

lemma scan_number_float:
  assumes r: "ends_value r" and q: "float_dumpable q"
  shows "scan_number (show_float q @ r) = Some (JFloat q, r)"
proof -
  define i f where "i = nat \<lfloor>\<bar>q\<bar>\<rfloor>" and "f = (if \<bar>q\<bar> - of_int \<lfloor>\<bar>q\<bar>\<rfloor> = 0 then ''0'' else frac_digits 17 (\<bar>q\<bar> - of_int \<lfloor>\<bar>q\<bar>\<rfloor>))"
  have s: "show_float q = (if q < 0 then ''-'' else '''') @ show_nat i @ ''.'' @ f"
    by (simp add: show_float_def i_def f_def Let_def show_int_def)
  have frac: "0 \<le> \<bar>q\<bar> - of_int \<lfloor>\<bar>q\<bar>\<rfloor>" "\<bar>q\<bar> - of_int \<lfloor>\<bar>q\<bar>\<rfloor> < 1" by linarith+
  have f: "\<forall>c \<in> set f. json_digit c"
    using frac_digits_json [OF frac] by (auto simp: f_def json_digit_def digit_of_def)
  have "f \<noteq> []" using frac by (auto simp: f_def numeral_eq_Suc Let_def)
  then obtain d ds where d: "f = d # ds" "json_digit d" using f by (cases f) auto
  have tw: "takeWhile json_digit (f @ r) = f" "dropWhile json_digit (f @ r) = r"
    using f ends_value_no_digit [OF r] by (cases r; simp add: takeWhile_append2 dropWhile_append2)+
  have fp: "frac_part (''.'' @ f @ r) = (CHR ''.'' # f, r)"
    using tw d by (simp add: frac_part_def)
  have ip: "int_part (show_nat i @ ''.'' @ f @ r) = Some (show_nat i, ''.'' @ f @ r)"
    by (rule int_part_show_nat) (simp add: json_digit_def digit_of_def)
  obtain c cs n where c: "show_nat i = c # cs" "digit_of c = Some n" using show_nat_hd by blast
  have "c \<noteq> CHR ''-''" using c(2) by (auto simp: digit_of_def)
  moreover have "int_part (c # cs @ ''.'' @ f @ r) = Some (c # cs, ''.'' @ f @ r)" using ip c by simp
  moreover have "parse_float (show_float q) = Some q" using q by (simp add: float_dumpable_def)
  ultimately show ?thesis using ip fp c ends_value_parts [OF r] s
    by (cases "q < 0") (simp_all add: scan_number_def Let_def)
qed

section \<open>Documents\<close>

fun dumpable :: "json \<Rightarrow> bool" where
  "dumpable (JStr s) = ascii s"
| "dumpable (JFloat q) = float_dumpable q"
| "dumpable (JArr xs) = list_all dumpable xs"
| "dumpable (JObj d) = (distinct (map fst d) \<and> list_all (\<lambda>(k, v). ascii k \<and> dumpable v) d)"
| "dumpable _ = True"

abbreviation dump :: "json \<Rightarrow> string" where
  "dump \<equiv> dumps_raw '', '' '': ''"

abbreviation dump_member :: "string \<times> json \<Rightarrow> string" where
  "dump_member \<equiv> \<lambda>(k, v). dumps_str k @ '': '' @ dump v"

definition begins_value :: "string \<Rightarrow> bool" where
  \<comment> \<open>the first character of a value\<close>
  "begins_value s \<longleftrightarrow> s \<noteq> [] \<and> \<not> json_space (hd s) \<and> hd s \<noteq> CHR '']'' \<and> hd s \<noteq> CHR ''}''"

lemma begins_value_skip: "begins_value s \<Longrightarrow> skip_ws (s @ r) = s @ r"
  by (cases s) (simp_all add: begins_value_def skip_ws_def)

lemma begins_dumps_str: "begins_value (dumps_str s)"
  by (simp add: begins_value_def dumps_str_def json_space_def)

lemma begins_show_nat: "begins_value (show_nat n @ s)"
proof -
  obtain c cs d where "show_nat n = c # cs" "digit_of c = Some d" using show_nat_hd by blast
  then show ?thesis by (auto simp: begins_value_def json_space_def digit_of_def)
qed

lemma begins_dump: "begins_value (dump v)"
proof (cases v)
  case (JInt i)
  then show ?thesis using begins_show_nat [of _ "[]"] by (simp add: show_int_def) (simp add: begins_value_def json_space_def)
next
  case (JFloat q)
  then show ?thesis using begins_show_nat by (simp add: show_float_def Let_def show_int_def) (simp add: begins_value_def json_space_def)
next
  case (JStr s)
  then show ?thesis by (simp add: begins_dumps_str)
qed (simp_all add: begins_value_def json_space_def)

definition begins_number :: "string \<Rightarrow> bool" where
  "begins_number s \<longleftrightarrow> s \<noteq> [] \<and> (hd s = CHR ''-'' \<or> digit_of (hd s) \<noteq> None)"

lemma begins_number_show: "begins_number (show_nat n @ s)" "begins_number (show_int i @ s)" "begins_number (show_float q @ s)"
proof -
  show nat: "begins_number (show_nat n @ s)" for n s using show_nat_hd [of n] by (auto simp: begins_number_def)
  show int: "begins_number (show_int i @ s)" for i s using nat by (simp add: show_int_def) (simp add: begins_number_def)
  show "begins_number (show_float q @ s)"
    using int by (simp add: show_float_def Let_def) (simp add: begins_number_def)
qed

lemma scan_value_number:
  assumes "begins_number s"
  shows "scan_value (Suc n) s = scan_number s"
proof -
  obtain c cs where s: "s = c # cs" using assms by (cases s) (simp_all add: begins_number_def)
  then consider "c = CHR ''-''" | "digit_of c \<noteq> None" using assms by (auto simp: begins_number_def)
  then have "c \<noteq> CHR 0x22 \<and> c \<noteq> CHR ''['' \<and> c \<noteq> CHR ''{'' \<and> CHR ''n'' \<noteq> c \<and> CHR ''t'' \<noteq> c \<and> CHR ''f'' \<noteq> c"
    by cases (auto simp: digit_of_def)
  then show ?thesis using s by simp
qed

section \<open>Reading a document back\<close>

definition reads_back :: "json \<Rightarrow> bool" where
  "reads_back v \<longleftrightarrow> (\<forall>n r. length (dump v) < n \<longrightarrow> ends_value r \<longrightarrow> scan_value n (dump v @ r) = Some (v, r))"

lemma ends_value_Cons: "c \<in> {CHR '','', CHR '']'', CHR ''}''} \<Longrightarrow> ends_value (c # r)"
  by (simp add: ends_value_def)

lemma begins_join: "vs \<noteq> [] \<Longrightarrow> (\<And>v. begins_value (f v)) \<Longrightarrow> begins_value (joinwith sep (map f vs))"
  by (cases vs rule: list.exhaust; cases "tl vs") (auto simp: begins_value_def)

lemma scan_elements_dump:
  assumes "vs \<noteq> []" and "\<And>v. v \<in> set vs \<Longrightarrow> reads_back v" and "length (joinwith '', '' (map dump vs)) + 2 \<le> n"
  shows "scan_elements n acc (joinwith '', '' (map dump vs) @ CHR '']'' # r) = Some (JArr (acc @ vs), r)"
  using assms
proof (induction vs arbitrary: n acc)
  case (Cons v vs)
  obtain m where n: "n = Suc m" using Cons.prems(3) by (cases n) auto
  show ?case
  proof (cases vs)
    case Nil
    have "length (dump v) < m" using Cons.prems(3) n Nil by simp
    then have "scan_value m (dump v @ CHR '']'' # r) = Some (v, CHR '']'' # r)"
      using Cons.prems(2) by (simp add: reads_back_def ends_value_Cons)
    then show ?thesis using n Nil by (simp add: skip_ws_def json_space_def)
  next
    case (Cons w ws)
    let ?rest = "joinwith '', '' (map dump vs)"
    have j: "joinwith '', '' (map dump (v # vs)) = dump v @ '', '' @ ?rest" using Cons by simp
    have len: "length (dump v) < m" "length ?rest + 2 \<le> m" using Cons.prems(3) n unfolding j by simp_all
    have "scan_value m (dump v @ CHR '','' # '' '' @ ?rest @ CHR '']'' # r) = Some (v, CHR '','' # '' '' @ ?rest @ CHR '']'' # r)"
      using len Cons.prems(2) by (simp add: reads_back_def ends_value_Cons)
    moreover have "skip_ws ('' '' @ ?rest @ CHR '']'' # r) = ?rest @ CHR '']'' # r"
      using begins_value_skip [OF begins_join [of vs dump, OF _ begins_dump]] Cons by (simp add: skip_ws_def json_space_def)
    ultimately show ?thesis using Cons.IH [OF _ _ len(2), of "acc @ [v]"] Cons.prems(2) Cons n unfolding j
      by (simp add: skip_ws_def json_space_def)
  qed
qed simp

lemma scan_members_dump:
  assumes "d \<noteq> []" and "\<And>k v. (k, v) \<in> set d \<Longrightarrow> ascii k \<and> reads_back v" and "distinct (map fst (acc @ d))"
    and "length (joinwith '', '' (map dump_member d)) + 2 \<le> n"
  shows "scan_members n acc (joinwith '', '' (map dump_member d) @ CHR ''}'' # r) = Some (JObj (acc @ d), r)"
  using assms
proof (induction d arbitrary: n acc)
  case (Cons p d)
  obtain k v where p: "p = (k, v)" by (cases p)
  obtain m where n: "n = Suc m" using Cons.prems(4) by (cases n) auto
  have fresh: "dset k v acc = acc @ [(k, v)]" using Cons.prems(3) p by (intro dset_fresh) simp
  let ?tail = "if d = [] then CHR ''}'' # r else '', '' @ joinwith '', '' (map dump_member d) @ CHR ''}'' # r"
  have j: "joinwith '', '' (map dump_member (p # d)) @ CHR ''}'' # r = dumps_str k @ '': '' @ dump v @ ?tail"
    by (cases d) (simp_all add: p)
  have len: "length (dump v) < m" "d \<noteq> [] \<longrightarrow> length (joinwith '', '' (map dump_member d)) + 2 \<le> m"
    using Cons.prems(4) n p by (cases d; simp)+
  have "ends_value ?tail" by (simp add: ends_value_def)
  then have v: "scan_value m (dump v @ ?tail) = Some (v, ?tail)"
    using len(1) Cons.prems(2) [of k v] p by (simp add: reads_back_def)
  have k: "scan_string (Suc (length (tl (dumps_str k @ '': '' @ dump v @ ?tail)))) [] (tl (dumps_str k @ '': '' @ dump v @ ?tail)) =
      Some (k, '': '' @ dump v @ ?tail)" "dumps_str k @ '': '' @ dump v @ ?tail = CHR 0x22 # tl (dumps_str k @ '': '' @ dump v @ ?tail)"
    using scan_dumped_text [of k "'': '' @ dump v @ ?tail"] Cons.prems(2) [of k v] p by simp_all
  have skip: "skip_ws ('' '' @ dump v @ ?tail) = dump v @ ?tail"
    using begins_value_skip [OF begins_dump] by (simp add: skip_ws_def json_space_def)
  have colon: "skip_ws ('': '' @ dump v @ ?tail) = CHR '':'' # '' '' @ dump v @ ?tail" by (simp add: skip_ws_def json_space_def)
  have step: "scan_members n acc (dumps_str k @ '': '' @ dump v @ ?tail) =
      (case skip_ws ?tail of [] \<Rightarrow> None
       | e # r3 \<Rightarrow> if e = CHR ''}'' then Some (JObj (acc @ [(k, v)]), r3)
                   else if e = CHR '','' then scan_members m (acc @ [(k, v)]) (skip_ws r3) else None)"
    unfolding n by (subst k(2)) (simp only: scan_members.simps list.case k(1) colon skip v fresh option.case prod.case if_True if_False simp_thms)
  show ?case
  proof (cases "d = []")
    case True
    then show ?thesis using step unfolding j by (simp add: skip_ws_def json_space_def p)
  next
    case False
    have b: "begins_value (joinwith '', '' (map dump_member d))"
      using False by (intro begins_join) (auto simp: begins_value_def dumps_str_def json_space_def)
    have "skip_ws ?tail = CHR '','' # '' '' @ joinwith '', '' (map dump_member d) @ CHR ''}'' # r"
      "skip_ws ('' '' @ joinwith '', '' (map dump_member d) @ CHR ''}'' # r) = joinwith '', '' (map dump_member d) @ CHR ''}'' # r"
      using False begins_value_skip [OF b] by (simp_all add: skip_ws_def json_space_def)
    moreover have "scan_members m (acc @ [(k, v)]) (joinwith '', '' (map dump_member d) @ CHR ''}'' # r) = Some (JObj ((acc @ [(k, v)]) @ d), r)"
      by (rule Cons.IH) (use False Cons.prems(2,3) len(2) p in auto)
    ultimately show ?thesis using step False p unfolding j by simp
  qed
qed simp

lemma reads_back_text:
  assumes "ascii s"
  shows "reads_back (JStr s)"
proof -
  have "scan_value (Suc m) (dumps_str s @ r) = Some (JStr s, r)" for m r
    by (subst scan_dumped_text(1) [OF assms]) (simp only: scan_value.simps simp_thms if_True scan_dumped_text(2) [OF assms] option.map prod.case)
  then show ?thesis unfolding reads_back_def by (metis Suc_pred dumps_raw.simps(5) gr_implies_not0 neq0_conv)
qed

lemma reads_back_number: "reads_back (JInt i)" "float_dumpable q \<Longrightarrow> reads_back (JFloat q)"
proof -
  have pos: "\<exists>m. n = Suc m" if "k < n" for k n :: nat using that by (cases n) auto
  show "reads_back (JInt i)" unfolding reads_back_def
    by (auto dest!: pos simp del: scan_value.simps simp: scan_value_number [OF begins_number_show(2)] scan_number_int)
  show "float_dumpable q \<Longrightarrow> reads_back (JFloat q)" unfolding reads_back_def
    by (auto dest!: pos simp del: scan_value.simps simp: scan_value_number [OF begins_number_show(3)] scan_number_float)
qed

lemma reads_back_array:
  assumes "\<And>v. v \<in> set vs \<Longrightarrow> reads_back v"
  shows "reads_back (JArr vs)"
proof -
  have "scan_value n (dump (JArr vs) @ r) = Some (JArr vs, r)" if n: "length (dump (JArr vs)) < n" for n r
  proof (cases "vs = []")
    case True
    then show ?thesis using n by (cases n) (simp_all add: skip_ws_def json_space_def)
  next
    case False
    obtain m where m: "n = Suc m" using n by (cases n) auto
    let ?t = "joinwith '', '' (map dump vs) @ CHR '']'' # r"
    have b: "begins_value (joinwith '', '' (map dump vs))" using begins_join [OF False begins_dump] .
    then obtain c cs where c: "joinwith '', '' (map dump vs) = c # cs" "c \<noteq> CHR '']''" "skip_ws ?t = c # cs @ CHR '']'' # r"
      using begins_value_skip [OF b, of "CHR '']'' # r"] by (cases "joinwith '', '' (map dump vs)") (auto simp: begins_value_def)
    have "scan_elements m [] (c # cs @ CHR '']'' # r) = Some (JArr vs, r)"
      using scan_elements_dump [OF False assms, of m "[]" r] n m c(1) by simp
    then show ?thesis using m c by simp
  qed
  then show ?thesis by (simp add: reads_back_def)
qed

lemma reads_back_object:
  assumes "\<And>k v. (k, v) \<in> set d \<Longrightarrow> ascii k \<and> reads_back v" and "distinct (map fst d)"
  shows "reads_back (JObj d)"
proof -
  have "scan_value n (dump (JObj d) @ r) = Some (JObj d, r)" if n: "length (dump (JObj d)) < n" for n r
  proof (cases "d = []")
    case True
    then show ?thesis using n by (cases n) (simp_all add: skip_ws_def json_space_def)
  next
    case False
    obtain m where m: "n = Suc m" using n by (cases n) auto
    let ?t = "joinwith '', '' (map dump_member d) @ CHR ''}'' # r"
    have b: "begins_value (joinwith '', '' (map dump_member d))"
      using False by (intro begins_join) (auto simp: begins_value_def dumps_str_def json_space_def)
    then obtain c cs where c: "joinwith '', '' (map dump_member d) = c # cs" "c \<noteq> CHR ''}''" "skip_ws ?t = c # cs @ CHR ''}'' # r"
      using begins_value_skip [OF b, of "CHR ''}'' # r"] by (cases "joinwith '', '' (map dump_member d)") (auto simp: begins_value_def)
    have "scan_members m [] (c # cs @ CHR ''}'' # r) = Some (JObj d, r)"
      using scan_members_dump [OF False assms(1), of "[]" m r] assms(2) n m c(1) by simp
    then show ?thesis using m c by simp
  qed
  then show ?thesis by (simp add: reads_back_def)
qed

lemma reads_back_dump: "dumpable v \<Longrightarrow> reads_back v"
proof (induction v)
  case JNull
  show ?case by (auto simp: reads_back_def gr0_conv_Suc dest!: less_imp_Suc_add)
next
  case (JBool b)
  show ?case by (cases b) (auto simp: reads_back_def gr0_conv_Suc dest!: less_imp_Suc_add)
next
  case (JArr vs)
  then show ?case by (intro reads_back_array) (simp add: list_all_iff)
next
  case (JObj d)
  have "ascii k \<and> reads_back v" if "(k, v) \<in> set d" for k v
    using JObj.IH [OF that, of v] JObj.prems that by (auto simp: list_all_iff)
  then show ?case using JObj.prems by (intro reads_back_object) simp_all
qed (simp_all add: reads_back_text reads_back_number)

lemma json_loads_dump:
  assumes "dumpable v"
  shows "json_loads (dump v) = Some v"
proof -
  have "skip_ws (dump v) = dump v" using begins_value_skip [OF begins_dump, of v "[]"] by simp
  moreover have "scan_value (2 * length (dump v) + 2) (dump v @ []) = Some (v, [])"
    using reads_back_dump [OF assms, unfolded reads_back_def, rule_format, of "2 * length (dump v) + 2" "[]"] by (simp add: ends_value_def)
  ultimately show ?thesis by (simp add: json_loads_def skip_ws_def)
qed

lemma json_loads_dumps_sorted: "dumpable (canon v) \<Longrightarrow> json_loads (dumps_sorted v) = Some (canon v)"
  by (simp add: dumps_sorted_def json_loads_dump)

end
