(* ===== verification/Api_Stream_Claims.thy ===== *)
theory Api_Stream_Claims
  imports Api_Stream Queue_Resubmit Json_Roundtrip
begin

text \<open>
  How the streams of \<^verbatim>\<open>ds4_infer/api_stream.py\<close> end: every completion request of a stream is
  closed exactly once, and so is a chat whose result has a terminal status; and what the client reads of the
  text of a stream.
\<close>

section \<open>How a stream ends\<close>

definition choice_of :: "pydict \<Rightarrow> pydict option" where
  "choice_of c = (case dget c ''choices'' of JArr [JObj d] \<Rightarrow> Some d | _ \<Rightarrow> None)"

definition of_request :: "nat \<Rightarrow> pydict \<Rightarrow> bool" where
  "of_request i c \<longleftrightarrow> (case choice_of c of Some d \<Rightarrow> dget d ''index'' = JInt (int i) | None \<Rightarrow> False)"

definition closes :: "pydict \<Rightarrow> bool" where
  \<comment> \<open>a chunk with a finish reason\<close>
  "closes c \<longleftrightarrow> (case choice_of c of Some d \<Rightarrow> dget d ''finish_reason'' \<noteq> JNull | None \<Rightarrow> False)"

definition closed_once :: "pydict list \<Rightarrow> bool" where
  \<comment> \<open>the last chunk closes, and no other\<close>
  "closed_once cs \<longleftrightarrow> cs \<noteq> [] \<and> closes (last cs) \<and> list_all (\<lambda>c. \<not> closes c) (butlast cs)"

lemma choice_of_stream_chunk [simp]:
  "choice_of (stream_chunk h kind created [JObj d] u rest) = Some d" "choice_of (stream_chunk h kind created [] u rest) = None"
  by (simp_all add: choice_of_def stream_chunk_def dget_def dget_or_def)

lemma text_chunk_simps [simp]:
  "of_request i (stream_chunk h kind created [text_choice j s reason] u rest) \<longleftrightarrow> j = i"
  "closes (stream_chunk h kind created [text_choice j s reason] u rest) \<longleftrightarrow> reason \<noteq> JNull"
  "\<not> of_request i (stream_chunk h kind created [] u rest)" "\<not> closes (stream_chunk h kind created [] u rest)"
  by (auto simp: of_request_def closes_def text_choice_def dget_def dget_or_def)

lemma finish_reason_given [simp]: "finish_reason st \<noteq> JNull"
  by (simp add: finish_reason_def)

text \<open>
  The chunks \<open>cs\<close> that are written while the indexes \<open>P\<close> are pending before and \<open>Q\<close> after them:
  nothing of a request that is not pending, nothing that closes one that is pending still, and every other one
  is closed once.
\<close>

definition stream_part :: "nat set \<Rightarrow> nat set \<Rightarrow> pydict list \<Rightarrow> bool" where
  "stream_part P Q cs \<longleftrightarrow> Q \<subseteq> P \<and>
     (\<forall>c \<in> set cs. \<exists>i \<in> P. of_request i c) \<and>
     (\<forall>i. (i \<notin> P \<longrightarrow> filter (of_request i) cs = []) \<and>
          (i \<in> Q \<longrightarrow> list_all (\<lambda>c. \<not> closes c) (filter (of_request i) cs)) \<and>
          (i \<in> P - Q \<longrightarrow> closed_once (filter (of_request i) cs)))"

lemma stream_part_Nil: "stream_part P P []"
  by (simp add: stream_part_def)

lemma closed_once_append:
  "list_all (\<lambda>c. \<not> closes c) xs \<Longrightarrow> closed_once ys \<Longrightarrow> closed_once (xs @ ys)"
  by (auto simp: closed_once_def butlast_append)

lemma stream_part_append:
  assumes a: "stream_part P Q xs" and b: "stream_part Q R ys"
  shows "stream_part P R (xs @ ys)"
proof -
  have "closed_once (filter (of_request i) (xs @ ys))" if "i \<in> P - R" for i
  proof (cases "i \<in> Q")
    case True
    then show ?thesis using a b that by (auto simp: stream_part_def intro: closed_once_append)
  next
    case False
    then have "filter (of_request i) ys = []" using b by (simp add: stream_part_def)
    then show ?thesis using a False that by (simp add: stream_part_def)
  qed
  moreover have "\<forall>c \<in> set (xs @ ys). \<exists>i \<in> P. of_request i c"
    using a b unfolding stream_part_def by (metis Un_iff set_append subsetD)
  moreover have "filter (of_request i) (xs @ ys) = []" if "i \<notin> P" for i
    using a b that by (auto simp: stream_part_def)
  moreover have "list_all (\<lambda>c. \<not> closes c) (filter (of_request i) (xs @ ys))" if "i \<in> R" for i
    using a b that by (auto simp: stream_part_def)
  moreover have "R \<subseteq> P" using a b by (auto simp: stream_part_def)
  ultimately show ?thesis unfolding stream_part_def by blast
qed

lemma stream_part_delta: "i \<in> P \<Longrightarrow> \<not> closes c \<Longrightarrow> (\<And>j. of_request j c \<longleftrightarrow> j = i) \<Longrightarrow> stream_part P P [c]"
  by (simp add: stream_part_def)

lemma stream_part_final: "i \<in> P \<Longrightarrow> closes c \<Longrightarrow> (\<And>j. of_request j c \<longleftrightarrow> j = i) \<Longrightarrow> stream_part P (P - {i}) [c]"
  by (auto simp: stream_part_def closed_once_def)

definition pending_ok :: "completion_state \<Rightarrow> bool" where
  "pending_ok st \<longleftrightarrow> distinct (map fst (cp_pending st)) \<and> distinct (map snd (cp_pending st))"

definition pending_set :: "completion_state \<Rightarrow> nat set" where
  "pending_set st = snd ` set (cp_pending st)"

lemma pending_removed:
  assumes "distinct (map fst ps)" "distinct (map snd ps)" "map_of ps key = Some i"
  shows "snd ` set (filter (\<lambda>(k, _). k \<noteq> key) ps) = snd ` set ps - {i}"
  using assms
proof (induction ps)
  case (Cons p ps)
  obtain k j where p: "p = (k, j)" by (cases p)
  show ?case
  proof (cases "k = key")
    case True
    then have "filter (\<lambda>(k, _). k \<noteq> key) ps = ps" using Cons.prems(1) p by (force simp: filter_id_conv)
    moreover have "i \<notin> snd ` set ps" using Cons.prems p True by auto
    ultimately show ?thesis using Cons.prems p True by auto
  next
    case False
    then have i: "map_of ps key = Some i" using Cons.prems p by simp
    then have "i \<in> snd ` set ps" by (force dest: map_of_SomeD)
    then have "j \<noteq> i" using Cons.prems(2) p by auto
    then show ?thesis using Cons i p False by auto
  qed
qed simp

lemma completion_event_part:
  assumes "completion_event h r st e = Inr st'" and "pending_ok st"
  shows "pending_ok st' \<and> (\<exists>cs. cp_chunks st' = cp_chunks st @ cs \<and> stream_part (pending_set st) (pending_set st') cs)"
proof (cases "map_of (cp_pending st) (ev_request_id e)")
  case None
  then show ?thesis using assms stream_part_Nil by (auto simp: completion_event_def)
next
  case (Some i)
  then have i: "i \<in> pending_set st" by (force simp: pending_set_def dest: map_of_SomeD)
  consider "ev_type e = ''delta''" | "ev_type e \<noteq> ''delta''" "ev_state e \<notin> set api_terminal_states"
    | "ev_type e \<noteq> ''delta''" "ev_state e \<in> set api_terminal_states" by blast
  then show ?thesis
  proof cases
    case 1
    then show ?thesis using assms Some i
      by (auto simp: completion_event_def Let_def pending_ok_def pending_set_def openai_completion_delta_chunk_def intro!: stream_part_delta)
  next
    case 2
    then show ?thesis using assms Some stream_part_Nil by (auto simp: completion_event_def)
  next
    case 3
    then obtain c row u where c: "openai_completion_stream_chunk h (tr_created r) i row (ev_request_id e \<notin> set (cp_streamed st)) = Inr (c, u)"
      and st': "st' = st\<lparr>cp_pending := filter (\<lambda>(k, _). k \<noteq> ev_request_id e) (cp_pending st), cp_usage := add_usage (cp_usage st) u,
                          cp_chunks := cp_chunks st @ [c]\<rparr>"
      using assms Some by (auto simp: completion_event_def Let_def bindE_eq_Inr)
    have "pending_set st' = pending_set st - {i}"
      using st' pending_removed [OF _ _ Some] assms(2) by (simp add: pending_set_def pending_ok_def del: set_filter)
    moreover have "pending_ok st'" using assms(2) st' by (simp add: pending_ok_def distinct_map_filter)
    moreover have "closes c" "of_request j c \<longleftrightarrow> j = i" for j
      using c by (auto simp: openai_completion_stream_chunk_def bindE_eq_Inr Let_def case_prod_beta)
    ultimately show ?thesis using st' i by (auto intro: stream_part_final)
  qed
qed

lemma drain_completion_part:
  assumes "drain_completion_stream_events h after r st = Inr st'" and "pending_ok st"
  shows "pending_ok st' \<and> stream_part (pending_set st) (pending_set st') (cp_chunks st')"
proof -
  let ?P = "\<lambda>s. pending_ok s \<and> stream_part (pending_set st) (pending_set s) (cp_chunks s)"
  have "?P st'"
  proof (rule foldE_invariant [OF assms(1) [unfolded drain_completion_stream_events_def], of ?P])
    show "?P (st\<lparr>cp_chunks := []\<rparr>)" using assms(2) stream_part_Nil by (simp add: pending_ok_def pending_set_def)
    show "?P t" if "?P s" "completion_event h r s x = Inr t" for s x t
      using completion_event_part [OF that(2)] that(1) by (auto intro: stream_part_append)
  qed
  then show ?thesis .
qed

lemma completion_stream_end_part:
  assumes "pending_ok st"
  shows "\<exists>cs. completion_stream_end h t n st = cs @ [openai_completion_usage_chunk h t n (cp_usage st)] \<and> stream_part (pending_set st) {} cs"
proof -
  have "stream_part (snd ` set ps) {} (map (\<lambda>(key, i). openai_completion_timeout_chunk h t i key) ps)" if "distinct (map snd ps)" for ps
    using that
  proof (induction ps)
    case (Cons p ps)
    obtain k i where p: "p = (k, i)" by (cases p)
    have "stream_part (insert i (snd ` set ps)) (insert i (snd ` set ps) - {i}) [openai_completion_timeout_chunk h t i k]"
      by (rule stream_part_final [of i]) (auto simp: openai_completion_timeout_chunk_def)
    moreover have "insert i (snd ` set ps) - {i} = snd ` set ps" using Cons.prems p by auto
    ultimately have "stream_part (insert i (snd ` set ps)) {}
        ([openai_completion_timeout_chunk h t i k] @ map (\<lambda>(key, i). openai_completion_timeout_chunk h t i key) ps)"
      using Cons.IH Cons.prems by (intro stream_part_append) simp_all
    then show ?case using p by simp
  qed (simp add: stream_part_Nil)
  then show ?thesis using assms by (simp add: completion_stream_end_def pending_set_def pending_ok_def)
qed

lemma completion_rounds_part:
  assumes "completion_rounds h t n after st rounds = (cs, None)" and "pending_ok st"
  shows "\<exists>body u. cs = body @ [openai_completion_usage_chunk h t n u] \<and> stream_part (pending_set st) {} body"
  using assms
proof (induction rounds arbitrary: after st cs)
  case Nil
  then show ?case using completion_stream_end_part [OF Nil.prems(2)] by fastforce
next
  case (Cons r rs)
  show ?case
  proof (cases "cp_pending st = []")
    case True
    then show ?thesis using Cons.prems completion_stream_end_part [OF Cons.prems(2)] by fastforce
  next
    case False
    then obtain st1 where st1: "drain_completion_stream_events h after r st = Inr st1"
      using Cons.prems by (auto split: sum.splits)
    note part = drain_completion_part [OF st1 Cons.prems(2)]
    obtain rest where cs: "cs = cp_chunks st1 @ rest" and rest:
      "rest = completion_stream_end h t n st1 \<or> completion_rounds h t n (next_cursor after r) st1 rs = (rest, None)"
      using Cons.prems(1) False st1 by (auto split: if_splits round_end.splits prod.splits)
    have "\<exists>body u. rest = body @ [openai_completion_usage_chunk h t n u] \<and> stream_part (pending_set st1) {} body"
      using rest Cons.IH part completion_stream_end_part by metis
    then show ?thesis using cs part stream_part_append by (metis append.assoc)
  qed
qed

lemma pending_requests_distinct:
  assumes "distinct (map ir_request_id reqs)"
  shows "pending_requests reqs = map (\<lambda>(i, r). (ir_request_id r, i)) (List.enumerate 0 reqs)"
proof -
  have "foldl (\<lambda>d (i, r). set_limit (ir_request_id r) i d) d (List.enumerate k rs) = d @ map (\<lambda>(i, r). (ir_request_id r, i)) (List.enumerate k rs)"
    if "distinct (map fst d @ map ir_request_id rs)" for d k rs
    using that
  proof (induction rs arbitrary: d k)
    case (Cons r rs)
    then have "set_limit (ir_request_id r) k d = d @ [(ir_request_id r, k)]" by (simp add: set_limit_def)
    then show ?case using Cons.prems Cons.IH [of "d @ [(ir_request_id r, k)]" "Suc k"] by simp
  qed simp
  from this [of "[]" reqs 0] assms show ?thesis by (simp add: pending_requests_def)
qed

lemma completion_stream_parts:
  assumes "distinct (map ir_request_id reqs)" and "iter_completion_stream h t reqs after rounds = (cs, None)"
  shows "\<exists>body u. cs = body @ [openai_completion_usage_chunk h t (length reqs) u] \<and> stream_part {..<length reqs} {} body"
proof -
  let ?st = "\<lparr>cp_pending = pending_requests reqs, cp_streamed = [], cp_usage = (0, 0, 0), cp_chunks = []\<rparr>"
  have fst_eq: "map fst (pending_requests reqs) = map ir_request_id reqs"
    by (rule nth_equalityI) (simp_all add: pending_requests_distinct [OF assms(1)] nth_enumerate_eq)
  have snd_eq: "map snd (pending_requests reqs) = [0..<length reqs]"
    by (rule nth_equalityI) (simp_all add: pending_requests_distinct [OF assms(1)] nth_enumerate_eq)
  have "pending_set ?st = {..<length reqs}"
    using arg_cong [OF snd_eq, of set] by (simp add: pending_set_def atLeast_upt)
  moreover have "pending_ok ?st" using assms(1) fst_eq snd_eq by (simp add: pending_ok_def)
  ultimately show ?thesis using completion_rounds_part [of h t "length reqs" after ?st rounds cs] assms(2)
    by (simp add: iter_completion_stream_def)
qed

text \<open>
  C15. A completion stream that ends without an exception closes each of its requests exactly once, after its last
  piece of text, whatever the queue does between two readings of the stream; all chunks before the last belong to
  requests of the stream, and the last one has the usage.
\<close>

theorem completion_stream_closes_once:
  assumes "distinct (map ir_request_id reqs)" and "iter_completion_stream h t reqs after rounds = (cs, None)" and "i < length reqs"
  shows "closed_once (filter (of_request i) cs) \<and> (\<exists>body u. cs = body @ [openai_completion_usage_chunk h t (length reqs) u] \<and>
     list_all (\<lambda>c. \<exists>j<length reqs. of_request j c) body)"
proof -
  obtain body u where cs: "cs = body @ [openai_completion_usage_chunk h t (length reqs) u]" and part: "stream_part {..<length reqs} {} body"
    using completion_stream_parts [OF assms(1,2)] by blast
  have "\<not> of_request i (openai_completion_usage_chunk h t (length reqs) u)" by (simp add: openai_completion_usage_chunk_def)
  then have "closed_once (filter (of_request i) cs)" using cs part assms(3) by (simp add: stream_part_def)
  moreover have "list_all (\<lambda>c. \<exists>j<length reqs. of_request j c) body" using part by (auto simp: stream_part_def list_all_iff)
  ultimately show ?thesis using cs by blast
qed
lemma chat_chunk_simps [simp]:
  "\<not> closes (openai_chat_delta_chunk h t k s)" "closes (openai_chat_timeout_chunk h t k)"
  "chunk_status (openai_chat_delta_chunk h t k s) = ''running''"
  by (simp_all add: openai_chat_delta_chunk_def openai_chat_timeout_chunk_def closes_def delta_choice_def chunk_status_def stream_chunk_def
      running_ds4_def str_or_def por_def dget_def dget_or_def choice_of_def)

lemma delta_chunk_closes [simp]: "closes (stream_chunk h kind created [delta_choice d reason] u rest) \<longleftrightarrow> reason \<noteq> JNull"
  by (simp add: closes_def delta_choice_def dget_def dget_or_def)

lemma openai_chat_final_chunk_closes:
  assumes "openai_chat_final_chunk h t row st = Inr c"
  shows "closes c" and "st \<noteq> '''' \<Longrightarrow> chunk_status c = st"
proof -
  obtain u where c: "c = stream_chunk h ''chat.completion.chunk'' t [delta_choice [] (finish_reason st)]
              [(''usage'', usage_json u)] [(''request'', dget row ''request''), (''status'', JStr st)]"
    using assms by (auto simp: openai_chat_final_chunk_def bindE_eq_Inr)
  show "closes c" using c by simp
  show "chunk_status c = st" if "st \<noteq> ''''"
    using that by (simp add: c chunk_status_def stream_chunk_def str_or_def por_def dget_def dget_or_def)
qed

definition ends_request :: "string \<Rightarrow> event_row \<Rightarrow> bool" where
  "ends_request rid e \<longleftrightarrow> ev_request_id e = rid \<and> ev_type e \<noteq> ''delta'' \<and> ev_state e \<in> set api_terminal_states"

definition chat_row_terminal :: "string \<Rightarrow> stream_round \<Rightarrow> bool" where
  \<comment> \<open>when the request has ended, the status of its result is the name of a terminal state\<close>
  "chat_row_terminal rid r \<longleftrightarrow>
     \<not> list_ex (ends_request rid) (events (tr_poll r)) \<or>
     (case collected_row r rid of Inr row \<Rightarrow> result_status row \<in> set api_terminal_states | Inl _ \<Rightarrow> True)"

lemma drain_chat_closes:
  assumes "drain_chat_stream_events h r rid streamed es = Inr (cs, streamed')" and "chat_row_terminal rid r"
    and "set es \<subseteq> set (events (tr_poll r))"
  shows "if ends_chat cs then closed_once cs else list_all (\<lambda>c. \<not> closes c) cs"
  using assms
proof (induction es arbitrary: streamed cs)
  case Nil
  then show ?case by (simp add: ends_chat_def)
next
  case (Cons e es)
  consider (other) "ev_request_id e \<noteq> rid \<or> ev_type e = ''delta'' \<and> str_or (event_payload e) ''text'' '''' = '''' \<or>
        ev_type e \<noteq> ''delta'' \<and> ev_state e \<notin> set api_terminal_states"
    | (delta) "ev_request_id e = rid" "ev_type e = ''delta''" "str_or (event_payload e) ''text'' '''' \<noteq> ''''"
    | (final) "ev_request_id e = rid" "ev_type e \<noteq> ''delta''" "ev_state e \<in> set api_terminal_states" by blast
  then show ?case
  proof cases
    case other
    then have "drain_chat_stream_events h r rid streamed es = Inr (cs, streamed')" using Cons.prems by (auto simp: Let_def split: if_splits)
    then show ?thesis using Cons by auto
  next
    case delta
    let ?c = "openai_chat_delta_chunk h (tr_created r) rid (str_or (event_payload e) ''text'' '''')"
    obtain cs' where cs: "cs = ?c # cs'" and cs': "drain_chat_stream_events h r rid True es = Inr (cs', streamed')"
      using Cons.prems delta by (auto simp: Let_def bindE_eq_Inr)
    have "ends_chat cs \<longleftrightarrow> ends_chat cs'" using cs by (cases cs') (simp_all add: ends_chat_def api_terminal_states_def)
    then show ?thesis using Cons.IH [OF cs' Cons.prems(2)] Cons.prems(3) cs by (auto simp: closed_once_def)
  next
    case final
    then obtain row c where row: "collected_row r rid = Inr row"
      and c: "openai_chat_final_chunk h (tr_created r) row (result_status row) = Inr c"
      and cs: "cs = (if result_text row \<noteq> '''' \<and> \<not> streamed then [openai_chat_delta_chunk h (tr_created r) rid (result_text row)] else []) @ [c]"
      using Cons.prems by (auto simp: chat_final_chunks_def result_text_and_status_def bindE_eq_Inr)
    have "list_ex (ends_request rid) (events (tr_poll r))"
      using final Cons.prems(3) by (auto simp: list_ex_iff ends_request_def)
    then have st: "result_status row \<in> set api_terminal_states" using row Cons.prems(2) by (simp add: chat_row_terminal_def)
    then have "result_status row \<noteq> ''''" by (auto simp: api_terminal_states_def)
    then have "closes c" "chunk_status c = result_status row" using openai_chat_final_chunk_closes [OF c] by auto
    then show ?thesis using cs st by (auto simp: ends_chat_def closed_once_def)
  qed
qed

lemma polled_events: "set (polled after r) \<subseteq> set (events (tr_poll r))"
  by (auto simp: polled_def poll_rows_def sql_select_def dest!: in_set_takeD)

text \<open>
  C16. A chat stream that ends without an exception has exactly one chunk with a finish reason, its last, provided
  that the result of the request, once it has ended, has the name of a terminal state as its status.
\<close>

theorem chat_stream_closes_once:
  assumes "iter_chat_stream h t rid after rounds = (cs, None)" and "list_all (chat_row_terminal rid) rounds"
  shows "closed_once cs"
proof -
  have "closed_once cs" if "chat_rounds h t rid after streamed rounds = (cs, None)" for streamed
    using that assms(2)
  proof (induction rounds arbitrary: after streamed cs)
    case Nil
    then show ?case by (auto simp: closed_once_def)
  next
    case (Cons r rs)
    then obtain ds streamed1 where ds: "drain_chat_stream_events h r rid streamed (polled after r) = Inr (ds, streamed1)"
      by (auto split: sum.splits)
    have part: "if ends_chat ds then closed_once ds else list_all (\<lambda>c. \<not> closes c) ds"
      using drain_chat_closes [OF ds] Cons.prems polled_events by simp
    show ?case
    proof (cases "ends_chat ds")
      case True
      then show ?thesis using Cons.prems ds part by simp
    next
      case False
      then obtain rest where cs: "cs = ds @ rest" and rest: "rest = [openai_chat_timeout_chunk h t rid] \<or>
          chat_rounds h t rid (next_cursor after r) streamed1 rs = (rest, None)"
        using Cons.prems(1) ds by (auto split: round_end.splits prod.splits)
      have "closed_once rest" using rest Cons.IH Cons.prems(2) by (auto simp: closed_once_def)
      then show ?thesis using cs part False by (simp add: closed_once_append)
    qed
  qed
  then show ?thesis using assms(1) by (simp add: iter_chat_stream_def)
qed

section \<open>Examples\<close>

definition live_row :: request_row where
  "live_row = \<lparr>rq_request_id = ''r1'', rq_batch_id = ''b'', rq_kind = ''model'', rq_service_name = None, rq_state = Running, rq_priority = 5,
     rq_immediate = False, rq_profile_id = ''p'', rq_node_id = Some ''n'', rq_service_id = None, rq_node_ids = None, rq_compute_domain = None,
     rq_compute_lease_id = None, rq_request_json = JObj [], rq_json_hash = None, rq_result = None, rq_error = None, rq_cancel_requested = False,
     rq_kv_key = None, rq_kv_bytes = 0, rq_kv_shard_count = 0, rq_kv_shard_bytes = 0, rq_created_at = 0, rq_updated_at = 0, rq_ready_at = None,
     rq_started_at = Some 0, rq_completed_at = None, rq_lease_id = Some ''l'', rq_leased_by = Some ''w'', rq_lease_expires_at = Some 9,
     rq_heartbeat_at = None, rq_attempt_count = 1\<rparr>"

definition live_db :: queue_db where
  \<comment> \<open>a request runs and has streamed a piece of text\<close>
  "live_db = stream_delta 1 ''r1'' ''he'' [] (empty_db\<lparr>requests := [live_row]\<rparr>)"

definition answered_db :: queue_db where
  "answered_db =
     (case finish_request 2 ''r1'' ''l'' Completed [(''status'', JStr ''completed''), (''output'', JObj [(''text'', JStr ''hey'')])] None live_db of
        Inr (db, _) \<Rightarrow> db | Inl _ \<Rightarrow> live_db)"

definition transport_failed_db :: queue_db where
  \<comment> \<open>the runner's call fails, on the last attempt\<close>
  "transport_failed_db = fst (retry_transport_failure 2 ''r1'' ''l'' [(''status'', JStr ''transport_failed''), (''error'', JStr ''refused'')] 1 live_db)"

definition round_at :: "queue_db \<Rightarrow> stream_round" where
  "round_at db = \<lparr>tr_poll = db, tr_rows = (\<lambda>_. db), tr_created = 3, tr_end = Go_On\<rparr>"

definition demo_head :: stream_head where
  "demo_head = \<lparr>sh_id = ''r1'', sh_model = ''m'', sh_batch = ''b''\<rparr>"

definition streamed_texts :: "pydict list \<Rightarrow> (json \<times> json) list" where
  "streamed_texts cs = map (\<lambda>c. case choice_of c of Some d \<Rightarrow> (dget d ''text'', dget d ''finish_reason'') | None \<Rightarrow> (JNull, JNull)) cs"

lemma answered_completion:
  "streamed_texts (fst (iter_completion_stream demo_head 4 [demo_request] 0 [round_at live_db, round_at answered_db])) =
     [(JStr ''he'', JNull), (JStr '''', JStr ''stop''), (JNull, JNull)]"
  "snd (iter_completion_stream demo_head 4 [demo_request] 0 [round_at live_db, round_at answered_db]) = None"
  by code_simp+

theorem completion_stream_closes_once_witness:
  "\<exists>cs. iter_completion_stream demo_head 4 [demo_request] 0 [round_at live_db, round_at answered_db] = (cs, None) \<and>
     streamed_texts cs = [(JStr ''he'', JNull), (JStr '''', JStr ''stop''), (JNull, JNull)] \<and> closed_once (filter (of_request 0) cs)"
proof -
  obtain cs where cs: "iter_completion_stream demo_head 4 [demo_request] 0 [round_at live_db, round_at answered_db] = (cs, None)"
    using answered_completion(2) by (metis prod.collapse)
  have "closed_once (filter (of_request 0) cs)"
    by (rule conjunct1 [OF completion_stream_closes_once [OF _ cs]]) simp_all
  then show ?thesis using cs answered_completion(1) by simp
qed

lemma answered_chat:
  "snd (iter_chat_stream demo_head 4 ''r1'' 0 [round_at live_db, round_at answered_db]) = None"
  "list_all (chat_row_terminal ''r1'') [round_at live_db, round_at answered_db]"
  by code_simp+

theorem chat_stream_closes_once_witness:
  "closed_once (fst (iter_chat_stream demo_head 4 ''r1'' 0 [round_at live_db, round_at answered_db]))"
proof -
  obtain cs where cs: "iter_chat_stream demo_head 4 ''r1'' 0 [round_at live_db, round_at answered_db] = (cs, None)"
    using answered_chat(1) by (metis prod.collapse)
  show ?thesis using chat_stream_closes_once [OF cs answered_chat(2)] cs by simp
qed

text \<open>
  A transport failure leaves the status \<^verbatim>\<open>transport_failed\<close> in the result, which is no terminal state:
  the stream goes on after the chunk that closes the chat, until the deadline, and then closes it a second time.
\<close>

lemma failed_transport_closes_chat_twice:
  "map closes (fst (iter_chat_stream demo_head 4 ''r1'' 0 (round_at transport_failed_db # replicate 9 (round_at transport_failed_db)))) =
     [False, True, True]"
  by code_simp

section \<open>What the client reads\<close>

fun read_lines :: "string \<Rightarrow> string \<Rightarrow> string list" where
  \<comment> \<open>the lines of a text as \<^verbatim>\<open>readline\<close> gives them, with the line read so far\<close>
  "read_lines w [] = (if w = [] then [] else [w])"
| "read_lines w (c # s) = (if c = CHR 0x0A then (w @ [c]) # read_lines [] s else read_lines (w @ [c]) s)"

definition printable :: "string \<Rightarrow> bool" where
  \<comment> \<open>no line break\<close>
  "printable s \<longleftrightarrow> CHR 0x0A \<notin> set s \<and> CHR 0x0D \<notin> set s"

lemma printable_simps [simp]:
  "printable []" "printable (c # s) \<longleftrightarrow> c \<noteq> CHR 0x0A \<and> c \<noteq> CHR 0x0D \<and> printable s" "printable (s @ t) \<longleftrightarrow> printable s \<and> printable t"
  by (auto simp: printable_def)

lemma read_lines_line: "CHR 0x0A \<notin> set s \<Longrightarrow> read_lines w (s @ CHR 0x0A # r) = (w @ s @ [CHR 0x0A]) # read_lines [] r"
  by (induction s arbitrary: w) auto

lemma printable_digits: "printable (show_nat n)" "0 \<le> q \<Longrightarrow> q < 1 \<Longrightarrow> printable (frac_digits k q)"
proof -
  have "c \<noteq> CHR 0x0A \<and> c \<noteq> CHR 0x0D" if "digit_of c \<noteq> None" for c using that by (auto simp: digit_of_def)
  then have "printable s" if "\<forall>c \<in> set s. digit_of c \<noteq> None" for s using that unfolding printable_def by blast
  then show "printable (show_nat n)" "0 \<le> q \<Longrightarrow> q < 1 \<Longrightarrow> printable (frac_digits k q)"
    using show_nat_digits frac_digits_json by (auto simp: json_digit_def)
qed

lemma printable_hex: "printable (hex4 n)"
proof -
  have "hex_digit m \<noteq> c" if "m < 16" "hex_of c = None" for m c using that hex_of_digit [of m] by auto
  from this [of _ "CHR 0x0A"] this [of _ "CHR 0x0D"] have "hex_digit (m mod 16) \<noteq> CHR 0x0A" "hex_digit (m mod 16) \<noteq> CHR 0x0D" for m
    by (simp_all add: hex_of_def)
  then show ?thesis by (simp add: hex4_def)
qed

lemma printable_point: "printable (esc_point p)"
proof -
  have "char_of p \<noteq> c" if "32 \<le> p" "p < 127" "(of_char c :: nat) \<in> {10, 13}" for c :: char
  proof -
    have "(of_char (char_of p :: char) :: nat) = p" using that by simp
    then show ?thesis using that by auto
  qed
  from this [of "CHR 0x0A"] this [of "CHR 0x0D"]
  have "char_of p \<noteq> CHR 0x0A \<and> char_of p \<noteq> CHR 0x0D" if "32 \<le> p" "p < 127" using that by simp
  then show ?thesis by (simp add: esc_point_def u_escape_def printable_hex)
qed

lemma printable_text: "printable (dumps_str s)"
proof -
  have "printable (concat (map esc_point ps))" for ps by (induction ps) (simp_all add: printable_point)
  then show ?thesis by (simp add: dumps_str_def)
qed

lemma printable_join: "printable sep \<Longrightarrow> (\<And>s. s \<in> set ss \<Longrightarrow> printable s) \<Longrightarrow> printable (joinwith sep ss)"
  by (induction sep ss rule: joinwith.induct) auto

lemma printable_dump: "printable (dump v)"
proof (induction v)
  case (JInt i)
  show ?case by (simp add: show_int_def printable_digits)
next
  case (JFloat q)
  have "0 \<le> \<bar>q\<bar> - of_int \<lfloor>\<bar>q\<bar>\<rfloor>" "\<bar>q\<bar> - of_int \<lfloor>\<bar>q\<bar>\<rfloor> < 1" by linarith+
  then show ?case by (simp add: show_float_def show_int_def Let_def printable_digits)
next
  case (JObj d)
  have "printable (joinwith '', '' (map dump_member d))"
    using JObj.IH by (intro printable_join) (force simp: printable_text)+
  then show ?case by simp
next
  case (JArr vs)
  have "printable (joinwith '', '' (map dump vs))" using JArr.IH by (intro printable_join) auto
  then show ?case by simp
qed (simp_all add: printable_text)

lemma strip_braces: "strip (CHR ''{'' # s @ ''}'') = CHR ''{'' # s @ ''}''"
  by (simp add: strip_def is_space_def)

lemma sse_event_read:
  assumes "dumpable (canon (JObj d))"
  shows "sse_events [] Closed (read_lines [] (sse_event_text d @ r)) = Inr (canon (JObj d)) # sse_events [] Closed (read_lines [] r)"
proof -
  obtain s where s: "dumps_sorted (JObj d) = CHR ''{'' # s @ ''}''" by (simp add: dumps_sorted_def)
  have "printable (dumps_sorted (JObj d))" by (simp only: dumps_sorted_def printable_dump)
  then have nl: "CHR 0x0A \<notin> set (''data: '' @ dumps_sorted (JObj d))" by (simp add: printable_def)
  have lines: "read_lines [] (sse_event_text d @ r) = (''data: '' @ dumps_sorted (JObj d) @ [CHR 0x0A]) # [CHR 0x0A] # read_lines [] r"
    using read_lines_line [OF nl, of "[]" "CHR 0x0A # r"] by (simp add: sse_event_text_def newline_def)
  have l: "strip_line_end (''data: '' @ dumps_sorted (JObj d) @ [CHR 0x0A]) = ''data: '' @ dumps_sorted (JObj d)"
    by (simp add: strip_line_end_def s)
  have data: "strip (drop 5 (''data: '' @ dumps_sorted (JObj d))) = dumps_sorted (JObj d)"
    using strip_braces [of s] by (simp add: s strip_def is_space_def)
  have joined: "joined_data [dumps_sorted (JObj d)] = dumps_sorted (JObj d)"
    using strip_braces [of s] by (simp add: s joined_data_def)
  have "parsed_event (dumps_sorted (JObj d)) = Inr (canon (JObj d))"
    using json_loads_dumps_sorted [OF assms] by (simp add: parsed_event_def)
  moreover have "dumps_sorted (JObj d) \<noteq> ''[DONE]''" "dumps_sorted (JObj d) \<noteq> ''''" by (simp_all add: s)
  moreover have "strip_line_end [CHR 0x0A] = ''''" by (simp add: strip_line_end_def)
  moreover have "startswith (''data: '' @ dumps_sorted (JObj d)) ''data:''" by simp
  ultimately show ?thesis unfolding lines by (simp add: Let_def l [simplified] data [simplified] joined)
qed

text \<open>
  C17. What the API writes as a stream of server-sent events, the stream reader of the runners reads back as the
  same events in the same order and nothing else, for events of ASCII text whose numbers survive being written
  in decimal; in particular no event is taken for the end mark and none is split.
\<close>

theorem event_stream_roundtrip:
  assumes "list_all (\<lambda>d. dumpable (canon (JObj d))) evs"
  shows "sse_events [] Closed (read_lines [] (write_sse evs)) = map (\<lambda>d. Inr (canon (JObj d))) evs"
proof -
  have "sse_events [] Closed (read_lines [] (concat (map sse_event_text evs) @ r)) =
      map (\<lambda>d. Inr (canon (JObj d))) evs @ sse_events [] Closed (read_lines [] r)" for r
    using assms by (induction evs) (simp_all add: sse_event_read)
  moreover have "sse_events [] Closed (read_lines [] (''data: [DONE]'' @ newline @ newline)) = []" by code_simp
  ultimately show ?thesis by (simp add: write_sse_def)
qed

lemma live_events_dumpable:
  "list_all (\<lambda>d. dumpable (canon (JObj d))) (fst (iter_chat_stream demo_head 4 ''r1'' 0 [round_at live_db]))"
  by code_simp

theorem event_stream_roundtrip_witness:
  "sse_events [] Closed (read_lines [] (write_sse (fst (iter_chat_stream demo_head 4 ''r1'' 0 [round_at live_db])))) =
     map (\<lambda>d. Inr (canon (JObj d))) (fst (iter_chat_stream demo_head 4 ''r1'' 0 [round_at live_db]))"
  by (rule event_stream_roundtrip [OF live_events_dumpable])

end
