(* ===== verification/Api_Dispatch.thy ===== *)
theory Api_Dispatch
  imports Api_Topology Governor_State Worker Queue_Select Dispatcher_Claims Queue_Steps
begin

text \<open>
  The background dispatcher of \<^verbatim>\<open>ds4_infer/api.py\<close>: the cohorts under way, the refill
  from the queue within the window and the limits of the services, the governor and the circuit breaker that hold
  it back, and the results of cohorts that have ended.  A future is a number; how its cohort ended is an argument
  of the step that finds it done.  An operation that raises keeps what it had done before.
\<close>

section \<open>Settings\<close>

record dispatch_config =
  dc_env :: environ
  dc_topology :: spark_topology
  dc_window :: int
  dc_refill_batch :: int
  dc_cohort_workers :: int
  dc_idle_sleep_s :: rat
  dc_linger_s :: rat
  dc_heartbeat_s :: rat
  dc_capacity :: int
  dc_multimodel :: bool
  dc_worker :: worker
  dc_entry_node :: string
  dc_profiles :: "string list"
  dc_limits :: service_limits
  dc_token_limits :: service_limits
  dc_layouts :: "string \<Rightarrow> shard_layout option"

definition at_least :: "int \<Rightarrow> environ \<Rightarrow> string \<Rightarrow> int \<Rightarrow> int result" where
  \<comment> \<open>\<^verbatim>\<open>max(n, _env_int(name, d))\<close>\<close>
  "at_least n env name d = bindE (env_int env name d) (\<lambda>v. Inr (max n v))"

definition float_at_least :: "rat \<Rightarrow> environ \<Rightarrow> string \<Rightarrow> rat \<Rightarrow> rat result" where
  "float_at_least r env name d = bindE (trim_env_float env name d) (\<lambda>v. Inr (max r v))"

definition dispatch_worker :: "environ \<Rightarrow> worker result" where
  "dispatch_worker env =
     bindE (at_least 1 env ''DS4_API_DISPATCH_LEASE_TTL_S'' 900) (\<lambda>ttl.
     bindE (at_least 1 env ''DS4_API_TRANSPORT_MAX_ATTEMPTS'' 1) (\<lambda>attempts.
       Inr \<lparr>wk_id = ''spark0-api-continuous-dispatcher'', wk_ttl = of_int ttl, wk_max_attempts = attempts\<rparr>))"

definition make_dispatch_config :: "environ \<Rightarrow> spark_topology \<Rightarrow> (string \<Rightarrow> shard_layout option) \<Rightarrow> dispatch_config result" where
  "make_dispatch_config env topo layouts =
     bindE (topology_dispatch_window env (Inr topo)) (\<lambda>window0.
     bindE (at_least 1 env ''DS4_API_DISPATCH_WINDOW'' window0) (\<lambda>window.
     bindE (at_least 1 env ''DS4_API_DISPATCH_REFILL_BATCH'' window) (\<lambda>refill.
     bindE (topology_dispatch_cohort_workers env (Inr topo)) (\<lambda>workers0.
     bindE (at_least 1 env ''DS4_API_DISPATCH_COHORT_WORKERS'' workers0) (\<lambda>workers.
     bindE (float_at_least (1 / 1000) env ''DS4_API_DISPATCH_IDLE_SLEEP_S'' (5 / 1000)) (\<lambda>idle.
     bindE (float_at_least 0 env ''DS4_API_DISPATCH_BATCH_LINGER_S'' (3 / 100)) (\<lambda>linger.
     bindE (float_at_least (1 / 4) env ''DS4_API_DISPATCH_HEARTBEAT_S'' 2) (\<lambda>heartbeat.
     bindE (at_least 0 env ''DS4_API_DISPATCH_KV_CAPACITY_BYTES'' 0) (\<lambda>capacity.
     bindE (dispatch_worker env) (\<lambda>w.
     bindE (batch_limits_by_service env topo) (\<lambda>limits.
     bindE (batch_token_limits_by_service env topo) (\<lambda>tokens.
     let node = str_or (tp_routing_policy topo) ''queue_entry_node_id'' ''spark0'' in
     bindE (node_profile_ids topo node) (\<lambda>profiles.
       Inr \<lparr>dc_env = env, dc_topology = topo, dc_window = window, dc_refill_batch = refill, dc_cohort_workers = workers,
               dc_idle_sleep_s = idle, dc_linger_s = linger, dc_heartbeat_s = heartbeat, dc_capacity = capacity,
               dc_multimodel = trim_env_bool env ''DS4_API_RESIDENT_MULTIMODEL'' True, dc_worker = w, dc_entry_node = node,
               dc_profiles = profiles, dc_limits = map_of limits, dc_token_limits = map_of tokens,
               dc_layouts = layouts\<rparr>)))))))))))))"

definition service_ids_env :: "environ \<Rightarrow> string \<Rightarrow> string list" where
  "service_ids_env env name = parse_service_ids (env_get env name '''')"

section \<open>State\<close>

datatype cohort_job = Cohort_Job | Rolling_Job service_limits service_limits int bool

record pending_run =
  pr_future :: nat
  pr_cohort :: pending_cohort
  pr_job :: cohort_job

record dispatcher =
  dp_queue :: queue_db
  dp_pending :: "pending_run list"
  dp_next :: nat
  dp_plans :: "resident_plan list"
  dp_governor :: governor
  dp_breaker :: jit_breaker
  dp_gate_open_until :: rat
  dp_options :: dispatcher_options
  dp_credit_at :: rat
  dp_heartbeat_at :: rat
  dp_state :: pydict

definition dispatcher_note :: "pydict \<Rightarrow> dispatcher \<Rightarrow> dispatcher" where
  "dispatcher_note updates d = d\<lparr>dp_state := dupdate (dp_state d) updates\<rparr>"

definition state_int :: "string \<Rightarrow> dispatcher \<Rightarrow> int" where
  \<comment> \<open>\<^verbatim>\<open>int(state.get(k) or 0)\<close>\<close>
  "state_int k d = (case dget (dp_state d) k of JInt n \<Rightarrow> n | _ \<Rightarrow> 0)"

definition dispatcher_count :: "(string \<times> int) list \<Rightarrow> dispatcher \<Rightarrow> dispatcher" where
  "dispatcher_count increments d = foldl (\<lambda>d (k, n). d\<lparr>dp_state := dset k (JInt (state_int k d + n)) (dp_state d)\<rparr>) d increments"

definition pending_of :: "dispatcher \<Rightarrow> pending_value list" where
  "pending_of d = map (\<lambda>r. Cohort (pr_cohort r)) (dp_pending d)"

definition counts_json :: "(string \<times> int) list \<Rightarrow> json" where
  "counts_json d = JObj (map (\<lambda>(k, n). (k, JInt n)) d)"

definition count_of :: "(string \<times> int) list \<Rightarrow> string \<Rightarrow> int" where
  "count_of d k = (case map_of d k of None \<Rightarrow> 0 | Some n \<Rightarrow> n)"

definition dispatcher_pending_count :: "rat \<Rightarrow> dispatcher \<Rightarrow> int" where
  "dispatcher_pending_count now d = pending_claim_count now (pending_of d)"

definition pending_notes :: "rat \<Rightarrow> dispatcher \<Rightarrow> pydict" where
  "pending_notes now d =
     [(''pending'', JInt (dispatcher_pending_count now d)),
      (''pending_by_service'', counts_json (pending_claim_count_by_service now (pending_of d))),
      (''pending_cohorts'', JInt (int (length (dp_pending d)))),
      (''pending_cohort_details'', JArr (map JObj (pending_cohort_details now (pending_of d)))), (''last_error'', JNull)]"

section \<open>The limits of a refill\<close>

definition resident_parallel_cohorts_enabled :: "environ \<Rightarrow> resident_plan \<Rightarrow> bool" where
  "resident_parallel_cohorts_enabled env p \<longleftrightarrow>
     \<not> plan_uses_rolling_admission p \<or> trim_env_bool env ''DS4_API_RESIDENT_ALLOW_PARALLEL_COHORTS'' False \<or>
     (let ids = service_ids_env env ''DS4_API_RESIDENT_ALLOW_PARALLEL_COHORT_SERVICE_IDS''
      in ''*'' \<in> set ids \<or> rp_service_id p \<in> set ids \<or> rp_profile_id p \<in> set ids)"

definition resident_compute_domain_limit_reached :: "resident_plan \<Rightarrow> (string \<times> int) list \<Rightarrow> bool" where
  "resident_compute_domain_limit_reached p running \<longleftrightarrow>
     rp_max_domain_batches p > 0 \<and> rp_compute_domain p \<noteq> '''' \<and> count_of running (rp_compute_domain p) \<ge> rp_max_domain_batches p"

definition resident_service_limit_reached :: "resident_plan \<Rightarrow> (string \<times> int) list \<Rightarrow> bool" where
  "resident_service_limit_reached p running \<longleftrightarrow>
     rp_max_service_batches p > 0 \<and> rp_service_id p \<noteq> '''' \<and> count_of running (rp_service_id p) \<ge> rp_max_service_batches p"

definition resident_refill_limit :: "dispatch_config \<Rightarrow> resident_plan \<Rightarrow> (string \<times> int) list \<Rightarrow> int \<Rightarrow> int \<Rightarrow> int" where
  "resident_refill_limit cfg p active_by_service submitted available =
     (let active = count_of active_by_service (rp_service_id p);
          refill = min (max 1 (rp_max_cohort_size p)) (min (max 1 (dc_refill_batch cfg - submitted)) available);
          room = max 0 (rp_queue_depth_target p - active)
      in if refill \<le> 0 then 0
         else if active \<le> 0 then min room refill
         else if \<not> plan_uses_rolling_admission p
         then (if room \<le> 0 \<or> active > rp_low_watermark p then 0 else min room refill)
         else if active > rp_low_watermark p
         then (if \<not> resident_parallel_cohorts_enabled (dc_env cfg) p \<or> room \<le> 0 then 0 else min room refill)
         else refill)"

definition resident_service_batch_limits :: "resident_plan list \<Rightarrow> (string \<times> int) list" where
  "resident_service_batch_limits plans =
     map (\<lambda>p. (rp_service_id p, rp_max_service_batches p)) (filter (\<lambda>p. rp_max_service_batches p > 0) plans)"

definition resident_compute_domain_batch_limits :: "resident_plan list \<Rightarrow> (string \<times> int) list" where
  \<comment> \<open>the least of the limits of a domain\<close>
  "resident_compute_domain_batch_limits plans =
     foldl (\<lambda>d p. if rp_compute_domain p = '''' \<or> rp_max_domain_batches p \<le> 0 then d
              else set_limit (rp_compute_domain p)
                     (case map_of d (rp_compute_domain p) of None \<Rightarrow> rp_max_domain_batches p | Some n \<Rightarrow> min n (rp_max_domain_batches p)) d)
       [] plans"


section \<open>Submitting a cohort\<close>

definition submit_cohort :: "rat \<Rightarrow> queue_claim list \<Rightarrow> cohort_job \<Rightarrow> dispatcher \<Rightarrow> dispatcher" where
  "submit_cohort now claims job d =
     (let mode = (case job of Cohort_Job \<Rightarrow> ''cohort'' | Rolling_Job _ _ _ _ \<Rightarrow> ''rolling_refill'');
          cohort = cohort_from_claims claims mode now; n = int (length claims);
          last0 = obj_or_empty (dget (dp_state d) ''last_claimed_cohort_by_service'');
          last_by_service = (case pc_service_id cohort of Some s \<Rightarrow> if s = '''' then last0 else dset s (JInt n) last0 | None \<Rightarrow> last0)
      in dispatcher_note
           [(''last_claimed_cohort_size'', JInt n), (''largest_claimed_cohort_size'', JInt (max (state_int ''largest_claimed_cohort_size'' d) n)),
            (''last_claimed_service_id'', jopt (pc_service_id cohort)), (''last_claimed_cohort_by_service'', JObj last_by_service)]
           (d\<lparr>dp_pending := dp_pending d @ [\<lparr>pr_future = dp_next d, pr_cohort = cohort, pr_job = job\<rparr>], dp_next := dp_next d + 1\<rparr>))"

text \<open>
  What a refill is given: the time, the random parts of ids for each service, and what other users of the queue do
  before the turn of a service.
\<close>

record refill_input =
  ri_now :: rat
  ri_uuids :: "string \<Rightarrow> nat \<Rightarrow> string"
  ri_claim_uuids :: "string \<Rightarrow> nat \<Rightarrow> string"
  ri_others :: "string \<Rightarrow> queue_db \<Rightarrow> queue_db"

definition with_token_limit :: "resident_plan \<Rightarrow> service_limits \<Rightarrow> service_limits" where
  "with_token_limit p limits = (if rp_max_cohort_tokens p > 0 then limits(rp_service_id p \<mapsto> rp_max_cohort_tokens p) else limits)"

definition decode_reserves :: "resident_plan \<Rightarrow> service_limits" where
  "decode_reserves p = (if rp_decode_token_reserve p > 0 then [rp_service_id p \<mapsto> rp_decode_token_reserve p] else Map.empty)"

definition resident_prepare_ready :: "dispatch_config \<Rightarrow> refill_input \<Rightarrow> resident_plan \<Rightarrow> int \<Rightarrow> queue_db \<Rightarrow> queue_db \<times> nat" where
  "resident_prepare_ready cfg inp p limit db =
     prepare_ready (dc_env cfg) (ri_now inp) (ri_uuids inp (rp_service_id p)) (Some (dc_entry_node cfg)) (dc_profiles cfg) None
       (if rp_shape_bucketing p then limit * max 1 (rp_shape_lookahead p) else limit)
       (wk_id (dc_worker cfg)) 0 (dc_capacity cfg) (dc_layouts cfg) (Some (rp_service_id p)) True db"

definition resident_claim_opts :: "dispatch_config \<Rightarrow> resident_plan \<Rightarrow> int \<Rightarrow> bool \<Rightarrow> claim_opts" where
  "resident_claim_opts cfg p limit initial_cohort =
     (let least = (if initial_cohort then min limit (rp_initial_cohort_min p) else 0)
      in \<lparr>co_node = Some (dc_entry_node cfg), co_batch = None, co_limit = limit, co_leased_by = wk_id (dc_worker cfg),
          co_ttl = wk_ttl (dc_worker cfg), co_linger_s = rp_batch_linger_s p, co_limits = dc_limits cfg,
          co_token_limits = with_token_limit p (dc_token_limits cfg), co_decode_reserves = decode_reserves p, co_compute_lease = None,
          co_service = Some (rp_service_id p), co_share = True, co_bucketing = rp_shape_bucketing p, co_lookahead = rp_shape_lookahead p,
          co_min_ready = least, co_min_timeout = (if least > 0 then rp_initial_cohort_timeout_s p else 0),
          co_large_threshold = (if least > 0 then rp_large_threshold p else 0)\<rparr>)"

definition resident_submit_claims :: "dispatch_config \<Rightarrow> rat \<Rightarrow> resident_plan \<Rightarrow> queue_claim list \<Rightarrow> dispatcher \<Rightarrow> dispatcher" where
  "resident_submit_claims cfg now p claims d =
     (let job = (if plan_uses_rolling_admission p
                 then Rolling_Job (with_token_limit p (dc_token_limits cfg)) (decode_reserves p) (rp_low_watermark p)
                        (do_prefer_cohort_batch (dp_options d))
                 else Cohort_Job);
          d1 = submit_cohort now claims job d
      in d1\<lparr>dp_plans := map (\<lambda>q. if rp_service_id q = rp_service_id p then charge (int (length claims)) now q else q) (dp_plans d1)\<rparr>)"

section \<open>The refill of the resident services\<close>

record refill_state =
  rg_dispatcher :: dispatcher
  rg_active :: "(string \<times> int) list"
  rg_batches :: "(string \<times> int) list"
  rg_domains :: "(string \<times> int) list"
  rg_submitted :: int
  rg_available :: int
  rg_made_ready :: nat
  rg_attempted :: nat

definition refill_service :: "dispatch_config \<Rightarrow> refill_input \<Rightarrow> resident_plan \<Rightarrow> int \<Rightarrow> refill_state \<Rightarrow> refill_state \<times> unit result" where
  \<comment> \<open>prepare, claim and submit for one service\<close>
  "refill_service cfg inp p limit g =
     (let sid = rp_service_id p; d = rg_dispatcher g;
          (db1, made) = resident_prepare_ready cfg inp p limit (ri_others inp sid (dp_queue d));
          g1 = g\<lparr>rg_dispatcher := d\<lparr>dp_queue := db1\<rparr>, rg_attempted := rg_attempted g + 1, rg_made_ready := rg_made_ready g + made\<rparr>;
          initial = (count_of (rg_active g) sid \<le> 0 \<and> count_of (rg_batches g) sid \<le> 0)
      in case claim_ready_batch (dc_env cfg) (ri_now inp) (ri_claim_uuids inp sid) (resident_claim_opts cfg p limit initial) db1 of
           Inl e \<Rightarrow> (g1, Inl e)
         | Inr (db2, claims) \<Rightarrow>
             if claims = [] then (g1\<lparr>rg_dispatcher := d\<lparr>dp_queue := db2\<rparr>\<rparr>, Inr ())
             else
               (let n = int (length claims)
                in (g1\<lparr>rg_dispatcher := resident_submit_claims cfg (ri_now inp) p claims (d\<lparr>dp_queue := db2\<rparr>),
                       rg_submitted := rg_submitted g + n, rg_available := rg_available g - n,
                       rg_active := set_limit sid (count_of (rg_active g) sid + n) (rg_active g),
                       rg_batches := set_limit sid (count_of (rg_batches g) sid + 1) (rg_batches g),
                       rg_domains := (if rp_compute_domain p = '''' then rg_domains g
                                      else set_limit (rp_compute_domain p) (count_of (rg_domains g) (rp_compute_domain p) + 1) (rg_domains g))\<rparr>,
                    Inr ())))"

fun refill_services :: "dispatch_config \<Rightarrow> refill_input \<Rightarrow> resident_plan list \<Rightarrow> refill_state \<Rightarrow> refill_state \<times> unit result" where
  "refill_services cfg inp [] g = (g, Inr ())"
| "refill_services cfg inp (p # ps) g =
     (if rg_available g \<le> 0 \<or> rg_submitted g \<ge> dc_refill_batch cfg then (g, Inr ())
      else if resident_service_limit_reached p (rg_batches g) \<or> resident_compute_domain_limit_reached p (rg_domains g)
      then refill_services cfg inp ps g
      else
        (let limit = resident_refill_limit cfg p (rg_active g) (rg_submitted g) (rg_available g)
         in if limit \<le> 0 then refill_services cfg inp ps g
            else case refill_service cfg inp p limit g of
              (g1, Inl e) \<Rightarrow> (g1, Inl e)
            | (g1, Inr _) \<Rightarrow> refill_services cfg inp ps g1))"

definition plans_note :: "(resident_plan \<Rightarrow> json) \<Rightarrow> (resident_plan \<Rightarrow> bool) \<Rightarrow> resident_plan list \<Rightarrow> json" where
  "plans_note f keep plans = JObj (map (\<lambda>p. (rp_service_id p, f p)) (filter keep plans))"

definition resident_notes :: "rat \<Rightarrow> nat \<Rightarrow> nat \<Rightarrow> dispatcher \<Rightarrow> pydict" where
  "resident_notes now attempted made_ready d =
     (let plans = dp_plans d; pending = pending_of d;
          all_plans = (\<lambda>f. plans_note f (\<lambda>_. True) plans); positive = (\<lambda>f. plans_note (\<lambda>p. JInt (f p)) (\<lambda>p. f p > 0) plans)
      in [(''pending_by_service'', counts_json (pending_claim_count_by_service now pending)),
          (''resident_service_active_batches'', counts_json (pending_cohort_count_by_service now pending)),
          (''resident_service_batch_limits'', counts_json (resident_service_batch_limits plans)),
          (''resident_compute_domain_active_batches'', counts_json (pending_cohort_count_by_compute_domain now pending)),
          (''resident_compute_domain_batch_limits'', counts_json (resident_compute_domain_batch_limits plans)),
          (''pending_cohort_details'', JArr (map JObj (pending_cohort_details now pending))),
          (''resident_service_targets'', all_plans (\<lambda>p. JInt (rp_target_active p))),
          (''resident_service_queue_depth_targets'', all_plans (\<lambda>p. JInt (rp_queue_depth_target p))),
          (''resident_service_token_limits'', positive rp_max_cohort_tokens),
          (''resident_service_decode_token_reserves'', positive rp_decode_token_reserve),
          (''resident_service_initial_cohort_mins'', positive rp_initial_cohort_min),
          (''resident_service_initial_cohort_timeouts'',
             plans_note (\<lambda>p. JFloat (rp_initial_cohort_timeout_s p)) (\<lambda>p. rp_initial_cohort_timeout_s p > 0) plans),
          (''resident_service_large_request_token_thresholds'', positive rp_large_threshold),
          (''resident_service_low_watermarks'', all_plans (\<lambda>p. JInt (rp_low_watermark p))),
          (''resident_service_admission_modes'', all_plans (\<lambda>p. JStr (rp_admission_mode p))),
          (''resident_service_deficits'', all_plans (\<lambda>p. JFloat (round3 (rp_deficit p)))),
          (''resident_refill_attempted_services'', JInt (int attempted)), (''resident_prefilled_count'', JInt (int made_ready))])"

definition refill_start :: "dispatch_config \<Rightarrow> rat \<Rightarrow> dispatcher \<Rightarrow> refill_state" where
  "refill_start cfg now d =
     \<lparr>rg_dispatcher = d\<lparr>dp_queue := fst (requeue_expired_leases now 3 (dp_queue d))\<rparr>,
      rg_active = pending_claim_count_by_service now (pending_of d), rg_batches = pending_cohort_count_by_service now (pending_of d),
      rg_domains = pending_cohort_count_by_compute_domain now (pending_of d), rg_submitted = 0,
      rg_available = dc_window cfg - dispatcher_pending_count now d, rg_made_ready = 0, rg_attempted = 0\<rparr>"

definition refill_resident_multimodel :: "dispatch_config \<Rightarrow> refill_input \<Rightarrow> dispatcher \<Rightarrow> dispatcher \<times> int result" where
  "refill_resident_multimodel cfg inp d =
     (if dc_window cfg - dispatcher_pending_count (ri_now inp) d \<le> 0 then (d, Inr 0)
      else
        (let g0 = refill_start cfg (ri_now inp) d
         in case refill_services cfg inp (resident_service_order (dp_plans d) (rg_active g0)) g0 of
              (g, Inl e) \<Rightarrow> (rg_dispatcher g, Inl e)
            | (g, Inr _) \<Rightarrow> (dispatcher_note (resident_notes (ri_now inp) (rg_attempted g) (rg_made_ready g) (rg_dispatcher g)) (rg_dispatcher g),
                             Inr (rg_submitted g))))"

definition exclusive_claim_opts :: "dispatch_config \<Rightarrow> int \<Rightarrow> claim_opts" where
  "exclusive_claim_opts cfg limit =
     \<lparr>co_node = Some (dc_entry_node cfg), co_batch = None, co_limit = limit, co_leased_by = wk_id (dc_worker cfg),
      co_ttl = wk_ttl (dc_worker cfg), co_linger_s = dc_linger_s cfg, co_limits = dc_limits cfg, co_token_limits = dc_token_limits cfg,
      co_decode_reserves = Map.empty, co_compute_lease = None, co_service = None, co_share = False, co_bucketing = False,
      co_lookahead = 1, co_min_ready = 0, co_min_timeout = 0, co_large_threshold = 0\<rparr>"

definition refill_exclusive :: "dispatch_config \<Rightarrow> refill_input \<Rightarrow> dispatcher \<Rightarrow> dispatcher \<times> int result" where
  "refill_exclusive cfg inp d =
     (let available = dc_window cfg - dispatcher_pending_count (ri_now inp) d; limit = min available (dc_refill_batch cfg);
          w = dc_worker cfg; now = ri_now inp
      in if available \<le> 0 then (d, Inr 0)
         else
           (let db0 = fst (requeue_expired_leases now 3 (dp_queue d));
                (db1, _) = prepare_ready (dc_env cfg) now (ri_uuids inp '''') (Some (dc_entry_node cfg)) (dc_profiles cfg) None limit
                             (wk_id w) 0 (dc_capacity cfg) (dc_layouts cfg) None False (ri_others inp '''' db0)
            in case claim_ready_batch (dc_env cfg) now (ri_claim_uuids inp '''') (exclusive_claim_opts cfg limit) db1 of
                 Inl e \<Rightarrow> (d\<lparr>dp_queue := db1\<rparr>, Inl e)
               | Inr (db2, claims) \<Rightarrow>
                   if claims = [] then (d\<lparr>dp_queue := db2\<rparr>, Inr 0)
                   else (submit_cohort now claims Cohort_Job (d\<lparr>dp_queue := db2\<rparr>), Inr (int (length claims)))))"


section \<open>What holds a refill back\<close>

definition has_refill_demand :: "dispatch_config \<Rightarrow> rat \<Rightarrow> dispatcher \<Rightarrow> bool result" where
  "has_refill_demand cfg now d =
     (if dc_window cfg - dispatcher_pending_count now d \<le> 0 then Inr False
      else bindE (status now None None None False (dp_queue d)) (\<lambda>(_, st).
             let counts = obj_or_empty (dget st ''state_counts'')
             in Inr (list_ex (\<lambda>s. case dget counts s of JInt n \<Rightarrow> n > 0 | _ \<Rightarrow> False) [''queued'', ''ready''])))"

text \<open>What the governor and the trimming are given: two samples of the nodes, and the answer of each service.\<close>

record governor_input =
  gi_readings :: "gpu_reading list"
  gi_readings_after_trim :: "gpu_reading list"
  gi_trim :: "pipeline_service \<Rightarrow> pydict"

definition ask_governor :: "rat \<Rightarrow> gpu_reading list \<Rightarrow> pydict \<Rightarrow> dispatcher \<Rightarrow> bool \<times> pydict \<times> dispatcher" where
  \<comment> \<open>\<^verbatim>\<open>before_refill\<close> with the note of its status\<close>
  "ask_governor now readings notes d =
     (let (decision, g) = before_refill now readings (dp_governor d)
      in (gd_allow_refill decision, gd_status decision,
          dispatcher_note ((''resource_governor'', JObj (gd_status decision)) # notes) (d\<lparr>dp_governor := g\<rparr>)))"

definition resource_allows_refill :: "dispatch_config \<Rightarrow> rat \<Rightarrow> governor_input \<Rightarrow> dispatcher \<Rightarrow> dispatcher \<times> bool result" where
  "resource_allows_refill cfg now inp d =
     (let (allowed, status1, d1) = ask_governor now (gi_readings inp) [] d; opts = dp_options d;
          throttled = (\<lambda>d. (dispatcher_count [(''resource_governor_throttle_count'', 1)] d, Inr False))
      in if allowed then (d1, Inr True)
         else
           case try_trim_host_memory (gi_trim inp) status1 (pending_of d) (do_trim_on_host_memory opts) (do_trim_cooldown_s opts)
                  (do_last_trim_at opts) (do_trim_mode opts) (dc_topology cfg) now of
             Inl e \<Rightarrow> (d1, Inl e)
           | Inr (trim, last_at) \<Rightarrow>
               (let d2 = d1\<lparr>dp_options := opts\<lparr>do_last_trim_at := last_at\<rparr>\<rparr>; shown = (''last_host_memory_trim'', JObj trim)
                in if \<not> truthy (dget trim ''attempted'') then throttled d2
                   else if \<not> truthy (dget trim ''ok'') then throttled (dispatcher_note [shown] d2)
                   else
                     (let d3 = dispatcher_count [(''host_memory_trim_count'', 1)] (dispatcher_note [shown] d2);
                          (allowed2, _, d4) = ask_governor now (gi_readings_after_trim inp) [shown] (d3\<lparr>dp_governor := force_resample (dp_governor d3)\<rparr>)
                      in if allowed2 then (d4, Inr True) else throttled d4)))"

definition dispatcher_wait_s :: "dispatch_config \<Rightarrow> rat \<Rightarrow> dispatcher \<Rightarrow> rat" where
  "dispatcher_wait_s cfg now d =
     (let remaining = cooldown_remaining_s now (dp_governor d); idle = dc_idle_sleep_s cfg
      in if remaining \<le> 0 then idle else max idle (min remaining (max idle 1)))"

definition dispatcher_refill :: "dispatch_config \<Rightarrow> refill_input \<Rightarrow> governor_input \<Rightarrow> dispatcher \<Rightarrow> dispatcher \<times> int result" where
  "dispatcher_refill cfg inp gov d =
     (case has_refill_demand cfg (ri_now inp) d of
        Inl e \<Rightarrow> (d, Inl e)
      | Inr False \<Rightarrow> (dispatcher_note [(''resource_governor'', JObj (gov_status (ri_now inp) (dp_governor d)))] d, Inr 0)
      | Inr True \<Rightarrow>
          (case resource_allows_refill cfg (ri_now inp) gov d of
             (d1, Inl e) \<Rightarrow> (d1, Inl e)
           | (d1, Inr False) \<Rightarrow> (d1, Inr 0)
           | (d1, Inr True) \<Rightarrow>
               if dc_multimodel cfg \<and> dp_plans d1 \<noteq> [] then refill_resident_multimodel cfg inp d1 else refill_exclusive cfg inp d1))"

definition release_jit_kv_waits_if_circuit_open :: "rat \<Rightarrow> dispatcher \<Rightarrow> dispatcher" where
  \<comment> \<open>once for each time until which the circuit is open\<close>
  "release_jit_kv_waits_if_circuit_open now d =
     (let (st, b) = breaker_status now (dp_breaker d); d1 = d\<lparr>dp_breaker := b\<rparr>
      in case dget st ''jit_kv_circuit_open_until'' of
           JFloat open_until \<Rightarrow>
             if open_until = dp_gate_open_until d then d1
             else
               (let (db, released) = release_jit_kv_waits now ''jit_kv_circuit_open'' (dp_queue d1);
                    n = (case dget released ''wait_released'' of JInt n \<Rightarrow> n | _ \<Rightarrow> 0)
                in dispatcher_note [(''jit_kv_last_gate_release'', JObj released)]
                     (d1\<lparr>dp_queue := db, dp_breaker := record_gate_release n b, dp_gate_open_until := open_until\<rparr>))
         | _ \<Rightarrow> d1)"

section \<open>How a cohort is run\<close>

text \<open>
  The ways of \<^verbatim>\<open>_dispatcher_run_claims\<close>: the CPU service, the two batch calls of the runner,
  or each claim in a thread.  \<open>run_outcomes\<close> holds what the calls come to; the results of threads come in any order.
\<close>

datatype run_way = Nothing_To_Run | Run_Cpu | Run_Incremental | Run_Batch | Run_Each

definition run_claims_way :: "bool \<Rightarrow> bool \<Rightarrow> queue_claim list \<Rightarrow> run_way" where
  "run_claims_way many incremental claims =
     (if claims = [] then Nothing_To_Run
      else if qc_kind (hd claims) = ''cpu'' then Run_Cpu
      else if can_batch_models many claims then (if incremental then Run_Incremental else Run_Batch)
      else Run_Each)"

record run_outcomes =
  ro_cpu :: "string + json list"
  ro_incremental :: "string + counts"
  ro_batch :: "string + (string \<times> pydict) list"
  ro_each :: "(queue_claim \<times> (string + pydict)) list"
  ro_stream :: "string + counts \<times> int \<times> int"

text \<open>How the future of a cohort ends: pairs to hand in, a summary of what the run has handed in itself, or an exception.\<close>

datatype cohort_end = Pairs "(queue_claim \<times> pydict) list" | Batch_Finished pydict | Raised string

definition dispatcher_transport_failure :: "queue_claim \<Rightarrow> string \<Rightarrow> pydict" where
  "dispatcher_transport_failure c e =
     [(''format'', JStr ''ds4-inference-failure-v1''), (''request_id'', JStr (qc_request_id c)), (''status'', JStr ''transport_failed''),
      (''error'', JStr e)]"

definition counts_fields :: "counts \<Rightarrow> pydict" where
  "counts_fields n = (case n of (completed, failed, retried) \<Rightarrow>
     [(''completed'', JInt completed), (''failed'', JInt failed), (''retried'', JInt retried)])"

definition dispatcher_run_claims :: "bool \<Rightarrow> bool \<Rightarrow> rat \<Rightarrow> run_outcomes \<Rightarrow> queue_claim list \<Rightarrow> cohort_end" where
  "dispatcher_run_claims many incremental ttl out claims =
     (case run_claims_way many incremental claims of
        Nothing_To_Run \<Rightarrow> Pairs []
      | Run_Cpu \<Rightarrow> (case run_cpu_claims claims ttl (ro_cpu out) of Inl e \<Rightarrow> Raised (exc_text e) | Inr pairs \<Rightarrow> Pairs pairs)
      | Run_Incremental \<Rightarrow> (case ro_incremental out of Inl e \<Rightarrow> Raised e | Inr n \<Rightarrow> Batch_Finished (counts_fields n))
      | Run_Batch \<Rightarrow> Pairs (model_batch_pairs claims (ro_batch out))
      | Run_Each \<Rightarrow> Pairs (map (\<lambda>(c, r). (c, case r of Inl e \<Rightarrow> dispatcher_transport_failure c e | Inr res \<Rightarrow> res)) (ro_each out)))"

definition dispatcher_run_rolling_batch_claims ::
  "bool \<Rightarrow> bool \<Rightarrow> string \<Rightarrow> rat \<Rightarrow> run_outcomes \<Rightarrow> queue_claim list \<Rightarrow> cohort_end"
where
  "dispatcher_run_rolling_batch_claims many incremental runner_type ttl out claims =
     (case dispatcher_run_claims many incremental ttl out claims of
        Batch_Finished s \<Rightarrow>
          Batch_Finished (dupdate (setdefault ''prefilled'' (JInt 0) (setdefault ''claimed'' (JInt (int (length claims))) s))
            [(''dispatch_mode'', JStr ''rolling_refill''), (''transport_mode'', JStr ''rolling_batch_incremental''), (''runner_type'', JStr runner_type)])
      | e \<Rightarrow> e)"

definition force_refill_stream_for_claims :: "environ \<Rightarrow> queue_claim list \<Rightarrow> bool" where
  "force_refill_stream_for_claims env claims \<longleftrightarrow>
     claims \<noteq> [] \<and> qc_kind (hd claims) = ''model'' \<and>
     (trim_env_bool env ''DS4_API_RESIDENT_FORCE_REFILL_STREAM'' False \<or>
      (let ids = service_ids_env env ''DS4_API_RESIDENT_FORCE_REFILL_STREAM_SERVICE_IDS''
       in ids \<noteq> [] \<and> (''*'' \<in> set ids \<or> list_all (\<lambda>c. opt_str (qc_service_id c) \<in> set ids) claims)))"

definition dispatcher_batch_ineligible_reason :: "bool \<Rightarrow> bool \<Rightarrow> queue_claim list \<Rightarrow> string" where
  "dispatcher_batch_ineligible_reason many incremental claims =
     (case claims of
        [] \<Rightarrow> ''empty''
      | first # _ \<Rightarrow>
          if qc_kind first \<noteq> ''model'' then ''non_model''
          else if \<not> many then ''runner_missing_batch''
          else if \<not> incremental then ''runner_missing_incremental_batch''
          else
            (case find (\<lambda>c. qc_kind c \<noteq> ''model'' \<or> \<not> same_target first c) claims of
               None \<Rightarrow> ''eligible''
             | Some c \<Rightarrow>
                 if qc_kind c \<noteq> ''model'' then ''mixed_kind''
                 else if qc_profile_id c \<noteq> qc_profile_id first then ''mixed_profile''
                 else if qc_node_id c \<noteq> qc_node_id first then ''mixed_node'' else ''mixed_service''))"

definition dispatcher_run_rolling_refill_stream_claims ::
  "bool \<Rightarrow> bool \<Rightarrow> string \<Rightarrow> bool \<Rightarrow> run_outcomes \<Rightarrow> queue_claim list \<Rightarrow> cohort_end"
where
  "dispatcher_run_rolling_refill_stream_claims many incremental runner_type forced out claims =
     (let reason0 = dispatcher_batch_ineligible_reason many incremental claims;
          reason = (if reason0 = ''eligible'' \<and> \<not> forced then ''rolling_admission_stream'' else reason0)
      in case ro_stream out of
           Inl e \<Rightarrow> Pairs (map (\<lambda>c. (c, dispatcher_transport_failure c e)) claims)
         | Inr (n, claimed, prefilled) \<Rightarrow>
             Batch_Finished (counts_fields n @
               [(''claimed'', JInt claimed), (''prefilled'', JInt prefilled), (''dispatch_mode'', JStr ''rolling_refill''),
                (''transport_mode'', JStr ''rolling_refill_stream''),
                (''batch_ineligible_reason'', JStr (if forced then ''forced_refill_stream'' else reason)),
                (''forced_refill_stream'', JBool forced), (''runner_type'', JStr runner_type)]))"

definition dispatcher_run_resident_rolling_claims ::
  "environ \<Rightarrow> bool \<Rightarrow> bool \<Rightarrow> string \<Rightarrow> rat \<Rightarrow> bool \<Rightarrow> run_outcomes \<Rightarrow> queue_claim list \<Rightarrow> cohort_end"
where
  "dispatcher_run_resident_rolling_claims env many incremental runner_type ttl prefer out claims =
     (let forced = force_refill_stream_for_claims env claims
      in if claims = [] then Pairs []
         else if qc_kind (hd claims) = ''cpu'' then dispatcher_run_claims many incremental ttl out claims
         else if \<not> forced \<and> prefer \<and> can_batch_models many claims \<and> incremental
         then dispatcher_run_rolling_batch_claims many incremental runner_type ttl out claims
         else dispatcher_run_rolling_refill_stream_claims many incremental runner_type forced out claims)"


section \<open>Cohorts that have ended\<close>

fun hand_in :: "rat \<Rightarrow> int \<Rightarrow> (queue_claim \<times> pydict) list \<Rightarrow> counts \<Rightarrow> dispatcher \<Rightarrow> dispatcher \<times> counts result" where
  "hand_in now attempts [] n d = (d, Inr n)"
| "hand_in now attempts ((c, res) # pairs) n d =
     (case finish_pair now attempts c res (dp_queue d) of
        Inl e \<Rightarrow> (d, Inl e)
      | Inr (db, n', _) \<Rightarrow> hand_in now attempts pairs (add_counts n n') (d\<lparr>dp_queue := db\<rparr>))"

definition summary_int :: "pydict \<Rightarrow> string \<Rightarrow> int" where
  \<comment> \<open>\<^verbatim>\<open>int(summary.get(k) or 0)\<close>\<close>
  "summary_int s k = (case dget s k of JInt n \<Rightarrow> n | _ \<Rightarrow> 0)"

definition batch_summary :: "pydict \<Rightarrow> nat \<Rightarrow> dispatcher \<Rightarrow> dispatcher \<times> counts result" where
  \<comment> \<open>the summary of a cohort of \<open>n\<close> claims that the run has handed in itself\<close>
  "batch_summary s n d =
     (let extra = max 0 (summary_int s ''claimed'' - int n); mode = dget s ''transport_mode'';
          d1 = (if extra \<noteq> 0 then dispatcher_count [(''claimed_count'', extra), (''submitted_count'', extra)] d else d);
          d2 = (if mode = JStr ''rolling_batch_incremental'' then dispatcher_count [(''resident_rolling_batch_count'', 1)] d1 else d1);
          d3 = (if mode = JStr ''rolling_refill_stream'' then dispatcher_count [(''resident_rolling_refill_stream_count'', 1)] d2 else d2)
      in (dispatcher_note
            [(''last_summary'', JObj s), (''resident_rolling_last_transport_mode'', mode),
             (''resident_rolling_last_ineligible_reason'', dget s ''batch_ineligible_reason''),
             (''resident_rolling_last_runner_type'', dget s ''runner_type'')] d3,
          Inr (summary_int s ''completed'', summary_int s ''failed'', summary_int s ''retried'')))"

definition finish_cohort :: "rat \<Rightarrow> int \<Rightarrow> nat \<times> cohort_end \<Rightarrow> dispatcher \<Rightarrow> dispatcher \<times> counts result" where
  "finish_cohort now attempts ended d =
     (case ended of (future, outcome) \<Rightarrow>
        (case find (\<lambda>r. pr_future r = future) (dp_pending d) of
           None \<Rightarrow> (d, Inr (0, 0, 0))
         | Some run \<Rightarrow>
             (let d1 = d\<lparr>dp_pending := filter (\<lambda>r. pr_future r \<noteq> future) (dp_pending d)\<rparr>
              in case outcome of
                   Raised e \<Rightarrow> hand_in now attempts (map (\<lambda>c. (c, dispatcher_transport_failure c e)) (active_claims (pr_cohort run))) (0, 0, 0) d1
                 | Pairs pairs \<Rightarrow> hand_in now attempts pairs (0, 0, 0) d1
                 | Batch_Finished s \<Rightarrow> batch_summary s (length (pc_claims (pr_cohort run))) d1)))"

fun finish_cohorts :: "rat \<Rightarrow> int \<Rightarrow> (nat \<times> cohort_end) list \<Rightarrow> counts \<Rightarrow> dispatcher \<Rightarrow> dispatcher \<times> counts result" where
  "finish_cohorts now attempts [] n d = (d, Inr n)"
| "finish_cohorts now attempts (x # xs) n d =
     (case finish_cohort now attempts x d of
        (d1, Inl e) \<Rightarrow> (d1, Inl e)
      | (d1, Inr n') \<Rightarrow> finish_cohorts now attempts xs (add_counts n n') d1)"

definition dispatcher_finish_done :: "dispatch_config \<Rightarrow> rat \<Rightarrow> (nat \<times> cohort_end) list \<Rightarrow> dispatcher \<Rightarrow> dispatcher \<times> counts result" where
  "dispatcher_finish_done cfg now ended d = finish_cohorts now (wk_max_attempts (dc_worker cfg)) ended (0, 0, 0) d"

definition finished_counts :: "counts \<Rightarrow> dispatcher \<Rightarrow> dispatcher" where
  "finished_counts n d =
     (case n of (completed, failed, retried) \<Rightarrow>
        dispatcher_count [(''completed_count'', completed), (''failed_count'', failed), (''retried_count'', retried), (''requeued_count'', retried)] d)"

definition mark_request :: "rat \<Rightarrow> nat \<times> string \<Rightarrow> dispatcher \<Rightarrow> dispatcher" where
  \<comment> \<open>the callback of a running cohort for a request that has been handed in\<close>
  "mark_request now x d =
     (case x of (future, rid) \<Rightarrow>
        d\<lparr>dp_pending := map (\<lambda>r. if pr_future r = future then r\<lparr>pr_cohort := mark_finished rid now (pr_cohort r)\<rparr> else r) (dp_pending d)\<rparr>)"

section \<open>The loop\<close>

record tick_input = refill_input +
  ti_marks :: "(nat \<times> string) list"
  ti_ended :: "(nat \<times> cohort_end) list"
  ti_governor :: governor_input

definition credit_plans :: "rat \<Rightarrow> dispatcher \<Rightarrow> dispatcher" where
  "credit_plans now d =
     d\<lparr>dp_plans := map (credit (max 0 (now - dp_credit_at d))) (dp_plans d), dp_credit_at := now\<rparr>"

definition dispatcher_heartbeat :: "dispatch_config \<Rightarrow> rat \<Rightarrow> dispatcher \<Rightarrow> dispatcher \<times> unit result" where
  "dispatcher_heartbeat cfg now d =
     (if dp_pending d = [] \<or> now < dp_heartbeat_at d then (d, Inr ())
      else case heartbeat_claims now (wk_ttl (dc_worker cfg)) (pending_claims now (pending_of d)) (dp_queue d) of
             (db, Some e) \<Rightarrow> (d\<lparr>dp_queue := db\<rparr>, Inl (RuntimeError e))
           | (db, None) \<Rightarrow> (d\<lparr>dp_queue := db, dp_heartbeat_at := now + dc_heartbeat_s cfg\<rparr>, Inr ()))"

definition dispatcher_tick :: "dispatch_config \<Rightarrow> tick_input \<Rightarrow> dispatcher \<Rightarrow> dispatcher \<times> bool result" where
  \<comment> \<open>the result: whether the tick made progress\<close>
  "dispatcher_tick cfg t d =
     (let now = ri_now t; d0 = foldl (\<lambda>d x. mark_request now x d) d (ti_marks t)
      in case dispatcher_finish_done cfg now (ti_ended t) d0 of
           (d1, Inl e) \<Rightarrow> (d1, Inl e)
         | (d1, Inr n) \<Rightarrow>
             (let d2 = (if n = (0, 0, 0) then d1 else finished_counts n d1)
              in case dispatcher_heartbeat cfg now (credit_plans now (release_jit_kv_waits_if_circuit_open now d2)) of
                   (d3, Inl e) \<Rightarrow> (d3, Inl e)
                 | (d3, Inr _) \<Rightarrow>
                     (case dispatcher_refill cfg (refill_input.truncate t) (ti_governor t) d3 of
                        (d4, Inl e) \<Rightarrow> (d4, Inl e)
                      | (d4, Inr submitted) \<Rightarrow>
                          if submitted \<noteq> 0
                          then (dispatcher_note ((''last_work_at'', JFloat now) # pending_notes now d4)
                                  (dispatcher_count [(''worked_count'', 1), (''claimed_count'', submitted), (''submitted_count'', submitted)] d4),
                                Inr True)
                          else (dispatcher_note (pending_notes now d4) d4, Inr (n \<noteq> (0, 0, 0))))))"

fun dispatcher_turns :: "dispatch_config \<Rightarrow> tick_input list \<Rightarrow> dispatcher \<Rightarrow> dispatcher \<times> unit result" where
  \<comment> \<open>the turns until the dispatcher is told to stop, or a turn raises\<close>
  "dispatcher_turns cfg [] d = (d, Inr ())"
| "dispatcher_turns cfg (t # ts) d =
     (case dispatcher_tick cfg t d of
        (d1, Inl e) \<Rightarrow> (dispatcher_note [(''last_error'', JStr (exc_text e))] d1, Inl e)
      | (d1, Inr progressed) \<Rightarrow>
          dispatcher_turns cfg ts (if \<not> progressed \<and> dp_pending d1 = [] then dispatcher_count [(''idle_count'', 1)] d1 else d1))"

fun finish_pending :: "dispatch_config \<Rightarrow> rat \<Rightarrow> (nat \<times> cohort_end) list list \<Rightarrow> dispatcher \<Rightarrow> dispatcher \<times> unit result" where
  \<comment> \<open>the rounds of waiting for the cohorts that are still under way\<close>
  "finish_pending cfg now [] d = (d, Inr ())"
| "finish_pending cfg now (ended # rounds) d =
     (if dp_pending d = [] then (d, Inr ())
      else case dispatcher_finish_done cfg now ended d of
             (d1, Inl e) \<Rightarrow> (d1, Inl e)
           | (d1, Inr n) \<Rightarrow> finish_pending cfg now rounds (finished_counts n d1))"

definition dispatcher_shutdown :: "dispatch_config \<Rightarrow> rat \<Rightarrow> (nat \<times> cohort_end) list list \<Rightarrow> dispatcher \<Rightarrow> dispatcher \<times> unit result" where
  "dispatcher_shutdown cfg now rounds d =
     (case finish_pending cfg now rounds d of
        (d1, Inl e) \<Rightarrow> (d1, Inl e)
      | (d1, Inr _) \<Rightarrow>
          (dispatcher_note [(''running'', JBool False), (''pending'', JInt 0), (''pending_by_service'', JObj []), (''pending_cohorts'', JInt 0),
                            (''pending_cohort_details'', JArr [])] d1, Inr ()))"

definition dispatcher_loop ::
  "dispatch_config \<Rightarrow> rat \<Rightarrow> tick_input list \<Rightarrow> rat \<Rightarrow> (nat \<times> cohort_end) list list \<Rightarrow> dispatcher \<Rightarrow> dispatcher \<times> unit result"
where
  "dispatcher_loop cfg started ticks stopped rounds d =
     (let (d1, res) = dispatcher_turns cfg ticks
            (dispatcher_note [(''running'', JBool True), (''started_at'', JFloat started), (''last_error'', JNull)] d)
      in case dispatcher_shutdown cfg stopped rounds d1 of
           (d2, Inl e) \<Rightarrow> (d2, Inl e)
         | (d2, Inr _) \<Rightarrow> (d2, res))"

section \<open>The state at the start\<close>

definition initial_dispatcher_state :: "dispatch_config \<Rightarrow> rat \<Rightarrow> governor \<Rightarrow> jit_breaker \<Rightarrow> pydict \<Rightarrow> bool \<Rightarrow> int \<Rightarrow> pydict" where
  "initial_dispatcher_state cfg now g b recovery enabled transport_timeout_s =
     (let zeros = map (\<lambda>k. (k, JInt 0)); nulls = map (\<lambda>k. (k, JNull)); objects = map (\<lambda>k. (k, JObj [])); env = dc_env cfg
      in dupdate
        ([(''enabled'', JBool enabled), (''running'', JBool False), (''window'', JInt (dc_window cfg)), (''refill_batch'', JInt (dc_refill_batch cfg)),
          (''cohort_workers'', JInt (dc_cohort_workers cfg)), (''resident_multimodel'', JBool (dc_multimodel cfg))] @
         zeros [''pending'', ''pending_cohorts''] @ objects [''pending_by_service''] @ [(''pending_cohort_details'', JArr [])] @
         objects [''resident_service_active_batches'', ''resident_service_batch_limits'', ''resident_compute_domain_active_batches'',
                  ''resident_compute_domain_batch_limits''] @
         nulls [''started_at'', ''last_work_at'', ''last_error''] @
         zeros [''worked_count'', ''claimed_count'', ''submitted_count'', ''completed_count'', ''failed_count'', ''retried_count'', ''requeued_count'',
                ''idle_count'', ''resource_governor_throttle_count'', ''host_memory_trim_count''] @
         [(''transport_timeout_s'', JInt transport_timeout_s), (''transport_max_attempts'', JInt (wk_max_attempts (dc_worker cfg))),
          (''kv_capacity_bytes'', JInt (dc_capacity cfg)), (''kv_admission_unlimited'', JBool (dc_capacity cfg \<le> 0)),
          (''kv_admission_warning'', if dc_capacity cfg \<le> 0 then JStr ''unlimited_kv_admission'' else JNull),
          (''auto_kv_cache_enabled'', JBool (trim_env_bool env ''DS4_PIPELINE_AUTO_KV_CACHE'' False)),
          (''auto_kv_cache_service_ids'', JArr (map JStr (sort (remdups (service_ids_env env ''DS4_PIPELINE_AUTO_KV_CACHE_SERVICE_IDS''))))),
          (''resource_governor'', JObj (gov_status now g)), (''last_summary'', JNull)] @
         zeros [''resident_rolling_batch_count'', ''resident_rolling_refill_stream_count''] @
         nulls [''resident_rolling_last_transport_mode'', ''resident_rolling_last_ineligible_reason'', ''resident_rolling_last_runner_type''] @
         zeros [''last_claimed_cohort_size'', ''largest_claimed_cohort_size''] @ nulls [''last_claimed_service_id''] @
         objects [''last_claimed_cohort_by_service''] @ [(''jit_kv_startup_recovery'', JObj recovery)])
        (fst (breaker_status now b)))"

section \<open>Facts\<close>

lemma ready_rows_length:
  "int (length (ready_rows env now db node batch lmt limits svc share bucketing lookahead)) \<le> max 1 lmt"
proof -
  let ?rows = "ready_rows env now db node batch lmt limits svc share bucketing lookahead"
  have sl: "service_batch_limit s limits lmt \<le> max 1 lmt \<and> 1 \<le> service_batch_limit s limits lmt" for s
    by (auto simp: service_batch_limit_def Let_def split: option.split)
  have t: "int (length (take (nat (service_batch_limit s limits lmt)) xs)) \<le> max 1 lmt" for s and xs :: "request_row list"
    using sl [of s] by (auto simp: min_def)
  have b: "int (length (ready_shape_bucket xs (nat (service_batch_limit s limits lmt)))) \<le> max 1 lmt" for s xs
    using t by (auto simp: ready_shape_bucket_def Let_def max_def simp del: length_take)
  show ?thesis
    by (simp only: ready_rows_def Let_def) (auto split: list.split if_splits simp: t b simp del: length_take)
qed

lemma selected_length: "int (length (select_claim_rows env now opts db)) \<le> max 1 (co_limit opts)"
proof -
  let ?rr = "ready_rows env now db (co_node opts) (co_batch opts) (co_limit opts) (co_limits opts) (co_service opts)
             (co_share opts) (co_bucketing opts) (co_lookahead opts)"
  have l: "length (limit_ready_rows_by_token_budget rows t r) \<le> length rows" for rows t r
    using list_emb_length [OF take_budget_subseq] by (auto simp: limit_ready_rows_by_token_budget_def)
  have "length (select_claim_rows env now opts db) \<le> length ?rr"
    using l [of ?rr] by (auto simp: select_claim_rows_def Let_def split: list.split)
  then show ?thesis using ready_rows_length [of env now db "co_node opts" "co_batch opts" "co_limit opts" "co_limits opts"
        "co_service opts" "co_share opts" "co_bucketing opts" "co_lookahead opts"] by linarith
qed

text \<open>The claims are made of rows that were selected, at most one of each.\<close>

lemma claim_rows_of:
  assumes "foldE (claim_row now ttl leased_by cl) (db, claims0, bids0) xs = Inr (db', claims, bids)"
  shows "\<exists>new. claims = claims0 @ new \<and> length new \<le> length xs \<and> (\<forall>c \<in> set new. \<exists>x \<in> set xs. claim_of (snd x) (fst x) cl = Inr c)"
  using assms
proof (induction xs arbitrary: db claims0 bids0)
  case (Cons x xs)
  obtain db1 claims1 bids1 where 1: "claim_row now ttl leased_by cl (db, claims0, bids0) x = Inr (db1, claims1, bids1)"
    and 2: "foldE (claim_row now ttl leased_by cl) (db1, claims1, bids1) xs = Inr (db', claims, bids)"
    using Cons.prems by (auto simp: bindE_eq_Inr)
  have c1: "claims1 = claims0 \<or> (\<exists>c. claims1 = claims0 @ [c] \<and> claim_of (snd x) (fst x) cl = Inr c)"
    using 1 by (cases x) (auto simp: claim_row_def bindE_eq_Inr split: if_splits)
  obtain new where "claims = claims1 @ new" "length new \<le> length xs" "\<forall>c \<in> set new. \<exists>x \<in> set xs. claim_of (snd x) (fst x) cl = Inr c"
    using Cons.IH [OF 2] by blast
  then show ?case using c1 by (elim disjE exE conjE) auto
qed simp

lemma claimed_rows:
  assumes "claim_ready_batch env now uuid opts db = Inr (db', claims)"
  shows "int (length claims) \<le> max 1 (co_limit opts)"
    and "\<forall>c \<in> set claims. \<exists>row \<in> set (select_claim_rows env now opts db). \<exists>l cl. claim_of row l cl = Inr c"
proof -
  let ?rows = "select_claim_rows env now opts db"
  have "length claims \<le> length ?rows \<and> (\<forall>c \<in> set claims. \<exists>row \<in> set ?rows. \<exists>l cl. claim_of row l cl = Inr c)"
  proof (cases "?rows = []")
    case True
    then show ?thesis using assms by (simp add: claim_ready_batch_def)
  next
    case False
    then obtain db1 cl db2 bids where "claims = [] \<or> claim_rows now (co_ttl opts) (co_leased_by opts) uuid cl ?rows db1 = Inr (db2, claims, bids)"
      using assms by (auto simp: claim_ready_batch_def Let_def claim_selected_def bindE_eq_Inr split: prod.splits if_splits)
    then show ?thesis
      unfolding claim_rows_def by (fastforce dest!: claim_rows_of dest: set_zip_rightD)
  qed
  then show "int (length claims) \<le> max 1 (co_limit opts)"
    "\<forall>c \<in> set claims. \<exists>row \<in> set ?rows. \<exists>l cl. claim_of row l cl = Inr c"
    using selected_length [of env now opts db] by auto
qed

lemma claimed_service:
  assumes "claim_ready_batch env now uuid opts db = Inr (db', claims)" and "co_service opts = Some s" and "c \<in> set claims"
  shows "qc_service_id c = nonempty_opt (Some s)"
proof -
  obtain row l cl where row: "row \<in> set (select_claim_rows env now opts db)" "claim_of row l cl = Inr c"
    using claimed_rows(2) [OF assms(1)] assms(3) by blast
  obtain p where "subseq (select_claim_rows env now opts db) (sql_select p ready_order (requests db))"
      and p: "\<forall>r. p r \<longrightarrow> claimable opts (hd (select_claim_rows env now opts db)) r"
    using select_claim_spec [OF refl, of env now opts db] row(1) by fastforce
  then have "p row" using subseq_set [of _ _ row] row(1) by fastforce
  then have "rq_service_id row = Some s" using p assms(2) by (auto simp: claimable_def claim_scope_def)
  then show ?thesis using row(2) by (auto simp: claim_of_def bindE_eq_Inr)
qed

section \<open>Counts of cohorts\<close>

lemma count_of_set_limit [simp]: "count_of (set_limit k n d) j = (if j = k then n else count_of d j)"
proof -
  have m: "map_of (map (\<lambda>(k', w). (k', if k' = k then n else w)) d) j = map_option (\<lambda>w. if j = k then n else w) (map_of d j)"
    by (induction d) auto
  show ?thesis
  proof (cases "map_of d k")
    case None
    then have "k \<notin> set (map fst d)" by (simp add: map_of_eq_None_iff)
    then show ?thesis using None by (simp add: count_of_def set_limit_def map_add_def split: option.split)
  next
    case (Some w)
    then have "k \<in> set (map fst d)" by (metis map_of_eq_None_iff list.set_map option.distinct(1))
    then have "set_limit k n d = map (\<lambda>(k', w). (k', if k' = k then n else w)) d" by (simp add: set_limit_def)
    then show ?thesis using Some m by (cases "j = k") (simp_all add: count_of_def split: option.split)
  qed
qed

lemma count_of_add_count [simp]: "count_of (add_count k n d) j = count_of d j + (if j = k then n else 0)"
  by (simp add: count_of_def add_count_def map_of_dset split: option.split)

lemma active_batches_snoc:
  "count_of (active_batches_by f now (pending @ [Cohort c])) j =
     count_of (active_batches_by f now pending) j + (if batch_active c \<and> text_of (f c) '''' \<noteq> '''' \<and> j = text_of (f c) '''' then 1 else 0)"
  by (simp add: active_batches_by_def)

lemma cohort_from_claims_simps [simp]:
  "claims \<noteq> [] \<Longrightarrow> batch_active (cohort_from_claims claims mode now)"
  "claims \<noteq> [] \<Longrightarrow> pc_service_id (cohort_from_claims claims mode now) = qc_service_id (hd claims)"
  "active_count (cohort_from_claims claims mode now) \<le> int (length claims)"
  by (auto simp: batch_active_def cohort_from_claims_def active_count_def length_remdups_leq neq_Nil_conv intro: order_trans [OF length_remdups_leq])

text \<open>What a step may do to the cohorts under way: nothing, or submit one more.\<close>

definition service_batches :: "rat \<Rightarrow> dispatcher \<Rightarrow> string \<Rightarrow> int" where
  "service_batches now d = count_of (pending_cohort_count_by_service now (pending_of d))"

lemma dispatcher_note_simps [simp]:
  "dp_pending (dispatcher_note x d) = dp_pending d" "dp_plans (dispatcher_note x d) = dp_plans d" "dp_options (dispatcher_note x d) = dp_options d"
  by (simp_all add: dispatcher_note_def)

lemma dispatcher_count_simps [simp]:
  "dp_pending (dispatcher_count xs d) = dp_pending d" "dp_plans (dispatcher_count xs d) = dp_plans d"
proof -
  have "dp_pending (dispatcher_count xs d) = dp_pending d \<and> dp_plans (dispatcher_count xs d) = dp_plans d"
    unfolding dispatcher_count_def by (rule foldl_invariant) (auto split: prod.splits)
  then show "dp_pending (dispatcher_count xs d) = dp_pending d" "dp_plans (dispatcher_count xs d) = dp_plans d" by simp_all
qed

lemma same_pending:
  assumes "dp_pending d' = dp_pending d"
  shows "dispatcher_pending_count now d' = dispatcher_pending_count now d" "service_batches now d' = service_batches now d"
  using assms by (simp_all add: dispatcher_pending_count_def service_batches_def pending_of_def)

lemma submit_cohort_effect:
  assumes "claims \<noteq> []" and "dp_pending d' = dp_pending (submit_cohort now claims job d)"
  shows "dispatcher_pending_count now d' \<le> dispatcher_pending_count now d + int (length claims)"
    and "\<forall>c \<in> set claims. qc_service_id c = nonempty_opt (Some sid) \<Longrightarrow>
      service_batches now d' j = service_batches now d j + (if j = sid \<and> sid \<noteq> '''' then 1 else 0)"
proof -
  define mode where "mode = (case job of Cohort_Job \<Rightarrow> ''cohort'' | Rolling_Job _ _ _ _ \<Rightarrow> ''rolling_refill'')"
  define c where "c = cohort_from_claims claims mode now"
  have p: "pending_of d' = pending_of d @ [Cohort c]"
    using assms(2) by (simp add: pending_of_def submit_cohort_def Let_def c_def mode_def)
  show "dispatcher_pending_count now d' \<le> dispatcher_pending_count now d + int (length claims)"
    using p by (simp add: dispatcher_pending_count_def pending_claim_count_def c_def)
  assume "\<forall>c \<in> set claims. qc_service_id c = nonempty_opt (Some sid)"
  then have "text_of (pc_service_id c) '''' = sid" using assms(1) by (simp add: c_def text_of_def nonempty_opt_def)
  moreover have "batch_active c" using assms(1) by (simp add: c_def)
  ultimately show "service_batches now d' j = service_batches now d j + (if j = sid \<and> sid \<noteq> '''' then 1 else 0)"
    by (simp add: service_batches_def pending_cohort_count_by_service_def p active_batches_snoc)
qed

section \<open>A refill stays within the window\<close>

lemma refill_limit_le:
  "resident_refill_limit cfg p active submitted available \<le> max 0 available \<and>
   resident_refill_limit cfg p active submitted available \<le> max 1 (dc_refill_batch cfg - submitted)"
proof -
  define refill where "refill = min (max 1 (rp_max_cohort_size p)) (min (max 1 (dc_refill_batch cfg - submitted)) available)"
  define room where "room = max 0 (rp_queue_depth_target p - count_of active (rp_service_id p))"
  have "resident_refill_limit cfg p active submitted available \<in> {0, min room refill, refill}"
    unfolding resident_refill_limit_def Let_def refill_def [symmetric] room_def [symmetric] by simp
  moreover have "refill \<le> max 0 available" "refill \<le> max 1 (dc_refill_batch cfg - submitted)" unfolding refill_def by linarith+
  ultimately show ?thesis by auto
qed

definition refill_counts_ok :: "dispatch_config \<Rightarrow> rat \<Rightarrow> dispatcher \<Rightarrow> refill_state \<Rightarrow> bool" where
  "refill_counts_ok cfg now d0 g \<longleftrightarrow>
     0 \<le> rg_available g \<and> dispatcher_pending_count now (rg_dispatcher g) + rg_available g \<le> dc_window cfg \<and>
     0 \<le> rg_submitted g \<and> rg_submitted g \<le> max 0 (dc_refill_batch cfg) \<and>
     dispatcher_pending_count now (rg_dispatcher g) \<le> dispatcher_pending_count now d0 + rg_submitted g"

definition within_batch_limit :: "rat \<Rightarrow> dispatcher \<Rightarrow> dispatcher \<Rightarrow> resident_plan \<Rightarrow> bool" where
  \<comment> \<open>the batches of the service are within its limit, or as many as before\<close>
  "within_batch_limit now d0 d p \<longleftrightarrow>
     rp_max_service_batches p \<le> 0 \<or> rp_service_id p = '''' \<or>
     service_batches now d (rp_service_id p) \<le> max (service_batches now d0 (rp_service_id p)) (rp_max_service_batches p)"

definition refill_batches_ok :: "rat \<Rightarrow> dispatcher \<Rightarrow> refill_state \<Rightarrow> bool" where
  "refill_batches_ok now d0 g \<longleftrightarrow>
     (\<forall>sid. sid \<noteq> '''' \<longrightarrow> count_of (rg_batches g) sid = service_batches now (rg_dispatcher g) sid) \<and>
     (\<forall>p \<in> set (dp_plans d0). within_batch_limit now d0 (rg_dispatcher g) p)"

lemma refill_service_cases:
  assumes "refill_service cfg inp p limit g = (g', r)" and "0 < limit"
  shows "(dp_pending (rg_dispatcher g') = dp_pending (rg_dispatcher g) \<and> rg_batches g' = rg_batches g \<and> rg_submitted g' = rg_submitted g \<and>
       rg_available g' = rg_available g) \<or>
    (\<exists>claims d1 job. claims \<noteq> [] \<and> int (length claims) \<le> limit \<and> (\<forall>c \<in> set claims. qc_service_id c = nonempty_opt (Some (rp_service_id p))) \<and>
       dp_pending d1 = dp_pending (rg_dispatcher g) \<and>
       dp_pending (rg_dispatcher g') = dp_pending (submit_cohort (ri_now inp) claims job d1) \<and>
       rg_batches g' = set_limit (rp_service_id p) (count_of (rg_batches g) (rp_service_id p) + 1) (rg_batches g) \<and>
       rg_submitted g' = rg_submitted g + int (length claims) \<and> rg_available g' = rg_available g - int (length claims))"
proof -
  let ?d = "rg_dispatcher g" and ?sid = "rp_service_id p"
  obtain db1 made where prep: "resident_prepare_ready cfg inp p limit (ri_others inp ?sid (dp_queue ?d)) = (db1, made)" by fastforce
  define initial where "initial = (count_of (rg_active g) ?sid \<le> 0 \<and> count_of (rg_batches g) ?sid \<le> 0)"
  let ?opts = "resident_claim_opts cfg p limit initial"
  have opts: "co_limit ?opts = limit" "co_service ?opts = Some ?sid" by (simp_all add: resident_claim_opts_def Let_def)
  show ?thesis
  proof (cases "claim_ready_batch (dc_env cfg) (ri_now inp) (ri_claim_uuids inp ?sid) ?opts db1")
    case (Inl e)
    then show ?thesis using assms(1) by (auto simp: refill_service_def Let_def prep initial_def [symmetric])
  next
    case (Inr x)
    obtain db2 claims where x: "x = (db2, claims)" by fastforce
    show ?thesis
    proof (cases "claims = []")
      case True
      then show ?thesis using assms(1) Inr x by (auto simp: refill_service_def Let_def prep initial_def [symmetric])
    next
      case False
      have c: "int (length claims) \<le> limit" "\<forall>c \<in> set claims. qc_service_id c = nonempty_opt (Some ?sid)"
        using claimed_rows(1) [OF Inr [unfolded x]] claimed_service [OF Inr [unfolded x]] opts assms(2) by auto
      have g': "g' = (let n = int (length claims) in g\<lparr>rg_dispatcher := resident_submit_claims cfg (ri_now inp) p claims (?d\<lparr>dp_queue := db2\<rparr>),
          rg_attempted := rg_attempted g + 1, rg_made_ready := rg_made_ready g + made,
          rg_submitted := rg_submitted g + n, rg_available := rg_available g - n,
          rg_active := set_limit ?sid (count_of (rg_active g) ?sid + n) (rg_active g),
          rg_batches := set_limit ?sid (count_of (rg_batches g) ?sid + 1) (rg_batches g),
          rg_domains := (if rp_compute_domain p = '''' then rg_domains g
             else set_limit (rp_compute_domain p) (count_of (rg_domains g) (rp_compute_domain p) + 1) (rg_domains g))\<rparr>)"
        using assms(1) Inr x False by (auto simp: refill_service_def Let_def prep initial_def [symmetric])
      have "dp_pending (resident_submit_claims cfg (ri_now inp) p claims (?d\<lparr>dp_queue := db2\<rparr>)) = dp_pending (submit_cohort (ri_now inp) claims
          (if plan_uses_rolling_admission p then Rolling_Job (with_token_limit p (dc_token_limits cfg)) (decode_reserves p) (rp_low_watermark p)
             (do_prefer_cohort_batch (dp_options ?d)) else Cohort_Job) (?d\<lparr>dp_queue := db2\<rparr>))"
        by (simp add: resident_submit_claims_def Let_def)
      then show ?thesis using False c g' by (intro disjI2 exI [of _ claims] exI [of _ "?d\<lparr>dp_queue := db2\<rparr>"] exI conjI) (auto simp: Let_def)
    qed
  qed
qed

lemma refill_services_ok:
  assumes "refill_services cfg inp ps g = (g', r)" and "refill_counts_ok cfg now d0 g" and "refill_batches_ok now d0 g"
    and "set ps \<subseteq> set (dp_plans d0)" and "distinct (map rp_service_id (dp_plans d0))" and now: "now = ri_now inp"
  shows "refill_counts_ok cfg now d0 g' \<and> refill_batches_ok now d0 g'"
  using assms(1-4)
proof (induction ps arbitrary: g)
  case (Cons p ps)
  let ?limit = "resident_refill_limit cfg p (rg_active g) (rg_submitted g) (rg_available g)"
  show ?case
  proof (cases "rg_available g \<le> 0 \<or> rg_submitted g \<ge> dc_refill_batch cfg \<or> resident_service_limit_reached p (rg_batches g) \<or>
      resident_compute_domain_limit_reached p (rg_domains g) \<or> ?limit \<le> 0")
    case True
    then show ?thesis using Cons by (auto split: if_splits simp: Let_def)
  next
    case False
    obtain g1 r1 where s: "refill_service cfg inp p ?limit g = (g1, r1)" by fastforce
    have lim: "0 < ?limit" "?limit \<le> rg_available g" "?limit \<le> dc_refill_batch cfg - rg_submitted g"
      using False refill_limit_le [of cfg p "rg_active g" "rg_submitted g" "rg_available g"] by linarith+
    have "refill_counts_ok cfg now d0 g1 \<and> refill_batches_ok now d0 g1"
      using refill_service_cases [OF s lim(1)]
    proof (elim disjE exE conjE)
      assume same: "dp_pending (rg_dispatcher g1) = dp_pending (rg_dispatcher g)" "rg_batches g1 = rg_batches g"
        "rg_submitted g1 = rg_submitted g" "rg_available g1 = rg_available g"
      show ?thesis using Cons.prems(2,3) same_pending [OF same(1), of now] same(2-4)
        by (simp add: refill_counts_ok_def refill_batches_ok_def within_batch_limit_def)
    next
      fix claims d1 job
      assume c: "claims \<noteq> []" "int (length claims) \<le> ?limit" "\<forall>c \<in> set claims. qc_service_id c = nonempty_opt (Some (rp_service_id p))"
        and d: "dp_pending d1 = dp_pending (rg_dispatcher g)" "dp_pending (rg_dispatcher g1) = dp_pending (submit_cohort (ri_now inp) claims job d1)"
        and g1: "rg_batches g1 = set_limit (rp_service_id p) (count_of (rg_batches g) (rp_service_id p) + 1) (rg_batches g)"
          "rg_submitted g1 = rg_submitted g + int (length claims)" "rg_available g1 = rg_available g - int (length claims)"
      have n: "dispatcher_pending_count now (rg_dispatcher g1) \<le> dispatcher_pending_count now (rg_dispatcher g) + int (length claims)"
        and b: "\<And>j. service_batches now (rg_dispatcher g1) j =
          service_batches now (rg_dispatcher g) j + (if j = rp_service_id p \<and> rp_service_id p \<noteq> '''' then 1 else 0)"
        using submit_cohort_effect [OF c(1) d(2)] c(3) same_pending [OF d(1), of now] now by simp_all
      have "refill_counts_ok cfg now d0 g1"
        using Cons.prems(2) n c(2) lim g1 unfolding refill_counts_ok_def by linarith
      moreover have "refill_batches_ok now d0 g1"
        unfolding refill_batches_ok_def
      proof (intro conjI ballI allI impI)
        fix sid :: string assume "sid \<noteq> ''''"
        then show "count_of (rg_batches g1) sid = service_batches now (rg_dispatcher g1) sid"
          using Cons.prems(3) by (auto simp: refill_batches_ok_def g1(1) b)
      next
        fix q assume q: "q \<in> set (dp_plans d0)"
        have old: "within_batch_limit now d0 (rg_dispatcher g) q" using Cons.prems(3) q by (simp add: refill_batches_ok_def)
        show "within_batch_limit now d0 (rg_dispatcher g1) q"
        proof (cases "rp_service_id q = rp_service_id p \<and> rp_service_id p \<noteq> '''' \<and> 0 < rp_max_service_batches q")
          case True
          then have "q = p" using q Cons.prems(4) assms(5) by (auto simp: distinct_map inj_on_def)
          then have "service_batches now (rg_dispatcher g) (rp_service_id p) < rp_max_service_batches p"
            using False True Cons.prems(3) by (auto simp: resident_service_limit_reached_def refill_batches_ok_def)
          then show ?thesis using \<open>q = p\<close> by (simp add: within_batch_limit_def b) linarith
        next
          case False
          then show ?thesis using old by (auto simp: within_batch_limit_def b)
        qed
      qed
      ultimately show ?thesis ..
    qed
    moreover have "(r1 = Inr () \<and> refill_services cfg inp ps g1 = (g', r)) \<or> g' = g1"
      using Cons.prems(1) False s by (cases r1) (auto simp: Let_def)
    ultimately show ?thesis using Cons.IH Cons.prems(4) by auto
  qed
qed simp

lemma ask_governor_keeps: "ask_governor now readings notes d = (a, s, d') \<Longrightarrow> dp_pending d' = dp_pending d \<and> dp_plans d' = dp_plans d"
  by (auto simp: ask_governor_def split: prod.splits)

lemma resource_allows_refill_keeps:
  assumes "resource_allows_refill cfg now inp d = (d', r)"
  shows "dp_pending d' = dp_pending d \<and> dp_plans d' = dp_plans d"
proof -
  obtain a s d1 where 1: "ask_governor now (gi_readings inp) [] d = (a, s, d1)" by (metis prod_cases3)
  have k: "dp_pending d1 = dp_pending d \<and> dp_plans d1 = dp_plans d" by (rule ask_governor_keeps [OF 1])
  show ?thesis
    using assms k by (auto simp: resource_allows_refill_def 1 Let_def split: sum.splits prod.splits if_splits dest!: ask_governor_keeps)
qed

lemma refill_resident_ok:
  assumes "refill_resident_multimodel cfg inp d = (d', r)" and "distinct (map rp_service_id (dp_plans d))" and now: "now = ri_now inp"
  shows "dispatcher_pending_count now d' \<le> max (dispatcher_pending_count now d) (dc_window cfg) \<and>
    (\<forall>p \<in> set (dp_plans d). within_batch_limit now d d' p) \<and>
    (\<forall>n. r = Inr n \<longrightarrow> 0 \<le> n \<and> n \<le> max 0 (dc_refill_batch cfg) \<and> dispatcher_pending_count now d' \<le> dispatcher_pending_count now d + n)"
proof (cases "dc_window cfg - dispatcher_pending_count now d \<le> 0")
  case True
  then show ?thesis using assms(1) by (auto simp: refill_resident_multimodel_def now within_batch_limit_def)
next
  case False
  define g0 where "g0 = refill_start cfg now d"
  define ps where "ps = resident_service_order (dp_plans d) (rg_active g0)"
  obtain g r1 where g: "refill_services cfg inp ps g0 = (g, r1)" by fastforce
  have same: "dp_pending (rg_dispatcher g0) = dp_pending d" by (simp add: g0_def refill_start_def)
  have "refill_counts_ok cfg now d g0" "refill_batches_ok now d g0"
    using False same_pending [OF same, of now]
    by (simp_all add: refill_counts_ok_def refill_batches_ok_def within_batch_limit_def)
      (simp_all add: g0_def refill_start_def service_batches_def)
  moreover have "set ps \<subseteq> set (dp_plans d)" unfolding ps_def by (metis mset_eq_setD order_mset order_refl)
  ultimately have ok: "refill_counts_ok cfg now d g" "refill_batches_ok now d g"
    using refill_services_ok [OF g _ _ _ assms(2) now] by blast+
  have d': "(d' = rg_dispatcher g \<and> (\<exists>e. r = Inl e)) \<or> (dp_pending d' = dp_pending (rg_dispatcher g) \<and> r = Inr (rg_submitted g))"
    using assms(1) False g unfolding refill_resident_multimodel_def g0_def ps_def
    by (cases r1) (auto simp: now Let_def)
  then have "dispatcher_pending_count now d' = dispatcher_pending_count now (rg_dispatcher g)"
    "service_batches now d' = service_batches now (rg_dispatcher g)" using same_pending by blast+
  then show ?thesis using ok d' by (auto simp: refill_counts_ok_def refill_batches_ok_def within_batch_limit_def)
qed

lemma refill_exclusive_ok:
  assumes "refill_exclusive cfg inp d = (d', r)" and "1 \<le> dc_refill_batch cfg" and now: "now = ri_now inp"
  shows "dispatcher_pending_count now d' \<le> max (dispatcher_pending_count now d) (dc_window cfg) \<and>
    (\<forall>n. r = Inr n \<longrightarrow> 0 \<le> n \<and> n \<le> dc_refill_batch cfg \<and> dispatcher_pending_count now d' \<le> dispatcher_pending_count now d + n)"
proof (cases "dc_window cfg - dispatcher_pending_count now d \<le> 0")
  case True
  then show ?thesis using assms by (auto simp: refill_exclusive_def Let_def)
next
  case False
  let ?limit = "min (dc_window cfg - dispatcher_pending_count now d) (dc_refill_batch cfg)"
  obtain db1 made where prep: "prepare_ready (dc_env cfg) now (ri_uuids inp '''') (Some (dc_entry_node cfg)) (dc_profiles cfg) None ?limit
      (wk_id (dc_worker cfg)) 0 (dc_capacity cfg) (dc_layouts cfg) None False
      (ri_others inp '''' (fst (requeue_expired_leases now 3 (dp_queue d)))) = (db1, made)" by fastforce
  show ?thesis
  proof (cases "claim_ready_batch (dc_env cfg) now (ri_claim_uuids inp '''') (exclusive_claim_opts cfg ?limit) db1")
    case (Inl e)
    then have "d' = d\<lparr>dp_queue := db1\<rparr>" "r = Inl e"
      using assms(1) False prep by (simp_all add: refill_exclusive_def Let_def now)
    then show ?thesis using same_pending [of d' d now] by simp
  next
    case (Inr x)
    obtain db2 claims where x: "x = (db2, claims)" by fastforce
    have n: "int (length claims) \<le> ?limit"
      using claimed_rows(1) [OF Inr [unfolded x]] False assms(2) by (simp add: exclusive_claim_opts_def)
    have d': "d' = (if claims = [] then d\<lparr>dp_queue := db2\<rparr> else submit_cohort now claims Cohort_Job (d\<lparr>dp_queue := db2\<rparr>))"
      "r = Inr (int (length claims))"
      using assms(1) False prep Inr x by (simp_all add: refill_exclusive_def Let_def now split: if_splits)
    have "dispatcher_pending_count now d' \<le> dispatcher_pending_count now d + int (length claims)"
      using submit_cohort_effect(1) [of claims d' now Cohort_Job "d\<lparr>dp_queue := db2\<rparr>"] d'
        same_pending(1) [of "d\<lparr>dp_queue := db2\<rparr>" d now] by (cases "claims = []") auto
    then show ?thesis using n False d'(2) by auto
  qed
qed



text \<open>Two ready requests of a service with room for one batch, and a governor that is off.\<close>

definition waiting_row :: "string \<Rightarrow> request_row" where
  "waiting_row rid = (hd (requests demo_queued))\<lparr>rq_request_id := rid, rq_state := Ready, rq_node_id := Some ''n'', rq_service_id := Some ''s''\<rparr>"

definition waiting_dispatcher :: dispatcher where
  "waiting_dispatcher =
     \<lparr>dp_queue = demo_queued\<lparr>requests := [waiting_row ''a'', waiting_row ''b'']\<rparr>, dp_pending = [], dp_next = 0,
      dp_plans = [(demo_plan ''s'' 2)\<lparr>rp_max_service_batches := 1\<rparr>], dp_governor = governor_from_env demo_env [] ''n'',
      dp_breaker = make_breaker False 1 1 1 1, dp_gate_open_until = 0,
      dp_options = \<lparr>do_prefer_cohort_batch = False, do_trim_on_host_memory = False, do_trim_cooldown_s = 0, do_trim_timeout_s = 1,
        do_trim_mode = ''wait'', do_last_trim_at = 0\<rparr>,
      dp_credit_at = 0, dp_heartbeat_at = 0, dp_state = []\<rparr>"

definition waiting_config :: dispatch_config where
  "waiting_config =
     \<lparr>dc_env = demo_env, dc_topology = demo_topology, dc_window = 3, dc_refill_batch = 2, dc_cohort_workers = 1, dc_idle_sleep_s = 1,
      dc_linger_s = 0, dc_heartbeat_s = 1, dc_capacity = 0, dc_multimodel = True,
      dc_worker = \<lparr>wk_id = ''w'', wk_ttl = 60, wk_max_attempts = 1\<rparr>, dc_entry_node = ''n'', dc_profiles = [],
      dc_limits = (\<lambda>_. None), dc_token_limits = (\<lambda>_. None), dc_layouts = (\<lambda>_. None)\<rparr>"

definition waiting_input :: refill_input where
  "waiting_input = \<lparr>ri_now = 2, ri_uuids = (\<lambda>_. demo_uuids), ri_claim_uuids = (\<lambda>_. demo_uuids), ri_others = (\<lambda>_ db. db)\<rparr>"

definition waiting_governor :: governor_input where
  "waiting_governor = \<lparr>gi_readings = [], gi_readings_after_trim = [], gi_trim = (\<lambda>_. [])\<rparr>"



text \<open>
  A request that a running cohort has sent back to the queue after a transport failure, and has not yet reported as
  handed in, ends the whole dispatcher: its heartbeat finds the lease gone.
\<close>

definition retried_dispatcher :: dispatcher where
  "retried_dispatcher = waiting_dispatcher\<lparr>
     dp_queue := demo_queued\<lparr>requests := [(waiting_row ''a'')\<lparr>rq_state := Queued\<rparr>]\<rparr>,
     dp_pending := [\<lparr>pr_future = 0, pr_cohort = cohort_from_claims (snd (projr demo_claim)) ''cohort'' 1, pr_job = Cohort_Job\<rparr>]\<rparr>"

lemma lost_lease_stops_dispatcher:
  "snd (dispatcher_heartbeat waiting_config 2 retried_dispatcher) =
     Inl (RuntimeError ''lost queue lease during heartbeat: refreshed 0/1; unresolved=a:queued'')"
  by code_simp

end
