(* ===== verification/Deployment.thy ===== *)
theory Deployment
  imports Api_Topology
begin

text \<open>
  \<^verbatim>\<open>ds4_infer/deployment.py\<close>: the checks of a deployment before it takes traffic, over the
  topology, the plans of the resident services and the environment.
\<close>

section \<open>Checks\<close>

record readiness_check =
  ck_name :: string
  ck_ok :: bool
  ck_severity :: string
  ck_message :: string
  ck_details :: pydict

definition check_that :: "string \<Rightarrow> bool \<Rightarrow> string \<Rightarrow> string \<Rightarrow> pydict \<Rightarrow> readiness_check" where
  "check_that severity holds name message details =
     \<lparr>ck_name = name, ck_ok = holds, ck_severity = severity, ck_message = message, ck_details = details\<rparr>"

definition demand :: "bool \<Rightarrow> string \<Rightarrow> string \<Rightarrow> pydict \<Rightarrow> readiness_check" where
  "demand = check_that ''error''"

definition advise :: "bool \<Rightarrow> string \<Rightarrow> string \<Rightarrow> pydict \<Rightarrow> readiness_check" where
  "advise = check_that ''warning''"

definition check_json :: "readiness_check \<Rightarrow> json" where
  "check_json c = JObj
     [(''name'', JStr (ck_name c)), (''ok'', JBool (ck_ok c)), (''severity'', JStr (ck_severity c)), (''message'', JStr (ck_message c)),
      (''details'', JObj (ck_details c))]"

definition str_list :: "string list \<Rightarrow> json" where
  "str_list xs = JArr (map JStr xs)"

definition float_or_none :: "json \<Rightarrow> rat option" where
  "float_or_none v = (case py_float v of Inr r \<Rightarrow> Some r | Inl _ \<Rightarrow> None)"

definition int_or_none :: "json \<Rightarrow> int option" where
  "int_or_none v = (case py_int v of Inr n \<Rightarrow> Some n | Inl _ \<Rightarrow> None)"

definition csv_env :: "environ \<Rightarrow> string \<Rightarrow> string list" where
  "csv_env env name = parse_service_ids (env_get env name '''')"

section \<open>The resident services\<close>

definition service_expectations :: "spark_topology \<Rightarrow> pydict result" where
  "service_expectations topo = dict_or_empty (dget (tp_routing_policy topo) ''resident_service_expectations'')"

definition active_services :: "environ \<Rightarrow> spark_topology \<Rightarrow> pipeline_service list" where
  "active_services env topo = filter (service_active (active_resident_service_ids env topo)) (tp_services topo)"

definition readiness_service_plans :: "environ \<Rightarrow> spark_topology \<Rightarrow> resident_plan list result" where
  "readiness_service_plans env topo = resident_service_plans env topo (str_or (tp_routing_policy topo) ''queue_entry_node_id'' ''spark0'') 0"

definition service_queue_depth_target :: "pipeline_service \<Rightarrow> int result" where
  "service_queue_depth_target sv =
     bindE (pipeline_service_batch_limit sv) (\<lambda>target.
       case first_set (sv_scheduler sv) [''queue_depth_target'', ''vllm_queue_depth_target'', ''submit_queue_depth_target''] of
         Some v \<Rightarrow> bindE (py_int v) (\<lambda>n. Inr (max target n))
       | None \<Rightarrow> Inr target)"

definition planned :: "(resident_plan \<Rightarrow> int) \<Rightarrow> (pipeline_service \<Rightarrow> int result) \<Rightarrow> resident_plan list \<Rightarrow> pipeline_service \<Rightarrow> (string \<times> int) result" where
  \<comment> \<open>a number of the plan of the service, else of the service itself\<close>
  "planned number default_number plans sv =
     (case find (\<lambda>p. rp_service_id p = sv_service_id sv) plans of
        Some p \<Rightarrow> Inr (sv_service_id sv, number p)
      | None \<Rightarrow> bindE (default_number sv) (\<lambda>n. Inr (sv_service_id sv, n)))"

definition largest_of :: "(string \<times> int) list \<Rightarrow> int" where
  "largest_of d = (case map snd d of [] \<Rightarrow> 0 | n # ns \<Rightarrow> foldl max n ns)"

definition sum_of :: "(string \<times> int) list \<Rightarrow> int" where
  "sum_of d = sum_list (map snd d)"

definition default_first3_services :: "string list" where
  "default_first3_services = [''qwen27_bf16_pp8'', ''gemma4_26b_a4b_pp8'', ''dsv4_flash_pp8'']"

definition active_service_checks :: "environ \<Rightarrow> spark_topology \<Rightarrow> pipeline_service list \<Rightarrow> (string \<times> int) list \<Rightarrow> readiness_check list result" where
  "active_service_checks env topo services targets =
     bindE (service_expectations topo) (\<lambda>expectations.
     bindE (py_strs (por (dget expectations ''service_ids'') (str_list default_first3_services))) (\<lambda>expected.
       Inr ([demand (services \<noteq> []) ''active_resident_services_present'' ''at least one active resident service is configured'' []] @
            (case active_resident_service_ids env topo of
               None \<Rightarrow> []
             | Some ids \<Rightarrow>
                 (let missing = sort (remdups (filter (\<lambda>s. s \<notin> set (map sv_service_id (tp_services topo))) ids))
                  in [demand (missing = []) ''active_resident_services_known'' ''active resident services exist in topology''
                        [(''missing'', str_list missing)]])) @
            [advise (set (map fst targets) = set expected) ''first3_resident_service_set'' ''resident service set matches the topology expectation''
               [(''expected'', str_list expected), (''actual'', str_list (sort (map fst targets)))]])))"

section \<open>The dispatcher\<close>

record dispatcher_size =
  dz_window :: int
  dz_refill_batch :: int
  dz_cohort_workers :: int
  dz_multimodel :: bool

record service_load =
  sl_count :: nat
  sl_largest :: int
  sl_sum :: int
  sl_largest_depth :: int
  sl_depth_sum :: int

definition scheduler_window_checks :: "dispatcher_size \<Rightarrow> service_load \<Rightarrow> readiness_check list" where
  "scheduler_window_checks z l =
     [demand (dz_window z \<ge> max 1 (sl_largest l)) ''dispatcher_window_covers_largest_service''
        ''dispatcher window covers the largest resident target'' [(''window'', JInt (dz_window z)), (''largest_target_active'', JInt (sl_largest l))],
      advise (dz_window z \<ge> sl_sum l) ''dispatcher_window_covers_sum_targets''
        ''dispatcher window can keep every active resident target full at once'' [(''window'', JInt (dz_window z)), (''target_active_sum'', JInt (sl_sum l))],
      demand (dz_window z \<ge> max 1 (sl_largest_depth l)) ''dispatcher_window_covers_largest_service_queue_depth''
        ''dispatcher window covers the largest resident submit queue depth''
        [(''window'', JInt (dz_window z)), (''largest_queue_depth_target'', JInt (sl_largest_depth l))],
      advise (dz_window z \<ge> sl_depth_sum l) ''dispatcher_window_covers_sum_queue_depths''
        ''dispatcher window can hold every active resident submit queue depth at once''
        [(''window'', JInt (dz_window z)), (''queue_depth_target_sum'', JInt (sl_depth_sum l))]]"

definition scheduler_refill_checks :: "dispatcher_size \<Rightarrow> service_load \<Rightarrow> readiness_check list" where
  "scheduler_refill_checks z l =
     [demand (dz_refill_batch z \<ge> max 1 (sl_largest l)) ''refill_batch_covers_largest_service'' ''refill batch covers the largest resident cohort''
        [(''refill_batch'', JInt (dz_refill_batch z)), (''largest_target_active'', JInt (sl_largest l))],
      demand (dz_refill_batch z \<ge> max 1 (sl_largest_depth l)) ''refill_batch_covers_largest_queue_depth''
        ''refill batch covers the largest resident submit queue depth''
        [(''refill_batch'', JInt (dz_refill_batch z)), (''largest_queue_depth_target'', JInt (sl_largest_depth l))]]"

definition scheduler_worker_checks :: "dispatcher_size \<Rightarrow> service_load \<Rightarrow> readiness_check list" where
  "scheduler_worker_checks z l =
     [advise (dz_cohort_workers z \<ge> min (max 1 (int (sl_count l))) 4) ''cohort_worker_sanity''
        ''cohort worker pool can make progress on the active service set''
        [(''cohort_workers'', JInt (dz_cohort_workers z)), (''service_count'', JInt (int (sl_count l)))],
      demand (dz_cohort_workers z \<ge> max 1 (sl_largest l)) ''cohort_workers_cover_largest_service''
        ''cohort worker pool can feed the largest resident target without underfilling vLLM''
        [(''cohort_workers'', JInt (dz_cohort_workers z)), (''largest_target_active'', JInt (sl_largest l))],
      demand (dz_cohort_workers z \<ge> max 1 (sl_largest_depth l)) ''cohort_workers_cover_largest_queue_depth''
        ''cohort worker pool can feed the largest resident submit queue depth''
        [(''cohort_workers'', JInt (dz_cohort_workers z)), (''largest_queue_depth_target'', JInt (sl_largest_depth l))],
      advise (dz_cohort_workers z \<ge> sl_sum l) ''cohort_workers_cover_sum_targets''
        ''cohort worker pool can feed every active resident target at once''
        [(''cohort_workers'', JInt (dz_cohort_workers z)), (''target_active_sum'', JInt (sl_sum l))]]"

definition scheduler_checks :: "dispatcher_size \<Rightarrow> service_load \<Rightarrow> readiness_check list" where
  "scheduler_checks z l =
     scheduler_window_checks z l @ scheduler_refill_checks z l @
     [demand (dz_multimodel z \<or> sl_count l \<le> 1) ''resident_multimodel_enabled'' ''resident multimodel scheduler is enabled for multi-service deployment''
        [(''service_count'', JInt (int (sl_count l))), (''resident_multimodel'', JBool (dz_multimodel z))]] @
     scheduler_worker_checks z l"

section \<open>Pipelines\<close>

definition of_service :: "pipeline_service \<Rightarrow> string \<Rightarrow> string" where
  "of_service sv name = sv_service_id sv @ '':'' @ name"

definition pipeline_checks :: "pipeline_service \<Rightarrow> readiness_check list" where
  "pipeline_checks sv =
     (let partition = (''partition'', JArr (map JInt (sv_layer_partition sv))); pp = (''pipeline_parallel_size'', JInt (sv_pipeline_parallel_size sv))
      in [demand (int (length (sv_node_ids sv)) = sv_pipeline_parallel_size sv) (of_service sv ''pipeline_node_count'')
            ''pipeline node count matches PP size'' [(''node_count'', JInt (int (length (sv_node_ids sv)))), pp],
          demand (int (length (sv_layer_partition sv)) = sv_pipeline_parallel_size sv) (of_service sv ''layer_partition_width'')
            ''layer partition width matches PP size'' [partition, pp],
          demand (sum_list (sv_layer_partition sv) = sv_total_layers sv) (of_service sv ''layer_partition_sum'')
            ''layer partition sums to total layers'' [partition, (''total_layers'', JInt (sv_total_layers sv))],
          demand (list_all (\<lambda>n. 0 < n) (sv_layer_partition sv)) (of_service sv ''no_empty_pipeline_stages'')
            ''no pipeline stage has zero layers'' [partition]])"

section \<open>External KV caches\<close>

definition external_kv_service_checks :: "pydict \<Rightarrow> pydict \<Rightarrow> pipeline_service \<Rightarrow> readiness_check list" where
  "external_kv_service_checks expected_connectors expected_backends sv =
     (let kv = sv_kv_cache sv; connector = str_or kv ''connector_id'' ''''; backend = str_or kv ''external_backend'' '''';
          cache_root = py_str (por (dget kv ''cache_root'') (por (dget kv ''storage_root'') (JStr '''')));
          connector0 = dget expected_connectors (sv_service_id sv); backend0 = dget expected_backends (sv_service_id sv);
          fraction = 1 / of_int (max 1 (int (length (sv_node_ids sv)))); actual = float_or_none (dget kv ''expected_entry_fraction_per_node'')
      in [demand (cache_root \<noteq> '''') (of_service sv ''external_kv_cache_root'')
            ''active resident service declares a node-local external KV cache root'' [(''cache_root'', JStr cache_root)],
          demand (connector \<noteq> '''' \<and> connector \<noteq> ''none'') (of_service sv ''external_kv_connector_present'')
            ''active resident service declares a non-cold external KV connector'' [(''connector_id'', JStr connector)]] @
         (if connector0 = JNull then []
          else [demand (connector0 = JStr connector) (of_service sv ''external_kv_connector_expected'')
                  ''active resident service uses the expected first-three external KV connector'' [(''expected'', connector0), (''actual'', JStr connector)]]) @
         (if backend0 = JNull then []
          else [demand (backend0 = JStr backend) (of_service sv ''external_kv_backend_expected'')
                  ''active resident service uses the expected first-three external KV backend'' [(''expected'', backend0), (''actual'', JStr backend)]]) @
         [demand (py_str (dget_or kv ''sharding'' (JStr '''')) = ''pipeline_layers'') (of_service sv ''external_kv_pipeline_sharded'')
            ''external KV entries are sharded by pipeline stage'' [(''sharding'', dget kv ''sharding'')],
          demand (case actual of None \<Rightarrow> False | Some a \<Rightarrow> \<bar>a - fraction\<bar> < 1 / 1000000) (of_service sv ''external_kv_node_fraction'')
            ''external KV node fraction matches the pipeline width'' [(''expected'', JFloat fraction), (''actual'', jrat actual)]])"

definition services_with_external_kv :: "pipeline_service list \<Rightarrow> pipeline_service list" where
  "services_with_external_kv services =
     filter (\<lambda>sv. str_or (sv_kv_cache sv) ''connector_id'' '''' \<notin> {'''', ''none''} \<and> str_or (sv_kv_cache sv) ''external_backend'' '''' \<notin> {'''', ''none''}) services"

definition external_kv_auto_plan_checks :: "environ \<Rightarrow> pipeline_service list \<Rightarrow> readiness_check list" where
  "external_kv_auto_plan_checks env services =
     (let cached = services_with_external_kv services; allowed = csv_env env ''DS4_PIPELINE_AUTO_KV_CACHE_SERVICE_IDS'';
          missing = sort (map sv_service_id (filter (\<lambda>sv. allowed \<noteq> [] \<and> sv_service_id sv \<notin> set allowed \<and> sv_profile_id sv \<notin> set allowed) cached))
      in if cached = [] then []
         else
           [demand (env_bool env ''DS4_PIPELINE_AUTO_KV_CACHE'' False) ''external_kv_auto_plan_enabled''
              ''DSAPI auto-KV plans are enabled for resident external KV services''
              [(''services'', str_list (map sv_service_id cached)),
               (''DS4_PIPELINE_AUTO_KV_CACHE'', JStr (env_get env ''DS4_PIPELINE_AUTO_KV_CACHE'' ''''))],
            demand (missing = []) ''external_kv_auto_plan_service_ids_cover_active''
              ''DSAPI auto-KV service allowlist covers every active external KV service''
              [(''missing'', str_list missing), (''allowed'', str_list (sort (remdups allowed)))]])"

definition first3_cache_connectors :: pydict where
  "first3_cache_connectors =
     [(''qwen27_bf16_pp8'', JStr ''lmcache''), (''gemma4_26b_a4b_pp8'', JStr ''lmcache''), (''dsv4_flash_pp8'', JStr ''simple_cpu_offload'')]"

definition first3_cache_backends :: pydict where
  "first3_cache_backends =
     [(''qwen27_bf16_pp8'', JStr ''lmcache_hma''), (''gemma4_26b_a4b_pp8'', JStr ''lmcache_hma''), (''dsv4_flash_pp8'', JStr ''dsv4_hma'')]"

definition external_kv_checks :: "environ \<Rightarrow> spark_topology \<Rightarrow> pipeline_service list \<Rightarrow> readiness_check list result" where
  "external_kv_checks env topo services =
     bindE (service_expectations topo) (\<lambda>expectations.
     bindE (py_dict (por (dget expectations ''cache_connectors'') (JObj first3_cache_connectors))) (\<lambda>connectors.
     bindE (py_dict (por (dget expectations ''cache_backends'') (JObj first3_cache_backends))) (\<lambda>backends.
       Inr (concat (map (external_kv_service_checks connectors backends) services) @ external_kv_auto_plan_checks env services))))"

section \<open>GPU memory\<close>

definition gpu_budget_by_service :: "pipeline_service list \<Rightarrow> (string \<times> rat) list" where
  "gpu_budget_by_service services =
     concat (map (\<lambda>sv. case float_or_none (dget (sv_kv_cache sv) ''gpu_memory_utilization'') of
        Some r \<Rightarrow> [(sv_service_id sv, r)] | None \<Rightarrow> []) services)"

definition fixed_kv_bytes_by_service :: "pipeline_service list \<Rightarrow> (string \<times> int) list" where
  "fixed_kv_bytes_by_service services =
     concat (map (\<lambda>sv. case int_or_none (dget (sv_kv_cache sv) ''kv_cache_memory_bytes'') of
        Some n \<Rightarrow> if n > 0 then [(sv_service_id sv, n)] else [] | None \<Rightarrow> []) services)"

definition floats_json :: "(string \<times> rat) list \<Rightarrow> json" where
  "floats_json d = JObj (map (\<lambda>(k, r). (k, JFloat r)) d)"

definition ints_json :: "(string \<times> int) list \<Rightarrow> json" where
  "ints_json d = JObj (map (\<lambda>(k, n). (k, JInt n)) d)"

definition first3_gpu_floors :: pydict where
  "first3_gpu_floors = [(''qwen27_bf16_pp8'', JFloat (20 / 100)), (''gemma4_26b_a4b_pp8'', JFloat (20 / 100)), (''dsv4_flash_pp8'', JFloat (28 / 100))]"

definition gpu_hard_cap :: "pydict \<Rightarrow> rat" where
  "gpu_hard_cap expectations =
     (case float_or_none (dget expectations ''gpu_utilization_hard_cap'') of Some r \<Rightarrow> if r \<noteq> 0 then r else 85 / 100 | None \<Rightarrow> 85 / 100)"

definition percentage_budget :: "(string \<times> rat) list \<Rightarrow> (string \<times> int) list \<Rightarrow> (string \<times> rat) list" where
  \<comment> \<open>the budgets of the services without a fixed number of bytes\<close>
  "percentage_budget budget fixed = filter (\<lambda>(k, _). k \<notin> set (map fst fixed)) budget"

definition resident_gpu_budget_checks ::
  "spark_topology \<Rightarrow> pipeline_service list \<Rightarrow> (string \<times> rat) list \<Rightarrow> (string \<times> int) list \<Rightarrow> readiness_check list result"
where
  "resident_gpu_budget_checks topo services budget fixed =
     bindE (service_expectations topo) (\<lambda>expectations.
     bindE (py_dict (por (dget expectations ''gpu_utilization_floors'') (JObj first3_gpu_floors))) (\<lambda>floors.
       let cap = gpu_hard_cap expectations; dsv4_id = str_or expectations ''dsv4_service_id'' ''dsv4_flash_pp8'';
           missing = filter (\<lambda>s. s \<notin> set (map fst budget)) (map sv_service_id services);
           shares = percentage_budget budget fixed; tot = sum_list (map snd shares)
       in Inr
         ([demand (missing = []) ''resident_gpu_budget_declared'' ''active resident services declare GPU memory utilization caps''
             [(''missing'', str_list missing), (''budget'', floats_json budget)],
           demand (tot \<le> cap) ''first3_gpu_budget_under_hard_cap'' ''first-three resident GPU memory utilization leaves deployment headroom''
             [(''sum'', JFloat (round6 tot)), (''hard_cap'', JFloat cap), (''fixed_kv_cache_memory_bytes'', ints_json fixed),
              (''fixed_kv_cache_memory_bytes_sum'', JInt (sum_of fixed)), (''percentage_budget_services'', str_list (sort (map fst shares)))]] @
          concat (map (\<lambda>sv.
            case (map_of budget (sv_service_id sv), float_or_none (dget floors (sv_service_id sv))) of
              (Some v, Some floor_v) \<Rightarrow>
                [advise (v \<ge> floor_v) (of_service sv ''gpu_budget_not_starved'')
                   ''GPU memory utilization cap is not below the known first-three service floor'' [(''value'', JFloat v), (''floor'', JFloat floor_v)]]
            | _ \<Rightarrow> []) services) @
          (case map_of budget dsv4_id of
             None \<Rightarrow> []
           | Some v \<Rightarrow> [demand (v < 33 / 100) ''dsv4_gpu_budget_below_no_headroom_startup_point''
               ''DSV4 GPU cap stays below the observed co-resident no-headroom startup failure point''
               [(''value'', JFloat v), (''failed_startup_point'', JFloat (33 / 100))]]))))"

section \<open>JIT KV prefetch\<close>

definition services_need_jit_prefetch :: "pipeline_service list \<Rightarrow> bool" where
  "services_need_jit_prefetch services =
     list_ex (\<lambda>sv. str_or (sv_kv_cache sv) ''external_backend'' '''' = ''dsv4_hma'' \<or> str_or (sv_kv_cache sv) ''connector_id'' '''' = ''simple_cpu_offload'') services"

definition jit_kv_checks :: "environ \<Rightarrow> pipeline_service list \<Rightarrow> bool \<Rightarrow> readiness_check list result" where
  "jit_kv_checks env services strict =
     (let token = env_get env ''DS4_API_JIT_KV_PREFETCH_TOKEN'' '''';
          enabled = env_bool env ''DS4_API_JIT_KV_PREFETCH_API'' (token \<noteq> ''''); needs = services_need_jit_prefetch services;
          if_strict = check_that (if strict then ''error'' else ''warning''); if_needed = check_that (if strict \<or> needs then ''error'' else ''warning'')
      in bindE (env_int env ''DS4_API_JIT_KV_BLOCK_SIZE_TOKENS'' 16) (\<lambda>block0.
         bindE (env_int env ''DS4_PIPELINE_PRESTAGE_COMMON_PREFIX_MIN_CHARS'' 1024) (\<lambda>chars.
         bindE (env_int env ''DS4_API_JIT_KV_MIN_PREFIX_TOKENS'' (max 1 (chars div 4))) (\<lambda>min_tokens.
           let block = max 1 block0
           in Inr
             [if_strict (env_bool env ''DS4_API_JIT_KV_RECOVER_ON_STARTUP'' True) ''jit_kv_startup_recovery_enabled''
                ''JIT KV startup recovery is enabled'' [],
              if_strict (env_bool env ''DS4_API_JIT_KV_CIRCUIT_BREAKER'' True) ''jit_kv_circuit_breaker_enabled''
                ''JIT KV circuit breaker is enabled'' [],
              if_needed (\<not> needs \<or> enabled) ''jit_kv_prefetch_gate_enabled'' ''vLLM DS4 KV prefetch endpoint is enabled when required''
                [(''required'', JBool needs), (''endpoint_enabled'', JBool enabled)],
              if_needed (\<not> needs \<or> token \<noteq> '''') ''jit_kv_prefetch_token_present'' ''DS4 has a token for vLLM DS4 KV prefetch''
                [(''required'', JBool needs), (''token_present'', JBool (token \<noteq> ''''))],
              if_strict (min_tokens \<ge> block) ''jit_kv_min_prefix_covers_block'' ''minimum auto-KV prefix is at least one cache block''
                [(''min_prefix_tokens'', JInt min_tokens), (''block_size_tokens'', JInt block)]]))))"

section \<open>Readiness\<close>

record readiness =
  rd_services :: "pipeline_service list"
  rd_targets :: "(string \<times> int) list"
  rd_depths :: "(string \<times> int) list"
  rd_budget :: "(string \<times> rat) list"
  rd_fixed :: "(string \<times> int) list"
  rd_checks :: "readiness_check list"

definition readiness_load :: "pipeline_service list \<Rightarrow> (string \<times> int) list \<Rightarrow> (string \<times> int) list \<Rightarrow> service_load" where
  "readiness_load services targets depths =
     \<lparr>sl_count = length services, sl_largest = largest_of targets, sl_sum = sum_of targets,
      sl_largest_depth = largest_of depths, sl_depth_sum = sum_of depths\<rparr>"

definition readiness_of :: "environ \<Rightarrow> spark_topology \<Rightarrow> dispatcher_size \<Rightarrow> readiness result" where
  "readiness_of env topo z =
     (let strict = env_bool env ''DS4_API_DEPLOYMENT_STRICT'' False; services = active_services env topo
      in bindE (readiness_service_plans env topo) (\<lambda>plans.
         bindE (mapE (planned rp_target_active pipeline_service_batch_limit plans) services) (\<lambda>targets.
         bindE (mapE (planned rp_queue_depth_target service_queue_depth_target plans) services) (\<lambda>depths.
         bindE (active_service_checks env topo services targets) (\<lambda>active.
         bindE (external_kv_checks env topo services) (\<lambda>external.
         let budget = gpu_budget_by_service services; fixed = fixed_kv_bytes_by_service services
         in bindE (resident_gpu_budget_checks topo services budget fixed) (\<lambda>gpu.
            bindE (jit_kv_checks env services strict) (\<lambda>jit.
              Inr \<lparr>rd_services = services, rd_targets = targets, rd_depths = depths, rd_budget = budget, rd_fixed = fixed,
                   rd_checks = active @ scheduler_checks z (readiness_load services targets depths) @ concat (map pipeline_checks services) @
                     external @ gpu @ jit\<rparr>))))))))"

definition failed_checks :: "string \<Rightarrow> readiness \<Rightarrow> readiness_check list" where
  "failed_checks severity r = filter (\<lambda>c. ck_severity c = severity \<and> \<not> ck_ok c) (rd_checks r)"

definition is_ready :: "readiness \<Rightarrow> bool" where
  "is_ready r \<longleftrightarrow> failed_checks ''error'' r = []"

definition kv_names :: "string \<Rightarrow> pipeline_service list \<Rightarrow> json" where
  "kv_names k services = JObj (map (\<lambda>sv. (sv_service_id sv, JStr (str_or (sv_kv_cache sv) k ''''))) services)"

definition readiness_payload :: "bool \<Rightarrow> dispatcher_size \<Rightarrow> readiness \<Rightarrow> pydict" where
  "readiness_payload strict z r =
     (let l = readiness_load (rd_services r) (rd_targets r) (rd_depths r)
      in [(''format'', JStr ''ds4-deployment-readiness-v1''), (''ready'', JBool (is_ready r)), (''strict'', JBool strict),
          (''active_resident_service_ids'', str_list (map sv_service_id (rd_services r))), (''resident_service_targets'', ints_json (rd_targets r)),
          (''resident_service_queue_depth_targets'', ints_json (rd_depths r)), (''target_active_sum'', JInt (sl_sum l)),
          (''largest_target_active'', JInt (sl_largest l)), (''queue_depth_target_sum'', JInt (sl_depth_sum l)),
          (''largest_queue_depth_target'', JInt (sl_largest_depth l)), (''dispatcher_window'', JInt (dz_window z)),
          (''dispatcher_refill_batch'', JInt (dz_refill_batch z)), (''dispatcher_cohort_workers'', JInt (dz_cohort_workers z)),
          (''resident_gpu_memory_utilization'', floats_json (rd_budget r)),
          (''resident_gpu_memory_utilization_sum'', JFloat (round6 (sum_list (map snd (rd_budget r))))),
          (''resident_fixed_kv_cache_memory_bytes'', ints_json (rd_fixed r)), (''resident_fixed_kv_cache_memory_bytes_sum'', JInt (sum_of (rd_fixed r))),
          (''resident_kv_backends'', kv_names ''external_backend'' (rd_services r)), (''resident_kv_connectors'', kv_names ''connector_id'' (rd_services r)),
          (''hard_error_count'', JInt (int (length (failed_checks ''error'' r)))), (''warning_count'', JInt (int (length (failed_checks ''warning'' r)))),
          (''checks'', JArr (map check_json (rd_checks r)))])"

definition deployment_readiness :: "environ \<Rightarrow> spark_topology \<Rightarrow> dispatcher_size \<Rightarrow> pydict result" where
  "deployment_readiness env topo z =
     bindE (readiness_of env topo z) (\<lambda>r. Inr (readiness_payload (env_bool env ''DS4_API_DEPLOYMENT_STRICT'' False) z r))"

definition default_depths :: "environ \<Rightarrow> spark_topology \<Rightarrow> int list result" where
  "default_depths env topo =
     bindE (readiness_service_plans env topo) (\<lambda>plans.
       if plans \<noteq> [] then Inr (map rp_queue_depth_target plans) else mapE service_queue_depth_target (active_services env topo))"

definition default_dispatch_window :: "environ \<Rightarrow> spark_topology \<Rightarrow> int result" where
  "default_dispatch_window env topo = bindE (default_depths env topo) (\<lambda>ns. Inr (max 64 (sum_list ns)))"

definition default_cohort_workers :: "environ \<Rightarrow> spark_topology \<Rightarrow> int result" where
  "default_cohort_workers env topo = bindE (default_depths env topo) (\<lambda>ns. Inr (max 4 (sum_list ns)))"

section \<open>What readiness guarantees\<close>

lemma largest_of_bound: "(k, n) \<in> set d \<Longrightarrow> n \<le> largest_of d"
proof -
  have mono: "m \<le> foldl max m ns" for m :: int and ns by (induction ns arbitrary: m) (simp, metis foldl_Cons max.bounded_iff order_refl)
  have "n \<in> set ns \<Longrightarrow> n \<le> foldl max m ns" for n m :: int and ns
    by (induction ns arbitrary: m) (auto intro: order_trans [OF max.cobounded2 mono])
  moreover assume "(k, n) \<in> set d"
  ultimately show ?thesis using mono by (cases d) (force simp: largest_of_def)+
qed

lemma largest_of_list: "largest_of d \<le> n \<Longrightarrow> list_all (\<lambda>(_, m). m \<le> n) d"
  by (auto simp: list_all_iff dest!: largest_of_bound)

definition passes :: "readiness_check \<Rightarrow> bool" where
  "passes c \<longleftrightarrow> ck_ok c \<or> ck_severity c \<noteq> ''error''"

lemma passes_simps [simp]: "passes (demand holds name message details) \<longleftrightarrow> holds" "passes (advise holds name message details)"
  by (simp_all add: passes_def demand_def advise_def check_that_def)

lemma is_ready_passes: "is_ready r \<longleftrightarrow> list_all passes (rd_checks r)"
  by (auto simp: is_ready_def failed_checks_def filter_empty_conv passes_def list_all_iff)

definition covers :: "int \<Rightarrow> readiness \<Rightarrow> bool" where
  \<comment> \<open>no resident service has a target or a queue depth above the number\<close>
  "covers n r \<longleftrightarrow> list_all (\<lambda>(_, m). m \<le> n) (rd_targets r) \<and> list_all (\<lambda>(_, m). m \<le> n) (rd_depths r)"

definition declares_cache :: "pipeline_service \<Rightarrow> bool" where
  \<comment> \<open>a cache directory on its nodes, a connector, entries divided by pipeline stage\<close>
  "declares_cache sv \<longleftrightarrow>
     py_str (por (dget (sv_kv_cache sv) ''cache_root'') (por (dget (sv_kv_cache sv) ''storage_root'') (JStr ''''))) \<noteq> '''' \<and>
     str_or (sv_kv_cache sv) ''connector_id'' '''' \<notin> {'''', ''none''} \<and> py_str (dget_or (sv_kv_cache sv) ''sharding'' (JStr '''')) = ''pipeline_layers''"

lemma pipeline_checks_pass: "service_wf known sv \<Longrightarrow> list_all ck_ok (pipeline_checks sv)"
  by (auto simp: pipeline_checks_def service_wf_def layer_partition_ok_def demand_def check_that_def Let_def list_all_iff)


definition ready_service :: pipeline_service where
  "ready_service = \<lparr>sv_service_id = ''s'', sv_profile_id = ''p'', sv_model_id = ''m'', sv_entry_node_id = ''spark0'', sv_node_ids = [''spark0'', ''spark1''],
     sv_api_base_url = ''u'', sv_compute_domain = ''d'', sv_pipeline_parallel_size = 2, sv_tensor_parallel_size = 1, sv_total_layers = 5,
     sv_layer_partition = [2, 3], sv_layer_partition_source = ''given'', sv_dtype = ''bf16'', sv_max_batch_size = 8,
     sv_kv_cache = [(''cache_root'', JStr ''/c''), (''connector_id'', JStr ''lmcache''), (''external_backend'', JStr ''lmcache_hma''),
       (''sharding'', JStr ''pipeline_layers''), (''expected_entry_fraction_per_node'', JFloat (1 / 2)), (''gpu_memory_utilization'', JFloat (1 / 2))],
     sv_scheduler = [], sv_telemetry = []\<rparr>"

definition ready_topology :: spark_topology where
  "ready_topology = \<lparr>tp_topology_id = ''t'', tp_nodes = [], tp_routing_policy = [], tp_services = [ready_service], tp_groups = [], tp_ingress = []\<rparr>"

definition ready_env :: environ where
  "ready_env k = (if k = ''DS4_PIPELINE_AUTO_KV_CACHE'' then Some ''1'' else None)"

definition ready_size :: dispatcher_size where
  "ready_size = \<lparr>dz_window = 64, dz_refill_batch = 64, dz_cohort_workers = 8, dz_multimodel = True\<rparr>"

lemma ready_sample:
  "case readiness_of ready_env ready_topology ready_size of Inl _ \<Rightarrow> False | Inr r \<Rightarrow> is_ready r \<and> rd_targets r = [(''s'', 8)]"
  "service_expectations ready_topology = Inr []"
  by code_simp+


end
