(* ===== verification/Api_Server.thy ===== *)
theory Api_Server
  imports Api_Dispatch Api_Stream Deployment Client_Url
begin

text \<open>
  The end points of \<^verbatim>\<open>ds4_infer/api.py\<close>: \<^verbatim>\<open>handle_get\<close>, \<^verbatim>\<open>handle_post\<close>
  and what the HTTP handler makes of them.  The state is the queue and the external KV catalogue, two parts of one
  database, and what the process remembers of the last metrics of a service.  A call that waits for its result sees the queue at every turn of its loop as other users have left it.
\<close>

section \<open>Queries and bodies\<close>

type_synonym query = "(string \<times> string list) list"

definition one_value :: "query \<Rightarrow> string \<Rightarrow> string option" where
  "one_value q k = (case map_of q k of Some (v # _) \<Rightarrow> Some v | _ \<Rightarrow> None)"

definition required_query :: "query \<Rightarrow> string \<Rightarrow> string result" where
  "required_query q k =
     (case one_value q k of None \<Rightarrow> Inl (ValueError (''query parameter '' @ repr_str k @ '' is required'')) | Some v \<Rightarrow> Inr v)"

definition query_bool :: "query \<Rightarrow> string \<Rightarrow> bool \<Rightarrow> bool" where
  "query_bool q k d =
     (case one_value q k of None \<Rightarrow> d
      | Some v \<Rightarrow> if v = '''' then d else lower (strip v) \<notin> {''0'', ''false'', ''no'', ''off''})"

definition query_float :: "query \<Rightarrow> string \<Rightarrow> rat \<Rightarrow> rat result" where
  "query_float q k d = (case one_value q k of None \<Rightarrow> Inr d | Some v \<Rightarrow> if v = '''' then Inr d else py_float (JStr v))"

definition query_int :: "query \<Rightarrow> string \<Rightarrow> int \<Rightarrow> int result" where
  \<comment> \<open>\<^verbatim>\<open>int(_one(query, k) or d)\<close>\<close>
  "query_int q k d = (case one_value q k of None \<Rightarrow> Inr d | Some v \<Rightarrow> if v = '''' then Inr d else py_int (JStr v))"

definition body_float :: "pydict \<Rightarrow> string \<Rightarrow> rat \<Rightarrow> rat result" where
  "body_float body k d = (if dget body k = JNull then Inr d else py_float (dget body k))"

definition required_str :: "pydict \<Rightarrow> string \<Rightarrow> string result" where
  \<comment> \<open>\<^verbatim>\<open>str(body[k])\<close>\<close>
  "required_str body k = (if has_key body k then Inr (py_str (dget body k)) else Inl (KeyError k))"

definition body_text :: "pydict \<Rightarrow> string \<Rightarrow> string option" where
  "body_text body k = optional_str (dget body k)"

definition body_namespace :: "pydict \<Rightarrow> string option" where
  "body_namespace body = Some (str_or body ''namespace'' ''default'')"

definition dict_items :: "json \<Rightarrow> (pydict list) result" where
  \<comment> \<open>\<^verbatim>\<open>[dict(item) for item in v]\<close>\<close>
  "dict_items v =
     (case v of JArr xs \<Rightarrow> mapE py_dict xs | JObj [] \<Rightarrow> Inr [] | JStr [] \<Rightarrow> Inr []
      | JObj _ \<Rightarrow> Inl (ValueError ''dictionary update sequence element has the wrong length'')
      | JStr _ \<Rightarrow> Inl (ValueError ''dictionary update sequence element has the wrong length'')
      | _ \<Rightarrow> Inl (TypeError ''object is not iterable''))"

section \<open>State and answers\<close>

record api_store =
  at_queue :: queue_db
  at_kv :: kv_mem
  at_metrics :: "string \<Rightarrow> pydict option"

type_synonym answer = "int \<times> pydict"

definition error_payload :: "string \<Rightarrow> pydict" where
  "error_payload s = [(''error'', JStr s)]"

definition on_kv :: "int \<Rightarrow> (kv_mem \<Rightarrow> (kv_mem \<times> pydict) result) \<Rightarrow> api_store \<Rightarrow> api_store \<times> answer result" where
  "on_kv code run st = (case run (at_kv st) of Inl e \<Rightarrow> (st, Inl e) | Inr (m, d) \<Rightarrow> (st\<lparr>at_kv := m\<rparr>, Inr (code, d)))"

definition on_queue :: "int \<Rightarrow> (queue_db \<Rightarrow> (queue_db \<times> pydict) result) \<Rightarrow> api_store \<Rightarrow> api_store \<times> answer result" where
  "on_queue code run st = (case run (at_queue st) of Inl e \<Rightarrow> (st, Inl e) | Inr (db, d) \<Rightarrow> (st\<lparr>at_queue := db\<rparr>, Inr (code, d)))"

definition reads :: "int \<Rightarrow> pydict result \<Rightarrow> api_store \<Rightarrow> api_store \<times> answer result" where
  "reads code r st = (st, bindE r (\<lambda>d. Inr (code, d)))"

section \<open>Waiting for a result\<close>

text \<open>
  A turn of the loop that waits: the queue when the status is read and when the result is collected, and the
  dispatcher, without which the call does the work itself, which may raise.
\<close>

datatype dispatcher_view = Works_Itself "py_error option" | Dispatcher_Runs | Dispatcher_Ended

record wait_turn =
  wt_now :: rat
  wt_status :: queue_db
  wt_collect :: queue_db
  wt_view :: dispatcher_view

definition batch_state :: "string \<Rightarrow> wait_turn \<Rightarrow> string result" where
  "batch_state batch_id t =
     bindE (status (wt_now t) None (Some batch_id) None False (wt_status t)) (\<lambda>(_, st). Inr (str_or st ''state'' ''''))"

definition failed_wait :: "string \<Rightarrow> string \<Rightarrow> pydict" where
  "failed_wait request_id why =
     [(''request'', JObj [(''request_id'', JStr request_id), (''state'', JStr ''failed'')]),
      (''result'', JObj [(''status'', JStr ''failed''), (''error'', JStr why)])]"

definition failed_batch_wait :: "string \<Rightarrow> string \<Rightarrow> pydict" where
  "failed_batch_wait batch_id why =
     [(''format'', queue_format), (''batch_id'', JStr batch_id), (''state'', JStr ''failed''), (''results'', JArr []), (''error'', JStr why)]"

fun wait_until_over :: "string \<Rightarrow> (string \<Rightarrow> pydict) \<Rightarrow> (queue_db \<Rightarrow> pydict result) \<Rightarrow> wait_turn list \<Rightarrow> pydict result" where
  \<comment> \<open>the turns there is time for\<close>
  "wait_until_over batch_id failed collecting [] = Inr (failed ''coordinator sync timeout'')"
| "wait_until_over batch_id failed collecting (t # ts) =
     bindE (batch_state batch_id t) (\<lambda>st.
       if st \<in> set api_terminal_states then collecting (wt_collect t)
       else case wt_view t of
              Works_Itself (Some e) \<Rightarrow> Inl e
            | Dispatcher_Ended \<Rightarrow> Inr (failed ''coordinator dispatcher is not running'')
            | _ \<Rightarrow> wait_until_over batch_id failed collecting ts)"

definition run_until_collected :: "string \<Rightarrow> string \<Rightarrow> wait_turn list \<Rightarrow> pydict result" where
  "run_until_collected batch_id request_id = wait_until_over batch_id (failed_wait request_id) (collect (Some request_id) None None)"

definition run_batch_until_collected :: "string \<Rightarrow> wait_turn list \<Rightarrow> pydict result" where
  "run_batch_until_collected batch_id = wait_until_over batch_id (failed_batch_wait batch_id) (collect None (Some batch_id) None)"

section \<open>Inference\<close>

record call_input =
  ci_now :: rat
  ci_created :: int
  ci_uuid :: string
  ci_turns :: "wait_turn list"

definition call_timeout :: "rat \<Rightarrow> pydict \<Rightarrow> rat result" where
  "call_timeout sync_timeout_s body = py_float (por (dget body ''ds4_timeout_s'') (JFloat sync_timeout_s))"

definition submit_call :: "api_context \<Rightarrow> call_input \<Rightarrow> pydict \<Rightarrow> api_submission \<Rightarrow> queue_db \<Rightarrow> (queue_db \<times> pydict) result" where
  "submit_call api inp body s db =
     bindE (optional_int (dget body ''priority'')) (\<lambda>priority.
       submit_requests (ci_now inp) (ci_uuid inp) (ac_registry api) (Some (ac_topology api)) (as_requests s) (Some (as_batch_id s)) priority db)"

definition error_or :: "pydict option \<Rightarrow> pydict result \<Rightarrow> answer result" where
  "error_or err response = (case err of Some e \<Rightarrow> Inr (502, e) | None \<Rightarrow> bindE response (\<lambda>r. Inr (200, r)))"

definition model_of_body :: "pydict \<Rightarrow> api_submission \<Rightarrow> string" where
  "model_of_body body s = str_or body ''model'' (mp_model_id (as_profile s))"

definition one_answer :: "(string \<Rightarrow> string \<Rightarrow> pydict \<Rightarrow> pydict result) \<Rightarrow> rat \<Rightarrow> call_input \<Rightarrow> pydict \<Rightarrow> string \<Rightarrow> api_submission \<Rightarrow> answer result" where
  \<comment> \<open>wait for one request and answer with its result\<close>
  "one_answer response sync_timeout_s inp body request_id s =
     bindE (call_timeout sync_timeout_s body) (\<lambda>_.
     bindE (run_until_collected (as_batch_id s) request_id (ci_turns inp)) (\<lambda>res.
       error_or (openai_result_error res) (response request_id (model_of_body body s) res)))"

definition submitted_answer ::
  "api_context \<Rightarrow> call_input \<Rightarrow> pydict \<Rightarrow> api_submission result \<Rightarrow> (api_submission \<Rightarrow> pydict \<Rightarrow> answer result) \<Rightarrow> api_store \<Rightarrow> api_store \<times> answer result"
where
  \<comment> \<open>submit the requests; what follows finds them in the queue\<close>
  "submitted_answer api inp body made respond st =
     (case bindE made (\<lambda>s. bindE (submit_call api inp body s (at_queue st)) (\<lambda>(db, submitted). Inr (s, db, submitted))) of
        Inl e \<Rightarrow> (st, Inl e)
      | Inr (s, db, submitted) \<Rightarrow> (st\<lparr>at_queue := db\<rparr>, respond s submitted))"

definition handle_openai_chat :: "api_context \<Rightarrow> rat \<Rightarrow> call_input \<Rightarrow> pydict \<Rightarrow> api_store \<Rightarrow> api_store \<times> answer result" where
  "handle_openai_chat api sync_timeout_s inp body =
     submitted_answer api inp body (openai_chat_submission api (ci_uuid inp) False body) (\<lambda>s submitted.
       if is_async_request body then Inr (202, async_queue_response ''openai_chat'' (as_request_id s) (as_batch_id s) submitted)
       else one_answer (openai_chat_response (ci_created inp)) sync_timeout_s inp body (as_request_id s) s)"

definition handle_anthropic_messages :: "api_context \<Rightarrow> rat \<Rightarrow> call_input \<Rightarrow> pydict \<Rightarrow> api_store \<Rightarrow> api_store \<times> answer result" where
  "handle_anthropic_messages api sync_timeout_s inp body st =
     (if truthy (dget body ''stream'') then (st, Inr (400, error_payload ''stream=true is not implemented in the spark0 coordinator yet''))
      else
        submitted_answer api inp body (anthropic_submission api (ci_uuid inp) body) (\<lambda>s submitted.
          if is_async_request body then Inr (202, async_queue_response ''anthropic_messages'' (as_request_id s) (as_batch_id s) submitted)
          else one_answer anthropic_message_response sync_timeout_s inp body (as_request_id s) s) st)"

definition completion_answer :: "rat \<Rightarrow> call_input \<Rightarrow> pydict \<Rightarrow> api_submission \<Rightarrow> pydict \<Rightarrow> answer result" where
  "completion_answer sync_timeout_s inp body s submitted =
     (if is_async_request body
      then Inr (202, dset ''request_ids'' (JArr (map (\<lambda>r. JStr (ir_request_id r)) (as_requests s)))
                       (async_queue_response ''openai_completion'' (as_request_id s) (as_batch_id s) submitted))
      else if truthy (dget body ''stream'') then Inr (400, error_payload ''stream=true must be handled by the streaming response path'')
      else case as_requests s of
             [r] \<Rightarrow> one_answer (openai_completion_response (ci_created inp)) sync_timeout_s inp body (ir_request_id r) s
           | _ \<Rightarrow>
               bindE (call_timeout sync_timeout_s body) (\<lambda>_.
               bindE (run_batch_until_collected (as_batch_id s) (ci_turns inp)) (\<lambda>res.
                 error_or (openai_batch_error res)
                   (openai_completion_batch_response (ci_created inp) (as_request_id s) (model_of_body body s) res))))"

definition handle_openai_completion :: "api_context \<Rightarrow> rat \<Rightarrow> call_input \<Rightarrow> pydict \<Rightarrow> api_store \<Rightarrow> api_store \<times> answer result" where
  "handle_openai_completion api sync_timeout_s inp body =
     submitted_answer api inp body (openai_completion_requests api (ci_uuid inp) body) (completion_answer sync_timeout_s inp body)"

section \<open>Work on demand\<close>

text \<open>
  What running the claims of a call of \<^verbatim>\<open>work\<close> comes to: the time and the queue when the results are
  handed in, and the outcomes of the calls; \<open>wr_loop\<close> is the end of the loops that hand in their results themselves
  (\<^verbatim>\<open>_run_model_batch_incremental\<close>, \<^verbatim>\<open>_run_refill_stream\<close>,
  \<^verbatim>\<open>_run_stream\<close>): what they counted, how many they claimed and how many they prepared.
\<close>

record work_run =
  wr_many :: bool
  wr_incremental :: bool
  wr_now :: rat
  wr_queue :: queue_db
  wr_cpu :: "string + json list"
  wr_batch :: "string + (string \<times> pydict) list"
  wr_loop :: "py_error + counts \<times> int \<times> nat"

record endpoint_input = call_input +
  ei_uuids :: "nat \<Rightarrow> string"
  ei_claim_uuids :: "nat \<Rightarrow> string"
  ei_run :: work_run

definition work_worker :: "dispatch_config \<Rightarrow> pydict \<Rightarrow> worker result" where
  "work_worker cfg body =
     bindE (int_or_default (dget body ''lease_ttl_s'') 900) (\<lambda>ttl.
     bindE (py_float (por (dget body ''heartbeat_interval_s'') (JFloat 5))) (\<lambda>_.
     bindE (int_or_default (dget body ''transport_max_attempts'') (wk_max_attempts (dc_worker cfg))) (\<lambda>attempts.
       Inr \<lparr>wk_id = str_or body ''worker_id'' ''spark0-api-pipeline-worker'', wk_ttl = of_int ttl, wk_max_attempts = attempts\<rparr>)))"

definition work_once_opts :: "dispatch_config \<Rightarrow> rat \<Rightarrow> pydict \<Rightarrow> (worker \<times> work_opts) result" where
  "work_once_opts cfg sync_timeout_s body =
     (let topo = dc_topology cfg
      in bindE (py_int (por (dget body ''timeout_s'') (JFloat sync_timeout_s))) (\<lambda>_.
         let node = py_str (por (dget body ''node_id'') (JStr (str_or (tp_routing_policy topo) ''queue_entry_node_id'' ''spark0'')))
         in bindE (int_or_default (dget body ''limit'') (int_or (dc_refill_batch cfg) (dc_window cfg))) (\<lambda>lmt.
            bindE (int_or_default (por (dget body ''concurrency'') (dget body ''limit'')) lmt) (\<lambda>concurrency.
            bindE (work_worker cfg body) (\<lambda>w.
            bindE (node_profile_ids topo node) (\<lambda>profiles.
            bindE (int_or_default (dget body ''max_node_depth'') 0) (\<lambda>depth.
            bindE (body_float body ''batch_linger_s'' (dc_linger_s cfg)) (\<lambda>linger.
            bindE (int_or_default (dget body ''kv_capacity_bytes'') (dc_capacity cfg)) (\<lambda>capacity.
            bindE (batch_limits_by_service (dc_env cfg) topo) (\<lambda>limits.
              Inr (w, \<lparr>wo_node = Some node, wo_batch = body_text body ''batch_id'', wo_limit = lmt, wo_concurrency = concurrency,
                       wo_profiles = profiles, wo_depth = depth, wo_linger_s = linger, wo_capacity = capacity, wo_layouts = dc_layouts cfg,
                       wo_limits = map_of limits, wo_token_limits = Map.empty, wo_decode_reserves = Map.empty\<rparr>)))))))))))"

definition prepared_queue :: "environ \<Rightarrow> endpoint_input \<Rightarrow> worker \<Rightarrow> work_opts \<Rightarrow> queue_db \<Rightarrow> queue_db" where
  \<comment> \<open>the queue a pass leaves when it raises: leases are reaped and requests prepared before the claim\<close>
  "prepared_queue env inp w o1 db =
     (if wo_limit o1 < 1 \<or> wo_concurrency o1 < 1 then db
      else fst (prepare_ready env (ci_now inp) (ei_uuids inp) (wo_node o1) (wo_profiles o1) (wo_batch o1) (wo_limit o1) (wk_id w)
                  (wo_depth o1) (wo_capacity o1) (wo_layouts o1) None False (fst (requeue_expired_leases (ci_now inp) 3 db))))"

definition loop_summary :: "queue_claim list \<Rightarrow> pydict \<Rightarrow> nat \<Rightarrow> dispatch_mode \<Rightarrow> counts \<times> int \<times> nat \<Rightarrow> pydict" where
  "loop_summary claims reap prefilled mode end =
     (case end of ((completed, failed, retried), claimed, more_prefilled) \<Rightarrow>
        (let n = (case mode of Rolling_refill _ \<Rightarrow> claimed | _ \<Rightarrow> int (length claims))
         in work_summary n completed failed reap
              [(''prefilled_count'', JInt (int (case mode of Rolling_refill _ \<Rightarrow> prefilled + more_prefilled | _ \<Rightarrow> prefilled))),
               (''retried_count'', JInt retried), (''batch_dispatch_count'', JInt (case mode of Batch_incremental \<Rightarrow> 1 | _ \<Rightarrow> n)),
               (''batch_dispatch_mode'', JStr (mode_name mode))]))"

definition run_claimed ::
  "worker \<Rightarrow> work_run \<Rightarrow> pydict \<Rightarrow> nat \<Rightarrow> dispatch_mode \<Rightarrow> queue_claim list \<Rightarrow> queue_db \<times> pydict result"
where
  "run_claimed w run reap prefilled mode claims =
     (let hand = (\<lambda>pairs. case run_once_finish (wr_now run) w reap prefilled mode claims pairs (wr_queue run) of
                    Inl e \<Rightarrow> (wr_queue run, Inl e) | Inr (db, s, _) \<Rightarrow> (db, Inr s))
      in case mode of
           Cpu_batch \<Rightarrow> (case run_cpu_claims claims (wk_ttl w) (wr_cpu run) of Inl e \<Rightarrow> (wr_queue run, Inl e) | Inr pairs \<Rightarrow> hand pairs)
         | Batch_whole \<Rightarrow> hand (model_batch_pairs claims (wr_batch run))
         | _ \<Rightarrow> (wr_queue run, bindE (wr_loop run) (\<lambda>end. Inr (loop_summary claims reap prefilled mode end))))"

definition work_pass ::
  "environ \<Rightarrow> endpoint_input \<Rightarrow> (string \<Rightarrow> int option) \<Rightarrow> worker \<Rightarrow> work_opts \<Rightarrow> queue_db \<Rightarrow> queue_db \<times> pydict result"
where
  \<comment> \<open>\<^verbatim>\<open>InferenceQueue.work\<close>: one pass of a worker\<close>
  "work_pass env inp watermarks w o1 db =
     (case run_once_claim env (ci_now inp) (ei_uuids inp) (ei_claim_uuids inp) w o1 db of
        Inl e \<Rightarrow> (prepared_queue env inp w o1 db, Inl e)
      | Inr (db1, reap, prefilled, claims) \<Rightarrow>
          if claims = [] then (db1, Inr (run_once_idle reap prefilled))
          else run_claimed w (ei_run inp) reap prefilled
                 (dispatch_mode_of (wr_many (ei_run inp)) (wr_incremental (ei_run inp)) watermarks claims) claims)"

definition work_once :: "dispatch_config \<Rightarrow> rat \<Rightarrow> endpoint_input \<Rightarrow> pydict \<Rightarrow> queue_db \<Rightarrow> queue_db \<times> pydict result" where
  "work_once cfg sync_timeout_s inp body db =
     (case bindE (work_once_opts cfg sync_timeout_s body) (\<lambda>(w, o1).
             bindE (refill_low_watermarks_by_service (dc_topology cfg)) (\<lambda>watermarks. Inr (w, o1, watermarks))) of
        Inl e \<Rightarrow> (db, Inl e)
      | Inr (w, o1, watermarks) \<Rightarrow> work_pass (dc_env cfg) inp (map_of watermarks) w o1 db)"

section \<open>The external KV catalogue\<close>

definition with_contract :: "pipeline_service \<Rightarrow> pydict \<Rightarrow> pydict" where
  "with_contract sv metadata =
     setdefault ''layer_partition_fingerprint'' (JStr (layer_partition_fingerprint sv))
       (setdefault ''kv_cache_contract'' (JObj (kv_cache_contract sv)) metadata)"

definition kv_declare :: "api_context \<Rightarrow> rat \<Rightarrow> pydict \<Rightarrow> kv_mem \<Rightarrow> (kv_mem \<times> pydict) result" where
  "kv_declare api now body m =
     bindE (resolve_pipeline_service (ac_env api) (ac_topology api) (ac_registry api) body) (\<lambda>sv.
     let namespace = str_or body ''namespace'' ''default''
     in bindE (required_str body ''kv_key'') (\<lambda>key.
        bindE (int_or_default (por (dget body ''total_bytes'') (dget body ''bytes'')) 0) (\<lambda>total_bytes.
        let root = optional_str (por (por (dget body ''storage_root'') (dget body ''cache_root''))
                                   (por (dget (sv_kv_cache sv) ''storage_root'') (dget (sv_kv_cache sv) ''cache_root'')))
        in bindE (if dget body ''shards'' = JNull then external_cache_shards sv namespace key total_bytes root
                  else dict_items (dget body ''shards'')) (\<lambda>shards.
           bindE (dict_or_empty (dget body ''metadata'')) (\<lambda>metadata.
           bindE (int_or_default (dget body ''total_tokens'') 0) (\<lambda>total_tokens.
           bindE (int_or_default (dget body ''pin_count'') (if truthy (dget body ''pinned'') then 1 else 0)) (\<lambda>pins.
           bindE (int_or_default (dget body ''priority'') 100) (\<lambda>priority.
           bindE (optional_rat (dget body ''ttl_s'')) (\<lambda>ttl.
             upsert_external_kv_object now (Some namespace) (Some key) (Some (sv_service_id sv))
               \<lparr>kd_profile = Some (sv_profile_id sv), kd_model = Some (sv_model_id sv), kd_owner = body_text body ''owner'',
                kd_content_hash = body_text body ''content_hash'', kd_total_bytes = total_bytes, kd_total_tokens = total_tokens,
                kd_state = str_or body ''state'' ''declared'', kd_pin_count = pins, kd_priority = priority, kd_ttl_s = ttl,
                kd_metadata = with_contract sv metadata, kd_shards = shards\<rparr> m)))))))))"

definition copied_str :: "string \<Rightarrow> pydict \<Rightarrow> pydict \<Rightarrow> pydict" where
  \<comment> \<open>\<^verbatim>\<open>if body.get(k) is not None: d[k] = str(body[k])\<close>\<close>
  "copied_str k body d = (if dget body k = JNull then d else dset k (JStr (py_str (dget body k))) d)"

definition shard_commit_state :: "pydict \<Rightarrow> string" where
  "shard_commit_state body = py_str (por (dget body ''state'') (por (dget body ''shard_state'') (JStr ''ready_on_ssd'')))"

definition shard_update :: "pipeline_service \<Rightarrow> string \<Rightarrow> int \<Rightarrow> pydict \<Rightarrow> pydict result" where
  "shard_update sv node stage body =
     bindE (dict_or_empty (dget body ''metadata'')) (\<lambda>metadata.
     let metadata1 = setdefault ''archive_mode'' (JStr ''node_local_shard'') (setdefault ''archive_owner_node_id'' (JStr node)
                       (copied_str ''archive_uri'' body (copied_str ''content_hash'' body metadata)));
         update = [(''node_id'', JStr node), (''stage_index'', JInt stage), (''state'', JStr (shard_commit_state body)),
                   (''metadata'', JObj (with_contract sv metadata1))]
     in bindE (optional_int (dget body ''bytes'')) (\<lambda>bytes.
        let update1 = copied_str ''storage_uri'' body (case bytes of None \<Rightarrow> update | Some n \<Rightarrow> dset ''bytes'' (JInt n) update)
        in Inr (if dget body ''gpu_resident'' = JNull then update1
                else dset ''gpu_resident'' (JBool (truthy (dget body ''gpu_resident''))) update1)))"

definition kv_shard_commit :: "api_context \<Rightarrow> rat \<Rightarrow> pydict \<Rightarrow> kv_mem \<Rightarrow> (kv_mem \<times> pydict) result" where
  "kv_shard_commit api now body m =
     bindE (resolve_pipeline_service (ac_env api) (ac_topology api) (ac_registry api) body) (\<lambda>sv.
     bindE (required_str body ''node_id'') (\<lambda>node.
     bindE (optional_int (dget body ''stage_index'')) (\<lambda>given.
     bindE (case given of Some i \<Rightarrow> Inr i | None \<Rightarrow> bindE (stage_for_node sv node) (\<lambda>st. Inr (ps_stage_index st))) (\<lambda>stage.
     bindE (shard_update sv node stage body) (\<lambda>update.
     bindE (required_str body ''kv_key'') (\<lambda>key.
       external_kv_commit_shards now (body_namespace body) (Some key) (Some (sv_service_id sv)) ''available'' (shard_commit_state body)
         [update] m))))))"

definition kv_object_call ::
  "pydict \<Rightarrow> (string option \<Rightarrow> string option \<Rightarrow> string option \<Rightarrow> (kv_mem \<times> pydict) result) \<Rightarrow> (kv_mem \<times> pydict) result"
where
  \<comment> \<open>the object that a body names by namespace, key and service\<close>
  "kv_object_call body run =
     bindE (required_str body ''kv_key'') (\<lambda>key. bindE (required_str body ''service_id'') (\<lambda>svc. run (body_namespace body) (Some key) (Some svc)))"

definition kv_operation :: "string \<Rightarrow> string option" where
  "kv_operation path =
     (case drop_prefix ''/ds4/kvcache/'' path of Some op \<Rightarrow> Some op | None \<Rightarrow> drop_prefix ''/ds4/kv-cache/'' path)"

definition prefetch_metadata :: "spark_topology \<Rightarrow> string \<Rightarrow> pydict \<Rightarrow> pydict" where
  "prefetch_metadata topo svc body =
     (let metadata = [(''prefetch'', JObj body), (''execution'', JStr ''control_plane_only'')]
      in case pipeline_service_by_id topo svc of Inl _ \<Rightarrow> metadata | Inr sv \<Rightarrow> with_contract sv metadata)"

definition kv_prefetch :: "spark_topology \<Rightarrow> rat \<Rightarrow> pydict \<Rightarrow> kv_mem \<Rightarrow> (kv_mem \<times> pydict) result" where
  "kv_prefetch topo now body m =
     bindE (required_str body ''service_id'') (\<lambda>svc.
     bindE (required_str body ''kv_key'') (\<lambda>key.
     bindE (external_kv_transition now (body_namespace body) (Some key) (Some svc) ''prefetch_requested'' (Some ''prefetch_requested'')
              (prefetch_metadata topo svc body) m) (\<lambda>(m', manifest).
       Inr (m', dset ''prefetch'' (JObj [(''execution'', JStr ''control_plane_only''), (''gpu_jit_load'', JBool False),
                                         (''connector_required'', JBool True)]) manifest))))"

definition kv_touch :: "rat \<Rightarrow> pydict \<Rightarrow> kv_mem \<Rightarrow> (kv_mem \<times> pydict) result" where
  "kv_touch now body m =
     kv_object_call body (\<lambda>ns key svc.
       bindE (optional_int (dget body ''priority'')) (\<lambda>priority.
       bindE (optional_rat (dget body ''ttl_s'')) (\<lambda>ttl.
       bindE (dict_or_empty (dget body ''metadata'')) (\<lambda>metadata.
         external_kv_touch now ns key svc (body_text body ''owner'') (body_text body ''state'') priority ttl metadata m))))"

definition kv_take_lease :: "rat \<Rightarrow> string \<Rightarrow> pydict \<Rightarrow> kv_mem \<Rightarrow> (kv_mem \<times> pydict) result" where
  "kv_take_lease now uuid body m =
     kv_object_call body (\<lambda>ns key svc.
       bindE (py_float (por (dget body ''ttl_s'') (JFloat 300))) (\<lambda>ttl.
         external_kv_lease now (''kvlease-'' @ uuid) ns key svc (body_text body ''owner'') (str_or body ''mode'' ''read'') ttl m))"

definition kv_commit :: "rat \<Rightarrow> pydict \<Rightarrow> kv_mem \<Rightarrow> (kv_mem \<times> pydict) result" where
  "kv_commit now body m =
     kv_object_call body (\<lambda>ns key svc.
       bindE (dict_items (por (por (dget body ''shards'') (dget body ''shard_updates'')) (JArr []))) (\<lambda>updates.
         external_kv_commit_shards now ns key svc (str_or body ''object_state'' ''available'') (str_or body ''shard_state'' ''ready_on_ssd'') updates m))"

definition kv_transition :: "rat \<Rightarrow> pydict \<Rightarrow> kv_mem \<Rightarrow> (kv_mem \<times> pydict) result" where
  "kv_transition now body m =
     kv_object_call body (\<lambda>ns key svc.
       bindE (required_str body ''state'') (\<lambda>st.
       bindE (dict_or_empty (dget body ''metadata'')) (\<lambda>metadata.
         external_kv_transition now ns key svc st (body_text body ''shard_state'') metadata m)))"

definition kv_list_of_body :: "rat \<Rightarrow> pydict \<Rightarrow> kv_mem \<Rightarrow> pydict result" where
  "kv_list_of_body now body m =
     bindE (int_or_default (dget body ''limit'') 100) (\<lambda>lmt.
       Inr (external_kv_list now m (body_namespace body) (body_text body ''service_id'') (body_text body ''owner'') (body_text body ''state'')
              (body_text body ''prefix'') (truthy (dget body ''include_shards'')) lmt))"

definition unknown_endpoint :: "string \<Rightarrow> answer" where
  "unknown_endpoint path = (404, error_payload (''unknown endpoint: '' @ path))"

definition post_kv :: "api_context \<Rightarrow> endpoint_input \<Rightarrow> string \<Rightarrow> string \<Rightarrow> pydict \<Rightarrow> api_store \<Rightarrow> api_store \<times> answer result" where
  "post_kv api inp path op body st =
     (let now = ci_now inp
      in if op = ''declare'' then on_kv 200 (kv_declare api now body) st
         else if op \<in> {''lookup'', ''resolve''} then
           reads 200 (bindE (required_str body ''kv_key'') (\<lambda>key.
             external_kv_lookup now (at_kv st) (body_namespace body) (Some key) (body_text body ''service_id''))) st
         else if op = ''list'' then reads 200 (kv_list_of_body now body (at_kv st)) st
         else if op \<in> {''touch'', ''metadata''} then on_kv 200 (kv_touch now body) st
         else if op = ''lease'' then on_kv 200 (kv_take_lease now (ci_uuid inp) body) st
         else if op = ''release'' then
           on_kv 200 (\<lambda>m. bindE (required_str body ''lease_id'') (\<lambda>lease. Inr (external_kv_release lease m))) st
         else if op = ''prefetch'' then on_kv 202 (kv_prefetch (ac_topology api) now body) st
         else if op = ''commit'' then on_kv 200 (kv_commit now body) st
         else if op \<in> {''shard/commit'', ''shard/archive''} then on_kv 200 (kv_shard_commit api now body) st
         else if op = ''transition'' then on_kv 200 (kv_transition now body) st
         else if op = ''pin'' then on_kv 200 (\<lambda>m. kv_object_call body (\<lambda>ns key svc. external_kv_pin now ns key svc 1 m)) st
         else if op = ''unpin'' then on_kv 200 (\<lambda>m. kv_object_call body (\<lambda>ns key svc. external_kv_pin now ns key svc (- 1) m)) st
         else if op = ''evict'' then
           on_kv 200 (\<lambda>m. kv_object_call body (\<lambda>ns key svc. external_kv_evict now ns key svc (body_text body ''reason'') m)) st
         else (st, Inr (unknown_endpoint path)))"

section \<open>POST\<close>

record coordinator =
  cn_api :: api_context
  cn_dispatch :: dispatch_config
  cn_sync_timeout_s :: rat

definition queue_submit :: "api_context \<Rightarrow> call_input \<Rightarrow> pydict \<Rightarrow> api_store \<Rightarrow> api_store \<times> answer result" where
  "queue_submit api inp body st =
     (case dget body ''requests'' of
        JArr items \<Rightarrow>
          on_queue 200 (\<lambda>db.
            bindE (mapE (\<lambda>item. bindE (prepare_queue_request_json (ac_env api) item) request_from_json) items) (\<lambda>reqs.
            bindE (optional_int (dget body ''priority'')) (\<lambda>priority.
              submit_requests (ci_now inp) (ci_uuid inp) (ac_registry api) (Some (ac_topology api)) reqs (body_text body ''batch_id'') priority db))) st
      | _ \<Rightarrow> (st, Inr (400, error_payload ''requests must be a list'')))"

definition queue_cancel :: "rat \<Rightarrow> pydict \<Rightarrow> queue_db \<Rightarrow> (queue_db \<times> pydict) result" where
  "queue_cancel now body =
     cancel now (body_text body ''request_id'') (body_text body ''batch_id'') (body_text body ''job_id'')
       (str_or body ''reason'' ''cancelled by operator'') (truthy (dget body ''force_running''))"

definition on_queue_kept :: "(queue_db \<Rightarrow> queue_db \<times> pydict result) \<Rightarrow> api_store \<Rightarrow> api_store \<times> answer result" where
  \<comment> \<open>an operation whose effects stay when it raises\<close>
  "on_queue_kept run st = (case run (at_queue st) of (db, r) \<Rightarrow> (st\<lparr>at_queue := db\<rparr>, bindE r (\<lambda>d. Inr (200, d))))"

definition post_telemetry :: "spark_topology \<Rightarrow> rat \<Rightarrow> pydict \<Rightarrow> queue_db \<Rightarrow> queue_db \<times> pydict result" where
  "post_telemetry topo now body db =
     (case pipeline_telemetry_with_topology topo body of Inl e \<Rightarrow> (db, Inl e) | Inr report \<Rightarrow> record_pipeline_telemetry now report db)"

definition handle_post :: "coordinator \<Rightarrow> endpoint_input \<Rightarrow> string \<Rightarrow> pydict \<Rightarrow> api_store \<Rightarrow> api_store \<times> answer result" where
  "handle_post cn inp path body st =
     (let api = cn_api cn; call = call_input.truncate inp
      in if path = ''/v1/chat/completions'' then handle_openai_chat api (cn_sync_timeout_s cn) call body st
         else if path = ''/v1/completions'' then handle_openai_completion api (cn_sync_timeout_s cn) call body st
         else if path = ''/v1/messages'' then handle_anthropic_messages api (cn_sync_timeout_s cn) call body st
         else if path = ''/ds4/queue/submit'' then queue_submit api call body st
         else if path = ''/ds4/queue/work'' then on_queue_kept (work_once (cn_dispatch cn) (cn_sync_timeout_s cn) inp body) st
         else if path = ''/ds4/queue/cancel'' then on_queue 200 (queue_cancel (ci_now inp) body) st
         else if path = ''/ds4/pipeline/telemetry'' then on_queue_kept (post_telemetry (ac_topology api) (ci_now inp) body) st
         else case kv_operation path of
                Some op \<Rightarrow> post_kv api inp path op body st
              | None \<Rightarrow> (st, Inr (unknown_endpoint path)))"

section \<open>What is sent\<close>

text \<open>
  A stream is written as its events come.  An exception among them reaches \<^verbatim>\<open>do_POST\<close> after the headers
  of the stream were sent, and its answer is written behind them.
\<close>

datatype http_response = Answered int pydict | Event_Stream "pydict list" "answer option"

record stream_input = endpoint_input +
  si_stream :: "started_stream \<Rightarrow> pydict list \<times> py_error option"

definition refused :: "py_error \<Rightarrow> answer" where
  "refused e = (400, error_payload (exc_text e))"

definition answered :: "answer \<Rightarrow> http_response" where
  "answered a = Answered (fst a) (snd a)"

definition read_json :: "int \<Rightarrow> string \<Rightarrow> pydict result" where
  \<comment> \<open>\<open>data\<close>: as many bytes as the header announces\<close>
  "read_json content_length data =
     (if content_length \<le> 0 then Inr []
      else case json_loads data of
             Some (JObj d) \<Rightarrow> Inr d
           | Some _ \<Rightarrow> Inl (ValueError ''request body must be a JSON object'')
           | None \<Rightarrow> Inl (ValueError ''invalid JSON''))"

definition stream_response ::
  "(queue_db \<Rightarrow> queue_db \<times> started_stream result) \<Rightarrow> (started_stream \<Rightarrow> pydict list \<times> py_error option) \<Rightarrow> api_store \<Rightarrow>
   api_store \<times> http_response"
where
  "stream_response start events_of st =
     (case start (at_queue st) of
        (db, Inl e) \<Rightarrow> (st\<lparr>at_queue := db\<rparr>, answered (refused e))
      | (db, Inr s) \<Rightarrow> (let (evs, err) = events_of s in (st\<lparr>at_queue := db\<rparr>, Event_Stream evs (map_option refused err))))"

definition streaming_start :: "coordinator \<Rightarrow> stream_input \<Rightarrow> string \<Rightarrow> pydict \<Rightarrow> (queue_db \<Rightarrow> queue_db \<times> started_stream result) option" where
  "streaming_start cn inp path body =
     (if \<not> truthy (dget body ''stream'') then None
      else if path = ''/v1/completions''
      then Some (openai_completion_stream_events (cn_api cn) (cn_sync_timeout_s cn) (ci_uuid inp) (ci_now inp) body)
      else if path = ''/v1/chat/completions''
      then Some (openai_chat_stream_events (cn_api cn) (cn_sync_timeout_s cn) (ci_uuid inp) (ci_now inp) body)
      else None)"

definition do_post :: "coordinator \<Rightarrow> stream_input \<Rightarrow> string \<Rightarrow> int \<Rightarrow> string \<Rightarrow> api_store \<Rightarrow> api_store \<times> http_response" where
  "do_post cn inp path content_length data st =
     (case read_json content_length data of
        Inl e \<Rightarrow> (st, answered (refused e))
      | Inr body \<Rightarrow>
          (case streaming_start cn inp path body of
             Some start \<Rightarrow> stream_response start (si_stream inp) st
           | None \<Rightarrow>
               (case handle_post cn (endpoint_input.truncate inp) path body st of
                  (st', Inl e) \<Rightarrow> (st', answered (refused e))
                | (st', Inr a) \<Rightarrow> (st', answered a))))"

section \<open>The status of the dispatcher\<close>

text \<open>
  What a status reads besides the queue: the notes of the dispatcher, the reports of the governor, of the circuit
  breaker and of the recovery at the start, and the answers of the metrics pages of the services.
\<close>

record status_input =
  st_now :: rat
  st_state :: pydict
  st_governor :: pydict
  st_circuit :: pydict
  st_recovery :: pydict
  st_prefer_batch :: bool
  st_metrics :: "string \<Rightarrow> string + string"

definition cohort_batch_active :: "pydict \<Rightarrow> bool result" where
  "cohort_batch_active item =
     (if has_key item ''batch_active'' then Inr (truthy (dget item ''batch_active''))
      else bindE (int_or_default (dget item ''active_count'') 0) (\<lambda>active.
        if active > 0 then Inr True
        else if lower (str_or item ''admission_mode'' '''') \<noteq> ''rolling_refill'' then Inr False
        else bindE (int_or_default (dget item ''initial_count'') 0) (\<lambda>initial. Inr (initial > 0))))"

definition active_batches_from_status :: "string \<Rightarrow> pydict \<Rightarrow> (string \<times> int) list result" where
  \<comment> \<open>the cohorts of a status whose batch is active, counted by service or by domain\<close>
  "active_batches_from_status k state =
     (case dget state ''pending_cohort_details'' of
        JArr items \<Rightarrow>
          foldE (\<lambda>counts item. case item of
              JObj d \<Rightarrow> bindE (cohort_batch_active d) (\<lambda>active.
                let name = str_or d k ''''
                in Inr (if active \<and> name \<noteq> '''' then set_limit name (count_of counts name + 1) counts else counts))
            | _ \<Rightarrow> Inr counts) [] items
      | _ \<Rightarrow> Inr [])"

definition status_add_resident_defaults :: "dispatch_config \<Rightarrow> pydict \<Rightarrow> pydict result" where
  "status_add_resident_defaults cfg state =
     (let topo = dc_topology cfg
      in if \<not> truthy (dget state ''resident_multimodel'') then Inr state
         else case resident_service_plans (dc_env cfg) topo (py_str (dget_or (tp_routing_policy topo) ''queue_entry_node_id'' (JStr ''spark0''))) (dc_linger_s cfg) of
           Inl e \<Rightarrow> Inr (setdefault ''resident_service_status_error'' (JStr (exc_text e)) state)
         | Inr plans \<Rightarrow>
             (let by_plan = (\<lambda>v pick. plans_note v pick plans); every = (\<lambda>_. True);
                  state1 = setdefault ''resident_service_low_watermarks'' (by_plan (\<lambda>p. JInt (rp_low_watermark p)) every)
                          (setdefault ''resident_service_token_limits'' (by_plan (\<lambda>p. JInt (rp_max_cohort_tokens p)) (\<lambda>p. rp_max_cohort_tokens p > 0))
                          (setdefault ''resident_service_queue_depth_targets'' (by_plan (\<lambda>p. JInt (rp_queue_depth_target p)) every)
                          (setdefault ''resident_service_targets'' (by_plan (\<lambda>p. JInt (rp_target_active p)) every) state)))
              in bindE (active_batches_from_status ''service_id'' state1) (\<lambda>by_service.
                 let state2 = dset ''resident_service_active_batches'' (counts_json by_service) state1;
                     state3 = (if truthy (dget state2 ''resident_service_batch_limits'') then state2
                               else dset ''resident_service_batch_limits'' (counts_json (resident_service_batch_limits plans)) state2)
                 in bindE (active_batches_from_status ''compute_domain'' state3) (\<lambda>by_domain.
                    Inr (setdefault ''resident_service_admission_modes'' (by_plan (\<lambda>p. JStr (rp_admission_mode p)) every)
                          (dset ''resident_compute_domain_batch_limits'' (counts_json (resident_compute_domain_batch_limits plans))
                          (dset ''resident_compute_domain_active_batches'' (counts_json by_domain) state3)))))))"

definition service_metrics_snapshot ::
  "environ \<Rightarrow> status_input \<Rightarrow> (string \<Rightarrow> pydict option) \<times> pydict result \<Rightarrow> pipeline_service \<Rightarrow> (string \<Rightarrow> pydict option) \<times> pydict result"
where
  \<comment> \<open>\<open>seen\<close>: the last metrics of each service, kept when a later base URL raises\<close>
  "service_metrics_snapshot env inp acc sv =
     (case acc of
        (seen, Inl e) \<Rightarrow> (seen, Inl e)
      | (seen, Inr out) \<Rightarrow>
          (case pipeline_service_client_base_url env sv of
             Inl e \<Rightarrow> (seen, Inl e)
           | Inr url \<Rightarrow>
               (let sid = sv_service_id sv; (snap, kept) = resident_service_metric_snapshot (st_now inp) url (st_metrics inp sid) (seen sid)
                in (seen(sid := kept), Inr (dset sid (JObj snap) out)))))"

definition resident_service_metrics_snapshot ::
  "environ \<Rightarrow> spark_topology \<Rightarrow> status_input \<Rightarrow> (string \<Rightarrow> pydict option) \<Rightarrow> (string \<Rightarrow> pydict option) \<times> pydict result"
where
  "resident_service_metrics_snapshot env topo inp seen =
     (if \<not> trim_env_bool env ''DS4_API_SERVICE_METRICS_STATUS'' True then (seen, Inr [])
      else case trim_env_float env ''DS4_API_SERVICE_METRICS_TIMEOUT_S'' (3 / 4) of
             Inl e \<Rightarrow> (seen, Inl e)
           | Inr _ \<Rightarrow> foldl (service_metrics_snapshot env inp) (seen, Inr []) (active_services env topo))"

definition queue_view :: "rat \<Rightarrow> queue_db \<Rightarrow> pydict" where
  "queue_view now db =
     (let st = (case status now None None None False db of Inr (_, d) \<Rightarrow> d | Inl _ \<Rightarrow> []); counts = service_state_counts db
      in [(''queue_state_counts'', dget st ''state_counts''), (''queue_state_counts_by_service'', dget counts ''state_counts_by_service''),
          (''queue_unfinished_by_service'', dget counts ''unfinished_by_service''),
          (''queue_running_by_service'', dget counts ''running_by_service''), (''queue_status_newest_event_id'', dget st ''newest_event_id'')])"

definition dispatcher_status :: "dispatch_config \<Rightarrow> status_input \<Rightarrow> api_store \<Rightarrow> api_store \<times> pydict result" where
  "dispatcher_status cfg inp st =
     (let env = dc_env cfg;
          state = dupdate (dset ''resource_governor'' (JObj (st_governor inp)) (st_state inp)) (queue_view (st_now inp) (at_queue st))
      in case status_add_resident_defaults cfg state of
           Inl e \<Rightarrow> (st, Inl e)
         | Inr state1 \<Rightarrow>
             (case resident_service_metrics_snapshot env (dc_topology cfg) inp (at_metrics st) of
                (seen, measured) \<Rightarrow>
                  (st\<lparr>at_metrics := seen\<rparr>, bindE measured (\<lambda>metrics.
                     Inr (dset ''jit_kv_startup_recovery'' (JObj (st_recovery inp))
                       (dupdate
                         (dset ''prestage_auto_kv_prefix_enabled'' (JBool (trim_env_bool env ''DS4_PIPELINE_PRESTAGE_AUTO_KV_PREFIX'' False))
                         (dset ''resident_prefer_cohort_batch'' (JBool (st_prefer_batch inp))
                         (dset ''resident_service_metrics'' (JObj metrics) state1)))
                         (st_circuit inp)))))))"

section \<open>GET\<close>

definition health :: "dispatch_config \<Rightarrow> pydict \<Rightarrow> pydict" where
  "health cfg dispatcher =
     [(''ok'', JBool True), (''service'', JStr ''ds4-coordinator-api''),
      (''entry_node_id'', dget_or (tp_routing_policy (dc_topology cfg)) ''queue_entry_node_id'' (JStr ''spark0'')), (''dispatcher'', JObj dispatcher)]"

definition get_readiness :: "dispatch_config \<Rightarrow> answer result" where
  "get_readiness cfg =
     bindE (deployment_readiness (dc_env cfg) (dc_topology cfg)
              \<lparr>dz_window = dc_window cfg, dz_refill_batch = dc_refill_batch cfg, dz_cohort_workers = dc_cohort_workers cfg,
               dz_multimodel = dc_multimodel cfg\<rparr>)
       (\<lambda>payload. Inr (if truthy (dget payload ''ready'') then 200 else 503, payload))"

definition get_queue_status :: "api_context \<Rightarrow> rat \<Rightarrow> query \<Rightarrow> queue_db \<Rightarrow> (queue_db \<times> pydict) result" where
  "get_queue_status api now q db =
     bindE (status now (one_value q ''request_id'') (one_value q ''batch_id'') (one_value q ''job_id'') (query_bool q ''refresh'' False) db)
       (\<lambda>(db1, st). Inr (db1, queue_status_for_topology (ac_env api) st (ac_topology api)))"

definition sql_limit :: "int \<Rightarrow> 'a list \<Rightarrow> nat" where
  \<comment> \<open>\<^verbatim>\<open>limit ?\<close>: a negative limit is none\<close>
  "sql_limit lmt rows = (if lmt < 0 then length rows else nat lmt)"

definition get_poll :: "query \<Rightarrow> queue_db \<Rightarrow> pydict result" where
  "get_poll q db =
     bindE (query_int q ''after_event_id'' 0) (\<lambda>after.
     bindE (query_int q ''limit'' 100) (\<lambda>lmt. Inr (poll after (sql_limit lmt (events db)) db)))"

definition get_pipelines :: "spark_topology \<Rightarrow> query \<Rightarrow> queue_db \<Rightarrow> pydict" where
  "get_pipelines topo q db =
     [(''format'', JStr ''ds4-pipeline-api-status-v1''), (''topology'', JObj (topology_public_dict topo)),
      (''queue'', JObj (pipeline_status (one_value q ''service_id'') db))]"

definition query_namespace :: "query \<Rightarrow> string option" where
  "query_namespace q = (case one_value q ''namespace'' of Some v \<Rightarrow> Some (if v = '''' then ''default'' else v) | None \<Rightarrow> Some ''default'')"

definition get_kv_list :: "rat \<Rightarrow> query \<Rightarrow> kv_mem \<Rightarrow> pydict result" where
  "get_kv_list now q m =
     (let shards = (case one_value q ''include_shards'' of None \<Rightarrow> False | Some v \<Rightarrow> lower v \<in> {''1'', ''true'', ''yes''})
      in bindE (query_int q ''limit'' 100) (\<lambda>lmt.
           Inr (external_kv_list now m (query_namespace q) (one_value q ''service_id'') (one_value q ''owner'') (one_value q ''state'')
                  (one_value q ''prefix'') shards lmt)))"

definition handle_get :: "coordinator \<Rightarrow> status_input \<Rightarrow> string \<Rightarrow> query \<Rightarrow> api_store \<Rightarrow> api_store \<times> answer result" where
  "handle_get cn inp path q st =
     (let api = cn_api cn; cfg = cn_dispatch cn; now = st_now inp; db = at_queue st;
          status_answer = (\<lambda>f. case dispatcher_status cfg inp st of (st', r) \<Rightarrow> (st', bindE r (\<lambda>d. Inr (200, f d))))
      in if path \<in> {''/health'', ''/ds4/health''} then status_answer (health cfg)
         else if path = ''/v1/models'' then reads 200 (openai_models (ac_env api) (ac_registry api) (ac_topology api)) st
         else if path = ''/ds4/dispatcher/status'' then status_answer (\<lambda>d. d)
         else if path \<in> {''/ds4/deployment/readiness'', ''/ds4/deploy/readiness''} then (st, get_readiness cfg)
         else if path = ''/ds4/queue/status'' then on_queue 200 (get_queue_status api now q) st
         else if path = ''/ds4/queue/usage'' then reads 200 (bindE (query_float q ''window_s'' 300) (\<lambda>w. Inr (usage w now 10000 db))) st
         else if path = ''/ds4/queue/poll'' then reads 200 (get_poll q db) st
         else if path = ''/ds4/queue/collect'' then
           reads 200 (collect (one_value q ''request_id'') (one_value q ''batch_id'') (one_value q ''job_id'') db) st
         else if path = ''/ds4/pipelines'' then reads 200 (Inr (get_pipelines (ac_topology api) q db)) st
         else case kv_operation path of
                Some op \<Rightarrow>
                  if op \<in> {''lookup'', ''resolve''} then
                    reads 200 (bindE (required_query q ''kv_key'') (\<lambda>key.
                      external_kv_lookup now (at_kv st) (query_namespace q) (Some key) (one_value q ''service_id''))) st
                  else if op = ''list'' then reads 200 (get_kv_list now q (at_kv st)) st
                  else (st, Inr (unknown_endpoint path))
              | None \<Rightarrow> (st, Inr (unknown_endpoint path)))"

definition do_get :: "coordinator \<Rightarrow> status_input \<Rightarrow> string \<Rightarrow> query \<Rightarrow> api_store \<Rightarrow> api_store \<times> http_response option" where
  \<comment> \<open>an exception leaves \<^verbatim>\<open>do_GET\<close> before anything is sent\<close>
  "do_get cn inp path q st =
     (case handle_get cn inp path q st of (st', Inr a) \<Rightarrow> (st', Some (answered a)) | (st', Inl e) \<Rightarrow> (st', None))"

section \<open>What a call leaves behind\<close>

text \<open>The paths of POST, and the inference end point behind a path.\<close>

definition path_end_point :: "string \<Rightarrow> end_point option" where
  "path_end_point path =
     (if path = ''/v1/chat/completions'' then Some (Chat_Completions False) else if path = ''/v1/completions'' then Some Completions
      else if path = ''/v1/messages'' then Some Messages else None)"

definition kv_operations :: "string list" where
  "kv_operations = [''declare'', ''lookup'', ''resolve'', ''list'', ''touch'', ''metadata'', ''lease'', ''release'', ''prefetch'', ''commit'',
     ''shard/commit'', ''shard/archive'', ''transition'', ''pin'', ''unpin'', ''evict'']"

definition post_path :: "string \<Rightarrow> bool" where
  "post_path path \<longleftrightarrow>
     path_end_point path \<noteq> None \<or>
     path \<in> {''/ds4/queue/submit'', ''/ds4/queue/work'', ''/ds4/queue/cancel'', ''/ds4/pipeline/telemetry''} \<or>
     (case kv_operation path of None \<Rightarrow> False | Some op \<Rightarrow> op \<in> set kv_operations)"

text \<open>The requests of a body are in the queue, and nothing else has changed.\<close>

definition requests_submitted :: "api_context \<Rightarrow> call_input \<Rightarrow> end_point \<Rightarrow> pydict \<Rightarrow> api_store \<Rightarrow> api_submission \<Rightarrow> api_store \<Rightarrow> bool" where
  "requests_submitted api inp e body st s st' \<longleftrightarrow>
     submission_of e api (ci_uuid inp) body = Inr s \<and>
     (\<exists>db submitted. submit_call api inp body s (at_queue st) = Inr (db, submitted) \<and> st' = st\<lparr>at_queue := db\<rparr>)"

text \<open>A turn in which the batch is over and what is collected has been completed.\<close>

definition completed_turn :: "end_point \<Rightarrow> api_submission \<Rightarrow> wait_turn \<Rightarrow> bool" where
  "completed_turn e s t \<longleftrightarrow>
     (\<exists>state. state \<in> set api_terminal_states \<and> batch_state (as_batch_id s) t = Inr state) \<and>
     (if e = Completions \<and> length (as_requests s) \<noteq> 1
      then (\<exists>res. collect None (Some (as_batch_id s)) None (wt_collect t) = Inr res \<and>
                  list_all (\<lambda>row. snd (result_text_and_status row) = ''completed'') (result_rows res))
      else (\<exists>res. collect (Some (if e = Completions then ir_request_id (hd (as_requests s)) else as_request_id s)) None None (wt_collect t) = Inr res \<and>
                  snd (result_text_and_status res) = ''completed''))"

lemma wait_until_over_result:
  assumes "wait_until_over bid failed collecting ts = Inr res"
  shows "(\<exists>why. res = failed why) \<or>
     (\<exists>t state. t \<in> set ts \<and> state \<in> set api_terminal_states \<and> batch_state bid t = Inr state \<and> collecting (wt_collect t) = Inr res)"
  using assms
proof (induction ts)
  case (Cons t ts)
  then obtain state where st: "batch_state bid t = Inr state" by (cases "batch_state bid t") auto
  show ?case
  proof (cases "state \<in> set api_terminal_states")
    case True
    with Cons.prems st show ?thesis by auto
  next
    case False
    with Cons.prems st have "(\<exists>why. res = failed why) \<or> wait_until_over bid failed collecting ts = Inr res"
      by (auto split: dispatcher_view.splits option.splits)
    with Cons.IH show ?thesis by (metis list.set_intros(2))
  qed
qed auto

lemma failed_wait_error: "openai_result_error (failed_wait rid why) \<noteq> None"
  by (simp add: openai_result_error_def result_text_and_status_def result_status_def result_body_def failed_wait_def Let_def
      dget_def dget_or_def por_def)

lemma failed_batch_wait_error: "openai_batch_error (failed_batch_wait bid why) \<noteq> None"
  by (simp add: openai_batch_error_def result_rows_def failed_rows_def failed_batch_wait_def Let_def dget_def dget_or_def str_or_def por_def)

lemma one_answer_code:
  assumes "one_answer response sync inp body rid s = Inr (code, d)"
  shows "code \<in> {200, 502} \<and>
     (code = 200 \<longrightarrow> (\<exists>t state res. t \<in> set (ci_turns inp) \<and> state \<in> set api_terminal_states \<and> batch_state (as_batch_id s) t = Inr state \<and>
        collect (Some rid) None None (wt_collect t) = Inr res \<and> snd (result_text_and_status res) = ''completed''))"
proof -
  obtain res where res: "run_until_collected (as_batch_id s) rid (ci_turns inp) = Inr res"
    and a: "error_or (openai_result_error res) (response rid (model_of_body body s) res) = Inr (code, d)"
    using assms by (auto simp: one_answer_def bindE_eq_Inr)
  show ?thesis
  proof (cases "openai_result_error res")
    case None
    then have "snd (result_text_and_status res) = ''completed''"
      by (auto simp: openai_result_error_def Let_def split: prod.splits if_splits)
    moreover have "res \<noteq> failed_wait rid why" for why using None failed_wait_error by metis
    then obtain t state where "t \<in> set (ci_turns inp)" "state \<in> set api_terminal_states" "batch_state (as_batch_id s) t = Inr state"
      "collect (Some rid) None None (wt_collect t) = Inr res"
      using wait_until_over_result [OF res [unfolded run_until_collected_def]] by metis
    ultimately show ?thesis using a None by (auto simp: error_or_def bindE_eq_Inr)
  qed (use a in \<open>simp add: error_or_def\<close>)
qed

lemma failed_rows_none:
  assumes "failed_rows rows = []"
  shows "list_all (\<lambda>row. snd (result_text_and_status row) = ''completed'') rows"
proof -
  have "concat (map (\<lambda>(i, row). let (answer, st) = result_text_and_status row in if st \<noteq> ''completed'' then [f i answer st] else [])
      (List.enumerate n rows)) = [] \<Longrightarrow> list_all (\<lambda>row. snd (result_text_and_status row) = ''completed'') rows"
    for n and f :: "nat \<Rightarrow> string \<Rightarrow> string \<Rightarrow> json"
    by (induction rows arbitrary: n) (simp_all add: Let_def case_prod_beta split: if_splits)
  from this [of "\<lambda>i answer st. JObj [(''index'', JInt (int i)), (''status'', JStr st), (''message'', JStr (error_message answer st))]" 0]
  show ?thesis using assms by (simp only: failed_rows_def)
qed

lemma submitted_answer_outcome:
  assumes "submitted_answer api inp body made respond st = (st', out)"
  shows "(st' = st \<and> (\<exists>err. out = Inl err)) \<or>
     (\<exists>s db submitted. made = Inr s \<and> submit_call api inp body s (at_queue st) = Inr (db, submitted) \<and>
        st' = st\<lparr>at_queue := db\<rparr> \<and> out = respond s submitted)"
  using assms by (auto simp: submitted_answer_def bindE_eq_Inr split: sum.splits prod.splits)

definition call_outcome_ok :: "end_point \<Rightarrow> call_input \<Rightarrow> pydict \<Rightarrow> api_submission \<Rightarrow> answer result \<Rightarrow> bool" where
  \<comment> \<open>what may be answered once the requests are in the queue\<close>
  "call_outcome_ok e inp body s out \<longleftrightarrow>
     (case out of
        Inl _ \<Rightarrow> \<not> is_async_request body
      | Inr (code, _) \<Rightarrow>
          if is_async_request body then code = 202
          else if code = 200 then \<exists>t. t \<in> set (ci_turns inp) \<and> completed_turn e s t
          else code = 502 \<or> (code = 400 \<and> e = Completions \<and> truthy (dget body ''stream'')))"

lemma one_answer_ok:
  assumes "\<not> is_async_request body" and "out = one_answer response sync inp body rid s"
    and "rid = (if e = Completions then ir_request_id (hd (as_requests s)) else as_request_id s)"
    and "e = Completions \<longrightarrow> length (as_requests s) = 1"
  shows "call_outcome_ok e inp body s out"
proof (cases out)
  case (Inr a)
  then show ?thesis
    using one_answer_code [of response sync inp body rid s "fst a" "snd a"] assms
    by (cases a) (auto simp: call_outcome_ok_def completed_turn_def)
qed (use assms in \<open>simp add: call_outcome_ok_def\<close>)

lemma completion_answer_ok: "call_outcome_ok Completions inp body s (completion_answer sync inp body s submitted)"
proof (cases "is_async_request body \<or> truthy (dget body ''stream'')")
  case True
  then show ?thesis by (auto simp: completion_answer_def call_outcome_ok_def)
next
  case False
  let ?out = "completion_answer sync inp body s submitted"
  show ?thesis
  proof (cases "\<exists>r. as_requests s = [r]")
    case True
    then obtain r where "as_requests s = [r]" by blast
    with False show ?thesis
      by (intro one_answer_ok [where rid = "ir_request_id r" and response = "openai_completion_response (ci_created inp)" and sync = sync])
        (simp_all add: completion_answer_def)
  next
    case several: False
    then have n: "length (as_requests s) \<noteq> 1" by (auto simp: length_Suc_conv)
    show ?thesis
    proof (cases ?out)
      case (Inr a)
      then obtain res where res: "run_batch_until_collected (as_batch_id s) (ci_turns inp) = Inr res"
        and a: "error_or (openai_batch_error res)
                  (openai_completion_batch_response (ci_created inp) (as_request_id s) (model_of_body body s) res) = Inr a"
        using False several by (auto simp: completion_answer_def bindE_eq_Inr split: list.splits)
      show ?thesis
      proof (cases "openai_batch_error res")
        case None
        then have "failed_rows (result_rows res) = []" by (auto simp: openai_batch_error_def Let_def split: if_splits)
        note done_rows = failed_rows_none [OF this]
        have "res \<noteq> failed_batch_wait (as_batch_id s) why" for why using None failed_batch_wait_error by metis
        then obtain t state where "t \<in> set (ci_turns inp)" "state \<in> set api_terminal_states" "batch_state (as_batch_id s) t = Inr state"
          "collect None (Some (as_batch_id s)) None (wt_collect t) = Inr res"
          using wait_until_over_result [OF res [unfolded run_batch_until_collected_def]] by metis
        then show ?thesis using Inr a False n done_rows None
          by (cases a) (auto simp: call_outcome_ok_def completed_turn_def error_or_def bindE_eq_Inr)
      qed (use Inr a False in \<open>auto simp: call_outcome_ok_def error_or_def\<close>)
    qed (use False in \<open>simp add: call_outcome_ok_def\<close>)
  qed
qed

lemma inference_call:
  assumes "path_end_point path = Some e" and "handle_post cn inp path body st = (st', out)"
  shows "(st' = st \<and> (case out of Inl _ \<Rightarrow> True | Inr (code, _) \<Rightarrow> code = 400 \<and> e = Messages)) \<or>
     (\<exists>s. requests_submitted (cn_api cn) (call_input.truncate inp) e body st s st' \<and>
          call_outcome_ok e (call_input.truncate inp) body s out)"
proof -
  let ?call = "call_input.truncate inp" and ?api = "cn_api cn"
  have answered: ?thesis
    if e: "submitted_answer ?api ?call body (submission_of e ?api (ci_uuid ?call) body) respond st = (st', out)"
      and ok: "\<And>s submitted. call_outcome_ok e ?call body s (respond s submitted)" for respond
    using submitted_answer_outcome [OF e] ok by (auto simp: requests_submitted_def)
  have one: "call_outcome_ok e ?call body s (if is_async_request body then Inr (202, async s submitted)
      else one_answer response sync ?call body (as_request_id s) s)" if "e \<noteq> Completions" for e response sync s submitted async
    using that one_answer_ok [OF _ refl, of body "as_request_id s" e s]
    by (cases "is_async_request body") (auto simp: call_outcome_ok_def)
  consider (chat) "path = ''/v1/chat/completions''" "e = Chat_Completions False" | (completion) "path = ''/v1/completions''" "e = Completions"
    | (messages) "path = ''/v1/messages''" "e = Messages"
    using assms(1) by (auto simp: path_end_point_def split: if_splits)
  then show ?thesis
  proof cases
    case chat
    then have "handle_openai_chat ?api (cn_sync_timeout_s cn) ?call body st = (st', out)"
      using assms(2) by (simp add: handle_post_def Let_def)
    then show ?thesis
      unfolding handle_openai_chat_def using chat by (intro answered [OF _ one]) (simp_all add: submission_of_def)
  next
    case completion
    then have "handle_openai_completion ?api (cn_sync_timeout_s cn) ?call body st = (st', out)"
      using assms(2) by (simp add: handle_post_def Let_def)
    then show ?thesis
      unfolding handle_openai_completion_def using completion
      by (intro answered [where respond = "completion_answer (cn_sync_timeout_s cn) ?call body"])
        (simp_all add: submission_of_def completion_answer_ok)
  next
    case messages
    then have h: "handle_anthropic_messages ?api (cn_sync_timeout_s cn) ?call body st = (st', out)"
      using assms(2) by (simp add: handle_post_def Let_def)
    show ?thesis
    proof (cases "truthy (dget body ''stream'')")
      case False
      with h show ?thesis
        unfolding handle_anthropic_messages_def using messages by (intro answered [OF _ one]) (simp_all add: submission_of_def)
    qed (use h messages in \<open>auto simp: handle_anthropic_messages_def\<close>)
  qed
qed

lemma quiet_answers [simp]:
  "fst (reads code r st) = st"
  by (simp add: reads_def)

lemma reads_cases: "reads code r st = (st', out) \<Longrightarrow> st' = st \<and> (\<exists>err. out = Inl err) \<or> (\<exists>d. out = Inr (code, d)) \<and> st' = st"
  by (cases r) (auto simp: reads_def)

lemma on_kv_cases: "on_kv code run st = (st', out) \<Longrightarrow> st' = st \<and> (\<exists>err. out = Inl err) \<or> (\<exists>d. out = Inr (code, d))"
  by (auto simp: on_kv_def split: sum.splits prod.splits)

lemma on_queue_cases: "on_queue code run st = (st', out) \<Longrightarrow> st' = st \<and> (\<exists>err. out = Inl err) \<or> (\<exists>d. out = Inr (code, d))"
  by (auto simp: on_queue_def split: sum.splits prod.splits)

definition quiet_outcome :: "bool \<Rightarrow> api_store \<Rightarrow> api_store \<Rightarrow> answer result \<Rightarrow> bool" where
  \<comment> \<open>a call that is refused leaves the store; it is answered 404 when its path is not known\<close>
  "quiet_outcome known st st' out \<longleftrightarrow>
     (case out of Inl _ \<Rightarrow> st' = st \<and> known
      | Inr (code, _) \<Rightarrow> if known then code \<in> {200, 202} \<or> (code = 400 \<and> st' = st) else code = 404 \<and> st' = st)"

lemma post_kv_quiet:
  assumes "post_kv api inp path op body st = (st', out)"
  shows "quiet_outcome (op \<in> set kv_operations) st st' out"
proof -
  have "quiet_outcome True st st' out" if "op \<in> set kv_operations"
    using that assms
    by (auto simp: post_kv_def Let_def kv_operations_def quiet_outcome_def dest!: on_kv_cases reads_cases split: sum.splits prod.splits)
  moreover have "quiet_outcome False st st' out" if "op \<notin> set kv_operations"
    using that assms by (auto simp: post_kv_def Let_def kv_operations_def quiet_outcome_def unknown_endpoint_def)
  ultimately show ?thesis by (cases "op \<in> set kv_operations") simp_all
qed

lemma post_quiet:
  assumes "handle_post cn inp path body st = (st', out)" and "path_end_point path = None"
    and "path \<notin> {''/ds4/queue/work'', ''/ds4/pipeline/telemetry''}"
  shows "quiet_outcome (post_path path) st st' out"
proof -
  have p: "path \<noteq> ''/v1/chat/completions''" "path \<noteq> ''/v1/completions''" "path \<noteq> ''/v1/messages''"
    using assms(2) by (auto simp: path_end_point_def split: if_splits)
  have op: "kv_operation ''/ds4/queue/submit'' = None" "kv_operation ''/ds4/queue/cancel'' = None"
    by (simp_all add: kv_operation_def)
  consider (submit) "path = ''/ds4/queue/submit''" | (cancel) "path = ''/ds4/queue/cancel''"
    | (other) "path \<notin> {''/ds4/queue/submit'', ''/ds4/queue/cancel''}" by blast
  then show ?thesis
  proof cases
    case submit
    then have "queue_submit (cn_api cn) (call_input.truncate inp) body st = (st', out)"
      using assms(1) by (simp add: handle_post_def Let_def)
    then show ?thesis
      using submit by (auto simp: queue_submit_def post_path_def quiet_outcome_def dest!: on_queue_cases split: json.splits)
  next
    case cancel
    then have "on_queue 200 (queue_cancel (ci_now inp) body) st = (st', out)"
      using assms(1) by (simp add: handle_post_def Let_def)
    then show ?thesis
      using cancel by (auto simp: post_path_def quiet_outcome_def dest!: on_queue_cases)
  next
    case other
    then have known: "post_path path = (case kv_operation path of None \<Rightarrow> False | Some op \<Rightarrow> op \<in> set kv_operations)"
      using assms(2,3) by (simp add: post_path_def)
    have "handle_post cn inp path body st =
        (case kv_operation path of Some op \<Rightarrow> post_kv (cn_api cn) inp path op body st | None \<Rightarrow> (st, Inr (unknown_endpoint path)))"
      using other p assms(3) by (simp add: handle_post_def Let_def split: option.split)
    then show ?thesis
      using assms(1) known post_kv_quiet
      by (cases "kv_operation path") (auto simp: quiet_outcome_def unknown_endpoint_def)
  qed
qed

lemma truncate_twice [simp]: "call_input.truncate (endpoint_input.truncate inp) = call_input.truncate inp"
  by (simp add: call_input.truncate_def endpoint_input.truncate_def)

lemma truncate_fields [simp]: "ci_now (call_input.truncate inp) = ci_now inp" "ci_uuid (call_input.truncate inp) = ci_uuid inp"
  "ci_turns (call_input.truncate inp) = ci_turns inp"
  by (simp_all add: call_input.truncate_def)

text \<open>The end point whose requests a body with \<^verbatim>\<open>stream\<close> makes.\<close>

definition serves :: "string \<Rightarrow> end_point \<Rightarrow> bool" where
  "serves path e \<longleftrightarrow> path_end_point path = Some e \<or> (path = ''/v1/chat/completions'' \<and> e = Chat_Completions True)"

lemma start_stream_store:
  assumes "start_stream e api sync (ci_uuid inp) (ci_now inp) body (at_queue st) = (db, r)"
  shows "st\<lparr>at_queue := db\<rparr> = st \<or> (\<exists>s. requests_submitted api inp e body st s (st\<lparr>at_queue := db\<rparr>))"
proof (cases "db = at_queue st")
  case False
  then obtain s priority submitted where s: "streamed_submission e api (ci_uuid inp) body = Inr s"
    and "optional_int (dget body ''priority'') = Inr priority"
    and "submit_requests (ci_now inp) (ci_uuid inp) (ac_registry api) (Some (ac_topology api)) (as_requests s) (Some (as_batch_id s)) priority
           (at_queue st) = Inr (db, submitted)"
    using assms by (auto simp: start_stream_def bindE_eq_Inr split: sum.splits prod.splits)
  moreover have "submission_of e api (ci_uuid inp) body = Inr s"
    using s by (cases e) (auto simp: streamed_submission_def Let_def bindE_eq_Inr split: if_splits)
  ultimately show ?thesis by (auto simp: requests_submitted_def submit_call_def)
qed simp

lemma streaming_start_serves:
  assumes "streaming_start cn inp path body = Some start"
  shows "\<exists>e. serves path e \<and> post_path path \<and> start = start_stream e (cn_api cn) (cn_sync_timeout_s cn) (ci_uuid inp) (ci_now inp) body"
  using assms
  by (auto simp: streaming_start_def serves_def path_end_point_def post_path_def openai_completion_stream_events_def
      openai_chat_stream_events_def split: if_splits)

section \<open>Refusals\<close>

lemma do_post_cases:
  assumes "do_post cn inp path n data st = (st', Answered code d)"
  obtains (unread) e where "read_json n data = Inl e" "st' = st" "code = 400"
  | (stream) body e s where "read_json n data = Inr body" "serves path e" "post_path path" "code = 400"
      "st' = st \<or> requests_submitted (cn_api cn) (call_input.truncate inp) e body st s st'"
  | (handled) body out where "read_json n data = Inr body" "handle_post cn (endpoint_input.truncate inp) path body st = (st', out)"
      "case out of Inl _ \<Rightarrow> code = 400 | Inr (c, p) \<Rightarrow> code = c"
proof (cases "read_json n data")
  case (Inl e)
  with assms unread show ?thesis by (simp add: do_post_def answered_def refused_def)
next
  case body: (Inr body)
  show ?thesis
  proof (cases "streaming_start cn inp path body")
    case None
    obtain st1 out where h: "handle_post cn (endpoint_input.truncate inp) path body st = (st1, out)" by fastforce
    with assms body None have "st1 = st'" "case out of Inl _ \<Rightarrow> code = 400 | Inr (c, p) \<Rightarrow> code = c"
      by (auto simp: do_post_def answered_def refused_def split: sum.splits)
    with h handled [OF body] show ?thesis by simp
  next
    case (Some start)
    obtain db r where start: "start (at_queue st) = (db, r)" by fastforce
    obtain e where e: "serves path e" "post_path path"
      "start_stream e (cn_api cn) (cn_sync_timeout_s cn) (ci_uuid (call_input.truncate inp)) (ci_now (call_input.truncate inp)) body (at_queue st) = (db, r)"
      using streaming_start_serves [OF Some] start by auto
    have "st' = st\<lparr>at_queue := db\<rparr>" "code = 400"
      using assms body Some start
      by (auto simp: do_post_def stream_response_def answered_def refused_def Let_def split: sum.splits prod.splits)
    then show ?thesis using stream [OF body e(1,2)] start_stream_store [OF e(3)] by metis
  qed
qed


text \<open>
  C19. An inference call that is answered 200 has a completed result: the requests of its body are in the queue, the call is not
  asynchronous, and in one of the turns of its wait the batch was in a terminal state and what was collected (the
  one request, or every request of a body with several prompts) has the status \<^verbatim>\<open>completed\<close>; a wait that timed
  out or found the dispatcher gone never is answered 200.
\<close>

theorem answered_ok_is_completed:
  assumes "do_post cn inp path n data st = (st', Answered 200 d)" and "path_end_point path = Some e"
  shows "\<exists>body s t. read_json n data = Inr body \<and> \<not> is_async_request body \<and>
     requests_submitted (cn_api cn) (call_input.truncate inp) e body st s st' \<and> t \<in> set (ci_turns inp) \<and> completed_turn e s t"
  using assms(1)
proof (cases rule: do_post_cases)
  case (handled body out)
  then obtain p where out: "out = Inr (200, p)"
    by (cases out) auto
  from inference_call [OF assms(2) handled(2)] out
  obtain s where s: "requests_submitted (cn_api cn) (call_input.truncate inp) e body st s st'"
    and "call_outcome_ok e (call_input.truncate inp) body s out" by auto
  with out have "\<not> is_async_request body \<and> (\<exists>t. t \<in> set (ci_turns inp) \<and> completed_turn e s t)"
    by (auto simp: call_outcome_ok_def split: if_splits)
  with s handled(1) show ?thesis by blast
qed auto

section \<open>Concrete calls\<close>

definition served_profile :: model_profile where
  "served_profile = window_profile\<lparr>mp_supports_completion := True\<rparr>"

definition served_api :: api_context where
  "served_api = window_api\<lparr>ac_registry := \<lparr>pr_profiles = [served_profile], pr_by_alias = [], pr_ambiguous = []\<rparr>\<rparr>"

definition demo_coordinator :: coordinator where
  "demo_coordinator = \<lparr>cn_api = served_api, cn_dispatch = waiting_config, cn_sync_timeout_s = 60\<rparr>"

definition demo_kv :: kv_mem where
  "demo_kv = \<lparr>kv_objects = [], kv_shard_rows = [], kv_leases = []\<rparr>"

definition demo_store :: api_store where
  "demo_store = \<lparr>at_queue = empty_db, at_kv = demo_kv, at_metrics = Map.empty\<rparr>"

definition finished_row :: request_row where
  "finished_row = (Queue_Submit.cpu_row 1 ''r'' ''s'' 0 False None ''r'' [])
     \<lparr>rq_state := Completed, rq_result := Some (JObj [(''status'', JStr ''completed''), (''output'', JObj [(''text'', JStr ''hi'')])])\<rparr>"

definition finished_turn :: wait_turn where
  "finished_turn = \<lparr>wt_now = 2, wt_status = empty_db\<lparr>batches := [(new_batch 1 ''r'')\<lparr>bt_state := ''completed''\<rparr>]\<rparr>,
     wt_collect = empty_db\<lparr>requests := [finished_row]\<rparr>, wt_view = Dispatcher_Runs\<rparr>"

definition demo_input :: stream_input where
  "demo_input = \<lparr>ci_now = 1, ci_created = 1, ci_uuid = ''u'', ci_turns = [finished_turn], ei_uuids = (\<lambda>_. ''a''), ei_claim_uuids = (\<lambda>_. ''b''),
     ei_run = \<lparr>wr_many = False, wr_incremental = False, wr_now = 1, wr_queue = empty_db, wr_cpu = Inr [], wr_batch = Inr [],
       wr_loop = Inr ((0, 0, 0), 0, 0)\<rparr>, si_stream = (\<lambda>_. ([], None))\<rparr>"

definition pin_data :: string where
  "pin_data = dumps_sorted (JObj [(''kv_key'', JStr ''k''), (''service_id'', JStr ''s'')])"

lemma pin_refused:
  "snd (do_post demo_coordinator demo_input ''/ds4/kvcache/pin'' 9 pin_data demo_store) =
     Answered 400 (error_payload ''external KV object is missing'')"
  "\<not> isl (read_json 9 pin_data)"
  by code_simp+


definition window_data :: string where
  "window_data = ''{\"model\": \"p\", \"prompt\": \"hello\", \"max_tokens\": 9000, \"request_id\": \"r\"}''"

lemma window_data_read: "read_json 9 window_data = Inr window_body"
  by code_simp

lemma window_submission_served:
  "case submission_of Completions served_api ''u'' window_body of
     Inl _ \<Rightarrow> False
   | Inr s \<Rightarrow> as_batch_id s = ''r'' \<and>
       (case as_requests s of
          [r] \<Rightarrow> ir_request_id r = ''r'' \<and> ensure_cache_refs_resolved (ir_input r) = Inr () \<and>
            resolve_profile (ac_registry served_api) (ir_capability r) (ir_chat r) (ir_job_class r) (ir_model_pin r) = Inr served_profile \<and>
            ir_immediate r = False \<and> snd (kv_need r) = 0 \<and> \<not> isl (request_priority r None)
        | _ \<Rightarrow> False)"
  by code_simp

lemma window_body_read:
  "dget window_body ''stream'' = JNull" "\<not> is_async_request window_body" "optional_int (dget window_body ''priority'') = Inr None"
  "call_timeout 60 window_body = Inr 60" "\<not> isl (choose_binding (Some (ac_topology served_api)) served_profile False [] 0)"
  by code_simp+

lemma finished_turn_state: "batch_state ''r'' finished_turn = Inr ''completed''"
  by (simp add: batch_state_def status_def job_batch_id_def finished_turn_def new_batch_def batch_status_def str_or_def por_def
      dget_def dget_or_def empty_db_def)

definition finished_result :: pydict where
  "finished_result = collected finished_row"

lemma finished_turn_collect: "collect (Some ''r'') None None (wt_collect finished_turn) = Inr finished_result"
  by (simp add: collect_def job_batch_id_def finished_turn_def finished_result_def finished_row_def Queue_Submit.cpu_row_def empty_db_def)

lemma finished_result_ok:
  "openai_result_error finished_result = None" "\<not> isl (openai_completion_response 1 ''r'' ''p'' finished_result)"
  by code_simp+

lemma submit_single:
  assumes "ensure_cache_refs_resolved (ir_input r) = Inr ()"
    and "resolve_profile reg (ir_capability r) (ir_chat r) (ir_job_class r) (ir_model_pin r) = Inr p"
    and "\<not> isl (request_priority r prio)" and "\<not> isl (choose_binding topo p (ir_immediate r) [] (snd (kv_need r)))"
  shows "\<not> isl (submit_requests now uuid reg topo [r] (Some ''r'') prio empty_db)"
proof -
  obtain n b where "request_priority r prio = Inr n" "choose_binding topo p (ir_immediate r) [] (snd (kv_need r)) = Inr b"
    using assms(3,4) by (metis isl_def sum.exhaust)
  with assms(1,2) show ?thesis
    by (simp add: submit_requests_def existing_submission_def sql_select_def empty_db_def insert_batch_def
        sql_insert_def submit_one_def insert_request_def Let_def)
qed

lemma window_call_answered:
  "\<exists>st' d. do_post demo_coordinator demo_input ''/v1/completions'' 9 window_data demo_store = (st', Answered 200 d)"
proof -
  obtain s r where s: "submission_of Completions served_api ''u'' window_body = Inr s" "as_requests s = [r]" "as_batch_id s = ''r''"
    and r: "ir_request_id r = ''r''" "ensure_cache_refs_resolved (ir_input r) = Inr ()"
      "resolve_profile (ac_registry served_api) (ir_capability r) (ir_chat r) (ir_job_class r) (ir_model_pin r) = Inr served_profile"
      "ir_immediate r = False" "snd (kv_need r) = 0" "\<not> isl (request_priority r None)"
    using window_submission_served by (auto split: sum.splits list.splits)
  have "\<not> isl (submit_requests 1 ''u'' (ac_registry served_api) (Some (ac_topology served_api)) [r] (Some ''r'') None empty_db)"
    using r window_body_read(5) by (intro submit_single) simp_all
  then obtain db sub where sub: "submit_requests 1 ''u'' (ac_registry served_api) (Some (ac_topology served_api)) [r] (Some ''r'') None empty_db = Inr (db, sub)"
    by (metis isl_def sum.exhaust prod.exhaust)
  have m: "model_of_body window_body s = ''p''" by (simp add: model_of_body_def window_body_def str_or_def dget_def dget_or_def por_def)
  obtain d where "openai_completion_response 1 ''r'' ''p'' finished_result = Inr d"
    using finished_result_ok(2) by (metis isl_def sum.exhaust)
  then have answer: "one_answer (openai_completion_response 1) 60 (call_input.truncate demo_input) window_body ''r'' s = Inr (200, d)"
    using m s(3) finished_result_ok(1) finished_turn_state finished_turn_collect window_body_read(4)
    by (simp add: one_answer_def run_until_collected_def demo_input_def api_terminal_states_def error_or_def)
  have fields: "ci_uuid demo_input = ''u''" "ci_now demo_input = 1" "ci_created (call_input.truncate demo_input) = 1"
    by (simp_all add: demo_input_def call_input.truncate_def)
  show ?thesis
    using answer fields s r(1) sub window_data_read window_body_read
    by (simp add: do_post_def streaming_start_def handle_post_def Let_def handle_openai_completion_def submitted_answer_def completion_answer_def
        submit_call_def submission_of_def demo_coordinator_def demo_store_def answered_def)
qed

theorem answered_ok_is_completed_witness:
  "\<exists>st' s. requests_submitted served_api (call_input.truncate demo_input) Completions window_body demo_store s st' \<and>
     completed_turn Completions s finished_turn"
proof -
  obtain st' d where p: "do_post demo_coordinator demo_input ''/v1/completions'' 9 window_data demo_store = (st', Answered 200 d)"
    using window_call_answered by blast
  have "path_end_point ''/v1/completions'' = Some Completions" by (simp add: path_end_point_def)
  from answered_ok_is_completed [OF p this] window_data_read show ?thesis
    by (auto simp: demo_coordinator_def demo_input_def)
qed

section \<open>What these end points do besides\<close>

text \<open>
  The timeout of a call is read after its requests were submitted: a chat with a timeout that is no number is refused,
  and runs.
\<close>

lemma bad_timeout_refused_after_submission:
  assumes "openai_chat_submission api (ci_uuid inp) False body = Inr s" and "submit_call api inp body s (at_queue st) = Inr (db, submitted)"
    and "\<not> is_async_request body" and "call_timeout sync_timeout_s body = Inl err"
  shows "handle_openai_chat api sync_timeout_s inp body st = (st\<lparr>at_queue := db\<rparr>, Inl err)"
  using assms by (simp add: handle_openai_chat_def submitted_answer_def one_answer_def)

text \<open>\<^verbatim>\<open>do_GET\<close> catches nothing: a lookup without its key gets no answer at all, where POST answers 400.\<close>

lemma get_without_key_unanswered:
  assumes "one_value q ''kv_key'' = None"
  shows "do_get cn inp ''/ds4/kvcache/lookup'' q st = (st, None)"
proof -
  have "kv_operation ''/ds4/kvcache/lookup'' = Some ''lookup''" by (simp add: kv_operation_def)
  then show ?thesis
    using assms by (simp add: do_get_def handle_get_def Let_def reads_def required_query_def)
qed

end
