(* ===== verification/Spec2Isabelle.thy ===== *)
theory Spec2Isabelle
  imports Kv_Contract Kv_Directive Json_Parse Profiles Pipelines Topology Queue_Resubmit
    Transfer_Plan Striped_Contract Waterfall_Run Agent_Loop Tool_Markup Governor_State Jit_Kv
    Dispatcher_Claims Coalesce Payloads Worker_Batch Worker_Refill Runner_Text Attachments
    Chat_Contract Chat_Claims Dsv4_Claims Node_Claims Api_Stream_Claims Api_Server
begin

text \<open>
  The DS4 inference service: a queue of inference requests in an SQLite database, workers that claim
  and run them on a cluster, and the profiles, topology, pipeline services and KV cache rules the queue
  is driven by (\<^verbatim>\<open>v2/src/ds4_infer\<close>).
\<close>

end
